(* ===== verification/Prelude.thy ===== *)
theory Prelude
  imports Complex_Main
begin

section \<open>Prelude: results, errors, shared automation\<close>

text \<open>
  The vocabulary every component uses: Python exceptions as values of \<open>py_error\<close>, the result
  of a fallible operation as \<open>py_error + 'a\<close> (\<open>Inl\<close> is the raised exception), sequencing by
  \<open>bindR\<close>, a guard that raises by \<open>raise_if\<close>, and the loop over a list that stops at the
  first exception by \<open>foldR\<close>. Code that threads an object it mutates through fallible calls is
  written with \<open>bindS\<close>: the state after the call is kept also when an exception is raised. The
  collection \<open>result_elims\<close> gathers the inversion rules of these combinators.
\<close>

named_theorems result_elims \<open>inversion of successful results\<close>

datatype py_error =
    ValueError string
  | TypeError string
  | KeyError string
  | IndexError string
  | RuntimeError string
  | NotImplementedError string
  | AssertionError string
  | ZeroDivisionError
  | OverflowError
  | InvalidOperation
  | DivisionByZero
  | RiskRejected string
  | MoneyManagementError string
  | LookupError string
  | StopIteration string

type_synonym 'a res = "py_error + 'a"

definition bindR :: "'e + 'a \<Rightarrow> ('a \<Rightarrow> 'e + 'b) \<Rightarrow> 'e + 'b" where
  "bindR m f = (case m of Inl e \<Rightarrow> Inl e | Inr x \<Rightarrow> f x)"

definition raise_if :: "bool \<Rightarrow> 'e \<Rightarrow> ('e + 'a) \<Rightarrow> 'e + 'a" where
  "raise_if c e k = (if c then Inl e else k)"

definition isOk :: "'e + 'a \<Rightarrow> bool" where
  "isOk r = (case r of Inl _ \<Rightarrow> False | Inr _ \<Rightarrow> True)"

fun foldR :: "('s \<Rightarrow> 'a \<Rightarrow> 'e + 's) \<Rightarrow> 's \<Rightarrow> 'a list \<Rightarrow> 'e + 's" where
  "foldR f s [] = Inr s"
| "foldR f s (x # xs) = bindR (f s x) (\<lambda>s'. foldR f s' xs)"

fun mapR :: "('a \<Rightarrow> 'e + 'b) \<Rightarrow> 'a list \<Rightarrow> 'e + 'b list" where
  "mapR f [] = Inr []"
| "mapR f (x # xs) = bindR (f x) (\<lambda>y. bindR (mapR f xs) (\<lambda>ys. Inr (y # ys)))"

lemma bindR_Inr [simp]: "bindR (Inr x) f = f x"
  by (simp add: bindR_def)

lemma bindR_Inl [simp]: "bindR (Inl e) f = Inl e"
  by (simp add: bindR_def)

lemma bindR_assoc: "bindR (bindR m f) g = bindR m (\<lambda>x. bindR (f x) g)"
  by (cases m) simp_all

lemma bindR_cong [fundef_cong]:
  assumes "m = m'" and "\<And>y. m' = Inr y \<Longrightarrow> f y = g y"
  shows "bindR m f = bindR m' g"
  using assms by (cases m') simp_all

lemma bindR_InrE [result_elims]:
  assumes "bindR m f = Inr y"
  obtains x where "m = Inr x" and "f x = Inr y"
  using assms by (cases m) auto

lemma bindR_eq_Inr: "bindR m f = Inr y \<longleftrightarrow> (\<exists>x. m = Inr x \<and> f x = Inr y)"
  by (cases m) auto

lemma raise_if_True [simp]: "raise_if True e k = Inl e"
  by (simp add: raise_if_def)

lemma raise_if_False [simp]: "raise_if False e k = k"
  by (simp add: raise_if_def)

lemma raise_if_eq_Inr [simp]: "raise_if c e k = Inr y \<longleftrightarrow> \<not> c \<and> k = Inr y"
  by (simp add: raise_if_def)

lemma raise_if_InrE [result_elims]:
  assumes "raise_if c e k = Inr y"
  obtains "\<not> c" and "k = Inr y"
  using assms by simp

lemma raise_if_cong [fundef_cong]:
  assumes "c = c'" and "e = e'" and "\<not> c' \<Longrightarrow> k = k'"
  shows "raise_if c e k = raise_if c' e' k'"
  using assms by (simp add: raise_if_def)

lemma isOk_simps [simp]: "isOk (Inr x) = True" "isOk (Inl e) = False"
  by (simp_all add: isOk_def)

lemma isOk_iff: "isOk r \<longleftrightarrow> (\<exists>x. r = Inr x)"
  by (cases r) simp_all

lemma mapR_length: "mapR f xs = Inr ys \<Longrightarrow> length ys = length xs"
  by (induction xs arbitrary: ys) (auto simp: bindR_eq_Inr)

lemma foldR_append: "foldR f s (xs @ ys) = bindR (foldR f s xs) (\<lambda>s'. foldR f s' ys)"
  by (induction xs arbitrary: s) (simp_all add: bindR_assoc)

text \<open>A loop keeps what each of its steps keeps.\<close>

lemma foldR_invariant:
  assumes "foldR f s xs = Inr t" and "P s"
    and "\<And>s x s'. P s \<Longrightarrow> x \<in> set xs \<Longrightarrow> f s x = Inr s' \<Longrightarrow> P s'"
  shows "P t"
  using assms
proof (induction xs arbitrary: s)
  case Nil
  then show ?case by simp
next
  case (Cons x xs)
  from Cons.prems(1) obtain s' where s': "f s x = Inr s'" and rest: "foldR f s' xs = Inr t"
    by (auto simp: bindR_eq_Inr)
  have "P s'" by (rule Cons.prems(3) [OF Cons.prems(2) _ s']) simp
  then show ?case by (rule Cons.IH [OF rest]) (rule Cons.prems(3), simp_all)
qed

text \<open>\<open>{**a, **b}\<close>: a key of both keeps its place in \<open>a\<close> and takes the value of \<open>b\<close>.\<close>

definition dict_merge :: "('k \<times> 'v) list \<Rightarrow> ('k \<times> 'v) list \<Rightarrow> ('k \<times> 'v) list" where
  "dict_merge a b =
     map (\<lambda>(k, v). (k, case map_of b k of None \<Rightarrow> v | Some w \<Rightarrow> w)) a @ filter (\<lambda>(k, _). map_of a k = None) b"

subsection \<open>State and exceptions\<close>

type_synonym ('s, 'a) st = "'s \<Rightarrow> 's \<times> 'a res"

definition bindS :: "('s, 'a) st \<Rightarrow> ('a \<Rightarrow> ('s, 'b) st) \<Rightarrow> ('s, 'b) st" where
  "bindS m f = (\<lambda>s. case m s of (s', Inl e) \<Rightarrow> (s', Inl e) | (s', Inr x) \<Rightarrow> f x s')"

definition liftS :: "'a res \<Rightarrow> ('s, 'a) st" where
  "liftS r = (\<lambda>s. (s, r))"

lemma bindS_eq:
  "bindS m f s = (t, r) \<longleftrightarrow>
    (\<exists>e. m s = (t, Inl e) \<and> r = Inl e) \<or> (\<exists>s' x. m s = (s', Inr x) \<and> f x s' = (t, r))"
  by (auto simp: bindS_def split: prod.splits sum.splits)

lemma bindS_Inr: "bindS m f s = (t, Inr y) \<longleftrightarrow> (\<exists>s' x. m s = (s', Inr x) \<and> f x s' = (t, Inr y))"
  by (auto simp: bindS_eq)

lemma bindS_InrE [result_elims]:
  assumes "bindS m f s = (t, Inr y)"
  obtains s' x where "m s = (s', Inr x)" and "f x s' = (t, Inr y)"
  using assms by (auto simp: bindS_Inr)

lemma liftS_apply [simp]: "liftS r s = (s, r)"
  by (simp add: liftS_def)

lemma bindS_lift [simp]: "bindS (liftS (Inr x)) f = f x" "bindS (liftS (Inl e)) f = liftS (Inl e)"
  by (simp_all add: fun_eq_iff bindS_def liftS_def)

end
