(* ===== verification/Rounding.thy ===== *)
theory Rounding
  imports Prelude
begin

section \<open>Rounding of rationals\<close>

text \<open>
  The arithmetic of \<open>decimal.Decimal\<close> and of \<open>float\<close> is exact arithmetic followed by a
  rounding. This theory has the roundings: to the nearest integer with ties to the even one
  (\<open>rhe\<close>), to a multiple of a quantum (\<open>grid\<close>, what \<open>Decimal.quantize\<close> does), and to a number
  of significant digits in a base (\<open>siground\<close>, what a Decimal context and binary64 do). The
  locale \<open>rounding\<close> states the laws that the clients of a rounding rely on.
\<close>

definition rhe :: "rat \<Rightarrow> int" where
  "rhe q = (let f = \<lfloor>q\<rfloor>; d = q - of_int f in
     if d < 1/2 then f else if 1/2 < d then f + 1 else if even f then f else f + 1)"

definition grid :: "rat \<Rightarrow> rat \<Rightarrow> rat" where
  "grid u q = of_int (rhe (q / u)) * u"

fun ilog :: "nat \<Rightarrow> nat \<Rightarrow> nat" where
  "ilog b n = (if n < b \<or> b < 2 then 0 else Suc (ilog b (n div b)))"

declare ilog.simps [simp del]

text \<open>The exponent of the leading digit of a positive rational in base \<open>b\<close>.\<close>

definition mag :: "nat \<Rightarrow> rat \<Rightarrow> int" where
  "mag b q = (if 1 \<le> q then int (ilog b (nat \<lfloor>q\<rfloor>))
     else - int (Suc (ilog b (nat (\<lceil>1 / q\<rceil> - 1)))))"

definition siground :: "nat \<Rightarrow> nat \<Rightarrow> rat \<Rightarrow> rat" where
  "siground b p q =
     (if q = 0 then 0 else grid (of_nat b powi (mag b \<bar>q\<bar> - int p + 1)) q)"

subsection \<open>Ties to even\<close>

lemma rhe_of_int [simp]: "rhe (of_int n) = n"
  by (simp add: rhe_def)

lemma rhe_0 [simp]: "rhe 0 = 0"
  using rhe_of_int [of 0] by simp

lemma rhe_error: "\<bar>of_int (rhe q) - q\<bar> \<le> 1/2"
proof -
  define f where "f = \<lfloor>q\<rfloor>"
  have "of_int f \<le> q" and "q < of_int f + 1" unfolding f_def by linarith+
  then show ?thesis unfolding rhe_def Let_def f_def [symmetric] by (auto simp: abs_le_iff)
qed

lemma rhe_floor: "rhe q = \<lfloor>q\<rfloor> \<or> rhe q = \<lfloor>q\<rfloor> + 1"
  by (auto simp: rhe_def Let_def)

lemma rhe_mono:
  assumes "x \<le> y"
  shows "rhe x \<le> rhe y"
proof (cases "\<lfloor>x\<rfloor> = \<lfloor>y\<rfloor>")
  case True
  then show ?thesis using assms by (auto simp: rhe_def Let_def)
next
  case False
  with assms have "\<lfloor>x\<rfloor> + 1 \<le> \<lfloor>y\<rfloor>" using floor_mono [OF assms] by linarith
  then show ?thesis using rhe_floor [of x] rhe_floor [of y] by linarith
qed

lemma rhe_le: "q \<le> of_int n \<Longrightarrow> rhe q \<le> n"
  using rhe_mono [of q "of_int n"] by simp

lemma rhe_ge: "of_int n \<le> q \<Longrightarrow> n \<le> rhe q"
  using rhe_mono [of "of_int n" q] by simp

lemma rhe_minus: "rhe (- q) = - rhe q"
proof (cases "q = of_int \<lfloor>q\<rfloor>")
  case True
  then have "q \<in> \<int>" by (metis Ints_of_int)
  then obtain n where "q = of_int n" by (rule Ints_cases)
  then show ?thesis
    using rhe_of_int [of "- n"] by simp
next
  case False
  then have f: "\<lfloor>- q\<rfloor> = - \<lfloor>q\<rfloor> - 1"
    by linarith
  show ?thesis unfolding rhe_def Let_def f by auto
qed

subsection \<open>Multiples of a quantum\<close>

lemma grid_mono: "0 < u \<Longrightarrow> x \<le> y \<Longrightarrow> grid u x \<le> grid u y"
  by (simp add: grid_def rhe_mono divide_right_mono mult_right_mono)

lemma grid_minus: "grid u (- q) = - grid u q"
  by (simp add: grid_def rhe_minus)

lemma grid_0 [simp]: "grid u 0 = 0"
  by (simp add: grid_def)

lemma grid_multiple [simp]: "u \<noteq> 0 \<Longrightarrow> grid u (of_int n * u) = of_int n * u"
  by (simp add: grid_def)

lemma grid_is_multiple: "\<exists>n. grid u q = of_int n * u"
  by (auto simp: grid_def)

lemma grid_idem: "u \<noteq> 0 \<Longrightarrow> grid u (grid u q) = grid u q"
  using grid_is_multiple [of u q] by auto

lemma grid_error:
  assumes "0 < u"
  shows "\<bar>grid u q - q\<bar> \<le> u / 2"
proof -
  have "grid u q - q = (of_int (rhe (q / u)) - q / u) * u"
    using assms by (simp add: grid_def field_simps)
  then have "\<bar>grid u q - q\<bar> = \<bar>of_int (rhe (q / u)) - q / u\<bar> * u"
    using assms by (simp add: abs_mult)
  also have "\<dots> \<le> 1/2 * u"
    using assms by (intro mult_right_mono rhe_error) simp
  finally show ?thesis by simp
qed

lemma grid_le: "0 < u \<Longrightarrow> q \<le> of_int n * u \<Longrightarrow> grid u q \<le> of_int n * u"
  using grid_mono [of u q "of_int n * u"] by simp

lemma grid_ge: "0 < u \<Longrightarrow> of_int n * u \<le> q \<Longrightarrow> of_int n * u \<le> grid u q"
  using grid_mono [of u "of_int n * u" q] by simp

subsection \<open>The leading exponent\<close>

lemma ilog_bounds:
  assumes "2 \<le> b" and "1 \<le> n"
  shows "b ^ ilog b n \<le> n \<and> n < b ^ Suc (ilog b n)"
  using assms
proof (induction b n rule: ilog.induct)
  case (1 b n)
  show ?case
  proof (cases "n < b")
    case True
    then show ?thesis using 1 by (simp add: ilog.simps [of b n])
  next
    case False
    then have d: "1 \<le> n div b" using 1 by (simp add: Suc_le_eq div_greater_zero_iff)
    then have IH: "b ^ ilog b (n div b) \<le> n div b \<and> n div b < b ^ Suc (ilog b (n div b))"
      using 1 False by simp
    have "b * b ^ ilog b (n div b) \<le> b * (n div b)" using IH by simp
    also have "\<dots> \<le> n" by simp
    finally have lo: "b * b ^ ilog b (n div b) \<le> n" .
    have "n < b * Suc (n div b)"
      using 1 by (metis dividend_less_times_div less_le_trans mult_Suc_right pos2 add.commute)
    also have "\<dots> \<le> b * b ^ Suc (ilog b (n div b))" using IH by (intro mult_le_mono) auto
    finally show ?thesis using lo False 1 by (simp add: ilog.simps [of b n])
  qed
qed

lemma mag_bounds:
  assumes b: "2 \<le> b" and q: "0 < q"
  shows "of_nat b powi mag b q \<le> q" and "q < of_nat b powi (mag b q + 1)"
proof -
  have "of_nat b powi mag b q \<le> q \<and> q < of_nat b powi (mag b q + 1)"
  proof (cases "1 \<le> q")
    case True
    define n where "n = nat \<lfloor>q\<rfloor>"
    have n: "1 \<le> n" "of_nat n \<le> q" "q < of_nat n + 1"
      using True by (auto simp: n_def le_nat_iff le_floor_iff) linarith+
    have m: "mag b q = int (ilog b n)" using True by (simp add: mag_def n_def)
    have lo: "of_nat (b ^ ilog b n) \<le> (of_nat n :: rat)"
      using ilog_bounds [OF b n(1)] by (simp only: of_nat_le_iff)
    have hi: "of_nat (Suc n) \<le> (of_nat (b ^ Suc (ilog b n)) :: rat)"
      using ilog_bounds [OF b n(1)] by (simp only: of_nat_le_iff Suc_le_eq)
    have lo': "of_nat b ^ ilog b n \<le> q" using lo n(2) unfolding of_nat_power by linarith
    have hi': "q < of_nat b ^ Suc (ilog b n)" using hi n(3) unfolding of_nat_power of_nat_Suc by linarith
    have "mag b q + 1 = int (Suc (ilog b n))" using m by simp
    then show ?thesis using lo' hi' m by (simp only: power_int_of_nat)
  next
    case False
    define r where "r = 1 / q"
    have r: "1 < r" and qr: "q = inverse r" using False q by (auto simp: r_def field_simps)
    define n where "n = nat (\<lceil>r\<rceil> - 1)"
    have n: "1 \<le> n" "of_nat n < r" "r \<le> of_nat n + 1"
      using r by (auto simp: n_def le_nat_iff) linarith+
    define k where "k = Suc (ilog b n)"
    have m: "mag b q = - int k" using False by (simp add: mag_def n_def k_def r_def)
    have lo: "of_nat (b ^ ilog b n) \<le> (of_nat n :: rat)"
      using ilog_bounds [OF b n(1)] by (simp only: of_nat_le_iff)
    have hi: "of_nat (Suc n) \<le> (of_nat (b ^ k) :: rat)"
      using ilog_bounds [OF b n(1)] by (simp only: of_nat_le_iff Suc_le_eq k_def)
    have "r \<le> of_nat b ^ k" using hi n by simp
    then have "inverse (of_nat b ^ k) \<le> inverse r" using r by (intro le_imp_inverse_le) auto
    moreover have "of_nat b ^ ilog b n < r" using lo n(2) unfolding of_nat_power by linarith
    then have "inverse r < inverse (of_nat b ^ ilog b n)"
      using b by (intro less_imp_inverse_less) auto
    moreover have m1: "mag b q + 1 = - int (ilog b n)" by (simp add: m k_def)
    ultimately show ?thesis unfolding m1 unfolding m by (simp add: qr [symmetric] power_int_minus)
  qed
  then show "of_nat b powi mag b q \<le> q" and "q < of_nat b powi (mag b q + 1)" by auto
qed

lemma powi_mono:
  assumes "2 \<le> b" and "i \<le> j"
  shows "(of_nat b powi i :: rat) \<le> of_nat b powi j"
  using assms by (intro power_int_increasing) auto

lemma powi_le_imp_le:
  assumes "2 \<le> b" and "(of_nat b powi i :: rat) \<le> of_nat b powi j"
  shows "i \<le> j"
proof (rule ccontr)
  assume "\<not> i \<le> j"
  then have "(of_nat b powi j :: rat) < of_nat b powi i"
    using assms(1) by (intro power_int_strict_increasing) auto
  then show False using assms(2) by simp
qed

lemma mag_mono:
  assumes b: "2 \<le> b" and "0 < x" and "x \<le> y"
  shows "mag b x \<le> mag b y"
proof (rule ccontr)
  assume "\<not> ?thesis"
  then have "mag b y + 1 \<le> mag b x" by simp
  then have "of_nat b powi (mag b y + 1) \<le> (of_nat b powi mag b x :: rat)" by (rule powi_mono [OF b])
  then show False using mag_bounds [OF b, of x] mag_bounds [OF b, of y] assms by linarith
qed

subsection \<open>Rounding to significant digits\<close>

lemma powi_pos: "2 \<le> b \<Longrightarrow> 0 < (of_nat b powi i :: rat)"
  by simp

lemma powi_split:
  assumes "2 \<le> b" and "i \<le> j"
  shows "(of_nat b powi j :: rat) = of_int (int b ^ nat (j - i)) * of_nat b powi i"
proof -
  have "(of_nat b powi j :: rat) = of_nat b powi (int (nat (j - i)) + i)" using assms by simp
  also have "\<dots> = of_nat b powi int (nat (j - i)) * of_nat b powi i"
    using assms by (intro power_int_add) simp
  also have "of_nat b powi int (nat (j - i)) = (of_int (int b ^ nat (j - i)) :: rat)"
    unfolding power_int_of_nat by simp
  finally show ?thesis .
qed

lemma siground_0 [simp]: "siground b p 0 = 0"
  by (simp add: siground_def)

lemma siground_minus: "siground b p (- q) = - siground b p q"
  by (simp add: siground_def grid_minus)

text \<open>A rounded value lies between the powers of the base around it.\<close>

lemma siground_bounds:
  assumes b: "2 \<le> b" and p: "1 \<le> p" and q: "0 < q"
  shows "of_nat b powi mag b q \<le> siground b p q"
    and "siground b p q \<le> of_nat b powi (mag b q + 1)"
proof -
  define i where "i = mag b q - int p + 1"
  have u: "0 < (of_nat b powi i :: rat)" using b by simp
  have s: "siground b p q = grid (of_nat b powi i) q" using q by (simp add: siground_def i_def)
  have "of_nat b powi mag b q = (of_int (int b ^ nat (mag b q - i)) * of_nat b powi i :: rat)"
    using b p by (intro powi_split) (auto simp: i_def)
  then show "of_nat b powi mag b q \<le> siground b p q"
    unfolding s using grid_ge [OF u] mag_bounds(1) [OF b q] by metis
  have "of_nat b powi (mag b q + 1) =
      (of_int (int b ^ nat (mag b q + 1 - i)) * of_nat b powi i :: rat)"
    using b p by (intro powi_split) (auto simp: i_def)
  then show "siground b p q \<le> of_nat b powi (mag b q + 1)"
    unfolding s using grid_le [OF u] mag_bounds(2) [OF b q] by (metis less_imp_le)
qed

lemma siground_mono_pos:
  assumes b: "2 \<le> b" and p: "1 \<le> p" and x: "0 < x" and xy: "x \<le> y"
  shows "siground b p x \<le> siground b p y"
proof (cases "mag b x = mag b y")
  case True
  then show ?thesis using assms by (auto simp: siground_def intro!: grid_mono)
next
  case False
  have y: "0 < y" using x xy by simp
  have "mag b x + 1 \<le> mag b y" using False mag_mono [OF b x xy] by simp
  then have "of_nat b powi (mag b x + 1) \<le> (of_nat b powi mag b y :: rat)" by (rule powi_mono [OF b])
  then show ?thesis
    using siground_bounds(2) [OF b p x] siground_bounds(1) [OF b p y] by linarith
qed

lemma siground_nonneg:
  assumes "2 \<le> b" and "1 \<le> p" and "0 \<le> q"
  shows "0 \<le> siground b p q"
proof (cases "q = 0")
  case False
  then have "0 < q" using assms by simp
  then show ?thesis using siground_bounds(1) [of b p q] powi_pos [of b "mag b q"] assms by linarith
qed simp

lemma siground_mono:
  assumes b: "2 \<le> b" and p: "1 \<le> p" and xy: "x \<le> y"
  shows "siground b p x \<le> siground b p y"
proof -
  consider "0 < x" | "y < 0" | "x \<le> 0" "0 \<le> y" by linarith
  then show ?thesis
  proof cases
    case 1
    then show ?thesis using assms by (intro siground_mono_pos)
  next
    case 2
    then have "siground b p (- y) \<le> siground b p (- x)" using assms by (intro siground_mono_pos) auto
    then show ?thesis by (simp add: siground_minus)
  next
    case 3
    then have "0 \<le> siground b p (- x)" and "0 \<le> siground b p y"
      using siground_nonneg [OF b p] by auto
    then show ?thesis by (simp add: siground_minus)
  qed
qed

text \<open>Values of at most \<open>p\<close> digits are fixed points.\<close>

lemma siground_fix_pos:
  assumes b: "2 \<le> b" and p: "1 \<le> p" and n: "0 < n" "n \<le> int b ^ p"
  shows "siground b p (of_int n * of_nat b powi k) = of_int n * of_nat b powi k"
proof -
  define q :: rat where "q = of_int n * of_nat b powi k"
  have q: "0 < q" using b n by (simp add: q_def)
  define i where "i = mag b q - int p + 1"
  have s: "siground b p q = grid (of_nat b powi i) q" using q by (simp add: siground_def i_def)
  have nz: "(of_nat b powi i :: rat) \<noteq> 0" using b by simp
  show ?thesis
  proof (cases "i \<le> k")
    case True
    then have "q = of_int (n * int b ^ nat (k - i)) * of_nat b powi i"
      using powi_split [OF b True] by (simp add: q_def)
    then have "grid (of_nat b powi i) q = q" using nz by (metis grid_multiple)
    then show ?thesis using s by (simp add: q_def)
  next
    case False
    have "of_nat b powi mag b q \<le> q" by (rule mag_bounds(1) [OF b q])
    moreover have "q \<le> of_int (int b ^ p) * of_nat b powi k"
      unfolding q_def using n b by (intro mult_right_mono) (auto simp only: of_int_le_iff, simp)
    moreover have "of_int (int b ^ p) * of_nat b powi k = (of_nat b powi (int p + k) :: rat)"
      using b by (simp add: power_int_add)
    ultimately have "of_nat b powi mag b q \<le> (of_nat b powi (int p + k) :: rat)" by simp
    moreover have "mag b q = int p + k"
    proof (rule antisym)
      show "int p + k \<le> mag b q" using False by (simp add: i_def)
      show "mag b q \<le> int p + k"
        using \<open>of_nat b powi mag b q \<le> (of_nat b powi (int p + k) :: rat)\<close>
        by (rule powi_le_imp_le [OF b])
    qed
    moreover have "q \<le> of_nat b powi (int p + k)"
      using \<open>q \<le> of_int (int b ^ p) * of_nat b powi k\<close>
        \<open>of_int (int b ^ p) * of_nat b powi k = (of_nat b powi (int p + k) :: rat)\<close> by simp
    ultimately have qe: "q = of_nat b powi (int p + k)"
      using \<open>of_nat b powi mag b q \<le> q\<close> by simp
    have "q = of_int (int b ^ nat (int p + k - i)) * of_nat b powi i"
      unfolding qe using b p \<open>mag b q = int p + k\<close> by (intro powi_split) (auto simp: i_def)
    then have "grid (of_nat b powi i) q = q" using nz by (metis grid_multiple)
    then show ?thesis using s by (simp add: q_def)
  qed
qed

lemma siground_fix:
  assumes b: "2 \<le> b" and p: "1 \<le> p" and n: "\<bar>n\<bar> \<le> int b ^ p"
  shows "siground b p (of_int n * of_nat b powi k) = of_int n * of_nat b powi k"
proof -
  consider "n = 0" | "0 < n" | "n < 0" by linarith
  then show ?thesis
  proof cases
    case 2
    then show ?thesis using siground_fix_pos [OF b p] n by simp
  next
    case 3
    then have "siground b p (of_int (- n) * of_nat b powi k) = of_int (- n) * of_nat b powi k"
      using n by (intro siground_fix_pos [OF b p]) auto
    then show ?thesis using siground_minus [of b p "of_int n * of_nat b powi k"] by simp
  qed simp
qed

text \<open>Every rounded value has that form, so rounding twice is rounding once.\<close>

lemma siground_form:
  assumes b: "2 \<le> b" and p: "1 \<le> p"
  obtains n k where "siground b p q = of_int n * of_nat b powi k" and "\<bar>n\<bar> \<le> int b ^ p"
proof (cases "q = 0")
  case True
  then show thesis using that [of 0 0] b by simp
next
  case False
  define i where "i = mag b \<bar>q\<bar> - int p + 1"
  define n where "n = rhe (q / of_nat b powi i)"
  have u: "0 < (of_nat b powi i :: rat)" using b by simp
  have "\<bar>q\<bar> < of_nat b powi (mag b \<bar>q\<bar> + 1)" using mag_bounds(2) [OF b, of "\<bar>q\<bar>"] False by simp
  also have "\<dots> = of_int (int b ^ nat (mag b \<bar>q\<bar> + 1 - i)) * of_nat b powi i"
    using b p by (intro powi_split) (auto simp: i_def)
  also have "mag b \<bar>q\<bar> + 1 - i = int p" by (simp add: i_def)
  finally have "\<bar>q\<bar> / of_nat b powi i < of_int (int b ^ p)" using u by (simp add: pos_divide_less_eq)
  then have h: "\<bar>q / of_nat b powi i\<bar> \<le> of_int (int b ^ p)" using u by (simp add: abs_divide)
  have "n \<le> int b ^ p" unfolding n_def using h by (intro rhe_le) linarith
  moreover have "- of_int (int b ^ p) \<le> q / of_nat b powi i" using h by linarith
  then have "- (int b ^ p) \<le> n" unfolding n_def by (intro rhe_ge) simp
  ultimately have "\<bar>n\<bar> \<le> int b ^ p" by simp
  moreover have "siground b p q = of_int n * of_nat b powi i"
    using False by (simp add: siground_def grid_def n_def i_def)
  ultimately show thesis using that by blast
qed

lemma siground_idem:
  assumes "2 \<le> b" and "1 \<le> p"
  shows "siground b p (siground b p q) = siground b p q"
  using siground_form [OF assms, of q] siground_fix [OF assms] by metis

text \<open>The relative error is at most half a unit in the last digit.\<close>

lemma siground_error:
  assumes b: "2 \<le> b" and p: "1 \<le> p"
  shows "\<bar>siground b p q - q\<bar> \<le> \<bar>q\<bar> * of_nat b powi (1 - int p) / 2"
proof (cases "q = 0")
  case False
  define i where "i = mag b \<bar>q\<bar> - int p + 1"
  have u: "0 < (of_nat b powi i :: rat)" using b by simp
  have "\<bar>siground b p q - q\<bar> = \<bar>grid (of_nat b powi i) q - q\<bar>"
    using False by (simp add: siground_def i_def)
  also have "\<dots> \<le> of_nat b powi i / 2" by (rule grid_error [OF u])
  also have "of_nat b powi i = of_nat b powi (mag b \<bar>q\<bar>) * (of_nat b powi (1 - int p) :: rat)"
    using b by (subst power_int_add [symmetric]) (auto simp: i_def algebra_simps)
  also have "\<dots> / 2 \<le> \<bar>q\<bar> * of_nat b powi (1 - int p) / 2"
    using mag_bounds(1) [OF b, of "\<bar>q\<bar>"] False b by (intro divide_right_mono mult_right_mono) auto
  finally show ?thesis .
qed simp

subsection \<open>What a client of a rounding relies on\<close>

locale rounding =
  fixes rnd :: "rat \<Rightarrow> rat"
  assumes rnd_mono: "x \<le> y \<Longrightarrow> rnd x \<le> rnd y"
    and rnd_minus: "rnd (- x) = - rnd x"
    and rnd_idem: "rnd (rnd x) = rnd x"
begin

lemma rnd_zero: "rnd 0 = 0"
  using rnd_minus [of 0] by simp

lemma rnd_nonneg: "0 \<le> x \<Longrightarrow> 0 \<le> rnd x"
  using rnd_mono [of 0 x] rnd_zero by simp

lemma rnd_nonpos: "x \<le> 0 \<Longrightarrow> rnd x \<le> 0"
  using rnd_mono [of x 0] rnd_zero by simp

lemma rnd_abs: "\<bar>rnd x\<bar> = rnd \<bar>x\<bar>"
  using rnd_nonneg [of x] rnd_nonpos [of x] rnd_minus [of x] by (auto simp: abs_if)

lemma rnd_ge_fixed: "rnd a = a \<Longrightarrow> a \<le> x \<Longrightarrow> a \<le> rnd x"
  using rnd_mono [of a x] by simp

lemma rnd_le_fixed: "rnd a = a \<Longrightarrow> x \<le> a \<Longrightarrow> rnd x \<le> a"
  using rnd_mono [of x a] by simp

lemma rnd_pos_imp: "0 < rnd x \<Longrightarrow> 0 < x"
  using rnd_nonpos [of x] by (meson leI leD)

lemma rnd_add_ge: "rnd a = a \<Longrightarrow> 0 \<le> b \<Longrightarrow> a \<le> rnd (a + b)"
  by (rule rnd_ge_fixed) auto

lemma rnd_sub_le: "rnd a = a \<Longrightarrow> 0 \<le> b \<Longrightarrow> rnd (a - b) \<le> a"
  by (rule rnd_le_fixed) auto

end

lemma rounding_siground: "2 \<le> b \<Longrightarrow> 1 \<le> p \<Longrightarrow> rounding (siground b p)"
  by unfold_locales (auto simp: siground_mono siground_minus siground_idem)

lemma rounding_grid: "0 < u \<Longrightarrow> rounding (grid u)"
  by unfold_locales (auto simp: grid_mono grid_minus grid_idem)

subsection \<open>Evaluation on numerals\<close>

text \<open>Rewrite rules that compute a rounding of a literal, used by the concrete instances.\<close>

lemma floor_rat_quot: "\<lfloor>of_int a / of_int b :: rat\<rfloor> = a div b"
  by (rule floor_divide_of_int_eq)

lemma floor_rat_numeral:
  "\<lfloor>numeral a / numeral b :: rat\<rfloor> = numeral a div numeral b"
  "\<lfloor>1 / numeral b :: rat\<rfloor> = 1 div numeral b"
  "\<lfloor>- (numeral a / numeral b) :: rat\<rfloor> = - numeral a div numeral b"
  "\<lfloor>- (1 / numeral b) :: rat\<rfloor> = - 1 div numeral b"
  using floor_rat_quot [of "numeral a" "numeral b"] floor_rat_quot [of 1 "numeral b"]
    floor_rat_quot [of "- numeral a" "numeral b"] floor_rat_quot [of "- 1" "numeral b"]
  by simp_all

lemma ilog_less: "n < b \<Longrightarrow> ilog b n = 0"
  by (simp add: ilog.simps)

lemma ilog_step: "b \<le> n \<Longrightarrow> 2 \<le> b \<Longrightarrow> ilog b n = Suc (ilog b (n div b))"
  by (subst ilog.simps) simp

lemma grid_literal:
  assumes "u * of_int m = 1" and "numeral b dvd m"
  shows "grid u (numeral a / numeral b) = numeral a / numeral b"
    and "grid u (1 / numeral b) = 1 / numeral b"
proof -
  from assms(2) obtain c where m: "m = numeral b * c" by (elim dvdE)
  have u: "u \<noteq> 0" using assms(1) by auto
  have h: "1 / numeral b = of_int c * u"
    using assms(1) unfolding m by (simp add: field_simps)
  have "numeral a / numeral b = numeral a * (1 / numeral b :: rat)" by simp
  also have "\<dots> = of_int (numeral a * c) * u" unfolding h by simp
  finally have e: "numeral a / numeral b = of_int (numeral a * c) * u" .
  show "grid u (numeral a / numeral b) = numeral a / numeral b"
    unfolding e by (rule grid_multiple [OF u])
  show "grid u (1 / numeral b) = 1 / numeral b"
    unfolding h by (rule grid_multiple [OF u])
qed

lemma siground_literal:
  assumes "2 \<le> b" and "1 \<le> p" and "int c dvd int b ^ j"
    and "\<bar>n\<bar> * (int b ^ j div int c) \<le> int b ^ p" and "0 < c"
  shows "siground b p (of_int n / of_nat c) = of_int n / of_nat c"
proof -
  from assms(3) obtain d where d: "int b ^ j = int c * d" by (elim dvdE)
  have dd: "int b ^ j div int c = d" using assms(5) by (simp add: d)
  have "(of_nat b ^ j :: rat) = of_nat c * of_int d"
    using arg_cong [OF d, of "of_int :: int \<Rightarrow> rat"] by simp
  moreover have "d \<noteq> 0" using assms(1,5) d by auto
  ultimately have "(of_int n / of_nat c :: rat) = of_int (n * d) * of_nat b powi (- int j)"
    using assms(1,5) by (simp add: power_int_minus power_int_of_nat field_simps)
  moreover have "0 \<le> d" using assms(1,5) d by (metis dd of_nat_0_le_iff pos_imp_zdiv_nonneg_iff
    of_nat_0_less_iff zero_le_power)
  then have "\<bar>n * d\<bar> \<le> int b ^ p" using assms(4) by (simp add: dd abs_mult)
  ultimately show ?thesis using siground_fix [OF assms(1,2), of "n * d" "- int j"] by metis
qed

lemmas eval_rounding = siground_def mag_def grid_def rhe_def floor_rat_numeral
  ceiling_def ilog_less ilog_step power_int_def power_one_over

end
