(* ===== verification/PyDecimal.thy ===== *)
theory PyDecimal
  imports Rounding
begin

section \<open>The arithmetic of decimal.Decimal\<close>

text \<open>
  A finite Decimal is its value, a rational. The code never touches the decimal context, so
  every operation is exact arithmetic rounded to 28 significant digits, ties to even
  (\<open>dctx\<close>); comparisons, \<open>min\<close> and \<open>max\<close> are exact; division by zero raises; \<open>quantize\<close>
  rounds to a multiple of the quantum and raises \<open>InvalidOperation\<close> when the coefficient
  needs more than 28 digits. NaN and infinite Decimals are not values of the model: the
  conversion that would make one raises instead.
\<close>

type_synonym decimal = rat

definition dctx :: "rat \<Rightarrow> decimal" where
  "dctx q = siground 10 28 q"

definition dadd :: "decimal \<Rightarrow> decimal \<Rightarrow> decimal" where
  "dadd a b = dctx (a + b)"

definition dsub :: "decimal \<Rightarrow> decimal \<Rightarrow> decimal" where
  "dsub a b = dctx (a - b)"

definition dmul :: "decimal \<Rightarrow> decimal \<Rightarrow> decimal" where
  "dmul a b = dctx (a * b)"

definition ddiv :: "decimal \<Rightarrow> decimal \<Rightarrow> decimal res" where
  "ddiv a b = (if b = 0 then Inl (if a = 0 then InvalidOperation else DivisionByZero)
     else Inr (dctx (a / b)))"

definition dneg :: "decimal \<Rightarrow> decimal" where
  "dneg a = dctx (- a)"

definition dabs :: "decimal \<Rightarrow> decimal" where
  "dabs a = dctx \<bar>a\<bar>"

fun dsum :: "decimal \<Rightarrow> decimal list \<Rightarrow> decimal" where
  "dsum acc [] = acc"
| "dsum acc (x # xs) = dsum (dadd acc x) xs"

text \<open>\<open>value.quantize(quantum)\<close> with ties to even, and with truncation toward zero.\<close>

definition quantize_even :: "rat \<Rightarrow> decimal \<Rightarrow> decimal res" where
  "quantize_even u x = (let r = grid u x in
     if 10 ^ 28 * u \<le> \<bar>r\<bar> then Inl InvalidOperation else Inr r)"

definition truncated :: "rat \<Rightarrow> rat \<Rightarrow> rat" where
  "truncated u q = (if 0 \<le> q then of_int \<lfloor>q / u\<rfloor> * u else of_int \<lceil>q / u\<rceil> * u)"

definition quantize_down :: "rat \<Rightarrow> decimal \<Rightarrow> decimal res" where
  "quantize_down u x = (let r = truncated u x in
     if 10 ^ 28 * u \<le> \<bar>r\<bar> then Inl InvalidOperation else Inr r)"

text \<open>\<open>int(value)\<close>: truncation toward zero.\<close>

definition py_int :: "decimal \<Rightarrow> int" where
  "py_int q = (if 0 \<le> q then \<lfloor>q\<rfloor> else \<lceil>q\<rceil>)"

interpretation dec: rounding dctx
  unfolding dctx_def by (rule rounding_siground) auto

lemma dctx_0 [simp]: "dctx 0 = 0"
  by (rule dec.rnd_zero)

lemma dctx_fix:
  assumes "\<bar>n\<bar> \<le> 10 ^ 28"
  shows "dctx (of_int n * 10 powi k) = of_int n * 10 powi k"
  using siground_fix [of 10 28 n k] assms by (simp add: dctx_def)

lemma dctx_error: "\<bar>dctx q - q\<bar> \<le> \<bar>q\<bar> / (2 * 10 ^ 27)"
  using siground_error [of 10 28 q] by (simp add: dctx_def power_int_def field_simps)

lemma dctx_dctx [simp]: "dctx (dctx q) = dctx q"
  by (rule dec.rnd_idem)

lemma dadd_0 [simp]: "dadd (dctx a) 0 = dctx a" "dadd 0 (dctx a) = dctx a"
  by (simp_all add: dadd_def)

lemma dmul_nonneg: "0 \<le> a \<Longrightarrow> 0 \<le> b \<Longrightarrow> 0 \<le> dmul a b"
  by (simp add: dmul_def dec.rnd_nonneg)

lemma dadd_nonneg: "0 \<le> a \<Longrightarrow> 0 \<le> b \<Longrightarrow> 0 \<le> dadd a b"
  by (simp add: dadd_def dec.rnd_nonneg)

lemma dmul_mono: "0 \<le> c \<Longrightarrow> a \<le> b \<Longrightarrow> dmul c a \<le> dmul c b"
  by (simp add: dmul_def dec.rnd_mono mult_left_mono)

lemma dadd_mono: "a \<le> b \<Longrightarrow> c \<le> d \<Longrightarrow> dadd a c \<le> dadd b d"
  by (simp add: dadd_def dec.rnd_mono add_mono)

lemma ddiv_Inr: "b \<noteq> 0 \<Longrightarrow> ddiv a b = Inr (dctx (a / b))"
  by (simp add: ddiv_def)

lemma ddiv_eq_Inr [simp]: "ddiv a b = Inr q \<longleftrightarrow> b \<noteq> 0 \<and> q = dctx (a / b)"
  by (auto simp: ddiv_def)

lemma quantize_even_eq_Inr:
  "quantize_even u x = Inr y \<longleftrightarrow> y = grid u x \<and> \<bar>grid u x\<bar> < 10 ^ 28 * u"
  by (auto simp: quantize_even_def Let_def)

lemma truncated_le: "0 < u \<Longrightarrow> 0 \<le> q \<Longrightarrow> truncated u q \<le> q"
  by (simp add: truncated_def) (metis floor_le_iff of_int_floor_le pos_le_divide_eq)

text \<open>Literals with at most 16 decimals and 28 digits are fixed points.\<close>

lemma dctx_literal:
  "numeral b dvd (10::int) ^ 16 \<Longrightarrow> numeral a * (10 ^ 16 div numeral b) \<le> (10::int) ^ 28 \<Longrightarrow>
    dctx (numeral a / numeral b) = numeral a / numeral b"
  "numeral b dvd (10::int) ^ 16 \<Longrightarrow> dctx (1 / numeral b) = 1 / numeral b"
  "(numeral a :: int) * 10 ^ 16 \<le> 10 ^ 28 \<Longrightarrow> dctx (numeral a) = numeral a"
  "dctx 1 = 1"
proof -
  show "dctx (numeral a / numeral b) = numeral a / numeral b"
    if "numeral b dvd (10::int) ^ 16" "numeral a * (10 ^ 16 div numeral b) \<le> (10::int) ^ 28"
    using siground_literal [of 10 28 "numeral b" 16 "numeral a"] that by (simp add: dctx_def)
  show "dctx (1 / numeral b) = 1 / numeral b" if "numeral b dvd (10::int) ^ 16"
  proof -
    have "(10::int) ^ 16 div numeral b \<le> 10 ^ 16" using zdiv_mono2 [of "10 ^ 16" 1 "numeral b"] by simp
    then show ?thesis
      using siground_literal [of 10 28 "numeral b" 16 1] that by (simp add: dctx_def)
  qed
  show "dctx (numeral a) = numeral a" if "(numeral a :: int) * 10 ^ 16 \<le> 10 ^ 28"
    using siground_literal [of 10 28 1 16 "numeral a"] that by (simp add: dctx_def)
  show "dctx 1 = 1" using siground_literal [of 10 28 1 16 1] by (simp add: dctx_def)
qed

end
