(* ===== verification/PyFloat.thy ===== *)
theory PyFloat
  imports Rounding
begin

section \<open>The arithmetic of float\<close>

text \<open>
  A Python float is a binary64 number, an infinity or NaN. A finite one is its value, a
  rational; the two zeros are one value, since nothing here tells them apart. Every
  operation is exact arithmetic rounded to nearest, ties to even (\<open>f64r\<close>), with gradual
  underflow below \<open>2 ^ -1022\<close> and overflow to infinity at \<open>2 ^ 1024\<close>. Comparisons with NaN
  are false. Division by zero raises, as in Python. \<open>str\<close> prints the shortest decimal that
  reads back as the float; \<open>repr_value\<close> is the value of that decimal.
\<close>

datatype pyfloat = Fin rat | PInf | NInf | NaN

definition f64_tiny :: rat where
  "f64_tiny = 2 powi (-1022)"

definition f64_sub :: rat where
  "f64_sub = 2 powi (-1074)"

definition f64_big :: rat where
  "f64_big = 2 ^ 1024"

definition f64r :: "rat \<Rightarrow> rat" where
  "f64r q = (if \<bar>q\<bar> < f64_tiny then grid (f64_sub) q else siground 2 53 q)"

definition fround :: "rat \<Rightarrow> pyfloat" where
  "fround q = (let r = f64r q in
     if f64_big \<le> r then PInf else if r \<le> - f64_big then NInf else Fin r)"

definition is_f64 :: "pyfloat \<Rightarrow> bool" where
  "is_f64 x = (case x of Fin q \<Rightarrow> fround q = Fin q | _ \<Rightarrow> True)"

fun is_finite :: "pyfloat \<Rightarrow> bool" where
  "is_finite (Fin q) = True"
| "is_finite _ = False"

fun is_nan :: "pyfloat \<Rightarrow> bool" where
  "is_nan NaN = True"
| "is_nan _ = False"

fun fneg :: "pyfloat \<Rightarrow> pyfloat" where
  "fneg (Fin a) = Fin (- a)"
| "fneg PInf = NInf"
| "fneg NInf = PInf"
| "fneg NaN = NaN"

fun fabs :: "pyfloat \<Rightarrow> pyfloat" where
  "fabs (Fin a) = Fin \<bar>a\<bar>"
| "fabs NaN = NaN"
| "fabs _ = PInf"

fun fadd :: "pyfloat \<Rightarrow> pyfloat \<Rightarrow> pyfloat" where
  "fadd (Fin a) (Fin b) = fround (a + b)"
| "fadd NaN _ = NaN"
| "fadd _ NaN = NaN"
| "fadd PInf NInf = NaN"
| "fadd NInf PInf = NaN"
| "fadd PInf _ = PInf"
| "fadd _ PInf = PInf"
| "fadd NInf _ = NInf"
| "fadd _ NInf = NInf"

definition fsub :: "pyfloat \<Rightarrow> pyfloat \<Rightarrow> pyfloat" where
  "fsub a b = fadd a (fneg b)"

definition signed_inf :: "rat \<Rightarrow> pyfloat" where
  "signed_inf s = (if s = 0 then NaN else if 0 < s then PInf else NInf)"

fun fsgn :: "pyfloat \<Rightarrow> rat" where
  "fsgn (Fin a) = sgn a"
| "fsgn PInf = 1"
| "fsgn NInf = -1"
| "fsgn NaN = 0"

fun fmul :: "pyfloat \<Rightarrow> pyfloat \<Rightarrow> pyfloat" where
  "fmul (Fin a) (Fin b) = fround (a * b)"
| "fmul NaN _ = NaN"
| "fmul _ NaN = NaN"
| "fmul a b = signed_inf (fsgn a * fsgn b)"

fun fdiv :: "pyfloat \<Rightarrow> pyfloat \<Rightarrow> pyfloat res" where
  "fdiv (Fin a) (Fin b) = (if b = 0 then Inl ZeroDivisionError else Inr (fround (a / b)))"
| "fdiv NaN (Fin b) = (if b = 0 then Inl ZeroDivisionError else Inr NaN)"
| "fdiv a (Fin b) = (if b = 0 then Inl ZeroDivisionError else Inr (signed_inf (fsgn a * sgn b)))"
| "fdiv _ NaN = Inr NaN"
| "fdiv (Fin a) _ = Inr (Fin 0)"
| "fdiv _ _ = Inr NaN"

fun flt :: "pyfloat \<Rightarrow> pyfloat \<Rightarrow> bool" where
  "flt (Fin a) (Fin b) = (a < b)"
| "flt NaN _ = False"
| "flt _ NaN = False"
| "flt NInf NInf = False"
| "flt PInf PInf = False"
| "flt NInf _ = True"
| "flt _ PInf = True"
| "flt _ _ = False"


fun feq :: "pyfloat \<Rightarrow> pyfloat \<Rightarrow> bool" where
  "feq NaN _ = False"
| "feq _ NaN = False"
| "feq a b = (a = b)"

definition fle :: "pyfloat \<Rightarrow> pyfloat \<Rightarrow> bool" where
  "fle a b \<longleftrightarrow> flt a b \<or> feq a b"

text \<open>\<open>max(a, b)\<close> and \<open>min(a, b)\<close> keep the first argument unless the second beats it.\<close>

definition fmax :: "pyfloat \<Rightarrow> pyfloat \<Rightarrow> pyfloat" where
  "fmax a b = (if flt a b then b else a)"

definition fmin :: "pyfloat \<Rightarrow> pyfloat \<Rightarrow> pyfloat" where
  "fmin a b = (if flt b a then b else a)"

definition float_of_int :: "int \<Rightarrow> pyfloat" where
  "float_of_int n = fround (of_int n)"

definition float_of_decimal :: "rat \<Rightarrow> pyfloat" where
  "float_of_decimal q = fround q"

fun fceil :: "pyfloat \<Rightarrow> int res" where
  "fceil (Fin q) = Inr \<lceil>q\<rceil>"
| "fceil NaN = Inl (ValueError ''ceil nan'')"
| "fceil _ = Inl OverflowError"

text \<open>\<open>math.fsum\<close> of finite values: the exact sum, rounded once.\<close>

fun fin_value :: "pyfloat \<Rightarrow> rat" where
  "fin_value (Fin q) = q"
| "fin_value _ = 0"

definition fsum :: "pyfloat list \<Rightarrow> pyfloat res" where
  "fsum xs = (if list_all is_finite xs then
       (case fround (sum_list (map fin_value xs)) of Fin q \<Rightarrow> Inr (Fin q) | _ \<Rightarrow> Inl OverflowError)
     else if NaN \<in> set xs then Inr NaN
     else if PInf \<in> set xs \<and> NInf \<in> set xs then Inl (ValueError ''-inf + inf in fsum'')
     else if PInf \<in> set xs then Inr PInf else Inr NInf)"

text \<open>\<open>math.nextafter(x, inf)\<close>: one unit in the last place up.\<close>

definition ulp_exp :: "rat \<Rightarrow> int" where
  "ulp_exp q = (if \<bar>q\<bar> < f64_tiny then -1074 else mag 2 \<bar>q\<bar> - 52)"

fun next_up :: "pyfloat \<Rightarrow> pyfloat" where
  "next_up (Fin q) =
     (if q < 0 then fround (q + 2 powi (ulp_exp (q + 2 powi (ulp_exp q - 1))))
      else fround (q + 2 powi (ulp_exp q)))"
| "next_up NInf = Fin (- (f64_big - 2 ^ 971))"
| "next_up x = x"

text \<open>
  The built-in \<open>sum\<close> over floats (Python 3.12): Neumaier's compensated summation, started
  from the integer 0.
\<close>

fun nsum_loop :: "pyfloat \<Rightarrow> pyfloat \<Rightarrow> pyfloat list \<Rightarrow> pyfloat" where
  "nsum_loop s c [] = (if \<not> feq c (Fin 0) \<and> is_finite c then fadd s c else s)"
| "nsum_loop s c (x # xs) = (let t = fadd s x in
     nsum_loop t (if fle (fabs x) (fabs s) then fadd c (fadd (fsub s t) x)
                  else fadd c (fadd (fsub x t) s)) xs)"

fun py_fsum :: "pyfloat list \<Rightarrow> pyfloat" where
  "py_fsum [] = Fin 0"
| "py_fsum (x # xs) = nsum_loop x (Fin 0) xs"

text \<open>
  The shortest decimal that reads back as \<open>x\<close>: with \<open>n\<close> digits, the nearest candidate
  and its neighbour on the other side of \<open>x\<close>; 17 digits always suffice.
\<close>

definition repr_cands :: "nat \<Rightarrow> rat \<Rightarrow> rat list" where
  "repr_cands n x = (let u = 10 powi (mag 10 x - int n + 1); c = grid u x in
     [c, if c \<le> x then c + u else c - u])"

fun repr_search :: "nat list \<Rightarrow> rat \<Rightarrow> rat" where
  "repr_search [] x = grid (10 powi (mag 10 x - 16)) x"
| "repr_search (n # ns) x =
     (case filter (\<lambda>c. f64r c = x) (repr_cands n x) of c # _ \<Rightarrow> c | [] \<Rightarrow> repr_search ns x)"

definition repr_value :: "rat \<Rightarrow> rat" where
  "repr_value x = (if x = 0 then 0
     else if 0 < x then repr_search [1..<18] x else - repr_search [1..<18] (- x))"

subsection \<open>Laws of binary64 rounding\<close>

lemma f64_consts_pos [simp]: "0 < f64_tiny" "0 < f64_sub" "0 < f64_big" "f64_sub \<noteq> 0"
  by (simp_all add: f64_tiny_def f64_sub_def f64_big_def)

lemma f64r_normal_edge: "siground 2 53 f64_tiny = f64_tiny"
  using siground_fix [of 2 53 1 "-1022"] unfolding f64_tiny_def by simp

lemma sub_edge: "grid f64_sub f64_tiny = f64_tiny"
proof -
  have "f64_tiny = of_int (int 2 ^ nat (-1022 - -1074)) * f64_sub"
    using powi_split [of 2 "-1074" "-1022"] unfolding f64_tiny_def f64_sub_def by simp
  then show ?thesis by (metis f64_consts_pos(4) grid_multiple)
qed

lemma f64r_minus: "f64r (- q) = - f64r q"
  by (simp add: f64r_def grid_minus siground_minus)

lemma sub_le_edge: "\<bar>q\<bar> < f64_tiny \<Longrightarrow> \<bar>grid (f64_sub) q\<bar> \<le> f64_tiny"
proof -
  assume q: "\<bar>q\<bar> < f64_tiny"
  have "grid (f64_sub) q \<le> grid (f64_sub) (f64_tiny)"
    using q by (intro grid_mono) auto
  moreover have "grid (f64_sub) (- q) \<le> grid (f64_sub) (f64_tiny)"
    using q by (intro grid_mono) auto
  ultimately show ?thesis unfolding sub_edge grid_minus by (simp add: abs_le_iff)
qed

lemma normal_ge_edge:
  assumes "f64_tiny \<le> q"
  shows "f64_tiny \<le> siground 2 53 q"
proof -
  have "siground 2 53 (f64_tiny) \<le> siground 2 53 q" using assms by (intro siground_mono) auto
  then show ?thesis using f64r_normal_edge by simp
qed

lemma f64r_nonneg: "0 \<le> q \<Longrightarrow> 0 \<le> f64r q"
  using grid_mono [of "f64_sub" 0 q] siground_nonneg [of 2 53 q] by (simp add: f64r_def)

lemma f64r_mono_nonneg:
  assumes "0 \<le> x" and "x \<le> y"
  shows "f64r x \<le> f64r y"
proof -
  consider "y < f64_tiny" | "f64_tiny \<le> x"
    | "x < f64_tiny" "f64_tiny \<le> y" by linarith
  then show ?thesis
  proof cases
    case 1
    then show ?thesis using assms by (simp add: f64r_def grid_mono)
  next
    case 2
    then show ?thesis using assms by (simp add: f64r_def siground_mono)
  next
    case 3
    then have "f64r x \<le> f64_tiny"
      using assms sub_le_edge [of x] by (simp add: f64r_def)
    also have "\<dots> \<le> f64r y" using 3 assms normal_ge_edge [of y] by (simp add: f64r_def)
    finally show ?thesis .
  qed
qed

lemma f64r_mono: "x \<le> y \<Longrightarrow> f64r x \<le> f64r y"
  using f64r_mono_nonneg [of x y] f64r_mono_nonneg [of "- y" "- x"] f64r_nonneg [of "- x"]
    f64r_nonneg [of y] f64r_minus [of x] f64r_minus [of y] by linarith

lemma f64r_idem_nonneg:
  assumes "0 \<le> q"
  shows "f64r (f64r q) = f64r q"
proof (cases "q < f64_tiny")
  case True
  then have r: "f64r q = grid (f64_sub) q" using assms by (simp add: f64r_def)
  have "f64r q \<le> f64_tiny" using sub_le_edge [of q] True assms r by simp
  then consider "f64r q = f64_tiny" | "f64r q < f64_tiny" by linarith
  then show ?thesis
  proof cases
    case 1
    show ?thesis unfolding 1 using f64r_normal_edge sub_edge by (simp add: f64r_def)
  next
    case 2
    then have "f64r (f64r q) = grid f64_sub (f64r q)"
      using f64r_nonneg [OF assms] unfolding f64r_def [of "f64r q"] by simp
    then show ?thesis using grid_idem [of f64_sub q] unfolding r by simp
  qed
next
  case False
  then have r: "f64r q = siground 2 53 q" using assms by (simp add: f64r_def)
  have "f64_tiny \<le> f64r q" using normal_ge_edge [of q] False r by simp
  then have "f64r (f64r q) = siground 2 53 (f64r q)"
    using f64r_nonneg [OF assms] unfolding f64r_def [of "f64r q"] by simp
  then show ?thesis using siground_idem [of 2 53 q] unfolding r by simp
qed

lemma f64r_idem: "f64r (f64r q) = f64r q"
  using f64r_idem_nonneg [of q] f64r_idem_nonneg [of "- q"] f64r_minus [of q]
    f64r_minus [of "f64r q"] by (cases "0 \<le> q") auto

interpretation f64: rounding f64r
  by unfold_locales (auto simp: f64r_mono f64r_minus f64r_idem)

lemma f64r_0 [simp]: "f64r 0 = 0"
  by (rule f64.rnd_zero)

lemma fround_eq_Fin: "fround q = Fin r \<longleftrightarrow> r = f64r q \<and> \<bar>f64r q\<bar> < f64_big"
  by (auto simp: fround_def Let_def abs_less_iff)

lemma fround_0 [simp]: "fround 0 = Fin 0"
  by (simp add: fround_eq_Fin)

lemma is_f64_fround: "is_f64 (fround q)"
proof (cases "fround q")
  case (Fin r)
  then have "fround r = Fin r" by (auto simp: fround_eq_Fin f64.rnd_idem)
  then show ?thesis using Fin by (simp add: is_f64_def)
qed (auto simp: is_f64_def)

lemma is_f64_Fin: "is_f64 (Fin q) \<longleftrightarrow> f64r q = q \<and> \<bar>q\<bar> < f64_big"
  by (auto simp: is_f64_def fround_eq_Fin)

lemma fround_not_nan [simp]: "fround q \<noteq> NaN" "NaN \<noteq> fround q"
  by (auto simp: fround_def Let_def)

text \<open>Order of floats that are not NaN.\<close>

lemma flt_irrefl [simp]: "\<not> flt x x"
  by (cases x) auto

lemma flt_trans: "flt x y \<Longrightarrow> flt y z \<Longrightarrow> flt x z"
  by (cases x; cases y; cases z) auto

lemma flt_asym: "flt x y \<Longrightarrow> \<not> flt y x"
  using flt_trans [of x y x] by auto

lemma fle_iff: "fle x y \<longleftrightarrow> x \<noteq> NaN \<and> y \<noteq> NaN \<and> \<not> flt y x"
  by (cases x; cases y) (auto simp: fle_def)

lemma fle_trans: "fle x y \<Longrightarrow> fle y z \<Longrightarrow> fle x z"
  by (cases x; cases y; cases z) (auto simp: fle_def)

lemma flt_imp_not_nan: "flt x y \<Longrightarrow> x \<noteq> NaN \<and> y \<noteq> NaN"
  by (cases x; cases y) auto

lemma fle_Fin [simp]: "fle (Fin a) (Fin b) \<longleftrightarrow> a \<le> b"
  by (auto simp: fle_def)

lemma fround_mono: "x \<le> y \<Longrightarrow> fle (fround x) (fround y)"
  using f64r_mono [of x y] by (auto simp: fround_def Let_def fle_def)

text \<open>Dyadic literals of at most 53 bits are fixed points.\<close>

lemma f64r_literal_aux:
  assumes "int c dvd 2 ^ 40" and "\<bar>n\<bar> * (2 ^ 40 div int c) \<le> 2 ^ 53" and "0 < c" and "n \<noteq> 0"
  shows "f64r (of_int n / of_nat c) = of_int n / of_nat c"
proof -
  have c: "int c \<le> 2 ^ 40" using assms(1) by (intro zdvd_imp_le) auto
  have "f64_tiny \<le> 2 powi (-40)" unfolding f64_tiny_def by (intro power_int_increasing) auto
  also have "\<dots> \<le> 1 / of_nat c"
  proof -
    have "(of_nat c :: rat) \<le> 2 ^ 40" using c by (metis of_int_le_iff of_int_numeral of_int_of_nat_eq of_int_power)
    then show ?thesis using assms(3) by (simp add: power_int_def field_simps)
  qed
  also have "\<dots> \<le> \<bar>of_int n / of_nat c\<bar>" using assms(3,4) by (simp add: abs_divide divide_right_mono)
  finally have "\<not> \<bar>of_int n / of_nat c :: rat\<bar> < f64_tiny" by simp
  then show ?thesis using siground_literal [of 2 53 c 40 n] assms(1-3) by (simp add: f64r_def)
qed

lemma f64r_literal:
  "numeral b dvd (2::int) ^ 40 \<Longrightarrow> numeral a * (2 ^ 40 div numeral b) \<le> (2::int) ^ 53 \<Longrightarrow>
    f64r (numeral a / numeral b) = numeral a / numeral b"
  "numeral b dvd (2::int) ^ 40 \<Longrightarrow> f64r (1 / numeral b) = 1 / numeral b"
  "(numeral a :: int) \<le> 2 ^ 53 \<Longrightarrow> f64r (numeral a) = numeral a"
  "f64r 1 = 1"
proof -
  show "f64r (numeral a / numeral b) = numeral a / numeral b"
    if "numeral b dvd (2::int) ^ 40" "numeral a * (2 ^ 40 div numeral b) \<le> (2::int) ^ 53"
    using f64r_literal_aux [of "numeral b" "numeral a"] that by simp
  show "f64r (1 / numeral b) = 1 / numeral b" if "numeral b dvd (2::int) ^ 40"
  proof -
    have "(2::int) ^ 40 div numeral b \<le> 2 ^ 40" using zdiv_mono2 [of "2 ^ 40" 1 "numeral b"] by simp
    then show ?thesis using f64r_literal_aux [of "numeral b" 1] that by simp
  qed
  show "f64r (numeral a) = numeral a" if "(numeral a :: int) \<le> 2 ^ 53"
  proof -
    have "f64_tiny \<le> 2 powi 0" unfolding f64_tiny_def by (intro power_int_increasing) auto
    also have "\<dots> \<le> (numeral a :: rat)" by simp
    finally show ?thesis using siground_fix [of 2 53 "numeral a" 0] that by (simp add: f64r_def)
  qed
  show "f64r 1 = 1" using f64r_literal_aux [of 1 1] by simp
qed

lemma fround_literal:
  "numeral b dvd (2::int) ^ 40 \<Longrightarrow> numeral a * (2 ^ 40 div numeral b) \<le> (2::int) ^ 53 \<Longrightarrow>
    (numeral a / numeral b :: rat) < 2 ^ 1024 \<Longrightarrow>
    fround (numeral a / numeral b) = Fin (numeral a / numeral b)"
  "(numeral a :: int) \<le> 2 ^ 53 \<Longrightarrow> (numeral a :: rat) < 2 ^ 1024 \<Longrightarrow>
    fround (numeral a) = Fin (numeral a)"
  "fround 1 = Fin 1"
  by (simp_all add: fround_eq_Fin f64r_literal f64_big_def)

end
