(* ===== verification/Money.thy ===== *)
theory Money
  imports PyDecimal PyFloat
begin

section \<open>Money precision (core_lib/types/money.py) and the normalizer gateway\<close>

text \<open>
  The precision constants and half-even quantizers of \<open>types/money.py\<close>, and \<open>to_decimal\<close> of
  \<open>execution/normalizer.py\<close>, the one conversion from a float to a quantized Decimal.
  \<open>is_q8\<close> says that a value is a multiple of \<open>0.00000001\<close> that fits 28 digits, which is what
  every stored amount is. The main fact is that sums and differences of such amounts are
  exact whenever they are accepted.
\<close>

definition Q_PRICE :: decimal where "Q_PRICE = 1 / 10 ^ 8"
definition Q_AMOUNT :: decimal where "Q_AMOUNT = 1 / 10 ^ 8"
definition Q_PERCENT :: decimal where "Q_PERCENT = 1 / 10 ^ 2"
definition Q_RATIO :: decimal where "Q_RATIO = 1 / 10 ^ 4"
definition Q_FEE_RATE :: decimal where "Q_FEE_RATE = 1 / 10 ^ 4"

definition quantize_price :: "decimal \<Rightarrow> decimal res" where
  "quantize_price value = quantize_even Q_PRICE value"

definition quantize_amount :: "decimal \<Rightarrow> decimal res" where
  "quantize_amount value = quantize_even Q_AMOUNT value"

definition quantize_percent :: "decimal \<Rightarrow> decimal res" where
  "quantize_percent value = quantize_even Q_PERCENT value"

definition quantize_ratio :: "decimal \<Rightarrow> decimal res" where
  "quantize_ratio value = quantize_even Q_RATIO value"

definition quantize_fee_rate :: "decimal \<Rightarrow> decimal res" where
  "quantize_fee_rate value = quantize_even Q_FEE_RATE value"

text \<open>
  \<open>Decimal(str(value))\<close> then the quantizer. An infinite value makes \<open>quantize\<close> raise; NaN
  would pass \<open>quantize\<close> and make the next comparison raise the same exception.
\<close>

fun to_decimal :: "pyfloat \<Rightarrow> (decimal \<Rightarrow> decimal res) \<Rightarrow> decimal res" where
  "to_decimal (Fin x) quantizer = quantizer (repr_value x)"
| "to_decimal _ quantizer = Inl InvalidOperation"

definition is_q8 :: "decimal \<Rightarrow> bool" where
  "is_q8 x \<longleftrightarrow> grid Q_AMOUNT x = x \<and> \<bar>x\<bar> < 10 ^ 20"

lemma Q_pos [simp]: "0 < Q_AMOUNT" "Q_AMOUNT \<noteq> 0"
  by (simp_all add: Q_AMOUNT_def)

lemma quantize_price_amount: "quantize_price = quantize_amount"
  by (simp add: fun_eq_iff quantize_price_def quantize_amount_def Q_PRICE_def Q_AMOUNT_def)

interpretation q8: rounding "grid Q_AMOUNT"
  by (rule rounding_grid) simp

lemma quantize_eq_Inr: "quantize_amount x = Inr y \<longleftrightarrow> y = grid Q_AMOUNT x \<and> \<bar>y\<bar> < 10 ^ 20"
  by (auto simp: quantize_amount_def quantize_even_eq_Inr Q_AMOUNT_def)

lemma quantize_is_q8: "quantize_amount x = Inr y \<Longrightarrow> is_q8 y"
  by (auto simp: quantize_eq_Inr is_q8_def grid_idem)

lemma quantize_q8 [simp]: "is_q8 x \<Longrightarrow> quantize_amount x = Inr x"
  by (simp add: quantize_eq_Inr is_q8_def)

lemma is_q8_0 [simp]: "is_q8 0"
  by (simp add: is_q8_def)

lemma is_q8_minus: "is_q8 x \<Longrightarrow> is_q8 (- x)"
  by (simp add: is_q8_def grid_minus)

lemma is_q8E:
  assumes "is_q8 x"
  obtains n where "x = of_int n * Q_AMOUNT" and "\<bar>n\<bar> < 10 ^ 28"
proof -
  from assms have x: "grid Q_AMOUNT x = x" and b: "\<bar>x\<bar> < 10 ^ 20" by (auto simp: is_q8_def)
  define n where "n = rhe (x / Q_AMOUNT)"
  have xn: "x = of_int n * Q_AMOUNT" using x by (simp add: grid_def n_def)
  have "\<bar>of_int n :: rat\<bar> < 10 ^ 28"
    using b by (simp add: xn Q_AMOUNT_def abs_mult)
  then have "\<bar>n\<bar> < 10 ^ 28" by (metis of_int_abs of_int_less_iff of_int_numeral of_int_power)
  then show thesis using that xn by blast
qed

lemma is_q8_dctx: "is_q8 x \<Longrightarrow> dctx x = x"
proof -
  assume "is_q8 x"
  then obtain n where n: "x = of_int n * Q_AMOUNT" "\<bar>n\<bar> < 10 ^ 28" by (rule is_q8E)
  have Q: "Q_AMOUNT = 10 powi (-8)" by (simp add: Q_AMOUNT_def power_int_def power_one_over)
  show ?thesis unfolding n(1) Q by (rule dctx_fix) (use n(2) in simp)
qed

text \<open>Sums of stored amounts: what the quantizer accepts is the exact sum.\<close>

lemma grid_sum:
  assumes "grid u a = a" and "grid u b = b" and "u \<noteq> 0"
  shows "grid u (a + b) = a + b"
proof -
  obtain m n where "a = of_int m * u" and "b = of_int n * u"
    using assms by (metis grid_is_multiple)
  then have "a + b = of_int (m + n) * u" by (simp add: algebra_simps)
  then show ?thesis using assms(3) by (metis grid_multiple)
qed

lemma dctx_large: "10 ^ 20 \<le> \<bar>x\<bar> \<Longrightarrow> 10 ^ 20 \<le> \<bar>dctx x\<bar>"
proof -
  assume "10 ^ 20 \<le> \<bar>x\<bar>"
  moreover have "dctx (10 ^ 20) = 10 ^ 20" using dctx_fix [of 1 20] by (simp add: power_int_def)
  ultimately have "10 ^ 20 \<le> dctx \<bar>x\<bar>" by (metis dec.rnd_mono)
  then show ?thesis by (simp add: dec.rnd_abs)
qed

lemma grid_large: "10 ^ 20 \<le> \<bar>x\<bar> \<Longrightarrow> 10 ^ 20 \<le> \<bar>grid Q_AMOUNT x\<bar>"
proof -
  assume "10 ^ 20 \<le> \<bar>x\<bar>"
  moreover have "grid Q_AMOUNT (10 ^ 20) = 10 ^ 20"
    using grid_multiple [of Q_AMOUNT "10 ^ 28"] by (simp add: Q_AMOUNT_def)
  ultimately have "10 ^ 20 \<le> grid Q_AMOUNT \<bar>x\<bar>" by (metis q8.rnd_mono)
  then show ?thesis by (simp add: q8.rnd_abs)
qed

lemma quantize_dctx_exact:
  assumes "grid Q_AMOUNT s = s"
  shows "quantize_amount (dctx s) = Inr c \<longleftrightarrow> c = s \<and> \<bar>s\<bar> < 10 ^ 20"
proof (cases "\<bar>s\<bar> < 10 ^ 20")
  case True
  then have "is_q8 s" using assms by (simp add: is_q8_def)
  then show ?thesis using True by (auto simp: is_q8_dctx)
next
  case False
  then have "10 ^ 20 \<le> \<bar>grid Q_AMOUNT (dctx s)\<bar>" by (intro grid_large dctx_large) simp
  then show ?thesis using False by (auto simp: quantize_eq_Inr)
qed

lemma quantize_add:
  assumes "is_q8 a" and "is_q8 b"
  shows "quantize_amount (dadd a b) = Inr c \<longleftrightarrow> c = a + b \<and> \<bar>a + b\<bar> < 10 ^ 20"
  unfolding dadd_def
  by (rule quantize_dctx_exact, rule grid_sum) (use assms in \<open>auto simp: is_q8_def\<close>)

lemma quantize_sub:
  assumes "is_q8 a" and "is_q8 b"
  shows "quantize_amount (dsub a b) = Inr c \<longleftrightarrow> c = a - b \<and> \<bar>a - b\<bar> < 10 ^ 20"
  using quantize_add [OF assms(1) is_q8_minus [OF assms(2)]] by (simp add: dadd_def dsub_def)

lemma is_q8_add: "is_q8 a \<Longrightarrow> is_q8 b \<Longrightarrow> \<bar>a + b\<bar> < 10 ^ 20 \<Longrightarrow> is_q8 (a + b)"
  by (auto simp: is_q8_def intro: grid_sum)

lemma is_q8_sub: "is_q8 a \<Longrightarrow> is_q8 b \<Longrightarrow> \<bar>a - b\<bar> < 10 ^ 20 \<Longrightarrow> is_q8 (a - b)"
  using is_q8_add [of a "- b"] by (simp add: is_q8_minus)

lemma quantize_nonneg: "quantize_amount x = Inr y \<Longrightarrow> 0 \<le> x \<Longrightarrow> 0 \<le> y"
  by (auto simp: quantize_eq_Inr q8.rnd_nonneg)

lemma quantize_pos_imp: "quantize_amount x = Inr y \<Longrightarrow> 0 < y \<Longrightarrow> 0 < x"
  by (auto simp: quantize_eq_Inr q8.rnd_pos_imp)

lemma quantize_mono:
  "quantize_amount x = Inr x' \<Longrightarrow> quantize_amount y = Inr y' \<Longrightarrow> x \<le> y \<Longrightarrow> x' \<le> y'"
  by (auto simp: quantize_eq_Inr q8.rnd_mono)

lemma quantize_le_q8: "quantize_amount x = Inr y \<Longrightarrow> is_q8 b \<Longrightarrow> x \<le> b \<Longrightarrow> y \<le> b"
  using quantize_mono [of x y b b] by simp

lemma quantize_ge_q8: "quantize_amount x = Inr y \<Longrightarrow> is_q8 b \<Longrightarrow> b \<le> x \<Longrightarrow> b \<le> y"
  using quantize_mono [of b b x y] by simp

lemma to_decimal_is_q8: "to_decimal x quantize_amount = Inr y \<Longrightarrow> is_q8 y"
  by (cases x) (auto dest: quantize_is_q8)

lemma quantize_lower_ok:
  assumes "quantize_amount y = Inr y'" and "0 \<le> x" and "x \<le> y"
  shows "\<exists>x'. quantize_amount x = Inr x'"
proof -
  have "grid Q_AMOUNT x \<le> grid Q_AMOUNT y" using assms by (intro q8.rnd_mono)
  then show ?thesis
    using assms q8.rnd_nonneg [of x] by (auto simp: quantize_eq_Inr)
qed

end
