(* ===== verification/Orders.thy ===== *)
theory Orders
  imports Money
begin

section \<open>Orders and their lifecycle (core_lib/types/enums.py, order.py)\<close>

text \<open>
  The enums, the \<open>Order\<close> dataclass with the checks of its \<open>__post_init__\<close>, its transition
  table and the methods that move it through its lifecycle, and the \<open>OrderRequest\<close> that
  precedes normalization. A method that raises leaves no order behind: its callers drop the
  object. A UUID made by \<open>uuid5\<close> is represented by the name it is derived from.
\<close>

datatype order_type = MARKET | LIMIT | STOP_MARKET | TAKE_PROFIT_MARKET | TRAILING_STOP_MARKET

datatype order_side = BUY | SELL

datatype order_status =
  NEW | PARTIALLY_FILLED | PENDING_CANCEL | FILLED | CANCELLED | EXPIRED | REJECTED | FAILED

datatype position_side = LONG | SHORT | BOTH

datatype margin_type = CROSS | ISOLATED

datatype market_type = SPOT | FUTURES

datatype exit_reason =
    STOP_LOSS | TAKE_PROFIT | TRAILING_STOP | LIQUIDATION
  | SIGNAL_EXIT | REVERSAL | DATA_GAP | END_OF_DATA

fun is_terminal :: "order_status \<Rightarrow> bool" where
  "is_terminal s = (s \<in> set [FILLED, CANCELLED, EXPIRED, REJECTED, FAILED])"

fun is_active :: "order_status \<Rightarrow> bool" where
  "is_active s = (s \<in> set [NEW, PARTIALLY_FILLED, PENDING_CANCEL])"

fun VALID_TRANSITIONS :: "order_status \<Rightarrow> order_status list" where
  "VALID_TRANSITIONS NEW =
     [PARTIALLY_FILLED, FILLED, PENDING_CANCEL, CANCELLED, REJECTED, EXPIRED, FAILED]"
| "VALID_TRANSITIONS PARTIALLY_FILLED =
     [PARTIALLY_FILLED, FILLED, PENDING_CANCEL, CANCELLED, FAILED]"
| "VALID_TRANSITIONS PENDING_CANCEL = [CANCELLED, FILLED, FAILED]"
| "VALID_TRANSITIONS FILLED = []"
| "VALID_TRANSITIONS CANCELLED = []"
| "VALID_TRANSITIONS EXPIRED = []"
| "VALID_TRANSITIONS REJECTED = []"
| "VALID_TRANSITIONS FAILED = []"

definition can_transition :: "order_status \<Rightarrow> order_status \<Rightarrow> bool" where
  "can_transition current target \<longleftrightarrow> target \<in> set (VALID_TRANSITIONS current)"

subsection \<open>Order requests and identifiers\<close>

record order_request =
  rq_symbol :: string
  rq_side :: order_side
  rq_order_type :: order_type
  rq_quantity :: pyfloat
  rq_price :: "pyfloat option"
  rq_stop_price :: "pyfloat option"
  rq_market_type :: market_type
  rq_position_side :: position_side
  rq_reduce_only :: bool
  rq_close_position :: bool
  rq_time_in_force :: string

datatype uuid_name =
    RequestName order_request
  | ExitName string int exit_reason
  | PaperName string string bool bool

datatype order_id = GivenId string | UuidId uuid_name | SyntheticId uuid_name | PaperId uuid_name
  | SequenceId nat

fun optional_positive :: "pyfloat option \<Rightarrow> bool" where
  "optional_positive None = True"
| "optional_positive (Some v) = (\<not> fle v (Fin 0))"

definition make_order_request :: "order_request \<Rightarrow> order_request res" where
  "make_order_request r =
     raise_if (fle (rq_quantity r) (Fin 0)) (ValueError ''quantity'')
     (raise_if (\<not> optional_positive (rq_price r)) (ValueError ''price'')
     (raise_if (\<not> optional_positive (rq_stop_price r)) (ValueError ''stop_price'')
     (raise_if (rq_reduce_only r \<and> rq_close_position r) (ValueError ''exclusive'')
     (Inr r))))"

subsection \<open>Orders\<close>

record order =
  o_id :: order_id
  o_wallet_id :: "string option"
  o_signal_id :: "string option"
  o_order_type :: order_type
  o_side :: order_side
  o_symbol :: string
  o_quantity :: decimal
  o_price :: "decimal option"
  o_filled_quantity :: decimal
  o_average_filled_price :: "decimal option"
  o_status :: order_status
  o_fee :: decimal
  o_client_order_id :: uuid_name
  o_market_type :: market_type
  o_position_side :: position_side
  o_reduce_only :: bool
  o_close_position :: bool
  o_stop_price :: "decimal option"
  o_time_in_force :: string

fun quantize_option :: "decimal option \<Rightarrow> decimal option res" where
  "quantize_option None = Inr None"
| "quantize_option (Some p) = bindR (quantize_price p) (\<lambda>q. Inr (Some q))"

definition validate_fill_status :: "order \<Rightarrow> order res" where
  "validate_fill_status ord =
     raise_if (if o_filled_quantity ord = 0 then o_average_filled_price ord \<noteq> None
               else (case o_average_filled_price ord of None \<Rightarrow> True | Some p \<Rightarrow> p \<le> 0))
       (ValueError ''average'')
     (raise_if (o_status ord = PARTIALLY_FILLED \<and>
         \<not> (0 < o_filled_quantity ord \<and> o_filled_quantity ord < o_quantity ord))
       (ValueError ''partial'')
     (raise_if (o_status ord = FILLED \<and> o_filled_quantity ord \<noteq> o_quantity ord)
       (ValueError ''filled'')
     (raise_if (o_status ord \<noteq> FILLED \<and> o_filled_quantity ord = o_quantity ord)
       (ValueError ''only filled'')
     (raise_if (o_status ord \<in> set [NEW, EXPIRED, REJECTED] \<and> o_filled_quantity ord \<noteq> 0)
       (ValueError ''unfilled'')
     (Inr ord)))))"

definition make_order :: "order \<Rightarrow> order res" where
  "make_order r =
     bindR (quantize_amount (o_quantity r)) (\<lambda>q.
     bindR (quantize_amount (o_filled_quantity r)) (\<lambda>fq.
     bindR (quantize_amount (o_fee r)) (\<lambda>fee.
     bindR (quantize_option (o_price r)) (\<lambda>price.
     bindR (quantize_option (o_average_filled_price r)) (\<lambda>avg.
     bindR (quantize_option (o_stop_price r)) (\<lambda>stop.
     raise_if (q \<le> 0) (ValueError ''quantity'')
     (raise_if (fq < 0) (ValueError ''filled_quantity'')
     (raise_if (q < fq) (ValueError ''overfilled'')
     (raise_if (fee < 0) (ValueError ''fee'')
     (raise_if (o_reduce_only r \<and> o_close_position r) (ValueError ''exclusive'')
     (validate_fill_status (r\<lparr>o_quantity := q, o_filled_quantity := fq, o_fee := fee,
        o_price := price, o_average_filled_price := avg, o_stop_price := stop\<rparr>)))))))))))) "

definition transition_to :: "order \<Rightarrow> order_status \<Rightarrow> order res" where
  "transition_to ord new_status =
     raise_if (new_status \<notin> set (VALID_TRANSITIONS (o_status ord))) (ValueError ''transition'')
     (Inr (ord\<lparr>o_status := new_status\<rparr>))"

definition mark_as_filled :: "order \<Rightarrow> decimal \<Rightarrow> decimal \<Rightarrow> order res" where
  "mark_as_filled ord filled_quantity average_price =
     bindR (quantize_amount filled_quantity) (\<lambda>q.
     bindR (quantize_price average_price) (\<lambda>p.
     raise_if (q \<noteq> o_quantity ord) (ValueError ''equal'')
     (raise_if (q < o_filled_quantity ord) (ValueError ''decrease'')
     (raise_if (p \<le> 0) (ValueError ''average'')
     (bindR (transition_to ord FILLED) (\<lambda>o'.
      validate_fill_status (o'\<lparr>o_filled_quantity := q, o_average_filled_price := Some p\<rparr>)))))))"

definition mark_as_partially_filled :: "order \<Rightarrow> decimal \<Rightarrow> decimal \<Rightarrow> order res" where
  "mark_as_partially_filled ord filled_quantity average_price =
     bindR (quantize_amount filled_quantity) (\<lambda>q.
     bindR (quantize_price average_price) (\<lambda>p.
     raise_if (\<not> (0 < q \<and> q < o_quantity ord)) (ValueError ''partial'')
     (raise_if (q < o_filled_quantity ord) (ValueError ''decrease'')
     (raise_if (p \<le> 0) (ValueError ''average'')
     (bindR (transition_to ord PARTIALLY_FILLED) (\<lambda>o'.
      validate_fill_status (o'\<lparr>o_filled_quantity := q, o_average_filled_price := Some p\<rparr>)))))))"

definition mark_as_cancelled :: "order \<Rightarrow> order res" where
  "mark_as_cancelled ord = bindR (transition_to ord CANCELLED) validate_fill_status"

definition remaining_quantity :: "order \<Rightarrow> decimal res" where
  "remaining_quantity ord = quantize_amount (dsub (o_quantity ord) (o_filled_quantity ord))"

subsection \<open>Well-formed orders\<close>

definition q8_option :: "decimal option \<Rightarrow> bool" where
  "q8_option p = (case p of None \<Rightarrow> True | Some q \<Rightarrow> is_q8 q)"

text \<open>What the constructor establishes and every method keeps.\<close>

definition order_ok :: "order \<Rightarrow> bool" where
  "order_ok ord \<longleftrightarrow>
     is_q8 (o_quantity ord) \<and> is_q8 (o_filled_quantity ord) \<and> is_q8 (o_fee ord) \<and>
     q8_option (o_price ord) \<and> q8_option (o_average_filled_price ord) \<and> q8_option (o_stop_price ord) \<and>
     0 < o_quantity ord \<and> 0 \<le> o_filled_quantity ord \<and> o_filled_quantity ord \<le> o_quantity ord \<and>
     0 \<le> o_fee ord \<and> \<not> (o_reduce_only ord \<and> o_close_position ord) \<and>
     validate_fill_status ord = Inr ord"

lemma validate_fill_status_Inr: "validate_fill_status ord = Inr o' \<Longrightarrow> o' = ord"
  by (simp add: validate_fill_status_def)

lemma quantize_option_q8: "quantize_option p = Inr p' \<Longrightarrow> q8_option p'"
  by (cases p) (auto simp: q8_option_def quantize_price_amount bindR_eq_Inr dest: quantize_is_q8)

lemma make_order_ok: "make_order r = Inr ord \<Longrightarrow> order_ok ord"
  unfolding make_order_def bindR_eq_Inr raise_if_eq_Inr
  by (elim exE conjE, frule validate_fill_status_Inr)
     (auto simp: order_ok_def dest: quantize_is_q8 quantize_option_q8)

lemma transition_to_Inr:
  "transition_to ord s = Inr o' \<longleftrightarrow> can_transition (o_status ord) s \<and> o' = ord\<lparr>o_status := s\<rparr>"
  by (auto simp: transition_to_def can_transition_def)

lemma mark_as_filled_Inr:
  assumes "mark_as_filled ord q p = Inr o'"
  obtains p' where "quantize_amount q = Inr (o_quantity ord)" and "quantize_price p = Inr p'"
    and "0 < p'" and "can_transition (o_status ord) FILLED"
    and "o' = ord\<lparr>o_status := FILLED, o_filled_quantity := o_quantity ord, o_average_filled_price := Some p'\<rparr>"
    and "validate_fill_status o' = Inr o'"
proof -
  from assms obtain q' p' where a: "quantize_amount q = Inr q'" "quantize_price p = Inr p'"
    "q' = o_quantity ord" "\<not> p' \<le> 0" "can_transition (o_status ord) FILLED"
    and v: "validate_fill_status (ord\<lparr>o_status := FILLED, o_filled_quantity := q',
      o_average_filled_price := Some p'\<rparr>) = Inr o'"
    unfolding mark_as_filled_def bindR_eq_Inr raise_if_eq_Inr transition_to_Inr by auto
  then show thesis using that [of p'] validate_fill_status_Inr [OF v] v by auto
qed

lemma mark_as_filled_ok:
  assumes "mark_as_filled ord q p = Inr o'" and "order_ok ord"
  shows "order_ok o'"
  using assms by (auto simp: order_ok_def q8_option_def quantize_price_amount
      elim!: mark_as_filled_Inr dest: quantize_is_q8)

lemma mark_as_partially_filled_Inr:
  assumes "mark_as_partially_filled ord q p = Inr o'"
  obtains q' p' where "quantize_amount q = Inr q'" and "quantize_price p = Inr p'"
    and "0 < p'" and "0 < q'" and "q' < o_quantity ord" and "o_filled_quantity ord \<le> q'"
    and "can_transition (o_status ord) PARTIALLY_FILLED"
    and "o' = ord\<lparr>o_status := PARTIALLY_FILLED, o_filled_quantity := q', o_average_filled_price := Some p'\<rparr>"
    and "validate_fill_status o' = Inr o'"
proof -
  from assms obtain q' p' where a: "quantize_amount q = Inr q'" "quantize_price p = Inr p'"
    "0 < q'" "q' < o_quantity ord" "\<not> q' < o_filled_quantity ord" "\<not> p' \<le> 0"
    "can_transition (o_status ord) PARTIALLY_FILLED"
    and v: "validate_fill_status (ord\<lparr>o_status := PARTIALLY_FILLED, o_filled_quantity := q',
      o_average_filled_price := Some p'\<rparr>) = Inr o'"
    unfolding mark_as_partially_filled_def bindR_eq_Inr raise_if_eq_Inr transition_to_Inr by auto
  then show thesis using that [of q' p'] validate_fill_status_Inr [OF v] v by auto
qed

lemma mark_as_partially_filled_ok:
  assumes "mark_as_partially_filled ord q p = Inr o'" and "order_ok ord"
  shows "order_ok o'"
  using assms by (auto simp: order_ok_def q8_option_def quantize_price_amount
      elim!: mark_as_partially_filled_Inr dest: quantize_is_q8)

lemma mark_as_cancelled_Inr:
  assumes "mark_as_cancelled ord = Inr o'"
  obtains "can_transition (o_status ord) CANCELLED" and "o' = ord\<lparr>o_status := CANCELLED\<rparr>"
    and "validate_fill_status o' = Inr o'"
  using assms validate_fill_status_Inr [of "ord\<lparr>o_status := CANCELLED\<rparr>" o']
  by (auto simp: mark_as_cancelled_def bindR_eq_Inr transition_to_Inr)

lemma mark_as_cancelled_ok: "mark_as_cancelled ord = Inr o' \<Longrightarrow> order_ok ord \<Longrightarrow> order_ok o'"
  by (auto simp: order_ok_def elim!: mark_as_cancelled_Inr)

lemmas mark_elims = mark_as_filled_Inr mark_as_partially_filled_Inr mark_as_cancelled_Inr

lemma remaining_quantity_ok:
  assumes "order_ok ord"
  shows "remaining_quantity ord = Inr (o_quantity ord - o_filled_quantity ord)"
  using assms quantize_sub [of "o_quantity ord" "o_filled_quantity ord"]
  by (auto simp: order_ok_def remaining_quantity_def is_q8_def)

subsection \<open>Lifecycle runs\<close>

text \<open>
  One event of an order's life: a partial or full fill, a cancellation, or the truncation
  that \<open>match\<close> applies to the quantity before it records the fill (the assignments
  \<open>order.quantity = quantize_amount(filled_quantity + quantity)\<close> and \<open>order.fee = ...\<close>).
\<close>

inductive order_step :: "order \<Rightarrow> order \<Rightarrow> bool" where
  partial: "mark_as_partially_filled ord q p = Inr o' \<Longrightarrow> order_step ord o'"
| full: "mark_as_filled ord q p = Inr o' \<Longrightarrow> order_step ord o'"
| cancel: "mark_as_cancelled ord = Inr o' \<Longrightarrow> order_step ord o'"
| truncate: "\<not> is_terminal (o_status ord) \<Longrightarrow> 0 < q \<Longrightarrow> is_q8 q \<Longrightarrow>
    q \<le> o_quantity ord - o_filled_quantity ord \<Longrightarrow>
    order_step ord (ord\<lparr>o_quantity := o_filled_quantity ord + q\<rparr>)"
| charge: "\<not> is_terminal (o_status ord) \<or> o_status ord = FILLED \<Longrightarrow> 0 \<le> f \<Longrightarrow>
    quantize_amount (dadd (o_fee ord) f) = Inr fee \<Longrightarrow> order_step ord (ord\<lparr>o_fee := fee\<rparr>)"

lemma order_step_ok:
  assumes "order_step ord o'" and "order_ok ord"
  shows "order_ok o'"
  using assms
proof (induction rule: order_step.induct)
  case (truncate ord q)
  then have "is_q8 (o_filled_quantity ord + q)"
    by (intro is_q8_add) (auto simp: order_ok_def is_q8_def)
  then show ?case using truncate by (auto simp: order_ok_def validate_fill_status_def)
next
  case (charge ord f fee)
  then have "0 \<le> fee" using quantize_nonneg [OF charge(3)]
    by (simp add: order_ok_def dadd_nonneg)
  then show ?case using charge by (auto simp: order_ok_def validate_fill_status_def dest: quantize_is_q8)
qed (auto intro: mark_as_filled_ok mark_as_partially_filled_ok mark_as_cancelled_ok)

lemma order_step_status:
  assumes "order_step ord o'"
  shows "o_status o' = o_status ord \<or> can_transition (o_status ord) (o_status o')"
  using assms by (induction rule: order_step.induct)
    (auto elim!: mark_elims)

lemma order_step_filled_mono:
  assumes "order_step ord o'" and "order_ok ord"
  shows "o_filled_quantity ord \<le> o_filled_quantity o' \<and> o_quantity o' \<le> o_quantity ord"
  using assms by (induction rule: order_step.induct)
    (auto elim!: mark_elims
      simp: order_ok_def)

inductive order_run :: "order \<Rightarrow> order \<Rightarrow> bool" where
  run_start: "order_run ord ord"
| step: "order_run ord o' \<Longrightarrow> order_step o' o'' \<Longrightarrow> order_run ord o''"

lemma order_run_ok: "order_run ord o' \<Longrightarrow> order_ok ord \<Longrightarrow> order_ok o'"
  by (induction rule: order_run.induct) (auto intro: order_step_ok)

lemma order_run_mono:
  "order_run ord o' \<Longrightarrow> order_ok ord \<Longrightarrow>
    o_filled_quantity ord \<le> o_filled_quantity o' \<and> o_quantity o' \<le> o_quantity ord"
proof (induction rule: order_run.induct)
  case (step ord o' o'')
  then show ?case using order_step_filled_mono [of o' o''] order_run_ok [of ord o'] by auto
qed auto

lemma terminal_no_transition: "is_terminal s \<Longrightarrow> \<not> can_transition s s'"
  by (cases s) (auto simp: can_transition_def)

lemma order_step_terminal:
  assumes "order_step ord o'" and "is_terminal (o_status ord)"
  shows "o_status o' = o_status ord" and "o_filled_quantity o' = o_filled_quantity ord"
    and "o_quantity o' = o_quantity ord"
  using assms terminal_no_transition [of "o_status ord"]
  by (induction rule: order_step.induct)
    (auto elim!: mark_elims)

lemma order_run_terminal:
  "order_run ord o' \<Longrightarrow> is_terminal (o_status ord) \<Longrightarrow>
    o_status o' = o_status ord \<and> o_filled_quantity o' = o_filled_quantity ord \<and>
    o_quantity o' = o_quantity ord"
proof (induction rule: order_run.induct)
  case (step ord o' o'')
  then show ?case using order_step_terminal [of o' o''] by simp
qed auto

lemma active_xor_terminal: "is_active s \<noteq> is_terminal s"
  by (cases s) auto

end
