(* ===== verification/Candle.thy ===== *)
theory Candle
  imports Orders
begin

section \<open>Candles (core_lib/types/candle.py)\<close>

text \<open>
  The unified candle and its validation. An instant is the number of microseconds since the
  epoch in UTC: every datetime of the model is timezone-aware, so the checks that refuse naive
  datetimes are discharged by the type. A timeframe is the text the code parses: a positive
  count without leading zero and one of the units m, h, d.
\<close>

type_synonym instant = int

definition minute_us :: int where "minute_us = 60 * 1000000"

record candle =
  c_symbol :: string
  c_exchange :: string
  c_timeframe :: string
  c_open_time :: instant
  c_close_time :: instant
  c_open :: pyfloat
  c_high :: pyfloat
  c_low :: pyfloat
  c_close :: pyfloat
  c_volume :: pyfloat
  c_quote_volume :: "pyfloat option"
  c_trade_count :: "int option"

definition digit_value :: "char \<Rightarrow> nat" where
  "digit_value ch = of_char ch - 48"

definition is_digit :: "char \<Rightarrow> bool" where
  "is_digit ch \<longleftrightarrow> 48 \<le> (of_char ch :: nat) \<and> (of_char ch :: nat) \<le> 57"

definition decimal_value :: "string \<Rightarrow> nat" where
  "decimal_value ds = fold (\<lambda>ch acc. 10 * acc + digit_value ch) ds 0"

fun unit_minutes :: "char \<Rightarrow> nat option" where
  "unit_minutes ch = (if ch = CHR ''m'' then Some 1 else if ch = CHR ''h'' then Some 60
     else if ch = CHR ''d'' then Some 1440 else None)"

text \<open>The match of \<open>^(?P<count>[1-9]\d*)(?P<unit>[mhd])$\<close>, as a length in minutes.\<close>

definition timeframe_minutes :: "string \<Rightarrow> nat option" where
  "timeframe_minutes tf =
     (if tf = [] then None
      else (case unit_minutes (last tf) of
         None \<Rightarrow> None
       | Some u \<Rightarrow>
           (let ds = butlast tf in
            if ds \<noteq> [] \<and> list_all is_digit ds \<and> hd ds \<noteq> CHR ''0''
            then Some (u * decimal_value ds) else None)))"

definition validate_candle :: "candle \<Rightarrow> unit res" where
  "validate_candle c =
     (case timeframe_minutes (c_timeframe c) of
        None \<Rightarrow> Inl (ValueError ''timeframe'')
      | Some n \<Rightarrow>
     raise_if (c_close_time c \<noteq> c_open_time c + int n * minute_us) (ValueError ''close_time'')
     (raise_if (list_ex (\<lambda>price. fle price (Fin 0)) [c_open c, c_high c, c_low c, c_close c])
       (ValueError ''prices'')
     (raise_if (flt (c_high c) (fmax (c_open c) (c_close c))) (ValueError ''high'')
     (raise_if (flt (fmin (c_open c) (c_close c)) (c_low c)) (ValueError ''low'')
     (raise_if (flt (c_volume c) (Fin 0)) (ValueError ''volume'')
     (raise_if (case c_quote_volume c of None \<Rightarrow> False | Some v \<Rightarrow> flt v (Fin 0))
       (ValueError ''quote_volume'')
     (raise_if (case c_trade_count c of None \<Rightarrow> False | Some n \<Rightarrow> n < 0)
       (ValueError ''trade_count'')
     (Inr ()))))))))"

text \<open>The dataclass constructor: the candle, once validated.\<close>

definition make_candle :: "candle \<Rightarrow> candle res" where
  "make_candle c = bindR (validate_candle c) (\<lambda>_. Inr c)"

text \<open>A candle whose prices are numbers and that the validation accepts.\<close>

definition finite_prices :: "candle \<Rightarrow> bool" where
  "finite_prices c \<longleftrightarrow> list_all is_finite [c_open c, c_high c, c_low c, c_close c]"

lemma is_finiteE: "is_finite x \<Longrightarrow> (\<And>q. x = Fin q \<Longrightarrow> P) \<Longrightarrow> P"
  by (cases x) auto

lemma validate_candle_prices:
  assumes "validate_candle c = Inr ()" and "finite_prices c"
  obtains o' h l k where "c_open c = Fin o'" and "c_high c = Fin h" and "c_low c = Fin l"
    and "c_close c = Fin k" and "0 < l" and "l \<le> o'" and "l \<le> k" and "o' \<le> h" and "k \<le> h"
proof -
  from assms(2) obtain o' h l k where eq: "c_open c = Fin o'" "c_high c = Fin h"
    "c_low c = Fin l" "c_close c = Fin k"
    by (auto simp: finite_prices_def elim!: is_finiteE)
  with assms(1) show thesis
    by (intro that [of o' h l k])
       (auto simp: validate_candle_def fmax_def fmin_def split: option.splits if_splits)
qed

lemma validate_candle_times:
  assumes "validate_candle c = Inr ()"
  obtains n where "timeframe_minutes (c_timeframe c) = Some n"
    and "c_close_time c = c_open_time c + int n * minute_us"
  using assms by (auto simp: validate_candle_def split: option.splits)

lemma fold_digits_pos:
  "0 < acc \<Longrightarrow> 0 < fold (\<lambda>ch acc. 10 * acc + digit_value ch) ds (acc::nat)"
  by (induction ds arbitrary: acc) auto

lemma timeframe_minutes_pos: "timeframe_minutes tf = Some n \<Longrightarrow> 0 < n"
proof -
  assume a: "timeframe_minutes tf = Some n"
  then obtain u where u: "unit_minutes (last tf) = Some u" and n: "n = u * decimal_value (butlast tf)"
    and ds: "butlast tf \<noteq> []" "list_all is_digit (butlast tf)" "hd (butlast tf) \<noteq> CHR ''0''"
    by (auto simp: timeframe_minutes_def Let_def split: if_splits option.splits)
  obtain d rest where b: "butlast tf = d # rest" using ds(1) by (cases "butlast tf") auto
  have "(of_char d :: nat) \<noteq> 48"
  proof
    assume "(of_char d :: nat) = 48"
    then have "(of_char d :: nat) = of_char (CHR ''0'')" by simp
    then have "d = CHR ''0''" by (simp only: of_char_eq_iff)
    then show False using ds(3) b by simp
  qed
  then have "0 < digit_value d" using ds(2) b by (auto simp: is_digit_def digit_value_def)
  then have "0 < decimal_value (butlast tf)" by (simp add: decimal_value_def b fold_digits_pos)
  moreover have "0 < u" using u by (auto split: if_splits)
  ultimately show ?thesis by (simp add: n)
qed

lemma timeframe_minutes_examples:
  "timeframe_minutes ''1m'' = Some 1" "timeframe_minutes ''4h'' = Some 240"
  "timeframe_minutes ''1d'' = Some 1440" "timeframe_minutes ''15m'' = Some 15"
  "timeframe_minutes ''05m'' = None" "timeframe_minutes ''m'' = None"
  by code_simp+

end
