(* ===== verification/Positions.thy ===== *)
theory Positions
  imports Candle
begin

section \<open>Fills and positions (core_lib/types/fill.py, position.py)\<close>

text \<open>
  The explicit execution fact, and the position record with its weighted-average accounting.
  Positions are mutable objects: a method here returns the position after the call. A method
  that raises part-way leaves a half-written object in the code; every caller drops it, so the
  model returns the exception alone.
\<close>

record fill =
  f_order_id :: order_id
  f_symbol :: string
  f_side :: order_side
  f_position_side :: position_side
  f_reference_price :: decimal
  f_price :: decimal
  f_quantity :: decimal
  f_fee :: decimal
  f_slippage :: decimal
  f_liquidity :: string
  f_timestamp :: instant
  f_reduce_only :: bool
  f_exit_reason :: "exit_reason option"
  f_gap_filled :: bool
  f_qty_truncated :: bool

definition make_fill :: "fill \<Rightarrow> fill res" where
  "make_fill f =
     bindR (quantize_price (f_reference_price f)) (\<lambda>reference.
     bindR (quantize_price (f_price f)) (\<lambda>price.
     bindR (quantize_amount (f_quantity f)) (\<lambda>q.
     bindR (quantize_amount (f_fee f)) (\<lambda>fee.
     bindR (quantize_amount (f_slippage f)) (\<lambda>slip.
     raise_if (f_order_id f = GivenId []) (ValueError ''order_id'')
     (raise_if (reference \<le> 0 \<or> price \<le> 0) (ValueError ''prices'')
     (raise_if (q \<le> 0) (ValueError ''quantity'')
     (raise_if (fee < 0 \<or> slip < 0) (ValueError ''costs'')
     (raise_if (f_liquidity f \<notin> {''maker'', ''taker''}) (ValueError ''liquidity'')
     (Inr (f\<lparr>f_reference_price := reference, f_price := price, f_quantity := q,
        f_fee := fee, f_slippage := slip\<rparr>)))))))))))"

subsection \<open>Positions\<close>

record position =
  p_wallet_id :: "string option"
  p_symbol :: string
  p_quantity :: decimal
  p_average_price :: decimal
  p_total_cost :: decimal
  p_current_price :: decimal
  p_unrealized_pnl :: decimal
  p_side :: position_side
  p_market_type :: market_type
  p_leverage :: int
  p_margin_type :: margin_type
  p_margin :: decimal
  p_entry_price :: decimal
  p_mark_price :: decimal
  p_liquidation_price :: decimal
  p_funding_fee_total :: decimal

definition TOTAL_COST_TOLERANCE :: decimal where
  "TOTAL_COST_TOLERANCE = 1 / 100"

definition validate_total_cost :: "position \<Rightarrow> position res" where
  "validate_total_cost p =
     (let expected = dmul (p_quantity p) (p_average_price p) in
      raise_if (TOTAL_COST_TOLERANCE < dabs (dsub (p_total_cost p) expected))
        (ValueError ''total_cost'') (Inr p))"

definition quantize_fields :: "position \<Rightarrow> position res" where
  "quantize_fields p =
     bindR (quantize_amount (p_quantity p)) (\<lambda>quantity.
     bindR (quantize_price (p_average_price p)) (\<lambda>average_price.
     bindR (quantize_amount (p_total_cost p)) (\<lambda>total_cost.
     bindR (quantize_price (p_current_price p)) (\<lambda>current_price.
     bindR (quantize_amount (p_unrealized_pnl p)) (\<lambda>unrealized_pnl.
     bindR (quantize_amount (p_margin p)) (\<lambda>margin.
     bindR (quantize_price (p_entry_price p)) (\<lambda>entry_price.
     bindR (quantize_price (p_mark_price p)) (\<lambda>mark_price.
     bindR (quantize_price (p_liquidation_price p)) (\<lambda>liquidation_price.
     bindR (quantize_amount (p_funding_fee_total p)) (\<lambda>funding_fee_total.
     Inr (p\<lparr>p_quantity := quantity, p_average_price := average_price,
       p_total_cost := total_cost, p_current_price := current_price,
       p_unrealized_pnl := unrealized_pnl, p_margin := margin, p_entry_price := entry_price,
       p_mark_price := mark_price, p_liquidation_price := liquidation_price,
       p_funding_fee_total := funding_fee_total\<rparr>)))))))))))"

definition make_position :: "position \<Rightarrow> position res" where
  "make_position p0 =
     bindR (quantize_fields p0) (\<lambda>p.
     raise_if (p_quantity p < 0) (ValueError ''quantity'')
     (raise_if (p_leverage p \<le> 0) (ValueError ''leverage'')
     (raise_if (p_margin p < 0) (ValueError ''margin'')
     (validate_total_cost p))))"

definition update_price :: "position \<Rightarrow> decimal \<Rightarrow> position res" where
  "update_price p price =
     bindR (quantize_price price) (\<lambda>normalized.
     raise_if (normalized \<le> 0) (ValueError ''mark price'')
     (let p1 = p\<lparr>p_current_price := normalized, p_mark_price := normalized\<rparr> in
      bindR (if p_market_type p1 = FUTURES
        then (let delta = dsub normalized (p_entry_price p1);
                  signed = (if p_side p1 = SHORT then dneg delta else delta)
              in quantize_amount (dmul signed (p_quantity p1)))
        else (let current_value = dmul (p_quantity p1) normalized
              in quantize_amount (dsub current_value (p_total_cost p1)))) (\<lambda>pnl.
      validate_total_cost (p1\<lparr>p_unrealized_pnl := pnl\<rparr>))))"

definition add_quantity :: "position \<Rightarrow> decimal \<Rightarrow> decimal \<Rightarrow> position res" where
  "add_quantity p quantity price =
     bindR (quantize_amount quantity) (\<lambda>q.
     bindR (quantize_price price) (\<lambda>pr.
     raise_if (q \<le> 0) (ValueError ''added quantity'')
     (raise_if (pr \<le> 0) (ValueError ''entry price'')
     (bindR (quantize_amount (dadd (p_quantity p) q)) (\<lambda>new_quantity.
      bindR (quantize_amount (dadd (p_total_cost p) (dmul q pr))) (\<lambda>new_total_cost.
      bindR (ddiv new_total_cost new_quantity) (\<lambda>ratio.
      bindR (quantize_price ratio) (\<lambda>average.
      validate_total_cost (p\<lparr>p_quantity := new_quantity, p_total_cost := new_total_cost,
        p_average_price := average, p_entry_price := average\<rparr>)))))))))"

definition flatten_prices :: "position \<Rightarrow> position" where
  "flatten_prices p = p\<lparr>p_average_price := 0, p_entry_price := 0, p_current_price := 0,
     p_mark_price := 0, p_unrealized_pnl := 0, p_liquidation_price := 0\<rparr>"

definition reduce_quantity :: "position \<Rightarrow> decimal \<Rightarrow> (position \<times> decimal) res" where
  "reduce_quantity p quantity =
     bindR (quantize_amount quantity) (\<lambda>q.
     raise_if (q \<le> 0) (ValueError ''reduced quantity'')
     (raise_if (p_quantity p < q) (ValueError ''reduce too much'')
     (let old_quantity = p_quantity p in
      bindR (ddiv (dmul (p_margin p) q) old_quantity) (\<lambda>share.
      bindR (quantize_amount share) (\<lambda>released.
      bindR (quantize_amount (dsub old_quantity q)) (\<lambda>quantity'.
      bindR (quantize_amount (dmul quantity' (p_average_price p))) (\<lambda>total_cost'.
      bindR (quantize_amount (dsub (p_margin p) released)) (\<lambda>margin'.
      (let p1 = p\<lparr>p_quantity := quantity', p_total_cost := total_cost', p_margin := margin'\<rparr>;
           p2 = (if quantity' = 0 then flatten_prices p1 else p1)
       in bindR (validate_total_cost p2) (\<lambda>p3. Inr (p3, released)))))))))))"

subsection \<open>Well-formed positions\<close>

definition position_ok :: "position \<Rightarrow> bool" where
  "position_ok p \<longleftrightarrow>
     is_q8 (p_quantity p) \<and> is_q8 (p_average_price p) \<and> is_q8 (p_total_cost p) \<and>
     is_q8 (p_current_price p) \<and> is_q8 (p_unrealized_pnl p) \<and> is_q8 (p_margin p) \<and>
     is_q8 (p_entry_price p) \<and> is_q8 (p_mark_price p) \<and> is_q8 (p_liquidation_price p) \<and>
     is_q8 (p_funding_fee_total p) \<and>
     0 \<le> p_quantity p \<and> 0 < p_leverage p \<and> 0 \<le> p_margin p \<and> validate_total_cost p = Inr p"

lemma validate_total_cost_Inr: "validate_total_cost p = Inr p' \<Longrightarrow> p' = p"
  by (simp add: validate_total_cost_def Let_def)

lemma make_fill_ok:
  assumes "make_fill f = Inr f'"
  shows "is_q8 (f_price f')" and "is_q8 (f_quantity f')" and "is_q8 (f_fee f')"
    and "is_q8 (f_slippage f')" and "is_q8 (f_reference_price f')"
    and "0 < f_price f'" and "0 < f_quantity f'" and "0 \<le> f_fee f'" and "0 \<le> f_slippage f'"
  using assms unfolding make_fill_def quantize_price_amount bindR_eq_Inr raise_if_eq_Inr
  by (auto dest: quantize_is_q8)

lemma make_position_ok:
  assumes "make_position p0 = Inr p"
  shows "position_ok p"
proof -
  from assms obtain p1 where q: "quantize_fields p0 = Inr p1" and
    c: "0 \<le> p_quantity p1" "0 < p_leverage p1" "0 \<le> p_margin p1" and
    v: "validate_total_cost p1 = Inr p"
    unfolding make_position_def bindR_eq_Inr raise_if_eq_Inr by auto
  have p: "p = p1" using v by (rule validate_total_cost_Inr)
  have "is_q8 (p_quantity p1)" "is_q8 (p_average_price p1)" "is_q8 (p_total_cost p1)"
    "is_q8 (p_current_price p1)" "is_q8 (p_unrealized_pnl p1)" "is_q8 (p_margin p1)"
    "is_q8 (p_entry_price p1)" "is_q8 (p_mark_price p1)" "is_q8 (p_liquidation_price p1)"
    "is_q8 (p_funding_fee_total p1)"
    using q unfolding quantize_fields_def quantize_price_amount bindR_eq_Inr
    by (auto dest: quantize_is_q8)
  then show ?thesis using c v by (simp add: position_ok_def p)
qed

lemma update_price_Inr:
  assumes "update_price p price = Inr p'"
  obtains n pnl where "quantize_price price = Inr n" and "0 < n" and "is_q8 pnl"
    and "p' = p\<lparr>p_current_price := n, p_mark_price := n, p_unrealized_pnl := pnl\<rparr>"
    and "validate_total_cost p' = Inr p'"
    and "p_market_type p = FUTURES \<Longrightarrow>
      quantize_amount (dmul (if p_side p = SHORT then dneg (dsub n (p_entry_price p))
        else dsub n (p_entry_price p)) (p_quantity p)) = Inr pnl"
proof -
  define m where "m = (\<lambda>n. if p_market_type p = FUTURES
        then quantize_amount (dmul (if p_side p = SHORT then dneg (dsub n (p_entry_price p))
          else dsub n (p_entry_price p)) (p_quantity p))
        else quantize_amount (dsub (dmul (p_quantity p) n) (p_total_cost p)))"
  have u: "update_price p price = bindR (quantize_price price) (\<lambda>n. raise_if (n \<le> 0)
      (ValueError ''mark price'') (bindR (m n) (\<lambda>pnl. validate_total_cost
      (p\<lparr>p_current_price := n, p_mark_price := n, p_unrealized_pnl := pnl\<rparr>))))"
    unfolding update_price_def Let_def m_def by (simp cong: if_cong)
  obtain n pnl where n: "quantize_price price = Inr n" "0 < n" and m: "m n = Inr pnl"
    and v: "validate_total_cost
      (p\<lparr>p_current_price := n, p_mark_price := n, p_unrealized_pnl := pnl\<rparr>) = Inr p'"
    using assms unfolding u by (auto simp: bindR_eq_Inr)
  note pnl = m [unfolded m_def]
  have "is_q8 pnl" using pnl by (auto split: if_splits dest: quantize_is_q8)
  show thesis
  proof (rule that [OF n \<open>is_q8 pnl\<close>])
    show "p' = p\<lparr>p_current_price := n, p_mark_price := n, p_unrealized_pnl := pnl\<rparr>"
      using v by (rule validate_total_cost_Inr)
    show "validate_total_cost p' = Inr p'" using v validate_total_cost_Inr [OF v] by simp
    show "quantize_amount (dmul (if p_side p = SHORT then dneg (dsub n (p_entry_price p))
        else dsub n (p_entry_price p)) (p_quantity p)) = Inr pnl" if "p_market_type p = FUTURES"
      using pnl by (simp only: that simp_thms if_True)
  qed
qed

lemma update_price_ok:
  assumes "update_price p price = Inr p'" and "position_ok p"
  shows "position_ok p'"
proof (rule update_price_Inr [OF assms(1)])
  fix n pnl
  assume "quantize_price price = Inr n" "is_q8 pnl" and v: "validate_total_cost p' = Inr p'"
    and p': "p' = p\<lparr>p_current_price := n, p_mark_price := n, p_unrealized_pnl := pnl\<rparr>"
  then have "is_q8 n" by (simp add: quantize_price_amount quantize_is_q8)
  then show ?thesis using assms(2) v \<open>is_q8 pnl\<close> by (simp add: position_ok_def p')
qed

lemma add_quantity_Inr:
  assumes "add_quantity p quantity price = Inr p'"
  obtains q pr nq nt ratio average where "quantize_amount quantity = Inr q"
    and "quantize_price price = Inr pr" and "0 < q" and "0 < pr"
    and "quantize_amount (dadd (p_quantity p) q) = Inr nq"
    and "quantize_amount (dadd (p_total_cost p) (dmul q pr)) = Inr nt"
    and "ddiv nt nq = Inr ratio" and "quantize_price ratio = Inr average"
    and "p' = p\<lparr>p_quantity := nq, p_total_cost := nt, p_average_price := average,
      p_entry_price := average\<rparr>"
    and "validate_total_cost p' = Inr p'"
proof -
  from assms obtain q pr nq nt ratio average where a: "quantize_amount quantity = Inr q"
    "quantize_price price = Inr pr" "0 < q" "0 < pr"
    "quantize_amount (dadd (p_quantity p) q) = Inr nq"
    "quantize_amount (dadd (p_total_cost p) (dmul q pr)) = Inr nt"
    "ddiv nt nq = Inr ratio" "quantize_price ratio = Inr average"
    and v: "validate_total_cost (p\<lparr>p_quantity := nq, p_total_cost := nt,
      p_average_price := average, p_entry_price := average\<rparr>) = Inr p'"
    unfolding add_quantity_def bindR_eq_Inr raise_if_eq_Inr by auto
  then show thesis using that [of q pr nq nt ratio average] validate_total_cost_Inr [OF v] by auto
qed

lemma add_quantity_ok:
  assumes "add_quantity p quantity price = Inr p'" and "position_ok p"
  shows "position_ok p' \<and> (\<exists>q. quantize_amount quantity = Inr q \<and> p_quantity p' = p_quantity p + q)"
proof (rule add_quantity_Inr [OF assms(1)])
  fix q pr nq nt ratio average
  assume a: "quantize_amount quantity = Inr q" "quantize_price price = Inr pr" "0 < q"
    "quantize_amount (dadd (p_quantity p) q) = Inr nq"
    "quantize_amount (dadd (p_total_cost p) (dmul q pr)) = Inr nt"
    "quantize_price ratio = Inr average"
    and p': "p' = p\<lparr>p_quantity := nq, p_total_cost := nt, p_average_price := average,
      p_entry_price := average\<rparr>" and v: "validate_total_cost p' = Inr p'"
  have "is_q8 (p_quantity p)" "is_q8 q" using assms(2) a(1) by (auto simp: position_ok_def dest: quantize_is_q8)
  then have nq: "nq = p_quantity p + q" using a(4) by (simp add: quantize_add)
  have "is_q8 nq" "is_q8 nt" "is_q8 average"
    using a by (auto simp: quantize_price_amount dest: quantize_is_q8)
  then show ?thesis using assms(2) a v nq p' by (auto simp: position_ok_def)
qed

subsection \<open>Reducing a position\<close>

text \<open>
  The proportional share of the margin is rounded three times; below \<open>10 ^ 18\<close> the context
  errors stay under half a quantum, so a full close releases the whole margin.
\<close>

definition margin_share :: "decimal \<Rightarrow> decimal \<Rightarrow> decimal \<Rightarrow> decimal" where
  "margin_share m q whole = grid Q_AMOUNT (dctx (dmul m q / whole))"

lemma margin_share_mono:
  "0 \<le> m \<Longrightarrow> 0 < whole \<Longrightarrow> q \<le> q' \<Longrightarrow> margin_share m q whole \<le> margin_share m q' whole"
  unfolding margin_share_def
  by (intro q8.rnd_mono dec.rnd_mono divide_right_mono dmul_mono) simp_all

lemma margin_share_nonneg: "0 \<le> m \<Longrightarrow> 0 < whole \<Longrightarrow> 0 \<le> q \<Longrightarrow> 0 \<le> margin_share m q whole"
  unfolding margin_share_def
  by (intro q8.rnd_nonneg dec.rnd_nonneg divide_nonneg_pos dmul_nonneg) simp_all

lemma grid_near:
  assumes "is_q8 m" and "\<bar>x - m\<bar> < Q_AMOUNT / 2"
  shows "grid Q_AMOUNT x = m"
proof -
  obtain n where n: "m = of_int n * Q_AMOUNT" using assms(1) by (rule is_q8E)
  obtain k where k: "grid Q_AMOUNT x = of_int k * Q_AMOUNT" using grid_is_multiple by blast
  have "\<bar>grid Q_AMOUNT x - m\<bar> < Q_AMOUNT"
    using grid_error [of Q_AMOUNT x] assms(2) by (simp add: abs_if split: if_splits)
  moreover have "grid Q_AMOUNT x - m = of_int (k - n) * Q_AMOUNT"
    by (simp add: n k algebra_simps)
  ultimately have "\<bar>of_int (k - n) * Q_AMOUNT\<bar> < Q_AMOUNT" by simp
  then have "\<bar>of_int (k - n) :: rat\<bar> < 1" by (simp add: Q_AMOUNT_def)
  then have "k = n" by linarith
  then show ?thesis by (simp add: n k)
qed

lemma dctx_twice_error:
  assumes "0 \<le> m" and "m \<le> 10 ^ 18" and "0 < c"
  shows "\<bar>dctx (dctx (m * c) / c) - m\<bar> < Q_AMOUNT / 2"
proof -
  define d where "d = dctx (m * c) / c"
  have "\<bar>dctx (m * c) - m * c\<bar> \<le> m * c / (2 * 10 ^ 27)"
    using dctx_error [of "m * c"] assms by (simp add: abs_mult)
  then have "\<bar>dctx (m * c) - m * c\<bar> / c \<le> m / (2 * 10 ^ 27)"
    using assms(3) by (simp add: field_simps)
  moreover have "d - m = (dctx (m * c) - m * c) / c"
    using assms(3) by (simp add: d_def field_simps)
  ultimately have e: "\<bar>d - m\<bar> \<le> m / (2 * 10 ^ 27)"
    using assms(3) by simp
  then have "\<bar>d\<bar> \<le> m + m / (2 * 10 ^ 27)" using assms(1) by linarith
  also have "\<dots> \<le> 2 * m" using assms(1) by simp
  finally have "\<bar>d\<bar> / (2 * 10 ^ 27) \<le> 2 * m / (2 * 10 ^ 27)" by (simp add: divide_right_mono)
  then have "\<bar>dctx d - d\<bar> \<le> m / 10 ^ 27" using dctx_error [of d] by simp
  then have "\<bar>dctx d - m\<bar> \<le> m / 10 ^ 27 + m / (2 * 10 ^ 27)" using e by linarith
  also have "\<dots> \<le> 10 ^ 18 / 10 ^ 27 + 10 ^ 18 / (2 * 10 ^ 27)"
    by (intro add_mono divide_right_mono assms) simp_all
  also have "\<dots> < Q_AMOUNT / 2" by (simp add: Q_AMOUNT_def)
  finally show ?thesis by (simp add: d_def)
qed

lemma margin_share_full: "is_q8 m \<Longrightarrow> 0 \<le> m \<Longrightarrow> m \<le> 10 ^ 18 \<Longrightarrow> 0 < whole \<Longrightarrow> margin_share m whole whole = m"
  unfolding margin_share_def dmul_def by (intro grid_near dctx_twice_error) simp_all

lemma margin_share_le:
  "is_q8 m \<Longrightarrow> 0 \<le> m \<Longrightarrow> m \<le> 10 ^ 18 \<Longrightarrow> 0 < whole \<Longrightarrow> q \<le> whole \<Longrightarrow> margin_share m q whole \<le> m"
  using margin_share_mono [of m whole q whole] margin_share_full [of m whole] by simp

lemma rounded_cost_in_tolerance:
  "quantize_amount (dmul a b) = Inr c \<Longrightarrow> dabs (dsub c (dmul a b)) \<le> TOTAL_COST_TOLERANCE"
proof -
  assume "quantize_amount (dmul a b) = Inr c"
  then have "\<bar>c - dmul a b\<bar> \<le> Q_AMOUNT / 2"
    using grid_error [of Q_AMOUNT "dmul a b"] by (auto simp: quantize_eq_Inr)
  then have "\<bar>c - dmul a b\<bar> \<le> TOTAL_COST_TOLERANCE"
    by (simp add: TOTAL_COST_TOLERANCE_def Q_AMOUNT_def)
  moreover have "dctx TOTAL_COST_TOLERANCE = TOTAL_COST_TOLERANCE"
    using dctx_fix [of 1 "-2"] by (simp add: TOTAL_COST_TOLERANCE_def power_int_def power2_eq_square)
  ultimately have "dctx \<bar>c - dmul a b\<bar> \<le> TOTAL_COST_TOLERANCE" by (metis dec.rnd_mono)
  then show ?thesis by (simp add: dsub_def dabs_def dec.rnd_abs)
qed

lemma reduce_quantity_eq:
  assumes p: "position_ok p" and q: "quantize_amount quantity = Inr q" "0 < q" "q \<le> p_quantity p"
    and m: "p_margin p \<le> 10 ^ 18"
  shows "reduce_quantity p quantity =
    bindR (quantize_amount (dmul (p_quantity p - q) (p_average_price p))) (\<lambda>cost.
      (let r = margin_share (p_margin p) q (p_quantity p);
           p1 = p\<lparr>p_quantity := p_quantity p - q, p_total_cost := cost, p_margin := p_margin p - r\<rparr>
       in Inr (if p_quantity p = q then flatten_prices p1 else p1, r)))"
proof -
  define r where "r = margin_share (p_margin p) q (p_quantity p)"
  have pos: "0 < p_quantity p" using q by linarith
  have ok: "is_q8 (p_quantity p)" "is_q8 (p_margin p)" "0 \<le> p_margin p" "is_q8 q"
    using p q(1) by (auto simp: position_ok_def quantize_is_q8)
  have r: "0 \<le> r" "r \<le> p_margin p"
    unfolding r_def using ok pos q m by (auto intro: margin_share_nonneg margin_share_le)
  have small: "\<bar>p_quantity p\<bar> < 10 ^ 20" using ok(1) by (simp add: is_q8_def)
  have rq: "quantize_amount (dctx (dmul (p_margin p) q / p_quantity p)) = Inr r"
    using r m by (simp add: quantize_eq_Inr r_def margin_share_def)
  then have rok: "is_q8 r" by (rule quantize_is_q8)
  have s1: "quantize_amount (dsub (p_quantity p) q) = Inr (p_quantity p - q)"
    using quantize_sub [OF ok(1) ok(4)] small q by simp
  have s2: "quantize_amount (dsub (p_margin p) r) = Inr (p_margin p - r)"
    using quantize_sub [OF ok(2) rok] r m by simp
  have v: "validate_total_cost p2 = Inr p2"
    if "quantize_amount (dmul (p_quantity p - q) (p_average_price p)) = Inr cost"
      and "p2 = (if p_quantity p = q then flatten_prices (p\<lparr>p_quantity := p_quantity p - q,
        p_total_cost := cost, p_margin := p_margin p - r\<rparr>) else p\<lparr>p_quantity := p_quantity p - q,
        p_total_cost := cost, p_margin := p_margin p - r\<rparr>)" for p2 cost
    using rounded_cost_in_tolerance [OF that(1)] that
    by (auto simp: validate_total_cost_def flatten_prices_def dmul_def dsub_def dabs_def
        quantize_eq_Inr TOTAL_COST_TOLERANCE_def not_less)
  have "reduce_quantity p quantity =
    bindR (quantize_amount (dmul (p_quantity p - q) (p_average_price p))) (\<lambda>cost.
      (let p1 = p\<lparr>p_quantity := p_quantity p - q, p_total_cost := cost, p_margin := p_margin p - r\<rparr>
       in bindR (validate_total_cost (if p_quantity p = q then flatten_prices p1 else p1))
            (\<lambda>p3. Inr (p3, r))))"
    unfolding reduce_quantity_def q(1) bindR_Inr Let_def
    using q(2,3) pos by (simp add: ddiv_Inr rq s1 s2)
  also have "\<dots> = bindR (quantize_amount (dmul (p_quantity p - q) (p_average_price p))) (\<lambda>cost.
      (let p1 = p\<lparr>p_quantity := p_quantity p - q, p_total_cost := cost, p_margin := p_margin p - r\<rparr>
       in Inr (if p_quantity p = q then flatten_prices p1 else p1, r)))"
    by (rule bindR_cong [OF refl]) (simp only: Let_def v [OF _ refl] bindR_Inr)
  finally show ?thesis by (simp only: Let_def r_def)
qed

lemma is_q8_bound: "is_q8 b \<Longrightarrow> is_q8 a \<Longrightarrow> 0 \<le> a \<Longrightarrow> a \<le> b \<Longrightarrow> is_q8 (b - a)"
  by (rule is_q8_sub) (auto simp: is_q8_def)

theorem reduce_quantity_spec:
  assumes "position_ok p" and "quantize_amount quantity = Inr q" and "0 < q"
    and "q \<le> p_quantity p" and "p_margin p \<le> 10 ^ 18"
    and "reduce_quantity p quantity = Inr (p', released)"
  shows "p_quantity p' = p_quantity p - q"
    and "p_margin p' + released = p_margin p" and "0 \<le> released" and "0 \<le> p_margin p'"
    and "position_ok p'"
    and "q = p_quantity p \<Longrightarrow> released = p_margin p \<and> p_margin p' = 0 \<and> p_total_cost p' = 0
      \<and> p_unrealized_pnl p' = 0 \<and> p_average_price p' = 0 \<and> p_liquidation_price p' = 0"
proof -
  have ok: "is_q8 (p_quantity p)" "is_q8 (p_margin p)" "0 \<le> p_margin p" "is_q8 q"
    using assms(1,2) by (auto simp: position_ok_def quantize_is_q8)
  define r where "r = margin_share (p_margin p) q (p_quantity p)"
  have pos: "0 < p_quantity p" using assms(3,4) by linarith
  have r: "0 \<le> r" "r \<le> p_margin p"
    unfolding r_def using ok pos assms(3-5) by (auto intro: margin_share_nonneg margin_share_le)
  have rok: "is_q8 r"
    using r assms(5) by (simp add: is_q8_def) (simp add: r_def margin_share_def grid_idem)
  obtain cost where cost: "quantize_amount (dmul (p_quantity p - q) (p_average_price p)) = Inr cost"
    and e: "released = r" "p' = (if p_quantity p = q
      then flatten_prices (p\<lparr>p_quantity := p_quantity p - q, p_total_cost := cost, p_margin := p_margin p - r\<rparr>)
      else p\<lparr>p_quantity := p_quantity p - q, p_total_cost := cost, p_margin := p_margin p - r\<rparr>)"
    using assms(6) unfolding reduce_quantity_eq [OF assms(1-5)] r_def [symmetric]
    by (auto simp: bindR_eq_Inr Let_def)
  have v: "validate_total_cost p' = Inr p'"
    using rounded_cost_in_tolerance [OF cost] cost
    by (auto simp: e validate_total_cost_def flatten_prices_def dmul_def dsub_def dabs_def
        quantize_eq_Inr TOTAL_COST_TOLERANCE_def not_less)
  show "p_quantity p' = p_quantity p - q" "p_margin p' + released = p_margin p" "0 \<le> released"
    "0 \<le> p_margin p'"
    using r by (simp_all add: e flatten_prices_def)
  show "position_ok p'"
    using assms(1) v quantize_is_q8 [OF cost] is_q8_bound [OF ok(1) ok(4)] is_q8_bound [OF ok(2) rok]
      r assms(3,4)
    by (auto simp: position_ok_def e(2) flatten_prices_def)
  show "released = p_margin p \<and> p_margin p' = 0 \<and> p_total_cost p' = 0
      \<and> p_unrealized_pnl p' = 0 \<and> p_average_price p' = 0 \<and> p_liquidation_price p' = 0"
    if "q = p_quantity p"
    using cost margin_share_full [OF ok(2,3) assms(5) pos]
    by (simp add: that e flatten_prices_def dmul_def quantize_eq_Inr r_def)
qed

text \<open>A reduction succeeds whenever the remaining cost basis is representable.\<close>

lemma reduce_quantity_total:
  assumes "position_ok p" and "quantize_amount quantity = Inr q" and "0 < q"
    and "q \<le> p_quantity p" and "p_margin p \<le> 10 ^ 18"
    and "\<exists>c. quantize_amount (dmul (p_quantity p) (p_average_price p)) = Inr c"
    and "0 \<le> p_average_price p"
  shows "\<exists>p' released. reduce_quantity p quantity = Inr (p', released)"
proof -
  obtain c where c: "quantize_amount (dmul (p_quantity p) (p_average_price p)) = Inr c"
    using assms(6) by blast
  have "dmul (p_quantity p - q) (p_average_price p) \<le> dmul (p_quantity p) (p_average_price p)"
    using dmul_mono [OF assms(7), of "p_quantity p - q" "p_quantity p"] assms(3)
    by (simp add: dmul_def mult.commute)
  then obtain c' where "quantize_amount (dmul (p_quantity p - q) (p_average_price p)) = Inr c'"
    using quantize_lower_ok [OF c] assms(4,7) dmul_nonneg by fastforce
  then show ?thesis
    unfolding reduce_quantity_eq [OF assms(1-5)] by (simp add: Let_def)
qed

subsection \<open>The cost-basis check after an increase\<close>

text \<open>
  \<open>total_cost\<close> is compared with \<open>quantity * average_price\<close> to 0.01, and the average is
  rounded to eight decimals; up to a million units the check cannot fail.
\<close>

lemma basis_error:
  assumes nq: "0 < nq" "nq \<le> 10 ^ 6" and nt: "0 \<le> nt" "nt < 10 ^ 20"
  shows "\<bar>nt - dctx (nq * grid Q_AMOUNT (dctx (nt / nq)))\<bar> \<le> 1 / 100"
proof -
  define avg where "avg = grid Q_AMOUNT (dctx (nt / nq))"
  have e1: "\<bar>dctx (nt / nq) - nt / nq\<bar> \<le> nt / nq / (2 * 10 ^ 27)"
    using dctx_error [of "nt / nq"] nq nt by simp
  have e2: "\<bar>avg - dctx (nt / nq)\<bar> \<le> Q_AMOUNT / 2"
    unfolding avg_def by (rule grid_error) simp
  have "\<bar>avg - nt / nq\<bar> \<le> Q_AMOUNT / 2 + nt / nq / (2 * 10 ^ 27)" using e1 e2 by linarith
  then have "nq * \<bar>avg - nt / nq\<bar> \<le> nq * (Q_AMOUNT / 2 + nt / nq / (2 * 10 ^ 27))"
    using nq by (intro mult_left_mono) simp_all
  moreover have "nq * \<bar>avg - nt / nq\<bar> = \<bar>nq * avg - nt\<bar>"
    using nq by (simp add: abs_mult_pos' right_diff_distrib)
  moreover have "nq * (Q_AMOUNT / 2 + nt / nq / (2 * 10 ^ 27)) = nq * (Q_AMOUNT / 2) + nt / (2 * 10 ^ 27)"
    using nq by (simp add: distrib_left)
  moreover have "nq * (Q_AMOUNT / 2) \<le> 10 ^ 6 * (Q_AMOUNT / 2)"
    by (rule mult_right_mono [OF nq(2)]) (simp add: Q_AMOUNT_def)
  ultimately have e3: "\<bar>nq * avg - nt\<bar> \<le> 10 ^ 6 * (Q_AMOUNT / 2) + nt / (2 * 10 ^ 27)" by linarith
  have "\<bar>dctx (nq * avg) - nq * avg\<bar> \<le> \<bar>nq * avg\<bar> / (2 * 10 ^ 27)" by (rule dctx_error)
  moreover have "\<bar>nq * avg\<bar> \<le> 10 ^ 21"
    using e3 nt unfolding Q_AMOUNT_def by simp
  then have "\<bar>nq * avg\<bar> / (2 * 10 ^ 27) \<le> 10 ^ 21 / (2 * 10 ^ 27)" by (rule divide_right_mono) simp
  moreover have "nt / (2 * 10 ^ 27) \<le> 10 ^ 20 / (2 * 10 ^ 27)"
    using nt by (intro divide_right_mono) simp_all
  ultimately have "\<bar>nt - dctx (nq * avg)\<bar>
      \<le> 10 ^ 6 * (Q_AMOUNT / 2) + 10 ^ 20 / (2 * 10 ^ 27) + 10 ^ 21 / (2 * 10 ^ 27)"
    using e3 by linarith
  also have "\<dots> \<le> 1 / 100" by (simp add: Q_AMOUNT_def)
  finally show ?thesis by (simp add: avg_def)
qed

lemma basis_error_dctx:
  assumes "0 < nq" "nq \<le> 10 ^ 6" "0 \<le> nt" "nt < 10 ^ 20"
  shows "\<not> TOTAL_COST_TOLERANCE < dabs (dsub nt (dmul nq (grid Q_AMOUNT (dctx (nt / nq)))))"
proof -
  have t: "dctx (1 / 100) = 1 / 100" using dctx_fix [of 1 "-2"] by (simp add: power_int_def power2_eq_square)
  have "dctx \<bar>nt - dctx (nq * grid Q_AMOUNT (dctx (nt / nq)))\<bar> \<le> 1 / 100"
    using dec.rnd_mono [OF basis_error [OF assms]] by (simp add: t)
  then show ?thesis by (simp add: TOTAL_COST_TOLERANCE_def dsub_def dabs_def dmul_def dec.rnd_abs)
qed

theorem add_quantity_basis_accepted:
  assumes "position_ok p" and "0 \<le> p_total_cost p" and "p_quantity p + quantity \<le> 10 ^ 6"
    and "is_q8 quantity"
  shows "add_quantity p quantity price \<noteq> Inl (ValueError ''total_cost'')"
proof
  assume raised: "add_quantity p quantity price = Inl (ValueError ''total_cost'')"
  have no_total: "quantize_amount x \<noteq> Inl (ValueError ''total_cost'')"
    "quantize_price x \<noteq> Inl (ValueError ''total_cost'')" "ddiv x y \<noteq> Inl (ValueError ''total_cost'')" for x y
    by (auto simp: quantize_amount_def quantize_price_def quantize_even_def Let_def ddiv_def)
  from raised obtain pr nq nt ratio average where
    a: "0 < quantity" "0 < pr" "quantize_price price = Inr pr"
      "quantize_amount (dadd (p_quantity p) quantity) = Inr nq"
      "quantize_amount (dadd (p_total_cost p) (dmul quantity pr)) = Inr nt"
      "ddiv nt nq = Inr ratio" "quantize_price ratio = Inr average"
    and v: "validate_total_cost (p\<lparr>p_quantity := nq, p_total_cost := nt, p_average_price := average,
        p_entry_price := average\<rparr>) = Inl (ValueError ''total_cost'')"
    unfolding add_quantity_def
    by (auto simp: bindR_def raise_if_def no_total assms(4) split: sum.splits if_splits)
  have q: "is_q8 (p_quantity p)" "0 \<le> p_quantity p" using assms(1) by (auto simp: position_ok_def)
  have nq: "nq = p_quantity p + quantity" using a(4) quantize_add [OF q(1) assms(4)] by simp
  have nt: "0 \<le> nt" "nt < 10 ^ 20"
    using a(1,2,5) assms(2) quantize_nonneg [OF a(5)]
    by (auto simp: dadd_nonneg dmul_nonneg quantize_eq_Inr)
  have "average = grid Q_AMOUNT (dctx (nt / nq))"
    using a(6,7) by (simp add: quantize_price_amount quantize_eq_Inr)
  then show False
    using basis_error_dctx [of nq nt] v nq nt q(2) a(1) assms(3)
    by (simp add: validate_total_cost_def raise_if_def)
qed

end
