(* ===== verification/Trades.thy ===== *)
theory Trades
  imports Positions
begin

section \<open>Signals, decisions and trades (core_lib/types/signal.py, decision.py, trade.py)\<close>

text \<open>
  The decision-only signal of a strategy, the explicit decision intent, and the completed trade
  with its net-profit identity. Metadata dictionaries are maps from keys to values, which may again be
  dictionaries.
\<close>

datatype meta_value = MNone | MBool bool | MInt int | MFloat pyfloat | MStr string
  | MTime instant | MMap "(string \<times> meta_value) list" | MList "meta_value list" | MTuple "meta_value list"

type_synonym metadata = "string \<Rightarrow> meta_value option"

datatype signal_type = SIG_BUY | SIG_SELL | SIG_HOLD

record trading_signal =
  s_symbol :: string
  s_timestamp :: instant
  s_confidence :: pyfloat
  s_price :: pyfloat
  s_stop_loss :: "pyfloat option"
  s_take_profit :: "pyfloat option"
  s_market_type :: market_type
  s_leverage :: "int option"
  s_reason :: string
  s_metadata :: metadata

fun not_positive :: "pyfloat option \<Rightarrow> bool" where
  "not_positive None = False"
| "not_positive (Some v) = fle v (Fin 0)"

definition make_trading_signal :: "trading_signal \<Rightarrow> trading_signal res" where
  "make_trading_signal s =
     raise_if (\<not> (fle (Fin 0) (s_confidence s) \<and> fle (s_confidence s) (Fin 1))) (ValueError ''confidence'')
     (raise_if (fle (s_price s) (Fin 0)) (ValueError ''price'')
     (raise_if (not_positive (s_stop_loss s)) (ValueError ''stop_loss'')
     (raise_if (not_positive (s_take_profit s)) (ValueError ''take_profit'')
     (raise_if (case s_leverage s of None \<Rightarrow> False | Some l \<Rightarrow> l \<le> 0) (ValueError ''leverage'')
     (Inr s)))))"

subsection \<open>Decision intents\<close>

datatype decision_action = ENTER_LONG | ENTER_SHORT | EXIT | HOLD

record decision_intent =
  i_action :: decision_action
  i_symbol :: string
  i_timestamp :: instant
  i_reference_price :: pyfloat
  i_confidence :: pyfloat
  i_reason :: string
  i_metadata :: metadata

text \<open>The characters \<open>str.strip\<close> removes, among the 8-bit characters.\<close>

definition py_isspace :: "char \<Rightarrow> bool" where
  "py_isspace ch \<longleftrightarrow> (let c = (of_char ch :: nat) in
     9 \<le> c \<and> c \<le> 13 \<or> 28 \<le> c \<and> c \<le> 32 \<or> c = 133 \<or> c = 160)"

definition blank :: "string \<Rightarrow> bool" where
  "blank s \<longleftrightarrow> list_all py_isspace s"

definition make_decision_intent :: "decision_intent \<Rightarrow> decision_intent res" where
  "make_decision_intent i =
     raise_if (blank (i_symbol i)) (ValueError ''symbol'')
     (raise_if (\<not> is_finite (i_reference_price i) \<or> fle (i_reference_price i) (Fin 0))
        (ValueError ''reference_price'')
     (raise_if (\<not> is_finite (i_confidence i) \<or>
          \<not> (fle (Fin 0) (i_confidence i) \<and> fle (i_confidence i) (Fin 1))) (ValueError ''confidence'')
     (raise_if (blank (i_reason i)) (ValueError ''reason'')
     (Inr i))))"

subsection \<open>Trades\<close>

datatype source_type = LIVE | PAPER | BACKTEST | OTHER_SOURCE

record trade =
  t_source_type :: source_type
  t_symbol :: string
  t_side :: order_side
  t_market_type :: market_type
  t_entry_price :: decimal
  t_entry_quantity :: decimal
  t_entry_time :: instant
  t_exit_price :: decimal
  t_exit_quantity :: decimal
  t_exit_time :: instant
  t_exit_reason :: exit_reason
  t_gross_pnl :: decimal
  t_total_fee :: decimal
  t_slippage :: decimal
  t_funding_cost :: decimal
  t_liquidation_penalty :: decimal
  t_net_pnl :: decimal
  t_return_pct :: decimal
  t_r0 :: "decimal option"
  t_leverage :: int
  t_liquidated :: bool
  t_wallet_id :: "string option"
  t_backtest_run_id :: "string option"
  t_strategy_id :: string
  t_strategy_name :: string
  t_hold_duration_seconds :: int
  t_signal_confidence :: pyfloat
  t_reason :: string

definition trade_quantize :: "trade \<Rightarrow> trade res" where
  "trade_quantize t =
     bindR (quantize_price (t_entry_price t)) (\<lambda>entry_price.
     bindR (quantize_amount (t_entry_quantity t)) (\<lambda>entry_quantity.
     bindR (quantize_price (t_exit_price t)) (\<lambda>exit_price.
     bindR (quantize_amount (t_exit_quantity t)) (\<lambda>exit_quantity.
     bindR (quantize_amount (t_gross_pnl t)) (\<lambda>gross_pnl.
     bindR (quantize_amount (t_total_fee t)) (\<lambda>total_fee.
     bindR (quantize_amount (t_slippage t)) (\<lambda>slip.
     bindR (quantize_amount (t_funding_cost t)) (\<lambda>funding_cost.
     bindR (quantize_amount (t_liquidation_penalty t)) (\<lambda>penalty.
     bindR (quantize_amount (t_net_pnl t)) (\<lambda>net_pnl.
     bindR (quantize_percent (t_return_pct t)) (\<lambda>return_pct.
     bindR (case t_r0 t of None \<Rightarrow> Inr None | Some r \<Rightarrow> bindR (quantize_amount r) (\<lambda>q. Inr (Some q))) (\<lambda>r0.
     Inr (t\<lparr>t_entry_price := entry_price, t_entry_quantity := entry_quantity,
       t_exit_price := exit_price, t_exit_quantity := exit_quantity, t_gross_pnl := gross_pnl,
       t_total_fee := total_fee, t_slippage := slip, t_funding_cost := funding_cost,
       t_liquidation_penalty := penalty, t_net_pnl := net_pnl, t_return_pct := return_pct,
       t_r0 := r0\<rparr>)))))))))))))"

definition expected_net_pnl :: "trade \<Rightarrow> decimal res" where
  "expected_net_pnl t =
     quantize_amount (dsub (dsub (dsub (dsub (t_gross_pnl t) (t_total_fee t)) (t_slippage t))
       (t_funding_cost t)) (t_liquidation_penalty t))"

definition make_trade :: "trade \<Rightarrow> trade res" where
  "make_trade t0 =
     bindR (trade_quantize t0) (\<lambda>t.
     raise_if (t_source_type t = OTHER_SOURCE) (ValueError ''source_type'')
     (raise_if (t_entry_price t \<le> 0 \<or> t_exit_price t \<le> 0) (ValueError ''prices'')
     (raise_if (t_entry_quantity t \<le> 0 \<or> t_exit_quantity t \<le> 0) (ValueError ''quantities'')
     (raise_if (t_total_fee t < 0 \<or> t_slippage t < 0) (ValueError ''fees'')
     (raise_if (t_liquidation_penalty t < 0) (ValueError ''penalty'')
     (raise_if (case t_r0 t of None \<Rightarrow> False | Some r \<Rightarrow> r < 0) (ValueError ''r0'')
     (raise_if (t_leverage t \<le> 0) (ValueError ''leverage'')
     (raise_if (t_liquidated t \<noteq> (t_exit_reason t = LIQUIDATION)) (ValueError ''liquidated'')
     (raise_if (\<not> t_liquidated t \<and> t_liquidation_penalty t \<noteq> 0) (ValueError ''no penalty'')
     (bindR (expected_net_pnl t) (\<lambda>expected.
      raise_if (t_net_pnl t \<noteq> expected) (ValueError ''net_pnl'')
     (raise_if (t_exit_time t < t_entry_time t) (ValueError ''exit_time'')
     (raise_if (t_hold_duration_seconds t < 0) (ValueError ''hold_duration'')
     (raise_if (\<not> (fle (Fin 0) (t_signal_confidence t) \<and> fle (t_signal_confidence t) (Fin 1)))
        (ValueError ''signal_confidence'')
     (Inr t)))))))))))))))"

subsection \<open>The net-profit identity\<close>

text \<open>
  A sum of stored amounts below \<open>10 ^ 19\<close> is exact through the chain of subtractions, so an
  accepted trade satisfies the identity with no rounding.
\<close>

lemma dsub_q8:
  assumes "is_q8 a" and "is_q8 b" and "\<bar>a - b\<bar> < 10 ^ 20"
  shows "dsub a b = a - b" and "is_q8 (a - b)"
proof -
  show "is_q8 (a - b)" by (rule is_q8_sub [OF assms])
  then show "dsub a b = a - b" by (simp add: dsub_def is_q8_dctx)
qed

lemma trade_quantize_ok:
  assumes "trade_quantize t0 = Inr t"
  shows "is_q8 (t_gross_pnl t)" and "is_q8 (t_total_fee t)" and "is_q8 (t_slippage t)"
    and "is_q8 (t_funding_cost t)" and "is_q8 (t_liquidation_penalty t)" and "is_q8 (t_net_pnl t)"
  using assms unfolding trade_quantize_def bindR_eq_Inr
  by (auto dest: quantize_is_q8)

lemma make_trade_elim:
  assumes "make_trade t0 = Inr t"
  shows "trade_quantize t0 = Inr t" and "expected_net_pnl t = Inr (t_net_pnl t)"
    and "t_liquidated t = (t_exit_reason t = LIQUIDATION)"
    and "\<not> t_liquidated t \<Longrightarrow> t_liquidation_penalty t = 0"
    and "0 < t_entry_price t" and "0 < t_exit_price t" and "0 < t_entry_quantity t"
    and "0 < t_exit_quantity t" and "0 \<le> t_total_fee t" and "0 \<le> t_slippage t"
    and "0 \<le> t_liquidation_penalty t" and "t_entry_time t \<le> t_exit_time t"
    and "0 < t_leverage t" and "t_source_type t \<noteq> OTHER_SOURCE"
  using assms unfolding make_trade_def by (auto simp: bindR_eq_Inr)

lemma trade_net_identity:
  assumes "make_trade t0 = Inr t"
    and "\<bar>t_gross_pnl t\<bar> \<le> 10 ^ 19" and "t_total_fee t \<le> 10 ^ 19" and "t_slippage t \<le> 10 ^ 19"
    and "\<bar>t_funding_cost t\<bar> \<le> 10 ^ 19" and "t_liquidation_penalty t \<le> 10 ^ 19"
  shows "t_net_pnl t = t_gross_pnl t - t_total_fee t - t_slippage t - t_funding_cost t
    - t_liquidation_penalty t"
proof -
  note e = make_trade_elim [OF assms(1)]
  note q = trade_quantize_ok [OF e(1)]
  let ?a = "t_gross_pnl t - t_total_fee t"
  let ?b = "?a - t_slippage t"
  let ?c = "?b - t_funding_cost t"
  let ?d = "?c - t_liquidation_penalty t"
  have a: "dsub (t_gross_pnl t) (t_total_fee t) = ?a" "is_q8 ?a"
    using dsub_q8 [OF q(1) q(2)] assms(2,3) e(9) by (auto simp: abs_if split: if_splits)
  have b: "dsub ?a (t_slippage t) = ?b" "is_q8 ?b"
    using dsub_q8 [OF a(2) q(3)] assms(2-4) e(9,10) by (auto simp: abs_if split: if_splits)
  have c: "dsub ?b (t_funding_cost t) = ?c" "is_q8 ?c"
    using dsub_q8 [OF b(2) q(4)] assms(2-5) e(9,10) by (auto simp: abs_if split: if_splits)
  have d: "dsub ?c (t_liquidation_penalty t) = ?d" "is_q8 ?d"
    using dsub_q8 [OF c(2) q(5)] assms(2-6) e(9-11) by (auto simp: abs_if split: if_splits)
  show ?thesis using e(2) by (simp add: expected_net_pnl_def a b c d)
qed

end
