(* ===== verification/Sizing.thy ===== *)
theory Sizing
  imports Trades
begin

section \<open>Position sizing (core_lib/sizing)\<close>

text \<open>
  The float sizing standards: risk money, 1R, Kelly, the Turtle unit, the percentage path and
  the aggregate exposure limits. Every formula is the code's sequence of binary64 operations;
  the literal 0.01 is the float nearest to one hundredth.
\<close>

definition MAX_RISK_PER_TRADE :: pyfloat where
  "MAX_RISK_PER_TRADE = fround (1 / 100)"

definition risk_size :: "pyfloat \<Rightarrow> pyfloat \<Rightarrow> pyfloat \<Rightarrow> pyfloat res" where
  "risk_size risk_per_trade eq stop_distance =
     raise_if (\<not> (flt (Fin 0) risk_per_trade \<and> fle risk_per_trade MAX_RISK_PER_TRADE))
       (ValueError ''risk_per_trade'')
     (raise_if (fle eq (Fin 0) \<or> fle stop_distance (Fin 0)) (ValueError ''equity and stop_distance'')
     (fdiv (fmul risk_per_trade eq) stop_distance))"

definition one_r :: "pyfloat \<Rightarrow> pyfloat \<Rightarrow> pyfloat \<Rightarrow> pyfloat res" where
  "one_r entry stop quantity =
     raise_if (fle entry (Fin 0) \<or> fle stop (Fin 0) \<or> fle quantity (Fin 0)) (ValueError ''one_r inputs'')
     (Inr (fmul (fabs (fsub entry stop)) quantity))"

definition risk_equity :: "pyfloat \<Rightarrow> pyfloat \<Rightarrow> pyfloat \<Rightarrow> pyfloat res" where
  "risk_equity cash used_margin unrealized =
     raise_if (flt cash (Fin 0) \<or> flt used_margin (Fin 0)) (ValueError ''cash and used_margin'')
     (Inr (fadd (fadd cash used_margin) unrealized))"

definition f_star :: "pyfloat \<Rightarrow> pyfloat \<Rightarrow> pyfloat res" where
  "f_star p payoff_ratio =
     raise_if (\<not> (fle (Fin 0) p \<and> fle p (Fin 1))) (ValueError ''win probability'')
     (raise_if (fle payoff_ratio (Fin 0)) (ValueError ''payoff ratio'')
     (bindR (fdiv (fsub (Fin 1) p) payoff_ratio) (\<lambda>loss. Inr (fsub p loss))))"

definition kelly_cap :: "pyfloat \<Rightarrow> pyfloat \<Rightarrow> pyfloat res" where
  "kelly_cap full_kelly fraction =
     raise_if (\<not> (flt (Fin 0) fraction \<and> fle fraction (Fin (1 / 2)))) (ValueError ''fraction'')
     (Inr (fmul (fmax (Fin 0) full_kelly) fraction))"

definition unit_limit :: int where "unit_limit = 4"

definition unit_size :: "pyfloat \<Rightarrow> pyfloat \<Rightarrow> pyfloat \<Rightarrow> pyfloat res" where
  "unit_size risk_per_trade eq n = risk_size risk_per_trade eq n"

definition pyramid_step :: pyfloat where "pyramid_step = Fin (1 / 2)"

definition wallet_pct_size :: "pyfloat \<Rightarrow> pyfloat \<Rightarrow> pyfloat res" where
  "wallet_pct_size available_balance position_size_pct =
     raise_if (flt available_balance (Fin 0)) (ValueError ''available_balance'')
     (raise_if (\<not> (fle (Fin 0) position_size_pct \<and> fle position_size_pct (Fin 1))) (ValueError ''pct'')
     (Inr (fmul available_balance position_size_pct)))"

definition within_limit :: "pyfloat list \<Rightarrow> pyfloat \<Rightarrow> bool res" where
  "within_limit risks limit =
     raise_if (\<not> is_finite limit \<or> flt limit (Fin 0)) (ValueError ''limit'')
     (raise_if (list_ex (\<lambda>r. \<not> is_finite r \<or> flt r (Fin 0)) risks) (ValueError ''risk contributions'')
     (bindR (fsum risks) (\<lambda>aggregate_risk. Inr (fle aggregate_risk (next_up limit)))))"

definition single_market :: "pyfloat list \<Rightarrow> pyfloat \<Rightarrow> bool res" where
  "single_market risks limit = within_limit risks limit"

definition correlation_group :: "pyfloat list \<Rightarrow> pyfloat \<Rightarrow> bool res" where
  "correlation_group risks limit = within_limit risks limit"

definition single_direction :: "pyfloat list \<Rightarrow> pyfloat \<Rightarrow> bool res" where
  "single_direction risks limit = within_limit risks limit"

subsection \<open>Results are floats, and caps hold\<close>

lemma fmul_Fin_nonneg: "0 \<le> a \<Longrightarrow> 0 \<le> b \<Longrightarrow> \<not> flt (fmul (Fin a) (Fin b)) (Fin 0)"
  using fround_mono [of 0 "a * b"] by (simp add: fle_iff)

lemma kelly_cap_nonneg:
  assumes "kelly_cap k f = Inr r" and "is_finite k" and "is_finite f"
  shows "fle (Fin 0) r" and "fle r (fmul (fmax (Fin 0) k) (Fin (1 / 2)))"
proof -
  obtain a b where k: "k = Fin a" and f: "f = Fin b" using assms(2,3) by (auto elim!: is_finiteE)
  have b: "0 < b" "b \<le> 1 / 2" and r: "r = fround (max 0 a * b)"
    using assms(1) by (auto simp: kelly_cap_def k f fmax_def max_def split: if_splits)
  have "fmul (fmax (Fin 0) k) (Fin (1 / 2)) = fround (max 0 a * (1 / 2))"
    by (simp add: k fmax_def max_def)
  moreover have "max 0 a * b \<le> max 0 a * (1 / 2)" using b by (intro mult_left_mono) auto
  ultimately show "fle r (fmul (fmax (Fin 0) k) (Fin (1 / 2)))" unfolding r by (metis fround_mono)
  have "fle (fround 0) (fround (max 0 a * b))" using b by (intro fround_mono mult_nonneg_nonneg) auto
  then show "fle (Fin 0) r" by (simp add: r)
qed

lemma sum_list_nonneg_sublist:
  fixes xs :: "rat list"
  shows "(\<forall>x \<in> set xs. 0 \<le> x) \<Longrightarrow> x \<in> set xs \<Longrightarrow> x \<le> sum_list xs"
  by (induction xs) (auto intro: add_increasing add_increasing2 sum_list_nonneg)

text \<open>
  An accepted aggregate is an exactly rounded sum of non-negative contributions, so each
  contribution alone is within the limit's next float.
\<close>

lemma within_limit_each:
  assumes "within_limit risks limit = Inr True" and "r \<in> set risks" and "is_f64 r"
  shows "fle r (next_up limit)"
proof -
  have fin: "list_all is_finite risks" and nn: "\<forall>x \<in> set risks. \<not> flt x (Fin 0)"
    and lim: "\<And>q. fsum risks = Inr q \<Longrightarrow> fle q (next_up limit)" and ok: "\<exists>q. fsum risks = Inr q"
    using assms(1) by (auto simp: within_limit_def list_ex_iff list_all_iff bindR_eq_Inr)
  obtain v where v: "r = Fin v" using fin assms(2) by (auto simp: list_all_iff elim!: is_finiteE)
  have vals: "\<forall>x \<in> set (map fin_value risks). 0 \<le> x"
  proof
    fix x assume "x \<in> set (map fin_value risks)"
    then obtain y where y: "y \<in> set risks" "x = fin_value y" by auto
    moreover obtain q where "y = Fin q" using fin y(1) by (auto simp: list_all_iff elim!: is_finiteE)
    ultimately show "0 \<le> x" using nn by fastforce
  qed
  have "v \<in> set (map fin_value risks)" using assms(2) v by force
  then have le: "v \<le> sum_list (map fin_value risks)" by (rule sum_list_nonneg_sublist [OF vals])
  obtain q where q: "fsum risks = Inr (Fin q)" "fround (sum_list (map fin_value risks)) = Fin q"
    using ok fin by (auto simp: fsum_def split: pyfloat.splits)
  have "fround v = Fin v" using assms(3) by (simp add: is_f64_def v)
  then have "fle (Fin v) (Fin q)" using fround_mono [OF le] q(2) by simp
  then show ?thesis using lim [OF q(1)] v by (blast intro: fle_trans)
qed

end
