(* ===== verification/Costs.thy ===== *)
theory Costs
  imports Trades
begin

section \<open>Cost formulas (core_lib/costs) and the CostModel port (core_lib/ports)\<close>

text \<open>
  Fee, funding, liquidation and slippage formulas. A CostModel is the record of its four
  methods; its contract, that rates are never negative and that the fee rate does not fall as
  the notional grows, is the locale \<open>cost_contract\<close>, interpreted below on the paper cost
  model of the wallet service (wallet_service/infrastructure/cost_model.py).
\<close>

record slip_context =
  x_gap_filled :: bool
  x_reference_price :: decimal

record cost_model =
  cm_fee :: "string \<Rightarrow> decimal \<Rightarrow> decimal res"
  cm_slippage :: "order \<Rightarrow> slip_context option \<Rightarrow> decimal res"
  cm_funding_rate :: "instant \<Rightarrow> decimal res"
  cm_maintenance_margin_rate :: "decimal option"

subsection \<open>Fee\<close>

definition fee_calc :: "decimal \<Rightarrow> decimal \<Rightarrow> decimal res" where
  "fee_calc notional rate =
     raise_if (notional < 0) (ValueError ''notional'')
     (raise_if (rate < 0) (ValueError ''fee rate'')
     (quantize_amount (dmul notional rate)))"

subsection \<open>Funding\<close>

definition settle :: "position \<Rightarrow> decimal \<Rightarrow> decimal \<Rightarrow> decimal res" where
  "settle p rate price =
     raise_if (price \<le> 0) (ValueError ''settlement price'')
     (raise_if (p_side p = BOTH) (ValueError ''funding direction'')
     (let direction = (if p_side p = LONG then 1 else -1)
      in quantize_amount (dmul (dmul (dmul (p_quantity p) price) rate) direction)))"

definition hour_us :: int where "hour_us = 3600 * 1000000"
definition day_us :: int where "day_us = 24 * hour_us"

definition utc_hour :: "instant \<Rightarrow> int" where "utc_hour t = t mod day_us div hour_us"
definition utc_minute :: "instant \<Rightarrow> int" where "utc_minute t = t mod hour_us div minute_us"
definition utc_second :: "instant \<Rightarrow> int" where "utc_second t = t mod minute_us div 1000000"
definition utc_microsecond :: "instant \<Rightarrow> int" where "utc_microsecond t = t mod 1000000"

definition is_boundary :: "instant \<Rightarrow> bool" where
  "is_boundary t \<longleftrightarrow> utc_hour t \<in> {0, 8, 16} \<and> utc_minute t = 0 \<and> utc_second t = 0 \<and>
     utc_microsecond t = 0"

definition day_boundaries :: "instant \<Rightarrow> instant \<Rightarrow> instant \<Rightarrow> instant list" where
  "day_boundaries start stop day =
     filter (\<lambda>b. start < b \<and> b \<le> stop) (map (\<lambda>hour. day + hour * hour_us) [0, 8, 16])"

function boundary_days :: "instant \<Rightarrow> instant \<Rightarrow> instant \<Rightarrow> instant list" where
  "boundary_days start stop day =
     (if day \<le> stop then day_boundaries start stop day @ boundary_days start stop (day + day_us) else [])"
  by pat_completeness auto
termination
  by (relation "measure (\<lambda>(start, stop, day). nat (stop - day + 1))") (auto simp: day_us_def hour_us_def)

definition boundaries_between :: "instant \<Rightarrow> instant \<Rightarrow> instant list res" where
  "boundaries_between start stop =
     raise_if (stop < start) (ValueError ''interval'')
     (Inr (boundary_days start stop (start - start mod day_us)))"

subsection \<open>Liquidation\<close>

definition liquidation_price :: "decimal \<Rightarrow> int \<Rightarrow> decimal \<Rightarrow> position_side \<Rightarrow> decimal res" where
  "liquidation_price entry leverage mmr side =
     raise_if (entry \<le> 0) (ValueError ''entry'')
     (raise_if (leverage \<le> 0) (ValueError ''leverage'')
     (raise_if (\<not> (0 \<le> mmr \<and> mmr < 1)) (ValueError ''mmr'')
     (bindR (ddiv 1 (of_int leverage)) (\<lambda>leverage_term.
      (case side of
         LONG \<Rightarrow> quantize_price (dmul entry (dadd (dsub 1 leverage_term) mmr))
       | SHORT \<Rightarrow> quantize_price (dmul entry (dsub (dadd 1 leverage_term) mmr))
       | BOTH \<Rightarrow> Inl (ValueError ''liquidation direction''))))))"

definition is_triggered :: "position \<Rightarrow> decimal \<Rightarrow> bool res" where
  "is_triggered p market_price =
     (case p_side p of
        LONG \<Rightarrow> Inr (market_price \<le> p_liquidation_price p)
      | SHORT \<Rightarrow> Inr (p_liquidation_price p \<le> market_price)
      | BOTH \<Rightarrow> Inl (ValueError ''liquidation direction''))"

definition price_from_margin :: "position \<Rightarrow> decimal \<Rightarrow> decimal res" where
  "price_from_margin p mmr =
     raise_if (\<not> (0 \<le> mmr \<and> mmr < 1)) (ValueError ''mmr'')
     (raise_if (p_quantity p \<le> 0 \<or> p_entry_price p \<le> 0) (ValueError ''open position'')
     (raise_if (p_margin p < 0) (ValueError ''margin'')
     (let notional = dmul (p_quantity p) (p_entry_price p) in
      bindR (ddiv (p_margin p) notional) (\<lambda>margin_fraction.
      (case p_side p of
         LONG \<Rightarrow> quantize_price (max 0 (dmul (p_entry_price p) (dadd (dsub 1 margin_fraction) mmr)))
       | SHORT \<Rightarrow> quantize_price (max 0 (dmul (p_entry_price p) (dsub (dadd 1 margin_fraction) mmr)))
       | BOTH \<Rightarrow> Inl (ValueError ''liquidation direction''))))))"

subsection \<open>Slippage\<close>

record slippage_params =
  sp_spread_rate :: decimal
  sp_impact_coefficient :: decimal
  sp_liquidity :: "decimal option"
  sp_fixed_rate :: "decimal option"
  sp_gap_multiplier :: decimal

definition make_slippage_params :: "slippage_params \<Rightarrow> slippage_params res" where
  "make_slippage_params s =
     raise_if (sp_spread_rate s < 0 \<or> sp_impact_coefficient s < 0) (ValueError ''spread and impact'')
     (raise_if (case sp_fixed_rate s of None \<Rightarrow> False | Some r \<Rightarrow> r < 0) (ValueError ''fixed_rate'')
     (raise_if (case sp_liquidity s of None \<Rightarrow> False | Some l \<Rightarrow> l \<le> 0) (ValueError ''liquidity'')
     (raise_if (sp_gap_multiplier s < 1) (ValueError ''gap_multiplier'')
     (Inr s))))"

definition effective_rate :: "slippage_params \<Rightarrow> order \<Rightarrow> slip_context option \<Rightarrow> decimal res" where
  "effective_rate params ord context =
     bindR (case sp_fixed_rate params of
         Some rate \<Rightarrow> Inr rate
       | None \<Rightarrow>
           bindR (case sp_liquidity params of
               None \<Rightarrow> Inr 0
             | Some liquidity \<Rightarrow> ddiv (dmul (sp_impact_coefficient params) (o_quantity ord)) liquidity) (\<lambda>impact.
           bindR (ddiv (sp_spread_rate params) 2) (\<lambda>half. Inr (dadd half impact)))) (\<lambda>rate.
     (case context of
        Some x \<Rightarrow> Inr (if x_gap_filled x then dmul rate (sp_gap_multiplier params) else rate)
      | None \<Rightarrow> Inr rate))"

definition apply_slippage :: "decimal \<Rightarrow> order_side \<Rightarrow> cost_model \<Rightarrow> order \<Rightarrow> slip_context option \<Rightarrow> decimal res" where
  "apply_slippage notional side cm ord context =
     raise_if (notional < 0) (ValueError ''notional'')
     (bindR (cm_slippage cm ord context) (\<lambda>rate.
     raise_if (rate < 0) (ValueError ''slippage rate'')
     (bindR (quantize_amount (dmul notional rate)) (\<lambda>magnitude.
      Inr (if side = BUY then magnitude else dneg magnitude)))))"

subsection \<open>The paper cost model (wallet_service/infrastructure/cost_model.py)\<close>

record paper_rates =
  pr_taker_fee_rate :: decimal
  pr_entry_slippage_rate :: decimal
  pr_exit_slippage_rate :: decimal
  pr_funding_fallback_rate :: decimal
  pr_maintenance_margin_rate :: decimal
  pr_gap_multiplier :: decimal

definition default_rates :: paper_rates where
  "default_rates = \<lparr>pr_taker_fee_rate = 5 / 10000, pr_entry_slippage_rate = 5 / 10000,
     pr_exit_slippage_rate = 1 / 10000, pr_funding_fallback_rate = 1 / 10000,
     pr_maintenance_margin_rate = 4 / 1000, pr_gap_multiplier = 2\<rparr>"

definition paper_fee :: "paper_rates \<Rightarrow> string \<Rightarrow> decimal \<Rightarrow> decimal res" where
  "paper_fee r name notional = raise_if (name = []) (ValueError ''symbol'') (Inr (pr_taker_fee_rate r))"

definition paper_slippage :: "paper_rates \<Rightarrow> order \<Rightarrow> slip_context option \<Rightarrow> decimal res" where
  "paper_slippage r ord context =
     (let fixed = (if o_reduce_only ord \<or> o_close_position ord then pr_exit_slippage_rate r
                   else pr_entry_slippage_rate r) in
      bindR (make_slippage_params \<lparr>sp_spread_rate = 0, sp_impact_coefficient = 0, sp_liquidity = None,
          sp_fixed_rate = Some fixed, sp_gap_multiplier = pr_gap_multiplier r\<rparr>) (\<lambda>params.
      effective_rate params ord context))"

definition paper_cost_model :: "paper_rates \<Rightarrow> cost_model res" where
  "paper_cost_model r =
     raise_if (pr_taker_fee_rate r < 0) (ValueError ''taker_fee_rate'')
     (raise_if (pr_entry_slippage_rate r < 0) (ValueError ''entry_slippage_rate'')
     (raise_if (pr_exit_slippage_rate r < 0) (ValueError ''exit_slippage_rate'')
     (raise_if (pr_funding_fallback_rate r < 0) (ValueError ''funding_fallback_rate'')
     (raise_if (pr_maintenance_margin_rate r < 0) (ValueError ''maintenance_margin_rate'')
     (raise_if (pr_gap_multiplier r < 1) (ValueError ''gap_multiplier'')
     (Inr \<lparr>cm_fee = paper_fee r, cm_slippage = paper_slippage r,
        cm_funding_rate = (\<lambda>t. Inr (pr_funding_fallback_rate r)),
        cm_maintenance_margin_rate = Some (pr_maintenance_margin_rate r)\<rparr>))))))"

subsection \<open>Funding boundaries\<close>

declare boundary_days.simps [simp del]

lemma day_hour_units: "0 < hour_us" "0 < day_us" "day_us = 24 * hour_us" "hour_us = 60 * minute_us"
  "minute_us = 60 * 1000000"
  by (simp_all add: day_us_def hour_us_def minute_us_def)

lemma mod_div_zero:
  fixes t a b :: int
  assumes "0 < b" and "0 < a"
  shows "t mod (a * b) div b = 0 \<longleftrightarrow> t mod (a * b) = t mod b"
proof
  assume z: "t mod (a * b) div b = 0"
  have "t mod (a * b) mod b = t mod b" by (rule mod_mod_cancel) simp
  moreover have "t mod (a * b) = t mod (a * b) div b * b + t mod (a * b) mod b" by simp
  ultimately show "t mod (a * b) = t mod b" using z by simp
next
  assume "t mod (a * b) = t mod b"
  then show "t mod (a * b) div b = 0"
    using assms pos_mod_bound [of b t] pos_mod_sign [of b t] by (simp only: div_pos_pos_trivial)
qed

lemma mod_24_8: "k mod 24 = 0 \<or> k mod 24 = 8 \<or> k mod 24 = 16 \<longleftrightarrow> k mod 8 = 0" for k :: int
proof -
  define j where "j = k mod 24"
  have j: "0 \<le> j" "j < 24" by (simp_all add: j_def)
  have "k mod 8 = j mod 8" unfolding j_def by (rule mod_mod_cancel [symmetric]) simp
  moreover have "j = 0 \<or> j = 8 \<or> j = 16" if "j mod 8 = 0"
  proof -
    from that obtain i where "j = 8 * i" by (auto simp: mod_eq_0_iff_dvd dvd_def)
    moreover from this j have "i = 0 \<or> i = 1 \<or> i = 2" by linarith
    ultimately show ?thesis by auto
  qed
  ultimately show ?thesis unfolding j_def [symmetric] by auto
qed

lemma is_boundary_iff: "is_boundary t \<longleftrightarrow> t mod (8 * hour_us) = 0"
proof -
  have s: "utc_second t = 0 \<longleftrightarrow> t mod minute_us = t mod 1000000"
    using mod_div_zero [of 1000000 60 t] by (simp add: utc_second_def minute_us_def)
  have m: "utc_minute t = 0 \<longleftrightarrow> t mod hour_us = t mod minute_us"
    using mod_div_zero [of minute_us 60 t] by (simp add: utc_minute_def minute_us_def hour_us_def)
  have d: "1000000 dvd minute_us" "minute_us dvd hour_us" by (simp_all add: minute_us_def hour_us_def)
  have us: "t mod 1000000 = 0 \<and> utc_second t = 0 \<and> utc_minute t = 0 \<longleftrightarrow> t mod hour_us = 0"
    unfolding s m using d by (metis dvd_trans mod_0_imp_dvd dvd_imp_mod_0)
  have "utc_hour t \<in> {0, 8, 16} \<longleftrightarrow> t mod (8 * hour_us) = 0" if h: "t mod hour_us = 0"
  proof -
    from h have "hour_us dvd t" by (simp add: mod_eq_0_iff_dvd)
    then obtain k where k: "t = k * hour_us" by (auto simp: dvd_def mult.commute)
    have "t mod day_us = (k mod 24) * hour_us"
      unfolding k day_us_def by (simp only: mult_mod_left)
    then have "utc_hour t = k mod 24" by (simp add: utc_hour_def hour_us_def)
    moreover have "t mod (8 * hour_us) = (k mod 8) * hour_us"
      unfolding k by (simp only: mult_mod_left)
    ultimately show ?thesis using mod_24_8 [of k] by (simp add: hour_us_def)
  qed
  moreover have "t mod (8 * hour_us) = 0 \<Longrightarrow> t mod hour_us = 0"
    by (auto simp: mod_eq_0_iff_dvd intro: dvd_mult_right)
  ultimately show ?thesis unfolding is_boundary_def utc_microsecond_def using us by metis
qed

lemma set_boundary_days:
  assumes "day mod day_us = 0"
  shows "set (boundary_days start stop day) = {b. day \<le> b \<and> start < b \<and> b \<le> stop \<and> is_boundary b}"
  using assms
proof (induction start stop day rule: boundary_days.induct)
  case (1 start stop day)
  have in_day: "b \<in> {day, day + 8 * hour_us, day + 16 * hour_us}"
    if "day \<le> b" "b < day + day_us" "is_boundary b" for b
  proof -
    have "day_us dvd day" "8 * hour_us dvd b"
      using "1.prems" that(3) by (simp_all add: is_boundary_iff mod_eq_0_iff_dvd)
    then obtain k j where k: "day = k * day_us" and j: "b = j * (8 * hour_us)"
      by (auto simp: dvd_def mult.commute)
    have "3 * k \<le> j" "j < 3 * k + 3" using that(1,2) by (simp_all add: k j day_us_def hour_us_def)
    then have "j = 3 * k \<or> j = 3 * k + 1 \<or> j = 3 * k + 2" by linarith
    then show ?thesis by (auto simp: k j day_us_def algebra_simps)
  qed
  have day_ok: "is_boundary day" "is_boundary (day + 8 * hour_us)" "is_boundary (day + 16 * hour_us)"
    using "1.prems" by (auto simp: is_boundary_iff mod_eq_0_iff_dvd day_us_def hour_us_def intro!: dvd_add)
  show ?case
  proof (cases "day \<le> stop")
    case True
    have "(day + day_us) mod day_us = 0" using "1.prems" by simp
    then have IH: "set (boundary_days start stop (day + day_us))
        = {b. day + day_us \<le> b \<and> start < b \<and> b \<le> stop \<and> is_boundary b}"
      using "1.IH" [OF True] by simp
    have "set (boundary_days start stop day) =
        set (day_boundaries start stop day) \<union> set (boundary_days start stop (day + day_us))"
      using True by (subst boundary_days.simps) simp
    also have "set (day_boundaries start stop day)
        = {b \<in> {day, day + 8 * hour_us, day + 16 * hour_us}. start < b \<and> b \<le> stop}"
      by (auto simp: day_boundaries_def)
    also have "{day, day + 8 * hour_us, day + 16 * hour_us}
        = {b. day \<le> b \<and> b < day + day_us \<and> is_boundary b}"
      using in_day day_ok day_hour_units(1,3) by auto
    finally have "set (boundary_days start stop day) =
        {b \<in> {b. day \<le> b \<and> b < day + day_us \<and> is_boundary b}. start < b \<and> b \<le> stop} \<union>
        {b. day + day_us \<le> b \<and> start < b \<and> b \<le> stop \<and> is_boundary b}"
      unfolding IH .
    also have "\<dots> = {b. day \<le> b \<and> start < b \<and> b \<le> stop \<and> is_boundary b}"
      using day_hour_units(2) by auto
    finally show ?thesis .
  next
    case False
    then show ?thesis by (subst boundary_days.simps) auto
  qed
qed

lemma boundaries_between_set:
  "boundaries_between start stop = Inr bs \<Longrightarrow> set bs = {b. start < b \<and> b \<le> stop \<and> is_boundary b}"
proof -
  assume "boundaries_between start stop = Inr bs"
  then have bs: "bs = boundary_days start stop (start - start mod day_us)"
    by (simp add: boundaries_between_def)
  have "(start - start mod day_us) mod day_us = 0"
    by (metis minus_mod_eq_mult_div mod_mult_self1_is_0)
  moreover have "start - start mod day_us \<le> start"
    using pos_mod_sign [OF day_hour_units(2), of start] by linarith
  ultimately show ?thesis unfolding bs by (auto simp: set_boundary_days)
qed

lemma boundary_days_sorted: "sorted_wrt (<) (boundary_days start stop day)"
  and boundary_days_ge: "\<forall>b \<in> set (boundary_days start stop day). day \<le> b"
proof (induction start stop day rule: boundary_days.induct)
  case (1 start stop day)
  have u: "0 < hour_us" "day_us = 24 * hour_us" using day_hour_units by auto
  have m: "b < day + day_us" "day \<le> b" if "b \<in> set (day_boundaries start stop day)" for b
    using that u by (auto simp: day_boundaries_def split: if_splits)
  have s: "sorted_wrt (<) (day_boundaries start stop day)"
    using u by (simp add: day_boundaries_def)
  {
    case 1
    show ?case
      using "1.IH" s m by (subst boundary_days.simps) (fastforce simp: sorted_wrt_append)
  next
    case 2
    show ?case using "1.IH" m u by (subst boundary_days.simps) fastforce
  }
qed

subsection \<open>Liquidation prices\<close>

lemma is_q8_1 [simp]: "is_q8 1"
  using grid_multiple [of Q_AMOUNT "10 ^ 8"] by (simp add: is_q8_def Q_AMOUNT_def)

lemma dctx_1 [simp]: "dctx 1 = 1"
  by (rule is_q8_dctx) simp

lemma leverage_factor:
  assumes "mmr \<le> lt" and mmr: "is_q8 mmr" "0 \<le> mmr" "mmr < 1"
  shows "dadd (dsub 1 lt) mmr \<le> 1" and "1 \<le> dsub (dadd 1 lt) mmr"
proof -
  have "dsub 1 mmr = 1 - mmr" using mmr by (intro dsub_q8) auto
  moreover have "dsub 1 lt \<le> dsub 1 mmr" using assms(1) by (simp add: dsub_def dec.rnd_mono)
  ultimately have "dsub 1 lt + mmr \<le> 1" by simp
  then show "dadd (dsub 1 lt) mmr \<le> 1" by (metis dadd_def dctx_1 dec.rnd_mono)
  have "is_q8 (1 + mmr)" using mmr by (intro is_q8_add) auto
  then have "dctx (1 + mmr) = 1 + mmr" by (rule is_q8_dctx)
  moreover have "dctx (1 + mmr) \<le> dadd 1 lt" using assms(1) by (simp add: dadd_def dec.rnd_mono)
  ultimately have "1 \<le> dadd 1 lt - mmr" by simp
  then show "1 \<le> dsub (dadd 1 lt) mmr" by (metis dsub_def dctx_1 dec.rnd_mono)
qed

lemma dmul_q8_le: "is_q8 e \<Longrightarrow> 0 \<le> e \<Longrightarrow> f \<le> 1 \<Longrightarrow> dmul e f \<le> e"
  and dmul_q8_ge: "is_q8 e \<Longrightarrow> 0 \<le> e \<Longrightarrow> 1 \<le> f \<Longrightarrow> e \<le> dmul e f"
  using dmul_mono [of e f 1] dmul_mono [of e 1 f] by (simp_all add: dmul_def is_q8_dctx)

lemma liquidation_price_elim:
  assumes "liquidation_price entry leverage mmr side = Inr l"
  shows "0 < entry" and "0 < leverage" and "0 \<le> mmr" and "mmr < 1" and "side \<noteq> BOTH" and "is_q8 l"
    and "side = LONG \<Longrightarrow> quantize_amount (dmul entry (dadd (dsub 1 (dctx (1 / of_int leverage))) mmr)) = Inr l"
    and "side = SHORT \<Longrightarrow> quantize_amount (dmul entry (dsub (dadd 1 (dctx (1 / of_int leverage))) mmr)) = Inr l"
  using assms by (auto simp: liquidation_price_def bindR_eq_Inr quantize_price_amount
      split: position_side.splits intro: quantize_is_q8)

lemma liquidation_price_side:
  assumes l: "liquidation_price entry leverage mmr side = Inr l"
    and q8: "is_q8 entry" "is_q8 mmr" and cap: "mmr * of_int leverage \<le> 1"
  shows "side = LONG \<and> l \<le> entry \<or> side = SHORT \<and> entry \<le> l"
proof -
  note e = liquidation_price_elim [OF l]
  have "mmr \<le> 1 / of_int leverage" using cap e(2) by (simp add: field_simps)
  then have "mmr \<le> dctx (1 / of_int leverage)" using q8(2) by (metis is_q8_dctx dec.rnd_mono)
  note f = leverage_factor [OF this q8(2) e(3,4)]
  have ent: "0 \<le> entry" using e(1) by simp
  have "l \<le> entry" if "side = LONG"
    using quantize_le_q8 [OF e(7) [OF that] q8(1)] dmul_q8_le [OF q8(1) ent f(1)] by simp
  moreover have "entry \<le> l" if "side = SHORT"
    using quantize_ge_q8 [OF e(8) [OF that] q8(1)] dmul_q8_ge [OF q8(1) ent f(2)] by simp
  ultimately show ?thesis using e(5) by (cases side) auto
qed

lemma liquidation_price_leverage_mono:
  assumes "liquidation_price entry k mmr side = Inr l" and "liquidation_price entry k' mmr side = Inr l'"
    and "k \<le> k'"
  shows "side = LONG \<and> l \<le> l' \<or> side = SHORT \<and> l' \<le> l"
proof -
  note e = liquidation_price_elim [OF assms(1)] and e' = liquidation_price_elim [OF assms(2)]
  have "(1 :: rat) / of_int k' \<le> 1 / of_int k" using assms(3) e(2) by (intro divide_left_mono) auto
  then have lt: "dctx (1 / of_int k') \<le> dctx (1 / of_int k)" by (rule dec.rnd_mono)
  have a: "dadd (dsub 1 (dctx (1 / of_int k))) mmr \<le> dadd (dsub 1 (dctx (1 / of_int k'))) mmr"
    unfolding dadd_def dsub_def by (intro dec.rnd_mono add_mono) (use lt in simp_all)
  have b: "dsub (dadd 1 (dctx (1 / of_int k'))) mmr \<le> dsub (dadd 1 (dctx (1 / of_int k))) mmr"
    unfolding dadd_def dsub_def by (intro dec.rnd_mono diff_mono) (use lt in simp_all)
  have "l \<le> l'" if "side = LONG"
    by (rule quantize_mono [OF e(7) [OF that] e'(7) [OF that]]) (use a e(1) in \<open>intro dmul_mono, simp_all\<close>)
  moreover have "l' \<le> l" if "side = SHORT"
    by (rule quantize_mono [OF e'(8) [OF that] e(8) [OF that]]) (use b e(1) in \<open>intro dmul_mono, simp_all\<close>)
  ultimately show ?thesis using e(5) by (cases side) auto
qed

lemma price_from_margin_elim:
  assumes "price_from_margin p mmr = Inr l"
  shows "0 < p_quantity p" and "0 < p_entry_price p" and "0 \<le> p_margin p" and "0 \<le> mmr"
    and "mmr < 1" and "is_q8 l" and "0 \<le> l" and "p_side p \<noteq> BOTH"
    and "p_side p = LONG \<Longrightarrow> quantize_amount (max 0 (dmul (p_entry_price p) (dadd (dsub 1
      (dctx (p_margin p / dmul (p_quantity p) (p_entry_price p)))) mmr))) = Inr l"
    and "p_side p = SHORT \<Longrightarrow> quantize_amount (max 0 (dmul (p_entry_price p) (dsub (dadd 1
      (dctx (p_margin p / dmul (p_quantity p) (p_entry_price p)))) mmr))) = Inr l"
  using assms unfolding price_from_margin_def Let_def
  by (auto simp: bindR_eq_Inr quantize_price_amount
      split: position_side.splits intro: quantize_is_q8 quantize_nonneg)

text \<open>An isolated position whose margin is exhausted is liquidated at its entry price.\<close>

lemma exhausted_margin_triggers:
  assumes l: "price_from_margin p mmr = Inr l" and z: "p_margin p = 0"
    and q: "is_q8 (p_entry_price p)" "is_q8 mmr"
  shows "is_triggered (p\<lparr>p_liquidation_price := l\<rparr>) (p_entry_price p) = Inr True"
proof -
  note e = price_from_margin_elim [OF l]
  have ent: "0 \<le> p_entry_price p" using e(2) by simp
  have one: "1 \<le> dadd 1 mmr" "dsub 1 mmr \<le> 1"
    using e(4) dec.rnd_mono [of 1 "1 + mmr"] dec.rnd_mono [of "1 - mmr" 1]
    by (simp_all add: dadd_def dsub_def)
  have s: "dsub 1 0 = 1" "dadd 1 0 = 1" by (simp_all add: dsub_def dadd_def)
  have "p_entry_price p \<le> l" if "p_side p = LONG"
    using quantize_ge_q8 [OF e(9) [OF that] q(1)] dmul_q8_ge [OF q(1) ent one(1)] by (simp add: z s)
  moreover have "l \<le> p_entry_price p" if "p_side p = SHORT"
    using quantize_le_q8 [OF e(10) [OF that] q(1)] dmul_q8_le [OF q(1) ent one(2)] ent by (simp add: z s)
  ultimately show ?thesis using e(8) by (cases "p_side p") (auto simp: is_triggered_def)
qed

subsection \<open>Slippage and fees\<close>

lemma fee_calc_elim:
  assumes "fee_calc n r = Inr f"
  shows "0 \<le> n" and "0 \<le> r" and "quantize_amount (dmul n r) = Inr f" and "0 \<le> f" and "is_q8 f"
proof -
  show a: "0 \<le> n" "0 \<le> r" and b: "quantize_amount (dmul n r) = Inr f"
    using assms by (auto simp: fee_calc_def)
  show "0 \<le> f" by (rule quantize_nonneg [OF b dmul_nonneg [OF a]])
  show "is_q8 f" by (rule quantize_is_q8 [OF b])
qed

lemma dmul_mono2: "0 \<le> a \<Longrightarrow> 0 \<le> b \<Longrightarrow> a \<le> a' \<Longrightarrow> b \<le> b' \<Longrightarrow> dmul a b \<le> dmul a' b'"
  by (simp add: dmul_def dec.rnd_mono mult_mono)

lemma fee_calc_mono: "fee_calc n r = Inr f \<Longrightarrow> fee_calc n' r' = Inr f' \<Longrightarrow> n \<le> n' \<Longrightarrow> r \<le> r' \<Longrightarrow> f \<le> f'"
  by (metis fee_calc_elim(1-3) quantize_mono dmul_mono2)

lemma apply_slippage_side:
  assumes "apply_slippage n side cm ord x = Inr s"
  shows "side = BUY \<and> 0 \<le> s \<or> side = SELL \<and> s \<le> 0" and "is_q8 s"
proof -
  from assms obtain rate m where r: "cm_slippage cm ord x = Inr rate" "0 \<le> rate" "0 \<le> n"
    and m: "quantize_amount (dmul n rate) = Inr m" and s: "s = (if side = BUY then m else dneg m)"
    by (auto simp: apply_slippage_def bindR_eq_Inr)
  have "is_q8 m" and "0 \<le> m"
    using quantize_is_q8 [OF m] quantize_nonneg [OF m dmul_nonneg [OF r(3,2)]] by auto
  then have "is_q8 (- m)" "dneg m = - m" by (simp_all add: is_q8_minus dneg_def is_q8_dctx)
  then show "side = BUY \<and> 0 \<le> s \<or> side = SELL \<and> s \<le> 0" and "is_q8 s"
    using \<open>is_q8 m\<close> \<open>0 \<le> m\<close> by (cases side; simp add: s)+
qed

lemma effective_rate_nonneg:
  assumes "make_slippage_params s = Inr params" and "effective_rate params ord x = Inr r"
    and "0 \<le> o_quantity ord"
  shows "0 \<le> r"
proof -
  from assms(1) have p: "params = s" "0 \<le> sp_spread_rate s" "0 \<le> sp_impact_coefficient s"
    "1 \<le> sp_gap_multiplier s" "\<And>f. sp_fixed_rate s = Some f \<Longrightarrow> 0 \<le> f"
    "\<And>l. sp_liquidity s = Some l \<Longrightarrow> 0 < l"
    by (auto simp: make_slippage_params_def split: option.splits)
  from assms(2) obtain b where b: "(case sp_fixed_rate s of Some rate \<Rightarrow> Inr rate
       | None \<Rightarrow> bindR (case sp_liquidity s of None \<Rightarrow> Inr 0
             | Some liquidity \<Rightarrow> ddiv (dmul (sp_impact_coefficient s) (o_quantity ord)) liquidity) (\<lambda>impact.
           bindR (ddiv (sp_spread_rate s) 2) (\<lambda>half. Inr (dadd half impact)))) = Inr b"
    and r: "r = b \<or> r = dmul b (sp_gap_multiplier s)"
    unfolding effective_rate_def p(1) by (auto simp: bindR_eq_Inr split: option.splits if_splits)
  have "0 \<le> b"
    using b p assms(3)
    by (auto simp: bindR_eq_Inr split: option.splits
        intro!: dadd_nonneg dec.rnd_nonneg divide_nonneg_pos dmul_nonneg)
  then show ?thesis using r p(4) by (auto intro: dmul_nonneg)
qed

subsection \<open>The contract of a CostModel\<close>

text \<open>
  What the matcher and the position book rely on: rates are not negative, whether the fee is
  quoted does not depend on the notional, and the quoted fee rate does not fall as the
  notional grows. It gives that both the fee and an adverse price are monotone.
\<close>

locale cost_contract =
  fixes cm :: cost_model
  assumes fee_rate_nonneg: "cm_fee cm name n = Inr r \<Longrightarrow> 0 \<le> r"
    and fee_rate_quoted: "isOk (cm_fee cm name n) \<Longrightarrow> isOk (cm_fee cm name n')"
    and fee_rate_mono: "cm_fee cm name n = Inr r \<Longrightarrow> cm_fee cm name n' = Inr r' \<Longrightarrow> n \<le> n' \<Longrightarrow> r \<le> r'"
    and slippage_nonneg: "cm_slippage cm ord x = Inr r \<Longrightarrow> 0 \<le> o_quantity ord \<Longrightarrow> 0 \<le> r"
begin

lemma fee_mono:
  assumes "cm_fee cm name n = Inr r" and "cm_fee cm name n' = Inr r'" and "n \<le> n'"
    and "fee_calc n r = Inr f" and "fee_calc n' r' = Inr f'"
  shows "f \<le> f'"
  using fee_calc_mono [OF assms(4,5,3) fee_rate_mono [OF assms(1-3)]] .

lemma fee_never_refused:
  assumes "cm_fee cm name n = Inr r" and "0 \<le> n" and "dmul n r < 10 ^ 19"
  shows "isOk (fee_calc n r)"
proof -
  have r: "0 \<le> r" by (rule fee_rate_nonneg [OF assms(1)])
  have "is_q8 (10 ^ 19)" using grid_multiple [of Q_AMOUNT "10 ^ 27"] by (simp add: is_q8_def Q_AMOUNT_def)
  then obtain y where "quantize_amount (dmul n r) = Inr y"
    using quantize_lower_ok [of "10 ^ 19" "10 ^ 19" "dmul n r"] assms dmul_nonneg [OF assms(2) r] by auto
  then show ?thesis using assms r by (simp add: fee_calc_def)
qed

lemma slippage_accepted:
  assumes "cm_slippage cm ord x = Inr r" and "0 \<le> o_quantity ord" and "0 \<le> n"
  shows "apply_slippage n side cm ord x =
    bindR (quantize_amount (dmul n r)) (\<lambda>m. Inr (if side = BUY then m else dneg m))"
  using assms slippage_nonneg [OF assms(1,2)] by (simp add: apply_slippage_def)

end

definition default_paper_model :: cost_model where
  "default_paper_model = \<lparr>cm_fee = paper_fee default_rates, cm_slippage = paper_slippage default_rates,
     cm_funding_rate = (\<lambda>t. Inr (pr_funding_fallback_rate default_rates)),
     cm_maintenance_margin_rate = Some (pr_maintenance_margin_rate default_rates)\<rparr>"

lemma default_paper_model_built: "paper_cost_model default_rates = Inr default_paper_model"
  by (simp add: paper_cost_model_def default_rates_def default_paper_model_def)

text \<open>Every model the constructor accepts keeps the contract, the default one among them.\<close>

lemma paper_cost_contract:
  assumes "paper_cost_model r = Inr cm"
  shows "cost_contract cm"
proof
  have r: "0 \<le> pr_taker_fee_rate r" "0 \<le> pr_entry_slippage_rate r" "0 \<le> pr_exit_slippage_rate r"
    "1 \<le> pr_gap_multiplier r" and fee: "cm_fee cm = paper_fee r"
    and slip: "cm_slippage cm = paper_slippage r"
    using assms by (auto simp: paper_cost_model_def)
  fix name n n' q q' ord x
  show "0 \<le> q" if "cm_fee cm name n = Inr q" using that r by (auto simp: fee paper_fee_def)
  show "isOk (cm_fee cm name n')" if "isOk (cm_fee cm name n)"
    using that by (auto simp: fee paper_fee_def raise_if_def split: if_splits)
  show "q \<le> q'" if "cm_fee cm name n = Inr q" "cm_fee cm name n' = Inr q'" "n \<le> n'"
    using that by (auto simp: fee paper_fee_def)
  show "0 \<le> q" if "cm_slippage cm ord x = Inr q" "0 \<le> o_quantity ord"
    using that effective_rate_nonneg [OF _ _ that(2)]
    by (auto simp: slip paper_slippage_def Let_def bindR_eq_Inr)
qed

interpretation paper: cost_contract default_paper_model
  by (rule paper_cost_contract) (rule default_paper_model_built)

end
