(* ===== verification/Matcher.thy ===== *)
theory Matcher
  imports Costs
begin

section \<open>Normalizer and matcher (core_lib/execution/normalizer.py, matcher.py)\<close>

text \<open>
  The float-to-Decimal gateway for orders, the execution candle, the trigger rules per order
  type, the risk- and cash-aware truncation of an entry, and the protection triggers of an open
  position. An order is a mutable object: \<open>fill_order\<close> and \<open>match\<close> return it with the fill.
\<close>

subsection \<open>Normalizer\<close>

definition normalize_order ::
    "order_request \<Rightarrow> order_id option \<Rightarrow> uuid_name option \<Rightarrow> string option \<Rightarrow> string option \<Rightarrow> order res" where
  "normalize_order request order_key client_order_id wallet_id signal_id =
     (let client = (case client_order_id of Some c \<Rightarrow> c | None \<Rightarrow> RequestName request);
          oid = (case order_key of Some i \<Rightarrow> if i = GivenId [] then UuidId client else i | None \<Rightarrow> UuidId client) in
      bindR (to_decimal (rq_quantity request) quantize_amount) (\<lambda>quantity.
      bindR (case rq_price request of None \<Rightarrow> Inr None
        | Some p \<Rightarrow> bindR (to_decimal p quantize_price) (\<lambda>d. Inr (Some d))) (\<lambda>price.
      bindR (case rq_stop_price request of None \<Rightarrow> Inr None
        | Some p \<Rightarrow> bindR (to_decimal p quantize_price) (\<lambda>d. Inr (Some d))) (\<lambda>stop.
      make_order \<lparr>o_id = oid, o_wallet_id = wallet_id, o_signal_id = signal_id,
        o_order_type = rq_order_type request, o_side = rq_side request, o_symbol = rq_symbol request,
        o_quantity = quantity, o_price = price, o_filled_quantity = 0, o_average_filled_price = None,
        o_status = NEW, o_fee = 0, o_client_order_id = client, o_market_type = rq_market_type request,
        o_position_side = rq_position_side request, o_reduce_only = rq_reduce_only request,
        o_close_position = rq_close_position request, o_stop_price = stop,
        o_time_in_force = rq_time_in_force request\<rparr>))))"

subsection \<open>Execution candle and trigger\<close>

datatype fill_timing = Immediate | NextBar | OtherTiming

definition price_of :: "pyfloat \<Rightarrow> decimal res" where
  "price_of v = to_decimal v quantize_price"

definition execution_candle ::
    "candle \<Rightarrow> candle list \<Rightarrow> fill_timing \<Rightarrow> (candle \<times> decimal \<times> instant) res" where
  "execution_candle c history timing =
     (case timing of
        OtherTiming \<Rightarrow> Inl (ValueError ''fill_timing'')
      | Immediate \<Rightarrow> bindR (price_of (c_close c)) (\<lambda>p. Inr (c, p, c_close_time c))
      | NextBar \<Rightarrow>
          (case sort_key c_open_time
              (filter (\<lambda>candidate. candidate \<noteq> c \<and> c_close_time c \<le> c_open_time candidate) history) of
             [] \<Rightarrow> Inl (ValueError ''next_bar'')
           | next_candle # _ \<Rightarrow>
               bindR (price_of (c_open next_candle)) (\<lambda>p.
                 Inr (next_candle, p, max (c_open_time next_candle) (c_close_time c + 1000)))))"

definition trigger_reference :: "order \<Rightarrow> candle \<Rightarrow> (decimal \<times> bool) option res" where
  "trigger_reference ord c =
     bindR (price_of (c_open c)) (\<lambda>open_price.
     bindR (price_of (c_high c)) (\<lambda>high.
     bindR (price_of (c_low c)) (\<lambda>low.
     (case o_order_type ord of
        MARKET \<Rightarrow> Inr (Some (open_price, False))
      | LIMIT \<Rightarrow>
          (case o_price ord of
             None \<Rightarrow> Inl (ValueError ''limit price'')
           | Some price \<Rightarrow>
               Inr (if o_side ord = BUY \<and> low \<le> price then Some (min open_price price, open_price < price)
                    else if o_side ord = SELL \<and> price \<le> high then Some (max open_price price, price < open_price)
                    else None))
      | STOP_MARKET \<Rightarrow>
          (case o_stop_price ord of
             None \<Rightarrow> Inl (ValueError ''stop price'')
           | Some stop \<Rightarrow>
               Inr (if o_side ord = BUY \<and> stop \<le> high then Some (max open_price stop, stop < open_price)
                    else if o_side ord = SELL \<and> low \<le> stop then Some (min open_price stop, open_price < stop)
                    else None))
      | TAKE_PROFIT_MARKET \<Rightarrow>
          (case o_stop_price ord of
             None \<Rightarrow> Inl (ValueError ''stop price'')
           | Some stop \<Rightarrow>
               Inr (if o_side ord = BUY \<and> low \<le> stop then Some (min open_price stop, False)
                    else if o_side ord = SELL \<and> stop \<le> high then Some (max open_price stop, False)
                    else None))
      | TRAILING_STOP_MARKET \<Rightarrow>
          (case o_stop_price ord of
             None \<Rightarrow> Inl (ValueError ''stop price'')
           | Some _ \<Rightarrow> Inl (NotImplementedError ''trailing stop''))))))"

subsection \<open>Execution price and fill\<close>

definition execution_price ::
    "order \<Rightarrow> decimal \<Rightarrow> decimal \<Rightarrow> cost_model \<Rightarrow> bool \<Rightarrow> (decimal \<times> decimal) res" where
  "execution_price ord reference quantity cm gap =
     bindR (quantize_amount (dadd (o_filled_quantity ord) quantity)) (\<lambda>priced_quantity.
     bindR (make_order (ord\<lparr>o_quantity := priced_quantity\<rparr>)) (\<lambda>priced_order.
     bindR (quantize_amount (dmul reference quantity)) (\<lambda>reference_notional.
     bindR (apply_slippage reference_notional (o_side ord) cm priced_order
        (Some \<lparr>x_gap_filled = gap, x_reference_price = reference\<rparr>)) (\<lambda>signed_slippage.
     bindR (ddiv signed_slippage quantity) (\<lambda>per_unit.
     bindR (quantize_price (dadd reference per_unit)) (\<lambda>actual_price.
     raise_if (actual_price \<le> 0) (ValueError ''execution price'')
     (Inr (actual_price, signed_slippage))))))))"

definition fill_order ::
    "order \<Rightarrow> decimal \<Rightarrow> decimal \<Rightarrow> instant \<Rightarrow> cost_model \<Rightarrow> bool \<Rightarrow> bool \<Rightarrow> exit_reason option \<Rightarrow> (order \<times> fill) res" where
  "fill_order ord reference quantity timestamp cm gap truncated_qty reason =
     bindR (execution_price ord reference quantity cm gap) (\<lambda>(actual_price, signed_slippage).
     bindR (quantize_amount (dmul actual_price quantity)) (\<lambda>notional.
     bindR (cm_fee cm (o_symbol ord) notional) (\<lambda>rate.
     bindR (fee_calc notional rate) (\<lambda>fee.
     bindR (quantize_amount (dadd (o_filled_quantity ord) quantity)) (\<lambda>cumulative_quantity.
     (let previous_notional = (case o_average_filled_price ord of None \<Rightarrow> 0
            | Some average \<Rightarrow> dmul average (o_filled_quantity ord)) in
     bindR (ddiv (dadd previous_notional (dmul actual_price quantity)) cumulative_quantity) (\<lambda>ratio.
     bindR (quantize_price ratio) (\<lambda>cumulative_average.
     bindR (mark_as_filled ord (o_quantity ord) cumulative_average) (\<lambda>filled.
     bindR (quantize_amount (dadd (o_fee filled) fee)) (\<lambda>order_fee.
     (let ord' = filled\<lparr>o_fee := order_fee\<rparr> in
      bindR (make_fill \<lparr>f_order_id = o_id ord', f_symbol = o_symbol ord', f_side = o_side ord',
        f_position_side = o_position_side ord', f_reference_price = reference, f_price = actual_price,
        f_quantity = quantity, f_fee = fee, f_slippage = dabs signed_slippage, f_liquidity = ''taker'',
        f_timestamp = timestamp, f_reduce_only = o_reduce_only ord' \<or> o_close_position ord',
        f_exit_reason = reason, f_gap_filled = gap, f_qty_truncated = truncated_qty\<rparr>) (\<lambda>f.
      Inr (ord', f)))))))))))))"

subsection \<open>Cash- and risk-aware quantity\<close>

definition entry_cash_requirement ::
    "order \<Rightarrow> decimal \<Rightarrow> decimal \<Rightarrow> cost_model \<Rightarrow> int \<Rightarrow> decimal res" where
  "entry_cash_requirement ord fill_price quantity cm leverage =
     bindR (quantize_amount (dmul fill_price quantity)) (\<lambda>notional.
     bindR (ddiv notional (of_int leverage)) (\<lambda>share.
     bindR (quantize_amount share) (\<lambda>margin.
     bindR (cm_fee cm (o_symbol ord) notional) (\<lambda>fee_rate.
     bindR (fee_calc notional fee_rate) (\<lambda>entry_fee.
     bindR (fee_calc notional fee_rate) (\<lambda>liquidation_exit_fee.
     quantize_amount (dadd (dadd margin entry_fee) liquidation_exit_fee)))))))"

function affordable_search ::
    "(int \<Rightarrow> decimal res) \<Rightarrow> decimal \<Rightarrow> int \<Rightarrow> int \<Rightarrow> int \<Rightarrow> int res" where
  "affordable_search requirement available low high affordable =
     (if low \<le> high then
        (let middle = (low + high) div 2 in
         bindR (if middle = 0 then Inr 0 else requirement middle) (\<lambda>needed.
           if needed \<le> available then affordable_search requirement available (middle + 1) high middle
           else affordable_search requirement available low (middle - 1) affordable))
      else Inr affordable)"
  by pat_completeness auto
termination
  by (relation "measure (\<lambda>(r, a, low, high, b). nat (high - low + 1))") auto

definition units :: "int \<Rightarrow> decimal" where
  "units n = dmul Q_AMOUNT (of_int n)"

definition affordable_entry_quantity ::
    "order \<Rightarrow> decimal \<Rightarrow> decimal \<Rightarrow> decimal \<Rightarrow> cost_model \<Rightarrow> int \<Rightarrow> decimal res" where
  "affordable_entry_quantity ord fill_price maximum available cm leverage =
     bindR (quantize_down Q_AMOUNT maximum) (\<lambda>truncated_max.
     bindR (ddiv truncated_max Q_AMOUNT) (\<lambda>ratio.
     bindR (affordable_search (\<lambda>n. entry_cash_requirement ord fill_price (units n) cm leverage)
        available 0 (py_int ratio) 0) (\<lambda>affordable_units.
     Inr (units affordable_units))))"

text \<open>The three blocks of \<open>recompute_qty_and_stop\<close>: the re-anchored stop, the risk and the cash bound.\<close>

definition stop_distance_of :: "order \<Rightarrow> decimal \<Rightarrow> decimal \<Rightarrow> decimal" where
  "stop_distance_of ord fill_price stop =
     (let reference = (case o_price ord of None \<Rightarrow> fill_price | Some p \<Rightarrow> if p = 0 then fill_price else p)
      in dabs (dsub reference stop))"

definition reanchored_stop :: "order \<Rightarrow> decimal \<Rightarrow> (decimal \<times> decimal) option res" where
  "reanchored_stop ord fill_price =
     (case o_stop_price ord of
        None \<Rightarrow> Inr None
      | Some stop \<Rightarrow>
          (let distance = stop_distance_of ord fill_price stop in
           raise_if (distance = 0) (ValueError ''stop distance'')
           (case o_position_side ord of
              LONG \<Rightarrow> bindR (quantize_price (dsub fill_price distance)) (\<lambda>s. Inr (Some (distance, s)))
            | SHORT \<Rightarrow> bindR (quantize_price (dadd fill_price distance)) (\<lambda>s. Inr (Some (distance, s)))
            | BOTH \<Rightarrow> Inl (ValueError ''entry direction''))))"

definition risk_bounded :: "decimal option \<Rightarrow> (decimal \<times> decimal) option \<Rightarrow> decimal \<Rightarrow> decimal res" where
  "risk_bounded risk_budget protect quantity =
     (case risk_budget of
        None \<Rightarrow> Inr quantity
      | Some budget \<Rightarrow>
          raise_if (budget \<le> 0) (ValueError ''risk_budget'')
          (case protect of
             None \<Rightarrow> Inl (ValueError ''initial stop'')
           | Some (distance, _) \<Rightarrow>
               bindR (ddiv budget distance) (\<lambda>ratio.
               bindR (quantize_amount ratio) (\<lambda>risk_quantity. Inr (min quantity risk_quantity)))))"

definition cash_bounded ::
    "order \<Rightarrow> decimal \<Rightarrow> decimal option \<Rightarrow> int \<Rightarrow> cost_model option \<Rightarrow> decimal \<Rightarrow> decimal res" where
  "cash_bounded ord fill_price available_margin leverage cm quantity =
     (case available_margin of
        None \<Rightarrow> Inr quantity
      | Some available \<Rightarrow>
          raise_if (available < 0) (ValueError ''available_margin'')
          (case cm of
             None \<Rightarrow> Inl (ValueError ''CostModel'')
           | Some costs \<Rightarrow>
               bindR (affordable_entry_quantity ord fill_price quantity available costs leverage) (\<lambda>affordable.
               Inr (min quantity affordable))))"

definition recompute_qty_and_stop ::
    "order \<Rightarrow> decimal \<Rightarrow> decimal option \<Rightarrow> decimal option \<Rightarrow> int \<Rightarrow> cost_model option \<Rightarrow>
      (decimal \<times> decimal option) res" where
  "recompute_qty_and_stop ord fill_price risk_budget available_margin leverage cm =
     raise_if (fill_price \<le> 0) (ValueError ''fill_price'')
     (raise_if (leverage \<le> 0) (ValueError ''leverage'')
     (bindR (reanchored_stop ord fill_price) (\<lambda>protect.
      bindR (remaining_quantity ord) (\<lambda>remaining.
      bindR (risk_bounded risk_budget protect remaining) (\<lambda>risk_quantity.
      bindR (cash_bounded ord fill_price available_margin leverage cm risk_quantity) (\<lambda>final_quantity.
      bindR (quantize_amount final_quantity) (\<lambda>q.
      Inr (q, map_option snd protect))))))))"

subsection \<open>Matching\<close>

fun truncation_loop ::
    "nat \<Rightarrow> order \<Rightarrow> decimal \<Rightarrow> cost_model \<Rightarrow> bool \<Rightarrow> decimal option \<Rightarrow> decimal option \<Rightarrow> int \<Rightarrow> decimal \<Rightarrow>
      (decimal \<times> decimal option) res" where
  "truncation_loop 0 ord reference cm gap risk_budget entry_margin leverage quantity =
     Inl (RuntimeError ''truncation did not converge'')"
| "truncation_loop (Suc n) ord reference cm gap risk_budget entry_margin leverage quantity =
     bindR (execution_price ord reference quantity cm gap) (\<lambda>(preview_price, _).
     bindR (recompute_qty_and_stop ord preview_price risk_budget entry_margin leverage (Some cm)) (\<lambda>(r, new_stop).
     (let recomputed = min quantity r in
      if recomputed = quantity then Inr (quantity, new_stop)
      else truncation_loop n ord reference cm gap risk_budget entry_margin leverage recomputed)))"

text \<open>The cash check of an entry on the truncated order, before it is filled.\<close>

definition entry_cash_check ::
    "order \<Rightarrow> decimal \<Rightarrow> decimal \<Rightarrow> cost_model \<Rightarrow> bool \<Rightarrow> decimal option \<Rightarrow> int \<Rightarrow> unit res" where
  "entry_cash_check ord reference quantity cm gap entry_margin leverage =
     (case entry_margin of
        None \<Rightarrow> Inr ()
      | Some margin \<Rightarrow>
          bindR (execution_price ord reference quantity cm gap) (\<lambda>(final_price, _).
          bindR (entry_cash_requirement ord final_price quantity cm leverage) (\<lambda>needed.
          raise_if (margin < needed) (RuntimeError ''exceeds available cash'') (Inr ()))))"

text \<open>The second half of \<open>match\<close>: truncate, re-anchor the stop, check the cash and fill.\<close>

definition match_triggered ::
    "order \<Rightarrow> decimal \<Rightarrow> bool \<Rightarrow> instant \<Rightarrow> cost_model \<Rightarrow> decimal option \<Rightarrow> decimal option \<Rightarrow> int \<Rightarrow>
      (order \<times> fill) res" where
  "match_triggered ord reference gap timestamp cm risk_budget available_margin leverage =
     bindR (remaining_quantity ord) (\<lambda>remaining.
     (let entry_margin = (if o_reduce_only ord \<or> o_close_position ord then None else available_margin) in
      bindR (truncation_loop 32 ord reference cm gap risk_budget entry_margin leverage remaining)
        (\<lambda>(quantity, new_stop).
      raise_if (quantity \<le> 0) (ValueError ''truncates to zero'')
      (let qty_truncated = quantity < remaining in
       bindR (if qty_truncated
           then bindR (quantize_amount (dadd (o_filled_quantity ord) quantity)) (\<lambda>q. Inr (ord\<lparr>o_quantity := q\<rparr>))
           else Inr ord) (\<lambda>ord1.
       (let ord2 = (case new_stop of None \<Rightarrow> ord1 | Some s \<Rightarrow> ord1\<lparr>o_stop_price := Some s\<rparr>) in
        bindR (entry_cash_check ord2 reference quantity cm gap entry_margin leverage) (\<lambda>_.
        fill_order ord2 reference quantity timestamp cm gap qty_truncated None)))))))"

definition match ::
    "order \<Rightarrow> candle \<Rightarrow> candle list \<Rightarrow> cost_model \<Rightarrow> fill_timing \<Rightarrow> decimal option \<Rightarrow> decimal option \<Rightarrow> int \<Rightarrow>
      (order \<times> fill) res" where
  "match ord c history cm timing risk_budget available_margin leverage =
     raise_if (is_terminal (o_status ord)) (ValueError ''terminal'')
     (bindR (execution_candle c history timing) (\<lambda>(exec_candle, base_reference, timestamp).
      bindR (trigger_reference ord exec_candle) (\<lambda>triggered.
      (case triggered of
         None \<Rightarrow> Inl (ValueError ''not triggered'')
       | Some (trigger_price, gap) \<Rightarrow>
           match_triggered ord (if o_order_type ord = MARKET then base_reference else trigger_price)
             gap timestamp cm risk_budget available_margin leverage))))"

subsection \<open>Protection triggers\<close>

definition protection_reference ::
    "position \<Rightarrow> candle \<Rightarrow> decimal \<Rightarrow> exit_reason \<Rightarrow> (decimal \<times> bool) res" where
  "protection_reference p c level reason =
     bindR (price_of (c_open c)) (\<lambda>open_price.
     Inr (if reason = LIQUIDATION
       then (level, if p_side p = LONG then open_price < level else level < open_price)
       else if reason = TAKE_PROFIT
       then (if p_side p = LONG then (max level open_price, level < open_price)
             else (min level open_price, open_price < level))
       else (if p_side p = LONG then (min level open_price, open_price < level)
             else (max level open_price, level < open_price))))"

definition synthetic_exit_order :: "position \<Rightarrow> instant \<Rightarrow> exit_reason \<Rightarrow> order res" where
  "synthetic_exit_order p timestamp reason =
     (let side = (if p_side p = LONG then SELL else BUY);
          client = ExitName (p_symbol p) timestamp reason in
      make_order \<lparr>o_id = SyntheticId client, o_wallet_id = p_wallet_id p, o_signal_id = None,
        o_order_type = MARKET, o_side = side, o_symbol = p_symbol p, o_quantity = p_quantity p,
        o_price = None, o_filled_quantity = 0, o_average_filled_price = None, o_status = NEW, o_fee = 0,
        o_client_order_id = client, o_market_type = p_market_type p, o_position_side = p_side p,
        o_reduce_only = True, o_close_position = False, o_stop_price = None, o_time_in_force = ''GTC''\<rparr>)"

text \<open>The level and reason a candle triggers, with the conservative precedence of the code.\<close>

definition liquidation_level :: "position \<Rightarrow> cost_model \<Rightarrow> decimal res" where
  "liquidation_level p cm =
     (if p_liquidation_price p \<le> 0 then
        (case cm_maintenance_margin_rate cm of
           None \<Rightarrow> Inl (TypeError ''maintenance_margin_rate'')
         | Some mmr \<Rightarrow> liquidation_price (p_entry_price p) (p_leverage p) mmr (p_side p))
      else Inr (p_liquidation_price p))"

definition trigger_reason ::
    "position \<Rightarrow> decimal \<Rightarrow> decimal \<Rightarrow> decimal \<Rightarrow> decimal option \<Rightarrow> decimal option \<Rightarrow> bool \<Rightarrow>
      (exit_reason \<times> decimal) option" where
  "trigger_reason p low high level stop_price take_profit_price liquidation_hit =
     (let is_long = (p_side p = LONG);
          stop_hit = (case stop_price of None \<Rightarrow> False | Some s \<Rightarrow> if is_long then low \<le> s else s \<le> high);
          take_hit = (case take_profit_price of None \<Rightarrow> False | Some t \<Rightarrow> if is_long then t \<le> high else low \<le> t);
          invalid_stop = (case stop_price of None \<Rightarrow> False | Some s \<Rightarrow> if is_long then s < level else level < s)
      in if stop_hit \<and> liquidation_hit \<and> invalid_stop then Some (LIQUIDATION, level)
         else if stop_hit then map_option (\<lambda>s. (STOP_LOSS, s)) stop_price
         else if liquidation_hit then Some (LIQUIDATION, level)
         else if take_hit then map_option (\<lambda>t. (TAKE_PROFIT, t)) take_profit_price
         else None)"

definition skip_first_sl_check :: bool where "skip_first_sl_check = True"

definition candle_trigger ::
    "position \<Rightarrow> candle \<Rightarrow> cost_model \<Rightarrow> decimal option \<Rightarrow> decimal option \<Rightarrow> (exit_reason \<times> decimal) option res" where
  "candle_trigger p c cm stop_price take_profit_price =
     bindR (price_of (c_low c)) (\<lambda>low.
     bindR (price_of (c_high c)) (\<lambda>high.
     bindR (liquidation_level p cm) (\<lambda>level.
     bindR (if 0 < p_liquidation_price p then Inr p
            else make_position (p\<lparr>p_liquidation_price := level\<rparr>)) (\<lambda>liquidation_position.
     (let adverse_extreme = (if p_side p = LONG then low else high) in
      bindR (is_triggered liquidation_position adverse_extreme) (\<lambda>liquidation_hit.
      Inr (trigger_reason p low high level stop_price take_profit_price liquidation_hit)))))))"

fun resolve_candles ::
    "position \<Rightarrow> candle list \<Rightarrow> cost_model \<Rightarrow> decimal option \<Rightarrow> decimal option \<Rightarrow> instant option \<Rightarrow> fill option res" where
  "resolve_candles p [] cm stop_price take_profit_price entry_time = Inr None"
| "resolve_candles p (c # cs) cm stop_price take_profit_price entry_time =
     (if skip_first_sl_check \<and> (case entry_time of None \<Rightarrow> False | Some t \<Rightarrow> c_open_time c \<le> t)
      then resolve_candles p cs cm stop_price take_profit_price entry_time
      else bindR (candle_trigger p c cm stop_price take_profit_price) (\<lambda>hit.
        (case hit of
           None \<Rightarrow> resolve_candles p cs cm stop_price take_profit_price entry_time
         | Some (reason, level) \<Rightarrow>
             bindR (protection_reference p c level reason) (\<lambda>(reference, gap).
             bindR (synthetic_exit_order p (c_open_time c) reason) (\<lambda>ord.
             bindR (fill_order ord reference (p_quantity p) (c_close_time c) cm gap False (Some reason)) (\<lambda>(_, f).
             Inr (Some f)))))))"

definition resolve_triggers ::
    "position \<Rightarrow> candle list \<Rightarrow> cost_model \<Rightarrow> decimal option \<Rightarrow> decimal option \<Rightarrow> instant option \<Rightarrow> fill option res" where
  "resolve_triggers p candles cm stop_price take_profit_price entry_time =
     raise_if (p_side p = BOTH) (ValueError ''trigger direction'')
     (resolve_candles p (sort_key c_open_time candles) cm stop_price take_profit_price entry_time)"

definition liquidation_fill :: "position \<Rightarrow> decimal \<Rightarrow> instant \<Rightarrow> cost_model \<Rightarrow> fill res" where
  "liquidation_fill p reference timestamp cm =
     raise_if (reference \<le> 0) (ValueError ''liquidation reference_price'')
     (bindR (synthetic_exit_order p timestamp LIQUIDATION) (\<lambda>ord.
      bindR (fill_order ord reference (p_quantity p) timestamp cm False False (Some LIQUIDATION)) (\<lambda>(_, f).
      Inr f)))"

subsection \<open>Adverse execution prices\<close>

lemma execution_price_elim:
  assumes "execution_price ord reference q cm gap = Inr (px, s)"
  obtains po n where "make_order (ord\<lparr>o_quantity := o_quantity po\<rparr>) = Inr po"
    and "quantize_amount (dmul reference q) = Inr n"
    and "apply_slippage n (o_side ord) cm po (Some \<lparr>x_gap_filled = gap, x_reference_price = reference\<rparr>) = Inr s"
    and "q \<noteq> 0" and "quantize_amount (dadd reference (dctx (s / q))) = Inr px" and "0 < px"
proof -
  from assms obtain pq po n where p: "quantize_amount (dadd (o_filled_quantity ord) q) = Inr pq"
    "make_order (ord\<lparr>o_quantity := pq\<rparr>) = Inr po"
    "quantize_amount (dmul reference q) = Inr n"
    "apply_slippage n (o_side ord) cm po (Some \<lparr>x_gap_filled = gap, x_reference_price = reference\<rparr>) = Inr s"
    "q \<noteq> 0" "quantize_amount (dadd reference (dctx (s / q))) = Inr px" "0 < px"
    by (auto simp: execution_price_def bindR_eq_Inr quantize_price_amount)
  have "is_q8 pq" by (rule quantize_is_q8 [OF p(1)])
  then have "o_quantity po = pq"
    using p(2) by (auto simp: make_order_def bindR_eq_Inr validate_fill_status_def raise_if_def split: if_splits)
  then show thesis using p by (intro that [of po n]) auto
qed

lemma execution_price_adverse:
  assumes "execution_price ord reference q cm gap = Inr (px, s)" and "is_q8 reference" and "0 < q"
  shows "o_side ord = BUY \<and> reference \<le> px \<or> o_side ord = SELL \<and> px \<le> reference"
    and "0 < px" and "is_q8 px" and "is_q8 s"
proof -
  from assms(1) obtain po n where
    s: "apply_slippage n (o_side ord) cm po (Some \<lparr>x_gap_filled = gap, x_reference_price = reference\<rparr>) = Inr s"
    and px: "quantize_amount (dadd reference (dctx (s / q))) = Inr px" "0 < px"
    by (rule execution_price_elim)
  note side = apply_slippage_side [OF s]
  have fixed: "dadd reference 0 = reference" using assms(2) by (simp add: dadd_def is_q8_dctx)
  have "reference \<le> px" if "0 \<le> s"
    using dadd_mono [of reference reference 0 "dctx (s / q)"] that assms(3) fixed
    by (intro quantize_ge_q8 [OF px(1) assms(2)]) (simp add: dec.rnd_nonneg)
  moreover have "px \<le> reference" if "s \<le> 0"
    using dadd_mono [of reference reference "dctx (s / q)" 0] that assms(3) fixed
    by (intro quantize_le_q8 [OF px(1) assms(2)]) (simp add: dec.rnd_nonpos divide_nonpos_pos)
  ultimately show "o_side ord = BUY \<and> reference \<le> px \<or> o_side ord = SELL \<and> px \<le> reference"
    using side by auto
  show "0 < px" "is_q8 px" "is_q8 s" using px quantize_is_q8 [OF px(1)] side by auto
qed

subsection \<open>The search for the affordable quantity\<close>

declare affordable_search.simps [simp del]

lemma affordable_done: "high < low \<Longrightarrow> affordable_search requirement available low high a = Inr a"
  by (subst affordable_search.simps) simp

lemma affordable_stepE:
  assumes "affordable_search requirement available low high a = Inr n" and "low \<le> high"
  obtains c where "(if (low + high) div 2 = 0 then Inr 0 else requirement ((low + high) div 2)) = Inr c"
    and "(if c \<le> available then affordable_search requirement available ((low + high) div 2 + 1) high ((low + high) div 2)
        else affordable_search requirement available low ((low + high) div 2 - 1) a) = Inr n"
  using assms by (simp only: affordable_search.simps [of requirement available low high a] if_True
      Let_def bindR_eq_Inr) blast

lemma affordable_search_within:
  "affordable_search requirement available low high a = Inr n \<Longrightarrow>
    n = a \<or> low \<le> n \<and> n \<le> high \<and>
      (n = 0 \<and> 0 \<le> available \<or> (\<exists>c. requirement n = Inr c \<and> c \<le> available))"
proof (induction requirement available low high a rule: affordable_search.induct)
  case (1 requirement available low high a)
  define middle where "middle = (low + high) div 2"
  show ?case
  proof (cases "low \<le> high")
    case False
    then show ?thesis using "1.prems" by (simp add: affordable_done)
  next
    case True
    have m: "low \<le> middle" "middle \<le> high" using True by (simp_all add: middle_def)
    from "1.prems" True obtain c where c: "(if middle = 0 then Inr 0 else requirement middle) = Inr c"
      and r: "(if c \<le> available then affordable_search requirement available (middle + 1) high middle
        else affordable_search requirement available low (middle - 1) a) = Inr n"
      unfolding middle_def by (rule affordable_stepE)
    show ?thesis
    proof (cases "c \<le> available")
      case True
      then have "n = middle \<or> middle + 1 \<le> n \<and> n \<le> high \<and>
          (n = 0 \<and> 0 \<le> available \<or> (\<exists>c. requirement n = Inr c \<and> c \<le> available))"
        using "1.IH"(1) [OF \<open>low \<le> high\<close> middle_def c True] r True by simp
      then show ?thesis using m True c by (auto split: if_splits)
    next
      case False
      then have "n = a \<or> low \<le> n \<and> n \<le> middle - 1 \<and>
          (n = 0 \<and> 0 \<le> available \<or> (\<exists>c. requirement n = Inr c \<and> c \<le> available))"
        using "1.IH"(2) [OF \<open>low \<le> high\<close> middle_def c False] r False by simp
      then show ?thesis using m by auto
    qed
  qed
qed

lemma affordable_search_above:
  assumes "\<And>i j c d. 0 < i \<Longrightarrow> i \<le> j \<Longrightarrow> j \<le> N \<Longrightarrow> requirement i = Inr c \<Longrightarrow> requirement j = Inr d \<Longrightarrow> c \<le> d"
    and "0 \<le> available" and "0 \<le> low"
    and "affordable_search requirement available low high a = Inr n" and "n < k" and "low \<le> k" and "k \<le> high"
    and "requirement k = Inr e" and "0 < k" and "high \<le> N"
  shows "available < e"
  using assms
proof (induction requirement available low high a arbitrary: n rule: affordable_search.induct)
  case (1 requirement available low high a)
  define middle where "middle = (low + high) div 2"
  have le: "low \<le> high" using "1.prems" by linarith
  have m: "low \<le> middle" "middle \<le> high" using le by (simp_all add: middle_def)
  from "1.prems"(4) le obtain c where c: "(if middle = 0 then Inr 0 else requirement middle) = Inr c"
    and r: "(if c \<le> available then affordable_search requirement available (middle + 1) high middle
        else affordable_search requirement available low (middle - 1) a) = Inr n"
    unfolding middle_def by (rule affordable_stepE)
  show ?case
  proof (cases "c \<le> available")
    case True
    then have rec: "affordable_search requirement available (middle + 1) high middle = Inr n" using r by simp
    have "middle \<le> n" using affordable_search_within [OF rec] by auto
    then show ?thesis
      using "1.IH"(1) [OF le middle_def c True _ _ _ rec] "1.prems" m by simp
  next
    case False
    then have rec: "affordable_search requirement available low (middle - 1) a = Inr n" using r by simp
    have mid: "middle \<noteq> 0" "requirement middle = Inr c" using c False "1.prems"(2) by (auto split: if_splits)
    show ?thesis
    proof (cases "k \<le> middle - 1")
      case True
      moreover have "middle - 1 \<le> N" using m "1.prems"(10) by linarith
      ultimately show ?thesis
        using "1.IH"(2) [OF le middle_def c \<open>\<not> c \<le> available\<close> _ _ _ rec] "1.prems" by simp
    next
      case False
      then have "c \<le> e" using "1.prems"(1) [of middle k c e] mid m "1.prems"(3,7,8,10) by linarith
      then show ?thesis using \<open>\<not> c \<le> available\<close> by linarith
    qed
  qed
qed

lemma affordable_search_total:
  assumes "\<And>i. 0 < i \<Longrightarrow> i \<le> N \<Longrightarrow> \<exists>c. requirement i = Inr c" and "0 \<le> low" and "high \<le> N"
  shows "\<exists>n. affordable_search requirement available low high a = Inr n"
  using assms
proof (induction requirement available low high a rule: affordable_search.induct)
  case (1 requirement available low high a)
  show ?case
  proof (cases "low \<le> high")
    case True
    define middle where "middle = (low + high) div 2"
    have mid: "0 \<le> middle" "middle \<le> high" using True 1(4) by (auto simp: middle_def)
    then obtain c where c: "(if middle = 0 then Inr 0 else requirement middle) = Inr c"
      using 1(3) [of middle] 1(5) by (cases "middle = 0") auto
    have up: "\<exists>n. affordable_search requirement available (middle + 1) high middle = Inr n"
      if "c \<le> available"
      by (rule 1(1) [OF True middle_def c that 1(3)]) (use mid 1(4,5) in auto)
    have down: "\<exists>n. affordable_search requirement available low (middle - 1) a = Inr n"
      if "\<not> c \<le> available"
      by (rule 1(2) [OF True middle_def c that 1(3)]) (use mid 1(4,5) in auto)
    show ?thesis
      using up down True c
      by (subst affordable_search.simps) (auto simp: middle_def [symmetric] Let_def)
  qed (simp add: affordable_done)
qed

lemma units_exact: "\<bar>n\<bar> < 10 ^ 28 \<Longrightarrow> units n = of_int n * Q_AMOUNT"
  using dctx_fix [of n "-8"]
  by (simp add: units_def dmul_def Q_AMOUNT_def power_int_def power_one_over mult.commute)

lemma units_q8: "\<bar>n\<bar> < 10 ^ 28 \<Longrightarrow> is_q8 (units n)"
proof -
  assume n: "\<bar>n\<bar> < 10 ^ 28"
  then have "\<bar>of_int n :: rat\<bar> < 10 ^ 28" by (metis of_int_abs of_int_less_iff of_int_numeral of_int_power)
  then have "\<bar>of_int n * Q_AMOUNT\<bar> < 10 ^ 20" by (simp add: Q_AMOUNT_def abs_mult)
  then show ?thesis using n by (simp add: units_exact is_q8_def)
qed

lemma q8_units:
  assumes "is_q8 x"
  obtains n where "x = units n" and "x = of_int n * Q_AMOUNT" and "\<bar>n\<bar> < 10 ^ 28"
    and "quantize_down Q_AMOUNT x = Inr x" and "ddiv x Q_AMOUNT = Inr (of_int n)"
proof -
  obtain n where n: "x = of_int n * Q_AMOUNT" "\<bar>n\<bar> < 10 ^ 28" using assms by (rule is_q8E)
  have "\<bar>x\<bar> < 10 ^ 20" using assms by (simp add: is_q8_def)
  moreover have "truncated Q_AMOUNT x = x" by (simp add: truncated_def n(1))
  ultimately have down: "quantize_down Q_AMOUNT x = Inr x"
    by (simp add: quantize_down_def Let_def Q_AMOUNT_def)
  have "dctx (of_int n) = of_int n" using dctx_fix [of n 0] n(2) by simp
  then have "ddiv x Q_AMOUNT = Inr (of_int n)" by (simp add: n(1))
  then show thesis using that n down units_exact by metis
qed

lemma entry_cash_elim:
  assumes "entry_cash_requirement ord price q cm leverage = Inr c"
  obtains notional margin rate fee where "quantize_amount (dmul price q) = Inr notional"
    and "leverage \<noteq> 0" and "quantize_amount (dctx (notional / of_int leverage)) = Inr margin"
    and "cm_fee cm (o_symbol ord) notional = Inr rate" and "fee_calc notional rate = Inr fee"
    and "quantize_amount (dadd (dadd margin fee) fee) = Inr c"
  using assms by (auto simp: entry_cash_requirement_def bindR_eq_Inr)

context cost_contract
begin

lemma entry_cash_mono:
  assumes "0 < price" and "0 \<le> q" and "q \<le> q'" and "0 < leverage"
    and "entry_cash_requirement ord price q cm leverage = Inr c"
    and "entry_cash_requirement ord price q' cm leverage = Inr c'"
  shows "c \<le> c'"
proof -
  obtain n m r f where a: "quantize_amount (dmul price q) = Inr n"
    "quantize_amount (dctx (n / of_int leverage)) = Inr m" "cm_fee cm (o_symbol ord) n = Inr r"
    "fee_calc n r = Inr f" "quantize_amount (dadd (dadd m f) f) = Inr c"
    using assms(5) by (rule entry_cash_elim)
  obtain n' m' r' f' where b: "quantize_amount (dmul price q') = Inr n'"
    "quantize_amount (dctx (n' / of_int leverage)) = Inr m'" "cm_fee cm (o_symbol ord) n' = Inr r'"
    "fee_calc n' r' = Inr f'" "quantize_amount (dadd (dadd m' f') f') = Inr c'"
    using assms(6) by (rule entry_cash_elim)
  have n: "n \<le> n'" by (rule quantize_mono [OF a(1) b(1)]) (use assms in \<open>simp add: dmul_mono\<close>)
  have f: "f \<le> f'" by (rule fee_mono [OF a(3) b(3) n a(4) b(4)])
  have m: "m \<le> m'"
    by (rule quantize_mono [OF a(2) b(2)], rule dec.rnd_mono, rule divide_right_mono [OF n]) (use assms(4) in simp)
  show ?thesis by (rule quantize_mono [OF a(5) b(5)]) (intro dadd_mono m f)
qed

lemma affordable_entry_quantity_optimal:
  assumes max: "is_q8 maximum" "0 \<le> maximum" and avail: "0 \<le> available" and pos: "0 < price" "0 < leverage"
    and res: "affordable_entry_quantity ord price maximum available cm leverage = Inr a"
  shows "is_q8 a \<and> 0 \<le> a \<and> a \<le> maximum \<and>
    (a = 0 \<or> (\<exists>c. entry_cash_requirement ord price a cm leverage = Inr c \<and> c \<le> available)) \<and>
    (\<forall>q e. is_q8 q \<longrightarrow> a < q \<longrightarrow> q \<le> maximum \<longrightarrow>
      entry_cash_requirement ord price q cm leverage = Inr e \<longrightarrow> available < e)"
proof -
  let ?req = "\<lambda>n. entry_cash_requirement ord price (units n) cm leverage"
  obtain N where N: "maximum = of_int N * Q_AMOUNT" "\<bar>N\<bar> < 10 ^ 28"
    "quantize_down Q_AMOUNT maximum = Inr maximum" "ddiv maximum Q_AMOUNT = Inr (of_int N)"
    using max(1) by (rule q8_units)
  have N0: "0 \<le> N" using max(2) N(1) by (simp add: zero_le_mult_iff Q_AMOUNT_def)
  obtain n where s: "affordable_search ?req available 0 N 0 = Inr n" and a: "a = units n"
    using res N0 by (auto simp: affordable_entry_quantity_def N(3,4) bindR_eq_Inr py_int_def)
  have n: "0 \<le> n" "n \<le> N" "n = 0 \<or> (\<exists>c. ?req n = Inr c \<and> c \<le> available)"
    using affordable_search_within [OF s] N0 by auto
  have small: "\<bar>n\<bar> < 10 ^ 28" using n N(2) by simp
  have req_mono: "c \<le> d" if "0 < i" "i \<le> j" "j \<le> N" "?req i = Inr c" "?req j = Inr d" for i j c d
  proof (rule entry_cash_mono [OF pos(1) _ _ pos(2) that(4,5)])
    have "\<bar>i\<bar> < 10 ^ 28" "\<bar>j\<bar> < 10 ^ 28" using that N(2) by simp_all
    then show "0 \<le> units i" "units i \<le> units j"
      using that by (simp_all add: units_exact mult_right_mono Q_AMOUNT_def)
  qed
  have above: "available < e" if k: "is_q8 q" "a < q" "q \<le> maximum"
    "entry_cash_requirement ord price q cm leverage = Inr e" for q e
  proof -
    obtain k where q: "q = units k" "q = of_int k * Q_AMOUNT" "\<bar>k\<bar> < 10 ^ 28"
      using k(1) by (rule q8_units)
    have "n < k" "k \<le> N" using k(2,3) unfolding a units_exact [OF small] q(2) N(1) by (simp_all add: Q_AMOUNT_def)
    show ?thesis
      by (rule affordable_search_above [OF _ avail _ s \<open>n < k\<close>, where N = N and e = e])
        (use req_mono n \<open>n < k\<close> \<open>k \<le> N\<close> k(4) q(1) in auto)
  qed
  show ?thesis
    using n small units_q8 [OF small] above N
    by (auto simp: a units_exact Q_AMOUNT_def)
qed

text \<open>A quantity that is affordable as a whole is not truncated: no probe of the search fails.\<close>

lemma entry_cash_lower_ok:
  assumes "0 < price" and "0 \<le> q" and "q \<le> q'" and "0 < leverage"
    and "entry_cash_requirement ord price q' cm leverage = Inr c'"
  shows "\<exists>c. entry_cash_requirement ord price q cm leverage = Inr c"
proof -
  obtain n' m' r' f' where b: "quantize_amount (dmul price q') = Inr n'"
    "quantize_amount (dctx (n' / of_int leverage)) = Inr m'" "cm_fee cm (o_symbol ord) n' = Inr r'"
    "fee_calc n' r' = Inr f'" "quantize_amount (dadd (dadd m' f') f') = Inr c'"
    using assms(5) by (rule entry_cash_elim)
  have lev: "(0::rat) < of_int leverage" using assms(4) by simp
  obtain n where n: "quantize_amount (dmul price q) = Inr n"
    using quantize_lower_ok [OF b(1), of "dmul price q"] assms(1-3) by (auto simp: dmul_nonneg dmul_mono)
  have nn: "0 \<le> n" "n \<le> n'"
    using quantize_nonneg [OF n] quantize_mono [OF n b(1)] assms(1-3) by (simp_all add: dmul_nonneg dmul_mono)
  have share: "0 \<le> dctx (n / of_int leverage)" "dctx (n / of_int leverage) \<le> dctx (n' / of_int leverage)"
    using nn lev by (simp_all add: dec.rnd_nonneg dec.rnd_mono divide_right_mono)
  obtain m where m: "quantize_amount (dctx (n / of_int leverage)) = Inr m"
    using quantize_lower_ok [OF b(2) share] by blast
  have mm: "0 \<le> m" "m \<le> m'"
    using quantize_nonneg [OF m share(1)] quantize_mono [OF m b(2) share(2)] by simp_all
  obtain r where r: "cm_fee cm (o_symbol ord) n = Inr r"
    using fee_rate_quoted [of "o_symbol ord" n' n] b(3) by (auto simp: isOk_def split: sum.splits)
  have rr: "0 \<le> r" "r \<le> r'" using fee_rate_nonneg [OF r] fee_rate_mono [OF r b(3) nn(2)] by simp_all
  obtain f where f: "quantize_amount (dmul n r) = Inr f"
    using quantize_lower_ok [OF fee_calc_elim(3) [OF b(4)], of "dmul n r"] nn rr
    by (auto simp: dmul_nonneg dmul_mono2)
  have fc: "fee_calc n r = Inr f" using f nn(1) rr(1) by (simp add: fee_calc_def)
  have ff: "0 \<le> f" "f \<le> f'" using fee_calc_elim(4) [OF fc] fee_calc_mono [OF fc b(4) nn(2) rr(2)] by simp_all
  obtain c where "quantize_amount (dadd (dadd m f) f) = Inr c"
    using quantize_lower_ok [OF b(5), of "dadd (dadd m f) f"] mm ff
    by (auto simp: dadd_nonneg dadd_mono)
  then show ?thesis using n m r fc assms(4) by (simp add: entry_cash_requirement_def ddiv_Inr)
qed

lemma affordable_whole:
  assumes max: "is_q8 maximum" "0 \<le> maximum" and pos: "0 < price" "0 < leverage"
    and req: "entry_cash_requirement ord price maximum cm leverage = Inr c" "c \<le> available" "0 \<le> available"
  shows "affordable_entry_quantity ord price maximum available cm leverage = Inr maximum"
proof -
  let ?req = "\<lambda>n. entry_cash_requirement ord price (units n) cm leverage"
  obtain N where N: "maximum = of_int N * Q_AMOUNT" "\<bar>N\<bar> < 10 ^ 28" "maximum = units N"
    "quantize_down Q_AMOUNT maximum = Inr maximum" "ddiv maximum Q_AMOUNT = Inr (of_int N)"
    using max(1) by (rule q8_units)
  have N0: "0 \<le> N" using max(2) N(1) by (simp add: zero_le_mult_iff Q_AMOUNT_def)
  have "\<exists>d. ?req i = Inr d" if "0 < i" "i \<le> N" for i
  proof (rule entry_cash_lower_ok [OF pos(1) _ _ pos(2) req(1)])
    have "\<bar>i\<bar> < 10 ^ 28" using that N(2) by simp
    then show "0 \<le> units i" "units i \<le> maximum"
      using that by (simp_all add: units_exact N(1) mult_right_mono Q_AMOUNT_def)
  qed
  then obtain n where "affordable_search ?req available 0 N 0 = Inr n"
    using affordable_search_total [of N ?req 0 N available 0] by auto
  then have res: "affordable_entry_quantity ord price maximum available cm leverage = Inr (units n)"
    using N0 by (simp add: affordable_entry_quantity_def N(4,5) py_int_def)
  then show ?thesis
    using affordable_entry_quantity_optimal [OF max req(3) pos res] max(1) req(1,2) by force
qed

end

subsection \<open>Fills\<close>

lemma make_fill_fields:
  assumes "make_fill g = Inr f"
  shows "quantize_amount (f_price g) = Inr (f_price f)" and "quantize_amount (f_quantity g) = Inr (f_quantity f)"
    and "quantize_amount (f_fee g) = Inr (f_fee f)" and "quantize_amount (f_slippage g) = Inr (f_slippage f)"
    and "quantize_amount (f_reference_price g) = Inr (f_reference_price f)"
    and "f_symbol f = f_symbol g" and "f_side f = f_side g" and "f_position_side f = f_position_side g"
    and "f_timestamp f = f_timestamp g" and "f_reduce_only f = f_reduce_only g"
    and "f_exit_reason f = f_exit_reason g" and "f_gap_filled f = f_gap_filled g"
    and "f_qty_truncated f = f_qty_truncated g" and "f_order_id f = f_order_id g"
  using assms by (auto simp: make_fill_def bindR_eq_Inr quantize_price_amount)

lemma mark_as_filled_fields:
  assumes "mark_as_filled ord q avg = Inr ord'"
  shows "o_status ord' = FILLED" and "o_filled_quantity ord' = o_quantity ord'"
    and "o_quantity ord' = o_quantity ord" and "o_symbol ord' = o_symbol ord" and "o_side ord' = o_side ord"
    and "o_position_side ord' = o_position_side ord" and "o_reduce_only ord' = o_reduce_only ord"
    and "o_close_position ord' = o_close_position ord" and "o_id ord' = o_id ord"
  using assms
  by (auto simp: mark_as_filled_def bindR_eq_Inr transition_to_def validate_fill_status_def
      raise_if_def split: if_splits)

lemma fill_order_fields:
  assumes "fill_order ord reference q time cm gap trunc reason = Inr (ord', f)"
  shows "quantize_amount q = Inr (f_quantity f)" and "f_symbol f = o_symbol ord"
    and "f_side f = o_side ord" and "f_position_side f = o_position_side ord" and "f_timestamp f = time"
    and "f_reduce_only f = (o_reduce_only ord \<or> o_close_position ord)" and "f_exit_reason f = reason"
    and "f_qty_truncated f = trunc" and "f_gap_filled f = gap"
    and "o_status ord' = FILLED" and "o_filled_quantity ord' = o_quantity ord" and "o_quantity ord' = o_quantity ord"
proof -
  from assms obtain px s fee avg filled ofee where
    m: "mark_as_filled ord (o_quantity ord) avg = Inr filled" and o: "ord' = filled\<lparr>o_fee := ofee\<rparr>"
    and f: "make_fill \<lparr>f_order_id = o_id ord', f_symbol = o_symbol ord', f_side = o_side ord',
        f_position_side = o_position_side ord', f_reference_price = reference, f_price = px,
        f_quantity = q, f_fee = fee, f_slippage = dabs s, f_liquidity = ''taker'',
        f_timestamp = time, f_reduce_only = o_reduce_only ord' \<or> o_close_position ord',
        f_exit_reason = reason, f_gap_filled = gap, f_qty_truncated = trunc\<rparr> = Inr f"
    unfolding fill_order_def by (auto simp: bindR_eq_Inr Let_def)
  note mf = make_fill_fields [OF f, simplified]
  show "quantize_amount q = Inr (f_quantity f)" by (rule mf(2))
  show "f_symbol f = o_symbol ord" "f_side f = o_side ord" "f_position_side f = o_position_side ord"
    "f_timestamp f = time" "f_reduce_only f = (o_reduce_only ord \<or> o_close_position ord)"
    "f_exit_reason f = reason" "f_qty_truncated f = trunc" "f_gap_filled f = gap"
    "o_status ord' = FILLED" "o_filled_quantity ord' = o_quantity ord" "o_quantity ord' = o_quantity ord"
    using mf mark_as_filled_fields [OF m] by (simp_all add: o)
qed

lemma fill_order_spec:
  assumes "fill_order ord reference q time cm gap trunc reason = Inr (ord', f)"
    and "is_q8 reference" and "is_q8 q" and "0 < q"
  shows "\<exists>s. execution_price ord reference q cm gap = Inr (f_price f, s) \<and> f_slippage f = \<bar>s\<bar>"
    and "\<exists>n rate. quantize_amount (dmul (f_price f) q) = Inr n \<and> cm_fee cm (o_symbol ord) n = Inr rate \<and>
      fee_calc n rate = Inr (f_fee f)"
    and "f_quantity f = q" and "f_reference_price f = reference" and "f_symbol f = o_symbol ord"
    and "f_side f = o_side ord" and "f_position_side f = o_position_side ord" and "f_timestamp f = time"
    and "f_reduce_only f = (o_reduce_only ord \<or> o_close_position ord)" and "f_exit_reason f = reason"
    and "f_qty_truncated f = trunc" and "f_gap_filled f = gap"
    and "o_status ord' = FILLED" and "o_filled_quantity ord' = o_quantity ord" and "o_quantity ord' = o_quantity ord"
proof -
  from assms(1) obtain px s n rate fee cq ratio avg filled ofee where
    px: "execution_price ord reference q cm gap = Inr (px, s)"
    and n: "quantize_amount (dmul px q) = Inr n" "cm_fee cm (o_symbol ord) n = Inr rate" "fee_calc n rate = Inr fee"
    and m: "mark_as_filled ord (o_quantity ord) avg = Inr filled" and o: "ord' = filled\<lparr>o_fee := ofee\<rparr>"
    and f: "make_fill \<lparr>f_order_id = o_id ord', f_symbol = o_symbol ord', f_side = o_side ord',
        f_position_side = o_position_side ord', f_reference_price = reference, f_price = px,
        f_quantity = q, f_fee = fee, f_slippage = dabs s, f_liquidity = ''taker'',
        f_timestamp = time, f_reduce_only = o_reduce_only ord' \<or> o_close_position ord',
        f_exit_reason = reason, f_gap_filled = gap, f_qty_truncated = trunc\<rparr> = Inr f"
    unfolding fill_order_def by (auto simp: bindR_eq_Inr Let_def)
  note q8 = execution_price_adverse(3,4) [OF px assms(2,4)]
  have "is_q8 \<bar>s\<bar>" using q8(2) is_q8_minus [of s] by (auto simp: abs_if)
  then have abs: "dabs s = \<bar>s\<bar>" and abs8: "quantize_amount (dabs s) = Inr \<bar>s\<bar>" by (simp_all add: dabs_def is_q8_dctx)
  note mf = make_fill_fields [OF f, simplified]
  have e: "f_price f = px" "f_fee f = fee" "f_slippage f = \<bar>s\<bar>"
    using mf(1,3,4) q8(1) fee_calc_elim(5) [OF n(3)] abs8 by simp_all
  show "\<exists>s. execution_price ord reference q cm gap = Inr (f_price f, s) \<and> f_slippage f = \<bar>s\<bar>"
    using px e by auto
  show "\<exists>n rate. quantize_amount (dmul (f_price f) q) = Inr n \<and> cm_fee cm (o_symbol ord) n = Inr rate \<and>
      fee_calc n rate = Inr (f_fee f)" using n e by auto
  show "f_quantity f = q" "f_reference_price f = reference" using mf(2,5) assms(2,3) by simp_all
  show "f_symbol f = o_symbol ord" "f_side f = o_side ord" "f_position_side f = o_position_side ord"
    "f_timestamp f = time" "f_reduce_only f = (o_reduce_only ord \<or> o_close_position ord)"
    "f_exit_reason f = reason" "f_qty_truncated f = trunc" "f_gap_filled f = gap"
    "o_status ord' = FILLED" "o_filled_quantity ord' = o_quantity ord" "o_quantity ord' = o_quantity ord"
    by (rule fill_order_fields [OF assms(1)])+
qed

subsection \<open>Matching an order\<close>

lemma truncation_loop_spec:
  "truncation_loop n ord reference cm gap rb em leverage q = Inr (q', stop) \<Longrightarrow>
    q' \<le> q \<and> (\<exists>px s r. execution_price ord reference q' cm gap = Inr (px, s) \<and>
      recompute_qty_and_stop ord px rb em leverage (Some cm) = Inr (r, stop) \<and> q' \<le> r)"
proof (induction n arbitrary: q)
  case (Suc n)
  from Suc.prems obtain px s r st where
    a: "execution_price ord reference q cm gap = Inr (px, s)"
      "recompute_qty_and_stop ord px rb em leverage (Some cm) = Inr (r, st)"
    and b: "(if min q r = q then Inr (q, st)
      else truncation_loop n ord reference cm gap rb em leverage (min q r)) = Inr (q', stop)"
    by (auto simp: bindR_eq_Inr Let_def)
  show ?case
  proof (cases "min q r = q")
    case True
    then show ?thesis using a b by (auto simp: min_def split: if_splits)
  next
    case False
    then have "truncation_loop n ord reference cm gap rb em leverage (min q r) = Inr (q', stop)"
      using b by (simp only: if_False)
    from Suc.IH [OF this] show ?thesis by auto
  qed
qed simp

lemma recompute_q8:
  "recompute_qty_and_stop ord px rb em leverage cm = Inr (r, stop) \<Longrightarrow> is_q8 r"
  by (auto simp: recompute_qty_and_stop_def bindR_eq_Inr Let_def dest: quantize_is_q8)

lemma truncation_loop_q8:
  "truncation_loop n ord reference cm gap rb em leverage q = Inr (q', stop) \<Longrightarrow> is_q8 q \<Longrightarrow> is_q8 q'"
proof (induction n arbitrary: q)
  case (Suc n)
  then show ?case
    by (auto simp: bindR_eq_Inr Let_def min_def dest: recompute_q8 split: if_splits)
qed simp

lemma entry_cash_symbol:
  "o_symbol a = o_symbol b \<Longrightarrow> entry_cash_requirement a = entry_cash_requirement b"
  by (simp add: fun_eq_iff entry_cash_requirement_def)

lemma match_elim:
  assumes "match ord c history cm timing rb am leverage = Inr (ord', f)"
  obtains ec base time trigger gap where "\<not> is_terminal (o_status ord)"
    and "execution_candle c history timing = Inr (ec, base, time)"
    and "trigger_reference ord ec = Inr (Some (trigger, gap))"
    and "match_triggered ord (if o_order_type ord = MARKET then base else trigger) gap time cm rb am leverage
      = Inr (ord', f)"
  using assms unfolding match_def
  by (auto simp: bindR_eq_Inr simp del: is_terminal.simps split: option.splits)

lemma match_triggered_elim:
  assumes "match_triggered ord reference gap time cm rb am leverage = Inr (ord', f)"
  obtains remaining q stop ord2 where "remaining_quantity ord = Inr remaining"
    and "truncation_loop 32 ord reference cm gap rb (if o_reduce_only ord \<or> o_close_position ord then None else am)
      leverage remaining = Inr (q, stop)" and "0 < q"
    and "\<not> q < remaining \<Longrightarrow> o_quantity ord2 = o_quantity ord"
    and "q < remaining \<Longrightarrow> quantize_amount (dadd (o_filled_quantity ord) q) = Inr (o_quantity ord2)"
    and "o_symbol ord2 = o_symbol ord" and "o_side ord2 = o_side ord" and "o_position_side ord2 = o_position_side ord"
    and "o_reduce_only ord2 = o_reduce_only ord" and "o_close_position ord2 = o_close_position ord"
    and "o_filled_quantity ord2 = o_filled_quantity ord"
    and "entry_cash_check ord2 reference q cm gap
      (if o_reduce_only ord \<or> o_close_position ord then None else am) leverage = Inr ()"
    and "fill_order ord2 reference q time cm gap (q < remaining) None = Inr (ord', f)"
proof -
  define em where "em = (if o_reduce_only ord \<or> o_close_position ord then None else am)"
  from assms obtain remaining q stop ord1 where a: "remaining_quantity ord = Inr remaining"
    "truncation_loop 32 ord reference cm gap rb em leverage remaining = Inr (q, stop)" "0 < q"
    and o: "(if q < remaining then bindR (quantize_amount (dadd (o_filled_quantity ord) q))
        (\<lambda>q. Inr (ord\<lparr>o_quantity := q\<rparr>)) else Inr ord) = Inr ord1"
    and r: "bindR (entry_cash_check (case stop of None \<Rightarrow> ord1 | Some s \<Rightarrow> ord1\<lparr>o_stop_price := Some s\<rparr>)
          reference q cm gap em leverage)
        (\<lambda>_. fill_order (case stop of None \<Rightarrow> ord1 | Some s \<Rightarrow> ord1\<lparr>o_stop_price := Some s\<rparr>)
          reference q time cm gap (q < remaining) None) = Inr (ord', f)"
    unfolding match_triggered_def em_def [symmetric] Let_def
    by (auto simp: bindR_eq_Inr [of "remaining_quantity ord"] bindR_eq_Inr [of "truncation_loop a b c d e f g h i" for a b c d e f g h i]
        bindR_eq_Inr [of "if a then b else c" for a b c])
  show thesis
    by (rule that [OF a(1) a(2) [unfolded em_def] a(3),
          of "case stop of None \<Rightarrow> ord1 | Some s \<Rightarrow> ord1\<lparr>o_stop_price := Some s\<rparr>"])
       (use o r in \<open>auto simp: em_def bindR_eq_Inr split: option.splits if_splits\<close>)
qed

lemma price_of_q8: "price_of v = Inr p \<Longrightarrow> is_q8 p"
  by (cases v) (auto simp: price_of_def quantize_price_amount dest: quantize_is_q8)

text \<open>What triggers an order type, given the bar's open, high and low.\<close>

fun triggers :: "order \<Rightarrow> decimal \<Rightarrow> decimal \<Rightarrow> decimal \<Rightarrow> decimal \<Rightarrow> bool \<Rightarrow> bool" where
  "triggers ord op hi lo r gap \<longleftrightarrow>
     (case o_order_type ord of
        MARKET \<Rightarrow> r = op \<and> \<not> gap
      | LIMIT \<Rightarrow> (case o_price ord of None \<Rightarrow> False | Some p \<Rightarrow>
          (if o_side ord = BUY then lo \<le> p \<and> r = min op p \<and> gap = (op < p)
           else p \<le> hi \<and> r = max op p \<and> gap = (p < op)))
      | STOP_MARKET \<Rightarrow> (case o_stop_price ord of None \<Rightarrow> False | Some p \<Rightarrow>
          (if o_side ord = BUY then p \<le> hi \<and> r = max op p \<and> gap = (p < op)
           else lo \<le> p \<and> r = min op p \<and> gap = (op < p)))
      | TAKE_PROFIT_MARKET \<Rightarrow> (case o_stop_price ord of None \<Rightarrow> False | Some p \<Rightarrow>
          (if o_side ord = BUY then lo \<le> p \<and> r = min op p \<and> \<not> gap
           else p \<le> hi \<and> r = max op p \<and> \<not> gap))
      | TRAILING_STOP_MARKET \<Rightarrow> False)"

lemma trigger_reference_iff:
  assumes "price_of (c_open c) = Inr op" and "price_of (c_high c) = Inr hi" and "price_of (c_low c) = Inr lo"
  shows "trigger_reference ord c = Inr (Some (r, gap)) \<longleftrightarrow> triggers ord op hi lo r gap"
  unfolding trigger_reference_def assms bindR_Inr triggers.simps
  by (cases "o_order_type ord"; cases "o_side ord"; cases "o_price ord"; cases "o_stop_price ord"; simp; blast)

lemma trigger_reference_elim:
  assumes "trigger_reference ord c = Inr (Some (r, gap))"
  obtains op hi lo where "price_of (c_open c) = Inr op" and "price_of (c_high c) = Inr hi"
    and "price_of (c_low c) = Inr lo" and "triggers ord op hi lo r gap"
proof -
  from assms obtain op hi lo where p: "price_of (c_open c) = Inr op" "price_of (c_high c) = Inr hi"
    "price_of (c_low c) = Inr lo"
    unfolding trigger_reference_def bindR_eq_Inr by blast
  then show thesis using that assms trigger_reference_iff by blast
qed

lemma trigger_reference_q8:
  assumes "trigger_reference ord c = Inr (Some (r, gap))" and "order_ok ord"
  shows "is_q8 r"
proof (rule trigger_reference_elim [OF assms(1)])
  fix op hi lo
  assume "price_of (c_open c) = Inr op" and t: "triggers ord op hi lo r gap"
  then have "is_q8 op" by (blast intro: price_of_q8)
  moreover have "\<And>p. o_price ord = Some p \<Longrightarrow> is_q8 p" "\<And>p. o_stop_price ord = Some p \<Longrightarrow> is_q8 p"
    using assms(2) by (simp_all add: order_ok_def q8_option_def)
  ultimately show ?thesis
    using t by (auto simp: min_def max_def split: order_type.splits option.splits if_splits)
qed

lemma trigger_reference_within_bar:
  assumes "trigger_reference ord c = Inr (Some (r, gap))"
    and "price_of (c_open c) = Inr op" and "price_of (c_high c) = Inr hi" and "price_of (c_low c) = Inr lo"
    and "lo \<le> op" and "op \<le> hi"
  shows "lo \<le> r \<and> r \<le> hi"
  using assms(1,5,6) unfolding trigger_reference_iff [OF assms(2-4)]
  by (auto split: order_type.splits option.splits if_splits)

lemma execution_candle_q8: "execution_candle c history timing = Inr (ec, base, time) \<Longrightarrow> is_q8 base"
  by (auto simp: execution_candle_def bindR_eq_Inr split: fill_timing.splits list.splits dest: price_of_q8)

lemma execution_candle_next:
  assumes "execution_candle c history NextBar = Inr (ec, base, time)"
  shows "ec \<in> set history \<and> ec \<noteq> c \<and> c_close_time c \<le> c_open_time ec \<and> c_open_time ec \<le> time \<and>
    c_close_time c < time \<and>
    (\<forall>d \<in> set history. d \<noteq> c \<longrightarrow> c_close_time c \<le> c_open_time d \<longrightarrow> c_open_time ec \<le> c_open_time d)"
proof -
  let ?later = "filter (\<lambda>candidate. candidate \<noteq> c \<and> c_close_time c \<le> c_open_time candidate) history"
  obtain rest where r: "sort_key c_open_time ?later = ec # rest"
    and t: "time = max (c_open_time ec) (c_close_time c + 1000)"
    using assms by (auto simp: execution_candle_def bindR_eq_Inr split: list.splits)
  have s: "set (ec # rest) = set ?later" by (metis r set_sort)
  have "sorted (map c_open_time (ec # rest))" by (metis r sorted_sort_key)
  then have "\<forall>d \<in> set (ec # rest). c_open_time ec \<le> c_open_time d" by auto
  then show ?thesis using s t by auto
qed

lemma execution_candle_next_open:
  "execution_candle c history NextBar = Inr (ec, base, time) \<Longrightarrow> price_of (c_open ec) = Inr base"
  by (auto simp: execution_candle_def bindR_eq_Inr split: list.splits)

lemma match_reference_q8:
  assumes "match ord c history cm timing rb am leverage = Inr (ord', f)" and "order_ok ord"
  obtains reference gap time where "is_q8 reference"
    and "match_triggered ord reference gap time cm rb am leverage = Inr (ord', f)"
proof -
  obtain ec base time trigger gap where e: "execution_candle c history timing = Inr (ec, base, time)"
    "trigger_reference ord ec = Inr (Some (trigger, gap))"
    "match_triggered ord (if o_order_type ord = MARKET then base else trigger) gap time cm rb am leverage
      = Inr (ord', f)"
    using assms(1) by (rule match_elim)
  show thesis
    by (rule that [OF _ e(3)]) (use execution_candle_q8 [OF e(1)] trigger_reference_q8 [OF e(2) assms(2)] in simp)
qed

lemma match_triggered_spec:
  assumes m: "match_triggered ord reference gap time cm rb am leverage = Inr (ord', f)"
    and ok: "order_ok ord" and ref: "is_q8 reference"
  shows "f_quantity f \<le> o_quantity ord - o_filled_quantity ord" and "0 < f_quantity f"
    and "o_status ord' = FILLED" and "o_filled_quantity ord' = o_filled_quantity ord + f_quantity f"
    and "o_quantity ord' = o_filled_quantity ord'"
    and "f_qty_truncated f \<longleftrightarrow> f_quantity f < o_quantity ord - o_filled_quantity ord"
    and "f_symbol f = o_symbol ord" and "f_side f = o_side ord" and "f_reference_price f = reference"
    and "f_position_side f = o_position_side ord" and "f_timestamp f = time"
    and "f_reduce_only f = (o_reduce_only ord \<or> o_close_position ord)"
    and "o_side ord = BUY \<and> reference \<le> f_price f \<or> o_side ord = SELL \<and> f_price f \<le> reference"
    and "\<And>m. \<not> o_reduce_only ord \<Longrightarrow> \<not> o_close_position ord \<Longrightarrow> am = Some m \<Longrightarrow>
      \<exists>needed. entry_cash_requirement ord (f_price f) (f_quantity f) cm leverage = Inr needed \<and> needed \<le> m"
proof -
  obtain remaining q stop ord2 where a: "remaining_quantity ord = Inr remaining"
    "truncation_loop 32 ord reference cm gap rb (if o_reduce_only ord \<or> o_close_position ord then None else am)
      leverage remaining = Inr (q, stop)" "0 < q"
    "\<not> q < remaining \<Longrightarrow> o_quantity ord2 = o_quantity ord"
    "q < remaining \<Longrightarrow> quantize_amount (dadd (o_filled_quantity ord) q) = Inr (o_quantity ord2)"
    and same: "o_symbol ord2 = o_symbol ord" "o_side ord2 = o_side ord" "o_position_side ord2 = o_position_side ord"
      "o_reduce_only ord2 = o_reduce_only ord" "o_close_position ord2 = o_close_position ord"
    and cash: "entry_cash_check ord2 reference q cm gap
      (if o_reduce_only ord \<or> o_close_position ord then None else am) leverage = Inr ()"
    and f: "fill_order ord2 reference q time cm gap (q < remaining) None = Inr (ord', f)"
    using m by (rule match_triggered_elim) (rule that)
  have q8: "is_q8 (o_quantity ord)" "is_q8 (o_filled_quantity ord)" using ok by (auto simp: order_ok_def)
  have rem: "remaining = o_quantity ord - o_filled_quantity ord"
    using a(1) quantize_sub [OF q8] by (simp add: remaining_quantity_def)
  have remq: "is_q8 remaining" using a(1) by (auto simp: remaining_quantity_def dest: quantize_is_q8)
  have q: "q \<le> remaining" "is_q8 q"
    using truncation_loop_spec [OF a(2)] truncation_loop_q8 [OF a(2) remq] by auto
  have quantity: "o_quantity ord2 = o_filled_quantity ord + q"
    using a(4,5) q rem quantize_add [OF q8(2) q(2)] by (cases "q < remaining") auto
  note s = fill_order_spec [OF f ref q(2) a(3)]
  obtain sl where px: "execution_price ord2 reference q cm gap = Inr (f_price f, sl)" using s(1) by blast
  show "f_quantity f \<le> o_quantity ord - o_filled_quantity ord" "0 < f_quantity f" "o_status ord' = FILLED"
    "o_filled_quantity ord' = o_filled_quantity ord + f_quantity f" "o_quantity ord' = o_filled_quantity ord'"
    "f_qty_truncated f \<longleftrightarrow> f_quantity f < o_quantity ord - o_filled_quantity ord"
    "f_symbol f = o_symbol ord" "f_side f = o_side ord" "f_reference_price f = reference"
    "f_position_side f = o_position_side ord" "f_timestamp f = time"
    "f_reduce_only f = (o_reduce_only ord \<or> o_close_position ord)"
    using s q a(3) quantity same by (simp_all add: rem)
  show "o_side ord = BUY \<and> reference \<le> f_price f \<or> o_side ord = SELL \<and> f_price f \<le> reference"
    using execution_price_adverse(1) [OF px ref a(3)] same by simp
  show "\<exists>needed. entry_cash_requirement ord (f_price f) (f_quantity f) cm leverage = Inr needed \<and> needed \<le> m"
    if "\<not> o_reduce_only ord" "\<not> o_close_position ord" "am = Some m" for m
    using cash that px s(3) entry_cash_symbol [OF same(1)]
    by (auto simp: entry_cash_check_def bindR_eq_Inr)
qed

subsection \<open>Risk truncation\<close>

lemma recompute_risk_elim:
  assumes "recompute_qty_and_stop ord px (Some b) em leverage cm = Inr (r, new_stop)"
  obtains stop d s k remaining where "o_stop_price ord = Some stop" and "0 < px" and "0 < b"
    and "d = stop_distance_of ord px stop" and "0 < d"
    and "new_stop = Some s" and "quantize_amount (dctx (b / d)) = Inr k"
    and "remaining_quantity ord = Inr remaining" and "r \<le> k" and "r \<le> remaining"
    and "o_position_side ord = LONG \<and> quantize_amount (dsub px d) = Inr s \<or>
      o_position_side ord = SHORT \<and> quantize_amount (dadd px d) = Inr s"
proof -
  from assms obtain protect remaining q1 q2 where c: "0 < px" and p: "reanchored_stop ord px = Inr protect"
    and r: "remaining_quantity ord = Inr remaining" and q1: "risk_bounded (Some b) protect remaining = Inr q1"
    and q2: "cash_bounded ord px em leverage cm q1 = Inr q2"
    and fin: "quantize_amount q2 = Inr r" "new_stop = map_option snd protect"
    unfolding recompute_qty_and_stop_def by (auto simp: bindR_eq_Inr)
  obtain d s k where ds: "protect = Some (d, s)" and b: "0 < b"
    and k: "d \<noteq> 0" "quantize_amount (dctx (b / d)) = Inr k" "q1 = min remaining k"
    using q1 by (auto simp: risk_bounded_def bindR_eq_Inr split: option.splits)
  have "q2 \<le> q1" using q2 by (auto simp: cash_bounded_def bindR_eq_Inr split: option.splits)
  moreover have "is_q8 remaining" "is_q8 k"
    using r k(2) by (auto simp: remaining_quantity_def dest: quantize_is_q8)
  ultimately have rk: "r \<le> k" "r \<le> remaining"
    using quantize_le_q8 [OF fin(1)] k(3) by auto
  from p ds obtain stop where st: "o_stop_price ord = Some stop" "d = stop_distance_of ord px stop"
    "o_position_side ord = LONG \<and> quantize_amount (dsub px d) = Inr s \<or>
      o_position_side ord = SHORT \<and> quantize_amount (dadd px d) = Inr s"
    by (auto simp: reanchored_stop_def Let_def bindR_eq_Inr quantize_price_amount
        split: option.splits position_side.splits)
  have "0 \<le> d" by (simp add: st(2) stop_distance_of_def Let_def dabs_def dec.rnd_nonneg)
  then have "0 < d" using k(1) by simp
  show thesis by (rule that [OF st(1) c b st(2) \<open>0 < d\<close> _ k(2) r rk st(3)]) (simp add: fin(2) ds)
qed

text \<open>The money at risk exceeds the budget by at most half a quantum of the stop distance.\<close>

lemma risk_overshoot:
  assumes "quantize_amount (dctx (b / d)) = Inr k" and "0 < d" and "0 < b" and "r \<le> k"
  shows "r * d \<le> b + Q_AMOUNT / 2 * d + b / (2 * 10 ^ 27)"
proof -
  have "\<bar>k - dctx (b / d)\<bar> \<le> Q_AMOUNT / 2"
    using grid_error [of Q_AMOUNT "dctx (b / d)"] assms(1) by (simp only: quantize_eq_Inr Q_pos simp_thms)
  then have "k \<le> dctx (b / d) + Q_AMOUNT / 2" by linarith
  moreover have "dctx (b / d) \<le> b / d + b / d / (2 * 10 ^ 27)"
    using dctx_error [of "b / d"] assms(2,3) by simp
  ultimately have "r \<le> b / d + b / d / (2 * 10 ^ 27) + Q_AMOUNT / 2" using assms(4) by linarith
  then have "r * d \<le> (b / d + b / d / (2 * 10 ^ 27) + Q_AMOUNT / 2) * d"
    using assms(2) by (intro mult_right_mono) simp_all
  also have "\<dots> = b + Q_AMOUNT / 2 * d + b / (2 * 10 ^ 27)"
    using assms(2) by (simp add: field_simps)
  finally show ?thesis .
qed

subsection \<open>Protection triggers\<close>

lemma trigger_reason_precedence:
  assumes "trigger_reason p lo hi level stop tp liq = Some (reason, l)"
  shows "reason = STOP_LOSS \<and> stop = Some l \<and> (if p_side p = LONG then lo \<le> l else l \<le> hi) \<and>
      (liq \<longrightarrow> (if p_side p = LONG then level \<le> l else l \<le> level)) \<or>
    reason = LIQUIDATION \<and> liq \<and> l = level \<or>
    reason = TAKE_PROFIT \<and> \<not> liq \<and> tp = Some l \<and> (if p_side p = LONG then l \<le> hi else lo \<le> l) \<and>
      (case stop of None \<Rightarrow> True | Some s \<Rightarrow> if p_side p = LONG then s < lo else hi < s)"
  using assms by (auto simp: trigger_reason_def Let_def split: option.splits if_splits)

lemma trigger_reason_none:
  "trigger_reason p lo hi level stop tp liq = None \<longleftrightarrow>
    \<not> liq \<and> (case stop of None \<Rightarrow> True | Some s \<Rightarrow> if p_side p = LONG then s < lo else hi < s) \<and>
    (case tp of None \<Rightarrow> True | Some t \<Rightarrow> if p_side p = LONG then hi < t else t < lo)"
  by (auto simp: trigger_reason_def Let_def split: option.splits)

lemma protection_reference_side:
  assumes "protection_reference p c level reason = Inr (r, gap)"
  shows "reason = LIQUIDATION \<Longrightarrow> r = level"
    and "reason = TAKE_PROFIT \<Longrightarrow> if p_side p = LONG then level \<le> r else r \<le> level"
    and "reason = STOP_LOSS \<Longrightarrow> if p_side p = LONG then r \<le> level else level \<le> r"
  using assms by (auto simp: protection_reference_def bindR_eq_Inr)

lemma synthetic_exit_fields:
  assumes "synthetic_exit_order p time reason = Inr ord" and "is_q8 (p_quantity p)"
  shows "o_quantity ord = p_quantity p" and "o_symbol ord = p_symbol p" and "o_position_side ord = p_side p"
    and "o_reduce_only ord" and "o_side ord = (if p_side p = LONG then SELL else BUY)"
    and "0 < p_quantity p"
  using assms by (auto simp: synthetic_exit_order_def make_order_def validate_fill_status_def Let_def
      bindR_eq_Inr raise_if_def split: if_splits)

text \<open>Without a risk budget or a cash bound the whole remaining quantity is filled.\<close>

lemma recompute_unbounded:
  assumes "recompute_qty_and_stop ord px None None leverage cm = Inr (r, stop)"
  shows "remaining_quantity ord = Inr r"
proof -
  from assms obtain remaining where r: "remaining_quantity ord = Inr remaining" "quantize_amount remaining = Inr r"
    by (auto simp: recompute_qty_and_stop_def risk_bounded_def cash_bounded_def bindR_eq_Inr)
  have "is_q8 remaining" using r(1) by (auto simp: remaining_quantity_def dest: quantize_is_q8)
  then show ?thesis using r by simp
qed

lemma Suc_31: "Suc 31 = 32"
  by simp

lemma match_unbounded_quantity:
  assumes m: "match_triggered ord reference gap time cm None am leverage = Inr (ord', f)"
    and ok: "order_ok ord" and ref: "is_q8 reference"
    and nb: "am = None \<or> o_reduce_only ord \<or> o_close_position ord"
  shows "f_quantity f = o_quantity ord - o_filled_quantity ord"
proof -
  obtain remaining q stop ord2 where a: "remaining_quantity ord = Inr remaining"
    "truncation_loop 32 ord reference cm gap None (if o_reduce_only ord \<or> o_close_position ord then None else am)
      leverage remaining = Inr (q, stop)" "0 < q"
    and f: "fill_order ord2 reference q time cm gap (q < remaining) None = Inr (ord', f)"
    using m by (rule match_triggered_elim) (rule that)
  have em: "(if o_reduce_only ord \<or> o_close_position ord then None else am) = None" using nb by auto
  obtain px r where "recompute_qty_and_stop ord px None None leverage (Some cm) = Inr (r, stop)" "q \<le> r" "q \<le> remaining"
    using truncation_loop_spec [OF a(2) [unfolded em]] by blast
  have loop: "truncation_loop 32 ord reference cm gap None None leverage remaining = Inr (q, stop)"
    using a(2) unfolding em .
  have "q = remaining"
  proof -
    have "truncation_loop (Suc 31) ord reference cm gap None None leverage remaining = Inr (q, stop)"
      using loop by (subst (asm) Suc_31 [symmetric])
    then obtain px s r st where "recompute_qty_and_stop ord px None None leverage (Some cm) = Inr (r, st)"
      and b: "(if min remaining r = remaining then Inr (remaining, st)
        else truncation_loop 31 ord reference cm gap None None leverage (min remaining r)) = Inr (q, stop)"
      unfolding truncation_loop.simps by (auto simp: bindR_eq_Inr Let_def)
    then have "r = remaining" using recompute_unbounded a(1) by fastforce
    then show ?thesis using b by simp
  qed
  have q8: "is_q8 (o_quantity ord)" "is_q8 (o_filled_quantity ord)" using ok by (auto simp: order_ok_def)
  have rem: "remaining = o_quantity ord - o_filled_quantity ord"
    using a(1) quantize_sub [OF q8] by (simp add: remaining_quantity_def)
  have "is_q8 q" using \<open>q = remaining\<close> a(1) by (auto simp: remaining_quantity_def dest: quantize_is_q8)
  then show ?thesis using fill_order_spec(3) [OF f ref _ a(3)] \<open>q = remaining\<close> rem by simp
qed

definition after_entry :: "instant option \<Rightarrow> candle \<Rightarrow> bool" where
  "after_entry entry_time c \<longleftrightarrow> (case entry_time of None \<Rightarrow> True | Some t \<Rightarrow> t < c_open_time c)"

lemma not_some_pair: "(\<forall>a b. x \<noteq> Some (a, b)) \<longleftrightarrow> x = None"
  by (cases x) auto

lemma resolve_candles_none:
  "resolve_candles p cs cm stop tp entry_time = Inr None \<Longrightarrow>
    \<forall>c \<in> set cs. after_entry entry_time c \<longrightarrow> candle_trigger p c cm stop tp = Inr None"
  by (induction cs)
    (auto simp: after_entry_def skip_first_sl_check_def bindR_eq_Inr not_some_pair
      split: option.splits if_splits)

lemma resolve_candles_some:
  "resolve_candles p cs cm stop tp entry_time = Inr (Some f) \<Longrightarrow>
    \<exists>before c after reason level reference gap ord ord'. cs = before @ c # after \<and> after_entry entry_time c \<and>
      (\<forall>d \<in> set before. after_entry entry_time d \<longrightarrow> candle_trigger p d cm stop tp = Inr None) \<and>
      candle_trigger p c cm stop tp = Inr (Some (reason, level)) \<and>
      protection_reference p c level reason = Inr (reference, gap) \<and>
      synthetic_exit_order p (c_open_time c) reason = Inr ord \<and>
      fill_order ord reference (p_quantity p) (c_close_time c) cm gap False (Some reason) = Inr (ord', f)"
proof (induction cs)
  case (Cons c cs)
  show ?case
  proof (cases "after_entry entry_time c \<and> candle_trigger p c cm stop tp \<noteq> Inr None")
    case True
    then obtain reason level where "candle_trigger p c cm stop tp = Inr (Some (reason, level))"
      using Cons.prems
      by (auto simp: after_entry_def skip_first_sl_check_def bindR_eq_Inr split: option.splits if_splits)
    then show ?thesis
      using Cons.prems True
      by (intro exI [of _ "[]"])
        (auto simp: after_entry_def skip_first_sl_check_def bindR_eq_Inr split: option.splits if_splits)
  next
    case False
    then have "resolve_candles p cs cm stop tp entry_time = Inr (Some f)"
      using Cons.prems
      by (auto simp: after_entry_def skip_first_sl_check_def split: option.splits if_splits)
    from Cons.IH [OF this] obtain before d after reason level reference gap ord ord' where
      "cs = before @ d # after \<and> after_entry entry_time d \<and>
      (\<forall>d \<in> set before. after_entry entry_time d \<longrightarrow> candle_trigger p d cm stop tp = Inr None) \<and>
      candle_trigger p d cm stop tp = Inr (Some (reason, level)) \<and>
      protection_reference p d level reason = Inr (reference, gap) \<and>
      synthetic_exit_order p (c_open_time d) reason = Inr ord \<and>
      fill_order ord reference (p_quantity p) (c_close_time d) cm gap False (Some reason) = Inr (ord', f)"
      by blast
    then show ?thesis using False by (intro exI [of _ "c # before"]) auto
  qed
qed simp

end
