(* ===== verification/Book.thy ===== *)
theory Book
  imports Matcher
begin

section \<open>Accounting and the position book (core_lib/execution/accounting.py, position_book.py)\<close>

text \<open>
  The equity identity, and the book that applies fills to positions keyed by symbol and side.
  The book is a map; the position object a caller passes to \<open>apply_funding\<close> is compared with
  the stored one by value, which stands for the identity test of the code.
\<close>

subsection \<open>Accounting\<close>

definition position_value :: "position option \<Rightarrow> decimal res" where
  "position_value p =
     (case p of
        None \<Rightarrow> quantize_amount 0
      | Some q \<Rightarrow>
          if p_market_type q = FUTURES then quantize_amount (dadd (p_margin q) (p_unrealized_pnl q))
          else quantize_amount (dmul (p_quantity q) (p_current_price q)))"

definition recompute :: "decimal \<Rightarrow> position option \<Rightarrow> decimal res" where
  "recompute cash p = bindR (position_value p) (\<lambda>v. quantize_amount (dadd cash v))"

definition assert_identity :: "decimal \<Rightarrow> decimal \<Rightarrow> decimal \<Rightarrow> unit res" where
  "assert_identity cash current_position_value equity =
     bindR (quantize_amount (dadd cash current_position_value)) (\<lambda>expected.
     bindR (quantize_amount equity) (\<lambda>e.
     raise_if (e \<noteq> expected) (ValueError ''accounting identity'') (Inr ())))"

subsection \<open>The book\<close>

type_synonym position_key = "string \<times> position_side"
type_synonym book = "position_key \<Rightarrow> position option"

record funding_result =
  fr_theoretical_cost :: decimal
  fr_applied_cost :: decimal
  fr_exhausted :: bool

definition fill_key :: "fill \<Rightarrow> position_key" where
  "fill_key f = (f_symbol f, f_position_side f)"

definition position_key :: "position \<Rightarrow> position_key" where
  "position_key p = (p_symbol p, p_side p)"

definition make_book :: "position list \<Rightarrow> book res" where
  "make_book ps =
     foldR (\<lambda>b p. raise_if (b (position_key p) \<noteq> None) (ValueError ''duplicate'')
       (Inr (b(position_key p \<mapsto> p)))) Map.empty ps"

definition book_get :: "book \<Rightarrow> string \<Rightarrow> position_side \<Rightarrow> position option" where
  "book_get b name side = b (name, side)"

definition weighted_average :: "book \<Rightarrow> fill \<Rightarrow> (book \<times> decimal) res" where
  "weighted_average b f =
     (case b (fill_key f) of
        None \<Rightarrow> Inl (KeyError ''no position to increase'')
      | Some p \<Rightarrow>
          raise_if (f_reduce_only f) (ValueError ''reduce-only increase'')
          (bindR (add_quantity p (f_quantity f) (f_price f)) (\<lambda>p1.
           bindR (if p_market_type p1 = FUTURES
               then ddiv (dmul (f_quantity f) (f_price f)) (of_int (p_leverage p1))
               else Inr (dmul (f_quantity f) (f_price f))) (\<lambda>added_margin.
           bindR (quantize_amount (dadd (p_margin p1) added_margin)) (\<lambda>margin.
           Inr (b(fill_key f \<mapsto> p1\<lparr>p_margin := margin\<rparr>), p_average_price p1))))))"

definition reduce :: "book \<Rightarrow> fill \<Rightarrow> (book \<times> decimal) res" where
  "reduce b f =
     raise_if (\<not> f_reduce_only f) (ValueError ''reductions require reduce-only'')
     (case b (fill_key f) of
        None \<Rightarrow> Inl (KeyError ''no position to reduce'')
      | Some p \<Rightarrow>
          bindR (reduce_quantity p (f_quantity f)) (\<lambda>(p1, released).
          Inr (if p_quantity p1 = 0 then b(fill_key f := None) else b(fill_key f \<mapsto> p1), released)))"

definition apply_fill ::
    "book \<Rightarrow> fill \<Rightarrow> int option \<Rightarrow> margin_type option \<Rightarrow> market_type \<Rightarrow> decimal \<Rightarrow> book res" where
  "apply_fill b f leverage margin_type market_type liquidation =
     (if f_reduce_only f
      then (case b (fill_key f) of
          None \<Rightarrow> Inl (KeyError ''no position to reduce'')
        | Some _ \<Rightarrow> bindR (reduce b f) (\<lambda>(b', _). Inr b'))
      else (case b (fill_key f) of
          Some _ \<Rightarrow> bindR (weighted_average b f) (\<lambda>(b', _). Inr b')
        | None \<Rightarrow>
            (case (leverage, margin_type) of
               (Some lev, Some mt) \<Rightarrow>
                 raise_if (lev \<le> 0) (ValueError ''leverage'')
                 (bindR (quantize_amount (dmul (f_quantity f) (f_price f))) (\<lambda>notional.
                  bindR (if market_type = FUTURES
                      then bindR (ddiv notional (of_int lev)) quantize_amount
                      else Inr notional) (\<lambda>margin.
                  bindR (quantize_price liquidation) (\<lambda>liq.
                  bindR (make_position \<lparr>p_wallet_id = None, p_symbol = f_symbol f, p_quantity = f_quantity f,
                    p_average_price = f_price f, p_total_cost = notional, p_current_price = f_price f,
                    p_unrealized_pnl = 0, p_side = f_position_side f, p_market_type = market_type,
                    p_leverage = lev, p_margin_type = mt, p_margin = margin, p_entry_price = f_price f,
                    p_mark_price = f_price f, p_liquidation_price = liq, p_funding_fee_total = 0\<rparr>) (\<lambda>p.
                  Inr (b(fill_key f \<mapsto> p)))))))
             | _ \<Rightarrow> Inl (ValueError ''leverage and margin_type required''))))"

definition apply_funding ::
    "book \<Rightarrow> position \<Rightarrow> decimal \<Rightarrow> decimal \<Rightarrow> (book \<times> position \<times> funding_result) res" where
  "apply_funding b p theoretical_cost mmr =
     raise_if (b (position_key p) \<noteq> Some p) (ValueError ''active book value'')
     (raise_if (p_market_type p \<noteq> FUTURES) (ValueError ''futures only'')
     (raise_if (p_margin_type p \<noteq> ISOLATED) (ValueError ''isolated only'')
     (bindR (quantize_amount theoretical_cost) (\<lambda>normalized.
     (let applied = (if 0 < normalized then min normalized (p_margin p) else normalized) in
      bindR (quantize_amount (dsub (p_margin p) applied)) (\<lambda>margin.
      raise_if (margin < 0) (RuntimeError ''negative margin'')
      (bindR (quantize_amount (dadd (p_funding_fee_total p) applied)) (\<lambda>funding_total.
      (let p1 = p\<lparr>p_margin := margin, p_funding_fee_total := funding_total\<rparr> in
       bindR (price_from_margin p1 mmr) (\<lambda>liq.
       (let p2 = p1\<lparr>p_liquidation_price := liq\<rparr> in
        Inr (b(position_key p \<mapsto> p2), p2,
          \<lparr>fr_theoretical_cost = normalized, fr_applied_cost = applied,
           fr_exhausted = (0 < normalized \<and> margin = 0)\<rparr>))))))))))))"

definition check_liquidation :: "position \<Rightarrow> decimal \<Rightarrow> bool res" where
  "check_liquidation p market_price = is_triggered p market_price"

subsection \<open>The equity identity\<close>

lemma recompute_identity:
  assumes "position_value p = Inr v" and "recompute cash p = Inr e"
  shows "assert_identity cash v e = Inr ()"
  using assms by (auto simp: recompute_def assert_identity_def dest: quantize_is_q8)

lemma assert_identity_iff:
  assumes "is_q8 cash" and "is_q8 v" and "is_q8 e"
  shows "assert_identity cash v e = Inr () \<longleftrightarrow> e = cash + v"
proof -
  have "assert_identity cash v e = Inr () \<longleftrightarrow> (\<exists>x. quantize_amount (dadd cash v) = Inr x \<and> e = x)"
    using assms(3) by (auto simp: assert_identity_def bindR_eq_Inr)
  also have "\<dots> \<longleftrightarrow> e = cash + v"
    using assms by (auto simp: quantize_add is_q8_def)
  finally show ?thesis .
qed

lemma recompute_futures:
  assumes "is_q8 cash" and "position_ok p" and "p_market_type p = FUTURES"
    and "recompute cash (Some p) = Inr e"
  shows "e = cash + p_margin p + p_unrealized_pnl p"
proof -
  have q: "is_q8 (p_margin p)" "is_q8 (p_unrealized_pnl p)" using assms(2) by (auto simp: position_ok_def)
  obtain v where v: "quantize_amount (dadd (p_margin p) (p_unrealized_pnl p)) = Inr v"
    and e: "quantize_amount (dadd cash v) = Inr e"
    using assms(3,4) by (auto simp: recompute_def position_value_def bindR_eq_Inr)
  have "v = p_margin p + p_unrealized_pnl p" using v quantize_add [OF q] by simp
  moreover have "e = cash + v" using e quantize_add [OF assms(1) quantize_is_q8 [OF v]] by simp
  ultimately show ?thesis by simp
qed

subsection \<open>Keyed state\<close>

text \<open>
  What a client of a keyed store of records relies on: an event only touches the record of its
  key, and keeps a property of the records. From it: a run of events leaves every other key
  alone and keeps the property of all.
\<close>

locale keyed_state =
  fixes get :: "'s \<Rightarrow> 'k \<Rightarrow> 'v option"
    and step :: "'s \<Rightarrow> 'e \<Rightarrow> py_error + 's"
    and key :: "'e \<Rightarrow> 'k"
    and event_ok :: "'e \<Rightarrow> bool"
    and good :: "'k \<Rightarrow> 'v \<Rightarrow> bool"
    and modest :: "'v \<Rightarrow> bool"
  assumes step_frame: "step s e = Inr s' \<Longrightarrow> k \<noteq> key e \<Longrightarrow> get s' k = get s k"
    and step_good: "step s e = Inr s' \<Longrightarrow> event_ok e \<Longrightarrow>
      (\<And>v. get s (key e) = Some v \<Longrightarrow> good (key e) v \<and> modest v) \<Longrightarrow>
      get s' (key e) = Some w \<Longrightarrow> good (key e) w"
begin

definition all_good :: "'s \<Rightarrow> bool" where
  "all_good s \<longleftrightarrow> (\<forall>k v. get s k = Some v \<longrightarrow> good k v)"

definition all_modest :: "'s \<Rightarrow> bool" where
  "all_modest s \<longleftrightarrow> (\<forall>k v. get s k = Some v \<longrightarrow> modest v)"

lemma step_all_good:
  assumes "step s e = Inr s'" and "event_ok e" and "all_good s" and "all_modest s"
  shows "all_good s'"
  unfolding all_good_def
proof (intro allI impI)
  fix k w assume w: "get s' k = Some w"
  show "good k w"
  proof (cases "k = key e")
    case True
    then show ?thesis
      using step_good [OF assms(1,2) _ , of w] assms(3,4) w by (auto simp: all_good_def all_modest_def)
  next
    case False
    then show ?thesis using step_frame [OF assms(1) False] w assms(3) by (simp add: all_good_def)
  qed
qed

lemma run_frame:
  "foldR step s es = Inr s' \<Longrightarrow> k \<notin> key ` set es \<Longrightarrow> get s' k = get s k"
proof (induction es arbitrary: s)
  case (Cons e es)
  then obtain s1 where "step s e = Inr s1" "foldR step s1 es = Inr s'" by (auto simp: bindR_eq_Inr)
  then show ?case using Cons.IH [of s1] Cons.prems(2) step_frame [of s e s1 k] by auto
qed simp

end

subsection \<open>The book as keyed state\<close>

definition fill_ok :: "fill \<Rightarrow> bool" where
  "fill_ok f \<longleftrightarrow> is_q8 (f_price f) \<and> is_q8 (f_quantity f) \<and> is_q8 (f_fee f) \<and> is_q8 (f_slippage f) \<and>
     0 < f_price f \<and> 0 < f_quantity f \<and> 0 \<le> f_fee f \<and> 0 \<le> f_slippage f"

definition open_position :: "position_key \<Rightarrow> position \<Rightarrow> bool" where
  "open_position k p \<longleftrightarrow> position_ok p \<and> 0 < p_quantity p \<and> position_key p = k"

definition modest_margin :: "position \<Rightarrow> bool" where
  "modest_margin p \<longleftrightarrow> p_margin p \<le> 10 ^ 18"

text \<open>An event of the book: a fill with the account settings of an opening.\<close>

record book_event =
  e_fill :: fill
  e_leverage :: "int option"
  e_margin_type :: "margin_type option"
  e_market_type :: market_type
  e_liquidation :: decimal

definition book_step :: "book \<Rightarrow> book_event \<Rightarrow> book res" where
  "book_step b e = apply_fill b (e_fill e) (e_leverage e) (e_margin_type e) (e_market_type e) (e_liquidation e)"

lemma make_fill_fill_ok: "make_fill f = Inr f' \<Longrightarrow> fill_ok f'"
  using make_fill_ok [of f f'] by (simp add: fill_ok_def)

lemma make_position_fields:
  assumes "make_position p0 = Inr p"
  shows "position_ok p" and "p_symbol p = p_symbol p0" and "p_side p = p_side p0"
    and "quantize_amount (p_quantity p0) = Inr (p_quantity p)"
    and "quantize_amount (p_margin p0) = Inr (p_margin p)"
    and "p_leverage p = p_leverage p0" and "p_market_type p = p_market_type p0"
    and "quantize_amount (p_average_price p0) = Inr (p_average_price p)"
    and "quantize_amount (p_current_price p0) = Inr (p_current_price p)"
    and "quantize_amount (p_unrealized_pnl p0) = Inr (p_unrealized_pnl p)"
    and "quantize_amount (p_entry_price p0) = Inr (p_entry_price p)"
    and "p_margin_type p = p_margin_type p0"
  using assms make_position_ok [OF assms]
  by (auto simp: make_position_def quantize_fields_def validate_total_cost_def Let_def bindR_eq_Inr
      quantize_price_amount)

lemma weighted_average_elim:
  assumes "weighted_average b f = Inr (b', avg)"
  obtains p p1 added m where "b (fill_key f) = Some p" and "\<not> f_reduce_only f"
    and "add_quantity p (f_quantity f) (f_price f) = Inr p1"
    and "quantize_amount (dadd (p_margin p1) added) = Inr m"
    and "p_market_type p = FUTURES \<Longrightarrow> added = dctx (dmul (f_quantity f) (f_price f) / of_int (p_leverage p1))"
    and "p_market_type p = SPOT \<Longrightarrow> added = dmul (f_quantity f) (f_price f)"
    and "b' = b(fill_key f \<mapsto> p1\<lparr>p_margin := m\<rparr>)" and "avg = p_average_price p1"
proof -
  from assms obtain p p1 added m where a: "b (fill_key f) = Some p" "\<not> f_reduce_only f"
    "add_quantity p (f_quantity f) (f_price f) = Inr p1"
    "quantize_amount (dadd (p_margin p1) added) = Inr m"
    "(if p_market_type p1 = FUTURES
               then ddiv (dmul (f_quantity f) (f_price f)) (of_int (p_leverage p1))
               else Inr (dmul (f_quantity f) (f_price f))) = Inr added"
    "b' = b(fill_key f \<mapsto> p1\<lparr>p_margin := m\<rparr>)" "avg = p_average_price p1"
    by (auto simp: weighted_average_def bindR_eq_Inr [of "add_quantity a b c" for a b c]
        bindR_eq_Inr [of "if a then b else c" for a b c] bindR_eq_Inr [of "quantize_amount a" for a]
        split: option.splits)
  have mt: "p_market_type p1 = p_market_type p"
    using a(3) by (rule add_quantity_Inr) simp
  show thesis by (rule that [OF a(1-4) _ _ a(6,7)]) (use a(5) mt in auto)
qed

lemma reduce_elim:
  assumes "reduce b f = Inr (b', released)"
  obtains p p1 where "f_reduce_only f" and "b (fill_key f) = Some p"
    and "reduce_quantity p (f_quantity f) = Inr (p1, released)"
    and "b' = (if p_quantity p1 = 0 then b(fill_key f := None) else b(fill_key f \<mapsto> p1))"
  using assms by (auto simp: reduce_def bindR_eq_Inr split: option.splits)

lemma position_ok_margin:
  "position_ok p \<Longrightarrow> is_q8 m \<Longrightarrow> 0 \<le> m \<Longrightarrow> position_ok (p\<lparr>p_margin := m\<rparr>)"
  by (auto simp: position_ok_def validate_total_cost_def Let_def raise_if_def)

lemma weighted_average_good:
  assumes w: "weighted_average b f = Inr (b', avg)" and f: "fill_ok f"
    and g: "\<And>p. b (fill_key f) = Some p \<Longrightarrow> open_position (fill_key f) p"
  shows "\<exists>p p'. b (fill_key f) = Some p \<and> b' = b(fill_key f \<mapsto> p') \<and> open_position (fill_key f) p' \<and>
    p_quantity p' = p_quantity p + f_quantity f \<and> p_margin p \<le> p_margin p' \<and> p_average_price p' = avg"
proof (rule weighted_average_elim [OF w])
  fix p p1 added m
  assume p: "b (fill_key f) = Some p" and a: "add_quantity p (f_quantity f) (f_price f) = Inr p1"
    and m: "quantize_amount (dadd (p_margin p1) added) = Inr m"
    and fut: "p_market_type p = FUTURES \<Longrightarrow> added = dctx (dmul (f_quantity f) (f_price f) / of_int (p_leverage p1))"
    and spot: "p_market_type p = SPOT \<Longrightarrow> added = dmul (f_quantity f) (f_price f)"
    and b': "b' = b(fill_key f \<mapsto> p1\<lparr>p_margin := m\<rparr>)" and avg: "avg = p_average_price p1"
  have op: "position_ok p" "0 < p_quantity p" "position_key p = fill_key f"
    using g [OF p] by (auto simp: open_position_def)
  have q1: "position_ok p1" "p_quantity p1 = p_quantity p + f_quantity f"
    using add_quantity_ok [OF a op(1)] f by (auto simp: fill_ok_def)
  have same: "p_margin p1 = p_margin p" "p_leverage p1 = p_leverage p" "position_key p1 = position_key p"
    using a by (auto elim!: add_quantity_Inr simp: position_key_def)
  have pos: "0 \<le> dmul (f_quantity f) (f_price f)" "0 < p_leverage p"
    using f op(1) by (auto simp: fill_ok_def position_ok_def dmul_nonneg)
  have "0 \<le> added"
    using fut spot pos same by (cases "p_market_type p") (auto intro!: dec.rnd_nonneg)
  moreover have m0: "is_q8 (p_margin p)" "0 \<le> p_margin p" using op(1) by (auto simp: position_ok_def)
  ultimately have "p_margin p \<le> dadd (p_margin p) added"
    using dadd_mono [of "p_margin p" "p_margin p" 0 added] by (simp add: dadd_def is_q8_dctx)
  then have mm: "p_margin p \<le> m" using quantize_ge_q8 [OF m m0(1)] same(1) by simp
  have "open_position (fill_key f) (p1\<lparr>p_margin := m\<rparr>)"
    using position_ok_margin [OF q1(1) quantize_is_q8 [OF m]] mm m0(2) q1(2) op f same
    by (auto simp: open_position_def fill_ok_def position_key_def)
  then show ?thesis using p b' q1(2) mm avg by (intro exI [of _ p] exI [of _ "p1\<lparr>p_margin := m\<rparr>"]) simp
qed

lemma reduce_good:
  assumes r: "reduce b f = Inr (b', released)" and f: "fill_ok f"
    and g: "\<And>p. b (fill_key f) = Some p \<Longrightarrow> open_position (fill_key f) p \<and> modest_margin p"
  shows "\<exists>p. b (fill_key f) = Some p \<and> 0 \<le> released \<and> f_quantity f \<le> p_quantity p \<and>
    (if f_quantity f = p_quantity p then b' = b(fill_key f := None) \<and> released = p_margin p
     else \<exists>p'. b' = b(fill_key f \<mapsto> p') \<and> open_position (fill_key f) p' \<and>
       p_quantity p' = p_quantity p - f_quantity f \<and> p_margin p' + released = p_margin p)"
proof (rule reduce_elim [OF r])
  fix p p1
  assume p: "b (fill_key f) = Some p" and rq: "reduce_quantity p (f_quantity f) = Inr (p1, released)"
    and b': "b' = (if p_quantity p1 = 0 then b(fill_key f := None) else b(fill_key f \<mapsto> p1))"
  have op: "position_ok p" "0 < p_quantity p" "position_key p = fill_key f" "p_margin p \<le> 10 ^ 18"
    using g [OF p] by (auto simp: open_position_def modest_margin_def)
  have q: "quantize_amount (f_quantity f) = Inr (f_quantity f)" "0 < f_quantity f"
    using f by (auto simp: fill_ok_def)
  have le: "f_quantity f \<le> p_quantity p"
    using rq q by (auto simp: reduce_quantity_def raise_if_def split: if_splits)
  note s = reduce_quantity_spec [OF op(1) q le op(4) rq]
  have "position_key p1 = position_key p"
    using rq q le unfolding reduce_quantity_eq [OF op(1) q le op(4)]
    by (auto simp: bindR_eq_Inr Let_def position_key_def flatten_prices_def)
  then show ?thesis
    using p s b' le op(3) by (auto simp: open_position_def)
qed

lemma apply_fill_cases:
  assumes "apply_fill b f lev mt mk liq = Inr b'"
  obtains (reduce) released where "f_reduce_only f" and "reduce b f = Inr (b', released)"
  | (increase) avg where "\<not> f_reduce_only f" and "weighted_average b f = Inr (b', avg)"
  | (fresh) l m n margin p where "\<not> f_reduce_only f" and "b (fill_key f) = None" and "lev = Some l" and "mt = Some m"
      and "0 < l" and "quantize_amount (dmul (f_quantity f) (f_price f)) = Inr n"
      and "(if mk = FUTURES then bindR (ddiv n (of_int l)) quantize_amount else Inr n) = Inr margin"
      and "make_position \<lparr>p_wallet_id = None, p_symbol = f_symbol f, p_quantity = f_quantity f,
          p_average_price = f_price f, p_total_cost = n, p_current_price = f_price f,
          p_unrealized_pnl = 0, p_side = f_position_side f, p_market_type = mk,
          p_leverage = l, p_margin_type = m, p_margin = margin, p_entry_price = f_price f,
          p_mark_price = f_price f, p_liquidation_price = grid Q_AMOUNT liq, p_funding_fee_total = 0\<rparr> = Inr p"
      and "b' = b(fill_key f \<mapsto> p)"
proof (cases "f_reduce_only f")
  case True
  then show thesis using assms reduce
    by (auto simp: apply_fill_def bindR_eq_Inr split: option.splits)
next
  case False
  show thesis
  proof (cases "b (fill_key f)")
    case (Some q)
    then show thesis using assms False increase by (auto simp: apply_fill_def bindR_eq_Inr)
  next
    case None
    from assms False None obtain l m where lm: "lev = Some l" "mt = Some m"
      by (auto simp: apply_fill_def split: option.splits)
    from assms False None lm obtain n margin lq p where "0 < l"
      "quantize_amount (dmul (f_quantity f) (f_price f)) = Inr n"
      "(if mk = FUTURES then bindR (ddiv n (of_int l)) quantize_amount else Inr n) = Inr margin"
      and lq: "quantize_price liq = Inr lq"
      and mp: "make_position \<lparr>p_wallet_id = None, p_symbol = f_symbol f, p_quantity = f_quantity f,
          p_average_price = f_price f, p_total_cost = n, p_current_price = f_price f,
          p_unrealized_pnl = 0, p_side = f_position_side f, p_market_type = mk,
          p_leverage = l, p_margin_type = m, p_margin = margin, p_entry_price = f_price f,
          p_mark_price = f_price f, p_liquidation_price = lq, p_funding_fee_total = 0\<rparr> = Inr p"
      and "b' = b(fill_key f \<mapsto> p)"
      by (auto simp: apply_fill_def bindR_eq_Inr [of "if a then b else c" for a b c]
          bindR_eq_Inr [of "quantize_amount a" for a] bindR_eq_Inr [of "quantize_price a" for a]
          bindR_eq_Inr [of "make_position a" for a])
    moreover have "lq = grid Q_AMOUNT liq" using lq by (simp add: quantize_price_amount quantize_eq_Inr)
    ultimately show thesis using fresh False None lm by blast
  qed
qed

lemma apply_fill_frame:
  assumes "apply_fill b f lev mt mk liq = Inr b'" and "k \<noteq> fill_key f"
  shows "b' k = b k"
  using assms(1)
proof (rule apply_fill_cases)
  fix released assume "reduce b f = Inr (b', released)"
  then show ?thesis by (rule reduce_elim) (use assms(2) in auto)
next
  fix avg assume "weighted_average b f = Inr (b', avg)"
  then show ?thesis by (rule weighted_average_elim) (use assms(2) in auto)
next
  fix p assume "b' = b(fill_key f \<mapsto> p)"
  then show ?thesis using assms(2) by simp
qed

text \<open>The abstract book: how many units each key holds.\<close>

definition held :: "book \<Rightarrow> position_key \<Rightarrow> decimal" where
  "held b k = (case b k of None \<Rightarrow> 0 | Some p \<Rightarrow> p_quantity p)"

lemma apply_fill_held:
  assumes a: "apply_fill b f lev mt mk liq = Inr b'" and f: "fill_ok f"
    and g: "\<And>p. b (fill_key f) = Some p \<Longrightarrow> open_position (fill_key f) p \<and> modest_margin p"
  shows "held b' = (held b)(fill_key f := held b (fill_key f)
      + (if f_reduce_only f then - f_quantity f else f_quantity f)) \<and>
    (\<forall>p. b' (fill_key f) = Some p \<longrightarrow> open_position (fill_key f) p)"
  using a
proof (rule apply_fill_cases)
  fix released assume ro: "f_reduce_only f" and r: "reduce b f = Inr (b', released)"
  obtain p where p: "b (fill_key f) = Some p" and c: "if f_quantity f = p_quantity p
      then b' = b(fill_key f := None) \<and> released = p_margin p
      else \<exists>p'. b' = b(fill_key f \<mapsto> p') \<and> open_position (fill_key f) p' \<and>
        p_quantity p' = p_quantity p - f_quantity f \<and> p_margin p' + released = p_margin p"
    using reduce_good [OF r f g] by blast
  show ?thesis using ro p c by (auto simp: held_def intro!: ext split: if_splits)
next
  fix avg assume ro: "\<not> f_reduce_only f" and w: "weighted_average b f = Inr (b', avg)"
  obtain p p' where "b (fill_key f) = Some p" "b' = b(fill_key f \<mapsto> p')" "open_position (fill_key f) p'"
    "p_quantity p' = p_quantity p + f_quantity f"
    using weighted_average_good [OF w f] g by blast
  then show ?thesis using ro by (auto simp: held_def intro!: ext)
next
  fix l m n margin p
  assume ro: "\<not> f_reduce_only f" and none: "b (fill_key f) = None" and b': "b' = b(fill_key f \<mapsto> p)"
    and mp: "make_position \<lparr>p_wallet_id = None, p_symbol = f_symbol f, p_quantity = f_quantity f,
          p_average_price = f_price f, p_total_cost = n, p_current_price = f_price f,
          p_unrealized_pnl = 0, p_side = f_position_side f, p_market_type = mk,
          p_leverage = l, p_margin_type = m, p_margin = margin, p_entry_price = f_price f,
          p_mark_price = f_price f, p_liquidation_price = grid Q_AMOUNT liq, p_funding_fee_total = 0\<rparr> = Inr p"
  have "open_position (fill_key f) p" and "p_quantity p = f_quantity f"
    using make_position_fields(1-4) [OF mp] f
    by (auto simp: open_position_def position_key_def fill_key_def fill_ok_def)
  then show ?thesis using ro none b' by (auto simp: held_def intro!: ext)
qed

interpretation book: keyed_state "\<lambda>b. b" book_step "fill_key \<circ> e_fill" "fill_ok \<circ> e_fill"
    open_position modest_margin
proof
  fix b b' :: book and e k w
  assume s: "book_step b e = Inr b'"
  show "b' k = b k" if "k \<noteq> (fill_key \<circ> e_fill) e"
    using apply_fill_frame [OF s [unfolded book_step_def]] that by simp
  show "open_position ((fill_key \<circ> e_fill) e) w" if "(fill_ok \<circ> e_fill) e"
    and "\<And>v. b ((fill_key \<circ> e_fill) e) = Some v \<Longrightarrow>
      open_position ((fill_key \<circ> e_fill) e) v \<and> modest_margin v"
    and "b' ((fill_key \<circ> e_fill) e) = Some w"
    using apply_fill_held [OF s [unfolded book_step_def]] that by simp
qed

subsection \<open>Funding\<close>

lemma apply_funding_spec:
  assumes a: "apply_funding b p cost mmr = Inr (b', p', r)" and g: "position_ok p"
  shows "b (position_key p) = Some p" and "b' = b(position_key p \<mapsto> p')"
    and "p_margin p' = p_margin p - fr_applied_cost r" and "0 \<le> p_margin p'"
    and "fr_applied_cost r \<le> fr_theoretical_cost r"
    and "fr_applied_cost r \<noteq> fr_theoretical_cost r \<Longrightarrow> fr_exhausted r"
    and "fr_exhausted r \<longleftrightarrow> 0 < fr_theoretical_cost r \<and> p_margin p' = 0"
    and "p_funding_fee_total p' = p_funding_fee_total p + fr_applied_cost r"
    and "p_quantity p' = p_quantity p" and "p_entry_price p' = p_entry_price p"
    and "position_ok p'" and "price_from_margin (p'\<lparr>p_liquidation_price := p_liquidation_price p\<rparr>) mmr
      = Inr (p_liquidation_price p')"
proof -
  have q: "is_q8 (p_margin p)" "0 \<le> p_margin p" "is_q8 (p_funding_fee_total p)"
    using g by (auto simp: position_ok_def)
  from a obtain n margin tot liq where c: "b (position_key p) = Some p" "quantize_amount cost = Inr n"
    and m: "quantize_amount (dsub (p_margin p) (if 0 < n then min n (p_margin p) else n)) = Inr margin" "0 \<le> margin"
    and t: "quantize_amount (dadd (p_funding_fee_total p) (if 0 < n then min n (p_margin p) else n)) = Inr tot"
    and l: "price_from_margin (p\<lparr>p_margin := margin, p_funding_fee_total := tot\<rparr>) mmr = Inr liq"
    and o: "b' = b(position_key p \<mapsto> p\<lparr>p_margin := margin, p_funding_fee_total := tot, p_liquidation_price := liq\<rparr>)"
      "p' = p\<lparr>p_margin := margin, p_funding_fee_total := tot, p_liquidation_price := liq\<rparr>"
      "r = \<lparr>fr_theoretical_cost = n, fr_applied_cost = (if 0 < n then min n (p_margin p) else n),
           fr_exhausted = (0 < n \<and> margin = 0)\<rparr>"
    unfolding apply_funding_def Let_def
    by (auto simp: bindR_eq_Inr [of "quantize_amount a" for a] bindR_eq_Inr [of "price_from_margin a c" for a c])
  define ap where "ap = (if 0 < n then min n (p_margin p) else n)"
  have ap: "is_q8 ap" using quantize_is_q8 [OF c(2)] q(1) by (auto simp: ap_def min_def)
  have e: "margin = p_margin p - ap" "tot = p_funding_fee_total p + ap"
    using m(1) t quantize_sub [OF q(1) ap] quantize_add [OF q(3) ap] by (auto simp: ap_def [symmetric])
  show "b (position_key p) = Some p" "b' = b(position_key p \<mapsto> p')" "p_margin p' = p_margin p - fr_applied_cost r"
    "0 \<le> p_margin p'" "p_funding_fee_total p' = p_funding_fee_total p + fr_applied_cost r"
    "p_quantity p' = p_quantity p" "p_entry_price p' = p_entry_price p"
    "fr_exhausted r \<longleftrightarrow> 0 < fr_theoretical_cost r \<and> p_margin p' = 0"
    using c m(2) e by (simp_all add: o ap_def [symmetric])
  show "fr_applied_cost r \<le> fr_theoretical_cost r" by (simp add: o)
  show "fr_exhausted r" if "fr_applied_cost r \<noteq> fr_theoretical_cost r"
    using that e(1) by (auto simp: o ap_def min_def split: if_splits)
  show "position_ok p'"
    using g quantize_is_q8 [OF m(1)] quantize_is_q8 [OF t] m(2) price_from_margin_elim(6) [OF l]
    by (auto simp: o position_ok_def validate_total_cost_def Let_def raise_if_def)
  show "price_from_margin (p'\<lparr>p_liquidation_price := p_liquidation_price p\<rparr>) mmr = Inr (p_liquidation_price p')"
    using l by (simp add: o)
qed

end
