(* ===== verification/FloatDecimal.thy ===== *)
theory FloatDecimal
  imports Positions
begin

section \<open>Stored amounts survive the float boundary\<close>

text \<open>
  Quantities leave the Decimal world as floats (\<open>float(position.quantity)\<close>) and come back
  through \<open>to_decimal\<close>. Below a million units the eight decimals survive the round trip. The
  proof needs only that the printed decimal is close to the float, whichever candidate the
  shortest-digits search picks.
\<close>

lemma f64r_error:
  assumes "f64_tiny \<le> \<bar>q\<bar>"
  shows "\<bar>f64r q - q\<bar> \<le> \<bar>q\<bar> / 2 ^ 53"
  using siground_error [of 2 53 q] assms by (simp add: f64r_def power_int_def field_simps)

lemma f64_tiny_small: "f64_tiny < 1 / 10 ^ 9"
proof -
  have "f64_tiny \<le> 2 powi (-40)"
    unfolding f64_tiny_def using powi_mono [of 2 "-1022" "-40"] by simp
  also have "(2::rat) powi (-40) = 1 / 2 ^ 40" by (simp add: power_int_def power_one_over)
  also have "(1::rat) / 2 ^ 40 < 1 / 10 ^ 9" by simp
  finally show ?thesis .
qed

lemma f64r_tiny_fix: "f64r f64_tiny = f64_tiny"
  using f64r_normal_edge f64_consts_pos(1) unfolding f64r_def abs_of_pos [OF f64_consts_pos(1)] by simp

text \<open>A decimal that reads back as a normal float is close to it.\<close>

lemma reads_back_close:
  assumes "f64r c = x" and "1 / 10 ^ 9 \<le> x"
  shows "\<bar>c - x\<bar> \<le> x / 2 ^ 52"
proof -
  have c: "f64_tiny \<le> c"
  proof (rule ccontr)
    assume "\<not> f64_tiny \<le> c"
    then have "f64r c \<le> f64r f64_tiny" by (intro f64.rnd_mono) simp
    then show False using assms f64_tiny_small by (simp add: f64r_tiny_fix)
  qed
  then have e: "\<bar>x - c\<bar> \<le> c / 2 ^ 53"
    using f64r_error [of c] assms(1) f64_consts_pos(1) by (simp add: abs_if split: if_splits)
  then have "c \<le> 2 * x" using c f64_consts_pos(1) by (simp add: abs_if split: if_splits)
  then have "c / 2 ^ 53 \<le> 2 * x / 2 ^ 53" by (rule divide_right_mono) simp
  then show ?thesis using e by (simp add: abs_minus_commute)
qed

lemma repr_search_close:
  assumes "1 / 10 ^ 9 \<le> x"
  shows "\<bar>repr_search ns x - x\<bar> \<le> x / 2 ^ 52"
proof (induction ns)
  case Nil
  have x: "0 < x" using assms by (meson less_le_trans zero_less_divide_1_iff zero_less_numeral zero_less_power)
  have u: "(0::rat) < 10 powi (mag 10 x - 16)" by simp
  have "(10::rat) powi (mag 10 x - 16) = 10 powi mag 10 x / 10 ^ 16"
    using power_int_diff [of "10::rat" "mag 10 x" 16] by simp
  also have "\<dots> \<le> x / 10 ^ 16"
    using mag_bounds(1) [of 10 x] x by (intro divide_right_mono) simp_all
  finally have "10 powi (mag 10 x - 16) / 2 \<le> x / 2 ^ 52" using x by simp
  then show ?case using grid_error [OF u, of x] by simp
next
  case (Cons n ns)
  show ?case
  proof (cases "filter (\<lambda>c. f64r c = x) (repr_cands n x)")
    case Nil
    then show ?thesis using Cons.IH by simp
  next
    case (Cons c cs)
    then have "c \<in> set (filter (\<lambda>c. f64r c = x) (repr_cands n x))" by simp
    then have "f64r c = x" unfolding set_filter by simp
    then show ?thesis using Cons reads_back_close [OF _ assms] by simp
  qed
qed

lemma repr_value_close: "1 / 10 ^ 9 \<le> x \<Longrightarrow> \<bar>repr_value x - x\<bar> \<le> x / 2 ^ 52"
proof -
  assume a: "1 / 10 ^ 9 \<le> x"
  then have "0 < x" by (meson less_le_trans zero_less_divide_1_iff zero_less_numeral zero_less_power)
  then show ?thesis using repr_search_close [OF a] by (simp add: repr_value_def)
qed

lemma quantum_le: "is_q8 q \<Longrightarrow> 0 < q \<Longrightarrow> Q_AMOUNT \<le> q"
proof -
  assume "is_q8 q" and q: "0 < q"
  then obtain n where n: "q = of_int n * Q_AMOUNT" by (auto elim: is_q8E)
  with q have "1 \<le> n" by (simp add: Q_AMOUNT_def)
  then have "(1::rat) \<le> of_int n" by simp
  then have "1 * Q_AMOUNT \<le> of_int n * Q_AMOUNT" by (intro mult_right_mono) (simp_all add: Q_AMOUNT_def)
  then show ?thesis by (simp add: n)
qed

theorem float_round_trip:
  assumes q8: "is_q8 q" and q: "0 < q" "q \<le> 10 ^ 6"
  shows "to_decimal (float_of_decimal q) quantize_amount = Inr q"
proof -
  have lo: "1 / 10 ^ 8 \<le> q" using quantum_le [OF q8 q(1)] by (simp add: Q_AMOUNT_def)
  have t: "f64_tiny \<le> \<bar>q\<bar>" using f64_tiny_small lo q(1) by simp
  have e1: "\<bar>f64r q - q\<bar> \<le> q / 2 ^ 53" using f64r_error [OF t] q(1) by simp
  then have x: "1 / 10 ^ 9 \<le> f64r q" "f64r q \<le> 2 * q"
    using lo q(1) by (simp_all add: abs_if split: if_splits)
  have "f64r q < f64_big"
  proof -
    have "2 * q \<le> 2 ^ 30" using q(2) by simp
    also have "(2::rat) ^ 30 < f64_big" unfolding f64_big_def by (rule power_strict_increasing) simp_all
    finally show ?thesis using x(2) by simp
  qed
  then have f: "float_of_decimal q = Fin (f64r q)"
    using x(1) by (simp add: float_of_decimal_def fround_eq_Fin)
  have "\<bar>repr_value (f64r q) - f64r q\<bar> \<le> f64r q / 2 ^ 52" by (rule repr_value_close [OF x(1)])
  also have "\<dots> \<le> 2 * q / 2 ^ 52" using x(2) by (intro divide_right_mono) simp_all
  finally have "\<bar>repr_value (f64r q) - q\<bar> \<le> 2 * q / 2 ^ 52 + q / 2 ^ 53" using e1 by linarith
  also have "\<dots> \<le> 2 * 10 ^ 6 / 2 ^ 52 + 10 ^ 6 / 2 ^ 53"
    using q(2) by (intro add_mono divide_right_mono) simp_all
  also have "\<dots> < Q_AMOUNT / 2" by (simp add: Q_AMOUNT_def)
  finally have "grid Q_AMOUNT (repr_value (f64r q)) = q" by (rule grid_near [OF q8])
  then show ?thesis using q8 by (simp add: f quantize_eq_Inr is_q8_def)
qed

end
