(* ===== verification/WalletDomain.thy ===== *)
theory WalletDomain
  imports Sizing Book FloatDecimal
begin

section \<open>Wallet domain, risk guard and paper broker\<close>

text \<open>
  wallet_service/core/config.py, domain/models.py, application/risk.py and
  infrastructure/paper_broker.py: the risk policy, the paper signal envelope, the guard in
  front of the broker, and the broker that simulates one fill per configured context. Strings
  are 8-bit; \<open>upper\<close> is the ASCII one.
\<close>

subsection \<open>Risk policy\<close>

definition upper_char :: "char \<Rightarrow> char" where
  "upper_char ch = (let c = (of_char ch :: nat) in if 97 \<le> c \<and> c \<le> 122 then char_of (c - 32) else ch)"

definition py_upper :: "string \<Rightarrow> string" where
  "py_upper s = map upper_char s"

definition py_strip :: "string \<Rightarrow> string" where
  "py_strip s = rev (dropWhile py_isspace (rev (dropWhile py_isspace s)))"

record risk_policy =
  pol_allowed_symbols :: "string list"
  pol_risk_per_trade :: pyfloat
  pol_max_order_quantity :: pyfloat
  pol_max_order_notional :: pyfloat
  pol_single_market_limit :: pyfloat
  pol_correlation_group_limit :: pyfloat
  pol_single_direction_limit :: pyfloat
  pol_kill_switch_engaged :: bool

definition make_risk_policy :: "risk_policy \<Rightarrow> risk_policy res" where
  "make_risk_policy p0 =
     (let symbols = remdups (map (\<lambda>s. py_upper (py_strip s)) (pol_allowed_symbols p0));
          p = p0\<lparr>pol_allowed_symbols := symbols\<rparr> in
      raise_if (symbols = [] \<or> [] \<in> set symbols) (ValueError ''allowed_symbols'')
      (raise_if (list_ex (\<lambda>v. \<not> is_finite v \<or> fle v (Fin 0))
          [pol_risk_per_trade p, pol_max_order_quantity p, pol_max_order_notional p]) (ValueError ''positive'')
      (raise_if (flt (fround (1 / 100)) (pol_risk_per_trade p)) (ValueError ''one percent'')
      (raise_if (list_ex (\<lambda>v. \<not> is_finite v \<or> flt v (Fin 0))
          [pol_single_market_limit p, pol_correlation_group_limit p, pol_single_direction_limit p])
        (ValueError ''limits'')
      (Inr p)))))"

subsection \<open>Paper signals and execution facts\<close>

datatype paper_intent = Enter | Reverse | Exit

datatype consumption_status = C_FILLED | C_REJECTED | C_SKIPPED

record paper_signal =
  m_wallet_id :: string
  m_signal_id :: string
  m_decision_candle :: candle
  m_execution_candle :: candle
  m_signal :: trading_signal
  m_intent :: paper_intent
  m_side :: "position_side option"
  m_mode :: string

definition feature_time :: "paper_signal \<Rightarrow> instant" where
  "feature_time m = s_timestamp (m_signal m)"

definition decision_time :: "paper_signal \<Rightarrow> instant" where
  "decision_time m = c_close_time (m_decision_candle m)"

definition make_paper_signal :: "paper_signal \<Rightarrow> paper_signal res" where
  "make_paper_signal m =
     raise_if (m_wallet_id m = [] \<or> m_signal_id m = []) (ValueError ''ids'')
     (raise_if (m_mode m \<noteq> ''paper'') (ValueError ''paper only'')
     (raise_if (m_intent m \<in> {Enter, Reverse} \<and> m_side m = None) (ValueError ''directional side'')
     (raise_if (m_intent m = Exit \<and> m_side m \<noteq> None) (ValueError ''exit side'')
     (raise_if (s_symbol (m_signal m) \<noteq> c_symbol (m_decision_candle m)) (ValueError ''signal symbol'')
     (raise_if (c_symbol (m_execution_candle m) \<noteq> c_symbol (m_decision_candle m)) (ValueError ''candle symbol'')
     (raise_if (c_timeframe (m_execution_candle m) \<noteq> c_timeframe (m_decision_candle m)) (ValueError ''timeframe'')
     (raise_if (c_open_time (m_execution_candle m) \<noteq> c_close_time (m_decision_candle m)) (ValueError ''contiguous'')
     (raise_if (decision_time m < feature_time m) (ValueError ''feature_ts'')
     (Inr m)))))))))"

record accounting_snapshot =
  a_occurred_at :: instant
  a_cash_balance :: decimal
  a_position_value :: decimal
  a_total_equity :: decimal
  a_fee_total :: decimal
  a_slippage_total :: decimal

record wallet_execution =
  x_wallet_id :: string
  x_signal_id :: string
  x_symbol :: string
  x_fills :: "fill list"
  x_position :: "position option"
  x_accounting :: accounting_snapshot

definition make_wallet_execution :: "wallet_execution \<Rightarrow> wallet_execution res" where
  "make_wallet_execution x =
     raise_if (x_wallet_id x = [] \<or> x_signal_id x = [] \<or> x_symbol x = []) (ValueError ''identity'')
     (raise_if (x_fills x = []) (ValueError ''at least one fill'')
     (raise_if (list_ex (\<lambda>f. f_symbol f \<noteq> x_symbol x) (x_fills x)) (ValueError ''fill symbols'')
     (Inr x)))"

subsection \<open>Risk guard\<close>

definition validate_signal :: "risk_policy \<Rightarrow> bool \<Rightarrow> paper_signal \<Rightarrow> unit res" where
  "validate_signal policy kill m =
     raise_if kill (RiskRejected ''kill_switch'')
     (raise_if (m_mode m \<noteq> ''paper'') (RiskRejected ''paper_only'')
     (raise_if (s_symbol (m_signal m) \<noteq> py_upper (s_symbol (m_signal m))) (RiskRejected ''symbol_not_canonical'')
     (raise_if (py_upper (s_symbol (m_signal m)) \<notin> set (pol_allowed_symbols policy)) (RiskRejected ''symbol_not_allowed'')
     (raise_if (s_market_type (m_signal m) = SPOT \<and> m_side m = Some SHORT) (RiskRejected ''spot_short_not_supported'')
     (Inr ())))))"

text \<open>\<open>math.isclose\<close> with a relative tolerance only.\<close>

definition is_close :: "pyfloat \<Rightarrow> pyfloat \<Rightarrow> pyfloat \<Rightarrow> bool" where
  "is_close a b rel_tol =
     (if feq a b then True
      else if \<not> is_finite a \<and> \<not> is_nan a \<or> \<not> is_finite b \<and> \<not> is_nan b then False
      else (let diff = fabs (fsub b a) in
        fle diff (fabs (fmul rel_tol b)) \<or> fle diff (fabs (fmul rel_tol a)) \<or> fle diff (Fin 0)))"

definition ONE_R_REL_TOLERANCE :: pyfloat where
  "ONE_R_REL_TOLERANCE = fround (1 / 10 ^ 12)"

type_synonym open_risk = "string \<times> position_side \<times> pyfloat"

definition validate_sized_entry ::
    "risk_policy \<Rightarrow> paper_signal \<Rightarrow> pyfloat \<Rightarrow> pyfloat \<Rightarrow> open_risk list \<Rightarrow> unit res" where
  "validate_sized_entry policy m quantity eq existing_risks =
     raise_if (flt (pol_max_order_quantity policy) quantity) (RiskRejected ''max_order_quantity'')
     (raise_if (flt (pol_max_order_notional policy) (fmul quantity (s_price (m_signal m))))
        (RiskRejected ''max_order_notional'')
     (case s_stop_loss (m_signal m) of
        None \<Rightarrow> Inl (RiskRejected ''protective_stop_required'')
      | Some stop \<Rightarrow>
     bindR (one_r (s_price (m_signal m)) stop quantity) (\<lambda>r.
     (let risk_budget = fmul eq MAX_RISK_PER_TRADE in
     raise_if (flt risk_budget r \<and> \<not> is_close r risk_budget ONE_R_REL_TOLERANCE) (RiskRejected ''one_r_limit'')
     (case m_side m of
        None \<Rightarrow> Inl (RiskRejected ''direction_required'')
      | Some side \<Rightarrow>
     (let normalized = py_upper (s_symbol (m_signal m));
          market_risks = map (\<lambda>(_, _, risk). risk) (filter (\<lambda>(s, _, _). py_upper s = normalized) existing_risks);
          direction_risks = map (\<lambda>(_, _, risk). risk) (filter (\<lambda>(_, d, _). d = side) existing_risks);
          candidate = pol_risk_per_trade policy in
     bindR (single_market (market_risks @ [candidate]) (pol_single_market_limit policy)) (\<lambda>a.
     bindR (correlation_group (map (\<lambda>(_, _, risk). risk) existing_risks @ [candidate])
        (pol_correlation_group_limit policy)) (\<lambda>b.
     bindR (single_direction (direction_risks @ [candidate]) (pol_single_direction_limit policy)) (\<lambda>c.
     raise_if (\<not> (a \<and> b \<and> c)) (RiskRejected ''exposure_limit'') (Inr ()))))))))))"

definition validate_simulated_entry :: "risk_policy \<Rightarrow> fill \<Rightarrow> unit res" where
  "validate_simulated_entry policy f =
     raise_if (flt (pol_max_order_quantity policy) (float_of_decimal (f_quantity f))) (RiskRejected ''max_order_quantity'')
     (raise_if (flt (pol_max_order_notional policy) (float_of_decimal (dmul (f_price f) (f_quantity f))))
        (RiskRejected ''max_order_notional'')
     (Inr ()))"

subsection \<open>Paper broker\<close>

record paper_context =
  k_decision_candle :: candle
  k_execution_candle :: candle
  k_wallet_id :: string
  k_signal_id :: string
  k_equity :: decimal
  k_available_margin :: decimal
  k_leverage :: int
  k_risk_fraction :: "pyfloat option"

record broker =
  br_context :: "paper_context option"
  br_open :: "order list"

definition configure_execution :: "paper_context \<Rightarrow> (broker, unit) st" where
  "configure_execution k br =
     (let r = raise_if (c_open_time (k_execution_candle k) \<noteq> c_close_time (k_decision_candle k)) (ValueError ''contiguous'')
         (raise_if (c_symbol (k_execution_candle k) \<noteq> c_symbol (k_decision_candle k)) (ValueError ''symbol'')
         (raise_if (c_timeframe (k_execution_candle k) \<noteq> c_timeframe (k_decision_candle k)) (ValueError ''timeframe'')
         (raise_if (k_equity k \<le> 0 \<or> k_available_margin k < 0) (ValueError ''equity'')
         (raise_if (k_leverage k \<le> 0) (ValueError ''leverage'')
         (raise_if (case k_risk_fraction k of None \<Rightarrow> False
             | Some r \<Rightarrow> \<not> (flt (Fin 0) r \<and> fle r (fround (1 / 100)))) (ValueError ''risk_fraction'')
         (Inr ())))))) in
      case r of Inl e \<Rightarrow> (br, Inl e) | Inr _ \<Rightarrow> (br\<lparr>br_context := Some k\<rparr>, Inr ()))"

definition simulate_order :: "cost_model \<Rightarrow> paper_context \<Rightarrow> order_request \<Rightarrow> fill res" where
  "simulate_order cm k request =
     raise_if (rq_symbol request \<noteq> c_symbol (k_decision_candle k)) (ValueError ''order symbol'')
     (let order_key = PaperId (PaperName (k_wallet_id k) (k_signal_id k) (rq_reduce_only request)
            (rq_close_position request)) in
      bindR (normalize_order request (Some order_key) None (Some (k_wallet_id k)) (Some (k_signal_id k))) (\<lambda>ord.
      bindR (case k_risk_fraction k of
          None \<Rightarrow> Inr None
        | Some fraction \<Rightarrow>
            bindR (to_decimal fraction quantize_amount) (\<lambda>d.
            bindR (quantize_amount (dmul (k_equity k) d)) (\<lambda>budget. Inr (Some budget)))) (\<lambda>risk_budget.
      bindR (match ord (k_decision_candle k) [k_decision_candle k, k_execution_candle k] cm NextBar risk_budget
          (if rq_reduce_only request \<or> rq_close_position request then None else Some (k_available_margin k))
          (k_leverage k)) (\<lambda>(_, f).
      Inr f))))"

text \<open>
  \<open>submit\<close> consumes the context; the order is in the open list only while it is matched, and is
  taken out again whether the match returns or raises.
\<close>

definition submit :: "cost_model \<Rightarrow> order_request \<Rightarrow> (broker, fill) st" where
  "submit cm request br =
     (case br_context br of
        None \<Rightarrow> (br, Inl (RuntimeError ''configure_execution''))
      | Some k \<Rightarrow> (br\<lparr>br_context := None\<rparr>, simulate_order cm k request))"

fun cancel_in :: "order_id \<Rightarrow> order list \<Rightarrow> order list res" where
  "cancel_in oid [] = Inl (KeyError ''order_id'')"
| "cancel_in oid (ord # ords) =
     (if o_id ord = oid then bindR (mark_as_cancelled ord) (\<lambda>_. Inr ords)
      else bindR (cancel_in oid ords) (\<lambda>rest. Inr (ord # rest)))"

definition cancel :: "order_id \<Rightarrow> (broker, unit) st" where
  "cancel oid br =
     (case cancel_in oid (br_open br) of
        Inl e \<Rightarrow> (br, Inl e)
      | Inr ords \<Rightarrow> (br\<lparr>br_open := ords\<rparr>, Inr ()))"

subsection \<open>What the broker's fill is\<close>

lemma normalize_order_elim:
  assumes "normalize_order request key client wallet_id signal_id = Inr ord"
  shows "order_ok ord" and "o_symbol ord = rq_symbol request" and "o_side ord = rq_side request"
    and "o_position_side ord = rq_position_side request" and "o_reduce_only ord = rq_reduce_only request"
    and "o_close_position ord = rq_close_position request" and "o_filled_quantity ord = 0"
    and "to_decimal (rq_quantity request) quantize_amount = Inr (o_quantity ord)"
proof -
  from assms obtain r where m: "make_order r = Inr ord" and q: "to_decimal (rq_quantity request) quantize_amount = Inr (o_quantity r)"
    and f: "o_symbol r = rq_symbol request" "o_side r = rq_side request" "o_position_side r = rq_position_side request"
      "o_reduce_only r = rq_reduce_only request" "o_close_position r = rq_close_position request" "o_filled_quantity r = 0"
    unfolding normalize_order_def Let_def by (auto simp: bindR_eq_Inr)
  show "order_ok ord" by (rule make_order_ok [OF m])
  have "quantize_amount (o_quantity r) = Inr (o_quantity ord)" "quantize_amount 0 = Inr (o_filled_quantity ord)"
    and s: "o_symbol ord = o_symbol r" "o_side ord = o_side r" "o_position_side ord = o_position_side r"
      "o_reduce_only ord = o_reduce_only r" "o_close_position ord = o_close_position r"
    using m f(6) by (auto simp: make_order_def validate_fill_status_def bindR_eq_Inr)
  then show "to_decimal (rq_quantity request) quantize_amount = Inr (o_quantity ord)" "o_filled_quantity ord = 0"
    using q to_decimal_is_q8 [OF q] by simp_all
  show "o_symbol ord = rq_symbol request" "o_side ord = rq_side request"
    "o_position_side ord = rq_position_side request" "o_reduce_only ord = rq_reduce_only request"
    "o_close_position ord = rq_close_position request" using s f by simp_all
qed

lemma fill_order_fill_ok: "fill_order ord r q t cm g tr reason = Inr (ord', f) \<Longrightarrow> fill_ok f"
  unfolding fill_order_def by (auto simp: bindR_eq_Inr Let_def intro: make_fill_fill_ok)

lemma simulate_order_elim:
  assumes "simulate_order cm k request = Inr f"
  obtains ord budget ord' where "order_ok ord" and "o_filled_quantity ord = 0"
    and "to_decimal (rq_quantity request) quantize_amount = Inr (o_quantity ord)"
    and "o_symbol ord = rq_symbol request" and "o_side ord = rq_side request"
    and "o_position_side ord = rq_position_side request" and "o_reduce_only ord = rq_reduce_only request"
    and "o_close_position ord = rq_close_position request"
    and "k_risk_fraction k = None \<Longrightarrow> budget = None"
    and "match ord (k_decision_candle k) [k_decision_candle k, k_execution_candle k] cm NextBar budget
          (if rq_reduce_only request \<or> rq_close_position request then None else Some (k_available_margin k))
          (k_leverage k) = Inr (ord', f)"
proof -
  from assms obtain ord budget ord' where n: "normalize_order request (Some (PaperId (PaperName (k_wallet_id k)
      (k_signal_id k) (rq_reduce_only request) (rq_close_position request)))) None (Some (k_wallet_id k))
      (Some (k_signal_id k)) = Inr ord"
    and b: "(case k_risk_fraction k of None \<Rightarrow> Inr None
        | Some fraction \<Rightarrow> bindR (to_decimal fraction quantize_amount) (\<lambda>d.
            bindR (quantize_amount (dmul (k_equity k) d)) (\<lambda>budget. Inr (Some budget)))) = Inr budget"
    and m: "match ord (k_decision_candle k) [k_decision_candle k, k_execution_candle k] cm NextBar budget
          (if rq_reduce_only request \<or> rq_close_position request then None else Some (k_available_margin k))
          (k_leverage k) = Inr (ord', f)"
    unfolding simulate_order_def Let_def by (auto simp: bindR_eq_Inr)
  note e = normalize_order_elim [OF n]
  show thesis by (rule that [OF e(1,7,8,2-6) _ m]) (use b in auto)
qed

lemma simulate_order_fields:
  assumes "simulate_order cm k request = Inr f"
  shows "fill_ok f" and "f_symbol f = rq_symbol request" and "f_side f = rq_side request"
    and "f_position_side f = rq_position_side request"
    and "f_reduce_only f = (rq_reduce_only request \<or> rq_close_position request)"
    and "\<exists>q. to_decimal (rq_quantity request) quantize_amount = Inr q \<and> f_quantity f \<le> q \<and>
      (k_risk_fraction k = None \<and> (rq_reduce_only request \<or> rq_close_position request) \<longrightarrow> f_quantity f = q)"
    and "rq_side request = BUY \<and> f_reference_price f \<le> f_price f \<or>
      rq_side request = SELL \<and> f_price f \<le> f_reference_price f"
proof (atomize(full), rule simulate_order_elim [OF assms], intro conjI)
  fix ord budget ord'
  assume o: "order_ok ord" "o_filled_quantity ord = 0"
    "to_decimal (rq_quantity request) quantize_amount = Inr (o_quantity ord)"
    and same: "o_symbol ord = rq_symbol request" "o_side ord = rq_side request"
    "o_position_side ord = rq_position_side request" "o_reduce_only ord = rq_reduce_only request"
    "o_close_position ord = rq_close_position request"
    and b: "k_risk_fraction k = None \<Longrightarrow> budget = None"
    and m: "match ord (k_decision_candle k) [k_decision_candle k, k_execution_candle k] cm NextBar budget
          (if rq_reduce_only request \<or> rq_close_position request then None else Some (k_available_margin k))
          (k_leverage k) = Inr (ord', f)"
  obtain reference gap time where ref: "is_q8 reference"
    and mt: "match_triggered ord reference gap time cm budget
          (if rq_reduce_only request \<or> rq_close_position request then None else Some (k_available_margin k))
          (k_leverage k) = Inr (ord', f)"
    using m o(1) by (rule match_reference_q8)
  note s = match_triggered_spec [OF mt o(1) ref]
  show "fill_ok f" using mt by (rule match_triggered_elim) (rule fill_order_fill_ok)
  show "f_symbol f = rq_symbol request" "f_side f = rq_side request" "f_position_side f = rq_position_side request"
    "f_reduce_only f = (rq_reduce_only request \<or> rq_close_position request)" using s same by simp_all
  show "\<exists>q. to_decimal (rq_quantity request) quantize_amount = Inr q \<and> f_quantity f \<le> q \<and>
      (k_risk_fraction k = None \<and> (rq_reduce_only request \<or> rq_close_position request) \<longrightarrow> f_quantity f = q)"
    using s(1) o(2,3) b match_unbounded_quantity [OF _ o(1) ref] mt by auto
  show "rq_side request = BUY \<and> f_reference_price f \<le> f_price f \<or>
      rq_side request = SELL \<and> f_price f \<le> f_reference_price f"
    using s(9,13) same by simp
qed

lemma submit_Inr:
  "submit cm request br = (br', Inr f) \<longleftrightarrow>
    (\<exists>k. br_context br = Some k \<and> br' = br\<lparr>br_context := None\<rparr> \<and> simulate_order cm k request = Inr f)"
  by (auto simp: submit_def split: option.splits)

lemma configure_execution_Inr:
  assumes "configure_execution k br = (br', Inr u)"
  shows "br' = br\<lparr>br_context := Some k\<rparr>" and "0 < k_equity k" and "0 \<le> k_available_margin k" and "0 < k_leverage k"
  using assms unfolding configure_execution_def Let_def raise_if_def by (auto split: if_splits)

end
