(* ===== verification/WalletRepo.thy ===== *)
theory WalletRepo
  imports WalletDomain
begin

section \<open>Wallet repository (wallet_service/infrastructure/wallet_repository.py)\<close>

text \<open>
  The PostgreSQL connection is outside the repository, so its behaviour is a parameter: which
  executed statement raises is given by \<open>fault\<close> on the running count of statements. The
  tables are maps keyed by the unique constraints of init-scripts/wallet-service, an insert
  with ON CONFLICT DO NOTHING leaves an existing row and returns no identity, and a
  transaction is the working copy that \<open>commit\<close> publishes and \<open>rollback\<close> drops.
\<close>

record wallet_db =
  d_consumption :: "string \<times> string \<Rightarrow> (consumption_status \<times> instant) option"
  d_fills :: "string \<times> string \<times> bool \<Rightarrow> fill option"
  d_positions :: "string \<times> string \<times> position_side \<Rightarrow> (position \<times> instant) option"
  d_accounting :: "string \<times> string \<Rightarrow> accounting_snapshot option"
  d_accounts :: "string \<Rightarrow> (decimal \<times> decimal \<times> instant) option"

record connection =
  cn_committed :: wallet_db
  cn_working :: wallet_db
  cn_executed :: nat

type_synonym fault = "nat \<Rightarrow> bool"

definition database_error :: py_error where
  "database_error = RuntimeError ''database error''"

text \<open>One \<open>execute\<close>: it counts, may raise, and otherwise runs the statement on the working copy.\<close>

definition execute :: "fault \<Rightarrow> (wallet_db \<Rightarrow> wallet_db \<times> 'a res) \<Rightarrow> (connection, 'a) st" where
  "execute fault statement c =
     (let c1 = c\<lparr>cn_executed := Suc (cn_executed c)\<rparr> in
      if fault (cn_executed c) then (c1, Inl database_error)
      else (case statement (cn_working c) of
          (db, Inl e) \<Rightarrow> (c1, Inl e)
        | (db, Inr x) \<Rightarrow> (c1\<lparr>cn_working := db\<rparr>, Inr x)))"

definition commit :: "fault \<Rightarrow> (connection, unit) st" where
  "commit fault c =
     (let c1 = c\<lparr>cn_executed := Suc (cn_executed c)\<rparr> in
      if fault (cn_executed c) then (c1, Inl database_error)
      else (c1\<lparr>cn_committed := cn_working c\<rparr>, Inr ()))"

definition rollback :: "connection \<Rightarrow> connection" where
  "rollback c = c\<lparr>cn_working := cn_committed c\<rparr>"

subsection \<open>Statements\<close>

declare not_None_eq [simp del]

definition insert_consumption ::
    "string \<Rightarrow> string \<Rightarrow> consumption_status \<Rightarrow> instant \<Rightarrow> wallet_db \<Rightarrow> wallet_db \<times> bool res" where
  "insert_consumption wallet_id signal_id status consumed_at db =
     (if d_consumption db (wallet_id, signal_id) \<noteq> None then (db, Inr False)
      else (db\<lparr>d_consumption := (d_consumption db)((wallet_id, signal_id) \<mapsto> (status, consumed_at))\<rparr>, Inr True))"

definition insert_fill :: "string \<Rightarrow> string \<Rightarrow> fill \<Rightarrow> wallet_db \<Rightarrow> wallet_db \<times> bool res" where
  "insert_fill wallet_id signal_id f db =
     (if d_fills db (wallet_id, signal_id, f_reduce_only f) \<noteq> None then (db, Inr False)
      else (db\<lparr>d_fills := (d_fills db)((wallet_id, signal_id, f_reduce_only f) \<mapsto> f)\<rparr>, Inr True))"

definition delete_positions :: "string \<Rightarrow> string \<Rightarrow> wallet_db \<Rightarrow> wallet_db \<times> unit res" where
  "delete_positions wallet_id name db =
     (db\<lparr>d_positions := (\<lambda>(w, s, side). if w = wallet_id \<and> s = name then None else d_positions db (w, s, side))\<rparr>,
      Inr ())"

definition insert_position :: "string \<Rightarrow> position \<Rightarrow> instant \<Rightarrow> wallet_db \<Rightarrow> wallet_db \<times> unit res" where
  "insert_position wallet_id p updated_at db =
     (let k = (wallet_id, p_symbol p, p_side p) in
      if d_positions db k \<noteq> None then (db, Inl database_error)
      else (db\<lparr>d_positions := (d_positions db)(k \<mapsto> (p, updated_at))\<rparr>, Inr ()))"

definition insert_accounting ::
    "string \<Rightarrow> string \<Rightarrow> accounting_snapshot \<Rightarrow> wallet_db \<Rightarrow> wallet_db \<times> bool res" where
  "insert_accounting wallet_id signal_id a db =
     (if d_accounting db (wallet_id, signal_id) \<noteq> None then (db, Inr False)
      else (db\<lparr>d_accounting := (d_accounting db)((wallet_id, signal_id) \<mapsto> a)\<rparr>, Inr True))"

definition upsert_account :: "string \<Rightarrow> accounting_snapshot \<Rightarrow> wallet_db \<Rightarrow> wallet_db \<times> unit res" where
  "upsert_account wallet_id a db =
     (db\<lparr>d_accounts := (d_accounts db)(wallet_id \<mapsto> (a_cash_balance a, a_total_equity a, a_occurred_at a))\<rparr>, Inr ())"

subsection \<open>The transaction of one execution\<close>

text \<open>
  The statements of \<open>store\<close> in order. The result says whether every insert returned a row;
  the first one that does not ends the transaction with a rollback and \<open>False\<close>.
\<close>

fun insert_fills :: "fault \<Rightarrow> string \<Rightarrow> string \<Rightarrow> fill list \<Rightarrow> (connection, bool) st" where
  "insert_fills fault wallet_id signal_id [] = liftS (Inr True)"
| "insert_fills fault wallet_id signal_id (f # fs) =
     bindS (execute fault (insert_fill wallet_id signal_id f)) (\<lambda>inserted.
     if inserted then insert_fills fault wallet_id signal_id fs else liftS (Inr False))"

definition store_statements :: "fault \<Rightarrow> wallet_execution \<Rightarrow> (connection, bool) st" where
  "store_statements fault x =
     bindS (execute fault (insert_consumption (x_wallet_id x) (x_signal_id x) C_FILLED
        (a_occurred_at (x_accounting x)))) (\<lambda>inserted_consumption.
     if \<not> inserted_consumption then liftS (Inr False)
     else bindS (insert_fills fault (x_wallet_id x) (x_signal_id x) (x_fills x)) (\<lambda>inserted_fills.
     if \<not> inserted_fills then liftS (Inr False)
     else bindS (execute fault (delete_positions (x_wallet_id x) (x_symbol x))) (\<lambda>_.
     bindS (case x_position x of
         None \<Rightarrow> liftS (Inr ())
       | Some p \<Rightarrow> execute fault (insert_position (x_wallet_id x) p (a_occurred_at (x_accounting x)))) (\<lambda>_.
     bindS (execute fault (insert_accounting (x_wallet_id x) (x_signal_id x) (x_accounting x))) (\<lambda>inserted_accounting.
     if \<not> inserted_accounting then liftS (Inr False)
     else bindS (execute fault (upsert_account (x_wallet_id x) (x_accounting x))) (\<lambda>_.
     bindS (commit fault) (\<lambda>_. liftS (Inr True))))))))"

definition store :: "fault \<Rightarrow> wallet_execution \<Rightarrow> (connection, bool) st" where
  "store fault x c =
     (case store_statements fault x c of
        (c', Inr True) \<Rightarrow> (c', Inr True)
      | (c', r) \<Rightarrow> (rollback c', r))"

definition record_consumption ::
    "fault \<Rightarrow> string \<Rightarrow> string \<Rightarrow> consumption_status \<Rightarrow> instant \<Rightarrow> (connection, bool) st" where
  "record_consumption fault wallet_id signal_id status consumed_at c =
     (if status = C_FILLED then (c, Inl (ValueError ''filled consumption''))
      else (case bindS (execute fault (insert_consumption wallet_id signal_id status consumed_at)) (\<lambda>inserted.
            bindS (commit fault) (\<lambda>_. liftS (Inr inserted))) c of
          (c', Inr inserted) \<Rightarrow> (c', Inr inserted)
        | (c', Inl e) \<Rightarrow> (rollback c', Inl e)))"

text \<open>The operations of the WalletRepository port.\<close>

record 'c repository =
  op_store :: "wallet_execution \<Rightarrow> ('c, bool) st"
  op_record_consumption :: "string \<Rightarrow> string \<Rightarrow> consumption_status \<Rightarrow> instant \<Rightarrow> ('c, bool) st"

definition postgres_repository :: "fault \<Rightarrow> connection repository" where
  "postgres_repository fault =
     \<lparr>op_store = store fault, op_record_consumption = record_consumption fault\<rparr>"

subsection \<open>The ledger an execution posts\<close>

text \<open>The abstract effect of a committed execution: receipt, fills, position, snapshot, account.\<close>

fun post_fills :: "string \<Rightarrow> string \<Rightarrow> fill list \<Rightarrow> (string \<times> string \<times> bool \<Rightarrow> fill option) \<Rightarrow>
    (string \<times> string \<times> bool \<Rightarrow> fill option)" where
  "post_fills w s [] m = m"
| "post_fills w s (f # fs) m = post_fills w s fs (m((w, s, f_reduce_only f) \<mapsto> f))"

definition post_position :: "string \<Rightarrow> string \<Rightarrow> position option \<Rightarrow> instant \<Rightarrow>
    (string \<times> string \<times> position_side \<Rightarrow> (position \<times> instant) option) \<Rightarrow>
    (string \<times> string \<times> position_side \<Rightarrow> (position \<times> instant) option)" where
  "post_position w name p t m =
     (let cleared = (\<lambda>(w', s, side). if w' = w \<and> s = name then None else m (w', s, side)) in
      case p of None \<Rightarrow> cleared | Some q \<Rightarrow> cleared((w, p_symbol q, p_side q) \<mapsto> (q, t)))"

definition post_execution :: "wallet_execution \<Rightarrow> wallet_db \<Rightarrow> wallet_db" where
  "post_execution x db =
     (let w = x_wallet_id x; s = x_signal_id x; a = x_accounting x in
      db\<lparr>d_consumption := (d_consumption db)((w, s) \<mapsto> (C_FILLED, a_occurred_at a)),
         d_fills := post_fills w s (x_fills x) (d_fills db),
         d_positions := post_position w (x_symbol x) (x_position x) (a_occurred_at a) (d_positions db),
         d_accounting := (d_accounting db)((w, s) \<mapsto> a),
         d_accounts := (d_accounts db)(w \<mapsto> (a_cash_balance a, a_total_equity a, a_occurred_at a))\<rparr>)"

definition receipted :: "wallet_db \<Rightarrow> string \<Rightarrow> string \<Rightarrow> bool" where
  "receipted db w s \<longleftrightarrow> d_consumption db (w, s) \<noteq> None"

subsection \<open>The contract of the repository port\<close>

text \<open>
  What the wallet service relies on: a store that does not return \<open>True\<close> leaves the ledger
  alone, one that does posts the whole execution for a signal not receipted before, and a
  receipt is written once and writes nothing else.
\<close>

locale repository_contract =
  fixes repo :: "'c repository"
    and ledger :: "'c \<Rightarrow> wallet_db"
    and quiet :: "'c \<Rightarrow> bool"
  assumes store_refused: "quiet c \<Longrightarrow> op_store repo x c = (c', r) \<Longrightarrow> r \<noteq> Inr True \<Longrightarrow> ledger c' = ledger c"
    and store_posted: "quiet c \<Longrightarrow> op_store repo x c = (c', Inr True) \<Longrightarrow>
      \<not> receipted (ledger c) (x_wallet_id x) (x_signal_id x) \<and> ledger c' = post_execution x (ledger c)"
    and store_quiet: "quiet c \<Longrightarrow> op_store repo x c = (c', r) \<Longrightarrow> quiet c'"
    and record_error: "quiet c \<Longrightarrow> op_record_consumption repo w s st t c = (c', Inl e) \<Longrightarrow> ledger c' = ledger c"
    and record_done: "quiet c \<Longrightarrow> op_record_consumption repo w s st t c = (c', Inr b) \<Longrightarrow>
      b = (\<not> receipted (ledger c) w s) \<and>
      ledger c' = (if b then (ledger c)\<lparr>d_consumption := (d_consumption (ledger c))((w, s) \<mapsto> (st, t))\<rparr> else ledger c)"
    and record_quiet: "quiet c \<Longrightarrow> op_record_consumption repo w s st t c = (c', r) \<Longrightarrow> quiet c'"
begin

lemma store_receipts:
  "quiet c \<Longrightarrow> op_store repo x c = (c', Inr True) \<Longrightarrow> receipted (ledger c') (x_wallet_id x) (x_signal_id x)"
  using store_posted [of c x c'] by (simp add: receipted_def post_execution_def Let_def)

lemma store_replay:
  assumes "quiet c" and "receipted (ledger c) (x_wallet_id x) (x_signal_id x)" and "op_store repo x c = (c', r)"
  shows "r \<noteq> Inr True" and "ledger c' = ledger c"
  using assms store_posted [of c x c'] store_refused [of c x c' r] by auto

lemma receipts_kept_store:
  "quiet c \<Longrightarrow> op_store repo x c = (c', r) \<Longrightarrow> d_consumption (ledger c) k = Some v \<Longrightarrow>
    d_consumption (ledger c') k = Some v"
  using store_posted [of c x c'] store_refused [of c x c' r]
  by (cases "r = Inr True") (auto simp: post_execution_def Let_def receipted_def)

lemma receipts_kept_record:
  "quiet c \<Longrightarrow> op_record_consumption repo w s st t c = (c', r) \<Longrightarrow> d_consumption (ledger c) k = Some v \<Longrightarrow>
    d_consumption (ledger c') k = Some v"
  using record_done [of c w s st t c'] record_error [of c w s st t c']
  by (cases r; cases v) (auto simp: receipted_def split: if_splits)

end

subsection \<open>The PostgreSQL repository keeps it\<close>

definition settled :: "connection \<Rightarrow> bool" where
  "settled c \<longleftrightarrow> cn_working c = cn_committed c"

lemma execute_Inr:
  "execute fault st c = (c', Inr x) \<longleftrightarrow> \<not> fault (cn_executed c) \<and>
    (\<exists>db. st (cn_working c) = (db, Inr x) \<and> c' = c\<lparr>cn_executed := Suc (cn_executed c), cn_working := db\<rparr>)"
  by (auto simp: execute_def Let_def split: prod.splits sum.splits)

lemma commit_Inr:
  "commit fault c = (c', Inr x) \<longleftrightarrow> \<not> fault (cn_executed c) \<and>
    c' = c\<lparr>cn_executed := Suc (cn_executed c), cn_committed := cn_working c\<rparr>"
  by (auto simp: commit_def Let_def)

lemma commit_Inl: "commit fault c = (c', Inl e) \<Longrightarrow> cn_committed c' = cn_committed c"
  by (auto simp: commit_def Let_def split: if_splits)

text \<open>Everything but \<open>commit\<close> leaves the committed database alone.\<close>

definition uncommitted :: "(connection, 'a) st \<Rightarrow> bool" where
  "uncommitted m \<longleftrightarrow> (\<forall>c c' r. m c = (c', r) \<longrightarrow> cn_committed c' = cn_committed c)"

lemma uncommitted_execute: "uncommitted (execute fault st)"
  by (auto simp: uncommitted_def execute_def Let_def split: if_splits prod.splits sum.splits)

lemma uncommitted_lift: "uncommitted (liftS r)"
  by (auto simp: uncommitted_def)

lemma uncommitted_bind:
  assumes "uncommitted m" and "\<And>x. uncommitted (f x)"
  shows "uncommitted (bindS m f)"
  unfolding uncommitted_def
proof (intro allI impI)
  fix c c' r assume "bindS m f c = (c', r)"
  then show "cn_committed c' = cn_committed c"
    using assms unfolding bindS_eq uncommitted_def by metis
qed

lemma uncommitted_insert_fills: "uncommitted (insert_fills fault w s fs)"
proof (induction fs)
  case Nil
  show ?case unfolding insert_fills.simps by (rule uncommitted_lift)
next
  case (Cons f fs)
  then show ?case unfolding insert_fills.simps
    by (intro uncommitted_bind uncommitted_execute) (simp add: uncommitted_lift)
qed

text \<open>A program that commits last and then returns \<open>v\<close>: any other result has committed nothing.\<close>

definition commits_last :: "'a \<Rightarrow> (connection, 'a) st \<Rightarrow> bool" where
  "commits_last v m \<longleftrightarrow> (\<forall>c c' r. m c = (c', r) \<longrightarrow> r \<noteq> Inr v \<longrightarrow> cn_committed c' = cn_committed c)"

lemma commits_last_uncommitted: "uncommitted m \<Longrightarrow> commits_last v m"
  by (auto simp: uncommitted_def commits_last_def)

lemma commits_last_bind:
  assumes "uncommitted m" and "\<And>x. commits_last v (f x)"
  shows "commits_last v (bindS m f)"
  unfolding commits_last_def
proof (intro allI impI)
  fix c c' r assume "bindS m f c = (c', r)" and r: "r \<noteq> Inr v"
  then consider (raised) e where "m c = (c', Inl e)" | (went) s' x where "m c = (s', Inr x)" "f x s' = (c', r)"
    unfolding bindS_eq by blast
  then show "cn_committed c' = cn_committed c"
  proof cases
    case raised
    then show ?thesis using assms(1) by (auto simp: uncommitted_def)
  next
    case went
    then have "cn_committed s' = cn_committed c" using assms(1) by (auto simp: uncommitted_def)
    moreover have "cn_committed c' = cn_committed s'"
      using assms(2) [of x] went(2) r by (auto simp: commits_last_def)
    ultimately show ?thesis by simp
  qed
qed

lemma commits_last_commit: "commits_last v (bindS (commit fault) (\<lambda>_. liftS (Inr v)))"
  unfolding commits_last_def by (auto simp: bindS_eq dest: commit_Inl)

lemma commits_last_if:
  "commits_last v a \<Longrightarrow> commits_last v b \<Longrightarrow> commits_last v (if p then a else b)"
  by simp

lemma commits_last_lift: "commits_last v (liftS r)"
  by (rule commits_last_uncommitted [OF uncommitted_lift])

lemma uncommitted_option: "uncommitted a \<Longrightarrow> (\<And>x. uncommitted (f x)) \<Longrightarrow> uncommitted (case p of None \<Rightarrow> a | Some x \<Rightarrow> f x)"
  by (cases p) auto

lemmas transaction_intros = commits_last_bind commits_last_if commits_last_lift commits_last_commit
  uncommitted_execute uncommitted_insert_fills uncommitted_option uncommitted_lift

lemma store_statements_commits_last: "commits_last True (store_statements fault x)"
  unfolding store_statements_def by (intro transaction_intros)

lemma record_commits_last:
  "bindS (execute fault (insert_consumption w s st t)) (\<lambda>b. bindS (commit fault) (\<lambda>_. liftS (Inr b))) c
    = (c', Inl e) \<Longrightarrow> cn_committed c' = cn_committed c"
  using uncommitted_execute [of fault "insert_consumption w s st t"]
  by (auto simp: bindS_eq uncommitted_def dest!: commit_Inl)

lemma insert_fills_True:
  "insert_fills fault w s fs c = (c', Inr True) \<Longrightarrow> \<exists>n. c' = c\<lparr>cn_executed := n,
    cn_working := (cn_working c)\<lparr>d_fills := post_fills w s fs (d_fills (cn_working c))\<rparr>\<rparr>"
proof (induction fs arbitrary: c)
  case (Cons f fs)
  then obtain c1 where c1: "execute fault (insert_fill w s f) c = (c1, Inr True)"
    and r: "insert_fills fault w s fs c1 = (c', Inr True)"
    by (auto simp: bindS_Inr split: if_splits)
  obtain n where n: "c' = c1\<lparr>cn_executed := n,
    cn_working := (cn_working c1)\<lparr>d_fills := post_fills w s fs (d_fills (cn_working c1))\<rparr>\<rparr>"
    using Cons.IH [OF r] by blast
  obtain m where m: "c1 = c\<lparr>cn_executed := m, cn_working := (cn_working c)\<lparr>d_fills :=
      (d_fills (cn_working c))((w, s, f_reduce_only f) \<mapsto> f)\<rparr>\<rparr>"
    using c1 by (auto simp: execute_Inr insert_fill_def split: if_splits)
  show ?case by (rule exI [of _ n]) (simp add: n m)
next
  case Nil
  then show ?case by (intro exI [of _ "cn_executed c"]) simp
qed

lemma store_statements_True:
  assumes "store_statements fault x c = (c', Inr True)"
  shows "d_consumption (cn_working c) (x_wallet_id x, x_signal_id x) = None"
    and "cn_working c' = post_execution x (cn_working c)" and "cn_committed c' = cn_working c'"
proof -
  let ?w = "x_wallet_id x" and ?s = "x_signal_id x" and ?a = "x_accounting x"
  from assms obtain c1 c2 c3 c4 c5 c6 where
    1: "execute fault (insert_consumption ?w ?s C_FILLED (a_occurred_at ?a)) c = (c1, Inr True)"
    and 2: "insert_fills fault ?w ?s (x_fills x) c1 = (c2, Inr True)"
    and 3: "execute fault (delete_positions ?w (x_symbol x)) c2 = (c3, Inr ())"
    and 4: "(case x_position x of None \<Rightarrow> liftS (Inr ())
       | Some p \<Rightarrow> execute fault (insert_position ?w p (a_occurred_at ?a))) c3 = (c4, Inr ())"
    and 5: "execute fault (insert_accounting ?w ?s ?a) c4 = (c5, Inr True)"
    and 6: "execute fault (upsert_account ?w ?a) c5 = (c6, Inr ())"
    and 7: "commit fault c6 = (c', Inr ())"
    unfolding store_statements_def by (auto simp: bindS_Inr split: if_splits)
  have e1: "d_consumption (cn_working c) (?w, ?s) = None" "cn_working c1 = (cn_working c)\<lparr>d_consumption :=
      (d_consumption (cn_working c))((?w, ?s) \<mapsto> (C_FILLED, a_occurred_at ?a))\<rparr>"
    using 1 by (auto simp: execute_Inr insert_consumption_def split: if_splits)
  have e2: "cn_working c2 = (cn_working c1)\<lparr>d_fills := post_fills ?w ?s (x_fills x) (d_fills (cn_working c1))\<rparr>"
    using insert_fills_True [OF 2] by auto
  have e4: "cn_working c4 = (cn_working c2)\<lparr>d_positions := post_position ?w (x_symbol x) (x_position x)
      (a_occurred_at ?a) (d_positions (cn_working c2))\<rparr>"
    using 3 4 by (cases "x_position x") (auto simp: execute_Inr delete_positions_def insert_position_def
        post_position_def Let_def split: if_splits)
  have e5: "cn_working c5 = (cn_working c4)\<lparr>d_accounting := (d_accounting (cn_working c4))((?w, ?s) \<mapsto> ?a)\<rparr>"
    using 5 by (auto simp: execute_Inr insert_accounting_def split: if_splits)
  have e6: "cn_working c6 = (cn_working c5)\<lparr>d_accounts := (d_accounts (cn_working c5))(?w \<mapsto>
      (a_cash_balance ?a, a_total_equity ?a, a_occurred_at ?a))\<rparr>"
    using 6 by (auto simp: execute_Inr upsert_account_def)
  show "d_consumption (cn_working c) (x_wallet_id x, x_signal_id x) = None" by (rule e1(1))
  show "cn_working c' = post_execution x (cn_working c)" "cn_committed c' = cn_working c'"
    using 7 by (simp_all add: commit_Inr e6 e5 e4 e2 e1(2) post_execution_def Let_def)
qed

lemma store_refused_pg:
  "store fault x c = (c', r) \<Longrightarrow> r \<noteq> Inr True \<Longrightarrow> cn_committed c' = cn_committed c \<and> settled c'"
  using store_statements_commits_last [of fault x]
  by (auto simp: store_def commits_last_def rollback_def settled_def split: prod.splits sum.splits bool.splits)

lemma store_True_pg: "store fault x c = (c', Inr True) \<Longrightarrow> store_statements fault x c = (c', Inr True)"
  by (auto simp: store_def split: prod.splits sum.splits bool.splits)

lemma record_consumption_cases:
  assumes "record_consumption fault w s st t c = (c', r)" and q: "settled c"
  shows "settled c' \<and> (case r of Inl e \<Rightarrow> cn_committed c' = cn_committed c
    | Inr b \<Rightarrow> b = (\<not> receipted (cn_committed c) w s) \<and> cn_committed c' =
        (if b then (cn_committed c)\<lparr>d_consumption := (d_consumption (cn_committed c))((w, s) \<mapsto> (st, t))\<rparr>
         else cn_committed c))"
proof (cases "st = C_FILLED")
  case True
  then show ?thesis using assms by (auto simp: record_consumption_def)
next
  case False
  let ?rec = "bindS (execute fault (insert_consumption w s st t)) (\<lambda>b. bindS (commit fault) (\<lambda>_. liftS (Inr b)))"
  obtain c1 r1 where r1: "?rec c = (c1, r1)" by fastforce
  show ?thesis
  proof (cases r1)
    case (Inl e)
    then have "r = Inl e" "c' = rollback c1"
      using assms(1) False r1 by (auto simp: record_consumption_def)
    moreover have "cn_committed c1 = cn_committed c" using r1 Inl record_commits_last by blast
    ultimately show ?thesis by (simp add: settled_def rollback_def)
  next
    case (Inr b)
    then have "r = Inr b" "c' = c1" using assms(1) False r1 by (auto simp: record_consumption_def)
    then show ?thesis
      using r1 Inr q
      by (auto simp: bindS_Inr execute_Inr commit_Inr insert_consumption_def settled_def receipted_def
          split: if_splits)
  qed
qed

interpretation pg: repository_contract "postgres_repository fault" cn_committed settled for fault
proof
  fix c c' x r w s st t b e
  assume q: "settled c"
  then have wc: "cn_working c = cn_committed c" by (simp add: settled_def)
  note pr = postgres_repository_def
  show "op_store (postgres_repository fault) x c = (c', r) \<Longrightarrow> r \<noteq> Inr True \<Longrightarrow> cn_committed c' = cn_committed c"
    using store_refused_pg by (simp add: pr)
  show "\<not> receipted (cn_committed c) (x_wallet_id x) (x_signal_id x) \<and> cn_committed c' = post_execution x (cn_committed c)"
    if "op_store (postgres_repository fault) x c = (c', Inr True)"
    using that store_statements_True [OF store_True_pg, of fault x c c'] by (simp add: pr receipted_def wc)
  show "op_store (postgres_repository fault) x c = (c', r) \<Longrightarrow> settled c'"
    using store_refused_pg [of fault x c c' r] store_statements_True(3) [OF store_True_pg, of fault x c c']
    by (cases "r = Inr True") (auto simp: pr settled_def)
  show "op_record_consumption (postgres_repository fault) w s st t c = (c', Inl e) \<Longrightarrow> cn_committed c' = cn_committed c"
    using record_consumption_cases [OF _ q] by (fastforce simp: pr)
  show "b = (\<not> receipted (cn_committed c) w s) \<and> cn_committed c' =
      (if b then (cn_committed c)\<lparr>d_consumption := (d_consumption (cn_committed c))((w, s) \<mapsto> (st, t))\<rparr> else cn_committed c)"
    if "op_record_consumption (postgres_repository fault) w s st t c = (c', Inr b)"
    using record_consumption_cases [OF _ q, of fault w s st t c' "Inr b"] that by (simp add: pr)
  show "op_record_consumption (postgres_repository fault) w s st t c = (c', r) \<Longrightarrow> settled c'"
    using record_consumption_cases [OF _ q] by (auto simp: pr)
qed

end
