(* ===== verification/WalletService.thy ===== *)
theory WalletService
  imports WalletRepo
begin

section \<open>Wallet service (wallet_service/application/service.py, runner.py, in_memory_queue.py)\<close>

text \<open>
  The orchestration of one paper signal: guard, candidate book, exit and entry legs, snapshot,
  one atomic store, and only then the in-memory cash, position and open risk. The queue and the
  repository are ports: their operations are arguments, and the service state carries the
  objects behind them.
\<close>

record wallet_config =
  wc_wallet_id :: string
  wc_policy :: risk_policy
  wc_costs :: cost_model

record ('q, 'c) wallet =
  w_queue :: 'q
  w_broker :: broker
  w_repo :: 'c
  w_cash :: decimal
  w_position :: "position option"
  w_open_risk :: "open_risk option"
  w_kill :: bool
  w_received :: bool
  w_outcome :: "consumption_status option"
  w_symbol :: "string option"
  w_reason :: "string option"

definition make_wallet :: "wallet_config \<Rightarrow> 'q \<Rightarrow> 'c \<Rightarrow> decimal \<Rightarrow> ('q, 'c) wallet res" where
  "make_wallet cfg queue repo initial_cash =
     raise_if (wc_wallet_id cfg = []) (ValueError ''wallet_id'')
     (bindR (quantize_amount initial_cash) (\<lambda>cash.
      raise_if (cash \<le> 0) (ValueError ''initial_cash'')
      (Inr \<lparr>w_queue = queue, w_broker = \<lparr>br_context = None, br_open = []\<rparr>, w_repo = repo, w_cash = cash,
         w_position = None, w_open_risk = None, w_kill = pol_kill_switch_engaged (wc_policy cfg),
         w_received = False, w_outcome = None, w_symbol = None, w_reason = None\<rparr>)))"

definition engage_kill_switch :: "('q, 'c) wallet \<Rightarrow> ('q, 'c) wallet" where
  "engage_kill_switch w = w\<lparr>w_kill := True\<rparr>"

subsection \<open>Book queries, snapshot and checks\<close>

definition book_position :: "book \<Rightarrow> string \<Rightarrow> position option res" where
  "book_position b name =
     raise_if (book_get b name LONG \<noteq> None \<and> book_get b name SHORT \<noteq> None) (RuntimeError ''both directions'')
     (Inr (case book_get b name LONG of Some p \<Rightarrow> Some p | None \<Rightarrow> book_get b name SHORT))"

definition any_position :: "risk_policy \<Rightarrow> book \<Rightarrow> position option res" where
  "any_position policy b =
     (let positions = List.map_filter (\<lambda>(name, side). book_get b name side)
            (List.product (pol_allowed_symbols policy) [LONG, SHORT]) in
      raise_if (1 < length positions) (RuntimeError ''at most one open position'')
      (Inr (case positions of [] \<Rightarrow> None | p # _ \<Rightarrow> Some p)))"

definition assert_times :: "paper_signal \<Rightarrow> fill \<Rightarrow> unit res" where
  "assert_times m f =
     raise_if (\<not> (feature_time m \<le> decision_time m \<and> decision_time m < f_timestamp f)) (ValueError ''times'')
     (Inr ())"

definition assert_accounting :: "decimal \<Rightarrow> position option \<Rightarrow> unit res" where
  "assert_accounting cash p =
     bindR (position_value p) (\<lambda>v. bindR (recompute cash p) (\<lambda>eq. assert_identity cash v eq))"

definition snapshot :: "decimal \<Rightarrow> position option \<Rightarrow> fill list \<Rightarrow> accounting_snapshot res" where
  "snapshot cash p fills =
     bindR (position_value p) (\<lambda>position_term.
     bindR (recompute cash p) (\<lambda>total_equity.
     bindR (assert_identity cash position_term total_equity) (\<lambda>_.
     raise_if (fills = []) (IndexError ''fills'')
     (bindR (quantize_amount (dsum 0 (map f_fee fills))) (\<lambda>fee_total.
      bindR (quantize_amount (dsum 0 (map f_slippage fills))) (\<lambda>slippage_total.
      Inr \<lparr>a_occurred_at = f_timestamp (last fills), a_cash_balance = cash, a_position_value = position_term,
        a_total_equity = total_equity, a_fee_total = fee_total, a_slippage_total = slippage_total\<rparr>))))))"

definition entry_liquidation_price :: "cost_model \<Rightarrow> fill \<Rightarrow> int \<Rightarrow> market_type \<Rightarrow> decimal res" where
  "entry_liquidation_price cm f leverage market_type =
     raise_if (f_position_side f = BOTH) (RiskRejected ''direction_required'')
     (if market_type = SPOT then Inr 0
      else (case cm_maintenance_margin_rate cm of
          None \<Rightarrow> Inl (TypeError ''maintenance_margin_rate'')
        | Some mmr \<Rightarrow> liquidation_price (f_price f) leverage mmr (f_position_side f)))"

subsection \<open>The two legs\<close>

definition execute_entry ::
    "wallet_config \<Rightarrow> paper_signal \<Rightarrow> book \<Rightarrow> decimal \<Rightarrow> open_risk list \<Rightarrow> (broker, fill \<times> book \<times> decimal) st" where
  "execute_entry cfg m b cash existing_risks =
     (case s_stop_loss (m_signal m) of
        None \<Rightarrow> liftS (Inl (RiskRejected ''protective_stop_required''))
      | Some stop \<Rightarrow>
     bindS (liftS (recompute cash None)) (\<lambda>eq.
     bindS (liftS (risk_size (pol_risk_per_trade (wc_policy cfg)) (float_of_decimal eq)
        (fabs (fsub (s_price (m_signal m)) stop)))) (\<lambda>quantity.
     bindS (liftS (validate_sized_entry (wc_policy cfg) m quantity (float_of_decimal eq) existing_risks)) (\<lambda>_.
     (case m_side m of
        None \<Rightarrow> liftS (Inl (RiskRejected ''direction_required''))
      | Some side \<Rightarrow>
     (let leverage = (case s_leverage (m_signal m) of None \<Rightarrow> 1 | Some l \<Rightarrow> if l = 0 then 1 else l) in
     bindS (configure_execution \<lparr>k_decision_candle = m_decision_candle m, k_execution_candle = m_execution_candle m,
        k_wallet_id = wc_wallet_id cfg, k_signal_id = m_signal_id m, k_equity = eq, k_available_margin = cash,
        k_leverage = leverage, k_risk_fraction = Some (pol_risk_per_trade (wc_policy cfg))\<rparr>) (\<lambda>_.
     bindS (liftS (make_order_request \<lparr>rq_symbol = s_symbol (m_signal m), rq_side = (if side = LONG then BUY else SELL),
        rq_order_type = MARKET, rq_quantity = quantity, rq_price = Some (s_price (m_signal m)),
        rq_stop_price = Some stop, rq_market_type = s_market_type (m_signal m), rq_position_side = side,
        rq_reduce_only = False, rq_close_position = False, rq_time_in_force = ''GTC''\<rparr>)) (\<lambda>request.
     bindS (submit (wc_costs cfg) request) (\<lambda>f.
     bindS (liftS (assert_times m f)) (\<lambda>_.
     bindS (liftS (validate_simulated_entry (wc_policy cfg) f)) (\<lambda>_.
     bindS (liftS (entry_liquidation_price (wc_costs cfg) f leverage (s_market_type (m_signal m)))) (\<lambda>liq.
     bindS (liftS (apply_fill b f (Some leverage) (Some ISOLATED) (s_market_type (m_signal m)) liq)) (\<lambda>b1.
     bindS (liftS (book_position b1 (s_symbol (m_signal m)))) (\<lambda>created.
     (case created of
        None \<Rightarrow> liftS (Inl (RuntimeError ''filled position''))
      | Some p \<Rightarrow>
     bindS (liftS (position_value (Some p))) (\<lambda>v.
     bindS (liftS (quantize_amount (dsub (dsub cash v) (f_fee f)))) (\<lambda>next_cash.
     bindS (liftS (raise_if (next_cash < 0) (RuntimeError ''entry cash negative'') (Inr ()))) (\<lambda>_.
     bindS (liftS (assert_accounting next_cash (Some p))) (\<lambda>_.
     liftS (Inr (f, b1, next_cash)))))))))))))))))))))"

definition execute_exit ::
    "wallet_config \<Rightarrow> paper_signal \<Rightarrow> book \<Rightarrow> position \<Rightarrow> decimal \<Rightarrow> (broker, fill \<times> book \<times> decimal) st" where
  "execute_exit cfg m b p cash =
     bindS (liftS (recompute cash (Some p))) (\<lambda>eq.
     bindS (configure_execution \<lparr>k_decision_candle = m_decision_candle m, k_execution_candle = m_execution_candle m,
        k_wallet_id = wc_wallet_id cfg, k_signal_id = m_signal_id m, k_equity = eq, k_available_margin = cash,
        k_leverage = p_leverage p, k_risk_fraction = None\<rparr>) (\<lambda>_.
     bindS (liftS (make_order_request \<lparr>rq_symbol = p_symbol p, rq_side = (if p_side p = LONG then SELL else BUY),
        rq_order_type = MARKET, rq_quantity = float_of_decimal (p_quantity p), rq_price = None,
        rq_stop_price = None, rq_market_type = p_market_type p, rq_position_side = p_side p,
        rq_reduce_only = True, rq_close_position = False, rq_time_in_force = ''GTC''\<rparr>)) (\<lambda>request.
     bindS (submit (wc_costs cfg) request) (\<lambda>f.
     bindS (liftS (assert_times m f)) (\<lambda>_.
     bindS (liftS (update_price p (f_price f))) (\<lambda>p1.
     bindS (liftS (recompute cash (Some p1))) (\<lambda>equity_before_fee.
     bindS (liftS (apply_fill (b(position_key p \<mapsto> p1)) f None None FUTURES 0)) (\<lambda>b1.
     bindS (liftS (book_position b1 (p_symbol p))) (\<lambda>remaining.
     bindS (liftS (position_value remaining)) (\<lambda>v.
     bindS (liftS (quantize_amount (dsub (dsub equity_before_fee (f_fee f)) v))) (\<lambda>next_cash.
     bindS (liftS (raise_if (next_cash < 0) (RuntimeError ''exit cash negative'') (Inr ()))) (\<lambda>_.
     bindS (liftS (assert_accounting next_cash remaining)) (\<lambda>_.
     liftS (Inr (f, b1, next_cash)))))))))))))))"

subsection \<open>One signal\<close>

type_synonym legs = "fill list \<times> book \<times> decimal \<times> open_risk option"

definition exit_leg :: "wallet_config \<Rightarrow> paper_signal \<Rightarrow> legs \<Rightarrow> (broker, legs) st" where
  "exit_leg cfg m = (\<lambda>(fills, b, cash, risk).
     if m_intent m \<in> {Exit, Reverse} then
       bindS (liftS (book_position b (s_symbol (m_signal m)))) (\<lambda>current.
       (case current of
          None \<Rightarrow> liftS (Inl (RiskRejected ''position_required''))
        | Some p \<Rightarrow>
            if m_intent m = Reverse \<and> m_side m = Some (p_side p)
            then liftS (Inl (RiskRejected ''reverse_requires_opposite_side''))
            else bindS (execute_exit cfg m b p cash) (\<lambda>(f, b1, cash1). liftS (Inr (fills @ [f], b1, cash1, None)))))
     else liftS (Inr (fills, b, cash, risk)))"

definition entry_leg :: "wallet_config \<Rightarrow> paper_signal \<Rightarrow> legs \<Rightarrow> (broker, legs) st" where
  "entry_leg cfg m = (\<lambda>(fills, b, cash, risk).
     if m_intent m \<in> {Enter, Reverse} then
       bindS (liftS (book_position b (s_symbol (m_signal m)))) (\<lambda>current.
       if current \<noteq> None then liftS (Inl (RiskRejected ''pyramiding_disabled''))
       else bindS (liftS (any_position (wc_policy cfg) b)) (\<lambda>held_position.
       if held_position \<noteq> None then liftS (Inl (RiskRejected ''max_open_positions''))
       else bindS (execute_entry cfg m b cash (case risk of None \<Rightarrow> [] | Some r \<Rightarrow> [r])) (\<lambda>(f, b1, cash1).
       (case m_side m of
          None \<Rightarrow> liftS (Inl (AssertionError ''side''))
        | Some side \<Rightarrow> liftS (Inr (fills @ [f], b1, cash1,
            Some (s_symbol (m_signal m), side, pol_risk_per_trade (wc_policy cfg))))))))
     else liftS (Inr (fills, b, cash, risk)))"

text \<open>Everything \<open>process\<close> computes before the store: the transaction and the state to adopt.\<close>

type_synonym candidate = "wallet_execution \<times> decimal \<times> position option \<times> open_risk option"

definition candidate_execution :: "wallet_config \<Rightarrow> paper_signal \<Rightarrow> ('q, 'c) wallet \<Rightarrow> (broker, candidate) st" where
  "candidate_execution cfg m w =
     bindS (liftS (raise_if (m_wallet_id m \<noteq> wc_wallet_id cfg) (RiskRejected ''wallet_mismatch'') (Inr ()))) (\<lambda>_.
     bindS (liftS (validate_signal (wc_policy cfg) (w_kill w) m)) (\<lambda>_.
     bindS (liftS (make_book (case w_position w of None \<Rightarrow> [] | Some p \<Rightarrow> [p]))) (\<lambda>b.
     bindS (exit_leg cfg m ([], b, w_cash w, w_open_risk w)) (\<lambda>legs1.
     bindS (entry_leg cfg m legs1) (\<lambda>(fills, b2, cash, risk).
     bindS (liftS (any_position (wc_policy cfg) b2)) (\<lambda>final_position.
     bindS (liftS (snapshot cash final_position fills)) (\<lambda>snap.
     bindS (liftS (make_wallet_execution \<lparr>x_wallet_id = wc_wallet_id cfg, x_signal_id = m_signal_id m,
        x_symbol = s_symbol (m_signal m), x_fills = fills, x_position = final_position,
        x_accounting = snap\<rparr>)) (\<lambda>transaction.
     liftS (Inr (transaction, cash, final_position, risk))))))))))"

definition process ::
    "wallet_config \<Rightarrow> 'c repository \<Rightarrow> paper_signal \<Rightarrow> (('q, 'c) wallet, wallet_execution option) st" where
  "process cfg repo m w =
     (case candidate_execution cfg m w (w_broker w) of
        (br, Inl e) \<Rightarrow> (w\<lparr>w_broker := br\<rparr>, Inl e)
      | (br, Inr (transaction, cash, p, risk)) \<Rightarrow>
          (case op_store repo transaction (w_repo w) of
             (c, Inl e) \<Rightarrow> (w\<lparr>w_broker := br, w_repo := c\<rparr>, Inl e)
           | (c, Inr False) \<Rightarrow> (w\<lparr>w_broker := br, w_repo := c\<rparr>, Inr None)
           | (c, Inr True) \<Rightarrow> (w\<lparr>w_broker := br, w_repo := c, w_cash := cash, w_position := p,
               w_open_risk := risk\<rparr>, Inr (Some transaction))))"

text \<open>\<open>run_once\<close>: the receipt of a rejected or a not persisted signal.\<close>

definition receipt ::
    "wallet_config \<Rightarrow> 'c repository \<Rightarrow> paper_signal \<Rightarrow> consumption_status \<Rightarrow> string \<Rightarrow>
      (('q, 'c) wallet, wallet_execution option) st" where
  "receipt cfg repo m status reason w =
     (case op_record_consumption repo (wc_wallet_id cfg) (m_signal_id m) status
        (c_close_time (m_execution_candle m)) (w_repo w) of
        (c, Inl e) \<Rightarrow> (w\<lparr>w_repo := c\<rparr>, Inl e)
      | (c, Inr _) \<Rightarrow> (w\<lparr>w_repo := c, w_outcome := Some status, w_reason := Some reason\<rparr>, Inr None))"

definition run_once ::
    "wallet_config \<Rightarrow> 'c repository \<Rightarrow> ('q, paper_signal option) st \<Rightarrow>
      (('q, 'c) wallet, wallet_execution option) st" where
  "run_once cfg repo receive w0 =
     (let w1 = w0\<lparr>w_received := False, w_outcome := None, w_symbol := None, w_reason := None\<rparr> in
      case receive (w_queue w1) of
        (q, Inl e) \<Rightarrow> (w1\<lparr>w_queue := q\<rparr>, Inl e)
      | (q, Inr None) \<Rightarrow> (w1\<lparr>w_queue := q\<rparr>, Inr None)
      | (q, Inr (Some m)) \<Rightarrow>
          (let w2 = w1\<lparr>w_queue := q, w_received := True, w_symbol := Some (s_symbol (m_signal m))\<rparr> in
           case process cfg repo m w2 of
             (w3, Inl (RiskRejected code)) \<Rightarrow> receipt cfg repo m C_REJECTED ''risk_rejected'' w3
           | (w3, Inl e) \<Rightarrow> (w3, Inl e)
           | (w3, Inr None) \<Rightarrow> receipt cfg repo m C_SKIPPED ''not_persisted'' w3
           | (w3, Inr (Some x)) \<Rightarrow>
               (w3\<lparr>w_outcome := Some C_FILLED, w_reason := Some ''execution_committed''\<rparr>, Inr (Some x))))"

subsection \<open>In-memory queue and the draining loop\<close>

type_synonym memory_queue = "paper_signal list"

definition publish :: "paper_signal \<Rightarrow> memory_queue \<Rightarrow> memory_queue" where
  "publish m q = q @ [m]"

definition receive :: "(memory_queue, paper_signal option) st" where
  "receive q = (case q of [] \<Rightarrow> ([], Inr None) | m # rest \<Rightarrow> (rest, Inr (Some m)))"

text \<open>
  \<open>drain_once\<close> with the stop event unset: at most \<open>fuel\<close> iterations, \<open>None\<close> when it runs out.
  The result counts the consumed signals.
\<close>

fun drain_once ::
    "nat \<Rightarrow> wallet_config \<Rightarrow> 'c repository \<Rightarrow> ('q, paper_signal option) st \<Rightarrow> nat \<Rightarrow> ('q, 'c) wallet \<Rightarrow>
      (('q, 'c) wallet \<times> nat res) option" where
  "drain_once 0 cfg repo recv consumed w = None"
| "drain_once (Suc fuel) cfg repo recv consumed w =
     (case run_once cfg repo recv w of
        (w', Inl e) \<Rightarrow> Some (w', Inl e)
      | (w', Inr _) \<Rightarrow>
          if w_received w' then drain_once fuel cfg repo recv (Suc consumed) w'
          else Some (w', Inr consumed))"

subsection \<open>What a candidate is\<close>

lemma snapshot_elim:
  assumes "snapshot cash p fills = Inr s"
  obtains v e where "position_value p = Inr v" and "recompute cash p = Inr e" and "assert_identity cash v e = Inr ()"
    and "fills \<noteq> []" and "a_cash_balance s = cash" and "a_position_value s = v" and "a_total_equity s = e"
    and "a_occurred_at s = f_timestamp (last fills)"
  using assms by (auto simp: snapshot_def bindR_eq_Inr)

lemma candidate_elim:
  assumes "candidate_execution cfg m w br = (br', Inr (x, cash, p, risk))"
  obtains b fills1 b1 cash1 risk1 br1 fills b2 snap where "m_wallet_id m = wc_wallet_id cfg"
    and "validate_signal (wc_policy cfg) (w_kill w) m = Inr ()"
    and "make_book (case w_position w of None \<Rightarrow> [] | Some p \<Rightarrow> [p]) = Inr b"
    and "exit_leg cfg m ([], b, w_cash w, w_open_risk w) br = (br1, Inr (fills1, b1, cash1, risk1))"
    and "entry_leg cfg m (fills1, b1, cash1, risk1) br1 = (br', Inr (fills, b2, cash, risk))"
    and "any_position (wc_policy cfg) b2 = Inr p" and "snapshot cash p fills = Inr snap"
    and "make_wallet_execution x = Inr x"
    and "x = \<lparr>x_wallet_id = wc_wallet_id cfg, x_signal_id = m_signal_id m, x_symbol = s_symbol (m_signal m),
      x_fills = fills, x_position = p, x_accounting = snap\<rparr>"
proof -
  from assms obtain b legs1 br1 fills b2 snap where a: "m_wallet_id m = wc_wallet_id cfg"
    "validate_signal (wc_policy cfg) (w_kill w) m = Inr ()"
    "make_book (case w_position w of None \<Rightarrow> [] | Some p \<Rightarrow> [p]) = Inr b"
    "exit_leg cfg m ([], b, w_cash w, w_open_risk w) br = (br1, Inr legs1)"
    "entry_leg cfg m legs1 br1 = (br', Inr (fills, b2, cash, risk))"
    "any_position (wc_policy cfg) b2 = Inr p" "snapshot cash p fills = Inr snap"
    "make_wallet_execution \<lparr>x_wallet_id = wc_wallet_id cfg, x_signal_id = m_signal_id m, x_symbol = s_symbol (m_signal m),
      x_fills = fills, x_position = p, x_accounting = snap\<rparr> = Inr x"
    unfolding candidate_execution_def by (auto simp: bindS_Inr)
  obtain fills1 b1 cash1 risk1 where l: "legs1 = (fills1, b1, cash1, risk1)" by (cases legs1) auto
  have x: "x = \<lparr>x_wallet_id = wc_wallet_id cfg, x_signal_id = m_signal_id m, x_symbol = s_symbol (m_signal m),
      x_fills = fills, x_position = p, x_accounting = snap\<rparr>"
    using a(8) by (simp add: make_wallet_execution_def)
  show thesis
    by (rule that [OF a(1-3) a(4) [unfolded l] a(5) [unfolded l] a(6,7)]) (use a(8) x in simp_all)
qed

subsection \<open>Transactionality over any repository that keeps its contract\<close>

context repository_contract
begin

lemma process_committed:
  assumes "quiet (w_repo w)" and "process cfg repo m w = (w', Inr (Some x))"
  shows "x_wallet_id x = wc_wallet_id cfg \<and> x_signal_id x = m_signal_id m \<and>
    \<not> receipted (ledger (w_repo w)) (wc_wallet_id cfg) (m_signal_id m) \<and>
    ledger (w_repo w') = post_execution x (ledger (w_repo w)) \<and> quiet (w_repo w') \<and>
    w_cash w' = a_cash_balance (x_accounting x) \<and> w_position w' = x_position x \<and>
    w_kill w' = w_kill w \<and> \<not> w_kill w"
proof -
  from assms(2) obtain br cash p risk c where
    cand: "candidate_execution cfg m w (w_broker w) = (br, Inr (x, cash, p, risk))"
    and st: "op_store repo x (w_repo w) = (c, Inr True)"
    and w': "w' = w\<lparr>w_broker := br, w_repo := c, w_cash := cash, w_position := p, w_open_risk := risk\<rparr>"
    by (auto simp: process_def split: prod.splits sum.splits bool.splits)
  have ids: "x_wallet_id x = wc_wallet_id cfg \<and> x_signal_id x = m_signal_id m \<and> x_position x = p \<and>
      a_cash_balance (x_accounting x) = cash \<and> \<not> w_kill w"
    by (rule candidate_elim [OF cand]) (auto elim!: snapshot_elim simp: validate_signal_def)
  then show ?thesis
    using store_posted [OF assms(1) st] store_quiet [OF assms(1) st] by (simp add: w')
qed

lemma process_not_committed:
  assumes "quiet (w_repo w)" and "process cfg repo m w = (w', r)" and "\<nexists>x. r = Inr (Some x)"
  shows "ledger (w_repo w') = ledger (w_repo w) \<and> quiet (w_repo w') \<and> w_cash w' = w_cash w \<and>
    w_position w' = w_position w \<and> w_open_risk w' = w_open_risk w \<and> w_kill w' = w_kill w"
proof (cases "candidate_execution cfg m w (w_broker w)")
  case (Pair br res)
  show ?thesis
  proof (cases res)
    case (Inl e)
    then show ?thesis using assms Pair by (auto simp: process_def)
  next
    case (Inr y)
    obtain x cash p risk where y: "y = (x, cash, p, risk)" by (cases y) auto
    obtain c q where st: "op_store repo x (w_repo w) = (c, q)" by fastforce
    have q: "q \<noteq> Inr True" using assms(2,3) Pair Inr y st by (auto simp: process_def)
    have "w_cash w' = w_cash w \<and> w_position w' = w_position w \<and> w_open_risk w' = w_open_risk w \<and>
        w_kill w' = w_kill w \<and> w_repo w' = c"
      using assms(2) Pair Inr y st q by (auto simp: process_def split: sum.splits bool.splits)
    then show ?thesis using store_refused [OF assms(1) st q] store_quiet [OF assms(1) st] by simp
  qed
qed

lemma process_receipts_kept:
  assumes "quiet (w_repo w)" and "process cfg repo m w = (w', r)"
    and "d_consumption (ledger (w_repo w)) k = Some v"
  shows "d_consumption (ledger (w_repo w')) k = Some v"
proof (cases "\<exists>x. r = Inr (Some x)")
  case True
  then obtain x where "process cfg repo m w = (w', Inr (Some x))" using assms(2) by auto
  then show ?thesis
    using process_committed [OF assms(1), of cfg m w' x] assms(3)
    by (auto simp: post_execution_def Let_def receipted_def)
next
  case False
  then show ?thesis using process_not_committed [OF assms(1,2)] assms(3) by simp
qed

lemma receipt_spec:
  assumes "quiet (w_repo w)" and "receipt cfg repo m st reason w = (w', r)"
  shows "w_cash w' = w_cash w \<and> w_position w' = w_position w \<and> w_kill w' = w_kill w \<and> quiet (w_repo w') \<and>
    (\<forall>y. r = Inr y \<longrightarrow> y = None \<and> w_outcome w' = Some st \<and>
      receipted (ledger (w_repo w')) (wc_wallet_id cfg) (m_signal_id m)) \<and>
    (\<forall>e. r = Inl e \<longrightarrow> ledger (w_repo w') = ledger (w_repo w))"
proof -
  obtain c q where rc: "op_record_consumption repo (wc_wallet_id cfg) (m_signal_id m) st
      (c_close_time (m_execution_candle m)) (w_repo w) = (c, q)" by fastforce
  show ?thesis
  proof (cases q)
    case (Inl e)
    then show ?thesis
      using assms(2) rc record_error [OF assms(1), of _ _ _ _ c e] record_quiet [OF assms(1) rc]
      by (auto simp: receipt_def)
  next
    case (Inr b)
    have "receipted (ledger c) (wc_wallet_id cfg) (m_signal_id m)"
      using record_done [OF assms(1) rc [unfolded Inr]] by (auto simp: receipted_def split: if_splits)
    then show ?thesis
      using assms(2) rc Inr record_quiet [OF assms(1) rc] by (auto simp: receipt_def)
  qed
qed

end

subsection \<open>The legs in detail\<close>

lemma execute_exit_elim:
  assumes "execute_exit cfg m b p cash br = (br', Inr (f, b1, c1))"
  obtains p1 e remaining v where "fill_ok f" and "f_symbol f = p_symbol p" and "f_position_side f = p_side p"
    and "f_reduce_only f"
    and "to_decimal (float_of_decimal (p_quantity p)) quantize_amount = Inr (f_quantity f)"
    and "update_price p (f_price f) = Inr p1" and "recompute cash (Some p1) = Inr e"
    and "apply_fill (b(position_key p \<mapsto> p1)) f None None FUTURES 0 = Inr b1"
    and "book_position b1 (p_symbol p) = Inr remaining" and "position_value remaining = Inr v"
    and "quantize_amount (dsub (dsub e (f_fee f)) v) = Inr c1" and "0 \<le> c1"
proof -
  from assms obtain eq br1 request br2 p1 e remaining v where
    k: "configure_execution \<lparr>k_decision_candle = m_decision_candle m, k_execution_candle = m_execution_candle m,
        k_wallet_id = wc_wallet_id cfg, k_signal_id = m_signal_id m, k_equity = eq, k_available_margin = cash,
        k_leverage = p_leverage p, k_risk_fraction = None\<rparr> br = (br1, Inr ())"
    and rq: "make_order_request \<lparr>rq_symbol = p_symbol p, rq_side = (if p_side p = LONG then SELL else BUY),
        rq_order_type = MARKET, rq_quantity = float_of_decimal (p_quantity p), rq_price = None,
        rq_stop_price = None, rq_market_type = p_market_type p, rq_position_side = p_side p,
        rq_reduce_only = True, rq_close_position = False, rq_time_in_force = ''GTC''\<rparr> = Inr request"
    and sb: "submit (wc_costs cfg) request br1 = (br2, Inr f)"
    and r: "update_price p (f_price f) = Inr p1" "recompute cash (Some p1) = Inr e"
      "apply_fill (b(position_key p \<mapsto> p1)) f None None FUTURES 0 = Inr b1"
      "book_position b1 (p_symbol p) = Inr remaining" "position_value remaining = Inr v"
      "quantize_amount (dsub (dsub e (f_fee f)) v) = Inr c1" "0 \<le> c1"
    unfolding execute_exit_def by (auto simp: bindS_Inr)
  have rq': "request = \<lparr>rq_symbol = p_symbol p, rq_side = (if p_side p = LONG then SELL else BUY),
        rq_order_type = MARKET, rq_quantity = float_of_decimal (p_quantity p), rq_price = None,
        rq_stop_price = None, rq_market_type = p_market_type p, rq_position_side = p_side p,
        rq_reduce_only = True, rq_close_position = False, rq_time_in_force = ''GTC''\<rparr>"
    using rq by (simp add: make_order_request_def)
  define kk where "kk = \<lparr>k_decision_candle = m_decision_candle m, k_execution_candle = m_execution_candle m,
        k_wallet_id = wc_wallet_id cfg, k_signal_id = m_signal_id m, k_equity = eq, k_available_margin = cash,
        k_leverage = p_leverage p, k_risk_fraction = None\<rparr>"
  have sim: "simulate_order (wc_costs cfg) kk request = Inr f"
    using sb configure_execution_Inr(1) [OF k] by (auto simp: submit_Inr kk_def)
  have "k_risk_fraction kk = None" by (simp add: kk_def)
  then show thesis using that r simulate_order_fields [OF sim] by (simp add: rq')
qed

lemma execute_entry_elim:
  assumes "execute_entry cfg m b cash risks br = (br', Inr (f, b1, c1))"
  obtains stop side leverage liq p v qf where "s_stop_loss (m_signal m) = Some stop" and "m_side m = Some side"
    and "risk_size (pol_risk_per_trade (wc_policy cfg)) (float_of_decimal cash)
      (fabs (fsub (s_price (m_signal m)) stop)) = Inr qf \<or> \<not> is_q8 cash"
    and "fill_ok f" and "f_symbol f = s_symbol (m_signal m)" and "f_position_side f = side"
    and "\<not> f_reduce_only f" and "side \<noteq> BOTH" and "0 < leverage"
    and "entry_liquidation_price (wc_costs cfg) f leverage (s_market_type (m_signal m)) = Inr liq"
    and "apply_fill b f (Some leverage) (Some ISOLATED) (s_market_type (m_signal m)) liq = Inr b1"
    and "validate_simulated_entry (wc_policy cfg) f = Inr ()"
    and "book_position b1 (s_symbol (m_signal m)) = Inr (Some p)" and "position_value (Some p) = Inr v"
    and "quantize_amount (dsub (dsub cash v) (f_fee f)) = Inr c1" and "0 \<le> c1"
proof -
  obtain stop where stop: "s_stop_loss (m_signal m) = Some stop"
    using assms by (auto simp: execute_entry_def split: option.splits)
  obtain side where side: "m_side m = Some side"
    using assms by (auto simp: execute_entry_def bindS_Inr stop split: option.splits)
  define leverage where "leverage = (case s_leverage (m_signal m) of None \<Rightarrow> 1 | Some l \<Rightarrow> if l = 0 then 1 else l)"
  from assms obtain eq qf br1 request br2 liq p v where
    eq: "recompute cash None = Inr eq"
    and qf: "risk_size (pol_risk_per_trade (wc_policy cfg)) (float_of_decimal eq)
      (fabs (fsub (s_price (m_signal m)) stop)) = Inr qf"
    and k: "configure_execution \<lparr>k_decision_candle = m_decision_candle m, k_execution_candle = m_execution_candle m,
        k_wallet_id = wc_wallet_id cfg, k_signal_id = m_signal_id m, k_equity = eq, k_available_margin = cash,
        k_leverage = leverage, k_risk_fraction = Some (pol_risk_per_trade (wc_policy cfg))\<rparr> br = (br1, Inr ())"
    and rq: "make_order_request \<lparr>rq_symbol = s_symbol (m_signal m), rq_side = (if side = LONG then BUY else SELL),
        rq_order_type = MARKET, rq_quantity = qf, rq_price = Some (s_price (m_signal m)),
        rq_stop_price = Some stop, rq_market_type = s_market_type (m_signal m), rq_position_side = side,
        rq_reduce_only = False, rq_close_position = False, rq_time_in_force = ''GTC''\<rparr> = Inr request"
    and sb: "submit (wc_costs cfg) request br1 = (br2, Inr f)"
    and r: "validate_simulated_entry (wc_policy cfg) f = Inr ()"
      "entry_liquidation_price (wc_costs cfg) f leverage (s_market_type (m_signal m)) = Inr liq"
      "apply_fill b f (Some leverage) (Some ISOLATED) (s_market_type (m_signal m)) liq = Inr b1"
      "book_position b1 (s_symbol (m_signal m)) = Inr (Some p)" "position_value (Some p) = Inr v"
      "quantize_amount (dsub (dsub cash v) (f_fee f)) = Inr c1" "0 \<le> c1"
    unfolding execute_entry_def
    by (auto simp: bindS_Inr stop side leverage_def [symmetric] split: option.splits)
  have rq': "request = \<lparr>rq_symbol = s_symbol (m_signal m), rq_side = (if side = LONG then BUY else SELL),
        rq_order_type = MARKET, rq_quantity = qf, rq_price = Some (s_price (m_signal m)),
        rq_stop_price = Some stop, rq_market_type = s_market_type (m_signal m), rq_position_side = side,
        rq_reduce_only = False, rq_close_position = False, rq_time_in_force = ''GTC''\<rparr>"
    using rq by (simp add: make_order_request_def)
  obtain kk where kk: "simulate_order (wc_costs cfg) kk request = Inr f"
    using sb by (auto simp: submit_Inr)
  note s = simulate_order_fields [OF kk]
  have "is_q8 cash \<Longrightarrow> eq = cash"
    using eq by (auto simp: recompute_def position_value_def dadd_def is_q8_dctx)
  moreover have "side \<noteq> BOTH" using r(2) s(4) by (auto simp: entry_liquidation_price_def rq')
  ultimately show thesis
    by (intro that [OF stop side _ s(1) _ _ _ _ _ r(2,3,1,4-7), of qf])
      (use qf s configure_execution_Inr(4) [OF k] in \<open>auto simp: rq'\<close>)
qed

subsection \<open>The wallet invariant\<close>

text \<open>
  Committed cash is a stored amount that is not negative, and the position, if any, is a
  well-formed open one on an allowed symbol with a definite side.
\<close>

definition tradable :: "risk_policy \<Rightarrow> position \<Rightarrow> bool" where
  "tradable policy p \<longleftrightarrow> open_position (position_key p) p \<and> p_symbol p \<in> set (pol_allowed_symbols policy) \<and>
     p_side p \<noteq> BOTH"

definition wallet_ok :: "wallet_config \<Rightarrow> ('q, 'c) wallet \<Rightarrow> bool" where
  "wallet_ok cfg w \<longleftrightarrow> is_q8 (w_cash w) \<and> 0 \<le> w_cash w \<and>
     (\<forall>p. w_position w = Some p \<longrightarrow> tradable (wc_policy cfg) p)"

definition good_book :: "book \<Rightarrow> bool" where
  "good_book b \<longleftrightarrow> (\<forall>k p. b k = Some p \<longrightarrow> open_position k p)"

lemma good_bookD: "good_book b \<Longrightarrow> b k = Some p \<Longrightarrow> open_position k p"
  by (simp only: good_book_def)

lemma map_filter_set: "p \<in> set (List.map_filter f xs) \<Longrightarrow> \<exists>k \<in> set xs. f k = Some p"
  by (auto simp: List.map_filter_def)

lemma make_book_option:
  "make_book (case p of None \<Rightarrow> [] | Some q \<Rightarrow> [q]) = Inr (case p of None \<Rightarrow> Map.empty | Some q \<Rightarrow> [position_key q \<mapsto> q])"
  by (simp add: make_book_def split: option.splits)

lemma update_price_open:
  assumes "update_price p x = Inr p1" and "open_position k p"
  shows "open_position k p1" and "p_margin p1 = p_margin p" and "p_quantity p1 = p_quantity p"
    and "p_market_type p1 = p_market_type p" and "p_symbol p1 = p_symbol p" and "p_side p1 = p_side p"
proof -
  show e: "p_margin p1 = p_margin p" "p_quantity p1 = p_quantity p"
    "p_market_type p1 = p_market_type p" "p_symbol p1 = p_symbol p" "p_side p1 = p_side p"
    by (rule update_price_Inr [OF assms(1)], simp)+
  show "open_position k p1"
    using update_price_ok [OF assms(1)] assms(2) e by (simp add: open_position_def position_key_def)
qed

lemma good_book_apply:
  assumes "apply_fill b f lev mt mk liq = Inr b'" and "fill_ok f" and "good_book b"
    and "\<And>p. b (fill_key f) = Some p \<Longrightarrow> modest_margin p"
  shows "good_book b'"
  unfolding good_book_def
proof (intro allI impI)
  fix k p assume "b' k = Some p"
  moreover have "open_position (fill_key f) q" if "b' (fill_key f) = Some q" for q
    using apply_fill_held [OF assms(1,2)] good_bookD [OF assms(3)] assms(4) that by blast
  ultimately show "open_position k p"
    using apply_fill_frame [OF assms(1), of k] good_bookD [OF assms(3), of k p] by (cases "k = fill_key f") simp_all
qed

lemma fill_key_eq: "f_symbol f = p_symbol p \<Longrightarrow> f_position_side f = p_side p \<Longrightarrow> fill_key f = position_key p"
  by (simp add: fill_key_def position_key_def)

lemma execute_exit_good:
  assumes ex: "execute_exit cfg m b p cash br = (br', Inr (f, b1, c1))"
    and g: "good_book b" "b k = Some p" "modest_margin p"
  shows "good_book b1" and "is_q8 c1" and "0 \<le> c1"
proof (atomize(full), rule execute_exit_elim [OF ex])
  fix p1 e remaining v
  assume f: "fill_ok f" "f_symbol f = p_symbol p" "f_position_side f = p_side p"
    and u: "update_price p (f_price f) = Inr p1"
    and ap: "apply_fill (b(position_key p \<mapsto> p1)) f None None FUTURES 0 = Inr b1"
    and c: "quantize_amount (dsub (dsub e (f_fee f)) v) = Inr c1" "0 \<le> c1"
  have op: "open_position (position_key p) p" using good_bookD [OF g(1,2)] by (simp add: open_position_def)
  note u1 = update_price_open [OF u op]
  have "good_book (b(position_key p \<mapsto> p1))"
    unfolding good_book_def using good_bookD [OF g(1)] u1(1) by (simp only: fun_upd_apply option.inject split: if_splits) blast
  moreover have "fill_key f = position_key p" using f by (intro fill_key_eq) auto
  ultimately have "good_book b1"
    by (intro good_book_apply [OF ap f(1)]) (use u1(2) g(3) in \<open>auto simp: modest_margin_def\<close>)
  then show "good_book b1 \<and> is_q8 c1 \<and> 0 \<le> c1" using c quantize_is_q8 by blast
qed

text \<open>A full exit: below a million units the exit order carries exactly the held quantity.\<close>

lemma execute_exit_closes:
  assumes ex: "execute_exit cfg m b p cash br = (br', Inr (f, b1, c1))"
    and op: "open_position (position_key p) p" and md: "modest_margin p" and small: "p_quantity p \<le> 10 ^ 6"
  shows "b1 = b(position_key p := None) \<and> f_quantity f = p_quantity p \<and> f_reduce_only f \<and>
    fill_key f = position_key p \<and> (\<exists>p1. update_price p (f_price f) = Inr p1)"
proof (rule execute_exit_elim [OF ex])
  fix p1 e remaining v
  assume f: "fill_ok f" "f_symbol f = p_symbol p" "f_position_side f = p_side p" "f_reduce_only f"
    and q: "to_decimal (float_of_decimal (p_quantity p)) quantize_amount = Inr (f_quantity f)"
    and u: "update_price p (f_price f) = Inr p1"
    and ap: "apply_fill (b(position_key p \<mapsto> p1)) f None None FUTURES 0 = Inr b1"
  have "is_q8 (p_quantity p)" "0 < p_quantity p" using op by (auto simp: open_position_def position_ok_def)
  then have fq: "f_quantity f = p_quantity p" using q float_round_trip small by fastforce
  have key: "fill_key f = position_key p" using f(2,3) by (rule fill_key_eq)
  note u1 = update_price_open [OF u op]
  obtain released where "reduce (b(position_key p \<mapsto> p1)) f = Inr (b1, released)"
    using ap f(4) key by (auto elim!: apply_fill_cases)
  then have "b1 = (b(position_key p \<mapsto> p1))(position_key p := None)"
    using reduce_good [OF _ f(1), of "b(position_key p \<mapsto> p1)" b1 released] key u1 md fq
    by (auto simp: modest_margin_def)
  then show ?thesis using fq f(4) key u by auto
qed

lemma execute_entry_good:
  assumes en: "execute_entry cfg m b cash risks br = (br', Inr (f, b1, c1))"
    and g: "good_book b" "book_position b (s_symbol (m_signal m)) = Inr None"
  shows "good_book b1" and "is_q8 c1" and "0 \<le> c1"
proof (atomize(full), rule execute_entry_elim [OF en])
  fix stop side leverage liq p v qf
  assume f: "fill_ok f" "f_symbol f = s_symbol (m_signal m)" "f_position_side f = side" "side \<noteq> BOTH"
    and ap: "apply_fill b f (Some leverage) (Some ISOLATED) (s_market_type (m_signal m)) liq = Inr b1"
    and c: "quantize_amount (dsub (dsub cash v) (f_fee f)) = Inr c1" "0 \<le> c1"
  have "b (fill_key f) = None"
    using g(2) f(2-4) by (cases side) (auto simp: book_position_def book_get_def fill_key_def split: option.splits)
  then have "good_book b1" by (intro good_book_apply [OF ap f(1) g(1)]) simp
  then show "good_book b1 \<and> is_q8 c1 \<and> 0 \<le> c1" using c quantize_is_q8 by blast
qed

lemma any_position_Some:
  assumes "any_position policy b = Inr (Some p)"
  obtains name side where "name \<in> set (pol_allowed_symbols policy)" and "side \<in> {LONG, SHORT}"
    and "b (name, side) = Some p"
proof -
  let ?ps = "List.map_filter (\<lambda>(name, side). book_get b name side) (List.product (pol_allowed_symbols policy) [LONG, SHORT])"
  have "p \<in> set ?ps" using assms by (auto simp: any_position_def Let_def split: list.splits)
  from map_filter_set [OF this] obtain k where k: "k \<in> set (List.product (pol_allowed_symbols policy) [LONG, SHORT])"
    and g: "(\<lambda>(name, side). book_get b name side) k = Some p"
    by (rule bexE)
  have "b k = Some p" using g by (simp add: book_get_def split: prod.splits)
  moreover have "fst k \<in> set (pol_allowed_symbols policy)" "snd k \<in> {LONG, SHORT}" using k by auto
  ultimately show thesis using that [of "fst k" "snd k"] by simp
qed

text \<open>The legs keep a good book and leave cash a stored, non-negative amount.\<close>

lemma exit_leg_good:
  assumes "exit_leg cfg m (fills, b, cash, risk) br = (br', Inr (fills', b', cash', risk'))"
    and "good_book b" and "\<And>k p. b k = Some p \<Longrightarrow> modest_margin p" and "is_q8 cash" and "0 \<le> cash"
  shows "good_book b' \<and> is_q8 cash' \<and> 0 \<le> cash'"
proof (cases "m_intent m \<in> {Exit, Reverse}")
  case True
  from assms(1) True obtain p f where bp: "book_position b (s_symbol (m_signal m)) = Inr (Some p)"
    and ex: "execute_exit cfg m b p cash br = (br', Inr (f, b', cash'))"
    by (auto simp: exit_leg_def bindS_Inr split: option.splits if_splits prod.splits)
  obtain k where "b k = Some p"
    using bp by (auto simp: book_position_def book_get_def split: option.splits)
  then show ?thesis using execute_exit_good [OF ex assms(2)] assms(3) by blast
next
  case False
  then show ?thesis using assms by (auto simp: exit_leg_def)
qed

lemma entry_leg_good:
  assumes "entry_leg cfg m (fills, b, cash, risk) br = (br', Inr (fills', b', cash', risk'))"
    and "good_book b" and "is_q8 cash" and "0 \<le> cash"
  shows "good_book b' \<and> is_q8 cash' \<and> 0 \<le> cash'"
proof (cases "m_intent m \<in> {Enter, Reverse}")
  case True
  from assms(1) True obtain f where bp: "book_position b (s_symbol (m_signal m)) = Inr None"
    and ex: "execute_entry cfg m b cash (case risk of None \<Rightarrow> [] | Some r \<Rightarrow> [r]) br = (br', Inr (f, b', cash'))"
    by (auto simp: entry_leg_def bindS_Inr split: option.splits if_splits prod.splits)
  show ?thesis using execute_entry_good [OF ex assms(2) bp] by blast
next
  case False
  then show ?thesis using assms by (auto simp: entry_leg_def)
qed

lemma candidate_good:
  assumes c: "candidate_execution cfg m w br = (br', Inr (x, cash, p, risk))" and ok: "wallet_ok cfg w"
    and md: "\<And>q. w_position w = Some q \<Longrightarrow> modest_margin q"
  shows "is_q8 cash \<and> 0 \<le> cash \<and> (\<forall>q. p = Some q \<longrightarrow> tradable (wc_policy cfg) q)"
proof (rule candidate_elim [OF c])
  fix b fills1 b1 cash1 risk1 br1 fills b2 snap
  assume b: "make_book (case w_position w of None \<Rightarrow> [] | Some p \<Rightarrow> [p]) = Inr b"
    and ex: "exit_leg cfg m ([], b, w_cash w, w_open_risk w) br = (br1, Inr (fills1, b1, cash1, risk1))"
    and en: "entry_leg cfg m (fills1, b1, cash1, risk1) br1 = (br', Inr (fills, b2, cash, risk))"
    and ap: "any_position (wc_policy cfg) b2 = Inr p"
  have b': "b = (case w_position w of None \<Rightarrow> Map.empty | Some q \<Rightarrow> [position_key q \<mapsto> q])"
    using b by (simp add: make_book_option)
  have gb: "good_book b" and gm: "\<And>k q. b k = Some q \<Longrightarrow> modest_margin q"
    using ok md by (auto simp: b' good_book_def wallet_ok_def tradable_def split: option.splits if_splits)
  have 1: "good_book b1 \<and> is_q8 cash1 \<and> 0 \<le> cash1"
    using exit_leg_good [OF ex gb gm] ok by (auto simp: wallet_ok_def)
  then have 2: "good_book b2 \<and> is_q8 cash \<and> 0 \<le> cash" using entry_leg_good [OF en] by blast
  have "tradable (wc_policy cfg) q" if "p = Some q" for q
    by (rule any_position_Some [OF ap [unfolded that]])
      (use good_bookD [of b2] 2 in \<open>auto simp: tradable_def open_position_def position_key_def\<close>)
  then show ?thesis using 2 by blast
qed

lemma process_Some_elim:
  assumes "process cfg repo m w = (w', Inr (Some x))"
  obtains br cash p risk c where "candidate_execution cfg m w (w_broker w) = (br, Inr (x, cash, p, risk))"
    and "op_store repo x (w_repo w) = (c, Inr True)"
    and "w' = w\<lparr>w_broker := br, w_repo := c, w_cash := cash, w_position := p, w_open_risk := risk\<rparr>"
  using assms by (auto simp: process_def split: prod.splits sum.splits bool.splits)

lemma process_other:
  assumes "process cfg repo m w = (w', r)" and "\<nexists>x. r = Inr (Some x)"
  shows "w_cash w' = w_cash w \<and> w_position w' = w_position w \<and> w_open_risk w' = w_open_risk w \<and>
    w_kill w' = w_kill w \<and> w_queue w' = w_queue w"
  using assms unfolding process_def by (auto split: prod.splits sum.splits bool.splits)

lemma process_kill_kept: "process cfg repo m w = (w', r) \<Longrightarrow> w_kill w' = w_kill w \<and> w_queue w' = w_queue w \<and>
    w_received w' = w_received w"
  unfolding process_def by (auto split: prod.splits sum.splits bool.splits)

lemma process_wallet_ok:
  assumes "process cfg repo m w = (w', r)" and "wallet_ok cfg w"
    and "\<And>q. w_position w = Some q \<Longrightarrow> modest_margin q"
  shows "wallet_ok cfg w'"
proof (cases "\<exists>x. r = Inr (Some x)")
  case True
  then obtain x where x: "process cfg repo m w = (w', Inr (Some x))" using assms(1) by auto
  obtain br cash p risk c where c: "candidate_execution cfg m w (w_broker w) = (br, Inr (x, cash, p, risk))"
    and w': "w' = w\<lparr>w_broker := br, w_repo := c, w_cash := cash, w_position := p, w_open_risk := risk\<rparr>"
    using x by (rule process_Some_elim) (rule that)
  show ?thesis using candidate_good [OF c assms(2,3)] by (simp add: wallet_ok_def w')
next
  case False
  then show ?thesis using process_other [OF assms(1)] assms(2) by (simp add: wallet_ok_def)
qed

lemma process_killed:
  "w_kill w \<Longrightarrow> m_wallet_id m = wc_wallet_id cfg \<Longrightarrow>
    process cfg repo m w = (w\<lparr>w_broker := w_broker w\<rparr>, Inl (RiskRejected ''kill_switch''))"
  by (simp add: process_def candidate_execution_def validate_signal_def)

lemma candidate_exit:
  assumes c: "candidate_execution cfg m w br = (br', Inr (x, cash, p, risk))" and ok: "wallet_ok cfg w"
    and ex: "m_intent m = Exit"
    and small: "\<And>q. w_position w = Some q \<Longrightarrow> modest_margin q \<and> p_quantity q \<le> 10 ^ 6"
  shows "p = None \<and> risk = None \<and> (\<exists>q f. w_position w = Some q \<and> x_fills x = [f] \<and> f_reduce_only f \<and>
    f_quantity f = p_quantity q \<and> fill_key f = position_key q)"
proof (rule candidate_elim [OF c])
  fix b fills1 b1 cash1 risk1 br1 fills b2 snap
  assume b: "make_book (case w_position w of None \<Rightarrow> [] | Some p \<Rightarrow> [p]) = Inr b"
    and el: "exit_leg cfg m ([], b, w_cash w, w_open_risk w) br = (br1, Inr (fills1, b1, cash1, risk1))"
    and en: "entry_leg cfg m (fills1, b1, cash1, risk1) br1 = (br', Inr (fills, b2, cash, risk))"
    and ap: "any_position (wc_policy cfg) b2 = Inr p"
    and x: "x = \<lparr>x_wallet_id = wc_wallet_id cfg, x_signal_id = m_signal_id m, x_symbol = s_symbol (m_signal m),
      x_fills = fills, x_position = p, x_accounting = snap\<rparr>"
  have b': "b = (case w_position w of None \<Rightarrow> Map.empty | Some q \<Rightarrow> [position_key q \<mapsto> q])"
    using b by (simp add: make_book_option)
  obtain q f where bp: "book_position b (s_symbol (m_signal m)) = Inr (Some q)"
    and exq: "execute_exit cfg m b q (w_cash w) br = (br1, Inr (f, b1, cash1))" and l: "fills1 = [f]" "risk1 = None"
    using el ex by (auto simp: exit_leg_def bindS_Inr split: option.splits if_splits prod.splits)
  obtain k where "b k = Some q"
    using bp by (auto simp: book_position_def book_get_def split: option.splits)
  then have wq: "w_position w = Some q" "b = [position_key q \<mapsto> q]"
    by (auto simp: b' split: option.splits if_splits)
  have op: "open_position (position_key q) q" using ok wq(1) by (auto simp: wallet_ok_def tradable_def)
  note cl = execute_exit_closes [OF exq op]
  have b1: "b1 = Map.empty" "f_reduce_only f" "f_quantity f = p_quantity q" "fill_key f = position_key q"
    using cl small [OF wq(1)] wq(2) by auto
  have e: "fills = [f]" "b2 = b1" "risk = None" using en ex l by (auto simp: entry_leg_def)
  have "p = None"
  proof (rule ccontr)
    assume "p \<noteq> None"
    then obtain y where "any_position (wc_policy cfg) b2 = Inr (Some y)" using ap by (cases p) auto
    then show False by (rule any_position_Some) (simp add: e(2) b1(1))
  qed
  then show ?thesis using e b1 wq(1) by (simp add: x)
qed

text \<open>The committed snapshot: exact identity, and an entry costs exactly its fee.\<close>

lemma snapshot_identity:
  assumes "snapshot cash p fills = Inr s" and "is_q8 cash"
  shows "a_total_equity s = a_cash_balance s + a_position_value s"
proof (rule snapshot_elim [OF assms(1)])
  fix v e
  assume v: "position_value p = Inr v" and e: "recompute cash p = Inr e" and i: "assert_identity cash v e = Inr ()"
    and s: "a_cash_balance s = cash" "a_position_value s = v" "a_total_equity s = e"
  have "is_q8 v" using v by (auto simp: position_value_def dest: quantize_is_q8 split: option.splits if_splits)
  moreover have "is_q8 e" using e by (auto simp: recompute_def bindR_eq_Inr dest: quantize_is_q8)
  ultimately show ?thesis using i assms(2) s by (simp add: assert_identity_iff)
qed

lemma position_value_new_nonneg:
  assumes "open_position k p" and "p_unrealized_pnl p = 0" and "0 \<le> p_current_price p" and "position_value (Some p) = Inr v"
  shows "0 \<le> v" and "is_q8 v"
proof -
  have q: "0 \<le> p_margin p" "0 \<le> p_quantity p" using assms(1) by (auto simp: open_position_def position_ok_def)
  show "0 \<le> v"
  proof (cases "p_market_type p = FUTURES")
    case True
    have "quantize_amount (dadd (p_margin p) (p_unrealized_pnl p)) = Inr v"
      using assms(4) True by (simp add: position_value_def)
    then show ?thesis by (rule quantize_nonneg) (simp add: assms(2) q dadd_nonneg)
  next
    case False
    have "quantize_amount (dmul (p_quantity p) (p_current_price p)) = Inr v"
      using assms(4) False by (simp add: position_value_def)
    then show ?thesis by (rule quantize_nonneg) (rule dmul_nonneg [OF q(2) assms(3)])
  qed
  show "is_q8 v" using assms(4) by (auto simp: position_value_def dest: quantize_is_q8 split: if_splits)
qed

lemma entry_cash_exact:
  assumes "quantize_amount (dsub (dsub cash v) fee) = Inr c" and "is_q8 cash" and "0 \<le> cash" and "is_q8 v" and "0 \<le> v"
    and "is_q8 fee" and "0 \<le> fee"
  shows "c = cash - v - fee"
proof -
  have d: "dsub cash v = cash - v" "is_q8 (cash - v)"
    using assms(2-5) by (intro dsub_q8; auto simp: is_q8_def)+
  show ?thesis using assms(1) quantize_sub [OF d(2) assms(6)] by (simp add: d(1))
qed

lemma candidate_enter_flat:
  assumes c: "candidate_execution cfg m w br = (br', Inr (x, cash, p, risk))" and ok: "wallet_ok cfg w"
    and en: "m_intent m = Enter" and flat: "w_position w = None"
  shows "\<exists>q f. p = Some q \<and> x_fills x = [f] \<and> p_quantity q = f_quantity f \<and> p_entry_price q = f_price f \<and>
    p_symbol q = s_symbol (m_signal m) \<and> m_side m = Some (p_side q) \<and>
    a_total_equity (x_accounting x) = w_cash w - f_fee f \<and>
    cash = w_cash w - a_position_value (x_accounting x) - f_fee f"
proof (rule candidate_elim [OF c])
  fix b fills1 b1 cash1 risk1 br1 fills b2 snap
  assume v: "validate_signal (wc_policy cfg) (w_kill w) m = Inr ()"
    and b: "make_book (case w_position w of None \<Rightarrow> [] | Some p \<Rightarrow> [p]) = Inr b"
    and el: "exit_leg cfg m ([], b, w_cash w, w_open_risk w) br = (br1, Inr (fills1, b1, cash1, risk1))"
    and enl: "entry_leg cfg m (fills1, b1, cash1, risk1) br1 = (br', Inr (fills, b2, cash, risk))"
    and ap: "any_position (wc_policy cfg) b2 = Inr p" and sn: "snapshot cash p fills = Inr snap"
    and x: "x = \<lparr>x_wallet_id = wc_wallet_id cfg, x_signal_id = m_signal_id m, x_symbol = s_symbol (m_signal m),
      x_fills = fills, x_position = p, x_accounting = snap\<rparr>"
  have e: "b1 = Map.empty" "cash1 = w_cash w" "fills1 = []"
    using el en b by (auto simp: exit_leg_def make_book_def flat)
  obtain f where ex: "execute_entry cfg m Map.empty (w_cash w) (case risk1 of None \<Rightarrow> [] | Some r \<Rightarrow> [r]) br1
      = (br', Inr (f, b2, cash))" and fl: "fills = [f]"
    using enl en e by (auto simp: entry_leg_def bindS_Inr split: option.splits if_splits prod.splits)
  show ?thesis
  proof (rule execute_entry_elim [OF ex])
    fix stop side leverage liq q vv qf
    assume side: "m_side m = Some side" "side \<noteq> BOTH"
      and f: "fill_ok f" "f_symbol f = s_symbol (m_signal m)" "f_position_side f = side" "\<not> f_reduce_only f"
      and af: "apply_fill Map.empty f (Some leverage) (Some ISOLATED) (s_market_type (m_signal m)) liq = Inr b2"
      and bp: "book_position b2 (s_symbol (m_signal m)) = Inr (Some q)" and pv: "position_value (Some q) = Inr vv"
      and cc: "quantize_amount (dsub (dsub (w_cash w) vv) (f_fee f)) = Inr cash"
    obtain r n margin where b2: "b2 = [fill_key f \<mapsto> r]" and mp: "make_position \<lparr>p_wallet_id = None, p_symbol = f_symbol f, p_quantity = f_quantity f,
          p_average_price = f_price f, p_total_cost = n, p_current_price = f_price f,
          p_unrealized_pnl = 0, p_side = f_position_side f, p_market_type = s_market_type (m_signal m),
          p_leverage = leverage, p_margin_type = ISOLATED, p_margin = margin, p_entry_price = f_price f,
          p_mark_price = f_price f, p_liquidation_price = grid Q_AMOUNT liq, p_funding_fee_total = 0\<rparr> = Inr r"
      using af f(4) by (auto elim!: apply_fill_cases simp: weighted_average_def)
    note mf = make_position_fields [OF mp, simplified]
    have r: "p_quantity r = f_quantity f" "p_current_price r = f_price f" "p_unrealized_pnl r = 0" "p_entry_price r = f_price f"
      using mf f(1) by (simp_all add: fill_ok_def)
    have key: "fill_key f = (s_symbol (m_signal m), side)" using f by (simp add: fill_key_def)
    have q: "q = r" using bp side(2)
      by (cases side) (auto simp: book_position_def book_get_def b2 key split: option.splits)
    have op: "open_position (fill_key f) r"
      using mf r f by (auto simp: open_position_def fill_ok_def position_key_def fill_key_def)
    have vv: "0 \<le> vv" "is_q8 vv"
      using position_value_new_nonneg [OF op r(3) _ pv [unfolded q]] r(2) f(1) by (auto simp: fill_ok_def)
    have cash: "cash = w_cash w - vv - f_fee f" "is_q8 cash"
      using entry_cash_exact [OF cc _ _ vv(2,1)] ok f(1) quantize_is_q8 [OF cc] by (auto simp: wallet_ok_def fill_ok_def)
    have "p = Some r"
    proof -
      have mem: "r \<in> set (List.map_filter (\<lambda>(name, side). book_get b2 name side)
          (List.product (pol_allowed_symbols (wc_policy cfg)) [LONG, SHORT]))"
        using v side(2)
        by (cases side) (force simp: List.map_filter_def book_get_def b2 key validate_signal_def)+
      then obtain y where y: "p = Some y" using ap by (auto simp: any_position_def Let_def split: list.splits)
      have "y = r" by (rule any_position_Some [OF ap [unfolded y]]) (auto simp: b2 split: if_splits)
      then show ?thesis using y by simp
    qed
    moreover have "a_position_value snap = vv" "a_cash_balance snap = cash"
      using sn pv by (auto elim!: snapshot_elim simp: q calculation)
    ultimately show ?thesis
      using snapshot_identity [OF sn cash(2)] cash(1) mf(2,3) f(2,3) side r by (simp add: x fl)
  qed
qed

subsection \<open>One poll\<close>

lemma receipt_fields:
  "receipt cfg repo m st reason w = (w', r) \<Longrightarrow> w_queue w' = w_queue w \<and> w_received w' = w_received w \<and>
    w_cash w' = w_cash w \<and> w_position w' = w_position w \<and> w_kill w' = w_kill w \<and> w_open_risk w' = w_open_risk w"
  by (auto simp: receipt_def split: prod.splits sum.splits)

text \<open>The three ways a received signal ends: committed, receipted without a fill, or raised.\<close>

lemma run_once_cases:
  assumes "run_once cfg repo recv w = (w', r)"
  obtains (no_message) q r' where "recv (w_queue w) = (q, r')" and "w_received w' = False" and "w_queue w' = q"
      and "w_cash w' = w_cash w" and "w_position w' = w_position w" and "w_repo w' = w_repo w" and "w_kill w' = w_kill w"
      and "(\<exists>e. r = Inl e \<and> r' = Inl e) \<or> r = Inr None \<and> r' = Inr None"
  | (committed) q m w2 w3 x where "recv (w_queue w) = (q, Inr (Some m))" and "process cfg repo m w2 = (w3, Inr (Some x))"
      and "r = Inr (Some x)" and "w' = w3\<lparr>w_outcome := Some C_FILLED, w_reason := Some ''execution_committed''\<rparr>"
      and "w_cash w2 = w_cash w" and "w_position w2 = w_position w" and "w_repo w2 = w_repo w" and "w_kill w2 = w_kill w"
      and "w_received w2" and "w_queue w2 = q"
  | (receipted) q m w2 w3 st reason p where "recv (w_queue w) = (q, Inr (Some m))" and "process cfg repo m w2 = (w3, p)"
      and "(\<exists>code. p = Inl (RiskRejected code) \<and> st = C_REJECTED) \<or> p = Inr None \<and> st = C_SKIPPED"
      and "receipt cfg repo m st reason w3 = (w', r)"
      and "w_cash w2 = w_cash w" and "w_position w2 = w_position w" and "w_repo w2 = w_repo w" and "w_kill w2 = w_kill w"
      and "w_received w2" and "w_queue w2 = q"
  | (raised) q m w2 e where "recv (w_queue w) = (q, Inr (Some m))" and "process cfg repo m w2 = (w', Inl e)" and "r = Inl e"
      and "\<And>code. e \<noteq> RiskRejected code"
      and "w_cash w2 = w_cash w" and "w_position w2 = w_position w" and "w_repo w2 = w_repo w" and "w_kill w2 = w_kill w"
      and "w_received w2" and "w_queue w2 = q"
proof -
  define w1 where "w1 = w\<lparr>w_received := False, w_outcome := None, w_symbol := None, w_reason := None\<rparr>"
  obtain q rq where rq: "recv (w_queue w) = (q, rq)" by fastforce
  show thesis
  proof (cases "\<exists>m. rq = Inr (Some m)")
    case False
    have "w' = w1\<lparr>w_queue := q\<rparr> \<and> ((\<exists>e. r = Inl e \<and> rq = Inl e) \<or> r = Inr None \<and> rq = Inr None)"
      using assms rq False by (cases rq) (auto simp: run_once_def Let_def w1_def split: option.splits)
    then show thesis using no_message rq by (auto simp: w1_def)
  next
    case True
    then obtain m where m: "rq = Inr (Some m)" by blast
    define w2 where "w2 = w1\<lparr>w_queue := q, w_received := True, w_symbol := Some (s_symbol (m_signal m))\<rparr>"
    obtain w3 p where p: "process cfg repo m w2 = (w3, p)" by fastforce
    have same: "w_cash w2 = w_cash w" "w_position w2 = w_position w" "w_repo w2 = w_repo w" "w_kill w2 = w_kill w"
      "w_received w2" "w_queue w2 = q" by (simp_all add: w1_def w2_def)
    have run: "(w', r) = (case p of
          Inl (RiskRejected code) \<Rightarrow> receipt cfg repo m C_REJECTED ''risk_rejected'' w3
        | Inl e \<Rightarrow> (w3, Inl e)
        | Inr None \<Rightarrow> receipt cfg repo m C_SKIPPED ''not_persisted'' w3
        | Inr (Some x) \<Rightarrow> (w3\<lparr>w_outcome := Some C_FILLED, w_reason := Some ''execution_committed''\<rparr>, Inr (Some x)))"
      using assms rq m p
      by (simp add: run_once_def w1_def [symmetric] w2_def [symmetric] Let_def split: sum.splits option.splits py_error.splits)
        (auto simp: w1_def w2_def)
    show thesis
    proof (cases p)
      case (Inl e)
      show ?thesis
      proof (cases "\<exists>code. e = RiskRejected code")
        case True
        then show ?thesis using receipted [of q m w2 w3 p C_REJECTED "''risk_rejected''"] rq m p same run Inl by auto
      next
        case False
        then have "(w', r) = (w3, Inl e)" using run Inl by (cases e) auto
        then show ?thesis using raised [of q m w2 e] rq m p same Inl False by auto
      qed
    next
      case (Inr y)
      then show ?thesis
        using receipted [of q m w2 w3 p C_SKIPPED "''not_persisted''"] committed [of q m w2 w3] rq m p same run
        by (cases y) auto
    qed
  qed
qed

context repository_contract
begin

lemma run_once_receipted:
  assumes q: "quiet (w_repo w)" and r: "run_once cfg repo recv w = (w', Inr y)" and rc: "w_received w'"
  shows "\<exists>q m. recv (w_queue w) = (q, Inr (Some m)) \<and>
    receipted (ledger (w_repo w')) (wc_wallet_id cfg) (m_signal_id m) \<and> w_outcome w' \<noteq> None"
  using r
proof (cases rule: run_once_cases)
  case (no_message q r')
  then show ?thesis using rc by simp
next
  case (committed q m w2 w3 x)
  have "quiet (w_repo w2)" using assms(1) committed(7) by simp
  from process_committed [OF this committed(2)] have "receipted (ledger (w_repo w3)) (wc_wallet_id cfg) (m_signal_id m)"
    by (auto simp: receipted_def post_execution_def Let_def)
  then show ?thesis using committed by auto
next
  case (receipted q m w2 w3 st reason p)
  have "quiet (w_repo w2)" using assms(1) receipted(7) by simp
  then have "quiet (w_repo w3)" using process_not_committed [OF _ receipted(2)] receipted(3) by auto
  from receipt_spec [OF this receipted(4)] show ?thesis using receipted(1) by auto
qed simp

lemma run_once_raised:
  assumes q: "quiet (w_repo w)" and r: "run_once cfg repo recv w = (w', Inl e)"
  shows "ledger (w_repo w') = ledger (w_repo w) \<and> w_cash w' = w_cash w \<and> w_position w' = w_position w"
  using r
proof (cases rule: run_once_cases)
  case (no_message q r')
  then show ?thesis by simp
next
  case (receipted q m w2 w3 st reason p)
  have q2: "quiet (w_repo w2)" using assms(1) receipted(7) by simp
  then have "quiet (w_repo w3) \<and> ledger (w_repo w3) = ledger (w_repo w2) \<and> w_cash w3 = w_cash w2 \<and> w_position w3 = w_position w2"
    using process_not_committed [OF q2 receipted(2)] receipted(3) by auto
  then show ?thesis using receipt_spec [OF _ receipted(4)] receipted(5-7) by simp
next
  case (raised q m w2 e')
  have "quiet (w_repo w2)" using assms(1) raised(7) by simp
  from process_not_committed [OF this raised(2)] show ?thesis using raised(5-7) by simp
qed simp

lemma run_once_quiet:
  assumes q: "quiet (w_repo w)" and r: "run_once cfg repo recv w = (w', r')"
  shows "quiet (w_repo w')"
  using r
proof (cases rule: run_once_cases)
  case (no_message q r')
  then show ?thesis using q by simp
next
  case (committed q m w2 w3 x)
  have "quiet (w_repo w2)" using assms(1) committed(7) by simp
  from process_committed [OF this committed(2)] show ?thesis using committed(4) by simp
next
  case (receipted q m w2 w3 st reason p)
  have "quiet (w_repo w2)" using assms(1) receipted(7) by simp
  then have "quiet (w_repo w3)" using process_not_committed [OF _ receipted(2)] receipted(3) by auto
  then show ?thesis using receipt_spec [OF _ receipted(4)] by simp
next
  case (raised q m w2 e')
  have "quiet (w_repo w2)" using assms(1) raised(7) by simp
  from process_not_committed [OF this raised(2)] show ?thesis by simp
qed

text \<open>With the kill switch engaged a poll moves no money and posts nothing but a receipt.\<close>

lemma run_once_killed:
  assumes q: "quiet (w_repo w)" and r: "run_once cfg repo recv w = (w', r')" and k: "w_kill w"
  shows "w_cash w' = w_cash w \<and> w_position w' = w_position w \<and> w_kill w' \<and>
    d_fills (ledger (w_repo w')) = d_fills (ledger (w_repo w)) \<and>
    d_positions (ledger (w_repo w')) = d_positions (ledger (w_repo w)) \<and>
    d_accounting (ledger (w_repo w')) = d_accounting (ledger (w_repo w)) \<and>
    d_accounts (ledger (w_repo w')) = d_accounts (ledger (w_repo w))"
  using r
proof (cases rule: run_once_cases)
  case (no_message q r')
  then show ?thesis using k by simp
next
  case (committed q m w2 w3 x)
  have "quiet (w_repo w2)" using assms(1) committed(7) by simp
  from process_committed [OF this committed(2)] show ?thesis using committed(8) k by simp
next
  case (receipted q m w2 w3 st reason p)
  have q2: "quiet (w_repo w2)" using assms(1) receipted(7) by simp
  have n: "ledger (w_repo w3) = ledger (w_repo w2) \<and> quiet (w_repo w3) \<and> w_cash w3 = w_cash w2 \<and>
      w_position w3 = w_position w2 \<and> w_kill w3 = w_kill w2"
    using process_not_committed [OF q2 receipted(2)] receipted(3) by auto
  obtain c rr where rc: "op_record_consumption repo (wc_wallet_id cfg) (m_signal_id m) st
      (c_close_time (m_execution_candle m)) (w_repo w3) = (c, rr)" by fastforce
  have "d_fills (ledger c) = d_fills (ledger (w_repo w3)) \<and> d_positions (ledger c) = d_positions (ledger (w_repo w3)) \<and>
      d_accounting (ledger c) = d_accounting (ledger (w_repo w3)) \<and> d_accounts (ledger c) = d_accounts (ledger (w_repo w3))"
    using record_done [of "w_repo w3" _ _ _ _ c] record_error [of "w_repo w3" _ _ _ _ c] rc n
    by (cases rr) (fastforce split: if_splits)+
  moreover have "w_repo w' = c" using receipted(4) rc by (auto simp: receipt_def split: sum.splits)
  ultimately show ?thesis using receipt_fields [OF receipted(4)] n receipted(5-8) k by simp
next
  case (raised q m w2 e')
  have "quiet (w_repo w2)" using assms(1) raised(7) by simp
  from process_not_committed [OF this raised(2)] show ?thesis using raised(5-8) k by simp
qed

end

lemma run_once_queue: "run_once cfg repo recv w = (w', r) \<Longrightarrow> recv (w_queue w) = (q, rq) \<Longrightarrow> w_queue w' = q"
  by (erule run_once_cases) (auto dest!: process_kill_kept receipt_fields)

lemma run_once_received:
  "run_once cfg repo recv w = (w', r) \<Longrightarrow> recv (w_queue w) = (q, rq) \<Longrightarrow>
    w_received w' \<longleftrightarrow> (\<exists>m. rq = Inr (Some m))"
  by (erule run_once_cases) (auto dest!: process_kill_kept receipt_fields)

text \<open>Draining the in-memory queue ends: one unit of fuel per signal and one to see it empty.\<close>

lemma drain_once_terminates:
  "length (w_queue w) < fuel \<Longrightarrow> \<exists>w' r. drain_once fuel cfg repo receive n w = Some (w', r)"
proof (induction fuel arbitrary: n w)
  case (Suc fuel)
  obtain w' r where run: "run_once cfg repo receive w = (w', r)" by fastforce
  show ?case
  proof (cases r)
    case (Inl e)
    then show ?thesis using run by simp
  next
    case (Inr y)
    show ?thesis
    proof (cases "w_queue w")
      case Nil
      then have "receive (w_queue w) = ([], Inr None)" by (simp add: receive_def)
      then have "\<not> w_received w'" using run_once_received [OF run] by simp
      then show ?thesis using run Inr by simp
    next
      case (Cons m ms)
      then have "receive (w_queue w) = (ms, Inr (Some m))" by (simp add: receive_def)
      then have "w_received w'" "w_queue w' = ms" using run_once_received [OF run] run_once_queue [OF run] by auto
      then show ?thesis using run Inr Suc.IH [of w' "Suc n"] Suc.prems Cons by simp
    qed
  qed
qed simp

lemma drain_once_count:
  "drain_once fuel cfg repo receive n w = Some (w', Inr k) \<Longrightarrow> k = n + length (w_queue w) \<and> w_queue w' = []"
proof (induction fuel arbitrary: n w)
  case (Suc fuel)
  obtain w1 r where run: "run_once cfg repo receive w = (w1, r)" by fastforce
  then obtain y where y: "r = Inr y" using Suc.prems by (cases r) auto
  show ?case
  proof (cases "w_queue w")
    case Nil
    then have "receive (w_queue w) = ([], Inr None)" by (simp add: receive_def)
    then have "\<not> w_received w1" "w_queue w1 = []" using run_once_received [OF run] run_once_queue [OF run] by auto
    then show ?thesis using run y Suc.prems Nil by simp
  next
    case (Cons m ms)
    then have "receive (w_queue w) = (ms, Inr (Some m))" by (simp add: receive_def)
    then have "w_received w1" "w_queue w1 = ms" using run_once_received [OF run] run_once_queue [OF run] by auto
    then show ?thesis using run y Suc.IH [of "Suc n" w1] Suc.prems Cons by simp
  qed
qed simp

text \<open>
  An entry whose protective stop equals the price is not a risk rejection: the sizing formula
  raises, so \<open>run_once\<close> raises and writes no receipt.
\<close>

lemma zero_distance_raises:
  assumes "m_wallet_id m = wc_wallet_id cfg" and "validate_signal (wc_policy cfg) (w_kill w) m = Inr ()"
    and "m_intent m = Enter" and "w_position w = None" and "is_q8 (w_cash w)"
    and "s_price (m_signal m) = Fin x" and "s_stop_loss (m_signal m) = Some (Fin x)"
    and "flt (Fin 0) (pol_risk_per_trade (wc_policy cfg))"
    and "fle (pol_risk_per_trade (wc_policy cfg)) MAX_RISK_PER_TRADE"
  shows "process cfg repo m w = (w, Inl (ValueError ''equity and stop_distance''))"
proof -
  have eq: "recompute (w_cash w) None = Inr (w_cash w)"
    using assms(5) by (simp add: recompute_def position_value_def dadd_def is_q8_dctx)
  have d: "fabs (fsub (Fin x) (Fin x)) = Fin 0" by (simp add: fsub_def)
  have size: "risk_size (pol_risk_per_trade (wc_policy cfg)) (float_of_decimal (w_cash w)) (Fin 0)
      = Inl (ValueError ''equity and stop_distance'')"
    using assms(8,9) by (simp add: risk_size_def fle_def)
  have b: "make_book [] = Inr Map.empty" by (simp add: make_book_def)
  have ap: "any_position (wc_policy cfg) Map.empty = Inr None"
    using any_position_Some [of "wc_policy cfg" Map.empty] 
    by (auto simp: any_position_def Let_def book_get_def List.map_filter_def split: list.splits)
  have bp: "book_position Map.empty name = Inr None" for name by (simp add: book_position_def book_get_def)
  show ?thesis
    by (simp add: process_def candidate_execution_def assms(1-4) b exit_leg_def entry_leg_def bp ap
        execute_entry_def eq assms(6,7) d size bindS_def split: option.splits)
qed

end
