(* ===== verification/Literals.thy ===== *)
theory Literals
  imports FloatDecimal Matcher
begin

section \<open>Evaluation on literals\<close>

text \<open>
  Rewrite rules that compute the decimal and float operations of the model on numerals, so
  that the concrete instances of the properties are decided by \<open>simp\<close>: a literal with at most
  eight decimals is a fixed point of the quantizers, one with at most 16 decimals of the
  decimal context, and a dyadic one of binary64. They are collected in \<open>literal\<close>.
\<close>

named_theorems literal \<open>evaluation of the arithmetic on numerals\<close>

lemma quantize_literal [literal]:
  "numeral b dvd (10::int) ^ 8 \<Longrightarrow> numeral a < (10::rat) ^ 20 * numeral b \<Longrightarrow>
    quantize_amount (numeral a / numeral b) = Inr (numeral a / numeral b)"
  "numeral b dvd (10::int) ^ 8 \<Longrightarrow> quantize_amount (1 / numeral b) = Inr (1 / numeral b)"
  "numeral a < (10::rat) ^ 20 \<Longrightarrow> quantize_amount (numeral a) = Inr (numeral a)"
  "quantize_amount 1 = Inr 1"
proof -
  have u: "Q_AMOUNT * of_int (10 ^ 8) = 1" by (simp add: Q_AMOUNT_def)
  show "quantize_amount (numeral a / numeral b) = Inr (numeral a / numeral b)"
    if "numeral b dvd (10::int) ^ 8" "numeral a < (10::rat) ^ 20 * numeral b"
    using grid_literal(1) [OF u that(1)] that(2) by (simp add: quantize_eq_Inr divide_less_eq)
  show "quantize_amount (1 / numeral b) = Inr (1 / numeral b)" if "numeral b dvd (10::int) ^ 8"
  proof -
    have "(1 / numeral b :: rat) \<le> 1" by simp
    then have "(1 / numeral b :: rat) < 10 ^ 20" by (rule le_less_trans) simp
    then show ?thesis using grid_literal(2) [OF u that] by (simp add: quantize_eq_Inr)
  qed
  show "quantize_amount (numeral a) = Inr (numeral a)" if "numeral a < (10::rat) ^ 20"
    using grid_literal(1) [OF u, of "num.One" a] that by (simp add: quantize_eq_Inr)
  show "quantize_amount 1 = Inr 1" by (rule quantize_q8) simp
qed

lemma quantize_0_literal [literal]: "quantize_amount 0 = Inr 0"
  by (rule quantize_q8) simp

lemma quantize_minus_literal [literal]:
  "quantize_amount (- x) = (case quantize_amount x of Inl e \<Rightarrow> Inl e | Inr y \<Rightarrow> Inr (- y))"
  by (simp add: quantize_amount_def quantize_even_def grid_minus Let_def)

lemma is_q8_literal [literal]: "quantize_amount x = Inr x \<Longrightarrow> is_q8 x"
  by (rule quantize_is_q8)

lemma to_decimal_exact:
  assumes "is_q8 x" and "0 < x" and "x \<le> 10 ^ 6" and "fround x = Fin x"
  shows "quantize_amount (repr_value x) = Inr x"
  using float_round_trip [OF assms(1-3)] assms(4) by (simp add: float_of_decimal_def)

lemma numeral_le_million: "numeral a \<le> (1000000::int) \<Longrightarrow> numeral a \<le> (10 ^ 6 :: rat)"
proof -
  assume "numeral a \<le> (1000000::int)"
  then have "of_int (numeral a) \<le> (of_int 1000000 :: rat)" by (simp only: of_int_le_iff)
  then show ?thesis by simp
qed

lemma to_decimal_literal [literal]:
  "numeral a \<le> (1000000::int) \<Longrightarrow> quantize_amount (repr_value (numeral a)) = Inr (numeral a)"
  "numeral b dvd (10::int) ^ 8 \<Longrightarrow> numeral b dvd (2::int) ^ 40 \<Longrightarrow> numeral a \<le> (1000000::int) \<Longrightarrow>
    numeral a * (2 ^ 40 div numeral b) \<le> (2::int) ^ 53 \<Longrightarrow>
    quantize_amount (repr_value (numeral a / numeral b)) = Inr (numeral a / numeral b)"
  "quantize_amount (repr_value 1) = Inr 1"
proof -
  show "quantize_amount (repr_value (numeral a)) = Inr (numeral a)" if "numeral a \<le> (1000000::int)"
  proof (rule to_decimal_exact)
    show le: "numeral a \<le> (10 ^ 6 :: rat)" using that by (rule numeral_le_million)
    have "(numeral a :: int) \<le> 2 ^ 53" using that by (rule order.trans) simp
    moreover have "(numeral a :: rat) < 2 ^ 1024" using le by (rule le_less_trans) simp
    ultimately show "fround (numeral a) = Fin (numeral a)" by (rule fround_literal(2))
    have "(numeral a :: rat) < 10 ^ 20" using le by (rule le_less_trans) simp
    then show "is_q8 (numeral a)" using quantize_is_q8 quantize_literal(3) by blast
  qed simp
  show "quantize_amount (repr_value (numeral a / numeral b)) = Inr (numeral a / numeral b)"
    if b: "numeral b dvd (10::int) ^ 8" "numeral b dvd (2::int) ^ 40" and a: "numeral a \<le> (1000000::int)"
      and d: "numeral a * (2 ^ 40 div numeral b) \<le> (2::int) ^ 53"
  proof (rule to_decimal_exact)
    have le: "numeral a / numeral b \<le> (numeral a :: rat)"
      using divide_left_mono [of 1 "numeral b" "numeral a :: rat"] by simp
    then show le6: "numeral a / numeral b \<le> (10::rat) ^ 6" using numeral_le_million [OF a] by linarith
    then have "(numeral a / numeral b :: rat) < 2 ^ 1024" by (rule le_less_trans) simp
    then show "fround (numeral a / numeral b) = Fin (numeral a / numeral b)"
      by (rule fround_literal(1) [OF b(2) d])
    have "(numeral a / numeral b :: rat) < 10 ^ 20" using le6 by (rule le_less_trans) simp
    then have "numeral a < (10::rat) ^ 20 * numeral b" by (simp add: divide_less_eq)
    then show "is_q8 (numeral a / numeral b)" using quantize_is_q8 quantize_literal(1) [OF b(1)] by blast
  qed simp
  show "quantize_amount (repr_value 1) = Inr 1"
    by (rule to_decimal_exact) (use quantize_is_q8 [of 1 1] in \<open>simp_all add: fround_literal quantize_literal\<close>)
qed

lemma fround_unit_literal [literal]:
  assumes "numeral b dvd (2::int) ^ 40"
  shows "fround (1 / numeral b) = Fin (1 / numeral b)"
proof -
  have le: "(1 / numeral b :: rat) \<le> 1" by simp
  have "(1 / numeral b :: rat) < f64_big" unfolding f64_big_def by (rule le_less_trans [OF le]) simp
  then have "\<bar>1 / numeral b :: rat\<bar> < f64_big" by simp
  then show ?thesis using f64r_literal(2) [OF assms] by (simp only: fround_eq_Fin)
qed

lemma to_decimal_unit_literal [literal]:
  assumes "numeral b dvd (10::int) ^ 8" and "numeral b dvd (2::int) ^ 40"
  shows "quantize_amount (repr_value (1 / numeral b)) = Inr (1 / numeral b)"
proof (rule to_decimal_exact)
  show "is_q8 (1 / numeral b)" by (rule quantize_is_q8 [OF quantize_literal(2) [OF assms(1)]])
  have "(1 / numeral b :: rat) \<le> 1" by simp
  then show "(1 / numeral b :: rat) \<le> 10 ^ 6" by (rule order.trans) simp
qed (use fround_unit_literal [OF assms(2)] in simp_all)

lemma quantize_quotient:
  assumes "is_q8 m" and "\<bar>q - m\<bar> + \<bar>q\<bar> / (2 * 10 ^ 27) < Q_AMOUNT / 2"
  shows "quantize_amount (dctx q) = Inr m"
proof -
  have "\<bar>dctx q - m\<bar> < Q_AMOUNT / 2" using dctx_error [of q] assms(2) by linarith
  then show ?thesis using grid_near [OF assms(1)] assms(1) by (simp add: quantize_eq_Inr is_q8_def)
qed

lemma fround_minus [literal]: "fround (- q) = fneg (fround q)"
proof -
  have "0 < f64_big" by simp
  then have "\<not> (f64_big \<le> f64r q \<and> f64_big \<le> - f64r q)" by linarith
  then show ?thesis by (auto simp: fround_def Let_def f64r_minus)
qed

lemmas [literal] = dctx_literal dec.rnd_minus fround_literal quantize_price_amount

text \<open>Together with the operations that the code builds on them.\<close>

lemmas evaluate = literal bindR_def raise_if_def Let_def ddiv_def dadd_def dsub_def dmul_def dneg_def dabs_def
  quantize_price_amount

end
