(* ===== verification/Samples.thy ===== *)
theory Samples
  imports WalletService Literals
begin

section \<open>Concrete instances\<close>

text \<open>
  The inputs at which the properties of the root theory are instantiated, with their
  evaluation: an entry order and its fill on two one-minute candles, a long position and a
  closed trade under the default paper costs, and a paper wallet of 12800 that opens a
  position of 4 units with risk 1/128 per trade on one signal and stores it.
\<close>

definition entry_order :: order where
  "entry_order = \<lparr>o_id = GivenId ''entry'', o_wallet_id = None, o_signal_id = None, o_order_type = MARKET,
     o_side = BUY, o_symbol = ''BTCUSDT'', o_quantity = 2, o_price = None, o_filled_quantity = 0,
     o_average_filled_price = None, o_status = NEW, o_fee = 0,
     o_client_order_id = PaperName ''entry'' ''BTCUSDT'' False False, o_market_type = FUTURES,
     o_position_side = LONG, o_reduce_only = False, o_close_position = False, o_stop_price = Some 90,
     o_time_in_force = ''GTC''\<rparr>"

definition filled_order :: order where
  "filled_order = entry_order\<lparr>o_status := FILLED, o_filled_quantity := 2, o_average_filled_price := Some 100\<rparr>"

definition long_position :: position where
  "long_position = \<lparr>p_wallet_id = None, p_symbol = ''BTCUSDT'', p_quantity = 2, p_average_price = 100,
     p_total_cost = 200, p_current_price = 100, p_unrealized_pnl = 0, p_side = LONG, p_market_type = FUTURES,
     p_leverage = 10, p_margin_type = ISOLATED, p_margin = 20, p_entry_price = 100, p_mark_price = 100,
     p_liquidation_price = 452 / 5, p_funding_fee_total = 0\<rparr>"

lemma entry_order_built: "make_order entry_order = Inr entry_order"
  by (simp add: make_order_def entry_order_def validate_fill_status_def evaluate)

lemma entry_order_ok: "order_ok entry_order"
  by (rule make_order_ok [OF entry_order_built])

lemma filled_order_run: "order_run entry_order filled_order"
proof (rule order_run.step [OF run_start])
  show "order_step entry_order filled_order"
    by (rule order_step.full [of _ 2 100])
      (simp add: mark_as_filled_def transition_to_def entry_order_def filled_order_def
        validate_fill_status_def evaluate)
qed

lemma long_position_built: "make_position long_position = Inr long_position"
  by (simp add: make_position_def quantize_fields_def validate_total_cost_def long_position_def
    TOTAL_COST_TOLERANCE_def evaluate)

lemma long_position_ok: "position_ok long_position"
  by (rule make_position_ok [OF long_position_built])

lemma position_reduced:
  assumes "position_ok p" and "quantize_amount quantity = Inr q" and "0 < q"
    and "q \<le> p_quantity p" and "p_margin p \<le> 10 ^ 18"
    and "reduce_quantity p quantity = Inr (p', released)"
  shows "p_quantity p' = p_quantity p - q \<and> p_margin p' + released = p_margin p \<and> 0 \<le> released \<and>
    0 \<le> p_margin p' \<and> position_ok p' \<and>
    (q = p_quantity p \<longrightarrow> released = p_margin p \<and> p_margin p' = 0 \<and> p_total_cost p' = 0 \<and>
      p_unrealized_pnl p' = 0 \<and> p_average_price p' = 0 \<and> p_liquidation_price p' = 0)"
  using reduce_quantity_spec [OF assms] by auto

lemma position_reduced_witness:
  "reduce_quantity long_position (1 / 2) = Inr (long_position\<lparr>p_quantity := 3 / 2, p_total_cost := 150,
      p_margin := 15\<rparr>, 5) \<and>
    position_ok (long_position\<lparr>p_quantity := 3 / 2, p_total_cost := 150, p_margin := 15\<rparr>)"
proof -
  have r: "reduce_quantity long_position (1 / 2) = Inr (long_position\<lparr>p_quantity := 3 / 2,
      p_total_cost := 150, p_margin := 15\<rparr>, 5)"
    by (simp add: reduce_quantity_def validate_total_cost_def long_position_def TOTAL_COST_TOLERANCE_def evaluate)
  have "position_ok (long_position\<lparr>p_quantity := 3 / 2, p_total_cost := 150, p_margin := 15\<rparr>)"
    using position_reduced [OF long_position_ok _ _ _ _ r, of "1 / 2"]
    by (auto simp: long_position_def literal)
  then show ?thesis using r by simp
qed

lemma position_add_accepted:
  assumes "position_ok p" and "0 \<le> p_total_cost p" and "p_quantity p + quantity \<le> 10 ^ 6"
    and "is_q8 quantity"
  shows "add_quantity p quantity price \<noteq> Inl (ValueError ''total_cost'')"
  by (rule add_quantity_basis_accepted [OF assms])

lemma position_add_accepted_witness:
  "add_quantity long_position 3 101 \<noteq> Inl (ValueError ''total_cost'') \<and> isOk (add_quantity long_position 3 101)"
proof
  show "add_quantity long_position 3 101 \<noteq> Inl (ValueError ''total_cost'')"
    by (rule position_add_accepted [OF long_position_ok]) (simp_all add: long_position_def literal)
  show "isOk (add_quantity long_position 3 101)"
    by (simp add: add_quantity_def validate_total_cost_def long_position_def TOTAL_COST_TOLERANCE_def
      evaluate isOk_def)
qed

definition dust_position :: position where
  "dust_position = long_position\<lparr>p_quantity := 2000001, p_average_price := 1 / 10 ^ 8,
     p_total_cost := 2000001 / 10 ^ 8, p_entry_price := 1 / 10 ^ 8\<rparr>"

lemma position_add_large_refused:
  "make_position dust_position = Inr dust_position \<and>
    add_quantity dust_position 2000002 (2 / 10 ^ 8) = Inl (ValueError ''total_cost'')"
proof
  show "make_position dust_position = Inr dust_position"
    by (simp add: make_position_def quantize_fields_def validate_total_cost_def dust_position_def
      long_position_def TOTAL_COST_TOLERANCE_def evaluate)
  have "quantize_amount (dctx (1200001 / 80000060000000)) = Inr (2 / 10 ^ 8)"
    by (rule quantize_quotient) (simp_all add: literal Q_AMOUNT_def)
  then show "add_quantity dust_position 2000002 (2 / 10 ^ 8) = Inl (ValueError ''total_cost'')"
    by (simp add: add_quantity_def validate_total_cost_def dust_position_def long_position_def
      TOTAL_COST_TOLERANCE_def evaluate)
qed

definition closed_trade :: trade where
  "closed_trade = \<lparr>t_source_type = PAPER, t_symbol = ''BTCUSDT'', t_side = SELL, t_market_type = FUTURES,
     t_entry_price = 100, t_entry_quantity = 2, t_entry_time = 0, t_exit_price = 110, t_exit_quantity = 2,
     t_exit_time = 60, t_exit_reason = TAKE_PROFIT, t_gross_pnl = 20, t_total_fee = 21 / 100, t_slippage = 1 / 8,
     t_funding_cost = - (1 / 4), t_liquidation_penalty = 0, t_net_pnl = 20 - 21 / 100 - 1 / 8 + 1 / 4,
     t_return_pct = 99, t_r0 = None, t_leverage = 10, t_liquidated = False, t_wallet_id = None,
     t_backtest_run_id = None, t_strategy_id = ''s'', t_strategy_name = ''s'', t_hold_duration_seconds = 60,
     t_signal_confidence = Fin 1, t_reason = ''exit''\<rparr>"

lemma trade_net_exact:
  assumes "make_trade t0 = Inr t" and "\<bar>t_gross_pnl t\<bar> \<le> 10 ^ 19" and "t_total_fee t \<le> 10 ^ 19"
    and "t_slippage t \<le> 10 ^ 19" and "\<bar>t_funding_cost t\<bar> \<le> 10 ^ 19"
    and "t_liquidation_penalty t \<le> 10 ^ 19"
  shows "t_net_pnl t = t_gross_pnl t - t_total_fee t - t_slippage t - t_funding_cost t - t_liquidation_penalty t \<and>
    (0 < t_liquidation_penalty t \<longrightarrow> t_exit_reason t = LIQUIDATION) \<and> t_entry_time t \<le> t_exit_time t"
  using trade_net_identity [OF assms] make_trade_elim(3,4,12) [OF assms(1)] by auto

lemma trade_net_exact_witness:
  "make_trade closed_trade = Inr closed_trade \<and> t_net_pnl closed_trade = 3983 / 200"
proof -
  have q: "quantize_percent 99 = Inr 99"
    by (simp add: quantize_percent_def quantize_even_def Q_PERCENT_def grid_def rhe_def)
  have b: "make_trade closed_trade = Inr closed_trade"
    by (simp add: make_trade_def trade_quantize_def expected_net_pnl_def closed_trade_def q evaluate)
  then show ?thesis using trade_net_exact [OF b] by (simp add: closed_trade_def)
qed

lemma liquidation_on_losing_side:
  assumes "liquidation_price entry leverage mmr side = Inr l" and "is_q8 entry" and "is_q8 mmr"
    and "mmr * of_int leverage \<le> 1"
  shows "side = LONG \<and> l \<le> entry \<or> side = SHORT \<and> entry \<le> l"
  by (rule liquidation_price_side [OF assms])

lemma liquidation_on_losing_side_witness:
  "liquidation_price 100 10 (4 / 1000) LONG = Inr (452 / 5) \<and> (452 / 5 :: rat) \<le> 100"
proof -
  have l: "liquidation_price 100 10 (4 / 1000) LONG = Inr (452 / 5)"
    by (simp add: liquidation_price_def evaluate)
  show ?thesis using l liquidation_on_losing_side [OF l] by (simp add: literal)
qed

lemma exhausted_margin_liquidates:
  assumes "price_from_margin p mmr = Inr l" and "p_margin p = 0" and "is_q8 (p_entry_price p)" and "is_q8 mmr"
  shows "is_triggered (p\<lparr>p_liquidation_price := l\<rparr>) (p_entry_price p) = Inr True"
  by (rule exhausted_margin_triggers [OF assms])

lemma exhausted_margin_liquidates_witness:
  "price_from_margin (long_position\<lparr>p_margin := 0\<rparr>) (4 / 1000) = Inr (502 / 5) \<and>
    is_triggered (long_position\<lparr>p_margin := 0, p_liquidation_price := 502 / 5\<rparr>) 100 = Inr True"
proof -
  have l: "price_from_margin (long_position\<lparr>p_margin := 0\<rparr>) (4 / 1000) = Inr (502 / 5)"
    by (simp add: price_from_margin_def long_position_def evaluate)
  show ?thesis using l exhausted_margin_liquidates [OF l] by (simp add: long_position_def literal)
qed

lemma execution_adverse:
  assumes "execution_price ord reference q cm gap = Inr (px, s)" and "is_q8 reference" and "0 < q"
  shows "(o_side ord = BUY \<and> reference \<le> px \<or> o_side ord = SELL \<and> px \<le> reference) \<and> 0 < px \<and> is_q8 px"
  using execution_price_adverse [OF assms] by auto

lemma entry_execution: "execution_price entry_order 100 2 default_paper_model False = Inr (2001 / 20, 1 / 10)"
  by (simp add: execution_price_def make_order_def entry_order_def validate_fill_status_def apply_slippage_def
    default_paper_model_def paper_slippage_def effective_rate_def make_slippage_params_def default_rates_def evaluate)

lemma execution_adverse_witness:
  "execution_price entry_order 100 2 default_paper_model False = Inr (2001 / 20, 1 / 10) \<and> is_q8 (2001 / 20)"
  using entry_execution execution_adverse [OF entry_execution] by (simp add: literal)

definition decision_bar :: candle where
  "decision_bar = \<lparr>c_symbol = ''BTCUSDT'', c_exchange = ''binance'', c_timeframe = ''1m'', c_open_time = 0,
     c_close_time = minute_us, c_open = Fin 99, c_high = Fin 101, c_low = Fin 98, c_close = Fin 100,
     c_volume = Fin 5, c_quote_volume = None, c_trade_count = None\<rparr>"

definition next_bar :: candle where
  "next_bar = decision_bar\<lparr>c_open_time := minute_us, c_close_time := 2 * minute_us, c_open := Fin 100,
     c_high := Fin 104, c_low := Fin 95, c_close := Fin 102\<rparr>"

lemma entry_cash_sample: "entry_cash_requirement entry_order (2001 / 20) 2 default_paper_model 10 = Inr (202101 / 10000)"
  by (simp add: entry_cash_requirement_def entry_order_def default_paper_model_def paper_fee_def default_rates_def
    fee_calc_def evaluate)

lemma affordable_sample: "affordable_entry_quantity entry_order (2001 / 20) 2 1000 default_paper_model 10 = Inr 2"
  by (rule paper.affordable_whole [OF _ _ _ _ entry_cash_sample]) (simp_all add: literal)

lemma recompute_sample:
  "recompute_qty_and_stop entry_order (2001 / 20) None (Some 1000) 10 (Some default_paper_model)
    = Inr (2, Some 90)"
proof -
  have f: "o_price entry_order = None" "o_stop_price entry_order = Some 90" "o_position_side entry_order = LONG"
    "o_quantity entry_order = 2" "o_filled_quantity entry_order = 0" by (simp_all add: entry_order_def)
  show ?thesis
    by (simp add: recompute_qty_and_stop_def reanchored_stop_def stop_distance_of_def remaining_quantity_def
      risk_bounded_def cash_bounded_def f affordable_sample evaluate)
qed

lemma truncation_sample:
  "truncation_loop 32 entry_order 100 default_paper_model False None (Some 1000) 10 2 = Inr (2, Some 90)"
  unfolding Suc_31 [symmetric] truncation_loop.simps by (simp add: entry_execution recompute_sample)

definition entry_fill :: fill where
  "entry_fill = \<lparr>f_order_id = GivenId ''entry'', f_symbol = ''BTCUSDT'', f_side = BUY, f_position_side = LONG,
     f_reference_price = 100, f_price = 2001 / 20, f_quantity = 2, f_fee = 2001 / 20000, f_slippage = 1 / 10,
     f_liquidity = ''taker'', f_timestamp = minute_us + 1000, f_reduce_only = False, f_exit_reason = None,
     f_gap_filled = False, f_qty_truncated = False\<rparr>"

lemma entry_fill_order:
  "fill_order entry_order 100 2 (minute_us + 1000) default_paper_model False False None =
    Inr (entry_order\<lparr>o_status := FILLED, o_filled_quantity := 2, o_average_filled_price := Some (2001 / 20),
      o_fee := 2001 / 20000\<rparr>, entry_fill)"
  unfolding fill_order_def entry_execution
  by (simp add: entry_order_def entry_fill_def default_paper_model_def paper_fee_def default_rates_def fee_calc_def
    mark_as_filled_def transition_to_def validate_fill_status_def make_fill_def evaluate)

lemma entry_match:
  "match entry_order decision_bar [decision_bar, next_bar] default_paper_model NextBar None (Some 1000) 10 =
    Inr (entry_order\<lparr>o_status := FILLED, o_filled_quantity := 2, o_average_filled_price := Some (2001 / 20),
      o_fee := 2001 / 20000\<rparr>, entry_fill)"
proof -
  have f: "o_order_type entry_order = MARKET" "o_status entry_order = NEW" "\<not> o_reduce_only entry_order"
    "\<not> o_close_position entry_order" "o_quantity entry_order = 2" "o_filled_quantity entry_order = 0"
    "entry_order\<lparr>o_stop_price := Some 90\<rparr> = entry_order"
    by (simp_all add: entry_order_def)
  have e: "execution_candle decision_bar [decision_bar, next_bar] NextBar = Inr (next_bar, 100, minute_us + 1000)"
    by (simp add: execution_candle_def decision_bar_def next_bar_def price_of_def minute_us_def evaluate)
  have t: "trigger_reference entry_order next_bar = Inr (Some (100, False))"
    by (simp add: trigger_reference_def f price_of_def next_bar_def evaluate)
  have m: "match_triggered entry_order 100 False (minute_us + 1000) default_paper_model None (Some 1000) 10 =
    Inr (entry_order\<lparr>o_status := FILLED, o_filled_quantity := 2, o_average_filled_price := Some (2001 / 20),
      o_fee := 2001 / 20000\<rparr>, entry_fill)"
    by (simp add: match_triggered_def remaining_quantity_def f truncation_sample entry_cash_check_def
      entry_execution entry_cash_sample entry_fill_order evaluate)
  show ?thesis by (simp add: match_def f e t m raise_if_def)
qed

lemma recompute_third:
  "recompute_qty_and_stop (entry_order\<lparr>o_stop_price := Some 97\<rparr>) 100 (Some 2) None 10 None =
    Inr (66666667 / 10 ^ 8, Some 97)"
proof -
  have k: "quantize_amount (dctx (2 / 3)) = Inr (66666667 / 10 ^ 8)"
    by (rule quantize_quotient) (simp_all add: literal Q_AMOUNT_def)
  show ?thesis
    using k by (simp add: recompute_qty_and_stop_def reanchored_stop_def stop_distance_of_def
      remaining_quantity_def risk_bounded_def cash_bounded_def entry_order_def evaluate)
qed

lemma risk_budget_exceeded:
  "case recompute_qty_and_stop (entry_order\<lparr>o_stop_price := Some 97\<rparr>) 100 (Some 2) None 10 None of
     Inr (r, Some stop) \<Rightarrow> stop = 97 \<and> 2 < r * (100 - stop)
   | _ \<Rightarrow> False"
  by (simp add: recompute_third)

lemma trigger_precedence:
  "(trigger_reason p lo hi level stop tp liq = Some (LIQUIDATION, l) \<longleftrightarrow>
     liq \<and> l = level \<and>
     (case stop of None \<Rightarrow> True
      | Some s \<Rightarrow> if p_side p = LONG then s < lo \<or> s < level else hi < s \<or> level < s)) \<and>
   (trigger_reason p lo hi level stop tp liq = Some (STOP_LOSS, l) \<longleftrightarrow>
     stop = Some l \<and> (if p_side p = LONG then lo \<le> l else l \<le> hi) \<and>
     (liq \<longrightarrow> (if p_side p = LONG then level \<le> l else l \<le> level))) \<and>
   (trigger_reason p lo hi level stop tp liq = Some (TAKE_PROFIT, l) \<longleftrightarrow>
     \<not> liq \<and> tp = Some l \<and> (if p_side p = LONG then l \<le> hi else lo \<le> l) \<and>
     (case stop of None \<Rightarrow> True | Some s \<Rightarrow> if p_side p = LONG then s < lo else hi < s))"
  by (cases stop; cases tp) (auto simp: trigger_reason_def Let_def)

lemma trigger_precedence_witness:
  "trigger_reason long_position 85 120 90 (Some 88) (Some 110) True = Some (LIQUIDATION, 90) \<and>
    trigger_reason long_position 85 120 90 (Some 95) (Some 110) True = Some (STOP_LOSS, 95)"
  using trigger_precedence [of long_position 85 120 90 "Some 88" "Some 110" True 90]
    trigger_precedence [of long_position 85 120 90 "Some 95" "Some 110" True 95]
  by (simp add: long_position_def)

lemma entry_fill_built: "make_fill entry_fill = Inr entry_fill"
  by (simp add: make_fill_def entry_fill_def evaluate)

definition opened_position :: position where
  "opened_position = long_position\<lparr>p_average_price := 2001 / 20, p_total_cost := 2001 / 10,
     p_current_price := 2001 / 20, p_margin := 2001 / 100, p_entry_price := 2001 / 20, p_mark_price := 2001 / 20,
     p_liquidation_price := 452 / 5\<rparr>"

lemma entry_applied:
  "apply_fill Map.empty entry_fill (Some 10) (Some ISOLATED) FUTURES (452 / 5) =
    Inr [(''BTCUSDT'', LONG) \<mapsto> opened_position]"
  by (simp add: apply_fill_def entry_fill_def fill_key_def make_position_def quantize_fields_def
    validate_total_cost_def TOTAL_COST_TOLERANCE_def opened_position_def long_position_def evaluate)

lemma funding_applied:
  assumes "apply_funding b p cost mmr = Inr (b', p', r)" and "position_ok p"
  shows "b' = b(position_key p \<mapsto> p') \<and> p_margin p' = p_margin p - fr_applied_cost r \<and> 0 \<le> p_margin p' \<and>
    p_funding_fee_total p' = p_funding_fee_total p + fr_applied_cost r \<and>
    fr_applied_cost r \<le> fr_theoretical_cost r \<and>
    (fr_applied_cost r \<noteq> fr_theoretical_cost r \<longrightarrow> fr_exhausted r) \<and>
    (fr_exhausted r \<longleftrightarrow> 0 < fr_theoretical_cost r \<and> p_margin p' = 0) \<and>
    p_quantity p' = p_quantity p \<and> p_entry_price p' = p_entry_price p \<and> position_ok p' \<and>
    price_from_margin (p'\<lparr>p_liquidation_price := p_liquidation_price p\<rparr>) mmr = Inr (p_liquidation_price p')"
  using apply_funding_spec [OF assms] by blast

definition exhausted_position :: position where
  "exhausted_position = long_position\<lparr>p_margin := 0, p_funding_fee_total := 20, p_liquidation_price := 502 / 5\<rparr>"

lemma funding_sample:
  "apply_funding [(''BTCUSDT'', LONG) \<mapsto> long_position] long_position 25 (4 / 1000) =
    Inr ([(''BTCUSDT'', LONG) \<mapsto> exhausted_position], exhausted_position,
      \<lparr>fr_theoretical_cost = 25, fr_applied_cost = 20, fr_exhausted = True\<rparr>)"
  by (simp add: apply_funding_def position_key_def price_from_margin_def exhausted_position_def long_position_def evaluate)

lemma funding_applied_witness:
  "apply_funding [(''BTCUSDT'', LONG) \<mapsto> long_position] long_position 25 (4 / 1000) =
    Inr ([(''BTCUSDT'', LONG) \<mapsto> exhausted_position], exhausted_position,
      \<lparr>fr_theoretical_cost = 25, fr_applied_cost = 20, fr_exhausted = True\<rparr>) \<and>
    position_ok exhausted_position"
  using funding_sample funding_applied [OF funding_sample long_position_ok] by simp

lemma equity_identity:
  assumes "recompute cash p = Inr equity" and "is_q8 cash"
  shows "\<exists>v. position_value p = Inr v \<and> equity = cash + v \<and> assert_identity cash v equity = Inr () \<and>
    (\<forall>e. is_q8 e \<longrightarrow> assert_identity cash v e = Inr () \<longrightarrow> e = equity)"
proof -
  obtain v where v: "position_value p = Inr v" and e: "quantize_amount (dadd cash v) = Inr equity"
    using assms(1) by (auto simp: recompute_def bindR_eq_Inr)
  have q: "is_q8 v" using v by (auto simp: position_value_def split: option.splits if_splits dest: quantize_is_q8)
  have eq: "equity = cash + v" using e quantize_add [OF assms(2) q] by simp
  show ?thesis
    using v eq recompute_identity [OF v assms(1)] assert_identity_iff [OF assms(2) q] by blast
qed

lemma equity_identity_witness:
  "recompute 980 (Some long_position) = Inr 1000 \<and> assert_identity 980 20 1000 = Inr ()"
proof -
  have r: "recompute 980 (Some long_position) = Inr 1000"
    by (simp add: recompute_def position_value_def long_position_def evaluate)
  have v: "position_value (Some long_position) = Inr 20"
    by (simp add: position_value_def long_position_def evaluate)
  show ?thesis using r v equity_identity [OF r] by (simp add: literal)
qed

lemma exposure_each_within:
  assumes "within_limit risks limit = Inr True" and "r \<in> set risks" and "is_f64 r"
  shows "fle r (next_up limit)"
  by (rule within_limit_each [OF assms])

lemma exposure_each_within_witness:
  "within_limit [Fin (1 / 4), Fin (1 / 2)] (Fin 1) = Inr True \<and> fle (Fin (1 / 2)) (next_up (Fin 1))"
proof -
  have u: "fle (Fin (3 / 4)) (next_up (Fin 1))"
    using fround_mono [of "3 / 4" "1 + 2 powi ulp_exp 1"] by (simp add: literal)
  have w: "within_limit [Fin (1 / 4), Fin (1 / 2)] (Fin 1) = Inr True"
    by (simp add: within_limit_def fsum_def raise_if_def u literal del: next_up.simps)
  show ?thesis using w exposure_each_within [OF w, of "Fin (1 / 2)"] by (simp add: is_f64_def literal del: next_up.simps)
qed

lemma quantity_float_round_trip:
  assumes "is_q8 q" and "0 < q" and "q \<le> 10 ^ 6"
  shows "to_decimal (float_of_decimal q) quantize_amount = Inr q"
  by (rule float_round_trip [OF assms])

lemma quantity_float_round_trip_witness:
  "to_decimal (float_of_decimal (12345678 / 10 ^ 8)) quantize_amount = Inr (12345678 / 10 ^ 8)"
  by (rule quantity_float_round_trip) (simp_all add: literal)

definition paper_policy :: risk_policy where
  "paper_policy = \<lparr>pol_allowed_symbols = [''BTCUSDT''], pol_risk_per_trade = Fin (1 / 128),
     pol_max_order_quantity = Fin 10, pol_max_order_notional = Fin 100000, pol_single_market_limit = Fin (1 / 16),
     pol_correlation_group_limit = Fin (1 / 16), pol_single_direction_limit = Fin (1 / 16),
     pol_kill_switch_engaged = False\<rparr>"

definition paper_config :: wallet_config where
  "paper_config = \<lparr>wc_wallet_id = ''w'', wc_policy = paper_policy, wc_costs = default_paper_model\<rparr>"

definition entry_signal :: paper_signal where
  "entry_signal = \<lparr>m_wallet_id = ''w'', m_signal_id = ''s1'', m_decision_candle = decision_bar,
     m_execution_candle = next_bar,
     m_signal = \<lparr>s_symbol = ''BTCUSDT'', s_timestamp = 0, s_confidence = Fin 1, s_price = Fin 100,
       s_stop_loss = Some (Fin 75), s_take_profit = None, s_market_type = FUTURES, s_leverage = Some 10,
       s_reason = ''breakout'', s_metadata = Map.empty\<rparr>,
     m_intent = Enter, m_side = Some LONG, m_mode = ''paper''\<rparr>"

definition empty_db :: wallet_db where
  "empty_db = \<lparr>d_consumption = Map.empty, d_fills = Map.empty, d_positions = Map.empty,
     d_accounting = Map.empty, d_accounts = Map.empty\<rparr>"

definition fresh_connection :: connection where
  "fresh_connection = \<lparr>cn_committed = empty_db, cn_working = empty_db, cn_executed = 0\<rparr>"

definition no_fault :: fault where
  "no_fault n = False"

definition paper_wallet :: "(memory_queue, connection) wallet" where
  "paper_wallet = \<lparr>w_queue = [entry_signal], w_broker = \<lparr>br_context = None, br_open = []\<rparr>,
     w_repo = fresh_connection, w_cash = 12800, w_position = None, w_open_risk = None, w_kill = False,
     w_received = False, w_outcome = None, w_symbol = None, w_reason = None\<rparr>"

lemma paper_wallet_made:
  "make_wallet paper_config [entry_signal] fresh_connection 12800 = Inr paper_wallet"
  by (simp add: make_wallet_def paper_config_def paper_policy_def paper_wallet_def evaluate)

lemma one_percent: "fle (Fin (1 / 128)) (fround (1 / 100))"
  using fround_mono [of "1 / 128" "1 / 100"] by (simp add: literal)

lemma one_r_budget: "fle (Fin 100) (fmul (Fin 12800) (fround (1 / 100)))"
proof -
  define r where "r = f64r (1 / 100)"
  have r: "1 / 128 \<le> r" "r \<le> 1"
    using f64r_mono [of "1 / 128" "1 / 100"] f64r_mono [of "1 / 100" 1] by (simp_all add: r_def f64r_literal)
  have "1 < f64_big" by (simp add: f64_big_def)
  then have f: "fround (1 / 100) = Fin r" using r by (simp add: fround_eq_Fin r_def [symmetric] abs_if)
  have "fle (fround 100) (fround (12800 * r))" using r(1) by (intro fround_mono) simp
  then show ?thesis by (simp add: f literal)
qed

lemma next_up_sixteenth: "fle (Fin (1 / 128)) (next_up (Fin (1 / 16)))"
  using fround_mono [of "1 / 128" "1 / 16 + 2 powi ulp_exp (1 / 16)"] by (simp add: literal)

lemma entry_sized: "risk_size (Fin (1 / 128)) (Fin 12800) (Fin 25) = Inr (Fin 4)"
  by (simp add: risk_size_def MAX_RISK_PER_TRADE_def one_percent raise_if_def literal)

lemma not_flt_fle: "fle a b \<Longrightarrow> \<not> flt b a"
  by (cases a; cases b) (auto simp: fle_def)

lemma entry_validated: "validate_sized_entry paper_policy entry_signal (Fin 4) (Fin 12800) [] = Inr ()"
  by (simp add: validate_sized_entry_def paper_policy_def entry_signal_def one_r_def fsub_def
    MAX_RISK_PER_TRADE_def not_flt_fle [OF one_r_budget] single_market_def correlation_group_def single_direction_def
    within_limit_def fsum_def next_up_sixteenth evaluate del: next_up.simps)

definition paper_request :: order_request where
  "paper_request = \<lparr>rq_symbol = ''BTCUSDT'', rq_side = BUY, rq_order_type = MARKET, rq_quantity = Fin 4,
     rq_price = Some (Fin 100), rq_stop_price = Some (Fin 75), rq_market_type = FUTURES,
     rq_position_side = LONG, rq_reduce_only = False, rq_close_position = False, rq_time_in_force = ''GTC''\<rparr>"

definition wallet_order :: "decimal \<Rightarrow> order" where
  "wallet_order stop = entry_order\<lparr>o_id := PaperId (PaperName ''w'' ''s1'' False False), o_wallet_id := Some ''w'',
     o_signal_id := Some ''s1'', o_quantity := 4, o_price := Some 100, o_stop_price := Some stop,
     o_client_order_id := RequestName paper_request\<rparr>"

definition wallet_fill :: fill where
  "wallet_fill = entry_fill\<lparr>f_order_id := PaperId (PaperName ''w'' ''s1'' False False), f_quantity := 4,
     f_fee := 2001 / 10000, f_slippage := 1 / 5\<rparr>"

definition entry_context :: paper_context where
  "entry_context = \<lparr>k_decision_candle = decision_bar, k_execution_candle = next_bar, k_wallet_id = ''w'',
     k_signal_id = ''s1'', k_equity = 12800, k_available_margin = 12800, k_leverage = 10,
     k_risk_fraction = Some (Fin (1 / 128))\<rparr>"

lemma wallet_order_fields:
  "o_price (wallet_order s) = Some 100" "o_stop_price (wallet_order s) = Some s"
  "o_position_side (wallet_order s) = LONG" "o_quantity (wallet_order s) = 4" "o_filled_quantity (wallet_order s) = 0"
  "o_order_type (wallet_order s) = MARKET" "o_status (wallet_order s) = NEW" "\<not> o_reduce_only (wallet_order s)"
  "\<not> o_close_position (wallet_order s)" "(wallet_order s)\<lparr>o_stop_price := Some s'\<rparr> = wallet_order s'"
  by (simp_all add: wallet_order_def entry_order_def)

lemma wallet_execution_price:
  "quantize_amount s = Inr s \<Longrightarrow> execution_price (wallet_order s) 100 4 default_paper_model False = Inr (2001 / 20, 1 / 5)"
  by (simp add: execution_price_def make_order_def wallet_order_def entry_order_def validate_fill_status_def
    apply_slippage_def default_paper_model_def paper_slippage_def effective_rate_def make_slippage_params_def
    default_rates_def evaluate)

lemma wallet_entry_cash:
  "entry_cash_requirement (wallet_order s) (2001 / 20) 4 default_paper_model 10 = Inr (202101 / 5000)"
  by (simp add: entry_cash_requirement_def wallet_order_def entry_order_def default_paper_model_def paper_fee_def
    default_rates_def fee_calc_def evaluate)

lemma wallet_recompute:
  "recompute_qty_and_stop (wallet_order 75) (2001 / 20) (Some 100) (Some 12800) 10 (Some default_paper_model) =
    Inr (4, Some (1501 / 20))"
proof -
  have a: "affordable_entry_quantity (wallet_order 75) (2001 / 20) 4 12800 default_paper_model 10 = Inr 4"
    by (rule paper.affordable_whole [OF _ _ _ _ wallet_entry_cash]) (simp_all add: literal)
  show ?thesis
    by (simp add: recompute_qty_and_stop_def reanchored_stop_def stop_distance_of_def remaining_quantity_def
      risk_bounded_def cash_bounded_def wallet_order_fields a evaluate)
qed

lemma wallet_truncation:
  "truncation_loop 32 (wallet_order 75) 100 default_paper_model False (Some 100) (Some 12800) 10 4 =
    Inr (4, Some (1501 / 20))"
  unfolding Suc_31 [symmetric] truncation_loop.simps
  by (simp add: wallet_execution_price wallet_recompute literal)

lemma wallet_fill_order:
  "\<exists>ord'. fill_order (wallet_order (1501 / 20)) 100 4 (minute_us + 1000) default_paper_model False False None =
    Inr (ord', wallet_fill)"
proof -
  have x: "execution_price (wallet_order (1501 / 20)) 100 4 default_paper_model False = Inr (2001 / 20, 1 / 5)"
    by (simp add: wallet_execution_price literal)
  show ?thesis
    unfolding fill_order_def x
    by (simp add: wallet_order_def entry_order_def wallet_fill_def entry_fill_def default_paper_model_def paper_fee_def
      default_rates_def fee_calc_def mark_as_filled_def transition_to_def validate_fill_status_def make_fill_def evaluate)
qed

lemma wallet_match:
  "\<exists>ord'. match (wallet_order 75) decision_bar [decision_bar, next_bar] default_paper_model NextBar (Some 100)
    (Some 12800) 10 = Inr (ord', wallet_fill)"
proof -
  have e: "execution_candle decision_bar [decision_bar, next_bar] NextBar = Inr (next_bar, 100, minute_us + 1000)"
    by (simp add: execution_candle_def decision_bar_def next_bar_def price_of_def minute_us_def evaluate)
  have t: "trigger_reference (wallet_order 75) next_bar = Inr (Some (100, False))"
    by (simp add: trigger_reference_def wallet_order_fields price_of_def next_bar_def evaluate)
  have x: "execution_price (wallet_order (1501 / 20)) 100 4 default_paper_model False = Inr (2001 / 20, 1 / 5)"
    by (simp add: wallet_execution_price literal)
  obtain ord' where f: "fill_order (wallet_order (1501 / 20)) 100 4 (minute_us + 1000) default_paper_model False
    False None = Inr (ord', wallet_fill)" using wallet_fill_order by blast
  have m: "match_triggered (wallet_order 75) 100 False (minute_us + 1000) default_paper_model (Some 100) (Some 12800)
    10 = Inr (ord', wallet_fill)"
    by (simp add: match_triggered_def remaining_quantity_def wallet_order_fields wallet_truncation
      entry_cash_check_def x wallet_entry_cash f evaluate)
  show ?thesis by (simp add: match_def wallet_order_fields e t m raise_if_def)
qed

lemma wallet_normalized:
  "normalize_order paper_request (Some (PaperId (PaperName ''w'' ''s1'' False False))) None (Some ''w'') (Some ''s1'') =
    Inr (wallet_order 75)"
  by (simp add: normalize_order_def paper_request_def wallet_order_def entry_order_def make_order_def
    validate_fill_status_def evaluate)

lemma wallet_simulated: "simulate_order default_paper_model entry_context paper_request = Inr wallet_fill"
proof -
  have k: "rq_symbol paper_request = ''BTCUSDT''" "\<not> rq_reduce_only paper_request" "\<not> rq_close_position paper_request"
    "k_decision_candle entry_context = decision_bar" "k_execution_candle entry_context = next_bar"
    "k_wallet_id entry_context = ''w''" "k_signal_id entry_context = ''s1''" "k_equity entry_context = 12800"
    "k_available_margin entry_context = 12800" "k_leverage entry_context = 10"
    "k_risk_fraction entry_context = Some (Fin (1 / 128))" "c_symbol decision_bar = ''BTCUSDT''"
    by (simp_all add: paper_request_def entry_context_def decision_bar_def)
  obtain ord' where m: "match (wallet_order 75) decision_bar [decision_bar, next_bar] default_paper_model NextBar
    (Some 100) (Some 12800) 10 = Inr (ord', wallet_fill)" using wallet_match by blast
  show ?thesis by (simp add: simulate_order_def k wallet_normalized m evaluate)
qed

definition wallet_position :: position where
  "wallet_position = opened_position\<lparr>p_quantity := 4, p_total_cost := 2001 / 5, p_margin := 2001 / 50,
     p_liquidation_price := 226113 / 2500\<rparr>"

definition entry_execution_record :: wallet_execution where
  "entry_execution_record = \<lparr>x_wallet_id = ''w'', x_signal_id = ''s1'', x_symbol = ''BTCUSDT'',
     x_fills = [wallet_fill], x_position = Some wallet_position,
     x_accounting = \<lparr>a_occurred_at = minute_us + 1000, a_cash_balance = 127597799 / 10000,
       a_position_value = 2001 / 50, a_total_equity = 127997999 / 10000, a_fee_total = 2001 / 10000,
       a_slippage_total = 1 / 5\<rparr>\<rparr>"

lemma wallet_fill_fields:
  "f_symbol wallet_fill = ''BTCUSDT''" "f_position_side wallet_fill = LONG" "\<not> f_reduce_only wallet_fill"
  "f_quantity wallet_fill = 4" "f_price wallet_fill = 2001 / 20" "f_fee wallet_fill = 2001 / 10000"
  "f_slippage wallet_fill = 1 / 5" "f_timestamp wallet_fill = minute_us + 1000"
  by (simp_all add: wallet_fill_def entry_fill_def)

lemma wallet_position_fields:
  "p_symbol wallet_position = ''BTCUSDT''" "p_side wallet_position = LONG" "p_market_type wallet_position = FUTURES"
  "p_margin wallet_position = 2001 / 50" "p_unrealized_pnl wallet_position = 0" "p_quantity wallet_position = 4"
  by (simp_all add: wallet_position_def opened_position_def long_position_def)

lemma wallet_applied:
  "apply_fill Map.empty wallet_fill (Some 10) (Some ISOLATED) FUTURES (226113 / 2500) =
    Inr [(''BTCUSDT'', LONG) \<mapsto> wallet_position]"
  by (simp add: apply_fill_def wallet_fill_fields fill_key_def make_position_def quantize_fields_def
    validate_total_cost_def TOTAL_COST_TOLERANCE_def wallet_position_def opened_position_def long_position_def evaluate)

lemma wallet_liquidation:
  "entry_liquidation_price default_paper_model wallet_fill 10 FUTURES = Inr (226113 / 2500)"
  by (simp add: entry_liquidation_price_def wallet_fill_fields default_paper_model_def default_rates_def
    liquidation_price_def evaluate)

lemma wallet_value:
  "position_value (Some wallet_position) = Inr (2001 / 50)" "recompute 12800 None = Inr 12800"
  "recompute (127597799 / 10000) (Some wallet_position) = Inr (127997999 / 10000)"
  "assert_identity (127597799 / 10000) (2001 / 50) (127997999 / 10000) = Inr ()"
  by (simp_all add: position_value_def recompute_def assert_identity_def wallet_position_fields evaluate)

lemma wallet_simulated_ok: "validate_simulated_entry paper_policy wallet_fill = Inr ()"
proof -
  have n: "float_of_decimal 4 = Fin 4" "float_of_decimal (dmul (2001 / 20) 4) = Fin (f64r (2001 / 5))"
    "f64r (2001 / 5) \<le> 100000"
    using f64r_mono [of "2001 / 5" 100000] f64r_mono [of 0 "2001 / 5"]
    by (simp_all add: float_of_decimal_def fround_eq_Fin f64_big_def f64r_literal evaluate)
  show ?thesis using n by (simp add: validate_simulated_entry_def paper_policy_def wallet_fill_fields raise_if_def)
qed

lemma wallet_configured:
  "configure_execution entry_context br = (br\<lparr>br_context := Some entry_context\<rparr>, Inr ())"
  by (simp add: configure_execution_def entry_context_def decision_bar_def next_bar_def minute_us_def
    one_percent raise_if_def)

lemma wallet_submitted:
  "submit default_paper_model paper_request (br\<lparr>br_context := Some entry_context\<rparr>) =
    (br\<lparr>br_context := None\<rparr>, Inr wallet_fill)"
  by (simp add: submit_def wallet_simulated)

lemma wallet_request_made: "make_order_request paper_request = Inr paper_request"
  by (simp add: make_order_request_def paper_request_def raise_if_def)

lemma entry_signal_fields:
  "m_wallet_id entry_signal = ''w''" "m_signal_id entry_signal = ''s1''" "m_intent entry_signal = Enter"
  "m_side entry_signal = Some LONG" "s_symbol (m_signal entry_signal) = ''BTCUSDT''"
  "s_stop_loss (m_signal entry_signal) = Some (Fin 75)" "s_price (m_signal entry_signal) = Fin 100"
  "s_leverage (m_signal entry_signal) = Some 10" "s_market_type (m_signal entry_signal) = FUTURES"
  "m_decision_candle entry_signal = decision_bar" "m_execution_candle entry_signal = next_bar"
  by (simp_all add: entry_signal_def)

lemma paper_config_fields:
  "wc_wallet_id paper_config = ''w''" "wc_policy paper_config = paper_policy" "wc_costs paper_config = default_paper_model"
  "pol_risk_per_trade paper_policy = Fin (1 / 128)" "pol_allowed_symbols paper_policy = [''BTCUSDT'']"
  by (simp_all add: paper_config_def paper_policy_def)

lemma wallet_times: "assert_times entry_signal wallet_fill = Inr ()"
  by (simp add: assert_times_def feature_time_def decision_time_def entry_signal_def wallet_fill_fields
    decision_bar_def raise_if_def minute_us_def)

lemma entry_executed:
  "execute_entry paper_config entry_signal Map.empty 12800 [] br =
    (br\<lparr>br_context := None\<rparr>, Inr (wallet_fill, [(''BTCUSDT'', LONG) \<mapsto> wallet_position], 127597799 / 10000))"
proof -
  have r: "float_of_decimal 12800 = Fin 12800" "fabs (fsub (Fin 100) (Fin 75)) = Fin 25"
    by (simp_all add: float_of_decimal_def fsub_def literal)
  have cash: "quantize_amount (dsub (dsub 12800 (2001 / 50)) (2001 / 10000)) = Inr (127597799 / 10000)"
    by (simp add: evaluate)
  show ?thesis
    by (simp add: execute_entry_def entry_signal_fields paper_config_fields wallet_value r entry_sized
      entry_validated entry_context_def [symmetric] paper_request_def [symmetric] wallet_configured
      wallet_submitted wallet_request_made wallet_times wallet_simulated_ok wallet_liquidation wallet_applied
      wallet_fill_fields book_position_def book_get_def cash assert_accounting_def bindS_def liftS_def
      raise_if_def bindR_def)
qed

lemma entry_candidate:
  "candidate_execution paper_config entry_signal paper_wallet (w_broker paper_wallet) =
    (w_broker paper_wallet, Inr (entry_execution_record, 127597799 / 10000, Some wallet_position,
      Some (''BTCUSDT'', LONG, Fin (1 / 128))))"
proof -
  have w: "w_position paper_wallet = None" "w_cash paper_wallet = 12800" "w_open_risk paper_wallet = None"
    "\<not> w_kill paper_wallet" "(w_broker paper_wallet)\<lparr>br_context := None\<rparr> = w_broker paper_wallet"
    by (simp_all add: paper_wallet_def)
  have v: "validate_signal paper_policy False entry_signal = Inr ()"
    by (simp add: validate_signal_def entry_signal_def paper_policy_def py_upper_def upper_char_def raise_if_def)
  have s: "snapshot (127597799 / 10000) (Some wallet_position) [wallet_fill] =
    Inr (x_accounting entry_execution_record)"
    by (simp add: snapshot_def wallet_value wallet_fill_fields entry_execution_record_def evaluate)
  have a: "any_position paper_policy [(''BTCUSDT'', LONG) \<mapsto> wallet_position] = Inr (Some wallet_position)"
    "any_position paper_policy Map.empty = Inr None"
    by (simp_all add: any_position_def paper_config_fields book_get_def List.map_filter_def raise_if_def)
  have m: "make_wallet_execution entry_execution_record = Inr entry_execution_record"
    by (simp add: make_wallet_execution_def entry_execution_record_def wallet_fill_fields raise_if_def)
  show ?thesis
    using m
    by (simp add: candidate_execution_def entry_signal_fields paper_config_fields w v make_book_def exit_leg_def
      entry_leg_def book_position_def book_get_def a entry_executed s bindS_def liftS_def raise_if_def
      entry_execution_record_def)
qed

lemma entry_stored:
  "store no_fault entry_execution_record fresh_connection =
    (\<lparr>cn_committed = post_execution entry_execution_record empty_db,
      cn_working = post_execution entry_execution_record empty_db, cn_executed = 7\<rparr>, Inr True)"
  by (simp add: store_def store_statements_def execute_def commit_def no_fault_def fresh_connection_def empty_db_def
    bindS_def liftS_def insert_consumption_def insert_fill_def delete_positions_def insert_position_def
    insert_accounting_def upsert_account_def entry_execution_record_def wallet_fill_fields wallet_position_fields
    post_execution_def post_position_def Let_def cong: if_cong)

lemma execution_ids: "x_wallet_id entry_execution_record = ''w''" "x_signal_id entry_execution_record = ''s1''"
  by (simp_all add: entry_execution_record_def)

definition opened_wallet :: "(memory_queue, connection) wallet" where
  "opened_wallet = paper_wallet\<lparr>w_repo := fst (store no_fault entry_execution_record fresh_connection),
     w_cash := 127597799 / 10000, w_position := Some wallet_position,
     w_open_risk := Some (''BTCUSDT'', LONG, Fin (1 / 128))\<rparr>"

lemma entry_processed:
  "process paper_config (postgres_repository no_fault) entry_signal paper_wallet =
    (opened_wallet, Inr (Some entry_execution_record))"
  unfolding process_def entry_candidate
  by (simp add: postgres_repository_def opened_wallet_def paper_wallet_def entry_stored)

lemma paper_wallet_settled: "settled (w_repo paper_wallet)"
  by (simp add: settled_def paper_wallet_def fresh_connection_def)

lemma paper_wallet_ok: "wallet_ok paper_config paper_wallet"
  by (simp add: wallet_ok_def paper_wallet_def literal)

definition exit_signal :: paper_signal where
  "exit_signal = entry_signal\<lparr>m_signal_id := ''s2'', m_intent := Exit, m_side := None\<rparr>"

definition exit_request :: order_request where
  "exit_request = \<lparr>rq_symbol = ''BTCUSDT'', rq_side = SELL, rq_order_type = MARKET, rq_quantity = Fin 4,
     rq_price = None, rq_stop_price = None, rq_market_type = FUTURES,
     rq_position_side = LONG, rq_reduce_only = True, rq_close_position = False, rq_time_in_force = ''GTC''\<rparr>"

definition exit_order :: order where
  "exit_order = entry_order\<lparr>o_id := PaperId (PaperName ''w'' ''s2'' True False), o_wallet_id := Some ''w'',
     o_signal_id := Some ''s2'', o_side := SELL, o_quantity := 4, o_stop_price := None, o_reduce_only := True,
     o_client_order_id := RequestName exit_request\<rparr>"

definition exit_fill :: fill where
  "exit_fill = \<lparr>f_order_id = PaperId (PaperName ''w'' ''s2'' True False), f_symbol = ''BTCUSDT'', f_side = SELL,
     f_position_side = LONG, f_reference_price = 100, f_price = 9999 / 100, f_quantity = 4, f_fee = 9999 / 50000,
     f_slippage = 1 / 25, f_liquidity = ''taker'', f_timestamp = minute_us + 1000, f_reduce_only = True,
     f_exit_reason = None, f_gap_filled = False, f_qty_truncated = False\<rparr>"

definition exit_context :: paper_context where
  "exit_context = \<lparr>k_decision_candle = decision_bar, k_execution_candle = next_bar, k_wallet_id = ''w'',
     k_signal_id = ''s2'', k_equity = 127997999 / 10000, k_available_margin = 127597799 / 10000, k_leverage = 10,
     k_risk_fraction = None\<rparr>"

lemma exit_order_fields:
  "o_price exit_order = None" "o_stop_price exit_order = None"
  "o_position_side exit_order = LONG" "o_quantity exit_order = 4" "o_filled_quantity exit_order = 0"
  "o_order_type exit_order = MARKET" "o_status exit_order = NEW" "o_reduce_only exit_order"
  by (simp_all add: exit_order_def entry_order_def)

lemma exit_execution_price:
  "execution_price exit_order 100 4 default_paper_model False = Inr (9999 / 100, - (1 / 25))"
  by (simp add: execution_price_def make_order_def exit_order_def entry_order_def validate_fill_status_def
    apply_slippage_def default_paper_model_def paper_slippage_def effective_rate_def make_slippage_params_def
    default_rates_def evaluate)

lemma exit_truncation:
  "truncation_loop 32 exit_order 100 default_paper_model False None None 10 4 = Inr (4, None)"
proof -
  have r: "recompute_qty_and_stop exit_order (9999 / 100) None None 10 (Some default_paper_model) = Inr (4, None)"
    by (simp add: recompute_qty_and_stop_def reanchored_stop_def remaining_quantity_def
      risk_bounded_def cash_bounded_def exit_order_fields evaluate)
  show ?thesis unfolding Suc_31 [symmetric] truncation_loop.simps by (simp add: exit_execution_price r)
qed

lemma exit_match:
  "\<exists>ord'. match exit_order decision_bar [decision_bar, next_bar] default_paper_model NextBar None None 10 =
    Inr (ord', exit_fill)"
proof -
  have e: "execution_candle decision_bar [decision_bar, next_bar] NextBar = Inr (next_bar, 100, minute_us + 1000)"
    by (simp add: execution_candle_def decision_bar_def next_bar_def price_of_def minute_us_def evaluate)
  have t: "trigger_reference exit_order next_bar = Inr (Some (100, False))"
    by (simp add: trigger_reference_def exit_order_fields price_of_def next_bar_def evaluate)
  obtain ord' where f: "fill_order exit_order 100 4 (minute_us + 1000) default_paper_model False False None =
      Inr (ord', exit_fill)"
    unfolding fill_order_def exit_execution_price
    by (simp add: exit_order_def entry_order_def exit_fill_def default_paper_model_def paper_fee_def
      default_rates_def fee_calc_def mark_as_filled_def transition_to_def validate_fill_status_def make_fill_def evaluate)
  have m: "match_triggered exit_order 100 False (minute_us + 1000) default_paper_model None None 10 = Inr (ord', exit_fill)"
    by (simp add: match_triggered_def remaining_quantity_def exit_order_fields exit_truncation
      entry_cash_check_def f evaluate)
  show ?thesis by (simp add: match_def exit_order_fields e t m raise_if_def)
qed

lemma exit_simulated: "simulate_order default_paper_model exit_context exit_request = Inr exit_fill"
proof -
  have k: "rq_symbol exit_request = ''BTCUSDT''" "rq_reduce_only exit_request" "\<not> rq_close_position exit_request"
    "k_decision_candle exit_context = decision_bar" "k_execution_candle exit_context = next_bar"
    "k_wallet_id exit_context = ''w''" "k_signal_id exit_context = ''s2''" "k_leverage exit_context = 10"
    "k_risk_fraction exit_context = None" "c_symbol decision_bar = ''BTCUSDT''"
    by (simp_all add: exit_request_def exit_context_def decision_bar_def)
  have n: "normalize_order exit_request (Some (PaperId (PaperName ''w'' ''s2'' True False))) None (Some ''w'')
      (Some ''s2'') = Inr exit_order"
    by (simp add: normalize_order_def exit_request_def exit_order_def entry_order_def make_order_def
      validate_fill_status_def evaluate)
  obtain ord' where m: "match exit_order decision_bar [decision_bar, next_bar] default_paper_model NextBar None None 10 =
    Inr (ord', exit_fill)" using exit_match by blast
  show ?thesis by (simp add: simulate_order_def k n m bindR_def raise_if_def)
qed

definition marked_position :: position where
  "marked_position = wallet_position\<lparr>p_current_price := 9999 / 100, p_mark_price := 9999 / 100,
     p_unrealized_pnl := - (6 / 25)\<rparr>"

lemma exit_marked: "update_price wallet_position (9999 / 100) = Inr marked_position"
  by (simp add: update_price_def validate_total_cost_def TOTAL_COST_TOLERANCE_def marked_position_def
    wallet_position_def opened_position_def long_position_def evaluate)

lemma exit_reduced:
  "apply_fill [(''BTCUSDT'', LONG) \<mapsto> marked_position] exit_fill None None FUTURES 0 = Inr Map.empty"
  by (simp add: apply_fill_def reduce_def exit_fill_def fill_key_def reduce_quantity_def flatten_prices_def
    validate_total_cost_def TOTAL_COST_TOLERANCE_def marked_position_def wallet_position_def opened_position_def
    long_position_def evaluate)

lemma exit_values:
  "recompute (127597799 / 10000) (Some marked_position) = Inr (127995599 / 10000)"
  "position_value None = Inr 0" "recompute (159991999 / 12500) None = Inr (159991999 / 12500)"
  "assert_identity (159991999 / 12500) 0 (159991999 / 12500) = Inr ()"
  "quantize_amount (dsub (dsub (127995599 / 10000) (9999 / 50000)) 0) = Inr (159991999 / 12500)"
  by (simp_all add: position_value_def recompute_def assert_identity_def marked_position_def
    wallet_position_fields evaluate)

definition closed_position_record :: wallet_execution where
  "closed_position_record = \<lparr>x_wallet_id = ''w'', x_signal_id = ''s2'', x_symbol = ''BTCUSDT'',
     x_fills = [exit_fill], x_position = None,
     x_accounting = \<lparr>a_occurred_at = minute_us + 1000, a_cash_balance = 159991999 / 12500,
       a_position_value = 0, a_total_equity = 159991999 / 12500, a_fee_total = 9999 / 50000,
       a_slippage_total = 1 / 25\<rparr>\<rparr>"

lemma exit_executed:
  "execute_exit paper_config exit_signal [(''BTCUSDT'', LONG) \<mapsto> wallet_position] wallet_position (127597799 / 10000) br =
    (br\<lparr>br_context := None\<rparr>, Inr (exit_fill, Map.empty, 159991999 / 12500))"
proof -
  have s: "m_decision_candle exit_signal = decision_bar" "m_execution_candle exit_signal = next_bar"
    "m_signal_id exit_signal = ''s2''" by (simp_all add: exit_signal_def entry_signal_def)
  have p: "p_leverage wallet_position = 10" "position_key wallet_position = (''BTCUSDT'', LONG)"
    by (simp_all add: wallet_position_def opened_position_def long_position_def position_key_def)
  have f: "f_price exit_fill = 9999 / 100" "f_fee exit_fill = 9999 / 50000" "assert_times exit_signal exit_fill = Inr ()"
    by (simp_all add: exit_fill_def assert_times_def feature_time_def decision_time_def exit_signal_def entry_signal_def
      decision_bar_def raise_if_def minute_us_def)
  have q: "float_of_decimal 4 = Fin 4" by (simp add: float_of_decimal_def literal)
  have c: "configure_execution exit_context br = (br\<lparr>br_context := Some exit_context\<rparr>, Inr ())"
    by (simp add: configure_execution_def exit_context_def decision_bar_def next_bar_def minute_us_def raise_if_def)
  have sub: "submit default_paper_model exit_request (br\<lparr>br_context := Some exit_context\<rparr>) =
    (br\<lparr>br_context := None\<rparr>, Inr exit_fill)"
    by (simp add: submit_def exit_simulated)
  have r: "make_order_request exit_request = Inr exit_request"
    by (simp add: make_order_request_def exit_request_def raise_if_def)
  show ?thesis
    by (simp add: execute_exit_def wallet_value s p q f paper_config_fields wallet_position_fields
      exit_context_def [symmetric] exit_request_def [symmetric] c sub r exit_marked exit_reduced exit_values
      book_position_def book_get_def assert_accounting_def bindS_def liftS_def raise_if_def bindR_def)
qed

lemma exit_candidate:
  "candidate_execution paper_config exit_signal opened_wallet (w_broker opened_wallet) =
    (w_broker opened_wallet, Inr (closed_position_record, 159991999 / 12500, None, None))"
proof -
  have w: "w_position opened_wallet = Some wallet_position" "w_cash opened_wallet = 127597799 / 10000"
    "\<not> w_kill opened_wallet" "(w_broker opened_wallet)\<lparr>br_context := None\<rparr> = w_broker opened_wallet"
    by (simp_all add: opened_wallet_def paper_wallet_def)
  have s: "m_wallet_id exit_signal = ''w''" "m_signal_id exit_signal = ''s2''" "m_intent exit_signal = Exit"
    "s_symbol (m_signal exit_signal) = ''BTCUSDT''"
    by (simp_all add: exit_signal_def entry_signal_def)
  have v: "validate_signal paper_policy False exit_signal = Inr ()"
    by (simp add: validate_signal_def exit_signal_def entry_signal_def paper_policy_def py_upper_def upper_char_def
      raise_if_def)
  have k: "position_key wallet_position = (''BTCUSDT'', LONG)"
    by (simp add: wallet_position_fields position_key_def)
  have n: "snapshot (159991999 / 12500) None [exit_fill] = Inr (x_accounting closed_position_record)"
    by (simp add: snapshot_def exit_values exit_fill_def closed_position_record_def evaluate)
  have a: "any_position paper_policy Map.empty = Inr None"
    by (simp add: any_position_def paper_config_fields book_get_def List.map_filter_def raise_if_def)
  have m: "make_wallet_execution closed_position_record = Inr closed_position_record"
    by (simp add: make_wallet_execution_def closed_position_record_def exit_fill_def raise_if_def)
  show ?thesis
    using m
    by (simp add: candidate_execution_def s paper_config_fields w v k make_book_def exit_leg_def
      entry_leg_def book_position_def book_get_def a exit_executed n bindS_def liftS_def raise_if_def
      closed_position_record_def)
qed

definition closed_wallet :: "(memory_queue, connection) wallet" where
  "closed_wallet = opened_wallet\<lparr>w_repo := fst (store no_fault closed_position_record (w_repo opened_wallet)),
     w_cash := 159991999 / 12500, w_position := None, w_open_risk := None\<rparr>"

lemma exit_stored:
  "snd (store no_fault closed_position_record (w_repo opened_wallet)) = Inr True"
proof -
  have r: "w_repo opened_wallet = \<lparr>cn_committed = post_execution entry_execution_record empty_db,
      cn_working = post_execution entry_execution_record empty_db, cn_executed = 7\<rparr>"
    by (simp add: opened_wallet_def entry_stored)
  show ?thesis
    unfolding r
    by (simp add: store_def store_statements_def execute_def commit_def no_fault_def
      empty_db_def bindS_def liftS_def insert_consumption_def insert_fill_def delete_positions_def
      insert_position_def insert_accounting_def upsert_account_def entry_execution_record_def closed_position_record_def
      exit_fill_def wallet_fill_fields wallet_position_fields post_execution_def post_position_def Let_def cong: if_cong)
qed

lemma exit_processed:
  "process paper_config (postgres_repository no_fault) exit_signal opened_wallet =
    (closed_wallet, Inr (Some closed_position_record))"
proof -
  obtain c where c: "store no_fault closed_position_record (w_repo opened_wallet) = (c, Inr True)"
    using exit_stored by (cases "store no_fault closed_position_record (w_repo opened_wallet)") auto
  show ?thesis
    unfolding process_def exit_candidate by (simp add: postgres_repository_def closed_wallet_def c)
qed

lemma exit_leaves_flat:
  assumes "process cfg repo m w = (w', Inr (Some x))" and "wallet_ok cfg w" and "m_intent m = Exit"
    and "\<And>p. w_position w = Some p \<Longrightarrow> p_margin p \<le> 10 ^ 18 \<and> p_quantity p \<le> 10 ^ 6"
  shows "w_position w' = None \<and> w_open_risk w' = None \<and>
    (\<exists>p f. w_position w = Some p \<and> x_fills x = [f] \<and> f_reduce_only f \<and> f_quantity f = p_quantity p \<and>
      f_symbol f = p_symbol p \<and> f_position_side f = p_side p)"
proof -
  obtain br cash p risk c where cand: "candidate_execution cfg m w (w_broker w) = (br, Inr (x, cash, p, risk))"
    and w': "w' = w\<lparr>w_broker := br, w_repo := c, w_cash := cash, w_position := p, w_open_risk := risk\<rparr>"
    using assms(1) by (rule process_Some_elim)
  show ?thesis
    using candidate_exit [OF cand assms(2,3)] assms(4)
    by (auto simp: w' modest_margin_def fill_key_def position_key_def)
qed

lemma exit_leaves_flat_witness:
  "w_position opened_wallet = Some wallet_position \<and> w_position closed_wallet = None"
proof -
  have k: "wallet_ok paper_config opened_wallet"
    by (rule process_wallet_ok [OF entry_processed paper_wallet_ok]) (simp add: paper_wallet_def)
  have m: "m_intent exit_signal = Exit" by (simp add: exit_signal_def)
  have p: "w_position opened_wallet = Some wallet_position" by (simp add: opened_wallet_def)
  show ?thesis
    using exit_leaves_flat [OF exit_processed k m] p by (simp add: wallet_position_fields)
qed

lemma entry_costs_fee:
  assumes "process cfg repo m w = (w', Inr (Some x))" and "wallet_ok cfg w" and "m_intent m = Enter"
    and "w_position w = None"
  shows "\<exists>p f. w_position w' = Some p \<and> x_fills x = [f] \<and> p_quantity p = f_quantity f \<and>
    p_entry_price p = f_price f \<and> p_symbol p = s_symbol (m_signal m) \<and> m_side m = Some (p_side p) \<and>
    a_total_equity (x_accounting x) = w_cash w - f_fee f \<and>
    w_cash w' = w_cash w - a_position_value (x_accounting x) - f_fee f"
proof -
  obtain br cash p risk c where cand: "candidate_execution cfg m w (w_broker w) = (br, Inr (x, cash, p, risk))"
    and w': "w' = w\<lparr>w_broker := br, w_repo := c, w_cash := cash, w_position := p, w_open_risk := risk\<rparr>"
    using assms(1) by (rule process_Some_elim)
  show ?thesis using candidate_enter_flat [OF cand assms(2-4)] by (simp add: w')
qed

lemma entry_costs_fee_witness:
  "w_cash opened_wallet = 12800 - 2001 / 50 - 2001 / 10000 \<and>
    a_total_equity (x_accounting entry_execution_record) = 12800 - 2001 / 10000"
proof -
  have m: "m_intent entry_signal = Enter" "w_position paper_wallet = None"
    by (simp_all add: entry_signal_def paper_wallet_def)
  show ?thesis
    using entry_costs_fee [OF entry_processed paper_wallet_ok m]
    by (simp add: entry_execution_record_def wallet_fill_fields opened_wallet_def paper_wallet_def)
qed

definition polled_wallet :: "(memory_queue, connection) wallet" where
  "polled_wallet = opened_wallet\<lparr>w_queue := [], w_received := True, w_symbol := Some ''BTCUSDT'',
     w_outcome := Some C_FILLED, w_reason := Some ''execution_committed''\<rparr>"

lemma entry_polled:
  "run_once paper_config (postgres_repository no_fault) receive paper_wallet =
    (polled_wallet, Inr (Some entry_execution_record))"
proof -
  have e: "candidate_execution paper_config entry_signal (paper_wallet\<lparr>w_outcome := None, w_reason := None,
      w_queue := [], w_received := True, w_symbol := Some ''BTCUSDT''\<rparr>) = candidate_execution paper_config entry_signal paper_wallet"
    by (rule ext) (simp add: candidate_execution_def)
  have q: "receive (w_queue paper_wallet) = ([], Inr (Some entry_signal))"
    by (simp add: receive_def paper_wallet_def)
  have f: "w_repo paper_wallet = fresh_connection" by (simp add: paper_wallet_def)
  show ?thesis
    using entry_candidate
    by (simp add: run_once_def q process_def entry_signal_fields e f postgres_repository_def entry_stored
      polled_wallet_def opened_wallet_def Let_def)
qed

definition zero_stop_signal :: paper_signal where
  "zero_stop_signal = entry_signal\<lparr>m_signal := (m_signal entry_signal)\<lparr>s_stop_loss := Some (Fin 100)\<rparr>\<rparr>"

end
