(* ===== verification/MoneyManagement.thy ===== *)
theory MoneyManagement
  imports Sizing Trades
begin

section \<open>Money management (core_lib/money_management)\<close>

text \<open>
  The inputs and outputs of a money-management policy (\<open>models.py\<close>), the shared derivation of
  the risk budget and the Wilder-smoothed Turtle N series (\<open>policies.py\<close>). Values are floats,
  so every operation rounds to binary64. The interface of a policy is the locale
  \<open>policy_contract\<close>; the deployed policies are interpreted in \<open>Policies\<close>.
\<close>

definition require_positive :: "pyfloat \<Rightarrow> string \<Rightarrow> 'a res \<Rightarrow> 'a res" where
  "require_positive v name k = raise_if (\<not> is_finite v \<or> fle v (Fin 0)) (ValueError name) k"

record indicator_requirement =
  ir_name :: string
  ir_params :: "(string \<times> meta_value) list"
  ir_timeframe :: string
  ir_min_history :: int

definition make_indicator_requirement :: "indicator_requirement \<Rightarrow> indicator_requirement res" where
  "make_indicator_requirement r =
     raise_if (ir_name r = []) (ValueError ''requirement name'')
     (raise_if (ir_min_history r \<le> 0) (ValueError ''requirement min_history'')
     (Inr r))"

record market_snapshot =
  ms_reference_price :: pyfloat
  ms_volatility :: pyfloat
  ms_volatility_name :: string
  ms_volatility_timestamp :: instant

definition make_market_snapshot :: "market_snapshot \<Rightarrow> market_snapshot res" where
  "make_market_snapshot m =
     require_positive (ms_reference_price m) ''reference_price''
     (require_positive (ms_volatility m) ''volatility''
     (raise_if (ms_volatility_name m = []) (ValueError ''volatility_name'')
     (Inr m)))"

record account_risk_snapshot =
  ar_equity :: pyfloat
  ar_available_cash :: pyfloat
  ar_market_type :: market_type

definition make_account_risk_snapshot :: "account_risk_snapshot \<Rightarrow> account_risk_snapshot res" where
  "make_account_risk_snapshot a =
     require_positive (ar_equity a) ''equity''
     (require_positive (ar_available_cash a) ''available_cash''
     (Inr a))"

record risk_limits =
  rl_risk_per_trade :: pyfloat
  rl_maintenance_margin_rate :: pyfloat
  rl_max_leverage :: int

definition make_risk_limits :: "risk_limits \<Rightarrow> risk_limits res" where
  "make_risk_limits l =
     raise_if (\<not> is_finite (rl_risk_per_trade l) \<or>
         \<not> (flt (Fin 0) (rl_risk_per_trade l) \<and> fle (rl_risk_per_trade l) (fround (1 / 100))))
       (ValueError ''risk_per_trade'')
     (raise_if (\<not> is_finite (rl_maintenance_margin_rate l) \<or>
         \<not> (fle (Fin 0) (rl_maintenance_margin_rate l) \<and> flt (rl_maintenance_margin_rate l) (Fin 1)))
       (ValueError ''maintenance_margin_rate'')
     (raise_if (rl_max_leverage l \<le> 0) (ValueError ''max_leverage'')
     (Inr l)))"

record money_management_plan =
  mp_stop_loss :: pyfloat
  mp_take_profit :: "pyfloat option"
  mp_requested_quantity :: pyfloat
  mp_requested_leverage :: int
  mp_initial_risk_amount :: pyfloat
  mp_diagnostics :: "(string \<times> meta_value) list"

definition make_plan :: "money_management_plan \<Rightarrow> money_management_plan res" where
  "make_plan p =
     require_positive (mp_stop_loss p) ''stop_loss''
     ((case mp_take_profit p of
         None \<Rightarrow> (\<lambda>k. k)
       | Some t \<Rightarrow> require_positive t ''take_profit'')
     (require_positive (mp_requested_quantity p) ''requested_quantity''
     (require_positive (mp_initial_risk_amount p) ''initial_risk_amount''
     (raise_if (mp_requested_leverage p \<le> 0) (ValueError ''requested_leverage'')
     (Inr p)))))"

subsection \<open>The shared derivations of a policy\<close>

definition entry_side :: "decision_intent \<Rightarrow> int res" where
  "entry_side decision =
     (case i_action decision of
        ENTER_LONG \<Rightarrow> Inr 1
      | ENTER_SHORT \<Rightarrow> Inr (- 1)
      | _ \<Rightarrow> Inl (MoneyManagementError ''entry decisions only''))"

definition risk_inputs ::
    "market_snapshot \<Rightarrow> account_risk_snapshot \<Rightarrow> risk_limits \<Rightarrow> pyfloat \<Rightarrow> (pyfloat \<times> pyfloat) res" where
  "risk_inputs market account limits stop_distance =
     raise_if (fle stop_distance (Fin 0) \<or> \<not> is_finite stop_distance) (MoneyManagementError ''stop distance'')
     (let risk_budget = fmul (ar_equity account) (rl_risk_per_trade limits) in
      bindR (fdiv risk_budget stop_distance) (\<lambda>quantity.
      raise_if (\<not> is_finite quantity \<or> fle quantity (Fin 0)) (MoneyManagementError ''requested quantity'')
      (raise_if (fle (fmul (ms_reference_price market) quantity) (Fin 0)) (MoneyManagementError ''requested notional'')
      (Inr (risk_budget, quantity)))))"

subsection \<open>Turtle N\<close>

fun open_times_increase :: "candle list \<Rightarrow> bool" where
  "open_times_increase (left # right # rest) =
     (c_open_time left < c_open_time right \<and> open_times_increase (right # rest))"
| "open_times_increase _ = True"

definition true_range :: "pyfloat option \<Rightarrow> candle \<Rightarrow> pyfloat" where
  "true_range previous_close c =
     (let current = fsub (c_high c) (c_low c) in
      case previous_close of
        None \<Rightarrow> current
      | Some p \<Rightarrow> fmax (fmax current (fabs (fsub (c_high c) p))) (fabs (fsub (c_low c) p)))"

fun true_ranges :: "pyfloat option \<Rightarrow> candle list \<Rightarrow> pyfloat list res" where
  "true_ranges previous_close [] = Inr []"
| "true_ranges previous_close (c # cs) =
     raise_if (list_ex (\<lambda>v. \<not> is_finite v \<or> fle v (Fin 0)) [c_high c, c_low c, c_close c])
       (ValueError ''finite positive prices'')
     (bindR (true_ranges (Some (c_close c)) cs) (\<lambda>rest. Inr (true_range previous_close c # rest)))"

definition wilder_step :: "nat \<Rightarrow> pyfloat \<Rightarrow> pyfloat \<Rightarrow> pyfloat res" where
  "wilder_step period n tr =
     fdiv (fadd (fmul (float_of_int (int period - 1)) n) tr) (float_of_int (int period))"

fun wilder_series :: "nat \<Rightarrow> pyfloat \<Rightarrow> (instant \<times> pyfloat) list \<Rightarrow> (instant \<times> pyfloat) list res" where
  "wilder_series period n [] = Inr []"
| "wilder_series period n ((t, tr) # rest) =
     bindR (wilder_step period n tr) (\<lambda>n'.
     bindR (wilder_series period n' rest) (\<lambda>series. Inr ((t, n') # series)))"

definition turtle_n_series :: "candle list \<Rightarrow> int \<Rightarrow> (instant \<times> pyfloat) list res" where
  "turtle_n_series candles period =
     raise_if (period < 2) (ValueError ''period'')
     (raise_if (\<not> open_times_increase candles) (ValueError ''strictly increasing'')
     (bindR (true_ranges None candles) (\<lambda>trs.
      let p = nat period in
      if length trs < p then Inr []
      else bindR (fdiv (py_fsum (take p trs)) (float_of_int period)) (\<lambda>n.
           bindR (wilder_series p n (drop p (zip (map c_close_time candles) trs))) (\<lambda>series.
           Inr ((c_close_time (candles ! (p - 1)), n) # series))))))"

subsection \<open>The series is causal\<close>

text \<open>
  Every part of the computation runs forward over the candles, so the series of a prefix is a
  prefix of the series.
\<close>

lemma open_times_increase_append: "open_times_increase (cs @ ds) \<Longrightarrow> open_times_increase cs"
  by (induction cs rule: open_times_increase.induct) auto

lemma true_ranges_length: "true_ranges p cs = Inr trs \<Longrightarrow> length trs = length cs"
  by (induction cs arbitrary: p trs) (auto simp: bindR_eq_Inr)

lemma true_ranges_append:
  "true_ranges p (cs @ ds) = Inr trs \<Longrightarrow> \<exists>us vs. true_ranges p cs = Inr us \<and> trs = us @ vs"
  by (induction cs arbitrary: p trs) (fastforce simp: bindR_eq_Inr)+

lemma wilder_series_append:
  "wilder_series p n (xs @ ys) = Inr s \<Longrightarrow> \<exists>u v. wilder_series p n xs = Inr u \<and> s = u @ v"
  by (induction p n xs arbitrary: s rule: wilder_series.induct) (fastforce simp: bindR_eq_Inr)+

lemma wilder_series_times: "wilder_series p n xs = Inr s \<Longrightarrow> map fst s = map fst xs"
  by (induction p n xs arbitrary: s rule: wilder_series.induct) (auto simp: bindR_eq_Inr)

lemma turtle_n_causal:
  assumes "turtle_n_series (cs @ ds) period = Inr s"
  shows "\<exists>u v. turtle_n_series cs period = Inr u \<and> s = u @ v \<and>
    map fst u = map c_close_time (drop (nat period - 1) cs)"
proof -
  define p where "p = nat period"
  obtain trs where per: "\<not> period < 2" and inc: "open_times_increase (cs @ ds)"
    and trs: "true_ranges None (cs @ ds) = Inr trs"
    using assms by (auto simp: turtle_n_series_def bindR_eq_Inr)
  obtain us vs where us: "true_ranges None cs = Inr us" and split: "trs = us @ vs"
    using true_ranges_append [OF trs] by blast
  note len = true_ranges_length [OF trs] true_ranges_length [OF us]
  have p2: "2 \<le> p" using per by (simp add: p_def)
  note inc' = open_times_increase_append [OF inc]
  show ?thesis
  proof (cases "length us < p")
    case True
    then have "turtle_n_series cs period = Inr []"
      using per inc' us by (simp add: turtle_n_series_def p_def)
    moreover have "drop (nat period - 1) cs = []" using True len(2) p2 by (simp add: p_def)
    ultimately show ?thesis by simp
  next
    case False
    then have le: "p \<le> length us" by simp
    have z: "drop p (zip (map c_close_time (cs @ ds)) trs) =
        drop p (zip (map c_close_time cs) us) @ zip (map c_close_time ds) vs"
      using le len(2) by (simp add: split zip_append)
    have lt: "p - Suc 0 < length cs" using le len(2) p2 by simp
    obtain n series where n: "fdiv (py_fsum (take p us)) (float_of_int period) = Inr n"
      and w: "wilder_series p n (drop p (zip (map c_close_time cs) us) @ zip (map c_close_time ds) vs) = Inr series"
      and s: "s = (c_close_time (cs ! (p - 1)), n) # series"
      using assms per inc trs le len p2 lt
      by (auto simp: turtle_n_series_def bindR_eq_Inr z p_def [symmetric] split nth_append Let_def)
    obtain u v where u: "wilder_series p n (drop p (zip (map c_close_time cs) us)) = Inr u" and v: "series = u @ v"
      using wilder_series_append [OF w] by blast
    have t: "turtle_n_series cs period = Inr ((c_close_time (cs ! (p - 1)), n) # u)"
      using per inc' us le n u by (simp add: turtle_n_series_def p_def [symmetric])
    have "map fst u = map c_close_time (drop p cs)"
      using wilder_series_times [OF u] len(2) by (simp add: drop_map [symmetric] drop_zip)
    moreover have "drop (p - 1) cs = cs ! (p - 1) # drop p cs"
      using le len(2) p2 Cons_nth_drop_Suc [of "p - 1" cs] by simp
    ultimately show ?thesis using t s v by (simp add: p_def [symmetric])
  qed
qed

lemma one_percent_finite: obtains c where "fround (1 / 100) = Fin c"
proof -
  have "f64r (1 / 100) \<le> 1" "0 \<le> f64r (1 / 100)"
    using f64r_mono [of "1 / 100" 1] f64r_mono [of 0 "1 / 100"] by (simp_all add: f64r_literal)
  moreover have "1 < f64_big" by (simp add: f64_big_def)
  ultimately show thesis using that by (simp add: fround_eq_Fin abs_if)
qed

subsection \<open>The contract of a policy\<close>

text \<open>
  What the runtime may rely on from any policy: an accepted plan is a valid plan, its risk
  amount and quantity come from the shared derivation, its leverage is within the global
  maximum, and its stop is on the losing side of the reference price.
\<close>

locale policy_contract =
  fixes plan_entry :: "decision_intent \<Rightarrow> market_snapshot \<Rightarrow> account_risk_snapshot \<Rightarrow> risk_limits \<Rightarrow>
    money_management_plan res"
  assumes plan_valid: "plan_entry d m a l = Inr p \<Longrightarrow> make_plan p = Inr p"
    and plan_risk: "plan_entry d m a l = Inr p \<Longrightarrow>
      \<exists>distance. risk_inputs m a l distance = Inr (mp_initial_risk_amount p, mp_requested_quantity p)"
    and plan_leverage: "plan_entry d m a l = Inr p \<Longrightarrow> 0 < rl_max_leverage l \<Longrightarrow>
      1 \<le> mp_requested_leverage p \<and> mp_requested_leverage p \<le> rl_max_leverage l"
    and plan_stop: "plan_entry d m a l = Inr p \<Longrightarrow> is_f64 (ms_reference_price m) \<Longrightarrow>
      i_action d = ENTER_LONG \<and> fle (mp_stop_loss p) (ms_reference_price m) \<or>
      i_action d = ENTER_SHORT \<and> fle (ms_reference_price m) (mp_stop_loss p)"
begin

lemma plan_risk_capped:
  assumes "plan_entry d m a l = Inr p" and "make_risk_limits l = Inr l" and "make_account_risk_snapshot a = Inr a"
  shows "fle (mp_initial_risk_amount p) (fmul (ar_equity a) (fround (1 / 100)))"
proof -
  obtain r where r: "rl_risk_per_trade l = Fin r" "fle (Fin r) (fround (1 / 100))"
    using assms(2) by (cases "rl_risk_per_trade l") (auto simp: make_risk_limits_def)
  obtain e where e: "ar_equity a = Fin e" "0 < e"
    using assms(3) by (cases "ar_equity a") (auto simp: make_account_risk_snapshot_def require_positive_def)
  have b: "mp_initial_risk_amount p = fmul (Fin e) (Fin r)"
    using plan_risk [OF assms(1)] by (auto simp: risk_inputs_def bindR_eq_Inr Let_def r e)
  obtain c where c: "fround (1 / 100) = Fin c" by (rule one_percent_finite)
  have "fle (fround (e * r)) (fround (e * c))"
    using e(2) r(2) by (intro fround_mono mult_left_mono) (simp_all add: c)
  then show ?thesis by (simp add: b e(1) c)
qed

lemma plan_quantity_positive:
  assumes "plan_entry d m a l = Inr p"
  shows "is_finite (mp_requested_quantity p) \<and> \<not> fle (mp_requested_quantity p) (Fin 0)"
  using plan_risk [OF assms] by (auto simp: risk_inputs_def bindR_eq_Inr Let_def)

end

end
