(* ===== verification/Policies.thy ===== *)
theory Policies
  imports MoneyManagement
begin

section \<open>The deployed policies (trading_plugins/money_management)\<close>

text \<open>
  The three policies that ship with the system: the manual compatibility policy, the Turtle
  policy and the ATR stop that leaves the exit to the strategy. A policy is its configuration
  record, the validation of its constructor and \<open>plan_entry\<close>. Each is an instance of
  \<open>policy_contract\<close>. The indicator registry has one ATR, with period 14.
\<close>

definition signed :: "int \<Rightarrow> pyfloat \<Rightarrow> pyfloat" where
  "signed side v = fmul (float_of_int side) v"

definition in_range :: "pyfloat \<Rightarrow> bool" where
  "in_range v \<longleftrightarrow> is_finite v \<and> fle (fround (1 / 10)) v \<and> fle v (Fin 10)"

subsection \<open>Manual\<close>

record manual_policy =
  mn_leverage :: int
  mn_reward_risk :: pyfloat
  mn_atr_stop_multiple :: pyfloat

definition make_manual :: "manual_policy \<Rightarrow> manual_policy res" where
  "make_manual p =
     raise_if (\<not> (1 \<le> mn_leverage p \<and> mn_leverage p \<le> 100)) (ValueError ''manual leverage'')
     (raise_if (\<not> in_range (mn_reward_risk p)) (ValueError ''manual reward_risk'')
     (raise_if (\<not> in_range (mn_atr_stop_multiple p)) (ValueError ''manual atr_stop_multiple'')
     (Inr p)))"

definition manual_required_indicators :: "manual_policy \<Rightarrow> indicator_requirement list" where
  "manual_required_indicators p = [\<lparr>ir_name = ''ATR'', ir_params = [(''period'', MInt 14)],
     ir_timeframe = ''strategy'', ir_min_history = 14\<rparr>]"

definition manual_plan_entry ::
    "manual_policy \<Rightarrow> decision_intent \<Rightarrow> market_snapshot \<Rightarrow> account_risk_snapshot \<Rightarrow> risk_limits \<Rightarrow>
      money_management_plan res" where
  "manual_plan_entry p decision market account limits =
     bindR (entry_side decision) (\<lambda>side.
     (let stop_distance = fmul (ms_volatility market) (mn_atr_stop_multiple p) in
      bindR (risk_inputs market account limits stop_distance) (\<lambda>(risk_budget, quantity).
      (let stop_loss = fsub (ms_reference_price market) (signed side stop_distance);
           take_profit = fadd (ms_reference_price market) (fmul (signed side stop_distance) (mn_reward_risk p));
           leverage = (if ar_market_type account = FUTURES then mn_leverage p else 1) in
       raise_if (fle stop_loss (Fin 0) \<or> fle take_profit (Fin 0)) (MoneyManagementError ''manual protection prices'')
       (raise_if (rl_max_leverage limits < leverage) (MoneyManagementError ''manual leverage'')
       (make_plan \<lparr>mp_stop_loss = stop_loss, mp_take_profit = Some take_profit,
          mp_requested_quantity = quantity, mp_requested_leverage = leverage,
          mp_initial_risk_amount = risk_budget,
          mp_diagnostics = [(''policy_id'', MStr ''manual''), (''policy_version'', MStr ''1.0.0''),
            (''volatility_name'', MStr (ms_volatility_name market)),
            (''volatility'', MFloat (ms_volatility market)),
            (''volatility_timestamp'', MTime (ms_volatility_timestamp market)),
            (''stop_distance'', MFloat stop_distance), (''risk_budget'', MFloat risk_budget),
            (''liquidation_safe'', MBool True)]\<rparr>))))))"

subsection \<open>The leverage and liquidation steps of the other two\<close>

definition policy_liquidation_price :: "pyfloat \<Rightarrow> int \<Rightarrow> pyfloat \<Rightarrow> int \<Rightarrow> pyfloat res" where
  "policy_liquidation_price price leverage mmr side =
     bindR (fdiv (Fin 1) (float_of_int leverage)) (\<lambda>share.
     Inr (if 0 < side then fmul price (fadd (fsub (Fin 1) share) mmr)
          else fmul price (fsub (fadd (Fin 1) share) mmr)))"

definition liquidation_safe :: "int \<Rightarrow> pyfloat \<Rightarrow> pyfloat \<Rightarrow> bool" where
  "liquidation_safe side liquidation stop_loss =
     (if 0 < side then flt liquidation stop_loss else flt stop_loss liquidation)"

definition needed_leverage :: "pyfloat \<Rightarrow> pyfloat \<Rightarrow> int res" where
  "needed_leverage notional cash = bindR (fdiv notional cash) (\<lambda>q. bindR (fceil q) (\<lambda>n. Inr (max 1 n)))"

definition exit_free_plan ::
    "string \<Rightarrow> market_snapshot \<Rightarrow> pyfloat \<Rightarrow> pyfloat \<Rightarrow> int \<Rightarrow> pyfloat \<Rightarrow> pyfloat \<Rightarrow> pyfloat \<Rightarrow> pyfloat \<Rightarrow> bool \<Rightarrow>
      money_management_plan res" where
  "exit_free_plan pid market stop_loss quantity leverage risk_budget stop_distance notional liquidation safe =
     make_plan \<lparr>mp_stop_loss = stop_loss, mp_take_profit = None, mp_requested_quantity = quantity,
       mp_requested_leverage = leverage, mp_initial_risk_amount = risk_budget,
       mp_diagnostics = [(''policy_id'', MStr pid), (''policy_version'', MStr ''1.0.0''),
         (''volatility_name'', MStr (ms_volatility_name market)),
         (''volatility'', MFloat (ms_volatility market)),
         (''volatility_timestamp'', MTime (ms_volatility_timestamp market)),
         (''stop_distance'', MFloat stop_distance), (''risk_budget'', MFloat risk_budget),
         (''requested_notional'', MFloat notional), (''liquidation_price'', MFloat liquidation),
         (''liquidation_safe'', MBool safe)]\<rparr>"

subsection \<open>Turtle\<close>

record turtle_policy =
  tu_n_period :: int
  tu_n_timeframe :: string
  tu_stop_n_multiple :: pyfloat
  tu_leverage_cap :: int

definition make_turtle :: "turtle_policy \<Rightarrow> turtle_policy res" where
  "make_turtle p =
     raise_if (\<not> (2 \<le> tu_n_period p \<and> tu_n_period p \<le> 200)) (ValueError ''turtle n_period'')
     (raise_if (tu_n_timeframe p \<noteq> ''1d'') (ValueError ''turtle n_timeframe'')
     (raise_if (\<not> in_range (tu_stop_n_multiple p)) (ValueError ''turtle stop_n_multiple'')
     (raise_if (\<not> (1 \<le> tu_leverage_cap p \<and> tu_leverage_cap p \<le> 100)) (ValueError ''turtle leverage_cap'')
     (Inr p))))"

definition turtle_required_indicators :: "turtle_policy \<Rightarrow> indicator_requirement list" where
  "turtle_required_indicators p = [\<lparr>ir_name = ''TURTLE_N'', ir_params = [(''period'', MInt (tu_n_period p))],
     ir_timeframe = ''1d'', ir_min_history = tu_n_period p\<rparr>]"

definition turtle_plan_entry ::
    "turtle_policy \<Rightarrow> decision_intent \<Rightarrow> market_snapshot \<Rightarrow> account_risk_snapshot \<Rightarrow> risk_limits \<Rightarrow>
      money_management_plan res" where
  "turtle_plan_entry p decision market account limits =
     bindR (entry_side decision) (\<lambda>side.
     (let stop_distance = fmul (ms_volatility market) (tu_stop_n_multiple p) in
      bindR (risk_inputs market account limits stop_distance) (\<lambda>(risk_budget, quantity).
      (let stop_loss = fsub (ms_reference_price market) (signed side stop_distance) in
       raise_if (fle stop_loss (Fin 0)) (MoneyManagementError ''turtle stop price'')
       (let notional = fmul (ms_reference_price market) quantity in
        bindR (needed_leverage notional (ar_available_cash account)) (\<lambda>requested.
        (let leverage_limit = min (tu_leverage_cap p) (rl_max_leverage limits) in
         bindR (if ar_market_type account = SPOT
             then raise_if (1 < requested) (MoneyManagementError ''turtle spot plan'') (Inr 1)
             else raise_if (leverage_limit < requested) (MoneyManagementError ''turtle leverage'') (Inr requested))
           (\<lambda>leverage.
         bindR (policy_liquidation_price (ms_reference_price market) leverage
             (rl_maintenance_margin_rate limits) side) (\<lambda>liquidation.
         (let safe = liquidation_safe side liquidation stop_loss in
          raise_if (\<not> safe) (MoneyManagementError ''liquidation before the turtle stop'')
          (exit_free_plan ''turtle'' market stop_loss quantity leverage risk_budget stop_distance notional
             liquidation safe)))))))))))"

subsection \<open>Signal exit with an ATR stop\<close>

record signal_exit_policy =
  sx_atr_period :: int
  sx_atr_stop_multiple :: pyfloat
  sx_leverage_cap :: int

definition atr_registered :: "int \<Rightarrow> bool" where
  "atr_registered period \<longleftrightarrow> period = 14"

definition make_signal_exit :: "signal_exit_policy \<Rightarrow> signal_exit_policy res" where
  "make_signal_exit p =
     raise_if (\<not> (2 \<le> sx_atr_period p \<and> sx_atr_period p \<le> 200)) (ValueError ''atr_period'')
     (raise_if (\<not> in_range (sx_atr_stop_multiple p)) (ValueError ''atr_stop_multiple'')
     (raise_if (\<not> (1 \<le> sx_leverage_cap p \<and> sx_leverage_cap p \<le> 100)) (ValueError ''leverage_cap'')
     (raise_if (\<not> atr_registered (sx_atr_period p)) (ValueError ''atr_period not registered'')
     (Inr p))))"

definition signal_exit_required_indicators :: "signal_exit_policy \<Rightarrow> indicator_requirement list" where
  "signal_exit_required_indicators p = [\<lparr>ir_name = ''ATR'', ir_params = [(''period'', MInt (sx_atr_period p))],
     ir_timeframe = ''strategy'', ir_min_history = sx_atr_period p\<rparr>]"

definition signal_exit_plan_entry ::
    "signal_exit_policy \<Rightarrow> decision_intent \<Rightarrow> market_snapshot \<Rightarrow> account_risk_snapshot \<Rightarrow> risk_limits \<Rightarrow>
      money_management_plan res" where
  "signal_exit_plan_entry p decision market account limits =
     bindR (entry_side decision) (\<lambda>side.
     (let stop_distance = fmul (ms_volatility market) (sx_atr_stop_multiple p) in
      bindR (risk_inputs market account limits stop_distance) (\<lambda>(risk_budget, quantity).
      (let stop_loss = fsub (ms_reference_price market) (signed side stop_distance) in
       raise_if (fle stop_loss (Fin 0)) (MoneyManagementError ''stop price'')
       (let notional = fmul (ms_reference_price market) quantity in
        bindR (if ar_market_type account = SPOT
            then raise_if (flt (ar_available_cash account) notional) (MoneyManagementError ''spot plan'') (Inr 1)
            else bindR (needed_leverage notional (ar_available_cash account)) (\<lambda>needed.
              raise_if (min (sx_leverage_cap p) (rl_max_leverage limits) < needed)
                (MoneyManagementError ''leverage above the cap'') (Inr needed))) (\<lambda>leverage.
        bindR (policy_liquidation_price (ms_reference_price market) leverage
            (rl_maintenance_margin_rate limits) side) (\<lambda>liquidation.
        (let safe = liquidation_safe side liquidation stop_loss in
         raise_if (\<not> safe) (MoneyManagementError ''liquidation before the stop'')
         (exit_free_plan ''signal-exit-atr'' market stop_loss quantity leverage risk_budget stop_distance notional
            liquidation safe)))))))))"

subsection \<open>The policies keep the contract\<close>

lemma make_plan_Inr: "make_plan p = Inr q \<Longrightarrow> q = p"
  by (auto simp: make_plan_def require_positive_def split: option.splits)

lemma entry_side_Inr:
  "entry_side d = Inr s \<longleftrightarrow> i_action d = ENTER_LONG \<and> s = 1 \<or> i_action d = ENTER_SHORT \<and> s = - 1"
  by (auto simp: entry_side_def split: decision_action.splits)

lemma risk_inputs_distance:
  assumes "risk_inputs m a l distance = Inr (b, q)"
  obtains d where "distance = Fin d" and "0 < d"
  using assms by (cases distance) (auto simp: risk_inputs_def)

text \<open>A stop at a positive distance is on the losing side, also after rounding.\<close>

lemma float_of_int_unit: "float_of_int 1 = Fin 1" "float_of_int (- 1) = Fin (- 1)"
proof -
  have "1 < f64_big" by (simp add: f64_big_def)
  then show "float_of_int 1 = Fin 1" "float_of_int (- 1) = Fin (- 1)"
    using f64r_literal(4) by (simp_all add: float_of_int_def fround_eq_Fin f64r_minus)
qed

lemma fround_cases:
  obtains (fin) "fround q = Fin (f64r q)" | (pinf) "fround q = PInf" "0 < q" | (ninf) "fround q = NInf" "q < 0"
proof -
  have big: "0 < f64_big" by simp
  consider "f64_big \<le> f64r q" | "f64r q \<le> - f64_big" | "\<not> f64_big \<le> f64r q" "\<not> f64r q \<le> - f64_big" by blast
  then show thesis
  proof cases
    case 1
    then have "0 < q" using f64r_mono [of q 0] big by (cases "0 < q") auto
    with 1 show thesis by (intro pinf) (simp_all add: fround_def Let_def)
  next
    case 2
    then have "q < 0" "\<not> f64_big \<le> f64r q" using f64r_mono [of 0 q] big by (cases "q < 0", auto)+
    with 2 show thesis by (intro ninf) (simp_all add: fround_def Let_def)
  next
    case 3
    then show thesis by (intro fin) (simp add: fround_def Let_def)
  qed
qed

lemma stop_side:
  assumes d: "0 < d" and r: "is_f64 reference" "is_finite reference" and s: "side = 1 \<or> side = - 1"
  shows "if side = 1 then fle (fsub reference (signed side (Fin d))) reference
    else fle reference (fsub reference (signed side (Fin d)))"
proof -
  obtain x where x: "reference = Fin x" "fround x = Fin x" using r by (cases reference) (auto simp: is_f64_def)
  have dd: "signed side (Fin d) = fround (of_int side * d)"
    using s by (auto simp: signed_def float_of_int_unit)
  have e: "0 \<le> f64r d" using f64r_mono [of 0 d] d by simp
  show ?thesis
  proof (cases rule: fround_cases [of "of_int side * d"])
    case fin
    then have "fsub reference (signed side (Fin d)) = fround (x - of_int side * f64r d)"
      using s by (auto simp: dd x(1) fsub_def f64r_minus)
    then show ?thesis
      using s e fround_mono [of "x - f64r d" x] fround_mono [of x "x + f64r d"] by (auto simp: x)
  next
    case pinf
    have "fsub reference (signed side (Fin d)) = NInf" by (simp add: dd pinf(1) x(1) fsub_def)
    then show ?thesis using s d pinf(2) by (auto simp: x(1) fle_def)
  next
    case ninf
    have "fsub reference (signed side (Fin d)) = PInf" by (simp add: dd ninf(1) x(1) fsub_def)
    then show ?thesis using s d ninf(2) by (auto simp: x(1) fle_def)
  qed
qed

lemma stop_side_plan:
  assumes "entry_side d = Inr side" and "risk_inputs m a l distance = Inr (b, q)"
    and "is_f64 (ms_reference_price m)" and "is_finite (fsub (ms_reference_price m) (signed side distance))"
  shows "i_action d = ENTER_LONG \<and> fle (fsub (ms_reference_price m) (signed side distance)) (ms_reference_price m) \<or>
    i_action d = ENTER_SHORT \<and> fle (ms_reference_price m) (fsub (ms_reference_price m) (signed side distance))"
proof -
  obtain e where e: "distance = Fin e" "0 < e" using assms(2) by (rule risk_inputs_distance)
  have s: "side = 1 \<or> side = - 1" using assms(1) by (auto simp: entry_side_Inr)
  have "is_finite (ms_reference_price m)"
    using assms(4) by (cases "ms_reference_price m"; cases "signed side distance") (auto simp: fsub_def)
  from stop_side [OF e(2) assms(3) this s] show ?thesis
    using assms(1) by (auto simp: entry_side_Inr e(1))
qed

lemma needed_leverage_ge: "needed_leverage n c = Inr k \<Longrightarrow> 1 \<le> k"
  by (auto simp: needed_leverage_def bindR_eq_Inr)

lemma make_plan_stop_finite: "make_plan p = Inr q \<Longrightarrow> is_finite (mp_stop_loss p)"
  by (auto simp: make_plan_def require_positive_def)

lemma manual_plan_elim:
  assumes "manual_plan_entry pol d m a l = Inr p"
  obtains side distance where "entry_side d = Inr side"
    and "risk_inputs m a l distance = Inr (mp_initial_risk_amount p, mp_requested_quantity p)"
    and "mp_stop_loss p = fsub (ms_reference_price m) (signed side distance)" and "make_plan p = Inr p"
    and "mp_requested_leverage p = (if ar_market_type a = FUTURES then mn_leverage pol else 1)"
    and "mp_requested_leverage p \<le> rl_max_leverage l"
    and "distance = fmul (ms_volatility m) (mn_atr_stop_multiple pol)"
    and "map_of (mp_diagnostics p) ''liquidation_safe'' = Some (MBool True)"
proof -
  from assms obtain side b q r where a: "entry_side d = Inr side"
    "risk_inputs m a l (fmul (ms_volatility m) (mn_atr_stop_multiple pol)) = Inr (b, q)"
    "(if ar_market_type a = FUTURES then mn_leverage pol else 1) \<le> rl_max_leverage l"
    and plan: "make_plan r = Inr p"
    and r: "mp_stop_loss r = fsub (ms_reference_price m) (signed side (fmul (ms_volatility m) (mn_atr_stop_multiple pol)))"
      "mp_requested_quantity r = q" "mp_initial_risk_amount r = b"
      "mp_requested_leverage r = (if ar_market_type a = FUTURES then mn_leverage pol else 1)"
      "map_of (mp_diagnostics r) ''liquidation_safe'' = Some (MBool True)"
    unfolding manual_plan_entry_def Let_def by (auto simp: bindR_eq_Inr not_less split: prod.splits)
  have "p = r" by (rule make_plan_Inr [OF plan])
  then show thesis using that [of side "fmul (ms_volatility m) (mn_atr_stop_multiple pol)"] a plan r by simp
qed

lemma exit_free_plan_Inr:
  assumes "exit_free_plan pid m stop q lev b sd n liq safe = Inr p"
  shows "make_plan p = Inr p" and "mp_stop_loss p = stop" and "mp_requested_quantity p = q"
    and "mp_requested_leverage p = lev" and "mp_initial_risk_amount p = b"
    and "mp_take_profit p = None"
  using assms make_plan_Inr [OF assms [unfolded exit_free_plan_def]]
  by (auto simp: exit_free_plan_def)

text \<open>What an accepted plan of the two exit-free policies is.\<close>

definition exit_free_accepted ::
    "int \<Rightarrow> decision_intent \<Rightarrow> market_snapshot \<Rightarrow> account_risk_snapshot \<Rightarrow> risk_limits \<Rightarrow> pyfloat \<Rightarrow>
      money_management_plan \<Rightarrow> bool" where
  "exit_free_accepted cap d m a l distance p \<longleftrightarrow>
     mp_take_profit p = None \<and>
     (\<exists>side liq. entry_side d = Inr side \<and>
        risk_inputs m a l distance = Inr (mp_initial_risk_amount p, mp_requested_quantity p) \<and>
        mp_stop_loss p = fsub (ms_reference_price m) (signed side distance) \<and> make_plan p = Inr p \<and>
        (if ar_market_type a = SPOT then mp_requested_leverage p = 1
         else needed_leverage (fmul (ms_reference_price m) (mp_requested_quantity p)) (ar_available_cash a)
             = Inr (mp_requested_leverage p) \<and> mp_requested_leverage p \<le> min cap (rl_max_leverage l)) \<and>
        policy_liquidation_price (ms_reference_price m) (mp_requested_leverage p)
          (rl_maintenance_margin_rate l) side = Inr liq \<and>
        liquidation_safe side liq (mp_stop_loss p))"

lemma turtle_plan_accepted:
  assumes "turtle_plan_entry pol d m a l = Inr p"
  shows "exit_free_accepted (tu_leverage_cap pol) d m a l (fmul (ms_volatility m) (tu_stop_n_multiple pol)) p"
proof -
  let ?dist = "fmul (ms_volatility m) (tu_stop_n_multiple pol)"
  from assms obtain side b q req lev liq where
    "entry_side d = Inr side" "risk_inputs m a l ?dist = Inr (b, q)"
    and req: "needed_leverage (fmul (ms_reference_price m) q) (ar_available_cash a) = Inr req"
    and lev: "(if ar_market_type a = SPOT
         then raise_if (1 < req) (MoneyManagementError ''turtle spot plan'') (Inr 1)
         else raise_if (min (tu_leverage_cap pol) (rl_max_leverage l) < req)
           (MoneyManagementError ''turtle leverage'') (Inr req)) = Inr lev"
    and "policy_liquidation_price (ms_reference_price m) lev (rl_maintenance_margin_rate l) side = Inr liq"
    and "liquidation_safe side liq (fsub (ms_reference_price m) (signed side ?dist))"
    and plan: "exit_free_plan ''turtle'' m (fsub (ms_reference_price m) (signed side ?dist)) q lev b ?dist
      (fmul (ms_reference_price m) q) liq True = Inr p"
    unfolding turtle_plan_entry_def Let_def by (auto simp: bindR_eq_Inr split: prod.splits)
  then show ?thesis
    using req lev exit_free_plan_Inr [OF plan]
    unfolding exit_free_accepted_def by (intro conjI exI [of _ side] exI [of _ liq]) (auto split: if_splits)
qed

lemma signal_exit_plan_accepted:
  assumes "signal_exit_plan_entry pol d m a l = Inr p"
  shows "exit_free_accepted (sx_leverage_cap pol) d m a l (fmul (ms_volatility m) (sx_atr_stop_multiple pol)) p"
proof -
  let ?dist = "fmul (ms_volatility m) (sx_atr_stop_multiple pol)"
  from assms obtain side b q lev liq where
    "entry_side d = Inr side" "risk_inputs m a l ?dist = Inr (b, q)"
    and lev: "(if ar_market_type a = SPOT
         then raise_if (flt (ar_available_cash a) (fmul (ms_reference_price m) q)) (MoneyManagementError ''spot plan'') (Inr 1)
         else bindR (needed_leverage (fmul (ms_reference_price m) q) (ar_available_cash a)) (\<lambda>needed.
           raise_if (min (sx_leverage_cap pol) (rl_max_leverage l) < needed)
             (MoneyManagementError ''leverage above the cap'') (Inr needed))) = Inr lev"
    and "policy_liquidation_price (ms_reference_price m) lev (rl_maintenance_margin_rate l) side = Inr liq"
    and "liquidation_safe side liq (fsub (ms_reference_price m) (signed side ?dist))"
    and plan: "exit_free_plan ''signal-exit-atr'' m (fsub (ms_reference_price m) (signed side ?dist)) q lev b ?dist
      (fmul (ms_reference_price m) q) liq True = Inr p"
    unfolding signal_exit_plan_entry_def Let_def by (auto simp: bindR_eq_Inr split: prod.splits)
  then show ?thesis
    using lev exit_free_plan_Inr [OF plan]
    unfolding exit_free_accepted_def
    by (intro conjI exI [of _ side] exI [of _ liq]) (auto simp: bindR_eq_Inr split: if_splits)
qed

lemma exit_free_contract:
  assumes "\<And>d m a l p. plan d m a l = Inr p \<Longrightarrow> \<exists>cap distance. exit_free_accepted cap d m a l distance p"
  shows "policy_contract plan"
proof
  fix d m a l p assume "plan d m a l = Inr p"
  then obtain cap distance side liq where e: "entry_side d = Inr side"
    "risk_inputs m a l distance = Inr (mp_initial_risk_amount p, mp_requested_quantity p)"
    "mp_stop_loss p = fsub (ms_reference_price m) (signed side distance)" "make_plan p = Inr p"
    and lev: "if ar_market_type a = SPOT then mp_requested_leverage p = 1
      else needed_leverage (fmul (ms_reference_price m) (mp_requested_quantity p)) (ar_available_cash a)
        = Inr (mp_requested_leverage p) \<and> mp_requested_leverage p \<le> min cap (rl_max_leverage l)"
    using assms unfolding exit_free_accepted_def by blast
  show "make_plan p = Inr p" by (rule e(4))
  show "\<exists>distance. risk_inputs m a l distance = Inr (mp_initial_risk_amount p, mp_requested_quantity p)"
    using e(2) by blast
  show "1 \<le> mp_requested_leverage p \<and> mp_requested_leverage p \<le> rl_max_leverage l" if "0 < rl_max_leverage l"
    using lev that needed_leverage_ge by (auto split: if_splits)
  show "i_action d = ENTER_LONG \<and> fle (mp_stop_loss p) (ms_reference_price m) \<or>
      i_action d = ENTER_SHORT \<and> fle (ms_reference_price m) (mp_stop_loss p)" if "is_f64 (ms_reference_price m)"
    using stop_side_plan [OF e(1,2) that] make_plan_stop_finite [OF e(4)] by (simp add: e(3))
qed

interpretation turtle: policy_contract "turtle_plan_entry pol" for pol
  by (rule exit_free_contract) (blast intro: turtle_plan_accepted)

interpretation signal_exit: policy_contract "signal_exit_plan_entry pol" for pol
  by (rule exit_free_contract) (blast intro: signal_exit_plan_accepted)

text \<open>The manual policy keeps it for the leverages its constructor accepts.\<close>

lemma manual_contract:
  assumes "make_manual pol = Inr pol"
  shows "policy_contract (manual_plan_entry pol)"
proof
  fix d m a l p assume "manual_plan_entry pol d m a l = Inr p"
  then obtain side distance where e: "entry_side d = Inr side"
    "risk_inputs m a l distance = Inr (mp_initial_risk_amount p, mp_requested_quantity p)"
    "mp_stop_loss p = fsub (ms_reference_price m) (signed side distance)" "make_plan p = Inr p"
    "mp_requested_leverage p = (if ar_market_type a = FUTURES then mn_leverage pol else 1)"
    "mp_requested_leverage p \<le> rl_max_leverage l"
    by (rule manual_plan_elim)
  show "make_plan p = Inr p" by (rule e(4))
  show "\<exists>distance. risk_inputs m a l distance = Inr (mp_initial_risk_amount p, mp_requested_quantity p)"
    using e(2) by blast
  show "1 \<le> mp_requested_leverage p \<and> mp_requested_leverage p \<le> rl_max_leverage l"
    using e(5,6) assms by (auto simp: make_manual_def)
  show "i_action d = ENTER_LONG \<and> fle (mp_stop_loss p) (ms_reference_price m) \<or>
      i_action d = ENTER_SHORT \<and> fle (ms_reference_price m) (mp_stop_loss p)" if "is_f64 (ms_reference_price m)"
    using stop_side_plan [OF e(1,2) that] make_plan_stop_finite [OF e(4)] by (simp add: e(3))
qed

definition default_manual :: manual_policy where
  "default_manual = \<lparr>mn_leverage = 1, mn_reward_risk = Fin 2, mn_atr_stop_multiple = Fin 2\<rparr>"

lemma default_manual_built: "make_manual default_manual = Inr default_manual"
proof -
  have "fle (fround (1 / 10)) (Fin 2)" using fround_mono [of "1 / 10" 2] fround_literal(2) [of "num.Bit0 num.One"] by simp
  then show ?thesis by (simp add: make_manual_def default_manual_def in_range_def)
qed

interpretation manual: policy_contract "manual_plan_entry default_manual"
  by (rule manual_contract [OF default_manual_built])

end
