(* ===== verification/PolicyRegistry.thy ===== *)
theory PolicyRegistry
  imports Policies "HOL-Library.Char_ord" "HOL-Library.List_Lexorder"
begin

section \<open>Choosing a policy (money_management/registry.py, reconciliation.py)\<close>

text \<open>
  A run names its policy in a mapping of untyped values. The factory finds the deployed class of
  the mode, refuses settings the class does not declare and lets the constructor check types and
  ranges. Availability compares the rows of the registry table with the deployed classes.
\<close>

subsection \<open>A deployed policy\<close>

datatype policy = Manual manual_policy | Turtle turtle_policy | SignalExit signal_exit_policy

fun policy_id :: "policy \<Rightarrow> string" where
  "policy_id (Manual _) = ''manual''"
| "policy_id (Turtle _) = ''turtle''"
| "policy_id (SignalExit _) = ''signal-exit-atr''"

fun plan_entry ::
    "policy \<Rightarrow> decision_intent \<Rightarrow> market_snapshot \<Rightarrow> account_risk_snapshot \<Rightarrow> risk_limits \<Rightarrow>
      money_management_plan res" where
  "plan_entry (Manual p) = manual_plan_entry p"
| "plan_entry (Turtle p) = turtle_plan_entry p"
| "plan_entry (SignalExit p) = signal_exit_plan_entry p"

fun requires_signal_exit :: "policy \<Rightarrow> bool" where
  "requires_signal_exit (Manual _) = False"
| "requires_signal_exit (Turtle _) = True"
| "requires_signal_exit (SignalExit _) = True"

fun required_indicators :: "policy \<Rightarrow> indicator_requirement list" where
  "required_indicators (Manual p) = manual_required_indicators p"
| "required_indicators (Turtle p) = turtle_required_indicators p"
| "required_indicators (SignalExit p) = signal_exit_required_indicators p"

type_synonym config = "(string \<times> meta_value) list"

definition manual_resolved_config :: "manual_policy \<Rightarrow> config" where
  "manual_resolved_config p = [(''mode'', MStr ''manual''), (''leverage'', MInt (mn_leverage p)),
     (''reward_risk'', MFloat (mn_reward_risk p)), (''atr_stop_multiple'', MFloat (mn_atr_stop_multiple p))]"

definition turtle_resolved_config :: "turtle_policy \<Rightarrow> config" where
  "turtle_resolved_config p = [(''mode'', MStr ''turtle''), (''n_period'', MInt (tu_n_period p)),
     (''n_timeframe'', MStr (tu_n_timeframe p)), (''stop_n_multiple'', MFloat (tu_stop_n_multiple p)),
     (''leverage_cap'', MInt (tu_leverage_cap p))]"

definition signal_exit_resolved_config :: "signal_exit_policy \<Rightarrow> config" where
  "signal_exit_resolved_config p = [(''mode'', MStr ''signal-exit-atr''), (''atr_period'', MInt (sx_atr_period p)),
     (''atr_stop_multiple'', MFloat (sx_atr_stop_multiple p)), (''leverage_cap'', MInt (sx_leverage_cap p))]"

fun resolved_config :: "policy \<Rightarrow> config" where
  "resolved_config (Manual p) = manual_resolved_config p"
| "resolved_config (Turtle p) = turtle_resolved_config p"
| "resolved_config (SignalExit p) = signal_exit_resolved_config p"

fun make_policy :: "policy \<Rightarrow> policy res" where
  "make_policy (Manual p) = bindR (make_manual p) (\<lambda>q. Inr (Manual q))"
| "make_policy (Turtle p) = bindR (make_turtle p) (\<lambda>q. Inr (Turtle q))"
| "make_policy (SignalExit p) = bindR (make_signal_exit p) (\<lambda>q. Inr (SignalExit q))"

subsection \<open>Construction from untyped settings\<close>

definition setting :: "metadata \<Rightarrow> string \<Rightarrow> meta_value \<Rightarrow> meta_value" where
  "setting kw name d = (case kw name of None \<Rightarrow> d | Some v \<Rightarrow> v)"

fun int_setting :: "py_error \<Rightarrow> meta_value \<Rightarrow> int res" where
  "int_setting e (MInt i) = Inr i"
| "int_setting e _ = Inl e"

definition int_in :: "py_error \<Rightarrow> int \<Rightarrow> int \<Rightarrow> int \<Rightarrow> int res" where
  "int_in e lo hi i = raise_if (\<not> (lo \<le> i \<and> i \<le> hi)) e (Inr i)"

fun multiple_setting :: "py_error \<Rightarrow> meta_value \<Rightarrow> pyfloat res" where
  "multiple_setting e (MFloat v) = raise_if (\<not> in_range v) e (Inr v)"
| "multiple_setting e (MInt i) =
     raise_if (\<not> is_finite (float_of_int i)) OverflowError
     (raise_if (\<not> in_range (float_of_int i)) e (Inr (float_of_int i)))"
| "multiple_setting e _ = Inl e"

definition build_manual :: "metadata \<Rightarrow> policy res" where
  "build_manual kw =
     bindR (int_setting (TypeError ''manual leverage'') (setting kw ''leverage'' (MInt 1))) (\<lambda>i.
     bindR (int_in (ValueError ''manual leverage'') 1 100 i) (\<lambda>leverage.
     bindR (multiple_setting (ValueError ''manual reward_risk'')
       (setting kw ''reward_risk'' (MFloat (Fin 2)))) (\<lambda>reward_risk.
     bindR (multiple_setting (ValueError ''manual atr_stop_multiple'')
       (setting kw ''atr_stop_multiple'' (MFloat (Fin 2)))) (\<lambda>multiple.
     Inr (Manual \<lparr>mn_leverage = leverage, mn_reward_risk = reward_risk, mn_atr_stop_multiple = multiple\<rparr>)))))"

definition build_turtle :: "metadata \<Rightarrow> policy res" where
  "build_turtle kw =
     bindR (int_setting (ValueError ''turtle n_period'') (setting kw ''n_period'' (MInt 20))) (\<lambda>i.
     bindR (int_in (ValueError ''turtle n_period'') 2 200 i) (\<lambda>period.
     (case setting kw ''n_timeframe'' (MStr ''1d'') of
        MStr timeframe \<Rightarrow> raise_if (timeframe \<noteq> ''1d'') (ValueError ''turtle n_timeframe'')
          (bindR (multiple_setting (ValueError ''turtle stop_n_multiple'')
             (setting kw ''stop_n_multiple'' (MFloat (Fin 2)))) (\<lambda>multiple.
           bindR (int_setting (ValueError ''turtle leverage_cap'') (setting kw ''leverage_cap'' (MInt 10))) (\<lambda>j.
           bindR (int_in (ValueError ''turtle leverage_cap'') 1 100 j) (\<lambda>cap.
           Inr (Turtle \<lparr>tu_n_period = period, tu_n_timeframe = timeframe, tu_stop_n_multiple = multiple,
             tu_leverage_cap = cap\<rparr>)))))
      | _ \<Rightarrow> Inl (ValueError ''turtle n_timeframe''))))"

definition build_signal_exit :: "metadata \<Rightarrow> policy res" where
  "build_signal_exit kw =
     bindR (int_setting (TypeError ''atr_period'') (setting kw ''atr_period'' (MInt 14))) (\<lambda>i.
     bindR (int_in (ValueError ''atr_period'') 2 200 i) (\<lambda>period.
     bindR (multiple_setting (ValueError ''atr_stop_multiple'')
       (setting kw ''atr_stop_multiple'' (MFloat (Fin (5 / 2))))) (\<lambda>multiple.
     bindR (int_setting (TypeError ''leverage_cap'') (setting kw ''leverage_cap'' (MInt 5))) (\<lambda>j.
     bindR (int_in (ValueError ''leverage_cap'') 1 100 j) (\<lambda>cap.
     raise_if (\<not> atr_registered period) (ValueError ''atr_period not registered'')
     (Inr (SignalExit \<lparr>sx_atr_period = period, sx_atr_stop_multiple = multiple, sx_leverage_cap = cap\<rparr>)))))))"

subsection \<open>The factory\<close>

record policy_class =
  pc_name :: string
  pc_module :: string
  pc_dataclass :: bool
  pc_fields :: "string list"
  pc_build :: "metadata \<Rightarrow> policy res"

definition policy_settings :: "policy_class \<Rightarrow> string list res" where
  "policy_settings c = raise_if (\<not> pc_dataclass c) (TypeError ''policy must be a dataclass'') (Inr (pc_fields c))"

definition reject_extra :: "config \<Rightarrow> string list \<Rightarrow> unit res" where
  "reject_extra raw allowed =
     raise_if (list_ex (\<lambda>(name, _). name \<notin> set allowed) raw) (ValueError ''unexpected parameters'') (Inr ())"

definition create_policy :: "config \<Rightarrow> (string \<times> policy_class) list \<Rightarrow> policy res" where
  "create_policy raw policies =
     (case map_of raw ''mode'' of
        Some (MStr mode) \<Rightarrow>
          (case map_of policies mode of
             None \<Rightarrow> Inl (ValueError ''unsupported mode'')
           | Some c \<Rightarrow>
               bindR (policy_settings c) (\<lambda>settings.
               bindR (reject_extra raw (''mode'' # settings)) (\<lambda>_.
               pc_build c (\<lambda>name. if name \<in> set settings then map_of raw name else None))))
      | _ \<Rightarrow> Inl (TypeError ''mode must be a string''))"

definition money_management_modes :: "(string \<times> policy_class) list \<Rightarrow> string list" where
  "money_management_modes policies = sort (remdups (map fst policies))"

definition deployed_policies :: "(string \<times> policy_class) list" where
  "deployed_policies =
     [(''manual'', \<lparr>pc_name = ''ManualMoneyManagement'', pc_module = ''trading_plugins.money_management.manual'',
        pc_dataclass = True, pc_fields = [''leverage'', ''reward_risk'', ''atr_stop_multiple''],
        pc_build = build_manual\<rparr>),
      (''turtle'', \<lparr>pc_name = ''TurtleMoneyManagement'', pc_module = ''trading_plugins.money_management.turtle'',
        pc_dataclass = True, pc_fields = [''n_period'', ''n_timeframe'', ''stop_n_multiple'', ''leverage_cap''],
        pc_build = build_turtle\<rparr>),
      (''signal-exit-atr'', \<lparr>pc_name = ''SignalExitAtrMoneyManagement'',
        pc_module = ''trading_plugins.money_management.signal_exit_atr'', pc_dataclass = True,
        pc_fields = [''atr_period'', ''atr_stop_multiple'', ''leverage_cap''], pc_build = build_signal_exit\<rparr>)]"

subsection \<open>Availability\<close>

datatype row_value = RText string | RList "string list" | RBool bool | ROther

type_synonym registration = "string \<Rightarrow> row_value option"

datatype reconciliation_state =
  REGISTERED_ONLY | DEPLOYED_ONLY | IDENTITY_MISMATCH | DECLARATION_MISMATCH | DEPRECATED | INACTIVE

record availability =
  av_mode :: string
  av_runnable :: bool
  av_reason :: "reconciliation_state option"

definition unrunnable_reason ::
    "registration option \<Rightarrow> policy_class option \<Rightarrow> reconciliation_state option res" where
  "unrunnable_reason registration policy =
     (case registration of
        None \<Rightarrow> Inr (Some DEPLOYED_ONLY)
      | Some row \<Rightarrow>
          (case policy of
             None \<Rightarrow> Inr (Some REGISTERED_ONLY)
           | Some c \<Rightarrow>
               if row ''class_name'' \<noteq> Some (RText (pc_name c)) \<or> row ''module_path'' \<noteq> Some (RText (pc_module c))
               then Inr (Some IDENTITY_MISMATCH)
               else (case row ''settings_names'' of
                   Some (RList names) \<Rightarrow>
                     bindR (policy_settings c) (\<lambda>settings. Inr
                       (if set names \<noteq> set settings then Some DECLARATION_MISMATCH
                        else if row ''is_deprecated'' = Some (RBool True) then Some DEPRECATED
                        else if row ''is_active'' = Some (RBool False) then Some INACTIVE
                        else None))
                 | _ \<Rightarrow> Inr (Some DECLARATION_MISMATCH))))"

fun registrations_by_mode ::
    "(string \<times> registration) list \<Rightarrow> registration list \<Rightarrow> (string \<times> registration) list res" where
  "registrations_by_mode by_mode [] = Inr by_mode"
| "registrations_by_mode by_mode (row # rows) =
     (case row ''mode'' of
        Some (RText mode) \<Rightarrow>
          raise_if (mode = []) (ValueError ''no valid mode'')
          (raise_if (mode \<in> fst ` set by_mode) (ValueError ''duplicate mode'')
          (registrations_by_mode (by_mode @ [(mode, row)]) rows))
      | _ \<Rightarrow> Inl (ValueError ''no valid mode''))"

definition reconcile_availability ::
    "registration list option \<Rightarrow> (string \<times> policy_class) list \<Rightarrow> availability list res" where
  "reconcile_availability registrations deployed =
     (case registrations of
        None \<Rightarrow> Inr (map (\<lambda>mode. \<lparr>av_mode = mode, av_runnable = True, av_reason = None\<rparr>)
          (money_management_modes deployed))
      | Some rows \<Rightarrow>
          bindR (registrations_by_mode [] rows) (\<lambda>by_mode.
          mapR (\<lambda>mode.
              bindR (unrunnable_reason (map_of by_mode mode) (map_of deployed mode)) (\<lambda>reason.
              Inr \<lparr>av_mode = mode, av_runnable = (reason = None), av_reason = reason\<rparr>))
            (sort (remdups (map fst by_mode @ map fst deployed)))))"

subsection \<open>Construction accepts exactly the valid policies\<close>

lemma setting_multiple_ok: "multiple_setting e v = Inr x \<Longrightarrow> in_range x"
  by (cases v) auto

lemma int_in_eq_Inr: "int_in e lo hi i = Inr j \<longleftrightarrow> j = i \<and> lo \<le> i \<and> i \<le> hi"
  by (auto simp: int_in_def)

lemmas construction_defs = bindR_eq_Inr int_in_eq_Inr make_manual_def make_turtle_def make_signal_exit_def

lemma build_manual_valid: "build_manual kw = Inr p \<Longrightarrow> make_policy p = Inr p \<and> policy_id p = ''manual''"
  by (auto simp: build_manual_def construction_defs dest!: setting_multiple_ok)

lemma build_signal_exit_valid:
  "build_signal_exit kw = Inr p \<Longrightarrow> make_policy p = Inr p \<and> policy_id p = ''signal-exit-atr''"
  by (auto simp: build_signal_exit_def construction_defs dest!: setting_multiple_ok)

lemma build_turtle_valid: "build_turtle kw = Inr p \<Longrightarrow> make_policy p = Inr p \<and> policy_id p = ''turtle''"
  by (cases "setting kw ''n_timeframe'' (MStr ''1d'')")
    (auto simp: build_turtle_def construction_defs dest!: setting_multiple_ok)

lemmas build_valid = build_manual_valid build_turtle_valid build_signal_exit_valid

lemma create_policy_valid:
  assumes "create_policy raw deployed_policies = Inr p"
  shows "make_policy p = Inr p" and "map_of raw ''mode'' = Some (MStr (policy_id p))"
  using assms build_valid
  by (auto simp: create_policy_def deployed_policies_def bindR_eq_Inr split: option.splits meta_value.splits if_splits)

lemma create_resolved: "make_policy p = Inr p \<Longrightarrow> create_policy (resolved_config p) deployed_policies = Inr p"
  by (cases p)
    (auto simp: create_policy_def deployed_policies_def policy_settings_def reject_extra_def bindR_eq_Inr
      build_manual_def build_turtle_def build_signal_exit_def int_in_def setting_def
      manual_resolved_config_def turtle_resolved_config_def signal_exit_resolved_config_def
      make_manual_def make_turtle_def make_signal_exit_def)

text \<open>Every policy that can be constructed keeps the contract.\<close>

lemma made_policy_contract:
  assumes "make_policy p = Inr p"
  shows "policy_contract (plan_entry p)"
  using assms
  by (cases p) (auto simp: bindR_eq_Inr intro: manual_contract turtle.policy_contract_axioms
      signal_exit.policy_contract_axioms)

text \<open>A policy that leaves the exit to the strategy accepts only exit-free plans.\<close>

lemma exit_free_entry:
  "plan_entry p d m a l = Inr plan \<Longrightarrow> requires_signal_exit p \<Longrightarrow>
    \<exists>cap distance. exit_free_accepted cap d m a l distance plan"
  by (cases p) (auto dest: turtle_plan_accepted signal_exit_plan_accepted)

lemmas made_policy_laws =
  policy_contract.plan_risk_capped [OF made_policy_contract]
  policy_contract.plan_quantity_positive [OF made_policy_contract]
  policy_contract.plan_leverage [OF made_policy_contract]
  policy_contract.plan_stop [OF made_policy_contract]

subsection \<open>Availability answers every mode once\<close>

lemma registrations_by_mode_Inr:
  assumes "registrations_by_mode by_mode rows = Inr table"
    and "distinct (map fst by_mode)" and "\<And>m r. (m, r) \<in> set by_mode \<Longrightarrow> r ''mode'' = Some (RText m)"
  shows "distinct (map fst table) \<and> (\<forall>(m, r) \<in> set table. r ''mode'' = Some (RText m)) \<and>
    snd ` set table = snd ` set by_mode \<union> set rows"
  using assms
proof (induction by_mode rows rule: registrations_by_mode.induct)
  case (2 by_mode row rows)
  then obtain m where m: "row ''mode'' = Some (RText m)" "m \<notin> fst ` set by_mode"
    "registrations_by_mode (by_mode @ [(m, row)]) rows = Inr table"
    by (auto split: option.splits row_value.splits)
  have "m \<noteq> []" using 2(2) m(1) by simp
  from 2(1) [OF m(1) refl this m(2,3)] show ?case using 2(3,4) m by auto
qed force

lemma registrations_lookup:
  assumes "registrations_by_mode [] rows = Inr table"
  shows "map_of table m = Some r \<longleftrightarrow> r \<in> set rows \<and> r ''mode'' = Some (RText m)"
proof -
  note t = registrations_by_mode_Inr [OF assms, simplified]
  have "map_of table m = Some r \<longleftrightarrow> (m, r) \<in> set table" using t by (simp add: map_of_eq_Some_iff)
  also have "\<dots> \<longleftrightarrow> r \<in> snd ` set table \<and> r ''mode'' = Some (RText m)"
  proof
    assume "(m, r) \<in> set table"
    then have "r \<in> snd ` set table" by force
    with \<open>(m, r) \<in> set table\<close> show "r \<in> snd ` set table \<and> r ''mode'' = Some (RText m)" using t by blast
  next
    assume r: "r \<in> snd ` set table \<and> r ''mode'' = Some (RText m)"
    then obtain n where n: "(n, r) \<in> set table" by auto
    with t have "r ''mode'' = Some (RText n)" by blast
    with r n show "(m, r) \<in> set table" by simp
  qed
  finally show ?thesis using t by simp
qed

lemma mapR_Inr_iff: "mapR f xs = Inr ys \<longleftrightarrow> list_all2 (\<lambda>x y. f x = Inr y) xs ys"
  by (induction xs arbitrary: ys) (auto simp: bindR_eq_Inr list_all2_Cons1)

text \<open>The row and the class a runnable mode needs.\<close>

definition runs_as :: "registration list \<Rightarrow> (string \<times> policy_class) list \<Rightarrow> string \<Rightarrow> bool" where
  "runs_as rows deployed mode \<longleftrightarrow>
     (\<exists>row \<in> set rows. \<exists>c names. row ''mode'' = Some (RText mode) \<and> map_of deployed mode = Some c \<and>
        row ''class_name'' = Some (RText (pc_name c)) \<and> row ''module_path'' = Some (RText (pc_module c)) \<and>
        row ''settings_names'' = Some (RList names) \<and> set names = set (pc_fields c) \<and>
        row ''is_deprecated'' \<noteq> Some (RBool True) \<and> row ''is_active'' \<noteq> Some (RBool False))"

lemma unrunnable_reason_None:
  assumes "unrunnable_reason registration policy = Inr reason"
  shows "reason = None \<longleftrightarrow> (\<exists>row c names. registration = Some row \<and> policy = Some c \<and>
    row ''class_name'' = Some (RText (pc_name c)) \<and> row ''module_path'' = Some (RText (pc_module c)) \<and>
    row ''settings_names'' = Some (RList names) \<and> set names = set (pc_fields c) \<and>
    row ''is_deprecated'' \<noteq> Some (RBool True) \<and> row ''is_active'' \<noteq> Some (RBool False))"
  using assms
  by (auto simp: unrunnable_reason_def policy_settings_def bindR_eq_Inr split: option.splits row_value.splits if_splits)

lemma reconcile_rows:
  assumes "reconcile_availability (Some rows) deployed = Inr answers"
  shows "map av_mode answers = sort (remdups (map av_mode answers)) \<and>
    set (map av_mode answers) = {m. \<exists>r \<in> set rows. r ''mode'' = Some (RText m)} \<union> fst ` set deployed \<and>
    (\<forall>a \<in> set answers. av_runnable a \<longleftrightarrow> runs_as rows deployed (av_mode a))"
proof -
  obtain table where t: "registrations_by_mode [] rows = Inr table"
    and a: "list_all2 (\<lambda>mode a. \<exists>reason. unrunnable_reason (map_of table mode) (map_of deployed mode) = Inr reason \<and>
        a = \<lparr>av_mode = mode, av_runnable = (reason = None), av_reason = reason\<rparr>)
      (sort (remdups (map fst table @ map fst deployed))) answers"
    using assms unfolding reconcile_availability_def option.case bindR_eq_Inr mapR_Inr_iff sum.inject
    by (elim exE conjE) (rule that; simp only: eq_commute)
  have m: "map av_mode answers = sort (remdups (map fst table @ map fst deployed))"
    using a by (auto simp: list_all2_conv_all_nth intro!: nth_equalityI)
  have rows: "fst ` set table = {m. \<exists>r \<in> set rows. r ''mode'' = Some (RText m)}"
  proof -
    have "m \<in> fst ` set table \<longleftrightarrow> (\<exists>r. map_of table m = Some r)" for m
      using dom_map_of_conv_image_fst [of table] by (auto simp: set_eq_iff domIff)
    then show ?thesis unfolding registrations_lookup [OF t] by (intro set_eqI) (simp only: mem_Collect_eq Bex_def)
  qed
  have "av_runnable x \<longleftrightarrow> runs_as rows deployed (av_mode x)" if "x \<in> set answers" for x
  proof -
    obtain i where i: "i < length answers" "x = answers ! i" using \<open>x \<in> set answers\<close> by (auto simp: in_set_conv_nth)
    obtain reason where r: "unrunnable_reason (map_of table (av_mode x)) (map_of deployed (av_mode x)) = Inr reason"
      and x: "av_runnable x = (reason = None)"
      using list_all2_nthD2 [OF a i(1)] by (elim exE) (rule that, auto simp: i(2))
    show ?thesis
      unfolding x unrunnable_reason_None [OF r] runs_as_def registrations_lookup [OF t] by blast
  qed
  moreover have "map av_mode answers = sort (remdups (map av_mode answers))"
    unfolding m by (simp add: distinct_remdups_id sort_key_id_if_sorted)
  ultimately show ?thesis using rows by (simp add: m image_Un flip: set_map)
qed

end
