(* ===== verification/PolicySamples.thy ===== *)
theory PolicySamples
  imports Samples PolicyRegistry
begin

section \<open>Concrete instances\<close>

text \<open>
  A long entry decision, an account and risk limits with a plan of the Turtle and of the
  manual policy on them, two rows of the policy registry table, and a series of daily candles.
\<close>

definition long_decision :: decision_intent where
  "long_decision = \<lparr>i_action = ENTER_LONG, i_symbol = ''BTCUSDT'', i_timestamp = 60000000,
     i_reference_price = Fin 100, i_confidence = Fin 1, i_reason = ''breakout'', i_metadata = Map.empty\<rparr>"

definition quiet_market :: market_snapshot where
  "quiet_market = \<lparr>ms_reference_price = Fin 100, ms_volatility = Fin 2, ms_volatility_name = ''ATR'',
     ms_volatility_timestamp = 60000000\<rparr>"

definition small_account :: account_risk_snapshot where
  "small_account = \<lparr>ar_equity = Fin 12800, ar_available_cash = Fin 12800, ar_market_type = FUTURES\<rparr>"

definition tight_limits :: risk_limits where
  "tight_limits = \<lparr>rl_risk_per_trade = Fin (1 / 128), rl_maintenance_margin_rate = Fin (1 / 256), rl_max_leverage = 100\<rparr>"

lemmas market_inputs = long_decision_def quiet_market_def small_account_def tight_limits_def

lemma tight_limits_valid: "make_risk_limits tight_limits = Inr tight_limits"
proof -
  have "fle (fround (1 / 128)) (fround (1 / 100))" by (rule fround_mono) simp
  then show ?thesis by (simp add: make_risk_limits_def tight_limits_def literal)
qed

definition default_turtle :: turtle_policy where
  "default_turtle = \<lparr>tu_n_period = 20, tu_n_timeframe = ''1d'', tu_stop_n_multiple = Fin 2, tu_leverage_cap = 10\<rparr>"

lemma default_turtle_built: "create_policy [(''mode'', MStr ''turtle'')] deployed_policies = Inr (Turtle default_turtle)"
proof -
  have "fle (fround (1 / 10)) (Fin 2)" using fround_mono [of "1 / 10" 2] fround_literal(2) [of "num.Bit0 num.One"] by simp
  then show ?thesis
    by (simp add: create_policy_def deployed_policies_def policy_settings_def reject_extra_def build_turtle_def
      setting_def int_in_def in_range_def default_turtle_def)
qed

definition turtle_plan :: money_management_plan where
  "turtle_plan = \<lparr>mp_stop_loss = Fin 96, mp_take_profit = None, mp_requested_quantity = Fin 25,
     mp_requested_leverage = 1, mp_initial_risk_amount = Fin 100,
     mp_diagnostics = [(''policy_id'', MStr ''turtle''), (''policy_version'', MStr ''1.0.0''),
       (''volatility_name'', MStr ''ATR''), (''volatility'', MFloat (Fin 2)),
       (''volatility_timestamp'', MTime 60000000), (''stop_distance'', MFloat (Fin 4)),
       (''risk_budget'', MFloat (Fin 100)), (''requested_notional'', MFloat (Fin 2500)),
       (''liquidation_price'', MFloat (Fin (25 / 64))), (''liquidation_safe'', MBool True)]\<rparr>"

lemma turtle_planned:
  "plan_entry (Turtle default_turtle) long_decision quiet_market small_account tight_limits = Inr turtle_plan"
  by (simp add: turtle_plan_entry_def default_turtle_def market_inputs entry_side_def risk_inputs_def signed_def
    needed_leverage_def policy_liquidation_price_def liquidation_safe_def exit_free_plan_def make_plan_def
    require_positive_def turtle_plan_def float_of_int_def fsub_def evaluate)

definition manual_plan :: money_management_plan where
  "manual_plan = \<lparr>mp_stop_loss = Fin 96, mp_take_profit = Some (Fin 108), mp_requested_quantity = Fin 25,
     mp_requested_leverage = 64, mp_initial_risk_amount = Fin 100,
     mp_diagnostics = [(''policy_id'', MStr ''manual''), (''policy_version'', MStr ''1.0.0''),
       (''volatility_name'', MStr ''ATR''), (''volatility'', MFloat (Fin 2)),
       (''volatility_timestamp'', MTime 60000000), (''stop_distance'', MFloat (Fin 4)),
       (''risk_budget'', MFloat (Fin 100)), (''liquidation_safe'', MBool True)]\<rparr>"

lemma manual_plan_unsafe:
  "make_manual (default_manual\<lparr>mn_leverage := 64\<rparr>) = Inr (default_manual\<lparr>mn_leverage := 64\<rparr>) \<and>
   manual_plan_entry (default_manual\<lparr>mn_leverage := 64\<rparr>) long_decision quiet_market small_account tight_limits
     = Inr manual_plan \<and>
   map_of (mp_diagnostics manual_plan) ''liquidation_safe'' = Some (MBool True) \<and>
   policy_liquidation_price (ms_reference_price quiet_market) (mp_requested_leverage manual_plan)
     (rl_maintenance_margin_rate tight_limits) 1 = Inr (Fin (6325 / 64)) \<and>
   \<not> liquidation_safe 1 (Fin (6325 / 64)) (mp_stop_loss manual_plan)"
proof -
  have "in_range (Fin 2)" using default_manual_built by (simp add: make_manual_def default_manual_def)
  then have "make_manual (default_manual\<lparr>mn_leverage := 64\<rparr>) = Inr (default_manual\<lparr>mn_leverage := 64\<rparr>)"
    by (simp add: make_manual_def default_manual_def)
  moreover have "manual_plan_entry (default_manual\<lparr>mn_leverage := 64\<rparr>) long_decision quiet_market small_account
      tight_limits = Inr manual_plan"
    by (simp add: manual_plan_entry_def default_manual_def market_inputs entry_side_def risk_inputs_def signed_def
      make_plan_def require_positive_def manual_plan_def float_of_int_def fsub_def evaluate)
  ultimately show ?thesis
    by (simp add: manual_plan_def policy_liquidation_price_def market_inputs liquidation_safe_def float_of_int_def
      fsub_def evaluate)
qed

definition turtle_row :: registration where
  "turtle_row = [''mode'' \<mapsto> RText ''turtle'', ''class_name'' \<mapsto> RText ''TurtleMoneyManagement'',
     ''module_path'' \<mapsto> RText ''trading_plugins.money_management.turtle'',
     ''settings_names'' \<mapsto> RList [''leverage_cap'', ''n_period'', ''n_timeframe'', ''stop_n_multiple''],
     ''is_active'' \<mapsto> RBool True, ''is_deprecated'' \<mapsto> RBool False]"

definition grid_row :: registration where
  "grid_row = [''mode'' \<mapsto> RText ''grid'', ''is_active'' \<mapsto> RBool True]"

definition deployed_answers :: "availability list" where
  "deployed_answers =
     [\<lparr>av_mode = ''grid'', av_runnable = False, av_reason = Some REGISTERED_ONLY\<rparr>,
      \<lparr>av_mode = ''manual'', av_runnable = False, av_reason = Some DEPLOYED_ONLY\<rparr>,
      \<lparr>av_mode = ''signal-exit-atr'', av_runnable = False, av_reason = Some DEPLOYED_ONLY\<rparr>,
      \<lparr>av_mode = ''turtle'', av_runnable = True, av_reason = None\<rparr>]"

lemma deployed_reconciled:
  "reconcile_availability (Some [turtle_row, grid_row]) deployed_policies = Inr deployed_answers"
proof -
  have t: "registrations_by_mode [] [turtle_row, grid_row] = Inr [(''turtle'', turtle_row), (''grid'', grid_row)]"
    by (simp add: turtle_row_def grid_row_def)
  have s: "sort (remdups (map fst [(''turtle'', turtle_row), (''grid'', grid_row)] @ map fst deployed_policies)) =
      [''grid'', ''manual'', ''signal-exit-atr'', ''turtle'']"
    by (simp add: deployed_policies_def sort_key_simps)
  show ?thesis
    unfolding reconcile_availability_def option.case t bindR_Inr s
    by (simp add: unrunnable_reason_def deployed_policies_def policy_settings_def turtle_row_def deployed_answers_def)
       blast
qed

definition bar_at :: "nat \<Rightarrow> candle" where
  "bar_at i = \<lparr>c_symbol = ''BTCUSDT'', c_exchange = ''binance'', c_timeframe = ''1d'',
     c_open_time = int i * 86400000000, c_close_time = int (Suc i) * 86400000000,
     c_open = Fin 100, c_high = Fin 102, c_low = Fin 98, c_close = Fin 100, c_volume = Fin 1,
     c_quote_volume = None, c_trade_count = None\<rparr>"

lemma turtle_series_causal:
  assumes "turtle_n_series (cs @ ds) period = Inr s"
  shows "\<exists>u v. turtle_n_series cs period = Inr u \<and> s = u @ v \<and>
    map fst u = map c_close_time (drop (nat period - 1) cs)"
  by (rule turtle_n_causal [OF assms])

lemma constant_series:
  "turtle_n_series ([bar_at 0, bar_at 1, bar_at 2] @ [bar_at 3]) 2 =
    Inr [(172800000000, Fin 4), (259200000000, Fin 4), (345600000000, Fin 4)]"
  by (simp add: turtle_n_series_def bar_at_def true_range_def wilder_step_def fsub_def fmax_def float_of_int_def
    evaluate numeral_2_eq_2)

lemma turtle_series_causal_witness:
  "\<exists>u. turtle_n_series [bar_at 0, bar_at 1, bar_at 2] 2 = Inr u \<and> map fst u = [172800000000, 259200000000]"
  using turtle_series_causal [OF constant_series] by (auto simp: bar_at_def)

end
