(* ===== verification/BacktestAdapters.thy ===== *)
theory BacktestAdapters
  imports WalletDomain
begin

section \<open>Backtest adapters (backtest_service/adapters/cost_model.py, clock.py, broker.py)\<close>

text \<open>
  The ports of the engine as the backtest provides them: the cost model over one mapping of
  named values, the simulated clock over a schedule of instants, and the broker that normalizes
  one request and matches it against the configured candles. The cost model is an instance of
  \<open>cost_contract\<close>.
\<close>

subsection \<open>Cost model\<close>

type_synonym cost_values = "(string \<times> decimal) list"

definition DEFAULTS :: cost_values where
  "DEFAULTS = [(''futures_maker_fee_rate'', 2 / 10000), (''futures_taker_fee_rate'', 5 / 10000),
     (''spot_taker_fee_rate'', 5 / 10000), (''maintenance_margin_rate'', 4 / 1000),
     (''funding_fallback_rate'', 1 / 10000), (''futures_entry_slippage_rate'', 5 / 10000),
     (''spot_entry_slippage_rate'', 1 / 1000), (''exit_slippage_rate'', 1 / 10000), (''spread_rate'', 0),
     (''impact_coefficient'', 0), (''gap_multiplier'', 2), (''position_size_pct'', 20 / 100)]"

definition STANDARD_SLIPPAGE_KEYS :: "string list" where
  "STANDARD_SLIPPAGE_KEYS = [''spread_rate'', ''impact_coefficient'', ''liquidity'']"

record backtest_costs =
  bc_params :: cost_values
  bc_market_type :: market_type
  bc_standard_slippage :: bool

definition validate_value :: "string \<Rightarrow> decimal \<Rightarrow> unit res" where
  "validate_value name v =
     (if name = ''liquidity'' then raise_if (v \<le> 0) (ValueError ''liquidity'') (Inr ())
      else if name = ''gap_multiplier'' then raise_if (v < 1) (ValueError ''gap_multiplier'') (Inr ())
      else raise_if (v < 0) (ValueError ''non-negative'') (Inr ()))"

definition cost_value :: "cost_values \<Rightarrow> string \<Rightarrow> decimal res" where
  "cost_value values name = (case map_of values name of None \<Rightarrow> Inl (KeyError name) | Some v \<Rightarrow> Inr v)"

definition validate_values :: "cost_values \<Rightarrow> unit res" where
  "validate_values values =
     bindR (mapR (\<lambda>(name, v). validate_value name v) values) (\<lambda>_.
     bindR (cost_value values ''position_size_pct'') (\<lambda>pct.
     raise_if (pct \<le> 0 \<or> 1 < pct) (ValueError ''position_size_pct'') (Inr ())))"

definition make_backtest_costs :: "cost_values \<Rightarrow> market_type \<Rightarrow> backtest_costs res" where
  "make_backtest_costs overrides market_type =
     raise_if (list_ex (\<lambda>(k, _). map_of DEFAULTS k = None \<and> k \<noteq> ''liquidity'') overrides)
       (ValueError ''unknown cost parameter'')
     (bindR (validate_values (dict_merge DEFAULTS overrides)) (\<lambda>_.
      Inr \<lparr>bc_params = dict_merge DEFAULTS overrides, bc_market_type = market_type,
        bc_standard_slippage = list_ex (\<lambda>(k, _). k \<in> set STANDARD_SLIPPAGE_KEYS) overrides\<rparr>))"

definition backtest_fee :: "backtest_costs \<Rightarrow> string \<Rightarrow> decimal \<Rightarrow> decimal res" where
  "backtest_fee c name notional =
     raise_if (name = []) (ValueError ''symbol'')
     (if bc_market_type c = SPOT then cost_value (bc_params c) ''spot_taker_fee_rate''
      else cost_value (bc_params c) ''futures_taker_fee_rate'')"

definition backtest_slippage :: "backtest_costs \<Rightarrow> order \<Rightarrow> slip_context option \<Rightarrow> decimal res" where
  "backtest_slippage c ord context =
     bindR (if bc_standard_slippage c then Inr None
       else bindR (cost_value (bc_params c)
           (if o_reduce_only ord \<or> o_close_position ord then ''exit_slippage_rate''
            else if o_market_type ord = SPOT then ''spot_entry_slippage_rate''
            else ''futures_entry_slippage_rate'')) (\<lambda>r. Inr (Some r))) (\<lambda>fixed_rate.
     bindR (cost_value (bc_params c) ''spread_rate'') (\<lambda>spread.
     bindR (cost_value (bc_params c) ''impact_coefficient'') (\<lambda>impact.
     bindR (cost_value (bc_params c) ''gap_multiplier'') (\<lambda>gap.
     bindR (make_slippage_params \<lparr>sp_spread_rate = spread, sp_impact_coefficient = impact,
         sp_liquidity = map_of (bc_params c) ''liquidity'', sp_fixed_rate = fixed_rate,
         sp_gap_multiplier = gap\<rparr>) (\<lambda>params.
     effective_rate params ord context)))))"

definition backtest_funding_rate :: "backtest_costs \<Rightarrow> instant \<Rightarrow> decimal res" where
  "backtest_funding_rate c at_time = cost_value (bc_params c) ''funding_fallback_rate''"

definition backtest_liq_params :: "backtest_costs \<Rightarrow> decimal option" where
  "backtest_liq_params c = map_of (bc_params c) ''maintenance_margin_rate''"

definition backtest_cost_model :: "backtest_costs \<Rightarrow> cost_model" where
  "backtest_cost_model c = \<lparr>cm_fee = backtest_fee c, cm_slippage = backtest_slippage c,
     cm_funding_rate = backtest_funding_rate c, cm_maintenance_margin_rate = backtest_liq_params c\<rparr>"

subsection \<open>Clock\<close>

record clock =
  ck_schedule :: "instant list"
  ck_index :: nat

fun strictly_increasing :: "instant list \<Rightarrow> bool" where
  "strictly_increasing (l # r # rest) = (l < r \<and> strictly_increasing (r # rest))"
| "strictly_increasing _ = True"

definition make_clock :: "instant list \<Rightarrow> clock res" where
  "make_clock schedule =
     raise_if (schedule = []) (ValueError ''empty schedule'')
     (raise_if (\<not> strictly_increasing schedule) (ValueError ''strictly increasing'')
     (Inr \<lparr>ck_schedule = schedule, ck_index = 0\<rparr>))"

definition clock_from_candles :: "candle list \<Rightarrow> clock res" where
  "clock_from_candles candles = make_clock (sort (remdups (concat (map (\<lambda>c. [c_open_time c, c_close_time c]) candles))))"

definition clock_now :: "clock \<Rightarrow> instant" where
  "clock_now k = ck_schedule k ! ck_index k"

definition advance :: "clock \<Rightarrow> clock res" where
  "advance k =
     raise_if (length (ck_schedule k) \<le> ck_index k + 1) (StopIteration ''schedule exhausted'')
     (Inr (k\<lparr>ck_index := ck_index k + 1\<rparr>))"

subsection \<open>Broker\<close>

record execution_context =
  xc_decision_candle :: candle
  xc_history :: "candle list"
  xc_risk_budget :: "decimal option"
  xc_available_margin :: "decimal option"
  xc_leverage :: int

record backtest_broker =
  bb_execution :: "execution_context option"
  bb_next_sequence :: nat

definition bt_configure_execution :: "fill_timing \<Rightarrow> execution_context \<Rightarrow> (backtest_broker, unit) st" where
  "bt_configure_execution timing x br =
     (if timing \<noteq> NextBar then (br, Inl (ValueError ''next_bar only''))
      else if xc_decision_candle x \<notin> set (xc_history x) then (br, Inl (ValueError ''decision candle''))
      else (br\<lparr>bb_execution := Some x\<rparr>, Inr ()))"

text \<open>
  \<open>submit\<close>: the order sits in the open list only while it is matched; a raising match ends the
  run, so the list is not kept. The order id is the sequence number.
\<close>

definition bt_submit :: "cost_model \<Rightarrow> order_request \<Rightarrow> (backtest_broker, fill) st" where
  "bt_submit cm request br =
     (case bb_execution br of
        None \<Rightarrow> (br, Inl (RuntimeError ''configure_execution''))
      | Some x \<Rightarrow>
          (br\<lparr>bb_next_sequence := bb_next_sequence br + 1\<rparr>,
           bindR (normalize_order request (Some (SequenceId (bb_next_sequence br))) None None None) (\<lambda>ord.
           bindR (match ord (xc_decision_candle x) (xc_history x) cm NextBar (xc_risk_budget x)
               (xc_available_margin x) (xc_leverage x)) (\<lambda>(_, f). Inr f))))"

subsection \<open>The cost model keeps the contract\<close>

lemma validate_values_member:
  assumes "validate_values vals = Inr ()" and "map_of vals name = Some v"
  shows "name = ''liquidity'' \<and> 0 < v \<or> name = ''gap_multiplier'' \<and> 1 \<le> v \<or>
    name \<noteq> ''liquidity'' \<and> name \<noteq> ''gap_multiplier'' \<and> 0 \<le> v"
proof -
  obtain us where us: "mapR (\<lambda>(name, v). validate_value name v) vals = Inr us"
    using assms(1) by (auto simp: validate_values_def bindR_eq_Inr)
  have "(\<lambda>(name, v). validate_value name v) x = Inr ()" if "x \<in> set vals" for x
    using us that by (induction vals arbitrary: us) (auto simp: bindR_eq_Inr)
  from this [OF map_of_SomeD [OF assms(2)]] show ?thesis
    by (auto simp: validate_value_def split: if_splits)
qed

lemma make_backtest_costs_valid:
  "make_backtest_costs overrides mt = Inr c \<Longrightarrow> validate_values (bc_params c) = Inr ()"
  by (auto simp: make_backtest_costs_def bindR_eq_Inr)

lemma backtest_cost_contract:
  assumes "make_backtest_costs overrides mt = Inr c"
  shows "cost_contract (backtest_cost_model c)"
proof
  note v = validate_values_member [OF make_backtest_costs_valid [OF assms]]
  fix name n n' q q' ord x
  show "0 \<le> q" if "cm_fee (backtest_cost_model c) name n = Inr q"
    using that v [of "''spot_taker_fee_rate''" q] v [of "''futures_taker_fee_rate''" q]
    by (auto simp: backtest_cost_model_def backtest_fee_def cost_value_def split: if_splits option.splits)
  show "isOk (cm_fee (backtest_cost_model c) name n')" if "isOk (cm_fee (backtest_cost_model c) name n)"
    using that by (simp add: backtest_cost_model_def backtest_fee_def)
  show "q \<le> q'" if "cm_fee (backtest_cost_model c) name n = Inr q" "cm_fee (backtest_cost_model c) name n' = Inr q'"
    using that by (simp add: backtest_cost_model_def backtest_fee_def)
  show "0 \<le> q" if "cm_slippage (backtest_cost_model c) ord x = Inr q" "0 \<le> o_quantity ord"
    using that(1) effective_rate_nonneg [OF _ _ that(2)]
    by (auto simp: backtest_cost_model_def backtest_slippage_def bindR_eq_Inr)
qed

definition default_backtest_costs :: backtest_costs where
  "default_backtest_costs = \<lparr>bc_params = DEFAULTS, bc_market_type = FUTURES, bc_standard_slippage = False\<rparr>"

lemma default_backtest_costs_built: "make_backtest_costs [] FUTURES = Inr default_backtest_costs"
  by (simp add: make_backtest_costs_def dict_merge_def DEFAULTS_def validate_values_def validate_value_def
    cost_value_def default_backtest_costs_def)

interpretation backtest: cost_contract "backtest_cost_model default_backtest_costs"
  by (rule backtest_cost_contract) (rule default_backtest_costs_built)

subsection \<open>Moving the clock\<close>

text \<open>\<open>Engine._move_clock\<close>: advance until the target is reached; the target must be on the schedule.\<close>

function move_clock :: "instant \<Rightarrow> clock \<Rightarrow> clock res" where
  "move_clock target k =
     (if clock_now k < target then bindR (advance k) (move_clock target)
      else raise_if (clock_now k \<noteq> target) (ValueError ''clock schedule'') (Inr k))"
  by pat_completeness auto
termination
  by (relation "measure (\<lambda>(target, k). length (ck_schedule k) - ck_index k)") (auto simp: advance_def)

declare move_clock.simps [simp del]

lemma move_clock_now: "move_clock target k = Inr k' \<Longrightarrow> clock_now k' = target"
proof (induction target k rule: move_clock.induct)
  case (1 target k)
  show ?case
    using 1(2) 1(1) by (subst (asm) move_clock.simps) (auto simp: bindR_eq_Inr split: if_splits)
qed

end
