(* ===== verification/SeriesKeys.thy ===== *)
theory SeriesKeys
  imports Trades "HOL-Library.Char_ord" "HOL-Library.List_Lexorder"
begin

section \<open>Series names and keys (core_lib/series)\<close>

text \<open>
  The key under which a finalized indicator value is stored and looked up: the normalized name,
  the sorted parameters and the timeframe. Text is 8-bit and \<open>casefold\<close> the ASCII one; the text
  of a float that is no integer is a parameter.
\<close>

definition lower_char :: "char \<Rightarrow> char" where
  "lower_char ch = (let c = (of_char ch :: nat) in if 65 \<le> c \<and> c \<le> 90 then char_of (c + 32) else ch)"

definition name_char :: "char \<Rightarrow> bool" where
  "name_char ch \<longleftrightarrow> (let c = (of_char ch :: nat) in 97 \<le> c \<and> c \<le> 122 \<or> 48 \<le> c \<and> c \<le> 57)"

text \<open>\<open>re.sub\<close>: each maximal run of other characters becomes one underscore.\<close>

fun collapse :: "bool \<Rightarrow> string \<Rightarrow> string" where
  "collapse in_run [] = []"
| "collapse in_run (ch # rest) =
     (if name_char ch then ch # collapse False rest
      else if in_run then collapse True rest
      else CHR ''_'' # collapse True rest)"

definition strip_char :: "char \<Rightarrow> string \<Rightarrow> string" where
  "strip_char ch s = rev (dropWhile (\<lambda>x. x = ch) (rev (dropWhile (\<lambda>x. x = ch) s)))"

definition normalize_series_name :: "string \<Rightarrow> string" where
  "normalize_series_name name = strip_char CHR ''_'' (collapse False (map lower_char name))"

definition resolve_series_timeframe :: "string \<Rightarrow> string \<Rightarrow> string res" where
  "resolve_series_timeframe declared execution =
     raise_if (timeframe_minutes execution = None) (ValueError ''execution timeframe'')
     (if declared = ''strategy'' then Inr execution
      else raise_if (declared = execution) (ValueError ''declared as strategy'') (Inr declared))"

fun nat_text :: "nat \<Rightarrow> string" where
  "nat_text n = (if n < 10 then [char_of (48 + n)] else nat_text (n div 10) @ [char_of (48 + n mod 10)])"

definition int_text :: "int \<Rightarrow> string" where
  "int_text i = (if i < 0 then CHR ''-'' # nat_text (nat (- i)) else nat_text (nat i))"

fun series_param :: "(pyfloat \<Rightarrow> string) \<Rightarrow> meta_value \<Rightarrow> string res" where
  "series_param float_text (MBool b) = Inr (if b then ''true'' else ''false'')"
| "series_param float_text (MInt i) = Inr (int_text i)"
| "series_param float_text (MFloat v) =
     Inr (case v of Fin q \<Rightarrow> if of_int \<lfloor>q\<rfloor> = q then int_text \<lfloor>q\<rfloor> else float_text v | _ \<Rightarrow> float_text v)"
| "series_param float_text (MStr s) = Inr s"
| "series_param float_text MNone = Inr ''None''"
| "series_param float_text _ = Inl (NotImplementedError ''parameter text'')"

fun intersperse_commas :: "string list \<Rightarrow> string" where
  "intersperse_commas [] = []"
| "intersperse_commas [s] = s"
| "intersperse_commas (s # rest) = s @ '','' @ intersperse_commas rest"

definition series_key_of ::
    "(pyfloat \<Rightarrow> string) \<Rightarrow> string \<Rightarrow> (string \<times> meta_value) list \<Rightarrow> string \<Rightarrow> string res" where
  "series_key_of float_text name params timeframe =
     raise_if (timeframe_minutes timeframe = None) (ValueError ''series key timeframe'')
     (bindR (mapR (\<lambda>(key, v). bindR (series_param float_text v) (\<lambda>t. Inr (key @ ''='' @ t)))
        (sort_key fst params)) (\<lambda>items.
      let rendered = intersperse_commas items; normalized = normalize_series_name name;
          identity = (if rendered = [] then normalized else normalized @ '':'' @ rendered) in
      Inr (identity @ ''@'' @ timeframe)))"

declare nat_text.simps [simp del]

subsection \<open>Keys keep timeframes apart\<close>

text \<open>A timeframe has no \<open>@\<close>, so keys of different timeframes differ.\<close>

lemma timeframe_no_at: "timeframe_minutes tf = Some n \<Longrightarrow> CHR ''@'' \<notin> set tf"
proof -
  assume t: "timeframe_minutes tf = Some n"
  then have ne: "tf \<noteq> []" and ds: "list_all is_digit (butlast tf)"
    by (auto simp: timeframe_minutes_def Let_def split: if_splits option.splits)
  have l: "last tf \<in> {CHR ''m'', CHR ''h'', CHR ''d''}"
    using t ne by (auto simp: timeframe_minutes_def split: if_splits option.splits)
  have "\<not> is_digit CHR ''@''" by (simp add: is_digit_def)
  then have "CHR ''@'' \<notin> set (butlast tf)" using ds by (auto simp: list_all_iff)
  moreover have "set tf = set (butlast tf) \<union> {last tf}"
    using append_butlast_last_id [OF ne] by (metis set_append empty_set list.simps(15))
  ultimately show ?thesis using l by auto
qed

lemma suffix_at: "x \<notin> set b \<Longrightarrow> takeWhile (\<lambda>y. y \<noteq> x) (rev (a @ x # b)) = rev b"
  by (subst rev_append, simp, subst takeWhile_append2) auto

lemma series_key_timeframe:
  assumes "series_key_of ft n p tf = Inr k" and "series_key_of ft' n' p' tf' = Inr k"
  shows "tf = tf'"
proof -
  obtain a c where "k = a @ CHR ''@'' # tf" "k = c @ CHR ''@'' # tf'"
    "timeframe_minutes tf \<noteq> None" "timeframe_minutes tf' \<noteq> None"
    using assms by (auto simp: series_key_of_def bindR_eq_Inr Let_def)
  then have "rev tf = rev tf'" using suffix_at [of "CHR ''@''" tf a] suffix_at [of "CHR ''@''" tf' c] timeframe_no_at by auto
  then show ?thesis by simp
qed

end
