(* ===== verification/Engine.thy ===== *)
theory Engine
  imports BacktestAdapters PolicyRegistry SeriesKeys
begin

section \<open>The backtest engine (backtest_service/engine/engine.py)\<close>

text \<open>
  The candle loop of one run: orders decided on a confirmed candle execute at the open of the
  next, funding is settled at the boundaries a candle crosses, protection levels are walked, the
  candle is confirmed, marked and shown to the strategy, and every step writes Evidence. The
  engine is a state record that the methods thread; a raising method ends the run. The strategy,
  the indicator states and the funding feed are parameters of the run: they are the plug-ins and
  ports the engine calls. A row of Evidence is the call of \<open>evidence.record\<close> with the objects its
  columns are read from.
\<close>

subsection \<open>State\<close>

datatype feature = FNum pyfloat | FInt int | FBool bool | FMap "(string \<times> feature) list" | FOther

type_synonym features = "(string \<times> feature) list"

record pending_order =
  pd_request :: order_request
  pd_decision_id :: nat
  pd_decision_candle :: candle
  pd_feature_ts :: int
  pd_decision_ts :: int
  pd_exit_reason :: "exit_reason option"
  pd_signal :: "trading_signal option"
  pd_candidate_id :: "nat option"

record signal_row =
  sg_signal_id :: nat
  sg_candle :: candle
  sg_signal :: trading_signal
  sg_intent :: string
  sg_side :: "position_side option"

record decision_row =
  dn_decision_id :: nat
  dn_signal_id :: "nat option"
  dn_decision_ts :: instant
  dn_action :: string
  dn_side :: "position_side option"
  dn_quantity :: "pyfloat option"
  dn_stop_price :: "pyfloat option"
  dn_take_profit_price :: "pyfloat option"
  dn_risk_amount :: "pyfloat option"
  dn_stop_distance :: "pyfloat option"
  dn_sizing_method :: "string option"
  dn_skip_reason :: "string option"
  dn_compliant :: bool
  dn_planned :: "instant option"

record execution_row =
  ex_execution_id :: nat
  ex_decision_id :: "nat option"
  ex_fill :: fill
  ex_notional :: decimal

record trade_row =
  tr_trade_id :: nat
  tr_side :: position_side
  tr_entry_execution_id :: nat
  tr_exit_execution_id :: nat
  tr_trade :: trade
  tr_r_multiple :: "pyfloat option"

record position_row =
  ps_sequence :: nat
  ps_ts :: instant
  ps_symbol :: string
  ps_trade_id :: "nat option"
  ps_position :: "position option"
  ps_mark :: decimal

record equity_row =
  eq_sequence :: nat
  eq_ts :: instant
  eq_cash :: decimal
  eq_position_value :: decimal
  eq_total :: decimal
  eq_unrealized :: decimal
  eq_fee_cum :: decimal
  eq_slippage_cum :: decimal
  eq_funding_cum :: decimal
  eq_peak :: decimal
  eq_drawdown :: pyfloat
  eq_open_positions :: int

record funding_row =
  fu_settlement_id :: nat
  fu_trade_id :: nat
  fu_settled_at :: instant
  fu_symbol :: string
  fu_side :: position_side
  fu_rate :: pyfloat
  fu_rate_source :: string
  fu_price :: decimal
  fu_price_source :: string
  fu_notional :: decimal
  fu_payment :: decimal
  fu_theoretical_payment :: decimal

record candidate_row =
  cd_candidate_id :: nat
  cd_ts :: instant
  cd_symbol :: string
  cd_trigger_rule :: string
  cd_passed_filters :: "string list"
  cd_blocked_by :: "string option"
  cd_side :: position_side
  cd_quantity :: "decimal option"
  cd_realized :: bool
  cd_linked_trade_id :: "nat option"

record feature_row =
  fe_tfs_id :: nat
  fe_trade_id :: nat
  fe_phase :: string
  fe_ts :: instant
  fe_features :: features
  fe_excursion_r :: "pyfloat option"

datatype evidence =
    SIGNAL_ROW signal_row
  | DECISION_ROW decision_row
  | EXECUTION_ROW execution_row
  | TRADE_ROW trade_row
  | POSITION_ROW position_row
  | PORTFOLIO_ROW equity_row
  | FUNDING_ROW funding_row
  | CANDIDATE_ROW candidate_row
  | FEATURE_ROW feature_row

record active_trade =
  at_trade_id :: nat
  at_entry_execution_id :: nat
  at_entry_fill :: fill
  at_signal :: trading_signal
  at_r0 :: "decimal option"
  at_candidate_id :: "nat option"
  at_total_fee :: decimal
  at_slippage :: decimal
  at_funding :: decimal
  at_position_records :: "evidence list"
  at_funding_records :: "evidence list"
  at_settled_boundaries :: "instant list"
  at_entry_features :: features
  at_mae_features :: features
  at_mfe_features :: features
  at_mae_ts :: "instant option"
  at_mfe_ts :: "instant option"
  at_mae_r :: "decimal option"
  at_mfe_r :: "decimal option"
  at_mae_pnl :: "decimal option"
  at_mfe_pnl :: "decimal option"

record 'x engine =
  g_clock :: clock
  g_broker :: backtest_broker
  g_external :: 'x
  g_pending :: "pending_order list"
  g_confirmed :: "candle list"
  g_indicators :: features
  g_rates :: "(instant \<times> decimal \<times> string) list"
  g_book :: book
  g_cash :: decimal
  g_equity_curve :: "(instant \<times> decimal) list"
  g_trades :: "trade list"
  g_active :: "active_trade option"
  g_stop_price :: "decimal option"
  g_take_profit_price :: "decimal option"
  g_last_candle :: "candle option"
  g_data_gap_exits :: nat
  g_sequence :: "string \<Rightarrow> nat"
  g_evidence :: "evidence list"

record strategy_input =
  in_candles :: "candle list"
  in_candle :: candle
  in_symbol :: string
  in_timeframe :: string
  in_market_type :: market_type
  in_indicators :: features

datatype strategy_result = NoDecision | SignalResult trading_signal | IntentResult decision_intent

text \<open>
  What a run fixes: its configuration, the candles, the policy and the plug-ins. The plug-ins
  thread their own state \<open>'x\<close>; the feed answers \<open>None\<close> for a \<open>LookupError\<close>.
\<close>

record 'x run_setup =
  ec_symbol :: string
  ec_timeframe :: string
  ec_market_type :: market_type
  ec_sizing_method :: string
  ec_risk_per_trade :: "pyfloat option"
  ec_position_size_pct :: "pyfloat option"
  ec_fill_timing :: fill_timing
  ec_trigger_feed :: string
  ec_strategy_id :: string
  ec_strategy_name :: string
  ec_run_id :: string
  ec_decision_contract :: bool
  ec_declared_settings :: "(string \<times> meta_value) list"
  ec_history :: "candle list"
  ec_minute_history :: "candle list"
  ec_costs :: cost_model
  ec_policy :: "policy option"
  ec_turtle_n :: "(instant \<times> pyfloat) list"
  ec_float_text :: "pyfloat \<Rightarrow> string"
  ec_funding :: "string \<Rightarrow> instant \<Rightarrow> decimal option res"
  ec_update_indicators :: "candle \<Rightarrow> 'x \<Rightarrow> features \<Rightarrow> ('x \<times> features) res"
  ec_analyze :: "strategy_input \<Rightarrow> position option \<Rightarrow> 'x \<Rightarrow> 'x \<times> strategy_result res"

subsection \<open>Small helpers\<close>

definition modify :: "('s \<Rightarrow> 's) \<Rightarrow> ('s, unit) st" where
  "modify f = (\<lambda>s. (f s, Inr ()))"

definition gets :: "('s \<Rightarrow> 'a res) \<Rightarrow> ('s, 'a) st" where
  "gets f = (\<lambda>s. (s, f s))"

definition record_row :: "evidence \<Rightarrow> ('x engine, unit) st" where
  "record_row e = modify (\<lambda>g. g\<lparr>g_evidence := g_evidence g @ [e]\<rparr>)"

definition next_id :: "string \<Rightarrow> ('x engine, nat) st" where
  "next_id name = (\<lambda>g. let n = g_sequence g name + 1 in (g\<lparr>g_sequence := (g_sequence g)(name := n)\<rparr>, Inr n))"

definition on_broker :: "(backtest_broker, 'a) st \<Rightarrow> ('x engine, 'a) st" where
  "on_broker m = (\<lambda>g. case m (g_broker g) of (br, r) \<Rightarrow> (g\<lparr>g_broker := br\<rparr>, r))"

definition py_trunc :: "pyfloat \<Rightarrow> int res" where
  "py_trunc v = (case v of Fin q \<Rightarrow> Inr (py_int q) | NaN \<Rightarrow> Inl (ValueError ''int nan'') | _ \<Rightarrow> Inl OverflowError)"

definition total_seconds :: "int \<Rightarrow> pyfloat" where
  "total_seconds us = fround (of_int us / 1000000)"

definition epoch_milliseconds :: "instant \<Rightarrow> int res" where
  "epoch_milliseconds t = py_trunc (fmul (total_seconds t) (Fin 1000))"

definition millisecond :: int where "millisecond = 1000"

definition signal_leverage :: "trading_signal option \<Rightarrow> int" where
  "signal_leverage s = (case s of None \<Rightarrow> 1 | Some x \<Rightarrow> (case s_leverage x of None \<Rightarrow> 1 | Some l \<Rightarrow> l))"

definition current_position :: "'x run_setup \<Rightarrow> 'x engine \<Rightarrow> position option res" where
  "current_position cfg g =
     (let long = book_get (g_book g) (ec_symbol cfg) LONG;
          short = book_get (g_book g) (ec_symbol cfg) SHORT in
      raise_if (long \<noteq> None \<and> short \<noteq> None) (ValueError ''one directional position'')
      (Inr (case long of None \<Rightarrow> short | Some p \<Rightarrow> Some p)))"

definition current_equity :: "'x run_setup \<Rightarrow> 'x engine \<Rightarrow> decimal res" where
  "current_equity cfg g = bindR (current_position cfg g) (\<lambda>p. recompute (g_cash g) p)"

definition engine_mmr :: "'x run_setup \<Rightarrow> decimal res" where
  "engine_mmr cfg =
     (case cm_maintenance_margin_rate (ec_costs cfg) of
        None \<Rightarrow> Inl (TypeError ''maintenance_margin_rate'')
      | Some v \<Rightarrow> raise_if (\<not> (0 \<le> v \<and> v < 1)) (ValueError ''maintenance_margin_rate'') (Inr v))"

definition checked_cash :: "decimal \<Rightarrow> decimal res" where
  "checked_cash v = bindR (quantize_amount v) (\<lambda>n. raise_if (n < 0) (ValueError ''cash negative'') (Inr n))"

definition risk_budget_of :: "'x run_setup \<Rightarrow> pending_order \<Rightarrow> 'x engine \<Rightarrow> decimal option res" where
  "risk_budget_of cfg pd g =
     (if rq_reduce_only (pd_request pd) \<or> ec_sizing_method cfg \<noteq> ''risk_based'' then Inr None
      else (case ec_risk_per_trade cfg of
          None \<Rightarrow> Inl (AssertionError ''risk_per_trade'')
        | Some risk \<Rightarrow>
            bindR (to_decimal risk quantize_amount) (\<lambda>normalized.
            bindR (current_equity cfg g) (\<lambda>eq.
            bindR (quantize_amount (dmul eq normalized)) (\<lambda>b. Inr (Some b))))))"

fun next_candle :: "candle list \<Rightarrow> candle \<Rightarrow> candle option res" where
  "next_candle [] c = Inl (ValueError ''candle absent from history'')"
| "next_candle (x # xs) c = (if x = c then Inr (case xs of [] \<Rightarrow> None | y # _ \<Rightarrow> Some y) else next_candle xs c)"

definition flat_candle :: "candle \<Rightarrow> instant \<Rightarrow> candle res" where
  "flat_candle c opened =
     make_candle \<lparr>c_symbol = c_symbol c, c_exchange = c_exchange c, c_timeframe = c_timeframe c,
       c_open_time = opened, c_close_time = opened + (c_close_time c - c_open_time c),
       c_open = c_close c, c_high = c_close c, c_low = c_close c, c_close = c_close c,
       c_volume = Fin 0, c_quote_volume = None, c_trade_count = None\<rparr>"

definition exit_request :: "position \<Rightarrow> order_request res" where
  "exit_request p =
     make_order_request \<lparr>rq_symbol = p_symbol p, rq_side = (if p_side p = LONG then SELL else BUY),
       rq_order_type = MARKET, rq_quantity = float_of_decimal (p_quantity p), rq_price = None,
       rq_stop_price = None, rq_market_type = p_market_type p, rq_position_side = p_side p,
       rq_reduce_only = True, rq_close_position = False, rq_time_in_force = ''GTC''\<rparr>"

definition entry_request :: "trading_signal \<Rightarrow> position_side \<Rightarrow> pyfloat \<Rightarrow> order_request res" where
  "entry_request s side quantity =
     make_order_request \<lparr>rq_symbol = s_symbol s, rq_side = (if side = LONG then BUY else SELL),
       rq_order_type = MARKET, rq_quantity = quantity, rq_price = Some (s_price s),
       rq_stop_price = s_stop_loss s, rq_market_type = s_market_type s, rq_position_side = side,
       rq_reduce_only = False, rq_close_position = False, rq_time_in_force = ''GTC''\<rparr>"

definition compliant :: "'x run_setup \<Rightarrow> bool" where
  "compliant cfg \<longleftrightarrow> ec_sizing_method cfg = ''risk_based''"

text \<open>The decision row of an exit that the engine itself takes.\<close>

definition forced_exit_row :: "'x run_setup \<Rightarrow> nat \<Rightarrow> instant \<Rightarrow> position \<Rightarrow> instant \<Rightarrow> evidence" where
  "forced_exit_row cfg decision_id ts p planned =
     DECISION_ROW \<lparr>dn_decision_id = decision_id, dn_signal_id = None, dn_decision_ts = ts, dn_action = ''exit'',
       dn_side = Some (p_side p), dn_quantity = Some (float_of_decimal (p_quantity p)), dn_stop_price = None,
       dn_take_profit_price = None, dn_risk_amount = None, dn_stop_distance = None, dn_sizing_method = None,
       dn_skip_reason = None, dn_compliant = compliant cfg, dn_planned = Some planned\<rparr>"

subsection \<open>Applying a fill\<close>

definition execution_evidence :: "fill \<Rightarrow> nat option \<Rightarrow> ('x engine, nat) st" where
  "execution_evidence f decision_id =
     bindS (next_id ''execution'') (\<lambda>execution_id.
     bindS (liftS (quantize_amount (dmul (f_price f) (f_quantity f)))) (\<lambda>notional.
     bindS (record_row (EXECUTION_ROW \<lparr>ex_execution_id = execution_id, ex_decision_id = decision_id, ex_fill = f,
        ex_notional = notional\<rparr>)) (\<lambda>_.
     liftS (Inr execution_id))))"

definition projected_entry_cash :: "'x run_setup \<Rightarrow> fill \<Rightarrow> int \<Rightarrow> 'x engine \<Rightarrow> decimal res" where
  "projected_entry_cash cfg f leverage g =
     bindR (quantize_amount (dmul (f_price f) (f_quantity f))) (\<lambda>notional.
     bindR (if ec_market_type cfg = FUTURES then bindR (ddiv notional (of_int leverage)) quantize_amount
       else Inr notional) (\<lambda>added_margin.
     bindR (quantize_amount (dsub (dsub (g_cash g) added_margin) (f_fee f))) (\<lambda>projected.
     raise_if (projected < 0) (ValueError ''entry exceeds available cash'') (Inr projected))))"

definition entry_liquidation :: "'x run_setup \<Rightarrow> fill \<Rightarrow> int \<Rightarrow> decimal res" where
  "entry_liquidation cfg f leverage =
     (if ec_market_type cfg = FUTURES
      then bindR (engine_mmr cfg) (\<lambda>mmr. liquidation_price (f_price f) leverage mmr (f_position_side f))
      else Inr 0)"

definition optional_level :: "pyfloat option \<Rightarrow> decimal option res" where
  "optional_level v =
     (case v of None \<Rightarrow> Inr None | Some x \<Rightarrow> bindR (to_decimal x quantize_price) (\<lambda>d. Inr (Some d)))"

definition initial_r0 :: "trading_signal \<Rightarrow> fill \<Rightarrow> decimal option res" where
  "initial_r0 s f =
     (case s_stop_loss s of
        None \<Rightarrow> Inr None
      | Some stop \<Rightarrow>
          bindR (to_decimal stop quantize_price) (\<lambda>level.
          bindR (quantize_amount (dmul (dabs (dsub (f_reference_price f) level)) (f_quantity f))) (\<lambda>r.
          Inr (Some r))))"

text \<open>The trade an entry fill opens, or the costs it adds to the open one.\<close>

definition open_or_extend_trade ::
    "fill \<Rightarrow> trading_signal option \<Rightarrow> nat option \<Rightarrow> nat \<Rightarrow> ('x engine, unit) st" where
  "open_or_extend_trade f sig candidate_id execution_id = (\<lambda>g.
     case g_active g of
       None \<Rightarrow>
         (case sig of
            None \<Rightarrow> (g, Inl (ValueError ''originating signal''))
          | Some s \<Rightarrow>
              bindS (next_id ''trade'') (\<lambda>trade_id.
              bindS (liftS (initial_r0 s f)) (\<lambda>r0.
              bindS (modify (\<lambda>g. g\<lparr>g_active := Some \<lparr>at_trade_id = trade_id, at_entry_execution_id = execution_id,
                 at_entry_fill = f, at_signal = s, at_r0 = r0, at_candidate_id = candidate_id,
                 at_total_fee = f_fee f, at_slippage = f_slippage f, at_funding = 0,
                 at_position_records = [], at_funding_records = [], at_settled_boundaries = [],
                 at_entry_features = g_indicators g, at_mae_features = [], at_mfe_features = [],
                 at_mae_ts = None, at_mfe_ts = None, at_mae_r = None, at_mfe_r = None,
                 at_mae_pnl = None, at_mfe_pnl = None\<rparr>\<rparr>)) (\<lambda>_.
              bindS (liftS (optional_level (s_stop_loss s))) (\<lambda>stop.
              bindS (modify (\<lambda>g. g\<lparr>g_stop_price := stop\<rparr>)) (\<lambda>_.
              bindS (liftS (optional_level (s_take_profit s))) (\<lambda>take_profit.
              modify (\<lambda>g. g\<lparr>g_take_profit_price := take_profit\<rparr>))))))) g)
     | Some a \<Rightarrow>
         bindS (liftS (quantize_amount (dadd (at_total_fee a) (f_fee f)))) (\<lambda>fee.
         bindS (liftS (quantize_amount (dadd (at_slippage a) (f_slippage f)))) (\<lambda>slip.
         modify (\<lambda>g. g\<lparr>g_active := Some (a\<lparr>at_total_fee := fee, at_slippage := slip\<rparr>)\<rparr>))) g)"

definition apply_entry ::
    "'x run_setup \<Rightarrow> fill \<Rightarrow> position option \<Rightarrow> decimal \<Rightarrow> trading_signal option \<Rightarrow> nat option \<Rightarrow> nat \<Rightarrow>
      ('x engine, unit) st" where
  "apply_entry cfg f before projected sig candidate_id execution_id =
     bindS (liftS (entry_liquidation cfg f (signal_leverage sig))) (\<lambda>liq.
     bindS (gets (\<lambda>g. apply_fill (g_book g) f (Some (signal_leverage sig)) (Some ISOLATED)
        (ec_market_type cfg) liq)) (\<lambda>b.
     bindS (modify (\<lambda>g. g\<lparr>g_book := b\<rparr>)) (\<lambda>_.
     bindS (gets (current_position cfg)) (\<lambda>position_after.
     (case position_after of
        None \<Rightarrow> liftS (Inl (AssertionError ''position_after''))
      | Some p \<Rightarrow>
     bindS (liftS (quantize_amount (dsub (p_margin p) (case before of None \<Rightarrow> 0 | Some q \<Rightarrow> p_margin q)))) (\<lambda>added_margin.
     bindS (gets (\<lambda>g. quantize_amount (dsub (dsub (g_cash g) added_margin) (f_fee f)))) (\<lambda>actual_cash.
     bindS (liftS (raise_if (actual_cash \<noteq> projected) (RuntimeError ''entry cash projection'') (checked_cash actual_cash))) (\<lambda>cash.
     bindS (modify (\<lambda>g. g\<lparr>g_cash := cash\<rparr>)) (\<lambda>_.
     open_or_extend_trade f sig candidate_id execution_id)))))))))"

subsection \<open>Completing a trade\<close>

definition completed_trade :: "'x run_setup \<Rightarrow> active_trade \<Rightarrow> fill \<Rightarrow> trade res" where
  "completed_trade cfg a x =
     (let e = at_entry_fill a; side = f_position_side e;
          reference_delta = (if side = LONG then dsub (f_reference_price x) (f_reference_price e)
            else dsub (f_reference_price e) (f_reference_price x)) in
      bindR (quantize_amount (dmul reference_delta (f_quantity x))) (\<lambda>gross.
      bindR (quantize_amount (dsub (dsub (dsub (dsub gross (at_total_fee a)) (at_slippage a)) (at_funding a)) 0)) (\<lambda>net.
      bindR (quantize_amount (dmul (f_reference_price e) (f_quantity e))) (\<lambda>basis.
      bindR (ddiv net basis) (\<lambda>ratio.
      bindR (quantize_percent (dmul ratio 100)) (\<lambda>return_pct.
      bindR (py_trunc (total_seconds (f_timestamp x - f_timestamp e))) (\<lambda>hold.
      (let reason = (case f_exit_reason x of None \<Rightarrow> SIGNAL_EXIT | Some r \<Rightarrow> r) in
      make_trade \<lparr>t_source_type = BACKTEST, t_symbol = f_symbol x, t_side = f_side e,
        t_market_type = ec_market_type cfg, t_entry_price = f_reference_price e,
        t_entry_quantity = f_quantity e, t_entry_time = f_timestamp e,
        t_exit_price = f_reference_price x, t_exit_quantity = f_quantity x, t_exit_time = f_timestamp x,
        t_exit_reason = reason, t_gross_pnl = gross, t_total_fee = at_total_fee a,
        t_slippage = at_slippage a, t_funding_cost = at_funding a, t_liquidation_penalty = 0,
        t_net_pnl = net, t_return_pct = return_pct, t_r0 = at_r0 a,
        t_leverage = signal_leverage (Some (at_signal a)), t_liquidated = (reason = LIQUIDATION),
        t_wallet_id = None, t_backtest_run_id = Some (ec_run_id cfg), t_strategy_id = ec_strategy_id cfg,
        t_strategy_name = ec_strategy_name cfg, t_hold_duration_seconds = hold,
        t_signal_confidence = s_confidence (at_signal a), t_reason = s_reason (at_signal a)\<rparr>))))))))"

definition r_multiple_of :: "trade \<Rightarrow> pyfloat option res" where
  "r_multiple_of t =
     (case t_r0 t of
        None \<Rightarrow> Inr None
      | Some r \<Rightarrow> if r = 0 then Inr None
          else bindR (ddiv (t_net_pnl t) r) (\<lambda>q. Inr (Some (float_of_decimal q))))"

definition record_rows :: "evidence list \<Rightarrow> ('x engine, unit) st" where
  "record_rows es = modify (\<lambda>g. g\<lparr>g_evidence := g_evidence g @ es\<rparr>)"

definition feature_snapshot ::
    "nat \<Rightarrow> string \<Rightarrow> instant \<Rightarrow> features \<Rightarrow> decimal option \<Rightarrow> ('x engine, unit) st" where
  "feature_snapshot trade_id phase ts feats excursion_r =
     bindS (next_id ''tfs'') (\<lambda>tfs_id.
     record_row (FEATURE_ROW \<lparr>fe_tfs_id = tfs_id, fe_trade_id = trade_id, fe_phase = phase, fe_ts = ts,
       fe_features = feats, fe_excursion_r = map_option float_of_decimal excursion_r\<rparr>))"

definition feature_snapshots :: "active_trade \<Rightarrow> fill \<Rightarrow> ('x engine, unit) st" where
  "feature_snapshots a x =
     (let e = at_entry_fill a;
          ts_or = (\<lambda>t. case t of None \<Rightarrow> f_timestamp e | Some ts \<Rightarrow> ts);
          features_or = (\<lambda>fs. if fs = [] then at_entry_features a else fs) in
      bindS (gets (\<lambda>g. Inr (g_indicators g))) (\<lambda>exit_features.
      bindS (feature_snapshot (at_trade_id a) ''entry'' (f_timestamp e) (at_entry_features a) None) (\<lambda>_.
      bindS (feature_snapshot (at_trade_id a) ''exit'' (f_timestamp x) exit_features None) (\<lambda>_.
      bindS (feature_snapshot (at_trade_id a) ''mae'' (ts_or (at_mae_ts a)) (features_or (at_mae_features a)) (at_mae_r a)) (\<lambda>_.
      feature_snapshot (at_trade_id a) ''mfe'' (ts_or (at_mfe_ts a)) (features_or (at_mfe_features a)) (at_mfe_r a))))))"

definition complete_trade :: "'x run_setup \<Rightarrow> active_trade \<Rightarrow> fill \<Rightarrow> nat \<Rightarrow> ('x engine, unit) st" where
  "complete_trade cfg a x exit_execution_id =
     bindS (liftS (completed_trade cfg a x)) (\<lambda>t.
     bindS (modify (\<lambda>g. g\<lparr>g_trades := g_trades g @ [t]\<rparr>)) (\<lambda>_.
     bindS (liftS (r_multiple_of t)) (\<lambda>r_multiple.
     bindS (record_row (TRADE_ROW \<lparr>tr_trade_id = at_trade_id a, tr_side = f_position_side (at_entry_fill a),
        tr_entry_execution_id = at_entry_execution_id a, tr_exit_execution_id = exit_execution_id,
        tr_trade = t, tr_r_multiple = r_multiple\<rparr>)) (\<lambda>_.
     bindS (record_rows (at_position_records a)) (\<lambda>_.
     bindS (record_rows (at_funding_records a)) (\<lambda>_.
     bindS (case at_candidate_id a of
         None \<Rightarrow> liftS (Inr ())
       | Some candidate_id \<Rightarrow>
           record_row (CANDIDATE_ROW \<lparr>cd_candidate_id = candidate_id, cd_ts = s_timestamp (at_signal a),
             cd_symbol = s_symbol (at_signal a), cd_trigger_rule = s_reason (at_signal a),
             cd_passed_filters = [''exposure_limit''], cd_blocked_by = None,
             cd_side = f_position_side (at_entry_fill a), cd_quantity = Some (f_quantity (at_entry_fill a)),
             cd_realized = True, cd_linked_trade_id = Some (at_trade_id a)\<rparr>)) (\<lambda>_.
     feature_snapshots a x)))))))"

definition apply_exit :: "'x run_setup \<Rightarrow> fill \<Rightarrow> position option \<Rightarrow> nat \<Rightarrow> ('x engine, unit) st" where
  "apply_exit cfg f before execution_id = (\<lambda>g.
     case (before, g_active g) of
       (Some p, Some a) \<Rightarrow>
         bindS (liftS (bindR (ddiv (dmul (p_margin p) (f_quantity f)) (p_quantity p)) quantize_amount)) (\<lambda>released.
         bindS (liftS (quantize_amount (dmul (if p_side p = LONG then dsub (f_price f) (p_entry_price p)
            else dsub (p_entry_price p) (f_price f)) (f_quantity f)))) (\<lambda>pnl.
         bindS (gets (\<lambda>g. checked_cash (dsub (dadd (dadd (g_cash g) released) pnl) (f_fee f)))) (\<lambda>next_cash.
         bindS (gets (\<lambda>g. apply_fill (g_book g) f None None FUTURES 0)) (\<lambda>b.
         bindS (modify (\<lambda>g. g\<lparr>g_book := b, g_cash := next_cash\<rparr>)) (\<lambda>_.
         bindS (liftS (quantize_amount (dadd (at_total_fee a) (f_fee f)))) (\<lambda>fee.
         bindS (liftS (quantize_amount (dadd (at_slippage a) (f_slippage f)))) (\<lambda>slip.
         (let a1 = a\<lparr>at_total_fee := fee, at_slippage := slip\<rparr> in
         bindS (modify (\<lambda>g. g\<lparr>g_active := Some a1\<rparr>)) (\<lambda>_.
         bindS (gets (current_position cfg)) (\<lambda>after.
         (if after \<noteq> None then liftS (Inr ())
          else bindS (complete_trade cfg a1 f execution_id) (\<lambda>_.
            modify (\<lambda>g. g\<lparr>g_active := None, g_stop_price := None, g_take_profit_price := None\<rparr>))))))))))))) g
     | _ \<Rightarrow> (g, Inl (ValueError ''reduce-only fill requires an active position'')))"

definition engine_apply_fill ::
    "'x run_setup \<Rightarrow> fill \<Rightarrow> nat option \<Rightarrow> trading_signal option \<Rightarrow> nat option \<Rightarrow> ('x engine, unit) st" where
  "engine_apply_fill cfg f decision_id sig candidate_id =
     bindS (gets (current_position cfg)) (\<lambda>before.
     if f_reduce_only f
     then bindS (execution_evidence f decision_id) (\<lambda>execution_id. apply_exit cfg f before execution_id)
     else bindS (gets (projected_entry_cash cfg f (signal_leverage sig))) (\<lambda>projected.
       bindS (execution_evidence f decision_id) (\<lambda>execution_id.
       apply_entry cfg f before projected sig candidate_id execution_id)))"

subsection \<open>Funding\<close>

definition closed_before :: "instant \<Rightarrow> candle list \<Rightarrow> candle list" where
  "closed_before boundary = filter (\<lambda>c. c_close_time c \<le> boundary)"

definition funding_price :: "'x run_setup \<Rightarrow> instant \<Rightarrow> (decimal \<times> string) res" where
  "funding_price cfg boundary =
     (let source = (if ec_minute_history cfg = [] then ec_history cfg else ec_minute_history cfg) in
      case find (\<lambda>c. c_open_time c = boundary) source of
        Some c \<Rightarrow> bindR (to_decimal (c_open c) quantize_price) (\<lambda>p. Inr (p, ''boundary_open''))
      | None \<Rightarrow>
          (let closed = closed_before boundary source;
               previous = (if closed = [] then filter (\<lambda>c. c_open_time c < boundary) (ec_history cfg) else closed) in
           raise_if (previous = []) (LookupError ''no settlement price'')
           (bindR (to_decimal (c_close (last previous)) quantize_price) (\<lambda>p. Inr (p, ''prev_close'')))))"

definition funding_rate_at :: "'x run_setup \<Rightarrow> position \<Rightarrow> instant \<Rightarrow> ('x engine, decimal \<times> string) st" where
  "funding_rate_at cfg p boundary = (\<lambda>g.
     case map_of (g_rates g) boundary of
       Some cached \<Rightarrow> (g, Inr cached)
     | None \<Rightarrow>
         bindS (liftS (bindR (ec_funding cfg (p_symbol p) boundary) (\<lambda>measured.
           (case measured of
              Some rate \<Rightarrow> Inr (rate, ''measured'')
            | None \<Rightarrow> bindR (cm_funding_rate (ec_costs cfg) boundary) (\<lambda>rate. Inr (rate, ''fallback'')))))) (\<lambda>cached.
         bindS (modify (\<lambda>g. g\<lparr>g_rates := (boundary, cached) # g_rates g\<rparr>)) (\<lambda>_.
         liftS (Inr cached))) g)"

text \<open>An exhausted margin closes the position at the settlement price.\<close>

definition funding_liquidation :: "'x run_setup \<Rightarrow> position \<Rightarrow> instant \<Rightarrow> decimal \<Rightarrow> ('x engine, unit) st" where
  "funding_liquidation cfg p boundary price =
     bindS (next_id ''decision'') (\<lambda>decision_id.
     (let execution_time = boundary + millisecond in
     bindS (record_row (forced_exit_row cfg decision_id boundary p execution_time)) (\<lambda>_.
     bindS (liftS (liquidation_fill p price execution_time (ec_costs cfg))) (\<lambda>f.
     engine_apply_fill cfg f (Some decision_id) None None))))"

definition settle_position ::
    "'x run_setup \<Rightarrow> instant \<Rightarrow> position \<Rightarrow> active_trade \<Rightarrow> ('x engine, unit) st" where
  "settle_position cfg boundary p a =
     bindS (funding_rate_at cfg p boundary) (\<lambda>(rate, source).
     bindS (liftS (funding_price cfg boundary)) (\<lambda>(price, price_source).
     bindS (liftS (settle p rate price)) (\<lambda>theoretical_cost.
     bindS (liftS (engine_mmr cfg)) (\<lambda>mmr.
     bindS (gets (\<lambda>g. apply_funding (g_book g) p theoretical_cost mmr)) (\<lambda>(b, p1, funding).
     bindS (modify (\<lambda>g. g\<lparr>g_book := b\<rparr>)) (\<lambda>_.
     bindS (liftS (quantize_amount (dneg (fr_applied_cost funding)))) (\<lambda>payment.
     bindS (liftS (quantize_amount (dneg (fr_theoretical_cost funding)))) (\<lambda>theoretical_payment.
     bindS (liftS (quantize_amount (dadd (at_funding a) (fr_applied_cost funding)))) (\<lambda>funding_total.
     bindS (next_id ''settlement'') (\<lambda>settlement_id.
     bindS (liftS (quantize_amount (dmul (p_quantity p1) price))) (\<lambda>notional.
     bindS (modify (\<lambda>g. g\<lparr>g_active := Some (a\<lparr>at_funding := funding_total,
        at_settled_boundaries := boundary # at_settled_boundaries a,
        at_funding_records := at_funding_records a @ [FUNDING_ROW \<lparr>fu_settlement_id = settlement_id,
          fu_trade_id = at_trade_id a, fu_settled_at = boundary, fu_symbol = p_symbol p1, fu_side = p_side p1,
          fu_rate = float_of_decimal rate, fu_rate_source = source, fu_price = price,
          fu_price_source = price_source, fu_notional = notional, fu_payment = payment,
          fu_theoretical_payment = theoretical_payment\<rparr>]\<rparr>)\<rparr>)) (\<lambda>_.
     if fr_exhausted funding then funding_liquidation cfg p1 boundary price else liftS (Inr ())))))))))))))"

definition settle_at_boundary :: "'x run_setup \<Rightarrow> instant \<Rightarrow> ('x engine, unit) st" where
  "settle_at_boundary cfg boundary =
     (if ec_market_type cfg \<noteq> FUTURES \<or> \<not> is_boundary boundary then liftS (Inr ())
      else bindS (gets (current_position cfg)) (\<lambda>p.
        bindS (gets (\<lambda>g. Inr (g_active g))) (\<lambda>a.
        (case (p, a) of
           (Some p, Some a) \<Rightarrow>
             if boundary \<le> f_timestamp (at_entry_fill a) \<or> boundary \<in> set (at_settled_boundaries a)
             then liftS (Inr ()) else settle_position cfg boundary p a
         | _ \<Rightarrow> liftS (Inr ())))))"

fun settle_all :: "'x run_setup \<Rightarrow> instant list \<Rightarrow> ('x engine, unit) st" where
  "settle_all cfg [] = liftS (Inr ())"
| "settle_all cfg (b # bs) = bindS (settle_at_boundary cfg b) (\<lambda>_. settle_all cfg bs)"

subsection \<open>Excursions, marks and equity\<close>

definition excursion_r :: "decimal option \<Rightarrow> decimal \<Rightarrow> decimal option res" where
  "excursion_r r0 v =
     (case r0 of
        None \<Rightarrow> Inr None
      | Some r \<Rightarrow> if r = 0 then Inr None
          else bindR (ddiv v r) (\<lambda>q. bindR (quantize_amount q) (\<lambda>x. Inr (Some x))))"

definition track_mae :: "active_trade \<Rightarrow> decimal \<Rightarrow> instant \<Rightarrow> features \<Rightarrow> active_trade res" where
  "track_mae a adverse ts feats =
     (if (case at_mae_pnl a of None \<Rightarrow> True | Some m \<Rightarrow> adverse < m)
      then bindR (excursion_r (at_r0 a) adverse) (\<lambda>r.
        Inr (a\<lparr>at_mae_pnl := Some adverse, at_mae_ts := Some ts, at_mae_features := feats, at_mae_r := r\<rparr>))
      else Inr a)"

definition track_mfe :: "active_trade \<Rightarrow> decimal \<Rightarrow> instant \<Rightarrow> features \<Rightarrow> active_trade res" where
  "track_mfe a favorable ts feats =
     (if (case at_mfe_pnl a of None \<Rightarrow> True | Some m \<Rightarrow> m < favorable)
      then bindR (excursion_r (at_r0 a) favorable) (\<lambda>r.
        Inr (a\<lparr>at_mfe_pnl := Some favorable, at_mfe_ts := Some ts, at_mfe_features := feats, at_mfe_r := r\<rparr>))
      else Inr a)"

definition track_excursions :: "candle \<Rightarrow> position \<Rightarrow> ('x engine, unit) st" where
  "track_excursions c p = (\<lambda>g.
     case g_active g of
       None \<Rightarrow> (g, Inr ())
     | Some a \<Rightarrow>
         if c_open_time c \<le> f_timestamp (at_entry_fill a) then (g, Inr ())
         else (let entry = f_reference_price (at_entry_fill a) in
           bindS (liftS (to_decimal (c_high c) quantize_price)) (\<lambda>high.
           bindS (liftS (to_decimal (c_low c) quantize_price)) (\<lambda>low.
           bindS (liftS (quantize_amount (dmul (if p_side p = LONG then dsub low entry else dsub entry high)
              (p_quantity p)))) (\<lambda>adverse.
           bindS (liftS (quantize_amount (dmul (if p_side p = LONG then dsub high entry else dsub entry low)
              (p_quantity p)))) (\<lambda>favorable.
           bindS (liftS (track_mae a adverse (c_close_time c) (g_indicators g))) (\<lambda>a1.
           bindS (liftS (track_mfe a1 favorable (c_close_time c) (g_indicators g))) (\<lambda>a2.
           modify (\<lambda>g. g\<lparr>g_active := Some a2\<rparr>)))))))) g)"

definition equity_peak :: "(instant \<times> decimal) list \<Rightarrow> decimal \<Rightarrow> decimal" where
  "equity_peak curve d = (case map snd curve of [] \<Rightarrow> d | v # vs \<Rightarrow> fold max vs v)"

definition drawdown_of :: "decimal \<Rightarrow> decimal \<Rightarrow> pyfloat res" where
  "drawdown_of eq peak =
     (if 0 < peak then bindR (ddiv eq peak) (\<lambda>q. Inr (float_of_decimal (dsub q 1))) else Inr (Fin 0))"

definition portfolio_row ::
    "'x engine \<Rightarrow> active_trade option \<Rightarrow> nat \<Rightarrow> instant \<Rightarrow> position option \<Rightarrow> decimal \<Rightarrow> decimal \<Rightarrow> decimal \<Rightarrow> pyfloat \<Rightarrow>
      evidence" where
  "portfolio_row g open_trade seq_no ts p value eq peak drawdown =
     (let cum = (\<lambda>per_trade active. dadd (dsum 0 (map per_trade (g_trades g)))
            (case open_trade of None \<Rightarrow> 0 | Some a \<Rightarrow> active a)) in
      PORTFOLIO_ROW \<lparr>eq_sequence = seq_no, eq_ts = ts, eq_cash = g_cash g, eq_position_value = value, eq_total = eq,
        eq_unrealized = (case p of None \<Rightarrow> 0 | Some q \<Rightarrow> p_unrealized_pnl q),
        eq_fee_cum = cum t_total_fee at_total_fee, eq_slippage_cum = cum t_slippage at_slippage,
        eq_funding_cum = cum t_funding_cost at_funding, eq_peak = peak, eq_drawdown = drawdown,
        eq_open_positions = (if p = None then 0 else 1)\<rparr>)"

text \<open>\<open>position.update_price(mark)\<close> on the object the book holds.\<close>

definition mark_position :: "'x run_setup \<Rightarrow> candle \<Rightarrow> decimal \<Rightarrow> ('x engine, position option) st" where
  "mark_position cfg c mark =
     bindS (gets (current_position cfg)) (\<lambda>p.
     (case p of
        None \<Rightarrow> liftS (Inr None)
      | Some q \<Rightarrow>
          bindS (liftS (update_price q mark)) (\<lambda>q1.
          bindS (modify (\<lambda>g. g\<lparr>g_book := (g_book g)(position_key q \<mapsto> q1)\<rparr>)) (\<lambda>_.
          bindS (track_excursions c q1) (\<lambda>_. liftS (Inr (Some q1)))))))"

definition position_evidence :: "candle \<Rightarrow> position option \<Rightarrow> decimal \<Rightarrow> ('x engine, unit) st" where
  "position_evidence c p mark =
     bindS (next_id ''position'') (\<lambda>position_no.
     (\<lambda>g. let row = POSITION_ROW \<lparr>ps_sequence = position_no, ps_ts = c_close_time c,
              ps_symbol = (case p of None \<Rightarrow> c_symbol c | Some q \<Rightarrow> p_symbol q),
              ps_trade_id = (if p = None then None else map_option at_trade_id (g_active g)),
              ps_position = p, ps_mark = mark\<rparr> in
        case (p, g_active g) of
          (Some _, Some a) \<Rightarrow>
            modify (\<lambda>g. g\<lparr>g_active := Some (a\<lparr>at_position_records := at_position_records a @ [row]\<rparr>)\<rparr>) g
        | _ \<Rightarrow> record_row row g))"

definition mark_grid :: "'x run_setup \<Rightarrow> candle \<Rightarrow> ('x engine, unit) st" where
  "mark_grid cfg c =
     bindS (liftS (to_decimal (c_close c) quantize_price)) (\<lambda>mark.
     bindS (mark_position cfg c mark) (\<lambda>p.
     bindS (liftS (position_value p)) (\<lambda>value.
     bindS (gets (\<lambda>g. recompute (g_cash g) p)) (\<lambda>eq.
     bindS (gets (\<lambda>g. Inr (max (equity_peak (g_equity_curve g) eq) eq))) (\<lambda>peak.
     bindS (liftS (drawdown_of eq peak)) (\<lambda>drawdown.
     bindS (position_evidence c p mark) (\<lambda>_.
     bindS (next_id ''equity'') (\<lambda>equity_no.
     bindS (\<lambda>g. record_row (portfolio_row g (g_active g) equity_no (c_close_time c) p value eq peak drawdown) g) (\<lambda>_.
     modify (\<lambda>g. g\<lparr>g_equity_curve := g_equity_curve g @ [(c_close_time c, eq)]\<rparr>))))))))))"

subsection \<open>The open of a candle\<close>

definition execute_pending :: "'x run_setup \<Rightarrow> candle \<Rightarrow> pending_order \<Rightarrow> ('x engine, unit) st" where
  "execute_pending cfg c pd =
     bindS (liftS (raise_if (c_close_time (pd_decision_candle pd) \<noteq> c_open_time c)
        (ValueError ''missing candle boundary'') (Inr ()))) (\<lambda>_.
     bindS (gets (risk_budget_of cfg pd)) (\<lambda>budget.
     bindS (\<lambda>g. on_broker (bt_configure_execution (ec_fill_timing cfg)
        \<lparr>xc_decision_candle = pd_decision_candle pd, xc_history = ec_history cfg, xc_risk_budget = budget,
         xc_available_margin = Some (g_cash g), xc_leverage = signal_leverage (pd_signal pd)\<rparr>) g) (\<lambda>_.
     bindS (on_broker (bt_submit (ec_costs cfg) (pd_request pd))) (\<lambda>f0.
     bindS (liftS (case pd_exit_reason pd of None \<Rightarrow> Inr f0
        | Some r \<Rightarrow> make_fill (f0\<lparr>f_exit_reason := Some r\<rparr>))) (\<lambda>f.
     bindS (liftS (epoch_milliseconds (f_timestamp f))) (\<lambda>execution_ts.
     bindS (liftS (raise_if (\<not> (pd_feature_ts pd \<le> pd_decision_ts pd \<and> pd_decision_ts pd < execution_ts))
        (ValueError ''feature_ts decision_ts execution_ts'') (Inr ()))) (\<lambda>_.
     engine_apply_fill cfg f (Some (pd_decision_id pd)) (pd_signal pd) (pd_candidate_id pd))))))))"

fun execute_all :: "'x run_setup \<Rightarrow> candle \<Rightarrow> pending_order list \<Rightarrow> ('x engine, unit) st" where
  "execute_all cfg c [] = liftS (Inr ())"
| "execute_all cfg c (pd # pds) = bindS (execute_pending cfg c pd) (\<lambda>_. execute_all cfg c pds)"

definition walk_triggers :: "'x run_setup \<Rightarrow> position \<Rightarrow> candle list \<Rightarrow> 'x engine \<Rightarrow> fill option res" where
  "walk_triggers cfg p subcandles g =
     raise_if (ec_trigger_feed cfg \<noteq> ''tf_candle'') (NotImplementedError ''m1_subcandle'')
     (resolve_triggers p subcandles (ec_costs cfg) (g_stop_price g) (g_take_profit_price g)
       (map_option (\<lambda>a. f_timestamp (at_entry_fill a)) (g_active g)))"

definition apply_triggers :: "'x run_setup \<Rightarrow> candle \<Rightarrow> ('x engine, unit) st" where
  "apply_triggers cfg c =
     bindS (gets (current_position cfg)) (\<lambda>p.
     (case p of
        None \<Rightarrow> liftS (Inr ())
      | Some q \<Rightarrow>
          bindS (gets (walk_triggers cfg q [c])) (\<lambda>trigger.
          (case trigger of
             None \<Rightarrow> liftS (Inr ())
           | Some f \<Rightarrow>
               bindS (track_excursions c q) (\<lambda>_.
               bindS (next_id ''decision'') (\<lambda>decision_id.
               bindS (record_row (forced_exit_row cfg decision_id (c_open_time c) q (c_close_time c))) (\<lambda>_.
               engine_apply_fill cfg f (Some decision_id) None None)))))))"

definition step_open :: "'x run_setup \<Rightarrow> candle \<Rightarrow> ('x engine, unit) st" where
  "step_open cfg c =
     bindS (gets (\<lambda>g. raise_if (clock_now (g_clock g) \<noteq> c_open_time c) (ValueError ''clock at open'') (Inr ()))) (\<lambda>_.
     bindS (settle_at_boundary cfg (c_open_time c)) (\<lambda>_.
     bindS (gets (\<lambda>g. Inr (g_pending g))) (\<lambda>carried.
     bindS (modify (\<lambda>g. g\<lparr>g_pending := []\<rparr>)) (\<lambda>_.
     bindS (execute_all cfg c carried) (\<lambda>_.
     bindS (liftS (boundaries_between (c_open_time c) (c_close_time c))) (\<lambda>boundaries.
     bindS (settle_all cfg boundaries) (\<lambda>_.
     apply_triggers cfg c)))))))"

subsection \<open>Decisions\<close>

definition derive_intent ::
    "trading_signal \<Rightarrow> position option \<Rightarrow> (string \<times> position_side option) res" where
  "derive_intent s p =
     (let directed = (\<lambda>side. (if case p of None \<Rightarrow> False | Some q \<Rightarrow> p_side q \<noteq> side then ''reverse'' else ''enter'', Some side)) in
      case (s_stop_loss s, s_take_profit s) of
        (None, None) \<Rightarrow> Inr (''exit'', None)
      | (Some stop, _) \<Rightarrow>
          raise_if (feq stop (s_price s)) (ValueError ''protection equals price'')
          (Inr (directed (if flt stop (s_price s) then LONG else SHORT)))
      | (None, Some take_profit) \<Rightarrow>
          raise_if (feq take_profit (s_price s)) (ValueError ''protection equals price'')
          (Inr (directed (if flt (s_price s) take_profit then LONG else SHORT))))"

definition requested_quantity :: "trading_signal \<Rightarrow> meta_value option" where
  "requested_quantity s =
     (case s_metadata s ''money_management'' of
        Some (MMap m) \<Rightarrow> map_of m ''requested_quantity''
      | _ \<Rightarrow> None)"

definition engine_size :: "'x run_setup \<Rightarrow> trading_signal \<Rightarrow> 'x engine \<Rightarrow> (pyfloat \<times> pyfloat) res" where
  "engine_size cfg s g =
     (case (case s_stop_loss s of Some v \<Rightarrow> Some v | None \<Rightarrow> s_take_profit s) of
        None \<Rightarrow> Inl (ValueError ''protection level'')
      | Some protection \<Rightarrow>
     (let stop_distance = fabs (fsub (s_price s) protection) in
      raise_if (fle stop_distance (Fin 0)) (ValueError ''stop distance'')
      (if ec_sizing_method cfg = ''risk_based''
       then (case requested_quantity s of
           Some (MFloat q) \<Rightarrow> Inr (q, stop_distance)
         | Some (MInt i) \<Rightarrow> Inr (float_of_int i, stop_distance)
         | _ \<Rightarrow>
             (case ec_risk_per_trade cfg of
                None \<Rightarrow> Inl (AssertionError ''risk_per_trade'')
              | Some risk \<Rightarrow>
                  bindR (current_equity cfg g) (\<lambda>eq.
                  bindR (risk_size risk (float_of_decimal eq) stop_distance) (\<lambda>q. Inr (q, stop_distance)))))
       else (case ec_position_size_pct cfg of
           None \<Rightarrow> Inl (AssertionError ''position_size_pct'')
         | Some pct \<Rightarrow>
             bindR (wallet_pct_size (float_of_decimal (g_cash g)) pct) (\<lambda>notional.
             bindR (fdiv notional (s_price s)) (\<lambda>q. Inr (q, stop_distance)))))))"

definition action_row ::
    "'x run_setup \<Rightarrow> nat \<Rightarrow> nat \<Rightarrow> candle \<Rightarrow> string \<Rightarrow> position_side \<Rightarrow> pyfloat \<Rightarrow> instant option \<Rightarrow>
      trading_signal option \<Rightarrow> pyfloat option \<Rightarrow> evidence" where
  "action_row cfg decision_id signal_id c action side quantity planned sig stop_distance =
     DECISION_ROW \<lparr>dn_decision_id = decision_id, dn_signal_id = Some signal_id, dn_decision_ts = c_close_time c,
       dn_action = action, dn_side = Some side, dn_quantity = Some quantity,
       dn_stop_price = (case sig of None \<Rightarrow> None | Some s \<Rightarrow> s_stop_loss s),
       dn_take_profit_price = (case sig of None \<Rightarrow> None | Some s \<Rightarrow> s_take_profit s),
       dn_risk_amount = map_option (\<lambda>d. fmul d quantity) stop_distance, dn_stop_distance = stop_distance,
       dn_sizing_method = Some (ec_sizing_method cfg), dn_skip_reason = None, dn_compliant = compliant cfg,
       dn_planned = planned\<rparr>"

definition skip_row :: "'x run_setup \<Rightarrow> nat \<Rightarrow> nat option \<Rightarrow> candle \<Rightarrow> string \<Rightarrow> evidence" where
  "skip_row cfg decision_id signal_id c reason =
     DECISION_ROW \<lparr>dn_decision_id = decision_id, dn_signal_id = signal_id, dn_decision_ts = c_close_time c,
       dn_action = ''skip'', dn_side = None, dn_quantity = None, dn_stop_price = None,
       dn_take_profit_price = None, dn_risk_amount = None, dn_stop_distance = None, dn_sizing_method = None,
       dn_skip_reason = Some reason, dn_compliant = compliant cfg, dn_planned = None\<rparr>"

definition record_blocked_candidate :: "candle \<Rightarrow> position_side \<Rightarrow> string \<Rightarrow> ('x engine, unit) st" where
  "record_blocked_candidate c side reason =
     bindS (next_id ''candidate'') (\<lambda>candidate_id.
     record_row (CANDIDATE_ROW \<lparr>cd_candidate_id = candidate_id, cd_ts = c_close_time c, cd_symbol = c_symbol c,
       cd_trigger_rule = reason, cd_passed_filters = [], cd_blocked_by = Some reason, cd_side = side,
       cd_quantity = None, cd_realized = False, cd_linked_trade_id = None\<rparr>))"

definition queue_order :: "pending_order \<Rightarrow> ('x engine, unit) st" where
  "queue_order pd = modify (\<lambda>g. g\<lparr>g_pending := g_pending g @ [pd]\<rparr>)"

text \<open>The order of an exit, of the engine's whole position, for the next candle.\<close>

definition queue_exit ::
    "candle \<Rightarrow> position \<Rightarrow> nat \<Rightarrow> exit_reason \<Rightarrow> trading_signal \<Rightarrow> ('x engine, unit) st" where
  "queue_exit c p decision_id reason s =
     bindS (liftS (exit_request p)) (\<lambda>request.
     bindS (liftS (epoch_milliseconds (c_close_time c))) (\<lambda>ts.
     queue_order \<lparr>pd_request = request, pd_decision_id = decision_id, pd_decision_candle = c,
       pd_feature_ts = ts, pd_decision_ts = ts, pd_exit_reason = Some reason, pd_signal = Some s,
       pd_candidate_id = None\<rparr>))"

definition handle_exit ::
    "'x run_setup \<Rightarrow> candle \<Rightarrow> trading_signal \<Rightarrow> position option \<Rightarrow> nat \<Rightarrow> nat \<Rightarrow> candle option \<Rightarrow> bool \<Rightarrow>
      instant option \<Rightarrow> ('x engine, unit) st" where
  "handle_exit cfg c s p signal_id decision_id next_c missing_next_bar planned =
     (case (p, next_c) of
        (Some q, Some _) \<Rightarrow>
          bindS (record_row (action_row cfg decision_id signal_id c ''exit'' (p_side q)
             (float_of_decimal (p_quantity q)) planned None None)) (\<lambda>_.
          queue_exit c q decision_id SIGNAL_EXIT s)
      | _ \<Rightarrow> record_row (skip_row cfg decision_id (Some signal_id) c
          (if p = None then ''no_position'' else if missing_next_bar then ''next_candle_gap'' else ''end_of_data'')))"

definition risk_limit_literal :: pyfloat where
  "risk_limit_literal = fround (1 / 100)"

definition within_exposure :: "'x run_setup \<Rightarrow> bool res" where
  "within_exposure cfg =
     (let risk_fraction = (case ec_risk_per_trade cfg of None \<Rightarrow> Fin 0 | Some r \<Rightarrow> r) in
      bindR (single_market [risk_fraction] risk_limit_literal) (\<lambda>a.
      bindR (correlation_group [risk_fraction] risk_limit_literal) (\<lambda>b.
      bindR (single_direction [risk_fraction] risk_limit_literal) (\<lambda>d. Inr (a \<and> b \<and> d)))))"

definition queue_entry ::
    "'x run_setup \<Rightarrow> candle \<Rightarrow> trading_signal \<Rightarrow> position option \<Rightarrow> position_side \<Rightarrow> pyfloat \<Rightarrow> nat \<Rightarrow> nat \<Rightarrow>
      ('x engine, unit) st" where
  "queue_entry cfg c s p side quantity decision_id candidate_id =
     bindS (case p of None \<Rightarrow> liftS (Inr ()) | Some q \<Rightarrow> queue_exit c q decision_id REVERSAL s) (\<lambda>_.
     bindS (liftS (entry_request s side quantity)) (\<lambda>request.
     bindS (liftS (epoch_milliseconds (c_close_time c))) (\<lambda>ts.
     queue_order \<lparr>pd_request = request, pd_decision_id = decision_id, pd_decision_candle = c,
       pd_feature_ts = ts, pd_decision_ts = ts, pd_exit_reason = None, pd_signal = Some s,
       pd_candidate_id = Some candidate_id\<rparr>)))"

definition handle_entry ::
    "'x run_setup \<Rightarrow> candle \<Rightarrow> trading_signal \<Rightarrow> position option \<Rightarrow> position_side option \<Rightarrow> nat \<Rightarrow> nat \<Rightarrow>
      candle option \<Rightarrow> bool \<Rightarrow> instant option \<Rightarrow> ('x engine, unit) st" where
  "handle_entry cfg c s p side0 signal_id decision_id next_c missing_next_bar planned =
     (case side0 of
        None \<Rightarrow> liftS (Inl (RuntimeError ''derived side''))
      | Some side \<Rightarrow>
     (if (case p of None \<Rightarrow> False | Some q \<Rightarrow> p_side q = side)
      then bindS (record_row (skip_row cfg decision_id (Some signal_id) c ''pyramiding_disabled'')) (\<lambda>_.
        record_blocked_candidate c side ''pyramiding_disabled'')
      else
     bindS (gets (engine_size cfg s)) (\<lambda>(quantity, stop_distance).
     bindS (liftS (within_exposure cfg)) (\<lambda>within_limits.
     bindS (next_id ''candidate'') (\<lambda>candidate_id.
     (if \<not> within_limits \<or> next_c = None
      then (let reason = (if \<not> within_limits then ''exposure_limit''
            else if missing_next_bar then ''next_candle_gap'' else ''end_of_data'') in
        bindS (record_row (skip_row cfg decision_id (Some signal_id) c reason)) (\<lambda>_.
        bindS (liftS (to_decimal quantity quantize_amount)) (\<lambda>q.
        record_row (CANDIDATE_ROW \<lparr>cd_candidate_id = candidate_id, cd_ts = c_close_time c,
          cd_symbol = s_symbol s, cd_trigger_rule = s_reason s, cd_passed_filters = [],
          cd_blocked_by = Some reason, cd_side = side, cd_quantity = Some q, cd_realized = False,
          cd_linked_trade_id = None\<rparr>))))
      else
        bindS (record_row (action_row cfg decision_id signal_id c (if p \<noteq> None then ''reverse'' else ''enter'')
           side quantity planned (Some s) (Some stop_distance))) (\<lambda>_.
        queue_entry cfg c s p side quantity decision_id candidate_id)))))))"

definition handle_signal :: "'x run_setup \<Rightarrow> candle \<Rightarrow> trading_signal \<Rightarrow> ('x engine, unit) st" where
  "handle_signal cfg c s =
     bindS (gets (current_position cfg)) (\<lambda>p.
     bindS (liftS (derive_intent s p)) (\<lambda>(intent, side).
     bindS (next_id ''signal'') (\<lambda>signal_id.
     bindS (record_row (SIGNAL_ROW \<lparr>sg_signal_id = signal_id, sg_candle = c, sg_signal = s, sg_intent = intent,
        sg_side = side\<rparr>)) (\<lambda>_.
     bindS (next_id ''decision'') (\<lambda>decision_id.
     bindS (liftS (next_candle (ec_history cfg) c)) (\<lambda>next_in_history.
     (let missing_next_bar = (case next_in_history of None \<Rightarrow> False | Some n \<Rightarrow> c_open_time n \<noteq> c_close_time c);
          next_c = (if missing_next_bar then None else next_in_history);
          planned = map_option (\<lambda>n. max (c_open_time n) (c_close_time c + millisecond)) next_c in
      if intent = ''exit'' then handle_exit cfg c s p signal_id decision_id next_c missing_next_bar planned
      else handle_entry cfg c s p side signal_id decision_id next_c missing_next_bar planned)))))))"

subsection \<open>Money management of a decision\<close>

definition money_management_evidence :: "'x run_setup \<Rightarrow> (string \<times> meta_value) list" where
  "money_management_evidence cfg =
     (case ec_policy cfg of
        None \<Rightarrow> [(''policy_id'', MStr ''legacy_signal''), (''policy_version'', MStr ''1.0.0''),
          (''config_schema_version'', MStr ''1.2.0''), (''resolved_config'', MMap []),
          (''declared_by_strategy'', MMap [])]
      | Some pol \<Rightarrow> [(''policy_id'', MStr (policy_id pol)), (''policy_version'', MStr ''1.0.0''),
          (''config_schema_version'', MStr ''1.2.0''), (''resolved_config'', MMap (resolved_config pol)),
          (''declared_by_strategy'', MMap (ec_declared_settings cfg))])"

definition policy_volatility ::
    "'x run_setup \<Rightarrow> candle \<Rightarrow> policy \<Rightarrow> 'x engine \<Rightarrow> (pyfloat \<times> string \<times> instant) res" where
  "policy_volatility cfg c pol g =
     (case required_indicators pol of
        [r] \<Rightarrow>
          (let resolved = (if ir_timeframe r = ''strategy'' then ec_timeframe cfg else ir_timeframe r) in
           bindR (series_key_of (ec_float_text cfg) (ir_name r) (ir_params r) resolved) (\<lambda>label.
           if ir_timeframe r = ''strategy''
           then (case map_of (g_indicators g) label of
               Some (FNum v) \<Rightarrow> Inr (v, label, c_close_time c)
             | Some (FInt i) \<Rightarrow> Inr (float_of_int i, label, c_close_time c)
             | _ \<Rightarrow> Inl (MoneyManagementError ''requires current value''))
           else (let available = filter (\<lambda>item. fst item \<le> c_close_time c) (ec_turtle_n cfg) in
             raise_if (available = []) (MoneyManagementError ''requires finalized value'')
             (Inr (snd (last available), label, fst (last available))))))
      | _ \<Rightarrow> Inl (MoneyManagementError ''exactly one volatility input''))"

definition market_of :: "'x run_setup \<Rightarrow> candle \<Rightarrow> policy \<Rightarrow> decision_intent \<Rightarrow> 'x engine \<Rightarrow> market_snapshot res" where
  "market_of cfg c pol d g =
     bindR (policy_volatility cfg c pol g) (\<lambda>(volatility, label, ts).
     make_market_snapshot \<lparr>ms_reference_price = i_reference_price d, ms_volatility = volatility,
       ms_volatility_name = label, ms_volatility_timestamp = ts\<rparr>)"

definition account_of :: "'x run_setup \<Rightarrow> 'x engine \<Rightarrow> account_risk_snapshot res" where
  "account_of cfg g =
     bindR (current_equity cfg g) (\<lambda>eq.
     make_account_risk_snapshot \<lparr>ar_equity = float_of_decimal eq, ar_available_cash = float_of_decimal (g_cash g),
       ar_market_type = ec_market_type cfg\<rparr>)"

definition limits_of :: "'x run_setup \<Rightarrow> risk_limits res" where
  "limits_of cfg =
     (let risk = (case ec_risk_per_trade cfg of None \<Rightarrow> risk_limit_literal
            | Some r \<Rightarrow> if feq r (Fin 0) then risk_limit_literal else r) in
      bindR (engine_mmr cfg) (\<lambda>mmr.
      make_risk_limits \<lparr>rl_risk_per_trade = risk, rl_maintenance_margin_rate = float_of_decimal mmr,
        rl_max_leverage = 100\<rparr>))"

definition decision_text :: "decision_action \<Rightarrow> string" where
  "decision_text a = (case a of ENTER_LONG \<Rightarrow> ''ENTER_LONG'' | ENTER_SHORT \<Rightarrow> ''ENTER_SHORT'' | EXIT \<Rightarrow> ''EXIT''
     | HOLD \<Rightarrow> ''HOLD'')"

definition managed_signal ::
    "'x run_setup \<Rightarrow> candle \<Rightarrow> decision_intent \<Rightarrow> 'x engine \<Rightarrow> trading_signal res" where
  "managed_signal cfg c d g =
     (let base = \<lparr>s_symbol = i_symbol d, s_timestamp = i_timestamp d, s_confidence = i_confidence d,
            s_price = i_reference_price d, s_stop_loss = None, s_take_profit = None,
            s_market_type = ec_market_type cfg, s_leverage = Some 1, s_reason = i_reason d,
            s_metadata = i_metadata d\<rparr>;
          described = (\<lambda>m. (i_metadata d)(''decision_action'' \<mapsto> MStr (decision_text (i_action d)),
            ''money_management'' \<mapsto> MMap m)) in
      if i_action d = EXIT then make_trading_signal (base\<lparr>s_metadata := described (money_management_evidence cfg)\<rparr>)
      else (case ec_policy cfg of
          None \<Rightarrow> Inl (MoneyManagementError ''requires a money-management policy'')
        | Some pol \<Rightarrow>
            bindR (market_of cfg c pol d g) (\<lambda>market.
            bindR (account_of cfg g) (\<lambda>account.
            bindR (limits_of cfg) (\<lambda>limits.
            bindR (plan_entry pol d market account limits) (\<lambda>plan.
            make_trading_signal (base\<lparr>s_stop_loss := Some (mp_stop_loss plan), s_take_profit := mp_take_profit plan,
              s_leverage := Some (mp_requested_leverage plan),
              s_metadata := described (dict_merge (dict_merge (money_management_evidence cfg) (mp_diagnostics plan))
                [(''requested_quantity'', MFloat (mp_requested_quantity plan)),
                 (''requested_leverage'', MInt (mp_requested_leverage plan)),
                 (''initial_risk_amount'', MFloat (mp_initial_risk_amount plan))])\<rparr>)))))))"

subsection \<open>The close of a candle\<close>

definition engine_analyze :: "'x run_setup \<Rightarrow> candle \<Rightarrow> ('x engine, strategy_result) st" where
  "engine_analyze cfg c =
     bindS (gets (current_position cfg)) (\<lambda>p.
     (\<lambda>g. case ec_analyze cfg \<lparr>in_candles = g_confirmed g, in_candle = c, in_symbol = ec_symbol cfg,
          in_timeframe = ec_timeframe cfg, in_market_type = ec_market_type cfg, in_indicators = g_indicators g\<rparr>
          p (g_external g) of (x, r) \<Rightarrow> (g\<lparr>g_external := x\<rparr>, r)))"

definition update_indicators :: "'x run_setup \<Rightarrow> candle \<Rightarrow> ('x engine, unit) st" where
  "update_indicators cfg c = (\<lambda>g.
     case ec_update_indicators cfg c (g_external g) (g_indicators g) of
       Inl e \<Rightarrow> (g, Inl e)
     | Inr (x, feats) \<Rightarrow> (g\<lparr>g_external := x, g_indicators := feats\<rparr>, Inr ()))"

definition handle_timely_signal :: "'x run_setup \<Rightarrow> candle \<Rightarrow> trading_signal \<Rightarrow> ('x engine, unit) st" where
  "handle_timely_signal cfg c s =
     bindS (liftS (raise_if (c_close_time c < s_timestamp s) (ValueError ''signal later than candle'') (Inr ()))) (\<lambda>_.
     handle_signal cfg c s)"

definition handle_decision :: "'x run_setup \<Rightarrow> candle \<Rightarrow> decision_intent \<Rightarrow> ('x engine, unit) st" where
  "handle_decision cfg c d =
     bindS (liftS (raise_if (c_close_time c < i_timestamp d) (ValueError ''decision later than candle'') (Inr ()))) (\<lambda>_.
     if i_action d = HOLD
     then bindS (next_id ''decision'') (\<lambda>decision_id. record_row (skip_row cfg decision_id None c (i_reason d)))
     else (\<lambda>g. case managed_signal cfg c d g of
         Inl (MoneyManagementError e) \<Rightarrow>
           if ec_policy cfg = None then (g, Inl (MoneyManagementError e))
           else record_blocked_candidate c (if i_action d = ENTER_LONG then LONG else SHORT)
             ''money_management_rejected'' g
       | Inl e \<Rightarrow> (g, Inl e)
       | Inr s \<Rightarrow> handle_timely_signal cfg c s g))"

definition step_close :: "'x run_setup \<Rightarrow> candle \<Rightarrow> ('x engine, unit) st" where
  "step_close cfg c =
     bindS (gets (\<lambda>g. raise_if (clock_now (g_clock g) \<noteq> c_close_time c) (ValueError ''clock at close'') (Inr ()))) (\<lambda>_.
     bindS (modify (\<lambda>g. g\<lparr>g_confirmed := g_confirmed g @ [c]\<rparr>)) (\<lambda>_.
     bindS (update_indicators cfg c) (\<lambda>_.
     bindS (mark_grid cfg c) (\<lambda>_.
     bindS (engine_analyze cfg c) (\<lambda>result.
     (case result of
        NoDecision \<Rightarrow> liftS (Inr ())
      | SignalResult s \<Rightarrow>
          if ec_decision_contract cfg then liftS (Inl (TypeError ''declared DecisionIntent''))
          else handle_timely_signal cfg c s
      | IntentResult d \<Rightarrow> handle_decision cfg c d))))))"

subsection \<open>Gaps, the loop and the end of the data\<close>

definition terminal_exit ::
    "'x run_setup \<Rightarrow> fill_timing \<Rightarrow> candle \<Rightarrow> position \<Rightarrow> exit_reason \<Rightarrow> ('x engine, fill) st" where
  "terminal_exit cfg timing c p reason =
     bindS (liftS (flat_candle c (c_close_time c + millisecond))) (\<lambda>terminal.
     bindS (\<lambda>g. on_broker (bt_configure_execution timing \<lparr>xc_decision_candle = c, xc_history = [c, terminal],
        xc_risk_budget = None, xc_available_margin = Some (g_cash g), xc_leverage = p_leverage p\<rparr>) g) (\<lambda>_.
     bindS (liftS (exit_request p)) (\<lambda>request.
     bindS (on_broker (bt_submit (ec_costs cfg) request)) (\<lambda>f.
     liftS (make_fill (f\<lparr>f_exit_reason := Some reason\<rparr>))))))"

definition close_at_data_gap :: "'x run_setup \<Rightarrow> candle \<Rightarrow> ('x engine, unit) st" where
  "close_at_data_gap cfg c =
     bindS (gets (\<lambda>g. raise_if (g_pending g \<noteq> []) (RuntimeError ''pending across a data gap'') (Inr ()))) (\<lambda>_.
     bindS (gets (current_position cfg)) (\<lambda>p.
     (case p of
        None \<Rightarrow> liftS (Inr ())
      | Some q \<Rightarrow>
          bindS (next_id ''decision'') (\<lambda>decision_id.
          bindS (record_row (forced_exit_row cfg decision_id (c_close_time c) q (c_close_time c + millisecond))) (\<lambda>_.
          bindS (terminal_exit cfg (ec_fill_timing cfg) c q DATA_GAP) (\<lambda>f.
          bindS (engine_apply_fill cfg f (Some decision_id) None None) (\<lambda>_.
          modify (\<lambda>g. g\<lparr>g_data_gap_exits := g_data_gap_exits g + 1\<rparr>))))))))"

definition engine_move_clock :: "instant \<Rightarrow> ('x engine, unit) st" where
  "engine_move_clock target = (\<lambda>g.
     case move_clock target (g_clock g) of Inl e \<Rightarrow> (g, Inl e) | Inr k \<Rightarrow> (g\<lparr>g_clock := k\<rparr>, Inr ()))"

definition step_candle :: "'x run_setup \<Rightarrow> candle \<Rightarrow> ('x engine, unit) st" where
  "step_candle cfg c =
     bindS (modify (\<lambda>g. g\<lparr>g_last_candle := Some c\<rparr>)) (\<lambda>_.
     bindS (engine_move_clock (c_open_time c)) (\<lambda>_.
     bindS (step_open cfg c) (\<lambda>_.
     bindS (engine_move_clock (c_close_time c)) (\<lambda>_.
     step_close cfg c))))"

fun candle_loop :: "'x run_setup \<Rightarrow> candle list \<Rightarrow> ('x engine, unit) st" where
  "candle_loop cfg [] = liftS (Inr ())"
| "candle_loop cfg [c] = step_candle cfg c"
| "candle_loop cfg (c # d # rest) =
     bindS (step_candle cfg c) (\<lambda>_.
     bindS (if c_open_time d \<noteq> c_close_time c then close_at_data_gap cfg c else liftS (Inr ())) (\<lambda>_.
     bindS (engine_move_clock (c_open_time d)) (\<lambda>_.
     candle_loop cfg (d # rest))))"

definition terminal_equity :: "'x run_setup \<Rightarrow> instant \<Rightarrow> decimal \<Rightarrow> ('x engine, unit) st" where
  "terminal_equity cfg ts final_equity =
     bindS (gets (current_position cfg)) (\<lambda>p.
     bindS (next_id ''equity'') (\<lambda>equity_no.
     bindS (gets (\<lambda>g. Inr (equity_peak (g_equity_curve g) final_equity))) (\<lambda>peak.
     bindS (liftS (drawdown_of final_equity peak)) (\<lambda>drawdown.
     bindS (liftS (position_value p)) (\<lambda>value.
     (\<lambda>g. record_row (portfolio_row g None equity_no ts p value final_equity peak drawdown) g))))))"

text \<open>The first half of \<open>finalize\<close>: the end-of-data exit and the final equity.\<close>

definition close_at_end :: "'x run_setup \<Rightarrow> ('x engine, decimal) st" where
  "close_at_end cfg = (\<lambda>g0.
     case g_last_candle g0 of
       None \<Rightarrow> (g0, Inl (RuntimeError ''finalize before the candle loop''))
     | Some c \<Rightarrow>
         bindS (gets (current_position cfg)) (\<lambda>p.
         bindS (case p of
             None \<Rightarrow> liftS (Inr ())
           | Some q \<Rightarrow> bindS (terminal_exit cfg NextBar c q END_OF_DATA) (\<lambda>f. engine_apply_fill cfg f None None None)) (\<lambda>_.
         bindS (gets (current_equity cfg)) (\<lambda>final_equity.
         (let terminal_ts = c_close_time c + millisecond in
         bindS (modify (\<lambda>g. g\<lparr>g_equity_curve := g_equity_curve g @ [(terminal_ts, final_equity)]\<rparr>)) (\<lambda>_.
         bindS (terminal_equity cfg terminal_ts final_equity) (\<lambda>_.
         liftS (Inr final_equity))))))) g0)"

text \<open>A run from the end of the preparation: the loop and the closing of what it still holds.\<close>

definition initial_engine :: "decimal \<Rightarrow> 'x \<Rightarrow> features \<Rightarrow> candle list \<Rightarrow> (instant \<times> decimal \<times> string) list \<Rightarrow> clock \<Rightarrow> 'x engine res" where
  "initial_engine capital x feats preload rates clock =
     bindR (checked_cash capital) (\<lambda>cash.
     Inr \<lparr>g_clock = clock, g_broker = \<lparr>bb_execution = None, bb_next_sequence = 1\<rparr>, g_external = x,
       g_pending = [], g_confirmed = preload, g_indicators = feats, g_rates = rates, g_book = Map.empty,
       g_cash = cash, g_equity_curve = [], g_trades = [], g_active = None, g_stop_price = None,
       g_take_profit_price = None, g_last_candle = None, g_data_gap_exits = 0, g_sequence = (\<lambda>_. 0),
       g_evidence = []\<rparr>)"

definition run_candles :: "'x run_setup \<Rightarrow> candle list \<Rightarrow> ('x engine, decimal) st" where
  "run_candles cfg evaluation =
     bindS (liftS (raise_if (evaluation = []) (ValueError ''no confirmed candles'') (Inr ()))) (\<lambda>_.
     bindS (candle_loop cfg evaluation) (\<lambda>_.
     close_at_end cfg))"

end
