(* ===== verification/EngineArith.thy ===== *)
theory EngineArith
  imports Engine
begin

section \<open>Rounding errors of the engine's accounting\<close>

text \<open>
  Cash, margins and results of a run are stored amounts, below \<open>10 ^ 20\<close>; between two of them the
  engine computes in the 28-digit context. Each lemma bounds the distance of one such
  computation from the exact one. \<open>tiny\<close>, a millionth of a unit, is above every one of them.
\<close>

named_theorems rounding_error \<open>distance of a computed amount from the exact one\<close>

definition tiny :: decimal where
  "tiny = 1 / 10 ^ 6"

lemma quantize_error: "quantize_amount x = Inr y \<Longrightarrow> \<bar>y - x\<bar> \<le> 1 / (2 * 10 ^ 8) \<and> \<bar>y\<bar> < 10 ^ 20"
  using grid_error [of Q_AMOUNT x] by (auto simp: quantize_eq_Inr Q_AMOUNT_def)

lemma quantize_bound: "quantize_amount x = Inr y \<Longrightarrow> \<bar>x\<bar> \<le> 10 ^ 20 + 1"
  by (drule quantize_error) (simp add: abs_if split: if_splits)

lemma dctx_forward: "\<bar>x\<bar> \<le> b \<Longrightarrow> \<bar>dctx x - x\<bar> \<le> b / (2 * 10 ^ 27)"
  by (rule order_trans [OF dctx_error divide_right_mono]) simp_all

lemma dctx_backward: "\<bar>dctx x\<bar> \<le> b \<Longrightarrow> \<bar>dctx x - x\<bar> \<le> b / 10 ^ 27 \<and> \<bar>x\<bar> \<le> 2 * b"
proof -
  assume b: "\<bar>dctx x\<bar> \<le> b"
  have e: "\<bar>dctx x - x\<bar> \<le> \<bar>x\<bar> / (2 * 10 ^ 27)" by (rule dctx_error)
  have "\<bar>x\<bar> / (2 * 10 ^ 27) \<le> \<bar>x\<bar> / 2" by simp
  with e b have x: "\<bar>x\<bar> \<le> 2 * b" by linarith
  have "\<bar>x\<bar> / (2 * 10 ^ 27) \<le> 2 * b / (2 * 10 ^ 27)" using x by (intro divide_right_mono) simp_all
  with e x show ?thesis by simp
qed

lemma scaled_le: "\<bar>x\<bar> \<le> b \<Longrightarrow> 0 \<le> q \<Longrightarrow> \<bar>x * q\<bar> \<le> b * q" for x :: rat
  by (simp add: abs_mult mult_right_mono)

text \<open>A price difference times a quantity.\<close>

lemma pnl_error [rounding_error]:
  assumes "quantize_amount (dmul (dsub a b) q) = Inr y" and "0 \<le> q"
  shows "\<bar>y - (a - b) * q\<bar> \<le> tiny"
proof -
  define d where "d = dctx (a - b)"
  define m where "m = dctx (d * q)"
  have y: "quantize_amount m = Inr y" using assms(1) by (simp add: dmul_def dsub_def d_def m_def)
  have ym: "\<bar>y - m\<bar> \<le> 1 / (2 * 10 ^ 8)" using quantize_error [OF y] by blast
  have m: "\<bar>m\<bar> \<le> 10 ^ 20 + 1" using quantize_bound [OF y] .
  have md: "\<bar>m - d * q\<bar> \<le> (10 ^ 20 + 1) / 10 ^ 27" "\<bar>d * q\<bar> \<le> 2 * (10 ^ 20 + 1)"
    using dctx_backward [OF m [unfolded m_def]] by (simp_all add: m_def)
  have "\<bar>d - (a - b)\<bar> \<le> \<bar>d\<bar> / 10 ^ 27"
    using dctx_backward [of "a - b" "\<bar>d\<bar>"] by (simp add: d_def)
  from scaled_le [OF this assms(2)] have "\<bar>(d - (a - b)) * q\<bar> \<le> \<bar>d * q\<bar> / 10 ^ 27"
    using assms(2) by (simp add: abs_mult)
  also have "\<dots> \<le> 2 * (10 ^ 20 + 1) / 10 ^ 27" using md(2) by (rule divide_right_mono) simp
  finally have "\<bar>d * q - (a - b) * q\<bar> \<le> 2 * (10 ^ 20 + 1) / 10 ^ 27" by (simp add: left_diff_distrib)
  with ym md(1) have "\<bar>y - (a - b) * q\<bar> \<le> 1 / (2 * 10 ^ 8) + (10 ^ 20 + 1) / 10 ^ 27 + 2 * (10 ^ 20 + 1) / 10 ^ 27"
    by linarith
  also have "\<dots> \<le> tiny" by (simp add: tiny_def)
  finally show ?thesis .
qed

lemma dsub_error: "\<bar>a\<bar> \<le> x \<Longrightarrow> \<bar>b\<bar> \<le> z \<Longrightarrow> \<bar>dsub a b - (a - b)\<bar> \<le> (x + z) / (2 * 10 ^ 27)"
  unfolding dsub_def by (rule dctx_forward) linarith

lemma dadd_error: "\<bar>a\<bar> \<le> x \<Longrightarrow> \<bar>b\<bar> \<le> z \<Longrightarrow> \<bar>dadd a b - (a + b)\<bar> \<le> (x + z) / (2 * 10 ^ 27)"
  unfolding dadd_def by (rule dctx_forward) linarith

lemma net_error [rounding_error]:
  assumes "quantize_amount (dsub (dsub (dsub (dsub g f) s) u) 0) = Inr n"
    and "\<bar>g\<bar> < 10 ^ 20" and "\<bar>f\<bar> < 10 ^ 20" and "\<bar>s\<bar> < 10 ^ 20" and "\<bar>u\<bar> < 10 ^ 20"
  shows "\<bar>n - (g - f - s - u)\<bar> \<le> 2 * tiny"
proof -
  define a where "a = dsub g f"
  define b where "b = dsub a s"
  define c where "c = dsub b u"
  have a: "\<bar>a - (g - f)\<bar> \<le> (10 ^ 20 + 10 ^ 20) / (2 * 10 ^ 27)"
    unfolding a_def by (rule dsub_error) (use assms in simp_all)
  have a': "\<bar>a\<bar> \<le> 3 * 10 ^ 20" using a assms by (simp add: abs_if split: if_splits)
  have b: "\<bar>b - (a - s)\<bar> \<le> (3 * 10 ^ 20 + 10 ^ 20) / (2 * 10 ^ 27)"
    unfolding b_def by (rule dsub_error) (use assms a' in simp_all)
  have b': "\<bar>b\<bar> \<le> 5 * 10 ^ 20" using b a' assms by (simp add: abs_if split: if_splits)
  have c: "\<bar>c - (b - u)\<bar> \<le> (5 * 10 ^ 20 + 10 ^ 20) / (2 * 10 ^ 27)"
    unfolding c_def by (rule dsub_error) (use assms b' in simp_all)
  have d: "dsub c 0 = c" by (simp add: c_def dsub_def)
  have "\<bar>n - c\<bar> \<le> 1 / (2 * 10 ^ 8)" using quantize_error [of c n] assms(1) d by (simp add: a_def b_def c_def)
  with a b c show ?thesis by (simp add: tiny_def abs_if split: if_splits)
qed

lemma cash_error [rounding_error]:
  assumes "checked_cash (dsub (dadd (dadd c r) p) f) = Inr n"
    and "\<bar>c\<bar> < 10 ^ 20" and "\<bar>r\<bar> < 10 ^ 20" and "\<bar>p\<bar> < 10 ^ 20" and "\<bar>f\<bar> < 10 ^ 20"
  shows "\<bar>n - (c + r + p - f)\<bar> \<le> tiny" and "0 \<le> n" and "is_q8 n"
proof -
  have q: "quantize_amount (dsub (dadd (dadd c r) p) f) = Inr n" "0 \<le> n"
    using assms(1) by (auto simp: checked_cash_def bindR_eq_Inr)
  show "0 \<le> n" "is_q8 n" using q quantize_is_q8 by blast+
  define a where "a = dadd c r"
  define b where "b = dadd a p"
  define d where "d = dsub b f"
  have a: "\<bar>a - (c + r)\<bar> \<le> (10 ^ 20 + 10 ^ 20) / (2 * 10 ^ 27)"
    unfolding a_def by (rule dadd_error) (use assms in simp_all)
  have a': "\<bar>a\<bar> \<le> 3 * 10 ^ 20" using a assms by (simp add: abs_if split: if_splits)
  have b: "\<bar>b - (a + p)\<bar> \<le> (3 * 10 ^ 20 + 10 ^ 20) / (2 * 10 ^ 27)"
    unfolding b_def by (rule dadd_error) (use assms a' in simp_all)
  have b': "\<bar>b\<bar> \<le> 5 * 10 ^ 20" using b a' assms by (simp add: abs_if split: if_splits)
  have d: "\<bar>d - (b - f)\<bar> \<le> (5 * 10 ^ 20 + 10 ^ 20) / (2 * 10 ^ 27)"
    unfolding d_def by (rule dsub_error) (use assms b' in simp_all)
  have "\<bar>n - d\<bar> \<le> 1 / (2 * 10 ^ 8)" using quantize_error [OF q(1)] by (simp add: a_def b_def d_def)
  with a b d show "\<bar>n - (c + r + p - f)\<bar> \<le> tiny" by (simp add: tiny_def abs_if split: if_splits)
qed

lemma released_error [rounding_error]:
  assumes "bindR (ddiv (dmul m q) q) quantize_amount = Inr r" and "\<bar>m\<bar> < 10 ^ 20" and "0 < q"
  shows "\<bar>r - m\<bar> \<le> tiny" and "is_q8 r"
proof -
  define d where "d = dctx (m * q) / q"
  have r: "quantize_amount (dctx d) = Inr r" using assms(1,3) by (auto simp: bindR_eq_Inr dmul_def d_def)
  show "is_q8 r" by (rule quantize_is_q8 [OF r])
  have "\<bar>dctx (m * q) - m * q\<bar> \<le> \<bar>m\<bar> * q / (2 * 10 ^ 27)"
    using dctx_error [of "m * q"] assms(3) by (simp add: abs_mult)
  then have "\<bar>dctx (m * q) - m * q\<bar> / q \<le> \<bar>m\<bar> * q / (2 * 10 ^ 27) / q"
    using assms(3) by (intro divide_right_mono) simp_all
  then have "\<bar>(dctx (m * q) - m * q) / q\<bar> \<le> \<bar>m\<bar> / (2 * 10 ^ 27)" using assms(3) by simp
  moreover have "(dctx (m * q) - m * q) / q = d - m" using assms(3) by (simp add: d_def diff_divide_distrib)
  ultimately have e: "\<bar>d - m\<bar> \<le> \<bar>m\<bar> / (2 * 10 ^ 27)" by simp
  have "\<bar>m\<bar> / (2 * 10 ^ 27) \<le> 10 ^ 20 / (2 * 10 ^ 27)" using assms(2) by (intro divide_right_mono) simp_all
  with e have e': "\<bar>d - m\<bar> \<le> 10 ^ 20 / (2 * 10 ^ 27)" by linarith
  then have "\<bar>d\<bar> \<le> 2 * 10 ^ 20" using assms(2) by (simp add: abs_if split: if_splits)
  from dctx_forward [OF this] have "\<bar>dctx d - d\<bar> \<le> 2 * 10 ^ 20 / (2 * 10 ^ 27)" .
  moreover have "\<bar>r - dctx d\<bar> \<le> 1 / (2 * 10 ^ 8)" using quantize_error [OF r] by blast
  ultimately show "\<bar>r - m\<bar> \<le> tiny" using e' by (simp add: tiny_def abs_if split: if_splits)
qed

subsection \<open>The slippage of a fill\<close>

text \<open>
  A fill of the matcher: the price is the reference moved by the slippage per unit. The price is
  rounded to eight decimals, so over a whole fill price and slippage may differ by half a
  quantum per unit.
\<close>

definition slip_fill :: "fill \<Rightarrow> bool" where
  "slip_fill f \<longleftrightarrow> fill_ok f \<and> is_q8 (f_reference_price f) \<and>
     (\<exists>s. f_slippage f = \<bar>s\<bar> \<and> (f_side f = BUY \<and> 0 \<le> s \<or> f_side f = SELL \<and> s \<le> 0) \<and>
        quantize_amount (dadd (f_reference_price f) (dctx (s / f_quantity f))) = Inr (f_price f)) \<and>
     (\<exists>n. quantize_amount (dmul (f_price f) (f_quantity f)) = Inr n)"

lemma slip_error [rounding_error]:
  assumes "slip_fill f" and "f_quantity f \<le> 10 ^ 6"
  obtains s where "f_slippage f = \<bar>s\<bar>" and "f_side f = BUY \<and> 0 \<le> s \<or> f_side f = SELL \<and> s \<le> 0"
    and "\<bar>(f_price f - f_reference_price f) * f_quantity f - s\<bar> \<le> f_quantity f / (2 * 10 ^ 8) + tiny"
proof -
  define q r px where "q = f_quantity f" and "r = f_reference_price f" and "px = f_price f"
  obtain s n where s: "f_slippage f = \<bar>s\<bar>" "f_side f = BUY \<and> 0 \<le> s \<or> f_side f = SELL \<and> s \<le> 0"
    and p: "quantize_amount (dadd r (dctx (s / q))) = Inr px"
    and n: "quantize_amount (dmul px q) = Inr n" and ok: "fill_ok f"
    using assms(1) by (auto simp: slip_fill_def q_def r_def px_def)
  have q: "0 < q" "q \<le> 10 ^ 6" and px: "0 < px" and sb: "\<bar>s\<bar> < 10 ^ 20"
    using ok assms(2) s(1) by (auto simp: fill_ok_def q_def px_def is_q8_def)
  define u where "u = dctx (s / q)"
  define v where "v = dctx (r + u)"
  have pv: "\<bar>px - v\<bar> \<le> 1 / (2 * 10 ^ 8)" using quantize_error [OF p] by (simp add: dadd_def u_def v_def)
  have "\<bar>dmul px q\<bar> \<le> 10 ^ 20 + 1" by (rule quantize_bound [OF n])
  then have "\<bar>px * q\<bar> \<le> 2 * (10 ^ 20 + 1)" unfolding dmul_def using dctx_backward by blast
  moreover have "\<bar>(px - v) * q\<bar> \<le> 1 / (2 * 10 ^ 8) * q" using scaled_le [OF pv] q by simp
  moreover have "1 / (2 * 10 ^ 8) * q \<le> 1" using q(2) by simp
  ultimately have vq: "\<bar>v * q\<bar> \<le> 2 * 10 ^ 20 + 3" by (simp add: left_diff_distrib abs_if split: if_splits)
  have "\<bar>v - (r + u)\<bar> \<le> \<bar>v\<bar> / 10 ^ 27" using dctx_backward [of "r + u" "\<bar>v\<bar>"] by (simp add: v_def)
  from scaled_le [OF this] q have "\<bar>(v - (r + u)) * q\<bar> \<le> \<bar>v * q\<bar> / 10 ^ 27" by (simp add: abs_mult)
  also have "\<dots> \<le> (2 * 10 ^ 20 + 3) / 10 ^ 27" using vq by (rule divide_right_mono) simp
  finally have v: "\<bar>(v - (r + u)) * q\<bar> \<le> (2 * 10 ^ 20 + 3) / 10 ^ 27" .
  have "\<bar>u - s / q\<bar> \<le> \<bar>s / q\<bar> / (2 * 10 ^ 27)" unfolding u_def by (rule dctx_error)
  from scaled_le [OF this, of q] have "\<bar>(u - s / q) * q\<bar> \<le> \<bar>s\<bar> / (2 * 10 ^ 27)"
    using q(1) by (simp add: abs_divide)
  also have "\<dots> \<le> 10 ^ 20 / (2 * 10 ^ 27)" using sb by (intro divide_right_mono) simp_all
  finally have u: "\<bar>(u - s / q) * q\<bar> \<le> 10 ^ 20 / (2 * 10 ^ 27)" .
  have split: "(px - r) * q - s = (px - v) * q + (v - (r + u)) * q + (u - s / q) * q"
    using q by (simp add: algebra_simps)
  have "\<bar>(px - r) * q - s\<bar> \<le> 1 / (2 * 10 ^ 8) * q + (2 * 10 ^ 20 + 3) / 10 ^ 27 + 10 ^ 20 / (2 * 10 ^ 27)"
    unfolding split using \<open>\<bar>(px - v) * q\<bar> \<le> 1 / (2 * 10 ^ 8) * q\<close> v u by linarith
  also have "\<dots> \<le> q / (2 * 10 ^ 8) + tiny" by (simp add: tiny_def)
  finally show thesis using that [OF s] by (simp add: q_def r_def px_def)
qed

end
