(* ===== verification/EngineSteps.thy ===== *)
theory EngineSteps
  imports EngineArith
begin

section \<open>Reasoning about the engine's methods\<close>

text \<open>
  A weakest precondition for methods that thread a state and may raise: \<open>wp m Q s\<close> holds if every
  return of \<open>m\<close> from \<open>s\<close> satisfies \<open>Q\<close>. What a method can only do to its state is a preorder on
  states (locale \<open>step_order\<close>): the engine's methods only append to the evidence (\<open>grows\<close>), and
  most of them leave the books alone and write no executions (\<open>silent\<close>).
\<close>

definition wp :: "('s, 'a) st \<Rightarrow> ('a \<Rightarrow> 's \<Rightarrow> bool) \<Rightarrow> 's \<Rightarrow> bool" where
  "wp m Q s \<longleftrightarrow> (\<forall>s' x. m s = (s', Inr x) \<longrightarrow> Q x s')"

lemma wpI: "(\<And>s' x. m s = (s', Inr x) \<Longrightarrow> Q x s') \<Longrightarrow> wp m Q s"
  by (simp add: wp_def)

lemma wpD: "wp m Q s \<Longrightarrow> m s = (s', Inr x) \<Longrightarrow> Q x s'"
  by (simp add: wp_def)

lemma wp_bind [simp]: "wp (bindS m f) Q s \<longleftrightarrow> wp m (\<lambda>x. wp (f x) Q) s"
  by (auto simp: wp_def bindS_Inr)

lemma wp_lift [simp]: "wp (liftS r) Q s \<longleftrightarrow> (\<forall>x. r = Inr x \<longrightarrow> Q x s)"
  by (auto simp: wp_def liftS_def)

lemma wp_modify [simp]: "wp (modify f) Q s \<longleftrightarrow> Q () (f s)"
  by (auto simp: wp_def modify_def)

lemma wp_gets [simp]: "wp (gets f) Q s \<longleftrightarrow> (\<forall>x. f s = Inr x \<longrightarrow> Q x s)"
  by (auto simp: wp_def gets_def)

lemma wp_pair [simp]: "wp (\<lambda>s. (h s, r s)) Q s \<longleftrightarrow> (\<forall>x. r s = Inr x \<longrightarrow> Q x (h s))"
  by (auto simp: wp_def)

named_theorems returns \<open>when a sequence of methods returns\<close>

lemma bind_lift_returns [returns]:
  "bindS (liftS r) f s = (t, Inr y) \<longleftrightarrow> (\<exists>x. r = Inr x \<and> f x s = (t, Inr y))"
  by (auto simp: bindS_Inr liftS_def)

lemma bind_gets_returns [returns]:
  "bindS (gets h) f s = (t, Inr y) \<longleftrightarrow> (\<exists>x. h s = Inr x \<and> f x s = (t, Inr y))"
  by (auto simp: bindS_Inr gets_def)

lemma bind_modify_returns [returns]: "bindS (modify h) f s = (t, Inr y) \<longleftrightarrow> f () (h s) = (t, Inr y)"
  by (auto simp: bindS_Inr modify_def)

lemma lift_returns [returns]: "liftS r s = (t, Inr y) \<longleftrightarrow> t = s \<and> r = Inr y"
  by (auto simp: liftS_def)

lemma modify_returns [returns]: "modify h s = (t, Inr y) \<longleftrightarrow> t = h s"
  by (auto simp: modify_def)

lemma bind_next_id_returns [returns]:
  "bindS (next_id name) f g = (t, Inr y) \<longleftrightarrow>
    f (Suc (g_sequence g name)) (g\<lparr>g_sequence := (g_sequence g)(name := Suc (g_sequence g name))\<rparr>) = (t, Inr y)"
  by (auto simp: bindS_Inr next_id_def Let_def)

lemma bind_record_row_returns [returns]:
  "bindS (record_row e) f g = (t, Inr y) \<longleftrightarrow> f () (g\<lparr>g_evidence := g_evidence g @ [e]\<rparr>) = (t, Inr y)"
  by (simp add: record_row_def bind_modify_returns)

lemma wp_on_broker: "wp (on_broker m) Q g \<longleftrightarrow> wp m (\<lambda>x br. Q x (g\<lparr>g_broker := br\<rparr>)) (g_broker g)"
  by (auto simp: wp_def on_broker_def split: prod.splits)

lemma wp_mono: "wp m Q s \<Longrightarrow> (\<And>x s'. Q x s' \<Longrightarrow> Q' x s') \<Longrightarrow> wp m Q' s"
  by (simp add: wp_def)

lemma wp_conj: "wp m Q s \<Longrightarrow> wp m Q' s \<Longrightarrow> wp m (\<lambda>x s'. Q x s' \<and> Q' x s') s"
  by (simp add: wp_def)

lemma wp_at: "wp m Q s \<longleftrightarrow> wp (\<lambda>_. m s) Q s"
  by (simp add: wp_def)

lemma wp_option:
  "wp (case x of None \<Rightarrow> m | Some y \<Rightarrow> f y) Q s \<longleftrightarrow> (x = None \<longrightarrow> wp m Q s) \<and> (\<forall>y. x = Some y \<longrightarrow> wp (f y) Q s)"
  by (simp split: option.split)

lemma wp_if: "wp (if b then m else n) Q s \<longleftrightarrow> (b \<longrightarrow> wp m Q s) \<and> (\<not> b \<longrightarrow> wp n Q s)"
  by simp

lemma wp_prod: "wp (case x of (a, b) \<Rightarrow> f a b) Q s \<longleftrightarrow> (\<forall>a b. x = (a, b) \<longrightarrow> wp (f a b) Q s)"
  by (simp split: prod.split)

lemmas wp_cases = wp_option wp_if wp_prod

subsection \<open>What a method can do to its state\<close>

definition steps :: "('s \<Rightarrow> 's \<Rightarrow> bool) \<Rightarrow> ('s, 'a) st \<Rightarrow> bool" where
  "steps R m \<longleftrightarrow> (\<forall>s. wp m (\<lambda>_. R s) s)"

lemma stepsI: "(\<And>s. wp m (\<lambda>_. R s) s) \<Longrightarrow> steps R m"
  by (simp add: steps_def)

lemma stepsD: "steps R m \<Longrightarrow> m s = (s', Inr x) \<Longrightarrow> R s s'"
  by (auto simp: steps_def wp_def)

lemma wp_steps: "steps R m \<Longrightarrow> (\<And>x s'. R s s' \<Longrightarrow> Q x s') \<Longrightarrow> wp m Q s"
  by (auto simp: steps_def wp_def)

locale step_order =
  fixes R :: "'s \<Rightarrow> 's \<Rightarrow> bool"
  assumes reflexive: "R s s"
    and transitive: "R s t \<Longrightarrow> R t u \<Longrightarrow> R s u"
begin

lemma steps_bind: "steps R m \<Longrightarrow> (\<And>x. steps R (f x)) \<Longrightarrow> steps R (bindS m f)"
  by (simp add: steps_def wp_def bindS_Inr) (blast intro: transitive)

lemma steps_lift: "steps R (liftS r)"
  by (simp add: steps_def reflexive)

lemma steps_gets: "steps R (gets f)"
  by (simp add: steps_def reflexive)

lemma steps_modify: "(\<And>s. R s (f s)) \<Longrightarrow> steps R (modify f)"
  by (simp add: steps_def)

lemma steps_if: "(b \<Longrightarrow> steps R m) \<Longrightarrow> (\<not> b \<Longrightarrow> steps R n) \<Longrightarrow> steps R (if b then m else n)"
  by simp

lemma steps_option:
  "(x = None \<Longrightarrow> steps R m) \<Longrightarrow> (\<And>y. x = Some y \<Longrightarrow> steps R (f y)) \<Longrightarrow>
    steps R (case x of None \<Rightarrow> m | Some y \<Rightarrow> f y)"
  by (cases x) simp_all

lemma steps_prod: "(\<And>a b. steps R (f a b)) \<Longrightarrow> steps R (case x of (a, b) \<Rightarrow> f a b)"
  by (cases x) simp

lemma steps_let: "(\<And>v. steps R (f v)) \<Longrightarrow> steps R (let v = e in f v)"
  by simp

lemma steps_return: "steps R (\<lambda>s. (s, r))"
  by (simp add: steps_def reflexive)

lemma steps_option_at:
  "steps R m \<Longrightarrow> (\<And>y. steps R (f y)) \<Longrightarrow> steps R (\<lambda>s. case x s of None \<Rightarrow> m s | Some y \<Rightarrow> f y s)"
  by (auto simp: steps_def wp_def split: option.split)

lemma steps_if_at: "steps R m \<Longrightarrow> steps R n \<Longrightarrow> steps R (\<lambda>s. if b s then m s else n s)"
  by (auto simp: steps_def wp_def)

lemma steps_let_at: "(\<And>v. steps R (f v)) \<Longrightarrow> steps R (\<lambda>s. let v = e s in f v s)"
  by (auto simp: steps_def wp_def Let_def)

lemma steps_state: "(\<And>t. steps R (f t)) \<Longrightarrow> steps R (\<lambda>s. f s s)"
  by (simp add: steps_def wp_def)

lemma wp_step: "steps R m \<Longrightarrow> R s t \<Longrightarrow> wp m (\<lambda>_. R s) t"
  by (auto simp: steps_def wp_def intro: transitive)

lemmas steps_rules = steps_bind steps_lift steps_gets steps_if steps_option steps_prod steps_let

lemmas steps_at_rules = steps_return steps_option_at steps_if_at steps_let_at

end

subsection \<open>The evidence is append-only\<close>

definition grows :: "'x engine \<Rightarrow> 'x engine \<Rightarrow> bool" where
  "grows g g' \<longleftrightarrow> (\<exists>es. g_evidence g' = g_evidence g @ es)"

interpretation append_only: step_order grows
proof
  show "grows g g" for g :: "'a engine" by (simp add: grows_def)
  show "grows g i" if "grows g h" "grows h i" for g h i :: "'a engine"
    using that by (auto simp: grows_def)
qed

subsection \<open>Methods that leave the books alone\<close>

text \<open>The part of the state the accounting is about.\<close>

definition trade_accounts :: "active_trade \<Rightarrow> fill \<times> decimal \<times> decimal \<times> decimal" where
  "trade_accounts a = (at_entry_fill a, at_total_fee a, at_slippage a, at_funding a)"

definition ledger where
  "ledger g = (g_book g, g_cash g, g_trades g, map_option trade_accounts (g_active g),
     g_stop_price g, g_take_profit_price g, g_pending g)"

fun quiet_row :: "evidence \<Rightarrow> bool" where
  "quiet_row (EXECUTION_ROW _) = False"
| "quiet_row (PORTFOLIO_ROW _) = False"
| "quiet_row _ = True"

definition records_quiet :: "'x engine \<Rightarrow> bool" where
  "records_quiet g \<longleftrightarrow> (\<forall>a. g_active g = Some a \<longrightarrow> list_all quiet_row (at_position_records a @ at_funding_records a))"

definition silent :: "'x engine \<Rightarrow> 'x engine \<Rightarrow> bool" where
  "silent g g' \<longleftrightarrow> ledger g' = ledger g \<and> (\<exists>es. g_evidence g' = g_evidence g @ es \<and> list_all quiet_row es) \<and>
     (records_quiet g \<longrightarrow> records_quiet g')"

interpretation quiet: step_order silent
proof
  show "silent g g" for g :: "'a engine" by (simp add: silent_def)
  show "silent g i" if "silent g h" "silent h i" for g h i :: "'a engine"
    using that by (auto simp: silent_def)
qed

lemma silent_grows: "silent g g' \<Longrightarrow> grows g g'"
  by (auto simp: silent_def grows_def)

lemma silent_steps_grow: "steps silent m \<Longrightarrow> steps grows m"
  by (auto simp: steps_def wp_def dest: silent_grows)

definition still :: "'x engine \<Rightarrow> 'x engine \<Rightarrow> bool" where
  "still g g' \<longleftrightarrow> ledger g' = ledger g \<and> grows g g'"

interpretation unmoved: step_order still
proof
  show "still g g" for g :: "'a engine" by (simp add: still_def append_only.reflexive)
  show "still g i" if "still g h" "still h i" for g h i :: "'a engine"
    using that append_only.transitive [of g h i] by (simp add: still_def)
qed

lemma silent_still: "silent g g' \<Longrightarrow> still g g'"
  by (auto simp: silent_def still_def grows_def)

lemma silent_steps_still: "steps silent m \<Longrightarrow> steps still m"
  by (auto simp: steps_def wp_def dest: silent_still)

lemma still_steps_grow: "steps still m \<Longrightarrow> steps grows m"
  by (auto simp: steps_def wp_def still_def)

named_theorems silent_steps \<open>methods that leave the books alone\<close>

lemma silentI:
  assumes "g_book g' = g_book g" and "g_cash g' = g_cash g" and "g_trades g' = g_trades g"
    and "g_active g' = g_active g" and "g_stop_price g' = g_stop_price g"
    and "g_take_profit_price g' = g_take_profit_price g" and "g_pending g' = g_pending g"
    and "g_evidence g' = g_evidence g @ es" and "list_all quiet_row es"
  shows "silent g g'"
  using assms by (auto simp: silent_def ledger_def records_quiet_def)

lemma external_silent [simp]: "silent g (g\<lparr>g_external := x\<rparr>)"
  by (rule silentI [of _ _ "[]"]) simp_all

lemma next_id_silent [silent_steps]: "steps silent (next_id name)"
  by (auto simp: steps_def wp_def next_id_def Let_def intro: silentI [of _ _ "[]"])

lemma record_row_silent: "quiet_row e \<Longrightarrow> steps silent (record_row e)"
  by (auto simp: record_row_def intro!: quiet.steps_modify intro: silentI [of _ _ "[e]"])

lemma record_rows_silent: "list_all quiet_row es \<Longrightarrow> steps silent (record_rows es)"
  by (auto simp: record_rows_def intro!: quiet.steps_modify intro: silentI [of _ _ es])

lemma feature_snapshot_silent [silent_steps]: "steps silent (feature_snapshot i ph ts fs r)"
  unfolding feature_snapshot_def by (intro quiet.steps_rules silent_steps record_row_silent) simp

lemma feature_snapshots_silent [silent_steps]: "steps silent (feature_snapshots a x)"
  unfolding feature_snapshots_def by (intro quiet.steps_rules silent_steps)

lemma on_broker_silent [silent_steps]: "steps silent (on_broker m)"
  by (auto simp: steps_def wp_def on_broker_def split: prod.splits intro: silentI [of _ _ "[]"])

lemma on_broker_at_silent [silent_steps]: "steps silent (\<lambda>g. on_broker (m g) g)"
  by (rule quiet.steps_state) (rule on_broker_silent)

lemma funding_rate_at_silent [silent_steps]: "steps silent (funding_rate_at cfg p b)"
proof (rule stepsI)
  fix g :: "'a engine"
  show "wp (funding_rate_at cfg p b) (\<lambda>_. silent g) g"
    by (cases "map_of (g_rates g) b")
      (auto simp: funding_rate_at_def wp_def bindS_Inr modify_def liftS_def quiet.reflexive
        intro: silentI [of _ _ "[]"])
qed

lemma blocked_candidate_silent [silent_steps]: "steps silent (record_blocked_candidate c side reason)"
  unfolding record_blocked_candidate_def by (intro quiet.steps_rules silent_steps record_row_silent) simp

lemma update_indicators_silent [silent_steps]: "steps silent (update_indicators cfg c)"
  by (auto simp: steps_def wp_def update_indicators_def split: sum.splits prod.splits intro: silentI [of _ _ "[]"])

lemma engine_analyze_silent [silent_steps]: "steps silent (engine_analyze cfg c)"
  unfolding engine_analyze_def
  by (intro quiet.steps_rules)
    (auto simp: steps_def wp_def split: prod.split_asm intro: silentI [of _ _ "[]"])

lemma move_clock_silent [silent_steps]: "steps silent (engine_move_clock t)"
  by (auto simp: steps_def wp_def engine_move_clock_def split: sum.splits intro: silentI [of _ _ "[]"])

lemma quiet_rows [simp]:
  "quiet_row (forced_exit_row cfg i ts p t)" "quiet_row (skip_row cfg i s c r)"
  "quiet_row (action_row cfg i j c act side q planned sig d)"
  by (simp_all add: forced_exit_row_def skip_row_def action_row_def)

lemma track_mae_accounts:
  "track_mae a v ts fs = Inr b \<Longrightarrow> trade_accounts b = trade_accounts a \<and>
    at_position_records b = at_position_records a \<and> at_funding_records b = at_funding_records a"
  by (auto simp: track_mae_def trade_accounts_def bindR_eq_Inr split: if_splits)

lemma track_mfe_accounts:
  "track_mfe a v ts fs = Inr b \<Longrightarrow> trade_accounts b = trade_accounts a \<and>
    at_position_records b = at_position_records a \<and> at_funding_records b = at_funding_records a"
  by (auto simp: track_mfe_def trade_accounts_def bindR_eq_Inr split: if_splits)

lemma active_silent:
  assumes "g_active g = Some a" and "trade_accounts b = trade_accounts a"
    and "list_all quiet_row (at_position_records a @ at_funding_records a) \<Longrightarrow>
      list_all quiet_row (at_position_records b @ at_funding_records b)"
  shows "silent g (g\<lparr>g_active := Some b\<rparr>)"
  using assms by (auto simp: silent_def ledger_def records_quiet_def)

lemma track_excursions_silent [silent_steps]: "steps silent (track_excursions c p)"
proof (rule stepsI)
  fix g :: "'a engine"
  show "wp (track_excursions c p) (\<lambda>_. silent g) g"
  proof (cases "g_active g")
    case None
    then show ?thesis by (simp add: track_excursions_def wp_def quiet.reflexive)
  next
    case (Some a)
    have "silent g (g\<lparr>g_active := Some a2\<rparr>)"
      if "track_mae a d ts fs = Inr a1" "track_mfe a1 d' ts' fs' = Inr a2" for d ts fs a1 d' ts' fs' a2
      using track_mae_accounts [OF that(1)] track_mfe_accounts [OF that(2)]
      by (intro active_silent [OF Some]) auto
    with Some show ?thesis
      by (auto simp: track_excursions_def wp_def Let_def bindS_Inr liftS_def modify_def quiet.reflexive)
  qed
qed

lemma position_evidence_silent [silent_steps]: "steps silent (position_evidence c p mark)"
  unfolding position_evidence_def
proof (rule quiet.steps_bind [OF next_id_silent], rule stepsI)
  fix n and g :: "'a engine"
  let ?row = "POSITION_ROW \<lparr>ps_sequence = n, ps_ts = c_close_time c,
              ps_symbol = (case p of None \<Rightarrow> c_symbol c | Some q \<Rightarrow> p_symbol q),
              ps_trade_id = (if p = None then None else map_option at_trade_id (g_active g)),
              ps_position = p, ps_mark = mark\<rparr>"
  have rec: "silent g (g\<lparr>g_evidence := g_evidence g @ [?row]\<rparr>)"
    by (rule silentI [of _ _ "[?row]"]) simp_all
  have act: "silent g (g\<lparr>g_active := Some (a\<lparr>at_position_records := at_position_records a @ [?row]\<rparr>)\<rparr>)"
    if "g_active g = Some a" for a
    by (rule active_silent [OF that]) (simp_all add: trade_accounts_def)
  show "wp (\<lambda>g. let row = POSITION_ROW \<lparr>ps_sequence = n, ps_ts = c_close_time c,
              ps_symbol = (case p of None \<Rightarrow> c_symbol c | Some q \<Rightarrow> p_symbol q),
              ps_trade_id = (if p = None then None else map_option at_trade_id (g_active g)),
              ps_position = p, ps_mark = mark\<rparr> in
        case (p, g_active g) of
          (Some _, Some a) \<Rightarrow>
            modify (\<lambda>g. g\<lparr>g_active := Some (a\<lparr>at_position_records := at_position_records a @ [row]\<rparr>)\<rparr>) g
        | _ \<Rightarrow> record_row row g) (\<lambda>_. silent g) g"
    using rec act
    by (cases p; cases "g_active g") (simp_all add: wp_def modify_def record_row_def)
qed

lemma record_row_still: "steps still (record_row e)"
  by (auto simp: record_row_def still_def grows_def ledger_def intro!: unmoved.steps_modify)

lemma record_rows_still: "steps still (record_rows es)"
  by (auto simp: record_rows_def still_def grows_def ledger_def intro!: unmoved.steps_modify)

lemma execution_evidence_still: "steps still (execution_evidence f d)"
  unfolding execution_evidence_def
  by (intro unmoved.steps_rules silent_steps [THEN silent_steps_still] record_row_still)

lemma execution_evidence_row:
  assumes "execution_evidence f d g = (g', Inr n)"
  obtains r es where "g_evidence g' = g_evidence g @ [EXECUTION_ROW r]" and "ex_fill r = f" and "ex_decision_id r = d"
    and "still g g'"
proof -
  have s: "still g g'" using stepsD [OF execution_evidence_still assms] .
  from assms obtain notional where "g_evidence g' = g_evidence g @ [EXECUTION_ROW \<lparr>ex_execution_id = n, ex_decision_id = d, ex_fill = f,
      ex_notional = notional\<rparr>]"
    by (auto simp: execution_evidence_def bindS_Inr next_id_def Let_def liftS_def record_row_def modify_def)
  then show thesis using that s by simp
qed

end
