(* ===== verification/EngineFills.thy ===== *)
theory EngineFills
  imports EngineSteps
begin

section \<open>The fills the engine receives\<close>

text \<open>
  A fill comes from the broker, from the trigger walk or from a funding liquidation. Each is a
  \<open>slip_fill\<close>: its price is the reference moved by its slippage. The exits fill the quantity they
  are asked for, and each fill is later than what it was decided on.
\<close>

lemma fill_order_slip:
  assumes f: "fill_order ord ref q time cm gap trunc reason = Inr (ord', f)"
    and q8: "is_q8 ref" "is_q8 q" "0 < q"
  shows "slip_fill f"
proof -
  note sp = fill_order_spec [OF f q8]
  obtain s where px: "execution_price ord ref q cm gap = Inr (f_price f, s)" and sl: "f_slippage f = \<bar>s\<bar>"
    using sp(1) by blast
  obtain po n where "apply_slippage n (o_side ord) cm po (Some \<lparr>x_gap_filled = gap, x_reference_price = ref\<rparr>) = Inr s"
    and p: "quantize_amount (dadd ref (dctx (s / q))) = Inr (f_price f)"
    using px by (rule execution_price_elim)
  then have "o_side ord = BUY \<and> 0 \<le> s \<or> o_side ord = SELL \<and> s \<le> 0" using apply_slippage_side(1) by blast
  then show ?thesis
    unfolding slip_fill_def using sp p sl q8 fill_order_fill_ok [OF f] by auto
qed

lemma match_slip:
  assumes m: "match ord c history cm timing rb am leverage = Inr (ord', f)" and ok: "order_ok ord"
  shows "slip_fill f"
proof -
  obtain reference gap time where ref: "is_q8 reference"
    and mt: "match_triggered ord reference gap time cm rb am leverage = Inr (ord', f)"
    using match_reference_q8 [OF m ok] .
  obtain remaining q stop ord2 where a: "remaining_quantity ord = Inr remaining"
    "truncation_loop 32 ord reference cm gap rb (if o_reduce_only ord \<or> o_close_position ord then None else am)
      leverage remaining = Inr (q, stop)" "0 < q"
    and f: "fill_order ord2 reference q time cm gap (q < remaining) None = Inr (ord', f)"
    using mt by (rule match_triggered_elim) (rule that)
  have "is_q8 remaining" using a(1) by (auto simp: remaining_quantity_def dest: quantize_is_q8)
  from truncation_loop_q8 [OF a(2) this] show ?thesis by (intro fill_order_slip [OF f ref _ a(3)])
qed

lemma make_order_type: "make_order r = Inr ord \<Longrightarrow> o_order_type ord = o_order_type r"
  by (auto simp: make_order_def validate_fill_status_def bindR_eq_Inr)

text \<open>A fill of the broker.\<close>

lemma submit_fill:
  assumes s: "bt_submit cm request br = (br', Inr f)" and x: "bb_execution br = Some x"
  shows "slip_fill f" and "f_symbol f = rq_symbol request" and "f_side f = rq_side request"
    and "f_position_side f = rq_position_side request"
    and "f_reduce_only f = (rq_reduce_only request \<or> rq_close_position request)"
    and "rq_reduce_only request \<Longrightarrow> xc_risk_budget x = None \<Longrightarrow>
      to_decimal (rq_quantity request) quantize_amount = Inr (f_quantity f)"
    and "c_close_time (xc_decision_candle x) < f_timestamp f"
proof -
  from s x obtain ord ord' oid where n: "normalize_order request oid None None None = Inr ord"
    and m: "match ord (xc_decision_candle x) (xc_history x) cm NextBar (xc_risk_budget x) (xc_available_margin x)
      (xc_leverage x) = Inr (ord', f)"
    by (auto simp: bt_submit_def bindR_eq_Inr)
  note o = normalize_order_elim [OF n]
  obtain ec base time trigger gap where ec: "execution_candle (xc_decision_candle x) (xc_history x) NextBar = Inr (ec, base, time)"
    and tr: "trigger_reference ord ec = Inr (Some (trigger, gap))"
    and mt: "match_triggered ord (if o_order_type ord = MARKET then base else trigger) gap time cm
      (xc_risk_budget x) (xc_available_margin x) (xc_leverage x) = Inr (ord', f)"
    using match_elim [OF m] .
  have ref: "is_q8 (if o_order_type ord = MARKET then base else trigger)"
    using execution_candle_q8 [OF ec] trigger_reference_q8 [OF tr o(1)] by simp
  note sp = match_triggered_spec [OF mt o(1) ref]
  show "slip_fill f" by (rule match_slip [OF m o(1)])
  show "f_symbol f = rq_symbol request" "f_side f = rq_side request"
    "f_position_side f = rq_position_side request" "f_reduce_only f = (rq_reduce_only request \<or> rq_close_position request)"
    using sp(7,8,10,12) o(2-6) by simp_all
  show "to_decimal (rq_quantity request) quantize_amount = Inr (f_quantity f)"
    if "rq_reduce_only request" "xc_risk_budget x = None"
    using match_unbounded_quantity [OF mt [unfolded that(2)] o(1) ref] that(1) o(5,7,8) by simp
  show "c_close_time (xc_decision_candle x) < f_timestamp f"
    using sp(11) execution_candle_next [OF ec] by simp
qed

lemma slip_fill_reason:
  assumes "make_fill (f\<lparr>f_exit_reason := r\<rparr>) = Inr f'" and "slip_fill f"
  shows "f' = f\<lparr>f_exit_reason := r\<rparr>"
proof -
  have "quantize_amount (f_price f) = Inr (f_price f)" "quantize_amount (f_quantity f) = Inr (f_quantity f)"
    "quantize_amount (f_fee f) = Inr (f_fee f)" "quantize_amount (f_slippage f) = Inr (f_slippage f)"
    "quantize_amount (f_reference_price f) = Inr (f_reference_price f)"
    using assms(2) by (auto simp: slip_fill_def fill_ok_def)
  then show ?thesis using assms(1) by (auto simp: make_fill_def bindR_eq_Inr quantize_price_amount)
qed

lemma slip_fill_update [simp]: "slip_fill (f\<lparr>f_exit_reason := r\<rparr>) = slip_fill f"
  by (simp add: slip_fill_def fill_ok_def)

text \<open>The fills of the engine's own exits: the whole position, against its side.\<close>

definition closes :: "fill \<Rightarrow> position \<Rightarrow> bool" where
  "closes f p \<longleftrightarrow> slip_fill f \<and> f_reduce_only f \<and> f_symbol f = p_symbol p \<and> f_position_side f = p_side p \<and>
     f_quantity f = p_quantity p \<and> f_side f = (if p_side p = LONG then SELL else BUY)"

lemma synthetic_closes:
  assumes o: "synthetic_exit_order p t reason = Inr ord" and p: "is_q8 (p_quantity p)"
    and f: "fill_order ord ref (p_quantity p) time cm gap trunc why = Inr (ord', f)" and ref: "is_q8 ref"
  shows "closes f p" and "f_timestamp f = time"
proof -
  note e = synthetic_exit_fields [OF o p]
  note sp = fill_order_spec [OF f ref p e(6)]
  show "closes f p" using fill_order_slip [OF f ref p e(6)] sp e by (simp add: closes_def)
  show "f_timestamp f = time" by (rule sp(8))
qed

lemma trigger_level_q8:
  assumes "candle_trigger p c cm stop tp = Inr (Some (reason, level))" and "position_ok p"
    and "q8_option stop" and "q8_option tp"
  shows "is_q8 level"
proof -
  from assms(1) obtain low high liq hit where l: "liquidation_level p cm = Inr liq"
    and t: "trigger_reason p low high liq stop tp hit = Some (reason, level)"
    by (auto simp: candle_trigger_def Let_def bindR_eq_Inr)
  have "is_q8 liq"
    using l assms(2) by (auto simp: liquidation_level_def position_ok_def split: if_splits option.splits
        dest: liquidation_price_elim(6))
  then show ?thesis
    using t assms(3,4) by (auto simp: trigger_reason_def Let_def q8_option_def split: if_splits option.splits)
qed

lemma protection_reference_q8:
  "protection_reference p c level reason = Inr (r, gap) \<Longrightarrow> is_q8 level \<Longrightarrow> is_q8 r"
  by (auto simp: protection_reference_def bindR_eq_Inr min_def max_def dest: price_of_q8 split: if_splits)

lemma triggers_close:
  assumes r: "resolve_triggers p [c] cm stop tp entry = Inr (Some f)" and ok: "position_ok p"
    and q8: "q8_option stop" "q8_option tp"
  shows "closes f p" and "f_timestamp f = c_close_time c"
proof -
  have "resolve_candles p [c] cm stop tp entry = Inr (Some f)" using r by (simp add: resolve_triggers_def)
  from resolve_candles_some [OF this] obtain reason level reference gap ord ord' where
    t: "candle_trigger p c cm stop tp = Inr (Some (reason, level))"
    and pr: "protection_reference p c level reason = Inr (reference, gap)"
    and o: "synthetic_exit_order p (c_open_time c) reason = Inr ord"
    and f: "fill_order ord reference (p_quantity p) (c_close_time c) cm gap False (Some reason) = Inr (ord', f)"
    by (auto simp: Cons_eq_append_conv)
  have "is_q8 reference" by (rule protection_reference_q8 [OF pr trigger_level_q8 [OF t ok q8]])
  moreover have "is_q8 (p_quantity p)" using ok by (simp add: position_ok_def)
  ultimately show "closes f p" "f_timestamp f = c_close_time c" using synthetic_closes [OF o _ f] by blast+
qed

lemma liquidation_closes:
  assumes "liquidation_fill p price t cm = Inr f" and "position_ok p" and "is_q8 price"
  shows "closes f p" and "f_timestamp f = t"
proof -
  obtain ord ord' where "synthetic_exit_order p t LIQUIDATION = Inr ord"
    "fill_order ord price (p_quantity p) t cm False False (Some LIQUIDATION) = Inr (ord', f)"
    using assms(1) by (auto simp: liquidation_fill_def bindR_eq_Inr)
  then show "closes f p" "f_timestamp f = t"
    using synthetic_closes [of p t LIQUIDATION ord price t cm False False "Some LIQUIDATION" ord' f] assms(2,3)
    by (auto simp: position_ok_def)
qed

lemma funding_price_q8: "funding_price cfg b = Inr (price, source) \<Longrightarrow> is_q8 price"
  by (auto simp: funding_price_def Let_def bindR_eq_Inr quantize_price_amount split: option.splits
      dest: to_decimal_is_q8)

end
