(* ===== verification/EngineLedger.thy ===== *)
theory EngineLedger
  imports EngineFills
begin

section \<open>The books of the engine balance\<close>

text \<open>
  Between two methods the engine is flat, and its cash is the initial capital plus the net profit
  of its trades, or it holds the one position of its active trade, and cash, margin, the fees and
  the funding of that trade make up the same sum. The difference is at most a rounding error per
  completed trade: price and slippage of a fill are rounded to eight decimals separately, so an
  entry of \<open>q\<close> units may be off by \<open>q / 10 ^ 8\<close>.
\<close>

definition net_result :: "trade list \<Rightarrow> decimal" where
  "net_result ts = sum_list (map t_net_pnl ts)"

definition rounding_slack :: "trade list \<Rightarrow> decimal" where
  "rounding_slack ts = sum_list (map (\<lambda>t. t_entry_quantity t / 10 ^ 8 + 1 / 10 ^ 5) ts)"

definition held_by :: "'x run_setup \<Rightarrow> active_trade \<Rightarrow> position \<Rightarrow> bool" where
  "held_by cfg a p \<longleftrightarrow> position_ok p \<and> 0 < p_quantity p \<and> p_symbol p = ec_symbol cfg \<and> p_side p \<noteq> BOTH \<and>
     slip_fill (at_entry_fill a) \<and> f_quantity (at_entry_fill a) = p_quantity p \<and>
     f_price (at_entry_fill a) = p_entry_price p \<and> f_position_side (at_entry_fill a) = p_side p \<and>
     f_side (at_entry_fill a) = (if p_side p = LONG then BUY else SELL) \<and>
     at_slippage a = f_slippage (at_entry_fill a) \<and> is_q8 (at_total_fee a) \<and> is_q8 (at_funding a) \<and>
     p_quantity p \<le> 10 ^ 6"

definition accounts :: "'x run_setup \<Rightarrow> decimal \<Rightarrow> 'x engine \<Rightarrow> bool" where
  "accounts cfg cap g \<longleftrightarrow> is_q8 (g_cash g) \<and> 0 \<le> g_cash g \<and>
     q8_option (g_stop_price g) \<and> q8_option (g_take_profit_price g) \<and>
     (case g_active g of
        None \<Rightarrow> g_book g = Map.empty \<and>
          \<bar>g_cash g - (cap + net_result (g_trades g))\<bar> \<le> rounding_slack (g_trades g)
      | Some a \<Rightarrow> \<exists>p. g_book g = [position_key p \<mapsto> p] \<and> held_by cfg a p \<and>
          \<bar>g_cash g + p_margin p + at_total_fee a + at_funding a - (cap + net_result (g_trades g))\<bar>
            \<le> rounding_slack (g_trades g))"

lemma held_by_accounts: "trade_accounts a = trade_accounts b \<Longrightarrow> held_by cfg a p = held_by cfg b p"
  by (simp add: held_by_def trade_accounts_def)

lemma accounts_still:
  assumes "still g g'"
  shows "accounts cfg cap g' \<longleftrightarrow> accounts cfg cap g"
proof -
  have l: "ledger g' = ledger g" using assms by (simp add: still_def)
  show ?thesis
  proof (cases "g_active g")
    case None
    with l show ?thesis by (auto simp: ledger_def accounts_def)
  next
    case (Some a)
    with l obtain b where b: "g_active g' = Some b" "trade_accounts b = trade_accounts a"
      by (auto simp: ledger_def)
    with l Some show ?thesis using held_by_accounts [OF b(2)]
      by (auto simp: ledger_def accounts_def trade_accounts_def)
  qed
qed

lemma accounts_openI:
  assumes "is_q8 (g_cash g)" and "0 \<le> g_cash g" and "q8_option (g_stop_price g)"
    and "q8_option (g_take_profit_price g)" and "g_active g = Some a" and "g_book g = [position_key p \<mapsto> p]"
    and "held_by cfg a p"
    and "\<bar>g_cash g + p_margin p + at_total_fee a + at_funding a - (cap + net_result (g_trades g))\<bar>
      \<le> rounding_slack (g_trades g)"
  shows "accounts cfg cap g"
  unfolding accounts_def assms(5) option.case using assms by blast

lemma accounts_flat:
  "accounts cfg cap g \<Longrightarrow> g_active g = None \<Longrightarrow> current_position cfg g = Inr None"
  by (simp add: accounts_def current_position_def book_get_def)

lemma accounts_open:
  assumes "accounts cfg cap g" and "g_active g = Some a"
  obtains p where "g_book g = [position_key p \<mapsto> p]" and "held_by cfg a p"
    and "current_position cfg g = Inr (Some p)"
    and "\<bar>g_cash g + p_margin p + at_total_fee a + at_funding a - (cap + net_result (g_trades g))\<bar>
      \<le> rounding_slack (g_trades g)"
proof -
  from assms obtain p where p: "g_book g = [position_key p \<mapsto> p]" "held_by cfg a p"
    "\<bar>g_cash g + p_margin p + at_total_fee a + at_funding a - (cap + net_result (g_trades g))\<bar>
      \<le> rounding_slack (g_trades g)"
    by (auto simp: accounts_def)
  have "current_position cfg g = Inr (Some p)"
    using p(1,2) by (cases "p_side p") (auto simp: current_position_def book_get_def held_by_def position_key_def)
  then show thesis using that p by blast
qed

lemma accounts_position:
  assumes "accounts cfg cap g" and "current_position cfg g = Inr (Some p)"
  obtains a where "g_active g = Some a" and "g_book g = [position_key p \<mapsto> p]" and "held_by cfg a p"
    and "\<bar>g_cash g + p_margin p + at_total_fee a + at_funding a - (cap + net_result (g_trades g))\<bar>
      \<le> rounding_slack (g_trades g)"
proof (cases "g_active g")
  case None
  then show thesis using accounts_flat [OF assms(1)] assms(2) by simp
next
  case (Some a)
  show thesis by (rule accounts_open [OF assms(1) Some]) (use assms(2) that [OF Some] in auto)
qed

subsection \<open>A closing fill\<close>

lemma quantize_small: "quantize_amount x = Inr y \<Longrightarrow> \<bar>y\<bar> < 10 ^ 20"
  using quantize_error [of x y] by simp

lemma completed_trade_elim:
  assumes "completed_trade cfg a x = Inr t"
  obtains gross where
    "quantize_amount (dmul (if f_position_side (at_entry_fill a) = LONG
        then dsub (f_reference_price x) (f_reference_price (at_entry_fill a))
        else dsub (f_reference_price (at_entry_fill a)) (f_reference_price x)) (f_quantity x)) = Inr gross"
    and "quantize_amount (dsub (dsub (dsub (dsub gross (at_total_fee a)) (at_slippage a)) (at_funding a)) 0)
      = Inr (t_net_pnl t)"
    and "quantize_amount (f_quantity (at_entry_fill a)) = Inr (t_entry_quantity t)"
proof -
  from assms obtain gross net t0 where g: "quantize_amount (dmul (if f_position_side (at_entry_fill a) = LONG
        then dsub (f_reference_price x) (f_reference_price (at_entry_fill a))
        else dsub (f_reference_price (at_entry_fill a)) (f_reference_price x)) (f_quantity x)) = Inr gross"
    and n: "quantize_amount (dsub (dsub (dsub (dsub gross (at_total_fee a)) (at_slippage a)) (at_funding a)) 0)
      = Inr net"
    and m: "make_trade t0 = Inr t" "t_net_pnl t0 = net" "t_entry_quantity t0 = f_quantity (at_entry_fill a)"
    unfolding completed_trade_def Let_def by (auto simp: bindR_eq_Inr)
  have "quantize_amount (t_net_pnl t0) = Inr (t_net_pnl t)" "quantize_amount (t_entry_quantity t0) = Inr (t_entry_quantity t)"
    using make_trade_elim(1) [OF m(1)] by (auto simp: trade_quantize_def bindR_eq_Inr)
  then show thesis using that [OF g] n m(2,3) quantize_is_q8 [OF n] by simp
qed

lemma slip_signed:
  assumes "slip_fill f" and "f_quantity f \<le> 10 ^ 6"
  shows "\<bar>(f_price f - f_reference_price f) * f_quantity f - (if f_side f = BUY then f_slippage f else - f_slippage f)\<bar>
    \<le> f_quantity f / (2 * 10 ^ 8) + tiny"
  by (rule slip_error [OF assms]) auto

text \<open>What a closing fill does to the sum, over the one rounding error of the trade.\<close>

lemma exit_balance:
  assumes h: "held_by cfg a p" and x: "closes x p" and c0: "is_q8 c"
    and r: "bindR (ddiv (dmul (p_margin p) (f_quantity x)) (p_quantity p)) quantize_amount = Inr r"
    and pnl: "quantize_amount (dmul (if p_side p = LONG then dsub (f_price x) (p_entry_price p)
            else dsub (p_entry_price p) (f_price x)) (f_quantity x)) = Inr pnl"
    and cash: "checked_cash (dsub (dadd (dadd c r) pnl) (f_fee x)) = Inr c'"
    and fee: "quantize_amount (dadd (at_total_fee a) (f_fee x)) = Inr fee"
    and slip: "quantize_amount (dadd (at_slippage a) (f_slippage x)) = Inr slip"
    and t: "completed_trade cfg (a\<lparr>at_total_fee := fee, at_slippage := slip\<rparr>) x = Inr t"
  shows "\<bar>c' - t_net_pnl t - (c + p_margin p + at_total_fee a + at_funding a)\<bar>
    \<le> t_entry_quantity t / 10 ^ 8 + 1 / 10 ^ 5"
proof -
  have small: "p_quantity p \<le> 10 ^ 6" using h by (simp add: held_by_def)
  define e q where "e = at_entry_fill a" and "q = p_quantity p"
  have q8: "is_q8 (p_margin p)" "is_q8 q" "0 < q" "f_quantity x = q" "f_quantity e = q" "p_entry_price p = f_price e"
    "f_position_side e = p_side p" "at_slippage a = f_slippage e" "is_q8 (at_total_fee a)" "is_q8 (at_funding a)"
    and fx: "slip_fill x" "slip_fill e" "is_q8 (f_fee x)" "is_q8 (f_slippage x)" "is_q8 (f_slippage e)"
    using h x by (auto simp: held_by_def closes_def e_def q_def position_ok_def slip_fill_def fill_ok_def)
  define a1 where "a1 = a\<lparr>at_total_fee := fee, at_slippage := slip\<rparr>"
  obtain gross where ct: "quantize_amount (dmul (if f_position_side (at_entry_fill a1) = LONG
        then dsub (f_reference_price x) (f_reference_price (at_entry_fill a1))
        else dsub (f_reference_price (at_entry_fill a1)) (f_reference_price x)) (f_quantity x)) = Inr gross"
      "quantize_amount (dsub (dsub (dsub (dsub gross (at_total_fee a1)) (at_slippage a1)) (at_funding a1)) 0)
      = Inr (t_net_pnl t)"
      "quantize_amount (f_quantity (at_entry_fill a1)) = Inr (t_entry_quantity t)"
    using completed_trade_elim [OF t [folded a1_def]] .
  have a1: "at_entry_fill a1 = e" "at_total_fee a1 = fee" "at_slippage a1 = slip" "at_funding a1 = at_funding a"
    by (simp_all add: a1_def e_def)
  have gross: "quantize_amount (dmul (if p_side p = LONG
        then dsub (f_reference_price x) (f_reference_price e)
        else dsub (f_reference_price e) (f_reference_price x)) q) = Inr gross"
    and net: "quantize_amount (dsub (dsub (dsub (dsub gross fee) slip) (at_funding a)) 0) = Inr (t_net_pnl t)"
    and tq: "quantize_amount q = Inr (t_entry_quantity t)"
    using ct unfolding a1 q8(4,5,7) by blast+
  have sums: "fee = at_total_fee a + f_fee x" "slip = f_slippage e + f_slippage x"
    using fee slip quantize_add [OF q8(9) fx(3)] quantize_add [OF fx(5,4)] q8(8) by simp_all
  have b: "\<bar>c\<bar> < 10 ^ 20" "\<bar>p_margin p\<bar> < 10 ^ 20" "\<bar>f_fee x\<bar> < 10 ^ 20" "\<bar>at_funding a\<bar> < 10 ^ 20"
    using c0 q8(1,10) fx(3) by (auto simp: is_q8_def)
  have rr: "quantize_amount (dctx (dmul (p_margin p) (f_quantity x) / p_quantity p)) = Inr r"
    using r by (auto simp: bindR_eq_Inr)
  have qb: "\<bar>r\<bar> < 10 ^ 20" "\<bar>pnl\<bar> < 10 ^ 20" "\<bar>gross\<bar> < 10 ^ 20" "\<bar>fee\<bar> < 10 ^ 20" "\<bar>slip\<bar> < 10 ^ 20"
    by (rule quantize_small [OF rr] quantize_small [OF pnl] quantize_small [OF gross]
        quantize_small [OF fee] quantize_small [OF slip])+
  have E1: "\<bar>r - p_margin p\<bar> \<le> tiny" using released_error(1) [of "p_margin p" q r] r b(2) q8(3,4) by (simp add: q_def)
  have E2: "\<bar>c' - (c + r + pnl - f_fee x)\<bar> \<le> tiny" by (rule cash_error(1) [OF cash b(1) qb(1,2) b(3)])
  have E3: "\<bar>t_net_pnl t - (gross - fee - slip - at_funding a)\<bar> \<le> 2 * tiny"
    by (rule net_error [OF net qb(3-5) b(4)])
  define s where "s = (if p_side p = LONG then 1 else - 1 :: rat)"
  have E4: "\<bar>pnl - s * ((f_price x - f_price e) * q)\<bar> \<le> tiny"
    using pnl_error [of "f_price x" "f_price e" q pnl] pnl_error [of "f_price e" "f_price x" q pnl] pnl q8
    by (cases "p_side p = LONG") (auto simp: s_def algebra_simps)
  have E5: "\<bar>gross - s * ((f_reference_price x - f_reference_price e) * q)\<bar> \<le> tiny"
    using pnl_error [of "f_reference_price x" "f_reference_price e" q gross]
      pnl_error [of "f_reference_price e" "f_reference_price x" q gross] gross q8
    by (cases "p_side p = LONG") (auto simp: s_def algebra_simps)
  have E6: "\<bar>(f_price x - f_reference_price x) * q + s * f_slippage x\<bar> \<le> q / (2 * 10 ^ 8) + tiny"
    using slip_signed [OF fx(1)] small x q8 by (auto simp: closes_def s_def q_def)
  have E7: "\<bar>(f_price e - f_reference_price e) * q - s * f_slippage e\<bar> \<le> q / (2 * 10 ^ 8) + tiny"
    using slip_signed [OF fx(2)] small h q8 by (auto simp: held_by_def s_def q_def e_def)
  have tq': "t_entry_quantity t = q" using tq q8(2) by simp
  have ten: "10 * tiny = 1 / 10 ^ 5" and tiny: "0 \<le> tiny" by (simp_all add: tiny_def)
  have half: "q / (2 * 10 ^ 8) + q / (2 * 10 ^ 8) = q / 10 ^ 8" by simp
  have "\<bar>c' - t_net_pnl t - (c + p_margin p + at_total_fee a + at_funding a)\<bar> \<le>
      q / (2 * 10 ^ 8) + q / (2 * 10 ^ 8) + 10 * tiny"
  proof (cases "p_side p = LONG")
    case True
    then show ?thesis using E1 E2 E3 E4 E5 E6 E7 tiny unfolding s_def sums left_diff_distrib
      by (simp add: abs_le_iff; linarith)
  next
    case False
    then show ?thesis using E1 E2 E3 E4 E5 E6 E7 tiny unfolding s_def sums left_diff_distrib
      by (simp add: abs_le_iff; linarith)
  qed
  then show ?thesis using ten half tq' by simp
qed

end
