(* ===== verification/EngineGrowth.thy ===== *)
theory EngineGrowth
  imports EngineSteps
begin

section \<open>The evidence of a run is append-only\<close>

text \<open>Every method of the engine that returns has only appended rows to the evidence, and those before
  the decisions leave the orders alone that wait for the next candle.\<close>

named_theorems staying \<open>methods that leave the waiting orders alone\<close>

named_theorems growing \<open>methods that only append to the evidence\<close>

subsection \<open>Methods that leave the waiting orders alone\<close>

definition stays :: "'x engine \<Rightarrow> 'x engine \<Rightarrow> bool" where
  "stays g g' \<longleftrightarrow> grows g g' \<and> g_pending g' = g_pending g"

interpretation parked: step_order stays
proof
  show "stays g g" for g :: "'a engine" by (simp add: stays_def append_only.reflexive)
  show "stays g i" if "stays g h" "stays h i" for g h i :: "'a engine"
    using that append_only.transitive [of g h i] by (simp add: stays_def)
qed

lemma stays_steps_grow: "steps stays m \<Longrightarrow> steps grows m"
  by (auto simp: steps_def wp_def stays_def)

lemma still_steps_stay: "steps still m \<Longrightarrow> steps stays m"
  by (auto simp: steps_def wp_def stays_def still_def ledger_def)

lemmas silent_staying = silent_steps [THEN silent_steps_still, THEN still_steps_stay]

lemmas still_staying = record_row_still [THEN still_steps_stay] record_rows_still [THEN still_steps_stay]
  execution_evidence_still [THEN still_steps_stay]

lemma modify_staying:
  "(\<And>g. g_evidence (f g) = g_evidence g) \<Longrightarrow> (\<And>g. g_pending (f g) = g_pending g) \<Longrightarrow> steps stays (modify f)"
  by (rule parked.steps_modify) (simp add: stays_def grows_def)

lemma record_row_at_stays: "steps stays (\<lambda>g. record_row (e g) g)"
  by (rule parked.steps_state) (rule still_staying)

lemmas stay_rules = parked.steps_rules parked.steps_at_rules silent_staying still_staying record_row_at_stays

lemma open_or_extend_stays [staying]: "steps stays (open_or_extend_trade f sig c n)"
  unfolding open_or_extend_trade_def by (intro stay_rules modify_staying) simp_all

lemma complete_trade_stays [staying]: "steps stays (complete_trade cfg a x n)"
  unfolding complete_trade_def by (intro stay_rules modify_staying) simp_all

lemma apply_entry_stays [staying]: "steps stays (apply_entry cfg f before proj sig c n)"
  unfolding apply_entry_def by (intro stay_rules modify_staying staying) simp_all

lemma apply_exit_stays [staying]: "steps stays (apply_exit cfg f before n)"
  unfolding apply_exit_def case_prod_beta
  by (intro stay_rules modify_staying staying) simp_all

lemma engine_apply_fill_stays [staying]: "steps stays (engine_apply_fill cfg f d sig c)"
  unfolding engine_apply_fill_def by (intro stay_rules modify_staying staying)

lemma funding_liquidation_stays [staying]: "steps stays (funding_liquidation cfg p b price)"
  unfolding funding_liquidation_def by (intro stay_rules modify_staying staying)

lemma settle_position_stays [staying]: "steps stays (settle_position cfg b p a)"
  unfolding settle_position_def by (intro stay_rules modify_staying staying) simp_all

lemma settle_at_boundary_stays [staying]: "steps stays (settle_at_boundary cfg b)"
  unfolding settle_at_boundary_def case_prod_beta by (intro stay_rules staying)

lemma settle_all_stays [staying]: "steps stays (settle_all cfg bs)"
  by (induction bs) (auto intro!: stay_rules staying)

lemma mark_position_stays [staying]: "steps stays (mark_position cfg c m)"
  unfolding mark_position_def by (intro stay_rules modify_staying staying) simp_all

lemma mark_grid_stays [staying]: "steps stays (mark_grid cfg c)"
  unfolding mark_grid_def
  by (intro stay_rules modify_staying staying) simp_all

lemma execute_pending_stays [staying]: "steps stays (execute_pending cfg c pd)"
  unfolding execute_pending_def by (intro stay_rules modify_staying staying)

lemma execute_all_stays [staying]: "steps stays (execute_all cfg c pds)"
  by (induction pds) (auto intro!: stay_rules staying)

lemma apply_triggers_stays [staying]: "steps stays (apply_triggers cfg c)"
  unfolding apply_triggers_def by (intro stay_rules modify_staying staying)

subsection \<open>The evidence is append-only\<close>

lemmas silent_growing = silent_steps [THEN silent_steps_grow]

lemmas still_growing = record_row_still [THEN still_steps_grow] record_rows_still [THEN still_steps_grow]
  execution_evidence_still [THEN still_steps_grow]

lemma modify_growing: "(\<And>g. g_evidence (f g) = g_evidence g) \<Longrightarrow> steps grows (modify f)"
  by (rule append_only.steps_modify) (simp add: grows_def)

lemma record_row_at_grows: "steps grows (\<lambda>g. record_row (e g) g)"
  by (rule append_only.steps_state) (rule still_growing)

lemmas grow_rules = append_only.steps_rules append_only.steps_at_rules silent_growing still_growing record_row_at_grows

lemmas open_or_extend_grows [growing] = open_or_extend_stays [THEN stays_steps_grow]
lemmas complete_trade_grows [growing] = complete_trade_stays [THEN stays_steps_grow]
lemmas apply_entry_grows [growing] = apply_entry_stays [THEN stays_steps_grow]
lemmas apply_exit_grows [growing] = apply_exit_stays [THEN stays_steps_grow]
lemmas engine_apply_fill_grows [growing] = engine_apply_fill_stays [THEN stays_steps_grow]
lemmas funding_liquidation_grows [growing] = funding_liquidation_stays [THEN stays_steps_grow]
lemmas settle_position_grows [growing] = settle_position_stays [THEN stays_steps_grow]
lemmas settle_at_boundary_grows [growing] = settle_at_boundary_stays [THEN stays_steps_grow]
lemmas settle_all_grows [growing] = settle_all_stays [THEN stays_steps_grow]
lemmas mark_position_grows [growing] = mark_position_stays [THEN stays_steps_grow]
lemmas mark_grid_grows [growing] = mark_grid_stays [THEN stays_steps_grow]
lemmas execute_pending_grows [growing] = execute_pending_stays [THEN stays_steps_grow]
lemmas execute_all_grows [growing] = execute_all_stays [THEN stays_steps_grow]
lemmas apply_triggers_grows [growing] = apply_triggers_stays [THEN stays_steps_grow]

lemma step_open_grows [growing]: "steps grows (step_open cfg c)"
  unfolding step_open_def by (intro grow_rules modify_growing growing) simp_all

lemma queue_order_grows [growing]: "steps grows (queue_order pd)"
  unfolding queue_order_def by (rule modify_growing) simp

lemma queue_exit_grows [growing]: "steps grows (queue_exit c p d r s)"
  unfolding queue_exit_def by (intro grow_rules growing)

lemma queue_entry_grows [growing]: "steps grows (queue_entry cfg c s p side q d n)"
  unfolding queue_entry_def by (intro grow_rules growing)

lemma handle_exit_grows [growing]: "steps grows (handle_exit cfg c s p i d n m planned)"
  unfolding handle_exit_def case_prod_beta by (intro grow_rules growing)

lemma handle_entry_grows [growing]: "steps grows (handle_entry cfg c s p side i d n m planned)"
  unfolding handle_entry_def by (intro grow_rules growing)

lemma handle_signal_grows [growing]: "steps grows (handle_signal cfg c s)"
  unfolding handle_signal_def by (intro grow_rules growing)

lemma handle_timely_signal_grows [growing]: "steps grows (handle_timely_signal cfg c s)"
  unfolding handle_timely_signal_def by (intro grow_rules growing)

lemma handle_decision_grows [growing]: "steps grows (handle_decision cfg c d)"
proof -
  have managed: "steps grows (\<lambda>g. case r g of
         Inl (MoneyManagementError e) \<Rightarrow> if b then (g, Inl (MoneyManagementError e)) else m g
       | Inl e \<Rightarrow> (g, Inl e) | Inr s \<Rightarrow> f s g)"
    if "steps grows m" "\<And>s. steps grows (f s)" for r b m f
    using that by (auto simp: steps_def wp_def split: sum.splits py_error.splits if_splits)
  show ?thesis
    unfolding handle_decision_def by (intro grow_rules growing managed)
qed

lemma step_close_grows [growing]: "steps grows (step_close cfg c)"
proof -
  have r: "steps grows (case x of NoDecision \<Rightarrow> m | SignalResult s \<Rightarrow> f s | IntentResult d \<Rightarrow> h d)"
    if "steps grows m" "\<And>s. steps grows (f s)" "\<And>d. steps grows (h d)" for x m f h
    using that by (cases x) simp_all
  show ?thesis
    unfolding step_close_def by (intro grow_rules modify_growing growing r) simp_all
qed

lemma terminal_exit_grows [growing]: "steps grows (terminal_exit cfg timing c p reason)"
  unfolding terminal_exit_def by (intro grow_rules growing)

lemma close_at_data_gap_grows [growing]: "steps grows (close_at_data_gap cfg c)"
  unfolding close_at_data_gap_def by (intro grow_rules modify_growing growing) simp_all

lemma step_candle_grows [growing]: "steps grows (step_candle cfg c)"
  unfolding step_candle_def by (intro grow_rules modify_growing growing) simp_all

lemma candle_loop_grows [growing]: "steps grows (candle_loop cfg cs)"
  by (induction cfg cs rule: candle_loop.induct) (auto intro!: grow_rules growing)

lemma terminal_equity_grows [growing]: "steps grows (terminal_equity cfg t eq)"
  unfolding terminal_equity_def by (intro grow_rules growing)

lemma close_at_end_grows [growing]: "steps grows (close_at_end cfg)"
  unfolding close_at_end_def by (intro grow_rules modify_growing growing) simp_all

lemma run_candles_grows [growing]: "steps grows (run_candles cfg cs)"
  unfolding run_candles_def by (intro grow_rules growing)

end
