(* ===== verification/EngineBooks.thy ===== *)
theory EngineBooks
  imports EngineLedger EngineGrowth
begin

section \<open>Every method keeps the books\<close>

text \<open>
  Each method of a candle keeps \<open>accounts\<close>. Executions above a million units are left out
  (\<open>modest\<close>): there a float no longer names every stored quantity, and the exit order of a larger
  position may miss it.
\<close>

definition modest :: "'x engine \<Rightarrow> bool" where
  "modest g \<longleftrightarrow> (\<forall>r. EXECUTION_ROW r \<in> set (g_evidence g) \<longrightarrow> f_quantity (ex_fill r) \<le> 10 ^ 6)"

lemma modest_grows: "grows g g' \<Longrightarrow> modest g' \<Longrightarrow> modest g"
  by (auto simp: grows_def modest_def)

text \<open>What every modest return of a method satisfies.\<close>

definition wpm :: "('x engine, 'a) st \<Rightarrow> ('a \<Rightarrow> 'x engine \<Rightarrow> bool) \<Rightarrow> 'x engine \<Rightarrow> bool" where
  "wpm m Q g \<longleftrightarrow> wp m (\<lambda>x g'. modest g' \<longrightarrow> Q x g') g"

lemma wp_wpm: "wp m Q g \<Longrightarrow> wpm m Q g"
  unfolding wpm_def by (erule wp_mono) simp

lemma wpm_mono: "wpm m Q g \<Longrightarrow> (\<And>x g'. Q x g' \<Longrightarrow> Q' x g') \<Longrightarrow> wpm m Q' g"
  by (auto simp: wpm_def wp_def)

lemma wpm_bind:
  assumes "wpm m Q g" and "\<And>x. steps grows (f x)" and "\<And>x g'. Q x g' \<Longrightarrow> wpm (f x) R g'"
  shows "wpm (bindS m f) R g"
proof (unfold wpm_def, rule wpI, rule impI)
  fix g2 y assume "bindS m f g = (g2, Inr y)" and modest: "modest g2"
  then obtain g1 x where m: "m g = (g1, Inr x)" and f: "f x g1 = (g2, Inr y)" by (auto simp: bindS_Inr)
  have "modest g1" using modest_grows [OF stepsD [OF assms(2) f] modest] .
  then have "Q x g1" using assms(1) m by (auto simp: wpm_def dest: wpD)
  from assms(3) [OF this] show "R y g2" using f modest by (auto simp: wpm_def dest: wpD)
qed

lemma wpm_lift: "(\<And>x. r = Inr x \<Longrightarrow> Q x g) \<Longrightarrow> wpm (liftS r) Q g"
  by (simp add: wpm_def)

lemma wpm_gets: "(\<And>x. f g = Inr x \<Longrightarrow> Q x g) \<Longrightarrow> wpm (gets f) Q g"
  by (simp add: wpm_def)

lemma wpm_modify: "Q () (f g) \<Longrightarrow> wpm (modify f) Q g"
  by (simp add: wpm_def)

subsection \<open>A closing fill\<close>

lemma current_position_empty: "g_book g = Map.empty \<Longrightarrow> current_position cfg g = Inr None"
  by (simp add: current_position_def book_get_def)

lemma reduce_whole:
  assumes "apply_fill [position_key p \<mapsto> p] x l mt mk liq = Inr b" and "closes x p" and "is_q8 (p_quantity p)"
  shows "b = Map.empty"
proof -
  have k: "fill_key x = position_key p" "f_reduce_only x" "f_quantity x = p_quantity p"
    using assms(2) by (auto simp: closes_def fill_key_def position_key_def)
  obtain released where "reduce [position_key p \<mapsto> p] x = Inr (b, released)"
    using assms(1) k(2) by (auto simp: apply_fill_def bindR_eq_Inr split: option.splits)
  then obtain p1 where "reduce_quantity p (f_quantity x) = Inr (p1, released)"
    and b: "b = (if p_quantity p1 = 0 then [position_key p \<mapsto> p](fill_key x := None) else [position_key p \<mapsto> p](fill_key x \<mapsto> p1))"
    by (rule reduce_elim) (simp add: k)
  then have "p_quantity p1 = 0"
    using assms(3) k(3)
    by (auto simp: reduce_quantity_def Let_def bindR_eq_Inr flatten_prices_def dsub_def
        dest!: validate_total_cost_Inr)
  with b k(1) show ?thesis by simp
qed

lemma complete_trade_elim:
  assumes "complete_trade cfg a x n g = (g', Inr ())"
  obtains t where "completed_trade cfg a x = Inr t" and "still (g\<lparr>g_trades := g_trades g @ [t]\<rparr>) g'"
proof -
  from assms obtain t where t: "completed_trade cfg a x = Inr t" and r: "bindS (liftS (r_multiple_of t)) (\<lambda>r_multiple.
     bindS (record_row (TRADE_ROW \<lparr>tr_trade_id = at_trade_id a, tr_side = f_position_side (at_entry_fill a),
        tr_entry_execution_id = at_entry_execution_id a, tr_exit_execution_id = n,
        tr_trade = t, tr_r_multiple = r_multiple\<rparr>)) (\<lambda>_.
     bindS (record_rows (at_position_records a)) (\<lambda>_.
     bindS (record_rows (at_funding_records a)) (\<lambda>_.
     bindS (case at_candidate_id a of
         None \<Rightarrow> liftS (Inr ())
       | Some candidate_id \<Rightarrow>
           record_row (CANDIDATE_ROW \<lparr>cd_candidate_id = candidate_id, cd_ts = s_timestamp (at_signal a),
             cd_symbol = s_symbol (at_signal a), cd_trigger_rule = s_reason (at_signal a),
             cd_passed_filters = [''exposure_limit''], cd_blocked_by = None,
             cd_side = f_position_side (at_entry_fill a), cd_quantity = Some (f_quantity (at_entry_fill a)),
             cd_realized = True, cd_linked_trade_id = Some (at_trade_id a)\<rparr>)) (\<lambda>_.
     feature_snapshots a x))))) (g\<lparr>g_trades := g_trades g @ [t]\<rparr>) = (g', Inr ())"
    by (auto simp: complete_trade_def returns)
  have "still (g\<lparr>g_trades := g_trades g @ [t]\<rparr>) g'"
    by (rule stepsD [rotated], rule r)
      (intro unmoved.steps_rules record_row_still record_rows_still silent_steps [THEN silent_steps_still])
  with t show thesis by (rule that)
qed

lemma apply_exit_elim:
  assumes m: "apply_exit cfg x (Some p) n g = (g', Inr ())" and a: "g_active g = Some a"
  obtains r pnl cash b fee slip pos where
    "bindR (ddiv (dmul (p_margin p) (f_quantity x)) (p_quantity p)) quantize_amount = Inr r"
    "quantize_amount (dmul (if p_side p = LONG then dsub (f_price x) (p_entry_price p)
            else dsub (p_entry_price p) (f_price x)) (f_quantity x)) = Inr pnl"
    "checked_cash (dsub (dadd (dadd (g_cash g) r) pnl) (f_fee x)) = Inr cash"
    "apply_fill (g_book g) x None None FUTURES 0 = Inr b"
    "quantize_amount (dadd (at_total_fee a) (f_fee x)) = Inr fee"
    "quantize_amount (dadd (at_slippage a) (f_slippage x)) = Inr slip"
    "current_position cfg (g\<lparr>g_book := b, g_cash := cash,
       g_active := Some (a\<lparr>at_total_fee := fee, at_slippage := slip\<rparr>)\<rparr>) = Inr pos"
    "(if pos \<noteq> None then liftS (Inr ())
      else bindS (complete_trade cfg (a\<lparr>at_total_fee := fee, at_slippage := slip\<rparr>) x n) (\<lambda>_.
        modify (\<lambda>g. g\<lparr>g_active := None, g_stop_price := None, g_take_profit_price := None\<rparr>)))
      (g\<lparr>g_book := b, g_cash := cash, g_active := Some (a\<lparr>at_total_fee := fee, at_slippage := slip\<rparr>)\<rparr>) = (g', Inr ())"
  using m a unfolding apply_exit_def Let_def
  by (auto simp: returns simp del: not_None_eq)

lemma apply_exit_accounts:
  assumes acc: "accounts cfg cap g" and p: "current_position cfg g = Inr (Some p)" and x: "closes x p"
    and m: "apply_exit cfg x (Some p) n g = (g', Inr ())"
  shows "accounts cfg cap g'" and "g_active g' = None" and "g_pending g' = g_pending g"
proof -
  obtain a where a: "g_active g = Some a" and b: "g_book g = [position_key p \<mapsto> p]" and h: "held_by cfg a p"
    and bal: "\<bar>g_cash g + p_margin p + at_total_fee a + at_funding a - (cap + net_result (g_trades g))\<bar>
      \<le> rounding_slack (g_trades g)"
    using accounts_position [OF acc p] .
  obtain r pnl cash b' fee slip pos where
    r: "bindR (ddiv (dmul (p_margin p) (f_quantity x)) (p_quantity p)) quantize_amount = Inr r"
    and pnl: "quantize_amount (dmul (if p_side p = LONG then dsub (f_price x) (p_entry_price p)
            else dsub (p_entry_price p) (f_price x)) (f_quantity x)) = Inr pnl"
    and cash: "checked_cash (dsub (dadd (dadd (g_cash g) r) pnl) (f_fee x)) = Inr cash"
    and bk: "apply_fill (g_book g) x None None FUTURES 0 = Inr b'"
    and fee: "quantize_amount (dadd (at_total_fee a) (f_fee x)) = Inr fee"
    and slip: "quantize_amount (dadd (at_slippage a) (f_slippage x)) = Inr slip"
    and pos: "current_position cfg (g\<lparr>g_book := b', g_cash := cash,
       g_active := Some (a\<lparr>at_total_fee := fee, at_slippage := slip\<rparr>)\<rparr>) = Inr pos"
    and rest: "(if pos \<noteq> None then liftS (Inr ())
      else bindS (complete_trade cfg (a\<lparr>at_total_fee := fee, at_slippage := slip\<rparr>) x n) (\<lambda>_.
        modify (\<lambda>g. g\<lparr>g_active := None, g_stop_price := None, g_take_profit_price := None\<rparr>)))
      (g\<lparr>g_book := b', g_cash := cash, g_active := Some (a\<lparr>at_total_fee := fee, at_slippage := slip\<rparr>)\<rparr>) = (g', Inr ())"
    using apply_exit_elim [OF m a] .
  have q8: "is_q8 (p_quantity p)" using h by (simp add: held_by_def position_ok_def)
  have empty: "b' = Map.empty" using reduce_whole [OF bk [unfolded b] x q8] .
  then have "pos = None" using pos by (simp add: current_position_empty)
  with rest obtain h1 where c: "complete_trade cfg (a\<lparr>at_total_fee := fee, at_slippage := slip\<rparr>) x n
      (g\<lparr>g_book := b', g_cash := cash, g_active := Some (a\<lparr>at_total_fee := fee, at_slippage := slip\<rparr>)\<rparr>) = (h1, Inr ())"
    and g': "g' = h1\<lparr>g_active := None, g_stop_price := None, g_take_profit_price := None\<rparr>"
    by (auto simp: bindS_Inr modify_def)
  obtain t where t: "completed_trade cfg (a\<lparr>at_total_fee := fee, at_slippage := slip\<rparr>) x = Inr t"
    and h1: "g_book h1 = b'" "g_cash h1 = cash" "g_trades h1 = g_trades g @ [t]" "g_pending h1 = g_pending g"
    using complete_trade_elim [OF c] by (auto simp: still_def ledger_def)
  have cash8: "is_q8 (g_cash g)" using acc by (simp add: accounts_def)
  have "\<bar>cash - t_net_pnl t - (g_cash g + p_margin p + at_total_fee a + at_funding a)\<bar>
    \<le> t_entry_quantity t / 10 ^ 8 + 1 / 10 ^ 5"
    by (rule exit_balance [OF h x cash8 r pnl cash fee slip t])
  with bal have "\<bar>cash - (cap + net_result (g_trades g @ [t]))\<bar> \<le> rounding_slack (g_trades g @ [t])"
    by (simp add: net_result_def rounding_slack_def)
  moreover have "is_q8 cash" "0 \<le> cash"
    using cash by (auto simp: checked_cash_def bindR_eq_Inr dest: quantize_is_q8)
  ultimately show "accounts cfg cap g'" "g_active g' = None" "g_pending g' = g_pending g"
    using h1 empty by (simp_all add: g' accounts_def q8_option_def)
qed

lemma closing_fill_accounts:
  assumes acc: "accounts cfg cap g" and p: "current_position cfg g = Inr (Some p)" and x: "closes x p"
    and m: "engine_apply_fill cfg x d sig cand g = (g', Inr ())"
  shows "accounts cfg cap g'" and "g_active g' = None" and "g_pending g' = g_pending g"
proof -
  have "f_reduce_only x" using x by (simp add: closes_def)
  with m p obtain g1 n where e: "execution_evidence x d g = (g1, Inr n)"
    and a: "apply_exit cfg x (Some p) n g1 = (g', Inr ())"
    by (auto simp: engine_apply_fill_def returns bindS_Inr [of "execution_evidence x d"])
  have s: "still g g1" by (rule stepsD [OF execution_evidence_still e])
  then have "accounts cfg cap g1" "current_position cfg g1 = current_position cfg g" "g_pending g1 = g_pending g"
    using accounts_still [OF s] acc by (simp_all add: still_def ledger_def current_position_def)
  with apply_exit_accounts [OF _ _ x a] p show "accounts cfg cap g'" "g_active g' = None" "g_pending g' = g_pending g"
    by auto
qed

subsection \<open>An opening fill\<close>

definition opens :: "fill \<Rightarrow> bool" where
  "opens f \<longleftrightarrow> slip_fill f \<and> \<not> f_reduce_only f \<and> f_position_side f \<noteq> BOTH \<and>
     f_side f = (if f_position_side f = LONG then BUY else SELL)"

lemma opened_book:
  assumes a: "apply_fill Map.empty f (Some lev) (Some ISOLATED) mk liq = Inr b" and f: "opens f"
  obtains p where "b = [position_key p \<mapsto> p]" and "position_ok p" and "fill_key f = position_key p"
    and "p_quantity p = f_quantity f" and "p_entry_price p = f_price f"
proof -
  obtain p l m n margin where mp: "make_position \<lparr>p_wallet_id = None, p_symbol = f_symbol f, p_quantity = f_quantity f,
          p_average_price = f_price f, p_total_cost = n, p_current_price = f_price f,
          p_unrealized_pnl = 0, p_side = f_position_side f, p_market_type = mk,
          p_leverage = l, p_margin_type = m, p_margin = margin, p_entry_price = f_price f,
          p_mark_price = f_price f, p_liquidation_price = grid Q_AMOUNT liq, p_funding_fee_total = 0\<rparr> = Inr p"
    and b: "b = [fill_key f \<mapsto> p]"
    using a by (rule apply_fill_cases) (use f in \<open>auto simp: opens_def elim: weighted_average_elim reduce_elim\<close>)
  have "is_q8 (f_quantity f)" "is_q8 (f_price f)" using f by (auto simp: opens_def slip_fill_def fill_ok_def)
  then have "p_quantity p = f_quantity f" "p_entry_price p = f_price f" "fill_key f = position_key p"
    using make_position_fields [OF mp] by (simp_all add: fill_key_def position_key_def)
  then show thesis using that make_position_fields(1) [OF mp] b by simp
qed

lemma optional_level_q8: "optional_level v = Inr l \<Longrightarrow> q8_option l"
  by (auto simp: optional_level_def q8_option_def bindR_eq_Inr quantize_price_amount split: option.splits
      dest: to_decimal_is_q8)

lemma opened_trade:
  assumes "open_or_extend_trade f sig cand n g = (g', Inr ())" and "g_active g = None"
  obtains a where "g_active g' = Some a" and "at_entry_fill a = f" and "at_total_fee a = f_fee f"
    and "at_slippage a = f_slippage f" and "at_funding a = 0" and "g_book g' = g_book g" and "g_cash g' = g_cash g"
    and "g_trades g' = g_trades g" and "g_pending g' = g_pending g" and "q8_option (g_stop_price g')"
    and "q8_option (g_take_profit_price g')"
proof -
  from assms obtain s where "sig = Some s" by (auto simp: open_or_extend_trade_def split: option.splits)
  with assms have "\<exists>a. g_active g' = Some a \<and> at_entry_fill a = f \<and> at_total_fee a = f_fee f \<and>
      at_slippage a = f_slippage f \<and> at_funding a = 0 \<and> g_book g' = g_book g \<and> g_cash g' = g_cash g \<and>
      g_trades g' = g_trades g \<and> g_pending g' = g_pending g \<and> q8_option (g_stop_price g') \<and>
      q8_option (g_take_profit_price g')"
    by (auto simp: open_or_extend_trade_def returns dest!: optional_level_q8)
  then show thesis using that by blast
qed

lemma apply_entry_accounts:
  assumes acc: "accounts cfg cap g" and flat: "g_active g = None" and f: "opens f" and small: "f_quantity f \<le> 10 ^ 6"
    and m: "apply_entry cfg f None projected sig cand n g = (g', Inr ())"
  shows "accounts cfg cap g'" and "g_pending g' = g_pending g"
proof -
  have empty: "g_book g = Map.empty" and c8: "is_q8 (g_cash g)" "0 \<le> g_cash g"
    and bal: "\<bar>g_cash g - (cap + net_result (g_trades g))\<bar> \<le> rounding_slack (g_trades g)"
    using acc flat by (auto simp: accounts_def)
  from m obtain liq b pos margin actual cash g1 where
    bk: "apply_fill (g_book g) f (Some (signal_leverage sig)) (Some ISOLATED) (ec_market_type cfg) liq = Inr b"
    and pos: "current_position cfg (g\<lparr>g_book := b\<rparr>) = Inr (Some pos)"
    and margin: "quantize_amount (dsub (p_margin pos) 0) = Inr margin"
    and actual: "quantize_amount (dsub (dsub (g_cash g) margin) (f_fee f)) = Inr actual"
    and cash: "checked_cash actual = Inr cash"
    and op: "open_or_extend_trade f sig cand n (g\<lparr>g_book := b, g_cash := cash\<rparr>) = (g', Inr ())"
    unfolding apply_entry_def by (auto simp: returns split: option.splits)
  obtain p where b: "b = [position_key p \<mapsto> p]" and ok: "position_ok p" and k: "fill_key f = position_key p"
    and pq: "p_quantity p = f_quantity f" "p_entry_price p = f_price f"
    using opened_book [OF bk [unfolded empty] f] .
  have at: "p_symbol p = ec_symbol cfg" "pos = p"
    using pos by (auto simp: current_position_def book_get_def b position_key_def split: if_splits)
  obtain a where a: "g_active g' = Some a" "at_entry_fill a = f" "at_total_fee a = f_fee f"
    "at_slippage a = f_slippage f" "at_funding a = 0" "g_book g' = b" "g_cash g' = cash"
    "g_trades g' = g_trades g" "g_pending g' = g_pending g" "q8_option (g_stop_price g')"
    "q8_option (g_take_profit_price g')"
    using opened_trade [OF op] flat by auto
  show "g_pending g' = g_pending g" by (rule a(9))
  have m8: "is_q8 (p_margin p)" "0 \<le> p_margin p" using ok by (auto simp: position_ok_def)
  have f8: "is_q8 (f_fee f)" "0 < f_quantity f" using f by (auto simp: opens_def slip_fill_def fill_ok_def)
  have mm: "margin = p_margin p" using margin m8 at(2) by (simp add: dsub_def is_q8_dctx)
  have "\<bar>g_cash g - p_margin p\<bar> < 10 ^ 20" using c8 m8 by (auto simp: is_q8_def)
  note d = dsub_q8 [OF c8(1) m8(1) this]
  have "actual = g_cash g - p_margin p - f_fee f" using actual quantize_sub [OF d(2) f8(1)] by (simp add: mm d(1))
  moreover have "cash = actual" "is_q8 cash" "0 \<le> cash"
    using cash quantize_is_q8 [OF actual] by (auto simp: checked_cash_def bindR_eq_Inr)
  ultimately have c: "cash + p_margin p + f_fee f = g_cash g" "is_q8 cash" "0 \<le> cash" by auto
  have "held_by cfg a p"
    using f ok k at pq a small f8 by (auto simp: held_by_def opens_def fill_key_def position_key_def)
  moreover have "\<bar>g_cash g' + p_margin p + at_total_fee a + at_funding a - (cap + net_result (g_trades g'))\<bar>
      \<le> rounding_slack (g_trades g')"
    using bal c(1) by (simp add: a)
  ultimately show "accounts cfg cap g'"
    using a b c by (intro accounts_openI [of g' a p]) simp_all
qed

lemma opening_fill_accounts:
  assumes acc: "accounts cfg cap g" and flat: "g_active g = None" and f: "opens f"
    and m: "engine_apply_fill cfg f d sig cand g = (g', Inr ())" and modest: "modest g'"
  shows "accounts cfg cap g'" and "g_pending g' = g_pending g"
proof -
  have "\<not> f_reduce_only f" using f by (simp add: opens_def)
  with m accounts_flat [OF acc flat] obtain projected g1 n where e: "execution_evidence f d g = (g1, Inr n)"
    and a: "apply_entry cfg f None projected sig cand n g1 = (g', Inr ())"
    by (auto simp: engine_apply_fill_def returns bindS_Inr [of "execution_evidence f d"])
  obtain r where r: "g_evidence g1 = g_evidence g @ [EXECUTION_ROW r]" "ex_fill r = f" and s: "still g g1"
    using execution_evidence_row [OF e] by blast
  have "modest g1" using modest_grows [OF stepsD [OF apply_entry_grows a] modest] .
  then have "f_quantity f \<le> 10 ^ 6" using r by (auto simp: modest_def)
  moreover have "accounts cfg cap g1" "g_active g1 = None" "g_pending g1 = g_pending g"
    using accounts_still [OF s] acc s flat by (auto simp: still_def ledger_def)
  ultimately show "accounts cfg cap g'" "g_pending g' = g_pending g"
    using apply_entry_accounts [OF _ _ f _ a] by auto
qed

end
