(* ===== verification/EngineRun.thy ===== *)
theory EngineRun
  imports EngineBooks
begin

section \<open>The books over a run\<close>

text \<open>
  Funding, marks, the orders carried into a candle and the decisions taken at its close keep the
  books, and so does a run. An order waiting for the next candle either closes exactly what the
  book holds or opens from flat, after the exit before it.
\<close>

definition held_units :: "'x engine \<Rightarrow> position_key \<Rightarrow> decimal option" where
  "held_units g = (\<lambda>k. map_option p_quantity (g_book g k))"

definition closing_order :: "'x engine \<Rightarrow> pending_order \<Rightarrow> bool" where
  "closing_order g pd \<longleftrightarrow> rq_reduce_only (pd_request pd) \<and>
     (\<forall>k q. held_units g k = Some q \<longrightarrow> rq_quantity (pd_request pd) = float_of_decimal q \<and>
        k = (rq_symbol (pd_request pd), rq_position_side (pd_request pd)) \<and>
        rq_side (pd_request pd) = (if rq_position_side (pd_request pd) = LONG then SELL else BUY))"

definition opening_order :: "pending_order \<Rightarrow> bool" where
  "opening_order pd \<longleftrightarrow> \<not> rq_reduce_only (pd_request pd) \<and> \<not> rq_close_position (pd_request pd) \<and>
     pd_exit_reason pd = None \<and> rq_position_side (pd_request pd) \<noteq> BOTH \<and>
     rq_side (pd_request pd) = (if rq_position_side (pd_request pd) = LONG then BUY else SELL)"

definition carried_ok :: "'x engine \<Rightarrow> pending_order list \<Rightarrow> bool" where
  "carried_ok g pds \<longleftrightarrow> pds = [] \<or> (\<exists>x. pds = [x] \<and> closing_order g x) \<or>
     (\<exists>n. pds = [n] \<and> opening_order n \<and> held_units g = Map.empty) \<or>
     (\<exists>x n. pds = [x, n] \<and> closing_order g x \<and> opening_order n)"

lemma closing_order_fewer:
  assumes "held_units g' \<subseteq>\<^sub>m held_units g" and "closing_order g pd"
  shows "closing_order g' pd"
proof -
  have "held_units g k = Some q" if "held_units g' k = Some q" for k q
    using map_le_def [of "held_units g'"] assms(1) that by (metis domI)
  then show ?thesis using assms(2) unfolding closing_order_def by blast
qed

lemma carried_ok_fewer:
  assumes "held_units g' \<subseteq>\<^sub>m held_units g" and "carried_ok g pds"
  shows "carried_ok g' pds"
proof -
  have "held_units g' = Map.empty" if "held_units g = Map.empty"
    using assms(1) that map_le_antisym [of "held_units g'" Map.empty] by simp
  then show ?thesis
    using assms(2) closing_order_fewer [OF assms(1)] unfolding carried_ok_def by blast
qed

lemma held_units_one: "g_book g = [position_key p \<mapsto> p] \<Longrightarrow> held_units g = [position_key p \<mapsto> p_quantity p]"
  by (auto simp: held_units_def)

lemma held_units_still: "still g g' \<Longrightarrow> held_units g' = held_units g"
  by (simp add: still_def ledger_def held_units_def)

lemma accounts_flat_units: "accounts cfg cap g \<Longrightarrow> g_active g = None \<Longrightarrow> held_units g = Map.empty"
  by (simp add: accounts_def held_units_def)

text \<open>What a method may do to an engine whose books balance.\<close>

definition keeps :: "'x run_setup \<Rightarrow> decimal \<Rightarrow> 'x engine \<Rightarrow> 'x engine \<Rightarrow> bool" where
  "keeps cfg cap g g' \<longleftrightarrow> accounts cfg cap g' \<and> g_pending g' = g_pending g \<and> held_units g' \<subseteq>\<^sub>m held_units g"

lemma keeps_still: "still g g' \<Longrightarrow> accounts cfg cap g \<Longrightarrow> keeps cfg cap g g'"
  using accounts_still [of g g'] held_units_still [of g g'] by (auto simp: keeps_def still_def ledger_def)

lemma keeps_trans: "keeps cfg cap g h \<Longrightarrow> keeps cfg cap h i \<Longrightarrow> keeps cfg cap g i"
  by (auto simp: keeps_def intro: map_le_trans)

lemma keeps_refl: "accounts cfg cap g \<Longrightarrow> keeps cfg cap g g"
  by (simp add: keeps_def)

lemma closing_fill_keeps:
  assumes "accounts cfg cap g" and "current_position cfg g = Inr (Some p)" and "closes x p"
    and "engine_apply_fill cfg x d sig cand g = (g', Inr ())"
  shows "keeps cfg cap g g'" and "g_active g' = None"
  using closing_fill_accounts [OF assms] accounts_flat_units [of cfg cap g'] by (simp_all add: keeps_def)

subsection \<open>Funding\<close>

lemma apply_funding_same:
  assumes "apply_funding b p cost mmr = Inr (b', p', r)" and "position_ok p"
  shows "is_q8 (fr_applied_cost r)" and "p_symbol p' = p_symbol p" and "p_side p' = p_side p"
proof -
  obtain n m tot liq where n: "quantize_amount cost = Inr n"
    and p': "p' = p\<lparr>p_margin := m, p_funding_fee_total := tot, p_liquidation_price := liq\<rparr>"
    and r: "fr_applied_cost r = (if 0 < n then min n (p_margin p) else n)"
    using assms(1) unfolding apply_funding_def Let_def
    by (auto simp: bindR_eq_Inr [of "quantize_amount a" for a] bindR_eq_Inr [of "price_from_margin a c" for a c])
  show "is_q8 (fr_applied_cost r)"
    using quantize_is_q8 [OF n] assms(2) by (simp add: r min_def position_ok_def)
  show "p_symbol p' = p_symbol p" "p_side p' = p_side p" by (simp_all add: p')
qed

lemma funding_moves:
  assumes acc: "accounts cfg cap g" and p: "current_position cfg g = Inr (Some p)" and a: "g_active g = Some a"
    and af: "apply_funding (g_book g) p cost mmr = Inr (b, p1, fr)"
    and t: "quantize_amount (dadd (at_funding a) (fr_applied_cost fr)) = Inr total_funding"
    and g': "g_book g' = b" "g_cash g' = g_cash g" "g_trades g' = g_trades g" "g_active g' = Some a'"
      "g_stop_price g' = g_stop_price g" "g_take_profit_price g' = g_take_profit_price g" "g_pending g' = g_pending g"
    and a': "trade_accounts a' = trade_accounts (a\<lparr>at_funding := total_funding\<rparr>)"
  shows "keeps cfg cap g g'" and "current_position cfg g' = Inr (Some p1)" and "position_ok p1"
proof -
  obtain a0 where "g_active g = Some a0" and bk: "g_book g = [position_key p \<mapsto> p]" and "held_by cfg a0 p"
    and "\<bar>g_cash g + p_margin p + at_total_fee a0 + at_funding a0 - (cap + net_result (g_trades g))\<bar>
      \<le> rounding_slack (g_trades g)"
    using accounts_position [OF acc p] .
  then have h: "held_by cfg a p" and bal: "\<bar>g_cash g + p_margin p + at_total_fee a + at_funding a -
      (cap + net_result (g_trades g))\<bar> \<le> rounding_slack (g_trades g)" using a by auto
  have ok: "position_ok p" and f8: "is_q8 (at_funding a)" using h by (simp_all add: held_by_def)
  note s = apply_funding_spec [OF af ok]
  have q8: "is_q8 (fr_applied_cost fr)" and same: "p_symbol p1 = p_symbol p" "p_side p1 = p_side p" "position_key p1 = position_key p"
    using apply_funding_same [OF af ok] by (simp_all add: position_key_def)
  have b: "b = [position_key p1 \<mapsto> p1]" using s(2) bk same by simp
  have total: "total_funding = at_funding a + fr_applied_cost fr" using t quantize_add [OF f8 q8] by simp
  have e: "at_entry_fill a' = at_entry_fill a" "at_total_fee a' = at_total_fee a" "at_slippage a' = at_slippage a"
    "at_funding a' = total_funding"
    using a' by (simp_all add: trade_accounts_def)
  have h': "held_by cfg a' p1"
    using h s(9-11) same e quantize_is_q8 [OF t] by (simp add: held_by_def)
  have "accounts cfg cap g'"
    by (rule accounts_openI [of g' a' p1]) (use acc bal b h' e s(3) total in \<open>simp_all add: g' accounts_def\<close>)
  moreover have "held_units g' = held_units g"
    using held_units_one [OF bk] held_units_one [of g' p1] b g'(1) s(9) same by simp
  ultimately show "keeps cfg cap g g'" using g'(7) by (simp add: keeps_def)
  show "current_position cfg g' = Inr (Some p1)"
    using b g'(1) h' by (cases "p_side p1") (auto simp: current_position_def book_get_def held_by_def position_key_def)
  show "position_ok p1" by (rule s(11))
qed

lemma funding_liquidation_elim:
  assumes "funding_liquidation cfg p b price g = (g', Inr ())"
  obtains d f h where "silent g h" and "g_evidence h = g_evidence g @ [forced_exit_row cfg d b p (b + millisecond)]"
    and "liquidation_fill p price (b + millisecond) (ec_costs cfg) = Inr f"
    and "engine_apply_fill cfg f (Some d) None None h = (g', Inr ())"
proof -
  obtain d f h where h: "h = g\<lparr>g_sequence := (g_sequence g)(''decision'' := d),
      g_evidence := g_evidence g @ [forced_exit_row cfg d b p (b + millisecond)]\<rparr>"
    and f: "liquidation_fill p price (b + millisecond) (ec_costs cfg) = Inr f"
      "engine_apply_fill cfg f (Some d) None None h = (g', Inr ())"
    using assms unfolding funding_liquidation_def Let_def by (simp add: returns) blast
  have "silent g h" by (rule silentI [of h g "[forced_exit_row cfg d b p (b + millisecond)]"]) (simp_all add: h)
  then show thesis using that [of h d f] f h by simp
qed

lemma settle_position_elim:
  assumes "settle_position cfg b p a g = (g', Inr ())"
  obtains g1 rate source price price_source cost mmr bk p1 fr funding_total row i h where
    "funding_rate_at cfg p b g = (g1, Inr (rate, source))" and "funding_price cfg b = Inr (price, price_source)"
    and "settle p rate price = Inr cost"
    and "apply_funding (g_book g1) p cost mmr = Inr (bk, p1, fr)"
    and "quantize_amount (dadd (at_funding a) (fr_applied_cost fr)) = Inr funding_total"
    and "fu_settled_at row = b" and "fu_trade_id row = at_trade_id a"
    and "h = g1\<lparr>g_book := bk, g_sequence := (g_sequence g1)(''settlement'' := i),
        g_active := Some (a\<lparr>at_funding := funding_total, at_settled_boundaries := b # at_settled_boundaries a,
          at_funding_records := at_funding_records a @ [FUNDING_ROW row]\<rparr>)\<rparr>"
    and "(if fr_exhausted fr then funding_liquidation cfg p1 b price else liftS (Inr ())) h = (g', Inr ())"
proof -
  obtain g1 rate source where 1: "funding_rate_at cfg p b g = (g1, Inr (rate, source))"
    and m: "bindS (liftS (funding_price cfg b)) (\<lambda>(price, price_source).
     bindS (liftS (settle p rate price)) (\<lambda>theoretical_cost.
     bindS (liftS (engine_mmr cfg)) (\<lambda>mmr.
     bindS (gets (\<lambda>g. apply_funding (g_book g) p theoretical_cost mmr)) (\<lambda>(b', p1, funding).
     bindS (modify (\<lambda>g. g\<lparr>g_book := b'\<rparr>)) (\<lambda>_.
     bindS (liftS (quantize_amount (dneg (fr_applied_cost funding)))) (\<lambda>payment.
     bindS (liftS (quantize_amount (dneg (fr_theoretical_cost funding)))) (\<lambda>theoretical_payment.
     bindS (liftS (quantize_amount (dadd (at_funding a) (fr_applied_cost funding)))) (\<lambda>funding_total.
     bindS (next_id ''settlement'') (\<lambda>settlement_id.
     bindS (liftS (quantize_amount (dmul (p_quantity p1) price))) (\<lambda>notional.
     bindS (modify (\<lambda>g. g\<lparr>g_active := Some (a\<lparr>at_funding := funding_total,
        at_settled_boundaries := b # at_settled_boundaries a,
        at_funding_records := at_funding_records a @ [FUNDING_ROW \<lparr>fu_settlement_id = settlement_id,
          fu_trade_id = at_trade_id a, fu_settled_at = b, fu_symbol = p_symbol p1, fu_side = p_side p1,
          fu_rate = float_of_decimal rate, fu_rate_source = source, fu_price = price,
          fu_price_source = price_source, fu_notional = notional, fu_payment = payment,
          fu_theoretical_payment = theoretical_payment\<rparr>]\<rparr>)\<rparr>)) (\<lambda>_.
     if fr_exhausted funding then funding_liquidation cfg p1 b price else liftS (Inr ())))))))))))) g1 = (g', Inr ())"
    using assms unfolding settle_position_def by (auto simp: bindS_Inr [of "funding_rate_at cfg p b"])
  from m obtain price price_source cost mmr bk p1 fr total_funding row i where
    "funding_price cfg b = Inr (price, price_source)" "settle p rate price = Inr cost"
    "apply_funding (g_book g1) p cost mmr = Inr (bk, p1, fr)"
    "quantize_amount (dadd (at_funding a) (fr_applied_cost fr)) = Inr total_funding"
    "(if fr_exhausted fr then funding_liquidation cfg p1 b price else liftS (Inr ()))
      (g1\<lparr>g_book := bk, g_sequence := (g_sequence g1)(''settlement'' := i),
        g_active := Some (a\<lparr>at_funding := total_funding, at_settled_boundaries := b # at_settled_boundaries a,
          at_funding_records := at_funding_records a @ [FUNDING_ROW row]\<rparr>)\<rparr>) = (g', Inr ())"
    "fu_settled_at row = b \<and> fu_trade_id row = at_trade_id a"
    by (simp add: returns split_paired_Ex cong: if_cong) (elim exE conjE, rule that, assumption+, simp)
  then show thesis using that [OF 1] by blast
qed

lemma settle_position_keeps:
  assumes acc: "accounts cfg cap g" and p: "current_position cfg g = Inr (Some p)" and a: "g_active g = Some a"
    and m: "settle_position cfg b p a g = (g', Inr ())"
  shows "keeps cfg cap g g'"
proof -
  obtain g1 rate source price price_source cost mmr bk p1 fr total_funding row i h where
    r: "funding_rate_at cfg p b g = (g1, Inr (rate, source))" and pr: "funding_price cfg b = Inr (price, price_source)"
    and af: "apply_funding (g_book g1) p cost mmr = Inr (bk, p1, fr)"
    and t: "quantize_amount (dadd (at_funding a) (fr_applied_cost fr)) = Inr total_funding"
    and h: "h = g1\<lparr>g_book := bk, g_sequence := (g_sequence g1)(''settlement'' := i),
        g_active := Some (a\<lparr>at_funding := total_funding, at_settled_boundaries := b # at_settled_boundaries a,
          at_funding_records := at_funding_records a @ [FUNDING_ROW row]\<rparr>)\<rparr>"
    and rest: "(if fr_exhausted fr then funding_liquidation cfg p1 b price else liftS (Inr ())) h = (g', Inr ())"
    by (rule settle_position_elim [OF m]) (rule that)
  have s: "still g g1" by (rule silent_still [OF stepsD [OF funding_rate_at_silent r]])
  have k1: "keeps cfg cap g g1" by (rule keeps_still [OF s acc])
  obtain a1 where a1: "g_active g1 = Some a1" "trade_accounts a1 = trade_accounts a"
    using s a by (auto simp: still_def ledger_def)
  have p': "current_position cfg g1 = Inr (Some p)" using s p by (simp add: still_def ledger_def current_position_def)
  have t1: "quantize_amount (dadd (at_funding a1) (fr_applied_cost fr)) = Inr total_funding"
    using t a1(2) by (simp add: trade_accounts_def)
  have moved: "keeps cfg cap g1 h" "current_position cfg h = Inr (Some p1)" "position_ok p1"
    by (rule funding_moves [OF _ p' a1(1) af t1, of cap h
          "a\<lparr>at_funding := total_funding, at_settled_boundaries := b # at_settled_boundaries a,
             at_funding_records := at_funding_records a @ [FUNDING_ROW row]\<rparr>"];
        use k1 a1(2) in \<open>simp add: h keeps_def trade_accounts_def\<close>)+
  have kh: "keeps cfg cap g h" by (rule keeps_trans [OF k1 moved(1)])
  show ?thesis
  proof (cases "fr_exhausted fr")
    case False
    with rest kh show ?thesis by (simp add: returns)
  next
    case True
    with rest have "funding_liquidation cfg p1 b price h = (g', Inr ())" by simp
    then obtain d f j where j: "silent h j" and f: "liquidation_fill p1 price (b + millisecond) (ec_costs cfg) = Inr f"
      and e: "engine_apply_fill cfg f (Some d) None None j = (g', Inr ())"
      by (rule funding_liquidation_elim)
    have kj: "keeps cfg cap h j" by (rule keeps_still [OF silent_still [OF j]]) (use kh in \<open>simp add: keeps_def\<close>)
    have c: "closes f p1" using liquidation_closes(1) [OF f moved(3) funding_price_q8 [OF pr]] .
    have pj: "current_position cfg j = Inr (Some p1)"
      using moved(2) silent_still [OF j] by (simp add: still_def ledger_def current_position_def)
    have "keeps cfg cap j g'" by (rule closing_fill_keeps(1) [OF _ pj c e]) (use kj in \<open>simp add: keeps_def\<close>)
    with kh kj show ?thesis by (blast intro: keeps_trans)
  qed
qed

lemma settle_at_boundary_keeps:
  assumes "accounts cfg cap g" and "settle_at_boundary cfg b g = (g', Inr ())"
  shows "keeps cfg cap g g'"
proof (cases "ec_market_type cfg \<noteq> FUTURES \<or> \<not> is_boundary b")
  case True
  then show ?thesis using assms keeps_refl by (auto simp: settle_at_boundary_def returns)
next
  case False
  with assms(2) obtain x where x: "current_position cfg g = Inr x"
    and m: "(case (x, g_active g) of (Some p, Some a) \<Rightarrow>
        if b \<le> f_timestamp (at_entry_fill a) \<or> b \<in> set (at_settled_boundaries a)
        then liftS (Inr ()) else settle_position cfg b p a | _ \<Rightarrow> liftS (Inr ())) g = (g', Inr ())"
    by (auto simp: settle_at_boundary_def returns)
  show ?thesis
    using m x settle_position_keeps [OF assms(1)] keeps_refl [OF assms(1)]
    by (cases x; cases "g_active g") (auto simp: returns split: if_splits)
qed

lemma settle_all_keeps:
  "accounts cfg cap g \<Longrightarrow> settle_all cfg bs g = (g', Inr ()) \<Longrightarrow> keeps cfg cap g g'"
proof (induction bs arbitrary: g)
  case Nil
  then show ?case by (simp add: returns keeps_refl)
next
  case (Cons b bs)
  then obtain h where h: "settle_at_boundary cfg b g = (h, Inr ())" "settle_all cfg bs h = (g', Inr ())"
    by (auto simp: bindS_Inr)
  have k: "keeps cfg cap g h" by (rule settle_at_boundary_keeps [OF Cons.prems(1) h(1)])
  then have "keeps cfg cap h g'" using Cons.IH [OF _ h(2)] by (simp add: keeps_def)
  with k show ?case by (rule keeps_trans)
qed

subsection \<open>The open of a candle\<close>

lemma broker_fill:
  assumes "on_broker (bt_configure_execution timing x) g = (g1, Inr ())"
    and "on_broker (bt_submit cm request) g1 = (g2, Inr f)"
  shows "silent g g2" and "slip_fill f" and "f_symbol f = rq_symbol request" and "f_side f = rq_side request"
    and "f_position_side f = rq_position_side request"
    and "f_reduce_only f = (rq_reduce_only request \<or> rq_close_position request)"
    and "rq_reduce_only request \<Longrightarrow> xc_risk_budget x = None \<Longrightarrow>
      to_decimal (rq_quantity request) quantize_amount = Inr (f_quantity f)"
    and "c_close_time (xc_decision_candle x) < f_timestamp f"
proof -
  show "silent g g2"
    using quiet.transitive [OF stepsD [OF on_broker_silent assms(1)] stepsD [OF on_broker_silent assms(2)]] .
  have x: "bb_execution (g_broker g1) = Some x"
    using assms(1) by (auto simp: on_broker_def bt_configure_execution_def split: if_splits prod.splits)
  obtain br where "bt_submit cm request (g_broker g1) = (br, Inr f)"
    using assms(2) by (auto simp: on_broker_def split: prod.splits)
  note s = submit_fill [OF this x]
  show "slip_fill f" "f_symbol f = rq_symbol request" "f_side f = rq_side request"
    "f_position_side f = rq_position_side request" "f_reduce_only f = (rq_reduce_only request \<or> rq_close_position request)"
    "rq_reduce_only request \<Longrightarrow> xc_risk_budget x = None \<Longrightarrow>
      to_decimal (rq_quantity request) quantize_amount = Inr (f_quantity f)"
    "c_close_time (xc_decision_candle x) < f_timestamp f"
    using s by blast+
qed

lemma execute_pending_elim:
  assumes "execute_pending cfg c pd g = (g', Inr ())"
  obtains f ts h where "silent g h" and "slip_fill f" and "f_symbol f = rq_symbol (pd_request pd)"
    and "f_side f = rq_side (pd_request pd)" and "f_position_side f = rq_position_side (pd_request pd)"
    and "f_reduce_only f = (rq_reduce_only (pd_request pd) \<or> rq_close_position (pd_request pd))"
    and "rq_reduce_only (pd_request pd) \<Longrightarrow>
      to_decimal (rq_quantity (pd_request pd)) quantize_amount = Inr (f_quantity f)"
    and "epoch_milliseconds (f_timestamp f) = Inr ts" and "pd_decision_ts pd < ts"
    and "engine_apply_fill cfg f (Some (pd_decision_id pd)) (pd_signal pd) (pd_candidate_id pd) h = (g', Inr ())"
proof -
  from assms obtain budget where b: "risk_budget_of cfg pd g = Inr budget"
    and m: "bindS (\<lambda>g. on_broker (bt_configure_execution (ec_fill_timing cfg)
        \<lparr>xc_decision_candle = pd_decision_candle pd, xc_history = ec_history cfg, xc_risk_budget = budget,
         xc_available_margin = Some (g_cash g), xc_leverage = signal_leverage (pd_signal pd)\<rparr>) g) (\<lambda>_.
     bindS (on_broker (bt_submit (ec_costs cfg) (pd_request pd))) (\<lambda>f0.
     bindS (liftS (case pd_exit_reason pd of None \<Rightarrow> Inr f0
        | Some r \<Rightarrow> make_fill (f0\<lparr>f_exit_reason := Some r\<rparr>))) (\<lambda>f.
     bindS (liftS (epoch_milliseconds (f_timestamp f))) (\<lambda>execution_ts.
     bindS (liftS (raise_if (\<not> (pd_feature_ts pd \<le> pd_decision_ts pd \<and> pd_decision_ts pd < execution_ts))
        (ValueError ''feature_ts decision_ts execution_ts'') (Inr ()))) (\<lambda>_.
     engine_apply_fill cfg f (Some (pd_decision_id pd)) (pd_signal pd) (pd_candidate_id pd)))))) g = (g', Inr ())"
    unfolding execute_pending_def by (auto simp: bind_lift_returns bind_gets_returns)
  define x where "x = \<lparr>xc_decision_candle = pd_decision_candle pd, xc_history = ec_history cfg, xc_risk_budget = budget,
         xc_available_margin = Some (g_cash g), xc_leverage = signal_leverage (pd_signal pd)\<rparr>"
  from m obtain g1 h f0 f ts where c: "on_broker (bt_configure_execution (ec_fill_timing cfg) x) g = (g1, Inr ())"
    and s: "on_broker (bt_submit (ec_costs cfg) (pd_request pd)) g1 = (h, Inr f0)"
    and f: "(case pd_exit_reason pd of None \<Rightarrow> Inr f0 | Some r \<Rightarrow> make_fill (f0\<lparr>f_exit_reason := Some r\<rparr>)) = Inr f"
    and ts: "epoch_milliseconds (f_timestamp f) = Inr ts" "pd_decision_ts pd < ts"
    and e: "engine_apply_fill cfg f (Some (pd_decision_id pd)) (pd_signal pd) (pd_candidate_id pd) h = (g', Inr ())"
    by (auto simp: bindS_Inr [of "on_broker k" for k] bindS_Inr [of "\<lambda>g. on_broker (k g) g" for k]
        bind_lift_returns x_def)
  note bf = broker_fill [OF c s]
  have "f = f0 \<or> (\<exists>r. f = f0\<lparr>f_exit_reason := r\<rparr>)"
    using f slip_fill_reason [OF _ bf(2)] by (auto split: option.splits)
  then have same: "slip_fill f" "f_symbol f = f_symbol f0" "f_side f = f_side f0" "f_position_side f = f_position_side f0"
    "f_reduce_only f = f_reduce_only f0" "f_quantity f = f_quantity f0"
    using bf(2) by auto
  have nb: "xc_risk_budget x = None" if "rq_reduce_only (pd_request pd)"
    using b that by (auto simp: x_def risk_budget_of_def)
  show thesis
    by (rule that [OF bf(1) same(1) _ _ _ _ _ ts e]) (use same bf(3-7) nb in simp_all)
qed

lemma execute_exit_accounts:
  assumes acc: "accounts cfg cap g" and x: "closing_order g pd" and m: "execute_pending cfg c pd g = (g', Inr ())"
  shows "accounts cfg cap g'" and "g_active g' = None" and "g_pending g' = g_pending g"
proof -
  obtain f ts h where h: "silent g h" and f: "slip_fill f" "f_symbol f = rq_symbol (pd_request pd)"
    "f_side f = rq_side (pd_request pd)" "f_position_side f = rq_position_side (pd_request pd)"
    "f_reduce_only f = (rq_reduce_only (pd_request pd) \<or> rq_close_position (pd_request pd))"
    and q: "rq_reduce_only (pd_request pd) \<Longrightarrow>
      to_decimal (rq_quantity (pd_request pd)) quantize_amount = Inr (f_quantity f)"
    and e: "engine_apply_fill cfg f (Some (pd_decision_id pd)) (pd_signal pd) (pd_candidate_id pd) h = (g', Inr ())"
    by (rule execute_pending_elim [OF m]) (rule that)
  have ro: "rq_reduce_only (pd_request pd)" "f_reduce_only f" using x f(5) by (simp_all add: closing_order_def)
  have k: "keeps cfg cap g h" by (rule keeps_still [OF silent_still [OF h] acc])
  then have acch: "accounts cfg cap h" by (simp add: keeps_def)
  have "\<exists>p. current_position cfg h = Inr (Some p)"
    using e ro(2) by (auto simp: engine_apply_fill_def returns bindS_Inr [of "execution_evidence a d" for a d]
        apply_exit_def split: option.splits)
  then obtain p where p: "current_position cfg h = Inr (Some p)" by blast
  obtain a where bk: "g_book h = [position_key p \<mapsto> p]" and hb: "held_by cfg a p"
    using accounts_position [OF acch p] .
  have "closing_order h pd" using closing_order_fewer [of h g, OF _ x] k by (simp add: keeps_def)
  then have rq: "rq_quantity (pd_request pd) = float_of_decimal (p_quantity p)"
    "position_key p = (rq_symbol (pd_request pd), rq_position_side (pd_request pd))"
    "rq_side (pd_request pd) = (if rq_position_side (pd_request pd) = LONG then SELL else BUY)"
    unfolding closing_order_def using held_units_one [OF bk] by (metis fun_upd_same)+
  have "to_decimal (float_of_decimal (p_quantity p)) quantize_amount = Inr (p_quantity p)"
    by (rule float_round_trip) (use hb in \<open>auto simp: held_by_def position_ok_def\<close>)
  then have "f_quantity f = p_quantity p" using q [OF ro(1)] rq(1) by simp
  then have cl: "closes f p" using f ro rq(2,3) by (simp add: closes_def position_key_def)
  show "accounts cfg cap g'" "g_active g' = None" "g_pending g' = g_pending g"
    using closing_fill_accounts [OF acch p cl e] k by (simp_all add: keeps_def)
qed

lemma execute_entry_accounts:
  assumes acc: "accounts cfg cap g" and flat: "g_active g = None" and n: "opening_order pd"
    and m: "execute_pending cfg c pd g = (g', Inr ())" and modest: "modest g'"
  shows "accounts cfg cap g'" and "g_pending g' = g_pending g"
proof -
  obtain f ts h where h: "silent g h" and f: "slip_fill f" "f_symbol f = rq_symbol (pd_request pd)"
    "f_side f = rq_side (pd_request pd)" "f_position_side f = rq_position_side (pd_request pd)"
    "f_reduce_only f = (rq_reduce_only (pd_request pd) \<or> rq_close_position (pd_request pd))"
    and e: "engine_apply_fill cfg f (Some (pd_decision_id pd)) (pd_signal pd) (pd_candidate_id pd) h = (g', Inr ())"
    by (rule execute_pending_elim [OF m]) (rule that)
  have o: "opens f" using f n by (simp add: opens_def opening_order_def)
  have k: "keeps cfg cap g h" by (rule keeps_still [OF silent_still [OF h] acc])
  have "g_active h = None" using h flat by (auto simp: silent_def ledger_def)
  with opening_fill_accounts [OF _ _ o e modest, of cap] k show "accounts cfg cap g'" "g_pending g' = g_pending g"
    by (simp_all add: keeps_def)
qed

lemma execute_all_accounts:
  assumes acc: "accounts cfg cap g" and ok: "carried_ok g pds"
    and m: "execute_all cfg c pds g = (g', Inr ())" and modest: "modest g'"
  shows "accounts cfg cap g'" and "g_pending g' = g_pending g"
proof -
  consider "pds = []" | x where "pds = [x]" "closing_order g x" | n where "pds = [n]" "opening_order n" "held_units g = Map.empty"
    | x n where "pds = [x, n]" "closing_order g x" "opening_order n"
    using ok unfolding carried_ok_def by blast
  then have "accounts cfg cap g' \<and> g_pending g' = g_pending g"
  proof cases
    case 1
    then show ?thesis using m acc by (simp add: returns)
  next
    case (2 x)
    then have "execute_pending cfg c x g = (g', Inr ())" using m by (auto simp: bindS_Inr returns)
    then show ?thesis using execute_exit_accounts [OF acc 2(2)] by blast
  next
    case (3 n)
    then have e: "execute_pending cfg c n g = (g', Inr ())" using m by (auto simp: bindS_Inr returns)
    have "g_active g = None"
    proof (cases "g_active g")
      case (Some a)
      obtain p where "g_book g = [position_key p \<mapsto> p]" using accounts_open [OF acc Some] by blast
      then have "held_units g (position_key p) \<noteq> None" by (simp add: held_units_def)
      with 3(3) show ?thesis by simp
    qed
    then show ?thesis using execute_entry_accounts [OF acc _ 3(2) e modest] by blast
  next
    case (4 x n)
    then obtain h where h: "execute_pending cfg c x g = (h, Inr ())" and e: "execute_pending cfg c n h = (g', Inr ())"
      using m by (auto simp: bindS_Inr returns)
    note x = execute_exit_accounts [OF acc 4(2) h]
    show ?thesis using execute_entry_accounts [OF x(1,2) 4(3) e modest] x(3) by simp
  qed
  then show "accounts cfg cap g'" "g_pending g' = g_pending g" by auto
qed

lemma apply_triggers_elim:
  assumes "apply_triggers cfg c g = (g', Inr ())"
  obtains (none) "g' = g"
  | (exit) p f d h where "current_position cfg g = Inr (Some p)"
      and "resolve_triggers p [c] (ec_costs cfg) (g_stop_price g) (g_take_profit_price g)
        (map_option (\<lambda>a. f_timestamp (at_entry_fill a)) (g_active g)) = Inr (Some f)"
      and "silent g h" and "forced_exit_row cfg d (c_open_time c) p (c_close_time c) \<in> set (g_evidence h)"
      and "engine_apply_fill cfg f (Some d) None None h = (g', Inr ())"
proof -
  from assms obtain x where x: "current_position cfg g = Inr x"
    and m: "(case x of None \<Rightarrow> liftS (Inr ())
      | Some q \<Rightarrow>
          bindS (gets (walk_triggers cfg q [c])) (\<lambda>trigger.
          (case trigger of
             None \<Rightarrow> liftS (Inr ())
           | Some f \<Rightarrow>
               bindS (track_excursions c q) (\<lambda>_.
               bindS (next_id ''decision'') (\<lambda>decision_id.
               bindS (record_row (forced_exit_row cfg decision_id (c_open_time c) q (c_close_time c))) (\<lambda>_.
               engine_apply_fill cfg f (Some decision_id) None None)))))) g = (g', Inr ())"
    by (auto simp: apply_triggers_def bind_gets_returns)
  show thesis
  proof (cases x)
    case None
    with m show ?thesis using none by (simp add: returns)
  next
    case (Some p)
    with m obtain t where w: "walk_triggers cfg p [c] g = Inr t"
      and m': "(case t of
             None \<Rightarrow> liftS (Inr ())
           | Some f \<Rightarrow>
               bindS (track_excursions c p) (\<lambda>_.
               bindS (next_id ''decision'') (\<lambda>decision_id.
               bindS (record_row (forced_exit_row cfg decision_id (c_open_time c) p (c_close_time c))) (\<lambda>_.
               engine_apply_fill cfg f (Some decision_id) None None)))) g = (g', Inr ())"
      by (auto simp: bind_gets_returns)
    show ?thesis
    proof (cases t)
      case None
      with m' show ?thesis using none by (simp add: returns)
    next
      case (Some f)
      with m' obtain g1 d h where t1: "track_excursions c p g = (g1, Inr ())"
        and h: "h = g1\<lparr>g_sequence := (g_sequence g1)(''decision'' := d),
          g_evidence := g_evidence g1 @ [forced_exit_row cfg d (c_open_time c) p (c_close_time c)]\<rparr>"
        and e: "engine_apply_fill cfg f (Some d) None None h = (g', Inr ())"
        by (auto simp: bindS_Inr [of "track_excursions c p"] returns)
      have "silent g1 h"
        by (rule silentI [of h g1 "[forced_exit_row cfg d (c_open_time c) p (c_close_time c)]"]) (simp_all add: h)
      then have "silent g h" using quiet.transitive [OF stepsD [OF track_excursions_silent t1]] by blast
      moreover have "forced_exit_row cfg d (c_open_time c) p (c_close_time c) \<in> set (g_evidence h)" by (simp add: h)
      moreover have "resolve_triggers p [c] (ec_costs cfg) (g_stop_price g) (g_take_profit_price g)
        (map_option (\<lambda>a. f_timestamp (at_entry_fill a)) (g_active g)) = Inr (Some f)"
        using w Some by (simp add: walk_triggers_def)
      ultimately show ?thesis using exit e x \<open>x = Some p\<close> by blast
    qed
  qed
qed

lemma apply_triggers_keeps:
  assumes acc: "accounts cfg cap g" and m: "apply_triggers cfg c g = (g', Inr ())"
  shows "keeps cfg cap g g'"
  using m
proof (cases rule: apply_triggers_elim)
  case none
  then show ?thesis using keeps_refl [OF acc] by simp
next
  case (exit p f d h)
  obtain a where hb: "held_by cfg a p" using accounts_position [OF acc exit(1)] .
  have q8: "q8_option (g_stop_price g)" "q8_option (g_take_profit_price g)" using acc by (simp_all add: accounts_def)
  have cl: "closes f p" using triggers_close(1) [OF exit(2) _ q8] hb by (simp add: held_by_def)
  have k: "keeps cfg cap g h" by (rule keeps_still [OF silent_still [OF exit(3)] acc])
  have p: "current_position cfg h = Inr (Some p)"
    using exit(1) silent_still [OF exit(3)] by (simp add: still_def ledger_def current_position_def)
  have "keeps cfg cap h g'" by (rule closing_fill_keeps(1) [OF _ p cl exit(5)]) (use k in \<open>simp add: keeps_def\<close>)
  with k show ?thesis by (rule keeps_trans)
qed

lemma accounts_pending [simp]: "accounts cfg cap (g\<lparr>g_pending := pds\<rparr>) = accounts cfg cap g"
  by (simp add: accounts_def split: option.split)

lemma held_units_pending [simp]: "held_units (g\<lparr>g_pending := pds\<rparr>) = held_units g"
  by (simp add: held_units_def)

lemma step_open_elim:
  assumes "step_open cfg c g = (g', Inr ())"
  obtains h1 h2 bs h3 where "clock_now (g_clock g) = c_open_time c" and "settle_at_boundary cfg (c_open_time c) g = (h1, Inr ())"
    and "execute_all cfg c (g_pending h1) (h1\<lparr>g_pending := []\<rparr>) = (h2, Inr ())"
    and "boundaries_between (c_open_time c) (c_close_time c) = Inr bs"
    and "settle_all cfg bs h2 = (h3, Inr ())" and "apply_triggers cfg c h3 = (g', Inr ())"
  using assms unfolding step_open_def
  by (auto simp: returns bindS_Inr [of "settle_at_boundary cfg b" for b] bindS_Inr [of "execute_all cfg c p" for p]
      bindS_Inr [of "settle_all cfg b" for b])

lemma step_open_accounts:
  assumes acc: "accounts cfg cap g" and ok: "carried_ok g (g_pending g)"
    and m: "step_open cfg c g = (g', Inr ())" and modest: "modest g'"
  shows "accounts cfg cap g'" and "g_pending g' = []"
proof -
  obtain h1 h2 bs h3 where s: "settle_at_boundary cfg (c_open_time c) g = (h1, Inr ())"
    and e: "execute_all cfg c (g_pending h1) (h1\<lparr>g_pending := []\<rparr>) = (h2, Inr ())"
    and s': "settle_all cfg bs h2 = (h3, Inr ())" and t: "apply_triggers cfg c h3 = (g', Inr ())"
    using step_open_elim [OF m] .
  have k: "keeps cfg cap g h1" by (rule settle_at_boundary_keeps [OF acc s])
  then have a1: "accounts cfg cap (h1\<lparr>g_pending := []\<rparr>)" "carried_ok (h1\<lparr>g_pending := []\<rparr>) (g_pending h1)"
    using carried_ok_fewer [of "h1\<lparr>g_pending := []\<rparr>" g, OF _ ok] by (simp_all add: keeps_def)
  have "modest h3" using modest_grows [OF stepsD [OF apply_triggers_grows t] modest] .
  then have "modest h2" by (rule modest_grows [OF stepsD [OF settle_all_grows s']])
  note x = execute_all_accounts [OF a1 e this]
  have k': "keeps cfg cap h2 h3" by (rule settle_all_keeps [OF x(1) s'])
  then have "accounts cfg cap h3" by (simp add: keeps_def)
  from keeps_trans [OF k' apply_triggers_keeps [OF this t]] have "keeps cfg cap h2 g'" .
  then show "accounts cfg cap g'" "g_pending g' = []" using x(2) by (simp_all add: keeps_def)
qed

subsection \<open>The close of a candle\<close>

lemma mark_position_keeps:
  assumes acc: "accounts cfg cap g" and m: "mark_position cfg c mark g = (g', Inr p)"
  shows "keeps cfg cap g g'" and "current_position cfg g' = Inr p"
proof -
  from m obtain x where x: "current_position cfg g = Inr x"
    by (auto simp: mark_position_def returns)
  have "keeps cfg cap g g' \<and> current_position cfg g' = Inr p"
  proof (cases x)
    case None
    with m x show ?thesis using keeps_refl [OF acc] by (auto simp: mark_position_def returns)
  next
    case (Some q)
    with m x obtain q1 where u: "update_price q mark = Inr q1" and p: "p = Some q1"
      and t: "track_excursions c q1 (g\<lparr>g_book := (g_book g)(position_key q \<mapsto> q1)\<rparr>) = (g', Inr ())"
      by (auto simp: mark_position_def returns bindS_Inr [of "track_excursions c y" for y])
    obtain a where a: "g_active g = Some a" and bk: "g_book g = [position_key q \<mapsto> q]" and h: "held_by cfg a q"
      and bal: "\<bar>g_cash g + p_margin q + at_total_fee a + at_funding a - (cap + net_result (g_trades g))\<bar>
        \<le> rounding_slack (g_trades g)"
      using accounts_position [OF acc x [unfolded Some]] .
    have same: "p_symbol q1 = p_symbol q" "p_side q1 = p_side q" "p_quantity q1 = p_quantity q"
      "p_entry_price q1 = p_entry_price q" "p_margin q1 = p_margin q" "position_key q1 = position_key q"
      using u by (auto elim!: update_price_Inr simp: position_key_def)
    have h1: "held_by cfg a q1"
      using h same update_price_ok [OF u] by (simp add: held_by_def)
    let ?g1 = "g\<lparr>g_book := (g_book g)(position_key q \<mapsto> q1)\<rparr>"
    have b1: "g_book ?g1 = [position_key q1 \<mapsto> q1]" using bk same by simp
    have acc1: "accounts cfg cap ?g1"
      by (rule accounts_openI [OF _ _ _ _ _ b1 h1]) (use acc a bal same in \<open>simp_all add: accounts_def\<close>)
    have s: "still ?g1 g'" by (rule silent_still [OF stepsD [OF track_excursions_silent t]])
    have "held_units ?g1 = held_units g" using held_units_one [OF b1] held_units_one [OF bk] same by simp
    then have "keeps cfg cap g g'" using keeps_still [OF s acc1] by (simp add: keeps_def)
    moreover have "current_position cfg ?g1 = Inr (Some q1)"
      using b1 h1 by (cases "p_side q1") (auto simp: current_position_def book_get_def held_by_def position_key_def)
    ultimately show ?thesis using s p by (simp add: still_def ledger_def current_position_def)
  qed
  then show "keeps cfg cap g g'" "current_position cfg g' = Inr p" by auto
qed

end
