(* ===== verification/EngineClose.thy ===== *)
theory EngineClose
  imports EngineRun
begin

section \<open>The close of a candle and the run\<close>

text \<open>
  What the close of a candle may queue, and the books over the candle loop, the data gaps and the
  end of the data.
\<close>

subsection \<open>The mark of the grid\<close>

lemma silent_row: "quiet_row e \<Longrightarrow> silent g (g\<lparr>g_evidence := g_evidence g @ [e]\<rparr>)"
  by (rule silentI [of _ _ "[e]"]; simp)

lemma bind_record_row_at_returns [returns]:
  "bindS (\<lambda>g. record_row (k g) g) f g = (t, Inr y) \<longleftrightarrow> f () (g\<lparr>g_evidence := g_evidence g @ [k g]\<rparr>) = (t, Inr y)"
  by (auto simp: bindS_Inr record_row_def modify_def)

lemma mark_grid_elim:
  assumes "mark_grid cfg c g = (g', Inr ())"
  obtains mark p h v eq r h' where "mark_position cfg c mark g = (h, Inr p)" and "position_value p = Inr v"
    and "recompute (g_cash h) p = Inr eq" and "silent h h'" and "still h' g'"
    and "g_evidence g' = g_evidence h' @ [PORTFOLIO_ROW r]" and "g_active g' = g_active h'"
    and "eq_cash r = g_cash h" and "eq_position_value r = v" and "eq_total r = eq" and "eq_total r \<le> eq_peak r"
proof -
  from assms obtain mark p h v eq dd where mp: "mark_position cfg c mark g = (h, Inr p)"
    and pv: "position_value p = Inr v" and eq: "recompute (g_cash h) p = Inr eq"
    and m: "bindS (position_evidence c p mark) (\<lambda>_.
     bindS (next_id ''equity'') (\<lambda>equity_no.
     bindS (\<lambda>g. record_row (portfolio_row g (g_active g) equity_no (c_close_time c) p v eq
       (max (equity_peak (g_equity_curve h) eq) eq) dd) g) (\<lambda>_.
     modify (\<lambda>g. g\<lparr>g_equity_curve := g_equity_curve g @ [(c_close_time c, eq)]\<rparr>)))) h = (g', Inr ())"
    unfolding mark_grid_def by (auto simp: returns bindS_Inr [of "mark_position cfg c k" for k])
  from m obtain h' where pe: "position_evidence c p mark h = (h', Inr ())"
    and m': "bindS (next_id ''equity'') (\<lambda>equity_no.
     bindS (\<lambda>g. record_row (portfolio_row g (g_active g) equity_no (c_close_time c) p v eq
       (max (equity_peak (g_equity_curve h) eq) eq) dd) g) (\<lambda>_.
     modify (\<lambda>g. g\<lparr>g_equity_curve := g_equity_curve g @ [(c_close_time c, eq)]\<rparr>))) h' = (g', Inr ())"
    by (auto simp: bindS_Inr)
  have s: "silent h h'" by (rule stepsD [OF position_evidence_silent pe])
  then have cash: "g_cash h' = g_cash h" by (simp add: silent_def ledger_def)
  have "\<exists>r. still h' g' \<and> g_evidence g' = g_evidence h' @ [PORTFOLIO_ROW r] \<and> g_active g' = g_active h' \<and>
      eq_cash r = g_cash h \<and> eq_position_value r = v \<and> eq_total r = eq \<and> eq_total r \<le> eq_peak r"
    using m' cash
    by (auto simp: returns portfolio_row_def Let_def still_def ledger_def grows_def)
  then show thesis using that [OF mp pv eq s] by blast
qed

lemma mark_grid_keeps:
  assumes acc: "accounts cfg cap g" and m: "mark_grid cfg c g = (g', Inr ())"
  shows "keeps cfg cap g g'"
proof -
  obtain mark p h h' where "mark_position cfg c mark g = (h, Inr p)" and s: "silent h h'" "still h' g'"
    by (rule mark_grid_elim [OF m])
  then have k: "keeps cfg cap g h" using mark_position_keeps(1) [OF acc] by blast
  have "still h g'" using unmoved.transitive [OF silent_still [OF s(1)] s(2)] .
  then have "keeps cfg cap h g'" by (rule keeps_still) (use k in \<open>simp add: keeps_def\<close>)
  with k show ?thesis by (rule keeps_trans)
qed

subsection \<open>What a decision queues\<close>

text \<open>
  The orders of a decision on the candle \<open>c\<close>: an exit of the position \<open>p\<close>, an entry from flat, or
  the exit and then the entry. Each carries the decision, which is already in the evidence.
\<close>

definition decided :: "evidence list \<Rightarrow> nat \<Rightarrow> instant \<Rightarrow> bool" where
  "decided es d t \<longleftrightarrow> (\<exists>r. DECISION_ROW r \<in> set es \<and> dn_decision_id r = d \<and> dn_decision_ts r = t)"

definition stamped :: "candle \<Rightarrow> nat \<Rightarrow> pending_order \<Rightarrow> bool" where
  "stamped c d pd \<longleftrightarrow> pd_decision_id pd = d \<and> pd_decision_candle pd = c \<and>
     epoch_milliseconds (c_close_time c) = Inr (pd_decision_ts pd)"

definition queued :: "candle \<Rightarrow> position option \<Rightarrow> evidence list \<Rightarrow> pending_order list \<Rightarrow> bool" where
  "queued c p es pds \<longleftrightarrow> (\<exists>d. decided es d (c_close_time c) \<and> list_all (stamped c d) pds) \<and>
     ((\<exists>q x. p = Some q \<and> pds = [x] \<and> exit_request q = Inr (pd_request x)) \<or>
      (\<exists>n. p = None \<and> pds = [n] \<and> opening_order n) \<or>
      (\<exists>q x n. p = Some q \<and> pds = [x, n] \<and> exit_request q = Inr (pd_request x) \<and> opening_order n))"

text \<open>A method that is silent up to the orders it queues.\<close>

definition queues :: "candle \<Rightarrow> position option \<Rightarrow> 'x engine \<Rightarrow> 'x engine \<Rightarrow> bool" where
  "queues c p g g' \<longleftrightarrow> silent g g' \<or>
     (\<exists>h pds. silent g h \<and> g' = h\<lparr>g_pending := g_pending h @ pds\<rparr> \<and> queued c p (g_evidence h) pds)"

lemma queues_silent: "silent g g' \<Longrightarrow> queues c p g g'"
  by (simp add: queues_def)

lemma queues_steps: "steps silent m \<Longrightarrow> m g = (g', Inr x) \<Longrightarrow> queues c p g g'"
  by (auto dest: stepsD intro: queues_silent)

lemma silent_queues:
  assumes "silent g h" and "queues c p h g'"
  shows "queues c p g g'"
  using assms quiet.transitive [OF assms(1)] unfolding queues_def by blast

lemma queue_exit_elim:
  assumes "queue_exit c q d reason s g = (g', Inr ())"
  obtains x where "g' = g\<lparr>g_pending := g_pending g @ [x]\<rparr>" and "stamped c d x"
    and "exit_request q = Inr (pd_request x)"
proof -
  from assms obtain r ts where "exit_request q = Inr r" "epoch_milliseconds (c_close_time c) = Inr ts"
    "g' = g\<lparr>g_pending := g_pending g @ [\<lparr>pd_request = r, pd_decision_id = d, pd_decision_candle = c,
       pd_feature_ts = ts, pd_decision_ts = ts, pd_exit_reason = Some reason, pd_signal = Some s,
       pd_candidate_id = None\<rparr>]\<rparr>"
    by (auto simp: queue_exit_def queue_order_def returns)
  then show thesis by (intro that) (auto simp: stamped_def)
qed

lemma entry_request_elim:
  assumes "entry_request s side q = Inr r"
  shows "\<not> rq_reduce_only r" and "\<not> rq_close_position r" and "rq_position_side r = side"
    and "rq_side r = (if side = LONG then BUY else SELL)"
  using assms by (auto simp: entry_request_def make_order_request_def)

lemma queue_entry_elim:
  assumes "queue_entry cfg c s p side q d cand g = (g', Inr ())" and "side \<noteq> BOTH"
  obtains pds where "g' = g\<lparr>g_pending := g_pending g @ pds\<rparr>" and "list_all (stamped c d) pds"
    and "(\<exists>n. p = None \<and> pds = [n] \<and> opening_order n) \<or>
      (\<exists>q x n. p = Some q \<and> pds = [x, n] \<and> exit_request q = Inr (pd_request x) \<and> opening_order n)"
proof -
  from assms(1) obtain h where h: "(case p of None \<Rightarrow> liftS (Inr ()) | Some q \<Rightarrow> queue_exit c q d REVERSAL s) g = (h, Inr ())"
    and m: "bindS (liftS (entry_request s side q)) (\<lambda>request.
     bindS (liftS (epoch_milliseconds (c_close_time c))) (\<lambda>ts.
     queue_order \<lparr>pd_request = request, pd_decision_id = d, pd_decision_candle = c,
       pd_feature_ts = ts, pd_decision_ts = ts, pd_exit_reason = None, pd_signal = Some s,
       pd_candidate_id = Some cand\<rparr>)) h = (g', Inr ())"
    by (auto simp: queue_entry_def bindS_Inr)
  from m obtain r ts where r: "entry_request s side q = Inr r" "epoch_milliseconds (c_close_time c) = Inr ts"
    "g' = h\<lparr>g_pending := g_pending h @ [\<lparr>pd_request = r, pd_decision_id = d, pd_decision_candle = c,
       pd_feature_ts = ts, pd_decision_ts = ts, pd_exit_reason = None, pd_signal = Some s,
       pd_candidate_id = Some cand\<rparr>]\<rparr>"
    by (auto simp: returns queue_order_def)
  obtain n where n: "g' = h\<lparr>g_pending := g_pending h @ [n]\<rparr>" "stamped c d n" "opening_order n"
    using entry_request_elim [OF r(1)] assms(2) r(2)
    by (intro that [OF r(3)]) (simp_all add: stamped_def opening_order_def)
  show thesis
  proof (cases p)
    case None
    with h have "h = g" by (simp add: returns)
    with n None that [of "[n]"] show ?thesis by simp
  next
    case (Some r)
    with h obtain x where "h = g\<lparr>g_pending := g_pending g @ [x]\<rparr>" "stamped c d x" "exit_request r = Inr (pd_request x)"
      by (auto elim: queue_exit_elim)
    with n Some that [of "[x, n]"] show ?thesis by simp
  qed
qed

lemma action_row_decided:
  "decided (es @ [action_row cfg d i c act side q planned sig gap]) d (c_close_time c)"
proof -
  obtain r where "action_row cfg d i c act side q planned sig gap = DECISION_ROW r" "dn_decision_id r = d"
    "dn_decision_ts r = c_close_time c"
    by (simp add: action_row_def)
  then show ?thesis unfolding decided_def by (intro exI [of _ r]) simp
qed

lemma handle_exit_queues:
  assumes "handle_exit cfg c s p i d next_c missing planned g = (g', Inr ())"
  shows "queues c p g g'"
proof (cases "p = None \<or> next_c = None")
  case True
  let ?row = "skip_row cfg d (Some i) c (if p = None then ''no_position'' else if missing then ''next_candle_gap'' else ''end_of_data'')"
  have "record_row ?row g = (g', Inr ())"
    using assms True by (auto simp: handle_exit_def split: option.splits)
  then show ?thesis by (intro queues_silent stepsD [OF record_row_silent]) simp_all
next
  case False
  then obtain q n where q: "p = Some q" "next_c = Some n" by auto
  define h where "h = g\<lparr>g_evidence := g_evidence g @ [action_row cfg d i c ''exit'' (p_side q)
             (float_of_decimal (p_quantity q)) planned None None]\<rparr>"
  have "queue_exit c q d SIGNAL_EXIT s h = (g', Inr ())"
    using assms q by (simp add: handle_exit_def returns h_def)
  then obtain x where x: "g' = h\<lparr>g_pending := g_pending h @ [x]\<rparr>" "stamped c d x" "exit_request q = Inr (pd_request x)"
    by (rule queue_exit_elim)
  have "silent g h" unfolding h_def by (rule silent_row) simp
  moreover have "queued c p (g_evidence h) [x]"
    using x(2,3) q action_row_decided unfolding queued_def h_def by fastforce
  ultimately show ?thesis using x(1) unfolding queues_def by blast
qed

lemma handle_entry_queues:
  fixes g :: "'x engine"
  assumes "handle_entry cfg c s p side0 i d next_c missing planned g = (g', Inr ())" and "side0 \<noteq> Some BOTH"
  shows "queues c p g g'"
proof (cases "case p of None \<Rightarrow> False | Some q \<Rightarrow> side0 = Some (p_side q)")
  case True
  then obtain q where q: "p = Some q" "side0 = Some (p_side q)" by (auto split: option.splits)
  have e: "handle_entry cfg c s p side0 i d next_c missing planned =
     bindS (record_row (skip_row cfg d (Some i) c ''pyramiding_disabled'')) (\<lambda>_.
        record_blocked_candidate c (p_side q) ''pyramiding_disabled'')"
    unfolding handle_entry_def q by (simp only: option.case refl if_True)
  have "steps silent (handle_entry cfg c s p side0 i d next_c missing planned)"
    unfolding e by (rule quiet.steps_bind [OF record_row_silent [OF quiet_rows(2)] blocked_candidate_silent])
  then show ?thesis using assms(1) by (rule queues_steps)
next
  case False
  with assms obtain side where side: "side0 = Some side" "side \<noteq> BOTH"
    by (cases side0) (auto simp: handle_entry_def returns)
  have fresh: "(case p of None \<Rightarrow> False | Some q \<Rightarrow> p_side q = side) = False"
    using False side by (auto split: option.splits)
  define refuse :: "pyfloat \<Rightarrow> string \<Rightarrow> nat \<Rightarrow> ('x engine, unit) st" where "refuse = (\<lambda>q reason cand.
        bindS (record_row (skip_row cfg d (Some i) c reason)) (\<lambda>_.
        bindS (liftS (to_decimal q quantize_amount)) (\<lambda>r.
        record_row (CANDIDATE_ROW \<lparr>cd_candidate_id = cand, cd_ts = c_close_time c,
          cd_symbol = s_symbol s, cd_trigger_rule = s_reason s, cd_passed_filters = [],
          cd_blocked_by = Some reason, cd_side = side, cd_quantity = Some r, cd_realized = False,
          cd_linked_trade_id = None\<rparr>))))"
  have refuse: "steps silent (refuse q reason cand)" for q reason cand
    unfolding refuse_def by (intro quiet.steps_rules record_row_silent) simp_all
  from assms(1) obtain q gap limits_ok cand h where n: "next_id ''candidate'' g = (h, Inr cand)"
    and m: "(if \<not> limits_ok \<or> next_c = None
      then refuse q (if \<not> limits_ok then ''exposure_limit'' else if missing then ''next_candle_gap'' else ''end_of_data'') cand
      else
        bindS (record_row (action_row cfg d i c (if p \<noteq> None then ''reverse'' else ''enter'')
           side q planned (Some s) (Some gap))) (\<lambda>_.
        queue_entry cfg c s p side q d cand)) h = (g', Inr ())"
    unfolding handle_entry_def side(1) option.case fresh if_False Let_def refuse_def
    by (auto simp: bind_gets_returns bind_lift_returns bindS_Inr [of "next_id k" for k] simp del: not_None_eq)
  have h: "silent g h" by (rule stepsD [OF next_id_silent n])
  show ?thesis
  proof (cases "\<not> limits_ok \<or> next_c = None")
    case True
    with m show ?thesis using quiet.transitive [OF h stepsD [OF refuse]] by (auto intro: queues_silent)
  next
    case False
    define h1 where "h1 = h\<lparr>g_evidence := g_evidence h @ [action_row cfg d i c (if p \<noteq> None then ''reverse'' else ''enter'')
           side q planned (Some s) (Some gap)]\<rparr>"
    have s1: "silent h h1" unfolding h1_def by (rule silent_row) simp
    have "queue_entry cfg c s p side q d cand h1 = (g', Inr ())"
      using m unfolding if_not_P [OF False] bind_record_row_returns h1_def .
    then obtain pds where q: "g' = h1\<lparr>g_pending := g_pending h1 @ pds\<rparr>" "list_all (stamped c d) pds"
      "(\<exists>n. p = None \<and> pds = [n] \<and> opening_order n) \<or>
      (\<exists>q x n. p = Some q \<and> pds = [x, n] \<and> exit_request q = Inr (pd_request x) \<and> opening_order n)"
      using side(2) by (rule queue_entry_elim)
    have "queued c p (g_evidence h1) pds"
      using q(2,3) action_row_decided unfolding queued_def h1_def by fastforce
    then show ?thesis using quiet.transitive [OF h s1] q(1) unfolding queues_def by blast
  qed
qed

lemma derive_intent_side: "derive_intent s p = Inr (intent, side) \<Longrightarrow> side \<noteq> Some BOTH"
  by (auto simp: derive_intent_def Let_def split: option.splits if_splits)

lemma handle_signal_queues:
  assumes "handle_signal cfg c s g = (g', Inr ())"
  shows "\<exists>p. current_position cfg g = Inr p \<and> queues c p g g'"
proof -
  from assms obtain p intent side where p: "current_position cfg g = Inr p" and d: "derive_intent s p = Inr (intent, side)"
    and m: "bindS (next_id ''signal'') (\<lambda>signal_id.
     bindS (record_row (SIGNAL_ROW \<lparr>sg_signal_id = signal_id, sg_candle = c, sg_signal = s, sg_intent = intent,
        sg_side = side\<rparr>)) (\<lambda>_.
     bindS (next_id ''decision'') (\<lambda>decision_id.
     bindS (liftS (next_candle (ec_history cfg) c)) (\<lambda>next_in_history.
     (let missing_next_bar = (case next_in_history of None \<Rightarrow> False | Some n \<Rightarrow> c_open_time n \<noteq> c_close_time c);
          next_c = (if missing_next_bar then None else next_in_history);
          planned = map_option (\<lambda>n. max (c_open_time n) (c_close_time c + millisecond)) next_c in
      if intent = ''exit'' then handle_exit cfg c s p signal_id decision_id next_c missing_next_bar planned
      else handle_entry cfg c s p side signal_id decision_id next_c missing_next_bar planned))))) g = (g', Inr ())"
    unfolding handle_signal_def by (auto simp: bind_gets_returns bind_lift_returns)
  have front: "steps silent (bindS (next_id ''signal'') (\<lambda>signal_id.
     bindS (record_row (SIGNAL_ROW \<lparr>sg_signal_id = signal_id, sg_candle = c, sg_signal = s, sg_intent = intent,
        sg_side = side\<rparr>)) (\<lambda>_. bindS (next_id ''decision'') (\<lambda>decision_id. liftS (Inr (signal_id, decision_id))))))"
    by (rule quiet.steps_bind [OF next_id_silent], rule quiet.steps_bind [OF record_row_silent],
        simp, rule quiet.steps_bind [OF next_id_silent quiet.steps_lift])
  from m obtain i di h n where h: "silent g h"
    and r: "(if intent = ''exit'' then handle_exit cfg c s p i di
          (if (case n of None \<Rightarrow> False | Some n \<Rightarrow> c_open_time n \<noteq> c_close_time c) then None else n)
          (case n of None \<Rightarrow> False | Some n \<Rightarrow> c_open_time n \<noteq> c_close_time c)
          (map_option (\<lambda>n. max (c_open_time n) (c_close_time c + millisecond))
            (if (case n of None \<Rightarrow> False | Some n \<Rightarrow> c_open_time n \<noteq> c_close_time c) then None else n))
      else handle_entry cfg c s p side i di
          (if (case n of None \<Rightarrow> False | Some n \<Rightarrow> c_open_time n \<noteq> c_close_time c) then None else n)
          (case n of None \<Rightarrow> False | Some n \<Rightarrow> c_open_time n \<noteq> c_close_time c)
          (map_option (\<lambda>n. max (c_open_time n) (c_close_time c + millisecond))
            (if (case n of None \<Rightarrow> False | Some n \<Rightarrow> c_open_time n \<noteq> c_close_time c) then None else n))) h = (g', Inr ())"
    using stepsD [OF front, of g] unfolding Let_def
    by (simp only: returns) blast
  have "queues c p h g'"
    using r derive_intent_side [OF d] by (auto intro: handle_exit_queues handle_entry_queues split: if_splits)
  then show ?thesis using silent_queues [OF h] p by blast
qed

end
