(* ===== verification/EngineLoop.thy ===== *)
theory EngineLoop
  imports EngineClose
begin

section \<open>The loop over the candles\<close>

text \<open>
  The books over the close of a candle, the data gaps, the loop and the end of the data: between
  two candles they balance, and the orders that wait are the exit of the whole position, an entry
  from flat, or the one after the other.
\<close>

subsection \<open>The close of a candle\<close>

lemma exit_request_elim:
  assumes "exit_request p = Inr r"
  shows "rq_symbol r = p_symbol p" and "rq_side r = (if p_side p = LONG then SELL else BUY)"
    and "rq_quantity r = float_of_decimal (p_quantity p)" and "rq_position_side r = p_side p"
    and "rq_reduce_only r"
  using assms by (auto simp: exit_request_def make_order_request_def)

lemma handle_decision_queues:
  assumes "handle_decision cfg c d g = (g', Inr ())"
  shows "silent g g' \<or> (\<exists>p. current_position cfg g = Inr p \<and> queues c p g g')"
proof (cases "i_action d = HOLD")
  case True
  have "steps silent (bindS (next_id ''decision'') (\<lambda>i. record_row (skip_row cfg i None c (i_reason d))))"
    by (intro quiet.steps_rules silent_steps record_row_silent) simp
  then show ?thesis using assms True by (auto simp: handle_decision_def returns dest: stepsD)
next
  case False
  with assms have m: "(case managed_signal cfg c d g of
         Inl (MoneyManagementError e) \<Rightarrow>
           if ec_policy cfg = None then (g, Inl (MoneyManagementError e))
           else record_blocked_candidate c (if i_action d = ENTER_LONG then LONG else SHORT)
             ''money_management_rejected'' g
       | Inl e \<Rightarrow> (g, Inl e)
       | Inr s \<Rightarrow> handle_timely_signal cfg c s g) = (g', Inr ())"
    by (auto simp: handle_decision_def bind_lift_returns)
  show ?thesis
  proof (cases "managed_signal cfg c d g")
    case (Inl e)
    with m obtain side where "record_blocked_candidate c side ''money_management_rejected'' g = (g', Inr ())"
      by (cases e) (auto split: if_splits)
    then show ?thesis using stepsD [OF blocked_candidate_silent] by blast
  next
    case (Inr s)
    with m have "handle_signal cfg c s g = (g', Inr ())"
      by (auto simp: handle_timely_signal_def bind_lift_returns)
    then show ?thesis using handle_signal_queues by blast
  qed
qed

lemma step_close_elim:
  assumes "step_close cfg c g = (g', Inr ())"
  obtains h h' where "silent g h" and "mark_grid cfg c h = (h', Inr ())"
    and "silent h' g' \<or> (\<exists>p. current_position cfg h' = Inr p \<and> queues c p h' g')"
proof -
  from assms obtain g1 h h' g2 result where u: "update_indicators cfg c (g\<lparr>g_confirmed := g_confirmed g @ [c]\<rparr>) = (h, Inr ())"
    and mg: "mark_grid cfg c h = (h', Inr ())" and an: "engine_analyze cfg c h' = (g2, Inr result)"
    and m: "(case result of
        NoDecision \<Rightarrow> liftS (Inr ())
      | SignalResult s \<Rightarrow>
          if ec_decision_contract cfg then liftS (Inl (TypeError ''declared DecisionIntent''))
          else handle_timely_signal cfg c s
      | IntentResult d \<Rightarrow> handle_decision cfg c d) g2 = (g', Inr ())"
    by (auto simp: step_close_def returns bindS_Inr [of "update_indicators cfg c"] bindS_Inr [of "mark_grid cfg c"]
        bindS_Inr [of "engine_analyze cfg c"])
  have "silent g (g\<lparr>g_confirmed := g_confirmed g @ [c]\<rparr>)" by (rule silentI [of _ _ "[]"]) simp_all
  then have s: "silent g h" using quiet.transitive stepsD [OF update_indicators_silent u] by blast
  have s2: "silent h' g2" by (rule stepsD [OF engine_analyze_silent an])
  then have cp: "current_position cfg h' = current_position cfg g2"
    by (simp add: silent_def ledger_def current_position_def)
  have "silent g2 g' \<or> (\<exists>p. current_position cfg g2 = Inr p \<and> queues c p g2 g')"
  proof (cases result)
    case NoDecision
    with m show ?thesis by (simp add: returns quiet.reflexive)
  next
    case (SignalResult s)
    with m have "handle_signal cfg c s g2 = (g', Inr ())"
      by (auto simp: handle_timely_signal_def returns split: if_splits)
    then show ?thesis using handle_signal_queues by blast
  next
    case (IntentResult d)
    with m have "handle_decision cfg c d g2 = (g', Inr ())" by simp
    then show ?thesis by (rule handle_decision_queues)
  qed
  then have "silent h' g' \<or> (\<exists>p. current_position cfg h' = Inr p \<and> queues c p h' g')"
    using quiet.transitive [OF s2] silent_queues [OF s2] cp by metis
  with s mg show thesis by (rule that)
qed

lemma accounts_position_units:
  assumes "accounts cfg cap g" and "current_position cfg g = Inr p"
  shows "held_units g = (case p of None \<Rightarrow> Map.empty | Some q \<Rightarrow> [position_key q \<mapsto> p_quantity q])"
proof (cases p)
  case None
  have "g_active g = None" using assms None by (metis accounts_open not_None_eq option.distinct(1) sum.inject(2))
  then show ?thesis using accounts_flat_units [OF assms(1)] None by simp
next
  case (Some q)
  then obtain a where "g_book g = [position_key q \<mapsto> q]" using accounts_position assms by metis
  then show ?thesis using held_units_one Some by simp
qed

lemma queued_carried:
  assumes acc: "accounts cfg cap h" and p: "current_position cfg h = Inr p" and q: "queued c p es pds"
  shows "carried_ok h pds"
proof -
  have u: "held_units h = (case p of None \<Rightarrow> Map.empty | Some q \<Rightarrow> [position_key q \<mapsto> p_quantity q])"
    by (rule accounts_position_units [OF acc p])
  have x: "closing_order h x" if "p = Some q" "exit_request q = Inr (pd_request x)" for q x
    using exit_request_elim [OF that(2)] u that(1) by (auto simp: closing_order_def position_key_def split: if_splits)
  from q consider (exit) q x where "p = Some q" "pds = [x]" "exit_request q = Inr (pd_request x)"
    | (entry) n where "p = None" "pds = [n]" "opening_order n"
    | (both) q x n where "p = Some q" "pds = [x, n]" "exit_request q = Inr (pd_request x)" "opening_order n"
    unfolding queued_def by blast
  then show ?thesis
  proof cases
    case exit
    then show ?thesis using x unfolding carried_ok_def by blast
  next
    case entry
    then show ?thesis using u unfolding carried_ok_def by simp
  next
    case both
    then show ?thesis using x unfolding carried_ok_def by blast
  qed
qed

lemma step_close_accounts:
  assumes acc: "accounts cfg cap g" and none: "g_pending g = []" and m: "step_close cfg c g = (g', Inr ())"
  shows "accounts cfg cap g'" and "carried_ok g' (g_pending g')"
proof -
  obtain h h' where s: "silent g h" and mg: "mark_grid cfg c h = (h', Inr ())"
    and q: "silent h' g' \<or> (\<exists>p. current_position cfg h' = Inr p \<and> queues c p h' g')"
    by (rule step_close_elim [OF m])
  have k: "keeps cfg cap g h" by (rule keeps_still [OF silent_still [OF s] acc])
  then have "accounts cfg cap h" by (simp add: keeps_def)
  then have "keeps cfg cap h h'" by (rule mark_grid_keeps [OF _ mg])
  with k have k': "keeps cfg cap g h'" by (rule keeps_trans)
  then have acc': "accounts cfg cap h'" and none': "g_pending h' = []" using none by (simp_all add: keeps_def)
  have *: "accounts cfg cap i \<and> g_pending i = [] \<and> current_position cfg i = current_position cfg h'" if "silent h' i" for i
    using keeps_still [OF silent_still [OF that] acc'] none' that
    by (simp add: keeps_def silent_def ledger_def current_position_def)
  from q consider (quiet) "silent h' g'"
    | (queue) p i pds where "current_position cfg h' = Inr p" "silent h' i" "g' = i\<lparr>g_pending := g_pending i @ pds\<rparr>"
      "queued c p (g_evidence i) pds"
    unfolding queues_def by blast
  then have "accounts cfg cap g' \<and> carried_ok g' (g_pending g')"
  proof cases
    case quiet
    then show ?thesis using * by (simp add: carried_ok_def)
  next
    case (queue p i pds)
    note i = * [OF queue(2)]
    then have "accounts cfg cap i" "current_position cfg i = Inr p" using queue(1) by simp_all
    then have "carried_ok i pds" by (rule queued_carried [OF _ _ queue(4)])
    then have "carried_ok g' pds" using carried_ok_fewer [of g' i] by (simp add: queue(3))
    then show ?thesis using i by (simp add: queue(3))
  qed
  then show "accounts cfg cap g'" "carried_ok g' (g_pending g')" by auto
qed

subsection \<open>Data gaps and the end of the data\<close>

lemma terminal_exit_elim:
  assumes m: "terminal_exit cfg timing c p reason g = (g', Inr f)" and h: "held_by cfg a p"
  shows "silent g g'" and "closes f p" and "c_close_time c < f_timestamp f"
proof -
  from m obtain terminal request g1 f0 where 
    b: "on_broker (bt_configure_execution timing \<lparr>xc_decision_candle = c, xc_history = [c, terminal],
        xc_risk_budget = None, xc_available_margin = Some (g_cash g), xc_leverage = p_leverage p\<rparr>) g = (g1, Inr ())"
    and r: "exit_request p = Inr request" and s: "on_broker (bt_submit (ec_costs cfg) request) g1 = (g', Inr f0)"
    and f: "make_fill (f0\<lparr>f_exit_reason := Some reason\<rparr>) = Inr f"
    by (auto simp: terminal_exit_def returns bindS_Inr [of "\<lambda>g. on_broker (k g) g" for k]
        bindS_Inr [of "on_broker k" for k])
  note bf = broker_fill [OF b s]
  note e = exit_request_elim [OF r]
  have f': "f = f0\<lparr>f_exit_reason := Some reason\<rparr>" by (rule slip_fill_reason [OF f bf(2)])
  have "to_decimal (float_of_decimal (p_quantity p)) quantize_amount = Inr (p_quantity p)"
    by (rule float_round_trip) (use h in \<open>auto simp: held_by_def position_ok_def\<close>)
  then have "f_quantity f0 = p_quantity p" using bf(7) e(3,5) by simp
  then show "silent g g'" "closes f p" "c_close_time c < f_timestamp f"
    using bf e by (simp_all add: f' closes_def)
qed

text \<open>What a data gap does to an open position \<open>q\<close>.\<close>

definition gap_exit :: "'x run_setup \<Rightarrow> candle \<Rightarrow> position \<Rightarrow> ('x engine, unit) st" where
  "gap_exit cfg c q =
     bindS (next_id ''decision'') (\<lambda>decision_id.
     bindS (record_row (forced_exit_row cfg decision_id (c_close_time c) q (c_close_time c + millisecond))) (\<lambda>_.
     bindS (terminal_exit cfg (ec_fill_timing cfg) c q DATA_GAP) (\<lambda>f.
     bindS (engine_apply_fill cfg f (Some decision_id) None None) (\<lambda>_.
     modify (\<lambda>g. g\<lparr>g_data_gap_exits := g_data_gap_exits g + 1\<rparr>)))))"

lemma close_at_data_gap_returns:
  "close_at_data_gap cfg c g = (g', Inr ()) \<longleftrightarrow> g_pending g = [] \<and>
     (\<exists>x. current_position cfg g = Inr x \<and>
       (case x of None \<Rightarrow> g' = g | Some q \<Rightarrow> gap_exit cfg c q g = (g', Inr ())))"
  by (auto simp: close_at_data_gap_def gap_exit_def bind_gets_returns lift_returns split: option.splits)

lemma gap_exit_elim:
  assumes "gap_exit cfg c p g = (g', Inr ())"
  obtains d f h h1 h2 where "silent g h"
      and "forced_exit_row cfg d (c_close_time c) p (c_close_time c + millisecond) \<in> set (g_evidence h)"
      and "terminal_exit cfg (ec_fill_timing cfg) c p DATA_GAP h = (h1, Inr f)"
      and "engine_apply_fill cfg f (Some d) None None h1 = (h2, Inr ())" and "silent h2 g'"
proof -
  define d where "d = Suc (g_sequence g ''decision'')"
  define h where "h = g\<lparr>g_sequence := (g_sequence g)(''decision'' := d),
    g_evidence := g_evidence g @ [forced_exit_row cfg d (c_close_time c) p (c_close_time c + millisecond)]\<rparr>"
  have "bindS (terminal_exit cfg (ec_fill_timing cfg) c p DATA_GAP) (\<lambda>f.
        bindS (engine_apply_fill cfg f (Some d) None None) (\<lambda>_.
        modify (\<lambda>g. g\<lparr>g_data_gap_exits := g_data_gap_exits g + 1\<rparr>))) h = (g', Inr ())"
    using assms by (simp add: gap_exit_def h_def d_def bind_next_id_returns bind_record_row_returns)
  then obtain h1 f h2 where t: "terminal_exit cfg (ec_fill_timing cfg) c p DATA_GAP h = (h1, Inr f)"
    and e: "engine_apply_fill cfg f (Some d) None None h1 = (h2, Inr ())"
    and g': "g' = h2\<lparr>g_data_gap_exits := g_data_gap_exits h2 + 1\<rparr>"
    by (auto simp: bindS_Inr modify_returns)
  have "silent g h"
    by (rule silentI [of h g "[forced_exit_row cfg d (c_close_time c) p (c_close_time c + millisecond)]"])
      (simp_all add: h_def)
  moreover have "silent h2 g'" by (rule silentI [of g' h2 "[]"]) (simp_all add: g')
  ultimately show thesis using that [OF _ _ t e] by (simp add: h_def)
qed

lemma close_at_data_gap_keeps:
  assumes acc: "accounts cfg cap g" and m: "close_at_data_gap cfg c g = (g', Inr ())"
  shows "keeps cfg cap g g'" and "g_pending g = []" and "g_active g' = None"
proof -
  obtain x where x: "g_pending g = []" "current_position cfg g = Inr x"
    and r: "case x of None \<Rightarrow> g' = g | Some q \<Rightarrow> gap_exit cfg c q g = (g', Inr ())"
    using m close_at_data_gap_returns by metis
  show "g_pending g = []" by (rule x(1))
  have "keeps cfg cap g g' \<and> g_active g' = None"
  proof (cases x)
    case None
    have "g_active g = None" using x(2) None by (metis accounts_open [OF acc] not_None_eq option.distinct(1) sum.inject(2))
    then show ?thesis using keeps_refl [OF acc] None r by simp
  next
    case (Some p)
    with r have "gap_exit cfg c p g = (g', Inr ())" by simp
    then obtain d f h h1 h2 where exit: "silent g h"
      "terminal_exit cfg (ec_fill_timing cfg) c p DATA_GAP h = (h1, Inr f)"
      "engine_apply_fill cfg f (Some d) None None h1 = (h2, Inr ())" "silent h2 g'"
      by (rule gap_exit_elim)
    have p0: "current_position cfg g = Inr (Some p)" using x(2) Some by simp
    obtain a where hb: "held_by cfg a p" using accounts_position [OF acc p0] .
    note t = terminal_exit_elim [OF exit(2) hb]
    have s: "silent g h1" by (rule quiet.transitive [OF exit(1) t(1)])
    have k: "keeps cfg cap g h1" by (rule keeps_still [OF silent_still [OF s] acc])
    then have acc1: "accounts cfg cap h1" by (simp add: keeps_def)
    have p: "current_position cfg h1 = Inr (Some p)"
      using p0 s by (simp add: silent_def ledger_def current_position_def)
    note x = closing_fill_keeps [OF acc1 p t(2) exit(3)]
    then have "accounts cfg cap h2" by (simp add: keeps_def)
    then have k2: "keeps cfg cap h2 g'" by (rule keeps_still [OF silent_still [OF exit(4)]])
    have "g_active g' = None" using x(2) exit(4) by (auto simp: silent_def ledger_def)
    then show ?thesis using keeps_trans [OF k keeps_trans [OF x(1) k2]] by blast
  qed
  then show "keeps cfg cap g g'" "g_active g' = None" by auto
qed

subsection \<open>The loop\<close>

definition balanced :: "'x run_setup \<Rightarrow> decimal \<Rightarrow> 'x engine \<Rightarrow> bool" where
  "balanced cfg cap g \<longleftrightarrow> accounts cfg cap g \<and> carried_ok g (g_pending g)"

lemma balanced_silent:
  assumes "balanced cfg cap g" and "silent g g'"
  shows "balanced cfg cap g'"
proof -
  have k: "keeps cfg cap g g'" using assms by (intro keeps_still silent_still) (simp_all add: balanced_def)
  then show ?thesis using carried_ok_fewer [of g' g] assms(1) by (simp add: balanced_def keeps_def)
qed

lemma step_candle_elim:
  assumes "step_candle cfg c g = (g', Inr ())"
  obtains h1 h2 h3 where "silent g h1" and "step_open cfg c h1 = (h2, Inr ())" and "silent h2 h3"
    and "step_close cfg c h3 = (g', Inr ())" and "c_open_time c = clock_now (g_clock h1)"
proof -
  from assms obtain h1 h2 h3 where 1: "engine_move_clock (c_open_time c) (g\<lparr>g_last_candle := Some c\<rparr>) = (h1, Inr ())"
    and 2: "step_open cfg c h1 = (h2, Inr ())" and 3: "engine_move_clock (c_close_time c) h2 = (h3, Inr ())"
    and 4: "step_close cfg c h3 = (g', Inr ())"
    by (auto simp: step_candle_def returns bindS_Inr [of "engine_move_clock t" for t] bindS_Inr [of "step_open cfg c"])
  have "silent g (g\<lparr>g_last_candle := Some c\<rparr>)" by (rule silentI [of _ _ "[]"]) simp_all
  then have "silent g h1" using quiet.transitive stepsD [OF move_clock_silent 1] by blast
  moreover have "silent h2 h3" by (rule stepsD [OF move_clock_silent 3])
  moreover have "c_open_time c = clock_now (g_clock h1)"
    using 1 by (auto simp: engine_move_clock_def move_clock_now split: sum.splits)
  ultimately show thesis using that 2 4 by blast
qed

lemma step_candle_balanced:
  assumes b: "balanced cfg cap g" and m: "step_candle cfg c g = (g', Inr ())" and modest: "modest g'"
  shows "balanced cfg cap g'"
proof -
  obtain h1 h2 h3 where s: "silent g h1" "silent h2 h3" and o: "step_open cfg c h1 = (h2, Inr ())"
    and cl: "step_close cfg c h3 = (g', Inr ())"
    by (rule step_candle_elim [OF m])
  have b1: "balanced cfg cap h1" by (rule balanced_silent [OF b s(1)])
  have "modest h3" using modest_grows [OF stepsD [OF step_close_grows cl] modest] .
  then have "modest h2" by (rule modest_grows [OF silent_grows [OF s(2)]])
  then have h2: "accounts cfg cap h2" "g_pending h2 = []"
    using step_open_accounts [OF _ _ o, of cap] b1 by (simp_all add: balanced_def)
  have "keeps cfg cap h2 h3" by (rule keeps_still [OF silent_still [OF s(2)] h2(1)])
  then have "accounts cfg cap h3" "g_pending h3 = []" using h2(2) by (simp_all add: keeps_def)
  from step_close_accounts [OF this cl] show ?thesis by (simp add: balanced_def)
qed

text \<open>
  What holds before the loop and survives a candle, a data gap and the moves in between holds
  after it. \<open>Ok\<close> is a condition on the final state that the earlier ones inherit, \<open>C\<close> one on the
  candles.
\<close>

locale loop_invariant =
  fixes cfg :: "'x run_setup" and Inv :: "'x engine \<Rightarrow> bool" and Ok :: "'x engine \<Rightarrow> bool" and C :: "candle \<Rightarrow> bool"
  assumes earlier: "grows g g' \<Longrightarrow> Ok g' \<Longrightarrow> Ok g"
    and candle: "C c \<Longrightarrow> Inv g \<Longrightarrow> step_candle cfg c g = (g', Inr ()) \<Longrightarrow> Ok g' \<Longrightarrow> Inv g'"
    and gap: "Inv g \<Longrightarrow> close_at_data_gap cfg c g = (g', Inr ()) \<Longrightarrow> Inv g'"
    and still: "Inv g \<Longrightarrow> silent g g' \<Longrightarrow> Inv g'"
begin

lemma gap_keeps:
  "Inv g \<Longrightarrow> (if b then close_at_data_gap cfg c else liftS (Inr ())) g = (g', Inr ()) \<Longrightarrow> Inv g'"
  using gap by (auto simp: returns split: if_splits)

lemma loop_keeps:
  "candle_loop cfg cs g = (g', Inr ()) \<Longrightarrow> Inv g \<Longrightarrow> Ok g' \<Longrightarrow> list_all C cs \<Longrightarrow> Inv g'"
proof (induction cs arbitrary: g rule: induct_list012)
  case 1
  then show ?case by (simp add: returns)
next
  case (2 c)
  then show ?case using candle by simp
next
  case (3 c d rest)
  from 3(3) obtain h1 h2 h3 where m: "step_candle cfg c g = (h1, Inr ())"
    "(if c_open_time d \<noteq> c_close_time c then close_at_data_gap cfg c else liftS (Inr ())) h1 = (h2, Inr ())"
    "engine_move_clock (c_open_time d) h2 = (h3, Inr ())" "candle_loop cfg (d # rest) h3 = (g', Inr ())"
    by (auto simp: bindS_Inr)
  have "grows h1 h2" "grows h2 h3" "grows h3 g'"
    using stepsD [OF close_at_data_gap_grows, of cfg c h1 h2] m(2) stepsD [OF move_clock_silent m(3)]
      stepsD [OF candle_loop_grows m(4)]
    by (auto simp: returns append_only.reflexive silent_grows split: if_splits)
  then have "Ok h1" using 3(5) earlier by blast
  then have "Inv h1" using candle [OF _ 3(4) m(1)] 3(6) by simp
  then have "Inv h2" by (rule gap_keeps [OF _ m(2)])
  then have "Inv h3" by (rule still) (rule stepsD [OF move_clock_silent m(3)])
  then show ?case using 3(2) [OF m(4)] 3(5,6) by simp
qed

end

interpretation balance: loop_invariant cfg "balanced cfg cap" modest "\<lambda>_. True" for cfg cap
proof
  show "modest g' \<Longrightarrow> modest g" if "grows g g'" for g g' :: "'a engine" by (rule modest_grows [OF that])
  show "balanced cfg cap g'" if "balanced cfg cap g" "step_candle cfg c g = (g', Inr ())" "modest g'" for c g g'
    by (rule step_candle_balanced [OF that])
  show "balanced cfg cap g'" if "balanced cfg cap g" "close_at_data_gap cfg c g = (g', Inr ())" for c g g'
    using close_at_data_gap_keeps [OF _ that(2), of cap] that(1) by (simp add: balanced_def keeps_def carried_ok_def)
  show "balanced cfg cap g'" if "balanced cfg cap g" "silent g g'" for g g'
    by (rule balanced_silent [OF that])
qed

subsection \<open>The end of the data\<close>

lemma terminal_equity_elim:
  assumes "terminal_equity cfg ts e g = (g', Inr ())"
  obtains p v r where "current_position cfg g = Inr p" and "position_value p = Inr v" and "still g g'"
    and "g_evidence g' = g_evidence g @ [PORTFOLIO_ROW r]" and "eq_cash r = g_cash g" and "eq_position_value r = v"
    and "eq_total r = e" and "eq_peak r = equity_peak (g_equity_curve g) e" and "g_active g' = g_active g"
proof -
  from assms obtain p v where p: "current_position cfg g = Inr p" "position_value p = Inr v"
    and "\<exists>r. still g g' \<and> g_evidence g' = g_evidence g @ [PORTFOLIO_ROW r] \<and> eq_cash r = g_cash g \<and>
      eq_position_value r = v \<and> eq_total r = e \<and> eq_peak r = equity_peak (g_equity_curve g) e \<and> g_active g' = g_active g"
    by (auto simp: terminal_equity_def returns portfolio_row_def Let_def record_row_def still_def ledger_def grows_def)
  then show thesis using that by blast
qed

lemma close_at_end_elim:
  assumes "close_at_end cfg g = (g', Inr e)"
  obtains c p h ts where "g_last_candle g = Some c" and "current_position cfg g = Inr p"
    and "(case p of None \<Rightarrow> liftS (Inr ())
         | Some q \<Rightarrow> bindS (terminal_exit cfg NextBar c q END_OF_DATA) (\<lambda>f. engine_apply_fill cfg f None None None)) g
      = (h, Inr ())"
    and "current_equity cfg h = Inr e"
    and "terminal_equity cfg ts e (h\<lparr>g_equity_curve := g_equity_curve h @ [(ts, e)]\<rparr>) = (g', Inr ())"
proof -
  from assms obtain c where c: "g_last_candle g = Some c" by (auto simp: close_at_end_def split: option.splits)
  with assms obtain p h where "current_position cfg g = Inr p"
    "(case p of None \<Rightarrow> liftS (Inr ())
         | Some q \<Rightarrow> bindS (terminal_exit cfg NextBar c q END_OF_DATA) (\<lambda>f. engine_apply_fill cfg f None None None)) g
      = (h, Inr ())"
    "current_equity cfg h = Inr e"
    "terminal_equity cfg (c_close_time c + millisecond) e
      (h\<lparr>g_equity_curve := g_equity_curve h @ [(c_close_time c + millisecond, e)]\<rparr>) = (g', Inr ())"
    by (auto simp: close_at_end_def Let_def returns bindS_Inr [of "case p of None \<Rightarrow> liftS (Inr ())
         | Some q \<Rightarrow> bindS (terminal_exit cfg NextBar c q END_OF_DATA) (\<lambda>f. engine_apply_fill cfg f None None None)" for p]
        bindS_Inr [of "terminal_equity cfg a b" for a b])
  with c show thesis by (rule that)
qed

lemma position_value_flat: "position_value None = Inr v \<Longrightarrow> v = 0"
  by (auto simp: position_value_def)

lemma close_at_end_accounts:
  assumes acc: "accounts cfg cap g" and m: "close_at_end cfg g = (g', Inr e)"
  shows "accounts cfg cap g'" and "g_active g' = None" and "e = g_cash g'"
proof -
  obtain c p h ts where p: "current_position cfg g = Inr p"
    and x: "(case p of None \<Rightarrow> liftS (Inr ())
         | Some q \<Rightarrow> bindS (terminal_exit cfg NextBar c q END_OF_DATA) (\<lambda>f. engine_apply_fill cfg f None None None)) g
      = (h, Inr ())"
    and e: "current_equity cfg h = Inr e"
    and t: "terminal_equity cfg ts e (h\<lparr>g_equity_curve := g_equity_curve h @ [(ts, e)]\<rparr>) = (g', Inr ())"
    by (rule close_at_end_elim [OF m])
  have h: "accounts cfg cap h \<and> g_active h = None"
  proof (cases p)
    case None
    then have "h = g" using x by (simp add: returns)
    moreover have "g_active g = None" using p None by (metis accounts_open [OF acc] not_None_eq option.distinct(1) sum.inject(2))
    ultimately show ?thesis using acc by simp
  next
    case (Some q)
    with x obtain g1 f where t: "terminal_exit cfg NextBar c q END_OF_DATA g = (g1, Inr f)"
      and ap: "engine_apply_fill cfg f None None None g1 = (h, Inr ())"
      by (auto simp: bindS_Inr)
    obtain a where hb: "held_by cfg a q" using accounts_position [OF acc p [unfolded Some]] .
    note s = terminal_exit_elim [OF t hb]
    have acc1: "accounts cfg cap g1" using keeps_still [OF silent_still [OF s(1)] acc] by (simp add: keeps_def)
    have "current_position cfg g1 = Inr (Some q)"
      using p Some s(1) by (simp add: silent_def ledger_def current_position_def)
    from closing_fill_accounts [OF acc1 this s(2) ap] show ?thesis by simp
  qed
  let ?h = "h\<lparr>g_equity_curve := g_equity_curve h @ [(ts, e)]\<rparr>"
  have "silent h ?h" by (rule silentI [of _ _ "[]"]) simp_all
  then have s: "still h g'" using unmoved.transitive silent_still terminal_equity_elim [OF t] by metis
  show "accounts cfg cap g'" using keeps_still [OF s] h by (simp add: keeps_def)
  show "g_active g' = None" using s h by (auto simp: still_def ledger_def)
  have "is_q8 (g_cash h)" using h by (simp add: accounts_def)
  moreover have "current_position cfg h = Inr None" using h accounts_flat by blast
  ultimately have "e = g_cash h" using e quantize_add [of "g_cash h" 0]
    by (auto simp: current_equity_def recompute_def bindR_eq_Inr dest!: position_value_flat)
  then show "e = g_cash g'" using s by (simp add: still_def ledger_def)
qed

lemma initial_accounts:
  assumes "initial_engine cap x feats preload rates clock = Inr g"
  shows "balanced cfg (g_cash g) g" and "\<exists>cash. checked_cash cap = Inr cash \<and> g_cash g = cash"
  using assms by (auto simp: initial_engine_def bindR_eq_Inr balanced_def accounts_def carried_ok_def q8_option_def
      net_result_def rounding_slack_def checked_cash_def dest: quantize_is_q8)

lemma run_candles_accounts:
  assumes b: "balanced cfg cap g" and m: "run_candles cfg cs g = (g', Inr e)" and modest: "modest g'"
  shows "accounts cfg cap g'" and "g_active g' = None" and "e = g_cash g'"
proof -
  from m obtain h where l: "candle_loop cfg cs g = (h, Inr ())" and c: "close_at_end cfg h = (g', Inr e)"
    by (auto simp: run_candles_def bind_lift_returns bindS_Inr [of "candle_loop cfg cs"])
  have "modest h" using modest_grows [OF stepsD [OF close_at_end_grows c] modest] .
  then have "accounts cfg cap h" using balance.loop_keeps [OF l b] by (simp add: balanced_def list_all_iff)
  from close_at_end_accounts [OF this c] show "accounts cfg cap g'" "g_active g' = None" "e = g_cash g'" .
qed

end
