(* ===== verification/EngineTrace.thy ===== *)
theory EngineTrace
  imports EngineLoop
begin

section \<open>What a run writes\<close>

text \<open>
  The order of the evidence: an execution row names a decision row written before it, of a moment
  strictly before the fill. And what the portfolio rows hold.
\<close>

subsection \<open>The rows a method may add\<close>

text \<open>
  \<open>adds P\<close>: every row added satisfies \<open>P\<close>, and the rows that the active trade still withholds stay
  quiet.
\<close>

definition adds :: "(evidence \<Rightarrow> bool) \<Rightarrow> 'x engine \<Rightarrow> 'x engine \<Rightarrow> bool" where
  "adds P g g' \<longleftrightarrow> (records_quiet g \<longrightarrow> records_quiet g' \<and>
     (\<exists>es. g_evidence g' = g_evidence g @ es \<and> list_all P es))"

interpretation adding: step_order "adds P" for P
proof
  show "adds P g g" for g :: "'a engine" by (simp add: adds_def)
  show "adds P g i" if "adds P g h" "adds P h i" for g h i :: "'a engine"
    using that by (auto simp: adds_def)
qed

locale row_filter =
  fixes P :: "evidence \<Rightarrow> bool"
  assumes quiet: "quiet_row e \<Longrightarrow> P e"
begin

lemma silent_adds: "silent g g' \<Longrightarrow> adds P g g'"
  unfolding silent_def adds_def list_all_def using quiet by blast

lemma silent_steps_add: "steps silent m \<Longrightarrow> steps (adds P) m"
  by (auto simp: steps_def wp_def dest: silent_adds)

lemmas silent_adding = silent_steps [THEN silent_steps_add]

lemma record_row_adds: "P e \<Longrightarrow> steps (adds P) (record_row e)"
  by (auto simp: record_row_def adds_def records_quiet_def intro!: adding.steps_modify)

lemma record_row_at_adds: "(\<And>g. P (e g)) \<Longrightarrow> steps (adds P) (\<lambda>g. record_row (e g) g)"
  by (rule adding.steps_state) (rule record_row_adds)

lemma record_rows_adds: "list_all quiet_row es \<Longrightarrow> steps (adds P) (record_rows es)"
  by (rule silent_steps_add) (rule record_rows_silent)

lemma modify_adds:
  "(\<And>g. g_evidence (f g) = g_evidence g) \<Longrightarrow> (\<And>g. records_quiet g \<Longrightarrow> records_quiet (f g)) \<Longrightarrow>
    steps (adds P) (modify f)"
  by (rule adding.steps_modify) (simp add: adds_def)

lemmas add_rules = adding.steps_rules silent_adding record_row_at_adds

lemma open_or_extend_adds: "steps (adds P) (open_or_extend_trade f sig c n)"
proof (rule stepsI)
  fix g :: "'x engine"
  show "wp (open_or_extend_trade f sig c n) (\<lambda>_. adds P g) g"
    by (cases "g_active g"; cases sig)
      (auto simp: open_or_extend_trade_def wp_def returns adds_def records_quiet_def)
qed

lemma apply_entry_adds: "steps (adds P) (apply_entry cfg f before proj sig c n)"
  unfolding apply_entry_def
  by (intro add_rules modify_adds open_or_extend_adds) (simp_all add: records_quiet_def)

lemma complete_trade_adds:
  assumes "list_all quiet_row (at_position_records a @ at_funding_records a)"
  shows "steps (adds P) (complete_trade cfg a x n)"
  unfolding complete_trade_def
  by (intro add_rules modify_adds record_rows_adds record_row_adds quiet)
    (use assms in \<open>simp_all add: records_quiet_def\<close>)

lemma flat_adds:
  "steps (adds P) (modify (\<lambda>g. g\<lparr>g_active := None, g_stop_price := None, g_take_profit_price := None\<rparr>))"
  by (rule modify_adds) (simp_all add: records_quiet_def)

lemma apply_exit_adds: "steps (adds P) (apply_exit cfg x before n)"
proof (rule stepsI, rule wpI)
  fix g g' :: "'a engine" and u
  assume m: "apply_exit cfg x before n g = (g', Inr u)"
  then obtain p a where p: "before = Some p" and a: "g_active g = Some a"
    by (cases before; cases "g_active g") (auto simp: apply_exit_def)
  have m': "apply_exit cfg x (Some p) n g = (g', Inr ())" using m p by simp
  obtain b cash fee slip and pos :: "position option" where
    r: "(if pos \<noteq> None then liftS (Inr ())
      else bindS (complete_trade cfg (a\<lparr>at_total_fee := fee, at_slippage := slip\<rparr>) x n) (\<lambda>_.
        modify (\<lambda>g. g\<lparr>g_active := None, g_stop_price := None, g_take_profit_price := None\<rparr>)))
      (g\<lparr>g_book := b, g_cash := cash, g_active := Some (a\<lparr>at_total_fee := fee, at_slippage := slip\<rparr>)\<rparr>) = (g', Inr ())"
    by (rule apply_exit_elim [OF m' a]) (rule that)
  show "adds P g g'"
  proof (cases "records_quiet g")
    case True
    let ?a = "a\<lparr>at_total_fee := fee, at_slippage := slip\<rparr>"
    have q: "list_all quiet_row (at_position_records ?a @ at_funding_records ?a)"
      using True a by (simp add: records_quiet_def)
    have "steps (adds P) (if pos \<noteq> None then liftS (Inr ())
      else bindS (complete_trade cfg ?a x n) (\<lambda>_.
        modify (\<lambda>g. g\<lparr>g_active := None, g_stop_price := None, g_take_profit_price := None\<rparr>)))"
      by (rule adding.steps_if [OF adding.steps_lift adding.steps_bind [OF complete_trade_adds [OF q] flat_adds]])
    then have "adds P (g\<lparr>g_book := b, g_cash := cash, g_active := Some ?a\<rparr>) g'" by (rule stepsD) (rule r)
    moreover have "records_quiet (g\<lparr>g_book := b, g_cash := cash, g_active := Some ?a\<rparr>)"
      using q by (simp add: records_quiet_def)
    ultimately show ?thesis by (simp add: adds_def)
  next
    case False
    then show ?thesis by (simp add: adds_def)
  qed
qed

end

interpretation quiet_rows: row_filter quiet_row
  by unfold_locales simp

text \<open>A fill is one execution row and then quiet rows.\<close>

lemma engine_apply_fill_rows:
  assumes "engine_apply_fill cfg f d sig c g = (g', Inr ())" and "records_quiet g"
  obtains r es where "g_evidence g' = g_evidence g @ EXECUTION_ROW r # es" and "list_all quiet_row es"
    and "ex_fill r = f" and "ex_decision_id r = d" and "records_quiet g'"
proof -
  from assms(1) obtain before n g1 where e: "execution_evidence f d g = (g1, Inr n)"
    and m: "apply_exit cfg f before n g1 = (g', Inr ()) \<or>
      (\<exists>proj. apply_entry cfg f before proj sig c n g1 = (g', Inr ()))"
    by (auto simp: engine_apply_fill_def returns bindS_Inr [of "execution_evidence f d"] split: if_splits)
  obtain r where r: "g_evidence g1 = g_evidence g @ [EXECUTION_ROW r]" "ex_fill r = f" "ex_decision_id r = d"
    and s: "still g g1"
    using execution_evidence_row [OF e] by blast
  have "g_active g1 = g_active g"
    using e by (auto simp: execution_evidence_def returns)
  then have q: "records_quiet g1" using assms(2) by (simp add: records_quiet_def)
  have "adds quiet_row g1 g'"
    using m stepsD [OF quiet_rows.apply_exit_adds] stepsD [OF quiet_rows.apply_entry_adds] by blast
  then obtain es where "records_quiet g'" "g_evidence g' = g_evidence g1 @ es" "list_all quiet_row es"
    using q by (auto simp: adds_def)
  with r show thesis by (intro that [of r es]) simp_all
qed

subsection \<open>Milliseconds are monotone\<close>

lemma epoch_milliseconds_mono:
  assumes "s \<le> t" and s: "epoch_milliseconds s = Inr x" and t: "epoch_milliseconds t = Inr y"
  shows "x \<le> y"
proof -
  have fin: "\<exists>p. fround (of_int u / 1000000) = Fin p \<and> (\<exists>q. fround (p * 1000) = Fin q \<and> z = py_int q)"
    if "epoch_milliseconds u = Inr z" for u z
    using that by (cases "fround (of_int u / 1000000 :: rat)")
      (auto simp: epoch_milliseconds_def total_seconds_def py_trunc_def signed_inf_def split: pyfloat.splits if_splits)
  obtain p q where p: "fround (of_int s / 1000000) = Fin p" "fround (p * 1000) = Fin q" "x = py_int q"
    using fin [OF s] by blast
  obtain p' q' where p': "fround (of_int t / 1000000) = Fin p'" "fround (p' * 1000) = Fin q'" "y = py_int q'"
    using fin [OF t] by blast
  have "(of_int s :: rat) / 1000000 \<le> of_int t / 1000000" using assms(1) by (simp add: divide_right_mono)
  then have "p \<le> p'" using fround_mono [of "of_int s / 1000000" "of_int t / 1000000"] p(1) p'(1) by (auto simp: fle_def)
  then have "q \<le> q'" using fround_mono [of "p * 1000" "p' * 1000"] p(2) p'(2) by (auto simp: fle_def)
  then have "py_int q \<le> py_int q'"
  proof (cases "0 \<le> q")
    case True
    with \<open>q \<le> q'\<close> show ?thesis by (simp add: py_int_def floor_mono)
  next
    case False
    have "\<lceil>q\<rceil> \<le> 0" using False by (simp add: ceiling_le_iff)
    moreover have "0 \<le> \<lfloor>q'\<rfloor>" if "0 \<le> q'" using that by simp
    ultimately have "\<lceil>q\<rceil> \<le> \<lfloor>q'\<rfloor>" if "0 \<le> q'" using that by (meson order_trans)
    then show ?thesis using False \<open>q \<le> q'\<close> by (auto simp: py_int_def ceiling_mono)
  qed
  then show ?thesis using p(3) p'(3) by simp
qed

subsection \<open>Every execution has an earlier decision\<close>

definition informed :: "evidence list \<Rightarrow> bool" where
  "informed es \<longleftrightarrow> (\<forall>pre r post d. es = pre @ EXECUTION_ROW r # post \<longrightarrow> ex_decision_id r = Some d \<longrightarrow>
     (\<exists>t. decided pre d t \<and> t < f_timestamp (ex_fill r)))"

lemma informed_nil: "informed []"
  by (simp add: informed_def)

lemma informed_snoc:
  "informed (es @ [e]) \<longleftrightarrow> informed es \<and>
    (\<forall>r d. e = EXECUTION_ROW r \<longrightarrow> ex_decision_id r = Some d \<longrightarrow> (\<exists>t. decided es d t \<and> t < f_timestamp (ex_fill r)))"
  (is "?l \<longleftrightarrow> ?r")
proof
  assume l: ?l
  have "informed es"
    unfolding informed_def
  proof (intro allI impI)
    fix pre r post d assume "es = pre @ EXECUTION_ROW r # post" "ex_decision_id r = Some d"
    then show "\<exists>t. decided pre d t \<and> t < f_timestamp (ex_fill r)"
      using l unfolding informed_def by (metis append.assoc append_Cons)
  qed
  moreover have "\<exists>t. decided es d t \<and> t < f_timestamp (ex_fill r)" if "e = EXECUTION_ROW r" "ex_decision_id r = Some d" for r d
    using l that unfolding informed_def by blast
  ultimately show ?r by blast
next
  assume r: ?r
  show ?l
    unfolding informed_def
  proof (intro allI impI)
    fix pre x post d assume e: "es @ [e] = pre @ EXECUTION_ROW x # post" and d: "ex_decision_id x = Some d"
    show "\<exists>t. decided pre d t \<and> t < f_timestamp (ex_fill x)"
    proof (cases post rule: rev_cases)
      case Nil
      with e r d show ?thesis by simp
    next
      case (snoc ys y)
      with e have "es = pre @ EXECUTION_ROW x # ys" by simp
      with r d show ?thesis unfolding informed_def by blast
    qed
  qed
qed

lemma informed_quiet: "list_all quiet_row es \<Longrightarrow> informed (pre @ es) \<longleftrightarrow> informed pre"
proof (induction es rule: rev_induct)
  case (snoc e es)
  then have "informed ((pre @ es) @ [e]) \<longleftrightarrow> informed (pre @ es)" by (subst informed_snoc) auto
  then show ?case using snoc by simp
qed simp

lemma decided_append: "decided es d t \<Longrightarrow> decided (es @ es') d t"
  by (auto simp: decided_def)

lemma decided_grows: "grows g g' \<Longrightarrow> decided (g_evidence g) d t \<Longrightarrow> decided (g_evidence g') d t"
  using decided_append by (auto simp: grows_def)

text \<open>The decision of a waiting order is written, and stamped before it may execute.\<close>

definition awaited :: "evidence list \<Rightarrow> pending_order \<Rightarrow> bool" where
  "awaited es pd \<longleftrightarrow> (\<exists>t. decided es (pd_decision_id pd) t \<and> epoch_milliseconds t = Inr (pd_decision_ts pd))"

definition traced :: "'x engine \<Rightarrow> bool" where
  "traced g \<longleftrightarrow> informed (g_evidence g) \<and> records_quiet g"

definition traces :: "'x engine \<Rightarrow> 'x engine \<Rightarrow> bool" where
  "traces g g' \<longleftrightarrow> (traced g \<longrightarrow> traced g') \<and> grows g g'"

interpretation tracing: step_order traces
proof
  show "traces g g" for g :: "'a engine" by (simp add: traces_def append_only.reflexive)
  show "traces g i" if "traces g h" "traces h i" for g h i :: "'a engine"
    using that append_only.transitive [of g h i] by (auto simp: traces_def)
qed

lemma awaited_traces: "traces g g' \<Longrightarrow> awaited (g_evidence g) pd \<Longrightarrow> awaited (g_evidence g') pd"
  unfolding traces_def awaited_def by (blast intro: decided_grows)

lemma silent_traces: "silent g g' \<Longrightarrow> traces g g'"
  using informed_quiet silent_grows [of g g'] by (auto simp: silent_def traces_def traced_def)

lemma silent_steps_trace: "steps silent m \<Longrightarrow> steps traces m"
  by (auto simp: steps_def wp_def dest: silent_traces)

lemmas silent_tracing = silent_steps [THEN silent_steps_trace]

text \<open>A fill of a written decision that is older than the fill.\<close>

lemma apply_fill_traces:
  assumes m: "engine_apply_fill cfg f d sig c g = (g', Inr ())"
    and d: "\<And>i. d = Some i \<Longrightarrow> \<exists>t. decided (g_evidence g) i t \<and> t < f_timestamp f"
  shows "traces g g'"
proof -
  have "traced g'" if t: "traced g"
  proof -
    obtain r es where r: "g_evidence g' = g_evidence g @ EXECUTION_ROW r # es" "list_all quiet_row es"
      "ex_fill r = f" "ex_decision_id r = d" "records_quiet g'"
      using engine_apply_fill_rows [OF m] t by (auto simp: traced_def)
    have "informed (g_evidence g @ [EXECUTION_ROW r])"
      using t d r(3,4) by (auto simp: informed_snoc traced_def)
    then have "informed ((g_evidence g @ [EXECUTION_ROW r]) @ es)" using informed_quiet [OF r(2)] by blast
    then show ?thesis using r(1,5) by (simp add: traced_def)
  qed
  then show ?thesis using stepsD [OF engine_apply_fill_grows m] by (simp add: traces_def)
qed

lemma forced_exit_decided:
  "forced_exit_row cfg d t p planned \<in> set es \<Longrightarrow> decided es d t"
  by (force simp: forced_exit_row_def decided_def)

lemma fill_order_time: "fill_order ord ref q time cm gap trunc why = Inr (ord', f) \<Longrightarrow> f_timestamp f = time"
  unfolding fill_order_def Let_def bindR_eq_Inr case_prod_beta
  by (auto simp: make_fill_def bindR_eq_Inr)

lemma liquidation_fill_time: "liquidation_fill p price t cm = Inr f \<Longrightarrow> f_timestamp f = t"
  by (auto simp: liquidation_fill_def bindR_eq_Inr dest: fill_order_time)

lemma triggers_time:
  assumes "resolve_triggers p [c] cm stop tp entry = Inr (Some f)"
  shows "f_timestamp f = c_close_time c"
proof -
  have "resolve_candles p [c] cm stop tp entry = Inr (Some f)" using assms by (simp add: resolve_triggers_def)
  from resolve_candles_some [OF this] show ?thesis by (auto simp: Cons_eq_append_conv dest: fill_order_time)
qed

subsection \<open>The methods of a candle\<close>

lemma apply_fill_decided_traces:
  assumes s: "silent g h" and d: "decided (g_evidence h) i t" "t < f_timestamp f"
    and m: "engine_apply_fill cfg f (Some i) sig c h = (g', Inr ())"
  shows "traces g g'"
  using silent_traces [OF s] by (rule tracing.transitive) (rule apply_fill_traces [OF m], use d in auto)

lemma funding_liquidation_traces: "steps traces (funding_liquidation cfg p b price)"
proof (rule stepsI, rule wpI)
  fix g g' :: "'a engine" and u
  assume "funding_liquidation cfg p b price g = (g', Inr u)"
  then have "funding_liquidation cfg p b price g = (g', Inr ())" by simp
  then show "traces g g'"
  proof (rule funding_liquidation_elim)
    fix d f h
    assume "silent g h" "g_evidence h = g_evidence g @ [forced_exit_row cfg d b p (b + millisecond)]"
      "liquidation_fill p price (b + millisecond) (ec_costs cfg) = Inr f"
      "engine_apply_fill cfg f (Some d) None None h = (g', Inr ())"
    then show "traces g g'"
      by (intro apply_fill_decided_traces [of g h d b f]) (auto simp: millisecond_def
          intro: forced_exit_decided dest: liquidation_fill_time)
  qed
qed

lemma settle_position_traces:
  assumes m: "settle_position cfg b p a g = (g', Inr ())" and a: "g_active g = Some a"
  shows "traces g g'"
proof -
  obtain g1 rate source bk p1 fr total_funding row i h price cost mmr where
    r: "funding_rate_at cfg p b g = (g1, Inr (rate, source))"
    and "apply_funding (g_book g1) p cost mmr = Inr (bk, p1, fr)"
    and h: "h = g1\<lparr>g_book := bk, g_sequence := (g_sequence g1)(''settlement'' := i),
        g_active := Some (a\<lparr>at_funding := total_funding, at_settled_boundaries := b # at_settled_boundaries a,
          at_funding_records := at_funding_records a @ [FUNDING_ROW row]\<rparr>)\<rparr>"
    and rest: "(if fr_exhausted fr then funding_liquidation cfg p1 b price else liftS (Inr ())) h = (g', Inr ())"
    by (rule settle_position_elim [OF m]) (rule that)
  have s: "silent g g1" by (rule stepsD [OF funding_rate_at_silent r])
  have e: "g_evidence h = g_evidence g1" by (simp add: h)
  have "records_quiet h" if "records_quiet g" using that a by (simp add: h records_quiet_def)
  then have "traces g h" using silent_traces [OF s] e by (simp add: traces_def traced_def grows_def)
  moreover have "steps traces (if fr_exhausted fr then funding_liquidation cfg p1 b price else liftS (Inr ()))"
    by (intro tracing.steps_rules funding_liquidation_traces)
  ultimately show ?thesis using tracing.transitive stepsD rest by metis
qed

lemma settle_at_boundary_traces: "steps traces (settle_at_boundary cfg b)"
proof (rule stepsI, rule wpI)
  fix g g' :: "'a engine" and u
  assume m: "settle_at_boundary cfg b g = (g', Inr u)"
  show "traces g g'"
  proof (cases "ec_market_type cfg \<noteq> FUTURES \<or> \<not> is_boundary b")
    case True
    with m show ?thesis by (auto simp: settle_at_boundary_def returns tracing.reflexive)
  next
    case False
    with m obtain x where
      m: "(case (x, g_active g) of (Some p, Some a) \<Rightarrow>
        if b \<le> f_timestamp (at_entry_fill a) \<or> b \<in> set (at_settled_boundaries a)
        then liftS (Inr ()) else settle_position cfg b p a | _ \<Rightarrow> liftS (Inr ())) g = (g', Inr ())"
      by (auto simp: settle_at_boundary_def returns)
    then show ?thesis using settle_position_traces
      by (cases x; cases "g_active g") (auto simp: returns tracing.reflexive split: if_splits)
  qed
qed

lemma settle_all_traces: "steps traces (settle_all cfg bs)"
  by (induction bs) (auto intro: tracing.steps_rules tracing.steps_at_rules settle_at_boundary_traces)

lemma execute_pending_traces:
  assumes m: "execute_pending cfg c pd g = (g', Inr ())" and w: "awaited (g_evidence g) pd"
  shows "traces g g'"
proof -
  obtain f ts h where h: "silent g h" and ts: "epoch_milliseconds (f_timestamp f) = Inr ts" "pd_decision_ts pd < ts"
    and e: "engine_apply_fill cfg f (Some (pd_decision_id pd)) (pd_signal pd) (pd_candidate_id pd) h = (g', Inr ())"
    by (rule execute_pending_elim [OF m]) (rule that; assumption)
  obtain t where t: "decided (g_evidence g) (pd_decision_id pd) t" "epoch_milliseconds t = Inr (pd_decision_ts pd)"
    using w by (auto simp: awaited_def)
  have "t < f_timestamp f"
    using epoch_milliseconds_mono [OF _ ts(1) t(2)] ts(2) by (cases "f_timestamp f \<le> t") auto
  with h e t decided_grows [OF silent_grows [OF h]] show ?thesis by (blast intro: apply_fill_decided_traces)
qed

lemma execute_all_traces:
  "execute_all cfg c pds g = (g', Inr ()) \<Longrightarrow> list_all (awaited (g_evidence g)) pds \<Longrightarrow> traces g g'"
proof (induction pds arbitrary: g)
  case Nil
  then show ?case by (simp add: returns tracing.reflexive)
next
  case (Cons pd pds)
  then obtain h where h: "execute_pending cfg c pd g = (h, Inr ())" "execute_all cfg c pds h = (g', Inr ())"
    by (auto simp: bindS_Inr)
  have t: "traces g h" using execute_pending_traces [OF h(1)] Cons.prems by simp
  then have "list_all (awaited (g_evidence h)) pds" using Cons.prems(2) awaited_traces [OF t] by (auto simp: list_all_iff)
  from tracing.transitive [OF t Cons.IH [OF h(2) this]] show ?case .
qed

lemma apply_triggers_traces:
  assumes m: "apply_triggers cfg c g = (g', Inr ())" and c: "c_open_time c < c_close_time c"
  shows "traces g g'"
  using m
proof (cases rule: apply_triggers_elim)
  case none
  then show ?thesis by (simp add: tracing.reflexive)
next
  case (exit p f d h)
  show ?thesis
    using apply_fill_decided_traces [OF exit(3) forced_exit_decided [OF exit(4)] _ exit(5)] triggers_time [OF exit(2)] c
    by simp
qed

subsection \<open>The run\<close>

definition chained :: "'x engine \<Rightarrow> bool" where
  "chained g \<longleftrightarrow> traced g \<and> list_all (awaited (g_evidence g)) (g_pending g)"

lemma chained_traces:
  assumes "chained g" and "traces g g'" and "g_pending g' = g_pending g"
  shows "chained g'"
  using assms awaited_traces [OF assms(2)] by (auto simp: chained_def traces_def list_all_iff)

lemma silent_chained:
  assumes "chained g" and "silent g g'"
  shows "chained g'"
  using chained_traces [OF assms(1) silent_traces [OF assms(2)]] assms(2) by (simp add: silent_def ledger_def)

lemma same_evidence_traces:
  "g_evidence g' = g_evidence g \<Longrightarrow> (records_quiet g \<Longrightarrow> records_quiet g') \<Longrightarrow> traces g g'"
  by (simp add: traces_def traced_def grows_def)

lemma step_open_chained:
  assumes ch: "chained g" and m: "step_open cfg c g = (g', Inr ())" and c: "c_open_time c < c_close_time c"
  shows "chained g'" and "g_pending g' = []"
proof -
  obtain h1 h2 bs h3 where s: "settle_at_boundary cfg (c_open_time c) g = (h1, Inr ())"
    and e: "execute_all cfg c (g_pending h1) (h1\<lparr>g_pending := []\<rparr>) = (h2, Inr ())"
    and s': "settle_all cfg bs h2 = (h3, Inr ())" and t: "apply_triggers cfg c h3 = (g', Inr ())"
    using step_open_elim [OF m] .
  have "g_pending h1 = g_pending g" using stepsD [OF settle_at_boundary_stays s] by (simp add: stays_def)
  then have h1: "chained h1" using chained_traces [OF ch stepsD [OF settle_at_boundary_traces s]] by blast
  have "traces h1 (h1\<lparr>g_pending := []\<rparr>)" by (rule same_evidence_traces) (simp_all add: records_quiet_def)
  moreover have "traces (h1\<lparr>g_pending := []\<rparr>) h2"
    by (rule execute_all_traces [OF e]) (use h1 in \<open>simp add: chained_def\<close>)
  moreover have "traces h2 h3" by (rule stepsD [OF settle_all_traces s'])
  moreover have "traces h3 g'" by (rule apply_triggers_traces [OF t c])
  ultimately have "traces h1 g'" by (blast intro: tracing.transitive)
  moreover show p: "g_pending g' = []"
    using stepsD [OF execute_all_stays e] stepsD [OF settle_all_stays s'] stepsD [OF apply_triggers_stays t]
    by (simp add: stays_def)
  ultimately show "chained g'" using h1 by (simp add: chained_def traces_def)
qed

lemma mark_position_traces: "steps traces (mark_position cfg c mark)"
  unfolding mark_position_def
  by (intro tracing.steps_rules silent_tracing tracing.steps_modify same_evidence_traces)
    (simp_all add: records_quiet_def)

lemma portfolio_traces:
  assumes "g_evidence g' = g_evidence g @ [PORTFOLIO_ROW r]" and "g_active g' = g_active g"
  shows "traces g g'"
  using assms by (auto simp: traces_def traced_def grows_def informed_snoc records_quiet_def)

lemma mark_grid_traces:
  assumes m: "mark_grid cfg c g = (g', Inr ())"
  shows "traces g g'"
proof -
  obtain mark p h r h' where mp: "mark_position cfg c mark g = (h, Inr p)" and s: "silent h h'"
    and r: "g_evidence g' = g_evidence h' @ [PORTFOLIO_ROW r]" "g_active g' = g_active h'"
    by (rule mark_grid_elim [OF m])
  have "traces g h'" using tracing.transitive [OF stepsD [OF mark_position_traces mp] silent_traces [OF s]] .
  then show ?thesis using portfolio_traces [OF r] by (rule tracing.transitive)
qed

lemma step_close_chained:
  assumes ch: "chained g" and m: "step_close cfg c g = (g', Inr ())"
  shows "chained g'"
proof -
  obtain h h' where s: "silent g h" and mg: "mark_grid cfg c h = (h', Inr ())"
    and q: "silent h' g' \<or> (\<exists>p. current_position cfg h' = Inr p \<and> queues c p h' g')"
    by (rule step_close_elim [OF m])
  have "chained h" by (rule silent_chained [OF ch s])
  then have h': "chained h'"
    using chained_traces [OF _ mark_grid_traces [OF mg]] stepsD [OF mark_grid_stays mg] by (simp add: stays_def)
  from q consider (quiet) "silent h' g'"
    | (queue) p i pds where "silent h' i" "g' = i\<lparr>g_pending := g_pending i @ pds\<rparr>" "queued c p (g_evidence i) pds"
    unfolding queues_def by blast
  then show ?thesis
  proof cases
    case quiet
    then show ?thesis using silent_chained [OF h'] by blast
  next
    case (queue p i pds)
    from queue(3) obtain d where d: "decided (g_evidence i) d (c_close_time c)" "list_all (stamped c d) pds"
      unfolding queued_def by blast
    have "list_all (awaited (g_evidence i)) pds"
      using d by (auto simp: list_all_iff awaited_def stamped_def)
    then show ?thesis
      using silent_chained [OF h' queue(1)] queue(2) by (simp add: chained_def traced_def records_quiet_def)
  qed
qed

lemma step_candle_chained:
  assumes ch: "chained g" and m: "step_candle cfg c g = (g', Inr ())" and c: "c_open_time c < c_close_time c"
  shows "chained g'"
proof -
  obtain h1 h2 h3 where s: "silent g h1" "silent h2 h3" and o: "step_open cfg c h1 = (h2, Inr ())"
    and cl: "step_close cfg c h3 = (g', Inr ())"
    by (rule step_candle_elim [OF m])
  have "chained h2" by (rule step_open_chained(1) [OF silent_chained [OF ch s(1)] o c])
  from step_close_chained [OF silent_chained [OF this s(2)] cl] show ?thesis .
qed

lemma terminal_exit_later:
  assumes m: "terminal_exit cfg timing c p reason g = (g', Inr f)"
  shows "silent g g'" and "c_close_time c < f_timestamp f"
proof -
  from m obtain terminal request g1 f0 where
    b: "on_broker (bt_configure_execution timing \<lparr>xc_decision_candle = c, xc_history = [c, terminal],
        xc_risk_budget = None, xc_available_margin = Some (g_cash g), xc_leverage = p_leverage p\<rparr>) g = (g1, Inr ())"
    and s: "on_broker (bt_submit (ec_costs cfg) request) g1 = (g', Inr f0)"
    and f: "make_fill (f0\<lparr>f_exit_reason := Some reason\<rparr>) = Inr f"
    by (auto simp: terminal_exit_def returns bindS_Inr [of "\<lambda>g. on_broker (k g) g" for k]
        bindS_Inr [of "on_broker k" for k])
  note bf = broker_fill [OF b s]
  have "f = f0\<lparr>f_exit_reason := Some reason\<rparr>" by (rule slip_fill_reason [OF f bf(2)])
  then show "silent g g'" "c_close_time c < f_timestamp f" using bf(1,8) by simp_all
qed

lemma gap_chained:
  assumes ch: "chained g" and m: "close_at_data_gap cfg c g = (g', Inr ())"
  shows "chained g'"
proof -
  from m obtain x where none: "g_pending g = []"
    and r: "case x of None \<Rightarrow> g' = g | Some q \<Rightarrow> gap_exit cfg c q g = (g', Inr ())"
    using close_at_data_gap_returns by metis
  show ?thesis
  proof (cases x)
    case None
    then show ?thesis using r ch by simp
  next
    case (Some p)
    with r have "gap_exit cfg c p g = (g', Inr ())" by simp
    then obtain d f h h1 h2 where exit: "silent g h"
      "forced_exit_row cfg d (c_close_time c) p (c_close_time c + millisecond) \<in> set (g_evidence h)"
      "terminal_exit cfg (ec_fill_timing cfg) c p DATA_GAP h = (h1, Inr f)"
      "engine_apply_fill cfg f (Some d) None None h1 = (h2, Inr ())" "silent h2 g'"
      by (rule gap_exit_elim)
    note t = terminal_exit_later [OF exit(3)]
    have s: "silent g h1" by (rule quiet.transitive [OF exit(1) t(1)])
    have d: "decided (g_evidence h1) d (c_close_time c)"
      by (rule decided_grows [OF silent_grows [OF t(1)] forced_exit_decided [OF exit(2)]])
    have "traces g h2" by (rule apply_fill_decided_traces [OF s d t(2) exit(4)])
    moreover have "g_pending h2 = g_pending g"
      using s stepsD [OF engine_apply_fill_stays exit(4)] by (simp add: silent_def ledger_def stays_def)
    ultimately have "chained h2" by (rule chained_traces [OF ch])
    then show ?thesis by (rule silent_chained) (rule exit(5))
  qed
qed

interpretation chain: loop_invariant cfg chained "\<lambda>_. True" "\<lambda>c. c_open_time c < c_close_time c" for cfg
  by unfold_locales (auto intro: step_candle_chained gap_chained silent_chained)

lemma close_at_end_traces:
  assumes m: "close_at_end cfg g = (g', Inr e)"
  shows "traces g g'"
proof -
  obtain c p h ts where
    x: "(case p of None \<Rightarrow> liftS (Inr ())
         | Some q \<Rightarrow> bindS (terminal_exit cfg NextBar c q END_OF_DATA) (\<lambda>f. engine_apply_fill cfg f None None None)) g
      = (h, Inr ())"
    and t: "terminal_equity cfg ts e (h\<lparr>g_equity_curve := g_equity_curve h @ [(ts, e)]\<rparr>) = (g', Inr ())"
    by (rule close_at_end_elim [OF m])
  have gh: "traces g h"
  proof (cases p)
    case None
    then show ?thesis using x by (simp add: returns tracing.reflexive)
  next
    case (Some q)
    with x obtain g1 f where t: "terminal_exit cfg NextBar c q END_OF_DATA g = (g1, Inr f)"
      and ap: "engine_apply_fill cfg f None None None g1 = (h, Inr ())"
      by (auto simp: bindS_Inr)
    show ?thesis
      using silent_traces [OF terminal_exit_later(1) [OF t]] by (rule tracing.transitive) (rule apply_fill_traces [OF ap]; simp)
  qed
  let ?h = "h\<lparr>g_equity_curve := g_equity_curve h @ [(ts, e)]\<rparr>"
  obtain r where "g_evidence g' = g_evidence ?h @ [PORTFOLIO_ROW r]" "g_active g' = g_active ?h"
    by (rule terminal_equity_elim [OF t])
  then have "traces h g'" by (intro portfolio_traces) simp_all
  with gh show ?thesis by (rule tracing.transitive)
qed

lemma run_candles_informed:
  assumes m: "run_candles cfg cs g = (g', Inr e)" and ch: "chained g"
    and c: "list_all (\<lambda>c. c_open_time c < c_close_time c) cs"
  shows "informed (g_evidence g')"
proof -
  from m obtain h where l: "candle_loop cfg cs g = (h, Inr ())" and e: "close_at_end cfg h = (g', Inr e)"
    by (auto simp: run_candles_def bind_lift_returns bindS_Inr [of "candle_loop cfg cs"])
  have "chained h" using chain.loop_keeps [OF l ch] c by simp
  then show ?thesis using close_at_end_traces [OF e] by (simp add: chained_def traces_def traced_def)
qed

lemma initial_chained: "initial_engine cap x feats preload rates clock = Inr g \<Longrightarrow> chained g"
  by (auto simp: initial_engine_def bindR_eq_Inr chained_def traced_def records_quiet_def informed_nil)

end
