(* ===== verification/EnginePortfolio.thy ===== *)
theory EnginePortfolio
  imports EngineTrace
begin

section \<open>The portfolio rows\<close>

text \<open>
  Only the mark of a candle and the end of the data write a portfolio row, and in each the total
  is the cash plus the value of the position, the cash is not negative and the peak is at least the
  total.
\<close>

subsection \<open>Methods that write no portfolio row\<close>

locale execution_filter = row_filter P for P :: "evidence \<Rightarrow> bool" +
  assumes execution: "P (EXECUTION_ROW r)"
begin

lemma execution_evidence_adds: "steps (adds P) (execution_evidence f d)"
  unfolding execution_evidence_def by (intro add_rules record_row_adds execution)

lemma engine_apply_fill_adds: "steps (adds P) (engine_apply_fill cfg f d sig c)"
  unfolding engine_apply_fill_def
  by (intro add_rules execution_evidence_adds apply_exit_adds apply_entry_adds)

lemma decided_fill_adds:
  "silent g h \<Longrightarrow> engine_apply_fill cfg f d sig c h = (g', Inr ()) \<Longrightarrow> adds P g g'"
  using adding.transitive [OF silent_adds stepsD [OF engine_apply_fill_adds]] by blast

lemma funding_liquidation_adds: "steps (adds P) (funding_liquidation cfg p b price)"
  unfolding funding_liquidation_def
  by (intro add_rules record_row_adds quiet engine_apply_fill_adds) simp

lemma settle_position_adds:
  assumes m: "settle_position cfg b p a g = (g', Inr ())" and a: "g_active g = Some a"
  shows "adds P g g'"
proof -
  obtain g1 rate source bk p1 fr total_funding row i h price cost mmr where
    r: "funding_rate_at cfg p b g = (g1, Inr (rate, source))"
    and "apply_funding (g_book g1) p cost mmr = Inr (bk, p1, fr)"
    and h: "h = g1\<lparr>g_book := bk, g_sequence := (g_sequence g1)(''settlement'' := i),
        g_active := Some (a\<lparr>at_funding := total_funding, at_settled_boundaries := b # at_settled_boundaries a,
          at_funding_records := at_funding_records a @ [FUNDING_ROW row]\<rparr>)\<rparr>"
    and rest: "(if fr_exhausted fr then funding_liquidation cfg p1 b price else liftS (Inr ())) h = (g', Inr ())"
    by (rule settle_position_elim [OF m]) (rule that)
  have s: "adds P g g1" by (rule silent_adds [OF stepsD [OF funding_rate_at_silent r]])
  have e: "g_evidence h = g_evidence g1" by (simp add: h)
  have "records_quiet h" if "records_quiet g" using that a by (simp add: h records_quiet_def)
  then have "adds P g h" using s e by (simp add: adds_def)
  moreover have "steps (adds P) (if fr_exhausted fr then funding_liquidation cfg p1 b price else liftS (Inr ()))"
    by (intro add_rules funding_liquidation_adds)
  ultimately show ?thesis using adding.transitive stepsD rest by metis
qed

lemma settle_at_boundary_adds: "steps (adds P) (settle_at_boundary cfg b)"
proof (rule stepsI, rule wpI)
  fix g g' :: "'a engine" and u
  assume m: "settle_at_boundary cfg b g = (g', Inr u)"
  show "adds P g g'"
  proof (cases "ec_market_type cfg \<noteq> FUTURES \<or> \<not> is_boundary b")
    case True
    with m show ?thesis by (auto simp: settle_at_boundary_def returns adding.reflexive)
  next
    case False
    with m obtain x where
      m: "(case (x, g_active g) of (Some p, Some a) \<Rightarrow>
        if b \<le> f_timestamp (at_entry_fill a) \<or> b \<in> set (at_settled_boundaries a)
        then liftS (Inr ()) else settle_position cfg b p a | _ \<Rightarrow> liftS (Inr ())) g = (g', Inr ())"
      by (auto simp: settle_at_boundary_def returns)
    then show ?thesis using settle_position_adds
      by (cases x; cases "g_active g") (auto simp: returns adding.reflexive split: if_splits)
  qed
qed

lemma settle_all_adds: "steps (adds P) (settle_all cfg bs)"
  by (induction bs) (auto intro: adding.steps_rules adding.steps_at_rules settle_at_boundary_adds)

lemma execute_pending_adds: "steps (adds P) (execute_pending cfg c pd)"
  unfolding execute_pending_def by (intro add_rules engine_apply_fill_adds)

lemma execute_all_adds: "steps (adds P) (execute_all cfg c pds)"
  by (induction pds) (auto intro: adding.steps_rules adding.steps_at_rules execute_pending_adds)

lemma apply_triggers_adds:
  assumes "apply_triggers cfg c g = (g', Inr ())"
  shows "adds P g g'"
  using assms
proof (cases rule: apply_triggers_elim)
  case none
  then show ?thesis by (simp add: adding.reflexive)
next
  case (exit p f d h)
  show ?thesis by (rule decided_fill_adds [OF exit(3,5)])
qed

lemma step_open_adds:
  assumes m: "step_open cfg c g = (g', Inr ())"
  shows "adds P g g'"
proof -
  obtain h1 h2 bs h3 where s: "settle_at_boundary cfg (c_open_time c) g = (h1, Inr ())"
    and e: "execute_all cfg c (g_pending h1) (h1\<lparr>g_pending := []\<rparr>) = (h2, Inr ())"
    and s': "settle_all cfg bs h2 = (h3, Inr ())" and t: "apply_triggers cfg c h3 = (g', Inr ())"
    using step_open_elim [OF m] .
  have "adds P h1 (h1\<lparr>g_pending := []\<rparr>)" by (simp add: adds_def records_quiet_def)
  then show ?thesis
    using stepsD [OF settle_at_boundary_adds s] stepsD [OF execute_all_adds e] stepsD [OF settle_all_adds s']
      apply_triggers_adds [OF t] by (blast intro: adding.transitive)
qed

lemma close_at_data_gap_adds:
  assumes m: "close_at_data_gap cfg c g = (g', Inr ())"
  shows "adds P g g'"
proof -
  from m obtain x where r: "case x of None \<Rightarrow> g' = g | Some q \<Rightarrow> gap_exit cfg c q g = (g', Inr ())"
    using close_at_data_gap_returns by metis
  show ?thesis
  proof (cases x)
    case None
    then show ?thesis using r adding.reflexive by simp
  next
    case (Some p)
    with r have "gap_exit cfg c p g = (g', Inr ())" by simp
    then obtain d f h h1 h2 where exit: "silent g h" "terminal_exit cfg (ec_fill_timing cfg) c p DATA_GAP h = (h1, Inr f)"
      "engine_apply_fill cfg f (Some d) None None h1 = (h2, Inr ())" "silent h2 g'"
      by (rule gap_exit_elim)
    have "silent g h1" by (rule quiet.transitive [OF exit(1) terminal_exit_later(1) [OF exit(2)]])
    then have "adds P g h2" by (rule decided_fill_adds [OF _ exit(3)])
    then show ?thesis using silent_adds [OF exit(4)] by (rule adding.transitive)
  qed
qed

lemma mark_position_adds: "steps (adds P) (mark_position cfg c mark)"
  unfolding mark_position_def by (intro add_rules modify_adds) (simp_all add: records_quiet_def)

end

fun unpriced :: "evidence \<Rightarrow> bool" where
  "unpriced (PORTFOLIO_ROW _) = False"
| "unpriced _ = True"

interpretation unpriced: execution_filter unpriced
proof
  show "unpriced e" if "quiet_row e" for e using that by (cases e) simp_all
qed simp

subsection \<open>What a portfolio row holds\<close>

definition priced :: "equity_row \<Rightarrow> bool" where
  "priced r \<longleftrightarrow> 0 \<le> eq_cash r \<and> eq_total r = eq_cash r + eq_position_value r \<and> eq_total r \<le> eq_peak r"

definition prices :: "'x engine \<Rightarrow> bool" where
  "prices g \<longleftrightarrow> records_quiet g \<and> (\<forall>r. PORTFOLIO_ROW r \<in> set (g_evidence g) \<longrightarrow> priced r)"

lemma prices_adds: "prices g \<Longrightarrow> adds unpriced g g' \<Longrightarrow> prices g'"
  by (fastforce simp: prices_def adds_def list_all_iff)

lemma prices_silent: "prices g \<Longrightarrow> silent g g' \<Longrightarrow> prices g'"
  by (rule prices_adds [OF _ unpriced.silent_adds])

lemma priced_recompute:
  assumes "recompute c p = Inr eq" and "position_value p = Inr v" and "is_q8 c"
  shows "eq = c + v"
proof -
  have "is_q8 v" using assms(2) by (auto simp: position_value_def split: option.splits if_splits dest: quantize_is_q8)
  then show ?thesis using assms quantize_add [OF assms(3)] by (auto simp: recompute_def)
qed

lemma equity_peak_ge: "v \<in> snd ` set curve \<Longrightarrow> v \<le> equity_peak curve d"
proof -
  have "a \<le> fold max vs b \<longleftrightarrow> a \<le> b \<or> (\<exists>w \<in> set vs. a \<le> w)" for a b :: decimal and vs
    by (induction vs arbitrary: b) (auto simp: le_max_iff_disj)
  then show "v \<in> snd ` set curve \<Longrightarrow> v \<le> equity_peak curve d"
    by (cases curve) (auto simp: equity_peak_def)
qed

lemma mark_grid_prices:
  assumes acc: "accounts cfg cap g" and pr: "prices g" and m: "mark_grid cfg c g = (g', Inr ())"
  shows "prices g'"
proof -
  obtain mark p h v eq r h' where mp: "mark_position cfg c mark g = (h, Inr p)" and pv: "position_value p = Inr v"
    and eq: "recompute (g_cash h) p = Inr eq" and s: "silent h h'"
    and e: "g_evidence g' = g_evidence h' @ [PORTFOLIO_ROW r]" "g_active g' = g_active h'"
    and r: "eq_cash r = g_cash h" "eq_position_value r = v" "eq_total r = eq" "eq_total r \<le> eq_peak r"
    by (rule mark_grid_elim [OF m])
  have "accounts cfg cap h" using mark_position_keeps(1) [OF acc mp] by (simp add: keeps_def)
  then have "is_q8 (g_cash h)" "0 \<le> g_cash h" by (simp_all add: accounts_def)
  then have "priced r" using priced_recompute [OF eq pv] r by (simp add: priced_def)
  moreover have "prices h'"
    using prices_silent [OF prices_adds [OF pr stepsD [OF unpriced.mark_position_adds mp]] s] .
  ultimately show ?thesis using e by (auto simp: prices_def records_quiet_def)
qed

definition marked :: "'x run_setup \<Rightarrow> decimal \<Rightarrow> 'x engine \<Rightarrow> bool" where
  "marked cfg cap g \<longleftrightarrow> balanced cfg cap g \<and> prices g"

lemma step_candle_marked:
  assumes b: "marked cfg cap g" and m: "step_candle cfg c g = (g', Inr ())" and modest: "modest g'"
  shows "marked cfg cap g'"
proof -
  obtain h1 h2 h3 where s: "silent g h1" "silent h2 h3" and o: "step_open cfg c h1 = (h2, Inr ())"
    and cl: "step_close cfg c h3 = (g', Inr ())"
    by (rule step_candle_elim [OF m])
  obtain i i' where u: "silent h3 i" and mg: "mark_grid cfg c i = (i', Inr ())"
    and q: "silent i' g' \<or> (\<exists>p. current_position cfg i' = Inr p \<and> queues c p i' g')"
    by (rule step_close_elim [OF cl])
  have "modest h3" using modest_grows [OF stepsD [OF step_close_grows cl] modest] .
  then have m2: "modest h2" by (rule modest_grows [OF silent_grows [OF s(2)]])
  have "balanced cfg cap h1" by (rule balanced_silent [OF _ s(1)]) (use b in \<open>simp add: marked_def\<close>)
  then have "accounts cfg cap h2" using step_open_accounts [OF _ _ o m2, of cap] by (simp add: balanced_def)
  then have "keeps cfg cap h2 i" using keeps_still [OF silent_still [OF quiet.transitive [OF s(2) u]]] by blast
  then have acc: "accounts cfg cap i" by (simp add: keeps_def)
  have "prices i"
    using b prices_silent [OF _ s(1)] prices_adds [OF _ unpriced.step_open_adds [OF o]]
      prices_silent [OF _ quiet.transitive [OF s(2) u]] by (simp add: marked_def)
  then have p: "prices i'" by (rule mark_grid_prices [OF acc _ mg])
  have "prices g'"
  proof -
    from q consider "silent i' g'" | k pds where "silent i' k" "g' = k\<lparr>g_pending := g_pending k @ pds\<rparr>"
      unfolding queues_def by blast
    then show ?thesis using prices_silent [OF p] by cases (auto simp: prices_def records_quiet_def)
  qed
  then show ?thesis using step_candle_balanced [OF _ m modest] b by (simp add: marked_def)
qed

interpretation marking: loop_invariant cfg "marked cfg cap" modest "\<lambda>_. True" for cfg cap
proof
  show "modest g' \<Longrightarrow> modest g" if "grows g g'" for g g' :: "'a engine" by (rule modest_grows [OF that])
  show "marked cfg cap g'" if "marked cfg cap g" "step_candle cfg c g = (g', Inr ())" "modest g'" for c g g'
    by (rule step_candle_marked [OF that])
  show "marked cfg cap g'" if "marked cfg cap g" "close_at_data_gap cfg c g = (g', Inr ())" for c g g'
    using that balance.gap [OF _ that(2)] prices_adds [OF _ unpriced.close_at_data_gap_adds [OF that(2)]]
    by (simp add: marked_def)
  show "marked cfg cap g'" if "marked cfg cap g" "silent g g'" for g g'
    using that balanced_silent [OF _ that(2)] prices_silent [OF _ that(2)] by (simp add: marked_def)
qed

lemma close_at_end_prices:
  assumes acc: "accounts cfg cap g" and pr: "prices g" and m: "close_at_end cfg g = (g', Inr e)"
  shows "prices g'"
proof -
  obtain c p h ts where x: "(case p of None \<Rightarrow> liftS (Inr ())
         | Some q \<Rightarrow> bindS (terminal_exit cfg NextBar c q END_OF_DATA) (\<lambda>f. engine_apply_fill cfg f None None None)) g
      = (h, Inr ())"
    and e: "current_equity cfg h = Inr e"
    and t: "terminal_equity cfg ts e (h\<lparr>g_equity_curve := g_equity_curve h @ [(ts, e)]\<rparr>) = (g', Inr ())"
    by (rule close_at_end_elim [OF m])
  have "adds unpriced g h"
  proof (cases p)
    case None
    then show ?thesis using x by (simp add: returns adding.reflexive)
  next
    case (Some q)
    with x obtain g1 f where t: "terminal_exit cfg NextBar c q END_OF_DATA g = (g1, Inr f)"
      and ap: "engine_apply_fill cfg f None None None g1 = (h, Inr ())"
      by (auto simp: bindS_Inr)
    show ?thesis by (rule unpriced.decided_fill_adds [OF terminal_exit_later(1) [OF t] ap])
  qed
  then have ph: "prices h" by (rule prices_adds [OF pr])
  let ?h = "h\<lparr>g_equity_curve := g_equity_curve h @ [(ts, e)]\<rparr>"
  obtain p v r where v: "current_position cfg ?h = Inr p" "position_value p = Inr v" and s: "still ?h g'"
    and r: "g_evidence g' = g_evidence ?h @ [PORTFOLIO_ROW r]" "eq_cash r = g_cash ?h" "eq_position_value r = v"
      "eq_total r = e" "eq_peak r = equity_peak (g_equity_curve ?h) e" "g_active g' = g_active ?h"
    by (rule terminal_equity_elim [OF t])
  have c: "g_cash g' = g_cash h" using s by (simp add: still_def ledger_def)
  have "accounts cfg cap g'" by (rule close_at_end_accounts(1) [OF acc m])
  then have q8: "is_q8 (g_cash h)" "0 \<le> g_cash h" using c by (simp_all add: accounts_def)
  have "current_position cfg h = Inr p" using v(1) by (simp add: current_position_def)
  then have "recompute (g_cash h) p = Inr e" using e by (simp add: current_equity_def)
  then have "e = g_cash h + v" by (rule priced_recompute [OF _ v(2) q8(1)])
  moreover have "e \<le> equity_peak (g_equity_curve ?h) e" by (rule equity_peak_ge) simp
  ultimately have "priced r" using r q8(2) by (simp add: priced_def)
  then show ?thesis using ph r(1,6) by (auto simp: prices_def records_quiet_def)
qed

lemma run_candles_prices:
  assumes b: "balanced cfg cap g" and pr: "prices g" and m: "run_candles cfg cs g = (g', Inr e)" and modest: "modest g'"
  shows "prices g'"
proof -
  from m obtain h where l: "candle_loop cfg cs g = (h, Inr ())" and c: "close_at_end cfg h = (g', Inr e)"
    by (auto simp: run_candles_def bind_lift_returns bindS_Inr [of "candle_loop cfg cs"])
  have "modest h" using modest_grows [OF stepsD [OF close_at_end_grows c] modest] .
  then have "marked cfg cap h" using marking.loop_keeps [OF l, of cap] b pr by (simp add: marked_def list_all_iff)
  then show ?thesis using close_at_end_prices [OF _ _ c, of cap] by (simp add: marked_def balanced_def)
qed

lemma initial_prices: "initial_engine cap x feats preload rates clock = Inr g \<Longrightarrow> prices g"
  by (auto simp: initial_engine_def bindR_eq_Inr prices_def records_quiet_def)

end
