(* ===== verification/EngineSamples.thy ===== *)
theory EngineSamples
  imports EnginePortfolio Literals
begin

section \<open>Concrete instances\<close>

text \<open>
  A run of the backtest engine over two one-minute candles, evaluated method by method: the
  strategy buys two units on the first candle, the order fills at the open of the second, and
  the end of the data closes the position.
\<close>

definition bar_1 :: candle where
  "bar_1 = \<lparr>c_symbol = ''BTCUSDT'', c_exchange = ''binance'', c_timeframe = ''1m'', c_open_time = 124000,
     c_close_time = 60124000, c_open = Fin 99, c_high = Fin 101, c_low = Fin 98, c_close = Fin 100,
     c_volume = Fin 5, c_quote_volume = None, c_trade_count = None\<rparr>"

definition bar_2 :: candle where
  "bar_2 = bar_1\<lparr>c_open_time := 60124000, c_close_time := 120124000, c_open := Fin 100,
     c_high := Fin 104, c_low := Fin 95, c_close := Fin 102\<rparr>"

definition long_signal :: trading_signal where
  "long_signal = \<lparr>s_symbol = ''BTCUSDT'', s_timestamp = 60124000, s_confidence = Fin 1, s_price = Fin 100,
     s_stop_loss = Some (Fin 75), s_take_profit = None, s_market_type = FUTURES, s_leverage = Some 10,
     s_reason = ''breakout'', s_metadata = Map.empty\<rparr>"

definition engine_setup :: "unit run_setup" where
  "engine_setup = \<lparr>ec_symbol = ''BTCUSDT'', ec_timeframe = ''1m'', ec_market_type = FUTURES,
     ec_sizing_method = ''wallet_pct'', ec_risk_per_trade = None, ec_position_size_pct = Some (Fin (1 / 64)),
     ec_fill_timing = NextBar, ec_trigger_feed = ''tf_candle'', ec_strategy_id = ''s'', ec_strategy_name = ''s'',
     ec_run_id = ''r'', ec_decision_contract = False, ec_declared_settings = [], ec_history = [bar_1, bar_2],
     ec_minute_history = [], ec_costs = default_paper_model, ec_policy = None, ec_turtle_n = [],
     ec_float_text = (\<lambda>_. []), ec_funding = (\<lambda>_ _. Inr None),
     ec_update_indicators = (\<lambda>_ x f. Inr (x, f)),
     ec_analyze = (\<lambda>i p x. (x, Inr (if c_open_time (in_candle i) = 124000 then SignalResult long_signal else NoDecision)))\<rparr>"

definition bar_clock :: "nat \<Rightarrow> clock" where
  "bar_clock i = \<lparr>ck_schedule = [124000, 60124000, 120124000], ck_index = i\<rparr>"

definition engine_0 :: "unit engine" where
  "engine_0 = \<lparr>g_clock = bar_clock 0, g_broker = \<lparr>bb_execution = None, bb_next_sequence = 1\<rparr>, g_external = (),
       g_pending = [], g_confirmed = [], g_indicators = [], g_rates = [], g_book = Map.empty,
       g_cash = 12800, g_equity_curve = [], g_trades = [], g_active = None, g_stop_price = None,
       g_take_profit_price = None, g_last_candle = None, g_data_gap_exits = 0, g_sequence = (\<lambda>_. 0),
       g_evidence = []\<rparr>"

lemma engine_0_built: "initial_engine 12800 () [] [] [] (bar_clock 0) = Inr engine_0"
  by (simp add: initial_engine_def checked_cash_def engine_0_def evaluate)

lemma bar_fields [simp]:
  "c_open_time bar_1 = 124000" "c_close_time bar_1 = 60124000" "c_open bar_1 = Fin 99" "c_high bar_1 = Fin 101"
  "c_low bar_1 = Fin 98" "c_close bar_1 = Fin 100" "c_symbol bar_1 = ''BTCUSDT''"
  "c_open_time bar_2 = 60124000" "c_close_time bar_2 = 120124000" "c_open bar_2 = Fin 100" "c_high bar_2 = Fin 104"
  "c_low bar_2 = Fin 95" "c_close bar_2 = Fin 102" "c_symbol bar_2 = ''BTCUSDT''" "bar_1 \<noteq> bar_2" "bar_2 \<noteq> bar_1"
  by (simp_all add: bar_1_def bar_2_def)

lemma setup_fields [simp]:
  "ec_symbol engine_setup = ''BTCUSDT''" "ec_market_type engine_setup = FUTURES" "ec_sizing_method engine_setup = ''wallet_pct''"
  "ec_risk_per_trade engine_setup = None" "ec_position_size_pct engine_setup = Some (Fin (1 / 64))"
  "ec_fill_timing engine_setup = NextBar" "ec_trigger_feed engine_setup = ''tf_candle''"
  "ec_history engine_setup = [bar_1, bar_2]" "ec_costs engine_setup = default_paper_model" "ec_policy engine_setup = None"
  "ec_update_indicators engine_setup c x f = Inr (x, f)" "\<not> ec_decision_contract engine_setup"
  "ec_analyze engine_setup i p x = (x, Inr (if c_open_time (in_candle i) = 124000 then SignalResult long_signal else NoDecision))"
  by (simp_all add: engine_setup_def)

lemma signal_fields [simp]:
  "s_symbol long_signal = ''BTCUSDT''" "s_timestamp long_signal = 60124000" "s_confidence long_signal = Fin 1"
  "s_price long_signal = Fin 100" "s_stop_loss long_signal = Some (Fin 75)" "s_take_profit long_signal = None"
  "s_market_type long_signal = FUTURES" "s_leverage long_signal = Some 10"
  by (simp_all add: long_signal_def)

lemma clock_moves [simp]:
  "clock_now (bar_clock 0) = 124000" "clock_now (bar_clock 1) = 60124000" "clock_now (bar_clock 2) = 120124000"
  "clock_now (bar_clock (Suc 0)) = 60124000"
  "move_clock 124000 (bar_clock 0) = Inr (bar_clock 0)"
  "move_clock 60124000 (bar_clock 0) = Inr (bar_clock 1)"
  "move_clock 60124000 (bar_clock 1) = Inr (bar_clock 1)" "move_clock 60124000 (bar_clock (Suc 0)) = Inr (bar_clock 1)"
  "move_clock 120124000 (bar_clock 1) = Inr (bar_clock 2)" "move_clock 120124000 (bar_clock (Suc 0)) = Inr (bar_clock 2)"
  by (simp_all add: move_clock.simps clock_now_def advance_def bar_clock_def numeral_2_eq_2 bindR_def raise_if_def)

lemma no_boundary [simp]: "\<not> is_boundary 124000" "\<not> is_boundary 60124000" "\<not> is_boundary 120124000"
  by (simp_all add: is_boundary_def utc_second_def utc_minute_def utc_hour_def utc_microsecond_def)

lemma no_boundaries [simp]:
  "boundaries_between 124000 60124000 = Inr []" "boundaries_between 60124000 120124000 = Inr []"
  by (simp_all add: boundaries_between_def raise_if_def boundary_days.simps day_boundaries_def
      day_us_def hour_us_def minute_us_def)

definition decision_ms :: int where
  "decision_ms = (case epoch_milliseconds 60124000 of Inr x \<Rightarrow> x | Inl _ \<Rightarrow> 0)"

lemma decision_ms [simp]: "epoch_milliseconds 60124000 = Inr decision_ms" "decision_ms < 60125"
proof -
  define q r where "q = f64r (15031 / 250)" and "r = f64r (q * 1000)"
  have big: "10 ^ 6 < f64_big" by (simp add: f64_big_def)
  have q: "60 \<le> q" "q \<le> 61567 / 1024"
    using f64r_mono [of 60 "15031 / 250"] f64r_mono [of "15031 / 250" "61567 / 1024"]
    by (simp_all add: q_def f64r_literal)
  have tiny: "f64_tiny \<le> \<bar>q * 1000\<bar>" using q(1) by (simp add: f64_tiny_def)
  have "\<bar>q * 1000\<bar> / 2 ^ 53 \<le> 1 / 2" using q by simp
  then have "\<bar>r - q * 1000\<bar> \<le> 1 / 2" using f64r_error [OF tiny] unfolding r_def by linarith
  moreover have "q * 1000 < 60124 + 1 / 2" using q(2) by simp
  ultimately have r: "60000 \<le> r" "r < 60125"
    using f64r_mono [of 60000 "q * 1000"] q(1) by (simp add: r_def f64r_literal, linarith)
  have "(of_int 60124000 / 1000000 :: rat) = 15031 / 250" by simp
  then have "total_seconds 60124000 = Fin q"
    using q big unfolding total_seconds_def by (simp only:) (simp add: fround_eq_Fin q_def [symmetric])
  moreover have "fmul (Fin q) (Fin 1000) = Fin r"
    using r big by (simp add: fround_eq_Fin r_def [symmetric])
  ultimately have e: "epoch_milliseconds 60124000 = Inr (py_int r)"
    unfolding epoch_milliseconds_def by (simp only:) (simp add: py_trunc_def)
  then show "epoch_milliseconds 60124000 = Inr decision_ms" by (simp add: decision_ms_def)
  have "\<lfloor>r\<rfloor> < 60125" using r(2) by (simp add: floor_less_iff)
  then show "decision_ms < 60125" using e r(1) by (simp add: decision_ms_def py_int_def)
qed

lemma no_risk [simp]: "within_limit [Fin 0] risk_limit_literal = Inr True"
proof -
  define c where "c = f64r (1 / 100)"
  have c: "0 \<le> c" "c \<le> 1"
    using f64r_mono [of "1 / 100" 1] f64r_mono [of 0 "1 / 100"] by (simp_all add: c_def f64r_literal)
  moreover have "1 < f64_big" by (simp add: f64_big_def)
  ultimately have r: "fround (1 / 100) = Fin c" by (simp add: fround_eq_Fin c_def [symmetric])
  have "fle (fround 0) (fround (c + 2 powi ulp_exp c))" using c(1) by (intro fround_mono) simp
  then have "fle (Fin 0) (next_up (Fin c))" using c(1) by simp
  then show ?thesis using c(1)
    by (simp add: within_limit_def risk_limit_literal_def r fsum_def literal raise_if_def bindR_def del: next_up.simps)
qed

lemma fill_ms [simp]: "epoch_milliseconds 60125000 = Inr 60125"
proof -
  have "(of_int 60125000 / 1000000 :: rat) = 481 / 8" by simp
  then have "total_seconds 60125000 = Fin (481 / 8)" unfolding total_seconds_def by (simp only:) (simp add: literal)
  moreover have "fmul (Fin (481 / 8)) (Fin 1000) = Fin 60125" by (simp add: literal)
  ultimately show ?thesis unfolding epoch_milliseconds_def by (simp only:) (simp add: py_trunc_def py_int_def)
qed

definition engine_1 :: "unit engine" where
  "engine_1 = engine_0\<lparr>g_last_candle := Some bar_1\<rparr>"

lemma step_open_1: "step_open engine_setup bar_1 engine_1 = (engine_1, Inr ())"
  by (simp add: step_open_def engine_1_def engine_0_def settle_at_boundary_def bindS_def gets_def modify_def liftS_def
    raise_if_def apply_triggers_def current_position_def book_get_def Let_def)

lemmas step_evaluate = bindS_def gets_def modify_def liftS_def current_position_def book_get_def record_row_def next_id_def
  position_value_def recompute_def float_of_decimal_def raise_if_def Let_def

lemma risk_distance: "\<not> fle (fabs (fsub (Fin 100) (Fin 75))) (Fin 0)"
  by (simp add: fsub_def literal)

definition entry_pending :: pending_order where
  "entry_pending = \<lparr>pd_request = \<lparr>rq_symbol = ''BTCUSDT'', rq_side = BUY, rq_order_type = MARKET,
       rq_quantity = Fin 2, rq_price = Some (Fin 100), rq_stop_price = Some (Fin 75), rq_market_type = FUTURES,
       rq_position_side = LONG, rq_reduce_only = False, rq_close_position = False, rq_time_in_force = ''GTC''\<rparr>,
     pd_decision_id = 1, pd_decision_candle = bar_1, pd_feature_ts = decision_ms, pd_decision_ts = decision_ms,
     pd_exit_reason = None, pd_signal = Some long_signal, pd_candidate_id = Some 1\<rparr>"

definition evidence_1 :: "evidence list" where
  "evidence_1 =
    [POSITION_ROW \<lparr>ps_sequence = 1, ps_ts = 60124000, ps_symbol = ''BTCUSDT'', ps_trade_id = None,
       ps_position = None, ps_mark = 100\<rparr>,
     PORTFOLIO_ROW \<lparr>eq_sequence = 1, eq_ts = 60124000, eq_cash = 12800, eq_position_value = 0, eq_total = 12800,
       eq_unrealized = 0, eq_fee_cum = 0, eq_slippage_cum = 0, eq_funding_cum = 0, eq_peak = 12800,
       eq_drawdown = Fin 0, eq_open_positions = 0\<rparr>,
     SIGNAL_ROW \<lparr>sg_signal_id = 1, sg_candle = bar_1, sg_signal = long_signal, sg_intent = ''enter'',
       sg_side = Some LONG\<rparr>,
     action_row engine_setup 1 1 bar_1 ''enter'' LONG (Fin 2) (Some 60125000) (Some long_signal)
       (Some (fabs (fsub (Fin 100) (Fin 75))))]"

definition counts_1 :: "string \<Rightarrow> nat" where
  "counts_1 = (\<lambda>_. 0)(''position'' := 1, ''equity'' := 1, ''signal'' := 1, ''decision'' := 1, ''candidate'' := 1)"

definition engine_2 :: "unit engine" where
  "engine_2 = engine_1\<lparr>g_clock := bar_clock 1, g_pending := [entry_pending], g_confirmed := [bar_1],
     g_equity_curve := [(60124000, 12800)], g_sequence := counts_1, g_evidence := evidence_1\<rparr>"

lemma step_close_1: "step_close engine_setup bar_1 (engine_1\<lparr>g_clock := bar_clock 1\<rparr>) = (engine_2, Inr ())"
  by (simp add: step_close_def engine_1_def engine_0_def step_evaluate update_indicators_def,
      simp add: mark_grid_def mark_position_def step_evaluate equity_peak_def drawdown_of_def position_evidence_def portfolio_row_def evaluate,
      simp add: engine_analyze_def step_evaluate handle_timely_signal_def,
      simp add: handle_signal_def step_evaluate evaluate derive_intent_def handle_entry_def engine_size_def wallet_pct_size_def within_exposure_def single_market_def correlation_group_def single_direction_def,
      simp add: queue_entry_def step_evaluate entry_request_def make_order_request_def queue_order_def evaluate,
      simp add: engine_2_def engine_1_def engine_0_def entry_pending_def counts_1_def evidence_1_def action_row_def millisecond_def risk_distance)

lemma two_float [simp]: "float_of_decimal 2 = Fin 2"
  by (simp add: float_of_decimal_def literal)

definition engine_order :: "decimal \<Rightarrow> order" where
  "engine_order stop = \<lparr>o_id = SequenceId 1, o_wallet_id = None, o_signal_id = None, o_order_type = MARKET,
     o_side = BUY, o_symbol = ''BTCUSDT'', o_quantity = 2, o_price = Some 100, o_filled_quantity = 0,
     o_average_filled_price = None, o_status = NEW, o_fee = 0,
     o_client_order_id = RequestName (pd_request entry_pending), o_market_type = FUTURES,
     o_position_side = LONG, o_reduce_only = False, o_close_position = False, o_stop_price = Some stop,
     o_time_in_force = ''GTC''\<rparr>"

definition engine_fill :: fill where
  "engine_fill = \<lparr>f_order_id = SequenceId 1, f_symbol = ''BTCUSDT'', f_side = BUY, f_position_side = LONG,
     f_reference_price = 100, f_price = 2001 / 20, f_quantity = 2, f_fee = 2001 / 20000, f_slippage = 1 / 10,
     f_liquidity = ''taker'', f_timestamp = 60125000, f_reduce_only = False, f_exit_reason = None,
     f_gap_filled = False, f_qty_truncated = False\<rparr>"

lemma order_fields:
  "o_price (engine_order s) = Some 100" "o_stop_price (engine_order s) = Some s"
  "o_position_side (engine_order s) = LONG" "o_quantity (engine_order s) = 2" "o_filled_quantity (engine_order s) = 0"
  "o_order_type (engine_order s) = MARKET" "o_status (engine_order s) = NEW" "\<not> o_reduce_only (engine_order s)"
  "\<not> o_close_position (engine_order s)" "(engine_order s)\<lparr>o_stop_price := Some s'\<rparr> = engine_order s'"
  by (simp_all add: engine_order_def)

lemma engine_execution:
  "quantize_amount s = Inr s \<Longrightarrow> execution_price (engine_order s) 100 2 default_paper_model False = Inr (2001 / 20, 1 / 10)"
  by (simp add: execution_price_def make_order_def engine_order_def validate_fill_status_def apply_slippage_def
    default_paper_model_def paper_slippage_def effective_rate_def make_slippage_params_def default_rates_def evaluate)

lemma engine_entry_cash:
  "entry_cash_requirement (engine_order s) (2001 / 20) 2 default_paper_model 10 = Inr (202101 / 10000)"
  by (simp add: entry_cash_requirement_def engine_order_def default_paper_model_def paper_fee_def default_rates_def
    fee_calc_def evaluate)

lemma engine_recompute:
  "recompute_qty_and_stop (engine_order 75) (2001 / 20) None (Some 12800) 10 (Some default_paper_model) =
    Inr (2, Some (1501 / 20))"
proof -
  have a: "affordable_entry_quantity (engine_order 75) (2001 / 20) 2 12800 default_paper_model 10 = Inr 2"
    by (rule paper.affordable_whole [OF _ _ _ _ engine_entry_cash]) (simp_all add: literal)
  show ?thesis
    by (simp add: recompute_qty_and_stop_def reanchored_stop_def stop_distance_of_def remaining_quantity_def
      risk_bounded_def cash_bounded_def order_fields a evaluate)
qed

lemma engine_truncation:
  "truncation_loop 32 (engine_order 75) 100 default_paper_model False None (Some 12800) 10 2 = Inr (2, Some (1501 / 20))"
  unfolding Suc_31 [symmetric] truncation_loop.simps by (simp add: engine_execution engine_recompute literal)

lemma engine_match:
  "\<exists>ord'. match (engine_order 75) bar_1 [bar_1, bar_2] default_paper_model NextBar None (Some 12800) 10 =
    Inr (ord', engine_fill)"
proof -
  have e: "execution_candle bar_1 [bar_1, bar_2] NextBar = Inr (bar_2, 100, 60125000)"
    by (simp add: execution_candle_def price_of_def evaluate)
  have t: "trigger_reference (engine_order 75) bar_2 = Inr (Some (100, False))"
    by (simp add: trigger_reference_def order_fields price_of_def evaluate)
  have x: "execution_price (engine_order (1501 / 20)) 100 2 default_paper_model False = Inr (2001 / 20, 1 / 10)"
    by (simp add: engine_execution literal)
  have "\<exists>ord'. fill_order (engine_order (1501 / 20)) 100 2 60125000 default_paper_model False False None = Inr (ord', engine_fill)"
    unfolding fill_order_def x
    by (simp add: engine_order_def engine_fill_def default_paper_model_def paper_fee_def default_rates_def fee_calc_def
      mark_as_filled_def transition_to_def validate_fill_status_def make_fill_def evaluate)
  then obtain ord' where f: "fill_order (engine_order (1501 / 20)) 100 2 60125000 default_paper_model False False None
    = Inr (ord', engine_fill)" by blast
  have m: "match_triggered (engine_order 75) 100 False 60125000 default_paper_model None (Some 12800) 10 = Inr (ord', engine_fill)"
    by (simp add: match_triggered_def remaining_quantity_def order_fields engine_truncation
      entry_cash_check_def x engine_entry_cash f evaluate)
  show ?thesis by (simp add: match_def order_fields e t m raise_if_def)
qed

definition run_entry_execution :: execution_context where
  "run_entry_execution = \<lparr>xc_decision_candle = bar_1, xc_history = [bar_1, bar_2], xc_risk_budget = None,
     xc_available_margin = Some 12800, xc_leverage = 10\<rparr>"

lemma engine_submitted:
  "bt_submit default_paper_model (pd_request entry_pending) \<lparr>bb_execution = Some run_entry_execution, bb_next_sequence = Suc 0\<rparr> =
    (\<lparr>bb_execution = Some run_entry_execution, bb_next_sequence = 2\<rparr>, Inr engine_fill)"
proof -
  have n: "normalize_order (pd_request entry_pending) (Some (SequenceId 1)) None None None = Inr (engine_order 75)"
    by (simp add: normalize_order_def engine_order_def entry_pending_def make_order_def validate_fill_status_def evaluate)
  have x: "xc_decision_candle run_entry_execution = bar_1" "xc_history run_entry_execution = [bar_1, bar_2]"
    "xc_risk_budget run_entry_execution = None" "xc_available_margin run_entry_execution = Some 12800" "xc_leverage run_entry_execution = 10"
    by (simp_all add: run_entry_execution_def)
  obtain ord' where "match (engine_order 75) bar_1 [bar_1, bar_2] default_paper_model NextBar None (Some 12800) 10 =
    Inr (ord', engine_fill)" using engine_match by blast
  then show ?thesis using n by (simp add: bt_submit_def x bindR_def)
qed

lemma pending_fields [simp]:
  "pd_decision_candle entry_pending = bar_1" "pd_decision_id entry_pending = 1" "pd_feature_ts entry_pending = decision_ms"
  "pd_decision_ts entry_pending = decision_ms" "pd_exit_reason entry_pending = None"
  "pd_signal entry_pending = Some long_signal" "pd_candidate_id entry_pending = Some 1"
  "\<not> rq_reduce_only (pd_request entry_pending)"
  by (simp_all add: entry_pending_def)

lemma fill_fields [simp]:
  "f_symbol engine_fill = ''BTCUSDT''" "f_side engine_fill = BUY" "f_position_side engine_fill = LONG"
  "f_reference_price engine_fill = 100" "f_price engine_fill = 2001 / 20" "f_quantity engine_fill = 2"
  "f_fee engine_fill = 2001 / 20000" "f_slippage engine_fill = 1 / 10" "f_timestamp engine_fill = 60125000"
  "\<not> f_reduce_only engine_fill"
  by (simp_all add: engine_fill_def)

definition held_position :: position where
  "held_position = \<lparr>p_wallet_id = None, p_symbol = ''BTCUSDT'', p_quantity = 2, p_average_price = 2001 / 20,
     p_total_cost = 2001 / 10, p_current_price = 2001 / 20, p_unrealized_pnl = 0, p_side = LONG, p_market_type = FUTURES,
     p_leverage = 10, p_margin_type = ISOLATED, p_margin = 2001 / 100, p_entry_price = 2001 / 20, p_mark_price = 2001 / 20,
     p_liquidation_price = 226113 / 2500, p_funding_fee_total = 0\<rparr>"

lemma engine_entry_liquidation: "entry_liquidation engine_setup engine_fill 10 = Inr (226113 / 2500)"
  by (simp add: entry_liquidation_def engine_mmr_def default_paper_model_def default_rates_def liquidation_price_def evaluate)

lemma engine_entry_applied:
  "apply_fill (\<lambda>x. None) engine_fill (Some 10) (Some ISOLATED) FUTURES (226113 / 2500) =
    Inr [(''BTCUSDT'', LONG) \<mapsto> held_position]"
  by (simp add: apply_fill_def fill_key_def make_position_def quantize_fields_def
    validate_total_cost_def TOTAL_COST_TOLERANCE_def held_position_def evaluate)

lemma position_fields [simp]:
  "p_symbol held_position = ''BTCUSDT''" "p_side held_position = LONG" "p_quantity held_position = 2" "p_margin held_position = 2001 / 100"
  "p_entry_price held_position = 2001 / 20" "p_leverage held_position = 10" "p_market_type held_position = FUTURES"
  by (simp_all add: held_position_def)

definition open_trade :: active_trade where
  "open_trade = \<lparr>at_trade_id = 1, at_entry_execution_id = 1, at_entry_fill = engine_fill, at_signal = long_signal,
     at_r0 = Some 50, at_candidate_id = Some 1, at_total_fee = 2001 / 20000, at_slippage = 1 / 10,
     at_funding = 0, at_position_records = [], at_funding_records = [], at_settled_boundaries = [],
     at_entry_features = [], at_mae_features = [], at_mfe_features = [], at_mae_ts = None, at_mfe_ts = None,
     at_mae_r = None, at_mfe_r = None, at_mae_pnl = None, at_mfe_pnl = None\<rparr>"

definition evidence_2 :: "evidence list" where
  "evidence_2 = evidence_1 @ [EXECUTION_ROW \<lparr>ex_execution_id = 1, ex_decision_id = Some 1, ex_fill = engine_fill,
     ex_notional = 2001 / 10\<rparr>]"

definition engine_3 :: "unit engine" where
  "engine_3 = engine_2\<lparr>g_last_candle := Some bar_2, g_pending := [], g_book := [(''BTCUSDT'', LONG) \<mapsto> held_position],
     g_cash := 255597799 / 20000, g_active := Some open_trade, g_stop_price := Some 75,
     g_broker := \<lparr>bb_execution = Some run_entry_execution, bb_next_sequence = 2\<rparr>,
     g_sequence := counts_1(''execution'' := 1, ''trade'' := 1), g_evidence := evidence_2\<rparr>"

lemma run_entry_executed:
  "execute_pending engine_setup bar_2 entry_pending (engine_2\<lparr>g_last_candle := Some bar_2, g_pending := []\<rparr>) =
    (engine_3, Inr ())"
  by (simp add: execute_pending_def engine_2_def engine_1_def engine_0_def step_evaluate risk_budget_of_def signal_leverage_def on_broker_def bt_configure_execution_def run_entry_execution_def [symmetric] engine_submitted,
      simp add: engine_apply_fill_def step_evaluate projected_entry_cash_def signal_leverage_def evaluate execution_evidence_def,
      simp add: apply_entry_def step_evaluate signal_leverage_def evaluate engine_entry_liquidation engine_entry_applied,
      simp add: open_or_extend_trade_def step_evaluate initial_r0_def optional_level_def checked_cash_def evaluate,
      simp add: engine_3_def engine_2_def engine_1_def engine_0_def open_trade_def counts_1_def evidence_2_def)

lemma engine_3_position: "current_position engine_setup engine_3 = Inr (Some held_position)"
  by (simp add: current_position_def book_get_def engine_3_def raise_if_def)

lemma step_open_2: "step_open engine_setup bar_2 (engine_2\<lparr>g_last_candle := Some bar_2\<rparr>) = (engine_3, Inr ())"
proof -
  have t: "walk_triggers engine_setup held_position [bar_2] engine_3 = Inr None"
    by (simp add: walk_triggers_def resolve_triggers_def engine_3_def open_trade_def raise_if_def skip_first_sl_check_def)
  have e: "execute_all engine_setup bar_2 [entry_pending] (engine_2\<lparr>g_last_candle := Some bar_2, g_pending := []\<rparr>) =
    (engine_3, Inr ())"
    by (simp add: bindS_def liftS_def run_entry_executed)
  have c: "clock_now (g_clock engine_2) = 60124000" "g_pending engine_2 = [entry_pending]" by (simp_all add: engine_2_def)
  show ?thesis
    by (simp add: step_open_def settle_at_boundary_def bindS_def gets_def modify_def liftS_def raise_if_def c e
        apply_triggers_def engine_3_position t del: execute_all.simps)
qed

definition run_marked_position :: position where
  "run_marked_position = held_position\<lparr>p_current_price := 102, p_mark_price := 102, p_unrealized_pnl := 39 / 10\<rparr>"

lemma held_marked: "update_price held_position 102 = Inr run_marked_position"
  by (simp add: update_price_def held_position_def run_marked_position_def validate_total_cost_def TOTAL_COST_TOLERANCE_def evaluate)

lemma marked_fields [simp]:
  "p_symbol run_marked_position = ''BTCUSDT''" "p_side run_marked_position = LONG" "p_quantity run_marked_position = 2"
  "p_margin run_marked_position = 2001 / 100" "p_unrealized_pnl run_marked_position = 39 / 10"
  "p_entry_price run_marked_position = 2001 / 20" "p_leverage run_marked_position = 10" "p_market_type run_marked_position = FUTURES"
  by (simp_all add: run_marked_position_def)

lemma trade_fields [simp]:
  "at_entry_fill open_trade = engine_fill" "at_trade_id open_trade = 1" "at_total_fee open_trade = 2001 / 20000"
  "at_slippage open_trade = 1 / 10" "at_funding open_trade = 0" "at_position_records open_trade = []"
  by (simp_all add: open_trade_def)

definition mark_row :: evidence where
  "mark_row = POSITION_ROW \<lparr>ps_sequence = 2, ps_ts = 120124000, ps_symbol = ''BTCUSDT'', ps_trade_id = Some 1,
     ps_position = Some run_marked_position, ps_mark = 102\<rparr>"

definition mark_portfolio :: equity_row where
  "mark_portfolio = \<lparr>eq_sequence = 2, eq_ts = 120124000, eq_cash = 255597799 / 20000,
     eq_position_value = 2391 / 100, eq_total = 256075999 / 20000, eq_unrealized = 39 / 10,
     eq_fee_cum = 2001 / 20000, eq_slippage_cum = 1 / 10, eq_funding_cum = 0, eq_peak = 256075999 / 20000,
     eq_drawdown = Fin 0, eq_open_positions = 1\<rparr>"

definition evidence_3 :: "evidence list" where
  "evidence_3 = evidence_2 @ [PORTFOLIO_ROW mark_portfolio]"

definition engine_4 :: "unit engine" where
  "engine_4 = engine_3\<lparr>g_clock := bar_clock 2, g_confirmed := [bar_1, bar_2],
     g_book := [(''BTCUSDT'', LONG) \<mapsto> run_marked_position],
     g_equity_curve := [(60124000, 12800), (120124000, 256075999 / 20000)],
     g_active := Some (open_trade\<lparr>at_position_records := [mark_row]\<rparr>),
     g_sequence := counts_1(''execution'' := 1, ''trade'' := 1, ''position'' := 2, ''equity'' := 2),
     g_evidence := evidence_3\<rparr>"

lemma counts_1 [simp]: "counts_1 ''position'' = 1" "counts_1 ''equity'' = 1" "counts_1 ''execution'' = 0" "counts_1 ''trade'' = 0"
   "counts_1 ''tfs'' = 0"
  by (simp_all add: counts_1_def)

lemma step_close_2: "step_close engine_setup bar_2 (engine_3\<lparr>g_clock := bar_clock 2\<rparr>) = (engine_4, Inr ())"
  by (simp add: step_close_def step_evaluate update_indicators_def engine_3_def engine_2_def engine_1_def engine_0_def,
      simp add: mark_grid_def mark_position_def step_evaluate equity_peak_def drawdown_of_def position_evidence_def portfolio_row_def evaluate held_marked position_key_def track_excursions_def,
      simp add: engine_analyze_def step_evaluate handle_timely_signal_def,
      simp add: engine_4_def engine_3_def engine_2_def engine_1_def engine_0_def evidence_3_def mark_portfolio_def mark_row_def numeral_2_eq_2)

lemma loop_ran: "candle_loop engine_setup [bar_1, bar_2] engine_0 = (engine_4, Inr ())"
proof -
  have m: "engine_move_clock t g = (g\<lparr>g_clock := k\<rparr>, Inr ())" if "move_clock t (g_clock g) = Inr k" for t k and g :: "unit engine"
    using that by (simp add: engine_move_clock_def)
  have g: "g_clock engine_0 = bar_clock 0" "g_clock engine_1 = bar_clock 0" "g_clock engine_2 = bar_clock 1"
    "g_clock engine_3 = bar_clock 1" "engine_0\<lparr>g_last_candle := Some bar_1\<rparr> = engine_1"
    "engine_1\<lparr>g_clock := bar_clock 0\<rparr> = engine_1" "engine_2\<lparr>g_clock := bar_clock 1\<rparr> = engine_2"
    "engine_2\<lparr>g_last_candle := Some bar_2, g_clock := bar_clock 1\<rparr> = engine_2\<lparr>g_last_candle := Some bar_2\<rparr>"
    by (simp_all add: engine_0_def engine_1_def engine_2_def engine_3_def)
  have s1: "step_candle engine_setup bar_1 engine_0 = (engine_2, Inr ())"
    by (simp add: step_candle_def bindS_def modify_def g m step_open_1 step_close_1 del: One_nat_def)
  have s2: "step_candle engine_setup bar_2 engine_2 = (engine_4, Inr ())"
    by (simp add: step_candle_def bindS_def modify_def g m step_open_2 step_close_2 del: One_nat_def)
  show ?thesis by (simp add: bindS_def s1 s2 liftS_def m g del: One_nat_def)
qed

definition closing_candle :: candle where
  "closing_candle = bar_2\<lparr>c_open_time := 120125000, c_close_time := 180125000, c_open := Fin 102, c_high := Fin 102,
     c_low := Fin 102, c_volume := Fin 0\<rparr>"

lemma closing_candle_built: "flat_candle bar_2 120125000 = Inr closing_candle"
  by (simp add: flat_candle_def make_candle_def validate_candle_def closing_candle_def bar_2_def bar_1_def
    timeframe_minutes_def minute_us_def fmin_def fmax_def decimal_value_def digit_value_def is_digit_def evaluate)

lemma closing_fields [simp]:
  "c_open_time closing_candle = 120125000" "c_close_time closing_candle = 180125000" "c_open closing_candle = Fin 102"
  "c_high closing_candle = Fin 102" "c_low closing_candle = Fin 102" "closing_candle \<noteq> bar_2" "bar_2 \<noteq> closing_candle"
  by (simp_all add: closing_candle_def bar_2_def bar_1_def)

definition run_exit_request :: order_request where
  "run_exit_request = \<lparr>rq_symbol = ''BTCUSDT'', rq_side = SELL, rq_order_type = MARKET,
       rq_quantity = Fin 2, rq_price = None, rq_stop_price = None, rq_market_type = FUTURES,
       rq_position_side = LONG, rq_reduce_only = True, rq_close_position = False, rq_time_in_force = ''GTC''\<rparr>"

lemma exit_requested: "exit_request run_marked_position = Inr run_exit_request"
  by (simp add: exit_request_def make_order_request_def run_exit_request_def evaluate)

definition run_exit_order :: order where
  "run_exit_order = \<lparr>o_id = SequenceId 2, o_wallet_id = None, o_signal_id = None, o_order_type = MARKET,
     o_side = SELL, o_symbol = ''BTCUSDT'', o_quantity = 2, o_price = None, o_filled_quantity = 0,
     o_average_filled_price = None, o_status = NEW, o_fee = 0,
     o_client_order_id = RequestName run_exit_request, o_market_type = FUTURES,
     o_position_side = LONG, o_reduce_only = True, o_close_position = False, o_stop_price = None,
     o_time_in_force = ''GTC''\<rparr>"

definition run_exit_fill :: fill where
  "run_exit_fill = \<lparr>f_order_id = SequenceId 2, f_symbol = ''BTCUSDT'', f_side = SELL, f_position_side = LONG,
     f_reference_price = 102, f_price = 509949 / 5000, f_quantity = 2, f_fee = 509949 / 5000000, f_slippage = 51 / 2500,
     f_liquidity = ''taker'', f_timestamp = 120125000, f_reduce_only = True, f_exit_reason = None,
     f_gap_filled = False, f_qty_truncated = False\<rparr>"

lemma run_exit_order_fields:
  "o_price run_exit_order = None" "o_stop_price run_exit_order = None"
  "o_position_side run_exit_order = LONG" "o_quantity run_exit_order = 2" "o_filled_quantity run_exit_order = 0"
  "o_order_type run_exit_order = MARKET" "o_status run_exit_order = NEW" "o_reduce_only run_exit_order"
  "\<not> o_close_position run_exit_order" "run_exit_order\<lparr>o_stop_price := None\<rparr> = run_exit_order"
  by (simp_all add: run_exit_order_def)

lemma run_exit_execution_price: "execution_price run_exit_order 102 2 default_paper_model False = Inr (509949 / 5000, - (51 / 2500))"
  by (simp add: execution_price_def make_order_def run_exit_order_def validate_fill_status_def apply_slippage_def
    default_paper_model_def paper_slippage_def effective_rate_def make_slippage_params_def default_rates_def evaluate)

lemma run_exit_truncation:
  "truncation_loop 32 run_exit_order 102 default_paper_model False None None 10 2 = Inr (2, None)"
proof -
  have r: "recompute_qty_and_stop run_exit_order (509949 / 5000) None None 10 (Some default_paper_model) = Inr (2, None)"
    by (simp add: recompute_qty_and_stop_def reanchored_stop_def stop_distance_of_def remaining_quantity_def
      risk_bounded_def cash_bounded_def run_exit_order_fields evaluate)
  show ?thesis unfolding Suc_31 [symmetric] truncation_loop.simps by (simp add: run_exit_execution_price r)
qed

lemma run_exit_match:
  "\<exists>ord'. match run_exit_order bar_2 [bar_2, closing_candle] default_paper_model NextBar None am 10 = Inr (ord', run_exit_fill)"
proof -
  have e: "execution_candle bar_2 [bar_2, closing_candle] NextBar = Inr (closing_candle, 102, 120125000)"
    by (simp add: execution_candle_def price_of_def evaluate)
  have t: "trigger_reference run_exit_order closing_candle = Inr (Some (102, False))"
    by (simp add: trigger_reference_def run_exit_order_fields price_of_def evaluate)
  have "\<exists>ord'. fill_order run_exit_order 102 2 120125000 default_paper_model False False None = Inr (ord', run_exit_fill)"
    unfolding fill_order_def run_exit_execution_price
    by (simp add: run_exit_order_def run_exit_fill_def default_paper_model_def paper_fee_def default_rates_def fee_calc_def
      mark_as_filled_def transition_to_def validate_fill_status_def make_fill_def evaluate)
  then obtain ord' where f: "fill_order run_exit_order 102 2 120125000 default_paper_model False False None
    = Inr (ord', run_exit_fill)" by blast
  have m: "match_triggered run_exit_order 102 False 120125000 default_paper_model None am 10 = Inr (ord', run_exit_fill)"
    by (simp add: match_triggered_def remaining_quantity_def run_exit_order_fields run_exit_truncation
      entry_cash_check_def run_exit_execution_price f evaluate)
  show ?thesis by (simp add: match_def run_exit_order_fields e t m raise_if_def)
qed

definition run_exit_context :: execution_context where
  "run_exit_context = \<lparr>xc_decision_candle = bar_2, xc_history = [bar_2, closing_candle], xc_risk_budget = None,
     xc_available_margin = Some (255597799 / 20000), xc_leverage = 10\<rparr>"

lemma exit_submitted:
  "bt_submit default_paper_model run_exit_request \<lparr>bb_execution = Some run_exit_context, bb_next_sequence = 2\<rparr> =
    (\<lparr>bb_execution = Some run_exit_context, bb_next_sequence = 3\<rparr>, Inr run_exit_fill)"
proof -
  have n: "normalize_order run_exit_request (Some (SequenceId 2)) None None None = Inr run_exit_order"
    by (simp add: normalize_order_def run_exit_order_def run_exit_request_def make_order_def validate_fill_status_def evaluate)
  have x: "xc_decision_candle run_exit_context = bar_2" "xc_history run_exit_context = [bar_2, closing_candle]"
    "xc_risk_budget run_exit_context = None" "xc_available_margin run_exit_context = Some (255597799 / 20000)" "xc_leverage run_exit_context = 10"
    by (simp_all add: run_exit_context_def)
  obtain ord' where "match run_exit_order bar_2 [bar_2, closing_candle] default_paper_model NextBar None (Some (255597799 / 20000)) 10 =
    Inr (ord', run_exit_fill)" using run_exit_match by blast
  then show ?thesis using n by (simp add: bt_submit_def x bindR_def)
qed

definition final_fill :: fill where
  "final_fill = run_exit_fill\<lparr>f_exit_reason := Some END_OF_DATA\<rparr>"

lemma final_fields [simp]:
  "f_symbol final_fill = ''BTCUSDT''" "f_side final_fill = SELL" "f_position_side final_fill = LONG"
  "f_reference_price final_fill = 102" "f_price final_fill = 509949 / 5000" "f_quantity final_fill = 2"
  "f_fee final_fill = 509949 / 5000000" "f_slippage final_fill = 51 / 2500" "f_timestamp final_fill = 120125000"
  "f_reduce_only final_fill" "f_exit_reason final_fill = Some END_OF_DATA"
  by (simp_all add: final_fill_def run_exit_fill_def)

definition engine_5 :: "unit engine" where
  "engine_5 = engine_4\<lparr>g_broker := \<lparr>bb_execution = Some run_exit_context, bb_next_sequence = 3\<rparr>\<rparr>"

lemma exit_terminal: "terminal_exit engine_setup NextBar bar_2 run_marked_position END_OF_DATA engine_4 = (engine_5, Inr final_fill)"
proof -
  have b: "g_broker engine_4 = \<lparr>bb_execution = Some run_entry_execution, bb_next_sequence = 2\<rparr>" "g_cash engine_4 = 255597799 / 20000"
    by (simp_all add: engine_4_def engine_3_def)
  have f: "make_fill (run_exit_fill\<lparr>f_exit_reason := Some END_OF_DATA\<rparr>) = Inr final_fill"
    by (simp add: make_fill_def final_fill_def run_exit_fill_def evaluate)
  show ?thesis
    by (simp add: terminal_exit_def bindS_def liftS_def millisecond_def closing_candle_built on_broker_def
        bt_configure_execution_def b run_exit_context_def [symmetric] exit_requested exit_submitted f engine_5_def)
qed

lemma return_percent [simp]:
  "quantize_percent (18387801 / 10000000) = Inr (46 / 25)" "quantize_percent (46 / 25) = Inr (46 / 25)"
proof -
  have "\<lfloor>18387801 / 100000 :: rat\<rfloor> = 183" by (simp add: floor_eq_iff)
  then show "quantize_percent (18387801 / 10000000) = Inr (46 / 25)"
    by (simp add: quantize_percent_def quantize_even_def Q_PERCENT_def grid_def rhe_def Let_def)
qed (simp add: quantize_percent_def quantize_even_def Q_PERCENT_def grid_def rhe_def)

lemma sixty_seconds: "total_seconds 60000000 = Fin 60"
  by (simp add: total_seconds_def literal)

definition closed_active :: active_trade where
  "closed_active = open_trade\<lparr>at_position_records := [mark_row], at_total_fee := 1010199 / 5000000, at_slippage := 301 / 2500\<rparr>"

definition final_trade :: trade where
  "final_trade = \<lparr>t_source_type = BACKTEST, t_symbol = ''BTCUSDT'', t_side = BUY, t_market_type = FUTURES,
     t_entry_price = 100, t_entry_quantity = 2, t_entry_time = 60125000, t_exit_price = 102, t_exit_quantity = 2,
     t_exit_time = 120125000, t_exit_reason = END_OF_DATA, t_gross_pnl = 4, t_total_fee = 1010199 / 5000000,
     t_slippage = 301 / 2500, t_funding_cost = 0, t_liquidation_penalty = 0, t_net_pnl = 18387801 / 5000000,
     t_return_pct = 46 / 25, t_r0 = Some 50, t_leverage = 10, t_liquidated = False, t_wallet_id = None,
     t_backtest_run_id = Some ''r'', t_strategy_id = ''s'', t_strategy_name = ''s'', t_hold_duration_seconds = 60,
     t_signal_confidence = Fin 1, t_reason = ''breakout''\<rparr>"

lemma trade_completed: "completed_trade engine_setup closed_active final_fill = Inr final_trade"
proof -
  have a: "at_entry_fill closed_active = engine_fill" "at_total_fee closed_active = 1010199 / 5000000"
    "at_slippage closed_active = 301 / 2500" "at_funding closed_active = 0" "at_r0 closed_active = Some 50"
    "at_signal closed_active = long_signal"
    by (simp_all add: closed_active_def open_trade_def)
  have h: "py_trunc (total_seconds 60000000) = Inr 60" by (simp add: sixty_seconds py_trunc_def py_int_def)
  have m: "make_trade final_trade = Inr final_trade"
    by (simp add: make_trade_def trade_quantize_def final_trade_def expected_net_pnl_def evaluate)
  have s: "s_reason long_signal = ''breakout''" "ec_run_id engine_setup = ''r''" "ec_strategy_id engine_setup = ''s''"
    "ec_strategy_name engine_setup = ''s''" by (simp_all add: long_signal_def engine_setup_def)
  show ?thesis
    by (simp add: completed_trade_def a h s signal_leverage_def evaluate)
      (use m in \<open>simp add: h s final_trade_def\<close>)
qed

lemma exit_applied:
  "apply_fill [(''BTCUSDT'', LONG) \<mapsto> run_marked_position] final_fill None None FUTURES 0 = Inr (\<lambda>x. None)"
  by (simp add: apply_fill_def fill_key_def reduce_def reduce_quantity_def flatten_prices_def validate_total_cost_def TOTAL_COST_TOLERANCE_def evaluate)

definition engine_6 :: "unit engine" where
  "engine_6 = engine_5\<lparr>g_sequence := (g_sequence engine_5)(''execution'' := 2),
     g_evidence := evidence_3 @ [EXECUTION_ROW \<lparr>ex_execution_id = 2, ex_decision_id = None, ex_fill = final_fill,
       ex_notional = 509949 / 2500\<rparr>]\<rparr>"

lemma exit_evidence: "execution_evidence final_fill None engine_5 = (engine_6, Inr 2)"
  by (simp add: execution_evidence_def engine_6_def engine_5_def engine_4_def step_evaluate evaluate numeral_2_eq_2)

lemma exit_completed:
  "\<exists>g es. apply_exit engine_setup final_fill (Some run_marked_position) 2 engine_6 = (g, Inr ()) \<and>
     g_evidence g = g_evidence engine_6 @ es \<and> list_all quiet_row es \<and> g_trades g = [final_trade] \<and>
     g_book g = Map.empty \<and> g_cash g = 64018387801 / 5000000 \<and> g_active g = None \<and> g_equity_curve g = g_equity_curve engine_4 \<and>
     g_last_candle g = Some bar_2"
proof -
  have f: "s_reason long_signal = ''breakout''"  by (simp_all add: long_signal_def )
  have "\<exists>g es. complete_trade engine_setup closed_active final_fill 2 (engine_6\<lparr>g_book := Map.empty, g_cash := 64018387801 / 5000000,
      g_active := Some closed_active\<rparr>) = (g, Inr ()) \<and>
     g_evidence g = g_evidence engine_6 @ es \<and> list_all quiet_row es \<and> g_trades g = [final_trade] \<and>
     g_book g = Map.empty \<and> g_cash g = 64018387801 / 5000000 \<and> g_equity_curve g = g_equity_curve engine_4 \<and>
     g_last_candle g = Some bar_2"
  by (simp add: complete_trade_def step_evaluate trade_completed engine_6_def engine_5_def engine_4_def engine_3_def engine_2_def engine_1_def engine_0_def r_multiple_of_def final_trade_def evaluate,
      simp add: record_rows_def feature_snapshots_def feature_snapshot_def closed_active_def open_trade_def step_evaluate mark_row_def)
  then obtain g es where c: "complete_trade engine_setup closed_active final_fill 2 (engine_6\<lparr>g_book := Map.empty, g_cash := 64018387801 / 5000000,
      g_active := Some closed_active\<rparr>) = (g, Inr ())"
     and g: "g_evidence g = g_evidence engine_6 @ es" "list_all quiet_row es" "g_trades g = [final_trade]"
     "g_book g = Map.empty" "g_cash g = 64018387801 / 5000000" "g_equity_curve g = g_equity_curve engine_4"
     "g_last_candle g = Some bar_2"
    by blast
  have e: "g_active engine_6 = Some (open_trade\<lparr>at_position_records := [mark_row]\<rparr>)" "g_cash engine_6 = 255597799 / 20000"
    "g_book engine_6 = [(''BTCUSDT'', LONG) \<mapsto> run_marked_position]"
    by (simp_all add: engine_6_def engine_5_def engine_4_def engine_3_def)
  have "apply_exit engine_setup final_fill (Some run_marked_position) 2 engine_6 =
      (g\<lparr>g_active := None, g_stop_price := None, g_take_profit_price := None\<rparr>, Inr ())"
    by (simp add: apply_exit_def e step_evaluate evaluate checked_cash_def exit_applied c [unfolded closed_active_def])
  then show ?thesis using g by simp
qed

lemma engine_ended:
  "\<exists>g r es. close_at_end engine_setup engine_4 = (g, Inr (64018387801 / 5000000)) \<and> g_trades g = [final_trade] \<and>
     g_evidence g = evidence_3 @ EXECUTION_ROW r # es \<and> ex_fill r = final_fill \<and> ex_decision_id r = None \<and>
     (\<forall>r. EXECUTION_ROW r \<notin> set es)"
proof -
  obtain g es where x: "apply_exit engine_setup final_fill (Some run_marked_position) 2 engine_6 = (g, Inr ())"
    and g: "g_evidence g = g_evidence engine_6 @ es" "list_all quiet_row es" "g_trades g = [final_trade]"
     "g_book g = Map.empty" "g_cash g = 64018387801 / 5000000" "g_active g = None" "g_equity_curve g = g_equity_curve engine_4"
     "g_last_candle g = Some bar_2"
    using exit_completed by blast
  have l: "g_last_candle engine_4 = Some bar_2" "current_position engine_setup engine_4 = Inr (Some run_marked_position)"
    "current_position engine_setup engine_5 = Inr (Some run_marked_position)"
    "g_equity_curve engine_4 = [(60124000, 12800), (120124000, 256075999 / 20000)]"
    by (simp_all add: engine_5_def engine_4_def engine_3_def current_position_def book_get_def raise_if_def)
  have a: "engine_apply_fill engine_setup final_fill None None None engine_5 = (g, Inr ())"
    by (simp add: engine_apply_fill_def bindS_def gets_def l exit_evidence x)
  have p: "current_position engine_setup (g\<lparr>g_equity_curve := c\<rparr>) = Inr None" "current_position engine_setup g = Inr None" for c
    by (simp_all add: current_position_def book_get_def g raise_if_def)
  obtain d where d: "drawdown_of (64018387801 / 5000000) (256075999 / 20000) = Inr d"
    by (simp add: drawdown_of_def evaluate)
  have nope: "\<forall>r. EXECUTION_ROW r \<notin> set es" using g(2) by (fastforce simp: list_all_iff)
  show ?thesis
    using nope
  by (simp add: close_at_end_def l exit_terminal a bindS_def gets_def liftS_def current_equity_def p recompute_def position_value_def g(5) evaluate modify_def terminal_equity_def next_id_def record_row_def g l equity_peak_def d portfolio_row_def,
      simp add: engine_6_def)
qed

lemma engine_ran:
  "\<exists>g r es. run_candles engine_setup [bar_1, bar_2] engine_0 = (g, Inr (64018387801 / 5000000)) \<and>
     g_trades g = [final_trade] \<and> g_evidence g = evidence_3 @ EXECUTION_ROW r # es \<and> ex_fill r = final_fill \<and>
     ex_decision_id r = None \<and> (\<forall>r. EXECUTION_ROW r \<notin> set es)"
  using engine_ended by (simp add: run_candles_def bindS_def liftS_def raise_if_def loop_ran del: candle_loop.simps)

lemma evidence_3_executions:
  "EXECUTION_ROW r \<in> set evidence_3 \<Longrightarrow> ex_fill r = engine_fill \<and> ex_decision_id r = Some 1"
  by (auto simp: evidence_3_def evidence_2_def evidence_1_def action_row_def)

end
