(* ===== verification/Conditions.thy ===== *)
theory Conditions
  imports PyFloat
begin

section \<open>Reading sequences, conditions that may raise, division by a nonzero number\<close>

text \<open>
  \<open>item xs i\<close> is Python's \<open>xs[i]\<close>: a negative index counts from the end, one outside the
  sequence raises. A condition whose operands may raise is a \<open>bool res\<close>; \<open>all_of\<close> and
  \<open>any_of\<close> are the chains of \<open>and\<close> and \<open>or\<close>, which stop at the first operand that settles
  them, so that an operand behind it is not evaluated. \<open>fquot a b\<close> is \<open>a / b\<close> where the code
  has made sure that \<open>b\<close> is not zero. The collection \<open>ok_intros\<close> shows that an expression
  does not raise.
\<close>

named_theorems ok_intros \<open>expressions that do not raise\<close>

definition item :: "'a list \<Rightarrow> int \<Rightarrow> 'a res" where
  "item xs i =
     (if 0 \<le> i \<and> i < int (length xs) then Inr (xs ! nat i)
      else if - int (length xs) \<le> i \<and> i < 0 then Inr (xs ! nat (int (length xs) + i))
      else Inl (IndexError ''list index out of range''))"

lemma item_nth [simp]: "i < length xs \<Longrightarrow> item xs (int i) = Inr (xs ! i)"
  by (simp add: item_def)

lemma item_back: "k \<le> i \<Longrightarrow> i < length xs \<Longrightarrow> item xs (int i - int k) = Inr (xs ! (i - k))"
  by (simp add: item_def nat_diff_distrib')

lemma item_take: "item (take (Suc i) xs) (int i) = item xs (int i)"
  by (auto simp: item_def)

lemma item_take_back:
  "k \<le> i \<Longrightarrow> i < length xs \<Longrightarrow> item (take (Suc i) xs) (int i - int k) = item xs (int i - int k)"
  using item_back [of k i xs] item_back [of k i "take (Suc i) xs"] by simp

lemma item_take_numeral:
  "numeral k \<le> i \<Longrightarrow> i < length xs \<Longrightarrow>
    item (take (Suc i) xs) (int i - numeral k) = item xs (int i - numeral k)"
  "1 \<le> i \<Longrightarrow> i < length xs \<Longrightarrow> item (take (Suc i) xs) (int i - 1) = item xs (int i - 1)"
  using item_take_back [of "numeral k" i xs] item_take_back [of 1 i xs] by simp_all

lemma item_if: "item xs (if c then a else b) = (if c then item xs a else item xs b)"
  by simp

lemma isOk_item [ok_intros]:
  "i < length xs \<Longrightarrow> isOk (item xs (int i))"
  "k \<le> i \<Longrightarrow> i < length xs \<Longrightarrow> isOk (item xs (int i - int k))"
  "numeral m \<le> i \<Longrightarrow> i < length xs \<Longrightarrow> isOk (item xs (int i - numeral m))"
  "1 \<le> i \<Longrightarrow> i < length xs \<Longrightarrow> isOk (item xs (int i - 1))"
  using item_back [of k i xs] item_back [of "numeral m" i xs] item_back [of 1 i xs] by simp_all

subsection \<open>Chains of and, or, and comparisons\<close>

fun all_of :: "bool res list \<Rightarrow> bool res" where
  "all_of [] = Inr True"
| "all_of (p # ps) = bindR p (\<lambda>b. if b then all_of ps else Inr False)"

fun any_of :: "bool res list \<Rightarrow> bool res" where
  "any_of [] = Inr False"
| "any_of (p # ps) = bindR p (\<lambda>b. if b then Inr True else any_of ps)"

definition holds :: "bool \<Rightarrow> bool res" where
  "holds b = Inr b"

text \<open>\<open>if condition: return then ... else\<close> for a condition that may raise.\<close>

definition ifR :: "bool res \<Rightarrow> 'a res \<Rightarrow> 'a res \<Rightarrow> 'a res" where
  "ifR c p q = bindR c (\<lambda>b. if b then p else q)"

definition mapE :: "('a \<Rightarrow> 'b) \<Rightarrow> 'a res \<Rightarrow> 'b res" where
  "mapE f m = bindR m (\<lambda>x. Inr (f x))"

text \<open>\<open>x < m\<close>, \<open>x <= m\<close>, \<open>x > m\<close> and \<open>x >= m\<close> where evaluating \<open>m\<close> may raise.\<close>

definition below :: "pyfloat \<Rightarrow> pyfloat res \<Rightarrow> bool res" where
  "below x m = mapE (\<lambda>y. flt x y) m"

definition atmost :: "pyfloat \<Rightarrow> pyfloat res \<Rightarrow> bool res" where
  "atmost x m = mapE (\<lambda>y. fle x y) m"

definition above :: "pyfloat \<Rightarrow> pyfloat res \<Rightarrow> bool res" where
  "above x m = mapE (\<lambda>y. flt y x) m"

definition atleast :: "pyfloat \<Rightarrow> pyfloat res \<Rightarrow> bool res" where
  "atleast x m = mapE (\<lambda>y. fle y x) m"

lemma mapE_simps [simp]: "mapE f (Inr x) = Inr (f x)" "mapE f (Inl e) = Inl e"
  by (simp_all add: mapE_def)

text \<open>What a call returns, when it is known not to raise: a value of the set \<open>A\<close>.\<close>

definition returns :: "'a res \<Rightarrow> 'a set \<Rightarrow> bool" where
  "returns m A \<longleftrightarrow> (\<exists>x\<in>A. m = Inr x)"

lemma isOk_bindR [ok_intros]: "isOk m \<Longrightarrow> (\<And>x. isOk (f x)) \<Longrightarrow> isOk (bindR m f)"
  by (cases m) simp_all

lemma isOk_Inr [ok_intros]: "isOk (Inr x)"
  by simp

lemma isOk_item_if [ok_intros]:
  "isOk (item xs a) \<Longrightarrow> isOk (item xs b) \<Longrightarrow> isOk (item xs (if c then a else b))"
  by simp

lemma isOk_holds [ok_intros]: "isOk (holds b)"
  by (simp add: holds_def)

lemma isOk_mapE [ok_intros]: "isOk m \<Longrightarrow> isOk (mapE f m)"
  by (cases m) simp_all

lemma isOk_comparison [ok_intros]:
  "isOk m \<Longrightarrow> isOk (below x m)" "isOk m \<Longrightarrow> isOk (atmost x m)"
  "isOk m \<Longrightarrow> isOk (above x m)" "isOk m \<Longrightarrow> isOk (atleast x m)"
  by (simp_all add: below_def atmost_def above_def atleast_def isOk_mapE)

lemma isOk_all_of_Nil [ok_intros]: "isOk (all_of [])"
  by simp

lemma isOk_all_of_Cons [ok_intros]: "isOk p \<Longrightarrow> isOk (all_of ps) \<Longrightarrow> isOk (all_of (p # ps))"
  by (cases p) simp_all

lemma isOk_any_of_Nil [ok_intros]: "isOk (any_of [])"
  by simp

lemma isOk_any_of_Cons [ok_intros]: "isOk p \<Longrightarrow> isOk (any_of ps) \<Longrightarrow> isOk (any_of (p # ps))"
  by (cases p) simp_all

lemma returns_Inr [ok_intros]: "x \<in> A \<Longrightarrow> returns (Inr x) A"
  by (simp add: returns_def)

lemma returns_bindR [ok_intros]:
  "isOk m \<Longrightarrow> (\<And>x. returns (f x) A) \<Longrightarrow> returns (bindR m f) A"
  by (cases m) simp_all

lemma returns_mapE [ok_intros]: "isOk m \<Longrightarrow> (\<And>x. f x \<in> A) \<Longrightarrow> returns (mapE f m) A"
  by (cases m) (simp_all add: returns_def)

lemma returns_ifR [ok_intros]:
  "isOk c \<Longrightarrow> returns p A \<Longrightarrow> returns q A \<Longrightarrow> returns (ifR c p q) A"
  by (cases c) (simp_all add: ifR_def)

lemma returns_if [ok_intros]: "returns p A \<Longrightarrow> returns q A \<Longrightarrow> returns (if c then p else q) A"
  by simp

lemma member_if [ok_intros]: "x \<in> A \<Longrightarrow> y \<in> A \<Longrightarrow> (if c then x else y) \<in> A"
  by simp

lemma isOk_if [ok_intros]: "isOk p \<Longrightarrow> isOk q \<Longrightarrow> isOk (if c then p else q)"
  by simp

lemma returnsE: "returns m A \<Longrightarrow> (\<And>x. m = Inr x \<Longrightarrow> x \<in> A \<Longrightarrow> P) \<Longrightarrow> P"
  by (auto simp: returns_def)

lemma mapR_returns:
  assumes "\<And>x. x \<in> set xs \<Longrightarrow> returns (f x) A"
  obtains ys where "mapR f xs = Inr ys" and "set ys \<subseteq> A" and "length ys = length xs"
proof -
  have "\<exists>ys. mapR f xs = Inr ys \<and> set ys \<subseteq> A \<and> length ys = length xs"
    using assms
  proof (induction xs)
    case (Cons x xs)
    then obtain ys where "mapR f xs = Inr ys" "set ys \<subseteq> A" "length ys = length xs" by auto
    moreover obtain y where "f x = Inr y" "y \<in> A" using Cons.prems [of x] by (auto simp: returns_def)
    ultimately show ?case by auto
  qed simp
  then show ?thesis using that by blast
qed

lemma mapR_cong: "(\<And>x. x \<in> set xs \<Longrightarrow> f x = g x) \<Longrightarrow> mapR f xs = mapR g xs"
  by (induction xs) simp_all

lemma mapR_append:
  "mapR f (xs @ ys) = bindR (mapR f xs) (\<lambda>us. bindR (mapR f ys) (\<lambda>vs. Inr (us @ vs)))"
  by (induction xs) (cases "mapR f ys"; simp add: bindR_assoc)+

lemma mapR_nth: "mapR f xs = Inr ys \<Longrightarrow> i < length xs \<Longrightarrow> f (xs ! i) = Inr (ys ! i)"
proof (induction xs arbitrary: ys i)
  case (Cons x xs)
  then show ?case by (cases i) (auto simp: bindR_eq_Inr)
qed simp

subsection \<open>Division by a number that is not zero\<close>

definition fquot :: "pyfloat \<Rightarrow> pyfloat \<Rightarrow> pyfloat" where
  "fquot a b = (case fdiv a b of Inr q \<Rightarrow> q | Inl _ \<Rightarrow> NaN)"

lemma fdiv_fquot: "b \<noteq> Fin 0 \<Longrightarrow> fdiv a b = Inr (fquot a b)"
  by (cases a; cases b) (simp_all add: fquot_def)

lemma f64r_ge_1: "1 \<le> q \<Longrightarrow> 1 \<le> f64r q"
  using f64r_mono [of 1 q] by (simp add: f64r_literal)

lemma float_of_nat_pos: "0 < n \<Longrightarrow> flt (Fin 0) (float_of_int (int n))"
proof -
  assume "0 < n"
  then have "1 \<le> f64r (of_nat n)" by (intro f64r_ge_1) simp
  then show ?thesis by (auto simp: float_of_int_def fround_def Let_def)
qed

lemma float_of_nat_nonzero: "0 < n \<Longrightarrow> float_of_int (int n) \<noteq> Fin 0"
  using float_of_nat_pos [of n] by auto

end
