(* ===== verification/Replay.thy ===== *)
theory Replay
  imports Conditions
begin

section \<open>Incremental states and the batch series they replay\<close>

text \<open>
  Every indicator and every pattern of the program has two execution paths: a function of the
  whole history that returns one value per bar, and a state object that is fed one bar at a time.
  The two are required to agree. The locale \<open>incremental\<close> states what a state object and a batch
  function have to satisfy for that, and proves what follows for every one of them: replaying a
  history returns the batch series, the batch series is causal (a longer history does not change
  the values of a prefix), and a state that was seeded with a prefix goes on with the rest.
\<close>

fun replay :: "('s \<Rightarrow> 'a \<Rightarrow> ('s \<times> 'b) res) \<Rightarrow> 's \<Rightarrow> 'a list \<Rightarrow> ('s \<times> 'b list) res" where
  "replay update s [] = Inr (s, [])"
| "replay update s (x # xs) =
     bindR (update s x) (\<lambda>(s', y). bindR (replay update s' xs) (\<lambda>(t, ys). Inr (t, y # ys)))"

lemma replay_append:
  "replay update s (xs @ ys) =
     bindR (replay update s xs) (\<lambda>(t, us). bindR (replay update t ys) (\<lambda>(u, vs). Inr (u, us @ vs)))"
  by (induction xs arbitrary: s)
     (auto simp: bindR_def split: sum.splits prod.splits)

text \<open>A state whose update never raises.\<close>

definition total_update :: "('s \<Rightarrow> 'a \<Rightarrow> 's \<times> 'b) \<Rightarrow> 's \<Rightarrow> 'a \<Rightarrow> ('s \<times> 'b) res" where
  "total_update f s x = Inr (f s x)"

lemma total_update_eq [simp]: "total_update f s x = Inr (f s x)"
  by (simp add: total_update_def)

text \<open>A batch that succeeds and whose series a state replays.\<close>

definition replays :: "'b list res \<Rightarrow> ('s \<Rightarrow> 'a \<Rightarrow> ('s \<times> 'b) res) \<Rightarrow> 's \<Rightarrow> 'a list \<Rightarrow> bool" where
  "replays batch update start xs \<longleftrightarrow>
     (\<exists>ys s. batch = Inr ys \<and> length ys = length xs \<and> replay update start xs = Inr (s, ys))"

locale incremental =
  fixes start :: "'s"
    and update :: "'s \<Rightarrow> 'a \<Rightarrow> ('s \<times> 'b) res"
    and series :: "'a list \<Rightarrow> 'b list"
    and reached :: "'a list \<Rightarrow> 's \<Rightarrow> bool"
  assumes start_reached: "reached [] start"
    and series_Nil: "series [] = []"
    and update_reached:
      "reached xs s \<Longrightarrow> \<exists>s' y. update s x = Inr (s', y) \<and> reached (xs @ [x]) s' \<and>
         series (xs @ [x]) = series xs @ [y]"
begin

lemma replay_reached: "\<exists>s. replay update start xs = Inr (s, series xs) \<and> reached xs s"
proof (induction xs rule: rev_induct)
  case Nil
  then show ?case using start_reached series_Nil by simp
next
  case (snoc x xs)
  then obtain s where s: "replay update start xs = Inr (s, series xs)" "reached xs s" by blast
  obtain s' y where "update s x = Inr (s', y)" "reached (xs @ [x]) s'"
      "series (xs @ [x]) = series xs @ [y]"
    using update_reached [OF s(2)] by blast
  then show ?case using s(1) by (auto simp: replay_append)
qed

lemma replay_series: "\<exists>s. replay update start xs = Inr (s, series xs)"
  using replay_reached [of xs] by blast

lemma series_length: "length (series xs) = length xs"
proof (induction xs rule: rev_induct)
  case (snoc x xs)
  obtain s where "reached xs s" using replay_reached by blast
  then obtain y where "series (xs @ [x]) = series xs @ [y]" using update_reached by blast
  then show ?case using snoc by simp
qed (simp add: series_Nil)

lemma series_replays: "batch = Inr (series xs) \<Longrightarrow> replays batch update start xs"
  using replay_series [of xs] series_length by (auto simp: replays_def)

lemma series_append: "\<exists>zs. series (xs @ ys) = series xs @ zs"
proof (induction ys rule: rev_induct)
  case (snoc y ys)
  obtain s where "reached (xs @ ys) s" using replay_reached by blast
  then obtain v where "series ((xs @ ys) @ [y]) = series (xs @ ys) @ [v]" using update_reached by blast
  then show ?case using snoc by auto
qed simp

lemma series_causal: "take n (series xs) = series (take n xs)"
proof -
  obtain zs where "series (take n xs @ drop n xs) = series (take n xs) @ zs"
    using series_append by blast
  then show ?thesis by (auto simp: series_length min_def)
qed

lemma seeded_continues:
  assumes "replay update start xs = Inr (s, us)"
  shows "\<exists>t. replay update s ys = Inr (t, drop (length xs) (series (xs @ ys)))"
proof -
  obtain u where u: "replay update start (xs @ ys) = Inr (u, series (xs @ ys))"
    using replay_series by blast
  obtain w where w: "replay update start xs = Inr (w, series xs)" using replay_series by blast
  with assms have us: "us = series xs" by simp
  from u assms obtain t vs where "replay update s ys = Inr (t, vs)" "us @ vs = series (xs @ ys)"
    by (auto simp: replay_append bindR_eq_Inr)
  moreover have "drop (length xs) (us @ vs) = vs" by (simp add: us series_length)
  ultimately show ?thesis by auto
qed

end

subsection \<open>Series computed by a loop that never raises\<close>

fun outs :: "('s \<Rightarrow> 'a \<Rightarrow> 's \<times> 'b) \<Rightarrow> 's \<Rightarrow> 'a list \<Rightarrow> 'b list" where
  "outs f s [] = []"
| "outs f s (x # xs) = (case f s x of (s', y) \<Rightarrow> y # outs f s' xs)"

fun state_after :: "('s \<Rightarrow> 'a \<Rightarrow> 's \<times> 'b) \<Rightarrow> 's \<Rightarrow> 'a list \<Rightarrow> 's" where
  "state_after f s [] = s"
| "state_after f s (x # xs) = state_after f (fst (f s x)) xs"

lemma outs_length [simp]: "length (outs f s xs) = length xs"
  by (induction xs arbitrary: s) (auto split: prod.split)

lemma outs_snoc: "outs f s (xs @ [x]) = outs f s xs @ [snd (f (state_after f s xs) x)]"
  by (induction xs arbitrary: s) (auto split: prod.split)

lemma state_after_snoc: "state_after f s (xs @ [x]) = fst (f (state_after f s xs) x)"
  by (induction xs arbitrary: s) auto

text \<open>A loop over a loop's values, two loops side by side, and a loop over mapped inputs are loops.\<close>

definition piped :: "('s \<Rightarrow> 'a \<Rightarrow> 's \<times> 'b) \<Rightarrow> ('t \<Rightarrow> 'b \<Rightarrow> 't \<times> 'c) \<Rightarrow> 's \<times> 't \<Rightarrow> 'a \<Rightarrow> ('s \<times> 't) \<times> 'c" where
  "piped f g st x = (case f (fst st) x of (s', y) \<Rightarrow> case g (snd st) y of (t', z) \<Rightarrow> ((s', t'), z))"

definition beside :: "('s \<Rightarrow> 'a \<Rightarrow> 's \<times> 'b) \<Rightarrow> ('t \<Rightarrow> 'a \<Rightarrow> 't \<times> 'c) \<Rightarrow> 's \<times> 't \<Rightarrow> 'a \<Rightarrow> ('s \<times> 't) \<times> ('b \<times> 'c)" where
  "beside f g st x = (case f (fst st) x of (s', y) \<Rightarrow> case g (snd st) x of (t', z) \<Rightarrow> ((s', t'), (y, z)))"

definition reading :: "('a \<Rightarrow> 'b) \<Rightarrow> ('s \<Rightarrow> 'b \<Rightarrow> 's \<times> 'c) \<Rightarrow> 's \<Rightarrow> 'a \<Rightarrow> 's \<times> 'c" where
  "reading h f s x = f s (h x)"

definition giving :: "('b \<Rightarrow> 'c) \<Rightarrow> ('s \<Rightarrow> 'a \<Rightarrow> 's \<times> 'b) \<Rightarrow> 's \<Rightarrow> 'a \<Rightarrow> 's \<times> 'c" where
  "giving h f s x = (case f s x of (s', y) \<Rightarrow> (s', h y))"

lemma outs_piped: "outs g t (outs f s xs) = outs (piped f g) (s, t) xs"
  by (induction xs arbitrary: s t) (auto simp: piped_def split: prod.split)

lemma outs_beside: "zip (outs f s xs) (outs g t xs) = outs (beside f g) (s, t) xs"
  by (induction xs arbitrary: s t) (auto simp: beside_def split: prod.split)

lemma outs_reading: "outs f s (map h xs) = outs (reading h f) s xs"
  by (induction xs arbitrary: s) (auto simp: reading_def split: prod.split)

lemma outs_giving: "map h (outs f s xs) = outs (giving h f) s xs"
  by (induction xs arbitrary: s) (auto simp: giving_def split: prod.split)

lemma map_as_outs: "map h xs = outs (\<lambda>u x. (u, h x)) () xs"
  by (induction xs) auto

lemmas outs_laws = outs_piped outs_beside outs_reading outs_giving

text \<open>Two loops whose states correspond return the same values.\<close>

lemma outs_simulation:
  assumes "R s t" and "\<And>s t x. R s t \<Longrightarrow> R (fst (f s x)) (fst (g t x)) \<and> snd (f s x) = snd (g t x)"
  shows "outs f s xs = outs g t xs"
  using assms(1)
proof (induction xs arbitrary: s t)
  case (Cons x xs)
  then show ?case
    using assms(2) [OF Cons.prems, of x] by (cases "f s x"; cases "g t x") auto
qed simp

locale loop_series =
  fixes start :: "'s" and step :: "'s \<Rightarrow> 'a \<Rightarrow> 's \<times> 'b" and series :: "'a list \<Rightarrow> 'b list"
  assumes series_loop: "series xs = outs step start xs"

sublocale loop_series \<subseteq> incremental start "total_update step" series "\<lambda>xs s. s = state_after step start xs"
proof
  show "\<exists>s' y. total_update step s x = Inr (s', y) \<and> s' = state_after step start (xs @ [x]) \<and>
      series (xs @ [x]) = series xs @ [y]" if "s = state_after step start xs" for xs s x
    using that by (cases "step s x") (auto simp: series_loop outs_snoc state_after_snoc)
qed (simp_all add: series_loop)

end
