(* ===== verification/IndicatorPrimitives.thy ===== *)
theory IndicatorPrimitives
  imports Candle Replay
begin

section \<open>Indicator primitives (core_lib/indicators/primitives.py)\<close>

text \<open>
  The rolling and recursive averages, extremes and changes every indicator is made of, in both
  editions the code has: a batch function over the whole series (its name ends in \<open>_series\<close> here)
  and a state fed value by value. A period is checked when a series is computed and when a state is
  made; the loops then carry it as a count. Series are lists of floats with NaN where the value is
  not defined yet. Each state is shown to return the batch series through the locale
  \<open>loop_series\<close>, in the same order of float operations.
\<close>

definition validate_period :: "int \<Rightarrow> unit res" where
  "validate_period period = raise_if (period \<le> 0) (ValueError ''period must be positive'') (Inr ())"

definition with_period :: "int \<Rightarrow> 'a \<Rightarrow> 'a res" where
  "with_period period x = bindR (validate_period period) (\<lambda>_. Inr x)"

definition safe_divide :: "pyfloat \<Rightarrow> pyfloat \<Rightarrow> pyfloat \<Rightarrow> pyfloat res" where
  "safe_divide numerator denominator on_zero =
     (if is_nan numerator \<or> is_nan denominator then Inr NaN
      else if feq denominator (Fin 0) then
        raise_if (is_nan on_zero) (ValueError ''on_zero must be finite'') (Inr on_zero)
      else fdiv numerator denominator)"

definition hl2 :: "candle list \<Rightarrow> pyfloat list" where
  "hl2 cs = map (\<lambda>c. fquot (fadd (c_high c) (c_low c)) (Fin 2)) cs"

definition hlcc4 :: "candle list \<Rightarrow> pyfloat list" where
  "hlcc4 cs = map (\<lambda>c. fquot (fadd (fadd (c_high c) (c_low c)) (fmul (Fin 2) (c_close c))) (Fin 4)) cs"

definition ohlc4 :: "candle list \<Rightarrow> pyfloat list" where
  "ohlc4 cs = map (\<lambda>c. fquot (fadd (fadd (fadd (c_open c) (c_high c)) (c_low c)) (c_close c)) (Fin 4)) cs"

definition typical_price :: "candle \<Rightarrow> pyfloat" where
  "typical_price c = fquot (fadd (fadd (c_high c) (c_low c)) (c_close c)) (Fin 3)"

definition tp_series :: "candle list \<Rightarrow> pyfloat list" where
  "tp_series cs = map typical_price cs"

subsection \<open>Simple moving average\<close>

text \<open>The window, the running total and the count of NaN values in the window.\<close>

fun sma_loop :: "nat \<Rightarrow> pyfloat list \<Rightarrow> pyfloat \<Rightarrow> int \<Rightarrow> pyfloat list \<Rightarrow> pyfloat list" where
  "sma_loop n window acc invalid [] = []"
| "sma_loop n window acc invalid (v # vs) =
     (let window = window @ [v];
          (acc, invalid) = (if is_nan v then (acc, invalid + 1) else (fadd acc v, invalid));
          (window, acc, invalid) =
            (if n < length window
             then (let removed = hd window in
               if is_nan removed then (tl window, acc, invalid - 1)
               else (tl window, fsub acc removed, invalid))
             else (window, acc, invalid))
      in (if length window = n \<and> invalid = 0 then fquot acc (float_of_int (int n)) else NaN) #
         sma_loop n window acc invalid vs)"

definition sma_series :: "pyfloat list \<Rightarrow> int \<Rightarrow> pyfloat list res" where
  "sma_series vs period = with_period period (sma_loop (nat period) [] (Fin 0) 0 vs)"

record sma_state =
  sma_window :: "pyfloat list"
  sma_total :: pyfloat
  sma_invalid :: int

definition sma_start :: sma_state where
  "sma_start = \<lparr>sma_window = [], sma_total = Fin 0, sma_invalid = 0\<rparr>"

definition sma_warmed_up :: "nat \<Rightarrow> sma_state \<Rightarrow> bool" where
  "sma_warmed_up n s \<longleftrightarrow> length (sma_window s) = n \<and> sma_invalid s = 0"

definition sma_current :: "nat \<Rightarrow> sma_state \<Rightarrow> pyfloat" where
  "sma_current n s = (if sma_warmed_up n s then fquot (sma_total s) (float_of_int (int n)) else NaN)"

definition sma_update :: "nat \<Rightarrow> sma_state \<Rightarrow> pyfloat \<Rightarrow> sma_state \<times> pyfloat" where
  "sma_update n s v =
     (let s1 = s\<lparr>sma_window := sma_window s @ [v]\<rparr>;
          s2 = (if is_nan v then s1\<lparr>sma_invalid := sma_invalid s1 + 1\<rparr>
                else s1\<lparr>sma_total := fadd (sma_total s1) v\<rparr>);
          s3 = (if n < length (sma_window s2)
                then (let removed = hd (sma_window s2); s' = s2\<lparr>sma_window := tl (sma_window s2)\<rparr> in
                  if is_nan removed then s'\<lparr>sma_invalid := sma_invalid s' - 1\<rparr>
                  else s'\<lparr>sma_total := fsub (sma_total s') removed\<rparr>)
                else s2)
      in (s3, sma_current n s3))"

lemma sma_loop_step:
  "sma_loop n (sma_window s) (sma_total s) (sma_invalid s) (v # vs) =
     snd (sma_update n s v) # (let s' = fst (sma_update n s v) in
       sma_loop n (sma_window s') (sma_total s') (sma_invalid s') vs)"
  by (simp add: sma_update_def sma_current_def sma_warmed_up_def Let_def)

lemma sma_loop_outs:
  "sma_loop n (sma_window s) (sma_total s) (sma_invalid s) vs = outs (sma_update n) s vs"
proof (induction vs arbitrary: s)
  case (Cons v vs)
  show ?case
    unfolding sma_loop_step Let_def Cons by (cases "sma_update n s v") simp
qed simp

interpretation sma: loop_series sma_start "sma_update n" "sma_loop n [] (Fin 0) 0" for n
  by unfold_locales (use sma_loop_outs [of n sma_start] in \<open>simp add: sma_start_def\<close>)

subsection \<open>Recursive averages: EMA and RMA\<close>

definition push_max :: "nat \<Rightarrow> 'a list \<Rightarrow> 'a \<Rightarrow> 'a list" where
  "push_max n xs x = (let ys = xs @ [x] in if n < length ys then tl ys else ys)"

fun recursive_loop :: "nat \<Rightarrow> pyfloat \<Rightarrow> pyfloat list \<Rightarrow> pyfloat option \<Rightarrow> pyfloat list \<Rightarrow> pyfloat list" where
  "recursive_loop n alpha seed current [] = []"
| "recursive_loop n alpha seed current (v # vs) =
     (if is_nan v then NaN # recursive_loop n alpha (if current = None then [] else seed) current vs
      else (case current of
        None \<Rightarrow>
          (let seed' = push_max n seed v in
           if length seed' < n then NaN # recursive_loop n alpha seed' None vs
           else (let c = fquot (py_fsum seed') (float_of_int (int n)) in
             c # recursive_loop n alpha seed' (Some c) vs))
      | Some c \<Rightarrow>
          (let c' = fadd c (fmul alpha (fsub v c)) in
           c' # recursive_loop n alpha seed (Some c') vs)))"

definition recursive_average :: "pyfloat list \<Rightarrow> int \<Rightarrow> pyfloat \<Rightarrow> pyfloat list res" where
  "recursive_average vs period alpha = with_period period (recursive_loop (nat period) alpha [] None vs)"

definition ema_alpha :: "int \<Rightarrow> pyfloat" where
  "ema_alpha period = fquot (Fin 2) (fadd (float_of_int period) (Fin 1))"

definition rma_alpha :: "int \<Rightarrow> pyfloat" where
  "rma_alpha period = fquot (Fin 1) (float_of_int period)"

definition ema_series :: "pyfloat list \<Rightarrow> int \<Rightarrow> pyfloat list res" where
  "ema_series vs period =
     bindR (validate_period period) (\<lambda>_. recursive_average vs period (ema_alpha period))"

definition rma_series :: "pyfloat list \<Rightarrow> int \<Rightarrow> pyfloat list res" where
  "rma_series vs period =
     bindR (validate_period period) (\<lambda>_. recursive_average vs period (rma_alpha period))"

record average_value_state =
  av_seed :: "pyfloat list"
  av_value :: "pyfloat option"

definition average_empty :: average_value_state where
  "average_empty = \<lparr>av_seed = [], av_value = None\<rparr>"

definition average_warm :: "average_value_state \<Rightarrow> bool" where
  "average_warm s \<longleftrightarrow> av_value s \<noteq> None"

definition average_current :: "average_value_state \<Rightarrow> pyfloat" where
  "average_current s = (case av_value s of Some v \<Rightarrow> v | None \<Rightarrow> NaN)"

definition average_step ::
    "nat \<Rightarrow> pyfloat \<Rightarrow> average_value_state \<Rightarrow> pyfloat \<Rightarrow> average_value_state \<times> pyfloat" where
  "average_step n alpha s v =
     (if is_nan v then (if av_value s = None then s\<lparr>av_seed := []\<rparr> else s, NaN)
      else
        (let s' = (case av_value s of
            None \<Rightarrow>
              (let s1 = s\<lparr>av_seed := av_seed s @ [v]\<rparr> in
               if length (av_seed s1) = n
               then s1\<lparr>av_value := Some (fquot (py_fsum (av_seed s1)) (float_of_int (int n))), av_seed := []\<rparr>
               else s1)
          | Some c \<Rightarrow> s\<lparr>av_value := Some (fadd c (fmul alpha (fsub v c)))\<rparr>)
         in (s', average_current s')))"

definition ema_update :: "nat \<Rightarrow> average_value_state \<Rightarrow> pyfloat \<Rightarrow> average_value_state \<times> pyfloat" where
  "ema_update n = average_step n (ema_alpha (int n))"

definition rma_update :: "nat \<Rightarrow> average_value_state \<Rightarrow> pyfloat \<Rightarrow> average_value_state \<times> pyfloat" where
  "rma_update n = average_step n (rma_alpha (int n))"

lemma recursive_loop_outs:
  assumes "0 < n" and "av_value s = None \<Longrightarrow> seed = av_seed s \<and> length seed < n"
  shows "recursive_loop n alpha seed (av_value s) vs = outs (average_step n alpha) s vs"
  using assms(2)
proof (induction vs arbitrary: s seed)
  case (Cons v vs)
  let ?mean = "\<lambda>xs. fquot (py_fsum xs) (float_of_int (int n))"
  consider (nan) "is_nan v" "av_value s = None" | (skip) c where "is_nan v" "av_value s = Some c"
    | (move) c where "\<not> is_nan v" "av_value s = Some c"
    | (fill) "\<not> is_nan v" "av_value s = None" "length (seed @ [v]) < n"
    | (full) "\<not> is_nan v" "av_value s = None" "\<not> length (seed @ [v]) < n"
    by fastforce
  then show ?case
  proof cases
    case nan
    then have "average_step n alpha s v = (s\<lparr>av_seed := []\<rparr>, NaN)" by (simp add: average_step_def)
    then show ?thesis using Cons.IH [of "s\<lparr>av_seed := []\<rparr>" "[]"] nan assms(1) by simp
  next
    case skip
    then have "average_step n alpha s v = (s, NaN)" by (simp add: average_step_def)
    then show ?thesis using Cons.IH [of s seed] skip by simp
  next
    case move
    let ?c = "fadd c (fmul alpha (fsub v c))"
    have "average_step n alpha s v = (s\<lparr>av_value := Some ?c\<rparr>, ?c)"
      using move by (simp add: average_step_def average_current_def)
    then show ?thesis using Cons.IH [of "s\<lparr>av_value := Some ?c\<rparr>" seed] move by (simp add: Let_def)
  next
    case fill
    then have seed: "seed = av_seed s" "push_max n seed v = seed @ [v]"
      using Cons.prems by (auto simp: push_max_def)
    then have "average_step n alpha s v = (s\<lparr>av_seed := seed @ [v]\<rparr>, NaN)"
      using fill by (simp add: average_step_def average_current_def)
    then show ?thesis using Cons.IH [of "s\<lparr>av_seed := seed @ [v]\<rparr>" "seed @ [v]"] fill seed by simp
  next
    case full
    then have seed: "seed = av_seed s" "push_max n seed v = seed @ [v]" "length (seed @ [v]) = n"
      using Cons.prems by (auto simp: push_max_def)
    then have "average_step n alpha s v =
        (s\<lparr>av_seed := [], av_value := Some (?mean (seed @ [v]))\<rparr>, ?mean (seed @ [v]))"
      using full by (simp add: average_step_def average_current_def)
    then show ?thesis
      using Cons.IH [of "s\<lparr>av_seed := [], av_value := Some (?mean (seed @ [v]))\<rparr>" "seed @ [v]"] full seed
      by (simp add: Let_def)
  qed
qed simp

interpretation averages: loop_series average_empty "average_step (Suc n) alpha"
    "recursive_loop (Suc n) alpha [] None" for n alpha
  by unfold_locales
    (use recursive_loop_outs [of "Suc n" average_empty "[]" alpha] in \<open>simp add: average_empty_def\<close>)

subsection \<open>Weighted average, population deviation, true range\<close>

definition wma_value :: "nat \<Rightarrow> pyfloat list \<Rightarrow> pyfloat" where
  "wma_value n window =
     fquot (py_fsum (map (\<lambda>(weight, x). fmul (float_of_int (int weight)) x) (zip [1..<Suc (length window)] window)))
       (fquot (float_of_int (int (n * (n + 1)))) (Fin 2))"

fun wma_loop :: "nat \<Rightarrow> pyfloat list \<Rightarrow> pyfloat list \<Rightarrow> pyfloat list" where
  "wma_loop n window [] = []"
| "wma_loop n window (v # vs) =
     (let window = push_max n window v in
      (if length window < n \<or> list_ex is_nan window then NaN else wma_value n window) # wma_loop n window vs)"

definition wma_series :: "pyfloat list \<Rightarrow> int \<Rightarrow> pyfloat list res" where
  "wma_series vs period = with_period period (wma_loop (nat period) [] vs)"

text \<open>\<open>math.sqrt\<close>: the root of the scaled integer with a sticky half, rounded once.\<close>

fun isqrt :: "nat \<Rightarrow> nat" where
  "isqrt n = (if n < 2 then n else (let s = 2 * isqrt (n div 4) in if (s + 1) * (s + 1) \<le> n then s + 1 else s))"

declare isqrt.simps [simp del]

definition sqrt_exp :: "rat \<Rightarrow> nat" where
  "sqrt_exp q = nat (60 - mag 2 q)"

definition sqrt_rat :: "rat \<Rightarrow> rat" where
  "sqrt_rat q =
     (let k = sqrt_exp q; n = nat \<lfloor>q * 4 ^ k\<rfloor>; s = isqrt n in
      (if of_nat (s * s) = q * 4 ^ k then of_nat s else of_nat s + 1 / 2) / 2 ^ k)"

fun fsqrt :: "pyfloat \<Rightarrow> pyfloat res" where
  "fsqrt (Fin q) = (if q < 0 then Inl (ValueError ''math domain error'') else Inr (fround (sqrt_rat q)))"
| "fsqrt PInf = Inr PInf"
| "fsqrt NInf = Inl (ValueError ''math domain error'')"
| "fsqrt NaN = Inr NaN"

record stdev_state =
  sd_window :: "pyfloat list"
  sd_count :: int
  sd_invalid :: int
  sd_mean :: pyfloat
  sd_m2 :: pyfloat

definition stdev_start :: stdev_state where
  "stdev_start = \<lparr>sd_window = [], sd_count = 0, sd_invalid = 0, sd_mean = Fin 0, sd_m2 = Fin 0\<rparr>"

definition stdev_add :: "pyfloat \<Rightarrow> stdev_state \<Rightarrow> stdev_state" where
  "stdev_add v s =
     (let count = sd_count s + 1; delta = fsub v (sd_mean s);
          mean = fadd (sd_mean s) (fquot delta (float_of_int count))
      in s\<lparr>sd_count := count, sd_mean := mean, sd_m2 := fadd (sd_m2 s) (fmul delta (fsub v mean))\<rparr>)"

definition stdev_remove :: "pyfloat \<Rightarrow> stdev_state \<Rightarrow> stdev_state" where
  "stdev_remove v s =
     (if sd_count s = 1 then s\<lparr>sd_count := 0, sd_mean := Fin 0, sd_m2 := Fin 0\<rparr>
      else
        (let count = sd_count s - 1;
             mean = fsub (sd_mean s) (fquot (fsub v (sd_mean s)) (float_of_int count));
             m2 = fsub (sd_m2 s) (fmul (fsub v (sd_mean s)) (fsub v mean))
         in s\<lparr>sd_count := count, sd_mean := mean, sd_m2 := fmax (Fin 0) m2\<rparr>))"

definition stdev_warmed_up :: "nat \<Rightarrow> stdev_state \<Rightarrow> bool" where
  "stdev_warmed_up n s \<longleftrightarrow> length (sd_window s) = n \<and> sd_invalid s = 0 \<and> sd_count s = int n"

definition stdev_current :: "nat \<Rightarrow> stdev_state \<Rightarrow> pyfloat res" where
  "stdev_current n s =
     (if \<not> stdev_warmed_up n s then Inr NaN
      else fsqrt (fquot (fmax (Fin 0) (sd_m2 s)) (float_of_int (int n))))"

definition stdev_moved :: "nat \<Rightarrow> stdev_state \<Rightarrow> pyfloat \<Rightarrow> stdev_state" where
  "stdev_moved n s v =
     (let s1 = s\<lparr>sd_window := sd_window s @ [v]\<rparr>;
          s2 = (if is_nan v then s1\<lparr>sd_invalid := sd_invalid s1 + 1\<rparr> else stdev_add v s1)
      in if n < length (sd_window s2)
         then (let removed = hd (sd_window s2); s3 = s2\<lparr>sd_window := tl (sd_window s2)\<rparr> in
           if is_nan removed then s3\<lparr>sd_invalid := sd_invalid s3 - 1\<rparr> else stdev_remove removed s3)
         else s2)"

definition stdev_update :: "nat \<Rightarrow> stdev_state \<Rightarrow> pyfloat \<Rightarrow> (stdev_state \<times> pyfloat) res" where
  "stdev_update n s v =
     (let s' = stdev_moved n s v in bindR (stdev_current n s') (\<lambda>x. Inr (s', x)))"

definition stdev_series :: "pyfloat list \<Rightarrow> int \<Rightarrow> pyfloat list res" where
  "stdev_series vs period =
     bindR (validate_period period) (\<lambda>_.
     bindR (replay (stdev_update (nat period)) stdev_start vs) (\<lambda>(_, ys). Inr ys))"

definition true_range_value :: "candle \<Rightarrow> pyfloat option \<Rightarrow> pyfloat" where
  "true_range_value c previous_close =
     (case previous_close of
        None \<Rightarrow> fsub (c_high c) (c_low c)
      | Some p \<Rightarrow> fmax (fmax (fsub (c_high c) (c_low c)) (fabs (fsub (c_high c) p))) (fabs (fsub (c_low c) p)))"

fun tr_loop :: "pyfloat option \<Rightarrow> candle list \<Rightarrow> pyfloat list" where
  "tr_loop previous [] = []"
| "tr_loop previous (c # cs) = true_range_value c previous # tr_loop (Some (c_close c)) cs"

definition tr_series :: "candle list \<Rightarrow> pyfloat list" where
  "tr_series cs = tr_loop None cs"

subsection \<open>Sums, changes, regression\<close>

fun cumulative_loop :: "pyfloat \<Rightarrow> pyfloat list \<Rightarrow> pyfloat list" where
  "cumulative_loop acc [] = []"
| "cumulative_loop acc (v # vs) =
     (if is_nan v then NaN # cumulative_loop acc vs
      else (let acc = fadd acc v in acc # cumulative_loop acc vs))"

definition cumulative_series :: "pyfloat list \<Rightarrow> pyfloat list" where
  "cumulative_series vs = cumulative_loop (Fin 0) vs"

record cumulative_state =
  cu_total :: pyfloat
  cu_seen :: bool

definition cumulative_start :: cumulative_state where
  "cumulative_start = \<lparr>cu_total = Fin 0, cu_seen = False\<rparr>"

definition cumulative_update :: "cumulative_state \<Rightarrow> pyfloat \<Rightarrow> cumulative_state \<times> pyfloat" where
  "cumulative_update s v =
     (if is_nan v then (s, NaN)
      else (let acc = fadd (cu_total s) v in (s\<lparr>cu_total := acc, cu_seen := True\<rparr>, acc)))"

definition cumulative_current :: "cumulative_state \<Rightarrow> pyfloat" where
  "cumulative_current s = (if cu_seen s then cu_total s else NaN)"

definition change_value :: "pyfloat \<Rightarrow> pyfloat \<Rightarrow> pyfloat" where
  "change_value previous current =
     (if is_nan previous \<or> is_nan current then NaN else fsub current previous)"

definition roc_value :: "pyfloat \<Rightarrow> pyfloat \<Rightarrow> pyfloat" where
  "roc_value previous current =
     (if is_nan previous \<or> is_nan current \<or> feq previous (Fin 0) then NaN
      else fquot (fmul (Fin 100) (fsub current previous)) previous)"

definition lagged :: "(pyfloat \<Rightarrow> pyfloat \<Rightarrow> pyfloat) \<Rightarrow> nat \<Rightarrow> pyfloat list \<Rightarrow> pyfloat list" where
  "lagged f n vs = replicate (min n (length vs)) NaN @ map (\<lambda>i. f (vs ! (i - n)) (vs ! i)) [n..<length vs]"

definition mom_series :: "pyfloat list \<Rightarrow> int \<Rightarrow> pyfloat list res" where
  "mom_series vs period = with_period period (lagged change_value (nat period) vs)"

definition roc_series :: "pyfloat list \<Rightarrow> int \<Rightarrow> pyfloat list res" where
  "roc_series vs period = with_period period (lagged roc_value (nat period) vs)"

definition roc_current :: "nat \<Rightarrow> bool \<Rightarrow> pyfloat list \<Rightarrow> pyfloat" where
  "roc_current n percentage window =
     (if length window \<noteq> n + 1 then NaN
      else (let previous = hd window; current = last window in
        if is_nan previous \<or> is_nan current then NaN
        else if \<not> percentage then fsub current previous
        else if feq previous (Fin 0) then NaN
        else fquot (fmul (Fin 100) (fsub current previous)) previous))"

definition roc_update :: "nat \<Rightarrow> bool \<Rightarrow> pyfloat list \<Rightarrow> pyfloat \<Rightarrow> pyfloat list \<times> pyfloat" where
  "roc_update n percentage window v =
     (let window' = push_max (n + 1) window v in (window', roc_current n percentage window'))"

definition linreg_value :: "nat \<Rightarrow> pyfloat list \<Rightarrow> pyfloat" where
  "linreg_value n window =
     (let sum_x = fquot (float_of_int (int (n * (n - 1)))) (Fin 2);
          sum_x_squared = fquot (float_of_int (int (n * (n - 1) * (2 * n - 1)))) (Fin 6);
          denominator = fsub (fmul (float_of_int (int n)) sum_x_squared) (fmul sum_x sum_x);
          sum_y = py_fsum window;
          sum_xy = py_fsum (map (\<lambda>(x, v). fmul (float_of_int (int x)) v) (zip [0..<length window] window));
          slope = (if 1 < n then fquot (fsub (fmul (float_of_int (int n)) sum_xy) (fmul sum_x sum_y)) denominator
                   else Fin 0);
          intercept = fquot (fsub sum_y (fmul slope sum_x)) (float_of_int (int n))
      in fadd intercept (fmul slope (float_of_int (int n - 1))))"

definition linreg_at :: "nat \<Rightarrow> pyfloat list \<Rightarrow> nat \<Rightarrow> pyfloat" where
  "linreg_at n vs i =
     (if i + 1 < n then NaN
      else (let window = take n (drop (i + 1 - n) vs) in
        if list_ex is_nan window then NaN else linreg_value n window))"

definition linreg_series :: "pyfloat list \<Rightarrow> int \<Rightarrow> pyfloat list res" where
  "linreg_series vs period = with_period period (map (linreg_at (nat period) vs) [0..<length vs])"

subsection \<open>The states return the batch series\<close>

definition wma_step :: "nat \<Rightarrow> pyfloat list \<Rightarrow> pyfloat \<Rightarrow> pyfloat list \<times> pyfloat" where
  "wma_step n window v =
     (let window = push_max n window v in
      (window, if length window < n \<or> list_ex is_nan window then NaN else wma_value n window))"

lemma wma_loop_outs: "wma_loop n window vs = outs (wma_step n) window vs"
  by (induction vs arbitrary: window) (simp_all add: wma_step_def Let_def split: prod.split)

lemma tr_loop_outs: "tr_loop previous cs = outs (\<lambda>p c. (Some (c_close c), true_range_value c p)) previous cs"
  by (induction cs arbitrary: previous) simp_all

lemma cumulative_loop_outs: "cumulative_loop (cu_total s) vs = outs cumulative_update s vs"
proof (induction vs arbitrary: s)
  case (Cons v vs)
  have "cumulative_loop (cu_total s) (v # vs) =
      snd (cumulative_update s v) # cumulative_loop (cu_total (fst (cumulative_update s v))) vs"
    by (simp add: cumulative_update_def Let_def)
  then show ?case unfolding Cons by (cases "cumulative_update s v") simp
qed simp

interpretation cumulative: loop_series cumulative_start cumulative_update cumulative_series
  by unfold_locales (use cumulative_loop_outs [of cumulative_start] in
    \<open>simp add: cumulative_start_def cumulative_series_def\<close>)

text \<open>After the values \<open>vs\<close> a bounded window holds the last of them.\<close>

definition recent :: "nat \<Rightarrow> 'a list \<Rightarrow> 'a list" where
  "recent n vs = drop (length vs - n) vs"

lemma push_max_recent: "push_max n (recent n vs) v = recent n (vs @ [v])"
proof (cases "n \<le> length vs")
  case True
  then show ?thesis
    by (cases "n = 0") (simp_all add: push_max_def recent_def Let_def Suc_diff_le drop_Suc tl_drop)
next
  case False
  then show ?thesis by (simp add: push_max_def recent_def)
qed

lemma lagged_snoc:
  "lagged f n (vs @ [v]) = lagged f n vs @ [if n \<le> length vs then f ((vs @ [v]) ! (length vs - n)) v else NaN]"
proof (cases "n \<le> length vs")
  case True
  then show ?thesis by (auto simp: lagged_def nth_append min_def)
next
  case False
  then have "min n (length (vs @ [v])) = Suc (min n (length vs))" "[n..<length vs] = []" by simp_all
  moreover have "[n..<length (vs @ [v])] = []" using False by simp
  ultimately show ?thesis using False by (simp add: lagged_def replicate_append_same)
qed

lemma roc_window:
  assumes "n \<le> length vs"
  shows "length (recent (n + 1) (vs @ [v])) = n + 1"
    and "hd (recent (n + 1) (vs @ [v])) = (vs @ [v]) ! (length vs - n)"
    and "last (recent (n + 1) (vs @ [v])) = v"
proof -
  have eq: "recent (n + 1) (vs @ [v]) = drop (length vs - n) (vs @ [v])" by (simp add: recent_def)
  show "length (recent (n + 1) (vs @ [v])) = n + 1" unfolding eq using assms by simp
  show "hd (recent (n + 1) (vs @ [v])) = (vs @ [v]) ! (length vs - n)"
    unfolding eq by (rule hd_drop_conv_nth) simp
  show "last (recent (n + 1) (vs @ [v])) = v" unfolding eq by (simp add: last_drop)
qed

interpretation changes: incremental "[]" "total_update (roc_update n percentage)"
    "lagged (if percentage then roc_value else change_value) n" "\<lambda>vs window. window = recent (n + 1) vs"
  for n percentage
proof
  show "\<exists>s' y. total_update (roc_update n percentage) window v = Inr (s', y) \<and> s' = recent (n + 1) (vs @ [v]) \<and>
      lagged (if percentage then roc_value else change_value) n (vs @ [v]) =
        lagged (if percentage then roc_value else change_value) n vs @ [y]"
    if "window = recent (n + 1) vs" for vs window v
  proof (cases "n \<le> length vs")
    case True
    show ?thesis
      unfolding that using roc_window [OF True, of v] True
      by (simp add: roc_update_def push_max_recent lagged_snoc roc_current_def roc_value_def change_value_def Let_def)
  next
    case False
    then have "length (recent (n + 1) (vs @ [v])) \<noteq> n + 1" by (simp add: recent_def)
    then show ?thesis
      unfolding that using False
      by (simp add: roc_update_def push_max_recent lagged_snoc roc_current_def Let_def)
  qed
qed (simp_all add: recent_def lagged_def)

end
