(* ===== verification/RollingExtremes.thy ===== *)
theory RollingExtremes
  imports IndicatorPrimitives
begin

section \<open>Rolling extremes (core_lib/indicators/primitives.py)\<close>

text \<open>
  \<open>_rolling_extreme\<close>, \<open>hh\<close>, \<open>ll\<close> and \<open>RollingExtremeState\<close>: the highest or lowest of the last
  \<open>n\<close> values in amortised constant time, with a deque of the candidates that can still become the
  extreme. The specification is \<open>extreme_of\<close>: the extreme of a full window without NaN. The deque is
  shown to hold exactly the leaders of the window (the values no later one beats), so that its first
  element is the extreme; both editions follow.
\<close>

definition beats :: "bool \<Rightarrow> pyfloat \<Rightarrow> pyfloat \<Rightarrow> bool" where
  "beats highest old new = (if highest then fle old new else fle new old)"

text \<open>The two \<open>while\<close> loops: pop beaten candidates from the right, stale ones from the left.\<close>

definition pop_beaten :: "bool \<Rightarrow> pyfloat \<Rightarrow> (int \<times> pyfloat) list \<Rightarrow> (int \<times> pyfloat) list" where
  "pop_beaten highest v candidates = rev (dropWhile (\<lambda>(_, w). beats highest w v) (rev candidates))"

definition pop_stale :: "int \<Rightarrow> (int \<times> pyfloat) list \<Rightarrow> (int \<times> pyfloat) list" where
  "pop_stale oldest candidates = dropWhile (\<lambda>(j, _). j < oldest) candidates"

definition offer :: "bool \<Rightarrow> int \<Rightarrow> pyfloat \<Rightarrow> (int \<times> pyfloat) list \<Rightarrow> (int \<times> pyfloat) list" where
  "offer highest i v candidates =
     (if is_nan v then [] else pop_beaten highest v candidates @ [(i, v)])"

fun extreme_loop ::
    "nat \<Rightarrow> bool \<Rightarrow> pyfloat list \<Rightarrow> nat \<Rightarrow> (int \<times> pyfloat) list \<Rightarrow> pyfloat list \<Rightarrow> pyfloat list" where
  "extreme_loop n highest series i candidates [] = []"
| "extreme_loop n highest series i candidates (v # vs) =
     (let minimum_index = int i - int n + 1;
          candidates = pop_stale minimum_index (offer highest (int i) v candidates)
      in (if i + 1 < n \<or> candidates = [] then NaN
          else (let window = take n (drop (nat minimum_index) series) in
            if list_ex is_nan window then NaN else snd (hd candidates))) #
         extreme_loop n highest series (i + 1) candidates vs)"

definition rolling_extreme :: "pyfloat list \<Rightarrow> int \<Rightarrow> bool \<Rightarrow> pyfloat list res" where
  "rolling_extreme vs period highest =
     with_period period (extreme_loop (nat period) highest vs 0 [] vs)"

definition hh_series :: "pyfloat list \<Rightarrow> int \<Rightarrow> pyfloat list res" where
  "hh_series vs period = rolling_extreme vs period True"

definition ll_series :: "pyfloat list \<Rightarrow> int \<Rightarrow> pyfloat list res" where
  "ll_series vs period = rolling_extreme vs period False"

record extreme_state =
  ex_candidates :: "(int \<times> pyfloat) list"
  ex_window :: "pyfloat list"
  ex_index :: int
  ex_invalid :: int

definition extreme_start :: extreme_state where
  "extreme_start = \<lparr>ex_candidates = [], ex_window = [], ex_index = -1, ex_invalid = 0\<rparr>"

definition extreme_warmed_up :: "nat \<Rightarrow> extreme_state \<Rightarrow> bool" where
  "extreme_warmed_up n s \<longleftrightarrow> length (ex_window s) = n \<and> ex_invalid s = 0"

definition extreme_current :: "nat \<Rightarrow> extreme_state \<Rightarrow> pyfloat" where
  "extreme_current n s =
     (if \<not> extreme_warmed_up n s \<or> ex_candidates s = [] then NaN else snd (hd (ex_candidates s)))"

definition extreme_update :: "nat \<Rightarrow> bool \<Rightarrow> extreme_state \<Rightarrow> pyfloat \<Rightarrow> extreme_state \<times> pyfloat" where
  "extreme_update n highest s v =
     (let index = ex_index s + 1;
          window = ex_window s @ [v];
          invalid = (if is_nan v then ex_invalid s + 1 else ex_invalid s);
          candidates = offer highest index v (ex_candidates s);
          (window, invalid) =
            (if n < length window
             then (tl window, if is_nan (hd window) then invalid - 1 else invalid)
             else (window, invalid));
          s' = \<lparr>ex_candidates = pop_stale (index - int n + 1) candidates, ex_window = window,
                ex_index = index, ex_invalid = invalid\<rparr>
      in (s', extreme_current n s'))"

subsection \<open>Specification\<close>

text \<open>A window's extreme: an element of it that no element exceeds.\<close>

fun extreme_of :: "bool \<Rightarrow> pyfloat list \<Rightarrow> pyfloat" where
  "extreme_of highest [] = NaN"
| "extreme_of highest [v] = v"
| "extreme_of highest (v # vs) =
     (let w = extreme_of highest vs in if beats highest v w then w else v)"

definition extreme_at :: "nat \<Rightarrow> bool \<Rightarrow> pyfloat list \<Rightarrow> nat \<Rightarrow> pyfloat" where
  "extreme_at n highest vs i =
     (let window = recent n (take (i + 1) vs) in
      if length window < n \<or> list_ex is_nan window then NaN else extreme_of highest window)"

subsection \<open>The candidates are the leaders of the window\<close>

definition leader :: "bool \<Rightarrow> pyfloat list \<Rightarrow> nat \<Rightarrow> bool" where
  "leader highest vs j \<longleftrightarrow>
     list_all (\<lambda>w. \<not> is_nan w) (drop j vs) \<and> list_all (\<lambda>w. \<not> beats highest (vs ! j) w) (drop (Suc j) vs)"

definition leaders :: "bool \<Rightarrow> nat \<Rightarrow> pyfloat list \<Rightarrow> (int \<times> pyfloat) list" where
  "leaders highest lo vs = map (\<lambda>j. (int j, vs ! j)) (filter (leader highest vs) [lo..<length vs])"

lemma beats_total: "a \<noteq> NaN \<Longrightarrow> b \<noteq> NaN \<Longrightarrow> beats h a b \<or> beats h b a"
  by (auto simp: beats_def fle_iff flt_asym)

lemma beats_trans: "beats h a b \<Longrightarrow> beats h b c \<Longrightarrow> beats h a c"
  by (auto simp: beats_def split: if_splits intro: fle_trans)

lemma beats_not_nan: "beats h a b \<Longrightarrow> a \<noteq> NaN \<and> b \<noteq> NaN"
  by (auto simp: beats_def fle_iff split: if_splits)

lemma is_nan_iff: "is_nan x \<longleftrightarrow> x = NaN"
  by (cases x) auto

lemma dropWhile_eq_filter:
  "sorted_wrt (\<lambda>x y. P y \<longrightarrow> P x) xs \<Longrightarrow> dropWhile P xs = filter (\<lambda>x. \<not> P x) xs"
  by (induction xs) (auto simp: filter_id_conv)

lemma leader_snoc:
  assumes "j < length vs"
  shows "leader h (vs @ [v]) j \<longleftrightarrow> leader h vs j \<and> \<not> is_nan v \<and> \<not> beats h (vs ! j) v"
  using assms by (auto simp: leader_def nth_append Suc_le_eq)

lemma leader_last: "leader h (vs @ [v]) (length vs) \<longleftrightarrow> \<not> is_nan v"
  by (simp add: leader_def)

lemma leaders_decrease:
  assumes "leader h vs j" "j < k" "k < length vs"
  shows "\<not> beats h (vs ! j) (vs ! k)" and "vs ! j \<noteq> NaN"
proof -
  have "vs ! k \<in> set (drop (Suc j) vs)" 
    using assms by (auto simp: in_set_conv_nth intro!: exI [of _ "k - Suc j"])
  then show "\<not> beats h (vs ! j) (vs ! k)" using assms(1) by (auto simp: leader_def list_all_iff)
  have "vs ! j \<in> set (drop j vs)" using assms by (auto simp: in_set_conv_nth intro!: exI [of _ 0])
  then show "vs ! j \<noteq> NaN" using assms(1) by (auto simp: leader_def list_all_iff)
qed

lemma sorted_filter_upt: "sorted_wrt (<) (filter P [lo..<hi])"
  by (simp add: sorted_wrt_filter)

lemma pop_beaten_leaders:
  "pop_beaten h v (leaders h lo vs) = filter (\<lambda>(_, w). \<not> beats h w v) (leaders h lo vs)"
proof -
  let ?Q = "\<lambda>(_::int, w). beats h w v"
  have "sorted_wrt (\<lambda>j k. ?Q (int j, vs ! j) \<longrightarrow> ?Q (int k, vs ! k)) (filter (leader h vs) [lo..<length vs])"
  proof (rule sorted_wrt_mono_rel [OF _ sorted_filter_upt])
    fix j k assume jk: "j \<in> set (filter (leader h vs) [lo..<length vs])"
      "k \<in> set (filter (leader h vs) [lo..<length vs])" "j < k"
    then have "\<not> beats h (vs ! j) (vs ! k)" "vs ! j \<noteq> NaN" using leaders_decrease [of h vs j k] by auto
    moreover have "vs ! k \<noteq> NaN"
    proof -
      have "vs ! k \<in> set (drop k vs)" using jk by (auto simp: in_set_conv_nth intro!: exI [of _ 0])
      then show ?thesis using jk(2) by (auto simp: leader_def list_all_iff)
    qed
    ultimately have "beats h (vs ! k) (vs ! j)" using beats_total by blast
    then show "?Q (int j, vs ! j) \<longrightarrow> ?Q (int k, vs ! k)" by (auto intro: beats_trans)
  qed
  then have "sorted_wrt (\<lambda>x y. ?Q y \<longrightarrow> ?Q x) (rev (leaders h lo vs))"
    by (simp add: leaders_def sorted_wrt_map sorted_wrt_rev)
  from dropWhile_eq_filter [OF this] show ?thesis
    by (simp add: pop_beaten_def rev_filter [symmetric] case_prod_unfold)
qed

lemma offer_leaders:
  assumes "lo \<le> length vs"
  shows "offer h (int (length vs)) v (leaders h lo vs) = leaders h lo (vs @ [v])"
proof (cases "is_nan v")
  case True
  then show ?thesis using assms
    by (auto simp: offer_def leaders_def leader_snoc leader_last filter_empty_conv less_Suc_eq)
next
  case False
  have "filter (leader h (vs @ [v])) [lo..<length vs] =
      filter (\<lambda>j. \<not> beats h (vs ! j) v) (filter (leader h vs) [lo..<length vs])"
    using False by (auto simp: leader_snoc intro!: filter_cong)
  then have "leaders h lo (vs @ [v]) =
      map (\<lambda>j. (int j, (vs @ [v]) ! j)) (filter (\<lambda>j. \<not> beats h (vs ! j) v) (filter (leader h vs) [lo..<length vs]))
        @ [(int (length vs), v)]"
    using assms False by (simp add: leaders_def leader_last)
  also have "map (\<lambda>j. (int j, (vs @ [v]) ! j)) (filter (\<lambda>j. \<not> beats h (vs ! j) v) (filter (leader h vs) [lo..<length vs])) =
      map (\<lambda>j. (int j, vs ! j)) (filter (\<lambda>j. \<not> beats h (vs ! j) v) (filter (leader h vs) [lo..<length vs]))"
    by (auto simp: nth_append)
  finally show ?thesis
    using False by (simp add: offer_def pop_beaten_leaders, simp add: leaders_def filter_map o_def)
qed

lemma filter_from: "filter (\<lambda>j. P j \<and> \<not> j < m) [lo..<k] = filter P [max lo m..<k]"
  by (induction k) (auto simp: max_def)

lemma pop_stale_leaders: "pop_stale (int m) (leaders h lo vs) = leaders h (max lo m) vs"
proof -
  have "sorted_wrt (\<lambda>j k. k < m \<longrightarrow> j < m) (filter (leader h vs) [lo..<length vs])"
    by (rule sorted_wrt_mono_rel [OF _ sorted_filter_upt]) auto
  then have "sorted_wrt (\<lambda>x y. fst y < int m \<longrightarrow> fst x < int m) (leaders h lo vs)"
    by (simp add: leaders_def sorted_wrt_map)
  from dropWhile_eq_filter [OF this] have "pop_stale (int m) (leaders h lo vs) =
      map (\<lambda>j. (int j, vs ! j)) (filter (\<lambda>j. leader h vs j \<and> \<not> j < m) [lo..<length vs])"
    by (simp add: pop_stale_def case_prod_unfold, simp add: leaders_def filter_map o_def conj_commute)
  then show ?thesis by (simp only: filter_from leaders_def)
qed

lemma pop_stale_early: "m \<le> 0 \<Longrightarrow> pop_stale m (leaders h lo vs) = leaders h lo vs"
proof -
  assume "m \<le> 0"
  then have "\<not> fst p < m" if "p \<in> set (leaders h lo vs)" for p
    using that by (auto simp: leaders_def)
  then show ?thesis
    by (cases "leaders h lo vs") (auto simp: pop_stale_def case_prod_unfold)
qed

text \<open>The bookkeeping of one bar: from the leaders of the last window to those of the next.\<close>

lemma candidates_step:
  "pop_stale (int (length vs) - int n + 1) (offer h (int (length vs)) v (leaders h (length vs - n) vs)) =
     leaders h (length (vs @ [v]) - n) (vs @ [v])"
proof (cases "n \<le> length vs")
  case True
  then have "int (length vs) - int n + 1 = int (length vs + 1 - n)" by simp
  then show ?thesis by (simp only: offer_leaders diff_le_self pop_stale_leaders) simp
next
  case False
  then show ?thesis by (simp add: offer_leaders pop_stale_early)
qed

text \<open>Every value of a window without NaN is beaten by, or is, a leader of it.\<close>

lemma leader_above:
  assumes "list_all (\<lambda>w. w \<noteq> NaN) (drop lo vs)" "lo \<le> k" "k < length vs"
  shows "\<exists>j. k \<le> j \<and> j < length vs \<and> leader h vs j \<and> (j = k \<or> beats h (vs ! k) (vs ! j))"
  using assms(2,3)
proof (induction "length vs - k" arbitrary: k rule: less_induct)
  case less
  have clean: "list_all (\<lambda>w. \<not> is_nan w) (drop k vs)"
    using assms(1) less.prems(1) by (auto simp: list_all_iff is_nan_iff dest: set_drop_subset_set_drop [THEN subsetD])
  show ?case
  proof (cases "leader h vs k")
    case True
    then show ?thesis using less.prems by blast
  next
    case False
    then obtain w where "w \<in> set (drop (Suc k) vs)" "beats h (vs ! k) w"
      using clean by (auto simp: leader_def list_all_iff)
    then obtain k' where k': "k < k'" "k' < length vs" "beats h (vs ! k) (vs ! k')"
      by (auto simp: in_set_conv_nth) (metis Suc_le_eq add_Suc le_add1 less_diff_conv add.commute)
    have "length vs - k' < length vs - k" "lo \<le> k'" using k' less.prems by simp_all
    from less.hyps [OF this k'(2)] obtain j where
      "k' \<le> j" "j < length vs" "leader h vs j" "j = k' \<or> beats h (vs ! k') (vs ! j)" by blast
    moreover from this k'(3) have "beats h (vs ! k) (vs ! j)" by (auto intro: beats_trans)
    ultimately show ?thesis using k'(1) by (intro exI [of _ j]) simp
  qed
qed

lemma extreme_of_extreme:
  "ws \<noteq> [] \<Longrightarrow> list_all (\<lambda>w. w \<noteq> NaN) ws \<Longrightarrow>
     extreme_of h ws \<in> set ws \<and> (\<forall>w\<in>set ws. beats h w (extreme_of h ws))"
proof (induction h ws rule: extreme_of.induct)
  case (2 h v)
  then show ?case using beats_total [of v v h] by simp
next
  case (3 h v w ws)
  let ?x = "extreme_of h (w # ws)"
  have IH: "?x \<in> set (w # ws)" "\<forall>u\<in>set (w # ws). beats h u ?x" using 3 by auto
  show ?case
  proof (cases "beats h v ?x")
    case True
    then have "extreme_of h (v # w # ws) = ?x" by (simp only: extreme_of.simps Let_def if_True)
    then show ?thesis using IH True by (metis list.set_intros(2) set_ConsD)
  next
    case False
    have "?x \<noteq> NaN" "v \<noteq> NaN" using 3(3) IH(1) by (auto simp: list_all_iff)
    then have "beats h ?x v" "beats h v v" using False beats_total by blast+
    moreover have "extreme_of h (v # w # ws) = v" using False by (simp only: extreme_of.simps Let_def if_False)
    ultimately show ?thesis using IH(2) by (metis beats_trans list.set_intros(1) set_ConsD)
  qed
qed simp

lemma beats_antisym: "beats h a b \<Longrightarrow> beats h b a \<Longrightarrow> a = b"
  by (cases a; cases b) (auto simp: beats_def fle_def split: if_splits)

lemma leaders_head:
  assumes "drop lo vs \<noteq> []" and clean: "list_all (\<lambda>w. w \<noteq> NaN) (drop lo vs)"
  shows "leaders h lo vs \<noteq> []" and "snd (hd (leaders h lo vs)) = extreme_of h (drop lo vs)"
proof -
  let ?js = "filter (leader h vs) [lo..<length vs]"
  have lo: "lo < length vs" using assms(1) by simp
  from leader_above [OF clean order_refl lo, of h] have "?js \<noteq> []" by (auto simp: filter_empty_conv)
  then show "leaders h lo vs \<noteq> []" by (simp add: leaders_def)
  define j0 where "j0 = hd ?js"
  have "j0 \<in> set ?js" unfolding j0_def using \<open>?js \<noteq> []\<close> by (rule hd_in_set)
  then have j0: "leader h vs j0" "lo \<le> j0" "j0 < length vs" by auto
  have first: "j0 \<le> j" if "j \<in> set ?js" for j
    using sorted_filter_upt [of "leader h vs" lo "length vs"] that \<open>?js \<noteq> []\<close>
    unfolding j0_def by (cases ?js) auto
  have vals: "vs ! i \<noteq> NaN" if "lo \<le> i" "i < length vs" for i
  proof -
    have "vs ! i \<in> set (drop lo vs)"
      using that by (auto simp: in_set_conv_nth intro!: exI [of _ "i - lo"])
    then show ?thesis using clean by (auto simp: list_all_iff)
  qed
  have above: "beats h (vs ! k) (vs ! j0)" if k: "lo \<le> k" "k < length vs" for k
  proof -
    obtain j where j: "k \<le> j" "j < length vs" "leader h vs j" "j = k \<or> beats h (vs ! k) (vs ! j)"
      using leader_above [OF clean k] by blast
    have not_nan: "vs ! j \<noteq> NaN" "vs ! j0 \<noteq> NaN" using vals j k j0 by simp_all
    have "beats h (vs ! j) (vs ! j0)"
    proof (cases "j = j0")
      case True
      then show ?thesis using beats_total [OF not_nan(2) not_nan(2), of h] by simp
    next
      case False
      then have "j0 < j" using first [of j] j k by simp
      then show ?thesis
        using leaders_decrease(1) [OF j0(1) \<open>j0 < j\<close> j(2)] beats_total [OF not_nan, of h] by simp
    qed
    then show ?thesis using j(4) by (auto intro: beats_trans)
  qed
  have ex: "extreme_of h (drop lo vs) \<in> set (drop lo vs)"
    "\<forall>w\<in>set (drop lo vs). beats h w (extreme_of h (drop lo vs))"
    using extreme_of_extreme [OF assms] by blast+
  have "vs ! j0 \<in> set (drop lo vs)"
    using j0 by (auto simp: in_set_conv_nth intro!: exI [of _ "j0 - lo"])
  then have "beats h (vs ! j0) (extreme_of h (drop lo vs))" using ex(2) by blast
  moreover have "beats h (extreme_of h (drop lo vs)) (vs ! j0)"
  proof -
    obtain i where "i < length vs - lo" "vs ! (lo + i) = extreme_of h (drop lo vs)"
      using ex(1) by (auto simp: in_set_conv_nth)
    then show ?thesis using above [of "lo + i"] by simp
  qed
  ultimately have "vs ! j0 = extreme_of h (drop lo vs)" using beats_antisym by blast
  moreover have "snd (hd (leaders h lo vs)) = vs ! j0"
    using \<open>?js \<noteq> []\<close> by (simp add: leaders_def hd_map j0_def)
  ultimately show "snd (hd (leaders h lo vs)) = extreme_of h (drop lo vs)" by simp
qed

subsection \<open>Both editions meet the specification\<close>

lemma list_ex_nan: "list_ex is_nan ws \<longleftrightarrow> \<not> list_all (\<lambda>w. w \<noteq> NaN) ws"
  by (auto simp: list_ex_iff list_all_iff is_nan_iff)

lemma extreme_value:
  "(if n \<le> length vs \<and> \<not> list_ex is_nan (recent n vs) \<and> leaders h (length vs - n) vs \<noteq> []
    then snd (hd (leaders h (length vs - n) vs)) else NaN) =
   (if length (recent n vs) < n \<or> list_ex is_nan (recent n vs) then NaN else extreme_of h (recent n vs))"
proof (cases "n \<le> length vs \<and> \<not> list_ex is_nan (recent n vs) \<and> recent n vs \<noteq> []")
  case True
  then have "drop (length vs - n) vs \<noteq> []" "list_all (\<lambda>w. w \<noteq> NaN) (drop (length vs - n) vs)"
    unfolding recent_def list_ex_nan by simp_all
  from leaders_head [OF this, of h] show ?thesis using True by (simp add: recent_def)
next
  case False
  then show ?thesis by (auto simp: recent_def leaders_def)
qed

lemma take_recent: "n \<le> length ys \<Longrightarrow> take n (drop (length ys - n) (ys @ zs)) = recent n ys"
  by (simp add: recent_def)

lemma extreme_loop_spec:
  assumes "series = xs @ vs"
  shows "extreme_loop n h series (length xs) (leaders h (length xs - n) xs) vs =
    map (extreme_at n h series) [length xs..<length series]"
  using assms
proof (induction vs arbitrary: xs)
  case (Cons v vs)
  let ?xs = "xs @ [v]"
  have prefix: "take (length xs + 1) series = ?xs" using Cons.prems by simp
  have window: "take n (drop (nat (int (length xs) - int n + 1)) series) = recent n ?xs" if "n \<le> length ?xs"
  proof -
    have "nat (int (length xs) - int n + 1) = length ?xs - n" using that by auto
    moreover have "series = ?xs @ vs" using Cons.prems by simp
    ultimately show ?thesis using take_recent [OF that, of vs] by (simp only:)
  qed
  have "extreme_at n h series (length xs) =
    (if n \<le> length ?xs \<and> \<not> list_ex is_nan (recent n ?xs) \<and> leaders h (length ?xs - n) ?xs \<noteq> []
     then snd (hd (leaders h (length ?xs - n) ?xs)) else NaN)"
    unfolding extreme_value extreme_at_def Let_def prefix ..
  also have "\<dots> = (if length xs + 1 < n \<or> leaders h (length ?xs - n) ?xs = [] then NaN
      else if list_ex is_nan (take n (drop (nat (int (length xs) - int n + 1)) series)) then NaN
      else snd (hd (leaders h (length ?xs - n) ?xs)))"
    using window by auto
  finally have at: "extreme_at n h series (length xs) = \<dots>" .
  have "extreme_loop n h series (length xs) (leaders h (length xs - n) xs) (v # vs) =
      extreme_at n h series (length xs) #
      extreme_loop n h series (length ?xs) (leaders h (length ?xs - n) ?xs) vs"
    unfolding extreme_loop.simps Let_def at candidates_step by simp
  also have "\<dots> = map (extreme_at n h series) (length xs # [length ?xs..<length series])"
    using Cons.IH [of ?xs] Cons.prems by simp
  also have "length xs # [length ?xs..<length series] = [length xs..<length series]"
    using Cons.prems by (simp add: upt_conv_Cons del: upt_Suc)
  finally show ?case .
qed simp

lemma extreme_series_spec: "extreme_loop n h vs 0 [] vs = map (extreme_at n h vs) [0..<length vs]"
  using extreme_loop_spec [of vs "[]" vs n h] by (simp add: leaders_def)

definition nan_count :: "pyfloat list \<Rightarrow> int" where
  "nan_count vs = int (length (filter is_nan vs))"

lemma nan_count_zero: "nan_count vs = 0 \<longleftrightarrow> \<not> list_ex is_nan vs"
  by (auto simp: nan_count_def filter_empty_conv list_ex_iff)

definition extreme_reached :: "nat \<Rightarrow> bool \<Rightarrow> pyfloat list \<Rightarrow> extreme_state \<Rightarrow> bool" where
  "extreme_reached n h vs s \<longleftrightarrow>
     s = \<lparr>ex_candidates = leaders h (length vs - n) vs, ex_window = recent n vs,
          ex_index = int (length vs) - 1, ex_invalid = nan_count (recent n vs)\<rparr>"

lemma push_count:
  "(if n < length (recent n vs @ [v])
    then (tl (recent n vs @ [v]),
      if is_nan (hd (recent n vs @ [v])) then nan_count (recent n vs @ [v]) - 1 else nan_count (recent n vs @ [v]))
    else (recent n vs @ [v], nan_count (recent n vs @ [v]))) =
   (recent n (vs @ [v]), nan_count (recent n (vs @ [v])))"
proof -
  have "recent n (vs @ [v]) = push_max n (recent n vs) v" by (simp add: push_max_recent)
  then show ?thesis
    by (cases "recent n vs @ [v]") (auto simp: push_max_def nan_count_def Let_def)
qed

lemma extreme_step:
  assumes "extreme_reached n h vs s"
  shows "extreme_reached n h (vs @ [v]) (fst (extreme_update n h s v))"
    and "snd (extreme_update n h s v) = extreme_at n h (vs @ [v]) (length vs)"
proof -
  have count: "(if is_nan v then nan_count (recent n vs) + 1 else nan_count (recent n vs)) =
      nan_count (recent n vs @ [v])" by (simp add: nan_count_def)
  let ?s = "\<lparr>ex_candidates = leaders h (length (vs @ [v]) - n) (vs @ [v]), ex_window = recent n (vs @ [v]),
    ex_index = int (length vs), ex_invalid = nan_count (recent n (vs @ [v]))\<rparr>"
  have step: "extreme_update n h s v = (?s, extreme_current n ?s)"
    unfolding extreme_update_def Let_def assms [unfolded extreme_reached_def]
    by (simp only: extreme_state.simps diff_add_cancel count push_count prod.case candidates_step)
  then show "extreme_reached n h (vs @ [v]) (fst (extreme_update n h s v))"
    by (simp add: extreme_reached_def)
  have "length (recent n (vs @ [v])) = n \<longleftrightarrow> n \<le> length (vs @ [v])" by (auto simp: recent_def)
  then have "extreme_current n ?s =
    (if n \<le> length (vs @ [v]) \<and> \<not> list_ex is_nan (recent n (vs @ [v])) \<and>
        leaders h (length (vs @ [v]) - n) (vs @ [v]) \<noteq> []
     then snd (hd (leaders h (length (vs @ [v]) - n) (vs @ [v]))) else NaN)"
    by (auto simp: extreme_current_def extreme_warmed_up_def nan_count_zero)
  then show "snd (extreme_update n h s v) = extreme_at n h (vs @ [v]) (length vs)"
    unfolding extreme_value by (simp add: step extreme_at_def)
qed

lemma extreme_at_prefix: "i < length vs \<Longrightarrow> extreme_at n h (vs @ ws) i = extreme_at n h vs i"
  by (simp add: extreme_at_def)

interpretation extremes: incremental extreme_start "total_update (extreme_update n h)"
    "\<lambda>vs. extreme_loop n h vs 0 [] vs" "extreme_reached n h" for n h
proof
  show "extreme_reached n h [] extreme_start"
    by (simp add: extreme_reached_def extreme_start_def leaders_def recent_def nan_count_def)
  show "\<exists>s' y. total_update (extreme_update n h) s v = Inr (s', y) \<and> extreme_reached n h (vs @ [v]) s' \<and>
      extreme_loop n h (vs @ [v]) 0 [] (vs @ [v]) = extreme_loop n h vs 0 [] vs @ [y]"
    if "extreme_reached n h vs s" for vs s v
    using extreme_step [OF that, of v]
    by (cases "extreme_update n h s v") (simp add: extreme_series_spec extreme_at_prefix)
qed simp

end
