(* ===== verification/SpecRegistry.thy ===== *)
theory SpecRegistry
  imports SeriesKeys Conditions "HOL-Library.AList"
begin

section \<open>Registries of indicators and patterns (indicators/registry.py, patterns/registry.py)\<close>

text \<open>
  A spec is a name with scalar parameters and its batch function; a registry is the dictionary of
  the specs in the order of their registration, keyed by the name and the sorted parameters. The
  two registries of the code share their resolution of descriptors and modes; they differ in what
  a registration checks and in whether a selection may be empty. \<open>repr\<close> of a scalar is the
  parameter \<open>rp\<close>; a key compares parameters as Python does, where \<open>True\<close>, \<open>1\<close> and \<open>1.0\<close> are equal.
\<close>

record 'v series_spec =
  spec_name :: string
  spec_params :: "(string \<times> meta_value) list"
  spec_version :: string
  spec_min_history :: nat
  spec_state_history :: nat
  spec_required_inputs :: "string list"
  spec_undefined_outputs :: "string list"
  spec_vectorized :: "candle list \<Rightarrow> 'v list res"

type_synonym 'v registry = "'v series_spec list"
type_synonym descriptor = "(string \<times> meta_value) list"

fun param_norm :: "meta_value \<Rightarrow> meta_value" where
  "param_norm (MBool b) = MFloat (Fin (if b then 1 else 0))"
| "param_norm (MInt i) = MFloat (Fin (of_int i))"
| "param_norm v = v"

fun is_scalar :: "meta_value \<Rightarrow> bool" where
  "is_scalar (MBool _) = True"
| "is_scalar (MInt _) = True"
| "is_scalar (MFloat _) = True"
| "is_scalar (MStr _) = True"
| "is_scalar _ = False"

definition spec_identifier :: "(meta_value \<Rightarrow> string) \<Rightarrow> 'v series_spec \<Rightarrow> string" where
  "spec_identifier rp spec =
     (if spec_params spec = [] then spec_name spec
      else spec_name spec @ ''('' @
        intersperse_commas (map (\<lambda>(key, v). key @ ''='' @ rp v) (sort_key fst (spec_params spec))) @ '')'')"

definition check_indicator_spec :: "'v series_spec \<Rightarrow> unit res" where
  "check_indicator_spec spec =
     raise_if (spec_name spec = []) (ValueError ''indicator name must not be empty'')
     (raise_if (spec_min_history spec = 0) (ValueError ''min_history must be positive'')
     (raise_if (list_ex (\<lambda>key. key = []) (spec_undefined_outputs spec))
       (ValueError ''undefined_outputs must name output keys'') (Inr ())))"

definition registry_key :: "string \<Rightarrow> (string \<times> meta_value) list \<Rightarrow> string \<times> (string \<times> meta_value) list" where
  "registry_key name params = (name, sort_key fst (map (apsnd param_norm) params))"

definition spec_key :: "'v series_spec \<Rightarrow> string \<times> (string \<times> meta_value) list" where
  "spec_key spec = registry_key (spec_name spec) (spec_params spec)"

definition registry_get :: "'v registry \<Rightarrow> string \<Rightarrow> (string \<times> meta_value) list \<Rightarrow> 'v series_spec res" where
  "registry_get reg name params =
     (case find (\<lambda>spec. spec_key spec = registry_key name params) reg of
        None \<Rightarrow> Inl (KeyError ''is not registered'') | Some spec \<Rightarrow> Inr spec)"

definition register_indicator :: "'v registry \<Rightarrow> 'v series_spec \<Rightarrow> 'v registry res" where
  "register_indicator reg spec =
     raise_if (spec_key spec \<in> set (map spec_key reg)) (ValueError ''indicator already registered'')
       (Inr (reg @ [spec]))"

definition assert_warmup_agrees :: "'v series_spec \<Rightarrow> unit res" where
  "assert_warmup_agrees spec =
     raise_if (spec_state_history spec \<noteq> spec_min_history spec) (ValueError ''state declares'') (Inr ())"

definition register_pattern :: "'v registry \<Rightarrow> 'v series_spec \<Rightarrow> 'v registry res" where
  "register_pattern reg spec =
     raise_if (spec_key spec \<in> set (map spec_key reg)) (ValueError ''pattern already registered'')
       (bindR (assert_warmup_agrees spec) (\<lambda>_. Inr (reg @ [spec])))"

definition registry_list :: "(meta_value \<Rightarrow> string) \<Rightarrow> 'v registry \<Rightarrow> 'v series_spec list" where
  "registry_list rp reg = sort_key (spec_identifier rp) reg"

definition registry_names :: "'v registry \<Rightarrow> string set" where
  "registry_names reg = set (map spec_name reg)"

definition matching_specs :: "(meta_value \<Rightarrow> string) \<Rightarrow> 'v registry \<Rightarrow> string \<Rightarrow> 'v series_spec list res" where
  "matching_specs rp reg requested =
     (let matches = filter (\<lambda>spec. spec_name spec = requested \<or> spec_identifier rp spec = requested) reg in
      raise_if (matches = []) (KeyError ''is not registered'') (Inr matches))"

definition descriptor_spec :: "'v registry \<Rightarrow> descriptor \<Rightarrow> 'v series_spec res" where
  "descriptor_spec reg d =
     raise_if (set (map fst d) \<noteq> {''name'', ''params''})
       (ValueError ''descriptor must contain exactly name and params'')
     (case (map_of d ''name'', map_of d ''params'') of
        (Some (MStr name), Some (MMap params)) \<Rightarrow>
          raise_if (list_ex (\<lambda>(_, v). \<not> is_scalar v) params) (TypeError ''scalar registry values'')
          (let matches = filter (\<lambda>spec. map lower_char (spec_name spec) = map lower_char name \<and>
                 set (map (apsnd param_norm) (spec_params spec)) = set (map (apsnd param_norm) params)) reg in
           (case matches of [spec] \<Rightarrow> Inr spec | _ \<Rightarrow> Inl (KeyError ''is not registered'')))
      | _ \<Rightarrow> Inl (TypeError ''descriptor name/params have invalid types''))"

text \<open>The dictionary \<open>selected\<close>, by spec_identifier, and its values in the order of the identifiers.\<close>

definition select_spec ::
    "(meta_value \<Rightarrow> string) \<Rightarrow> (string \<times> 'v series_spec) list \<Rightarrow> 'v series_spec \<Rightarrow>
     (string \<times> 'v series_spec) list" where
  "select_spec rp selected spec = AList.update (spec_identifier rp spec) spec selected"

definition in_identifier_order :: "(string \<times> 'v series_spec) list \<Rightarrow> 'v series_spec list" where
  "in_identifier_order selected = map snd (sort_key fst selected)"

definition specs_for :: "(meta_value \<Rightarrow> string) \<Rightarrow> 'v registry \<Rightarrow> string list \<Rightarrow> 'v series_spec list res" where
  "specs_for rp reg enabled =
     bindR (foldR (\<lambda>selected requested. bindR (matching_specs rp reg requested)
         (\<lambda>specs. Inr (foldl (select_spec rp) selected specs))) [] enabled)
       (\<lambda>selected. Inr (in_identifier_order selected))"

definition specs_from_descriptors ::
    "(meta_value \<Rightarrow> string) \<Rightarrow> 'v registry \<Rightarrow> descriptor list \<Rightarrow> 'v series_spec list res" where
  "specs_from_descriptors rp reg ds =
     bindR (foldR (\<lambda>selected d. bindR (descriptor_spec reg d)
         (\<lambda>spec. Inr (select_spec rp selected spec))) [] ds)
       (\<lambda>selected. Inr (in_identifier_order selected))"

definition resolve_enabled ::
    "(meta_value \<Rightarrow> string) \<Rightarrow> 'v registry \<Rightarrow> string \<Rightarrow> string list \<Rightarrow> string list \<Rightarrow> string list res" where
  "resolve_enabled rp reg mode declared explicit =
     bindR (if mode = ''auto'' then Inr declared
            else if mode = ''explicit'' then Inr explicit
            else if mode = ''all'' then Inr (map (spec_identifier rp) reg)
            else Inl (ValueError ''mode must be auto, explicit, or all'')) (\<lambda>resolved.
     bindR (mapR (matching_specs rp reg) resolved) (\<lambda>_. Inr resolved))"

definition resolve_pattern_specs ::
    "(meta_value \<Rightarrow> string) \<Rightarrow> 'v registry \<Rightarrow> string \<Rightarrow> descriptor list \<Rightarrow> descriptor list \<Rightarrow>
     'v series_spec list res" where
  "resolve_pattern_specs rp reg mode declared explicit =
     bindR (specs_from_descriptors rp reg declared) (\<lambda>ds.
     bindR (specs_from_descriptors rp reg explicit) (\<lambda>es.
     bindR (resolve_enabled rp reg mode (map (spec_identifier rp) ds) (map (spec_identifier rp) es)) (\<lambda>enabled.
       specs_for rp reg enabled)))"

definition resolve_indicator_specs ::
    "(meta_value \<Rightarrow> string) \<Rightarrow> 'v registry \<Rightarrow> string \<Rightarrow> descriptor list \<Rightarrow> descriptor list \<Rightarrow>
     'v series_spec list res" where
  "resolve_indicator_specs rp reg mode declared explicit =
     bindR (specs_from_descriptors rp reg declared) (\<lambda>ds.
     bindR (specs_from_descriptors rp reg explicit) (\<lambda>es.
     bindR (resolve_enabled rp reg mode (map (spec_identifier rp) ds) (map (spec_identifier rp) es)) (\<lambda>enabled.
     bindR (specs_for rp reg enabled) (\<lambda>specs.
       raise_if (specs = []) (ValueError ''must resolve at least one spec'') (Inr specs)))))"

definition assert_finalized :: "instant \<Rightarrow> candle \<Rightarrow> unit res" where
  "assert_finalized decision_time c =
     raise_if (decision_time < c_close_time c) (ValueError ''candle closes after decision time'') (Inr ())"

definition drop_unfinalized :: "candle list \<Rightarrow> instant \<Rightarrow> candle list" where
  "drop_unfinalized cs decision_time = filter (\<lambda>c. c_close_time c \<le> decision_time) cs"

definition assert_all_finalized :: "candle list \<Rightarrow> instant option \<Rightarrow> unit res" where
  "assert_all_finalized cs decision_time =
     (case (if decision_time = None \<and> cs \<noteq> [] then Some (c_close_time (last cs)) else decision_time) of
        None \<Rightarrow> Inr () | Some t \<Rightarrow> foldR (\<lambda>_. assert_finalized t) () cs)"

definition batch_entry ::
    "(meta_value \<Rightarrow> string) \<Rightarrow> candle list \<Rightarrow> (string \<times> 'v list) list \<Rightarrow> 'v series_spec \<Rightarrow>
     (string \<times> 'v list) list res" where
  "batch_entry rp cs result spec =
     raise_if (length cs < spec_min_history spec) (ValueError ''requires more candles'')
       (bindR (spec_vectorized spec cs) (\<lambda>values. Inr (AList.update (spec_identifier rp spec) values result)))"

definition compute_pattern_batch ::
    "(meta_value \<Rightarrow> string) \<Rightarrow> 'v registry \<Rightarrow> candle list \<Rightarrow> string list \<Rightarrow> instant option \<Rightarrow>
     (string \<times> 'v list) list res" where
  "compute_pattern_batch rp reg cs enabled decision_time =
     bindR (assert_all_finalized cs decision_time) (\<lambda>_.
     bindR (specs_for rp reg enabled) (\<lambda>specs. foldR (batch_entry rp cs) [] specs))"

definition compute_indicator_batch ::
    "(meta_value \<Rightarrow> string) \<Rightarrow> 'v registry \<Rightarrow> candle list \<Rightarrow> string list \<Rightarrow> instant option \<Rightarrow> string list \<Rightarrow>
     (string \<times> 'v list) list res" where
  "compute_indicator_batch rp reg cs enabled decision_time available =
     bindR (assert_all_finalized cs decision_time) (\<lambda>_.
     bindR (specs_for rp reg enabled) (\<lambda>specs.
       foldR (\<lambda>result spec. if set (spec_required_inputs spec) \<subseteq> set available
           then batch_entry rp cs result spec else Inr result) [] specs))"

subsection \<open>Lookup after registration\<close>

definition keyed_once :: "'v registry \<Rightarrow> bool" where
  "keyed_once reg \<longleftrightarrow> distinct (map spec_key reg)"

lemma registry_get_spec:
  assumes "keyed_once reg" and "spec \<in> set reg"
  shows "registry_get reg (spec_name spec) (spec_params spec) = Inr spec"
proof -
  have "find (\<lambda>s. spec_key s = spec_key spec) reg = Some spec"
    using assms by (induction reg) (auto simp: keyed_once_def)
  then show ?thesis by (simp add: registry_get_def spec_key_def)
qed

lemma register_keyed:
  assumes "keyed_once reg" and "register_indicator reg spec = Inr reg' \<or> register_pattern reg spec = Inr reg'"
  shows "keyed_once reg'" and "reg' = reg @ [spec]"
  using assms by (auto simp: keyed_once_def register_indicator_def register_pattern_def bindR_eq_Inr)

subsection \<open>Resolution does not depend on the order of the requests\<close>

definition identified_once :: "(meta_value \<Rightarrow> string) \<Rightarrow> 'v registry \<Rightarrow> bool" where
  "identified_once rp reg \<longleftrightarrow> distinct (map (spec_identifier rp) reg)"

definition names_spec :: "(meta_value \<Rightarrow> string) \<Rightarrow> string \<Rightarrow> 'v series_spec \<Rightarrow> bool" where
  "names_spec rp requested spec \<longleftrightarrow> spec_name spec = requested \<or> spec_identifier rp spec = requested"

text \<open>The dictionary \<open>selected\<close> holds the specs \<open>S\<close> of the registry under their identifiers.\<close>

definition selects ::
    "(meta_value \<Rightarrow> string) \<Rightarrow> 'v registry \<Rightarrow> 'v series_spec set \<Rightarrow> (string \<times> 'v series_spec) list \<Rightarrow> bool" where
  "selects rp reg S selected \<longleftrightarrow> S \<subseteq> set reg \<and> distinct (map fst selected) \<and>
     set selected = (\<lambda>spec. (spec_identifier rp spec, spec)) ` S"

lemma identified_inj:
  "identified_once rp reg \<Longrightarrow> s \<in> set reg \<Longrightarrow> s' \<in> set reg \<Longrightarrow>
    spec_identifier rp s = spec_identifier rp s' \<Longrightarrow> s = s'"
  by (auto simp: identified_once_def distinct_map dest: inj_onD)

lemma selects_Nil: "selects rp reg {} []"
  by (simp add: selects_def)

lemma selects_spec:
  assumes "identified_once rp reg" and "selects rp reg S selected" and "spec \<in> set reg"
  shows "selects rp reg (insert spec S) (select_spec rp selected spec)"
proof -
  let ?k = "spec_identifier rp spec"
  have d: "distinct (map fst selected)" using assms(2) by (simp add: selects_def)
  have "set (select_spec rp selected spec) = insert (?k, spec) {e \<in> set selected. fst e \<noteq> ?k}"
    using d unfolding select_spec_def
    by (induction selected) (auto simp: image_iff)
  also have "\<dots> = (\<lambda>s. (spec_identifier rp s, s)) ` insert spec S"
    using assms identified_inj [OF assms(1)] by (auto simp: selects_def)
  finally show ?thesis
    using assms(2,3) d by (simp add: selects_def select_spec_def distinct_update)
qed

lemma selects_specs:
  assumes "identified_once rp reg" and "set specs \<subseteq> set reg"
  shows "selects rp reg S selected \<Longrightarrow> selects rp reg (S \<union> set specs) (foldl (select_spec rp) selected specs)"
  using assms(2)
proof (induction specs arbitrary: S selected)
  case (Cons spec specs)
  then have "selects rp reg (insert spec S \<union> set specs) (foldl (select_spec rp) (select_spec rp selected spec) specs)"
    using selects_spec [OF assms(1) Cons.prems(1), of spec] by (intro Cons.IH) auto
  then show ?case by simp
qed simp

lemma sorted_by_unique:
  assumes "sorted (map f xs)" "distinct (map f xs)" "sorted (map f ys)" "distinct (map f ys)" "set xs = set ys"
    and "inj_on f (set ys)"
  shows "xs = ys"
proof -
  have "map f xs = map f ys" using assms by (intro sorted_distinct_set_unique) auto
  then show ?thesis using assms(5,6) by (intro map_inj_on [of f]) auto
qed

lemma in_identifier_order_selects:
  assumes "identified_once rp reg" and "selects rp reg S selected"
  shows "in_identifier_order selected = filter (\<lambda>spec. spec \<in> S) (registry_list rp reg)"
proof (rule sorted_by_unique [of "spec_identifier rp"])
  have S: "set selected = (\<lambda>spec. (spec_identifier rp spec, spec)) ` S" "S \<subseteq> set reg"
    "distinct (map fst selected)"
    using assms(2) by (simp_all add: selects_def)
  have keys: "map (spec_identifier rp) (in_identifier_order selected) = map fst (sort_key fst selected)"
    using S(1) by (auto simp: in_identifier_order_def)
  then show "sorted (map (spec_identifier rp) (in_identifier_order selected))" by simp
  have "distinct (map fst (sort_key fst selected))"
    using S(3) by (simp add: distinct_map inj_on_def)
  then show "distinct (map (spec_identifier rp) (in_identifier_order selected))" by (simp only: keys)
  show "sorted (map (spec_identifier rp) (filter (\<lambda>spec. spec \<in> S) (registry_list rp reg)))"
    by (simp add: registry_list_def sorted_filter)
  have inj: "inj_on (spec_identifier rp) (set reg)" "distinct reg"
    using assms(1) by (simp_all add: identified_once_def distinct_map)
  then show "distinct (map (spec_identifier rp) (filter (\<lambda>spec. spec \<in> S) (registry_list rp reg)))"
    by (auto simp: registry_list_def distinct_map intro: inj_on_subset)
  show "set (in_identifier_order selected) = set (filter (\<lambda>spec. spec \<in> S) (registry_list rp reg))"
    using S by (auto simp: in_identifier_order_def registry_list_def image_image)
  show "inj_on (spec_identifier rp) (set (filter (\<lambda>spec. spec \<in> S) (registry_list rp reg)))"
    using inj(1) by (auto simp: registry_list_def intro: inj_on_subset)
qed

lemma select_requests:
  assumes "identified_once rp reg" and "\<forall>r\<in>set enabled. \<exists>spec\<in>set reg. names_spec rp r spec"
  shows "selects rp reg S selected \<Longrightarrow> \<exists>selected'.
    foldR (\<lambda>selected requested. bindR (matching_specs rp reg requested)
        (\<lambda>specs. Inr (foldl (select_spec rp) selected specs))) selected enabled = Inr selected' \<and>
    selects rp reg (S \<union> {spec \<in> set reg. \<exists>r\<in>set enabled. names_spec rp r spec}) selected'"
  using assms(2)
proof (induction enabled arbitrary: S selected)
  case (Cons r rest)
  let ?matches = "filter (names_spec rp r) reg"
  have "?matches \<noteq> []" using Cons.prems(2) by (auto simp: filter_empty_conv)
  then have m: "matching_specs rp reg r = Inr ?matches"
    by (simp add: matching_specs_def names_spec_def [abs_def] Let_def)
  have "selects rp reg (S \<union> set ?matches) (foldl (select_spec rp) selected ?matches)"
    by (rule selects_specs [OF assms(1) _ Cons.prems(1)]) auto
  then obtain selected' where selected':
    "foldR (\<lambda>selected requested. bindR (matching_specs rp reg requested)
        (\<lambda>specs. Inr (foldl (select_spec rp) selected specs)))
        (foldl (select_spec rp) selected ?matches) rest = Inr selected'"
    "selects rp reg (S \<union> set ?matches \<union> {spec \<in> set reg. \<exists>r\<in>set rest. names_spec rp r spec}) selected'"
    using Cons.IH Cons.prems(2) by (meson list.set_intros(2))
  have "S \<union> set ?matches \<union> {spec \<in> set reg. \<exists>r\<in>set rest. names_spec rp r spec} =
      S \<union> {spec \<in> set reg. \<exists>r'\<in>set (r # rest). names_spec rp r' spec}"
    by auto
  then show ?case using selected' m by auto
qed simp

text \<open>What a set of requests resolves to: the specs it names, in the order of their identifiers.\<close>

lemma specs_for_named:
  assumes "identified_once rp reg" and "\<forall>r\<in>set enabled. \<exists>spec\<in>set reg. names_spec rp r spec"
  shows "specs_for rp reg enabled =
    Inr (filter (\<lambda>spec. \<exists>r\<in>set enabled. names_spec rp r spec) (registry_list rp reg))"
proof -
  let ?S = "{spec \<in> set reg. \<exists>r\<in>set enabled. names_spec rp r spec}"
  obtain selected where "foldR (\<lambda>selected requested. bindR (matching_specs rp reg requested)
        (\<lambda>specs. Inr (foldl (select_spec rp) selected specs))) [] enabled = Inr selected"
    "selects rp reg ?S selected"
    using select_requests [OF assms selects_Nil] by auto
  moreover have "filter (\<lambda>spec. spec \<in> ?S) (registry_list rp reg) =
      filter (\<lambda>spec. \<exists>r\<in>set enabled. names_spec rp r spec) (registry_list rp reg)"
    by (rule filter_cong) (auto simp: registry_list_def)
  ultimately show ?thesis
    using in_identifier_order_selects [OF assms(1)] by (simp add: specs_for_def)
qed

lemma matching_specs_cases:
  "matching_specs rp reg q = Inl (KeyError ''is not registered'') \<or> (\<exists>specs. matching_specs rp reg q = Inr specs)"
  by (simp add: matching_specs_def raise_if_def Let_def)

lemma specs_for_unnamed:
  assumes "r \<in> set enabled" and "\<forall>spec\<in>set reg. \<not> names_spec rp r spec"
  shows "specs_for rp reg enabled = Inl (KeyError ''is not registered'')"
proof -
  have r: "matching_specs rp reg r = Inl (KeyError ''is not registered'')"
    using assms(2) by (simp add: matching_specs_def names_spec_def filter_empty_conv)
  have "foldR (\<lambda>selected requested. bindR (matching_specs rp reg requested)
        (\<lambda>specs. Inr (foldl (select_spec rp) selected specs))) selected enabled =
      Inl (KeyError ''is not registered'')" for selected
    using assms(1)
  proof (induction enabled arbitrary: selected)
    case (Cons q rest)
    consider "q = r" | "matching_specs rp reg q = Inl (KeyError ''is not registered'')"
      | specs where "r \<in> set rest" "matching_specs rp reg q = Inr specs"
      using Cons.prems matching_specs_cases [of rp reg q] by (cases "q = r") auto
    then show ?case by cases (simp_all add: r Cons.IH)
  qed simp
  then show ?thesis by (simp add: specs_for_def)
qed

lemma specs_for_eq:
  assumes "identified_once rp reg"
  shows "specs_for rp reg enabled =
    (if \<forall>r\<in>set enabled. \<exists>spec\<in>set reg. names_spec rp r spec
     then Inr (filter (\<lambda>spec. \<exists>r\<in>set enabled. names_spec rp r spec) (registry_list rp reg))
     else Inl (KeyError ''is not registered''))"
proof (cases "\<forall>r\<in>set enabled. \<exists>spec\<in>set reg. names_spec rp r spec")
  case True
  show ?thesis by (subst if_P [OF True]) (rule specs_for_named [OF assms True])
next
  case False
  then obtain r where "r \<in> set enabled" "\<forall>spec\<in>set reg. \<not> names_spec rp r spec" by blast
  from specs_for_unnamed [OF this] show ?thesis by (subst if_not_P [OF False])
qed

subsection \<open>A batch over the selected specs\<close>

lemma batch_entries:
  assumes "identified_once rp reg" and "set specs \<subseteq> set reg" and "distinct specs"
    and "\<And>spec. spec \<in> set specs \<Longrightarrow> spec_min_history spec \<le> length cs \<and> spec_vectorized spec cs = Inr (vals spec)"
  shows "set (map fst result) \<inter> spec_identifier rp ` set specs = {} \<Longrightarrow>
    foldR (batch_entry rp cs) result specs = Inr (result @ map (\<lambda>spec. (spec_identifier rp spec, vals spec)) specs)"
  using assms(2-)
proof (induction specs arbitrary: result)
  case (Cons spec specs)
  let ?k = "spec_identifier rp spec"
  have k: "?k \<notin> set (map fst result)" using Cons.prems(1) by auto
  have "AList.update ?k (vals spec) result = result @ [(?k, vals spec)]"
    using k by (induction result) auto
  moreover have "?k \<notin> spec_identifier rp ` set specs"
  proof
    assume "?k \<in> spec_identifier rp ` set specs"
    then obtain s where "s \<in> set specs" "?k = spec_identifier rp s" by auto
    with identified_inj [OF assms(1), of spec s] Cons.prems(2,3) show False by auto
  qed
  moreover have "foldR (batch_entry rp cs) (result @ [(?k, vals spec)]) specs =
      Inr ((result @ [(?k, vals spec)]) @ map (\<lambda>spec. (spec_identifier rp spec, vals spec)) specs)"
    using Cons.prems calculation(2) by (intro Cons.IH) auto
  moreover have "batch_entry rp cs result spec = Inr (result @ [(?k, vals spec)])"
    using Cons.prems(4) [of spec] calculation(1) by (simp add: batch_entry_def)
  ultimately show ?case by simp
qed simp

end
