(* ===== verification/CandleShapes.thy ===== *)
theory CandleShapes
  imports Candle Conditions
begin

section \<open>Candle shapes and settings (core_lib/patterns/primitives.py, talib_candles.py)\<close>

text \<open>
  The quantities the candlestick patterns read from one or two candles, in the two editions the
  code has: those of \<open>primitives.py\<close> (a name of both modules carries the prefix \<open>body_\<close> here)
  and those of \<open>talib_candles.py\<close>, with TA-Lib's table of eleven settings, the range a setting
  measures and the number of candles a pattern has to see first. A settings mapping has an entry
  for each of the eleven types, so it is a function.
\<close>

subsection \<open>primitives.py\<close>

definition body :: "candle \<Rightarrow> pyfloat" where
  "body c = fabs (fsub (c_close c) (c_open c))"

definition body_top :: "candle \<Rightarrow> pyfloat" where
  "body_top c = fmax (c_open c) (c_close c)"

definition body_bottom :: "candle \<Rightarrow> pyfloat" where
  "body_bottom c = fmin (c_open c) (c_close c)"

definition body_mid :: "candle \<Rightarrow> pyfloat" where
  "body_mid c = fquot (fadd (c_open c) (c_close c)) (Fin 2)"

definition body_upper_shadow :: "candle \<Rightarrow> pyfloat" where
  "body_upper_shadow c = fsub (c_high c) (body_top c)"

definition body_lower_shadow :: "candle \<Rightarrow> pyfloat" where
  "body_lower_shadow c = fsub (body_bottom c) (c_low c)"

definition body_candle_range :: "candle \<Rightarrow> pyfloat" where
  "body_candle_range c = fsub (c_high c) (c_low c)"

definition range_mid :: "candle \<Rightarrow> pyfloat" where
  "range_mid c = fquot (fadd (c_high c) (c_low c)) (Fin 2)"

definition is_white :: "candle \<Rightarrow> bool" where
  "is_white c = flt (c_open c) (c_close c)"

definition is_black :: "candle \<Rightarrow> bool" where
  "is_black c = flt (c_close c) (c_open c)"

definition is_colorless :: "candle \<Rightarrow> bool" where
  "is_colorless c = feq (c_close c) (c_open c)"

definition gap_up_body :: "candle \<Rightarrow> candle \<Rightarrow> bool" where
  "gap_up_body prev cur = flt (body_top prev) (body_bottom cur)"

definition gap_down_body :: "candle \<Rightarrow> candle \<Rightarrow> bool" where
  "gap_down_body prev cur = flt (body_top cur) (body_bottom prev)"

definition gap_up_range :: "candle \<Rightarrow> candle \<Rightarrow> bool" where
  "gap_up_range prev cur = flt (c_high prev) (c_low cur)"

definition gap_down_range :: "candle \<Rightarrow> candle \<Rightarrow> bool" where
  "gap_down_range prev cur = flt (c_high cur) (c_low prev)"

definition gap_up_open :: "candle \<Rightarrow> candle \<Rightarrow> bool" where
  "gap_up_open prev cur = flt (c_close prev) (c_open cur)"

definition gap_down_open :: "candle \<Rightarrow> candle \<Rightarrow> bool" where
  "gap_down_open prev cur = flt (c_open cur) (c_close prev)"

definition is_degenerate :: "candle \<Rightarrow> bool" where
  "is_degenerate c = feq (body_candle_range c) (Fin 0)"

definition any_degenerate :: "candle list \<Rightarrow> bool" where
  "any_degenerate cs = list_ex is_degenerate cs"

definition shadow_reaches_multiple :: "pyfloat \<Rightarrow> pyfloat \<Rightarrow> pyfloat \<Rightarrow> bool" where
  "shadow_reaches_multiple shadow body_size multiple =
     (if feq body_size (Fin 0) then flt (Fin 0) shadow else fle (fmul multiple body_size) shadow)"

definition shadow_within_multiple :: "pyfloat \<Rightarrow> pyfloat \<Rightarrow> pyfloat \<Rightarrow> bool" where
  "shadow_within_multiple shadow body_size multiple =
     (if feq body_size (Fin 0) then False else fle shadow (fmul multiple body_size))"

subsection \<open>talib_candles.py: settings\<close>

datatype candle_range_type = REAL_BODY | HIGH_LOW | SHADOWS

datatype candle_setting_type =
    BODY_LONG | BODY_VERY_LONG | BODY_SHORT | BODY_DOJI
  | SHADOW_LONG | SHADOW_VERY_LONG | SHADOW_SHORT | SHADOW_VERY_SHORT
  | NEAR | FAR | EQUAL

record candle_setting =
  setting_type :: candle_setting_type
  range_type :: candle_range_type
  avg_period :: nat
  factor :: pyfloat

type_synonym candle_settings = "candle_setting_type \<Rightarrow> candle_setting"

definition CANDLE_SETTING_ORDER :: "candle_setting_type list" where
  "CANDLE_SETTING_ORDER =
     [BODY_LONG, BODY_VERY_LONG, BODY_SHORT, BODY_DOJI, SHADOW_LONG, SHADOW_VERY_LONG,
      SHADOW_SHORT, SHADOW_VERY_SHORT, NEAR, FAR, EQUAL]"

definition candle_setting_of ::
    "candle_setting_type \<Rightarrow> candle_range_type \<Rightarrow> nat \<Rightarrow> pyfloat \<Rightarrow> candle_setting" where
  "candle_setting_of st rt n f = \<lparr>setting_type = st, range_type = rt, avg_period = n, factor = f\<rparr>"

fun DEFAULT_CANDLE_SETTINGS :: candle_settings where
  "DEFAULT_CANDLE_SETTINGS BODY_LONG = candle_setting_of BODY_LONG REAL_BODY 10 (Fin 1)"
| "DEFAULT_CANDLE_SETTINGS BODY_VERY_LONG = candle_setting_of BODY_VERY_LONG REAL_BODY 10 (Fin 3)"
| "DEFAULT_CANDLE_SETTINGS BODY_SHORT = candle_setting_of BODY_SHORT REAL_BODY 10 (Fin 1)"
| "DEFAULT_CANDLE_SETTINGS BODY_DOJI = candle_setting_of BODY_DOJI HIGH_LOW 10 (fround (1 / 10))"
| "DEFAULT_CANDLE_SETTINGS SHADOW_LONG = candle_setting_of SHADOW_LONG REAL_BODY 0 (Fin 1)"
| "DEFAULT_CANDLE_SETTINGS SHADOW_VERY_LONG = candle_setting_of SHADOW_VERY_LONG REAL_BODY 0 (Fin 2)"
| "DEFAULT_CANDLE_SETTINGS SHADOW_SHORT = candle_setting_of SHADOW_SHORT SHADOWS 10 (Fin 1)"
| "DEFAULT_CANDLE_SETTINGS SHADOW_VERY_SHORT =
     candle_setting_of SHADOW_VERY_SHORT HIGH_LOW 10 (fround (1 / 10))"
| "DEFAULT_CANDLE_SETTINGS NEAR = candle_setting_of NEAR HIGH_LOW 5 (fround (2 / 10))"
| "DEFAULT_CANDLE_SETTINGS FAR = candle_setting_of FAR HIGH_LOW 5 (fround (6 / 10))"
| "DEFAULT_CANDLE_SETTINGS EQUAL = candle_setting_of EQUAL HIGH_LOW 5 (fround (5 / 100))"

text \<open>
  \<open>TA_CDL*_Lookback\<close>: the longest average period among the settings of a pattern, and the
  bars before it. The periods are counts, which discharges the checks for negative arguments.
\<close>

definition candle_settings_lookback ::
    "candle_setting_type list \<Rightarrow> nat \<Rightarrow> nat \<Rightarrow> candle_settings \<Rightarrow> nat" where
  "candle_settings_lookback types extra_bars minimum settings =
     Max (set (minimum # map (\<lambda>st. avg_period (settings st)) types)) + extra_bars"

definition candle_settings_min_history ::
    "candle_setting_type list \<Rightarrow> nat \<Rightarrow> nat \<Rightarrow> candle_settings \<Rightarrow> nat" where
  "candle_settings_min_history types extra_bars minimum settings =
     candle_settings_lookback types extra_bars minimum settings + 1"

subsection \<open>talib_candles.py: shapes\<close>

definition real_body :: "candle \<Rightarrow> pyfloat" where
  "real_body c = fabs (fsub (c_close c) (c_open c))"

definition real_body_bottom :: "candle \<Rightarrow> pyfloat" where
  "real_body_bottom c = fmin (c_open c) (c_close c)"

definition real_body_top :: "candle \<Rightarrow> pyfloat" where
  "real_body_top c = fmax (c_open c) (c_close c)"

definition upper_shadow :: "candle \<Rightarrow> pyfloat" where
  "upper_shadow c =
     (let top = (if fle (c_open c) (c_close c) then c_close c else c_open c) in fsub (c_high c) top)"

definition lower_shadow :: "candle \<Rightarrow> pyfloat" where
  "lower_shadow c =
     (let bottom = (if fle (c_open c) (c_close c) then c_open c else c_close c) in
      fsub bottom (c_low c))"

definition high_low_range :: "candle \<Rightarrow> pyfloat" where
  "high_low_range c = fsub (c_high c) (c_low c)"

definition candle_color :: "candle \<Rightarrow> int" where
  "candle_color c = (if fle (c_open c) (c_close c) then 1 else - 1)"

definition real_body_gap_up :: "candle \<Rightarrow> candle \<Rightarrow> bool" where
  "real_body_gap_up candle2 candle1 = flt (real_body_top candle1) (real_body_bottom candle2)"

definition real_body_gap_down :: "candle \<Rightarrow> candle \<Rightarrow> bool" where
  "real_body_gap_down candle2 candle1 = flt (real_body_top candle2) (real_body_bottom candle1)"

definition candle_gap_up :: "candle \<Rightarrow> candle \<Rightarrow> bool" where
  "candle_gap_up candle2 candle1 = flt (c_high candle1) (c_low candle2)"

definition candle_gap_down :: "candle \<Rightarrow> candle \<Rightarrow> bool" where
  "candle_gap_down candle2 candle1 = flt (c_high candle2) (c_low candle1)"

definition candle_range :: "candle_settings \<Rightarrow> candle_setting_type \<Rightarrow> candle \<Rightarrow> pyfloat" where
  "candle_range settings st c =
     (case range_type (settings st) of
        REAL_BODY \<Rightarrow> real_body c
      | HIGH_LOW \<Rightarrow> high_low_range c
      | SHADOWS \<Rightarrow> fadd (upper_shadow c) (lower_shadow c))"

definition candle_average ::
    "candle_settings \<Rightarrow> candle_setting_type \<Rightarrow> pyfloat \<Rightarrow> candle \<Rightarrow> pyfloat" where
  "candle_average settings st period_total c =
     (let setting = settings st;
          average = (if avg_period setting \<noteq> 0
            then fquot period_total (float_of_int (int (avg_period setting)))
            else candle_range settings st c);
          divisor = (if range_type setting = SHADOWS then Fin 2 else Fin 1)
      in fquot (fmul (factor setting) average) divisor)"

subsection \<open>What the two editions share\<close>

definition numeric_candle :: "candle \<Rightarrow> bool" where
  "numeric_candle c \<longleftrightarrow> NaN \<notin> {c_open c, c_high c, c_low c, c_close c}"

lemma shadow_editions_agree:
  assumes "numeric_candle c"
  shows "upper_shadow c = body_upper_shadow c" and "lower_shadow c = body_lower_shadow c"
  using assms unfolding upper_shadow_def lower_shadow_def body_upper_shadow_def
    body_lower_shadow_def body_top_def body_bottom_def fmax_def fmin_def numeric_candle_def
  by (cases "c_open c"; cases "c_close c"; auto simp: fle_iff)+

lemma colour_exclusive:
  "\<not> (is_white c \<and> is_black c)" "\<not> (is_white c \<and> is_colorless c)" "\<not> (is_black c \<and> is_colorless c)"
  unfolding is_white_def is_black_def is_colorless_def
  by (cases "c_open c"; cases "c_close c"; simp)+

lemma candle_color_cases: "candle_color c = 1 \<or> candle_color c = - 1"
  by (simp add: candle_color_def)

lemma candle_color_code [simp]:
  "candle_color c * 100 \<in> {-100, 100}" "- (candle_color c) * 100 \<in> {-100, 100}"
  "100 * candle_color c \<in> {-100, 100}" "candle_color c * 80 \<in> {-80, 80}"
  "- (candle_color c) * 80 \<in> {-80, 80}"
  using candle_color_cases [of c] by auto

lemma bottom_below_top: "numeric_candle c \<Longrightarrow> fle (real_body_bottom c) (real_body_top c)"
  unfolding real_body_bottom_def real_body_top_def fmax_def fmin_def numeric_candle_def
  by (cases "c_open c"; cases "c_close c"; auto simp: fle_iff)

lemma body_gaps_exclusive:
  assumes "numeric_candle a" and "numeric_candle b"
  shows "\<not> (real_body_gap_up b a \<and> real_body_gap_down b a)"
proof
  assume "real_body_gap_up b a \<and> real_body_gap_down b a"
  then have "flt (real_body_top a) (real_body_bottom b)" "flt (real_body_top b) (real_body_bottom a)"
    by (simp_all add: real_body_gap_up_def real_body_gap_down_def)
  moreover have "fle (real_body_bottom b) (real_body_top b)" "fle (real_body_bottom a) (real_body_top a)"
    using assms by (simp_all add: bottom_below_top)
  ultimately show False
    by (metis fle_def fle_iff fle_trans)
qed

end
