(* ===== verification/CandleAverages.thy ===== *)
theory CandleAverages
  imports CandleShapes Replay
begin

section \<open>Candle averages (core_lib/patterns/talib_candles.py)\<close>

text \<open>
  The moving average of a candle setting, as the code computes it in its three places: for one
  target candle (\<open>candle_average_at\<close>), as a batch series with a rolling total
  (\<open>candle_average_series\<close>), and incrementally with two bounded buffers (\<open>CandleAverageState\<close>).
  The section proves that the incremental state never reads outside its buffers and returns the
  batch series; \<open>rolling_total\<close> is the total both maintain, in the order of its float additions.
\<close>

definition candle_period_total_at ::
    "candle_settings \<Rightarrow> candle_setting_type \<Rightarrow> candle list \<Rightarrow> int \<Rightarrow> pyfloat res" where
  "candle_period_total_at settings st cs target =
     raise_if (target < 0 \<or> int (length cs) \<le> target) (IndexError ''target_index is outside candles'')
       (let n = avg_period (settings st) in
        if n = 0 then Inr (Fin 0)
        else raise_if (target < int n) (ValueError ''not enough candles before target_index'')
          (Inr (foldl (\<lambda>t i. fadd t (candle_range settings st (cs ! i))) (Fin 0)
             [nat target - n..<nat target])))"

definition candle_average_at ::
    "candle_settings \<Rightarrow> candle_setting_type \<Rightarrow> candle list \<Rightarrow> int \<Rightarrow> pyfloat res" where
  "candle_average_at settings st cs target =
     bindR (candle_period_total_at settings st cs target)
       (\<lambda>acc. bindR (item cs target) (\<lambda>c. Inr (candle_average settings st acc c)))"

subsection \<open>The batch series\<close>

text \<open>The loop over the current indexes, with the rolling total and the trailing index.\<close>

fun average_loop ::
    "candle_settings \<Rightarrow> candle_setting_type \<Rightarrow> candle list \<Rightarrow> nat \<Rightarrow> pyfloat \<Rightarrow> nat \<Rightarrow> nat list \<Rightarrow>
     pyfloat option list" where
  "average_loop settings st cs offset acc trailing [] = []"
| "average_loop settings st cs offset acc trailing (current # rest) =
     (let target = current - offset in
      Some (candle_average settings st acc (cs ! target)) #
      average_loop settings st cs offset
        (fadd acc (fsub (candle_range settings st (cs ! target)) (candle_range settings st (cs ! trailing))))
        (trailing + 1) rest)"

definition candle_average_series ::
    "candle_settings \<Rightarrow> candle_setting_type \<Rightarrow> candle list \<Rightarrow> nat \<Rightarrow> pyfloat option list" where
  "candle_average_series settings st cs offset =
     (let n = avg_period (settings st); first = n + offset in
      if length cs \<le> first then replicate (length cs) None
      else if n = 0 then
        replicate offset None @
        map (\<lambda>current. Some (candle_average settings st (Fin 0) (cs ! (current - offset))))
          [offset..<length cs]
      else
        (let target = first - offset; trailing = target - n;
             acc = foldl (\<lambda>t i. fadd t (candle_range settings st (cs ! i))) (Fin 0) [trailing..<target]
         in replicate first None @ average_loop settings st cs offset acc trailing [first..<length cs]))"

subsection \<open>The incremental state\<close>

record average_state =
  as_seen :: nat
  as_period_total :: pyfloat
  as_current :: "pyfloat option"
  as_range_buffer :: "pyfloat list"
  as_candle_buffer :: "candle list"
  as_first_range_index :: nat
  as_first_candle_index :: nat

definition average_start :: average_state where
  "average_start = \<lparr>as_seen = 0, as_period_total = Fin 0, as_current = None, as_range_buffer = [],
     as_candle_buffer = [], as_first_range_index = 0, as_first_candle_index = 0\<rparr>"

definition max_range_buffer_length :: "candle_settings \<Rightarrow> candle_setting_type \<Rightarrow> nat \<Rightarrow> nat" where
  "max_range_buffer_length settings st offset = max 1 (avg_period (settings st) + offset + 2)"

definition max_candle_buffer_length :: "nat \<Rightarrow> nat" where
  "max_candle_buffer_length offset = offset + 1"

definition append_range ::
    "candle_settings \<Rightarrow> candle_setting_type \<Rightarrow> nat \<Rightarrow> pyfloat \<Rightarrow> average_state \<Rightarrow> average_state" where
  "append_range settings st offset x s =
     (let buffer = as_range_buffer s @ [x] in
      if max_range_buffer_length settings st offset < length buffer
      then s\<lparr>as_range_buffer := tl buffer, as_first_range_index := as_first_range_index s + 1\<rparr>
      else s\<lparr>as_range_buffer := buffer\<rparr>)"

definition append_candle :: "nat \<Rightarrow> candle \<Rightarrow> average_state \<Rightarrow> average_state" where
  "append_candle offset c s =
     (let buffer = as_candle_buffer s @ [c] in
      if max_candle_buffer_length offset < length buffer
      then s\<lparr>as_candle_buffer := tl buffer, as_first_candle_index := as_first_candle_index s + 1\<rparr>
      else s\<lparr>as_candle_buffer := buffer\<rparr>)"

definition range_at :: "average_state \<Rightarrow> int \<Rightarrow> pyfloat res" where
  "range_at s index =
     (let position = index - int (as_first_range_index s) in
      raise_if (position < 0 \<or> int (length (as_range_buffer s)) \<le> position)
        (IndexError ''range buffer does not hold requested index'')
        (Inr (as_range_buffer s ! nat position)))"

definition candle_at :: "average_state \<Rightarrow> int \<Rightarrow> candle res" where
  "candle_at s index =
     (let position = index - int (as_first_candle_index s) in
      raise_if (position < 0 \<or> int (length (as_candle_buffer s)) \<le> position)
        (IndexError ''candle buffer does not hold requested index'')
        (Inr (as_candle_buffer s ! nat position)))"

definition moved_total ::
    "candle_settings \<Rightarrow> candle_setting_type \<Rightarrow> int \<Rightarrow> average_state \<Rightarrow> pyfloat res" where
  "moved_total settings st target s =
     (let add_index = target - 1; subtract_index = target - int (avg_period (settings st)) - 1 in
      if 0 \<le> add_index then
        bindR (range_at s add_index) (\<lambda>added.
          if 0 \<le> subtract_index
          then bindR (range_at s subtract_index) (\<lambda>left. Inr (fadd (as_period_total s) (fsub added left)))
          else Inr (fadd (as_period_total s) added))
      else Inr (as_period_total s))"

definition average_update ::
    "candle_settings \<Rightarrow> candle_setting_type \<Rightarrow> nat \<Rightarrow> average_state \<Rightarrow> candle \<Rightarrow>
     (average_state \<times> pyfloat option) res" where
  "average_update settings st offset s0 c =
     (let candle_index = as_seen s0;
          s = append_candle offset c (append_range settings st offset (candle_range settings st c)
                (s0\<lparr>as_seen := candle_index + 1\<rparr>));
          n = avg_period (settings st);
          target = int candle_index - int offset
      in if n = 0 then
           (if target < 0 then Inr (s\<lparr>as_current := None\<rparr>, None)
            else bindR (candle_at s target) (\<lambda>t.
              let v = Some (candle_average settings st (Fin 0) t) in Inr (s\<lparr>as_current := v\<rparr>, v)))
         else bindR (moved_total settings st target s) (\<lambda>acc.
           let s = s\<lparr>as_period_total := acc\<rparr> in
           if target < int n then Inr (s\<lparr>as_current := None\<rparr>, None)
           else bindR (candle_at s target) (\<lambda>t.
             let v = Some (candle_average settings st acc t) in Inr (s\<lparr>as_current := v\<rparr>, v))))"

definition average_warmed_up :: "candle_settings \<Rightarrow> candle_setting_type \<Rightarrow> nat \<Rightarrow> average_state \<Rightarrow> bool" where
  "average_warmed_up settings st offset s \<longleftrightarrow>
     int (avg_period (settings st)) \<le> int (as_seen s) - 1 - int offset"

definition average_reset :: "average_state \<Rightarrow> average_state" where
  "average_reset s = s\<lparr>as_seen := 0, as_period_total := Fin 0, as_current := None,
     as_range_buffer := [], as_candle_buffer := [], as_first_range_index := 0,
     as_first_candle_index := 0\<rparr>"

definition average_seed ::
    "candle_settings \<Rightarrow> candle_setting_type \<Rightarrow> nat \<Rightarrow> candle list \<Rightarrow> average_state \<Rightarrow> average_state res" where
  "average_seed settings st offset cs s =
     bindR (replay (average_update settings st offset) (average_reset s) cs) (\<lambda>(t, _). Inr t)"

subsection \<open>Both compute the same totals\<close>

fun rolling_total :: "(nat \<Rightarrow> pyfloat) \<Rightarrow> nat \<Rightarrow> nat \<Rightarrow> pyfloat" where
  "rolling_total r n 0 = Fin 0"
| "rolling_total r n (Suc k) =
     (if k < n then fadd (rolling_total r n k) (r k)
      else fadd (rolling_total r n k) (fsub (r k) (r (k - n))))"

definition average_value ::
    "candle_settings \<Rightarrow> candle_setting_type \<Rightarrow> candle list \<Rightarrow> nat \<Rightarrow> nat \<Rightarrow> pyfloat option" where
  "average_value settings st cs offset i =
     (let n = avg_period (settings st) in
      if i < n + offset then None
      else Some (candle_average settings st
        (if n = 0 then Fin 0 else rolling_total (\<lambda>j. candle_range settings st (cs ! j)) n (i - offset))
        (cs ! (i - offset))))"

lemma rolling_total_first: "k \<le> n \<Longrightarrow> rolling_total r n k = foldl (\<lambda>t i. fadd t (r i)) (Fin 0) [0..<k]"
  by (induction k) auto

lemma rolling_total_cong:
  "(\<And>j. j < k \<Longrightarrow> r j = r' j) \<Longrightarrow> rolling_total r n k = rolling_total r' n k"
  by (induction k) auto

lemma average_loop_values:
  assumes "avg_period (settings st) = n" and "n \<noteq> 0" and "n + offset \<le> a"
  shows "average_loop settings st cs offset
      (rolling_total (\<lambda>j. candle_range settings st (cs ! j)) n (a - offset)) (a - offset - n) [a..<b] =
    map (average_value settings st cs offset) [a..<b]"
  using assms(3)
proof (induction "b - a" arbitrary: a)
  case (Suc d)
  let ?r = "\<lambda>j. candle_range settings st (cs ! j)"
  have a: "[a..<b] = a # [Suc a..<b]" using Suc.hyps(2) by (intro upt_conv_Cons) linarith
  have k: "Suc a - offset = Suc (a - offset)" "\<not> a - offset < n" "Suc (a - offset - n) = Suc a - offset - n"
    using Suc.prems assms(2) by auto
  have "average_loop settings st cs offset (rolling_total ?r n (Suc a - offset)) (Suc a - offset - n) [Suc a..<b]
      = map (average_value settings st cs offset) [Suc a..<b]"
    using Suc.hyps Suc.prems by (intro Suc.hyps(1)) auto
  then show ?case
    using Suc.prems assms(1,2) k
    by (simp add: a average_value_def Let_def)
qed simp

lemma candle_average_series_values:
  "candle_average_series settings st cs offset =
     map (average_value settings st cs offset) [0..<length cs]"
proof -
  let ?n = "avg_period (settings st)" and ?r = "\<lambda>j. candle_range settings st (cs ! j)"
  let ?v = "average_value settings st cs offset"
  have warm: "map ?v [0..<k] = replicate k None" if "k \<le> ?n + offset" for k
    using that by (intro nth_equalityI) (auto simp: average_value_def)
  show ?thesis
  proof (cases "length cs \<le> ?n + offset")
    case True
    then show ?thesis using warm [of "length cs"] by (simp add: candle_average_series_def)
  next
    case False
    then have split: "[0..<length cs] = [0..<?n + offset] @ [?n + offset..<length cs]"
      by (metis le_add_diff_inverse nat_le_linear upt_add_eq_append zero_le)
    show ?thesis
    proof (cases "?n = 0")
      case True
      then show ?thesis using False split warm [of offset]
        by (simp add: candle_average_series_def average_value_def)
    next
      case n: False
      have first: "foldl (\<lambda>t i. fadd t (?r i)) (Fin 0) [0..<?n] = rolling_total ?r ?n (?n + offset - offset)"
        by (simp add: rolling_total_first)
      have "candle_average_series settings st cs offset =
          replicate (?n + offset) None @ average_loop settings st cs offset
            (foldl (\<lambda>t i. fadd t (?r i)) (Fin 0) [0..<?n]) 0 [?n + offset..<length cs]"
        using False n by (simp add: candle_average_series_def Let_def)
      also have "\<dots> = replicate (?n + offset) None @ map ?v [?n + offset..<length cs]"
        using average_loop_values [of settings st ?n offset "?n + offset" cs "length cs"] n
        unfolding first by simp
      also have "\<dots> = map ?v [0..<length cs]"
        unfolding split using warm [of "?n + offset"] by simp
      finally show ?thesis .
    qed
  qed
qed

lemma average_value_prefix:
  "i < length xs \<Longrightarrow> average_value settings st (xs @ ys) offset i = average_value settings st xs offset i"
  by (auto simp: average_value_def Let_def nth_append intro!: arg_cong [of _ _ "\<lambda>t. candle_average _ _ t _"]
      rolling_total_cong)

lemma candle_average_series_snoc:
  "candle_average_series settings st (cs @ [c]) offset =
     candle_average_series settings st cs offset @ [average_value settings st (cs @ [c]) offset (length cs)]"
  by (simp add: candle_average_series_values average_value_prefix)

subsection \<open>The incremental state replays the batch series\<close>

text \<open>What the state holds after the candles \<open>cs\<close>.\<close>

definition average_reached ::
    "candle_settings \<Rightarrow> candle_setting_type \<Rightarrow> nat \<Rightarrow> candle list \<Rightarrow> average_state \<Rightarrow> bool" where
  "average_reached settings st offset cs s \<longleftrightarrow>
     (let n = avg_period (settings st); ranges = map (candle_range settings st) cs in
      as_seen s = length cs \<and>
      as_first_range_index s = length cs - (n + offset + 2) \<and>
      as_range_buffer s = drop (length cs - (n + offset + 2)) ranges \<and>
      as_first_candle_index s = length cs - (offset + 1) \<and>
      as_candle_buffer s = drop (length cs - (offset + 1)) cs \<and>
      (n \<noteq> 0 \<longrightarrow> as_period_total s =
         rolling_total (\<lambda>j. candle_range settings st (cs ! j)) n (length cs - 1 - offset)))"

lemma drop_buffer:
  assumes "buffer = drop (length xs - m) xs @ [x]"
  shows "length buffer = min (length xs) m + 1"
    and "m < length buffer \<Longrightarrow> tl buffer = drop (length (xs @ [x]) - m) (xs @ [x])"
    and "\<not> m < length buffer \<Longrightarrow> buffer = drop (length (xs @ [x]) - m) (xs @ [x])"
proof -
  show "length buffer = min (length xs) m + 1" using assms by simp
  show "tl buffer = drop (length (xs @ [x]) - m) (xs @ [x])" if "m < length buffer"
  proof -
    from that assms have "m \<le> length xs" by auto
    then show ?thesis
      by (cases "m = 0") (simp_all add: assms Suc_diff_le drop_Suc tl_drop)
  qed
  show "buffer = drop (length (xs @ [x]) - m) (xs @ [x])" if "\<not> m < length buffer"
    using that assms by simp
qed

lemma append_range_reached:
  assumes "as_first_range_index s = length cs - (avg_period (settings st) + offset + 2)"
    and "as_range_buffer s =
      drop (length cs - (avg_period (settings st) + offset + 2)) (map (candle_range settings st) cs)"
  shows "append_range settings st offset (candle_range settings st c) s =
    s\<lparr>as_range_buffer := drop (length (cs @ [c]) - (avg_period (settings st) + offset + 2))
         (map (candle_range settings st) (cs @ [c])),
      as_first_range_index := length (cs @ [c]) - (avg_period (settings st) + offset + 2)\<rparr>"
proof -
  let ?m = "avg_period (settings st) + offset + 2" and ?xs = "map (candle_range settings st) cs"
  define buffer where "buffer = as_range_buffer s @ [candle_range settings st c]"
  have b: "buffer = drop (length ?xs - ?m) ?xs @ [candle_range settings st c]"
    using assms by (simp add: buffer_def)
  note d = drop_buffer [OF b]
  show ?thesis
  proof (cases "?m < length buffer")
    case True
    moreover from True have "?m \<le> length cs" using d(1) by simp
    ultimately show ?thesis
      using d(2) assms(1) buffer_def
      by (simp add: append_range_def Let_def max_range_buffer_length_def)
  next
    case False
    moreover from False have "length cs < ?m" using d(1) by simp
    ultimately show ?thesis
      using d(3) assms(1) buffer_def
      by (simp add: append_range_def Let_def max_range_buffer_length_def)
  qed
qed

lemma append_candle_reached:
  assumes "as_first_candle_index s = length cs - (offset + 1)"
    and "as_candle_buffer s = drop (length cs - (offset + 1)) cs"
  shows "append_candle offset c s =
    s\<lparr>as_candle_buffer := drop (length (cs @ [c]) - (offset + 1)) (cs @ [c]),
      as_first_candle_index := length (cs @ [c]) - (offset + 1)\<rparr>"
proof -
  define buffer where "buffer = as_candle_buffer s @ [c]"
  have b: "buffer = drop (length cs - (offset + 1)) cs @ [c]"
    using assms by (simp add: buffer_def)
  note d = drop_buffer [OF b]
  show ?thesis
  proof (cases "offset + 1 < length buffer")
    case True
    moreover from True have "offset + 1 \<le> length cs" using d(1) by simp
    ultimately show ?thesis
      using d(2) assms(1) buffer_def by (simp add: append_candle_def Let_def max_candle_buffer_length_def)
  next
    case False
    moreover from False have "length cs < offset + 1" using d(1) by simp
    ultimately show ?thesis
      using d(3) assms(1) buffer_def by (simp add: append_candle_def Let_def max_candle_buffer_length_def)
  qed
qed

lemma buffer_read:
  assumes "buffer = drop (length xs - m) xs" and "first = length xs - m" and "j < length xs"
    and "length xs \<le> j + m"
  shows "\<not> int j - int first < 0" and "\<not> int (length buffer) \<le> int j - int first"
    and "buffer ! nat (int j - int first) = xs ! j"
  using assms by (auto simp: nat_diff_distrib')

text \<open>The reads of \<open>update\<close> fall inside the buffers.\<close>

lemma range_at_reached:
  assumes "as_range_buffer s = drop (length cs - m) (map f cs)"
    and "as_first_range_index s = length cs - m" and "j < length cs" and "length cs \<le> j + m"
  shows "range_at s (int j) = Inr (f (cs ! j))"
  using buffer_read [of "as_range_buffer s" "map f cs" m "as_first_range_index s" j] assms
  by (simp add: range_at_def Let_def)

lemma candle_at_reached:
  assumes "as_candle_buffer s = drop (length cs - m) cs"
    and "as_first_candle_index s = length cs - m" and "j < length cs" and "length cs \<le> j + m"
  shows "candle_at s (int j) = Inr (cs ! j)"
  using buffer_read [of "as_candle_buffer s" cs m "as_first_candle_index s" j] assms
  by (simp add: candle_at_def Let_def)

lemma moved_total_reached:
  assumes ranges: "as_range_buffer s = drop (length xs - (n + offset + 2)) (map (candle_range settings st) xs)"
      "as_first_range_index s = length xs - (n + offset + 2)"
    and n: "avg_period (settings st) = n" "0 < n" and xs: "length xs = Suc i"
    and acc: "as_period_total s = rolling_total (\<lambda>j. candle_range settings st (xs ! j)) n (i - 1 - offset)"
  shows "moved_total settings st (int i - int offset) s =
    Inr (rolling_total (\<lambda>j. candle_range settings st (xs ! j)) n (i - offset))"
proof (cases "offset < i")
  case False
  then show ?thesis using acc by (simp add: moved_total_def Let_def)
next
  case True
  define k where "k = i - offset - 1"
  have k: "int i - int offset - 1 = int k" "i - offset = Suc k" "i - 1 - offset = k" "k < length xs"
    "length xs \<le> k + (n + offset + 2)" "int i - int offset - int n - 1 = int k - int n"
    using True xs n by (auto simp: k_def)
  have added: "range_at s (int k) = Inr (candle_range settings st (xs ! k))"
    using range_at_reached [OF ranges k(4,5)] .
  have target: "int i - int offset = int k + 1" using k(1) by simp
  show ?thesis
  proof (cases "k < n")
    case True
    then show ?thesis using added k acc n unfolding target by (simp add: moved_total_def Let_def)
  next
    case False
    then have early: "int k - int n = int (k - n)" and "k - n < length xs"
        and "length xs \<le> k - n + (n + offset + 2)"
      using k(4,5) xs k_def by auto
    then have left: "range_at s (int k - int n) = Inr (candle_range settings st (xs ! (k - n)))"
      unfolding early by (intro range_at_reached [OF ranges])
    have index: "int k + 1 - 1 = int k" "int k + 1 - int n - 1 = int k - int n" "0 \<le> int k"
        "0 \<le> int k - int n"
      using False by simp_all
    have "moved_total settings st (int k + 1) s =
        Inr (fadd (as_period_total s) (fsub (candle_range settings st (xs ! k)) (candle_range settings st (xs ! (k - n)))))"
      unfolding moved_total_def Let_def n(1) index(1,2) left added using index(3,4)
      by (simp only: bindR_Inr if_True)
    then show ?thesis unfolding target k(2) acc k(3) using False by simp
  qed
qed

lemma average_update_reached:
  assumes "average_reached settings st offset cs s"
  shows "\<exists>s'. average_update settings st offset s c =
      Inr (s', average_value settings st (cs @ [c]) offset (length cs)) \<and>
    average_reached settings st offset (cs @ [c]) s'"
proof -
  let ?n = "avg_period (settings st)" and ?xs = "cs @ [c]" and ?i = "length cs"
  let ?r = "\<lambda>j. candle_range settings st (?xs ! j)"
  have s: "as_seen s = ?i" "as_first_range_index s = ?i - (?n + offset + 2)"
    "as_range_buffer s = drop (?i - (?n + offset + 2)) (map (candle_range settings st) cs)"
    "as_first_candle_index s = ?i - (offset + 1)" "as_candle_buffer s = drop (?i - (offset + 1)) cs"
    "?n \<noteq> 0 \<Longrightarrow> as_period_total s = rolling_total (\<lambda>j. candle_range settings st (cs ! j)) ?n (?i - 1 - offset)"
    using assms by (simp_all add: average_reached_def Let_def)
  define s1 where "s1 = append_candle offset c (append_range settings st offset (candle_range settings st c)
      (s\<lparr>as_seen := ?i + 1\<rparr>))"
  have s1: "s1 = s\<lparr>as_seen := ?i + 1,
      as_range_buffer := drop (length ?xs - (?n + offset + 2)) (map (candle_range settings st) ?xs),
      as_first_range_index := length ?xs - (?n + offset + 2),
      as_candle_buffer := drop (length ?xs - (offset + 1)) ?xs,
      as_first_candle_index := length ?xs - (offset + 1)\<rparr>"
    unfolding s1_def
    by (subst append_range_reached, simp add: s, simp add: s, subst append_candle_reached) (simp_all add: s)
  have candle: "candle_at s1 (int ?i - int offset) = Inr (?xs ! (?i - offset))" if "offset \<le> ?i"
    using candle_at_reached [of s1 ?xs "offset + 1" "?i - offset"] that by (simp add: s1 of_nat_diff)
  have moved: "moved_total settings st (int ?i - int offset) s1 = Inr (rolling_total ?r ?n (?i - offset))"
    if "?n \<noteq> 0"
  proof (rule moved_total_reached)
    show "as_period_total s1 = rolling_total ?r ?n (?i - 1 - offset)"
      using s(6) [OF that] by (auto simp: s1 nth_append intro!: rolling_total_cong)
  qed (use that in \<open>simp_all add: s1\<close>)
  have reached: "average_reached settings st offset ?xs (s1\<lparr>as_period_total := t, as_current := v\<rparr>)"
    if "?n \<noteq> 0 \<Longrightarrow> t = rolling_total ?r ?n (?i - offset)" for t v
    using that by (simp add: average_reached_def Let_def s1)
  have kept: "average_reached settings st offset ?xs (s1\<lparr>as_current := v\<rparr>)" if "?n = 0" for v
    using that by (simp add: average_reached_def Let_def s1)
  have update: "average_update settings st offset s c =
     (if ?n = 0 then
        (if int ?i - int offset < 0 then Inr (s1\<lparr>as_current := None\<rparr>, None)
         else bindR (candle_at s1 (int ?i - int offset)) (\<lambda>t.
           let v = Some (candle_average settings st (Fin 0) t) in Inr (s1\<lparr>as_current := v\<rparr>, v)))
      else bindR (moved_total settings st (int ?i - int offset) s1) (\<lambda>acc.
        let s = s1\<lparr>as_period_total := acc\<rparr> in
        if int ?i - int offset < int ?n then Inr (s\<lparr>as_current := None\<rparr>, None)
        else bindR (candle_at s (int ?i - int offset)) (\<lambda>t.
          let v = Some (candle_average settings st acc t) in Inr (s\<lparr>as_current := v\<rparr>, v))))"
    unfolding average_update_def Let_def s(1) s1_def ..
  have other: "candle_at (s1\<lparr>as_period_total := acc\<rparr>) j = candle_at s1 j" for acc j
    by (simp add: candle_at_def)
  consider "?n = 0" "?i < offset" | "?n = 0" "offset \<le> ?i" | "?n \<noteq> 0" "?i < ?n + offset"
    | "?n \<noteq> 0" "?n + offset \<le> ?i" by linarith
  then show ?thesis
  proof cases
    case 1
    then have "int ?i - int offset < 0" by simp
    then have "average_update settings st offset s c = Inr (s1\<lparr>as_current := None\<rparr>, None)"
      unfolding update using 1(1) by (simp only: if_True refl)
    moreover have "average_value settings st ?xs offset ?i = None" using 1 by (simp add: average_value_def)
    moreover have "average_reached settings st offset ?xs (s1\<lparr>as_current := None\<rparr>)" by (rule kept [OF 1(1)])
    ultimately show ?thesis by auto
  next
    case 2
    let ?v = "average_value settings st ?xs offset ?i"
    have v: "?v = Some (candle_average settings st (Fin 0) (?xs ! (?i - offset)))"
      using 2 by (simp add: average_value_def)
    have "average_update settings st offset s c = Inr (s1\<lparr>as_current := ?v\<rparr>, ?v)"
      unfolding update v candle [OF 2(2)] using 2 by (simp only: Let_def bindR_Inr if_True) simp
    moreover have "average_reached settings st offset ?xs (s1\<lparr>as_current := ?v\<rparr>)" by (rule kept [OF 2(1)])
    ultimately show ?thesis by blast
  next
    case 3
    let ?s = "s1\<lparr>as_period_total := rolling_total ?r ?n (?i - offset), as_current := None\<rparr>"
    have "int ?i - int offset < int ?n" using 3 by simp
    then have "average_update settings st offset s c = Inr (?s, None)"
      unfolding update moved [OF 3(1)] using 3(1) by (simp only: Let_def bindR_Inr if_False if_True)
    moreover have "average_value settings st ?xs offset ?i = None" using 3 by (simp add: average_value_def)
    moreover have "average_reached settings st offset ?xs ?s" by (rule reached) (rule refl)
    ultimately show ?thesis by auto
  next
    case 4
    let ?v = "average_value settings st ?xs offset ?i"
    let ?s = "s1\<lparr>as_period_total := rolling_total ?r ?n (?i - offset), as_current := ?v\<rparr>"
    have v: "?v = Some (candle_average settings st (rolling_total ?r ?n (?i - offset)) (?xs ! (?i - offset)))"
      using 4 by (simp only: average_value_def Let_def if_False) simp
    have "\<not> int ?i - int offset < int ?n" "offset \<le> ?i" using 4 by simp_all
    then have "average_update settings st offset s c = Inr (?s, ?v)"
      unfolding update moved [OF 4(1)] v using 4(1) candle
      by (simp only: Let_def bindR_Inr if_False other)
    moreover have "average_reached settings st offset ?xs ?s" by (rule reached) (rule refl)
    ultimately show ?thesis by blast
  qed
qed

interpretation candle_averages: incremental average_start "average_update settings st offset"
    "\<lambda>cs. candle_average_series settings st cs offset" "average_reached settings st offset"
  for settings st offset
proof
  show "average_reached settings st offset [] average_start"
    by (simp add: average_reached_def average_start_def)
  show "candle_average_series settings st [] offset = []"
    by (simp add: candle_average_series_values)
  show "\<exists>s' y. average_update settings st offset s c = Inr (s', y) \<and>
      average_reached settings st offset (cs @ [c]) s' \<and>
      candle_average_series settings st (cs @ [c]) offset = candle_average_series settings st cs offset @ [y]"
    if "average_reached settings st offset cs s" for cs s c
    using average_update_reached [OF that, of c] by (auto simp: candle_average_series_snoc)
qed

text \<open>A new state and a reset one are alike.\<close>

lemma average_reset_start: "average_reset s = average_start"
  by (simp add: average_reset_def average_start_def)

text \<open>The third computation, for one target, sums the same window from zero.\<close>

lemma candle_average_at_first:
  assumes "avg_period (settings st) < length cs"
  shows "candle_average_at settings st cs (int (avg_period (settings st))) =
    Inr (the (candle_average_series settings st cs 0 ! avg_period (settings st)))"
  using assms
  by (auto simp: candle_average_at_def candle_period_total_at_def candle_average_series_values
      average_value_def Let_def rolling_total_first)

end
