(* ===== verification/PatternOutputs.thy ===== *)
theory PatternOutputs
  imports CandleAverages
begin

section \<open>The output contract of patterns (core_lib/patterns/outputs.py, talib_raw.py)\<close>

text \<open>
  A pattern reports four numbers per bar (\<open>pattern_value\<close>, the dictionary with the keys
  occurred, direction, strength and confirmed), all NaN before warm-up ends. The TA-Lib ports
  compute one integer per bar; this theory holds the builders of the four numbers, the map from
  the integers to them and back, the checks of both shapes, and the penetration parameters.
\<close>

record pattern_value =
  pv_occurred :: pyfloat
  pv_direction :: pyfloat
  pv_strength :: pyfloat
  pv_confirmed :: pyfloat

definition BULLISH :: pyfloat where "BULLISH = Fin 1"
definition BEARISH :: pyfloat where "BEARISH = Fin (- 1)"
definition DIRECTIONLESS :: pyfloat where "DIRECTIONLESS = Fin 0"
definition FULL_STRENGTH :: pyfloat where "FULL_STRENGTH = Fin 1"
definition BOUNDARY_STRENGTH :: pyfloat where "BOUNDARY_STRENGTH = Fin (1 / 2)"
definition NOT_MATCHED :: pyfloat where "NOT_MATCHED = Fin 0"
definition MATCHED :: pyfloat where "MATCHED = Fin 1"

lemmas output_constants = BULLISH_def BEARISH_def DIRECTIONLESS_def FULL_STRENGTH_def
  BOUNDARY_STRENGTH_def NOT_MATCHED_def MATCHED_def

text \<open>The words between underscores.\<close>

fun split_underscores :: "string \<Rightarrow> string \<Rightarrow> string list" where
  "split_underscores acc [] = [acc]"
| "split_underscores acc (ch # chs) =
     (if ch = CHR ''_'' then acc # split_underscores [] chs else split_underscores (acc @ [ch]) chs)"

definition word_char :: "char \<Rightarrow> bool" where
  "word_char ch \<longleftrightarrow> (97 \<le> (of_char ch :: nat) \<and> (of_char ch :: nat) \<le> 122) \<or>
     (48 \<le> (of_char ch :: nat) \<and> (of_char ch :: nat) \<le> 57)"

text \<open>The match of \<open>^pat_[a-z0-9]+(?:_[a-z0-9]+)*$\<close>.\<close>

definition pattern_name :: "string \<Rightarrow> bool" where
  "pattern_name name \<longleftrightarrow> take 4 name = ''pat_'' \<and>
     list_all (\<lambda>w. w \<noteq> [] \<and> list_all word_char w) (split_underscores [] (drop 4 name))"

definition assert_pattern_name :: "string \<Rightarrow> unit res" where
  "assert_pattern_name name = raise_if (\<not> pattern_name name) (ValueError ''pattern name'') (Inr ())"

definition build_outputs :: "string \<Rightarrow> pattern_value \<Rightarrow> pattern_value res" where
  "build_outputs name v = bindR (assert_pattern_name name) (\<lambda>_. Inr v)"

definition four_values :: "pyfloat \<Rightarrow> pyfloat \<Rightarrow> pyfloat \<Rightarrow> pyfloat \<Rightarrow> pattern_value" where
  "four_values m d s c = \<lparr>pv_occurred = m, pv_direction = d, pv_strength = s, pv_confirmed = c\<rparr>"

definition undetermined_outputs :: "string \<Rightarrow> pattern_value res" where
  "undetermined_outputs name = build_outputs name (four_values NaN NaN NaN NaN)"

definition no_match_outputs :: "string \<Rightarrow> bool \<Rightarrow> pattern_value res" where
  "no_match_outputs name confirmed =
     build_outputs name (four_values NOT_MATCHED DIRECTIONLESS NOT_MATCHED
       (if confirmed then MATCHED else NOT_MATCHED))"

definition match_outputs :: "string \<Rightarrow> pyfloat \<Rightarrow> pyfloat \<Rightarrow> bool \<Rightarrow> pattern_value res" where
  "match_outputs name direction strength confirmed =
     raise_if (direction \<notin> {BULLISH, BEARISH, DIRECTIONLESS}) (ValueError ''direction'')
     (raise_if (strength \<notin> {FULL_STRENGTH, BOUNDARY_STRENGTH}) (ValueError ''strength'')
     (build_outputs name (four_values MATCHED direction strength
       (if confirmed then MATCHED else NOT_MATCHED))))"

subsection \<open>Raw integers\<close>

definition TALIB_RAW_ALLOWED_VALUES :: "int set" where
  "TALIB_RAW_ALLOWED_VALUES = {-200, -100, -80, 0, 80, 100, 200}"

definition outputs_from_talib_integer :: "string \<Rightarrow> int \<Rightarrow> pattern_value res" where
  "outputs_from_talib_integer name value =
     raise_if (value \<notin> TALIB_RAW_ALLOWED_VALUES) (ValueError ''unsupported raw integer'')
     (bindR (assert_pattern_name name) (\<lambda>_.
       if value = 0 then Inr (four_values NOT_MATCHED NOT_MATCHED NOT_MATCHED NOT_MATCHED)
       else
         (let direction = (if 0 < value then Fin 1 else Fin (- 1)); magnitude = \<bar>value\<bar> in
          if magnitude = 200 then Inr (four_values NOT_MATCHED direction NOT_MATCHED MATCHED)
          else if magnitude = 100 then Inr (four_values MATCHED direction FULL_STRENGTH NOT_MATCHED)
          else if magnitude = 80 then Inr (four_values MATCHED direction BOUNDARY_STRENGTH NOT_MATCHED)
          else Inl (ValueError ''unsupported magnitude''))))"

text \<open>\<open>_undetermined_outputs\<close> of talib_raw.py: the name is checked by \<open>output_keys\<close>.\<close>

definition talib_undetermined :: "string \<Rightarrow> pattern_value res" where
  "talib_undetermined name = bindR (assert_pattern_name name) (\<lambda>_. Inr (four_values NaN NaN NaN NaN))"

definition adapter_numbers :: "string \<Rightarrow> pattern_value \<Rightarrow> pyfloat list res" where
  "adapter_numbers name v =
     bindR (assert_pattern_name name)
       (\<lambda>_. Inr [pv_occurred v, pv_direction v, pv_strength v, pv_confirmed v])"

definition signed_direction :: "pyfloat \<Rightarrow> bool" where
  "signed_direction d \<longleftrightarrow> feq d (Fin 1) \<or> feq d (Fin (- 1))"

definition validate_talib_adapter_outputs :: "string \<Rightarrow> pattern_value \<Rightarrow> unit res" where
  "validate_talib_adapter_outputs name v =
     bindR (adapter_numbers name v) (\<lambda>numbers.
       let m = pv_occurred v; d = pv_direction v; s = pv_strength v; c = pv_confirmed v in
       if list_all is_nan numbers then Inr ()
       else raise_if (list_ex is_nan numbers) (ValueError ''partially NaN'')
       (if feq m NOT_MATCHED \<and> feq d NOT_MATCHED \<and> feq s NOT_MATCHED \<and> feq c NOT_MATCHED then Inr ()
        else if feq m MATCHED \<and> signed_direction d \<and> (feq s FULL_STRENGTH \<or> feq s BOUNDARY_STRENGTH)
          \<and> feq c NOT_MATCHED then Inr ()
        else if feq m NOT_MATCHED \<and> signed_direction d \<and> feq s NOT_MATCHED \<and> feq c MATCHED then Inr ()
        else raise_if (feq m MATCHED \<and> feq c MATCHED) (ValueError ''match and confirm together'')
        (raise_if (feq m MATCHED \<and> feq d NOT_MATCHED) (ValueError ''matched without direction'')
        (raise_if (feq c MATCHED \<and> feq d NOT_MATCHED) (ValueError ''confirmation without direction'')
        (Inl (ValueError ''unsupported adapter output shape''))))))"

definition talib_integer_from_outputs :: "string \<Rightarrow> pattern_value \<Rightarrow> int option res" where
  "talib_integer_from_outputs name v =
     bindR (validate_talib_adapter_outputs name v) (\<lambda>_.
     bindR (adapter_numbers name v) (\<lambda>numbers.
       if list_all is_nan numbers then Inr None
       else
         (let sign = (if feq (pv_direction v) (Fin 1) then 1 else - 1) in
          if feq (pv_confirmed v) MATCHED then Inr (Some (sign * 200))
          else if \<not> feq (pv_occurred v) MATCHED then Inr (Some 0)
          else if feq (pv_strength v) FULL_STRENGTH then Inr (Some (sign * 100))
          else if feq (pv_strength v) BOUNDARY_STRENGTH then Inr (Some (sign * 80))
          else Inl (AssertionError ''validated adapter strength is unreachable''))))"

text \<open>The sparse table of the nonzero signals, by index.\<close>

fun sparse_from :: "string \<Rightarrow> nat \<Rightarrow> pattern_value list \<Rightarrow> (nat \<times> int) list res" where
  "sparse_from name index [] = Inr []"
| "sparse_from name index (v # vs) =
     bindR (talib_integer_from_outputs name v) (\<lambda>integer.
     bindR (sparse_from name (index + 1) vs) (\<lambda>rest.
       Inr (case integer of None \<Rightarrow> rest | Some n \<Rightarrow> if n \<noteq> 0 then (index, n) # rest else rest)))"

definition sparse_talib_integer_signals :: "string \<Rightarrow> pattern_value list \<Rightarrow> (nat \<times> int) list res" where
  "sparse_talib_integer_signals name series = sparse_from name 0 series"

subsection \<open>Penetration and the version pin\<close>

definition TALIB_SOURCE_VERSION :: string where "TALIB_SOURCE_VERSION = ''0.7.1''"

definition TALIB_DBL_MAX :: pyfloat where "TALIB_DBL_MAX = Fin (2 ^ 1024 - 2 ^ 971)"

definition TALIB_DEFAULT_PENETRATION_SENTINEL :: pyfloat where
  "TALIB_DEFAULT_PENETRATION_SENTINEL = fround (- 4 * 10 ^ 37)"

definition TALIB_PENETRATION_DEFAULTS :: "string \<rightharpoonup> pyfloat" where
  "TALIB_PENETRATION_DEFAULTS = map_of
     [(''CDLABANDONEDBABY'', fround (3 / 10)),
      (''CDLDARKCLOUDCOVER'', Fin (1 / 2)),
      (''CDLEVENINGDOJISTAR'', fround (3 / 10)),
      (''CDLEVENINGSTAR'', fround (3 / 10)),
      (''CDLMATHOLD'', Fin (1 / 2)),
      (''CDLMORNINGDOJISTAR'', fround (3 / 10)),
      (''CDLMORNINGSTAR'', fround (3 / 10))]"

definition talib_penetration_default :: "string \<Rightarrow> pyfloat res" where
  "talib_penetration_default talib_function =
     (case TALIB_PENETRATION_DEFAULTS talib_function of
        None \<Rightarrow> Inl (KeyError ''no penetration default'') | Some p \<Rightarrow> Inr p)"

definition resolve_talib_penetration :: "string \<Rightarrow> pyfloat \<Rightarrow> pyfloat res" where
  "resolve_talib_penetration talib_function penetration =
     (if feq penetration TALIB_DEFAULT_PENETRATION_SENTINEL
      then talib_penetration_default talib_function
      else raise_if (flt penetration (Fin 0) \<or> flt TALIB_DBL_MAX penetration)
        (ValueError ''penetration is outside TA-Lib bounds'') (Inr penetration))"

definition talib_penetration_lookback :: "nat \<Rightarrow> pyfloat \<Rightarrow> int" where
  "talib_penetration_lookback base_lookback penetration =
     (if \<not> feq penetration TALIB_DEFAULT_PENETRATION_SENTINEL \<and>
         (flt penetration (Fin 0) \<or> flt TALIB_DBL_MAX penetration)
      then - 1 else int base_lookback)"

definition is_space :: "char \<Rightarrow> bool" where
  "is_space ch \<longleftrightarrow> (of_char ch :: nat) \<in> {9, 10, 11, 12, 13, 28, 29, 30, 31, 32, 133, 160}"

definition first_token :: "string \<Rightarrow> string res" where
  "first_token s =
     (let rest = dropWhile is_space s in
      if rest = [] then Inl (IndexError ''list index out of range'')
      else Inr (takeWhile (\<lambda>ch. \<not> is_space ch) rest))"

definition validate_talib_version_pin :: "string option \<Rightarrow> string option \<Rightarrow> unit res" where
  "validate_talib_version_pin talib_version underlying_version =
     raise_if (talib_version \<noteq> Some TALIB_SOURCE_VERSION) (ValueError ''TA-Lib wrapper version'')
     (case underlying_version of
        None \<Rightarrow> Inl (ValueError ''underlying C-library version must be recorded'')
      | Some v \<Rightarrow> bindR (first_token v) (\<lambda>token.
          raise_if (token \<noteq> ''0.7.1'') (ValueError ''underlying C-library version'') (Inr ())))"

subsection \<open>The two shapes are inverse\<close>

lemmas adapter_defs = outputs_from_talib_integer_def assert_pattern_name_def
  talib_integer_from_outputs_def validate_talib_adapter_outputs_def adapter_numbers_def
  four_values_def signed_direction_def output_constants Let_def

lemma outputs_then_integer:
  assumes "pattern_name name" and "value \<in> TALIB_RAW_ALLOWED_VALUES"
  obtains v where "outputs_from_talib_integer name value = Inr v"
    and "talib_integer_from_outputs name v = Inr (Some value)"
proof -
  consider "value = -200" | "value = -100" | "value = -80" | "value = 0" | "value = 80"
    | "value = 100" | "value = 200"
    using assms(2) by (auto simp: TALIB_RAW_ALLOWED_VALUES_def)
  then show ?thesis
    by cases (rule that, (simp add: adapter_defs assms(1) TALIB_RAW_ALLOWED_VALUES_def)+)+
qed

lemma feq_Fin: "feq x (Fin q) \<longleftrightarrow> x = Fin q"
  by (cases x) auto

lemma integer_then_outputs:
  assumes "talib_integer_from_outputs name v = Inr (Some n)"
  shows "n \<in> TALIB_RAW_ALLOWED_VALUES" and "outputs_from_talib_integer name n = Inr v"
proof -
  obtain m d s c where v: "v = \<lparr>pv_occurred = m, pv_direction = d, pv_strength = s, pv_confirmed = c\<rparr>"
    by (cases v)
  have name: "pattern_name name" using assms
    by (auto simp: talib_integer_from_outputs_def validate_talib_adapter_outputs_def
        adapter_numbers_def assert_pattern_name_def bindR_eq_Inr)
  consider "m = Fin 0" "d = Fin 0" "s = Fin 0" "c = Fin 0"
    | "m = Fin 1" "d = Fin 1 \<or> d = Fin (- 1)" "s = Fin 1 \<or> s = Fin (1 / 2)" "c = Fin 0"
    | "m = Fin 0" "d = Fin 1 \<or> d = Fin (- 1)" "s = Fin 0" "c = Fin 1"
    using assms name unfolding v
    by (auto simp: adapter_defs feq_Fin bindR_eq_Inr split: if_splits)
  then show "n \<in> TALIB_RAW_ALLOWED_VALUES" and "outputs_from_talib_integer name n = Inr v"
    using assms name unfolding v
    by (cases; auto simp: adapter_defs TALIB_RAW_ALLOWED_VALUES_def)+
qed

lemma talib_undetermined_integer:
  "pattern_name name \<Longrightarrow> bindR (talib_undetermined name) (talib_integer_from_outputs name) = Inr None"
  by (simp add: talib_undetermined_def assert_pattern_name_def talib_integer_from_outputs_def
      validate_talib_adapter_outputs_def adapter_numbers_def four_values_def)

end
