(* ===== verification/PatternPorts.thy ===== *)
theory PatternPorts
  imports PatternOutputs
begin

section \<open>TA-Lib pattern ports (core_lib/patterns/talib_raw.py)\<close>

text \<open>
  A port is a judge, a function of the candles, the current index and the averages that returns
  an integer or raises, with its lookback and the averages it reads. \<open>compute_integers\<close> and
  \<open>compute_vectorized\<close> are the batch path, \<open>port_update_integer\<close> and \<open>port_update\<close> the incremental
  one. The locale \<open>pattern_judge\<close> states what a judge promises: it reads nothing behind the current
  index, it answers with one of five integers as soon as its averages are there, and the averages
  are there from the lookback on. Under it neither path raises, and both return the same values.
\<close>

type_synonym average_key = "candle_setting_type \<times> nat"
type_synonym average_series = "average_key \<rightharpoonup> pyfloat option list"
type_synonym integer_judge = "candle list \<Rightarrow> nat \<Rightarrow> average_series \<Rightarrow> int res"

definition talib_avg :: "average_series \<Rightarrow> candle_setting_type \<Rightarrow> nat \<Rightarrow> nat \<Rightarrow> pyfloat res" where
  "talib_avg averages st index offset =
     bindR (case averages (st, offset) of None \<Rightarrow> Inl (KeyError ''averages'') | Some xs \<Rightarrow> Inr xs) (\<lambda>xs.
     bindR (item xs (int index)) (\<lambda>value.
       case value of None \<Rightarrow> Inl (ValueError ''average is unavailable'') | Some x \<Rightarrow> Inr x))"

record talib_port =
  port_name :: string
  talib_function :: string
  lookback :: nat
  average_keys :: "average_key list"
  port_judge :: integer_judge

definition talib_port_of ::
    "string \<Rightarrow> string \<Rightarrow> nat \<Rightarrow> average_key list \<Rightarrow> integer_judge \<Rightarrow> talib_port" where
  "talib_port_of name f n keys judge =
     \<lparr>port_name = name, talib_function = f, lookback = n, average_keys = keys, port_judge = judge\<rparr>"

definition check_spec :: "talib_port \<Rightarrow> unit res" where
  "check_spec p =
     raise_if (port_name p = []) (ValueError ''name must not be empty'')
     (raise_if (take 3 (talib_function p) \<noteq> ''CDL'') (ValueError ''must be a TA-Lib CDL function name'')
     (Inr ()))"

definition first_output_index :: "talib_port \<Rightarrow> nat" where
  "first_output_index p = lookback p"

definition port_min_history :: "talib_port \<Rightarrow> nat" where
  "port_min_history p = lookback p + 1"

definition is_warmup_index :: "talib_port \<Rightarrow> nat \<Rightarrow> bool" where
  "is_warmup_index p index \<longleftrightarrow> index < lookback p"

text \<open>\<open>_keys(*setting_types, offset)\<close>.\<close>

definition keys_at :: "nat \<Rightarrow> candle_setting_type list \<Rightarrow> average_key list" where
  "keys_at offset types = map (\<lambda>st. (st, offset)) types"

definition default_lookback :: "candle_setting_type list \<Rightarrow> nat \<Rightarrow> nat" where
  "default_lookback types extra_bars = candle_settings_lookback types extra_bars 0 DEFAULT_CANDLE_SETTINGS"

subsection \<open>The batch path\<close>

definition check_raw_integer :: "talib_port \<Rightarrow> nat \<times> int \<Rightarrow> unit res" where
  "check_raw_integer p entry = (case entry of (index, value) \<Rightarrow>
     raise_if (value \<notin> TALIB_RAW_ALLOWED_VALUES) (ValueError ''not a CDL raw integer'')
     (raise_if (is_warmup_index p index \<and> value \<noteq> 0) (ValueError ''warm-up index must be 0'') (Inr ())))"

definition validate_talib_raw_integer_series :: "talib_port \<Rightarrow> int list \<Rightarrow> nat option \<Rightarrow> unit res" where
  "validate_talib_raw_integer_series p ints candle_count =
     raise_if (candle_count \<noteq> None \<and> candle_count \<noteq> Some (length ints)) (ValueError ''value count'')
       (foldR (\<lambda>_. check_raw_integer p) () (zip [0..<length ints] ints))"

definition port_averages :: "talib_port \<Rightarrow> candle list \<Rightarrow> average_series" where
  "port_averages p cs =
     map_of (map (\<lambda>k. (k, candle_average_series DEFAULT_CANDLE_SETTINGS (fst k) cs (snd k))) (average_keys p))"

definition compute_integers :: "talib_port \<Rightarrow> candle list \<Rightarrow> int list res" where
  "compute_integers p cs =
     (let averages = port_averages p cs in
      bindR (mapR (\<lambda>index. port_judge p cs index averages) [lookback p..<length cs]) (\<lambda>judged.
        let ints = replicate (min (lookback p) (length cs)) 0 @ judged in
        bindR (validate_talib_raw_integer_series p ints (Some (length cs))) (\<lambda>_. Inr ints)))"

definition vectorized_outputs :: "string \<Rightarrow> nat \<Rightarrow> int list \<Rightarrow> pattern_value list res" where
  "vectorized_outputs name n ints =
     mapR (\<lambda>(index, integer). if index < n then talib_undetermined name
       else outputs_from_talib_integer name integer) (zip [0..<length ints] ints)"

definition compute_vectorized :: "talib_port \<Rightarrow> candle list \<Rightarrow> pattern_value list res" where
  "compute_vectorized p cs = bindR (compute_integers p cs) (vectorized_outputs (port_name p) (lookback p))"

subsection \<open>The incremental path\<close>

record pattern_state =
  ps_seen :: nat
  ps_candles :: "candle list"
  ps_average_states :: "(average_key \<times> average_state) list"
  ps_averages :: "(average_key \<times> pyfloat option list) list"
  ps_current_integer :: "int option"
  ps_current :: pattern_value

definition make_state :: "talib_port \<Rightarrow> pattern_state res" where
  "make_state p = bindR (talib_undetermined (port_name p)) (\<lambda>v. Inr
     \<lparr>ps_seen = 0, ps_candles = [], ps_average_states = map (\<lambda>k. (k, average_start)) (average_keys p),
      ps_averages = map (\<lambda>k. (k, [])) (average_keys p), ps_current_integer = None, ps_current = v\<rparr>)"

definition port_warmed_up :: "talib_port \<Rightarrow> pattern_state \<Rightarrow> bool" where
  "port_warmed_up p s \<longleftrightarrow> port_min_history p \<le> ps_seen s"

definition port_reset :: "talib_port \<Rightarrow> pattern_state \<Rightarrow> pattern_state res" where
  "port_reset p s = bindR (talib_undetermined (port_name p)) (\<lambda>v. Inr (s
     \<lparr>ps_seen := 0, ps_candles := [],
      ps_average_states := map (\<lambda>(k, st). (k, average_reset st)) (ps_average_states s),
      ps_averages := map (\<lambda>(k, _). (k, [])) (ps_averages s), ps_current_integer := None, ps_current := v\<rparr>))"

definition update_averages ::
    "candle \<Rightarrow> (average_key \<times> average_state) list \<Rightarrow>
     (average_key \<times> average_state \<times> pyfloat option) list res" where
  "update_averages c states =
     mapR (\<lambda>(k, st). bindR (average_update DEFAULT_CANDLE_SETTINGS (fst k) (snd k) st c)
       (\<lambda>(st', v). Inr (k, st', v))) states"

definition port_update_integer ::
    "talib_port \<Rightarrow> pattern_state \<Rightarrow> candle \<Rightarrow> (pattern_state \<times> int option) res" where
  "port_update_integer p s c =
     (let index = ps_seen s; cs = ps_candles s @ [c] in
      bindR (update_averages c (ps_average_states s)) (\<lambda>updates.
        let latest = map_of (map (\<lambda>(k, _, v). (k, v)) updates);
            averages = map (\<lambda>(k, vs). (k, vs @ [the (latest k)])) (ps_averages s);
            s' = s\<lparr>ps_seen := index + 1, ps_candles := cs,
                  ps_average_states := map (\<lambda>(k, st, _). (k, st)) updates, ps_averages := averages\<rparr>
        in if index < lookback p then Inr (s'\<lparr>ps_current_integer := None\<rparr>, None)
           else bindR (port_judge p cs index (map_of averages)) (\<lambda>integer.
             Inr (s'\<lparr>ps_current_integer := Some integer\<rparr>, Some integer))))"

definition port_update ::
    "talib_port \<Rightarrow> pattern_state \<Rightarrow> candle \<Rightarrow> (pattern_state \<times> pattern_value) res" where
  "port_update p s c =
     bindR (port_update_integer p s c) (\<lambda>(s', integer).
     bindR (case integer of None \<Rightarrow> talib_undetermined (port_name p)
              | Some n \<Rightarrow> outputs_from_talib_integer (port_name p) n) (\<lambda>v.
       Inr (s'\<lparr>ps_current := v\<rparr>, v)))"

definition port_seed :: "talib_port \<Rightarrow> candle list \<Rightarrow> pattern_state \<Rightarrow> pattern_state res" where
  "port_seed p cs s =
     bindR (port_reset p s) (\<lambda>s0. bindR (replay (port_update p) s0 cs) (\<lambda>(t, _). Inr t))"

subsection \<open>The contract of a judge\<close>

text \<open>The view of the averages up to the index \<open>i\<close>.\<close>

definition averages_until :: "nat \<Rightarrow> average_series \<Rightarrow> average_series" where
  "averages_until i averages = (\<lambda>k. map_option (take (Suc i)) (averages k))"

lemma talib_avg_until [simp]: "talib_avg (averages_until i averages) st i offset = talib_avg averages st i offset"
  by (cases "averages (st, offset)") (simp_all add: talib_avg_def averages_until_def item_take)

definition port_values :: "int set" where
  "port_values = {-100, -80, 0, 80, 100}"

locale pattern_judge =
  fixes judge :: integer_judge and keys :: "average_key list" and n :: nat
  assumes reads_past:
      "n \<le> i \<Longrightarrow> i < length cs \<Longrightarrow> judge (take (Suc i) cs) i (averages_until i averages) = judge cs i averages"
    and answers:
      "n \<le> i \<Longrightarrow> i < length cs \<Longrightarrow> (\<And>st offset. (st, offset) \<in> set keys \<Longrightarrow> isOk (talib_avg averages st i offset)) \<Longrightarrow>
       returns (judge cs i averages) port_values"
    and ready: "(st, offset) \<in> set keys \<Longrightarrow> avg_period (DEFAULT_CANDLE_SETTINGS st) + offset \<le> n"
begin

definition averages :: "candle list \<Rightarrow> average_series" where
  "averages cs = map_of (map (\<lambda>k. (k, candle_average_series DEFAULT_CANDLE_SETTINGS (fst k) cs (snd k))) keys)"

lemma averages_key:
  "averages cs (st, offset) =
     (if (st, offset) \<in> set keys then Some (candle_average_series DEFAULT_CANDLE_SETTINGS st cs offset) else None)"
  unfolding averages_def by (induction keys) auto

lemma averages_ready:
  "n \<le> i \<Longrightarrow> i < length cs \<Longrightarrow> (st, offset) \<in> set keys \<Longrightarrow> isOk (talib_avg (averages cs) st i offset)"
  using ready [of st offset]
  by (auto simp: talib_avg_def averages_key candle_average_series_values average_value_def Let_def item_def)

definition judged :: "candle list \<Rightarrow> nat \<Rightarrow> int" where
  "judged cs i = projr (judge cs i (averages cs))"

lemma judge_answers:
  assumes "n \<le> i" and "i < length cs"
  shows "judge cs i (averages cs) = Inr (judged cs i)" and "judged cs i \<in> port_values"
  using answers [OF assms averages_ready [OF assms]] by (auto simp: returns_def judged_def)

lemma averages_take: "averages_until i (averages cs) = averages (take (Suc i) cs)"
proof
  fix k :: average_key
  obtain st offset where k: "k = (st, offset)" by (cases k)
  have "take (Suc i) (candle_average_series DEFAULT_CANDLE_SETTINGS st cs offset) =
      candle_average_series DEFAULT_CANDLE_SETTINGS st (take (Suc i) cs) offset"
    by (rule candle_averages.series_causal)
  then show "averages_until i (averages cs) k = averages (take (Suc i) cs) k"
    by (simp add: averages_until_def averages_key k)
qed

lemma judged_take: "n \<le> i \<Longrightarrow> i < length cs \<Longrightarrow> judged (take (Suc i) cs) i = judged cs i"
  using reads_past [of i cs "averages cs"] by (simp add: judged_def averages_take)

text \<open>The value of every bar: none during warm-up.\<close>

definition integer_series :: "candle list \<Rightarrow> int option list" where
  "integer_series cs = map (\<lambda>i. if i < n then None else Some (judged cs i)) [0..<length cs]"

lemma integer_series_snoc:
  "integer_series (cs @ [c]) =
     integer_series cs @ [if length cs < n then None else Some (judged (cs @ [c]) (length cs))]"
proof -
  have "judged (cs @ [c]) i = judged cs i" if "n \<le> i" "i < length cs" for i
    using judged_take [of i "cs @ [c]"] judged_take [of i cs] that by simp
  then show ?thesis by (auto simp: integer_series_def)
qed

lemma batch_judges: "mapR (\<lambda>i. judge cs i (averages cs)) [n..<length cs] = Inr (map (judged cs) [n..<length cs])"
proof -
  have "mapR (\<lambda>i. judge cs i (averages cs)) is = Inr (map (judged cs) is)"
    if "set is \<subseteq> {n..<length cs}" for "is"
    using that by (induction "is") (auto simp: judge_answers)
  then show ?thesis by simp
qed

end

subsection \<open>Ports whose judge keeps the contract\<close>

lemma port_values_allowed: "n \<in> port_values \<Longrightarrow> n \<in> TALIB_RAW_ALLOWED_VALUES"
  by (auto simp: port_values_def TALIB_RAW_ALLOWED_VALUES_def)

lemma checks_pass:
  assumes "\<And>i. i < length ints \<Longrightarrow> ints ! i \<in> TALIB_RAW_ALLOWED_VALUES"
    and "\<And>i. i < length ints \<Longrightarrow> i < lookback p \<Longrightarrow> ints ! i = 0"
  shows "validate_talib_raw_integer_series p ints (Some (length ints)) = Inr ()"
proof -
  have one: "check_raw_integer p (i, ints ! i) = Inr ()" if "i < length ints" for i
    using assms(1) [OF that] assms(2) [OF that] by (simp add: check_raw_integer_def is_warmup_index_def)
  have "foldR (\<lambda>_. check_raw_integer p) () es = Inr ()" if "set es \<subseteq> set (zip [0..<length ints] ints)" for es
    using that one by (induction es) (auto simp: set_zip)
  then show ?thesis by (simp add: validate_talib_raw_integer_series_def)
qed

text \<open>The four numbers of an integer, all NaN for a bar of the warm-up.\<close>

definition four_keys :: "string \<Rightarrow> int option \<Rightarrow> pattern_value" where
  "four_keys name integer = projr (case integer of None \<Rightarrow> talib_undetermined name
     | Some n \<Rightarrow> outputs_from_talib_integer name n)"

lemma four_keys_ok:
  assumes "pattern_name name" and "\<And>n. integer = Some n \<Longrightarrow> n \<in> TALIB_RAW_ALLOWED_VALUES"
  shows "(case integer of None \<Rightarrow> talib_undetermined name | Some n \<Rightarrow> outputs_from_talib_integer name n) =
    Inr (four_keys name integer)"
proof (cases integer)
  case None
  then show ?thesis by (simp add: four_keys_def talib_undetermined_def assert_pattern_name_def assms(1))
next
  case (Some n)
  then obtain v where "outputs_from_talib_integer name n = Inr v"
    using outputs_then_integer [OF assms(1)] assms(2) by metis
  then show ?thesis by (simp add: four_keys_def Some)
qed

lemma vectorized_outputs_eq:
  assumes "pattern_name name" and "set ints \<subseteq> TALIB_RAW_ALLOWED_VALUES"
  shows "vectorized_outputs name n ints =
    Inr (map (four_keys name) (map (\<lambda>i. if i < n then None else Some (ints ! i)) [0..<length ints]))"
proof -
  let ?f = "\<lambda>(index, integer). if index < n then talib_undetermined name
       else outputs_from_talib_integer name integer"
  let ?v = "\<lambda>i. if i < n then None else Some (ints ! i)"
  have one: "?f (i, ints ! i) = Inr (four_keys name (?v i))" if "i < length ints" for i
  proof -
    have "ints ! i \<in> TALIB_RAW_ALLOWED_VALUES" using that assms(2) nth_mem by blast
    then show ?thesis using four_keys_ok [OF assms(1), of "?v i"] by (cases "i < n") simp_all
  qed
  have many: "mapR ?f (map (\<lambda>i. (i, ints ! i)) is) = Inr (map (\<lambda>i. four_keys name (?v i)) is)"
    if "set is \<subseteq> {..<length ints}" for "is"
    using that by (induction "is") (use one in auto)
  have pairs: "zip [0..<length ints] ints = map (\<lambda>i. (i, ints ! i)) [0..<length ints]"
    by (intro nth_equalityI) auto
  have "set [0..<length ints] \<subseteq> {..<length ints}" by auto
  from many [OF this] show ?thesis unfolding vectorized_outputs_def pairs by (simp only: map_map comp_def)
qed

text \<open>The integers of a series can be read back from its four-key outputs.\<close>

lemma vectorized_outputs_decode:
  assumes "pattern_name name" and "set ints \<subseteq> TALIB_RAW_ALLOWED_VALUES" and "vectorized_outputs name n ints = Inr vals"
  shows "mapR (talib_integer_from_outputs name) vals =
    Inr (map (\<lambda>i. if i < n then None else Some (ints ! i)) [0..<length ints])"
proof -
  let ?f = "\<lambda>(index, integer). if index < n then talib_undetermined name
       else outputs_from_talib_integer name integer"
  let ?g = "\<lambda>(index, integer). if index < n then None else Some integer"
  have one: "talib_integer_from_outputs name v = Inr (?g e)"
    if "e \<in> set (zip [0..<length ints] ints)" "?f e = Inr v" for e v
  proof (cases e)
    case (Pair i m)
    then have "m \<in> TALIB_RAW_ALLOWED_VALUES" using that(1) assms(2) set_zip_rightD by fastforce
    then obtain w where "outputs_from_talib_integer name m = Inr w" "talib_integer_from_outputs name w = Inr (Some m)"
      by (rule outputs_then_integer [OF assms(1)])
    then show ?thesis using that(2) talib_undetermined_integer [OF assms(1)] Pair by (auto split: if_splits)
  qed
  have many: "mapR (talib_integer_from_outputs name) vs = Inr (map ?g es)"
    if "set es \<subseteq> set (zip [0..<length ints] ints)" "mapR ?f es = Inr vs" for es vs
    using that
  proof (induction es arbitrary: vs)
    case (Cons e es)
    then obtain w ws where w: "?f e = Inr w" "mapR ?f es = Inr ws" "vs = w # ws" by (auto simp: bindR_eq_Inr)
    then show ?case using Cons.IH [of ws] one [of e w] Cons.prems(1) by simp
  qed simp
  have "mapR (talib_integer_from_outputs name) vals = Inr (map ?g (zip [0..<length ints] ints))"
    by (rule many) (use assms(3) in \<open>simp_all add: vectorized_outputs_def\<close>)
  also have "map ?g (zip [0..<length ints] ints) = map (\<lambda>i. if i < n then None else Some (ints ! i)) [0..<length ints]"
    by (intro nth_equalityI) auto
  finally show ?thesis .
qed

text \<open>The facts from which a judge's contract follows.\<close>

lemma default_lookback_simps [simp]:
  "default_lookback types k = Max (set (0 # map (\<lambda>st. avg_period (DEFAULT_CANDLE_SETTINGS st)) types)) + k"
  by (simp add: default_lookback_def candle_settings_lookback_def)

lemma setting_period [simp]: "avg_period (candle_setting_of st rt n f) = n"
  by (simp add: candle_setting_of_def)

lemma port_values_members [ok_intros]:
  "100 \<in> port_values" "- 100 \<in> port_values" "0 \<in> port_values"
  "candle_color c * 100 \<in> port_values" "- candle_color c * 100 \<in> port_values"
  "100 * candle_color c \<in> port_values" "candle_color c * 80 \<in> port_values"
  "- candle_color c * 80 \<in> port_values"
  using candle_color_cases [of c] by (auto simp: port_values_def)

locale port_contract =
  fixes p :: talib_port
  assumes judge_law: "pattern_judge (port_judge p) (average_keys p) (lookback p)"
    and name_ok: "pattern_name (port_name p)"
    and spec_ok: "check_spec p = Inr ()"

lemma port_contract_of:
  assumes "pattern_judge j keys n" and "pattern_name name" and "name \<noteq> []" and "take 3 f = ''CDL''"
  shows "port_contract (talib_port_of name f n keys j)"
  using assms by (simp add: port_contract_def talib_port_of_def check_spec_def)

sublocale port_contract \<subseteq> pattern_judge "port_judge p" "average_keys p" "lookback p"
  by (rule judge_law)

context port_contract
begin

definition integers :: "candle list \<Rightarrow> int list" where
  "integers cs = map (\<lambda>i. if i < lookback p then 0 else judged cs i) [0..<length cs]"

definition outputs :: "int option \<Rightarrow> pattern_value" where
  "outputs = four_keys (port_name p)"

lemma integers_values: "set (integers cs) \<subseteq> port_values"
proof -
  have "0 \<in> port_values" by (simp add: port_values_def)
  then show ?thesis using judge_answers(2) by (auto simp: integers_def)
qed

lemma compute_integers_eq: "compute_integers p cs = Inr (integers cs)"
proof -
  have split: "replicate (min (lookback p) (length cs)) 0 @ map (judged cs) [lookback p..<length cs] = integers cs"
    by (intro nth_equalityI) (auto simp: integers_def nth_append min_def)
  have "validate_talib_raw_integer_series p (integers cs) (Some (length (integers cs))) = Inr ()"
  proof (rule checks_pass)
    show "integers cs ! i \<in> TALIB_RAW_ALLOWED_VALUES" if "i < length (integers cs)" for i
      using port_values_allowed subsetD [OF integers_values nth_mem [OF that]] by blast
  qed (simp add: integers_def)
  then have check: "validate_talib_raw_integer_series p (integers cs) (Some (length cs)) = Inr ()"
    by (simp add: integers_def)
  have "mapR (\<lambda>index. port_judge p cs index (port_averages p cs)) [lookback p..<length cs] =
      Inr (map (judged cs) [lookback p..<length cs])"
    using batch_judges [of cs] by (simp add: averages_def port_averages_def)
  then show ?thesis by (simp add: compute_integers_def Let_def split check)
qed

lemma integer_series_integers:
  "integer_series cs = map (\<lambda>i. if i < lookback p then None else Some (integers cs ! i)) [0..<length cs]"
  by (auto simp: integer_series_def integers_def)

lemma compute_vectorized_eq: "compute_vectorized p cs = Inr (map outputs (integer_series cs))"
proof -
  have "set (integers cs) \<subseteq> TALIB_RAW_ALLOWED_VALUES" using integers_values port_values_allowed by blast
  from vectorized_outputs_eq [OF name_ok this, of "lookback p"] show ?thesis
    by (simp add: compute_vectorized_def compute_integers_eq outputs_def integer_series_integers integers_def)
qed

text \<open>What a port's state holds after the candles \<open>cs\<close>.\<close>

definition state_reached :: "candle list \<Rightarrow> (average_key \<times> average_state) list \<Rightarrow> bool" where
  "state_reached cs states \<longleftrightarrow> list_all2 (\<lambda>k (k', st). k' = k \<and>
     average_reached DEFAULT_CANDLE_SETTINGS (fst k) (snd k) cs st) (average_keys p) states"

definition reached :: "candle list \<Rightarrow> pattern_state \<Rightarrow> bool" where
  "reached cs s \<longleftrightarrow> ps_seen s = length cs \<and> ps_candles s = cs \<and> state_reached cs (ps_average_states s) \<and>
     ps_averages s = map (\<lambda>k. (k, candle_average_series DEFAULT_CANDLE_SETTINGS (fst k) cs (snd k))) (average_keys p)"

lemma update_averages_reached:
  assumes "state_reached cs states"
  obtains updates where "update_averages c states = Inr updates"
    and "state_reached (cs @ [c]) (map (\<lambda>(k, st, _). (k, st)) updates)"
    and "map (\<lambda>(k, _, v). (k, v)) updates =
      map (\<lambda>k. (k, average_value DEFAULT_CANDLE_SETTINGS (fst k) (cs @ [c]) (snd k) (length cs))) (average_keys p)"
proof -
  let ?P = "\<lambda>ks updates. list_all2 (\<lambda>k (k', st). k' = k \<and>
      average_reached DEFAULT_CANDLE_SETTINGS (fst k) (snd k) (cs @ [c]) st) ks (map (\<lambda>(k, st, _). (k, st)) updates) \<and>
    map (\<lambda>(k, _, v). (k, v)) updates =
      map (\<lambda>k. (k, average_value DEFAULT_CANDLE_SETTINGS (fst k) (cs @ [c]) (snd k) (length cs))) ks"
  have "\<exists>updates. update_averages c states = Inr updates \<and> ?P (average_keys p) updates"
    using assms unfolding state_reached_def
  proof (induction rule: list_all2_induct)
    case Nil
    then show ?case by (simp add: update_averages_def)
  next
    case (Cons k ks entry states)
    then obtain updates where u: "update_averages c states = Inr updates" "?P ks updates" by blast
    obtain st where entry: "entry = (k, st)"
      and st: "average_reached DEFAULT_CANDLE_SETTINGS (fst k) (snd k) cs st"
      using Cons(1) by (cases entry) simp
    obtain st' where "average_update DEFAULT_CANDLE_SETTINGS (fst k) (snd k) st c =
        Inr (st', average_value DEFAULT_CANDLE_SETTINGS (fst k) (cs @ [c]) (snd k) (length cs))"
      "average_reached DEFAULT_CANDLE_SETTINGS (fst k) (snd k) (cs @ [c]) st'"
      using average_update_reached [OF st] by blast
    then show ?case using u by (auto simp: update_averages_def entry)
  qed
  then show ?thesis using that unfolding state_reached_def by blast
qed

lemma port_update_integer_reached:
  assumes "reached cs s"
  shows "\<exists>s'. port_update_integer p s c =
      Inr (s', if length cs < lookback p then None else Some (judged (cs @ [c]) (length cs))) \<and>
    reached (cs @ [c]) s'"
proof -
  have s: "ps_seen s = length cs" "ps_candles s = cs" "state_reached cs (ps_average_states s)"
    "ps_averages s = map (\<lambda>k. (k, candle_average_series DEFAULT_CANDLE_SETTINGS (fst k) cs (snd k))) (average_keys p)"
    using assms by (simp_all add: reached_def)
  let ?v = "\<lambda>k. average_value DEFAULT_CANDLE_SETTINGS (fst k) (cs @ [c]) (snd k) (length cs)"
  obtain updates where u: "update_averages c (ps_average_states s) = Inr updates"
      "state_reached (cs @ [c]) (map (\<lambda>(k, st, _). (k, st)) updates)"
      "map (\<lambda>(k, _, v). (k, v)) updates = map (\<lambda>k. (k, ?v k)) (average_keys p)"
    using update_averages_reached [OF s(3)] by blast
  have latest: "the (map_of (map (\<lambda>k. (k, ?v k)) (average_keys p)) k) = ?v k" if "k \<in> set (average_keys p)" for k
    using that by (simp add: map_of_map_restrict)
  have avs: "map (\<lambda>(k, vs). (k, vs @ [the (map_of (map (\<lambda>(k, _, v). (k, v)) updates) k)])) (ps_averages s) =
      map (\<lambda>k. (k, candle_average_series DEFAULT_CANDLE_SETTINGS (fst k) (cs @ [c]) (snd k))) (average_keys p)"
    using latest by (simp add: s(4) u(3) candle_average_series_snoc)
  let ?avs = "map (\<lambda>k. (k, candle_average_series DEFAULT_CANDLE_SETTINGS (fst k) (cs @ [c]) (snd k))) (average_keys p)"
  let ?s = "s\<lparr>ps_seen := length cs + 1, ps_candles := cs @ [c],
      ps_average_states := map (\<lambda>(k, st, _). (k, st)) updates, ps_averages := ?avs\<rparr>"
  have kept: "reached (cs @ [c]) (?s\<lparr>ps_current_integer := v\<rparr>)" for v
    using u(2) by (simp add: reached_def)
  have step: "port_update_integer p s c =
      (if length cs < lookback p then Inr (?s\<lparr>ps_current_integer := None\<rparr>, None)
       else bindR (port_judge p (cs @ [c]) (length cs) (averages (cs @ [c]))) (\<lambda>integer.
         Inr (?s\<lparr>ps_current_integer := Some integer\<rparr>, Some integer)))"
    unfolding port_update_integer_def Let_def s(1,2) u(1) bindR_Inr avs averages_def ..
  show ?thesis
  proof (cases "length cs < lookback p")
    case True
    then show ?thesis unfolding step using kept by auto
  next
    case False
    then have "port_judge p (cs @ [c]) (length cs) (averages (cs @ [c])) = Inr (judged (cs @ [c]) (length cs))"
      by (intro judge_answers(1)) auto
    then show ?thesis unfolding step using kept False by auto
  qed
qed

lemma start_reached:
  assumes "make_state p = Inr s"
  shows "reached [] s"
proof -
  have "state_reached [] (map (\<lambda>k. (k, average_start)) (average_keys p))"
    by (simp add: state_reached_def list_all2_conv_all_nth candle_averages.start_reached)
  then show ?thesis
    using assms by (auto simp: make_state_def bindR_eq_Inr reached_def candle_average_series_values)
qed

lemma make_state_ok: "\<exists>s. make_state p = Inr s"
  by (simp add: make_state_def talib_undetermined_def assert_pattern_name_def name_ok)

lemma port_update_reached:
  assumes "reached cs s"
  shows "\<exists>s' v. port_update p s c = Inr (s', v) \<and> reached (cs @ [c]) s' \<and>
    map outputs (integer_series (cs @ [c])) = map outputs (integer_series cs) @ [v]"
proof -
  let ?n = "if length cs < lookback p then None else Some (judged (cs @ [c]) (length cs))"
  obtain s' where s': "port_update_integer p s c = Inr (s', ?n)" "reached (cs @ [c]) s'"
    using port_update_integer_reached [OF assms] by blast
  have "(case ?n of None \<Rightarrow> talib_undetermined (port_name p)
      | Some n \<Rightarrow> outputs_from_talib_integer (port_name p) n) = Inr (outputs ?n)"
    unfolding outputs_def
    using port_values_allowed [OF judge_answers(2), of "length cs" "cs @ [c]"]
    by (intro four_keys_ok [OF name_ok]) (auto split: if_splits)
  then have "port_update p s c = Inr (s'\<lparr>ps_current := outputs ?n\<rparr>, outputs ?n)"
    by (simp only: port_update_def s'(1) bindR_Inr split)
  moreover have "reached (cs @ [c]) (s'\<lparr>ps_current := outputs ?n\<rparr>)"
    using s'(2) by (simp add: reached_def)
  ultimately show ?thesis by (auto simp: integer_series_snoc)
qed

end

sublocale port_contract \<subseteq> ints: incremental "projr (make_state p)" "port_update_integer p" integer_series reached
proof
  show "reached [] (projr (make_state p))" using start_reached make_state_ok by fastforce
  show "integer_series [] = []" by (simp add: integer_series_def)
  show "\<exists>s' y. port_update_integer p s c = Inr (s', y) \<and> reached (cs @ [c]) s' \<and>
      integer_series (cs @ [c]) = integer_series cs @ [y]" if "reached cs s" for cs s c
    using port_update_integer_reached [OF that, of c] by (auto simp: integer_series_snoc)
qed

sublocale port_contract \<subseteq> vals: incremental "projr (make_state p)" "port_update p"
    "\<lambda>cs. map outputs (integer_series cs)" reached
proof
  show "reached [] (projr (make_state p))" by (rule ints.start_reached)
  show "map outputs (integer_series []) = []" by (simp add: integer_series_def)
qed (rule port_update_reached)

context port_contract
begin

text \<open>Neither path raises, and the state object returns the batch series bar by bar.\<close>

lemma paths_agree:
  obtains s t u where "make_state p = Inr s"
    and "compute_integers p cs = Inr (integers cs)"
    and "compute_vectorized p cs = Inr (map outputs (integer_series cs))"
    and "replay (port_update_integer p) s cs =
      Inr (t, map (\<lambda>i. if i < lookback p then None else Some (integers cs ! i)) [0..<length cs])"
    and "replay (port_update p) s cs = Inr (u, map outputs (integer_series cs))"
proof -
  obtain s where s: "make_state p = Inr s" using make_state_ok by blast
  obtain t where "replay (port_update_integer p) s cs = Inr (t, integer_series cs)"
    using ints.replay_series [of cs] by (auto simp: s)
  moreover obtain u where "replay (port_update p) s cs = Inr (u, map outputs (integer_series cs))"
    using vals.replay_series [of cs] by (auto simp: s)
  ultimately show ?thesis
    using that [OF s compute_integers_eq compute_vectorized_eq] by (simp add: integer_series_integers)
qed

end

end
