(* ===== verification/SinglePatterns.thy ===== *)
theory SinglePatterns
  imports PatternPorts
begin

section \<open>Single-candle patterns (core_lib/patterns/talib_single_candle.py)\<close>

text \<open>
  The seventeen single-candle ports, one judge per pattern, and the table of the ports.
\<close>

definition min_open_close :: "candle \<Rightarrow> pyfloat" where
  "min_open_close candle =
     real_body_bottom candle"

definition max_open_close :: "candle \<Rightarrow> pyfloat" where
  "max_open_close candle =
     real_body_top candle"

definition signed_hundred :: "candle \<Rightarrow> int" where
  "signed_hundred candle =
     (candle_color candle) * 100"

definition doji :: "integer_judge" where
  "doji cs i avs =
     bindR (item cs (int i)) (\<lambda>candle.
     ifR (atmost (real_body candle) (talib_avg avs BODY_DOJI i 0))
       (Inr 100)
       (Inr 0))"

definition long_legged_doji :: "integer_judge" where
  "long_legged_doji cs i avs =
     bindR (item cs (int i)) (\<lambda>candle.
     ifR (all_of
         [atmost (real_body candle) (talib_avg avs BODY_DOJI i 0),
          any_of
            [above (lower_shadow candle) (talib_avg avs SHADOW_LONG i 0),
             above (upper_shadow candle) (talib_avg avs SHADOW_LONG i 0)]])
       (Inr 100)
       (Inr 0))"

definition rickshaw_man :: "integer_judge" where
  "rickshaw_man cs i avs =
     bindR (item cs (int i)) (\<lambda>candle.
     bindR (talib_avg avs NEAR i 0) (\<lambda>near.
     let midpoint = fadd (c_low candle) (fquot (fsub (c_high candle) (c_low candle)) (Fin 2)) in
     ifR (all_of
         [atmost (real_body candle) (talib_avg avs BODY_DOJI i 0),
          above (lower_shadow candle) (talib_avg avs SHADOW_LONG i 0),
          above (upper_shadow candle) (talib_avg avs SHADOW_LONG i 0),
          holds (fle (min_open_close candle) (fadd midpoint near) \<and>
            fle (fsub midpoint near) (max_open_close candle))])
       (Inr 100)
       (Inr 0)))"

definition dragonfly_doji :: "integer_judge" where
  "dragonfly_doji cs i avs =
     bindR (item cs (int i)) (\<lambda>candle.
     bindR (talib_avg avs SHADOW_VERY_SHORT i 0) (\<lambda>shadow_very_short.
     ifR (all_of
         [atmost (real_body candle) (talib_avg avs BODY_DOJI i 0),
          holds (flt (upper_shadow candle) shadow_very_short \<and>
            flt shadow_very_short (lower_shadow candle))])
       (Inr 100)
       (Inr 0)))"

definition gravestone_doji :: "integer_judge" where
  "gravestone_doji cs i avs =
     bindR (item cs (int i)) (\<lambda>candle.
     bindR (talib_avg avs SHADOW_VERY_SHORT i 0) (\<lambda>shadow_very_short.
     ifR (all_of
         [atmost (real_body candle) (talib_avg avs BODY_DOJI i 0),
          holds (flt (lower_shadow candle) shadow_very_short \<and>
            flt shadow_very_short (upper_shadow candle))])
       (Inr 100)
       (Inr 0)))"

definition takuri :: "integer_judge" where
  "takuri cs i avs =
     bindR (item cs (int i)) (\<lambda>candle.
     ifR (all_of
         [atmost (real_body candle) (talib_avg avs BODY_DOJI i 0),
          below (upper_shadow candle) (talib_avg avs SHADOW_VERY_SHORT i 0),
          above (lower_shadow candle) (talib_avg avs SHADOW_VERY_LONG i 0)])
       (Inr 100)
       (Inr 0))"

definition hammer :: "integer_judge" where
  "hammer cs i avs =
     bindR (item cs (int i)) (\<lambda>candle.
     ifR (all_of
         [below (real_body candle) (talib_avg avs BODY_SHORT i 0),
          above (lower_shadow candle) (talib_avg avs SHADOW_LONG i 0),
          below (upper_shadow candle) (talib_avg avs SHADOW_VERY_SHORT i 0),
          atmost (min_open_close candle) (bindR (mapE c_low (item cs (int i - 1)))
            (\<lambda>x. mapE (fadd x) (talib_avg avs NEAR i 1)))])
       (Inr 100)
       (Inr 0))"

definition hanging_man :: "integer_judge" where
  "hanging_man cs i avs =
     bindR (item cs (int i)) (\<lambda>candle.
     ifR (all_of
         [below (real_body candle) (talib_avg avs BODY_SHORT i 0),
          above (lower_shadow candle) (talib_avg avs SHADOW_LONG i 0),
          below (upper_shadow candle) (talib_avg avs SHADOW_VERY_SHORT i 0),
          atleast (min_open_close candle) (bindR (mapE c_high (item cs (int i - 1)))
            (\<lambda>x. mapE (fsub x) (talib_avg avs NEAR i 1)))])
       (Inr (- 100))
       (Inr 0))"

definition inverted_hammer :: "integer_judge" where
  "inverted_hammer cs i avs =
     bindR (item cs (int i)) (\<lambda>candle.
     bindR (item cs (int i - 1)) (\<lambda>previous.
     ifR (all_of
         [holds (flt (max_open_close candle) (min_open_close previous)),
          below (real_body candle) (talib_avg avs BODY_SHORT i 0),
          above (upper_shadow candle) (talib_avg avs SHADOW_LONG i 0),
          below (lower_shadow candle) (talib_avg avs SHADOW_VERY_SHORT i 0)])
       (Inr 100)
       (Inr 0)))"

definition shooting_star :: "integer_judge" where
  "shooting_star cs i avs =
     bindR (item cs (int i)) (\<lambda>candle.
     bindR (item cs (int i - 1)) (\<lambda>previous.
     ifR (all_of
         [holds (flt (max_open_close previous) (min_open_close candle)),
          below (real_body candle) (talib_avg avs BODY_SHORT i 0),
          above (upper_shadow candle) (talib_avg avs SHADOW_LONG i 0),
          below (lower_shadow candle) (talib_avg avs SHADOW_VERY_SHORT i 0)])
       (Inr (- 100))
       (Inr 0)))"

definition spinning_top :: "integer_judge" where
  "spinning_top cs i avs =
     bindR (item cs (int i)) (\<lambda>candle.
     let body = real_body candle in
     ifR (all_of
         [holds (flt body (upper_shadow candle) \<and> flt body (lower_shadow candle)),
          below body (talib_avg avs BODY_SHORT i 0)])
       (Inr (signed_hundred candle))
       (Inr 0))"

definition high_wave :: "integer_judge" where
  "high_wave cs i avs =
     bindR (item cs (int i)) (\<lambda>candle.
     ifR (all_of
         [below (real_body candle) (talib_avg avs BODY_SHORT i 0),
          above (upper_shadow candle) (talib_avg avs SHADOW_VERY_LONG i 0),
          above (lower_shadow candle) (talib_avg avs SHADOW_VERY_LONG i 0)])
       (Inr (signed_hundred candle))
       (Inr 0))"

definition marubozu :: "integer_judge" where
  "marubozu cs i avs =
     bindR (item cs (int i)) (\<lambda>candle.
     bindR (talib_avg avs SHADOW_VERY_SHORT i 0) (\<lambda>shadow_very_short.
     ifR (all_of
         [above (real_body candle) (talib_avg avs BODY_LONG i 0),
          holds (flt (upper_shadow candle) shadow_very_short \<and>
            flt (lower_shadow candle) shadow_very_short)])
       (Inr (signed_hundred candle))
       (Inr 0)))"

definition closing_marubozu :: "integer_judge" where
  "closing_marubozu cs i avs =
     bindR (item cs (int i)) (\<lambda>candle.
     let color = candle_color candle in
     ifR (atmost (real_body candle) (talib_avg avs BODY_LONG i 0))
       (Inr 0)
       (bindR (talib_avg avs SHADOW_VERY_SHORT i 0) (\<lambda>shadow_very_short.
       if (color = 1 \<and> flt (upper_shadow candle) shadow_very_short) \<or>
         (color = (- 1) \<and> flt (lower_shadow candle) shadow_very_short)
       then Inr (color * 100)
       else Inr 0)))"

definition belt_hold :: "integer_judge" where
  "belt_hold cs i avs =
     bindR (item cs (int i)) (\<lambda>candle.
     let color = candle_color candle in
     ifR (atmost (real_body candle) (talib_avg avs BODY_LONG i 0))
       (Inr 0)
       (bindR (talib_avg avs SHADOW_VERY_SHORT i 0) (\<lambda>shadow_very_short.
       if (color = 1 \<and> flt (lower_shadow candle) shadow_very_short) \<or>
         (color = (- 1) \<and> flt (upper_shadow candle) shadow_very_short)
       then Inr (color * 100)
       else Inr 0)))"

definition long_line :: "integer_judge" where
  "long_line cs i avs =
     bindR (item cs (int i)) (\<lambda>candle.
     bindR (talib_avg avs SHADOW_SHORT i 0) (\<lambda>shadow_short.
     ifR (all_of
         [above (real_body candle) (talib_avg avs BODY_LONG i 0),
          holds (flt (upper_shadow candle) shadow_short \<and>
            flt (lower_shadow candle) shadow_short)])
       (Inr (signed_hundred candle))
       (Inr 0)))"

definition short_line :: "integer_judge" where
  "short_line cs i avs =
     bindR (item cs (int i)) (\<lambda>candle.
     bindR (talib_avg avs SHADOW_SHORT i 0) (\<lambda>shadow_short.
     ifR (all_of
         [below (real_body candle) (talib_avg avs BODY_SHORT i 0),
          holds (flt (upper_shadow candle) shadow_short \<and>
            flt (lower_shadow candle) shadow_short)])
       (Inr (signed_hundred candle))
       (Inr 0)))"

definition TALIB_SINGLE_CANDLE_PATTERNS :: "talib_port list" where
  "TALIB_SINGLE_CANDLE_PATTERNS =
     [talib_port_of ''pat_doji'' ''CDLDOJI''
        (default_lookback [BODY_DOJI] 0)
        (keys_at 0 [BODY_DOJI])
        doji,
      talib_port_of ''pat_long_legged_doji'' ''CDLLONGLEGGEDDOJI''
        (default_lookback [BODY_DOJI, SHADOW_LONG] 0)
        (keys_at 0 [BODY_DOJI, SHADOW_LONG])
        long_legged_doji,
      talib_port_of ''pat_rickshaw_man'' ''CDLRICKSHAWMAN''
        (default_lookback [BODY_DOJI, SHADOW_LONG, NEAR] 0)
        (keys_at 0 [BODY_DOJI, SHADOW_LONG, NEAR])
        rickshaw_man,
      talib_port_of ''pat_dragonfly_doji'' ''CDLDRAGONFLYDOJI''
        (default_lookback [BODY_DOJI, SHADOW_VERY_SHORT] 0)
        (keys_at 0 [BODY_DOJI, SHADOW_VERY_SHORT])
        dragonfly_doji,
      talib_port_of ''pat_gravestone_doji'' ''CDLGRAVESTONEDOJI''
        (default_lookback [BODY_DOJI, SHADOW_VERY_SHORT] 0)
        (keys_at 0 [BODY_DOJI, SHADOW_VERY_SHORT])
        gravestone_doji,
      talib_port_of ''pat_takuri'' ''CDLTAKURI''
        (default_lookback [BODY_DOJI, SHADOW_VERY_SHORT, SHADOW_VERY_LONG] 0)
        (keys_at 0 [BODY_DOJI, SHADOW_VERY_SHORT, SHADOW_VERY_LONG])
        takuri,
      talib_port_of ''pat_hammer'' ''CDLHAMMER''
        (default_lookback [BODY_SHORT, SHADOW_LONG, SHADOW_VERY_SHORT, NEAR] 1)
        (keys_at 0 [BODY_SHORT, SHADOW_LONG, SHADOW_VERY_SHORT] @ keys_at 1 [NEAR])
        hammer,
      talib_port_of ''pat_hanging_man'' ''CDLHANGINGMAN''
        (default_lookback [BODY_SHORT, SHADOW_LONG, SHADOW_VERY_SHORT, NEAR] 1)
        (keys_at 0 [BODY_SHORT, SHADOW_LONG, SHADOW_VERY_SHORT] @ keys_at 1 [NEAR])
        hanging_man,
      talib_port_of ''pat_inverted_hammer'' ''CDLINVERTEDHAMMER''
        (default_lookback [BODY_SHORT, SHADOW_LONG, SHADOW_VERY_SHORT] 1)
        (keys_at 0 [BODY_SHORT, SHADOW_LONG, SHADOW_VERY_SHORT])
        inverted_hammer,
      talib_port_of ''pat_shooting_star'' ''CDLSHOOTINGSTAR''
        (default_lookback [BODY_SHORT, SHADOW_LONG, SHADOW_VERY_SHORT] 1)
        (keys_at 0 [BODY_SHORT, SHADOW_LONG, SHADOW_VERY_SHORT])
        shooting_star,
      talib_port_of ''pat_spinning_top'' ''CDLSPINNINGTOP''
        (default_lookback [BODY_SHORT] 0)
        (keys_at 0 [BODY_SHORT])
        spinning_top,
      talib_port_of ''pat_high_wave'' ''CDLHIGHWAVE''
        (default_lookback [BODY_SHORT, SHADOW_VERY_LONG] 0)
        (keys_at 0 [BODY_SHORT, SHADOW_VERY_LONG])
        high_wave,
      talib_port_of ''pat_marubozu'' ''CDLMARUBOZU''
        (default_lookback [BODY_LONG, SHADOW_VERY_SHORT] 0)
        (keys_at 0 [BODY_LONG, SHADOW_VERY_SHORT])
        marubozu,
      talib_port_of ''pat_closing_marubozu'' ''CDLCLOSINGMARUBOZU''
        (default_lookback [BODY_LONG, SHADOW_VERY_SHORT] 0)
        (keys_at 0 [BODY_LONG, SHADOW_VERY_SHORT])
        closing_marubozu,
      talib_port_of ''pat_belt_hold'' ''CDLBELTHOLD''
        (default_lookback [BODY_LONG, SHADOW_VERY_SHORT] 0)
        (keys_at 0 [BODY_LONG, SHADOW_VERY_SHORT])
        belt_hold,
      talib_port_of ''pat_long_line'' ''CDLLONGLINE''
        (default_lookback [BODY_LONG, SHADOW_SHORT] 0)
        (keys_at 0 [BODY_LONG, SHADOW_SHORT])
        long_line,
      talib_port_of ''pat_short_line'' ''CDLSHORTLINE''
        (default_lookback [BODY_SHORT, SHADOW_SHORT] 0)
        (keys_at 0 [BODY_SHORT, SHADOW_SHORT])
        short_line]"

subsection \<open>The judges keep their contract\<close>

lemmas single_helpers = min_open_close_def max_open_close_def signed_hundred_def

lemmas single_judges =
  doji_def long_legged_doji_def rickshaw_man_def dragonfly_doji_def
  gravestone_doji_def takuri_def hammer_def hanging_man_def
  inverted_hammer_def shooting_star_def spinning_top_def high_wave_def
  marubozu_def closing_marubozu_def belt_hold_def long_line_def
  short_line_def

text \<open>
  Each goal is settled by evaluation of the port's data, by rewriting the prefix a judge reads to
  the whole history, or by the rules for expressions that do not raise.
\<close>

lemma single_ports: "list_all port_contract TALIB_SINGLE_CANDLE_PATTERNS"
  unfolding TALIB_SINGLE_CANDLE_PATTERNS_def list.pred_inject
  by (intro conjI TrueI port_contract_of pattern_judge.intro;
      (simp add: keys_at_def pattern_name_def word_char_def)?;
      ((simp only: single_judges single_helpers Let_def of_nat_numeral of_nat_1 of_nat_0 diff_zero
          item_if item_take item_take_numeral
          talib_avg_until; fail)
       | (unfold single_judges single_helpers Let_def, intro ok_intros; auto; fail)
       | auto))

end
