(* ===== verification/TwoPatterns.thy ===== *)
theory TwoPatterns
  imports PatternPorts
begin

section \<open>Two-candle patterns (core_lib/patterns/talib_two_candle.py)\<close>

text \<open>
  The seventeen two-candle ports: one judge per pattern, the shapes they share, and the table.
\<close>

definition opposite_color :: "candle \<Rightarrow> candle \<Rightarrow> bool" where
  "opposite_color first second =
     ((candle_color first) = (- (candle_color second)))"

definition signed_hundred_two :: "candle \<Rightarrow> int" where
  "signed_hundred_two candle =
     (candle_color candle) * 100"

definition is_marubozu :: "candle list \<Rightarrow> nat \<Rightarrow> average_series \<Rightarrow> nat \<Rightarrow> bool res" where
  "is_marubozu cs i avs offset =
     bindR (item cs (int i - int offset)) (\<lambda>candle.
     bindR (talib_avg avs SHADOW_VERY_SHORT i offset) (\<lambda>shadow_very_short.
     all_of
       [above (real_body candle) (talib_avg avs BODY_LONG i offset),
        holds (flt (upper_shadow candle) shadow_very_short \<and>
          flt (lower_shadow candle) shadow_very_short)]))"

definition kicking_shape :: "candle list \<Rightarrow> nat \<Rightarrow> average_series \<Rightarrow> bool res" where
  "kicking_shape cs i avs =
     bindR (item cs (int i - 1)) (\<lambda>previous.
     bindR (item cs (int i)) (\<lambda>current.
     let previous_color = candle_color previous in
     all_of
       [holds (opposite_color previous current),
        is_marubozu cs i avs 1,
        is_marubozu cs i avs 0,
        holds (((previous_color = (- 1) \<and> candle_gap_up current previous) \<or>
          (previous_color = 1 \<and> candle_gap_down current previous)))]))"

definition engulfing :: "integer_judge" where
  "engulfing cs i avs =
     bindR (item cs (int i - 1)) (\<lambda>previous.
     bindR (item cs (int i)) (\<lambda>current.
     let color = candle_color current in
     let previous_color = candle_color previous in
     if (color = 1 \<and> previous_color = (- 1) \<and>
       ((fle (c_open previous) (c_close current) \<and>
       flt (c_open current) (c_close previous)) \<or>
       (flt (c_open previous) (c_close current) \<and>
       fle (c_open current) (c_close previous)))) \<or> (color = (- 1) \<and>
       previous_color = 1 \<and> ((fle (c_close previous) (c_open current) \<and>
       flt (c_close current) (c_open previous)) \<or>
       (flt (c_close previous) (c_open current) \<and> fle (c_close current) (c_open previous))))
     then if \<not> feq (c_open current) (c_close previous) \<and>
       \<not> feq (c_close current) (c_open previous)
     then Inr (color * 100)
     else Inr (color * 80)
     else Inr 0))"

definition harami :: "integer_judge" where
  "harami cs i avs =
     bindR (item cs (int i - 1)) (\<lambda>previous.
     bindR (item cs (int i)) (\<lambda>current.
     ifR (atmost (real_body previous) (talib_avg avs BODY_LONG i 1))
       (Inr 0)
       (ifR (above (real_body current) (talib_avg avs BODY_SHORT i 0))
         (Inr 0)
         (if flt (real_body_top current) (real_body_top previous) \<and>
           flt (real_body_bottom previous) (real_body_bottom current)
         then Inr ((- (candle_color previous)) * 100)
         else if fle (real_body_top current) (real_body_top previous) \<and>
           fle (real_body_bottom previous) (real_body_bottom current)
         then Inr ((- (candle_color previous)) * 80)
         else Inr 0))))"

definition harami_cross :: "integer_judge" where
  "harami_cross cs i avs =
     bindR (item cs (int i - 1)) (\<lambda>previous.
     bindR (item cs (int i)) (\<lambda>current.
     ifR (atmost (real_body previous) (talib_avg avs BODY_LONG i 1))
       (Inr 0)
       (ifR (above (real_body current) (talib_avg avs BODY_DOJI i 0))
         (Inr 0)
         (if flt (real_body_top current) (real_body_top previous) \<and>
           flt (real_body_bottom previous) (real_body_bottom current)
         then Inr ((- (candle_color previous)) * 100)
         else if fle (real_body_top current) (real_body_top previous) \<and>
           fle (real_body_bottom previous) (real_body_bottom current)
         then Inr ((- (candle_color previous)) * 80)
         else Inr 0))))"

definition doji_star :: "integer_judge" where
  "doji_star cs i avs =
     bindR (item cs (int i - 1)) (\<lambda>previous.
     bindR (item cs (int i)) (\<lambda>current.
     let previous_color = candle_color previous in
     ifR (all_of
         [above (real_body previous) (talib_avg avs BODY_LONG i 1),
          atmost (real_body current) (talib_avg avs BODY_DOJI i 0),
          holds (((previous_color = 1 \<and> real_body_gap_up current previous) \<or>
            (previous_color = (- 1) \<and> real_body_gap_down current previous)))])
       (Inr ((- previous_color) * 100))
       (Inr 0)))"

definition piercing :: "integer_judge" where
  "piercing cs i avs =
     bindR (item cs (int i - 1)) (\<lambda>previous.
     bindR (item cs (int i)) (\<lambda>current.
     ifR (all_of
         [holds ((candle_color previous) = (- 1)),
          above (real_body previous) (talib_avg avs BODY_LONG i 1),
          holds ((candle_color current) = 1),
          above (real_body current) (talib_avg avs BODY_LONG i 0),
          holds (flt (c_open current) (c_low previous) \<and>
            flt (c_close current) (c_open previous) \<and>
            flt (fadd (c_close previous) (fmul (real_body previous) (Fin (1 / 2)))) (c_close
            current))])
       (Inr 100)
       (Inr 0)))"

definition DARK_CLOUD_COVER_PENETRATION :: pyfloat where
  "DARK_CLOUD_COVER_PENETRATION = projr (resolve_talib_penetration ''CDLDARKCLOUDCOVER'' TALIB_DEFAULT_PENETRATION_SENTINEL)"

definition dark_cloud_cover :: "integer_judge" where
  "dark_cloud_cover cs i avs =
     bindR (item cs (int i - 1)) (\<lambda>previous.
     bindR (item cs (int i)) (\<lambda>current.
     ifR (all_of
         [holds ((candle_color previous) = 1),
          above (real_body previous) (talib_avg avs BODY_LONG i 1),
          holds ((candle_color current) = (- 1) \<and>
            flt (c_high previous) (c_open current) \<and>
            flt (c_open previous) (c_close current) \<and>
            flt (c_close current) (fsub (c_close previous) (fmul (real_body previous)
            DARK_CLOUD_COVER_PENETRATION)))])
       (Inr (- 100))
       (Inr 0)))"

definition counterattack :: "integer_judge" where
  "counterattack cs i avs =
     bindR (item cs (int i - 1)) (\<lambda>previous.
     bindR (item cs (int i)) (\<lambda>current.
     bindR (talib_avg avs EQUAL i 1) (\<lambda>equal.
     ifR (all_of
         [holds (opposite_color previous current),
          above (real_body previous) (talib_avg avs BODY_LONG i 1),
          above (real_body current) (talib_avg avs BODY_LONG i 0),
          holds (fle (c_close current) (fadd (c_close previous) equal) \<and>
            fle (fsub (c_close previous) equal) (c_close current))])
       (Inr (signed_hundred_two current))
       (Inr 0))))"

definition separating_lines :: "integer_judge" where
  "separating_lines cs i avs =
     bindR (item cs (int i - 1)) (\<lambda>previous.
     bindR (item cs (int i)) (\<lambda>current.
     let current_color = candle_color current in
     bindR (talib_avg avs EQUAL i 1) (\<lambda>equal.
     bindR (talib_avg avs SHADOW_VERY_SHORT i 0) (\<lambda>shadow_very_short.
     ifR (all_of
         [holds (opposite_color previous current \<and>
            fle (c_open current) (fadd (c_open previous) equal) \<and>
            fle (fsub (c_open previous) equal) (c_open current)),
          above (real_body current) (talib_avg avs BODY_LONG i 0),
          holds (((current_color = 1 \<and> flt (lower_shadow current) shadow_very_short) \<or>
            (current_color = (- 1) \<and> flt (upper_shadow current) shadow_very_short)))])
       (Inr (current_color * 100))
       (Inr 0)))))"

definition kicking :: "integer_judge" where
  "kicking cs i avs =
     ifR (kicking_shape cs i avs)
       ((mapE signed_hundred_two (item cs (int i))))
       (Inr 0)"

definition kicking_by_length :: "integer_judge" where
  "kicking_by_length cs i avs =
     ifR (mapE Not (kicking_shape cs i avs))
       (Inr 0)
       (bindR (item cs (int i)) (\<lambda>current.
       bindR (item cs (int i - 1)) (\<lambda>previous.
       let longer_index = (if flt (real_body previous) (real_body current)
         then int i else int i - 1) in
       (mapE signed_hundred_two (item cs longer_index)))))"

definition homing_pigeon :: "integer_judge" where
  "homing_pigeon cs i avs =
     bindR (item cs (int i - 1)) (\<lambda>previous.
     bindR (item cs (int i)) (\<lambda>current.
     ifR (all_of
         [holds ((candle_color previous) = (- 1) \<and> (candle_color current) = (- 1)),
          above (real_body previous) (talib_avg avs BODY_LONG i 1),
          atmost (real_body current) (talib_avg avs BODY_SHORT i 0),
          holds (flt (c_open current) (c_open previous) \<and>
            flt (c_close previous) (c_close current))])
       (Inr 100)
       (Inr 0)))"

definition matching_low :: "integer_judge" where
  "matching_low cs i avs =
     bindR (item cs (int i - 1)) (\<lambda>previous.
     bindR (item cs (int i)) (\<lambda>current.
     bindR (talib_avg avs EQUAL i 1) (\<lambda>equal.
     if (candle_color previous) = (- 1) \<and> (candle_color current) = (- 1) \<and>
       fle (c_close current) (fadd (c_close previous) equal) \<and>
       fle (fsub (c_close previous) equal) (c_close current)
     then Inr 100
     else Inr 0)))"

definition in_neck :: "integer_judge" where
  "in_neck cs i avs =
     bindR (item cs (int i - 1)) (\<lambda>previous.
     bindR (item cs (int i)) (\<lambda>current.
     ifR (all_of
         [holds ((candle_color previous) = (- 1)),
          above (real_body previous) (talib_avg avs BODY_LONG i 1),
          holds ((candle_color current) = 1 \<and> flt (c_open current) (c_low previous)),
          atmost (c_close current) (mapE (fadd (c_close previous)) (talib_avg avs EQUAL i 1)),
          holds (fle (c_close previous) (c_close current))])
       (Inr (- 100))
       (Inr 0)))"

definition on_neck :: "integer_judge" where
  "on_neck cs i avs =
     bindR (item cs (int i - 1)) (\<lambda>previous.
     bindR (item cs (int i)) (\<lambda>current.
     bindR (talib_avg avs EQUAL i 1) (\<lambda>equal.
     ifR (all_of
         [holds ((candle_color previous) = (- 1)),
          above (real_body previous) (talib_avg avs BODY_LONG i 1),
          holds ((candle_color current) = 1 \<and> flt (c_open current) (c_low previous) \<and>
            fle (c_close current) (fadd (c_low previous) equal) \<and>
            fle (fsub (c_low previous) equal) (c_close current))])
       (Inr (- 100))
       (Inr 0))))"

definition thrusting :: "integer_judge" where
  "thrusting cs i avs =
     bindR (item cs (int i - 1)) (\<lambda>previous.
     bindR (item cs (int i)) (\<lambda>current.
     ifR (all_of
         [holds ((candle_color previous) = (- 1)),
          above (real_body previous) (talib_avg avs BODY_LONG i 1),
          holds ((candle_color current) = 1 \<and> flt (c_open current) (c_low previous)),
          above (c_close current) (mapE (fadd (c_close previous)) (talib_avg avs EQUAL i 1)),
          holds (fle (c_close current) (fadd (c_close previous) (fmul (real_body previous) (Fin (1
            / 2)))))])
       (Inr (- 100))
       (Inr 0)))"

definition TALIB_TWO_CANDLE_PATTERNS :: "talib_port list" where
  "TALIB_TWO_CANDLE_PATTERNS =
     [talib_port_of ''pat_engulfing'' ''CDLENGULFING''
        2
        ([])
        engulfing,
      talib_port_of ''pat_harami'' ''CDLHARAMI''
        (default_lookback [BODY_LONG, BODY_SHORT] 1)
        (keys_at 1 [BODY_LONG] @ keys_at 0 [BODY_SHORT])
        harami,
      talib_port_of ''pat_harami_cross'' ''CDLHARAMICROSS''
        (default_lookback [BODY_LONG, BODY_DOJI] 1)
        (keys_at 1 [BODY_LONG] @ keys_at 0 [BODY_DOJI])
        harami_cross,
      talib_port_of ''pat_doji_star'' ''CDLDOJISTAR''
        (default_lookback [BODY_LONG, BODY_DOJI] 1)
        (keys_at 1 [BODY_LONG] @ keys_at 0 [BODY_DOJI])
        doji_star,
      talib_port_of ''pat_piercing'' ''CDLPIERCING''
        (default_lookback [BODY_LONG] 1)
        (keys_at 1 [BODY_LONG] @ keys_at 0 [BODY_LONG])
        piercing,
      talib_port_of ''pat_dark_cloud_cover'' ''CDLDARKCLOUDCOVER''
        (default_lookback [BODY_LONG] 1)
        (keys_at 1 [BODY_LONG])
        dark_cloud_cover,
      talib_port_of ''pat_counterattack'' ''CDLCOUNTERATTACK''
        (default_lookback [BODY_LONG, EQUAL] 1)
        (keys_at 1 [BODY_LONG] @ keys_at 0 [BODY_LONG] @ keys_at 1 [EQUAL])
        counterattack,
      talib_port_of ''pat_separating_lines'' ''CDLSEPARATINGLINES''
        (default_lookback [BODY_LONG, EQUAL, SHADOW_VERY_SHORT] 1)
        (keys_at 0 [BODY_LONG] @ keys_at 1 [EQUAL] @ keys_at 0 [SHADOW_VERY_SHORT])
        separating_lines,
      talib_port_of ''pat_kicking'' ''CDLKICKING''
        (default_lookback [BODY_LONG, SHADOW_VERY_SHORT] 1)
        (keys_at 1 [BODY_LONG] @ keys_at 0 [BODY_LONG] @ keys_at 1 [SHADOW_VERY_SHORT] @ keys_at 0 [SHADOW_VERY_SHORT])
        kicking,
      talib_port_of ''pat_kicking_by_length'' ''CDLKICKINGBYLENGTH''
        (default_lookback [BODY_LONG, SHADOW_VERY_SHORT] 1)
        (keys_at 1 [BODY_LONG] @ keys_at 0 [BODY_LONG] @ keys_at 1 [SHADOW_VERY_SHORT] @ keys_at 0 [SHADOW_VERY_SHORT])
        kicking_by_length,
      talib_port_of ''pat_homing_pigeon'' ''CDLHOMINGPIGEON''
        (default_lookback [BODY_LONG, BODY_SHORT] 1)
        (keys_at 1 [BODY_LONG] @ keys_at 0 [BODY_SHORT])
        homing_pigeon,
      talib_port_of ''pat_matching_low'' ''CDLMATCHINGLOW''
        (default_lookback [EQUAL] 1)
        (keys_at 1 [EQUAL])
        matching_low,
      talib_port_of ''pat_in_neck'' ''CDLINNECK''
        (default_lookback [BODY_LONG, EQUAL] 1)
        (keys_at 1 [BODY_LONG] @ keys_at 1 [EQUAL])
        in_neck,
      talib_port_of ''pat_on_neck'' ''CDLONNECK''
        (default_lookback [BODY_LONG, EQUAL] 1)
        (keys_at 1 [BODY_LONG] @ keys_at 1 [EQUAL])
        on_neck,
      talib_port_of ''pat_thrusting'' ''CDLTHRUSTING''
        (default_lookback [BODY_LONG, EQUAL] 1)
        (keys_at 1 [BODY_LONG] @ keys_at 1 [EQUAL])
        thrusting]"

subsection \<open>The judges keep their contract\<close>

lemmas two_helpers = opposite_color_def signed_hundred_two_def is_marubozu_def kicking_shape_def DARK_CLOUD_COVER_PENETRATION_def

lemmas two_judges =
  engulfing_def harami_def harami_cross_def doji_star_def
  piercing_def dark_cloud_cover_def counterattack_def separating_lines_def
  kicking_def kicking_by_length_def homing_pigeon_def matching_low_def
  in_neck_def on_neck_def thrusting_def

text \<open>
  Each goal is settled by evaluation of the port's data, by rewriting the prefix a judge reads to
  the whole history, or by the rules for expressions that do not raise.
\<close>

lemma two_ports: "list_all port_contract TALIB_TWO_CANDLE_PATTERNS"
  unfolding TALIB_TWO_CANDLE_PATTERNS_def list.pred_inject
  by (intro conjI TrueI port_contract_of pattern_judge.intro;
      (simp add: keys_at_def pattern_name_def word_char_def)?;
      ((simp only: two_judges two_helpers Let_def of_nat_numeral of_nat_1 of_nat_0 diff_zero
          item_if item_take item_take_numeral
          talib_avg_until; fail)
       | (unfold two_judges two_helpers Let_def, intro ok_intros; auto; fail)
       | auto))

end
