(* ===== verification/ThreePatterns.thy ===== *)
theory ThreePatterns
  imports PatternPorts
begin

section \<open>Three-candle patterns (core_lib/patterns/talib_three_candle.py)\<close>

text \<open>
  The seventeen ports over three and four candles: one judge per pattern, the shared tests of
  bodies and shadows, and the table. The penetrations are TA-Lib's defaults.
\<close>

definition long_body_three :: "candle list \<Rightarrow> nat \<Rightarrow> average_series \<Rightarrow> nat \<Rightarrow> bool res" where
  "long_body_three cs i avs offset =
     bindR (item cs (int i - int offset)) (\<lambda>candle.
     above (real_body candle) (talib_avg avs BODY_LONG i offset))"

definition short_body_three :: "candle list \<Rightarrow> nat \<Rightarrow> average_series \<Rightarrow> nat \<Rightarrow> bool \<Rightarrow> bool res" where
  "short_body_three cs i avs offset inclusive =
     bindR (item cs (int i - int offset)) (\<lambda>candle.
     bindR (talib_avg avs BODY_SHORT i offset) (\<lambda>average.
     if inclusive
     then Inr (fle (real_body candle) average)
     else Inr (flt (real_body candle) average)))"

definition upper_shadow_shorter_than :: "average_series \<Rightarrow> candle list \<Rightarrow> nat \<Rightarrow> candle_setting_type \<Rightarrow> nat \<Rightarrow> bool res" where
  "upper_shadow_shorter_than avs cs i st offset =
     bindR (mapE upper_shadow (item cs (int i - int offset)))
       (\<lambda>x. below x (talib_avg avs st i offset))"

definition upper_shadow_longer_than :: "average_series \<Rightarrow> candle list \<Rightarrow> nat \<Rightarrow> candle_setting_type \<Rightarrow> nat \<Rightarrow> bool res" where
  "upper_shadow_longer_than avs cs i st offset =
     bindR (mapE upper_shadow (item cs (int i - int offset)))
       (\<lambda>x. above x (talib_avg avs st i offset))"

definition lower_shadow_shorter_than :: "average_series \<Rightarrow> candle list \<Rightarrow> nat \<Rightarrow> candle_setting_type \<Rightarrow> nat \<Rightarrow> bool res" where
  "lower_shadow_shorter_than avs cs i st offset =
     bindR (mapE lower_shadow (item cs (int i - int offset)))
       (\<lambda>x. below x (talib_avg avs st i offset))"

definition two_crows :: "integer_judge" where
  "two_crows cs i avs =
     bindR (item cs (int i - 2)) (\<lambda>first.
     bindR (item cs (int i - 1)) (\<lambda>second.
     bindR (item cs (int i)) (\<lambda>third.
     ifR (all_of
         [holds ((candle_color first) = 1),
          long_body_three cs i avs 2,
          holds ((candle_color second) = (- 1) \<and> real_body_gap_up second first \<and>
            (candle_color third) = (- 1) \<and> flt (c_open third) (c_open second) \<and>
            flt (c_close second) (c_open third) \<and> flt (c_open first) (c_close third) \<and>
            flt (c_close third) (c_close first))])
       (Inr (- 100))
       (Inr 0))))"

definition three_black_crows :: "integer_judge" where
  "three_black_crows cs i avs =
     bindR (item cs (int i - 3)) (\<lambda>prior.
     bindR (item cs (int i - 2)) (\<lambda>first.
     bindR (item cs (int i - 1)) (\<lambda>second.
     bindR (item cs (int i)) (\<lambda>third.
     ifR (all_of
         [holds ((candle_color prior) = 1 \<and> (candle_color first) = (- 1) \<and>
            (candle_color second) = (- 1) \<and> (candle_color third) = (- 1) \<and>
            flt (c_open second) (c_open first) \<and> flt (c_close first) (c_open second) \<and>
            flt (c_open third) (c_open second) \<and> flt (c_close second) (c_open third) \<and>
            flt (c_close first) (c_high prior) \<and> flt (c_close second) (c_close first) \<and>
            flt (c_close third) (c_close second)),
          lower_shadow_shorter_than avs cs i SHADOW_VERY_SHORT 2,
          lower_shadow_shorter_than avs cs i SHADOW_VERY_SHORT 1,
          lower_shadow_shorter_than avs cs i SHADOW_VERY_SHORT 0])
       (Inr (- 100))
       (Inr 0)))))"

definition three_inside :: "integer_judge" where
  "three_inside cs i avs =
     bindR (item cs (int i - 2)) (\<lambda>first.
     bindR (item cs (int i - 1)) (\<lambda>second.
     bindR (item cs (int i)) (\<lambda>third.
     let first_color = candle_color first in
     ifR (all_of
         [holds (flt (real_body_top second) (real_body_top first) \<and>
            flt (real_body_bottom first) (real_body_bottom second) \<and> ((first_color = 1 \<and>
            (candle_color third) = (- 1) \<and> flt (c_close third) (c_open first)) \<or>
            (first_color = (- 1) \<and> (candle_color third) = 1 \<and>
            flt (c_open first) (c_close third)))),
          long_body_three cs i avs 2,
          short_body_three cs i avs 1 True])
       (Inr ((- first_color) * 100))
       (Inr 0))))"

definition three_outside :: "integer_judge" where
  "three_outside cs i avs =
     bindR (item cs (int i - 2)) (\<lambda>first.
     bindR (item cs (int i - 1)) (\<lambda>second.
     bindR (item cs (int i)) (\<lambda>third.
     let second_color = candle_color second in
     if (second_color = 1 \<and> (candle_color first) = (- 1) \<and>
       flt (c_open first) (c_close second) \<and> flt (c_open second) (c_close first) \<and>
       flt (c_close second) (c_close third)) \<or> (second_color = (- 1) \<and>
       (candle_color first) = 1 \<and> flt (c_close first) (c_open second) \<and>
       flt (c_close second) (c_open first) \<and> flt (c_close third) (c_close second))
     then Inr (second_color * 100)
     else Inr 0)))"

definition three_stars_in_the_south :: "integer_judge" where
  "three_stars_in_the_south cs i avs =
     bindR (item cs (int i - 2)) (\<lambda>first.
     bindR (item cs (int i - 1)) (\<lambda>second.
     bindR (item cs (int i)) (\<lambda>third.
     ifR (all_of
         [holds ((candle_color first) = (- 1) \<and> (candle_color second) = (- 1) \<and>
            (candle_color third) = (- 1)),
          long_body_three cs i avs 2,
          above (lower_shadow first) (talib_avg avs SHADOW_LONG i 2),
          holds (flt (real_body second) (real_body first) \<and>
            flt (c_close first) (c_open second) \<and> fle (c_open second) (c_high first) \<and>
            flt (c_low second) (c_close first) \<and> fle (c_low first) (c_low second)),
          above (lower_shadow second) (talib_avg avs SHADOW_VERY_SHORT i 1),
          short_body_three cs i avs 0 False,
          below (lower_shadow third) (talib_avg avs SHADOW_VERY_SHORT i 0),
          below (upper_shadow third) (talib_avg avs SHADOW_VERY_SHORT i 0),
          holds (flt (c_low second) (c_low third) \<and> flt (c_high third) (c_high second))])
       (Inr 100)
       (Inr 0))))"

definition three_white_soldiers :: "integer_judge" where
  "three_white_soldiers cs i avs =
     bindR (item cs (int i - 2)) (\<lambda>first.
     bindR (item cs (int i - 1)) (\<lambda>second.
     bindR (item cs (int i)) (\<lambda>third.
     ifR (all_of
         [holds ((candle_color first) = 1),
          upper_shadow_shorter_than avs cs i SHADOW_VERY_SHORT 2,
          holds ((candle_color second) = 1),
          upper_shadow_shorter_than avs cs i SHADOW_VERY_SHORT 1,
          holds ((candle_color third) = 1),
          upper_shadow_shorter_than avs cs i SHADOW_VERY_SHORT 0,
          holds (flt (c_close second) (c_close third) \<and>
            flt (c_close first) (c_close second) \<and> flt (c_open first) (c_open second)),
          atmost (c_open second) (mapE (fadd (c_close first)) (talib_avg avs NEAR i 2)),
          holds (flt (c_open second) (c_open third)),
          atmost (c_open third) (mapE (fadd (c_close second)) (talib_avg avs NEAR i 1)),
          above (real_body second) (mapE (fsub (real_body first)) (talib_avg avs FAR i 2)),
          above (real_body third) (mapE (fsub (real_body second)) (talib_avg avs FAR i 1)),
          above (real_body third) (talib_avg avs BODY_SHORT i 0)])
       (Inr 100)
       (Inr 0))))"

definition ABANDONED_BABY_PENETRATION :: pyfloat where
  "ABANDONED_BABY_PENETRATION = projr (resolve_talib_penetration ''CDLABANDONEDBABY'' TALIB_DEFAULT_PENETRATION_SENTINEL)"

definition abandoned_baby :: "integer_judge" where
  "abandoned_baby cs i avs =
     bindR (item cs (int i - 2)) (\<lambda>first.
     bindR (item cs (int i - 1)) (\<lambda>second.
     bindR (item cs (int i)) (\<lambda>third.
     ifR (all_of
         [long_body_three cs i avs 2,
          atmost (real_body second) (talib_avg avs BODY_DOJI i 1),
          above (real_body third) (talib_avg avs BODY_SHORT i 0),
          holds ((((candle_color first) = 1 \<and> (candle_color third) = (- 1) \<and>
            flt (c_close third) (fsub (c_close first) (fmul (real_body first)
            ABANDONED_BABY_PENETRATION)) \<and> candle_gap_up second first \<and>
            candle_gap_down third second) \<or> ((candle_color first) = (- 1) \<and>
            (candle_color third) = 1 \<and>
            flt (fadd (c_close first) (fmul (real_body first) ABANDONED_BABY_PENETRATION)) (c_close
            third) \<and> candle_gap_down second first \<and> candle_gap_up third second)))])
       (Inr ((candle_color third) * 100))
       (Inr 0))))"

definition advance_block :: "integer_judge" where
  "advance_block cs i avs =
     bindR (item cs (int i - 2)) (\<lambda>first.
     bindR (item cs (int i - 1)) (\<lambda>second.
     bindR (item cs (int i)) (\<lambda>third.
     ifR (all_of
         [holds ((candle_color first) = 1 \<and> (candle_color second) = 1 \<and>
            (candle_color third) = 1 \<and> flt (c_close second) (c_close third) \<and>
            flt (c_close first) (c_close second) \<and> flt (c_open first) (c_open second)),
          atmost (c_open second) (mapE (fadd (c_close first)) (talib_avg avs NEAR i 2)),
          holds (flt (c_open second) (c_open third)),
          atmost (c_open third) (mapE (fadd (c_close second)) (talib_avg avs NEAR i 1)),
          long_body_three cs i avs 2,
          upper_shadow_shorter_than avs cs i SHADOW_SHORT 2,
          any_of
            [all_of
               [below (real_body second) (mapE (fsub (real_body first)) (talib_avg avs FAR i 2)),
                below (real_body third) (mapE (fadd (real_body second)) (talib_avg avs NEAR i 1))],
             below (real_body third) (mapE (fsub (real_body second)) (talib_avg avs FAR i 1)),
             all_of
               [holds (flt (real_body third) (real_body second) \<and>
                  flt (real_body second) (real_body first)),
                any_of
                  [upper_shadow_longer_than avs cs i SHADOW_SHORT 0,
                   upper_shadow_longer_than avs cs i SHADOW_SHORT 1]],
             all_of
               [holds (flt (real_body third) (real_body second)),
                upper_shadow_longer_than avs cs i SHADOW_LONG 0]]])
       (Inr (- 100))
       (Inr 0))))"

definition EVENING_DOJI_STAR_PENETRATION :: pyfloat where
  "EVENING_DOJI_STAR_PENETRATION = projr (resolve_talib_penetration ''CDLEVENINGDOJISTAR'' TALIB_DEFAULT_PENETRATION_SENTINEL)"

definition evening_doji_star :: "integer_judge" where
  "evening_doji_star cs i avs =
     bindR (item cs (int i - 2)) (\<lambda>first.
     bindR (item cs (int i - 1)) (\<lambda>second.
     bindR (item cs (int i)) (\<lambda>third.
     ifR (all_of
         [holds ((candle_color first) = 1 \<and> (candle_color third) = (- 1) \<and>
            real_body_gap_up second first \<and>
            flt (c_close third) (fsub (c_close first) (fmul (real_body first)
            EVENING_DOJI_STAR_PENETRATION))),
          long_body_three cs i avs 2,
          atmost (real_body second) (talib_avg avs BODY_DOJI i 1),
          above (real_body third) (talib_avg avs BODY_SHORT i 0)])
       (Inr (- 100))
       (Inr 0))))"

definition EVENING_STAR_PENETRATION :: pyfloat where
  "EVENING_STAR_PENETRATION = projr (resolve_talib_penetration ''CDLEVENINGSTAR'' TALIB_DEFAULT_PENETRATION_SENTINEL)"

definition evening_star :: "integer_judge" where
  "evening_star cs i avs =
     bindR (item cs (int i - 2)) (\<lambda>first.
     bindR (item cs (int i - 1)) (\<lambda>second.
     bindR (item cs (int i)) (\<lambda>third.
     ifR (all_of
         [holds ((candle_color first) = 1 \<and> (candle_color third) = (- 1) \<and>
            real_body_gap_up second first \<and>
            flt (c_close third) (fsub (c_close first) (fmul (real_body first)
            EVENING_STAR_PENETRATION))),
          long_body_three cs i avs 2,
          short_body_three cs i avs 1 True,
          above (real_body third) (talib_avg avs BODY_SHORT i 0)])
       (Inr (- 100))
       (Inr 0))))"

definition identical_three_crows :: "integer_judge" where
  "identical_three_crows cs i avs =
     bindR (item cs (int i - 2)) (\<lambda>first.
     bindR (item cs (int i - 1)) (\<lambda>second.
     bindR (item cs (int i)) (\<lambda>third.
     ifR (all_of
         [holds ((candle_color first) = (- 1)),
          lower_shadow_shorter_than avs cs i SHADOW_VERY_SHORT 2,
          holds ((candle_color second) = (- 1)),
          lower_shadow_shorter_than avs cs i SHADOW_VERY_SHORT 1,
          holds ((candle_color third) = (- 1)),
          lower_shadow_shorter_than avs cs i SHADOW_VERY_SHORT 0,
          holds (flt (c_close second) (c_close first) \<and> flt (c_close third) (c_close second)),
          atmost (c_open second) (mapE (fadd (c_close first)) (talib_avg avs EQUAL i 2)),
          atleast (c_open second) (mapE (fsub (c_close first)) (talib_avg avs EQUAL i 2)),
          atmost (c_open third) (mapE (fadd (c_close second)) (talib_avg avs EQUAL i 1)),
          atleast (c_open third) (mapE (fsub (c_close second)) (talib_avg avs EQUAL i 1))])
       (Inr (- 100))
       (Inr 0))))"

definition MORNING_DOJI_STAR_PENETRATION :: pyfloat where
  "MORNING_DOJI_STAR_PENETRATION = projr (resolve_talib_penetration ''CDLMORNINGDOJISTAR'' TALIB_DEFAULT_PENETRATION_SENTINEL)"

definition morning_doji_star :: "integer_judge" where
  "morning_doji_star cs i avs =
     bindR (item cs (int i - 2)) (\<lambda>first.
     bindR (item cs (int i - 1)) (\<lambda>second.
     bindR (item cs (int i)) (\<lambda>third.
     ifR (all_of
         [holds ((candle_color first) = (- 1) \<and> (candle_color third) = 1 \<and>
            real_body_gap_down second first \<and>
            flt (fadd (c_close first) (fmul (real_body first) MORNING_DOJI_STAR_PENETRATION))
            (c_close third)),
          long_body_three cs i avs 2,
          atmost (real_body second) (talib_avg avs BODY_DOJI i 1),
          above (real_body third) (talib_avg avs BODY_SHORT i 0)])
       (Inr 100)
       (Inr 0))))"

definition MORNING_STAR_PENETRATION :: pyfloat where
  "MORNING_STAR_PENETRATION = projr (resolve_talib_penetration ''CDLMORNINGSTAR'' TALIB_DEFAULT_PENETRATION_SENTINEL)"

definition morning_star :: "integer_judge" where
  "morning_star cs i avs =
     bindR (item cs (int i - 2)) (\<lambda>first.
     bindR (item cs (int i - 1)) (\<lambda>second.
     bindR (item cs (int i)) (\<lambda>third.
     ifR (all_of
         [holds ((candle_color first) = (- 1) \<and> (candle_color third) = 1 \<and>
            real_body_gap_down second first \<and>
            flt (fadd (c_close first) (fmul (real_body first) MORNING_STAR_PENETRATION)) (c_close
            third)),
          long_body_three cs i avs 2,
          short_body_three cs i avs 1 True,
          above (real_body third) (talib_avg avs BODY_SHORT i 0)])
       (Inr 100)
       (Inr 0))))"

definition stalled_pattern :: "integer_judge" where
  "stalled_pattern cs i avs =
     bindR (item cs (int i - 2)) (\<lambda>first.
     bindR (item cs (int i - 1)) (\<lambda>second.
     bindR (item cs (int i)) (\<lambda>third.
     ifR (all_of
         [holds ((candle_color first) = 1 \<and> (candle_color second) = 1 \<and>
            (candle_color third) = 1 \<and> flt (c_close second) (c_close third) \<and>
            flt (c_close first) (c_close second)),
          long_body_three cs i avs 2,
          long_body_three cs i avs 1,
          upper_shadow_shorter_than avs cs i SHADOW_VERY_SHORT 1,
          holds (flt (c_open first) (c_open second)),
          atmost (c_open second) (mapE (fadd (c_close first)) (talib_avg avs NEAR i 2)),
          short_body_three cs i avs 0 False,
          atleast (c_open third) (mapE (fsub (fsub (c_close second) (real_body third))) (talib_avg
            avs NEAR i 1))])
       (Inr (- 100))
       (Inr 0))))"

definition tri_star :: "integer_judge" where
  "tri_star cs i avs =
     bindR (item cs (int i - 2)) (\<lambda>first.
     bindR (item cs (int i - 1)) (\<lambda>second.
     bindR (item cs (int i)) (\<lambda>third.
     bindR (talib_avg avs BODY_DOJI i 2) (\<lambda>body_doji.
     if fle (real_body first) body_doji \<and> fle (real_body second) body_doji \<and>
       fle (real_body third) body_doji
     then let value = 0 in
     let value = (if (real_body_gap_up second first \<and>
       flt (real_body_top third) (real_body_top second)) then (- 100) else value) in
     let value = (if (real_body_gap_down second first \<and>
       flt (real_body_bottom second) (real_body_bottom third)) then 100 else value) in
     Inr (value)
     else Inr 0))))"

definition unique_three_river :: "integer_judge" where
  "unique_three_river cs i avs =
     bindR (item cs (int i - 2)) (\<lambda>first.
     bindR (item cs (int i - 1)) (\<lambda>second.
     bindR (item cs (int i)) (\<lambda>third.
     ifR (all_of
         [holds ((candle_color first) = (- 1) \<and> (candle_color second) = (- 1) \<and>
            (candle_color third) = 1 \<and> flt (c_close first) (c_close second) \<and>
            fle (c_open second) (c_open first) \<and> flt (c_low second) (c_low first) \<and>
            flt (c_low second) (c_open third)),
          long_body_three cs i avs 2,
          short_body_three cs i avs 0 False])
       (Inr 100)
       (Inr 0))))"

definition upside_gap_two_crows :: "integer_judge" where
  "upside_gap_two_crows cs i avs =
     bindR (item cs (int i - 2)) (\<lambda>first.
     bindR (item cs (int i - 1)) (\<lambda>second.
     bindR (item cs (int i)) (\<lambda>third.
     ifR (all_of
         [holds ((candle_color first) = 1),
          long_body_three cs i avs 2,
          holds ((candle_color second) = (- 1)),
          short_body_three cs i avs 1 True,
          holds (real_body_gap_up second first \<and> (candle_color third) = (- 1) \<and>
            flt (c_open second) (c_open third) \<and> flt (c_close third) (c_close second) \<and>
            flt (c_close first) (c_close third))])
       (Inr (- 100))
       (Inr 0))))"

definition TALIB_THREE_CANDLE_PATTERNS :: "talib_port list" where
  "TALIB_THREE_CANDLE_PATTERNS =
     [talib_port_of ''pat_two_crows'' ''CDL2CROWS''
        (default_lookback [BODY_LONG] 2)
        (keys_at 2 [BODY_LONG])
        two_crows,
      talib_port_of ''pat_three_black_crows'' ''CDL3BLACKCROWS''
        (default_lookback [SHADOW_VERY_SHORT] 3)
        (keys_at 2 [SHADOW_VERY_SHORT] @ keys_at 1 [SHADOW_VERY_SHORT] @ keys_at 0 [SHADOW_VERY_SHORT])
        three_black_crows,
      talib_port_of ''pat_three_inside'' ''CDL3INSIDE''
        (default_lookback [BODY_LONG, BODY_SHORT] 2)
        (keys_at 2 [BODY_LONG] @ keys_at 1 [BODY_SHORT])
        three_inside,
      talib_port_of ''pat_three_outside'' ''CDL3OUTSIDE''
        3
        ([])
        three_outside,
      talib_port_of ''pat_three_stars_in_the_south'' ''CDL3STARSINSOUTH''
        (default_lookback [BODY_LONG, BODY_SHORT, SHADOW_LONG, SHADOW_VERY_SHORT] 2)
        (keys_at 2 [BODY_LONG] @ keys_at 2 [SHADOW_LONG] @ keys_at 1 [SHADOW_VERY_SHORT] @ keys_at 0 [BODY_SHORT] @ keys_at 0 [SHADOW_VERY_SHORT])
        three_stars_in_the_south,
      talib_port_of ''pat_three_white_soldiers'' ''CDL3WHITESOLDIERS''
        (default_lookback [BODY_SHORT, FAR, NEAR, SHADOW_VERY_SHORT] 2)
        (keys_at 2 [SHADOW_VERY_SHORT] @ keys_at 1 [SHADOW_VERY_SHORT] @ keys_at 0 [SHADOW_VERY_SHORT] @ keys_at 2 [NEAR] @ keys_at 1 [NEAR] @ keys_at 2 [FAR] @ keys_at 1 [FAR] @ keys_at 0 [BODY_SHORT])
        three_white_soldiers,
      talib_port_of ''pat_abandoned_baby'' ''CDLABANDONEDBABY''
        (default_lookback [BODY_DOJI, BODY_LONG, BODY_SHORT] 2)
        (keys_at 2 [BODY_LONG] @ keys_at 1 [BODY_DOJI] @ keys_at 0 [BODY_SHORT])
        abandoned_baby,
      talib_port_of ''pat_advance_block'' ''CDLADVANCEBLOCK''
        (default_lookback [BODY_LONG, FAR, NEAR, SHADOW_LONG, SHADOW_SHORT] 2)
        (keys_at 2 [SHADOW_SHORT] @ keys_at 1 [SHADOW_SHORT] @ keys_at 0 [SHADOW_SHORT] @ keys_at 1 [SHADOW_LONG] @ keys_at 0 [SHADOW_LONG] @ keys_at 2 [NEAR] @ keys_at 1 [NEAR] @ keys_at 2 [FAR] @ keys_at 1 [FAR] @ keys_at 2 [BODY_LONG])
        advance_block,
      talib_port_of ''pat_evening_doji_star'' ''CDLEVENINGDOJISTAR''
        (default_lookback [BODY_DOJI, BODY_LONG, BODY_SHORT] 2)
        (keys_at 2 [BODY_LONG] @ keys_at 1 [BODY_DOJI] @ keys_at 0 [BODY_SHORT])
        evening_doji_star,
      talib_port_of ''pat_evening_star'' ''CDLEVENINGSTAR''
        (default_lookback [BODY_LONG, BODY_SHORT] 2)
        (keys_at 2 [BODY_LONG] @ keys_at 1 [BODY_SHORT] @ keys_at 0 [BODY_SHORT])
        evening_star,
      talib_port_of ''pat_identical_three_crows'' ''CDLIDENTICAL3CROWS''
        (default_lookback [EQUAL, SHADOW_VERY_SHORT] 2)
        (keys_at 2 [SHADOW_VERY_SHORT] @ keys_at 1 [SHADOW_VERY_SHORT] @ keys_at 0 [SHADOW_VERY_SHORT] @ keys_at 2 [EQUAL] @ keys_at 1 [EQUAL])
        identical_three_crows,
      talib_port_of ''pat_morning_doji_star'' ''CDLMORNINGDOJISTAR''
        (default_lookback [BODY_DOJI, BODY_LONG, BODY_SHORT] 2)
        (keys_at 2 [BODY_LONG] @ keys_at 1 [BODY_DOJI] @ keys_at 0 [BODY_SHORT])
        morning_doji_star,
      talib_port_of ''pat_morning_star'' ''CDLMORNINGSTAR''
        (default_lookback [BODY_LONG, BODY_SHORT] 2)
        (keys_at 2 [BODY_LONG] @ keys_at 1 [BODY_SHORT] @ keys_at 0 [BODY_SHORT])
        morning_star,
      talib_port_of ''pat_stalled_pattern'' ''CDLSTALLEDPATTERN''
        (default_lookback [BODY_LONG, BODY_SHORT, NEAR, SHADOW_VERY_SHORT] 2)
        (keys_at 2 [BODY_LONG] @ keys_at 1 [BODY_LONG] @ keys_at 0 [BODY_SHORT] @ keys_at 1 [SHADOW_VERY_SHORT] @ keys_at 2 [NEAR] @ keys_at 1 [NEAR])
        stalled_pattern,
      talib_port_of ''pat_tri_star'' ''CDLTRISTAR''
        (default_lookback [BODY_DOJI] 2)
        (keys_at 2 [BODY_DOJI])
        tri_star,
      talib_port_of ''pat_unique_three_river'' ''CDLUNIQUE3RIVER''
        (default_lookback [BODY_LONG, BODY_SHORT] 2)
        (keys_at 2 [BODY_LONG] @ keys_at 0 [BODY_SHORT])
        unique_three_river,
      talib_port_of ''pat_upside_gap_two_crows'' ''CDLUPSIDEGAP2CROWS''
        (default_lookback [BODY_LONG, BODY_SHORT] 2)
        (keys_at 2 [BODY_LONG] @ keys_at 1 [BODY_SHORT])
        upside_gap_two_crows]"

subsection \<open>The judges keep their contract\<close>

lemmas three_helpers = long_body_three_def short_body_three_def upper_shadow_shorter_than_def upper_shadow_longer_than_def lower_shadow_shorter_than_def

lemmas three_judges =
  two_crows_def three_black_crows_def three_inside_def three_outside_def
  three_stars_in_the_south_def three_white_soldiers_def abandoned_baby_def advance_block_def
  evening_doji_star_def evening_star_def identical_three_crows_def morning_doji_star_def
  morning_star_def stalled_pattern_def tri_star_def unique_three_river_def
  upside_gap_two_crows_def

text \<open>
  Each goal is settled by evaluation of the port's data, by rewriting the prefix a judge reads to
  the whole history, or by the rules for expressions that do not raise.
\<close>

lemma three_ports: "list_all port_contract TALIB_THREE_CANDLE_PATTERNS"
  unfolding TALIB_THREE_CANDLE_PATTERNS_def list.pred_inject
  by (intro conjI TrueI port_contract_of pattern_judge.intro;
      (simp add: keys_at_def pattern_name_def word_char_def)?;
      ((simp only: three_judges three_helpers Let_def of_nat_numeral of_nat_1 of_nat_0 diff_zero
          item_if item_take item_take_numeral
          talib_avg_until; fail)
       | (unfold three_judges three_helpers Let_def, intro ok_intros; auto; fail)
       | auto))

end
