(* ===== verification/MultiPatterns.thy ===== *)
theory MultiPatterns
  imports PatternPorts
begin

section \<open>Gap and multi-candle patterns (core_lib/patterns/talib_multi_candle.py)\<close>

text \<open>
  The ten gap and multi-candle ports over three to five candles, and the table.
\<close>

definition long_body_multi :: "candle list \<Rightarrow> nat \<Rightarrow> average_series \<Rightarrow> nat \<Rightarrow> bool res" where
  "long_body_multi cs i avs offset =
     bindR (item cs (int i - int offset)) (\<lambda>candle.
     above (real_body candle) (talib_avg avs BODY_LONG i offset))"

definition short_body_multi :: "candle list \<Rightarrow> nat \<Rightarrow> average_series \<Rightarrow> nat \<Rightarrow> bool res" where
  "short_body_multi cs i avs offset =
     bindR (item cs (int i - int offset)) (\<lambda>candle.
     below (real_body candle) (talib_avg avs BODY_SHORT i offset))"

definition three_line_strike :: "integer_judge" where
  "three_line_strike cs i avs =
     bindR (item cs (int i - 3)) (\<lambda>first.
     bindR (item cs (int i - 2)) (\<lambda>second.
     bindR (item cs (int i - 1)) (\<lambda>third.
     bindR (item cs (int i)) (\<lambda>fourth.
     let third_color = candle_color third in
     ifR (all_of
         [holds ((candle_color first) = (candle_color second) \<and>
            (candle_color second) = third_color \<and> (candle_color fourth) = (- third_color)),
          atleast (c_open second) (mapE (fsub (real_body_bottom first)) (talib_avg avs NEAR i 3)),
          atmost (c_open second) (mapE (fadd (real_body_top first)) (talib_avg avs NEAR i 3)),
          atleast (c_open third) (mapE (fsub (real_body_bottom second)) (talib_avg avs NEAR i 2)),
          atmost (c_open third) (mapE (fadd (real_body_top second)) (talib_avg avs NEAR i 2)),
          holds (((third_color = 1 \<and> flt (c_close second) (c_close third) \<and>
            flt (c_close first) (c_close second) \<and> flt (c_close third) (c_open fourth) \<and>
            flt (c_close fourth) (c_open first)) \<or> (third_color = (- 1) \<and>
            flt (c_close third) (c_close second) \<and> flt (c_close second) (c_close first) \<and>
            flt (c_open fourth) (c_close third) \<and> flt (c_open first) (c_close fourth))))])
       (Inr (third_color * 100))
       (Inr 0)))))"

definition breakaway :: "integer_judge" where
  "breakaway cs i avs =
     bindR (item cs (int i - 4)) (\<lambda>first.
     bindR (item cs (int i - 3)) (\<lambda>second.
     bindR (item cs (int i - 2)) (\<lambda>third.
     bindR (item cs (int i - 1)) (\<lambda>fourth.
     bindR (item cs (int i)) (\<lambda>fifth.
     let first_color = candle_color first in
     ifR (all_of
         [holds (first_color = (candle_color second) \<and>
            (candle_color second) = (candle_color fourth) \<and>
            (candle_color fourth) = (- (candle_color fifth))),
          long_body_multi cs i avs 4,
          holds (((first_color = (- 1) \<and> real_body_gap_down second first \<and>
            flt (c_high third) (c_high second) \<and> flt (c_low third) (c_low second) \<and>
            flt (c_high fourth) (c_high third) \<and> flt (c_low fourth) (c_low third) \<and>
            flt (c_open second) (c_close fifth) \<and> flt (c_close fifth) (c_close first)) \<or>
            (first_color = 1 \<and> real_body_gap_up second first \<and>
            flt (c_high second) (c_high third) \<and> flt (c_low second) (c_low third) \<and>
            flt (c_high third) (c_high fourth) \<and> flt (c_low third) (c_low fourth) \<and>
            flt (c_close fifth) (c_open second) \<and> flt (c_close first) (c_close fifth))))])
       (Inr ((candle_color fifth) * 100))
       (Inr 0))))))"

definition concealing_baby_swallow :: "integer_judge" where
  "concealing_baby_swallow cs i avs =
     bindR (item cs (int i - 3)) (\<lambda>first.
     bindR (item cs (int i - 2)) (\<lambda>second.
     bindR (item cs (int i - 1)) (\<lambda>third.
     bindR (item cs (int i)) (\<lambda>fourth.
     bindR (talib_avg avs SHADOW_VERY_SHORT i 3) (\<lambda>shadow_first.
     bindR (talib_avg avs SHADOW_VERY_SHORT i 2) (\<lambda>shadow_second.
     ifR (all_of
         [holds ((candle_color first) = (- 1) \<and> (candle_color second) = (- 1) \<and>
            (candle_color third) = (- 1) \<and> (candle_color fourth) = (- 1) \<and>
            flt (lower_shadow first) shadow_first \<and>
            flt (upper_shadow first) shadow_first \<and>
            flt (lower_shadow second) shadow_second \<and>
            flt (upper_shadow second) shadow_second \<and> real_body_gap_down third second),
          above (upper_shadow third) (talib_avg avs SHADOW_VERY_SHORT i 1),
          holds (flt (c_close second) (c_high third) \<and>
            flt (c_high third) (c_high fourth) \<and> flt (c_low fourth) (c_low third))])
       (Inr 100)
       (Inr 0)))))))"

definition gap_side_by_side_white :: "integer_judge" where
  "gap_side_by_side_white cs i avs =
     bindR (item cs (int i - 2)) (\<lambda>first.
     bindR (item cs (int i - 1)) (\<lambda>second.
     bindR (item cs (int i)) (\<lambda>third.
     let upside_gap = flt (real_body_top first) (real_body_bottom second) \<and>
       flt (real_body_top first) (real_body_bottom third) in
     let downside_gap = flt (real_body_top second) (real_body_bottom first) \<and>
       flt (real_body_top third) (real_body_bottom first) in
     bindR (talib_avg avs NEAR i 1) (\<lambda>near.
     bindR (talib_avg avs EQUAL i 1) (\<lambda>equal.
     if (upside_gap \<or> downside_gap) \<and> (candle_color second) = 1 \<and>
       (candle_color third) = 1 \<and> fle (fsub (real_body second) near) (real_body third) \<and>
       fle (real_body third) (fadd (real_body second) near) \<and>
       fle (fsub (c_open second) equal) (c_open third) \<and>
       fle (c_open third) (fadd (c_open second) equal)
     then Inr (if upside_gap then 100 else (- 100))
     else Inr 0)))))"

definition ladder_bottom :: "integer_judge" where
  "ladder_bottom cs i avs =
     bindR (item cs (int i - 4)) (\<lambda>first.
     bindR (item cs (int i - 3)) (\<lambda>second.
     bindR (item cs (int i - 2)) (\<lambda>third.
     bindR (item cs (int i - 1)) (\<lambda>fourth.
     bindR (item cs (int i)) (\<lambda>fifth.
     ifR (all_of
         [holds ((candle_color first) = (- 1) \<and> (candle_color second) = (- 1) \<and>
            (candle_color third) = (- 1) \<and> flt (c_open second) (c_open first) \<and>
            flt (c_open third) (c_open second) \<and> flt (c_close second) (c_close first) \<and>
            flt (c_close third) (c_close second) \<and> (candle_color fourth) = (- 1)),
          above (upper_shadow fourth) (talib_avg avs SHADOW_VERY_SHORT i 1),
          holds ((candle_color fifth) = 1 \<and> flt (c_open fourth) (c_open fifth) \<and>
            flt (c_high fourth) (c_close fifth))])
       (Inr 100)
       (Inr 0))))))"

definition MAT_HOLD_PENETRATION :: pyfloat where
  "MAT_HOLD_PENETRATION = projr (resolve_talib_penetration ''CDLMATHOLD'' TALIB_DEFAULT_PENETRATION_SENTINEL)"

definition mat_hold_with_penetration :: "candle list \<Rightarrow> nat \<Rightarrow> average_series \<Rightarrow> pyfloat \<Rightarrow> int res" where
  "mat_hold_with_penetration cs i avs penetration =
     bindR (item cs (int i - 4)) (\<lambda>first.
     bindR (item cs (int i - 3)) (\<lambda>second.
     bindR (item cs (int i - 2)) (\<lambda>third.
     bindR (item cs (int i - 1)) (\<lambda>fourth.
     bindR (item cs (int i)) (\<lambda>fifth.
     let penetration_floor = fsub (c_close first) (fmul (real_body first) penetration) in
     ifR (all_of
         [holds ((candle_color first) = 1 \<and> (candle_color second) = (- 1) \<and>
            (candle_color fifth) = 1 \<and> real_body_gap_up second first \<and>
            flt (real_body_bottom third) (c_close first) \<and>
            flt (real_body_bottom fourth) (c_close first) \<and>
            flt penetration_floor (real_body_bottom third) \<and>
            flt penetration_floor (real_body_bottom fourth) \<and>
            flt (real_body_top third) (c_open second) \<and>
            flt (real_body_top fourth) (real_body_top third) \<and>
            flt (c_close fourth) (c_open fifth) \<and>
            flt (fmax (fmax (c_high second) (c_high third)) (c_high fourth)) (c_close fifth)),
          long_body_multi cs i avs 4,
          short_body_multi cs i avs 3,
          short_body_multi cs i avs 2,
          short_body_multi cs i avs 1])
       (Inr 100)
       (Inr 0))))))"

definition mat_hold :: "integer_judge" where
  "mat_hold cs i avs =
     (mat_hold_with_penetration cs i avs MAT_HOLD_PENETRATION)"

definition rise_fall_three_methods :: "integer_judge" where
  "rise_fall_three_methods cs i avs =
     bindR (item cs (int i - 4)) (\<lambda>first.
     bindR (item cs (int i - 3)) (\<lambda>second.
     bindR (item cs (int i - 2)) (\<lambda>third.
     bindR (item cs (int i - 1)) (\<lambda>fourth.
     bindR (item cs (int i)) (\<lambda>fifth.
     let first_color = candle_color first in
     ifR (all_of
         [holds (first_color = (- (candle_color second)) \<and>
            (candle_color second) = (candle_color third) \<and>
            (candle_color third) = (candle_color fourth) \<and>
            (candle_color fourth) = (- (candle_color fifth)) \<and>
            flt (real_body_bottom second) (c_high first) \<and>
            flt (c_low first) (real_body_top second) \<and>
            flt (real_body_bottom third) (c_high first) \<and>
            flt (c_low first) (real_body_top third) \<and>
            flt (real_body_bottom fourth) (c_high first) \<and>
            flt (c_low first) (real_body_top fourth) \<and>
            flt (fmul (c_close third) (float_of_int first_color)) (fmul (c_close second)
            (float_of_int first_color)) \<and>
            flt (fmul (c_close fourth) (float_of_int first_color)) (fmul (c_close third)
            (float_of_int first_color)) \<and>
            flt (fmul (c_close fourth) (float_of_int first_color)) (fmul (c_open fifth)
            (float_of_int first_color)) \<and>
            flt (fmul (c_close first) (float_of_int first_color)) (fmul (c_close fifth)
            (float_of_int first_color))),
          long_body_multi cs i avs 4,
          short_body_multi cs i avs 3,
          short_body_multi cs i avs 2,
          short_body_multi cs i avs 1,
          long_body_multi cs i avs 0])
       (Inr (100 * first_color))
       (Inr 0))))))"

definition stick_sandwich :: "integer_judge" where
  "stick_sandwich cs i avs =
     bindR (item cs (int i - 2)) (\<lambda>first.
     bindR (item cs (int i - 1)) (\<lambda>second.
     bindR (item cs (int i)) (\<lambda>third.
     bindR (talib_avg avs EQUAL i 2) (\<lambda>equal.
     if (candle_color first) = (- 1) \<and> (candle_color second) = 1 \<and>
       (candle_color third) = (- 1) \<and> flt (c_close first) (c_low second) \<and>
       fle (c_close third) (fadd (c_close first) equal) \<and>
       fle (fsub (c_close first) equal) (c_close third)
     then Inr 100
     else Inr 0))))"

definition tasuki_gap :: "integer_judge" where
  "tasuki_gap cs i avs =
     bindR (item cs (int i - 2)) (\<lambda>first.
     bindR (item cs (int i - 1)) (\<lambda>second.
     bindR (item cs (int i)) (\<lambda>third.
     bindR (below (fabs (fsub (real_body second) (real_body third))) (talib_avg avs NEAR i 1))
       (\<lambda>similar_size.
     if (real_body_gap_up second first \<and> (candle_color second) = 1 \<and>
       (candle_color third) = (- 1) \<and> flt (c_open third) (c_close second) \<and>
       flt (c_open second) (c_open third) \<and> flt (c_close third) (c_open second) \<and>
       flt (real_body_top first) (c_close third) \<and> similar_size) \<or>
       (real_body_gap_down second first \<and> (candle_color second) = (- 1) \<and>
       (candle_color third) = 1 \<and> flt (c_open third) (c_open second) \<and>
       flt (c_close second) (c_open third) \<and> flt (c_open second) (c_close third) \<and>
       flt (c_close third) (real_body_bottom first) \<and> similar_size)
     then Inr ((candle_color second) * 100)
     else Inr 0))))"

definition xside_gap_three_methods :: "integer_judge" where
  "xside_gap_three_methods cs i avs =
     bindR (item cs (int i - 2)) (\<lambda>first.
     bindR (item cs (int i - 1)) (\<lambda>second.
     bindR (item cs (int i)) (\<lambda>third.
     let first_color = candle_color first in
     if first_color = (candle_color second) \<and>
       (candle_color second) = (- (candle_color third)) \<and>
       flt (c_open third) (real_body_top second) \<and>
       flt (real_body_bottom second) (c_open third) \<and>
       flt (c_close third) (real_body_top first) \<and>
       flt (real_body_bottom first) (c_close third) \<and> ((first_color = 1 \<and>
       real_body_gap_up second first) \<or> (first_color = (- 1) \<and>
       real_body_gap_down second first))
     then Inr (first_color * 100)
     else Inr 0)))"

definition TALIB_MULTI_CANDLE_PATTERNS :: "talib_port list" where
  "TALIB_MULTI_CANDLE_PATTERNS =
     [talib_port_of ''pat_three_line_strike'' ''CDL3LINESTRIKE''
        (default_lookback [NEAR] 3)
        (keys_at 3 [NEAR] @ keys_at 2 [NEAR])
        three_line_strike,
      talib_port_of ''pat_breakaway'' ''CDLBREAKAWAY''
        (default_lookback [BODY_LONG] 4)
        (keys_at 4 [BODY_LONG])
        breakaway,
      talib_port_of ''pat_concealing_baby_swallow'' ''CDLCONCEALBABYSWALL''
        (default_lookback [SHADOW_VERY_SHORT] 3)
        (keys_at 3 [SHADOW_VERY_SHORT] @ keys_at 2 [SHADOW_VERY_SHORT] @ keys_at 1 [SHADOW_VERY_SHORT])
        concealing_baby_swallow,
      talib_port_of ''pat_gap_side_by_side_white'' ''CDLGAPSIDESIDEWHITE''
        (default_lookback [NEAR, EQUAL] 2)
        (keys_at 1 [NEAR] @ keys_at 1 [EQUAL])
        gap_side_by_side_white,
      talib_port_of ''pat_ladder_bottom'' ''CDLLADDERBOTTOM''
        (default_lookback [SHADOW_VERY_SHORT] 4)
        (keys_at 1 [SHADOW_VERY_SHORT])
        ladder_bottom,
      talib_port_of ''pat_mat_hold'' ''CDLMATHOLD''
        (default_lookback [BODY_LONG, BODY_SHORT] 4)
        (keys_at 4 [BODY_LONG] @ keys_at 3 [BODY_SHORT] @ keys_at 2 [BODY_SHORT] @ keys_at 1 [BODY_SHORT])
        mat_hold,
      talib_port_of ''pat_rise_fall_three_methods'' ''CDLRISEFALL3METHODS''
        (default_lookback [BODY_LONG, BODY_SHORT] 4)
        (keys_at 4 [BODY_LONG] @ keys_at 0 [BODY_LONG] @ keys_at 3 [BODY_SHORT] @ keys_at 2 [BODY_SHORT] @ keys_at 1 [BODY_SHORT])
        rise_fall_three_methods,
      talib_port_of ''pat_stick_sandwich'' ''CDLSTICKSANDWICH''
        (default_lookback [EQUAL] 2)
        (keys_at 2 [EQUAL])
        stick_sandwich,
      talib_port_of ''pat_tasuki_gap'' ''CDLTASUKIGAP''
        (default_lookback [NEAR] 2)
        (keys_at 1 [NEAR])
        tasuki_gap,
      talib_port_of ''pat_gap_three_methods'' ''CDLXSIDEGAP3METHODS''
        2
        ([])
        xside_gap_three_methods]"

subsection \<open>The judges keep their contract\<close>

lemmas multi_helpers = long_body_multi_def short_body_multi_def mat_hold_with_penetration_def

lemmas multi_judges =
  three_line_strike_def breakaway_def concealing_baby_swallow_def gap_side_by_side_white_def
  ladder_bottom_def mat_hold_def rise_fall_three_methods_def stick_sandwich_def
  tasuki_gap_def xside_gap_three_methods_def

text \<open>
  Each goal is settled by evaluation of the port's data, by rewriting the prefix a judge reads to
  the whole history, or by the rules for expressions that do not raise.
\<close>

lemma multi_ports: "list_all port_contract TALIB_MULTI_CANDLE_PATTERNS"
  unfolding TALIB_MULTI_CANDLE_PATTERNS_def list.pred_inject
  by (intro conjI TrueI port_contract_of pattern_judge.intro;
      (simp add: keys_at_def pattern_name_def word_char_def)?;
      ((simp only: multi_judges multi_helpers Let_def of_nat_numeral of_nat_1 of_nat_0 diff_zero
          item_if item_take item_take_numeral
          talib_avg_until; fail)
       | (unfold multi_judges multi_helpers Let_def, intro ok_intros; auto; fail)
       | auto))

end
