(* ===== verification/Hikkake.thy ===== *)
theory Hikkake
  imports PatternPorts
begin

section \<open>The stateful Hikkake patterns (core_lib/patterns/talib_hikkake.py)\<close>

text \<open>
  The two patterns that carry an earlier pattern forward while they look for its confirmation. The
  state remembers the index and the sign of the last pattern; a later bar within three bars that
  closes beyond the bar before the pattern confirms it, once. \<open>hikkake_output\<close> says what a bar
  reports without mentioning the state; the section proves that the state machine returns it.
\<close>

type_synonym hikkake_judge = "candle list \<Rightarrow> nat \<Rightarrow> pyfloat option \<Rightarrow> int res"

record hikkake_port =
  hk_name :: string
  hk_function :: string
  hk_lookback :: nat
  hk_transition_start :: nat
  hk_judge :: hikkake_judge
  hk_uses_near :: bool

record hikkake_state =
  hs_seen :: nat
  hs_candles :: "candle list"
  hs_near_average :: "average_state option"
  hs_pattern_idx :: nat
  hs_pattern_result :: int
  hs_current_integer :: "int option"
  hs_current :: pattern_value

definition HIKKAKE_LOOKBACK :: nat where "HIKKAKE_LOOKBACK = 5"

definition HIKKAKEMOD_LOOKBACK :: nat where
  "HIKKAKEMOD_LOOKBACK = candle_settings_lookback [NEAR] 5 1 DEFAULT_CANDLE_SETTINGS"

definition CONFIRMATION_BARS :: nat where "CONFIRMATION_BARS = 3"

definition hikkake_start :: "hikkake_port \<Rightarrow> hikkake_state res" where
  "hikkake_start p =
     raise_if (hk_lookback p < hk_transition_start p)
       (ValueError ''transition_start must not be greater than lookback'')
     (bindR (talib_undetermined (hk_name p)) (\<lambda>v. Inr
       \<lparr>hs_seen = 0, hs_candles = [],
        hs_near_average = (if hk_uses_near p then Some average_start else None),
        hs_pattern_idx = 0, hs_pattern_result = 0, hs_current_integer = None, hs_current = v\<rparr>))"

definition hikkake_warmed_up :: "hikkake_port \<Rightarrow> hikkake_state \<Rightarrow> bool" where
  "hikkake_warmed_up p s \<longleftrightarrow> hk_lookback p + 1 \<le> hs_seen s"

definition hikkake_reset :: "hikkake_port \<Rightarrow> hikkake_state \<Rightarrow> hikkake_state res" where
  "hikkake_reset p s =
     bindR (talib_undetermined (hk_name p)) (\<lambda>v. Inr (s\<lparr>hs_seen := 0, hs_candles := [],
       hs_near_average := map_option average_reset (hs_near_average s),
       hs_pattern_idx := 0, hs_pattern_result := 0, hs_current_integer := None, hs_current := v\<rparr>))"

definition confirmation :: "candle list \<Rightarrow> nat \<Rightarrow> int \<Rightarrow> candle \<Rightarrow> bool res" where
  "confirmation cs pattern_idx pattern_result current =
     any_of
       [all_of [holds (0 < pattern_result),
                above (c_close current) (mapE c_high (item cs (int pattern_idx - 1)))],
        all_of [holds (pattern_result < 0),
                below (c_close current) (mapE c_low (item cs (int pattern_idx - 1)))]]"

definition hikkake_advance ::
    "hikkake_port \<Rightarrow> nat \<Rightarrow> pyfloat option \<Rightarrow> hikkake_state \<Rightarrow> (hikkake_state \<times> int) res" where
  "hikkake_advance p index near_average s =
     bindR (hk_judge p (hs_candles s) index near_average) (\<lambda>new_result.
       if new_result \<noteq> 0
       then Inr (s\<lparr>hs_pattern_result := new_result, hs_pattern_idx := index\<rparr>, new_result)
       else bindR (item (hs_candles s) (int index)) (\<lambda>current.
         ifR (all_of [holds (index \<le> hs_pattern_idx s + CONFIRMATION_BARS),
               confirmation (hs_candles s) (hs_pattern_idx s) (hs_pattern_result s) current])
           (Inr (s\<lparr>hs_pattern_idx := 0\<rparr>,
              hs_pattern_result s + 100 * (if 0 < hs_pattern_result s then 1 else - 1)))
           (Inr (s, 0))))"

definition hikkake_update_integer ::
    "hikkake_port \<Rightarrow> hikkake_state \<Rightarrow> candle \<Rightarrow> (hikkake_state \<times> int option) res" where
  "hikkake_update_integer p s c =
     (let index = hs_seen s; s1 = s\<lparr>hs_seen := index + 1, hs_candles := hs_candles s @ [c]\<rparr> in
      bindR (case hs_near_average s of
          None \<Rightarrow> Inr (None, None)
        | Some st \<Rightarrow> bindR (average_update DEFAULT_CANDLE_SETTINGS NEAR 2 st c)
            (\<lambda>(st', v). Inr (Some st', v))) (\<lambda>(near_state, near_average).
      let s2 = s1\<lparr>hs_near_average := near_state\<rparr> in
      bindR (if hk_transition_start p \<le> index then hikkake_advance p index near_average s2
             else Inr (s2, 0)) (\<lambda>(s3, integer).
      let v = (if hk_lookback p \<le> index then Some integer else None) in
      Inr (s3\<lparr>hs_current_integer := v\<rparr>, v))))"

definition hikkake_update ::
    "hikkake_port \<Rightarrow> hikkake_state \<Rightarrow> candle \<Rightarrow> (hikkake_state \<times> pattern_value) res" where
  "hikkake_update p s c =
     bindR (hikkake_update_integer p s c) (\<lambda>(s', integer).
     bindR (case integer of None \<Rightarrow> talib_undetermined (hk_name p)
              | Some n \<Rightarrow> outputs_from_talib_integer (hk_name p) n) (\<lambda>v.
       Inr (s'\<lparr>hs_current := v\<rparr>, v)))"

definition hikkake_seed :: "hikkake_port \<Rightarrow> candle list \<Rightarrow> hikkake_state \<Rightarrow> hikkake_state res" where
  "hikkake_seed p cs s =
     bindR (hikkake_reset p s) (\<lambda>s0. bindR (replay (hikkake_update p) s0 cs) (\<lambda>(t, _). Inr t))"

text \<open>The port as the specification \<open>TalibRawPatternSpec\<close> it extends.\<close>

definition hikkake_spec :: "hikkake_port \<Rightarrow> talib_port" where
  "hikkake_spec p = talib_port_of (hk_name p) (hk_function p) (hk_lookback p) [] (\<lambda>_ _ _. Inr 0)"

definition hikkake_compute_integers :: "hikkake_port \<Rightarrow> candle list \<Rightarrow> int list res" where
  "hikkake_compute_integers p cs =
     bindR (hikkake_start p) (\<lambda>s.
     bindR (replay (hikkake_update_integer p) s cs) (\<lambda>(_, vs).
       let ints = map (case_option 0 (\<lambda>n. n)) vs in
       bindR (validate_talib_raw_integer_series (hikkake_spec p) ints (Some (length cs))) (\<lambda>_. Inr ints)))"

definition hikkake_compute_vectorized :: "hikkake_port \<Rightarrow> candle list \<Rightarrow> pattern_value list res" where
  "hikkake_compute_vectorized p cs =
     bindR (hikkake_compute_integers p cs) (vectorized_outputs (hk_name p) (hk_lookback p))"

subsection \<open>The judges and the ports\<close>

definition hikkake :: hikkake_judge where
  "hikkake cs i near_average =
     bindR (item cs (int i - 2)) (\<lambda>first.
     bindR (item cs (int i - 1)) (\<lambda>second.
     bindR (item cs (int i)) (\<lambda>third.
     if flt (c_high second) (c_high first) \<and> flt (c_low first) (c_low second) \<and>
        ((flt (c_high third) (c_high second) \<and> flt (c_low third) (c_low second)) \<or>
         (flt (c_high second) (c_high third) \<and> flt (c_low second) (c_low third)))
     then Inr (100 * (if flt (c_high third) (c_high second) then 1 else - 1))
     else Inr 0)))"

definition hikkake_modified :: hikkake_judge where
  "hikkake_modified cs i near_average =
     (case near_average of
        None \<Rightarrow> Inl (ValueError ''Near average is unavailable for CDLHIKKAKEMOD'')
      | Some near \<Rightarrow>
     bindR (item cs (int i - 3)) (\<lambda>first.
     bindR (item cs (int i - 2)) (\<lambda>second.
     bindR (item cs (int i - 1)) (\<lambda>third.
     bindR (item cs (int i)) (\<lambda>fourth.
     if flt (c_high second) (c_high first) \<and> flt (c_low first) (c_low second) \<and>
        flt (c_high third) (c_high second) \<and> flt (c_low second) (c_low third) \<and>
        ((flt (c_high fourth) (c_high third) \<and> flt (c_low fourth) (c_low third) \<and>
          fle (c_close second) (fadd (c_low second) near)) \<or>
         (flt (c_high third) (c_high fourth) \<and> flt (c_low third) (c_low fourth) \<and>
          fle (fsub (c_high second) near) (c_close second)))
     then Inr (100 * (if flt (c_high fourth) (c_high third) then 1 else - 1))
     else Inr 0)))))"

definition TALIB_HIKKAKE_PATTERNS :: "hikkake_port list" where
  "TALIB_HIKKAKE_PATTERNS =
     [\<lparr>hk_name = ''pat_hikkake'', hk_function = ''CDLHIKKAKE'', hk_lookback = HIKKAKE_LOOKBACK,
       hk_transition_start = HIKKAKE_LOOKBACK - CONFIRMATION_BARS, hk_judge = hikkake,
       hk_uses_near = False\<rparr>,
      \<lparr>hk_name = ''pat_hikkake_modified'', hk_function = ''CDLHIKKAKEMOD'',
       hk_lookback = HIKKAKEMOD_LOOKBACK,
       hk_transition_start = HIKKAKEMOD_LOOKBACK - CONFIRMATION_BARS, hk_judge = hikkake_modified,
       hk_uses_near = True\<rparr>]"

subsection \<open>What a bar reports\<close>

definition hikkake_near :: "hikkake_port \<Rightarrow> candle list \<Rightarrow> nat \<Rightarrow> pyfloat option" where
  "hikkake_near p cs i = (if hk_uses_near p then average_value DEFAULT_CANDLE_SETTINGS NEAR cs 2 i else None)"

text \<open>The pattern that ends at the bar \<open>i\<close>, \<open>0\<close> if none does.\<close>

definition hikkake_signal :: "hikkake_port \<Rightarrow> candle list \<Rightarrow> nat \<Rightarrow> int" where
  "hikkake_signal p cs i =
     (if i < hk_transition_start p then 0
      else case hk_judge p cs i (hikkake_near p cs i) of Inr n \<Rightarrow> n | Inl _ \<Rightarrow> 0)"

text \<open>The bar \<open>k\<close> closes beyond the bar before the pattern of the bar \<open>m\<close>.\<close>

definition breaks_out :: "hikkake_port \<Rightarrow> candle list \<Rightarrow> nat \<Rightarrow> nat \<Rightarrow> bool" where
  "breaks_out p cs m k \<longleftrightarrow> m < k \<and> k \<le> m + 3 \<and>
     (0 < hikkake_signal p cs m \<and> flt (c_high (cs ! (m - 1))) (c_close (cs ! k)) \<or>
      hikkake_signal p cs m < 0 \<and> flt (c_close (cs ! k)) (c_low (cs ! (m - 1))))"

text \<open>The bar \<open>i\<close> confirms the pattern of the bar \<open>m\<close>: none ended since, none of the bars between did.\<close>

definition hikkake_confirms :: "hikkake_port \<Rightarrow> candle list \<Rightarrow> nat \<Rightarrow> nat \<Rightarrow> bool" where
  "hikkake_confirms p cs m i \<longleftrightarrow> breaks_out p cs m i \<and>
     (\<forall>k. m < k \<and> k \<le> i \<longrightarrow> hikkake_signal p cs k = 0) \<and> (\<forall>k<i. \<not> breaks_out p cs m k)"

definition hikkake_output :: "hikkake_port \<Rightarrow> candle list \<Rightarrow> nat \<Rightarrow> int" where
  "hikkake_output p cs i =
     (if hikkake_signal p cs i \<noteq> 0 then hikkake_signal p cs i
      else case find (\<lambda>m. hikkake_confirms p cs m i) (rev [0..<i]) of
        None \<Rightarrow> 0 | Some m \<Rightarrow> 2 * hikkake_signal p cs m)"

subsection \<open>The state machine returns it\<close>

lemma find_SomeD: "find P xs = Some y \<Longrightarrow> y \<in> set xs \<and> P y"
  by (auto simp: find_Some_iff)

lemma find_only:
  assumes "x \<in> set xs" and "P x" and "\<And>y. y \<in> set xs \<Longrightarrow> P y \<Longrightarrow> y = x"
  shows "find P xs = Some x"
proof -
  have "find P xs \<noteq> None" using assms(1,2) by (auto simp: find_None_iff)
  then obtain y where y: "find P xs = Some y" by blast
  then have "y = x" using assms(3) [of y] find_SomeD [OF y] by blast
  then show ?thesis using y by simp
qed

locale hikkake_contract =
  fixes p :: hikkake_port
  assumes start_late: "2 \<le> hk_transition_start p" "hk_transition_start p \<le> hk_lookback p"
    and judge_past: "hk_transition_start p \<le> i \<Longrightarrow> i < length cs \<Longrightarrow>
       hk_judge p (take (Suc i) cs) i v = hk_judge p cs i v"
    and judge_answers: "hk_transition_start p \<le> i \<Longrightarrow> i < length cs \<Longrightarrow>
       returns (hk_judge p cs i (hikkake_near p cs i)) {-100, 0, 100}"
    and name_ok: "pattern_name (hk_name p)"
begin

abbreviation "signal \<equiv> hikkake_signal p"

lemma signal_range: "i < length cs \<Longrightarrow> signal cs i \<in> {-100, 0, 100}"
  using judge_answers [of i cs] by (auto simp: hikkake_signal_def returns_def)

lemma judge_signal:
  assumes "hk_transition_start p \<le> i" and "i < length cs"
  shows "hk_judge p cs i (hikkake_near p cs i) = Inr (signal cs i)"
  using judge_answers [OF assms] assms(1) by (auto simp: hikkake_signal_def returns_def)

lemma signal_prefix:
  assumes "i < length cs"
  shows "signal (cs @ ds) i = signal cs i"
proof (cases "hk_transition_start p \<le> i")
  case True
  have "hikkake_near p (cs @ ds) i = hikkake_near p cs i"
    using average_value_prefix [OF assms] by (simp add: hikkake_near_def)
  moreover have "hk_judge p (cs @ ds) i v = hk_judge p cs i v" for v
    using judge_past [OF True, of "cs @ ds" v] judge_past [OF True assms, of v] assms by simp
  ultimately show ?thesis by (simp add: hikkake_signal_def)
qed (simp add: hikkake_signal_def)

lemma breaks_prefix: "k < length cs \<Longrightarrow> breaks_out p (cs @ ds) m k = breaks_out p cs m k"
  by (auto simp: breaks_out_def signal_prefix nth_append)

lemma confirms_prefix: "i < length cs \<Longrightarrow> hikkake_confirms p (cs @ ds) m i = hikkake_confirms p cs m i"
  unfolding hikkake_confirms_def using breaks_prefix signal_prefix by fastforce

lemma output_prefix:
  assumes "i < length cs"
  shows "hikkake_output p (cs @ ds) i = hikkake_output p cs i"
proof -
  have "find (\<lambda>m. hikkake_confirms p (cs @ ds) m i) (rev [0..<i]) =
      find (\<lambda>m. hikkake_confirms p cs m i) (rev [0..<i])"
    using assms by (simp add: confirms_prefix)
  then show ?thesis
    using assms
    by (auto simp: hikkake_output_def signal_prefix split: option.split dest!: find_SomeD)
qed

definition remembers :: "candle list \<Rightarrow> hikkake_state \<Rightarrow> bool" where
  "remembers cs s \<longleftrightarrow>
     hs_pattern_result s = 0 \<and> (\<forall>k<length cs. signal cs k = 0) \<or>
     (\<exists>m<length cs. hk_transition_start p \<le> m \<and> hs_pattern_result s = signal cs m \<and> signal cs m \<noteq> 0 \<and>
        (\<forall>k<length cs. m < k \<longrightarrow> signal cs k = 0) \<and>
        hs_pattern_idx s = (if \<exists>k<length cs. breaks_out p cs m k then 0 else m))"

lemma confirms_unique:
  assumes "signal cs m \<noteq> 0" and "\<forall>k\<le>i. m < k \<longrightarrow> signal cs k = 0" and "m < i"
  shows "hikkake_confirms p cs j i \<Longrightarrow> j = m"
  using assms unfolding hikkake_confirms_def breaks_out_def
  by (metis (no_types, lifting) less_irrefl less_le_not_le less_or_eq_imp_le linorder_neqE_nat)

lemma output_quiet:
  assumes "signal cs i = 0" and "\<And>m. m < i \<Longrightarrow> \<not> hikkake_confirms p cs m i"
  shows "hikkake_output p cs i = 0"
proof -
  have "find (\<lambda>m. hikkake_confirms p cs m i) (rev [0..<i]) = None"
    using assms(2) by (auto simp: find_None_iff)
  then show ?thesis using assms(1) by (simp add: hikkake_output_def)
qed

lemma output_confirmed:
  assumes "signal cs i = 0" and "hikkake_confirms p cs m i" and "m < i" and "signal cs m \<noteq> 0"
  shows "hikkake_output p cs i = 2 * signal cs m"
proof -
  have "find (\<lambda>j. hikkake_confirms p cs j i) (rev [0..<i]) = Some m"
  proof (rule find_only)
    show "j = m" if "hikkake_confirms p cs j i" for j
      using confirms_unique [OF assms(4) _ assms(3) that] assms(2) by (auto simp: hikkake_confirms_def)
  qed (use assms in auto)
  then show ?thesis using assms(1) by (simp add: hikkake_output_def)
qed

text \<open>The test of a bar without a pattern of its own.\<close>

lemma confirmation_breaks:
  assumes "1 \<le> m" and "m < i" and "i < length cs" and "i \<le> m + 3"
  shows "confirmation cs m (signal cs m) (cs ! i) = Inr (breaks_out p cs m i)"
proof -
  have "item cs (int m - 1) = Inr (cs ! (m - 1))" using item_back [of 1 m cs] assms by simp
  then show ?thesis
    using assms by (auto simp: confirmation_def breaks_out_def holds_def above_def below_def)
qed

lemma all_less_snoc: "(\<forall>k<length (cs @ [c]). P k) \<longleftrightarrow> (\<forall>k<length cs. P k) \<and> P (length cs)"
  by (auto simp: less_Suc_eq)

lemma ex_less_snoc: "(\<exists>k<length (cs @ [c]). P k) \<longleftrightarrow> (\<exists>k<length cs. P k) \<or> P (length cs)"
  by (auto simp: less_Suc_eq)

text \<open>The three ways a bar can go: its own pattern, a confirmation, nothing.\<close>

lemma remembers_pattern:
  assumes "signal (cs @ [c]) (length cs) \<noteq> 0" and "hk_transition_start p \<le> length cs"
    and "hs_pattern_result s = signal (cs @ [c]) (length cs)" and "hs_pattern_idx s = length cs"
  shows "remembers (cs @ [c]) s"
  unfolding remembers_def
  by (intro disjI2 exI [of _ "length cs"]) (use assms in \<open>auto simp: breaks_out_def\<close>)

lemma remembers_nothing:
  assumes "hs_pattern_result s = 0" and "\<forall>k<length cs. signal cs k = 0"
    and "signal (cs @ [c]) (length cs) = 0"
  shows "remembers (cs @ [c]) s" and "hikkake_output p (cs @ [c]) (length cs) = 0"
proof -
  have none: "\<forall>k<length (cs @ [c]). signal (cs @ [c]) k = 0"
    using assms(2,3) by (simp only: all_less_snoc) (simp add: signal_prefix)
  then show "remembers (cs @ [c]) s" using assms(1) by (simp add: remembers_def)
  show "hikkake_output p (cs @ [c]) (length cs) = 0"
    using none assms(3) by (intro output_quiet) (auto simp: hikkake_confirms_def breaks_out_def)
qed

lemma advance_quiet:
  assumes "signal xs n = 0" and "hs_candles s = xs" and "n < length xs" and "hk_transition_start p \<le> n"
  shows "hikkake_advance p n (hikkake_near p xs n) s =
    ifR (all_of [holds (n \<le> hs_pattern_idx s + CONFIRMATION_BARS),
          confirmation xs (hs_pattern_idx s) (hs_pattern_result s) (xs ! n)])
      (Inr (s\<lparr>hs_pattern_idx := 0\<rparr>,
         hs_pattern_result s + 100 * (if 0 < hs_pattern_result s then 1 else - 1)))
      (Inr (s, 0))"
  using judge_signal [OF assms(4,3)] assms by (simp add: hikkake_advance_def)

lemma advance_reached:
  assumes candles: "hs_candles s = cs @ [c]" and memory: "remembers cs s"
    and late: "hk_transition_start p \<le> length cs"
  shows "\<exists>i r. hikkake_advance p (length cs) (hikkake_near p (cs @ [c]) (length cs)) s =
      Inr (s\<lparr>hs_pattern_idx := i, hs_pattern_result := r\<rparr>, hikkake_output p (cs @ [c]) (length cs)) \<and>
    remembers (cs @ [c]) (s\<lparr>hs_pattern_idx := i, hs_pattern_result := r\<rparr>)"
proof -
  let ?xs = "cs @ [c]" and ?n = "length cs"
  have n: "?n < length ?xs" by simp
  have same: "s\<lparr>hs_pattern_idx := hs_pattern_idx s, hs_pattern_result := hs_pattern_result s\<rparr> = s" by simp
  note quiet = advance_quiet [OF _ candles n late]
  show ?thesis
  proof (cases "signal ?xs ?n = 0")
    case False
    then have "hikkake_advance p ?n (hikkake_near p ?xs ?n) s =
        Inr (s\<lparr>hs_pattern_result := signal ?xs ?n, hs_pattern_idx := ?n\<rparr>, hikkake_output p ?xs ?n)"
      using judge_signal [OF late n] candles by (simp add: hikkake_advance_def hikkake_output_def)
    moreover have "remembers ?xs (s\<lparr>hs_pattern_idx := ?n, hs_pattern_result := signal ?xs ?n\<rparr>)"
      using False late by (intro remembers_pattern) auto
    ultimately show ?thesis
      by (intro exI [of _ ?n] exI [of _ "signal ?xs ?n"]) simp
  next
    case zero: True
    from memory consider
        "hs_pattern_result s = 0" "\<forall>k<length cs. signal cs k = 0"
      | m where "m < ?n" "hk_transition_start p \<le> m" "hs_pattern_result s = signal cs m" "signal cs m \<noteq> 0"
        "\<forall>k<length cs. m < k \<longrightarrow> signal cs k = 0"
        "hs_pattern_idx s = (if \<exists>k<length cs. breaks_out p cs m k then 0 else m)"
      unfolding remembers_def by blast
    then show ?thesis
    proof cases
      case 1
      have "confirmation ?xs (hs_pattern_idx s) 0 (?xs ! ?n) = Inr False"
        by (simp add: confirmation_def holds_def)
      then have "hikkake_advance p ?n (hikkake_near p ?xs ?n) s = Inr (s, 0)"
        using quiet [OF zero] 1(1) by (simp add: ifR_def holds_def)
      then show ?thesis using remembers_nothing [OF 1 zero] same by metis
    next
      case (2 m)
      have sig: "signal ?xs m = signal cs m" using 2(1) by (rule signal_prefix)
      have since: "\<forall>k<length ?xs. m < k \<longrightarrow> signal ?xs k = 0"
        using 2(5) zero by (simp only: all_less_snoc) (simp add: signal_prefix)
      have earlier: "(\<exists>k<?n. breaks_out p ?xs m k) = (\<exists>k<?n. breaks_out p cs m k)"
        using breaks_prefix by blast
      have kept: "remembers ?xs (s\<lparr>hs_pattern_idx := i, hs_pattern_result := hs_pattern_result s\<rparr>)"
        if "i = (if (\<exists>k<?n. breaks_out p cs m k) \<or> breaks_out p ?xs m ?n then 0 else m)" for i
      proof -
        have "i = (if \<exists>k<length ?xs. breaks_out p ?xs m k then 0 else m)"
          unfolding ex_less_snoc earlier by (rule that)
        then show ?thesis
          unfolding remembers_def by (intro disjI2 exI [of _ m]) (use 2(1-4) sig since in simp)
      qed
      have m: "1 \<le> m" using 2(2) start_late by simp
      show ?thesis
      proof (cases "\<exists>k<?n. breaks_out p cs m k")
        case past: True
        then obtain k where "k < ?n" "m < k" by (auto simp: breaks_out_def)
        then have "\<not> ?n \<le> 0 + CONFIRMATION_BARS" using 2(2) start_late by (simp add: CONFIRMATION_BARS_def)
        then have adv: "hikkake_advance p ?n (hikkake_near p ?xs ?n) s = Inr (s, 0)"
          using quiet [OF zero] 2(6) past by (simp add: ifR_def holds_def)
        have "hikkake_output p ?xs ?n = 0"
        proof (rule output_quiet [OF zero])
          show "\<not> hikkake_confirms p ?xs j ?n" if "j < ?n" for j
            using confirms_unique [of ?xs m ?n j] sig 2(1,4) since past earlier
            by (auto simp: hikkake_confirms_def)
        qed
        moreover have "remembers ?xs (s\<lparr>hs_pattern_idx := hs_pattern_idx s, hs_pattern_result := hs_pattern_result s\<rparr>)"
          using past 2(6) by (intro kept) simp
        ultimately show ?thesis using adv same by metis
      next
        case fresh: False
        then have idx: "hs_pattern_idx s = m" using 2(6) by auto
        show ?thesis
        proof (cases "breaks_out p ?xs m ?n")
          case True
          then have near: "?n \<le> m + 3" by (simp add: breaks_out_def)
          have conf: "hikkake_confirms p ?xs m ?n"
            using True since fresh earlier by (auto simp: hikkake_confirms_def)
          have "confirmation ?xs m (signal cs m) (?xs ! ?n) = Inr True"
            using confirmation_breaks [OF m 2(1) n near] True sig by simp
          then have "hikkake_advance p ?n (hikkake_near p ?xs ?n) s =
              Inr (s\<lparr>hs_pattern_idx := 0\<rparr>, signal cs m + 100 * (if 0 < signal cs m then 1 else - 1))"
            using quiet [OF zero] near by (simp add: ifR_def holds_def idx 2(3) CONFIRMATION_BARS_def)
          moreover have "signal cs m + 100 * (if 0 < signal cs m then 1 else - 1) = 2 * signal cs m"
            using signal_range [OF 2(1)] 2(4) by auto
          moreover have "hikkake_output p ?xs ?n = 2 * signal cs m"
            using output_confirmed [OF zero conf 2(1)] sig 2(4) by simp
          moreover have "remembers ?xs (s\<lparr>hs_pattern_idx := 0, hs_pattern_result := hs_pattern_result s\<rparr>)"
            using True by (intro kept) simp
          ultimately show ?thesis
            by (intro exI [of _ 0] exI [of _ "hs_pattern_result s"]) simp
        next
          case quietly: False
          have "hikkake_advance p ?n (hikkake_near p ?xs ?n) s = Inr (s, 0)"
          proof (cases "?n \<le> m + 3")
            case True
            then show ?thesis
              using quiet [OF zero] confirmation_breaks [OF m 2(1) n True] quietly sig
              by (simp add: ifR_def holds_def idx 2(3) CONFIRMATION_BARS_def)
          next
            case False
            then show ?thesis
              using quiet [OF zero] by (simp add: ifR_def holds_def idx 2(3) CONFIRMATION_BARS_def)
          qed
          moreover have "hikkake_output p ?xs ?n = 0"
          proof (rule output_quiet [OF zero])
            show "\<not> hikkake_confirms p ?xs j ?n" if "j < ?n" for j
              using confirms_unique [of ?xs m ?n j] sig 2(1,4) since quietly
              by (auto simp: hikkake_confirms_def)
          qed
          moreover have "remembers ?xs (s\<lparr>hs_pattern_idx := hs_pattern_idx s, hs_pattern_result := hs_pattern_result s\<rparr>)"
            using fresh quietly idx by (intro kept) auto
          ultimately show ?thesis using same by metis
        qed
      qed
    qed
  qed
qed

lemma early_bar:
  assumes "remembers cs s" and "length cs < hk_transition_start p"
  shows "remembers (cs @ [c]) s" and "hikkake_output p (cs @ [c]) (length cs) = 0"
proof -
  from assms have "hs_pattern_result s = 0" "\<forall>k<length cs. signal cs k = 0"
    by (auto simp: remembers_def)
  moreover have "signal (cs @ [c]) (length cs) = 0" using assms(2) by (simp add: hikkake_signal_def)
  ultimately show "remembers (cs @ [c]) s" and "hikkake_output p (cs @ [c]) (length cs) = 0"
    by (rule remembers_nothing)+
qed

definition reached :: "candle list \<Rightarrow> hikkake_state \<Rightarrow> bool" where
  "reached cs s \<longleftrightarrow> hs_seen s = length cs \<and> hs_candles s = cs \<and> remembers cs s \<and>
     (case hs_near_average s of
        None \<Rightarrow> \<not> hk_uses_near p
      | Some st \<Rightarrow> hk_uses_near p \<and> average_reached DEFAULT_CANDLE_SETTINGS NEAR 2 cs st)"

definition integer_series :: "candle list \<Rightarrow> int option list" where
  "integer_series cs =
     map (\<lambda>i. if i < hk_lookback p then None else Some (hikkake_output p cs i)) [0..<length cs]"

lemma integer_series_snoc:
  "integer_series (cs @ [c]) = integer_series cs @
     [if length cs < hk_lookback p then None else Some (hikkake_output p (cs @ [c]) (length cs))]"
  by (auto simp: integer_series_def output_prefix)

lemma near_reached:
  assumes "reached cs s"
  obtains near where
    "(case hs_near_average s of None \<Rightarrow> Inr (None, None)
      | Some st \<Rightarrow> bindR (average_update DEFAULT_CANDLE_SETTINGS NEAR 2 st c) (\<lambda>(st', v). Inr (Some st', v))) =
      Inr (near, hikkake_near p (cs @ [c]) (length cs))"
    and "case near of None \<Rightarrow> \<not> hk_uses_near p
      | Some st \<Rightarrow> hk_uses_near p \<and> average_reached DEFAULT_CANDLE_SETTINGS NEAR 2 (cs @ [c]) st"
proof (cases "hs_near_average s")
  case None
  then show ?thesis using assms that [of None] by (simp add: reached_def hikkake_near_def)
next
  case (Some st)
  then have st: "hk_uses_near p" "average_reached DEFAULT_CANDLE_SETTINGS NEAR 2 cs st"
    using assms by (simp_all add: reached_def)
  obtain st' where "average_update DEFAULT_CANDLE_SETTINGS NEAR 2 st c =
      Inr (st', average_value DEFAULT_CANDLE_SETTINGS NEAR (cs @ [c]) 2 (length cs))"
    "average_reached DEFAULT_CANDLE_SETTINGS NEAR 2 (cs @ [c]) st'"
    using average_update_reached [OF st(2)] by blast
  then show ?thesis using that [of "Some st'"] st(1) Some by (simp add: hikkake_near_def)
qed

lemma remembers_update [simp]:
  "remembers cs (s\<lparr>hs_current_integer := v\<rparr>) = remembers cs s"
  by (simp add: remembers_def)

lemma update_integer_reached:
  assumes "reached cs s"
  shows "\<exists>s'. hikkake_update_integer p s c = Inr (s', if length cs < hk_lookback p then None
        else Some (hikkake_output p (cs @ [c]) (length cs))) \<and> reached (cs @ [c]) s'"
proof -
  let ?n = "length cs" and ?xs = "cs @ [c]"
  have s: "hs_seen s = ?n" "hs_candles s = cs" "remembers cs s" using assms by (simp_all add: reached_def)
  obtain near where near:
    "(case hs_near_average s of None \<Rightarrow> Inr (None, None)
      | Some st \<Rightarrow> bindR (average_update DEFAULT_CANDLE_SETTINGS NEAR 2 st c) (\<lambda>(st', v). Inr (Some st', v))) =
      Inr (near, hikkake_near p ?xs ?n)"
    "case near of None \<Rightarrow> \<not> hk_uses_near p
      | Some st \<Rightarrow> hk_uses_near p \<and> average_reached DEFAULT_CANDLE_SETTINGS NEAR 2 ?xs st"
    using near_reached [OF assms] by blast
  define s2 where "s2 = s\<lparr>hs_seen := ?n + 1, hs_candles := ?xs, hs_near_average := near\<rparr>"
  have mem: "remembers cs s2" using s(3) by (simp add: remembers_def s2_def)
  have "\<exists>i r. (if hk_transition_start p \<le> ?n then hikkake_advance p ?n (hikkake_near p ?xs ?n) s2
        else Inr (s2, 0)) =
      Inr (s2\<lparr>hs_pattern_idx := i, hs_pattern_result := r\<rparr>, hikkake_output p ?xs ?n) \<and>
    remembers ?xs (s2\<lparr>hs_pattern_idx := i, hs_pattern_result := r\<rparr>)"
  proof (cases "hk_transition_start p \<le> ?n")
    case True
    then show ?thesis using advance_reached [OF _ mem True, of c] by (simp add: s2_def)
  next
    case False
    then show ?thesis using early_bar [OF mem, of c]
      by (intro exI [of _ "hs_pattern_idx s2"] exI [of _ "hs_pattern_result s2"]) simp
  qed
  then obtain i r where step:
    "(if hk_transition_start p \<le> ?n then hikkake_advance p ?n (hikkake_near p ?xs ?n) s2 else Inr (s2, 0)) =
      Inr (s2\<lparr>hs_pattern_idx := i, hs_pattern_result := r\<rparr>, hikkake_output p ?xs ?n)"
    "remembers ?xs (s2\<lparr>hs_pattern_idx := i, hs_pattern_result := r\<rparr>)"
    by blast
  let ?v = "if hk_lookback p \<le> ?n then Some (hikkake_output p ?xs ?n) else None"
  let ?s = "s2\<lparr>hs_pattern_idx := i, hs_pattern_result := r, hs_current_integer := ?v\<rparr>"
  have s2': "s\<lparr>hs_seen := ?n + 1, hs_candles := ?xs\<rparr>\<lparr>hs_near_average := near\<rparr> = s2"
    by (simp add: s2_def)
  have "hikkake_update_integer p s c = Inr (?s, ?v)"
    unfolding hikkake_update_integer_def Let_def s(1,2) near(1) bindR_Inr split s2' step(1) ..
  moreover have "reached ?xs ?s" using step(2) near(2) by (simp add: reached_def s2_def)
  ultimately show ?thesis by (auto simp: not_less)
qed

lemma start_ok: "\<exists>s. hikkake_start p = Inr s \<and> reached [] s"
proof -
  have "reached [] \<lparr>hs_seen = 0, hs_candles = [],
        hs_near_average = (if hk_uses_near p then Some average_start else None),
        hs_pattern_idx = 0, hs_pattern_result = 0, hs_current_integer = None, hs_current = v\<rparr>" for v
    by (simp add: reached_def remembers_def candle_averages.start_reached)
  then show ?thesis
    using start_late(2) name_ok
    by (simp add: hikkake_start_def talib_undetermined_def assert_pattern_name_def)
qed

end

sublocale hikkake_contract \<subseteq> bars: incremental "projr (hikkake_start p)" "hikkake_update_integer p"
    integer_series reached
proof
  show "reached [] (projr (hikkake_start p))" using start_ok by auto
  show "integer_series [] = []" by (simp add: integer_series_def)
  show "\<exists>s' y. hikkake_update_integer p s c = Inr (s', y) \<and> reached (cs @ [c]) s' \<and>
      integer_series (cs @ [c]) = integer_series cs @ [y]" if "reached cs s" for cs s c
    using update_integer_reached [OF that, of c] by (auto simp: integer_series_snoc)
qed

context hikkake_contract
begin

lemma output_range:
  assumes "i < length cs"
  shows "hikkake_output p cs i \<in> {-200, -100, 0, 100, 200}"
proof (cases "find (\<lambda>m. hikkake_confirms p cs m i) (rev [0..<i])")
  case None
  then show ?thesis using signal_range [OF assms] by (auto simp: hikkake_output_def)
next
  case (Some m)
  then have "m < length cs" using find_SomeD [OF Some] assms by simp
  then show ?thesis using signal_range [OF assms] signal_range [of m cs] Some by (auto simp: hikkake_output_def)
qed

lemma output_allowed: "i < length cs \<Longrightarrow> hikkake_output p cs i \<in> TALIB_RAW_ALLOWED_VALUES"
  using output_range [of i cs] by (auto simp: TALIB_RAW_ALLOWED_VALUES_def)

text \<open>The integer of every bar, 0 during warm-up.\<close>

definition integers :: "candle list \<Rightarrow> int list" where
  "integers cs = map (\<lambda>i. if i < hk_lookback p then 0 else hikkake_output p cs i) [0..<length cs]"

lemma integers_values: "set (integers cs) \<subseteq> {-200, -100, 0, 100, 200}"
proof
  fix x assume "x \<in> set (integers cs)"
  then obtain i where "i < length cs" "x = (if i < hk_lookback p then 0 else hikkake_output p cs i)"
    by (auto simp: integers_def)
  then show "x \<in> {-200, -100, 0, 100, 200}" using output_range [of i cs] by (cases "i < hk_lookback p") auto
qed

lemma integer_series_integers:
  "integer_series cs = map (\<lambda>i. if i < hk_lookback p then None else Some (integers cs ! i)) [0..<length cs]"
  by (auto simp: integer_series_def integers_def)

lemma integers_allowed: "set (integers cs) \<subseteq> TALIB_RAW_ALLOWED_VALUES"
  using integers_values [of cs] by (auto simp: TALIB_RAW_ALLOWED_VALUES_def)

lemma compute_integers_eq:
  "hikkake_compute_integers p cs =
     Inr (map (\<lambda>i. if i < hk_lookback p then 0 else hikkake_output p cs i) [0..<length cs])"
proof -
  obtain s where s: "hikkake_start p = Inr s" using start_ok by blast
  obtain t where t: "replay (hikkake_update_integer p) s cs = Inr (t, integer_series cs)"
    using bars.replay_series [of cs] by (auto simp: s)
  let ?ints = "map (\<lambda>i. if i < hk_lookback p then 0 else hikkake_output p cs i) [0..<length cs]"
  have ints: "map (case_option 0 (\<lambda>n. n)) (integer_series cs) = ?ints"
    by (simp add: integer_series_def)
  have "validate_talib_raw_integer_series (hikkake_spec p) ?ints (Some (length ?ints)) = Inr ()"
  proof (rule checks_pass)
    show "?ints ! i \<in> TALIB_RAW_ALLOWED_VALUES" if "i < length ?ints" for i
      using output_allowed [of i cs] that by (simp add: TALIB_RAW_ALLOWED_VALUES_def)
    show "?ints ! i = 0" if "i < length ?ints" "i < lookback (hikkake_spec p)" for i
      using that by (simp add: hikkake_spec_def talib_port_of_def)
  qed
  then show ?thesis by (simp add: hikkake_compute_integers_def s t ints Let_def)
qed

lemma state_reports:
  "\<exists>s t. hikkake_start p = Inr s \<and> replay (hikkake_update_integer p) s cs =
     Inr (t, map (\<lambda>i. if i < hk_lookback p then None else Some (hikkake_output p cs i)) [0..<length cs])"
  using start_ok bars.replay_series [of cs] by (auto simp: integer_series_def)

lemma compute_vectorized_eq:
  "hikkake_compute_vectorized p cs = Inr (map (four_keys (hk_name p)) (integer_series cs))"
  using vectorized_outputs_eq [OF name_ok integers_allowed, of "hk_lookback p" cs]
  by (simp add: hikkake_compute_vectorized_def compute_integers_eq integer_series_integers integers_def cong: if_cong)

text \<open>The state returns the four numbers of the integer.\<close>

lemma update_reached:
  assumes "reached cs s"
  shows "\<exists>s' v. hikkake_update p s c = Inr (s', v) \<and> reached (cs @ [c]) s' \<and>
    map (four_keys (hk_name p)) (integer_series (cs @ [c])) = map (four_keys (hk_name p)) (integer_series cs) @ [v]"
proof -
  let ?n = "if length cs < hk_lookback p then None else Some (hikkake_output p (cs @ [c]) (length cs))"
  obtain s' where s': "hikkake_update_integer p s c = Inr (s', ?n)" "reached (cs @ [c]) s'"
    using update_integer_reached [OF assms] by blast
  have "(case ?n of None \<Rightarrow> talib_undetermined (hk_name p)
      | Some n \<Rightarrow> outputs_from_talib_integer (hk_name p) n) = Inr (four_keys (hk_name p) ?n)"
    using output_allowed [of "length cs" "cs @ [c]"] by (intro four_keys_ok [OF name_ok]) (auto split: if_splits)
  then have "hikkake_update p s c = Inr (s'\<lparr>hs_current := four_keys (hk_name p) ?n\<rparr>, four_keys (hk_name p) ?n)"
    by (simp only: hikkake_update_def s'(1) bindR_Inr split)
  moreover have "reached (cs @ [c]) (s'\<lparr>hs_current := four_keys (hk_name p) ?n\<rparr>)"
    using s'(2) by (simp add: reached_def remembers_def)
  ultimately show ?thesis by (auto simp: integer_series_snoc)
qed

end

sublocale hikkake_contract \<subseteq> vals: incremental "projr (hikkake_start p)" "hikkake_update p"
    "\<lambda>cs. map (four_keys (hk_name p)) (integer_series cs)" reached
proof
  show "reached [] (projr (hikkake_start p))" by (rule bars.start_reached)
  show "map (four_keys (hk_name p)) (integer_series []) = []" by (simp add: integer_series_def)
qed (rule update_reached)

context hikkake_contract
begin

text \<open>Neither path raises, and the state object returns the batch series bar by bar.\<close>

lemma paths_agree:
  obtains s u where "hikkake_start p = Inr s" and "hikkake_compute_integers p cs = Inr (integers cs)"
    and "hikkake_compute_vectorized p cs = Inr (map (four_keys (hk_name p)) (integer_series cs))"
    and "replay (hikkake_update p) s cs = Inr (u, map (four_keys (hk_name p)) (integer_series cs))"
proof -
  obtain s where s: "hikkake_start p = Inr s" using start_ok by blast
  obtain u where "replay (hikkake_update p) s cs = Inr (u, map (four_keys (hk_name p)) (integer_series cs))"
    using vals.replay_series [of cs] by (auto simp: s)
  then show ?thesis using that [OF s _ compute_vectorized_eq] by (simp add: compute_integers_eq integers_def)
qed

end

subsection \<open>The two ports keep the contract\<close>

lemma hikkake_lookbacks: "HIKKAKE_LOOKBACK = 5" "HIKKAKEMOD_LOOKBACK = 10" "CONFIRMATION_BARS = 3"
  by (simp_all add: HIKKAKE_LOOKBACK_def HIKKAKEMOD_LOOKBACK_def CONFIRMATION_BARS_def
      candle_settings_lookback_def)

lemma hikkake_returns: "2 \<le> i \<Longrightarrow> i < length cs \<Longrightarrow> returns (hikkake cs i v) {-100, 0, 100}"
  unfolding hikkake_def by (intro ok_intros) auto

lemma hikkake_modified_returns:
  "3 \<le> i \<Longrightarrow> i < length cs \<Longrightarrow> returns (hikkake_modified cs i (Some v)) {-100, 0, 100}"
  unfolding hikkake_modified_def option.case by (intro ok_intros) auto

lemma hikkake_ports: "list_all hikkake_contract TALIB_HIKKAKE_PATTERNS"
  unfolding TALIB_HIKKAKE_PATTERNS_def list.pred_inject
proof (intro conjI TrueI)
  show "hikkake_contract \<lparr>hk_name = ''pat_hikkake'', hk_function = ''CDLHIKKAKE'',
      hk_lookback = HIKKAKE_LOOKBACK, hk_transition_start = HIKKAKE_LOOKBACK - CONFIRMATION_BARS,
      hk_judge = hikkake, hk_uses_near = False\<rparr>"
  proof (unfold_locales, goal_cases)
    case (3 i cs v)
    then show ?case by (simp add: hikkake_lookbacks hikkake_def item_take item_take_numeral)
  next
    case (4 i cs)
    then show ?case using hikkake_returns [of i cs] by (simp add: hikkake_lookbacks)
  qed (simp_all add: hikkake_lookbacks pattern_name_def word_char_def)
  show "hikkake_contract \<lparr>hk_name = ''pat_hikkake_modified'', hk_function = ''CDLHIKKAKEMOD'',
      hk_lookback = HIKKAKEMOD_LOOKBACK, hk_transition_start = HIKKAKEMOD_LOOKBACK - CONFIRMATION_BARS,
      hk_judge = hikkake_modified, hk_uses_near = True\<rparr>"
  proof (unfold_locales, goal_cases)
    case (3 i cs v)
    then show ?case
      by (simp add: hikkake_lookbacks hikkake_modified_def item_take item_take_numeral split: option.split)
  next
    case (4 i cs)
    then have "7 \<le> i" by (simp add: hikkake_lookbacks)
    then show ?case
      using hikkake_modified_returns [of i cs] 4(2)
      by (simp add: hikkake_near_def average_value_def Let_def)
  qed (simp_all add: hikkake_lookbacks pattern_name_def word_char_def)
qed simp

interpretation hikkake_first: hikkake_contract "TALIB_HIKKAKE_PATTERNS ! 0"
  using hikkake_ports by (simp add: TALIB_HIKKAKE_PATTERNS_def)

interpretation hikkake_second: hikkake_contract "TALIB_HIKKAKE_PATTERNS ! 1"
  using hikkake_ports by (simp add: TALIB_HIKKAKE_PATTERNS_def)

end
