(* ===== verification/PatternRegistry.thy ===== *)
theory PatternRegistry
  imports SpecRegistry SinglePatterns TwoPatterns ThreePatterns MultiPatterns Hikkake
begin

section \<open>The registry of the TA-Lib patterns (core_lib/patterns/specs/__init__.py)\<close>

text \<open>
  The sixty-one ports in their five groups, the specs made of them, and the registry built at import
  time with the checks that the code makes while it builds it. The groups hold objects of two
  classes with the same methods; \<open>registry_port\<close> is either of them, and its operations choose the
  method of the class. The section proves that the import succeeds and that the two execution paths
  of every registered pattern agree.
\<close>

definition TALIB_PATTERN_REGISTRY_VERSION :: string where
  "TALIB_PATTERN_REGISTRY_VERSION = ''2.0.0+talib.'' @ TALIB_SOURCE_VERSION"

datatype registry_port = PlainPort talib_port | HikkakePort hikkake_port

primrec registered_name :: "registry_port \<Rightarrow> string" where
  "registered_name (PlainPort p) = port_name p"
| "registered_name (HikkakePort h) = hk_name h"

primrec registered_function :: "registry_port \<Rightarrow> string" where
  "registered_function (PlainPort p) = talib_function p"
| "registered_function (HikkakePort h) = hk_function h"

primrec registered_lookback :: "registry_port \<Rightarrow> nat" where
  "registered_lookback (PlainPort p) = lookback p"
| "registered_lookback (HikkakePort h) = hk_lookback h"

primrec registered_min_history :: "registry_port \<Rightarrow> nat" where
  "registered_min_history (PlainPort p) = port_min_history p"
| "registered_min_history (HikkakePort h) = hk_lookback h + 1"

primrec registered_integers :: "registry_port \<Rightarrow> candle list \<Rightarrow> int list res" where
  "registered_integers (PlainPort p) = compute_integers p"
| "registered_integers (HikkakePort h) = hikkake_compute_integers h"

primrec registered_vectorized :: "registry_port \<Rightarrow> candle list \<Rightarrow> pattern_value list res" where
  "registered_vectorized (PlainPort p) = compute_vectorized p"
| "registered_vectorized (HikkakePort h) = hikkake_compute_vectorized h"

datatype registry_state = PlainState talib_port pattern_state | HikkakeState hikkake_port hikkake_state

text \<open>\<open>make_state\<close> and \<open>update\<close>: a state object keeps the port it belongs to.\<close>

primrec registered_state :: "registry_port \<Rightarrow> registry_state res" where
  "registered_state (PlainPort p) = bindR (make_state p) (\<lambda>s. Inr (PlainState p s))"
| "registered_state (HikkakePort h) = bindR (hikkake_start h) (\<lambda>s. Inr (HikkakeState h s))"

primrec registered_update :: "registry_state \<Rightarrow> candle \<Rightarrow> (registry_state \<times> pattern_value) res" where
  "registered_update (PlainState p s) c = bindR (port_update p s c) (\<lambda>(t, v). Inr (PlainState p t, v))"
| "registered_update (HikkakeState h s) c = bindR (hikkake_update h s c) (\<lambda>(t, v). Inr (HikkakeState h t, v))"

text \<open>The ports by group, in the order of the groups.\<close>

definition TALIB_GROUP_PORTS :: "(string \<times> registry_port list) list" where
  "TALIB_GROUP_PORTS =
     [(''single_candle'', map PlainPort TALIB_SINGLE_CANDLE_PATTERNS),
      (''two_candle'', map PlainPort TALIB_TWO_CANDLE_PATTERNS),
      (''three_candle'', map PlainPort TALIB_THREE_CANDLE_PATTERNS),
      (''multi_candle'', map PlainPort TALIB_MULTI_CANDLE_PATTERNS),
      (''hikkake'', map HikkakePort TALIB_HIKKAKE_PATTERNS)]"

definition talib_ports :: "registry_port list" where
  "talib_ports = concat (map snd TALIB_GROUP_PORTS)"

definition talib_names :: "(string \<times> string) list" where
  "talib_names = map (\<lambda>p. (registered_name p, registered_function p)) talib_ports"

definition talib_functions_by_pattern :: "(string \<times> string) list \<Rightarrow> (string \<times> string) list res" where
  "talib_functions_by_pattern names =
     foldR (\<lambda>functions (name, f).
       raise_if (name \<in> set (map fst functions)) (ValueError ''pattern is registered twice'')
       (raise_if (f \<in> set (map snd functions)) (ValueError ''function is registered twice'')
       (Inr (functions @ [(name, f)])))) [] names"

definition check_pattern_spec :: "'v series_spec \<Rightarrow> unit res" where
  "check_pattern_spec spec =
     bindR (assert_pattern_name (spec_name spec)) (\<lambda>_.
     raise_if (spec_version spec = []) (ValueError ''pattern version must not be empty'')
     (raise_if (spec_min_history spec = 0) (ValueError ''explicit_min_history must be positive'')
     (raise_if (list_ex (\<lambda>key. key = []) (spec_undefined_outputs spec))
       (ValueError ''undefined_outputs must name output keys'') (Inr ()))))"

definition pattern_spec_of ::
    "string \<Rightarrow> nat \<Rightarrow> nat \<Rightarrow> (candle list \<Rightarrow> pattern_value list res) \<Rightarrow> pattern_value series_spec res" where
  "pattern_spec_of name min_history state_history vectorized =
     (let spec = \<lparr>spec_name = name, spec_params = [], spec_version = TALIB_PATTERN_REGISTRY_VERSION,
        spec_min_history = min_history, spec_state_history = state_history,
        spec_required_inputs = [], spec_undefined_outputs = [], spec_vectorized = vectorized\<rparr>
      in bindR (check_pattern_spec spec) (\<lambda>_. Inr spec))"

definition talib_spec_for :: "registry_port \<Rightarrow> pattern_value series_spec res" where
  "talib_spec_for p =
     pattern_spec_of (registered_name p) (registered_min_history p) (registered_lookback p + 1) (registered_vectorized p)"

definition talib_all_specs :: "pattern_value series_spec list res" where
  "talib_all_specs = mapR talib_spec_for talib_ports"

definition build_talib_pattern_registry :: "pattern_value registry res" where
  "build_talib_pattern_registry = bindR talib_all_specs (\<lambda>specs. foldR register_pattern [] specs)"

definition assert_talib_registry_complete :: "pattern_value registry \<Rightarrow> (string \<times> string) list \<Rightarrow> unit res" where
  "assert_talib_registry_complete reg functions =
     (let registry_names = remdups (map spec_name reg); function_names = map fst functions in
      raise_if (length registry_names \<noteq> 61 \<or> length function_names \<noteq> 61 \<or>
         set registry_names \<noteq> set function_names)
        (RuntimeError ''registry/function map is incomplete'') (Inr ()))"

subsection \<open>The import succeeds\<close>

definition plain_ports :: "talib_port list" where
  "plain_ports = TALIB_SINGLE_CANDLE_PATTERNS @ TALIB_TWO_CANDLE_PATTERNS @
     TALIB_THREE_CANDLE_PATTERNS @ TALIB_MULTI_CANDLE_PATTERNS"

lemma talib_ports_eq: "talib_ports = map PlainPort plain_ports @ map HikkakePort TALIB_HIKKAKE_PATTERNS"
  by (simp add: talib_ports_def TALIB_GROUP_PORTS_def plain_ports_def)

lemma plain_ports_contract: "list_all port_contract plain_ports"
  by (simp add: plain_ports_def single_ports two_ports three_ports multi_ports)

lemma port_in_contract: "p \<in> set plain_ports \<Longrightarrow> port_contract p"
  using plain_ports_contract by (auto simp: list_all_iff)

lemma hikkake_in_contract: "p \<in> set TALIB_HIKKAKE_PATTERNS \<Longrightarrow> hikkake_contract p"
  using hikkake_ports by (auto simp: list_all_iff)

lemma registered_cases:
  assumes "p \<in> set talib_ports"
  obtains (plain) q where "p = PlainPort q" "q \<in> set plain_ports" "port_contract q"
    | (hikkake) h where "p = HikkakePort h" "h \<in> set TALIB_HIKKAKE_PATTERNS" "hikkake_contract h"
  using assms port_in_contract hikkake_in_contract by (auto simp: talib_ports_eq)

lemma registered_name_ok: "p \<in> set talib_ports \<Longrightarrow> pattern_name (registered_name p)"
  by (erule registered_cases) (simp_all add: port_contract.name_ok hikkake_contract.name_ok)

definition plain_spec :: "string \<Rightarrow> nat \<Rightarrow> (candle list \<Rightarrow> pattern_value list res) \<Rightarrow> pattern_value series_spec" where
  "plain_spec name n vectorized = \<lparr>spec_name = name, spec_params = [],
     spec_version = TALIB_PATTERN_REGISTRY_VERSION, spec_min_history = n, spec_state_history = n,
     spec_required_inputs = [], spec_undefined_outputs = [], spec_vectorized = vectorized\<rparr>"

definition port_specs :: "pattern_value series_spec list" where
  "port_specs = map (\<lambda>p. plain_spec (registered_name p) (registered_lookback p + 1) (registered_vectorized p)) talib_ports"

lemma registered_min_history_eq [simp]: "registered_min_history p = registered_lookback p + 1"
  by (cases p) (simp_all add: port_min_history_def)

lemma talib_spec_ok:
  "p \<in> set talib_ports \<Longrightarrow>
    talib_spec_for p = Inr (plain_spec (registered_name p) (registered_lookback p + 1) (registered_vectorized p))"
  using registered_name_ok [of p]
  by (simp add: talib_spec_for_def pattern_spec_of_def plain_spec_def check_pattern_spec_def
      assert_pattern_name_def TALIB_PATTERN_REGISTRY_VERSION_def)

lemma mapR_ok: "(\<And>x. x \<in> set xs \<Longrightarrow> f x = Inr (g x)) \<Longrightarrow> mapR f xs = Inr (map g xs)"
  by (induction xs) simp_all

lemma talib_all_specs_ok: "talib_all_specs = Inr port_specs"
  unfolding talib_all_specs_def port_specs_def by (rule mapR_ok) (rule talib_spec_ok)

lemma port_spec_names: "map spec_name port_specs = map fst talib_names"
  by (simp add: port_specs_def talib_names_def plain_spec_def)

lemmas talib_tables = TALIB_SINGLE_CANDLE_PATTERNS_def TALIB_TWO_CANDLE_PATTERNS_def
  TALIB_THREE_CANDLE_PATTERNS_def TALIB_MULTI_CANDLE_PATTERNS_def TALIB_HIKKAKE_PATTERNS_def

lemma port_name_of [simp]:
  "port_name (talib_port_of name f n keys j) = name" "talib_function (talib_port_of name f n keys j) = f"
  by (simp_all add: talib_port_of_def)

lemma talib_names_distinct:
  "length talib_names = 61" "distinct (map fst talib_names)" "distinct (map snd talib_names)"
  by (simp_all add: talib_names_def talib_ports_def TALIB_GROUP_PORTS_def talib_tables)

lemma functions_by_pattern:
  "distinct (map fst done' @ map fst names) \<Longrightarrow> distinct (map snd done' @ map snd names) \<Longrightarrow>
    foldR (\<lambda>functions (name, f).
       raise_if (name \<in> set (map fst functions)) (ValueError ''pattern is registered twice'')
       (raise_if (f \<in> set (map snd functions)) (ValueError ''function is registered twice'')
       (Inr (functions @ [(name, f)])))) done' names = Inr (done' @ names)"
proof (induction names arbitrary: done')
  case (Cons e names)
  obtain name f where e: "e = (name, f)" by (cases e)
  have "name \<notin> set (map fst done')" "f \<notin> set (map snd done')" using Cons.prems e by auto
  moreover have "distinct (map fst (done' @ [e]) @ map fst names)" "distinct (map snd (done' @ [e]) @ map snd names)"
    using Cons.prems by auto
  note Cons.IH [OF this]
  ultimately show ?case by (simp add: e)
qed simp

lemma talib_functions_ok: "talib_functions_by_pattern talib_names = Inr talib_names"
  using functions_by_pattern [of "[]" talib_names] talib_names_distinct
  by (simp add: talib_functions_by_pattern_def)

lemma register_all:
  assumes "distinct (map spec_key (reg @ specs))"
    and "\<And>spec. spec \<in> set specs \<Longrightarrow> spec_state_history spec = spec_min_history spec"
  shows "foldR register_pattern reg specs = Inr (reg @ specs)"
  using assms
proof (induction specs arbitrary: reg)
  case (Cons spec specs)
  have "foldR register_pattern (reg @ [spec]) specs = Inr ((reg @ [spec]) @ specs)"
    using Cons.prems by (intro Cons.IH) auto
  moreover have "spec_key spec \<notin> set (map spec_key reg)" using Cons.prems(1) by auto
  moreover have "register_pattern reg spec = Inr (reg @ [spec])"
    using Cons.prems(2) [of spec] calculation(2)
    by (simp add: register_pattern_def assert_warmup_agrees_def)
  ultimately show ?case by simp
qed simp

lemma port_spec_keys: "distinct (map spec_key port_specs)"
proof -
  have "map spec_key port_specs = map (\<lambda>name. (name, [])) (map spec_name port_specs)"
    by (auto simp: port_specs_def plain_spec_def spec_key_def registry_key_def)
  moreover have "distinct (map (\<lambda>name. (name, [])) (map fst talib_names))"
    using talib_names_distinct(2) by (simp add: distinct_map inj_on_def)
  ultimately show ?thesis by (simp only: port_spec_names)
qed

lemma registry_built: "build_talib_pattern_registry = Inr port_specs"
proof -
  have "foldR register_pattern [] port_specs = Inr ([] @ port_specs)"
  proof (rule register_all)
    show "distinct (map spec_key ([] @ port_specs))" using port_spec_keys by simp
  qed (auto simp: port_specs_def plain_spec_def)
  then show ?thesis by (simp add: build_talib_pattern_registry_def talib_all_specs_ok)
qed

lemma registry_complete: "assert_talib_registry_complete port_specs talib_names = Inr ()"
  using talib_names_distinct
  by (simp add: assert_talib_registry_complete_def port_spec_names distinct_remdups_id del: remdups_map_remdups)

lemma identifiers_distinct: "identified_once rp port_specs"
proof -
  have "map (spec_identifier rp) port_specs = map spec_name port_specs"
    by (auto simp: port_specs_def plain_spec_def spec_identifier_def)
  then show ?thesis using talib_names_distinct(2) by (simp add: identified_once_def port_spec_names)
qed

subsection \<open>Every registered pattern runs\<close>

interpretation plain: port_contract "plain_ports ! (k mod length plain_ports)" for k
proof -
  have "0 < length plain_ports" by (simp add: plain_ports_def TALIB_TWO_CANDLE_PATTERNS_def)
  then show "port_contract (plain_ports ! (k mod length plain_ports))" by (intro port_in_contract) simp
qed

interpretation stateful: hikkake_contract "TALIB_HIKKAKE_PATTERNS ! (k mod length TALIB_HIKKAKE_PATTERNS)" for k
proof -
  have "0 < length TALIB_HIKKAKE_PATTERNS" by (simp add: TALIB_HIKKAKE_PATTERNS_def)
  then show "hikkake_contract (TALIB_HIKKAKE_PATTERNS ! (k mod length TALIB_HIKKAKE_PATTERNS))"
    by (intro hikkake_in_contract) simp
qed

lemma member_index:
  assumes "p \<in> set ps"
  obtains k where "p = ps ! (k mod length ps)"
  using assms by (metis in_set_conv_nth mod_less)

text \<open>The integers a class of ports answers with.\<close>

primrec registered_values :: "registry_port \<Rightarrow> int set" where
  "registered_values (PlainPort p) = {-100, -80, 0, 80, 100}"
| "registered_values (HikkakePort h) = {-200, -100, 0, 100, 200}"

lemma replay_plain:
  "replay registered_update (PlainState p s) cs = bindR (replay (port_update p) s cs) (\<lambda>(t, vs). Inr (PlainState p t, vs))"
proof (induction cs arbitrary: s)
  case (Cons c cs)
  show ?case
  proof (cases "port_update p s c")
    case (Inr r)
    then show ?thesis by (cases r; cases "replay (port_update p) (fst r) cs") (auto simp: Cons)
  qed simp
qed simp

lemma replay_hikkake:
  "replay registered_update (HikkakeState h s) cs =
     bindR (replay (hikkake_update h) s cs) (\<lambda>(t, vs). Inr (HikkakeState h t, vs))"
proof (induction cs arbitrary: s)
  case (Cons c cs)
  show ?case
  proof (cases "hikkake_update h s c")
    case (Inr r)
    then show ?thesis by (cases r; cases "replay (hikkake_update h) (fst r) cs") (auto simp: Cons)
  qed simp
qed simp

lemma registered_paths:
  assumes "p \<in> set talib_ports"
  obtains s ints t where "registered_state p = Inr s" and "registered_integers p cs = Inr ints"
    and "set ints \<subseteq> registered_values p" and "length ints = length cs"
    and "registered_vectorized p cs = Inr (map (four_keys (registered_name p))
      (map (\<lambda>i. if i < registered_lookback p then None else Some (ints ! i)) [0..<length cs]))"
    and "replay registered_update s cs = Inr (t, map (four_keys (registered_name p))
      (map (\<lambda>i. if i < registered_lookback p then None else Some (ints ! i)) [0..<length cs]))"
  using assms
proof (cases rule: registered_cases)
  case (plain q)
  obtain k where q: "q = plain_ports ! (k mod length plain_ports)" using member_index [OF plain(2)] .
  obtain s u where paths: "make_state q = Inr s" "compute_integers q cs = Inr (plain.integers k cs)"
    "compute_vectorized q cs = Inr (map (plain.outputs k) (plain.integer_series k cs))"
    "replay (port_update q) s cs = Inr (u, map (plain.outputs k) (plain.integer_series k cs))"
    unfolding q by (rule plain.paths_agree [of k cs])
  have series: "map (plain.outputs k) (plain.integer_series k cs) = map (four_keys (port_name q))
      (map (\<lambda>i. if i < lookback q then None else Some (plain.integers k cs ! i)) [0..<length cs])"
    by (simp add: plain.outputs_def plain.integer_series_integers q)
  show ?thesis
    by (rule that [of "PlainState q s" "plain.integers k cs" "PlainState q u"])
      (use plain.integers_values [of k cs] paths series in
        \<open>simp_all add: plain(1) port_values_def plain.integers_def replay_plain\<close>)
next
  case (hikkake h)
  obtain k where h: "h = TALIB_HIKKAKE_PATTERNS ! (k mod length TALIB_HIKKAKE_PATTERNS)"
    using member_index [OF hikkake(2)] .
  obtain s u where paths: "hikkake_start h = Inr s" "hikkake_compute_integers h cs = Inr (stateful.integers k cs)"
    "hikkake_compute_vectorized h cs = Inr (map (four_keys (hk_name h)) (stateful.integer_series k cs))"
    "replay (hikkake_update h) s cs = Inr (u, map (four_keys (hk_name h)) (stateful.integer_series k cs))"
    unfolding h by (rule stateful.paths_agree [of k cs])
  have series: "stateful.integer_series k cs =
      map (\<lambda>i. if i < hk_lookback h then None else Some (stateful.integers k cs ! i)) [0..<length cs]"
    by (simp add: stateful.integer_series_integers h)
  show ?thesis
    by (rule that [of "HikkakeState h s" "stateful.integers k cs" "HikkakeState h u"])
      (use stateful.integers_values [of k cs] paths series in
        \<open>simp_all add: hikkake(1) stateful.integers_def replay_hikkake\<close>)
qed

lemma registered_decode:
  assumes "p \<in> set talib_ports" and "set ints \<subseteq> registered_values p"
  shows "mapR (talib_integer_from_outputs (registered_name p))
      (map (four_keys (registered_name p)) (map (\<lambda>i. if i < n then None else Some (ints ! i)) [0..<length ints])) =
    Inr (map (\<lambda>i. if i < n then None else Some (ints ! i)) [0..<length ints])"
proof -
  have allowed: "set ints \<subseteq> TALIB_RAW_ALLOWED_VALUES"
    using assms(2) by (cases p) (auto simp: TALIB_RAW_ALLOWED_VALUES_def)
  show ?thesis
    by (rule vectorized_outputs_decode [OF registered_name_ok [OF assms(1)] allowed])
      (rule vectorized_outputs_eq [OF registered_name_ok [OF assms(1)] allowed])
qed

lemma registered_runs:
  assumes "spec \<in> set port_specs"
  shows "\<exists>vals. spec_vectorized spec cs = Inr vals \<and> length vals = length cs"
proof -
  obtain p where p: "p \<in> set talib_ports" "spec_vectorized spec = registered_vectorized p"
    using assms by (auto simp: port_specs_def plain_spec_def)
  show ?thesis by (rule registered_paths [OF p(1), of cs]) (simp add: p(2))
qed

lemma registered_found:
  assumes "spec \<in> set port_specs"
  shows "registry_get port_specs (spec_name spec) [] = Inr spec"
proof -
  have "keyed_once port_specs" by (simp add: keyed_once_def port_spec_keys)
  moreover have "spec_params spec = []" using assms by (auto simp: port_specs_def plain_spec_def)
  ultimately show ?thesis using registry_get_spec [OF _ assms] by metis
qed

lemma port_spec_identifier: "spec \<in> set port_specs \<Longrightarrow> spec_identifier rp spec = spec_name spec"
  by (auto simp: port_specs_def plain_spec_def spec_identifier_def)

text \<open>Requests of registered names resolve to their specs in the order of the names.\<close>

lemma port_specs_for:
  assumes "set enabled \<subseteq> registry_names port_specs"
  obtains specs where "specs_for rp port_specs enabled = Inr specs" and "set specs \<subseteq> set port_specs"
    and "distinct specs" and "map spec_name specs = sorted_list_of_set (set enabled)"
proof
  let ?specs = "filter (\<lambda>spec. \<exists>r\<in>set enabled. names_spec rp r spec) (registry_list rp port_specs)"
  have listed: "set (registry_list rp port_specs) = set port_specs" by (simp add: registry_list_def)
  have named: "names_spec rp r spec \<longleftrightarrow> spec_name spec = r" if "spec \<in> set port_specs" for r spec
    using port_spec_identifier [OF that, of rp] by (auto simp: names_spec_def)
  have requested: "\<exists>spec\<in>set port_specs. names_spec rp r spec" if "r \<in> set enabled" for r
  proof -
    have "r \<in> spec_name ` set port_specs" using assms that by (auto simp: registry_names_def)
    then obtain spec where "spec \<in> set port_specs" "spec_name spec = r" by blast
    then show ?thesis using named by blast
  qed
  then show "specs_for rp port_specs enabled = Inr ?specs"
    by (intro specs_for_named [OF identifiers_distinct]) blast
  show subset: "set ?specs \<subseteq> set port_specs" using listed by auto
  have d: "distinct (map spec_name port_specs)" using talib_names_distinct(2) by (simp only: port_spec_names)
  then show distinct: "distinct ?specs" by (simp add: registry_list_def distinct_map)
  have "map spec_name ?specs = map (spec_identifier rp) ?specs"
    using subset port_spec_identifier by (metis (no_types, lifting) map_eq_conv subsetD)
  moreover have "sorted (map (spec_identifier rp) ?specs)" by (simp add: registry_list_def sorted_filter)
  ultimately have "sorted (map spec_name ?specs)" by (simp only:)
  moreover have "distinct (map spec_name ?specs)"
    unfolding distinct_map using d distinct inj_on_subset [OF _ subset] by (auto simp: distinct_map)
  moreover have "set (map spec_name ?specs) = set enabled"
  proof (intro set_eqI iffI)
    fix r assume "r \<in> set enabled"
    with requested [OF this] show "r \<in> set (map spec_name ?specs)" using listed named by fastforce
  qed (use listed named in auto)
  ultimately show "map spec_name ?specs = sorted_list_of_set (set enabled)"
    by (metis sorted_list_of_set.idem_if_sorted_distinct)
qed

lemma all_finalized: "(\<And>c. c \<in> set cs \<Longrightarrow> c_close_time c \<le> t) \<Longrightarrow> assert_all_finalized cs (Some t) = Inr ()"
proof (induction cs)
  case (Cons c cs)
  have "\<not> t < c_close_time c" using Cons.prems [of c] by simp
  then show ?case using Cons by (simp add: assert_all_finalized_def assert_finalized_def)
qed (simp add: assert_all_finalized_def)

end
