(* ===== verification/PatternSamples.thy ===== *)
theory PatternSamples
  imports RollingExtremes PatternRegistry
begin

section \<open>Concrete instances\<close>

text \<open>
  Candles with an engulfing and with a Hikkake pattern that is confirmed two bars later, and the
  answers of their judges.
\<close>

definition falling_bar :: candle where
  "falling_bar = \<lparr>c_symbol = ''BTCUSDT'', c_exchange = ''binance'', c_timeframe = ''1m'', c_open_time = 0,
     c_close_time = 60000000, c_open = Fin 100, c_high = Fin 101, c_low = Fin 94, c_close = Fin 95,
     c_volume = Fin 5, c_quote_volume = None, c_trade_count = None\<rparr>"

definition swallowing_bar :: candle where
  "swallowing_bar = falling_bar\<lparr>c_open := Fin 94, c_close := Fin 102, c_high := Fin 103,
     c_open_time := 60000000, c_close_time := 120000000\<rparr>"

definition engulfing_port :: talib_port where
  "engulfing_port = talib_port_of ''pat_engulfing'' ''CDLENGULFING'' 2 [] engulfing"

lemma engulfing_port_registered: "PlainPort engulfing_port \<in> set talib_ports"
  by (simp add: engulfing_port_def talib_ports_eq plain_ports_def TALIB_TWO_CANDLE_PATTERNS_def)

lemma engulfing_integers:
  "compute_integers engulfing_port [falling_bar, falling_bar, swallowing_bar, swallowing_bar] = Inr [0, 0, 100, 0]"
  by (simp add: compute_integers_def engulfing_port_def talib_port_of_def engulfing_def item_def
      falling_bar_def swallowing_bar_def candle_color_def upt_rec numeral_nat
      validate_talib_raw_integer_series_def check_raw_integer_def TALIB_RAW_ALLOWED_VALUES_def
      is_warmup_index_def Let_def)

definition price_bar :: "rat \<Rightarrow> rat \<Rightarrow> rat \<Rightarrow> candle" where
  "price_bar low high close = falling_bar\<lparr>c_low := Fin low, c_high := Fin high, c_open := Fin close, c_close := Fin close\<rparr>"

definition hikkake_bars :: "candle list" where
  "hikkake_bars = [price_bar 90 110 100, price_bar 90 110 100, price_bar 90 110 100, price_bar 95 105 100,
     price_bar 93 104 100, price_bar 92 103 100, price_bar 92 108 106]"

lemma hikkake_first_port: "TALIB_HIKKAKE_PATTERNS ! 0 \<in> set TALIB_HIKKAKE_PATTERNS"
  by (simp add: TALIB_HIKKAKE_PATTERNS_def)

lemma hikkake_bars_signals:
  "hikkake_signal (TALIB_HIKKAKE_PATTERNS ! 0) hikkake_bars 2 = 0"
  "hikkake_signal (TALIB_HIKKAKE_PATTERNS ! 0) hikkake_bars 3 = 0"
  "hikkake_signal (TALIB_HIKKAKE_PATTERNS ! 0) hikkake_bars 4 = 100"
  "hikkake_signal (TALIB_HIKKAKE_PATTERNS ! 0) hikkake_bars 5 = 0"
  "hikkake_signal (TALIB_HIKKAKE_PATTERNS ! 0) hikkake_bars 6 = 0"
  by (simp_all add: hikkake_signal_def hikkake_bars_def price_bar_def falling_bar_def
      TALIB_HIKKAKE_PATTERNS_def hikkake_def item_def hikkake_lookbacks)

lemma hikkake_early_signals:
  "hikkake_signal (TALIB_HIKKAKE_PATTERNS ! 0) hikkake_bars 0 = 0"
  "hikkake_signal (TALIB_HIKKAKE_PATTERNS ! 0) hikkake_bars (Suc 0) = 0"
  by (simp_all add: hikkake_signal_def TALIB_HIKKAKE_PATTERNS_def hikkake_lookbacks)

lemma hikkake_bars_breaks:
  "breaks_out (TALIB_HIKKAKE_PATTERNS ! 0) hikkake_bars m k \<longleftrightarrow> m = 4 \<and> k = 6" if "k \<le> 6"
proof -
  have "m < k \<Longrightarrow> m \<in> {0, 1, 2, 3, 4, 5}" using that by auto
  moreover have "k \<in> {0, 1, 2, 3, 4, 5, 6}" using that by auto
  ultimately show ?thesis
    by (auto simp: breaks_out_def hikkake_bars_signals hikkake_early_signals)
      (auto simp: hikkake_bars_def price_bar_def falling_bar_def)
qed

lemma hikkake_bars_confirms:
  assumes "i \<le> 6"
  shows "hikkake_confirms (TALIB_HIKKAKE_PATTERNS ! 0) hikkake_bars m i \<longleftrightarrow> m = 4 \<and> i = 6"
proof -
  have "k = 5 \<or> k = 6" if "4 < k" "k \<le> 6" for k :: nat using that by auto
  then have "\<forall>k. 4 < k \<and> k \<le> 6 \<longrightarrow> hikkake_signal (TALIB_HIKKAKE_PATTERNS ! 0) hikkake_bars k = 0"
    using hikkake_bars_signals by metis
  moreover have "\<forall>k<i. \<not> breaks_out (TALIB_HIKKAKE_PATTERNS ! 0) hikkake_bars m k"
    using assms hikkake_bars_breaks by auto
  ultimately show ?thesis
    unfolding hikkake_confirms_def using hikkake_bars_breaks [OF assms, of m] by auto
qed

lemma hikkake_bars_outputs:
  "hikkake_output (TALIB_HIKKAKE_PATTERNS ! 0) hikkake_bars 5 = 0"
  "hikkake_output (TALIB_HIKKAKE_PATTERNS ! 0) hikkake_bars 6 = 200"
proof -
  have upto: "rev [0..<5] = [4, 3, 2, 1, 0::nat]" "rev [0..<6] = [5, 4, 3, 2, 1, 0::nat]"
    by (simp_all add: upt_rec numeral_nat)
  show "hikkake_output (TALIB_HIKKAKE_PATTERNS ! 0) hikkake_bars 5 = 0"
    "hikkake_output (TALIB_HIKKAKE_PATTERNS ! 0) hikkake_bars 6 = 200"
    unfolding hikkake_output_def upto by (simp_all add: hikkake_bars_confirms hikkake_bars_signals)
qed

lemma hikkake_first_registered: "HikkakePort (TALIB_HIKKAKE_PATTERNS ! 0) \<in> set talib_ports"
  using hikkake_first_port by (simp add: talib_ports_eq)

lemma hikkake_first_lookback: "hk_lookback (TALIB_HIKKAKE_PATTERNS ! 0) = 5" "length hikkake_bars = 7"
  "hk_name (TALIB_HIKKAKE_PATTERNS ! 0) = ''pat_hikkake''"
  by (simp_all add: TALIB_HIKKAKE_PATTERNS_def hikkake_lookbacks hikkake_bars_def)

lemma hikkake_bars_integers:
  "registered_integers (HikkakePort (TALIB_HIKKAKE_PATTERNS ! 0)) hikkake_bars = Inr [0, 0, 0, 0, 0, 0, 200]"
proof -
  have "[0..<7] = [0, 1, 2, 3, 4, 5, 6]" by (simp add: upt_rec numeral_nat)
  then show ?thesis
    using hikkake_contract.compute_integers_eq [OF hikkake_in_contract [OF hikkake_first_port], of hikkake_bars]
      hikkake_bars_outputs by (simp add: hikkake_first_lookback)
qed

lemma pattern_registry_complete:
  "\<exists>reg. build_talib_pattern_registry = Inr reg \<and> talib_functions_by_pattern talib_names = Inr talib_names \<and>
    assert_talib_registry_complete reg talib_names = Inr () \<and>
    length reg = 61 \<and> map spec_name reg = map fst talib_names \<and> distinct (map spec_name reg) \<and>
    list_all (\<lambda>spec. registry_get reg (spec_name spec) [] = Inr spec \<and>
      (\<exists>vals. spec_vectorized spec cs = Inr vals \<and> length vals = length cs)) reg"
proof (intro exI conjI)
  show "build_talib_pattern_registry = Inr port_specs" by (rule registry_built)
  show "talib_functions_by_pattern talib_names = Inr talib_names" by (rule talib_functions_ok)
  show "assert_talib_registry_complete port_specs talib_names = Inr ()" by (rule registry_complete)
  have "length port_specs = length (map spec_name port_specs)" by simp
  then show "length port_specs = 61" unfolding port_spec_names using talib_names_distinct(1) by simp
  show "map spec_name port_specs = map fst talib_names" by (rule port_spec_names)
  show "distinct (map spec_name port_specs)" unfolding port_spec_names by (rule talib_names_distinct(2))
  show "list_all (\<lambda>spec. registry_get port_specs (spec_name spec) [] = Inr spec \<and>
      (\<exists>vals. spec_vectorized spec cs = Inr vals \<and> length vals = length cs)) port_specs"
    using registered_found registered_runs by (auto simp: list_all_iff)
qed

lemma resolution_order_independent:
  assumes "identified_once rp reg"
  shows "specs_for rp reg enabled =
    (if \<forall>r\<in>set enabled. \<exists>spec\<in>set reg. names_spec rp r spec
     then Inr (filter (\<lambda>spec. \<exists>r\<in>set enabled. names_spec rp r spec) (registry_list rp reg))
     else Inl (KeyError ''is not registered''))"
  by (rule specs_for_eq [OF assms])

lemma resolution_order_independent_witness:
  "specs_for (\<lambda>_. ''None'') port_specs [''pat_doji'', ''pat_hammer'', ''pat_doji''] =
    specs_for (\<lambda>_. ''None'') port_specs [''pat_hammer'', ''pat_doji'']"
  unfolding resolution_order_independent [OF identifiers_distinct] by (simp add: insert_commute)

lemma pattern_batch_total:
  assumes "set enabled \<subseteq> registry_names port_specs" and "\<And>c. c \<in> set cs \<Longrightarrow> c_close_time c \<le> deadline"
    and "\<And>spec. spec \<in> set port_specs \<Longrightarrow> spec_name spec \<in> set enabled \<Longrightarrow> spec_min_history spec \<le> length cs"
  shows "\<exists>result. compute_pattern_batch rp port_specs cs enabled (Some deadline) = Inr result \<and>
    map fst result = sorted_list_of_set (set enabled) \<and> list_all (\<lambda>(_, vals). length vals = length cs) result"
proof -
  obtain specs where specs: "specs_for rp port_specs enabled = Inr specs" "set specs \<subseteq> set port_specs"
    "distinct specs" "map spec_name specs = sorted_list_of_set (set enabled)"
    by (rule port_specs_for [OF assms(1)])
  define vals where "vals spec = projr (spec_vectorized spec cs)" for spec :: "pattern_value series_spec"
  have vals: "spec_vectorized spec cs = Inr (vals spec) \<and> length (vals spec) = length cs" if "spec \<in> set specs" for spec
  proof -
    have "spec \<in> set port_specs" using that specs(2) by blast
    from registered_runs [OF this, of cs] show ?thesis by (auto simp: vals_def)
  qed
  have "spec_name spec \<in> set enabled" if "spec \<in> set specs" for spec
    using that specs(4) by (metis List.finite_set image_eqI set_map set_sorted_list_of_set)
  then have "foldR (batch_entry rp cs) [] specs =
      Inr ([] @ map (\<lambda>spec. (spec_identifier rp spec, vals spec)) specs)"
    using vals assms(3) specs(2,3) by (intro batch_entries [OF identifiers_distinct]) auto
  moreover have "assert_all_finalized cs (Some deadline) = Inr ()"
    by (rule all_finalized) (rule assms(2))
  ultimately have "compute_pattern_batch rp port_specs cs enabled (Some deadline) =
      Inr (map (\<lambda>spec. (spec_identifier rp spec, vals spec)) specs)"
    by (simp add: compute_pattern_batch_def specs(1))
  moreover have "map (spec_identifier rp) specs = map spec_name specs"
    using specs(2) by (auto intro: port_spec_identifier)
  ultimately show ?thesis using vals specs(4) by (simp add: list_all_iff o_def)
qed

lemma pattern_batch_total_witness:
  "\<exists>result. compute_pattern_batch (\<lambda>_. ''None'') port_specs [falling_bar, falling_bar, swallowing_bar]
      [''pat_engulfing''] (Some 120000000) = Inr result \<and> map fst result = [''pat_engulfing'']"
proof -
  let ?spec = "plain_spec ''pat_engulfing'' 3 (compute_vectorized engulfing_port)"
  have spec: "?spec \<in> set port_specs"
    unfolding port_specs_def set_map
    by (rule image_eqI [OF _ engulfing_port_registered]) (simp add: engulfing_port_def talib_port_of_def)
  have names: "set [''pat_engulfing''] \<subseteq> registry_names port_specs"
    using imageI [OF spec, of spec_name] by (simp add: registry_names_def plain_spec_def)
  have closed: "c_close_time c \<le> 120000000" if "c \<in> set [falling_bar, falling_bar, swallowing_bar]" for c
    using that by (auto simp: falling_bar_def swallowing_bar_def)
  have history: "spec_min_history s \<le> length [falling_bar, falling_bar, swallowing_bar]"
    if "s \<in> set port_specs" "spec_name s \<in> set [''pat_engulfing'']" for s
  proof -
    have "inj_on spec_name (set port_specs)"
      using talib_names_distinct(2) by (simp only: port_spec_names [symmetric] distinct_map)
    then have "s = ?spec" using inj_onD spec that by (fastforce simp: plain_spec_def)
    then show ?thesis by (simp add: plain_spec_def)
  qed
  from pattern_batch_total [OF names closed history, of "\<lambda>_. ''None''"] show ?thesis by auto
qed

end
