(* ===== verification/StrategyConfig.thy ===== *)
theory StrategyConfig
  imports SeriesKeys Conditions "HOL-Library.AList" "HOL-Library.Multiset"
begin

section \<open>Strategy declarations and their configuration (core_lib/strategy)\<close>

text \<open>
  What a strategy declares about itself (parameters, profile, money-management support, required
  series) and how a submitted configuration is resolved against it: strategy/config.py,
  strategy/profile.py and the declarations of strategy/base.py. A value of a configuration is a
  \<open>meta_value\<close>: a dictionary is its items in order, a list \<open>MList\<close> and a tuple \<open>MTuple\<close>. Freezing
  turns a list into a tuple, which a field of type array no longer accepts, and thawing turns it
  back. Sets are not values of the model.
\<close>

subsection \<open>Parameter schemas (config.py)\<close>

record field_spec =
  fs_type :: string
  fs_default :: "meta_value option"
  fs_range :: "(meta_value option \<times> meta_value option) option"
  fs_required :: bool

type_synonym params = "(string \<times> meta_value) list"

record parameter_schema =
  sch_fields :: "(string \<times> field_spec) list"
  sch_extra_forbidden :: bool
  sch_validators :: "(params \<Rightarrow> unit res) list"

primrec freeze :: "meta_value \<Rightarrow> meta_value" where
  "freeze MNone = MNone"
| "freeze (MBool b) = MBool b"
| "freeze (MInt i) = MInt i"
| "freeze (MFloat v) = MFloat v"
| "freeze (MStr s) = MStr s"
| "freeze (MTime t) = MTime t"
| "freeze (MMap items) = MMap (sort_key fst (map (map_prod id freeze) items))"
| "freeze (MList vs) = MTuple (map freeze vs)"
| "freeze (MTuple vs) = MTuple (map freeze vs)"

definition freeze_params :: "params \<Rightarrow> params" where
  "freeze_params ps = sort_key fst (map (map_prod id freeze) ps)"

text \<open>\<open>_thaw\<close> rebuilds dictionaries and tuples; a list is returned as it is.\<close>

primrec thaw :: "meta_value \<Rightarrow> meta_value" where
  "thaw MNone = MNone"
| "thaw (MBool b) = MBool b"
| "thaw (MInt i) = MInt i"
| "thaw (MFloat v) = MFloat v"
| "thaw (MStr s) = MStr s"
| "thaw (MTime t) = MTime t"
| "thaw (MMap items) = MMap (sort_key fst (map (map_prod id thaw) items))"
| "thaw (MList vs) = MList vs"
| "thaw (MTuple vs) = MList (map thaw vs)"

record strategy_config =
  sc_strategy_id :: string
  sc_params :: params
  sc_schema_version :: string

definition SCHEMA_VERSION :: string where
  "SCHEMA_VERSION = ''1.0.0''"

definition make_strategy_config :: "strategy_config \<Rightarrow> strategy_config res" where
  "make_strategy_config c =
     raise_if (sc_strategy_id c = []) (ValueError ''strategy_id must not be empty'')
       (Inr (c\<lparr>sc_params := freeze_params (sc_params c)\<rparr>))"

definition TYPE_ALIASES :: "string \<rightharpoonup> string" where
  "TYPE_ALIASES = map_of
     [(''array'', ''array''), (''bool'', ''boolean''), (''boolean'', ''boolean''), (''dict'', ''object''),
      (''float'', ''number''), (''int'', ''integer''), (''integer'', ''integer''), (''list'', ''array''),
      (''number'', ''number''), (''object'', ''object''), (''str'', ''string''), (''string'', ''string'')]"

definition has_type :: "string \<Rightarrow> meta_value \<Rightarrow> bool" where
  "has_type t v \<longleftrightarrow>
     (case v of
        MList _ \<Rightarrow> t = ''array''
      | MBool _ \<Rightarrow> t = ''boolean''
      | MInt _ \<Rightarrow> t = ''integer'' \<or> t = ''number''
      | MFloat _ \<Rightarrow> t = ''number''
      | MMap _ \<Rightarrow> t = ''object''
      | MStr _ \<Rightarrow> t = ''string''
      | _ \<Rightarrow> False)"

text \<open>A number, as Python compares it: an int and a float exactly.\<close>

fun as_number :: "meta_value \<Rightarrow> pyfloat option" where
  "as_number (MInt i) = Some (Fin (of_int i))"
| "as_number (MFloat v) = Some v"
| "as_number _ = None"

definition outside :: "(pyfloat \<Rightarrow> pyfloat \<Rightarrow> bool) \<Rightarrow> pyfloat \<Rightarrow> meta_value option \<Rightarrow> bool" where
  "outside beyond x bound = (case Option.bind bound as_number of None \<Rightarrow> False | Some b \<Rightarrow> beyond x b)"

definition validate_field :: "meta_value \<Rightarrow> field_spec \<Rightarrow> unit res" where
  "validate_field v spec =
     (case TYPE_ALIASES (fs_type spec) of
        None \<Rightarrow> Inl (ValueError ''unsupported field type'')
      | Some t \<Rightarrow>
          raise_if (\<not> has_type t v) (TypeError ''strategy parameter type'')
          (case fs_range spec of
             None \<Rightarrow> Inr ()
           | Some (lower, upper) \<Rightarrow>
               (case as_number v of
                  None \<Rightarrow> Inl (TypeError ''range is only supported for numeric parameter'')
                | Some x \<Rightarrow>
                    raise_if (outside flt x lower) (ValueError ''below minimum'')
                    (raise_if (outside (\<lambda>a b. flt b a) x upper) (ValueError ''above maximum'') (Inr ())))))"

definition resolve_field :: "params \<Rightarrow> params \<Rightarrow> string \<times> field_spec \<Rightarrow> params res" where
  "resolve_field raw_params resolved field = (case field of (name, spec) \<Rightarrow>
     (case map_of raw_params name of
        Some v \<Rightarrow> bindR (validate_field v spec) (\<lambda>_. Inr (resolved @ [(name, v)]))
      | None \<Rightarrow>
          if fs_required spec then Inl (ValueError ''required strategy parameter is missing'')
          else (case fs_default spec of
              Some v \<Rightarrow> bindR (validate_field v spec) (\<lambda>_. Inr (resolved @ [(name, v)]))
            | None \<Rightarrow> Inr resolved)))"

definition resolve_config :: "parameter_schema \<Rightarrow> params \<Rightarrow> strategy_config res" where
  "resolve_config schema raw =
     raise_if (set (map fst raw) \<noteq> {''strategy_id'', ''params''}) (ValueError ''raw_config shape mismatch'')
     (case map_of raw ''strategy_id'' of
        Some (MStr strategy_id) \<Rightarrow>
          raise_if (strategy_id = []) (TypeError ''strategy_id must be a non-empty string'')
          (case map_of raw ''params'' of
             Some (MMap raw_params) \<Rightarrow>
               (let extras = filter (\<lambda>(name, _). name \<notin> set (map fst (sch_fields schema))) raw_params in
                raise_if (extras \<noteq> [] \<and> sch_extra_forbidden schema) (ValueError ''unexpected strategy parameters'')
                (bindR (foldR (resolve_field raw_params) [] (sch_fields schema)) (\<lambda>resolved.
                 let resolved = (if sch_extra_forbidden schema then resolved else resolved @ extras) in
                 bindR (foldR (\<lambda>_ validator. validator resolved) () (sch_validators schema)) (\<lambda>_.
                 make_strategy_config \<lparr>sc_strategy_id = strategy_id, sc_params = resolved,
                   sc_schema_version = SCHEMA_VERSION\<rparr>))))
           | _ \<Rightarrow> Inl (TypeError ''params must be a mapping''))
      | _ \<Rightarrow> Inl (TypeError ''strategy_id must be a non-empty string''))"

definition optional_item :: "string \<Rightarrow> meta_value option \<Rightarrow> params" where
  "optional_item key v = (case v of None \<Rightarrow> [] | Some x \<Rightarrow> [(key, x)])"

definition field_schema :: "field_spec \<Rightarrow> meta_value res" where
  "field_schema spec =
     (case TYPE_ALIASES (fs_type spec) of
        None \<Rightarrow> Inl (ValueError ''unsupported field type'')
      | Some t \<Rightarrow> Inr (MMap ([(''type'', MStr t)] @ optional_item ''default'' (map_option thaw (fs_default spec)) @
          (case fs_range spec of None \<Rightarrow> []
             | Some (lower, upper) \<Rightarrow> optional_item ''minimum'' lower @ optional_item ''maximum'' upper))))"

definition json_schema :: "parameter_schema \<Rightarrow> meta_value res" where
  "json_schema schema =
     bindR (mapR (\<lambda>(name, spec). bindR (field_schema spec) (\<lambda>s. Inr (name, s))) (sch_fields schema)) (\<lambda>properties.
     Inr (MMap [(''$schema'', MStr ''https://json-schema.org/draft/2020-12/schema''), (''type'', MStr ''object''),
       (''properties'', MMap properties),
       (''required'', MList (map MStr (sort (map fst (filter (\<lambda>(_, spec). fs_required spec) (sch_fields schema)))))),
       (''additionalProperties'', MBool (\<not> sch_extra_forbidden schema))]))"

definition serialize_config :: "strategy_config \<Rightarrow> params" where
  "serialize_config c =
     [(''strategy_id'', MStr (sc_strategy_id c)), (''params'', thaw (MMap (sc_params c))),
      (''schema_version'', MStr (sc_schema_version c))]"

subsection \<open>Profiles (profile.py)\<close>

record strategy_profile =
  pf_id :: string
  pf_family :: string
  pf_bar :: string
  pf_expected_win_rate :: "pyfloat \<times> pyfloat"
  pf_expected_payoff :: "pyfloat \<times> pyfloat"
  pf_tail_shape :: string
  pf_holding_horizon :: string
  pf_primary_metric :: string
  pf_risk_adjusted_pref :: string
  pf_profit_structure :: string
  pf_envelope_tolerance :: pyfloat
  pf_envelope_status :: string

definition validate_range :: "pyfloat \<times> pyfloat \<Rightarrow> pyfloat \<Rightarrow> unit res" where
  "validate_range bounds lower_bound = (case bounds of (lower, upper) \<Rightarrow>
     raise_if (flt lower lower_bound \<or> flt upper lower) (ValueError ''invalid range'') (Inr ()))"

definition make_profile :: "strategy_profile \<Rightarrow> strategy_profile res" where
  "make_profile p =
     raise_if (pf_id p = [] \<or> pf_family p = [] \<or> pf_bar p = []) (ValueError ''must not be empty'')
     (bindR (validate_range (pf_expected_win_rate p) (Fin 0)) (\<lambda>_.
      raise_if (flt (Fin 1) (snd (pf_expected_win_rate p))) (ValueError ''expected_win_rate upper bound'')
      (bindR (validate_range (pf_expected_payoff p) (Fin 0)) (\<lambda>_.
       raise_if (pf_tail_shape p \<notin> {''right_fat'', ''symmetric'', ''left_fat''}) (ValueError ''tail_shape'')
       (raise_if (pf_risk_adjusted_pref p \<notin> {''sortino'', ''sharpe'', ''calmar''}) (ValueError ''risk_adjusted_pref'')
       (raise_if (pf_envelope_status p \<notin> {''provisional'', ''updating'', ''established''})
          (ValueError ''envelope_status'')
       (raise_if (flt (pf_envelope_tolerance p) (Fin 0)) (ValueError ''envelope_tolerance'') (Inr p))))))))"

subsection \<open>Declarations (base.py)\<close>

datatype decision_contract = TRADING_SIGNAL | DECISION_INTENT

record mm_support =
  mm_supported :: "string list"
  mm_default :: "string option"
  mm_external_stop :: bool
  mm_external_take_profit :: bool
  mm_signal_exit :: bool
  mm_pyramiding :: bool
  mm_default_settings :: "(string \<times> params) list"

definition frozen_setting :: "string \<times> meta_value \<Rightarrow> unit res" where
  "frozen_setting setting = (case setting of (name, v) \<Rightarrow>
     raise_if (name = []) (TypeError ''setting name that is not text'')
     (raise_if (name = ''mode'') (ValueError ''may not set mode'')
     (case v of
        MFloat x \<Rightarrow> raise_if (\<not> is_finite x) (ValueError ''must be a finite number'') (Inr ())
      | MBool _ \<Rightarrow> Inr () | MInt _ \<Rightarrow> Inr () | MStr _ \<Rightarrow> Inr ()
      | _ \<Rightarrow> Inl (TypeError ''must be a number, text, or boolean''))))"

definition frozen_default_settings :: "string list \<Rightarrow> (string \<times> params) list \<Rightarrow> unit res" where
  "frozen_default_settings supported declared =
     foldR (\<lambda>_ (mode, settings).
       raise_if (mode \<notin> set supported) (ValueError ''unsupported money-management mode'')
         (foldR (\<lambda>_. frozen_setting) () settings)) () declared"

definition make_support :: "mm_support \<Rightarrow> mm_support res" where
  "make_support s =
     raise_if (\<not> distinct (mm_supported s)) (ValueError ''modes must be unique'')
     (raise_if (case mm_default s of None \<Rightarrow> False | Some m \<Rightarrow> m \<notin> set (mm_supported s))
        (ValueError ''default mode must be supported'')
     (bindR (frozen_default_settings (mm_supported s) (mm_default_settings s)) (\<lambda>_. Inr s)))"

definition declared_settings :: "mm_support \<Rightarrow> string \<Rightarrow> params" where
  "declared_settings s mode = (case map_of (mm_default_settings s) mode of None \<Rightarrow> [] | Some d \<Rightarrow> d)"

definition resolve_settings :: "mm_support \<Rightarrow> params \<Rightarrow> params" where
  "resolve_settings s submitted =
     (case map_of submitted ''mode'' of
        Some (MStr mode) \<Rightarrow>
          dict_merge (dict_merge [(''mode'', MStr mode)] (declared_settings s mode))
            (filter (\<lambda>(name, _). name \<noteq> ''mode'') submitted)
      | _ \<Rightarrow> submitted)"

record strategy_metadata =
  md_required_indicators :: "params list"
  md_min_history :: int
  md_supported_timeframes :: "string list"
  md_profile :: strategy_profile
  md_money_management :: mm_support
  md_decision_contract :: decision_contract

definition make_metadata :: "strategy_metadata \<Rightarrow> strategy_metadata res" where
  "make_metadata m =
     raise_if (md_min_history m \<le> 0) (ValueError ''min_history must be positive'')
     (raise_if (md_supported_timeframes m = []) (ValueError ''supported_timeframes must not be empty'') (Inr m))"

text \<open>\<open>series_descriptor_parts\<close> (core_lib/series): the name, the parameters and the timeframe.\<close>

definition series_descriptor_parts :: "params \<Rightarrow> (string \<times> params \<times> string) res" where
  "series_descriptor_parts d =
     raise_if (set (map fst d) \<noteq> {''name'', ''params''} \<and> set (map fst d) \<noteq> {''name'', ''params'', ''timeframe''})
       (ValueError ''must contain exactly name, params, and optional timeframe'')
     (case (map_of d ''name'', map_of d ''params'') of
        (Some (MStr name), Some v) \<Rightarrow>
          raise_if (name = []) (TypeError ''name must be a non-empty string'')
          (case v of
             MMap ps \<Rightarrow>
               (case (case map_of d ''timeframe'' of None \<Rightarrow> MStr ''strategy'' | Some t \<Rightarrow> t) of
                  MStr tf \<Rightarrow> raise_if (tf \<noteq> ''strategy'' \<and> timeframe_minutes tf = None)
                    (ValueError ''timeframe'') (Inr (name, ps, tf))
                | _ \<Rightarrow> Inl (ValueError ''timeframe''))
           | _ \<Rightarrow> Inl (TypeError ''params must be a string-keyed mapping''))
      | _ \<Rightarrow> Inl (TypeError ''name must be a non-empty string''))"

subsection \<open>Freezing\<close>

lemma sort_key_map: "(\<And>x. fst (g x) = fst x) \<Longrightarrow> sort_key fst (map g xs) = map g (sort_key fst xs)"
proof (induction xs)
  case (Cons x xs)
  have "insort_key fst (g x) (map g ys) = map g (insort_key fst x ys)" for ys
    using Cons.prems by (induction ys) auto
  then show ?case using Cons by simp
qed simp

lemma freeze_freeze [simp]: "freeze (freeze v) = freeze v"
proof (induction v)
  case (MMap items)
  let ?g = "map_prod id freeze"
  have keys: "fst (?g x) = fst x" for x :: "string \<times> meta_value" by (cases x) simp
  have "?g (?g x) = ?g x" if "x \<in> set items" for x
    using MMap that by (cases x) (force simp: snds.simps)
  then have "map ?g (map ?g items) = map ?g items" by simp
  moreover have "map ?g (sort_key fst (map ?g items)) = sort_key fst (map ?g (map ?g items))"
    by (rule sort_key_map [symmetric]) (rule keys)
  moreover have "sort_key fst (sort_key fst (map ?g items)) = sort_key fst (map ?g items)"
    by (rule sort_key_id_if_sorted) simp
  ultimately show ?case by (simp only: freeze.simps)
next
  case (MList vs)
  then show ?case by (induction vs) auto
next
  case (MTuple vs)
  then show ?case by (induction vs) auto
qed simp_all

lemma freeze_params_freeze [simp]: "freeze_params (freeze_params ps) = freeze_params ps"
  using freeze_freeze [of "MMap ps"] by (simp add: freeze_params_def)

lemma map_sorted_keys:
  "(\<And>x. fst (g x) = fst x) \<Longrightarrow> sort_key fst (map g (sort_key fst xs)) = map g (sort_key fst xs)"
  using sort_key_map [of g "sort_key fst xs"] by (simp add: sort_key_id_if_sorted)

text \<open>A stored value as it is read back: lists again where the frozen value has tuples.\<close>

definition reload :: "meta_value \<Rightarrow> meta_value" where
  "reload v = thaw (freeze v)"

lemma freeze_reload [simp]: "freeze (reload v) = freeze v"
proof (induction v)
  case (MMap items)
  let ?g = "map_prod id freeze" and ?t = "map_prod id thaw"
  let ?sorted = "sort_key fst (map ?g items)"
  have keys: "fst (?g x) = fst x" "fst (?t x) = fst x" for x :: "string \<times> meta_value" by (cases x; simp)+
  have same: "?g (?t y) = y" if "y \<in> set ?sorted" for y
  proof -
    from that obtain k v where kv: "(k, v) \<in> set items" "y = (k, freeze v)" by auto
    have "freeze (reload v) = freeze v" using MMap [OF kv(1)] by (simp add: snds.simps)
    then show ?thesis by (simp add: kv(2) reload_def)
  qed
  have "reload (MMap items) = MMap (map ?t ?sorted)"
    using map_sorted_keys [of ?t "map ?g items"] keys by (simp only: reload_def freeze.simps thaw.simps)
  then have "freeze (reload (MMap items)) = MMap (sort_key fst (map ?g (map ?t ?sorted)))"
    by (simp only: freeze.simps)
  also have "map ?g (map ?t ?sorted) = ?sorted" unfolding map_map comp_def by (rule map_idI) (rule same)
  also have "sort_key fst ?sorted = ?sorted" by (rule sort_key_id_if_sorted) simp
  finally show ?case by (simp only: freeze.simps)
next
  case (MList vs)
  then show ?case by (simp add: reload_def)
next
  case (MTuple vs)
  then show ?case by (simp add: reload_def)
qed (simp_all add: reload_def)

text \<open>A value that a field accepts is accepted when it is read back, and while it is frozen unless it is a list.\<close>

lemma reload_typed: "has_type t v \<Longrightarrow> has_type t (reload v)"
  by (cases v) (auto simp: has_type_def reload_def)

lemma as_number_freeze [simp]: "as_number (freeze v) = as_number v"
  by (cases v) auto

lemma as_number_reload [simp]: "as_number (reload v) = as_number v"
  by (cases v) (auto simp: reload_def)

lemma has_type_freeze: "t \<noteq> ''array'' \<Longrightarrow> has_type t (freeze v) = has_type t v"
  by (cases v) (auto simp: has_type_def)

lemma validate_field_freeze:
  "TYPE_ALIASES (fs_type spec) \<noteq> Some ''array'' \<Longrightarrow> validate_field (freeze v) spec = validate_field v spec"
  by (cases "TYPE_ALIASES (fs_type spec)"; cases "fs_range spec") (simp_all add: validate_field_def has_type_freeze)

subsection \<open>A resolved configuration is within its schema\<close>

text \<open>What the schema promises of a value that was submitted or defaulted.\<close>

definition field_accepts :: "field_spec \<Rightarrow> meta_value \<Rightarrow> bool" where
  "field_accepts spec v \<longleftrightarrow> validate_field v spec = Inr ()"

lemma validate_field_eq_Inr: "validate_field v spec = Inr u \<longleftrightarrow> field_accepts spec v"
  by (cases u) (simp add: field_accepts_def)

lemma field_accepts_reload: "field_accepts spec v \<Longrightarrow> field_accepts spec (reload v)"
  by (auto simp: field_accepts_def validate_field_def reload_typed split: option.splits)

lemma field_accepts_iff:
  "field_accepts spec v \<longleftrightarrow>
     (\<exists>t. TYPE_ALIASES (fs_type spec) = Some t \<and> has_type t v) \<and>
     (case fs_range spec of None \<Rightarrow> True
      | Some (lower, upper) \<Rightarrow> \<exists>x. as_number v = Some x \<and>
          (\<forall>b. Option.bind lower as_number = Some b \<longrightarrow> \<not> flt x b) \<and>
          (\<forall>b. Option.bind upper as_number = Some b \<longrightarrow> \<not> flt b x))"
  by (auto simp: field_accepts_def validate_field_def outside_def split: option.splits prod.splits)

text \<open>The field of the schema gives a resolved value, or the schema leaves it out.\<close>

definition resolved_value :: "params \<Rightarrow> field_spec \<Rightarrow> string \<Rightarrow> meta_value option" where
  "resolved_value raw spec name = (case map_of raw name of Some v \<Rightarrow> Some v | None \<Rightarrow> fs_default spec)"

lemma resolve_field_eq_Inr:
  "resolve_field raw resolved (name, spec) = Inr r \<longleftrightarrow>
     (case resolved_value raw spec name of
        None \<Rightarrow> \<not> fs_required spec \<and> r = resolved
      | Some v \<Rightarrow> (map_of raw name = None \<longrightarrow> \<not> fs_required spec) \<and> field_accepts spec v \<and> r = resolved @ [(name, v)])"
  by (auto simp: resolve_field_def resolved_value_def bindR_eq_Inr validate_field_eq_Inr split: option.splits)

definition resolves :: "params \<Rightarrow> (string \<times> field_spec) \<Rightarrow> params" where
  "resolves raw entry = optional_item (fst entry) (resolved_value raw (snd entry) (fst entry))"

lemma resolve_fields_eq_Inr:
  "foldR (resolve_field raw) resolved specs = Inr r \<longleftrightarrow>
     r = resolved @ concat (map (resolves raw) specs) \<and>
     (\<forall>(name, spec)\<in>set specs.
        (map_of raw name = None \<longrightarrow> \<not> fs_required spec) \<and>
        (\<forall>v. resolved_value raw spec name = Some v \<longrightarrow> field_accepts spec v))"
proof (induction specs arbitrary: resolved)
  case (Cons entry specs)
  obtain name spec where entry: "entry = (name, spec)" by (cases entry)
  show ?case
  proof (cases "resolved_value raw spec name")
    case None
    then have "map_of raw name = None" by (auto simp: resolved_value_def split: option.splits)
    then show ?thesis using None
      by (auto simp: entry bindR_eq_Inr resolve_field_eq_Inr Cons resolves_def optional_item_def)
  next
    case (Some v)
    then show ?thesis
      by (auto simp: entry bindR_eq_Inr resolve_field_eq_Inr Cons resolves_def optional_item_def)
  qed
qed auto

lemma map_of_frozen: "distinct (map fst ps) \<Longrightarrow> map_of (freeze_params ps) name = map_option freeze (map_of ps name)"
proof -
  assume d: "distinct (map fst ps)"
  have keys: "map fst (map (map_prod id freeze) ps) = map fst ps" by (induction ps) auto
  have "distinct (map fst (freeze_params ps))"
  proof -
    have "mset (map fst (freeze_params ps)) = mset (map fst (map (map_prod id freeze) ps))"
      by (simp only: freeze_params_def mset_map mset_sort)
    then show ?thesis using d unfolding keys by (metis mset_eq_imp_distinct_iff)
  qed
  then have "map_of (freeze_params ps) = map_of (map (map_prod id freeze) ps)"
    using d keys by (subst map_of_inject_set) (simp_all add: freeze_params_def)
  moreover have "map_of (map (map_prod id freeze) ps) name = map_option freeze (map_of ps name)"
    by (induction ps) auto
  ultimately show ?thesis by simp
qed

lemma resolves_keys: "set (map fst (concat (map (resolves raw) specs))) \<subseteq> set (map fst specs)"
  by (induction specs) (auto simp: resolves_def optional_item_def split: option.splits)

lemma resolves_distinct:
  "distinct (map fst specs) \<Longrightarrow> distinct (map fst (concat (map (resolves raw) specs)))"
proof (induction specs)
  case (Cons entry specs)
  have "fst entry \<notin> set (map fst (concat (map (resolves raw) specs)))"
    using resolves_keys [of raw specs] Cons.prems by auto
  then show ?case using Cons by (auto simp: resolves_def optional_item_def split: option.splits)
qed simp

lemma map_of_resolves:
  "distinct (map fst specs) \<Longrightarrow> map_of (concat (map (resolves raw) specs)) name =
     Option.bind (map_of specs name) (\<lambda>spec. resolved_value raw spec name)"
proof (induction specs)
  case (Cons entry specs)
  have "map_of (concat (map (resolves raw) specs)) name = None" if "name \<notin> set (map fst specs)"
    using that resolves_keys [of raw specs] by (auto simp: map_of_eq_None_iff)
  moreover have "map_of specs name = None" if "name \<notin> set (map fst specs)"
    using that by (simp add: map_of_eq_None_iff)
  moreover obtain n spec where entry: "entry = (n, spec)" by (cases entry)
  moreover have "map_of (resolves raw (n, spec)) name = (if n = name then resolved_value raw spec n else None)"
    by (simp add: resolves_def optional_item_def split: option.split)
  ultimately show ?case using Cons
    by (cases "resolved_value raw spec n") (auto simp: map_add_def)
qed simp

definition resolved_params :: "parameter_schema \<Rightarrow> params \<Rightarrow> params" where
  "resolved_params schema raw = concat (map (resolves raw) (sch_fields schema))"

definition schema_accepts :: "parameter_schema \<Rightarrow> params \<Rightarrow> bool" where
  "schema_accepts schema raw \<longleftrightarrow>
     set (map fst raw) \<subseteq> set (map fst (sch_fields schema)) \<and>
     (\<forall>(name, spec)\<in>set (sch_fields schema).
        (map_of raw name = None \<longrightarrow> \<not> fs_required spec) \<and>
        (\<forall>v. resolved_value raw spec name = Some v \<longrightarrow> field_accepts spec v)) \<and>
     foldR (\<lambda>_ validator. validator (resolved_params schema raw)) () (sch_validators schema) = Inr ()"

lemma resolve_config_eq_Inr:
  assumes "sch_extra_forbidden schema"
  shows "resolve_config schema raw = Inr c \<longleftrightarrow>
    set (map fst raw) = {''strategy_id'', ''params''} \<and>
    (\<exists>strategy_id raw_params. map_of raw ''strategy_id'' = Some (MStr strategy_id) \<and> strategy_id \<noteq> [] \<and>
      map_of raw ''params'' = Some (MMap raw_params) \<and> schema_accepts schema raw_params \<and>
      c = \<lparr>sc_strategy_id = strategy_id, sc_params = freeze_params (resolved_params schema raw_params),
           sc_schema_version = SCHEMA_VERSION\<rparr>)"
proof (cases "\<exists>strategy_id raw_params. map_of raw ''strategy_id'' = Some (MStr strategy_id) \<and>
    map_of raw ''params'' = Some (MMap raw_params)")
  case True
  then obtain strategy_id ps where given: "map_of raw ''strategy_id'' = Some (MStr strategy_id)"
    "map_of raw ''params'' = Some (MMap ps)" by blast
  define extras where "extras = filter (\<lambda>(name, _). name \<notin> set (map fst (sch_fields schema))) ps"
  have extras: "extras = [] \<longleftrightarrow> set (map fst ps) \<subseteq> set (map fst (sch_fields schema))"
    by (force simp: extras_def filter_empty_conv)
  have "resolve_config schema raw = Inr c \<longleftrightarrow>
    set (map fst raw) = {''strategy_id'', ''params''} \<and> strategy_id \<noteq> [] \<and> extras = [] \<and>
    (\<exists>r. foldR (resolve_field ps) [] (sch_fields schema) = Inr r \<and>
      foldR (\<lambda>_ validator. validator r) () (sch_validators schema) = Inr () \<and>
      c = \<lparr>sc_strategy_id = strategy_id, sc_params = freeze_params r, sc_schema_version = SCHEMA_VERSION\<rparr>)"
    unfolding resolve_config_def given option.case meta_value.case Let_def extras_def [symmetric]
    by (simp add: assms bindR_eq_Inr make_strategy_config_def) blast
  also have "\<dots> \<longleftrightarrow> set (map fst raw) = {''strategy_id'', ''params''} \<and> strategy_id \<noteq> [] \<and> schema_accepts schema ps \<and>
      c = \<lparr>sc_strategy_id = strategy_id, sc_params = freeze_params (resolved_params schema ps),
           sc_schema_version = SCHEMA_VERSION\<rparr>"
    unfolding resolve_fields_eq_Inr schema_accepts_def extras resolved_params_def append.simps by blast
  finally show ?thesis unfolding given by simp
next
  case False
  then consider (id) "\<forall>s. map_of raw ''strategy_id'' \<noteq> Some (MStr s)"
    | (params) s where "map_of raw ''strategy_id'' = Some (MStr s)" "\<forall>ps. map_of raw ''params'' \<noteq> Some (MMap ps)"
    by blast
  then have "resolve_config schema raw \<noteq> Inr c"
  proof cases
    case id
    show ?thesis
    proof (cases "map_of raw ''strategy_id''")
      case (Some v)
      then show ?thesis using id by (cases v) (simp_all add: resolve_config_def)
    qed (simp add: resolve_config_def)
  next
    case params
    show ?thesis
    proof (cases "map_of raw ''params''")
      case (Some v)
      then show ?thesis using params by (cases v) (simp_all add: resolve_config_def)
    qed (simp add: resolve_config_def params(1))
  qed
  with False show ?thesis by blast
qed

lemma resolve_config_params:
  assumes "sch_extra_forbidden schema" and "resolve_config schema raw = Inr c"
  obtains raw_params where "sc_params c = freeze_params (concat (map (resolves raw_params) (sch_fields schema)))"
    and "schema_accepts schema raw_params" and "map_of raw ''params'' = Some (MMap raw_params)"
proof -
  obtain raw_params strategy_id where ok: "schema_accepts schema raw_params"
    and given: "map_of raw ''params'' = Some (MMap raw_params)" and c: "c = \<lparr>sc_strategy_id = strategy_id,
      sc_params = freeze_params (resolved_params schema raw_params), sc_schema_version = SCHEMA_VERSION\<rparr>"
    using assms(2) unfolding resolve_config_eq_Inr [OF assms(1)] by blast
  show ?thesis by (rule that [OF _ ok given]) (simp add: c resolved_params_def)
qed

text \<open>
  What the resolution promises: every parameter is a declared one, and holds the submitted value or
  the default, which the field accepts (its type and its range), frozen.
\<close>

lemma resolve_config_within:
  assumes "sch_extra_forbidden schema" and "distinct (map fst (sch_fields schema))" and "resolve_config schema raw = Inr c"
    and "map_of (sc_params c) name = Some v"
  shows "\<exists>raw_params spec u. map_of raw ''params'' = Some (MMap raw_params) \<and> map_of (sch_fields schema) name = Some spec \<and>
    resolved_value raw_params spec name = Some u \<and> (map_of raw_params name = None \<longrightarrow> \<not> fs_required spec) \<and>
    field_accepts spec u \<and> v = freeze u"
proof -
  obtain raw_params where c: "sc_params c = freeze_params (concat (map (resolves raw_params) (sch_fields schema)))"
    and ok: "schema_accepts schema raw_params" and given: "map_of raw ''params'' = Some (MMap raw_params)"
    by (rule resolve_config_params [OF assms(1,3)])
  have "map_option freeze (map_of (concat (map (resolves raw_params) (sch_fields schema))) name) = Some v"
    using assms(4) unfolding c map_of_frozen [OF resolves_distinct [OF assms(2)]] .
  then obtain spec u where "map_of (sch_fields schema) name = Some spec" "resolved_value raw_params spec name = Some u"
      "v = freeze u"
    unfolding map_of_resolves [OF assms(2)] by (auto simp: bind_eq_Some_conv)
  moreover from this ok have "field_accepts spec u" "map_of raw_params name = None \<longrightarrow> \<not> fs_required spec"
    by (fastforce simp: schema_accepts_def dest: map_of_SomeD)+
  ultimately show ?thesis using given by (intro exI [of _ raw_params] exI [of _ spec] exI [of _ u]) simp
qed

lemma resolve_config_required:
  assumes "sch_extra_forbidden schema" and "distinct (map fst (sch_fields schema))" and "resolve_config schema raw = Inr c"
    and "map_of (sch_fields schema) name = Some spec" and "fs_required spec \<or> fs_default spec \<noteq> None"
  shows "map_of (sc_params c) name \<noteq> None"
proof -
  obtain raw_params where c: "sc_params c = freeze_params (concat (map (resolves raw_params) (sch_fields schema)))"
    and ok: "schema_accepts schema raw_params"
    by (rule resolve_config_params [OF assms(1,3)])
  have "resolved_value raw_params spec name \<noteq> None"
    using ok assms(4,5) by (fastforce simp: schema_accepts_def resolved_value_def dest: map_of_SomeD split: option.splits)
  then show ?thesis
    unfolding c map_of_frozen [OF resolves_distinct [OF assms(2)]] map_of_resolves [OF assms(2)]
    using assms(4) by simp
qed

text \<open>Resolving a stored configuration gives it back.\<close>

lemma thawed_params: "thaw (MMap (freeze_params ps)) = MMap (map (map_prod id thaw) (freeze_params ps))"
proof -
  have "fst (map_prod id thaw x) = fst x" for x :: "string \<times> meta_value" by (cases x) simp
  from map_sorted_keys [OF this, of "map (map_prod id freeze) ps"] show ?thesis by (simp add: freeze_params_def)
qed

lemma map_of_map_prod: "map_of (map (map_prod id f) ps) name = map_option f (map_of ps name)"
  by (induction ps) auto

lemma resolve_config_stable:
  assumes "sch_extra_forbidden schema" and "distinct (map fst (sch_fields schema))" and "resolve_config schema raw = Inr c"
    and validators: "\<And>ps. foldR (\<lambda>_ validator. validator (map (map_prod id reload) ps)) () (sch_validators schema) =
      foldR (\<lambda>_ validator. validator ps) () (sch_validators schema)"
  shows "resolve_config schema [(''strategy_id'', MStr (sc_strategy_id c)), (''params'', thaw (MMap (sc_params c)))] = Inr c"
proof -
  let ?specs = "sch_fields schema"
  obtain raw_params strategy_id where c: "c = \<lparr>sc_strategy_id = strategy_id,
      sc_params = freeze_params (resolved_params schema raw_params), sc_schema_version = SCHEMA_VERSION\<rparr>"
    and id: "strategy_id \<noteq> []" and ok: "schema_accepts schema raw_params"
    using assms(3) unfolding resolve_config_eq_Inr [OF assms(1)] by blast
  define stored where "stored = map (map_prod id thaw) (freeze_params (resolved_params schema raw_params))"
  have lookup: "map_of stored name = map_option reload (resolved_value raw_params spec name)"
    if "(name, spec) \<in> set ?specs" for name spec
    unfolding stored_def map_of_map_prod resolved_params_def map_of_frozen [OF resolves_distinct [OF assms(2)]]
      map_of_resolves [OF assms(2)]
    using that assms(2) by (simp add: option.map_comp comp_def reload_def [abs_def])
  have accepted: "(map_of raw_params name = None \<longrightarrow> \<not> fs_required spec) \<and>
      (\<forall>v. resolved_value raw_params spec name = Some v \<longrightarrow> field_accepts spec v)"
    if "(name, spec) \<in> set ?specs" for name spec
    using ok that by (auto simp: schema_accepts_def)
  have again: "resolved_value stored spec name = map_option reload (resolved_value raw_params spec name)"
    if "(name, spec) \<in> set ?specs" for name spec
    using lookup [OF that] by (auto simp: resolved_value_def split: option.splits)
  have thawed: "thaw (MMap (freeze_params (resolved_params schema raw_params))) = MMap stored"
    unfolding stored_def by (rule thawed_params)
  have "concat (map (resolves stored) specs) = map (map_prod id reload) (concat (map (resolves raw_params) specs))"
    if "set specs \<subseteq> set ?specs" for specs
    using that
  proof (induction specs)
    case (Cons entry specs)
    then show ?case
      using again [of "fst entry" "snd entry"]
      by (cases "resolved_value raw_params (snd entry) (fst entry)") (auto simp: resolves_def optional_item_def)
  qed simp
  from this [OF order_refl]
  have reloaded: "resolved_params schema stored = map (map_prod id reload) (resolved_params schema raw_params)"
    by (simp add: resolved_params_def)
  have "set (map fst stored) \<subseteq> set (map fst ?specs)"
    using resolves_keys [of raw_params ?specs] by (force simp: stored_def freeze_params_def resolved_params_def)
  moreover have "(map_of stored name = None \<longrightarrow> \<not> fs_required spec) \<and>
      (\<forall>v. resolved_value stored spec name = Some v \<longrightarrow> field_accepts spec v)" if "(name, spec) \<in> set ?specs" for name spec
    using accepted [OF that] lookup [OF that] again [OF that]
    by (auto simp: field_accepts_reload resolved_value_def split: option.splits)
  moreover have "foldR (\<lambda>_ validator. validator (resolved_params schema stored)) () (sch_validators schema) = Inr ()"
    unfolding reloaded validators using ok by (simp add: schema_accepts_def)
  ultimately have "schema_accepts schema stored" unfolding schema_accepts_def by blast
  moreover have "freeze_params (resolved_params schema stored) = freeze_params (resolved_params schema raw_params)"
  proof -
    have "map_prod id freeze (map_prod id reload x) = map_prod id freeze x" for x :: "string \<times> meta_value"
      by (cases x) simp
    then show ?thesis unfolding reloaded unfolding freeze_params_def by (simp add: comp_def)
  qed
  ultimately show ?thesis
    unfolding resolve_config_eq_Inr [OF assms(1)] by (simp add: c thawed id del: thaw.simps)
qed

subsection \<open>Money-management settings are resolved once and for all\<close>

lemma map_of_map_snd: "map_of (map (\<lambda>(k, v). (k, f k v)) a) k = map_option (f k) (map_of a k)"
  by (induction a) auto

lemma map_of_filter_fst: "map_of (filter (\<lambda>(k, _). P k) b) k = (if P k then map_of b k else None)"
  by (induction b) auto

lemma map_of_dict_merge:
  "map_of (dict_merge a b) k = (case map_of b k of Some v \<Rightarrow> Some v | None \<Rightarrow> map_of a k)"
  by (auto simp: dict_merge_def map_add_def map_of_map_snd map_of_filter_fst split: option.splits)

lemma dict_merge_absorb:
  assumes "distinct (map fst a)"
  shows "dict_merge a (dict_merge a b) = dict_merge a b"
proof -
  have "(\<lambda>(k, v). (k, case map_of (dict_merge a b) k of None \<Rightarrow> v | Some w \<Rightarrow> w)) e =
      (\<lambda>(k, v). (k, case map_of b k of None \<Rightarrow> v | Some w \<Rightarrow> w)) e" if "e \<in> set a" for e
  proof -
    obtain k v where e: "e = (k, v)" by (cases e)
    then have "map_of a k = Some v" using that assms by simp
    then show ?thesis by (simp add: e map_of_dict_merge split: option.split)
  qed
  moreover have "filter (\<lambda>(k, _). map_of a k = None) (dict_merge a b) = filter (\<lambda>(k, _). map_of a k = None) b"
    by (auto simp: dict_merge_def filter_empty_conv dest: map_of_SomeD weak_map_of_SomeI)
  ultimately show ?thesis
    by (simp add: dict_merge_def [of a "dict_merge a b"], simp add: dict_merge_def)
qed

lemma dict_merge_Cons:
  "map_of a k = None \<Longrightarrow> map_of b k = None \<Longrightarrow> dict_merge ((k, v) # a) b = (k, v) # dict_merge a b"
proof -
  assume "map_of a k = None" "map_of b k = None"
  then have "fst e \<noteq> k" if "e \<in> set b" for e using that by (auto simp: map_of_eq_None_iff)
  then have "filter (\<lambda>(j, _). map_of ((k, v) # a) j = None) b = filter (\<lambda>(j, _). map_of a j = None) b"
    by (intro filter_cong refl) (simp add: case_prod_unfold)
  with \<open>map_of b k = None\<close> show ?thesis by (simp add: dict_merge_def)
qed

lemma dict_merge_Nil [simp]: "dict_merge [] b = b"
  by (simp add: dict_merge_def)

text \<open>The resolved settings: the mode, then the declaration of the mode under the submission.\<close>

lemma resolve_settings_eq:
  assumes "map_of submitted ''mode'' = Some (MStr mode)" and "map_of (declared_settings s mode) ''mode'' = None"
  shows "resolve_settings s submitted =
    (''mode'', MStr mode) # dict_merge (declared_settings s mode) (filter (\<lambda>(name, _). name \<noteq> ''mode'') submitted)"
  using assms by (simp add: resolve_settings_def dict_merge_Cons map_of_filter_fst)

lemma resolve_settings_lookup:
  assumes "map_of submitted ''mode'' = Some (MStr mode)" and "map_of (declared_settings s mode) ''mode'' = None"
  shows "map_of (resolve_settings s submitted) name =
    (case map_of submitted name of Some v \<Rightarrow> Some v | None \<Rightarrow> map_of (declared_settings s mode) name)"
  using assms
  by (auto simp: resolve_settings_eq map_of_dict_merge map_of_filter_fst split: option.splits)

lemma resolve_settings_idem:
  assumes "\<And>mode. distinct (map fst (declared_settings s mode))"
    and "\<And>mode. map_of (declared_settings s mode) ''mode'' = None"
  shows "resolve_settings s (resolve_settings s submitted) = resolve_settings s submitted"
proof (cases "\<exists>mode. map_of submitted ''mode'' = Some (MStr mode)")
  case True
  then obtain mode where mode: "map_of submitted ''mode'' = Some (MStr mode)" by blast
  let ?m = "dict_merge (declared_settings s mode) (filter (\<lambda>(name, _). name \<noteq> ''mode'') submitted)"
  have r: "resolve_settings s submitted = (''mode'', MStr mode) # ?m"
    by (rule resolve_settings_eq [OF mode assms(2)])
  have "''mode'' \<notin> fst ` set ?m"
    using map_of_dict_merge [of "declared_settings s mode" _ "''mode''"] assms(2)
    by (simp add: map_of_eq_None_iff [symmetric] map_of_dict_merge map_of_filter_fst)
  then have "filter (\<lambda>(name, _). name \<noteq> ''mode'') ?m = ?m" by (force simp: filter_id_conv)
  then have "resolve_settings s ((''mode'', MStr mode) # ?m) =
      (''mode'', MStr mode) # dict_merge (declared_settings s mode) ?m"
    using assms(2) by (subst resolve_settings_eq [where mode = mode]) simp_all
  then show ?thesis by (simp only: r dict_merge_absorb [OF assms(1)])
next
  case False
  then have "resolve_settings s submitted = submitted"
    by (auto simp: resolve_settings_def split: option.splits meta_value.splits)
  then show ?thesis by simp
qed

text \<open>A declaration that passed the check has no setting named \<open>mode\<close>.\<close>

lemma checked_settings_mode:
  assumes "make_support s = Inr s'"
  shows "s' = s" and "map_of (declared_settings s mode) ''mode'' = None"
proof -
  have checks: "frozen_default_settings (mm_supported s) (mm_default_settings s) = Inr ()" and "s' = s"
    using assms by (auto simp: make_support_def bindR_eq_Inr)
  then show "s' = s" by simp
  have settings: "foldR (\<lambda>_. frozen_setting) () ps = Inr () \<Longrightarrow> map_of ps ''mode'' = None" for ps
    by (induction ps) (auto simp: bindR_eq_Inr frozen_setting_def)
  have "foldR (\<lambda>_ (mode, settings).
       raise_if (mode \<notin> set supported) (ValueError ''unsupported money-management mode'')
         (foldR (\<lambda>_. frozen_setting) () settings)) () declared = Inr () \<Longrightarrow>
      map_of declared mode = Some ps \<Longrightarrow> map_of ps ''mode'' = None" for supported declared ps
    by (induction declared) (auto simp: bindR_eq_Inr settings split: if_splits)
  then show "map_of (declared_settings s mode) ''mode'' = None"
    using checks by (auto simp: declared_settings_def frozen_default_settings_def split: option.split)
qed

end
