(* ===== verification/Strategies.thy ===== *)
theory Strategies
  imports Engine StrategyConfig
begin

section \<open>The deployed strategies (trading_plugins/strategies)\<close>

text \<open>
  Each strategy is a class with its declaration, its parameter schema and \<open>analyze\<close>, which reads
  the inputs of the deciding bar and the position and answers with a decision or with nothing.
  The inputs are the record the engine hands over (\<open>strategy_input\<close>); a series of named outputs is
  \<open>FMap\<close>. The text of a float in a series key is the parameter \<open>ft\<close>. What the engine may rely on
  from a strategy is the locale \<open>strategy_contract\<close>; the seven classes are interpreted in it.
\<close>

subsection \<open>Reading the inputs\<close>

fun feature_number :: "feature option \<Rightarrow> pyfloat res" where
  "feature_number (Some (FNum v)) = Inr v"
| "feature_number (Some (FInt i)) = raise_if (\<not> is_finite (float_of_int i)) OverflowError (Inr (float_of_int i))"
| "feature_number _ = Inl (TypeError ''must be numeric'')"

fun feature_outputs :: "feature option \<Rightarrow> features res" where
  "feature_outputs (Some (FMap outputs)) = Inr outputs"
| "feature_outputs _ = Inl (TypeError ''must be a mapping of named outputs'')"

definition read_series ::
    "(pyfloat \<Rightarrow> string) \<Rightarrow> strategy_input \<Rightarrow> string \<Rightarrow> params \<Rightarrow> feature option res" where
  "read_series ft i name ps = bindR (series_key_of ft name ps (in_timeframe i)) (\<lambda>key. Inr (map_of (in_indicators i) key))"

fun value_number :: "meta_value option \<Rightarrow> pyfloat res" where
  "value_number (Some (MFloat v)) = Inr v"
| "value_number (Some (MInt i)) = raise_if (\<not> is_finite (float_of_int i)) OverflowError (Inr (float_of_int i))"
| "value_number (Some _) = Inl (TypeError ''must be numeric'')"
| "value_number None = Inl (KeyError ''params'')"

definition strategy_decision :: "string \<Rightarrow> candle \<Rightarrow> decision_action \<Rightarrow> string \<Rightarrow> strategy_result res" where
  "strategy_decision strategy_id c action reason =
     bindR (make_decision_intent \<lparr>i_action = action, i_symbol = c_symbol c, i_timestamp = c_close_time c,
         i_reference_price = c_close c, i_confidence = Fin 1, i_reason = reason,
         i_metadata = [''adaptee'' \<mapsto> MStr strategy_id]\<rparr>) (\<lambda>d. Inr (IntentResult d))"

definition fmax_of :: "pyfloat list \<Rightarrow> pyfloat" where
  "fmax_of xs = foldl fmax (hd xs) (tl xs)"

definition fmin_of :: "pyfloat list \<Rightarrow> pyfloat" where
  "fmin_of xs = foldl fmin (hd xs) (tl xs)"

text \<open>A deployed class.\<close>

record adaptee =
  ad_strategy_id :: string
  ad_class_name :: string
  ad_module :: string
  ad_metadata :: strategy_metadata
  ad_schema :: parameter_schema
  ad_analyze :: "(pyfloat \<Rightarrow> string) \<Rightarrow> strategy_config \<Rightarrow> strategy_input \<Rightarrow> position option \<Rightarrow> strategy_result res"

definition series_of :: "string \<Rightarrow> params \<Rightarrow> params" where
  "series_of name ps = [(''name'', MStr name), (''params'', MMap ps)]"

definition profile_of ::
    "string \<Rightarrow> string \<Rightarrow> rat \<times> rat \<Rightarrow> rat \<times> rat \<Rightarrow> string \<Rightarrow> string \<Rightarrow> string \<Rightarrow> string \<Rightarrow> string \<Rightarrow> strategy_profile" where
  "profile_of profile_id family win payoff tail horizon metric pref structure =
     \<lparr>pf_id = profile_id, pf_family = family, pf_bar = ''1h'',
      pf_expected_win_rate = map_prod fround fround win, pf_expected_payoff = map_prod fround fround payoff,
      pf_tail_shape = tail, pf_holding_horizon = horizon, pf_primary_metric = metric,
      pf_risk_adjusted_pref = pref, pf_profit_structure = structure,
      pf_envelope_tolerance = fround (1 / 5), pf_envelope_status = ''provisional''\<rparr>"

definition support_of :: "string list \<Rightarrow> string \<Rightarrow> bool \<Rightarrow> (string \<times> params) list \<Rightarrow> mm_support" where
  "support_of modes mode exits settings =
     \<lparr>mm_supported = modes, mm_default = Some mode, mm_external_stop = True, mm_external_take_profit = True,
      mm_signal_exit = exits, mm_pyramiding = False, mm_default_settings = settings\<rparr>"

definition no_parameters :: parameter_schema where
  "no_parameters = \<lparr>sch_fields = [], sch_extra_forbidden = True, sch_validators = []\<rparr>"

subsection \<open>EMA regime (vessel_reference.py)\<close>

definition vessel_metadata :: strategy_metadata where
  "vessel_metadata =
     \<lparr>md_required_indicators = [series_of ''EMA'' [(''period'', MInt 9)], series_of ''EMA'' [(''period'', MInt 21)]],
      md_min_history = 1, md_supported_timeframes = [''1h''],
      md_profile = profile_of ''vessel-reference-v1'' ''trend'' (25/100, 65/100) (1, 4) ''right_fat'' ''multi_day''
        ''calmar'' ''sortino'' ''fixed-risk-trend-capture'',
      md_money_management = support_of [''manual'', ''turtle''] ''manual'' True [],
      md_decision_contract = DECISION_INTENT\<rparr>"

definition vessel_analyze ::
    "(pyfloat \<Rightarrow> string) \<Rightarrow> strategy_config \<Rightarrow> strategy_input \<Rightarrow> position option \<Rightarrow> strategy_result res" where
  "vessel_analyze ft cfg i position =
     (let c = in_candle i; decide = strategy_decision ''vessel-reference'' c in
      bindR (bindR (read_series ft i ''EMA'' [(''period'', MInt 9)]) feature_number) (\<lambda>fast.
      bindR (bindR (read_series ft i ''EMA'' [(''period'', MInt 21)]) feature_number) (\<lambda>slow.
      (case position of
         Some p \<Rightarrow>
           (let should_exit = (p_side p = LONG \<and> fle fast slow) \<or> (p_side p = SHORT \<and> fle slow fast) in
            if \<not> should_exit then decide HOLD ''vessel-ema-regime-intact'' else decide EXIT ''vessel-ema-regime-exit'')
       | None \<Rightarrow>
           if feq fast slow then decide HOLD ''vessel-ema-regime-flat''
           else (let is_long = flt slow fast in
             if in_market_type i = SPOT \<and> \<not> is_long then decide HOLD ''vessel-spot-short-not-available''
             else decide (if is_long then ENTER_LONG else ENTER_SHORT) ''vessel-ema-regime-entry'')))))"

subsection \<open>Bollinger bands and RSI (bollinger_rsi_reversion.py)\<close>

definition thresholds_are_ordered :: "params \<Rightarrow> unit res" where
  "thresholds_are_ordered ps =
     bindR (value_number (map_of ps ''rsi_oversold'')) (\<lambda>oversold.
     bindR (value_number (map_of ps ''rsi_overbought'')) (\<lambda>overbought.
     raise_if (fle overbought oversold) (ValueError ''rsi_oversold must be below rsi_overbought'') (Inr ())))"

definition bollinger_rsi_schema :: parameter_schema where
  "bollinger_rsi_schema =
     \<lparr>sch_fields =
        [(''rsi_oversold'', \<lparr>fs_type = ''number'', fs_default = Some (MFloat (Fin 30)),
           fs_range = Some (Some (MFloat (Fin 1)), Some (MFloat (Fin 50))), fs_required = False\<rparr>),
         (''rsi_overbought'', \<lparr>fs_type = ''number'', fs_default = Some (MFloat (Fin 70)),
           fs_range = Some (Some (MFloat (Fin 50)), Some (MFloat (Fin 99))), fs_required = False\<rparr>)],
      sch_extra_forbidden = True, sch_validators = [thresholds_are_ordered]\<rparr>"

definition BOLLINGER_PARAMS :: params where
  "BOLLINGER_PARAMS = [(''period'', MInt 20), (''multiplier'', MFloat (Fin 2))]"

definition bollinger_rsi_metadata :: strategy_metadata where
  "bollinger_rsi_metadata =
     \<lparr>md_required_indicators = [series_of ''Bollinger Bands'' BOLLINGER_PARAMS, series_of ''RSI'' [(''period'', MInt 14)]],
      md_min_history = 1, md_supported_timeframes = [''1h'', ''4h''],
      md_profile = profile_of ''bollinger-rsi-reversion-v1'' ''mean_reversion'' (45/100, 70/100) (6/10, 15/10)
        ''left_fat'' ''intraday'' ''pf'' ''sortino'' ''band-reversion-to-mean'',
      md_money_management = support_of [''signal-exit-atr'', ''manual'', ''turtle''] ''signal-exit-atr'' True [],
      md_decision_contract = DECISION_INTENT\<rparr>"

definition bollinger_rsi_analyze ::
    "(pyfloat \<Rightarrow> string) \<Rightarrow> strategy_config \<Rightarrow> strategy_input \<Rightarrow> position option \<Rightarrow> strategy_result res" where
  "bollinger_rsi_analyze ft cfg i position =
     (let c = in_candle i; close = c_close c; decide = strategy_decision ''bollinger-rsi-reversion'' c in
      bindR (bindR (read_series ft i ''Bollinger Bands'' BOLLINGER_PARAMS) feature_outputs) (\<lambda>bands.
      bindR (feature_number (map_of bands ''upper'')) (\<lambda>upper.
      bindR (feature_number (map_of bands ''middle'')) (\<lambda>middle.
      bindR (feature_number (map_of bands ''lower'')) (\<lambda>lower.
      bindR (bindR (read_series ft i ''RSI'' [(''period'', MInt 14)]) feature_number) (\<lambda>rsi.
      if list_ex is_nan [upper, middle, lower, rsi] then Inr NoDecision
      else
        bindR (value_number (map_of (sc_params cfg) ''rsi_oversold'')) (\<lambda>oversold.
        bindR (value_number (map_of (sc_params cfg) ''rsi_overbought'')) (\<lambda>overbought.
        (case position of
           Some p \<Rightarrow>
             if p_side p = LONG
             then (if fle middle close then decide EXIT ''bb-long-reached-middle-band''
                   else decide HOLD ''bb-long-below-middle-band'')
             else (if fle close middle then decide EXIT ''bb-short-reached-middle-band''
                   else decide HOLD ''bb-short-above-middle-band'')
         | None \<Rightarrow>
             if flt close lower
             then (if flt rsi oversold then decide ENTER_LONG ''bb-below-lower-rsi-oversold''
                   else decide HOLD ''bb-below-lower-rsi-not-oversold'')
             else if flt upper close
             then (if fle rsi overbought then decide HOLD ''bb-above-upper-rsi-not-overbought''
                   else if in_market_type i = SPOT then decide HOLD ''spot-short-not-available''
                   else decide ENTER_SHORT ''bb-above-upper-rsi-overbought'')
             else decide HOLD ''bb-inside-bands'')))))))))"

subsection \<open>MACD on the side of the 200 EMA (macd_ema200_zero_line.py)\<close>

definition MACD_PARAMS :: params where
  "MACD_PARAMS = [(''fast_period'', MInt 12), (''slow_period'', MInt 26), (''signal_period'', MInt 9)]"

definition macd_ema200_metadata :: strategy_metadata where
  "macd_ema200_metadata =
     \<lparr>md_required_indicators = [series_of ''MACD'' MACD_PARAMS, series_of ''EMA'' [(''period'', MInt 200)]],
      md_min_history = 1, md_supported_timeframes = [''1h'', ''4h''],
      md_profile = profile_of ''macd-ema200-zero-line-v1'' ''trend'' (35/100, 60/100) (1, 2)
        ''symmetric'' ''multi_day'' ''pf'' ''sharpe'' ''pullback-entry-with-fixed-target'',
      md_money_management = support_of [''manual''] ''manual'' False
        [(''manual'', [(''atr_stop_multiple'', MFloat (Fin (5/2))), (''reward_risk'', MFloat (Fin (3/2)))])],
      md_decision_contract = DECISION_INTENT\<rparr>"

definition macd_ema200_analyze ::
    "(pyfloat \<Rightarrow> string) \<Rightarrow> strategy_config \<Rightarrow> strategy_input \<Rightarrow> position option \<Rightarrow> strategy_result res" where
  "macd_ema200_analyze ft cfg i position =
     (let c = in_candle i; close = c_close c; decide = strategy_decision ''macd-ema200-zero-line'' c in
      bindR (bindR (read_series ft i ''MACD'' MACD_PARAMS) feature_outputs) (\<lambda>outputs.
      bindR (feature_number (map_of outputs ''macd'')) (\<lambda>macd_line.
      bindR (feature_number (map_of outputs ''signal'')) (\<lambda>signal_line.
      bindR (bindR (read_series ft i ''EMA'' [(''period'', MInt 200)]) feature_number) (\<lambda>ema200.
      if is_nan macd_line \<or> is_nan signal_line \<or> is_nan ema200 then Inr NoDecision
      else (case position of
         Some _ \<Rightarrow> decide HOLD ''macd-protection-owns-exit''
       | None \<Rightarrow>
           if feq close ema200 then decide HOLD ''price-on-ema200''
           else if flt ema200 close
           then (if fle macd_line signal_line then decide HOLD ''macd-below-signal-in-uptrend''
                 else if fle (Fin 0) macd_line then decide HOLD ''macd-cross-not-below-zero''
                 else decide ENTER_LONG ''macd-bullish-below-zero-above-ema200'')
           else if fle signal_line macd_line then decide HOLD ''macd-above-signal-in-downtrend''
           else if fle macd_line (Fin 0) then decide HOLD ''macd-cross-not-above-zero''
           else if in_market_type i = SPOT then decide HOLD ''spot-short-not-available''
           else decide ENTER_SHORT ''macd-bearish-above-zero-below-ema200''))))))"

subsection \<open>SuperTrend on the side of the 200 EMA (supertrend_ema200_flip.py)\<close>

definition SUPERTREND_PARAMS :: params where
  "SUPERTREND_PARAMS = [(''period'', MInt 10), (''multiplier'', MFloat (Fin 3))]"

definition supertrend_metadata :: strategy_metadata where
  "supertrend_metadata =
     \<lparr>md_required_indicators = [series_of ''SuperTrend'' SUPERTREND_PARAMS, series_of ''EMA'' [(''period'', MInt 200)]],
      md_min_history = 1, md_supported_timeframes = [''1h'', ''4h''],
      md_profile = profile_of ''supertrend-ema200-flip-v1'' ''trend'' (30/100, 55/100) (12/10, 3)
        ''right_fat'' ''multi_day'' ''calmar'' ''sortino'' ''trend-capture-with-state-exit'',
      md_money_management = support_of [''signal-exit-atr'', ''manual'', ''turtle''] ''signal-exit-atr'' True [],
      md_decision_contract = DECISION_INTENT\<rparr>"

definition supertrend_analyze ::
    "(pyfloat \<Rightarrow> string) \<Rightarrow> strategy_config \<Rightarrow> strategy_input \<Rightarrow> position option \<Rightarrow> strategy_result res" where
  "supertrend_analyze ft cfg i position =
     (let c = in_candle i; close = c_close c; decide = strategy_decision ''supertrend-ema200-flip'' c in
      bindR (bindR (read_series ft i ''SuperTrend'' SUPERTREND_PARAMS) feature_outputs) (\<lambda>outputs.
      bindR (feature_number (map_of outputs ''direction'')) (\<lambda>direction.
      bindR (bindR (read_series ft i ''EMA'' [(''period'', MInt 200)]) feature_number) (\<lambda>ema200.
      if is_nan direction \<or> is_nan ema200 then Inr NoDecision
      else (case position of
         Some p \<Rightarrow>
           (let against = (p_side p = LONG \<and> feq direction (Fin (- 1))) \<or> (p_side p = SHORT \<and> feq direction (Fin 1)) in
            if against then decide EXIT ''supertrend-flipped-against-position''
            else decide HOLD ''supertrend-aligned-with-position'')
       | None \<Rightarrow>
           if feq close ema200 then decide HOLD ''price-on-ema200''
           else if flt ema200 close
           then (if feq direction (Fin 1) then decide ENTER_LONG ''supertrend-up-above-ema200''
                 else decide HOLD ''supertrend-down-but-above-ema200'')
           else if feq direction (Fin (- 1))
           then (if in_market_type i = SPOT then decide HOLD ''spot-short-not-available''
                 else decide ENTER_SHORT ''supertrend-down-below-ema200'')
           else decide HOLD ''supertrend-up-but-below-ema200'')))))"

subsection \<open>Band touch (bollinger_band_bounce.py)\<close>

definition bounce_metadata :: strategy_metadata where
  "bounce_metadata =
     \<lparr>md_required_indicators = [series_of ''Bollinger Bands'' BOLLINGER_PARAMS],
      md_min_history = 1, md_supported_timeframes = [''1h''],
      md_profile = profile_of ''bollinger-band-bounce-v1'' ''mean_reversion'' (30/100, 45/100) (5/10, 15/10)
        ''symmetric'' ''intraday'' ''pf'' ''sortino'' ''band-touch-fade-with-fixed-target'',
      md_money_management = support_of [''manual''] ''manual'' False
        [(''manual'', [(''atr_stop_multiple'', MFloat (Fin (3/2))), (''reward_risk'', MFloat (Fin (3/2)))])],
      md_decision_contract = DECISION_INTENT\<rparr>"

definition finite_band :: "feature option \<Rightarrow> pyfloat res" where
  "finite_band f = bindR (feature_number f) (\<lambda>band.
     raise_if (\<not> is_finite band) (ValueError ''band must be finite after warm-up'') (Inr band))"

definition bounce_analyze ::
    "(pyfloat \<Rightarrow> string) \<Rightarrow> strategy_config \<Rightarrow> strategy_input \<Rightarrow> position option \<Rightarrow> strategy_result res" where
  "bounce_analyze ft cfg i position =
     (let c = in_candle i; close = c_close c; decide = strategy_decision ''bollinger-band-bounce'' c in
      if position \<noteq> None then decide HOLD ''bounce-protection-owns-exit''
      else
        bindR (bindR (read_series ft i ''Bollinger Bands'' BOLLINGER_PARAMS) feature_outputs) (\<lambda>bands.
        bindR (finite_band (map_of bands ''upper'')) (\<lambda>upper.
        bindR (finite_band (map_of bands ''lower'')) (\<lambda>lower.
        let touched_lower = fle close lower; touched_upper = fle upper close in
        if touched_lower \<and> touched_upper then decide HOLD ''bounce-band-width-zero''
        else if touched_lower then decide ENTER_LONG ''bounce-lower-band-touch-long''
        else if touched_upper
        then (if in_market_type i = SPOT then decide HOLD ''spot-short-not-available''
              else decide ENTER_SHORT ''bounce-upper-band-touch-short'')
        else decide HOLD ''bounce-inside-bands''))))"

subsection \<open>Channel breakout (donchian_breakout_atr.py)\<close>

definition CHANNEL_BARS :: nat where
  "CHANNEL_BARS = 20"

definition BARS_READ :: nat where
  "BARS_READ = CHANNEL_BARS + 2"

definition donchian_metadata :: strategy_metadata where
  "donchian_metadata =
     \<lparr>md_required_indicators = [], md_min_history = int BARS_READ - 1, md_supported_timeframes = [''1h''],
      md_profile = profile_of ''donchian-breakout-atr-v1'' ''breakout'' (25/100, 45/100) (15/10, 25/10)
        ''right_fat'' ''multi_day'' ''pf'' ''calmar'' ''channel-breakout-with-fixed-target'',
      md_money_management = support_of [''manual''] ''manual'' False
        [(''manual'', [(''atr_stop_multiple'', MFloat (Fin (3/2))), (''reward_risk'', MFloat (Fin 2))])],
      md_decision_contract = DECISION_INTENT\<rparr>"

text \<open>The slice \<open>candles[-CHANNEL_BARS - k : -k]\<close>: the channel before the bar \<open>k\<close> from the end.\<close>

definition channel_before :: "nat \<Rightarrow> candle list \<Rightarrow> candle list" where
  "channel_before k cs = take CHANNEL_BARS (drop (length cs - (CHANNEL_BARS + k)) cs)"

definition donchian_analyze ::
    "(pyfloat \<Rightarrow> string) \<Rightarrow> strategy_config \<Rightarrow> strategy_input \<Rightarrow> position option \<Rightarrow> strategy_result res" where
  "donchian_analyze ft cfg i position =
     (let c = in_candle i; cs = in_candles i; decide = strategy_decision ''donchian-breakout-atr'' c in
      if position \<noteq> None then decide HOLD ''donchian-protection-owns-exit''
      else if length cs < BARS_READ then decide HOLD ''donchian-history-short''
      else
        (let window = channel_before 1 cs; previous_window = channel_before 2 cs;
             previous = cs ! (length cs - 2);
             upper = fmax_of (map c_high window); lower = fmin_of (map c_low window);
             previous_upper = fmax_of (map c_high previous_window);
             previous_lower = fmin_of (map c_low previous_window); close = c_close c in
         if flt upper close
         then (if flt previous_upper (c_close previous) then decide HOLD ''donchian-already-above-channel''
               else decide ENTER_LONG ''donchian-upper-breakout'')
         else if flt close lower
         then (if flt (c_close previous) previous_lower then decide HOLD ''donchian-already-below-channel''
               else if in_market_type i = SPOT then decide HOLD ''spot-short-not-available''
               else decide ENTER_SHORT ''donchian-lower-breakout'')
         else decide HOLD ''donchian-inside-channel''))"

subsection \<open>Three bars of a colour (three_bar_reversion.py)\<close>

definition STREAK_BARS :: nat where
  "STREAK_BARS = 3"

definition three_bar_metadata :: strategy_metadata where
  "three_bar_metadata =
     \<lparr>md_required_indicators = [], md_min_history = int STREAK_BARS, md_supported_timeframes = [''1h''],
      md_profile = profile_of ''three-bar-reversion-v1'' ''mean_reversion'' (30/100, 50/100) (1, 15/10)
        ''symmetric'' ''intraday'' ''pf'' ''sortino'' ''three-bar-reversion-with-fixed-target'',
      md_money_management = support_of [''manual''] ''manual'' False [],
      md_decision_contract = DECISION_INTENT\<rparr>"

definition three_bar_analyze ::
    "(pyfloat \<Rightarrow> string) \<Rightarrow> strategy_config \<Rightarrow> strategy_input \<Rightarrow> position option \<Rightarrow> strategy_result res" where
  "three_bar_analyze ft cfg i position =
     (let c = in_candle i; cs = in_candles i; decide = strategy_decision ''three-bar-reversion'' c in
      if position \<noteq> None then decide HOLD ''three-bar-protection-owns-exit''
      else if length cs < STREAK_BARS then decide HOLD ''three-bar-history-short''
      else
        (let streak = drop (length cs - STREAK_BARS) cs in
         if list_ex (\<lambda>b. feq (c_close b) (c_open b)) streak then decide HOLD ''three-bar-doji-breaks-streak''
         else if list_all (\<lambda>b. flt (c_close b) (c_open b)) streak then decide ENTER_LONG ''three-red-bars-buy''
         else if list_all (\<lambda>b. flt (c_open b) (c_close b)) streak
         then (if in_market_type i = SPOT then decide HOLD ''spot-short-not-available''
               else decide ENTER_SHORT ''three-green-bars-sell-short'')
         else decide HOLD ''three-bar-no-streak''))"

subsection \<open>The deployed classes\<close>

definition deployed_strategies :: "adaptee list" where
  "deployed_strategies =
     [\<lparr>ad_strategy_id = ''bollinger-band-bounce'', ad_class_name = ''BollingerBandBounce'',
       ad_module = ''trading_plugins.strategies.bollinger_band_bounce'', ad_metadata = bounce_metadata,
       ad_schema = no_parameters, ad_analyze = bounce_analyze\<rparr>,
      \<lparr>ad_strategy_id = ''bollinger-rsi-reversion'', ad_class_name = ''BollingerRsiReversion'',
       ad_module = ''trading_plugins.strategies.bollinger_rsi_reversion'', ad_metadata = bollinger_rsi_metadata,
       ad_schema = bollinger_rsi_schema, ad_analyze = bollinger_rsi_analyze\<rparr>,
      \<lparr>ad_strategy_id = ''donchian-breakout-atr'', ad_class_name = ''DonchianBreakoutAtr'',
       ad_module = ''trading_plugins.strategies.donchian_breakout_atr'', ad_metadata = donchian_metadata,
       ad_schema = no_parameters, ad_analyze = donchian_analyze\<rparr>,
      \<lparr>ad_strategy_id = ''macd-ema200-zero-line'', ad_class_name = ''MacdEma200ZeroLine'',
       ad_module = ''trading_plugins.strategies.macd_ema200_zero_line'', ad_metadata = macd_ema200_metadata,
       ad_schema = no_parameters, ad_analyze = macd_ema200_analyze\<rparr>,
      \<lparr>ad_strategy_id = ''supertrend-ema200-flip'', ad_class_name = ''SupertrendEma200Flip'',
       ad_module = ''trading_plugins.strategies.supertrend_ema200_flip'', ad_metadata = supertrend_metadata,
       ad_schema = no_parameters, ad_analyze = supertrend_analyze\<rparr>,
      \<lparr>ad_strategy_id = ''three-bar-reversion'', ad_class_name = ''ThreeBarReversion'',
       ad_module = ''trading_plugins.strategies.three_bar_reversion'', ad_metadata = three_bar_metadata,
       ad_schema = no_parameters, ad_analyze = three_bar_analyze\<rparr>,
      \<lparr>ad_strategy_id = ''vessel-reference'', ad_class_name = ''VesselReference'',
       ad_module = ''trading_plugins.strategies.vessel_reference'', ad_metadata = vessel_metadata,
       ad_schema = no_parameters, ad_analyze = vessel_analyze\<rparr>]"

definition make_strategy ::
    "adaptee \<Rightarrow> strategy_config \<Rightarrow> ((pyfloat \<Rightarrow> string) \<Rightarrow> strategy_input \<Rightarrow> position option \<Rightarrow> strategy_result res) res" where
  "make_strategy ad cfg =
     raise_if (sc_strategy_id cfg \<noteq> ad_strategy_id ad) (ValueError ''requires strategy_id'')
       (Inr (\<lambda>ft. ad_analyze ad ft cfg))"

subsection \<open>What the engine may rely on\<close>

text \<open>Entries only when flat, shorts never on spot, exits only of a held position and only when declared.\<close>

definition permitted :: "bool \<Rightarrow> market_type \<Rightarrow> position option \<Rightarrow> decision_action \<Rightarrow> bool" where
  "permitted exits market p action =
     (case action of
        ENTER_LONG \<Rightarrow> p = None
      | ENTER_SHORT \<Rightarrow> p = None \<and> market \<noteq> SPOT
      | EXIT \<Rightarrow> p \<noteq> None \<and> exits
      | HOLD \<Rightarrow> True)"

definition keeps ::
    "string \<Rightarrow> bool \<Rightarrow> strategy_input \<Rightarrow> position option \<Rightarrow> strategy_result res \<Rightarrow> bool" where
  "keeps name exits i p m \<longleftrightarrow>
     (\<forall>r. m = Inr r \<longrightarrow> r = NoDecision \<or>
        (\<exists>action reason. permitted exits (in_market_type i) p action \<and>
           strategy_decision name (in_candle i) action reason = Inr r))"

named_theorems keeping "the branches of an analysis that keep the contract"

lemma keeps_bind [keeping]: "(\<And>x. keeps name exits i p (f x)) \<Longrightarrow> keeps name exits i p (bindR m f)"
  by (auto simp: keeps_def bindR_eq_Inr)

lemma keeps_raise [keeping]: "keeps name exits i p m \<Longrightarrow> keeps name exits i p (raise_if b e m)"
  by (auto simp: keeps_def)

lemma keeps_if [keeping]:
  "(b \<Longrightarrow> keeps name exits i p m) \<Longrightarrow> (\<not> b \<Longrightarrow> keeps name exits i p m') \<Longrightarrow> keeps name exits i p (if b then m else m')"
  by simp

lemma keeps_none [keeping]: "keeps name exits i p (Inr NoDecision)"
  by (simp add: keeps_def)

lemma keeps_decision [keeping]:
  "permitted exits (in_market_type i) p action \<Longrightarrow> keeps name exits i p (strategy_decision name (in_candle i) action reason)"
  by (auto simp: keeps_def)

lemma keeps_position [keeping]:
  "(p = None \<Longrightarrow> keeps name exits i p m) \<Longrightarrow> (\<And>q. p = Some q \<Longrightarrow> keeps name exits i p (f q)) \<Longrightarrow>
    keeps name exits i p (case p of None \<Rightarrow> m | Some q \<Rightarrow> f q)"
  by (cases p) simp_all

locale strategy_contract =
  fixes analyze :: "(pyfloat \<Rightarrow> string) \<Rightarrow> strategy_config \<Rightarrow> strategy_input \<Rightarrow> position option \<Rightarrow> strategy_result res"
    and name :: string
    and exits :: bool
  assumes kept: "keeps name exits i p (analyze ft cfg i p)"
begin

lemma no_signal: "analyze ft cfg i p \<noteq> Inr (SignalResult s)"
  using kept [of i p ft cfg] by (auto simp: keeps_def strategy_decision_def bindR_eq_Inr)

lemma decision:
  assumes "analyze ft cfg i p = Inr (IntentResult d)"
  shows "i_symbol d = c_symbol (in_candle i) \<and> i_timestamp d = c_close_time (in_candle i) \<and>
    i_reference_price d = c_close (in_candle i) \<and> i_metadata d = [''adaptee'' \<mapsto> MStr name] \<and>
    make_decision_intent d = Inr d \<and> permitted exits (in_market_type i) p (i_action d)"
proof -
  obtain action reason where action: "permitted exits (in_market_type i) p action"
    and "strategy_decision name (in_candle i) action reason = Inr (IntentResult d)"
    using kept [of i p ft cfg] assms by (auto simp: keeps_def)
  then have made: "make_decision_intent \<lparr>i_action = action, i_symbol = c_symbol (in_candle i),
      i_timestamp = c_close_time (in_candle i), i_reference_price = c_close (in_candle i), i_confidence = Fin 1,
      i_reason = reason, i_metadata = [''adaptee'' \<mapsto> MStr name]\<rparr> = Inr d"
    by (simp add: strategy_decision_def bindR_eq_Inr)
  moreover from made have "d = \<lparr>i_action = action, i_symbol = c_symbol (in_candle i),
      i_timestamp = c_close_time (in_candle i), i_reference_price = c_close (in_candle i), i_confidence = Fin 1,
      i_reason = reason, i_metadata = [''adaptee'' \<mapsto> MStr name]\<rparr>"
    unfolding make_decision_intent_def by (simp split: if_splits)
  ultimately show ?thesis using action by simp
qed

end

interpretation bounce: strategy_contract bounce_analyze "''bollinger-band-bounce''" False
  unfolding strategy_contract_def bounce_analyze_def Let_def by (intro allI keeping) (simp_all add: permitted_def)

interpretation bollinger_rsi: strategy_contract bollinger_rsi_analyze "''bollinger-rsi-reversion''" True
  unfolding strategy_contract_def bollinger_rsi_analyze_def Let_def by (intro allI keeping) (simp_all add: permitted_def)

interpretation donchian: strategy_contract donchian_analyze "''donchian-breakout-atr''" False
  unfolding strategy_contract_def donchian_analyze_def Let_def by (intro allI keeping) (simp_all add: permitted_def)

interpretation macd_ema200: strategy_contract macd_ema200_analyze "''macd-ema200-zero-line''" False
  unfolding strategy_contract_def macd_ema200_analyze_def Let_def by (intro allI keeping) (simp_all add: permitted_def)

interpretation supertrend: strategy_contract supertrend_analyze "''supertrend-ema200-flip''" True
  unfolding strategy_contract_def supertrend_analyze_def Let_def by (intro allI keeping) (simp_all add: permitted_def)

interpretation three_bar: strategy_contract three_bar_analyze "''three-bar-reversion''" False
  unfolding strategy_contract_def three_bar_analyze_def Let_def by (intro allI keeping) (simp_all add: permitted_def)

interpretation vessel: strategy_contract vessel_analyze "''vessel-reference''" True
  unfolding strategy_contract_def vessel_analyze_def Let_def by (intro allI keeping) (auto simp: permitted_def)

lemmas strategy_metadatas = bounce_metadata_def bollinger_rsi_metadata_def donchian_metadata_def macd_ema200_metadata_def
  supertrend_metadata_def three_bar_metadata_def vessel_metadata_def

lemma deployed_contract:
  assumes "ad \<in> set deployed_strategies"
  shows "strategy_contract (ad_analyze ad) (ad_strategy_id ad) (mm_signal_exit (md_money_management (ad_metadata ad)))"
  using assms bounce.strategy_contract_axioms bollinger_rsi.strategy_contract_axioms donchian.strategy_contract_axioms
    macd_ema200.strategy_contract_axioms supertrend.strategy_contract_axioms three_bar.strategy_contract_axioms
    vessel.strategy_contract_axioms
  by (auto simp: deployed_strategies_def strategy_metadatas support_of_def)

subsection \<open>Declarations that pass their checks\<close>

lemma make_profile_of:
  assumes "profile_id \<noteq> []" "family \<noteq> []" "0 \<le> a" "a \<le> b" "b \<le> 1" "0 \<le> x" "x \<le> y"
    and "tail \<in> {''right_fat'', ''symmetric'', ''left_fat''}" "pref \<in> {''sortino'', ''sharpe'', ''calmar''}"
  shows "make_profile (profile_of profile_id family (a, b) (x, y) tail horizon metric pref structure) =
    Inr (profile_of profile_id family (a, b) (x, y) tail horizon metric pref structure)"
proof -
  have one: "fround 1 = Fin 1" by (rule fround_literal(3))
  have order: "\<not> flt (fround q) (fround p)" if "p \<le> q" for p q
    using fround_mono [OF that] by (simp add: fle_iff)
  have zero: "\<not> flt (fround q) (Fin 0)" if "0 \<le> q" for q using order [OF that] by simp
  have "\<not> flt (Fin 1) (fround b)" using order [OF assms(5)] by (simp add: one)
  then show ?thesis
    using assms order zero [OF assms(3)] zero [OF assms(6)] zero [of "1/5"]
    by (simp add: make_profile_def profile_of_def validate_range_def)
qed

lemma deployed_profiles:
  assumes "ad \<in> set deployed_strategies"
  shows "make_profile (md_profile (ad_metadata ad)) = Inr (md_profile (ad_metadata ad))"
  using assms by (auto simp: deployed_strategies_def strategy_metadatas make_profile_of)

lemma deployed_supports:
  assumes "ad \<in> set deployed_strategies"
  shows "make_support (md_money_management (ad_metadata ad)) = Inr (md_money_management (ad_metadata ad))"
  using assms
  by (auto simp: deployed_strategies_def strategy_metadatas support_of_def make_support_def frozen_default_settings_def
      frozen_setting_def)

lemma deployed_metadatas:
  assumes "ad \<in> set deployed_strategies"
  shows "make_metadata (ad_metadata ad) = Inr (ad_metadata ad)"
  using assms
  by (auto simp: deployed_strategies_def strategy_metadatas make_metadata_def BARS_READ_def CHANNEL_BARS_def STREAK_BARS_def)

text \<open>A configuration without parameters resolves to the defaults of the class, which its constructor takes.\<close>

lemma deployed_defaults:
  assumes "ad \<in> set deployed_strategies"
  shows "\<exists>cfg. resolve_config (ad_schema ad) [(''strategy_id'', MStr (ad_strategy_id ad)), (''params'', MMap [])] = Inr cfg \<and>
    make_strategy ad cfg = Inr (\<lambda>ft. ad_analyze ad ft cfg)"
  using assms
  by (auto simp: deployed_strategies_def resolve_config_def no_parameters_def make_strategy_config_def freeze_params_def
      make_strategy_def bollinger_rsi_schema_def resolve_field_def validate_field_def TYPE_ALIASES_def has_type_def
      outside_def thresholds_are_ordered_def)

subsection \<open>A breakout is entered once\<close>

lemma channel_before_next: "BARS_READ \<le> length cs \<Longrightarrow> channel_before 2 (cs @ [c]) = channel_before 1 cs"
  by (simp add: channel_before_def CHANNEL_BARS_def BARS_READ_def)

lemma strategy_decision_Inr:
  "strategy_decision name c action reason = Inr r \<Longrightarrow> \<exists>d. r = IntentResult d \<and> i_action d = action \<and> i_reason d = reason"
  by (auto simp: strategy_decision_def bindR_eq_Inr make_decision_intent_def split: if_splits)

lemma donchian_enters_long:
  assumes "donchian_analyze ft cfg i p = Inr (IntentResult d)" and "i_action d = ENTER_LONG"
  shows "p = None \<and> BARS_READ \<le> length (in_candles i) \<and>
    flt (fmax_of (map c_high (channel_before 1 (in_candles i)))) (c_close (in_candle i)) \<and>
    \<not> flt (fmax_of (map c_high (channel_before 2 (in_candles i)))) (c_close (in_candles i ! (length (in_candles i) - 2)))"
  using assms unfolding donchian_analyze_def Let_def
  by (auto split: if_splits dest: strategy_decision_Inr)

lemma donchian_next_bar:
  assumes "donchian_analyze ft cfg i p = Inr (IntentResult d)" and "i_action d = ENTER_LONG"
    and "in_candles i \<noteq> []" "in_candle i = last (in_candles i)"
    and "in_candles j = in_candles i @ [in_candle j]"
    and "donchian_analyze ft' cfg' j q = Inr (IntentResult e)"
  shows "i_action e \<noteq> ENTER_LONG"
proof
  assume "i_action e = ENTER_LONG"
  from donchian_enters_long [OF assms(6) this] assms(5)
  have "\<not> flt (fmax_of (map c_high (channel_before 2 (in_candles i @ [in_candle j])))) (c_close (last (in_candles i)))"
    using assms(3) by (simp add: nth_append last_conv_nth)
  moreover from donchian_enters_long [OF assms(1,2)]
  have "BARS_READ \<le> length (in_candles i)"
    "flt (fmax_of (map c_high (channel_before 1 (in_candles i)))) (c_close (last (in_candles i)))"
    by (simp_all add: assms(4))
  ultimately show False by (simp add: channel_before_next)
qed

text \<open>Every bar is decided: the strategies that read candles only always answer.\<close>

lemma strategy_decision_total:
  assumes "make_decision_intent \<lparr>i_action = HOLD, i_symbol = c_symbol c, i_timestamp = c_close_time c,
    i_reference_price = c_close c, i_confidence = Fin 1, i_reason = ''x'', i_metadata = Map.empty\<rparr> = Inr d"
    and "\<not> blank reason"
  shows "\<exists>e. strategy_decision name c action reason = Inr (IntentResult e)"
  using assms unfolding strategy_decision_def make_decision_intent_def by (simp split: if_splits)

end
