(* ===== verification/StrategyRuns.thy ===== *)
theory StrategyRuns
  imports Strategies EngineTrace
begin

section \<open>Runs of the deployed strategies\<close>

text \<open>
  The engine with a deployed class as its strategy: what the close of a candle may queue, and the
  orders that wait during a run. A class that declares no signal exits never queues an exit: the
  protection of its policy closes every position.
\<close>

definition deploy ::
    "adaptee \<Rightarrow> (pyfloat \<Rightarrow> string) \<Rightarrow> strategy_config \<Rightarrow> 'x run_setup \<Rightarrow> 'x run_setup" where
  "deploy ad ft config setup = setup\<lparr>ec_analyze := \<lambda>i p x. (x, ad_analyze ad ft config i p)\<rparr>"

lemma engine_analyze_input:
  assumes "engine_analyze cfg c g = (g', Inr r)"
  obtains p x where "current_position cfg g = Inr p" and "silent g g'"
    and "ec_analyze cfg \<lparr>in_candles = g_confirmed g, in_candle = c, in_symbol = ec_symbol cfg,
          in_timeframe = ec_timeframe cfg, in_market_type = ec_market_type cfg, in_indicators = g_indicators g\<rparr>
          p (g_external g) = (x, Inr r)"
proof -
  let ?i = "\<lparr>in_candles = g_confirmed g, in_candle = c, in_symbol = ec_symbol cfg,
          in_timeframe = ec_timeframe cfg, in_market_type = ec_market_type cfg, in_indicators = g_indicators g\<rparr>"
  obtain p where p: "current_position cfg g = Inr p"
    using assms by (auto simp: engine_analyze_def returns)
  then obtain x where "ec_analyze cfg ?i p (g_external g) = (x, Inr r)"
    using assms by (cases "ec_analyze cfg ?i p (g_external g)") (simp add: engine_analyze_def bindS_def gets_def)
  with p stepsD [OF engine_analyze_silent assms] show thesis using that by blast
qed

lemma pending_silent: "silent g g' \<Longrightarrow> g_pending g' = g_pending g"
  by (simp add: silent_def ledger_def)

text \<open>What an entry queues: nothing, or one opening order.\<close>

lemma queues_flat:
  assumes "queues c None g g'"
  shows "g_pending g' = g_pending g \<or> (\<exists>n. opening_order n \<and> g_pending g' = g_pending g @ [n])"
  using assms unfolding queues_def queued_def by (auto simp: pending_silent)

lemma decision_queues_opening:
  assumes "handle_decision cfg c d g = (g', Inr ())" and "current_position cfg g = Inr p"
    and "permitted False market p (i_action d)"
  shows "g_pending g' = g_pending g \<or> (\<exists>n. opening_order n \<and> g_pending g' = g_pending g @ [n])"
proof (cases p)
  case None
  then have "silent g g' \<or> queues c None g g'" using handle_decision_queues [OF assms(1)] assms(2) by auto
  then show ?thesis
  proof
    assume "queues c None g g'"
    then show ?thesis by (rule queues_flat)
  qed (simp add: pending_silent)
next
  case (Some q)
  then have hold: "i_action d = HOLD" using assms(3) by (simp add: permitted_def split: decision_action.splits)
  have "steps silent (bindS (next_id ''decision'') (\<lambda>i. record_row (skip_row cfg i None c (i_reason d))))"
    by (intro quiet.steps_rules silent_steps record_row_silent) simp
  then have "silent g g'" using assms(1) hold by (auto simp: handle_decision_def returns dest: stepsD)
  then show ?thesis by (simp add: pending_silent)
qed

lemma step_close_opening:
  assumes contract: "strategy_contract (ad_analyze ad) name False"
    and m: "step_close (deploy ad ft config setup) c g = (g', Inr ())"
  shows "g_pending g' = g_pending g \<or> (\<exists>n. opening_order n \<and> g_pending g' = g_pending g @ [n])"
proof -
  let ?cfg = "deploy ad ft config setup"
  from m obtain h h' g2 result where
    u: "update_indicators ?cfg c (g\<lparr>g_confirmed := g_confirmed g @ [c]\<rparr>) = (h, Inr ())"
    and mg: "mark_grid ?cfg c h = (h', Inr ())" and an: "engine_analyze ?cfg c h' = (g2, Inr result)"
    and d: "(case result of
        NoDecision \<Rightarrow> liftS (Inr ())
      | SignalResult s \<Rightarrow>
          if ec_decision_contract ?cfg then liftS (Inl (TypeError ''declared DecisionIntent''))
          else handle_timely_signal ?cfg c s
      | IntentResult d \<Rightarrow> handle_decision ?cfg c d) g2 = (g', Inr ())"
    by (auto simp: step_close_def returns bindS_Inr [of "update_indicators ?cfg c"] bindS_Inr [of "mark_grid ?cfg c"]
        bindS_Inr [of "engine_analyze ?cfg c"])
  obtain p x where p: "current_position ?cfg h' = Inr p" and s: "silent h' g2"
    and a: "ec_analyze ?cfg \<lparr>in_candles = g_confirmed h', in_candle = c, in_symbol = ec_symbol ?cfg,
          in_timeframe = ec_timeframe ?cfg, in_market_type = ec_market_type ?cfg, in_indicators = g_indicators h'\<rparr>
          p (g_external h') = (x, Inr result)"
    by (rule engine_analyze_input [OF an])
  have kept: "g_pending g2 = g_pending g"
    using pending_silent [OF stepsD [OF update_indicators_silent u]] stepsD [OF mark_grid_stays mg] pending_silent [OF s]
    by (simp add: stays_def)
  have cp: "current_position ?cfg g2 = Inr p"
    using s p by (simp add: silent_def ledger_def current_position_def)
  from a have answer: "ad_analyze ad ft config \<lparr>in_candles = g_confirmed h', in_candle = c, in_symbol = ec_symbol ?cfg,
          in_timeframe = ec_timeframe ?cfg, in_market_type = ec_market_type ?cfg, in_indicators = g_indicators h'\<rparr> p =
      Inr result"
    by (simp add: deploy_def)
  show ?thesis
  proof (cases result)
    case NoDecision
    with d kept show ?thesis by (simp add: returns)
  next
    case (SignalResult s)
    with answer strategy_contract.no_signal [OF contract] show ?thesis by blast
  next
    case (IntentResult e)
    then have "permitted False (ec_market_type ?cfg) p (i_action e)"
      using strategy_contract.decision [OF contract answer [unfolded IntentResult]] by simp
    with decision_queues_opening [OF _ cp] d IntentResult kept show ?thesis by simp
  qed
qed

lemma step_open_none:
  assumes "step_open cfg c g = (g', Inr ())"
  shows "g_pending g' = []"
proof -
  obtain h1 h2 bs h3 where "execute_all cfg c (g_pending h1) (h1\<lparr>g_pending := []\<rparr>) = (h2, Inr ())"
    and "settle_all cfg bs h2 = (h3, Inr ())" and "apply_triggers cfg c h3 = (g', Inr ())"
    using step_open_elim [OF assms] .
  then show ?thesis
    using stepsD [OF execute_all_stays] stepsD [OF settle_all_stays] stepsD [OF apply_triggers_stays]
    by (fastforce simp: stays_def)
qed

lemma step_candle_opening:
  assumes "strategy_contract (ad_analyze ad) name False"
    and m: "step_candle (deploy ad ft config setup) c g = (g', Inr ())"
  shows "list_all opening_order (g_pending g')"
proof -
  let ?cfg = "deploy ad ft config setup"
  obtain h1 h2 h3 where s: "silent g h1" "silent h2 h3" and o: "step_open ?cfg c h1 = (h2, Inr ())"
    and cl: "step_close ?cfg c h3 = (g', Inr ())"
    by (rule step_candle_elim [OF m])
  have "g_pending h3 = []" using step_open_none [OF o] pending_silent [OF s(2)] by simp
  then show ?thesis using step_close_opening [OF assms(1) cl] by auto
qed

text \<open>The invariant of the loop: every order that waits opens a position.\<close>

lemma gap_pending:
  assumes m: "close_at_data_gap cfg c g = (g', Inr ())"
  shows "g_pending g' = g_pending g"
proof -
  from m obtain x where r: "case x of None \<Rightarrow> g' = g | Some q \<Rightarrow> gap_exit cfg c q g = (g', Inr ())"
    using close_at_data_gap_returns by metis
  show ?thesis
  proof (cases x)
    case None
    then show ?thesis using r by simp
  next
    case (Some p)
    with r have "gap_exit cfg c p g = (g', Inr ())" by simp
    then obtain d f h h1 h2 where exit: "silent g h" "terminal_exit cfg (ec_fill_timing cfg) c p DATA_GAP h = (h1, Inr f)"
      "engine_apply_fill cfg f (Some d) None None h1 = (h2, Inr ())" "silent h2 g'"
      by (rule gap_exit_elim)
    then show ?thesis
      using stepsD [OF engine_apply_fill_stays exit(3)] pending_silent [OF exit(1)]
        pending_silent [OF terminal_exit_later(1) [OF exit(2)]] pending_silent [OF exit(4)]
      by (simp add: stays_def)
  qed
qed

lemma loop_opening:
  assumes contract: "strategy_contract (ad_analyze ad) name False"
    and m: "candle_loop (deploy ad ft config setup) cs g = (g', Inr ())" and g: "list_all opening_order (g_pending g)"
  shows "list_all opening_order (g_pending g')"
proof -
  let ?cfg = "deploy ad ft config setup" and ?inv = "\<lambda>g. list_all opening_order (g_pending g)"
  have "loop_invariant ?cfg ?inv (\<lambda>_. True) (\<lambda>_. True)"
  proof
    fix g g' :: "'a engine" and c
    show "step_candle ?cfg c g = (g', Inr ()) \<Longrightarrow> ?inv g'"
      by (rule step_candle_opening [OF contract])
    show "?inv g'" if "?inv g" "silent g g'" using that by (simp add: pending_silent)
    show "?inv g'" if inv: "?inv g" and m: "close_at_data_gap ?cfg c g = (g', Inr ())"
      using gap_pending [OF m] inv by simp
  qed simp_all
  from loop_invariant.loop_keeps [OF this m] g show ?thesis by (simp add: list_all_iff)
qed

text \<open>A decision of a deployed class is timely and of the declared kind: these two errors never occur.\<close>

lemma close_declared:
  assumes "strategy_contract (ad_analyze ad) name exits"
    and "engine_analyze (deploy ad ft config setup) c g = (g', Inr result)"
  shows "result = NoDecision \<or> (\<exists>d. result = IntentResult d \<and> i_timestamp d = c_close_time c \<and> i_symbol d = c_symbol c)"
proof -
  let ?cfg = "deploy ad ft config setup"
  obtain p x where "ec_analyze ?cfg \<lparr>in_candles = g_confirmed g, in_candle = c, in_symbol = ec_symbol ?cfg,
          in_timeframe = ec_timeframe ?cfg, in_market_type = ec_market_type ?cfg, in_indicators = g_indicators g\<rparr>
          p (g_external g) = (x, Inr result)"
    by (rule engine_analyze_input [OF assms(2)])
  then have answer: "ad_analyze ad ft config \<lparr>in_candles = g_confirmed g, in_candle = c, in_symbol = ec_symbol ?cfg,
          in_timeframe = ec_timeframe ?cfg, in_market_type = ec_market_type ?cfg, in_indicators = g_indicators g\<rparr> p =
      Inr result"
    by (simp add: deploy_def)
  show ?thesis
  proof (cases result)
    case (SignalResult s)
    with answer strategy_contract.no_signal [OF assms(1)] show ?thesis by blast
  next
    case (IntentResult d)
    then show ?thesis using strategy_contract.decision [OF assms(1) answer [unfolded IntentResult]] by simp
  qed simp
qed

end
