(* ===== verification/StrategyManager.thy ===== *)
theory StrategyManager
  imports Strategies PolicyRegistry
begin

section \<open>The strategy manager (core_lib/strategy)\<close>

text \<open>
  The in-process registry of classes, their comparison with the external catalog, and the manager
  that creates a configured strategy and composes it with a policy: strategy/registry.py,
  factory.py, reconciliation.py, manager.py, catalog_row.py, the input helpers of base.py and
  identifiers.py. The catalog is a port: its answers are the parameters \<open>catalog_get\<close> and
  \<open>catalog_list\<close>. A class reads its declaration by constructing the declaring records, so a
  declaration fails with the error of their checks.
\<close>

subsection \<open>Plugin identifiers (identifiers.py)\<close>

definition identifier_char :: "char \<Rightarrow> bool" where
  "identifier_char ch \<longleftrightarrow> (let c = (of_char ch :: nat) in 97 \<le> c \<and> c \<le> 122 \<or> 48 \<le> c \<and> c \<le> 57)"

text \<open>The matcher of \<open>[a-z0-9]+(-[a-z0-9]+)*\<close>: the flag says whether the group at hand has a character.\<close>

fun match_groups :: "bool \<Rightarrow> string \<Rightarrow> bool" where
  "match_groups started [] \<longleftrightarrow> started"
| "match_groups started (ch # rest) \<longleftrightarrow>
     (if identifier_char ch then match_groups True rest else ch = CHR ''-'' \<and> started \<and> match_groups False rest)"

definition is_plugin_identifier :: "string \<Rightarrow> bool" where
  "is_plugin_identifier t \<longleftrightarrow> match_groups False t"

subsection \<open>Catalog rows (catalog_row.py)\<close>

definition CATALOG_COLUMNS :: "string list" where
  "CATALOG_COLUMNS = [''strategy_id'', ''class_name'', ''module_path'', ''display_name'', ''description'',
     ''strategy_version'', ''supported_timeframes'', ''required_indicators_json'', ''min_history'',
     ''default_params_json'', ''is_active'', ''is_deprecated'', ''registered_at'', ''updated_at'']"

definition catalog_row_entry :: "meta_value list \<Rightarrow> params res" where
  "catalog_row_entry row =
     raise_if (length row \<noteq> length CATALOG_COLUMNS) (ValueError ''unexpected row shape'')
     (let entry = zip CATALOG_COLUMNS row in
      case map_of entry ''required_indicators_json'' of
        Some (MList _) \<Rightarrow> (case map_of entry ''default_params_json'' of
            Some (MMap _) \<Rightarrow> Inr entry
          | _ \<Rightarrow> Inl (TypeError ''default_params_json must decode to a dict''))
      | _ \<Rightarrow> Inl (TypeError ''required_indicators_json must decode to a list''))"

text \<open>\<open>entry.get(key)\<close>: an absent key reads as \<open>None\<close>.\<close>

definition entry_get :: "params \<Rightarrow> string \<Rightarrow> meta_value" where
  "entry_get entry key = (case map_of entry key of None \<Rightarrow> MNone | Some v \<Rightarrow> v)"

subsection \<open>The in-process registry (registry.py)\<close>

type_synonym adaptee_registry = "(string \<times> adaptee) list"

definition get_metadata :: "adaptee \<Rightarrow> strategy_metadata res" where
  "get_metadata ad = (let m = ad_metadata ad in
     bindR (make_profile (md_profile m)) (\<lambda>profile.
     bindR (make_support (md_money_management m)) (\<lambda>support.
     make_metadata (m\<lparr>md_profile := profile, md_money_management := support\<rparr>))))"

definition register_adaptee :: "adaptee_registry \<Rightarrow> string \<Rightarrow> adaptee \<Rightarrow> adaptee_registry res" where
  "register_adaptee adaptees strategy_id ad =
     raise_if (strategy_id = []) (ValueError ''strategy_id must not be empty'')
     (raise_if (map_of adaptees strategy_id \<noteq> None) (ValueError ''already registered'')
     (bindR (get_metadata ad) (\<lambda>_. Inr (adaptees @ [(strategy_id, ad)]))))"

definition get_adaptee :: "adaptee_registry \<Rightarrow> string \<Rightarrow> adaptee res" where
  "get_adaptee adaptees strategy_id =
     (case map_of adaptees strategy_id of None \<Rightarrow> Inl (KeyError ''strategy is not registered'') | Some ad \<Rightarrow> Inr ad)"

definition list_adaptees :: "adaptee_registry \<Rightarrow> string list" where
  "list_adaptees adaptees = sort (map fst adaptees)"

definition unregister_adaptee :: "adaptee_registry \<Rightarrow> string \<Rightarrow> adaptee_registry res" where
  "unregister_adaptee adaptees strategy_id =
     (case map_of adaptees strategy_id of
        None \<Rightarrow> Inl (KeyError ''strategy is not registered'')
      | Some _ \<Rightarrow> Inr (AList.delete strategy_id adaptees))"

subsection \<open>Reconciliation with the catalog (reconciliation.py)\<close>

datatype strategy_state =
  CATALOG_ONLY | ALLOWLIST_ONLY | STRATEGY_IDENTITY_MISMATCH | STRATEGY_DECLARATION_MISMATCH
| DECLARATION_READ_FAILED | STRATEGY_INACTIVE | STRATEGY_DEPRECATED

record implementation_identity =
  im_class_name :: "string option"
  im_module_path :: "string option"

record strategy_reconciliation =
  sr_strategy_id :: string
  sr_state :: strategy_state
  sr_catalog_identity :: "implementation_identity option"
  sr_allowlist_identity :: "implementation_identity option"
  sr_is_active :: "bool option"
  sr_is_deprecated :: "bool option"

fun text_of :: "meta_value \<Rightarrow> string option" where
  "text_of (MStr s) = Some s"
| "text_of _ = None"

definition catalog_identity :: "params \<Rightarrow> implementation_identity" where
  "catalog_identity entry = \<lparr>im_class_name = text_of (entry_get entry ''class_name''),
     im_module_path = text_of (entry_get entry ''module_path'')\<rparr>"

definition allowlist_identity :: "adaptee \<Rightarrow> implementation_identity" where
  "allowlist_identity ad = \<lparr>im_class_name = Some (ad_class_name ad), im_module_path = Some (ad_module ad)\<rparr>"

definition strategy_identity_matches :: "params \<Rightarrow> adaptee \<Rightarrow> bool" where
  "strategy_identity_matches entry ad \<longleftrightarrow> catalog_identity entry = allowlist_identity ad"

definition catalog_flag :: "params option \<Rightarrow> string \<Rightarrow> bool option" where
  "catalog_flag entry name =
     (case entry of None \<Rightarrow> None | Some e \<Rightarrow> (case entry_get e name of MBool b \<Rightarrow> Some b | _ \<Rightarrow> None))"

text \<open>
  The representative under Python's \<open>==\<close>: numbers of any type by their value, a dictionary up to
  the order of its keys.
\<close>

primrec canonical :: "meta_value \<Rightarrow> meta_value" where
  "canonical MNone = MNone"
| "canonical (MBool b) = MFloat (Fin (if b then 1 else 0))"
| "canonical (MInt i) = MFloat (Fin (of_int i))"
| "canonical (MFloat v) = MFloat v"
| "canonical (MStr s) = MStr s"
| "canonical (MTime t) = MTime t"
| "canonical (MMap entries) = MMap (sort_key fst (map (map_prod id canonical) entries))"
| "canonical (MList vs) = MList (map canonical vs)"
| "canonical (MTuple vs) = MTuple (map canonical vs)"

text \<open>
  The identities are compared as sorted tuples without duplicates, so as sets. Their sort is over
  descriptors whose parameters of one name have values Python can order.
\<close>

text \<open>A value \<open>set\<close> can hold: no dictionary or list, also not inside a tuple.\<close>

primrec hashable :: "meta_value \<Rightarrow> bool" where
  "hashable MNone = True"
| "hashable (MBool _) = True"
| "hashable (MInt _) = True"
| "hashable (MFloat _) = True"
| "hashable (MStr _) = True"
| "hashable (MTime _) = True"
| "hashable (MMap _) = False"
| "hashable (MList _) = False"
| "hashable (MTuple vs) = list_all id (map hashable vs)"

definition sequence_descriptor :: "meta_value list \<Rightarrow> params res" where
  "sequence_descriptor vs =
     (if list_all hashable vs \<and> set vs \<noteq> {MStr ''name'', MStr ''params''} \<and>
         set vs \<noteq> {MStr ''name'', MStr ''params'', MStr ''timeframe''}
      then Inl (ValueError ''series descriptor'') else Inl (TypeError ''series descriptor''))"

fun descriptor_of :: "meta_value \<Rightarrow> params res" where
  "descriptor_of (MMap d) = Inr d"
| "descriptor_of (MStr _) = Inl (ValueError ''series descriptor'')"
| "descriptor_of (MList vs) = sequence_descriptor vs"
| "descriptor_of (MTuple vs) = sequence_descriptor vs"
| "descriptor_of _ = Inl (TypeError ''series descriptor'')"

definition indicator_identity :: "meta_value \<Rightarrow> (string \<times> params \<times> string) res" where
  "indicator_identity requirement =
     bindR (descriptor_of requirement) (\<lambda>d.
     bindR (series_descriptor_parts d) (\<lambda>(name, ps, timeframe).
     Inr (name, sort_key fst (map (map_prod id canonical) ps), timeframe)))"

definition indicator_identities :: "meta_value list \<Rightarrow> (string \<times> params \<times> string) set res" where
  "indicator_identities requirements = bindR (mapR indicator_identity requirements) (\<lambda>identities. Inr (set identities))"

fun iterate_value :: "meta_value \<Rightarrow> meta_value list res" where
  "iterate_value (MList vs) = Inr vs"
| "iterate_value (MTuple vs) = Inr vs"
| "iterate_value (MStr s) = Inr (map (\<lambda>c. MStr [c]) s)"
| "iterate_value (MMap entries) = Inr (map (\<lambda>(k, _). MStr k) entries)"
| "iterate_value _ = Inl (TypeError ''not iterable'')"

definition catalog_declaration_mismatch :: "params \<Rightarrow> strategy_metadata \<Rightarrow> string option res" where
  "catalog_declaration_mismatch entry m =
     (let history = entry_get entry ''min_history''; timeframes = entry_get entry ''supported_timeframes'';
          indicators = entry_get entry ''required_indicators_json'' in
      if history \<noteq> MNone \<and> canonical history \<noteq> canonical (MInt (md_min_history m))
      then Inr (Some ''min_history'')
      else
        bindR (if timeframes = MNone then Inr False
               else bindR (iterate_value timeframes) (\<lambda>vs. Inr (vs \<noteq> map MStr (md_supported_timeframes m)))) (\<lambda>differ.
        if differ then Inr (Some ''supported_timeframes'')
        else
          bindR (if indicators = MNone then Inr False
                 else bindR (bindR (iterate_value indicators) indicator_identities) (\<lambda>registered.
                      bindR (indicator_identities (map MMap (md_required_indicators m))) (\<lambda>declared. Inr (registered \<noteq> declared)))) (\<lambda>differ.
          Inr (if differ then Some ''required_indicators'' else None))))"

definition reconcile_strategy_entry ::
    "string \<Rightarrow> params option \<Rightarrow> adaptee option \<Rightarrow> strategy_metadata option \<Rightarrow> bool \<Rightarrow>
      strategy_reconciliation option res" where
  "reconcile_strategy_entry strategy_id entry ad m declaration_read_failed =
     (let active = catalog_flag entry ''is_active''; deprecated = catalog_flag entry ''is_deprecated'';
          found = (\<lambda>state. Inr (Some \<lparr>sr_strategy_id = strategy_id, sr_state = state,
            sr_catalog_identity = map_option catalog_identity entry,
            sr_allowlist_identity = map_option allowlist_identity ad,
            sr_is_active = active, sr_is_deprecated = deprecated\<rparr>)) in
      case entry of
        None \<Rightarrow> found ALLOWLIST_ONLY
      | Some e \<Rightarrow> (case ad of
          None \<Rightarrow> found CATALOG_ONLY
        | Some a \<Rightarrow>
            if catalog_identity e \<noteq> allowlist_identity a then found STRATEGY_IDENTITY_MISMATCH
            else if declaration_read_failed then found DECLARATION_READ_FAILED
            else (case m of
                None \<Rightarrow> Inl (ValueError ''matching catalog and Adaptee require a declaration snapshot'')
              | Some metadata \<Rightarrow>
                  bindR (catalog_declaration_mismatch e metadata) (\<lambda>mismatch.
                  if mismatch \<noteq> None then found STRATEGY_DECLARATION_MISMATCH
                  else if deprecated = Some True then found STRATEGY_DEPRECATED
                  else if active = Some False then found STRATEGY_INACTIVE
                  else Inr None))))"

fun catalog_entries_by_id :: "(string \<times> params) list \<Rightarrow> params list \<Rightarrow> (string \<times> params) list res" where
  "catalog_entries_by_id by_id [] = Inr by_id"
| "catalog_entries_by_id by_id (entry # entries) =
     (case entry_get entry ''strategy_id'' of
        MStr strategy_id \<Rightarrow>
          raise_if (strategy_id = []) (ValueError ''no valid strategy_id'')
          (raise_if (map_of by_id strategy_id \<noteq> None) (ValueError ''duplicate strategy_id'')
          (catalog_entries_by_id (by_id @ [(strategy_id, entry)]) entries))
      | _ \<Rightarrow> Inl (ValueError ''no valid strategy_id''))"

definition reconcile_one ::
    "(string \<times> params) list \<Rightarrow> adaptee_registry \<Rightarrow> string \<Rightarrow> strategy_reconciliation option res" where
  "reconcile_one entries adaptees strategy_id =
     (let entry = map_of entries strategy_id; ad = map_of adaptees strategy_id;
          snapshot = (case (entry, ad) of
              (Some e, Some a) \<Rightarrow> if strategy_identity_matches e a then Some (get_metadata a) else None
            | _ \<Rightarrow> None) in
      reconcile_strategy_entry strategy_id entry ad
        (case snapshot of Some (Inr m) \<Rightarrow> Some m | _ \<Rightarrow> None) (case snapshot of Some (Inl _) \<Rightarrow> True | _ \<Rightarrow> False))"

definition reconcile_strategy_registries ::
    "params list \<Rightarrow> adaptee_registry \<Rightarrow> strategy_reconciliation list res" where
  "reconcile_strategy_registries catalog_list adaptees =
     bindR (catalog_entries_by_id [] catalog_list) (\<lambda>entries.
     bindR (mapR (reconcile_one entries adaptees) (sort (remdups (map fst entries @ list_adaptees adaptees)))) (\<lambda>findings.
     Inr (List.map_filter id findings)))"

subsection \<open>The manager (manager.py)\<close>

type_synonym adapter = "adaptee \<times> strategy_config"

record manager =
  mg_adaptees :: adaptee_registry
  mg_instances :: "(string \<times> adapter) list"
  mg_active :: "string set"

definition factory_create :: "adaptee \<Rightarrow> strategy_config \<Rightarrow> adapter res" where
  "factory_create ad config = bindR (make_strategy ad config) (\<lambda>_. Inr (ad, config))"

definition validate_catalog_entry :: "string \<Rightarrow> params \<Rightarrow> unit res" where
  "validate_catalog_entry strategy_id entry =
     (let named = entry_get entry ''strategy_id'' in
      raise_if (named \<noteq> MNone \<and> named \<noteq> MStr strategy_id) (ValueError ''mismatched strategy_id'')
      (raise_if (entry_get entry ''is_active'' = MBool False) (ValueError ''inactive in the external catalog'')
      (raise_if (entry_get entry ''is_deprecated'' = MBool True) (ValueError ''deprecated in the external catalog'')
      (Inr ()))))"

definition validate_class_identity :: "adaptee \<Rightarrow> params \<Rightarrow> unit res" where
  "validate_class_identity ad entry =
     (let class_name = entry_get entry ''class_name''; module_path = entry_get entry ''module_path'' in
      raise_if (class_name \<noteq> MNone \<and> class_name \<noteq> MStr (ad_class_name ad)) (ValueError ''class_name'')
      (raise_if (module_path \<noteq> MNone \<and> module_path \<noteq> MStr (ad_module ad)) (ValueError ''module_path'') (Inr ())))"

definition validate_declared_history :: "adaptee \<Rightarrow> params \<Rightarrow> unit res" where
  "validate_declared_history ad entry =
     bindR (get_metadata ad) (\<lambda>m.
     bindR (catalog_declaration_mismatch entry m) (\<lambda>mismatch.
     case mismatch of None \<Rightarrow> Inr () | Some message \<Rightarrow> Inl (ValueError message)))"

definition catalog_checks :: "string \<Rightarrow> params \<Rightarrow> adaptee_registry \<Rightarrow> adaptee res" where
  "catalog_checks strategy_id entry adaptees =
     bindR (validate_catalog_entry strategy_id entry) (\<lambda>_.
     bindR (get_adaptee adaptees strategy_id) (\<lambda>ad.
     bindR (validate_class_identity ad entry) (\<lambda>_.
     bindR (validate_declared_history ad entry) (\<lambda>_. Inr ad))))"

definition create_strategy ::
    "(string \<Rightarrow> params res) \<Rightarrow> string \<Rightarrow> params \<Rightarrow> manager \<Rightarrow> (manager \<times> adapter) res" where
  "create_strategy catalog_get strategy_id raw_config mg =
     bindR (catalog_get strategy_id) (\<lambda>entry.
     bindR (catalog_checks strategy_id entry (mg_adaptees mg)) (\<lambda>ad.
     bindR (resolve_config (ad_schema ad) raw_config) (\<lambda>resolved.
     raise_if (sc_strategy_id resolved \<noteq> strategy_id) (ValueError ''strategy_id does not match'')
     (bindR (factory_create ad resolved) (\<lambda>adapter.
      Inr (mg\<lparr>mg_instances := AList.update strategy_id adapter (mg_instances mg)\<rparr>, adapter))))))"

definition policy_runnable ::
    "registration list option \<Rightarrow> (string \<times> policy_class) list \<Rightarrow> string \<Rightarrow> unit res" where
  "policy_runnable registrations policies mode =
     bindR (reconcile_availability registrations policies) (\<lambda>availabilities.
     case filter (\<lambda>a. av_mode a = mode) availabilities of
       a # _ \<Rightarrow> raise_if (\<not> av_runnable a) (ValueError ''mode is not runnable'') (Inr ())
     | [] \<Rightarrow> Inr ())"

definition compose_policy ::
    "registration list option \<Rightarrow> (string \<times> policy_class) list \<Rightarrow> mm_support \<Rightarrow> config \<Rightarrow> policy res" where
  "compose_policy registrations policies support raw =
     bindR (case map_of raw ''mode'' of
         Some (MStr mode) \<Rightarrow> bindR (policy_runnable registrations policies mode) (\<lambda>_. Inr (resolve_settings support raw))
       | _ \<Rightarrow> Inr raw) (\<lambda>settings.
     bindR (create_policy settings policies) (\<lambda>pol.
     raise_if (policy_id pol \<notin> set (mm_supported support)) (ValueError ''does not support money-management mode'')
     (raise_if (requires_signal_exit pol \<and> \<not> mm_signal_exit support)
        (ValueError ''money management requires strategy signal exits'') (Inr pol))))"

text \<open>The runtime: the instance and its policy, none when the strategy supports no money management.\<close>

definition create_runtime ::
    "(string \<Rightarrow> params res) \<Rightarrow> registration list option \<Rightarrow> (string \<times> policy_class) list \<Rightarrow> string \<Rightarrow> params \<Rightarrow>
      config \<Rightarrow> (manager, adapter \<times> policy option) st" where
  "create_runtime catalog_get registrations policies strategy_id raw_config mm_config mg =
     (case create_strategy catalog_get strategy_id raw_config mg of
        Inl e \<Rightarrow> (mg, Inl e)
      | Inr (mg', adapter) \<Rightarrow>
          (mg', bindR (get_metadata (fst adapter)) (\<lambda>m.
             (let support = md_money_management m in
              if mm_supported support = [] then Inr (adapter, None)
              else
                raise_if (md_decision_contract m = TRADING_SIGNAL) (ValueError ''declares TradingSignal'')
                (bindR (compose_policy registrations policies support mm_config) (\<lambda>pol. Inr (adapter, Some pol)))))))"

definition activate :: "string \<Rightarrow> manager \<Rightarrow> manager res" where
  "activate strategy_id mg =
     raise_if (map_of (mg_instances mg) strategy_id = None) (KeyError ''instance has not been created'')
       (Inr (mg\<lparr>mg_active := insert strategy_id (mg_active mg)\<rparr>))"

definition deactivate :: "string \<Rightarrow> manager \<Rightarrow> manager res" where
  "deactivate strategy_id mg =
     raise_if (map_of (mg_instances mg) strategy_id = None) (KeyError ''instance has not been created'')
       (Inr (mg\<lparr>mg_active := mg_active mg - {strategy_id}\<rparr>))"

definition strategy_is_active :: "string \<Rightarrow> manager \<Rightarrow> bool" where
  "strategy_is_active strategy_id mg \<longleftrightarrow> strategy_id \<in> mg_active mg"

definition list_registered :: "params list \<Rightarrow> string list res" where
  "list_registered catalog_list =
     bindR (mapR (\<lambda>entry. case entry_get entry ''strategy_id'' of
         MStr strategy_id \<Rightarrow> raise_if (strategy_id = []) (ValueError ''no valid strategy_id'') (Inr strategy_id)
       | _ \<Rightarrow> Inl (ValueError ''no valid strategy_id'')) catalog_list) (\<lambda>ids. Inr (sort ids))"

definition reconcile_catalog :: "params list \<Rightarrow> manager \<Rightarrow> strategy_reconciliation list res" where
  "reconcile_catalog catalog_list mg = reconcile_strategy_registries catalog_list (mg_adaptees mg)"

definition register_in_catalog ::
    "(string \<Rightarrow> params \<Rightarrow> unit res) \<Rightarrow> string \<Rightarrow> params \<Rightarrow> manager \<Rightarrow> unit res" where
  "register_in_catalog catalog_register strategy_id meta mg =
     bindR (get_adaptee (mg_adaptees mg) strategy_id) (\<lambda>_. catalog_register strategy_id meta)"

subsection \<open>Input helpers (base.py)\<close>

definition read_inputs :: "strategy_input \<Rightarrow> strategy_input res" where
  "read_inputs i =
     raise_if (in_candles i = []) (TypeError ''candles must be a non-empty sequence'')
     (raise_if (in_symbol i = []) (TypeError ''symbol must be a non-empty string'')
     (raise_if (in_timeframe i = []) (TypeError ''timeframe must be a non-empty string'') (Inr i)))"

definition series_input ::
    "(pyfloat \<Rightarrow> string) \<Rightarrow> strategy_input \<Rightarrow> string \<Rightarrow> params \<Rightarrow> string option \<Rightarrow> feature res" where
  "series_input ft i name ps timeframe =
     (let resolved = (case timeframe of None \<Rightarrow> in_timeframe i
        | Some t \<Rightarrow> if t = ''strategy'' then in_timeframe i else t) in
      bindR (series_key_of ft name ps resolved) (\<lambda>key.
      case map_of (in_indicators i) key of None \<Rightarrow> Inl (KeyError ''series'') | Some v \<Rightarrow> Inr v))"

definition number_input :: "feature \<Rightarrow> pyfloat res" where
  "number_input v = feature_number (Some v)"

fun outputs_input :: "feature \<Rightarrow> (string \<times> pyfloat) list res" where
  "outputs_input (FMap outputs) = mapR (\<lambda>(key, v). bindR (number_input v) (\<lambda>x. Inr (key, x))) outputs"
| "outputs_input _ = Inl (TypeError ''must be a mapping of named outputs'')"

definition decide :: "candle \<Rightarrow> decision_action \<Rightarrow> string \<Rightarrow> string \<Rightarrow> pyfloat \<Rightarrow> metadata \<Rightarrow> decision_intent res" where
  "decide c action reason adaptee confidence meta =
     make_decision_intent \<lparr>i_action = action, i_symbol = c_symbol c, i_timestamp = c_close_time c,
       i_reference_price = c_close c, i_confidence = confidence, i_reason = reason,
       i_metadata = [''adaptee'' \<mapsto> MStr adaptee] ++ meta\<rparr>"

definition validate_strategy_result :: "strategy_metadata \<Rightarrow> strategy_result \<Rightarrow> unit res" where
  "validate_strategy_result m result =
     (case result of
        NoDecision \<Rightarrow> Inl (TypeError ''analyze() must return DecisionIntent, TradingSignal, or None'')
      | SignalResult _ \<Rightarrow> raise_if (md_decision_contract m = DECISION_INTENT)
          (TypeError ''declared DecisionIntent but returned TradingSignal'') (Inr ())
      | IntentResult _ \<Rightarrow> Inr ())"

lemma decide_default:
  "strategy_decision name c action reason = bindR (decide c action reason name (Fin 1) Map.empty) (\<lambda>d. Inr (IntentResult d))"
  by (simp add: strategy_decision_def decide_def)

subsection \<open>Identifiers\<close>

fun join_hyphens :: "string list \<Rightarrow> string" where
  "join_hyphens [] = []"
| "join_hyphens [g] = g"
| "join_hyphens (g # gs) = g @ CHR ''-'' # join_hyphens gs"

definition kebab :: "string list \<Rightarrow> bool" where
  "kebab gs \<longleftrightarrow> gs \<noteq> [] \<and> list_all (\<lambda>g. g \<noteq> [] \<and> list_all identifier_char g) gs"

lemma hyphen_no_identifier [simp]: "\<not> identifier_char CHR ''-''"
  by (simp add: identifier_char_def)

lemma match_group: "list_all identifier_char g \<Longrightarrow> match_groups b (g @ t) = match_groups (b \<or> g \<noteq> []) t"
  by (induction g arbitrary: b) auto

lemma match_joined: "kebab gs \<Longrightarrow> match_groups False (join_hyphens gs)"
proof (induction gs rule: join_hyphens.induct)
  case (2 g)
  then show ?case using match_group [of g False "[]"] by (simp add: kebab_def)
next
  case (3 g h gs)
  then have "match_groups False (g @ CHR ''-'' # join_hyphens (h # gs))"
    using match_group [of g False] by (simp add: kebab_def)
  then show ?case by simp
qed (simp add: kebab_def)

lemma matched_groups:
  "match_groups b t \<Longrightarrow> \<exists>g gs. list_all identifier_char g \<and> (b \<or> g \<noteq> []) \<and> list_all (\<lambda>g. g \<noteq> [] \<and> list_all identifier_char g) gs \<and>
    t = join_hyphens (g # gs)"
proof (induction b t rule: match_groups.induct)
  case (1 started)
  then show ?case by (intro exI [of _ "[]"]) simp
next
  case (2 started ch rest)
  show ?case
  proof (cases "identifier_char ch")
    case True
    with 2 obtain g gs where "list_all identifier_char g" "list_all (\<lambda>g. g \<noteq> [] \<and> list_all identifier_char g) gs"
      "rest = join_hyphens (g # gs)" by auto
    then show ?thesis using True by (intro exI [of _ "ch # g"] exI [of _ gs]) (cases gs; simp)
  next
    case False
    with 2 obtain g gs where "list_all identifier_char g" "g \<noteq> []" "list_all (\<lambda>g. g \<noteq> [] \<and> list_all identifier_char g) gs"
      "rest = join_hyphens (g # gs)" by auto
    then show ?thesis using False 2(3) by (intro exI [of _ "[]"] exI [of _ "g # gs"]) simp
  qed
qed

lemma plugin_identifier_kebab: "is_plugin_identifier t \<longleftrightarrow> (\<exists>gs. kebab gs \<and> t = join_hyphens gs)"
proof
  assume "is_plugin_identifier t"
  then obtain g gs where "list_all identifier_char g" "g \<noteq> []" "list_all (\<lambda>g. g \<noteq> [] \<and> list_all identifier_char g) gs"
    "t = join_hyphens (g # gs)" using matched_groups [of False t] by (auto simp: is_plugin_identifier_def)
  then show "\<exists>gs. kebab gs \<and> t = join_hyphens gs" by (intro exI [of _ "g # gs"]) (simp add: kebab_def)
qed (auto simp: is_plugin_identifier_def match_joined)

subsection \<open>What passes the catalog\<close>

text \<open>A strategy without a finding: the row names the class, its declaration agrees, and it is in use.\<close>

lemma reconcile_one_None:
  "reconcile_one entries adaptees strategy_id = Inr None \<longleftrightarrow>
    (\<exists>e a m. map_of entries strategy_id = Some e \<and> map_of adaptees strategy_id = Some a \<and>
      strategy_identity_matches e a \<and> get_metadata a = Inr m \<and> catalog_declaration_mismatch e m = Inr None \<and>
      catalog_flag (Some e) ''is_deprecated'' \<noteq> Some True \<and> catalog_flag (Some e) ''is_active'' \<noteq> Some False)"
  by (auto simp: reconcile_one_def reconcile_strategy_entry_def Let_def strategy_identity_matches_def bindR_eq_Inr
      split: option.splits sum.splits if_splits)

lemma catalog_flag_eq: "catalog_flag (Some e) name = Some b \<longleftrightarrow> entry_get e name = MBool b"
  by (auto simp: catalog_flag_def split: meta_value.splits)

lemma text_of_eq: "text_of v = Some s \<longleftrightarrow> v = MStr s"
  by (cases v) auto

lemma identity_matches:
  "strategy_identity_matches e a \<longleftrightarrow>
    entry_get e ''class_name'' = MStr (ad_class_name a) \<and> entry_get e ''module_path'' = MStr (ad_module a)"
  by (simp add: strategy_identity_matches_def catalog_identity_def allowlist_identity_def text_of_eq)

lemma catalog_checks_eq_Inr:
  "catalog_checks strategy_id e adaptees = Inr a \<longleftrightarrow>
    entry_get e ''strategy_id'' \<in> {MNone, MStr strategy_id} \<and> entry_get e ''is_active'' \<noteq> MBool False \<and>
    entry_get e ''is_deprecated'' \<noteq> MBool True \<and> map_of adaptees strategy_id = Some a \<and>
    entry_get e ''class_name'' \<in> {MNone, MStr (ad_class_name a)} \<and> entry_get e ''module_path'' \<in> {MNone, MStr (ad_module a)} \<and>
    (\<exists>m. get_metadata a = Inr m \<and> catalog_declaration_mismatch e m = Inr None)"
  by (auto simp: catalog_checks_def validate_catalog_entry_def get_adaptee_def validate_class_identity_def
      validate_declared_history_def bindR_eq_Inr Let_def split: option.splits)

lemma catalog_agreement:
  assumes "map_of entries strategy_id = Some e" and "entry_get e ''strategy_id'' = MStr strategy_id"
    and "entry_get e ''class_name'' \<noteq> MNone" and "entry_get e ''module_path'' \<noteq> MNone"
  shows "reconcile_one entries adaptees strategy_id = Inr None \<longleftrightarrow> (\<exists>a. catalog_checks strategy_id e adaptees = Inr a)"
  unfolding reconcile_one_None catalog_checks_eq_Inr catalog_flag_eq identity_matches using assms by auto

lemma in_set_map_filter_id: "r \<in> set (List.map_filter id xs) \<longleftrightarrow> Some r \<in> set xs"
  by (force simp: List.map_filter_def)

lemma findings_complete:
  assumes "reconcile_strategy_registries catalog adaptees = Inr findings" and "catalog_entries_by_id [] catalog = Inr entries"
    and "strategy_id \<in> fst ` set entries \<union> fst ` set adaptees"
  shows "strategy_id \<notin> sr_strategy_id ` set findings \<longleftrightarrow> reconcile_one entries adaptees strategy_id = Inr None"
proof -
  let ?ids = "sort (remdups (map fst entries @ list_adaptees adaptees))"
  obtain found where m: "mapR (reconcile_one entries adaptees) ?ids = Inr found" and f: "findings = List.map_filter id found"
    using assms(1,2) by (auto simp: reconcile_strategy_registries_def bindR_eq_Inr)
  then have all: "list_all2 (\<lambda>x y. reconcile_one entries adaptees x = Inr y) ?ids found" by (simp add: mapR_Inr_iff)
  have named: "reconcile_one entries adaptees x = Inr (Some r) \<Longrightarrow> sr_strategy_id r = x" for x r
    by (auto simp: reconcile_one_def reconcile_strategy_entry_def Let_def bindR_eq_Inr split: option.splits if_splits)
  have "set ?ids = fst ` set entries \<union> fst ` set adaptees" by (simp add: list_adaptees_def)
  then have "strategy_id \<in> set ?ids" using assms(3) by blast
  then obtain i where i: "i < length ?ids" "?ids ! i = strategy_id" unfolding in_set_conv_nth by blast
  then have at_i: "reconcile_one entries adaptees strategy_id = Inr (found ! i)" "i < length found"
    using list_all2_nthD [OF all i(1)] list_all2_lengthD [OF all] by simp_all
  have in_findings: "r \<in> set findings \<longleftrightarrow> Some r \<in> set found" for r
    by (simp add: f in_set_map_filter_id)
  show ?thesis
  proof (cases "found ! i")
    case None
    have "sr_strategy_id r \<noteq> strategy_id" if "r \<in> set findings" for r
    proof
      assume r: "sr_strategy_id r = strategy_id"
      from that have "Some r \<in> set found" by (simp only: in_findings)
      then obtain j where j: "j < length found" "found ! j = Some r" by (auto simp only: in_set_conv_nth)
      then have "reconcile_one entries adaptees (?ids ! j) = Inr (Some r)"
        using list_all2_nthD2 [OF all j(1)] by simp
      with named r at_i(1) None show False by fastforce
    qed
    then show ?thesis using at_i(1) None by force
  next
    case (Some r)
    then have "r \<in> set findings" using at_i(2) unfolding in_findings by (metis nth_mem)
    moreover have "sr_strategy_id r = strategy_id" using at_i(1) Some by (intro named) simp
    ultimately show ?thesis using at_i(1) Some by force
  qed
qed

text \<open>The table of the catalog has every row under its id.\<close>

lemma catalog_table:
  "catalog_entries_by_id by_id rows = Inr entries \<Longrightarrow> set by_id \<subseteq> set entries \<and>
    (\<forall>e \<in> set rows. \<forall>strategy_id. entry_get e ''strategy_id'' = MStr strategy_id \<longrightarrow> (strategy_id, e) \<in> set entries)"
proof (induction by_id rows rule: catalog_entries_by_id.induct)
  case (2 by_id e rows)
  then show ?case by (cases "entry_get e ''strategy_id''") auto
qed simp

lemma catalog_table_distinct:
  "catalog_entries_by_id by_id rows = Inr entries \<Longrightarrow> distinct (map fst by_id) \<Longrightarrow> distinct (map fst entries)"
proof (induction by_id rows rule: catalog_entries_by_id.induct)
  case (2 by_id e rows)
  then show ?case by (cases "entry_get e ''strategy_id''") (auto simp: map_of_eq_None_iff)
qed simp

lemma catalog_lookup:
  assumes "catalog_entries_by_id [] catalog = Inr entries" and "e \<in> set catalog"
    and "entry_get e ''strategy_id'' = MStr strategy_id"
  shows "map_of entries strategy_id = Some e"
  using catalog_table [OF assms(1)] catalog_table_distinct [OF assms(1)] assms(2,3) by (intro map_of_is_SomeI) auto

subsection \<open>The state of the manager\<close>

text \<open>
  Every instance is of the class registered when it was made, is named after its configuration,
  and was created; only created strategies are active.
\<close>

definition managed :: "manager \<Rightarrow> bool" where
  "managed mg \<longleftrightarrow> mg_active mg \<subseteq> fst ` set (mg_instances mg) \<and>
     list_all (\<lambda>(strategy_id, ad, config). ad_strategy_id ad = strategy_id \<and> sc_strategy_id config = strategy_id)
       (mg_instances mg)"

lemma create_strategy_eq_Inr:
  "create_strategy catalog_get strategy_id raw mg = Inr (mg', adapter) \<longleftrightarrow>
    (\<exists>e a config. catalog_get strategy_id = Inr e \<and> catalog_checks strategy_id e (mg_adaptees mg) = Inr a \<and>
      resolve_config (ad_schema a) raw = Inr config \<and> sc_strategy_id config = strategy_id \<and> ad_strategy_id a = strategy_id \<and>
      adapter = (a, config) \<and> mg' = mg\<lparr>mg_instances := AList.update strategy_id (a, config) (mg_instances mg)\<rparr>)"
  by (auto simp: create_strategy_def factory_create_def make_strategy_def bindR_eq_Inr)

lemma list_all_update: "list_all P al \<Longrightarrow> P (k, v) \<Longrightarrow> list_all P (AList.update k v al)"
  by (induction al) auto

lemma create_strategy_managed:
  assumes "managed mg" and "create_strategy catalog_get strategy_id raw mg = Inr (mg', adapter)"
  shows "managed mg'"
proof -
  obtain a config where "sc_strategy_id config = strategy_id" "ad_strategy_id a = strategy_id"
    "mg' = mg\<lparr>mg_instances := AList.update strategy_id (a, config) (mg_instances mg)\<rparr>"
    using assms(2) unfolding create_strategy_eq_Inr by blast
  then show ?thesis using assms(1) by (auto simp: managed_def dom_update intro: list_all_update)
qed

lemma create_runtime_managed:
  assumes "managed mg" and "create_runtime catalog_get registrations policies strategy_id raw settings mg = (mg', r)"
  shows "managed mg'"
  using assms create_strategy_managed by (fastforce simp: create_runtime_def split: sum.splits)

lemma key_of_map: "map_of xs k = Some v \<Longrightarrow> k \<in> fst ` set xs"
  by (drule map_of_SomeD) (rule image_eqI [where x = "(k, v)"], simp_all)

lemma activate_managed: "managed mg \<Longrightarrow> activate strategy_id mg = Inr mg' \<Longrightarrow> managed mg'"
  by (auto simp: activate_def managed_def intro: key_of_map)

lemma deactivate_managed: "managed mg \<Longrightarrow> deactivate strategy_id mg = Inr mg' \<Longrightarrow> managed mg'"
  by (auto simp: deactivate_def managed_def)

text \<open>The managers that the operations reach from one without instances, whatever the catalog answers.\<close>

inductive reachable_manager :: "adaptee_registry \<Rightarrow> manager \<Rightarrow> bool" for adaptees where
  built: "reachable_manager adaptees \<lparr>mg_adaptees = adaptees, mg_instances = [], mg_active = {}\<rparr>"
| created: "reachable_manager adaptees mg \<Longrightarrow>
    create_strategy catalog_get strategy_id raw mg = Inr (mg', adapter) \<Longrightarrow> reachable_manager adaptees mg'"
| composed: "reachable_manager adaptees mg \<Longrightarrow>
    create_runtime catalog_get registrations policies strategy_id raw settings mg = (mg', r) \<Longrightarrow> reachable_manager adaptees mg'"
| activated: "reachable_manager adaptees mg \<Longrightarrow> activate strategy_id mg = Inr mg' \<Longrightarrow> reachable_manager adaptees mg'"
| deactivated: "reachable_manager adaptees mg \<Longrightarrow> deactivate strategy_id mg = Inr mg' \<Longrightarrow> reachable_manager adaptees mg'"

lemma reachable_managed: "reachable_manager adaptees mg \<Longrightarrow> managed mg"
proof (induction rule: reachable_manager.induct)
  case built
  show ?case by (simp add: managed_def)
next
  case (created mg catalog_get strategy_id raw mg' adapter)
  from create_strategy_managed [OF created(3,2)] show ?case .
next
  case (composed mg catalog_get registrations policies strategy_id raw settings mg' r)
  from create_runtime_managed [OF composed(3,2)] show ?case .
next
  case (activated mg strategy_id mg')
  from activate_managed [OF activated(3,2)] show ?case .
next
  case (deactivated mg strategy_id mg')
  from deactivate_managed [OF deactivated(3,2)] show ?case .
qed

lemma create_runtime_instances:
  assumes "create_runtime catalog_get registrations policies strategy_id raw settings mg = (mg', Inr ((ad, config), pol))"
  shows "mg' = mg\<lparr>mg_instances := AList.update strategy_id (ad, config) (mg_instances mg)\<rparr>"
proof -
  from assms obtain mg1 adapter where c: "create_strategy catalog_get strategy_id raw mg = Inr (mg1, adapter)"
    by (cases "create_strategy catalog_get strategy_id raw mg") (auto simp: create_runtime_def)
  with assms have "adapter = (ad, config)" "mg1 = mg'"
    by (auto simp: create_runtime_def Let_def bindR_eq_Inr split: if_splits)
  with c show ?thesis unfolding create_strategy_eq_Inr by auto
qed

text \<open>What a runtime has: its policy is one the strategy supports, with exits it can emit.\<close>

lemma compose_policy_eq_Inr:
  assumes "compose_policy registrations policies support raw = Inr pol"
  shows "policy_id pol \<in> set (mm_supported support)" and "requires_signal_exit pol \<Longrightarrow> mm_signal_exit support"
    and "\<exists>mode. map_of raw ''mode'' = Some (MStr mode) \<and>
      create_policy (resolve_settings support raw) policies = Inr pol \<and>
      (\<forall>answers. reconcile_availability registrations policies = Inr answers \<longrightarrow> distinct (map av_mode answers) \<longrightarrow>
        (\<forall>a \<in> set answers. av_mode a = mode \<longrightarrow> av_runnable a))"
proof -
  obtain settings where settings: "(case map_of raw ''mode'' of
         Some (MStr mode) \<Rightarrow> bindR (policy_runnable registrations policies mode) (\<lambda>_. Inr (resolve_settings support raw))
       | _ \<Rightarrow> Inr raw) = Inr settings" and made: "create_policy settings policies = Inr pol"
    and "policy_id pol \<in> set (mm_supported support)" "requires_signal_exit pol \<Longrightarrow> mm_signal_exit support"
    using assms by (auto simp: compose_policy_def bindR_eq_Inr)
  then show "policy_id pol \<in> set (mm_supported support)" "requires_signal_exit pol \<Longrightarrow> mm_signal_exit support" by simp_all
  have "\<exists>mode. map_of raw ''mode'' = Some (MStr mode)"
    using settings made by (auto simp: create_policy_def split: option.splits meta_value.splits)
  then obtain mode where mode: "map_of raw ''mode'' = Some (MStr mode)" by blast
  with settings have run: "policy_runnable registrations policies mode = Inr ()" and s: "settings = resolve_settings support raw"
    by (auto simp: bindR_eq_Inr)
  have "av_runnable a" if answers: "reconcile_availability registrations policies = Inr answers"
    and d: "distinct (map av_mode answers)" and a: "a \<in> set answers" "av_mode a = mode" for answers a
  proof -
    from a obtain b bs where b: "filter (\<lambda>a. av_mode a = mode) answers = b # bs"
      by (metis (mono_tags, lifting) filter_empty_conv list.exhaust)
    then have "b \<in> set (filter (\<lambda>a. av_mode a = mode) answers)" by simp
    then have "b \<in> set answers" "av_mode b = mode" by simp_all
    then have "b = a" using d a by (simp add: distinct_map inj_on_def)
    with run b show ?thesis by (simp add: policy_runnable_def answers split: if_splits)
  qed
  then show "\<exists>mode. map_of raw ''mode'' = Some (MStr mode) \<and>
      create_policy (resolve_settings support raw) policies = Inr pol \<and>
      (\<forall>answers. reconcile_availability registrations policies = Inr answers \<longrightarrow> distinct (map av_mode answers) \<longrightarrow>
        (\<forall>a \<in> set answers. av_mode a = mode \<longrightarrow> av_runnable a))"
    using mode made s by blast
qed

lemma create_runtime_policy:
  assumes "create_runtime catalog_get registrations policies strategy_id raw settings mg = (mg', Inr ((ad, config), Some pol))"
  obtains m where "get_metadata ad = Inr m" and "map_of (mg_adaptees mg) strategy_id = Some ad"
    and "md_decision_contract m = DECISION_INTENT"
    and "compose_policy registrations policies (md_money_management m) settings = Inr pol"
    and "map_of (mg_instances mg') strategy_id = Some (ad, config)"
proof -
  from assms obtain mg1 adapter where c: "create_strategy catalog_get strategy_id raw mg = Inr (mg1, adapter)"
    by (cases "create_strategy catalog_get strategy_id raw mg") (auto simp: create_runtime_def)
  with assms obtain m where m: "adapter = (ad, config)" "mg1 = mg'" "get_metadata ad = Inr m"
    "md_decision_contract m \<noteq> TRADING_SIGNAL" "compose_policy registrations policies (md_money_management m) settings = Inr pol"
    by (auto simp: create_runtime_def Let_def bindR_eq_Inr split: if_splits)
  from c obtain e a where "catalog_checks strategy_id e (mg_adaptees mg) = Inr a" "adapter = (a, config)"
    "mg1 = mg\<lparr>mg_instances := AList.update strategy_id (a, config) (mg_instances mg)\<rparr>"
    using m(1) unfolding create_strategy_eq_Inr by auto
  with m have "map_of (mg_adaptees mg) strategy_id = Some ad" "map_of (mg_instances mg') strategy_id = Some (ad, config)"
    by (auto simp: catalog_checks_eq_Inr update_conv')
  moreover have "md_decision_contract m = DECISION_INTENT" using m(4) by (cases "md_decision_contract m") simp_all
  ultimately show thesis using that m(3,5) by blast
qed

end
