(* ===== verification/DeployedRuns.thy ===== *)
theory DeployedRuns
  imports StrategyManager
begin

section \<open>Concrete instances: the deployed strategies with a catalog that describes them\<close>

text \<open>
  The inputs at which the properties of the manager are instantiated: for each deployed class a
  catalog row that agrees with its declaration, the manager that registers the seven classes, and
  the runtime it creates from a configuration without parameters, with the policy of the default
  mode of the class.
\<close>

text \<open>
  A row with the fourteen columns of the table that agrees with what the class declares, as the
  catalog reader returns it.
\<close>

definition sample_columns :: "adaptee \<Rightarrow> meta_value list" where
  "sample_columns ad = [MStr (ad_strategy_id ad), MStr (ad_class_name ad), MStr (ad_module ad), MStr (ad_strategy_id ad),
     MStr [], MStr ''1.0.0'', MList (map MStr (md_supported_timeframes (ad_metadata ad))),
     MList (map MMap (md_required_indicators (ad_metadata ad))), MInt (md_min_history (ad_metadata ad)), MMap [],
     MBool True, MBool False, MTime 0, MTime 0]"

definition catalog_row :: "adaptee \<Rightarrow> params" where
  "catalog_row ad = zip CATALOG_COLUMNS (sample_columns ad)"

lemma catalog_row_read: "catalog_row_entry (sample_columns ad) = Inr (catalog_row ad)"
  by (simp add: catalog_row_entry_def catalog_row_def sample_columns_def CATALOG_COLUMNS_def)

lemma catalog_row_items:
  "catalog_row ad = [(''strategy_id'', MStr (ad_strategy_id ad)), (''class_name'', MStr (ad_class_name ad)),
     (''module_path'', MStr (ad_module ad)), (''display_name'', MStr (ad_strategy_id ad)), (''description'', MStr []),
     (''strategy_version'', MStr ''1.0.0''),
     (''supported_timeframes'', MList (map MStr (md_supported_timeframes (ad_metadata ad)))),
     (''required_indicators_json'', MList (map MMap (md_required_indicators (ad_metadata ad)))),
     (''min_history'', MInt (md_min_history (ad_metadata ad))), (''default_params_json'', MMap []),
     (''is_active'', MBool True), (''is_deprecated'', MBool False), (''registered_at'', MTime 0), (''updated_at'', MTime 0)]"
  by (simp add: catalog_row_def sample_columns_def CATALOG_COLUMNS_def)

definition deployed_registry :: adaptee_registry where
  "deployed_registry = map (\<lambda>ad. (ad_strategy_id ad, ad)) deployed_strategies"

definition default_manager :: manager where
  "default_manager = \<lparr>mg_adaptees = deployed_registry, mg_instances = [], mg_active = {}\<rparr>"

lemma deployed_get_metadata: "ad \<in> set deployed_strategies \<Longrightarrow> get_metadata ad = Inr (ad_metadata ad)"
  by (simp add: get_metadata_def deployed_profiles deployed_supports deployed_metadatas)

lemma deployed_identities:
  "ad \<in> set deployed_strategies \<Longrightarrow> \<exists>s. indicator_identities (map MMap (md_required_indicators (ad_metadata ad))) = Inr s"
  by (auto simp: deployed_strategies_def strategy_metadatas indicator_identities_def indicator_identity_def
      series_descriptor_parts_def series_of_def)

lemma deployed_rows_match:
  assumes "ad \<in> set deployed_strategies"
  shows "catalog_declaration_mismatch (catalog_row ad) (ad_metadata ad) = Inr None"
  using deployed_identities [OF assms]
  by (auto simp: catalog_declaration_mismatch_def catalog_row_items entry_get_def Let_def)

lemma deployed_lookup: "ad \<in> set deployed_strategies \<Longrightarrow> map_of deployed_registry (ad_strategy_id ad) = Some ad"
  by (simp add: deployed_registry_def deployed_strategies_def) (elim disjE; simp)

lemma deployed_checks:
  assumes "ad \<in> set deployed_strategies"
  shows "catalog_checks (ad_strategy_id ad) (catalog_row ad) deployed_registry = Inr ad"
  using deployed_lookup [OF assms] deployed_rows_match [OF assms] deployed_get_metadata [OF assms]
  by (simp add: catalog_checks_eq_Inr) (simp add: catalog_row_items entry_get_def)

text \<open>The default settings of a class build the policy of its default mode.\<close>

lemma in_range_Fin: "1 \<le> a \<Longrightarrow> a \<le> 10 \<Longrightarrow> in_range (Fin a)"
proof -
  assume a: "1 \<le> a" "a \<le> 10"
  have "fle (fround (1 / 10)) (fround 1)" by (rule fround_mono) simp
  then have "fle (fround (1 / 10)) (Fin 1)" by (simp add: fround_literal(3))
  moreover have "fle (Fin 1) (Fin a)" using a by simp
  ultimately have "fle (fround (1 / 10)) (Fin a)" by (rule fle_trans)
  with a show ?thesis by (simp add: in_range_def)
qed

lemma manual_default:
  assumes "raw = [(''mode'', MStr ''manual'')] \<or> (\<exists>a b. in_range a \<and> in_range b \<and>
        raw = [(''mode'', MStr ''manual''), (''atr_stop_multiple'', MFloat a), (''reward_risk'', MFloat b)])"
  shows "\<exists>p. create_policy raw deployed_policies = Inr (Manual p)"
  using assms in_range_Fin [of 2]
  by (auto simp: create_policy_def deployed_policies_def policy_settings_def reject_extra_def build_manual_def setting_def
        int_in_def)

lemma signal_exit_default:
  "\<exists>p. create_policy [(''mode'', MStr ''signal-exit-atr'')] deployed_policies = Inr (SignalExit p)"
  using in_range_Fin [of "5 / 2"]
  by (auto simp: atr_registered_def create_policy_def deployed_policies_def policy_settings_def reject_extra_def build_signal_exit_def setting_def
        int_in_def)

lemma deployed_modes:
  assumes "ad \<in> set deployed_strategies"
  shows "\<exists>mode pol. mm_default (md_money_management (ad_metadata ad)) = Some mode \<and> policy_id pol = mode \<and>
    compose_policy None deployed_policies (md_money_management (ad_metadata ad)) [(''mode'', MStr mode)] = Inr pol"
proof -
  let ?s = "md_money_management (ad_metadata ad)"
  have resolved: "resolve_settings ?s [(''mode'', MStr mode)] = (''mode'', MStr mode) # declared_settings ?s mode" for mode
    using checked_settings_mode(2) [OF deployed_supports [OF assms], of mode]
    by (subst resolve_settings_eq [where mode = mode]) (simp_all add: dict_merge_def)
  have runnable: "policy_runnable None deployed_policies mode = Inr ()" for mode
  proof -
    let ?answers = "map (\<lambda>mode. \<lparr>av_mode = mode, av_runnable = True, av_reason = None\<rparr>) (money_management_modes deployed_policies)"
    have "av_runnable a" if "filter (\<lambda>a. av_mode a = mode) ?answers = a # rest" for a rest
    proof -
      from that have "a \<in> set (filter (\<lambda>a. av_mode a = mode) ?answers)" by simp
      then show ?thesis by auto
    qed
    then show ?thesis by (simp add: policy_runnable_def reconcile_availability_def split: list.split)
  qed
  have composed: "compose_policy None deployed_policies ?s [(''mode'', MStr mode)] = Inr pol"
    if "create_policy ((''mode'', MStr mode) # declared_settings ?s mode) deployed_policies = Inr pol"
      and "policy_id pol \<in> set (mm_supported ?s)" "requires_signal_exit pol \<Longrightarrow> mm_signal_exit ?s" for mode pol
    using that by (simp add: compose_policy_def runnable resolved)
  consider (manual) "mm_default ?s = Some ''manual''" "''manual'' \<in> set (mm_supported ?s)"
      "declared_settings ?s ''manual'' = [] \<or> (\<exists>a b. in_range a \<and> in_range b \<and>
        declared_settings ?s ''manual'' = [(''atr_stop_multiple'', MFloat a), (''reward_risk'', MFloat b)])"
    | (signal) "mm_default ?s = Some ''signal-exit-atr''" "''signal-exit-atr'' \<in> set (mm_supported ?s)"
      "mm_signal_exit ?s" "declared_settings ?s ''signal-exit-atr'' = []"
    using assms by (auto simp: deployed_strategies_def strategy_metadatas support_of_def declared_settings_def in_range_Fin)
  then show ?thesis
  proof cases
    case manual
    then obtain p where "create_policy ((''mode'', MStr ''manual'') # declared_settings ?s ''manual'') deployed_policies =
        Inr (Manual p)"
      using manual_default by blast
    with manual composed [of "''manual''" "Manual p"] show ?thesis by auto
  next
    case signal
    then obtain p where "create_policy [(''mode'', MStr ''signal-exit-atr'')] deployed_policies = Inr (SignalExit p)"
      using signal_exit_default by blast
    with signal composed [of "''signal-exit-atr''" "SignalExit p"] show ?thesis by auto
  qed
qed

lemma deployed_runtime:
  assumes "ad \<in> set deployed_strategies"
  shows "\<exists>mode mg' config pol. mm_default (md_money_management (ad_metadata ad)) = Some mode \<and> policy_id pol = mode \<and>
    create_runtime (\<lambda>_. Inr (catalog_row ad)) None deployed_policies (ad_strategy_id ad)
      [(''strategy_id'', MStr (ad_strategy_id ad)), (''params'', MMap [])] [(''mode'', MStr mode)] default_manager =
      (mg', Inr ((ad, config), Some pol)) \<and> map_of (mg_instances mg') (ad_strategy_id ad) = Some (ad, config)"
proof -
  let ?id = "ad_strategy_id ad" and ?raw = "[(''strategy_id'', MStr (ad_strategy_id ad)), (''params'', MMap [])]"
  obtain config where config: "resolve_config (ad_schema ad) ?raw = Inr config" "sc_strategy_id config = ?id"
    using deployed_defaults [OF assms] by (auto simp: make_strategy_def)
  obtain mode pol where mode: "mm_default (md_money_management (ad_metadata ad)) = Some mode" "policy_id pol = mode"
      "compose_policy None deployed_policies (md_money_management (ad_metadata ad)) [(''mode'', MStr mode)] = Inr pol"
    using deployed_modes [OF assms] by blast
  let ?mg = "default_manager\<lparr>mg_instances := AList.update ?id (ad, config) (mg_instances default_manager)\<rparr>"
  have made: "create_strategy (\<lambda>_. Inr (catalog_row ad)) ?id ?raw default_manager = Inr (?mg, (ad, config))"
    unfolding create_strategy_eq_Inr using config deployed_checks [OF assms] by (simp add: default_manager_def)
  have decides: "md_decision_contract (ad_metadata ad) \<noteq> TRADING_SIGNAL" "mm_supported (md_money_management (ad_metadata ad)) \<noteq> []"
    using assms by (auto simp: deployed_strategies_def strategy_metadatas support_of_def)
  have "create_runtime (\<lambda>_. Inr (catalog_row ad)) None deployed_policies ?id ?raw [(''mode'', MStr mode)] default_manager =
      (?mg, Inr ((ad, config), Some pol))"
    using made decides mode(3) by (simp add: create_runtime_def deployed_get_metadata [OF assms] Let_def)
  moreover have "map_of (mg_instances ?mg) ?id = Some (ad, config)" by (simp add: update_conv')
  ultimately show ?thesis using mode(1,2) by blast
qed

end
