(* ===== verification/StrategySamples.thy ===== *)
theory StrategySamples
  imports StrategyRuns DeployedRuns EngineSamples
begin

section \<open>Concrete instances\<close>

text \<open>
  A quiet channel and the bars that leave it, a resolved configuration of the Bollinger strategy,
  and a run of one candle of the three-bar strategy.
\<close>

definition channel_bar :: "pyfloat \<Rightarrow> candle" where
  "channel_bar close = \<lparr>c_symbol = ''BTCUSDT'', c_exchange = ''binance'', c_timeframe = ''1h'',
     c_open_time = 0, c_close_time = 3600000000, c_open = Fin 100, c_high = Fin 101,
     c_low = Fin 99, c_close = close, c_volume = Fin 5, c_quote_volume = None, c_trade_count = None\<rparr>"

definition quiet_bars :: "nat \<Rightarrow> candle list" where
  "quiet_bars n = replicate n (channel_bar (Fin 100))"

definition channel_input :: "candle list \<Rightarrow> strategy_input" where
  "channel_input cs = \<lparr>in_candles = cs, in_candle = last cs, in_symbol = ''BTCUSDT'', in_timeframe = ''1h'',
     in_market_type = FUTURES, in_indicators = []\<rparr>"

definition breakout_bars :: "candle list" where
  "breakout_bars = quiet_bars 21 @ [channel_bar (Fin 105)]"

definition plain_config :: "string \<Rightarrow> strategy_config" where
  "plain_config strategy_id = \<lparr>sc_strategy_id = strategy_id, sc_params = [], sc_schema_version = SCHEMA_VERSION\<rparr>"

definition sample_decision :: "string \<Rightarrow> candle \<Rightarrow> decision_action \<Rightarrow> string \<Rightarrow> decision_intent" where
  "sample_decision name c action reason = \<lparr>i_action = action, i_symbol = c_symbol c, i_timestamp = c_close_time c,
     i_reference_price = c_close c, i_confidence = Fin 1, i_reason = reason,
     i_metadata = [''adaptee'' \<mapsto> MStr name]\<rparr>"

lemma extremes_replicate [simp]: "fmax_of (replicate (Suc n) x) = x" "fmin_of (replicate (Suc n) x) = x"
  by (induction n; simp add: fmax_of_def fmin_of_def fmax_def fmin_def)+

lemma extremes_twenty [simp]: "fmax_of (replicate 20 x) = x" "fmin_of (replicate 20 x) = x"
  using extremes_replicate [of 19 x] by (simp_all del: replicate_Suc extremes_replicate)

lemma sample_decides:
  "\<not> blank (c_symbol c) \<Longrightarrow> \<not> blank reason \<Longrightarrow> c_close c = Fin x \<Longrightarrow> 0 < x \<Longrightarrow>
    strategy_decision name c action reason = Inr (IntentResult (sample_decision name c action reason))"
  by (simp add: strategy_decision_def make_decision_intent_def sample_decision_def)

lemma channel_bar_fields [simp]:
  "c_symbol (channel_bar x) = ''BTCUSDT''" "c_high (channel_bar x) = Fin 101" "c_low (channel_bar x) = Fin 99"
  "c_close (channel_bar x) = x"
  by (simp_all add: channel_bar_def)

lemma not_blank_sample [simp]: "\<not> blank ''BTCUSDT''" "\<not> blank ''donchian-upper-breakout''"
  "\<not> blank ''donchian-already-above-channel''" "\<not> blank ''donchian-history-short''"
  by (simp_all add: blank_def py_isspace_def Let_def)

lemma channel_extremes:
  assumes "set cs \<subseteq> range channel_bar" and "k + 20 \<le> length cs"
  shows "fmax_of (map c_high (channel_before k cs)) = Fin 101" and "fmin_of (map c_low (channel_before k cs)) = Fin 99"
proof -
  have "set (channel_before k cs) \<subseteq> range channel_bar"
    using assms(1) set_drop_subset set_take_subset unfolding channel_before_def by (metis order_trans)
  then have "map c_high (channel_before k cs) = map (\<lambda>_. Fin 101) (channel_before k cs)"
    "map c_low (channel_before k cs) = map (\<lambda>_. Fin 99) (channel_before k cs)"
    by (auto intro!: map_cong)
  moreover have "length (channel_before k cs) = Suc 19"
    using assms(2) by (simp add: channel_before_def CHANNEL_BARS_def)
  ultimately show "fmax_of (map c_high (channel_before k cs)) = Fin 101"
    "fmin_of (map c_low (channel_before k cs)) = Fin 99"
    by (simp_all add: map_replicate_const del: replicate_Suc)
qed

lemma breakout_fields:
  "breakout_bars ! 20 = channel_bar (Fin 100)" "length breakout_bars = 22" "last breakout_bars = channel_bar (Fin 105)"
  "(breakout_bars @ [x]) ! 21 = channel_bar (Fin 105)" "set breakout_bars \<subseteq> range channel_bar"
  by (auto simp: breakout_bars_def quiet_bars_def nth_append)

lemma breakout_enters:
  "donchian_analyze ft cfg (channel_input breakout_bars) None =
    Inr (IntentResult (sample_decision ''donchian-breakout-atr'' (channel_bar (Fin 105)) ENTER_LONG ''donchian-upper-breakout''))"
  using channel_extremes [of breakout_bars 1] channel_extremes [of breakout_bars 2]
  by (simp add: donchian_analyze_def Let_def channel_input_def BARS_READ_def CHANNEL_BARS_def sample_decides breakout_fields)

lemma breakout_next:
  "donchian_analyze ft cfg (channel_input (breakout_bars @ [channel_bar (Fin 106)])) None =
    Inr (IntentResult (sample_decision ''donchian-breakout-atr'' (channel_bar (Fin 106)) HOLD ''donchian-already-above-channel''))"
  using channel_extremes [of "breakout_bars @ [channel_bar (Fin 106)]" 1]
    channel_extremes [of "breakout_bars @ [channel_bar (Fin 106)]" 2]
  by (simp add: donchian_analyze_def Let_def channel_input_def BARS_READ_def CHANNEL_BARS_def sample_decides breakout_fields)

definition three_bar_class :: adaptee where
  "three_bar_class = deployed_strategies ! 5"

definition donchian_class :: adaptee where
  "donchian_class = deployed_strategies ! 2"

lemma sample_classes:
  "ad_analyze three_bar_class = three_bar_analyze" "ad_strategy_id three_bar_class = ''three-bar-reversion''"
  "ad_metadata three_bar_class = three_bar_metadata" "three_bar_class \<in> set deployed_strategies"
  "ad_analyze donchian_class = donchian_analyze" "ad_strategy_id donchian_class = ''donchian-breakout-atr''"
  "ad_metadata donchian_class = donchian_metadata" "donchian_class \<in> set deployed_strategies"
  by (simp_all add: three_bar_class_def donchian_class_def deployed_strategies_def)

lemma three_bar_holds:
  "three_bar_analyze ft cfg \<lparr>in_candles = [bar_1], in_candle = bar_1, in_symbol = s, in_timeframe = tf,
      in_market_type = m, in_indicators = f\<rparr> None =
    Inr (IntentResult (sample_decision ''three-bar-reversion'' bar_1 HOLD ''three-bar-history-short''))"
proof -
  have "\<not> blank ''three-bar-history-short''" by (simp add: blank_def py_isspace_def Let_def)
  then show ?thesis by (simp add: three_bar_analyze_def STREAK_BARS_def Let_def sample_decides)
qed

abbreviation three_bar_run :: "unit run_setup" where
  "three_bar_run \<equiv> deploy three_bar_class (\<lambda>_. []) (plain_config ''three-bar-reversion'') engine_setup"

lemma three_bar_setup [simp]:
  "ec_symbol three_bar_run = ''BTCUSDT''" "ec_market_type three_bar_run = FUTURES" "ec_history three_bar_run = [bar_1, bar_2]"
  "ec_update_indicators three_bar_run c x f = Inr (x, f)" "ec_trigger_feed three_bar_run = ''tf_candle''"
  "ec_analyze three_bar_run i p x = (x, three_bar_analyze (\<lambda>_. []) (plain_config ''three-bar-reversion'') i p)"
  by (simp_all add: deploy_def sample_classes)

lemma three_bar_open: "step_open three_bar_run bar_1 engine_1 = (engine_1, Inr ())"
  by (simp add: step_open_def engine_1_def engine_0_def settle_at_boundary_def bindS_def gets_def modify_def liftS_def
    raise_if_def apply_triggers_def current_position_def book_get_def Let_def)

lemma three_bar_close:
  "\<exists>g'. step_close three_bar_run bar_1 (engine_1\<lparr>g_clock := bar_clock 1\<rparr>) = (g', Inr ())"
  apply (simp add: step_close_def engine_1_def engine_0_def step_evaluate update_indicators_def)
  apply (simp add: mark_grid_def mark_position_def step_evaluate equity_peak_def drawdown_of_def position_evidence_def portfolio_row_def evaluate)
  apply (simp add: engine_analyze_def step_evaluate three_bar_holds)
  apply (simp add: handle_decision_def sample_decision_def step_evaluate)
  done

lemma three_bar_ran: "\<exists>g'. candle_loop three_bar_run [bar_1] engine_0 = (g', Inr ())"
proof -
  have m: "engine_move_clock 124000 engine_1 = (engine_1, Inr ())"
      "engine_move_clock 60124000 engine_1 = (engine_1\<lparr>g_clock := bar_clock 1\<rparr>, Inr ())"
    by (simp_all add: engine_move_clock_def engine_1_def engine_0_def bindS_def gets_def modify_def)
  show ?thesis
    using three_bar_close m three_bar_open
    by (auto simp: step_candle_def bindS_def modify_def engine_1_def [symmetric] simp del: One_nat_def)
qed

lemma bollinger_resolved:
  "resolve_config bollinger_rsi_schema [(''strategy_id'', MStr ''bollinger-rsi-reversion''),
      (''params'', MMap [(''rsi_oversold'', MInt 25)])] =
    Inr \<lparr>sc_strategy_id = ''bollinger-rsi-reversion'',
      sc_params = [(''rsi_overbought'', MFloat (Fin 70)), (''rsi_oversold'', MInt 25)], sc_schema_version = SCHEMA_VERSION\<rparr>"
proof -
  have 25: "is_finite (float_of_int 25)" "float_of_int 25 = Fin 25" by (simp_all add: float_of_int_def literal)
  have order: "\<not> ''rsi_oversold'' \<le> ''rsi_overbought''" "''rsi_overbought'' \<le> ''rsi_oversold''"
    by (simp_all add: less_list_code less_eq_list_code)
  show ?thesis
    by (simp add: resolve_config_def bollinger_rsi_schema_def resolve_field_def validate_field_def TYPE_ALIASES_def
        has_type_def outside_def thresholds_are_ordered_def make_strategy_config_def freeze_params_def 25 order)
qed

lemma thresholds_frozen:
  "thresholds_are_ordered (map (map_prod id reload) ps) = thresholds_are_ordered ps"
proof -
  have lookup: "map_of (map (map_prod id reload) ps) k = map_option reload (map_of ps k)" for k
    by (induction ps) auto
  have number: "value_number (map_option reload v) = value_number v" for v
    by (cases v rule: value_number.cases) (simp_all add: reload_def)
  show ?thesis by (simp add: thresholds_are_ordered_def lookup number)
qed

lemma settings_resolved_once:
  assumes "make_support s = Inr s" and "\<And>mode. distinct (map fst (declared_settings s mode))"
    and "map_of submitted ''mode'' = Some (MStr mode)"
  shows "map_of (resolve_settings s submitted) name =
      (case map_of submitted name of Some v \<Rightarrow> Some v | None \<Rightarrow> map_of (declared_settings s mode) name) \<and>
    resolve_settings s (resolve_settings s submitted) = resolve_settings s submitted"
  using resolve_settings_lookup [OF assms(3) checked_settings_mode(2) [OF assms(1)]]
    resolve_settings_idem [OF assms(2) checked_settings_mode(2) [OF assms(1)]] by simp_all

lemma settings_resolved_once_witness:
  "map_of (resolve_settings (md_money_management bounce_metadata) [(''mode'', MStr ''manual''), (''reward_risk'', MInt 2)])
      ''atr_stop_multiple'' = Some (MFloat (Fin (3 / 2)))"
proof -
  let ?s = "md_money_management bounce_metadata"
  have s: "make_support ?s = Inr ?s"
    using deployed_supports [of "deployed_strategies ! 0"] by (simp add: deployed_strategies_def)
  have d: "distinct (map fst (declared_settings ?s mode))" for mode
    by (auto simp: bounce_metadata_def support_of_def declared_settings_def split: option.split if_splits)
  show ?thesis
    using settings_resolved_once [OF s d, of "[(''mode'', MStr ''manual''), (''reward_risk'', MInt 2)]" "''manual''"
      "''atr_stop_multiple''"]
    by (simp add: bounce_metadata_def support_of_def declared_settings_def)
qed

end
