(* ===== verification/Momentum.thy ===== *)
theory Momentum
  imports IndicatorPrimitives RollingExtremes
begin

section \<open>Momentum indicators (core_lib/indicators/momentum.py)\<close>

text \<open>
  The indicators built on the primitives, in both editions: the batch function over a history
  (\<open>_series\<close>) and the state fed candle by candle (\<open>_update\<close> from \<open>_start\<close>, made by \<open>make_\<close> after
  the checks of the periods). A state object is its record; its last value is the answer of its
  last update. A batch function is a network of the loops of the primitives; the laws of \<open>outs\<close>
  turn the network into one loop, whose state is the record of the state object up to the last
  value (\<open>outs_projection\<close>).
\<close>

subsection \<open>Networks of loops\<close>

lemma outs_projection:
  assumes "proj s = t" and "\<And>s x. g (proj s) x = (case f s x of (s', y) \<Rightarrow> (proj s', y))"
  shows "outs g t xs = outs f s xs"
  by (rule outs_simulation [where R = "\<lambda>t s. t = proj s"]) (simp_all add: assms split: prod.split)

text \<open>A loop that also passes on its input.\<close>

definition alongside :: "('s \<Rightarrow> 'a \<Rightarrow> 's \<times> 'b) \<Rightarrow> 's \<Rightarrow> 'a \<Rightarrow> 's \<times> ('a \<times> 'b)" where
  "alongside f s x = (case f s x of (s', y) \<Rightarrow> (s', (x, y)))"

lemma outs_alongside: "zip xs (outs f s xs) = outs (alongside f) s xs"
  by (induction xs arbitrary: s) (auto simp: alongside_def split: prod.split)

text \<open>
  A value computed from each element and its predecessor, after a first value: as the code builds
  it, the first value is there even for an empty list.
\<close>

definition paired :: "('a \<Rightarrow> 'a \<Rightarrow> 'b) \<Rightarrow> 'b \<Rightarrow> 'a list \<Rightarrow> 'b list" where
  "paired f first xs = first # map (\<lambda>(x, y). f x y) (zip xs (tl xs))"

definition close_paired :: "(pyfloat \<Rightarrow> candle \<Rightarrow> 'b) \<Rightarrow> 'b \<Rightarrow> candle list \<Rightarrow> 'b list" where
  "close_paired f first cs = paired (\<lambda>p c. f (c_close p) c) first cs"

definition pairing :: "('a \<Rightarrow> 'k) \<Rightarrow> ('k \<Rightarrow> 'a \<Rightarrow> 'b) \<Rightarrow> 'b \<Rightarrow> 'k option \<Rightarrow> 'a \<Rightarrow> 'k option \<times> 'b" where
  "pairing k f first previous x = (Some (k x), case previous of None \<Rightarrow> first | Some p \<Rightarrow> f p x)"

lemma pairs_outs: "map (\<lambda>(x, y). f (k x) y) (zip (x # xs) xs) = outs (pairing k f first) (Some (k x)) xs"
  by (induction xs arbitrary: x) (simp_all add: pairing_def)

lemma close_paired_outs: "cs \<noteq> [] \<Longrightarrow> close_paired f first cs = outs (pairing c_close f first) None cs"
  by (cases cs) (simp_all add: close_paired_def paired_def pairs_outs [of f c_close] pairing_def)

lemma paired_nan_outs:
  assumes "xs \<noteq> []" and "\<And>x. f NaN x = NaN"
  shows "paired f NaN xs = outs (\<lambda>p x. (x, f p x)) NaN xs"
proof -
  have "map (\<lambda>(x, y). f x y) (zip (x # xs) xs) = outs (\<lambda>p x. (x, f p x)) x xs" for x xs
    by (induction xs arbitrary: x) simp_all
  with assms show ?thesis by (cases xs) (simp_all add: paired_def)
qed

text \<open>The primitives as loops.\<close>

lemma incremental_outs:
  assumes "incremental start (total_update step) series reached"
  shows "series xs = outs step start xs"
proof -
  have "replay (total_update step) s xs = Inr (state_after step s xs, outs step s xs)" for s
    by (induction xs arbitrary: s) (simp_all split: prod.split)
  then show ?thesis using incremental.replay_series [OF assms, of xs] by simp
qed

lemma ema_series_outs: "0 < p \<Longrightarrow> ema_series vs p = Inr (outs (ema_update (nat p)) average_empty vs)"
  using recursive_loop_outs [of "nat p" average_empty "[]"]
  by (simp add: ema_series_def recursive_average_def with_period_def validate_period_def ema_update_def average_empty_def)

lemma rma_series_outs: "0 < p \<Longrightarrow> rma_series vs p = Inr (outs (rma_update (nat p)) average_empty vs)"
  using recursive_loop_outs [of "nat p" average_empty "[]"]
  by (simp add: rma_series_def recursive_average_def with_period_def validate_period_def rma_update_def average_empty_def)

lemma sma_series_outs: "0 < p \<Longrightarrow> sma_series vs p = Inr (outs (sma_update (nat p)) sma_start vs)"
  by (simp add: sma_series_def with_period_def validate_period_def sma.series_loop)

lemma extreme_loop_outs: "extreme_loop n h vs 0 [] vs = outs (extreme_update n h) extreme_start vs"
  by (rule incremental_outs [OF extremes.incremental_axioms])

lemma hh_series_outs: "0 < p \<Longrightarrow> hh_series vs p = Inr (outs (extreme_update (nat p) True) extreme_start vs)"
  by (simp add: hh_series_def rolling_extreme_def with_period_def validate_period_def extreme_loop_outs)

lemma ll_series_outs: "0 < p \<Longrightarrow> ll_series vs p = Inr (outs (extreme_update (nat p) False) extreme_start vs)"
  by (simp add: ll_series_def rolling_extreme_def with_period_def validate_period_def extreme_loop_outs)

lemmas primitive_outs = ema_series_outs rma_series_outs sma_series_outs hh_series_outs ll_series_outs
lemmas network = outs_piped outs_alongside outs_beside outs_reading outs_giving
lemmas network_steps = piped_def alongside_def beside_def reading_def giving_def pairing_def

subsection \<open>Combining values that may be undefined\<close>

definition both :: "(pyfloat \<Rightarrow> pyfloat \<Rightarrow> pyfloat) \<Rightarrow> pyfloat \<Rightarrow> pyfloat \<Rightarrow> pyfloat" where
  "both f a b = (if is_nan a \<or> is_nan b then NaN else f a b)"

definition both2 :: "(pyfloat \<Rightarrow> pyfloat \<Rightarrow> pyfloat) \<Rightarrow> pyfloat \<times> pyfloat \<Rightarrow> pyfloat" where
  "both2 f ab = both f (fst ab) (snd ab)"

text \<open>\<open>safe_divide\<close> with a substitute that is not NaN never raises.\<close>

definition safe_quot :: "pyfloat \<Rightarrow> pyfloat \<Rightarrow> pyfloat \<Rightarrow> pyfloat" where
  "safe_quot numerator denominator on_zero =
     (case safe_divide numerator denominator on_zero of Inr q \<Rightarrow> q | Inl _ \<Rightarrow> NaN)"

lemma safe_divide_quot:
  "\<not> is_nan on_zero \<Longrightarrow> safe_divide a b on_zero = Inr (safe_quot a b on_zero)"
proof -
  assume z: "\<not> is_nan on_zero"
  have "\<exists>q. safe_divide a b on_zero = Inr q"
  proof (cases "is_nan a \<or> is_nan b \<or> feq b (Fin 0)")
    case False
    then have "\<exists>q. fdiv a b = Inr q" by (cases a; cases b) auto
    with False show ?thesis by (simp add: safe_divide_def)
  qed (use z in \<open>auto simp: safe_divide_def\<close>)
  then show ?thesis by (auto simp: safe_quot_def)
qed

definition percent :: "pyfloat \<Rightarrow> pyfloat \<Rightarrow> pyfloat" where
  "percent a b = fmul (Fin 100) (safe_quot a b (Fin 0))"

subsection \<open>MACD\<close>

definition macd_line :: "pyfloat list \<Rightarrow> int \<Rightarrow> int \<Rightarrow> pyfloat list res" where
  "macd_line vs fast_period slow_period =
     raise_if (fast_period \<le> 0 \<or> slow_period \<le> 0) (ValueError ''periods must be positive'')
     (raise_if (slow_period \<le> fast_period) (ValueError ''fast_period must be shorter than slow_period'')
     (bindR (ema_series vs fast_period) (\<lambda>fast.
      bindR (ema_series vs slow_period) (\<lambda>slow. Inr (map (both2 fsub) (zip fast slow))))))"

record macd_line_state =
  ml_fast :: average_value_state
  ml_slow :: average_value_state

definition macd_line_start :: macd_line_state where
  "macd_line_start = \<lparr>ml_fast = average_empty, ml_slow = average_empty\<rparr>"

definition make_macd_line :: "int \<Rightarrow> int \<Rightarrow> macd_line_state res" where
  "make_macd_line fast_period slow_period =
     raise_if (fast_period \<le> 0 \<or> slow_period \<le> 0) (ValueError ''periods must be positive'')
     (raise_if (slow_period \<le> fast_period) (ValueError ''fast_period must be shorter than slow_period'')
     (Inr macd_line_start))"

definition macd_line_update :: "nat \<Rightarrow> nat \<Rightarrow> macd_line_state \<Rightarrow> pyfloat \<Rightarrow> macd_line_state \<times> pyfloat" where
  "macd_line_update f sl s v =
     (case ema_update f (ml_fast s) v of (fast_state, fast) \<Rightarrow>
      case ema_update sl (ml_slow s) v of (slow_state, slow) \<Rightarrow>
        (\<lparr>ml_fast = fast_state, ml_slow = slow_state\<rparr>, both fsub fast slow))"

record macd_value =
  mv_macd :: pyfloat
  mv_signal :: pyfloat
  mv_histogram :: pyfloat

definition macd_value_of :: "pyfloat \<times> pyfloat \<Rightarrow> macd_value" where
  "macd_value_of ls = \<lparr>mv_macd = fst ls, mv_signal = snd ls, mv_histogram = both2 fsub ls\<rparr>"

definition macd_series :: "candle list \<Rightarrow> int \<Rightarrow> int \<Rightarrow> int \<Rightarrow> macd_value list res" where
  "macd_series cs fast_period slow_period signal_period =
     raise_if (signal_period \<le> 0) (ValueError ''periods must be positive'')
     (bindR (macd_line (map c_close cs) fast_period slow_period) (\<lambda>line.
      bindR (ema_series line signal_period) (\<lambda>signal. Inr (map macd_value_of (zip line signal)))))"

record macd_state =
  ma_line :: macd_line_state
  ma_signal :: average_value_state
  ma_value :: macd_value

definition undefined_macd :: macd_value where
  "undefined_macd = \<lparr>mv_macd = NaN, mv_signal = NaN, mv_histogram = NaN\<rparr>"

definition macd_start :: macd_state where
  "macd_start = \<lparr>ma_line = macd_line_start, ma_signal = average_empty, ma_value = undefined_macd\<rparr>"

definition make_macd :: "int \<Rightarrow> int \<Rightarrow> int \<Rightarrow> (macd_state \<times> int) res" where
  "make_macd fast_period slow_period signal_period =
     raise_if (signal_period \<le> 0) (ValueError ''periods must be positive'')
     (bindR (make_macd_line fast_period slow_period) (\<lambda>_. Inr (macd_start, slow_period + signal_period - 1)))"

definition macd_update :: "nat \<Rightarrow> nat \<Rightarrow> nat \<Rightarrow> macd_state \<Rightarrow> candle \<Rightarrow> macd_state \<times> macd_value" where
  "macd_update f sl sg s c =
     (case macd_line_update f sl (ma_line s) (c_close c) of (line_state, line) \<Rightarrow>
      case ema_update sg (ma_signal s) line of (signal_state, signal) \<Rightarrow>
        (let v = \<lparr>mv_macd = line, mv_signal = signal, mv_histogram = both fsub line signal\<rparr> in
         (\<lparr>ma_line = line_state, ma_signal = signal_state, ma_value = v\<rparr>, v)))"

definition macd_warmed_up :: "macd_state \<Rightarrow> bool" where
  "macd_warmed_up s \<longleftrightarrow> \<not> is_nan (mv_signal (ma_value s))"

definition macd_seed :: "nat \<Rightarrow> nat \<Rightarrow> nat \<Rightarrow> candle list \<Rightarrow> macd_state" where
  "macd_seed f sl sg cs = state_after (macd_update f sl sg) macd_start cs"

lemma macd_line_outs:
  assumes "0 < f" "f < sl"
  shows "macd_line vs f sl = Inr (outs (macd_line_update (nat f) (nat sl)) macd_line_start vs)"
  using assms
  by (simp add: macd_line_def primitive_outs network)
    (rule outs_projection [where proj = "\<lambda>s. (ml_fast s, ml_slow s)"];
      simp add: macd_line_start_def macd_line_update_def network_steps both2_def split: prod.split)

lemma macd_series_outs:
  assumes "0 < f" "f < sl" "0 < sg"
  shows "macd_series cs f sl sg = Inr (outs (macd_update (nat f) (nat sl) (nat sg)) macd_start cs)"
  using assms
  by (simp add: macd_series_def macd_line_outs primitive_outs network)
    (rule outs_projection [where proj = "\<lambda>s. (ma_line s, ma_signal s)"];
      simp add: macd_start_def macd_update_def network_steps macd_value_of_def both2_def Let_def split: prod.split)

subsection \<open>True Strength Index\<close>

definition close_change :: "pyfloat \<Rightarrow> candle \<Rightarrow> pyfloat" where
  "close_change previous c = fsub (c_close c) previous"

definition magnitude :: "pyfloat \<Rightarrow> pyfloat" where
  "magnitude change = (if is_nan change then NaN else fabs change)"

definition tsi_series :: "candle list \<Rightarrow> int \<Rightarrow> int \<Rightarrow> pyfloat list res" where
  "tsi_series cs long_period short_period =
     raise_if (long_period \<le> 0 \<or> short_period \<le> 0) (ValueError ''periods must be positive'')
     (let changes = close_paired close_change NaN cs in
      bindR (ema_series changes long_period) (\<lambda>first.
      bindR (ema_series first short_period) (\<lambda>smoothed.
      bindR (ema_series (map magnitude changes) long_period) (\<lambda>second.
      bindR (ema_series second short_period) (\<lambda>absolute.
      Inr (map (both2 percent) (zip smoothed absolute)))))))"

record tsi_state =
  ts_previous_close :: "pyfloat option"
  ts_change_long :: average_value_state
  ts_change_short :: average_value_state
  ts_magnitude_long :: average_value_state
  ts_magnitude_short :: average_value_state
  ts_value :: pyfloat

definition tsi_start :: tsi_state where
  "tsi_start = \<lparr>ts_previous_close = None, ts_change_long = average_empty, ts_change_short = average_empty,
     ts_magnitude_long = average_empty, ts_magnitude_short = average_empty, ts_value = NaN\<rparr>"

definition make_tsi :: "int \<Rightarrow> int \<Rightarrow> (tsi_state \<times> int) res" where
  "make_tsi long_period short_period =
     raise_if (long_period \<le> 0 \<or> short_period \<le> 0) (ValueError ''periods must be positive'')
       (Inr (tsi_start, 1 + long_period + short_period - 1))"

definition tsi_update :: "nat \<Rightarrow> nat \<Rightarrow> tsi_state \<Rightarrow> candle \<Rightarrow> tsi_state \<times> pyfloat" where
  "tsi_update l sh s c =
     (let change = (case ts_previous_close s of None \<Rightarrow> NaN | Some p \<Rightarrow> close_change p c) in
      case ema_update l (ts_change_long s) change of (change_long, x) \<Rightarrow>
      case ema_update sh (ts_change_short s) x of (change_short, smoothed) \<Rightarrow>
      case ema_update l (ts_magnitude_long s) (magnitude change) of (magnitude_long, y) \<Rightarrow>
      case ema_update sh (ts_magnitude_short s) y of (magnitude_short, absolute) \<Rightarrow>
        (let v = both percent smoothed absolute in
         (\<lparr>ts_previous_close = Some (c_close c), ts_change_long = change_long, ts_change_short = change_short,
           ts_magnitude_long = magnitude_long, ts_magnitude_short = magnitude_short, ts_value = v\<rparr>, v)))"

definition tsi_warmed_up :: "tsi_state \<Rightarrow> bool" where
  "tsi_warmed_up s \<longleftrightarrow> \<not> is_nan (ts_value s)"

definition tsi_seed :: "nat \<Rightarrow> nat \<Rightarrow> candle list \<Rightarrow> tsi_state" where
  "tsi_seed l sh cs = state_after (tsi_update l sh) tsi_start cs"

lemma tsi_series_outs:
  assumes "0 < l" "0 < sh" "cs \<noteq> []"
  shows "tsi_series cs l sh = Inr (outs (tsi_update (nat l) (nat sh)) tsi_start cs)"
  using assms
  by (simp add: tsi_series_def close_paired_outs primitive_outs network Let_def)
    (rule outs_projection [where proj = "\<lambda>s. (ts_previous_close s, (ts_change_long s, ts_change_short s),
        (ts_magnitude_long s, ts_magnitude_short s))"];
      simp add: tsi_start_def tsi_update_def network_steps both2_def Let_def split: prod.split)

subsection \<open>Awesome and accelerator oscillator\<close>

definition median_price :: "candle \<Rightarrow> pyfloat" where
  "median_price c = fquot (fadd (c_high c) (c_low c)) (Fin 2)"

definition awesome_series :: "candle list \<Rightarrow> int \<Rightarrow> int \<Rightarrow> pyfloat list res" where
  "awesome_series cs fast_period slow_period =
     raise_if (fast_period \<le> 0 \<or> slow_period \<le> 0) (ValueError ''periods must be positive'')
     (raise_if (slow_period \<le> fast_period) (ValueError ''fast_period must be shorter than slow_period'')
     (bindR (sma_series (hl2 cs) fast_period) (\<lambda>fast.
      bindR (sma_series (hl2 cs) slow_period) (\<lambda>slow. Inr (map (both2 fsub) (zip fast slow))))))"

record awesome_state =
  ao_fast :: sma_state
  ao_slow :: sma_state

definition awesome_start :: awesome_state where
  "awesome_start = \<lparr>ao_fast = sma_start, ao_slow = sma_start\<rparr>"

definition make_awesome :: "int \<Rightarrow> int \<Rightarrow> (awesome_state \<times> int) res" where
  "make_awesome fast_period slow_period =
     raise_if (fast_period \<le> 0 \<or> slow_period \<le> 0) (ValueError ''periods must be positive'')
     (raise_if (slow_period \<le> fast_period) (ValueError ''fast_period must be shorter than slow_period'')
     (Inr (awesome_start, slow_period)))"

definition awesome_update :: "nat \<Rightarrow> nat \<Rightarrow> awesome_state \<Rightarrow> candle \<Rightarrow> awesome_state \<times> pyfloat" where
  "awesome_update f sl s c =
     (case sma_update f (ao_fast s) (median_price c) of (fast_state, fast) \<Rightarrow>
      case sma_update sl (ao_slow s) (median_price c) of (slow_state, slow) \<Rightarrow>
        (\<lparr>ao_fast = fast_state, ao_slow = slow_state\<rparr>, both fsub fast slow))"

definition awesome_current :: "nat \<Rightarrow> nat \<Rightarrow> awesome_state \<Rightarrow> pyfloat" where
  "awesome_current f sl s = both fsub (sma_current f (ao_fast s)) (sma_current sl (ao_slow s))"

definition awesome_warmed_up :: "nat \<Rightarrow> awesome_state \<Rightarrow> bool" where
  "awesome_warmed_up sl s \<longleftrightarrow> sma_warmed_up sl (ao_slow s)"

definition awesome_seed :: "nat \<Rightarrow> nat \<Rightarrow> candle list \<Rightarrow> awesome_state" where
  "awesome_seed f sl cs = state_after (awesome_update f sl) awesome_start cs"

lemma hl2_median: "hl2 cs = map median_price cs"
  by (simp add: hl2_def median_price_def)

lemma awesome_series_outs:
  assumes "0 < f" "f < sl"
  shows "awesome_series cs f sl = Inr (outs (awesome_update (nat f) (nat sl)) awesome_start cs)"
  using assms
  by (simp add: awesome_series_def hl2_median primitive_outs network)
    (rule outs_projection [where proj = "\<lambda>s. (ao_fast s, ao_slow s)"];
      simp add: awesome_start_def awesome_update_def network_steps both2_def split: prod.split)

definition accelerator_series :: "candle list \<Rightarrow> int \<Rightarrow> int \<Rightarrow> int \<Rightarrow> pyfloat list res" where
  "accelerator_series cs fast_period slow_period smooth_period =
     raise_if (smooth_period \<le> 0) (ValueError ''smooth_period must be positive'')
     (bindR (awesome_series cs fast_period slow_period) (\<lambda>oscillator.
      bindR (sma_series oscillator smooth_period) (\<lambda>smoothed.
      Inr (map (both2 fsub) (zip oscillator smoothed)))))"

record accelerator_state =
  ac_oscillator :: awesome_state
  ac_smoothed :: sma_state
  ac_value :: pyfloat

definition accelerator_start :: accelerator_state where
  "accelerator_start = \<lparr>ac_oscillator = awesome_start, ac_smoothed = sma_start, ac_value = NaN\<rparr>"

definition make_accelerator :: "int \<Rightarrow> int \<Rightarrow> int \<Rightarrow> (accelerator_state \<times> int) res" where
  "make_accelerator fast_period slow_period smooth_period =
     raise_if (smooth_period \<le> 0) (ValueError ''smooth_period must be positive'')
     (bindR (make_awesome fast_period slow_period) (\<lambda>(_, history).
      Inr (accelerator_start, history + smooth_period - 1)))"

definition accelerator_update ::
    "nat \<Rightarrow> nat \<Rightarrow> nat \<Rightarrow> accelerator_state \<Rightarrow> candle \<Rightarrow> accelerator_state \<times> pyfloat" where
  "accelerator_update f sl sm s c =
     (case awesome_update f sl (ac_oscillator s) c of (oscillator_state, oscillator) \<Rightarrow>
      case sma_update sm (ac_smoothed s) oscillator of (smoothed_state, average) \<Rightarrow>
        (let v = both fsub oscillator average in
         (\<lparr>ac_oscillator = oscillator_state, ac_smoothed = smoothed_state, ac_value = v\<rparr>, v)))"

definition accelerator_warmed_up :: "accelerator_state \<Rightarrow> bool" where
  "accelerator_warmed_up s \<longleftrightarrow> \<not> is_nan (ac_value s)"

definition accelerator_seed :: "nat \<Rightarrow> nat \<Rightarrow> nat \<Rightarrow> candle list \<Rightarrow> accelerator_state" where
  "accelerator_seed f sl sm cs = state_after (accelerator_update f sl sm) accelerator_start cs"

lemma accelerator_series_outs:
  assumes "0 < f" "f < sl" "0 < sm"
  shows "accelerator_series cs f sl sm = Inr (outs (accelerator_update (nat f) (nat sl) (nat sm)) accelerator_start cs)"
  using assms
  by (simp add: accelerator_series_def awesome_series_outs primitive_outs network)
    (rule outs_projection [where proj = "\<lambda>s. (ac_oscillator s, ac_smoothed s)"];
      simp add: accelerator_start_def accelerator_update_def network_steps both2_def Let_def split: prod.split)

subsection \<open>Percentage price oscillator\<close>

definition ppo_of :: "pyfloat \<Rightarrow> pyfloat \<Rightarrow> pyfloat" where
  "ppo_of fast slow = percent (fsub fast slow) slow"

record ppo_value =
  pv_ppo :: pyfloat
  pv_signal :: pyfloat
  pv_histogram :: pyfloat

definition ppo_value_of :: "pyfloat \<times> pyfloat \<Rightarrow> ppo_value" where
  "ppo_value_of ls = \<lparr>pv_ppo = fst ls, pv_signal = snd ls, pv_histogram = both2 fsub ls\<rparr>"

definition ppo_series :: "candle list \<Rightarrow> int \<Rightarrow> int \<Rightarrow> int \<Rightarrow> ppo_value list res" where
  "ppo_series cs fast_period slow_period signal_period =
     raise_if (fast_period \<le> 0 \<or> slow_period \<le> 0 \<or> signal_period \<le> 0) (ValueError ''periods must be positive'')
     (raise_if (slow_period \<le> fast_period) (ValueError ''fast_period must be shorter than slow_period'')
     (let closes = map c_close cs in
      bindR (ema_series closes fast_period) (\<lambda>fast.
      bindR (ema_series closes slow_period) (\<lambda>slow.
      (let line = map (both2 ppo_of) (zip fast slow) in
       bindR (ema_series line signal_period) (\<lambda>signal. Inr (map ppo_value_of (zip line signal))))))))"

record ppo_state =
  pp_fast :: average_value_state
  pp_slow :: average_value_state
  pp_signal :: average_value_state
  pp_value :: ppo_value

definition ppo_start :: ppo_state where
  "ppo_start = \<lparr>pp_fast = average_empty, pp_slow = average_empty, pp_signal = average_empty,
     pp_value = \<lparr>pv_ppo = NaN, pv_signal = NaN, pv_histogram = NaN\<rparr>\<rparr>"

definition make_ppo :: "int \<Rightarrow> int \<Rightarrow> int \<Rightarrow> (ppo_state \<times> int) res" where
  "make_ppo fast_period slow_period signal_period =
     raise_if (fast_period \<le> 0 \<or> slow_period \<le> 0 \<or> signal_period \<le> 0) (ValueError ''periods must be positive'')
     (raise_if (slow_period \<le> fast_period) (ValueError ''fast_period must be shorter than slow_period'')
     (Inr (ppo_start, slow_period + signal_period - 1)))"

definition ppo_update :: "nat \<Rightarrow> nat \<Rightarrow> nat \<Rightarrow> ppo_state \<Rightarrow> candle \<Rightarrow> ppo_state \<times> ppo_value" where
  "ppo_update f sl sg s c =
     (case ema_update f (pp_fast s) (c_close c) of (fast_state, fast) \<Rightarrow>
      case ema_update sl (pp_slow s) (c_close c) of (slow_state, slow) \<Rightarrow>
      (let line = both ppo_of fast slow in
       case ema_update sg (pp_signal s) line of (signal_state, signal) \<Rightarrow>
         (let v = \<lparr>pv_ppo = line, pv_signal = signal, pv_histogram = both fsub line signal\<rparr> in
          (\<lparr>pp_fast = fast_state, pp_slow = slow_state, pp_signal = signal_state, pp_value = v\<rparr>, v))))"

definition ppo_warmed_up :: "ppo_state \<Rightarrow> bool" where
  "ppo_warmed_up s \<longleftrightarrow> \<not> is_nan (pv_signal (pp_value s))"

definition ppo_seed :: "nat \<Rightarrow> nat \<Rightarrow> nat \<Rightarrow> candle list \<Rightarrow> ppo_state" where
  "ppo_seed f sl sg cs = state_after (ppo_update f sl sg) ppo_start cs"

lemma ppo_series_outs:
  assumes "0 < f" "f < sl" "0 < sg"
  shows "ppo_series cs f sl sg = Inr (outs (ppo_update (nat f) (nat sl) (nat sg)) ppo_start cs)"
  using assms
  by (simp add: ppo_series_def primitive_outs network Let_def)
    (rule outs_projection [where proj = "\<lambda>s. ((pp_fast s, pp_slow s), pp_signal s)"];
      simp add: ppo_start_def ppo_update_def network_steps both2_def ppo_value_of_def Let_def split: prod.split)

end
