(* ===== verification/MomentumBalances.thy ===== *)
theory MomentumBalances
  imports Momentum
begin

section \<open>Momentum indicators that weigh averages against each other\<close>

text \<open>
  The absolute price oscillator, QStick, balance of power, intraday momentum, Chande momentum,
  TRIX and the ultimate oscillator of core_lib/indicators/momentum.py, batch and state.
\<close>

subsection \<open>Absolute price oscillator\<close>

text \<open>The dictionaries from the name of a moving average to its series and to its state class.\<close>

datatype moving_average_state = SmaAverage sma_state | EmaAverage average_value_state | RmaAverage average_value_state

definition apo_moving_averages :: "string \<Rightarrow> (pyfloat list \<Rightarrow> int \<Rightarrow> pyfloat list res) option" where
  "apo_moving_averages name =
     map_of [(''sma'', sma_series), (''ema'', ema_series), (''rma'', rma_series)] name"

definition apo_moving_average_states :: "string \<Rightarrow> moving_average_state option" where
  "apo_moving_average_states name =
     map_of [(''sma'', SmaAverage sma_start), (''ema'', EmaAverage average_empty),
       (''rma'', RmaAverage average_empty)] name"

fun moving_average_update :: "nat \<Rightarrow> moving_average_state \<Rightarrow> pyfloat \<Rightarrow> moving_average_state \<times> pyfloat" where
  "moving_average_update n (SmaAverage s) v = (case sma_update n s v of (s', y) \<Rightarrow> (SmaAverage s', y))"
| "moving_average_update n (EmaAverage s) v = (case ema_update n s v of (s', y) \<Rightarrow> (EmaAverage s', y))"
| "moving_average_update n (RmaAverage s) v = (case rma_update n s v of (s', y) \<Rightarrow> (RmaAverage s', y))"

definition validate_apo :: "int \<Rightarrow> int \<Rightarrow> string \<Rightarrow> unit res" where
  "validate_apo fast_period slow_period moving_average =
     raise_if (fast_period \<le> 0 \<or> slow_period \<le> 0) (ValueError ''periods must be positive'')
     (raise_if (slow_period \<le> fast_period) (ValueError ''fast_period must be shorter than slow_period'')
     (raise_if (apo_moving_averages moving_average = None) (ValueError ''unsupported moving average'')
     (Inr ())))"

definition apo_series :: "candle list \<Rightarrow> int \<Rightarrow> int \<Rightarrow> string \<Rightarrow> pyfloat list res" where
  "apo_series cs fast_period slow_period moving_average =
     bindR (validate_apo fast_period slow_period moving_average) (\<lambda>_.
     case apo_moving_averages moving_average of
       None \<Rightarrow> Inl (KeyError moving_average)
     | Some average \<Rightarrow>
         (let closes = map c_close cs in
          bindR (average closes fast_period) (\<lambda>fast.
          bindR (average closes slow_period) (\<lambda>slow. Inr (map (both2 fsub) (zip fast slow))))))"

record apo_state =
  ap_fast :: moving_average_state
  ap_slow :: moving_average_state
  ap_value :: pyfloat

definition apo_start :: "moving_average_state \<Rightarrow> apo_state" where
  "apo_start fresh = \<lparr>ap_fast = fresh, ap_slow = fresh, ap_value = NaN\<rparr>"

definition make_apo :: "int \<Rightarrow> int \<Rightarrow> string \<Rightarrow> (apo_state \<times> int) res" where
  "make_apo fast_period slow_period moving_average =
     bindR (validate_apo fast_period slow_period moving_average) (\<lambda>_.
     case apo_moving_average_states moving_average of
       None \<Rightarrow> Inl (KeyError moving_average)
     | Some fresh \<Rightarrow> Inr (apo_start fresh, slow_period))"

definition apo_update :: "nat \<Rightarrow> nat \<Rightarrow> apo_state \<Rightarrow> candle \<Rightarrow> apo_state \<times> pyfloat" where
  "apo_update f sl s c =
     (case moving_average_update f (ap_fast s) (c_close c) of (fast_state, fast) \<Rightarrow>
      case moving_average_update sl (ap_slow s) (c_close c) of (slow_state, slow) \<Rightarrow>
        (let v = both fsub fast slow in
         (\<lparr>ap_fast = fast_state, ap_slow = slow_state, ap_value = v\<rparr>, v)))"

definition apo_warmed_up :: "apo_state \<Rightarrow> bool" where
  "apo_warmed_up s \<longleftrightarrow> \<not> is_nan (ap_value s)"

definition apo_seed :: "nat \<Rightarrow> nat \<Rightarrow> moving_average_state \<Rightarrow> candle list \<Rightarrow> apo_state" where
  "apo_seed f sl fresh cs = state_after (apo_update f sl) (apo_start fresh) cs"

lemma moving_average_outs:
  "outs (sma_update n) s vs = outs (moving_average_update n) (SmaAverage s) vs"
  "outs (ema_update n) t vs = outs (moving_average_update n) (EmaAverage t) vs"
  "outs (rma_update n) t vs = outs (moving_average_update n) (RmaAverage t) vs"
  by (induction vs arbitrary: s t) (auto split: prod.split)

lemma apo_series_outs:
  assumes "0 < f" "f < sl" "apo_moving_average_states name = Some fresh"
  shows "apo_series cs f sl name = Inr (outs (apo_update (nat f) (nat sl)) (apo_start fresh) cs)"
proof -
  obtain average where "apo_moving_averages name = Some average"
      "average (map c_close cs) f = Inr (outs (moving_average_update (nat f)) fresh (map c_close cs))"
      "average (map c_close cs) sl = Inr (outs (moving_average_update (nat sl)) fresh (map c_close cs))"
    using assms
    by (auto simp: apo_moving_averages_def apo_moving_average_states_def primitive_outs moving_average_outs
        split: if_splits)
  with assms(1,2) show ?thesis
    by (simp add: apo_series_def validate_apo_def network)
      (rule outs_projection [where proj = "\<lambda>s. (ap_fast s, ap_slow s)"];
        simp add: apo_start_def apo_update_def network_steps both2_def Let_def split: prod.split)
qed

subsection \<open>QStick and balance of power\<close>

definition candle_move :: "candle \<Rightarrow> pyfloat" where
  "candle_move c = fsub (c_close c) (c_open c)"

definition qstick_series :: "candle list \<Rightarrow> int \<Rightarrow> pyfloat list res" where
  "qstick_series cs period = sma_series (map candle_move cs) period"

definition make_qstick :: "int \<Rightarrow> (sma_state \<times> int) res" where
  "make_qstick period = bindR (validate_period period) (\<lambda>_. Inr (sma_start, period))"

definition qstick_update :: "nat \<Rightarrow> sma_state \<Rightarrow> candle \<Rightarrow> sma_state \<times> pyfloat" where
  "qstick_update n s c = sma_update n s (candle_move c)"

definition qstick_seed :: "nat \<Rightarrow> candle list \<Rightarrow> sma_state" where
  "qstick_seed n cs = state_after (qstick_update n) sma_start cs"

lemma qstick_series_outs:
  assumes "0 < p" shows "qstick_series cs p = Inr (outs (qstick_update (nat p)) sma_start cs)"
  using assms
  by (simp add: qstick_series_def primitive_outs network)
    (rule outs_projection [where proj = "\<lambda>s. s"]; simp add: qstick_update_def network_steps split: prod.split)

definition bop_raw :: "candle \<Rightarrow> pyfloat" where
  "bop_raw c = safe_quot (candle_move c) (fsub (c_high c) (c_low c)) (Fin 0)"

definition bop_series :: "candle list \<Rightarrow> int \<Rightarrow> pyfloat list res" where
  "bop_series cs period =
     raise_if (period \<le> 0) (ValueError ''period must be positive'') (sma_series (map bop_raw cs) period)"

record bop_state =
  bp_smoothed :: sma_state
  bp_value :: pyfloat

definition bop_start :: bop_state where
  "bop_start = \<lparr>bp_smoothed = sma_start, bp_value = NaN\<rparr>"

definition make_bop :: "int \<Rightarrow> (bop_state \<times> int) res" where
  "make_bop period =
     raise_if (period \<le> 0) (ValueError ''period must be positive'') (Inr (bop_start, period))"

definition bop_update :: "nat \<Rightarrow> bop_state \<Rightarrow> candle \<Rightarrow> bop_state \<times> pyfloat" where
  "bop_update n s c =
     (case sma_update n (bp_smoothed s) (bop_raw c) of (smoothed, v) \<Rightarrow>
        (\<lparr>bp_smoothed = smoothed, bp_value = v\<rparr>, v))"

definition bop_warmed_up :: "bop_state \<Rightarrow> bool" where
  "bop_warmed_up s \<longleftrightarrow> \<not> is_nan (bp_value s)"

definition bop_seed :: "nat \<Rightarrow> candle list \<Rightarrow> bop_state" where
  "bop_seed n cs = state_after (bop_update n) bop_start cs"

lemma bop_series_outs:
  assumes "0 < p" shows "bop_series cs p = Inr (outs (bop_update (nat p)) bop_start cs)"
  using assms
  by (simp add: bop_series_def primitive_outs network)
    (rule outs_projection [where proj = bp_smoothed];
      simp add: bop_start_def bop_update_def network_steps split: prod.split)

subsection \<open>Intraday momentum\<close>

definition imi_value :: "pyfloat \<Rightarrow> pyfloat \<Rightarrow> pyfloat" where
  "imi_value up down =
     (if is_nan up \<or> is_nan down then NaN
      else if feq down (Fin 0) \<and> flt (Fin 0) up then Fin 100
      else if feq up (Fin 0) \<and> flt (Fin 0) down then Fin 0
      else safe_quot (fmul (Fin 100) up) (fadd up down) (Fin 50))"

definition bar_gain :: "candle \<Rightarrow> pyfloat" where
  "bar_gain c = fmax (fsub (c_close c) (c_open c)) (Fin 0)"

definition bar_loss :: "candle \<Rightarrow> pyfloat" where
  "bar_loss c = fmax (fsub (c_open c) (c_close c)) (Fin 0)"

definition imi_series :: "candle list \<Rightarrow> int \<Rightarrow> pyfloat list res" where
  "imi_series cs period =
     raise_if (period \<le> 0) (ValueError ''period must be positive'')
     (bindR (sma_series (map bar_gain cs) period) (\<lambda>up.
      bindR (sma_series (map bar_loss cs) period) (\<lambda>down. Inr (map (\<lambda>(u, d). imi_value u d) (zip up down)))))"

record imi_state =
  im_gains :: sma_state
  im_losses :: sma_state
  im_value :: pyfloat

definition imi_start :: imi_state where
  "imi_start = \<lparr>im_gains = sma_start, im_losses = sma_start, im_value = NaN\<rparr>"

definition make_imi :: "int \<Rightarrow> (imi_state \<times> int) res" where
  "make_imi period =
     raise_if (period \<le> 0) (ValueError ''period must be positive'') (Inr (imi_start, period))"

definition imi_update :: "nat \<Rightarrow> imi_state \<Rightarrow> candle \<Rightarrow> imi_state \<times> pyfloat" where
  "imi_update n s c =
     (case sma_update n (im_gains s) (bar_gain c) of (gains, up) \<Rightarrow>
      case sma_update n (im_losses s) (bar_loss c) of (losses, down) \<Rightarrow>
        (let v = imi_value up down in (\<lparr>im_gains = gains, im_losses = losses, im_value = v\<rparr>, v)))"

definition imi_warmed_up :: "imi_state \<Rightarrow> bool" where
  "imi_warmed_up s \<longleftrightarrow> \<not> is_nan (im_value s)"

definition imi_seed :: "nat \<Rightarrow> candle list \<Rightarrow> imi_state" where
  "imi_seed n cs = state_after (imi_update n) imi_start cs"

lemma imi_series_outs:
  assumes "0 < p" shows "imi_series cs p = Inr (outs (imi_update (nat p)) imi_start cs)"
  using assms
  by (simp add: imi_series_def primitive_outs network)
    (rule outs_projection [where proj = "\<lambda>s. (im_gains s, im_losses s)"];
      simp add: imi_start_def imi_update_def network_steps Let_def split: prod.split)

subsection \<open>Chande momentum\<close>

definition close_gain :: "pyfloat \<Rightarrow> candle \<Rightarrow> pyfloat" where
  "close_gain previous c = fmax (fsub (c_close c) previous) (Fin 0)"

definition close_loss :: "pyfloat \<Rightarrow> candle \<Rightarrow> pyfloat" where
  "close_loss previous c = fmax (fneg (fsub (c_close c) previous)) (Fin 0)"

definition cmo_value :: "pyfloat \<Rightarrow> pyfloat \<Rightarrow> pyfloat" where
  "cmo_value up down = percent (fsub up down) (fadd up down)"

definition cmo_series :: "candle list \<Rightarrow> int \<Rightarrow> pyfloat list res" where
  "cmo_series cs period =
     raise_if (period \<le> 0) (ValueError ''period must be positive'')
     (bindR (sma_series (close_paired close_gain NaN cs) period) (\<lambda>up.
      bindR (sma_series (close_paired close_loss NaN cs) period) (\<lambda>down.
      Inr (map (both2 cmo_value) (zip up down)))))"

record cmo_state =
  cm_previous_close :: "pyfloat option"
  cm_gains :: sma_state
  cm_losses :: sma_state
  cm_value :: pyfloat

definition cmo_start :: cmo_state where
  "cmo_start = \<lparr>cm_previous_close = None, cm_gains = sma_start, cm_losses = sma_start, cm_value = NaN\<rparr>"

definition make_cmo :: "int \<Rightarrow> (cmo_state \<times> int) res" where
  "make_cmo period =
     raise_if (period \<le> 0) (ValueError ''period must be positive'') (Inr (cmo_start, period + 1))"

definition cmo_update :: "nat \<Rightarrow> cmo_state \<Rightarrow> candle \<Rightarrow> cmo_state \<times> pyfloat" where
  "cmo_update n s c =
     (case cm_previous_close s of
        None \<Rightarrow>
          (\<lparr>cm_previous_close = Some (c_close c), cm_gains = fst (sma_update n (cm_gains s) NaN),
            cm_losses = fst (sma_update n (cm_losses s) NaN), cm_value = NaN\<rparr>, NaN)
      | Some previous \<Rightarrow>
          (case sma_update n (cm_gains s) (close_gain previous c) of (gains, up) \<Rightarrow>
           case sma_update n (cm_losses s) (close_loss previous c) of (losses, down) \<Rightarrow>
             (let v = both cmo_value up down in
              (\<lparr>cm_previous_close = Some (c_close c), cm_gains = gains, cm_losses = losses, cm_value = v\<rparr>, v))))"

definition cmo_warmed_up :: "cmo_state \<Rightarrow> bool" where
  "cmo_warmed_up s \<longleftrightarrow> \<not> is_nan (cm_value s)"

definition cmo_seed :: "nat \<Rightarrow> candle list \<Rightarrow> cmo_state" where
  "cmo_seed n cs = state_after (cmo_update n) cmo_start cs"

definition cmo_loop :: "nat \<Rightarrow> (pyfloat option \<times> sma_state) \<times> (pyfloat option \<times> sma_state) \<Rightarrow> candle \<Rightarrow>
    ((pyfloat option \<times> sma_state) \<times> (pyfloat option \<times> sma_state)) \<times> pyfloat" where
  "cmo_loop n = giving (both2 cmo_value) (beside (piped (pairing c_close close_gain NaN) (sma_update n))
     (piped (pairing c_close close_loss NaN) (sma_update n)))"

definition cmo_matches :: "(pyfloat option \<times> sma_state) \<times> (pyfloat option \<times> sma_state) \<Rightarrow> cmo_state \<Rightarrow> bool" where
  "cmo_matches t s \<longleftrightarrow> t = ((cm_previous_close s, cm_gains s), (cm_previous_close s, cm_losses s)) \<and>
     (cm_previous_close s = None \<longrightarrow> cm_gains s = sma_start \<and> cm_losses s = sma_start)"

lemma sma_start_nan: "0 < n \<Longrightarrow> snd (sma_update n sma_start NaN) = NaN"
  by (simp add: sma_start_def sma_update_def sma_current_def sma_warmed_up_def)

lemma cmo_step:
  "0 < n \<Longrightarrow> cmo_matches t s \<Longrightarrow> cmo_matches (fst (cmo_loop n t c)) (fst (cmo_update n s c)) \<and>
     snd (cmo_loop n t c) = snd (cmo_update n s c)"
  using sma_start_nan [of n]
  by (cases "cm_previous_close s")
    (auto simp: cmo_matches_def cmo_loop_def cmo_update_def network_steps both2_def both_def Let_def
      split: prod.splits)

lemma cmo_series_outs:
  assumes "0 < p" "cs \<noteq> []" shows "cmo_series cs p = Inr (outs (cmo_update (nat p)) cmo_start cs)"
proof -
  have "cmo_series cs p = Inr (outs (cmo_loop (nat p)) ((None, sma_start), (None, sma_start)) cs)"
    using assms by (simp add: cmo_series_def cmo_loop_def close_paired_outs primitive_outs network)
  also have "outs (cmo_loop (nat p)) ((None, sma_start), (None, sma_start)) cs = outs (cmo_update (nat p)) cmo_start cs"
    using assms(1) by (intro outs_simulation [where R = cmo_matches] cmo_step) (simp_all add: cmo_matches_def cmo_start_def)
  finally show ?thesis .
qed

subsection \<open>TRIX\<close>

definition trix_change :: "pyfloat \<Rightarrow> pyfloat \<Rightarrow> pyfloat" where
  "trix_change previous current = both (\<lambda>p c. percent (fsub c p) p) previous current"

definition trix_series :: "candle list \<Rightarrow> int \<Rightarrow> pyfloat list res" where
  "trix_series cs period =
     raise_if (period \<le> 0) (ValueError ''period must be positive'')
     (bindR (ema_series (map c_close cs) period) (\<lambda>first.
      bindR (ema_series first period) (\<lambda>second.
      bindR (ema_series second period) (\<lambda>third. Inr (paired trix_change NaN third)))))"

record trix_state =
  tx_first :: average_value_state
  tx_second :: average_value_state
  tx_third :: average_value_state
  tx_previous :: pyfloat
  tx_value :: pyfloat

definition trix_start :: trix_state where
  "trix_start = \<lparr>tx_first = average_empty, tx_second = average_empty, tx_third = average_empty,
     tx_previous = NaN, tx_value = NaN\<rparr>"

definition make_trix :: "int \<Rightarrow> (trix_state \<times> int) res" where
  "make_trix period =
     raise_if (period \<le> 0) (ValueError ''period must be positive'') (Inr (trix_start, 3 * period - 1))"

definition trix_update :: "nat \<Rightarrow> trix_state \<Rightarrow> candle \<Rightarrow> trix_state \<times> pyfloat" where
  "trix_update n s c =
     (case ema_update n (tx_first s) (c_close c) of (first_state, x) \<Rightarrow>
      case ema_update n (tx_second s) x of (second_state, y) \<Rightarrow>
      case ema_update n (tx_third s) y of (third_state, third) \<Rightarrow>
        (let v = trix_change (tx_previous s) third in
         (\<lparr>tx_first = first_state, tx_second = second_state, tx_third = third_state,
           tx_previous = third, tx_value = v\<rparr>, v)))"

definition trix_warmed_up :: "trix_state \<Rightarrow> bool" where
  "trix_warmed_up s \<longleftrightarrow> \<not> is_nan (tx_value s)"

definition trix_seed :: "nat \<Rightarrow> candle list \<Rightarrow> trix_state" where
  "trix_seed n cs = state_after (trix_update n) trix_start cs"

lemma outs_not_Nil: "xs \<noteq> [] \<Longrightarrow> outs f s xs \<noteq> []"
  by (cases xs) (auto split: prod.split)

lemma trix_series_outs:
  assumes "0 < p" "cs \<noteq> []" shows "trix_series cs p = Inr (outs (trix_update (nat p)) trix_start cs)"
  using assms
  by (simp add: trix_series_def primitive_outs outs_not_Nil paired_nan_outs trix_change_def both_def [abs_def] network)
    (rule outs_projection [where proj = "\<lambda>s. ((tx_first s, (tx_second s, tx_third s)), tx_previous s)"];
      simp add: trix_start_def trix_update_def trix_change_def both_def network_steps Let_def split: prod.split)

end
