(* ===== verification/MomentumRanges.thy ===== *)
theory MomentumRanges
  imports MomentumBalances
begin

section \<open>Momentum indicators over rolling ranges\<close>

text \<open>
  The stochastic momentum index, Williams %R and the ultimate oscillator of
  core_lib/indicators/momentum.py, batch and state.
\<close>

subsection \<open>Stochastic momentum index\<close>

definition smi_distance :: "pyfloat \<Rightarrow> pyfloat \<Rightarrow> pyfloat \<Rightarrow> pyfloat" where
  "smi_distance close high low =
     (if is_nan high \<or> is_nan low then NaN else fsub close (fquot (fadd high low) (Fin 2)))"

definition smi_range :: "pyfloat \<Rightarrow> pyfloat \<Rightarrow> pyfloat" where
  "smi_range high low = (if is_nan high \<or> is_nan low then NaN else fquot (fsub high low) (Fin 2))"

record smi_value =
  si_smi :: pyfloat
  si_signal :: pyfloat

definition smi_value_of :: "pyfloat \<times> pyfloat \<Rightarrow> smi_value" where
  "smi_value_of ls = \<lparr>si_smi = fst ls, si_signal = snd ls\<rparr>"

definition smi_series :: "candle list \<Rightarrow> int \<Rightarrow> int \<Rightarrow> int \<Rightarrow> int \<Rightarrow> smi_value list res" where
  "smi_series cs period long_period short_period signal_period =
     raise_if (min (min (min period long_period) short_period) signal_period \<le> 0)
       (ValueError ''periods must be positive'')
     (bindR (hh_series (map c_high cs) period) (\<lambda>highest.
      bindR (ll_series (map c_low cs) period) (\<lambda>lowest.
      (let bars = zip cs (zip highest lowest);
           distances = map (\<lambda>(c, high, low). smi_distance (c_close c) high low) bars;
           ranges = map (\<lambda>(c, high, low). smi_range high low) bars
       in
       bindR (ema_series distances long_period) (\<lambda>first.
       bindR (ema_series first short_period) (\<lambda>smoothed.
       bindR (ema_series ranges long_period) (\<lambda>second.
       bindR (ema_series second short_period) (\<lambda>smoothed_range.
       (let line = map (both2 percent) (zip smoothed smoothed_range) in
        bindR (ema_series line signal_period) (\<lambda>signal. Inr (map smi_value_of (zip line signal))))))))))))"

record smi_state =
  sm_highest :: extreme_state
  sm_lowest :: extreme_state
  sm_distance_long :: average_value_state
  sm_distance_short :: average_value_state
  sm_range_long :: average_value_state
  sm_range_short :: average_value_state
  sm_signal :: average_value_state
  sm_value :: smi_value

definition smi_start :: smi_state where
  "smi_start = \<lparr>sm_highest = extreme_start, sm_lowest = extreme_start,
     sm_distance_long = average_empty, sm_distance_short = average_empty,
     sm_range_long = average_empty, sm_range_short = average_empty, sm_signal = average_empty,
     sm_value = \<lparr>si_smi = NaN, si_signal = NaN\<rparr>\<rparr>"

definition make_smi :: "int \<Rightarrow> int \<Rightarrow> int \<Rightarrow> int \<Rightarrow> (smi_state \<times> int) res" where
  "make_smi period long_period short_period signal_period =
     raise_if (min (min (min period long_period) short_period) signal_period \<le> 0)
       (ValueError ''periods must be positive'')
       (Inr (smi_start, period + long_period + short_period + signal_period - 3))"

definition smi_update :: "nat \<Rightarrow> nat \<Rightarrow> nat \<Rightarrow> nat \<Rightarrow> smi_state \<Rightarrow> candle \<Rightarrow> smi_state \<times> smi_value" where
  "smi_update n l sh sg s c =
     (case extreme_update n True (sm_highest s) (c_high c) of (highest_state, highest) \<Rightarrow>
      case extreme_update n False (sm_lowest s) (c_low c) of (lowest_state, lowest) \<Rightarrow>
      case ema_update l (sm_distance_long s) (smi_distance (c_close c) highest lowest) of (distance_long, x) \<Rightarrow>
      case ema_update sh (sm_distance_short s) x of (distance_short, smoothed) \<Rightarrow>
      case ema_update l (sm_range_long s) (smi_range highest lowest) of (range_long, y) \<Rightarrow>
      case ema_update sh (sm_range_short s) y of (range_short, smoothed_range) \<Rightarrow>
      (let line = both percent smoothed smoothed_range in
       case ema_update sg (sm_signal s) line of (signal_state, signal) \<Rightarrow>
         (let v = \<lparr>si_smi = line, si_signal = signal\<rparr> in
          (\<lparr>sm_highest = highest_state, sm_lowest = lowest_state, sm_distance_long = distance_long,
            sm_distance_short = distance_short, sm_range_long = range_long, sm_range_short = range_short,
            sm_signal = signal_state, sm_value = v\<rparr>, v))))"

definition smi_warmed_up :: "smi_state \<Rightarrow> bool" where
  "smi_warmed_up s \<longleftrightarrow> \<not> is_nan (si_signal (sm_value s))"

definition smi_seed :: "nat \<Rightarrow> nat \<Rightarrow> nat \<Rightarrow> nat \<Rightarrow> candle list \<Rightarrow> smi_state" where
  "smi_seed n l sh sg cs = state_after (smi_update n l sh sg) smi_start cs"

lemma smi_series_outs:
  assumes "0 < p" "0 < l" "0 < sh" "0 < sg"
  shows "smi_series cs p l sh sg = Inr (outs (smi_update (nat p) (nat l) (nat sh) (nat sg)) smi_start cs)"
  using assms
  by (simp add: smi_series_def min_le_iff_disj primitive_outs network Let_def)
    (rule outs_projection [where proj = "\<lambda>s. ((sm_highest s, sm_lowest s),
        ((sm_distance_long s, sm_distance_short s), (sm_range_long s, sm_range_short s)), sm_signal s)"];
      simp add: smi_start_def smi_update_def network_steps both2_def smi_value_of_def Let_def
        split: prod.split)

subsection \<open>Williams %R\<close>

definition williams_value :: "pyfloat \<Rightarrow> pyfloat \<Rightarrow> pyfloat \<Rightarrow> pyfloat" where
  "williams_value close high low =
     (if is_nan high \<or> is_nan low then NaN
      else fmul (Fin (- 100)) (safe_quot (fsub high close) (fsub high low) (Fin (1 / 2))))"

definition williams_series :: "candle list \<Rightarrow> int \<Rightarrow> pyfloat list res" where
  "williams_series cs period =
     raise_if (period \<le> 0) (ValueError ''period must be positive'')
     (bindR (hh_series (map c_high cs) period) (\<lambda>highest.
      bindR (ll_series (map c_low cs) period) (\<lambda>lowest.
      Inr (map (\<lambda>(c, high, low). williams_value (c_close c) high low) (zip cs (zip highest lowest))))))"

record williams_state =
  wi_highest :: extreme_state
  wi_lowest :: extreme_state
  wi_value :: pyfloat

definition williams_start :: williams_state where
  "williams_start = \<lparr>wi_highest = extreme_start, wi_lowest = extreme_start, wi_value = NaN\<rparr>"

definition make_williams :: "int \<Rightarrow> (williams_state \<times> int) res" where
  "make_williams period =
     raise_if (period \<le> 0) (ValueError ''period must be positive'') (Inr (williams_start, period))"

definition williams_update :: "nat \<Rightarrow> williams_state \<Rightarrow> candle \<Rightarrow> williams_state \<times> pyfloat" where
  "williams_update n s c =
     (case extreme_update n True (wi_highest s) (c_high c) of (highest_state, high) \<Rightarrow>
      case extreme_update n False (wi_lowest s) (c_low c) of (lowest_state, low) \<Rightarrow>
        (let v = williams_value (c_close c) high low in
         (\<lparr>wi_highest = highest_state, wi_lowest = lowest_state, wi_value = v\<rparr>, v)))"

definition williams_warmed_up :: "williams_state \<Rightarrow> bool" where
  "williams_warmed_up s \<longleftrightarrow> \<not> is_nan (wi_value s)"

definition williams_seed :: "nat \<Rightarrow> candle list \<Rightarrow> williams_state" where
  "williams_seed n cs = state_after (williams_update n) williams_start cs"

lemma williams_series_outs:
  assumes "0 < p" shows "williams_series cs p = Inr (outs (williams_update (nat p)) williams_start cs)"
  using assms
  by (simp add: williams_series_def primitive_outs network)
    (rule outs_projection [where proj = "\<lambda>s. (wi_highest s, wi_lowest s)"];
      simp add: williams_start_def williams_update_def network_steps Let_def split: prod.split)

subsection \<open>Ultimate oscillator\<close>

definition buying_pressure :: "pyfloat \<Rightarrow> candle \<Rightarrow> pyfloat" where
  "buying_pressure previous c = fsub (c_close c) (fmin (c_low c) previous)"

definition true_span :: "pyfloat \<Rightarrow> candle \<Rightarrow> pyfloat" where
  "true_span previous c = fsub (fmax (c_high c) previous) (fmin (c_low c) previous)"

definition pressure_share :: "pyfloat \<Rightarrow> pyfloat \<Rightarrow> pyfloat" where
  "pressure_share pressure width = safe_quot pressure width (Fin (1 / 2))"

definition ultimate_value :: "pyfloat \<Rightarrow> pyfloat \<Rightarrow> pyfloat \<Rightarrow> pyfloat" where
  "ultimate_value short medium long =
     (if is_nan short \<or> is_nan medium \<or> is_nan long then NaN
      else fquot (fmul (Fin 100) (py_fsum [fmul (Fin 4) short, fmul (Fin 2) medium, fmul (Fin 1) long]))
             (py_fsum [Fin 4, Fin 2, Fin 1]))"

definition weighed :: "pyfloat list \<Rightarrow> pyfloat list \<Rightarrow> int \<Rightarrow> pyfloat list res" where
  "weighed pressures ranges period =
     bindR (sma_series pressures period) (\<lambda>pressure_sums.
     bindR (sma_series ranges period) (\<lambda>range_sums.
     Inr (map (both2 pressure_share) (zip pressure_sums range_sums))))"

definition ultimate_series :: "candle list \<Rightarrow> int \<Rightarrow> int \<Rightarrow> int \<Rightarrow> pyfloat list res" where
  "ultimate_series cs short_period medium_period long_period =
     raise_if (min (min short_period medium_period) long_period \<le> 0) (ValueError ''periods must be positive'')
     (let pressures = close_paired buying_pressure NaN cs; ranges = close_paired true_span NaN cs in
      bindR (weighed pressures ranges short_period) (\<lambda>short.
      bindR (weighed pressures ranges medium_period) (\<lambda>medium.
      bindR (weighed pressures ranges long_period) (\<lambda>long.
      Inr (map (\<lambda>(a, b, c). ultimate_value a b c) (zip short (zip medium long)))))))"

record ultimate_state =
  ul_previous_close :: "pyfloat option"
  ul_pressures :: "sma_state \<times> sma_state \<times> sma_state"
  ul_ranges :: "sma_state \<times> sma_state \<times> sma_state"
  ul_value :: pyfloat

definition ultimate_start :: ultimate_state where
  "ultimate_start = \<lparr>ul_previous_close = None, ul_pressures = (sma_start, sma_start, sma_start),
     ul_ranges = (sma_start, sma_start, sma_start), ul_value = NaN\<rparr>"

definition make_ultimate :: "int \<Rightarrow> int \<Rightarrow> int \<Rightarrow> (ultimate_state \<times> int) res" where
  "make_ultimate short_period medium_period long_period =
     raise_if (min (min short_period medium_period) long_period \<le> 0) (ValueError ''periods must be positive'')
       (Inr (ultimate_start, max (max short_period medium_period) long_period + 1))"

definition weigh_update ::
    "nat \<Rightarrow> sma_state \<Rightarrow> sma_state \<Rightarrow> pyfloat \<Rightarrow> pyfloat \<Rightarrow> (sma_state \<times> sma_state) \<times> pyfloat" where
  "weigh_update n p r pressure width =
     (case sma_update n p pressure of (p', pressure_sum) \<Rightarrow>
      case sma_update n r width of (r', range_sum) \<Rightarrow> ((p', r'), both pressure_share pressure_sum range_sum))"

definition ultimate_update :: "nat \<Rightarrow> nat \<Rightarrow> nat \<Rightarrow> ultimate_state \<Rightarrow> candle \<Rightarrow> ultimate_state \<times> pyfloat" where
  "ultimate_update sh md lg s c =
     (let pressure = (case ul_previous_close s of None \<Rightarrow> NaN | Some previous \<Rightarrow> buying_pressure previous c);
          width = (case ul_previous_close s of None \<Rightarrow> NaN | Some previous \<Rightarrow> true_span previous c)
      in
      case (ul_pressures s, ul_ranges s) of ((p1, p2, p3), (r1, r2, r3)) \<Rightarrow>
      case weigh_update sh p1 r1 pressure width of ((p1', r1'), short) \<Rightarrow>
      case weigh_update md p2 r2 pressure width of ((p2', r2'), medium) \<Rightarrow>
      case weigh_update lg p3 r3 pressure width of ((p3', r3'), long) \<Rightarrow>
        (let v = ultimate_value short medium long in
         (\<lparr>ul_previous_close = Some (c_close c), ul_pressures = (p1', p2', p3'),
           ul_ranges = (r1', r2', r3'), ul_value = v\<rparr>, v)))"

definition ultimate_warmed_up :: "ultimate_state \<Rightarrow> bool" where
  "ultimate_warmed_up s \<longleftrightarrow> \<not> is_nan (ul_value s)"

definition ultimate_seed :: "nat \<Rightarrow> nat \<Rightarrow> nat \<Rightarrow> candle list \<Rightarrow> ultimate_state" where
  "ultimate_seed sh md lg cs = state_after (ultimate_update sh md lg) ultimate_start cs"

definition ultimate_proj :: "ultimate_state \<Rightarrow>
   ((pyfloat option \<times> sma_state) \<times> (pyfloat option \<times> sma_state)) \<times>
   ((pyfloat option \<times> sma_state) \<times> (pyfloat option \<times> sma_state)) \<times>
   ((pyfloat option \<times> sma_state) \<times> (pyfloat option \<times> sma_state))" where
  "ultimate_proj s = (let k = ul_previous_close s in
     case (ul_pressures s, ul_ranges s) of ((p1, p2, p3), (r1, r2, r3)) \<Rightarrow>
       (((k, p1), (k, r1)), ((k, p2), (k, r2)), ((k, p3), (k, r3))))"

lemma ultimate_series_outs:
  assumes "0 < sh" "0 < md" "0 < lg" "cs \<noteq> []"
  shows "ultimate_series cs sh md lg = Inr (outs (ultimate_update (nat sh) (nat md) (nat lg)) ultimate_start cs)"
  using assms
  by (simp add: ultimate_series_def min_le_iff_disj weighed_def close_paired_outs primitive_outs network Let_def)
    (rule outs_projection [where proj = ultimate_proj];
      simp add: ultimate_proj_def ultimate_start_def ultimate_update_def weigh_update_def network_steps both2_def Let_def
        split: prod.split option.split)

end
