(* ===== verification/MomentumWindows.thy ===== *)
theory MomentumWindows
  imports MomentumRanges
begin

section \<open>Momentum indicators over a window of candles\<close>

text \<open>
  The indicators of core_lib/indicators/momentum.py whose state keeps the last values: the commodity
  channel index, the Chande forecast, the detrended price, the Know Sure Thing, the relative vigor
  index, the center of gravity and the Laguerre RSI. Their batch edition slices the history at each
  index; the state keeps a bounded queue. \<open>slices_outs\<close> turns the one into the other.
\<close>

subsection \<open>Slices of the history and bounded queues\<close>

definition queued :: "nat \<Rightarrow> 'a list \<Rightarrow> 'a \<Rightarrow> 'a list \<times> 'a list" where
  "queued n window v = (let window = push_max n window v in (window, window))"

definition slice_before :: "nat \<Rightarrow> 'a list \<Rightarrow> nat \<Rightarrow> 'a list" where
  "slice_before n vs i = drop (i + 1 - n) (take (i + 1) vs)"

lemma queued_recent: "queued n (recent n us) v = (recent n (us @ [v]), recent n (us @ [v]))"
  by (simp add: queued_def Let_def push_max_recent)

lemma queued_state: "state_after (queued n) (recent n us) vs = recent n (us @ vs)"
  by (induction vs arbitrary: us) (simp_all add: queued_recent)

lemma slices_outs: "map (slice_before n vs) [0..<length vs] = outs (queued n) [] vs"
proof (induction vs rule: rev_induct)
  case (snoc v vs)
  have same: "map (slice_before n (vs @ [v])) [0..<length vs] = map (slice_before n vs) [0..<length vs]"
    by (rule map_cong) (simp_all add: slice_before_def)
  have "state_after (queued n) [] vs = recent n vs" using queued_state [of n "[]" vs] by (simp add: recent_def)
  moreover have "slice_before n (vs @ [v]) (length vs) = recent n (vs @ [v])"
    by (simp add: slice_before_def recent_def)
  ultimately show ?case using snoc same by (simp add: outs_snoc queued_recent)
qed simp

lemma enumerated_slices:
  assumes "length as = length vs" and "\<And>i a. i < length vs \<Longrightarrow> g i a = f (slice_before n vs i) a"
  shows "map (\<lambda>(i, a). g i a) (zip [0..<length as] as) = map (\<lambda>(w, a). f w a) (zip (outs (queued n) [] vs) as)"
  unfolding slices_outs [symmetric]
  by (rule nth_equalityI) (simp_all add: assms)

lemma last_slice: "0 < n \<Longrightarrow> i < length vs \<Longrightarrow> last (slice_before n vs i) = vs ! i"
  by (simp add: slice_before_def take_Suc_conv_app_nth)

lemma length_slice: "i < length vs \<Longrightarrow> length (slice_before n vs i) = min n (i + 1)"
  by (simp add: slice_before_def)

subsection \<open>Commodity channel index\<close>

definition cci_value :: "nat \<Rightarrow> pyfloat list \<Rightarrow> pyfloat \<Rightarrow> pyfloat \<Rightarrow> pyfloat" where
  "cci_value n window typical average =
     (if is_nan average then NaN
      else safe_quot (fsub typical average)
        (fmul (fround (15 / 1000))
          (fquot (py_fsum (map (\<lambda>v. fabs (fsub v average)) window)) (float_of_int (int n)))) (Fin 0))"

definition cci_series :: "candle list \<Rightarrow> int \<Rightarrow> pyfloat list res" where
  "cci_series cs period =
     raise_if (period \<le> 0) (ValueError ''period must be positive'')
     (let typical = tp_series cs in
      bindR (sma_series typical period) (\<lambda>averages.
      Inr (map (\<lambda>(i, average). cci_value (nat period) (slice_before (nat period) typical i) (typical ! i) average)
        (zip [0..<length averages] averages))))"

record cci_state =
  cc_typical :: "pyfloat list"
  cc_average :: sma_state
  cc_value :: pyfloat

definition cci_start :: cci_state where
  "cci_start = \<lparr>cc_typical = [], cc_average = sma_start, cc_value = NaN\<rparr>"

definition make_cci :: "int \<Rightarrow> (cci_state \<times> int) res" where
  "make_cci period =
     raise_if (period \<le> 0) (ValueError ''period must be positive'') (Inr (cci_start, period))"

definition cci_update :: "nat \<Rightarrow> cci_state \<Rightarrow> candle \<Rightarrow> cci_state \<times> pyfloat" where
  "cci_update n s c =
     (let typical = typical_price c; window = push_max n (cc_typical s) typical in
      case sma_update n (cc_average s) typical of (average_state, average) \<Rightarrow>
        (let v = cci_value n window typical average in
         (\<lparr>cc_typical = window, cc_average = average_state, cc_value = v\<rparr>, v)))"

definition cci_warmed_up :: "cci_state \<Rightarrow> bool" where
  "cci_warmed_up s \<longleftrightarrow> \<not> is_nan (cc_value s)"

definition cci_seed :: "nat \<Rightarrow> candle list \<Rightarrow> cci_state" where
  "cci_seed n cs = state_after (cci_update n) cci_start cs"

lemma last_push: "0 < n \<Longrightarrow> last (push_max n w v) = v"
  by (cases w) (simp_all add: push_max_def Let_def)

lemma cci_series_outs:
  assumes "0 < p" shows "cci_series cs p = Inr (outs (cci_update (nat p)) cci_start cs)"
proof -
  let ?n = "nat p" and ?vs = "tp_series cs" and ?g = "\<lambda>w. cci_value (nat p) w (last w)"
  have n: "0 < ?n" using assms by simp
  have "cci_series cs p = Inr (map (\<lambda>(w, a). ?g w a)
      (zip (outs (queued ?n) [] ?vs) (outs (sma_update ?n) sma_start ?vs)))"
    using assms n by (simp add: cci_series_def primitive_outs Let_def last_slice
      enumerated_slices [where f = ?g and n = ?n and vs = ?vs] del: outs_length)
      (subst enumerated_slices [where f = ?g and n = ?n and vs = ?vs]; simp add: last_slice n)
  also have "\<dots> = Inr (outs (cci_update ?n) cci_start cs)"
    by (simp add: tp_series_def network)
      (rule outs_projection [where proj = "\<lambda>s. (cc_typical s, cc_average s)"];
        simp add: cci_start_def cci_update_def network_steps queued_def last_push assms Let_def split: prod.split)
  finally show ?thesis .
qed

subsection \<open>Chande forecast\<close>

definition forecast_value :: "pyfloat \<Rightarrow> pyfloat \<Rightarrow> pyfloat" where
  "forecast_value close forecast =
     (if is_nan forecast then NaN else safe_quot (fmul (Fin 100) (fsub close forecast)) close (Fin 0))"

definition forecast_series :: "candle list \<Rightarrow> int \<Rightarrow> pyfloat list res" where
  "forecast_series cs period =
     (let closes = map c_close cs in
      bindR (linreg_series closes period) (\<lambda>forecasts.
      Inr (map (\<lambda>(close, forecast). forecast_value close forecast) (zip closes forecasts))))"

record forecast_state =
  fo_closes :: "pyfloat list"
  fo_value :: pyfloat

definition forecast_start :: forecast_state where
  "forecast_start = \<lparr>fo_closes = [], fo_value = NaN\<rparr>"

definition make_forecast :: "int \<Rightarrow> (forecast_state \<times> int) res" where
  "make_forecast period =
     raise_if (period \<le> 0) (ValueError ''period must be positive'') (Inr (forecast_start, period))"

text \<open>The last value of the regression over the queue: \<open>linreg(list(closes), period)[-1]\<close>.\<close>

definition last_regression :: "nat \<Rightarrow> pyfloat list \<Rightarrow> pyfloat" where
  "last_regression n closes = last (map (linreg_at n closes) [0..<length closes])"

definition forecast_update :: "nat \<Rightarrow> forecast_state \<Rightarrow> candle \<Rightarrow> forecast_state \<times> pyfloat" where
  "forecast_update n s c =
     (let closes = push_max n (fo_closes s) (c_close c);
          v = (if length closes < n then NaN else forecast_value (c_close c) (last_regression n closes))
      in (\<lparr>fo_closes = closes, fo_value = v\<rparr>, v))"

definition forecast_warmed_up :: "forecast_state \<Rightarrow> bool" where
  "forecast_warmed_up s \<longleftrightarrow> \<not> is_nan (fo_value s)"

definition forecast_seed :: "nat \<Rightarrow> candle list \<Rightarrow> forecast_state" where
  "forecast_seed n cs = state_after (forecast_update n) forecast_start cs"

definition forecast_of_window :: "nat \<Rightarrow> pyfloat list \<Rightarrow> pyfloat" where
  "forecast_of_window n w = (if length w < n then NaN else forecast_value (last w) (last_regression n w))"

lemma last_regression_slice:
  assumes "0 < n" "i < length vs"
  shows "linreg_at n vs i =
    (if length (slice_before n vs i) < n then NaN else last_regression n (slice_before n vs i))"
proof (cases "i + 1 < n")
  case False
  then have "length (slice_before n vs i) = n" using assms by (simp add: length_slice)
  moreover have "take n (drop (i + 1 - n) vs) = slice_before n vs i"
    using False assms by (simp add: slice_before_def drop_take)
  ultimately show ?thesis
    using False assms by (simp add: last_regression_def linreg_at_def last_map Let_def)
qed (use assms in \<open>simp add: linreg_at_def length_slice\<close>)

lemma forecast_series_outs:
  assumes "0 < p" shows "forecast_series cs p = Inr (outs (forecast_update (nat p)) forecast_start cs)"
proof -
  let ?n = "nat p" and ?vs = "map c_close cs"
  have n: "0 < ?n" using assms by simp
  have "map (\<lambda>(close, forecast). forecast_value close forecast) (zip ?vs (map (linreg_at ?n ?vs) [0..<length ?vs])) =
      map (\<lambda>i. forecast_of_window ?n (slice_before ?n ?vs i)) [0..<length ?vs]"
    by (rule nth_equalityI)
      (simp_all add: forecast_of_window_def last_regression_slice [OF n] last_slice [OF n] forecast_value_def)
  also have "\<dots> = map (forecast_of_window ?n) (outs (queued ?n) [] ?vs)"
    by (simp add: slices_outs [symmetric])
  also have "\<dots> = outs (forecast_update ?n) forecast_start cs"
    by (simp add: network)
      (rule outs_projection [where proj = fo_closes];
        simp add: forecast_start_def forecast_update_def forecast_of_window_def network_steps queued_def last_push assms Let_def)
  finally show ?thesis using assms by (simp add: forecast_series_def linreg_series_def with_period_def validate_period_def Let_def)
qed

subsection \<open>Detrended price\<close>

definition dpo_shift :: "int \<Rightarrow> int res" where
  "dpo_shift period =
     raise_if (period \<le> 0) (ValueError ''period must be positive'') (Inr (period div 2 + 1))"

definition dpo_series :: "candle list \<Rightarrow> int \<Rightarrow> pyfloat list res" where
  "dpo_series cs period =
     bindR (dpo_shift period) (\<lambda>shift.
     (let closes = map c_close cs in
      bindR (sma_series closes period) (\<lambda>averages.
      Inr (map (\<lambda>(i, average). if is_nan average \<or> i < nat shift then NaN else fsub (closes ! (i - nat shift)) average)
        (zip [0..<length averages] averages)))))"

record dpo_state =
  dp_average :: sma_state
  dp_closes :: "pyfloat list"
  dp_value :: pyfloat

definition dpo_start :: dpo_state where
  "dpo_start = \<lparr>dp_average = sma_start, dp_closes = [], dp_value = NaN\<rparr>"

definition make_dpo :: "int \<Rightarrow> (dpo_state \<times> int) res" where
  "make_dpo period = bindR (dpo_shift period) (\<lambda>shift. Inr (dpo_start, max period (shift + 1)))"

definition dpo_update :: "nat \<Rightarrow> nat \<Rightarrow> dpo_state \<Rightarrow> candle \<Rightarrow> dpo_state \<times> pyfloat" where
  "dpo_update n shift s c =
     (let closes = push_max (shift + 1) (dp_closes s) (c_close c) in
      case sma_update n (dp_average s) (c_close c) of (average_state, average) \<Rightarrow>
        (let v = (if is_nan average \<or> length closes \<le> shift then NaN else fsub (hd closes) average) in
         (\<lparr>dp_average = average_state, dp_closes = closes, dp_value = v\<rparr>, v)))"

definition dpo_warmed_up :: "dpo_state \<Rightarrow> bool" where
  "dpo_warmed_up s \<longleftrightarrow> \<not> is_nan (dp_value s)"

definition dpo_seed :: "nat \<Rightarrow> nat \<Rightarrow> candle list \<Rightarrow> dpo_state" where
  "dpo_seed n shift cs = state_after (dpo_update n shift) dpo_start cs"

definition detrended :: "nat \<Rightarrow> pyfloat list \<Rightarrow> pyfloat \<Rightarrow> pyfloat" where
  "detrended shift w average = (if is_nan average \<or> length w \<le> shift then NaN else fsub (hd w) average)"

lemma hd_slice: "shift \<le> i \<Longrightarrow> i < length vs \<Longrightarrow> hd (slice_before (shift + 1) vs i) = vs ! (i - shift)"
  by (simp add: slice_before_def hd_drop_conv_nth)

lemma dpo_series_outs:
  assumes "0 < p"
  shows "dpo_series cs p = Inr (outs (dpo_update (nat p) (nat (p div 2 + 1))) dpo_start cs)"
proof -
  let ?k = "nat (p div 2 + 1)" and ?vs = "map c_close cs"
  let ?as = "outs (sma_update (nat p)) sma_start ?vs"
  have "map (\<lambda>(i, average). if is_nan average \<or> i < ?k then NaN else fsub (?vs ! (i - ?k)) average)
        (zip [0..<length ?as] ?as) = map (\<lambda>(w, a). detrended ?k w a) (zip (outs (queued (?k + 1)) [] ?vs) ?as)"
    by (rule enumerated_slices)
      (auto simp: detrended_def length_slice hd_slice [of ?k _ ?vs, simplified] not_less)
  also have "\<dots> = outs (dpo_update (nat p) ?k) dpo_start cs"
    by (simp add: network)
      (rule outs_projection [where proj = "\<lambda>s. (dp_closes s, dp_average s)"];
        auto simp: dpo_start_def dpo_update_def detrended_def network_steps queued_def Let_def split: prod.split)
  finally show ?thesis using assms by (simp add: dpo_series_def dpo_shift_def primitive_outs Let_def)
qed

end
