(* ===== verification/MomentumFilters.thy ===== *)
theory MomentumFilters
  imports MomentumWindows
begin

section \<open>Momentum indicators with filters of their own\<close>

text \<open>
  The Know Sure Thing, the relative vigor index, the center of gravity and the Laguerre RSI of
  core_lib/indicators/momentum.py, batch and state.
\<close>

subsection \<open>Know Sure Thing\<close>

record kst_value =
  kv_kst :: pyfloat
  kv_signal :: pyfloat

definition kst_value_of :: "pyfloat \<times> pyfloat \<Rightarrow> kst_value" where
  "kst_value_of ls = \<lparr>kv_kst = fst ls, kv_signal = snd ls\<rparr>"

definition kst_line :: "pyfloat \<Rightarrow> pyfloat \<Rightarrow> pyfloat \<Rightarrow> pyfloat \<Rightarrow> pyfloat" where
  "kst_line a b c d =
     (if is_nan a \<or> is_nan b \<or> is_nan c \<or> is_nan d then NaN
      else py_fsum [fmul a (Fin 1), fmul b (Fin 2), fmul c (Fin 3), fmul d (Fin 4)])"

definition kst_part :: "pyfloat list \<Rightarrow> int \<Rightarrow> int \<Rightarrow> pyfloat list res" where
  "kst_part closes shift smooth = bindR (roc_series closes shift) (\<lambda>changes. sma_series changes smooth)"

definition kst_series :: "candle list \<Rightarrow> kst_value list res" where
  "kst_series cs =
     (let closes = map c_close cs in
      bindR (kst_part closes 10 10) (\<lambda>first.
      bindR (kst_part closes 15 10) (\<lambda>second.
      bindR (kst_part closes 20 10) (\<lambda>third.
      bindR (kst_part closes 30 15) (\<lambda>fourth.
      (let line = map (\<lambda>(a, b, c, d). kst_line a b c d) (zip first (zip second (zip third fourth))) in
       bindR (sma_series line 9) (\<lambda>signal. Inr (map kst_value_of (zip line signal)))))))))"

record kst_state =
  ks_closes :: "pyfloat list"
  ks_legs :: "sma_state \<times> sma_state \<times> sma_state \<times> sma_state"
  ks_signal :: sma_state
  ks_value :: kst_value

definition kst_start :: kst_state where
  "kst_start = \<lparr>ks_closes = [], ks_legs = (sma_start, sma_start, sma_start, sma_start),
     ks_signal = sma_start, ks_value = \<lparr>kv_kst = NaN, kv_signal = NaN\<rparr>\<rparr>"

definition kst_min_history :: int where
  "kst_min_history = 53"

definition kst_change :: "pyfloat list \<Rightarrow> nat \<Rightarrow> pyfloat" where
  "kst_change closes shift =
     (if length closes \<le> shift then NaN
      else (let previous = closes ! (length closes - 1 - shift) in
        if feq previous (Fin 0) then NaN
        else fquot (fmul (Fin 100) (fsub (last closes) previous)) previous))"

definition kst_update :: "kst_state \<Rightarrow> candle \<Rightarrow> kst_state \<times> kst_value" where
  "kst_update s c =
     (let closes = push_max 31 (ks_closes s) (c_close c) in
      case ks_legs s of (l1, l2, l3, l4) \<Rightarrow>
      case sma_update 10 l1 (kst_change closes 10) of (l1', a) \<Rightarrow>
      case sma_update 10 l2 (kst_change closes 15) of (l2', b) \<Rightarrow>
      case sma_update 10 l3 (kst_change closes 20) of (l3', c) \<Rightarrow>
      case sma_update 15 l4 (kst_change closes 30) of (l4', d) \<Rightarrow>
      (let line = kst_line a b c d in
       case sma_update 9 (ks_signal s) line of (signal_state, signal) \<Rightarrow>
         (let v = \<lparr>kv_kst = line, kv_signal = signal\<rparr> in
          (\<lparr>ks_closes = closes, ks_legs = (l1', l2', l3', l4'), ks_signal = signal_state, ks_value = v\<rparr>, v))))"

definition kst_warmed_up :: "kst_state \<Rightarrow> bool" where
  "kst_warmed_up s \<longleftrightarrow> \<not> is_nan (kv_signal (ks_value s))"

definition kst_seed :: "candle list \<Rightarrow> kst_state" where
  "kst_seed cs = state_after kst_update kst_start cs"

lemma roc_series_outs: "0 < p \<Longrightarrow> roc_series vs p = Inr (outs (roc_update (nat p) True) [] vs)"
  using incremental_outs [OF changes.incremental_axioms, of True "nat p" vs]
  by (simp add: roc_series_def with_period_def validate_period_def)

lemma recent_push:
  assumes "k \<le> m"
  shows "push_max k (recent k w) v = recent k (push_max m w v)"
proof -
  have "recent k (w @ [v]) = recent k (tl (w @ [v]))" if "m < Suc (length w)"
    using that assms by (simp add: recent_def drop_Suc [symmetric] Suc_diff_le del: tl_append2)
  then show ?thesis unfolding push_max_recent by (simp add: push_max_def Let_def)
qed

lemma kst_change_roc: "roc_current k True (recent (k + 1) w) = kst_change w k"
proof (cases "length w \<le> k")
  case False
  then have "hd (recent (k + 1) w) = w ! (length w - 1 - k)" "last (recent (k + 1) w) = last w"
      "length (recent (k + 1) w) = k + 1"
    by (simp_all add: recent_def hd_drop_conv_nth)
  with False show ?thesis
    by (cases "w ! (length w - 1 - k)"; cases "last w") (simp_all add: roc_current_def kst_change_def fquot_def fsub_def Let_def)
qed (simp add: roc_current_def kst_change_def recent_def)

lemma kst_leg_step:
  assumes "k \<le> 30"
  shows "roc_update k True (recent (k + 1) w) v = (recent (k + 1) (push_max 31 w v), kst_change (push_max 31 w v) k)"
  using assms by (simp add: roc_update_def recent_push [of "k + 1" 31, simplified] kst_change_roc [simplified])

definition kst_proj :: "kst_state \<Rightarrow>
   ((pyfloat list \<times> sma_state) \<times> (pyfloat list \<times> sma_state) \<times> (pyfloat list \<times> sma_state) \<times> (pyfloat list \<times> sma_state))
   \<times> sma_state" where
  "kst_proj s = (let w = ks_closes s in case ks_legs s of (l1, l2, l3, l4) \<Rightarrow>
     (((recent 11 w, l1), (recent 16 w, l2), (recent 21 w, l3), (recent 31 w, l4)), ks_signal s))"

lemma kst_series_outs: "kst_series cs = Inr (outs kst_update kst_start cs)"
  by (simp add: kst_series_def kst_part_def roc_series_outs primitive_outs network Let_def)
    (rule outs_projection [where proj = kst_proj];
      simp add: kst_proj_def kst_start_def kst_update_def network_steps kst_value_of_def recent_def [of _ "[]"]
        kst_leg_step [of 10, simplified] kst_leg_step [of 15, simplified] kst_leg_step [of 20, simplified]
        kst_leg_step [of 30, simplified] Let_def split: prod.split)

subsection \<open>Relative vigor index\<close>

definition swma_length :: nat where
  "swma_length = 4"

definition symmetric_weighted :: "pyfloat list \<Rightarrow> pyfloat" where
  "symmetric_weighted w =
     fquot (fadd (fadd (fadd (w ! 3) (fmul (Fin 2) (w ! 2))) (fmul (Fin 2) (w ! 1))) (w ! 0)) (Fin 6)"

fun swma_loop :: "pyfloat list \<Rightarrow> pyfloat list \<Rightarrow> pyfloat list" where
  "swma_loop window [] = []"
| "swma_loop window (v # vs) =
     (let window = push_max swma_length window v in
      (if length window < swma_length \<or> list_ex is_nan window then NaN else symmetric_weighted window) #
        swma_loop window vs)"

definition swma :: "pyfloat list \<Rightarrow> pyfloat list" where
  "swma vs = swma_loop [] vs"

definition bar_range :: "candle \<Rightarrow> pyfloat" where
  "bar_range c = fsub (c_high c) (c_low c)"

definition vigor :: "pyfloat \<Rightarrow> pyfloat \<Rightarrow> pyfloat" where
  "vigor numerator denominator = safe_quot numerator denominator (Fin 0)"

record rvi_value =
  rv_rvi :: pyfloat
  rv_signal :: pyfloat

definition rvi_value_of :: "pyfloat \<times> pyfloat \<Rightarrow> rvi_value" where
  "rvi_value_of ls = \<lparr>rv_rvi = fst ls, rv_signal = snd ls\<rparr>"

definition rvi_series :: "candle list \<Rightarrow> int \<Rightarrow> rvi_value list res" where
  "rvi_series cs period =
     bindR (sma_series (swma (map candle_move cs)) period) (\<lambda>numerators.
     bindR (sma_series (swma (map bar_range cs)) period) (\<lambda>denominators.
     (let line = map (both2 vigor) (zip numerators denominators); signal = swma line in
      Inr (map rvi_value_of (zip line signal)))))"

record rvi_state =
  rv_bodies :: "pyfloat list"
  rv_ranges :: "pyfloat list"
  rv_line_window :: "pyfloat list"
  rv_numerator :: sma_state
  rv_denominator :: sma_state
  rv_value :: rvi_value

definition rvi_start :: rvi_state where
  "rvi_start = \<lparr>rv_bodies = [], rv_ranges = [], rv_line_window = [], rv_numerator = sma_start,
     rv_denominator = sma_start, rv_value = \<lparr>rv_rvi = NaN, rv_signal = NaN\<rparr>\<rparr>"

definition make_rvi :: "int \<Rightarrow> (rvi_state \<times> int) res" where
  "make_rvi period =
     raise_if (period \<le> 0) (ValueError ''period must be positive'')
       (Inr (rvi_start, period + 2 * (int swma_length - 1)))"

definition filtered :: "pyfloat list \<Rightarrow> pyfloat" where
  "filtered window =
     (if length window < swma_length \<or> list_ex is_nan window then NaN else symmetric_weighted window)"

definition rvi_update :: "nat \<Rightarrow> rvi_state \<Rightarrow> candle \<Rightarrow> rvi_state \<times> rvi_value" where
  "rvi_update n s c =
     (let bodies = push_max swma_length (rv_bodies s) (candle_move c);
          ranges = push_max swma_length (rv_ranges s) (bar_range c)
      in
      case sma_update n (rv_numerator s) (filtered bodies) of (numerator_state, numerator) \<Rightarrow>
      case sma_update n (rv_denominator s) (filtered ranges) of (denominator_state, denominator) \<Rightarrow>
      (let line = both vigor numerator denominator;
           line_window = push_max swma_length (rv_line_window s) line;
           v = \<lparr>rv_rvi = line, rv_signal = filtered line_window\<rparr>
       in (\<lparr>rv_bodies = bodies, rv_ranges = ranges, rv_line_window = line_window,
            rv_numerator = numerator_state, rv_denominator = denominator_state, rv_value = v\<rparr>, v)))"

definition rvi_warmed_up :: "rvi_state \<Rightarrow> bool" where
  "rvi_warmed_up s \<longleftrightarrow> \<not> is_nan (rv_signal (rv_value s))"

definition rvi_seed :: "nat \<Rightarrow> candle list \<Rightarrow> rvi_state" where
  "rvi_seed n cs = state_after (rvi_update n) rvi_start cs"

lemma swma_outs: "swma vs = outs (giving filtered (queued swma_length)) [] vs"
proof -
  have "swma_loop w vs = outs (giving filtered (queued swma_length)) w vs" for w
    by (induction vs arbitrary: w) (simp_all add: giving_def queued_def filtered_def Let_def)
  then show ?thesis by (simp add: swma_def)
qed

lemma rvi_series_outs:
  assumes "0 < p" shows "rvi_series cs p = Inr (outs (rvi_update (nat p)) rvi_start cs)"
  using assms
  by (simp add: rvi_series_def swma_outs primitive_outs network Let_def)
    (rule outs_projection [where proj = "\<lambda>s. (((rv_bodies s, rv_numerator s), (rv_ranges s, rv_denominator s)), rv_line_window s)"];
      simp add: rvi_start_def rvi_update_def rvi_value_of_def network_steps queued_def both2_def Let_def split: prod.split)

subsection \<open>Center of gravity\<close>

definition center_of_gravity_value :: "pyfloat list \<Rightarrow> nat \<Rightarrow> pyfloat" where
  "center_of_gravity_value window n =
     (let numerator = py_fsum (map (\<lambda>(offset, v). fmul (fadd (Fin 1) (float_of_int (int offset))) v)
            (zip [0..<n] (rev window)));
          denominator = py_fsum window
      in fadd (fneg (safe_quot numerator denominator (Fin 0))) (fquot (float_of_int (int n + 1)) (Fin 2)))"

fun center_of_gravity_loop :: "nat \<Rightarrow> pyfloat list \<Rightarrow> candle list \<Rightarrow> pyfloat list" where
  "center_of_gravity_loop n window [] = []"
| "center_of_gravity_loop n window (c # cs) =
     (let window = push_max n window (c_close c) in
      (if length window < n then NaN else center_of_gravity_value window n) # center_of_gravity_loop n window cs)"

definition center_of_gravity_series :: "candle list \<Rightarrow> int \<Rightarrow> pyfloat list res" where
  "center_of_gravity_series cs period =
     raise_if (period \<le> 0) (ValueError ''period must be positive'')
       (Inr (center_of_gravity_loop (nat period) [] cs))"

record center_of_gravity_state =
  cg_window :: "pyfloat list"
  cg_value :: pyfloat

definition center_of_gravity_start :: center_of_gravity_state where
  "center_of_gravity_start = \<lparr>cg_window = [], cg_value = NaN\<rparr>"

definition make_center_of_gravity :: "int \<Rightarrow> (center_of_gravity_state \<times> int) res" where
  "make_center_of_gravity period =
     raise_if (period \<le> 0) (ValueError ''period must be positive'') (Inr (center_of_gravity_start, period))"

definition center_of_gravity_update ::
    "nat \<Rightarrow> center_of_gravity_state \<Rightarrow> candle \<Rightarrow> center_of_gravity_state \<times> pyfloat" where
  "center_of_gravity_update n s c =
     (let window = push_max n (cg_window s) (c_close c);
          v = (if length window < n then NaN else center_of_gravity_value window n)
      in (\<lparr>cg_window = window, cg_value = v\<rparr>, v))"

definition center_of_gravity_warmed_up :: "center_of_gravity_state \<Rightarrow> bool" where
  "center_of_gravity_warmed_up s \<longleftrightarrow> \<not> is_nan (cg_value s)"

definition center_of_gravity_seed :: "nat \<Rightarrow> candle list \<Rightarrow> center_of_gravity_state" where
  "center_of_gravity_seed n cs = state_after (center_of_gravity_update n) center_of_gravity_start cs"

lemma center_of_gravity_series_outs:
  assumes "0 < p"
  shows "center_of_gravity_series cs p = Inr (outs (center_of_gravity_update (nat p)) center_of_gravity_start cs)"
proof -
  have "outs (center_of_gravity_update n) s cs = center_of_gravity_loop n (cg_window s) cs" for n s
    by (induction cs arbitrary: s) (simp_all add: center_of_gravity_update_def Let_def)
  from this [of "nat p" center_of_gravity_start] assms show ?thesis
    by (simp add: center_of_gravity_series_def center_of_gravity_start_def)
qed

subsection \<open>Laguerre RSI\<close>

type_synonym laguerre_stages = "pyfloat \<times> pyfloat \<times> pyfloat \<times> pyfloat"

definition laguerre_sums :: "(pyfloat \<times> pyfloat) list \<Rightarrow> pyfloat \<times> pyfloat" where
  "laguerre_sums pairs = foldl (\<lambda>(rising, falling) (upper, lower).
     if flt lower upper then (fadd rising (fsub upper lower), falling)
     else (rising, fadd falling (fsub lower upper))) (Fin 0, Fin 0) pairs"

definition laguerre_step :: "pyfloat \<Rightarrow> laguerre_stages \<Rightarrow> pyfloat \<Rightarrow> laguerre_stages \<times> pyfloat" where
  "laguerre_step price stages gamma =
     (case stages of (previous_zero, previous_one, previous_two, previous_three) \<Rightarrow>
      (let zero = fadd (fmul (fsub (Fin 1) gamma) price) (fmul gamma previous_zero);
           one = fadd (fadd (fmul (fneg gamma) zero) previous_zero) (fmul gamma previous_one);
           two = fadd (fadd (fmul (fneg gamma) one) previous_one) (fmul gamma previous_two);
           three = fadd (fadd (fmul (fneg gamma) two) previous_two) (fmul gamma previous_three)
       in case laguerre_sums [(zero, one), (one, two), (two, three)] of
            (rising, falling) \<Rightarrow> ((zero, one, two, three), safe_quot rising (fadd rising falling) (Fin 0))))"

fun laguerre_loop :: "pyfloat \<Rightarrow> laguerre_stages option \<Rightarrow> candle list \<Rightarrow> pyfloat list" where
  "laguerre_loop gamma stages [] = []"
| "laguerre_loop gamma None (c # cs) =
     NaN # laguerre_loop gamma (Some (c_close c, c_close c, c_close c, c_close c)) cs"
| "laguerre_loop gamma (Some stages) (c # cs) =
     (case laguerre_step (c_close c) stages gamma of (stages', v) \<Rightarrow> v # laguerre_loop gamma (Some stages') cs)"

definition laguerre_series :: "candle list \<Rightarrow> pyfloat \<Rightarrow> pyfloat list res" where
  "laguerre_series cs gamma =
     raise_if (\<not> (fle (Fin 0) gamma \<and> flt gamma (Fin 1))) (ValueError ''gamma must be in [0, 1)'')
       (Inr (laguerre_loop gamma None cs))"

record laguerre_state =
  lr_stages :: "laguerre_stages option"
  lr_value :: pyfloat

definition laguerre_start :: laguerre_state where
  "laguerre_start = \<lparr>lr_stages = None, lr_value = NaN\<rparr>"

definition make_laguerre :: "pyfloat \<Rightarrow> (laguerre_state \<times> int) res" where
  "make_laguerre gamma =
     raise_if (\<not> (fle (Fin 0) gamma \<and> flt gamma (Fin 1))) (ValueError ''gamma must be in [0, 1)'')
       (Inr (laguerre_start, 2))"

definition laguerre_update :: "pyfloat \<Rightarrow> laguerre_state \<Rightarrow> candle \<Rightarrow> laguerre_state \<times> pyfloat" where
  "laguerre_update gamma s c =
     (case lr_stages s of
        None \<Rightarrow> (\<lparr>lr_stages = Some (c_close c, c_close c, c_close c, c_close c), lr_value = NaN\<rparr>, NaN)
      | Some stages \<Rightarrow>
          (case laguerre_step (c_close c) stages gamma of (stages', v) \<Rightarrow>
             (\<lparr>lr_stages = Some stages', lr_value = v\<rparr>, v)))"

definition laguerre_warmed_up :: "laguerre_state \<Rightarrow> bool" where
  "laguerre_warmed_up s \<longleftrightarrow> \<not> is_nan (lr_value s)"

definition laguerre_seed :: "pyfloat \<Rightarrow> candle list \<Rightarrow> laguerre_state" where
  "laguerre_seed gamma cs = state_after (laguerre_update gamma) laguerre_start cs"

lemma laguerre_series_outs:
  assumes "fle (Fin 0) gamma" "flt gamma (Fin 1)"
  shows "laguerre_series cs gamma = Inr (outs (laguerre_update gamma) laguerre_start cs)"
proof -
  have "outs (laguerre_update gamma) s cs = laguerre_loop gamma (lr_stages s) cs" for s
    by (induction cs arbitrary: s) (auto simp: laguerre_update_def split: option.split prod.split)
  from this [of laguerre_start] assms show ?thesis
    by (simp add: laguerre_series_def laguerre_start_def)
qed

end
