(* ===== verification/MomentumPaths.thy ===== *)
theory MomentumPaths
  imports MomentumFilters
begin

section \<open>The two editions of the momentum indicators agree\<close>

text \<open>
  For each indicator: the constructor of the state and the batch function refuse the same settings
  with the same error, and for the settings they accept the state returns the batch series candle by
  candle. The indicators that compare a candle with the one before it answer an empty history with
  one value; their histories are assumed not to be empty.
\<close>

definition same_paths :: "('s \<times> int) res \<Rightarrow> 'b list res \<Rightarrow> ('s \<Rightarrow> candle \<Rightarrow> 's \<times> 'b) \<Rightarrow> candle list \<Rightarrow> bool" where
  "same_paths made batch update cs \<longleftrightarrow>
     (case made of Inl e \<Rightarrow> batch = Inl e | Inr (start, history) \<Rightarrow> replays batch (total_update update) start cs)"

lemma outs_replays: "batch = Inr (outs f s xs) \<Longrightarrow> replays batch (total_update f) s xs"
proof -
  have "replay (total_update f) s xs = Inr (state_after f s xs, outs f s xs)" for s
    by (induction xs arbitrary: s) (simp_all split: prod.split)
  then show "batch = Inr (outs f s xs) \<Longrightarrow> replays batch (total_update f) s xs" by (simp add: replays_def)
qed

lemma same_pathsI:
  assumes "\<And>e. made = Inl e \<Longrightarrow> batch = Inl e"
    and "\<And>start history. made = Inr (start, history) \<Longrightarrow> batch = Inr (outs update start cs)"
  shows "same_paths made batch update cs"
  unfolding same_paths_def using assms outs_replays [of batch update]
  by (auto split: sum.split)

lemma raise_if_eq_Inl: "raise_if c e k = Inl x \<longleftrightarrow> c \<and> x = e \<or> \<not> c \<and> k = Inl x"
  by (auto simp: raise_if_def)

lemma bindR_eq_Inl: "bindR m f = Inl e \<longleftrightarrow> m = Inl e \<or> (\<exists>x. m = Inr x \<and> f x = Inl e)"
  by (cases m) auto

lemmas refusals = raise_if_eq_Inl bindR_eq_Inl bindR_eq_Inr not_le

lemma macd_paths: "same_paths (make_macd f sl sg) (macd_series cs f sl sg) (macd_update (nat f) (nat sl) (nat sg)) cs"
  by (rule same_pathsI)
    (auto simp: make_macd_def make_macd_line_def macd_series_outs refusals,
     auto simp: macd_series_def macd_line_def refusals)

lemma tsi_paths: "cs \<noteq> [] \<Longrightarrow> same_paths (make_tsi l sh) (tsi_series cs l sh) (tsi_update (nat l) (nat sh)) cs"
  by (rule same_pathsI) (auto simp: make_tsi_def tsi_series_outs refusals, auto simp: tsi_series_def refusals)

lemma awesome_paths: "same_paths (make_awesome f sl) (awesome_series cs f sl) (awesome_update (nat f) (nat sl)) cs"
  by (rule same_pathsI) (auto simp: make_awesome_def awesome_series_outs refusals, auto simp: awesome_series_def refusals)

lemma accelerator_paths:
  "same_paths (make_accelerator f sl sm) (accelerator_series cs f sl sm) (accelerator_update (nat f) (nat sl) (nat sm)) cs"
  by (rule same_pathsI)
    (auto simp: make_accelerator_def make_awesome_def accelerator_series_outs refusals,
     auto simp: accelerator_series_def awesome_series_def refusals)

lemma ppo_paths: "same_paths (make_ppo f sl sg) (ppo_series cs f sl sg) (ppo_update (nat f) (nat sl) (nat sg)) cs"
  by (rule same_pathsI) (auto simp: make_ppo_def ppo_series_outs refusals, auto simp: ppo_series_def refusals)

lemma apo_paths:
  "same_paths (make_apo f sl name) (apo_series cs f sl name) (apo_update (nat f) (nat sl)) cs"
proof (rule same_pathsI)
  show "apo_series cs f sl name = Inl e" if "make_apo f sl name = Inl e" for e
    using that by (auto simp: make_apo_def apo_series_def refusals apo_moving_averages_def apo_moving_average_states_def
      validate_apo_def split: if_splits)
  show "apo_series cs f sl name = Inr (outs (apo_update (nat f) (nat sl)) start cs)"
    if "make_apo f sl name = Inr (start, history)" for start history
    using that by (auto simp: make_apo_def validate_apo_def refusals apo_series_outs split: option.splits)
qed

lemma qstick_paths: "same_paths (make_qstick p) (qstick_series cs p) (qstick_update (nat p)) cs"
  by (rule same_pathsI)
    (auto simp: make_qstick_def validate_period_def qstick_series_outs refusals,
     auto simp: qstick_series_def sma_series_def with_period_def validate_period_def refusals)

lemma bop_paths: "same_paths (make_bop p) (bop_series cs p) (bop_update (nat p)) cs"
  by (rule same_pathsI) (auto simp: make_bop_def bop_series_outs refusals, auto simp: bop_series_def refusals)

lemma imi_paths: "same_paths (make_imi p) (imi_series cs p) (imi_update (nat p)) cs"
  by (rule same_pathsI) (auto simp: make_imi_def imi_series_outs refusals, auto simp: imi_series_def refusals)

lemma cmo_paths: "cs \<noteq> [] \<Longrightarrow> same_paths (make_cmo p) (cmo_series cs p) (cmo_update (nat p)) cs"
  by (rule same_pathsI) (auto simp: make_cmo_def cmo_series_outs refusals, auto simp: cmo_series_def refusals)

lemma trix_paths: "cs \<noteq> [] \<Longrightarrow> same_paths (make_trix p) (trix_series cs p) (trix_update (nat p)) cs"
  by (rule same_pathsI) (auto simp: make_trix_def trix_series_outs refusals, auto simp: trix_series_def refusals)

lemma smi_paths:
  "same_paths (make_smi p l sh sg) (smi_series cs p l sh sg) (smi_update (nat p) (nat l) (nat sh) (nat sg)) cs"
  by (rule same_pathsI)
    (auto simp: make_smi_def smi_series_outs refusals min_le_iff_disj, auto simp: smi_series_def refusals min_le_iff_disj)

lemma williams_paths: "same_paths (make_williams p) (williams_series cs p) (williams_update (nat p)) cs"
  by (rule same_pathsI) (auto simp: make_williams_def williams_series_outs refusals, auto simp: williams_series_def refusals)

lemma ultimate_paths: "cs \<noteq> [] \<Longrightarrow> same_paths (make_ultimate sh md lg) (ultimate_series cs sh md lg)
    (ultimate_update (nat sh) (nat md) (nat lg)) cs"
  by (rule same_pathsI)
    (auto simp: make_ultimate_def ultimate_series_outs refusals min_le_iff_disj, auto simp: ultimate_series_def refusals min_le_iff_disj)

lemma cci_paths: "same_paths (make_cci p) (cci_series cs p) (cci_update (nat p)) cs"
  by (rule same_pathsI) (auto simp: make_cci_def cci_series_outs refusals, auto simp: cci_series_def refusals)

lemma forecast_paths: "same_paths (make_forecast p) (forecast_series cs p) (forecast_update (nat p)) cs"
  by (rule same_pathsI)
    (auto simp: make_forecast_def forecast_series_outs refusals,
     auto simp: forecast_series_def linreg_series_def with_period_def validate_period_def refusals)

lemma dpo_paths: "same_paths (make_dpo p) (dpo_series cs p) (dpo_update (nat p) (nat (p div 2 + 1))) cs"
  by (rule same_pathsI)
    (auto simp: make_dpo_def dpo_shift_def dpo_series_outs refusals, auto simp: dpo_series_def dpo_shift_def refusals)

lemma kst_paths: "same_paths (Inr (kst_start, kst_min_history)) (kst_series cs) kst_update cs"
  by (rule same_pathsI) (simp_all add: kst_series_outs)

lemma rvi_paths: "same_paths (make_rvi p) (rvi_series cs p) (rvi_update (nat p)) cs"
  by (rule same_pathsI)
    (auto simp: make_rvi_def rvi_series_outs refusals,
     auto simp: rvi_series_def sma_series_def with_period_def validate_period_def refusals)

lemma center_of_gravity_paths:
  "same_paths (make_center_of_gravity p) (center_of_gravity_series cs p) (center_of_gravity_update (nat p)) cs"
  by (rule same_pathsI)
    (auto simp: make_center_of_gravity_def center_of_gravity_series_outs refusals,
     auto simp: center_of_gravity_series_def refusals)

lemma laguerre_paths: "same_paths (make_laguerre g) (laguerre_series cs g) (laguerre_update g) cs"
  by (rule same_pathsI)
    (auto simp: make_laguerre_def laguerre_series_outs refusals, auto simp: laguerre_series_def refusals)

end
