(* ===== verification/MomentumWarmUp.thy ===== *)
theory MomentumWarmUp
  imports MomentumPaths
begin

section \<open>The momentum indicators warm up as long as they announce\<close>

text \<open>
  A state announces the number of candles it needs (\<open>min_history\<close>). A series is silent for \<open>k\<close>
  values if its first \<open>k\<close> values are NaN; each primitive adds its period less one to the silence of
  its input. The sums give the announced numbers: no state is warmed up by fewer candles.
\<close>

definition silent :: "nat \<Rightarrow> pyfloat list \<Rightarrow> bool" where
  "silent k xs \<longleftrightarrow> (\<forall>i < length xs. i < k \<longrightarrow> is_nan (xs ! i))"

lemma silent_0: "silent 0 xs"
  by (simp add: silent_def)

lemma silent_mono: "silent k xs \<Longrightarrow> j \<le> k \<Longrightarrow> silent j xs"
  by (auto simp: silent_def)

lemma silent_both2:
  "silent j xs \<Longrightarrow> silent k ys \<Longrightarrow> silent (max j k) (map (both2 f) (zip xs ys))"
  by (auto simp: silent_def both2_def both_def less_max_iff_disj)

lemma silent_snoc:
  "silent k (xs @ [x]) \<longleftrightarrow> silent k xs \<and> (length xs < k \<longrightarrow> is_nan x)"
  by (auto simp: silent_def nth_append less_Suc_eq)

lemma silent_recent:
  assumes "silent k vs" "\<forall>v \<in> set (recent n vs). \<not> is_nan v" "n \<le> length vs"
  shows "k + n \<le> length vs \<or> n = 0"
proof (rule ccontr)
  assume "\<not> (k + n \<le> length vs \<or> n = 0)"
  then have n: "0 < n" "length vs - n < k" using assms(3) by auto
  then have "recent n vs ! 0 = vs ! (length vs - n)" "recent n vs \<noteq> []" "length vs - n < length vs"
    using assms(3) by (auto simp: recent_def)
  then show False using assms(1,2) n by (metis nth_mem length_greater_0_conv silent_def)
qed

lemma length_recent: "length (recent n vs) = min n (length vs)"
  by (simp add: recent_def)

subsection \<open>Moving averages\<close>

definition sma_holds :: "nat \<Rightarrow> pyfloat list \<Rightarrow> sma_state \<Rightarrow> bool" where
  "sma_holds n vs s \<longleftrightarrow> sma_window s = recent n vs \<and> sma_invalid s = nan_count (recent n vs)"

lemma nan_count_snoc: "nan_count (w @ [v]) = nan_count w + (if is_nan v then 1 else 0)"
  by (simp add: nan_count_def)

lemma sma_update_current: "snd (sma_update n s v) = sma_current n (fst (sma_update n s v))"
  by (simp add: sma_update_def Let_def)

lemma sma_holds_step:
  assumes "sma_holds n vs s" shows "sma_holds n (vs @ [v]) (fst (sma_update n s v))"
proof -
  let ?w = "recent n vs"
  have "recent n (vs @ [v]) = (if n < length (?w @ [v]) then tl (?w @ [v]) else ?w @ [v])"
    using push_max_recent [of n vs v] by (simp add: push_max_def Let_def)
  moreover have "nan_count (tl (?w @ [v])) = nan_count (?w @ [v]) - (if is_nan (hd (?w @ [v])) then 1 else 0)"
    by (cases "?w @ [v]") (simp_all add: nan_count_def)
  ultimately show ?thesis
    using assms by (auto simp: sma_holds_def sma_update_def nan_count_snoc Let_def)
qed

lemma sma_holds_after: "sma_holds n vs (state_after (sma_update n) sma_start vs)"
proof (induction vs rule: rev_induct)
  case (snoc v vs)
  then show ?case using sma_holds_step by (simp add: state_after_snoc)
qed (simp add: sma_holds_def sma_start_def recent_def nan_count_def)

lemma nan_free_count: "nan_count w = 0 \<longleftrightarrow> (\<forall>v \<in> set w. \<not> is_nan v)"
  by (induction w) (auto simp: nan_count_def add_eq_0_iff)

lemma silent_sma:
  assumes "silent k vs" "0 < n"
  shows "silent (k + n - 1) (outs (sma_update n) sma_start vs)"
  using assms(1)
proof (induction vs rule: rev_induct)
  case (snoc v vs)
  let ?s = "state_after (sma_update n) sma_start (vs @ [v])"
  have "is_nan (sma_current n ?s)" if "length vs < k + n - 1"
  proof (rule ccontr)
    assume "\<not> is_nan (sma_current n ?s)"
    then have "sma_warmed_up n ?s" by (auto simp: sma_current_def split: if_splits)
    then have "n \<le> length (vs @ [v])" "\<forall>x \<in> set (recent n (vs @ [v])). \<not> is_nan x"
      using sma_holds_after [of n "vs @ [v]"]
      by (simp_all add: sma_warmed_up_def sma_holds_def nan_free_count length_recent min_def split: if_splits)
    then show False using silent_recent [OF snoc.prems, of n] that assms(2) by auto
  qed
  then show ?case
    using snoc by (simp add: outs_snoc silent_snoc state_after_snoc sma_update_current)
qed (simp add: silent_def)

lemma silent_average:
  assumes "silent k vs" "0 < n"
  shows "silent (k + n - 1) (outs (average_step n alpha) average_empty vs)"
proof -
  have "silent k vs \<Longrightarrow> silent (k + n - 1) (outs (average_step n alpha) average_empty vs) \<and>
      (let s = state_after (average_step n alpha) average_empty vs in
        if av_value s = None then length (av_seed s) < n \<and> (av_seed s \<noteq> [] \<longrightarrow> k + length (av_seed s) \<le> length vs)
        else k + n \<le> length vs)"
  proof (induction vs rule: rev_induct)
    case (snoc v vs)
    let ?s = "state_after (average_step n alpha) average_empty vs"
    have v: "length vs < k \<Longrightarrow> is_nan v" and vs: "silent k vs" using snoc.prems by (simp_all add: silent_snoc)
    note IH = snoc.IH [OF vs]
    have k: "\<not> is_nan v \<Longrightarrow> k \<le> length vs" using v by (cases "length vs < k") auto
    show ?case
      using IH k assms(2)
      by (cases "is_nan v"; cases "av_value ?s")
        (auto simp: outs_snoc state_after_snoc silent_snoc average_step_def average_current_def Let_def split: if_splits)
  qed (use assms(2) in \<open>simp add: silent_def average_empty_def\<close>)
  then show ?thesis using assms(1) by blast
qed

lemma silent_ema: "silent k vs \<Longrightarrow> 0 < n \<Longrightarrow> silent (k + n - 1) (outs (ema_update n) average_empty vs)"
  unfolding ema_update_def by (rule silent_average)

subsection \<open>Extremes, changes, windows and pairs\<close>

lemma silent_extreme: "silent (n - 1) (outs (extreme_update n h) extreme_start vs)"
  unfolding extreme_loop_outs [symmetric]
  by (auto simp: silent_def extreme_series_spec extreme_at_def length_recent Let_def)

lemma silent_roc: "silent n (outs (roc_update n percentage) [] vs)"
proof -
  have "outs (roc_update n percentage) [] vs = lagged (if percentage then roc_value else change_value) n vs"
    by (rule incremental_outs [OF changes.incremental_axioms, symmetric])
  then show ?thesis by (auto simp: silent_def lagged_def nth_append)
qed

lemma silent_paired: "silent 1 (paired f NaN xs)"
  by (simp add: silent_def paired_def)

lemma silent_close_paired: "silent 1 (close_paired f NaN cs)"
  unfolding close_paired_def by (rule silent_paired)

lemma silent_trix:
  assumes "silent k xs" shows "silent (k + 1) (paired trix_change NaN xs)"
proof -
  have "is_nan (paired trix_change NaN xs ! i)" if "i < length (paired trix_change NaN xs)" "i < k + 1" for i
  proof (cases i)
    case (Suc j)
    then have "is_nan (xs ! j)" using that assms by (auto simp: silent_def paired_def)
    then show ?thesis using that Suc by (cases xs) (auto simp: paired_def trix_change_def both_def)
  qed (simp add: paired_def)
  then show ?thesis by (simp add: silent_def)
qed

lemma slices_nth: "i < length vs \<Longrightarrow> outs (queued n) [] vs ! i = slice_before n vs i"
  by (simp add: slices_outs [symmetric])

lemma silent_swma:
  assumes "silent k vs" shows "silent (k + 3) (swma vs)"
proof -
  have "is_nan (filtered (slice_before 4 vs i))" if "i < length vs" "i < k + 3" for i
  proof (cases "i + 1 < 4")
    case False
    then have "slice_before 4 vs i ! 0 = vs ! (i - 3)" "0 < length (slice_before 4 vs i)"
      using that by (simp_all add: slice_before_def)
    moreover have "is_nan (vs ! (i - 3))" using assms that False by (simp add: silent_def)
    ultimately have "list_ex is_nan (slice_before 4 vs i)" by (metis list_ex_length)
    then show ?thesis by (simp add: filtered_def)
  qed (use that in \<open>simp add: filtered_def swma_length_def length_slice\<close>)
  then show ?thesis
    by (auto simp: silent_def swma_outs swma_length_def outs_giving [symmetric] slices_nth)
qed

lemma silent_map: "(\<And>i. i < length xs \<Longrightarrow> i < k \<Longrightarrow> is_nan (f (xs ! i))) \<Longrightarrow> silent k (map f xs)"
  by (simp add: silent_def)

lemma silentD: "silent k xs \<Longrightarrow> i < k \<Longrightarrow> i < length xs \<Longrightarrow> is_nan (xs ! i)"
  by (simp add: silent_def)

subsection \<open>From the series to the state\<close>

lemma last_out:
  assumes "\<And>s c. field (fst (f s c)) = snd (f s c)" and "cs \<noteq> []"
  shows "field (state_after f s cs) = last (outs f s cs)"
  using assms(2)
proof (induction cs rule: rev_induct)
  case (snoc c cs)
  show ?case by (simp add: state_after_snoc outs_snoc assms(1))
qed simp

text \<open>The value a state holds after \<open>cs\<close> is not defined if the series of its values is silent that long.\<close>

lemma cold:
  assumes "\<And>s c. field (fst (f s c)) = snd (f s c)" "is_nan (shown (field s))"
    and "silent k (map shown (outs f s cs))" "length cs \<le> k"
  shows "is_nan (shown (field (state_after f s cs)))"
proof (cases "cs = []")
  case False
  then have "last (map shown (outs f s cs)) = map shown (outs f s cs) ! (length cs - 1)"
    by (subst last_conv_nth) (auto dest: outs_not_Nil)
  moreover have "length cs - 1 < k" "length cs - 1 < length cs" using False assms(4) by (cases cs; simp)+
  ultimately have "is_nan (last (map shown (outs f s cs)))"
    using silentD [OF assms(3), of "length cs - 1"] by simp
  then show ?thesis using last_out [of field f cs s, OF assms(1) False] False outs_not_Nil [OF False, of f s] by (simp add: last_map)
qed (use assms(2) in simp)

lemmas cold_value = cold [where shown = "\<lambda>x. x", unfolded map_ident]

text \<open>The networks of the indicators are as silent as their parts.\<close>

lemma macd_line_silent:
  assumes "0 < f" "f < sl"
  shows "silent (sl - 1) (outs (macd_line_update f sl) macd_line_start vs)"
proof -
  have "outs (macd_line_update f sl) macd_line_start vs =
      map (both2 fsub) (zip (outs (ema_update f) average_empty vs) (outs (ema_update sl) average_empty vs))"
    using macd_line_outs [of "int f" "int sl" vs] assms by (simp add: macd_line_def primitive_outs)
  then show ?thesis
    using silent_both2 [OF silent_ema [OF silent_0, of f vs] silent_ema [OF silent_0, of sl vs], of fsub] assms
    by (auto elim: silent_mono)
qed

lemma macd_silent:
  assumes "0 < f" "f < sl" "0 < sg"
  shows "silent (nat (sl + sg - 2)) (map mv_signal (outs (macd_update (nat f) (nat sl) (nat sg)) macd_start cs))"
proof -
  let ?line = "outs (macd_line_update (nat f) (nat sl)) macd_line_start (map c_close cs)"
  have "outs (macd_update (nat f) (nat sl) (nat sg)) macd_start cs =
      map macd_value_of (zip ?line (outs (ema_update (nat sg)) average_empty ?line))"
    using macd_series_outs [OF assms, of cs] assms by (simp add: macd_series_def macd_line_outs primitive_outs)
  then have "map mv_signal (outs (macd_update (nat f) (nat sl) (nat sg)) macd_start cs) =
      outs (ema_update (nat sg)) average_empty ?line"
    by (simp add: macd_value_of_def comp_def)
  then show ?thesis
    using silent_ema [OF macd_line_silent [of "nat f" "nat sl" "map c_close cs"], of "nat sg"] assms
    by (auto elim: silent_mono)
qed

lemma macd_cold:
  assumes "make_macd f sl sg = Inr (s, history)" "int (length cs) < history"
  shows "\<not> macd_warmed_up (macd_seed (nat f) (nat sl) (nat sg) cs)"
proof -
  have p: "0 < f" "f < sl" "0 < sg" and h: "history = sl + sg - 1"
    using assms(1) by (auto simp: make_macd_def make_macd_line_def refusals)
  show ?thesis
    unfolding macd_warmed_up_def macd_seed_def not_not
    by (rule cold [where field = ma_value and shown = mv_signal, OF _ _ macd_silent [OF p]])
      (use assms(2) h p in \<open>simp_all add: macd_update_def macd_start_def undefined_macd_def Let_def split: prod.split\<close>)
qed

lemma tsi_silent:
  assumes "0 < l" "0 < sh"
  shows "silent (nat (l + sh - 1)) (outs (tsi_update (nat l) (nat sh)) tsi_start cs)"
proof (cases "cs = []")
  case False
  let ?ch = "close_paired close_change NaN cs"
  let ?sm = "\<lambda>vs. outs (ema_update (nat sh)) average_empty (outs (ema_update (nat l)) average_empty vs)"
  have "outs (tsi_update (nat l) (nat sh)) tsi_start cs = map (both2 percent) (zip (?sm ?ch) (?sm (map magnitude ?ch)))"
    using tsi_series_outs [OF assms False] assms by (simp add: tsi_series_def primitive_outs Let_def)
  moreover have "silent 1 (map magnitude ?ch)"
    using silent_close_paired [of close_change cs] by (auto simp: silent_def magnitude_def)
  moreover have "silent (nat (l + sh - 1)) (?sm vs)" if "silent 1 vs" for vs
    using silent_ema [OF silent_ema [OF that, of "nat l"], of "nat sh"] assms by (auto elim: silent_mono)
  ultimately show ?thesis
    using silent_both2 [of "nat (l + sh - 1)" "?sm ?ch" "nat (l + sh - 1)" "?sm (map magnitude ?ch)" percent]
      silent_close_paired [of close_change cs] by simp
qed (simp add: silent_def)

lemma tsi_cold:
  assumes "make_tsi l sh = Inr (s, history)" "int (length cs) < history"
  shows "\<not> tsi_warmed_up (tsi_seed (nat l) (nat sh) cs)"
proof -
  have p: "0 < l" "0 < sh" and h: "history = 1 + l + sh - 1"
    using assms(1) by (auto simp: make_tsi_def refusals)
  show ?thesis
    unfolding tsi_warmed_up_def tsi_seed_def not_not
    by (rule cold_value [where field = ts_value, OF _ _ tsi_silent [OF p]])
      (use assms(2) h p in \<open>simp_all add: tsi_update_def tsi_start_def Let_def split: prod.split\<close>)
qed

lemma silent_smas:
  assumes "0 < f" "f < sl"
  shows "silent (nat (sl - 1)) (map (both2 g) (zip (outs (sma_update (nat f)) sma_start xs) (outs (sma_update (nat sl)) sma_start xs)))"
  using silent_both2 [OF silent_sma [OF silent_0, of "nat f" xs] silent_sma [OF silent_0, of "nat sl" xs], of g] assms
  by (auto elim: silent_mono)

lemma accelerator_cold:
  assumes "make_accelerator f sl sm = Inr (s, history)" "int (length cs) < history"
  shows "\<not> accelerator_warmed_up (accelerator_seed (nat f) (nat sl) (nat sm) cs)"
proof -
  have p: "0 < f" "f < sl" "0 < sm" and h: "history = sl + sm - 1"
    using assms(1) by (auto simp: make_accelerator_def make_awesome_def refusals)
  let ?ao = "outs (awesome_update (nat f) (nat sl)) awesome_start cs"
  have "awesome_series cs f sl = Inr ?ao" by (rule awesome_series_outs [OF p(1,2)])
  then have "?ao = map (both2 fsub) (zip (outs (sma_update (nat f)) sma_start (hl2 cs)) (outs (sma_update (nat sl)) sma_start (hl2 cs)))"
    using p by (simp add: awesome_series_def primitive_outs)
  then have ao: "silent (nat (sl - 1)) ?ao" using silent_smas [OF p(1,2)] by metis
  have "outs (accelerator_update (nat f) (nat sl) (nat sm)) accelerator_start cs =
      map (both2 fsub) (zip ?ao (outs (sma_update (nat sm)) sma_start ?ao))"
    using accelerator_series_outs [OF p, of cs] p by (simp add: accelerator_series_def awesome_series_outs primitive_outs)
  then have "silent (nat (sl + sm - 2)) (outs (accelerator_update (nat f) (nat sl) (nat sm)) accelerator_start cs)"
    using silent_both2 [OF ao silent_sma [OF ao, of "nat sm"], of fsub] p by (auto elim: silent_mono)
  then show ?thesis
    unfolding accelerator_warmed_up_def accelerator_seed_def not_not
    by (intro cold_value [where field = ac_value])
      (use assms(2) h p in \<open>auto simp: accelerator_update_def accelerator_start_def Let_def split: prod.split\<close>)
qed

lemma trix_silent:
  assumes "0 < p" shows "silent (nat (3 * p - 2)) (outs (trix_update (nat p)) trix_start cs)"
proof (cases "cs = []")
  case False
  let ?e = "\<lambda>vs. outs (ema_update (nat p)) average_empty vs"
  have "outs (trix_update (nat p)) trix_start cs = paired trix_change NaN (?e (?e (?e (map c_close cs))))"
    using trix_series_outs [OF assms False] assms by (simp add: trix_series_def primitive_outs)
  moreover have "silent (nat (3 * p - 3)) (?e (?e (?e (map c_close cs))))"
    using silent_ema [OF silent_ema [OF silent_ema [OF silent_0, of "nat p" "map c_close cs"], of "nat p"], of "nat p"] assms
    by (auto elim: silent_mono)
  moreover have "nat (3 * p - 2) = nat (3 * p - 3) + 1" using assms by simp
  ultimately show ?thesis by (metis silent_trix)
qed (simp add: silent_def)

lemma trix_cold:
  assumes "make_trix p = Inr (s, history)" "int (length cs) < history"
  shows "\<not> trix_warmed_up (trix_seed (nat p) cs)"
proof -
  have p: "0 < p" and h: "history = 3 * p - 1" using assms(1) by (auto simp: make_trix_def refusals)
  show ?thesis
    unfolding trix_warmed_up_def trix_seed_def not_not
    by (rule cold_value [where field = tx_value, OF _ _ trix_silent [OF p]])
      (use assms(2) h p in \<open>simp_all add: trix_update_def trix_start_def Let_def split: prod.split\<close>)
qed

lemma cmo_silent:
  assumes "0 < p" shows "silent (nat p) (outs (cmo_update (nat p)) cmo_start cs)"
proof (cases "cs = []")
  case False
  have "outs (cmo_update (nat p)) cmo_start cs = map (both2 cmo_value)
      (zip (outs (sma_update (nat p)) sma_start (close_paired close_gain NaN cs))
        (outs (sma_update (nat p)) sma_start (close_paired close_loss NaN cs)))"
    using cmo_series_outs [OF assms False] assms by (simp add: cmo_series_def primitive_outs)
  moreover have "silent (nat p) (outs (sma_update (nat p)) sma_start (close_paired g NaN cs))" for g
    using silent_sma [OF silent_close_paired, of "nat p" g cs] assms by simp
  then have "silent (max (nat p) (nat p)) (map (both2 cmo_value)
      (zip (outs (sma_update (nat p)) sma_start (close_paired close_gain NaN cs))
        (outs (sma_update (nat p)) sma_start (close_paired close_loss NaN cs))))"
    by (intro silent_both2)
  ultimately show ?thesis by simp
qed (simp add: silent_def)

lemma cmo_cold:
  assumes "make_cmo p = Inr (s, history)" "int (length cs) < history"
  shows "\<not> cmo_warmed_up (cmo_seed (nat p) cs)"
proof -
  have p: "0 < p" and h: "history = p + 1" using assms(1) by (auto simp: make_cmo_def refusals)
  show ?thesis
    unfolding cmo_warmed_up_def cmo_seed_def not_not
    by (rule cold_value [where field = cm_value, OF _ _ cmo_silent [OF p]])
      (use assms(2) h p in \<open>simp_all add: cmo_update_def cmo_start_def Let_def split: prod.split option.split\<close>)
qed

lemma smi_silent:
  assumes "0 < p" "0 < l" "0 < sh" "0 < sg"
  shows "silent (nat (p + l + sh + sg - 4))
    (map si_signal (outs (smi_update (nat p) (nat l) (nat sh) (nat sg)) smi_start cs))"
proof -
  let ?n = "nat p"
  let ?bars = "zip cs (zip (outs (extreme_update ?n True) extreme_start (map c_high cs))
    (outs (extreme_update ?n False) extreme_start (map c_low cs)))"
  let ?e = "\<lambda>vs. outs (ema_update (nat sh)) average_empty (outs (ema_update (nat l)) average_empty vs)"
  let ?d = "map (\<lambda>(c, high, low). smi_distance (c_close c) high low) ?bars"
  let ?r = "map (\<lambda>(c, high, low). smi_range high low) ?bars"
  let ?line = "map (both2 percent) (zip (?e ?d) (?e ?r))"
  have "smi_series cs p l sh sg = Inr (map smi_value_of (zip ?line (outs (ema_update (nat sg)) average_empty ?line)))"
    using assms by (simp add: smi_series_def min_le_iff_disj primitive_outs Let_def)
  then have "outs (smi_update (nat p) (nat l) (nat sh) (nat sg)) smi_start cs =
      map smi_value_of (zip ?line (outs (ema_update (nat sg)) average_empty ?line))"
    using smi_series_outs [OF assms, of cs] by simp
  then have shown: "map si_signal (outs (smi_update (nat p) (nat l) (nat sh) (nat sg)) smi_start cs) =
      outs (ema_update (nat sg)) average_empty ?line"
    by (simp add: smi_value_of_def comp_def)
  have high: "i < ?n - 1 \<Longrightarrow> i < length cs \<Longrightarrow>
      is_nan (outs (extreme_update ?n True) extreme_start (map c_high cs) ! i)" for i
    using silent_extreme [of ?n True "map c_high cs"] by (simp add: silent_def)
  have dr: "silent (?n - 1) ?d" "silent (?n - 1) ?r"
    by (rule silent_map; simp add: smi_distance_def smi_range_def high)+
  have e: "silent (nat (p + l + sh - 3)) (?e vs)" if "silent (?n - 1) vs" for vs
    using silent_ema [OF silent_ema [OF that, of "nat l"], of "nat sh"] assms by (auto elim: silent_mono)
  have "silent (nat (p + l + sh - 3)) ?line"
    using silent_both2 [OF e [OF dr(1)] e [OF dr(2)], of percent] by simp
  then show ?thesis
    unfolding shown using silent_ema [of "nat (p + l + sh - 3)" ?line "nat sg"] assms by (auto elim: silent_mono)
qed

lemma smi_cold:
  assumes "make_smi p l sh sg = Inr (s, history)" "int (length cs) < history"
  shows "\<not> smi_warmed_up (smi_seed (nat p) (nat l) (nat sh) (nat sg) cs)"
proof -
  have p: "0 < p" "0 < l" "0 < sh" "0 < sg" and h: "history = p + l + sh + sg - 3"
    using assms(1) by (auto simp: make_smi_def refusals min_le_iff_disj)
  show ?thesis
    unfolding smi_warmed_up_def smi_seed_def not_not
    by (rule cold [where field = sm_value and shown = si_signal, OF _ _ smi_silent [OF p]])
      (use assms(2) h p in \<open>simp_all add: smi_update_def smi_start_def Let_def split: prod.split\<close>)
qed

lemma williams_silent:
  assumes "0 < p" shows "silent (nat p - 1) (outs (williams_update (nat p)) williams_start cs)"
proof -
  let ?bars = "zip cs (zip (outs (extreme_update (nat p) True) extreme_start (map c_high cs))
    (outs (extreme_update (nat p) False) extreme_start (map c_low cs)))"
  have "outs (williams_update (nat p)) williams_start cs = map (\<lambda>(c, high, low). williams_value (c_close c) high low) ?bars"
    using williams_series_outs [OF assms, of cs] assms by (simp add: williams_series_def primitive_outs)
  moreover have "silent (nat p - 1) (map (\<lambda>(c, high, low). williams_value (c_close c) high low) ?bars)"
    by (rule silent_map) (use silent_extreme [of "nat p" True "map c_high cs"] in \<open>simp add: silent_def williams_value_def\<close>)
  ultimately show ?thesis by simp
qed

lemma williams_cold:
  assumes "make_williams p = Inr (s, history)" "int (length cs) < history"
  shows "\<not> williams_warmed_up (williams_seed (nat p) cs)"
proof -
  have p: "0 < p" and h: "history = p" using assms(1) by (auto simp: make_williams_def refusals)
  show ?thesis
    unfolding williams_warmed_up_def williams_seed_def not_not
    by (rule cold_value [where field = wi_value, OF _ _ williams_silent [OF p]])
      (use assms(2) h p in \<open>simp_all add: williams_update_def williams_start_def Let_def split: prod.split\<close>)
qed

lemma ppo_silent:
  assumes "0 < f" "f < sl" "0 < sg"
  shows "silent (nat (sl + sg - 2)) (map pv_signal (outs (ppo_update (nat f) (nat sl) (nat sg)) ppo_start cs))"
proof -
  let ?e = "\<lambda>n. outs (ema_update n) average_empty (map c_close cs)"
  let ?line = "map (both2 ppo_of) (zip (?e (nat f)) (?e (nat sl)))"
  have "ppo_series cs f sl sg = Inr (map ppo_value_of (zip ?line (outs (ema_update (nat sg)) average_empty ?line)))"
    using assms by (simp add: ppo_series_def primitive_outs Let_def)
  then have "outs (ppo_update (nat f) (nat sl) (nat sg)) ppo_start cs =
      map ppo_value_of (zip ?line (outs (ema_update (nat sg)) average_empty ?line))"
    using ppo_series_outs [OF assms, of cs] by simp
  then have shown: "map pv_signal (outs (ppo_update (nat f) (nat sl) (nat sg)) ppo_start cs) =
      outs (ema_update (nat sg)) average_empty ?line"
    by (simp add: ppo_value_of_def comp_def)
  have "silent (nat (sl - 1)) (?e (nat sl))" using silent_ema [OF silent_0, of "nat sl"] assms by (simp add: nat_diff_distrib)
  then have "silent (nat (sl - 1)) ?line"
    using silent_both2 [OF silent_0, of "nat (sl - 1)" "?e (nat sl)" ppo_of "?e (nat f)"] by simp
  then show ?thesis
    unfolding shown using silent_ema [of "nat (sl - 1)" ?line "nat sg"] assms by (auto elim: silent_mono)
qed

lemma ppo_cold:
  assumes "make_ppo f sl sg = Inr (s, history)" "int (length cs) < history"
  shows "\<not> ppo_warmed_up (ppo_seed (nat f) (nat sl) (nat sg) cs)"
proof -
  have p: "0 < f" "f < sl" "0 < sg" and h: "history = sl + sg - 1"
    using assms(1) by (auto simp: make_ppo_def refusals)
  show ?thesis
    unfolding ppo_warmed_up_def ppo_seed_def not_not
    by (rule cold [where field = pp_value and shown = pv_signal, OF _ _ ppo_silent [OF p]])
      (use assms(2) h p in \<open>simp_all add: ppo_update_def ppo_start_def Let_def split: prod.split\<close>)
qed

lemma cci_silent:
  assumes "0 < p" shows "silent (nat p - 1) (outs (cci_update (nat p)) cci_start cs)"
proof -
  let ?as = "outs (sma_update (nat p)) sma_start (tp_series cs)"
  let ?g = "\<lambda>(i, average). cci_value (nat p) (slice_before (nat p) (tp_series cs) i) (tp_series cs ! i) average"
  have "outs (cci_update (nat p)) cci_start cs = map ?g (zip [0..<length ?as] ?as)"
    using cci_series_outs [OF assms, of cs] assms by (simp add: cci_series_def primitive_outs Let_def)
  moreover have "silent (nat p - 1) (map ?g (zip [0..<length ?as] ?as))"
    by (rule silent_map)
      (use silent_sma [OF silent_0, of "nat p" "tp_series cs"] assms in \<open>simp add: silent_def cci_value_def\<close>)
  ultimately show ?thesis by simp
qed

lemma cci_cold:
  assumes "make_cci p = Inr (s, history)" "int (length cs) < history"
  shows "\<not> cci_warmed_up (cci_seed (nat p) cs)"
proof -
  have p: "0 < p" and h: "history = p" using assms(1) by (auto simp: make_cci_def refusals)
  show ?thesis
    unfolding cci_warmed_up_def cci_seed_def not_not
    by (rule cold_value [where field = cc_value, OF _ _ cci_silent [OF p]])
      (use assms(2) h p in \<open>simp_all add: cci_update_def cci_start_def Let_def split: prod.split\<close>)
qed

lemma kst_silent: "silent 52 (map kv_signal (outs kst_update kst_start cs))"
proof -
  let ?part = "\<lambda>k n. outs (sma_update n) sma_start (outs (roc_update k True) [] (map c_close cs))"
  let ?line = "map (\<lambda>(a, b, c, d). kst_line a b c d) (zip (?part 10 10) (zip (?part 15 10) (zip (?part 20 10) (?part 30 15))))"
  have "kst_series cs = Inr (map kst_value_of (zip ?line (outs (sma_update 9) sma_start ?line)))"
    by (simp add: kst_series_def kst_part_def roc_series_outs primitive_outs Let_def)
  then have "outs kst_update kst_start cs = map kst_value_of (zip ?line (outs (sma_update 9) sma_start ?line))"
    by (simp add: kst_series_outs)
  then have shown: "map kv_signal (outs kst_update kst_start cs) = outs (sma_update 9) sma_start ?line"
    by (simp add: kst_value_of_def comp_def)
  have "silent 44 (?part 30 15)" using silent_sma [OF silent_roc, of 15 30] by simp
  then have "silent 44 ?line"
    by (intro silent_map) (simp add: silent_def kst_line_def)
  then show ?thesis unfolding shown using silent_sma [of 44 ?line 9] by simp
qed

lemma kst_cold: "int (length cs) < kst_min_history \<Longrightarrow> \<not> kst_warmed_up (kst_seed cs)"
  unfolding kst_warmed_up_def kst_seed_def not_not kst_min_history_def
  by (rule cold [where field = ks_value and shown = kv_signal, OF _ _ kst_silent])
    (simp_all add: kst_update_def kst_start_def Let_def split: prod.split)

lemma rvi_silent:
  assumes "0 < p" shows "silent (nat p + 5) (map rv_signal (outs (rvi_update (nat p)) rvi_start cs))"
proof -
  let ?part = "\<lambda>f. outs (sma_update (nat p)) sma_start (swma (map f cs))"
  let ?line = "map (both2 vigor) (zip (?part candle_move) (?part bar_range))"
  have "rvi_series cs p = Inr (map rvi_value_of (zip ?line (swma ?line)))"
    using assms by (simp add: rvi_series_def primitive_outs Let_def)
  then have eq: "outs (rvi_update (nat p)) rvi_start cs = map rvi_value_of (zip ?line (swma ?line))"
    using rvi_series_outs [OF assms, of cs] by simp
  have shown: "map rv_signal (outs (rvi_update (nat p)) rvi_start cs) = swma ?line"
    unfolding eq by (simp add: rvi_value_of_def comp_def swma_outs)
  have part: "silent (nat p + 2) (?part f)" for f
    using silent_sma [OF silent_swma [OF silent_0, of "map f cs"], of "nat p"] assms by (auto elim: silent_mono)
  have "silent (nat p + 2) ?line" using silent_both2 [OF part part, of vigor candle_move bar_range] by simp
  then show ?thesis unfolding shown using silent_swma [of "nat p + 2" ?line] by (simp add: add.commute)
qed

lemma rvi_cold:
  assumes "make_rvi p = Inr (s, history)" "int (length cs) < history"
  shows "\<not> rvi_warmed_up (rvi_seed (nat p) cs)"
proof -
  have p: "0 < p" and h: "history = p + 6" using assms(1) by (auto simp: make_rvi_def refusals swma_length_def)
  show ?thesis
    unfolding rvi_warmed_up_def rvi_seed_def not_not
    by (rule cold [where field = rv_value and shown = rv_signal, OF _ _ rvi_silent [OF p]])
      (use assms(2) h p in \<open>simp_all add: rvi_update_def rvi_start_def Let_def split: prod.split\<close>)
qed

end
