(* ===== verification/FloatBounds.thy ===== *)
theory FloatBounds
  imports IndicatorPrimitives
begin

section \<open>Floats that do not go below zero\<close>

text \<open>
  The rounding facts behind the ranges of the oscillators: a difference of two floats within a
  factor of two is exact (Sterbenz), the compensated sum of floats that are not negative is not
  negative, and neither is a recursive average of them.
\<close>

subsection \<open>Exact differences\<close>

lemma f64r_multiple:
  assumes "\<bar>m\<bar> \<le> 2 ^ 53" and "-1074 \<le> e"
  shows "f64r (of_int m * 2 powi e) = of_int m * 2 powi e"
proof (cases "\<bar>of_int m * 2 powi e\<bar> < f64_tiny")
  case True
  have "(2::rat) powi e = of_int (2 ^ nat (e + 1074)) * f64_sub"
    using powi_split [of 2 "-1074" e] assms(2) by (simp add: f64_sub_def)
  then have "of_int m * (2::rat) powi e = of_int (m * 2 ^ nat (e + 1074)) * f64_sub" by simp
  then have "grid f64_sub (of_int m * 2 powi e) = of_int m * 2 powi e"
    by (metis f64_consts_pos(4) grid_multiple)
  with True show ?thesis by (simp add: f64r_def)
next
  case False
  with siground_fix [of 2 53 m e] assms(1) show ?thesis by (simp add: f64r_def)
qed

lemma powi_less: "(2::rat) powi i < 2 powi j \<Longrightarrow> i < j"
  by (rule ccontr) (use power_int_increasing [of j i "2::rat"] in auto)

lemma f64r_form:
  assumes "0 < a" and "f64r a = a"
  obtains n where "a = of_int n * 2 powi (max (mag 2 a - 52) (-1074))"
proof (cases "a < f64_tiny")
  case True
  have "(2::rat) powi mag 2 a \<le> a" using mag_bounds(1) [of 2 a] assms(1) by simp
  then have "(2::rat) powi mag 2 a < 2 powi (-1022)"
    using True unfolding f64_tiny_def by (rule order.strict_trans1)
  then have "mag 2 a < -1022" by (rule powi_less)
  then have e: "max (mag 2 a - 52) (-1074) = -1074" by simp
  have "grid f64_sub a = a" using True assms by (simp add: f64r_def)
  then obtain n where "a = of_int n * f64_sub" using grid_is_multiple by metis
  then have "a = of_int n * 2 powi (max (mag 2 a - 52) (-1074))" unfolding e f64_sub_def .
  then show ?thesis by (rule that)
next
  case False
  have "a < (2::rat) powi (mag 2 a + 1)" using mag_bounds(2) [of 2 a] assms(1) by simp
  with False have "(2::rat) powi (-1022) < 2 powi (mag 2 a + 1)"
    unfolding f64_tiny_def not_less by (rule order.strict_trans1)
  then have "-1022 < mag 2 a + 1" by (rule powi_less)
  then have e: "max (mag 2 a - 52) (-1074) = mag 2 a - 52" by simp
  have "siground 2 53 a = a" using False assms by (simp add: f64r_def)
  then have "grid (2 powi (mag 2 a - 52)) a = a" using assms(1) by (simp add: siground_def)
  then obtain n where "a = of_int n * 2 powi (mag 2 a - 52)" using grid_is_multiple by metis
  with e show ?thesis using that [of n] by simp
qed

lemma f64r_scaled:
  assumes "0 < a" shows "a < 2 ^ 53 * 2 powi (max (mag 2 a - 52) (-1074))"
proof -
  define e where "e = max (mag 2 a - 52) (-1074)"
  have "a < 2 powi (mag 2 a + 1)" using mag_bounds(2) [of 2 a] assms by simp
  also have "\<dots> \<le> 2 powi (e + 53)" unfolding e_def by (intro power_int_increasing) auto
  also have "\<dots> = 2 ^ 53 * 2 powi e" by (simp add: power_int_add)
  finally show ?thesis unfolding e_def .
qed

lemma f64r_double:
  assumes "0 \<le> a" "f64r a = a" shows "f64r (2 * a) = 2 * a"
proof (cases "a = 0")
  case False
  then have a: "0 < a" using assms(1) by simp
  define e where "e = max (mag 2 a - 52) (-1074)"
  obtain n where n: "a = of_int n * 2 powi e" unfolding e_def using f64r_form [OF a assms(2)] .
  have "of_int n * (2::rat) powi e < 2 ^ 53 * 2 powi e" using f64r_scaled [OF a] n unfolding e_def by simp
  then have "(of_int n :: rat) < 2 ^ 53" by (rule mult_right_less_imp_less) simp
  then have "n < 2 ^ 53" by (metis of_int_less_iff of_int_numeral of_int_power)
  moreover have "0 \<le> (of_int n :: rat)"
    using a zero_less_power_int [of "2::rat" e] unfolding n by (metis mult_neg_pos not_le order.asym zero_less_numeral)
  then have "0 \<le> n" by simp
  moreover have "2 * a = of_int n * 2 powi (e + 1)" unfolding n by (simp add: power_int_add)
  ultimately show ?thesis using f64r_multiple [of n "e + 1"] by (simp add: e_def)
qed simp

lemma sterbenz:
  assumes "0 \<le> a" "f64r a = a" "f64r b = b" "a \<le> b" "b \<le> 2 * a"
  shows "f64r (b - a) = b - a"
proof (cases "a = 0")
  case False
  then have pos: "0 < a" "0 < b" using assms by auto
  define e where "e = max (mag 2 a - 52) (-1074)"
  obtain n where n: "a = of_int n * 2 powi e" unfolding e_def using f64r_form pos assms by metis
  obtain m where m: "b = of_int m * 2 powi (max (mag 2 b - 52) (-1074))" using f64r_form pos assms by metis
  define f where "f = max (mag 2 b - 52) (-1074)"
  have "e \<le> f" unfolding e_def f_def using mag_mono [of 2 a b] pos assms by auto
  then have "(2::rat) powi f = of_int (2 ^ nat (f - e)) * 2 powi e" using powi_split [of 2 e f] by simp
  then have k: "b = of_int (m * 2 ^ nat (f - e)) * 2 powi e" using m by (simp add: f_def)
  define k where "k = m * 2 ^ nat (f - e)"
  have diff: "b - a = of_int (k - n) * 2 powi e" using n k unfolding k_def by (simp add: left_diff_distrib)
  have "b - a < 2 ^ 53 * 2 powi e" using f64r_scaled [OF pos(1)] assms(5) unfolding e_def by simp
  then have "of_int (k - n) * 2 powi e < (2 ^ 53) * (2::rat) powi e" unfolding diff .
  then have "(of_int (k - n) :: rat) < 2 ^ 53" by (rule mult_right_less_imp_less) simp
  then have "k - n < 2 ^ 53" by (metis of_int_less_iff of_int_numeral of_int_power)
  moreover have "0 \<le> of_int (k - n) * (2::rat) powi e" using diff assms by simp
  then have "0 \<le> (of_int (k - n) :: rat)"
    using zero_less_power_int [of "2::rat" e] by (metis mult_neg_pos not_le zero_less_numeral)
  then have "0 \<le> k - n" by (simp only: of_int_0_le_iff)
  ultimately show ?thesis unfolding diff by (intro f64r_multiple) (auto simp: e_def)
qed (use assms in simp)

subsection \<open>Floats that are NaN or at least zero\<close>

definition weakly_nonneg :: "pyfloat \<Rightarrow> bool" where
  "weakly_nonneg x \<longleftrightarrow> is_f64 x \<and> \<not> flt x (Fin 0)"

lemma weakly_nonneg_simps [simp]:
  "weakly_nonneg NaN" "weakly_nonneg PInf" "\<not> weakly_nonneg NInf"
  "weakly_nonneg (Fin a) \<longleftrightarrow> is_f64 (Fin a) \<and> 0 \<le> a"
  by (auto simp: weakly_nonneg_def is_f64_def)

lemma fround_nonneg:
  assumes "0 \<le> q" shows "weakly_nonneg (fround q)"
proof (cases "f64_big \<le> f64r q")
  case False
  then have "fround q = Fin (f64r q)" using f64r_nonneg [OF assms] by (simp add: fround_eq_Fin)
  then show ?thesis using is_f64_fround [of q] f64r_nonneg [OF assms] by simp
qed (simp add: fround_def)

lemma fround_finite:
  assumes "- a \<le> q" "q \<le> b" "is_f64 (Fin a)" "is_f64 (Fin b)"
  obtains r where "fround q = Fin r" "r = f64r q" "- a \<le> r" "r \<le> b"
proof -
  have "- a \<le> f64r q" using f64r_mono [of "- a" q] assms by (simp add: is_f64_Fin f64r_minus)
  moreover have "f64r q \<le> b" using f64r_mono [of q b] assms by (simp add: is_f64_Fin)
  ultimately show ?thesis using assms that [of "f64r q"] by (auto simp: fround_eq_Fin is_f64_Fin abs_less_iff)
qed

subsection \<open>Sums\<close>

text \<open>
  The correction never falls below the sum with the opposite sign: rounding a sum up loses at most
  the term that was added.
\<close>

definition sum_safe :: "pyfloat \<Rightarrow> pyfloat \<Rightarrow> bool" where
  "sum_safe s c \<longleftrightarrow> s = PInf \<or> s = NaN \<or>
     (\<exists>a. s = Fin a \<and> is_f64 s \<and> 0 \<le> a \<and> (\<forall>d. c = Fin d \<longrightarrow> is_f64 c \<and> - a \<le> d))"

lemma sum_safe_result:
  assumes "sum_safe s c"
  shows "weakly_nonneg (if \<not> feq c (Fin 0) \<and> is_finite c then fadd s c else s)"
proof (cases s)
  case (Fin a)
  then show ?thesis
    using assms fround_nonneg by (cases c) (auto simp: sum_safe_def)
qed (use assms in \<open>cases c; auto simp: sum_safe_def\<close>)+

lemma fadd_nonneg_cases:
  assumes "is_f64 (Fin a)" "is_f64 (Fin b)" "0 \<le> a" "0 \<le> b"
  shows "fadd (Fin a) (Fin b) = PInf \<or>
    (\<exists>r. fadd (Fin a) (Fin b) = Fin r \<and> r = f64r (a + b) \<and> is_f64 (Fin r) \<and> a \<le> r \<and> b \<le> r)"
proof (cases "f64_big \<le> f64r (a + b)")
  case False
  have "0 \<le> f64r (a + b)" using assms by (simp add: f64r_nonneg)
  then have "fround (a + b) = Fin (f64r (a + b))" using False by (simp add: fround_eq_Fin)
  moreover have "a \<le> f64r (a + b)" "b \<le> f64r (a + b)"
    using f64.rnd_ge_fixed [of a "a + b"] f64.rnd_ge_fixed [of b "a + b"] assms by (simp_all add: is_f64_Fin)
  ultimately show ?thesis using is_f64_fround [of "a + b"] by simp
qed (simp add: fround_def)

text \<open>The correction of one addition, the larger operand first.\<close>

lemma correction_above:
  assumes "is_f64 (Fin a)" "is_f64 (Fin b)" "0 \<le> b" "b \<le> a"
    and r: "is_f64 (Fin r)" "r = f64r (a + b)"
    and e: "fadd (fsub (Fin a) (Fin r)) (Fin b) = Fin e"
  shows "a - r \<le> e"
proof -
  have fixed: "f64r a = a" "f64r b = b" "f64r r = r" using assms by (simp_all add: is_f64_Fin)
  have "a \<le> r" unfolding r(2) using f64.rnd_ge_fixed [OF fixed(1)] assms by simp
  moreover have "r \<le> 2 * a"
    unfolding r(2) using f64.rnd_le_fixed [of "2 * a" "a + b"] f64r_double [of a] fixed assms by simp
  ultimately have "f64r (r - a) = r - a" using sterbenz [of a r] fixed assms by simp
  then have exact: "f64r (a - r) = a - r" using f64r_minus [of "r - a"] by simp
  have "fsub (Fin a) (Fin r) = Fin (a - r)"
    using exact \<open>a \<le> r\<close> r(1) assms by (auto simp: fsub_def fround_eq_Fin is_f64_Fin abs_less_iff)
  then have "fround (a - r + b) = Fin e" using e by simp
  then show ?thesis
    using f64.rnd_ge_fixed [OF exact, of "a - r + b"] assms(3)
    by (simp_all add: fround_eq_Fin)
qed

lemma nsum_nonneg:
  assumes "sum_safe s c" "\<forall>x \<in> set xs. weakly_nonneg x"
  shows "weakly_nonneg (nsum_loop s c xs)"
  using assms
proof (induction xs arbitrary: s c)
  case Nil
  then show ?case using sum_safe_result by simp
next
  case (Cons x xs)
  define t where "t = fadd s x"
  define c' where "c' = (if fle (fabs x) (fabs s) then fadd c (fadd (fsub s t) x) else fadd c (fadd (fsub x t) s))"
  have "sum_safe t c'"
  proof (cases "\<exists>a b r. s = Fin a \<and> x = Fin b \<and> t = Fin r")
    case True
    then obtain a b r where eq: "s = Fin a" "x = Fin b" "t = Fin r" by blast
    then have ab: "is_f64 (Fin a)" "0 \<le> a" "is_f64 (Fin b)" "0 \<le> b" and c: "\<And>d. c = Fin d \<Longrightarrow> is_f64 c \<and> - a \<le> d"
      using Cons.prems by (auto simp: sum_safe_def)
    then have r: "r = f64r (a + b)" "is_f64 (Fin r)" "a \<le> r" "b \<le> r"
      using fadd_nonneg_cases [of a b] eq t_def by auto
    have "is_f64 c' \<and> - r \<le> d'" if d': "c' = Fin d'" for d'
    proof -
      obtain d e where de: "c = Fin d" "c' = fadd c (Fin e)" "a - r \<le> e \<or> a \<le> b \<and> b - r \<le> e"
      proof (cases "b \<le> a")
        case True
        then have "c' = fadd c (fadd (fsub (Fin a) (Fin r)) (Fin b))" using eq ab by (simp add: c'_def)
        then obtain d e where "c = Fin d" "fadd (fsub (Fin a) (Fin r)) (Fin b) = Fin e" "c' = fadd c (Fin e)"
          using d' by (cases c; cases "fadd (fsub (Fin a) (Fin r)) (Fin b)") auto
        then show ?thesis using that correction_above [of a b r e] ab r True by blast
      next
        case False
        then have "c' = fadd c (fadd (fsub (Fin b) (Fin r)) (Fin a))" using eq ab by (simp add: c'_def)
        then obtain d e where "c = Fin d" "fadd (fsub (Fin b) (Fin r)) (Fin a) = Fin e" "c' = fadd c (Fin e)"
          using d' by (cases c; cases "fadd (fsub (Fin b) (Fin r)) (Fin a)") auto
        then show ?thesis
          using that correction_above [of b a r e] ab r False by (simp add: add.commute)
      qed
      have "- a \<le> d" using c de(1) by blast
      then have "- r \<le> d + e" using ab(2,4) r(3,4) by (rule_tac disjE [OF de(3)]) linarith+
      then have "- r \<le> f64r (d + e)" using f64.rnd_ge_fixed [of "- r"] r(2) by (simp add: is_f64_Fin f64r_minus)
      moreover have "d' = f64r (d + e)" using d' de by (simp add: fround_eq_Fin)
      ultimately show ?thesis using d' de is_f64_fround [of "d + e"] by simp
    qed
    then show ?thesis using eq r ab by (auto simp: sum_safe_def)
  next
    case False
    then have "t = PInf \<or> t = NaN"
      using Cons.prems fadd_nonneg_cases unfolding t_def by (cases s; cases x) (auto simp: sum_safe_def)
    then show ?thesis by (auto simp: sum_safe_def)
  qed
  moreover have "nsum_loop s c (x # xs) = nsum_loop t c' xs" unfolding c'_def t_def by (simp add: Let_def)
  ultimately show ?case using Cons.IH [of t c'] Cons.prems(2) by simp
qed

lemma py_fsum_nonneg: "\<forall>x \<in> set xs. weakly_nonneg x \<Longrightarrow> weakly_nonneg (py_fsum xs)"
proof (cases xs)
  case (Cons x ys)
  assume all: "\<forall>x \<in> set xs. weakly_nonneg x"
  then have "sum_safe x (Fin 0)" using Cons by (cases x) (auto simp: sum_safe_def is_f64_Fin)
  then show ?thesis using nsum_nonneg [of x "Fin 0" ys] all Cons by simp
qed (simp add: is_f64_Fin)

subsection \<open>Recursive averages\<close>

lemma fquot_nonneg: "weakly_nonneg x \<Longrightarrow> weakly_nonneg y \<Longrightarrow> weakly_nonneg (fquot x y)"
  using fround_nonneg [of "a / b" for a b]
  by (cases x; cases y) (auto simp: fquot_def signed_inf_def sgn_if is_f64_Fin)

lemma fmax_zero_nonneg: "is_f64 x \<Longrightarrow> weakly_nonneg (fmax x (Fin 0))"
  by (cases x) (auto simp: fmax_def is_f64_Fin)

lemma average_move_nonneg:
  assumes "weakly_nonneg c" "weakly_nonneg v" "0 \<le> \<alpha>" "\<alpha> \<le> 1"
  shows "weakly_nonneg (fadd c (fmul (Fin \<alpha>) (fsub v c)))"
proof (cases "\<exists>a b. c = Fin a \<and> v = Fin b")
  case True
  then obtain a b where eq: "c = Fin a" "v = Fin b" by blast
  then have ab: "is_f64 (Fin a)" "0 \<le> a" "is_f64 (Fin b)" "0 \<le> b" using assms by auto
  obtain w where w: "fround (b - a) = Fin w" "- a \<le> w" "w \<le> b"
    using fround_finite [of a "b - a" b] ab by (auto simp: algebra_simps)
  have "- a \<le> \<alpha> * w"
  proof (cases "0 \<le> w")
    case False
    then have "1 * w \<le> \<alpha> * w" using assms by (intro mult_right_mono_neg) auto
    then show ?thesis using w by simp
  qed (use ab assms in \<open>auto intro: order_trans [of _ 0]\<close>)
  moreover have "\<alpha> * w \<le> b"
  proof (cases "0 \<le> w")
    case True
    then have "\<alpha> * w \<le> 1 * w" using assms by (intro mult_right_mono) auto
    then show ?thesis using w by simp
  qed (use ab assms in \<open>auto intro: order_trans [of _ 0] simp: mult_nonneg_nonpos\<close>)
  ultimately obtain m where "fround (\<alpha> * w) = Fin m" "- a \<le> m" using fround_finite ab by metis
  then show ?thesis using eq w fround_nonneg [of "a + m"] by (simp add: fsub_def)
next
  case False
  then show ?thesis using assms by (cases c; cases v) (auto simp: fsub_def signed_inf_def sgn_if)
qed

definition average_safe :: "average_value_state \<Rightarrow> bool" where
  "average_safe s \<longleftrightarrow> (\<forall>x \<in> set (av_seed s). weakly_nonneg x) \<and> weakly_nonneg (average_current s)"

lemma average_safe_empty: "average_safe average_empty"
  by (simp add: average_safe_def average_empty_def average_current_def)

lemma float_of_count: "weakly_nonneg (float_of_int (int n))"
  unfolding float_of_int_def by (rule fround_nonneg) simp

lemma average_step_safe:
  assumes "average_safe s" "weakly_nonneg v" "0 \<le> \<alpha>" "\<alpha> \<le> 1"
  shows "average_safe (fst (average_step n (Fin \<alpha>) s v)) \<and> weakly_nonneg (snd (average_step n (Fin \<alpha>) s v))"
proof (cases "is_nan v")
  case True
  then show ?thesis using assms by (auto simp: average_step_def average_safe_def average_current_def)
next
  case False
  show ?thesis
  proof (cases "av_value s")
    case None
    have "weakly_nonneg (fquot (py_fsum (av_seed s @ [v])) (float_of_int (int n)))"
      using assms by (intro fquot_nonneg py_fsum_nonneg float_of_count) (auto simp: average_safe_def)
    then show ?thesis using None False assms
      by (auto simp: average_step_def average_safe_def average_current_def Let_def)
  next
    case (Some c)
    then have "weakly_nonneg c" using assms by (simp add: average_safe_def average_current_def)
    then show ?thesis using Some False assms average_move_nonneg [of c v \<alpha>]
      by (simp add: average_step_def average_safe_def average_current_def Let_def)
  qed
qed

text \<open>The weight of Wilder's average lies between zero and one.\<close>

lemma rma_alpha_range:
  assumes "0 < n"
  obtains \<alpha> where "rma_alpha (int n) = Fin \<alpha>" "0 \<le> \<alpha>" "\<alpha> \<le> 1"
proof (cases "float_of_int (int n)")
  case (Fin r)
  have "f64r 1 \<le> f64r (of_int (int n))" using assms by (intro f64r_mono) simp
  then have r: "1 \<le> r" using Fin by (simp add: float_of_int_def fround_eq_Fin f64r_literal)
  have "is_f64 (Fin 0)" "is_f64 (Fin 1)" by (simp_all add: is_f64_Fin f64r_literal f64_big_def)
  then obtain q where "fround (1 / r) = Fin q" "0 \<le> q" "q \<le> 1"
    using fround_finite [of 0 "1 / r" 1] r by auto
  then show ?thesis using that [of q] Fin r by (simp add: rma_alpha_def fquot_def)
next
  case PInf
  then show ?thesis using that [of 0] by (simp add: rma_alpha_def fquot_def)
qed (use float_of_count [of n] in \<open>auto simp: float_of_int_def\<close>)

lemma rma_update_safe:
  assumes "0 < n" "average_safe s" "weakly_nonneg v"
  shows "average_safe (fst (rma_update n s v))" "weakly_nonneg (snd (rma_update n s v))"
proof -
  obtain \<alpha> where "rma_alpha (int n) = Fin \<alpha>" "0 \<le> \<alpha>" "\<alpha> \<le> 1" using rma_alpha_range [OF assms(1)] .
  then show "average_safe (fst (rma_update n s v))" "weakly_nonneg (snd (rma_update n s v))"
    using average_step_safe [OF assms(2,3), of \<alpha> n] by (simp_all add: rma_update_def)
qed

end
