(* ===== verification/MomentumRsi.thy ===== *)
theory MomentumRsi
  imports FloatBounds MomentumFilters
begin

section \<open>Wilder's RSI (core_lib/indicators/momentum.py)\<close>

text \<open>
  The relative strength index over any series and over closes, batch and state. Both can in
  principle divide by zero; they do not, because Wilder's averages of gains and of losses never fall
  below zero. The state keeps its last value where the batch has none again (after a NaN), so it
  returns the batch series with its gaps held.
\<close>

definition rsi_value :: "pyfloat \<Rightarrow> pyfloat \<Rightarrow> pyfloat res" where
  "rsi_value average_gain average_loss =
     (if feq average_loss (Fin 0) then Inr (Fin 100)
      else if feq average_gain (Fin 0) then Inr (Fin 0)
      else bindR (fdiv average_gain average_loss) (\<lambda>relative_strength.
        bindR (fdiv (Fin 100) (fadd (Fin 1) relative_strength)) (\<lambda>share. Inr (fsub (Fin 100) share))))"

definition gain :: "pyfloat \<Rightarrow> pyfloat \<Rightarrow> pyfloat" where
  "gain previous current = fmax (fsub current previous) (Fin 0)"

definition loss :: "pyfloat \<Rightarrow> pyfloat \<Rightarrow> pyfloat" where
  "loss previous current = fmax (fneg (fsub current previous)) (Fin 0)"

definition rsi_of :: "pyfloat \<times> pyfloat \<Rightarrow> pyfloat res" where
  "rsi_of gl = (if is_nan (fst gl) \<or> is_nan (snd gl) then Inr NaN else rsi_value (fst gl) (snd gl))"

definition rsi_from_values :: "pyfloat list \<Rightarrow> int \<Rightarrow> pyfloat list res" where
  "rsi_from_values vs period =
     raise_if (period \<le> 0) (ValueError ''period must be positive'')
     (bindR (rma_series (paired gain NaN vs) period) (\<lambda>average_gains.
      bindR (rma_series (paired loss NaN vs) period) (\<lambda>average_losses.
      mapR rsi_of (zip average_gains average_losses))))"

definition rsi_series :: "candle list \<Rightarrow> int \<Rightarrow> pyfloat list res" where
  "rsi_series cs period = rsi_from_values (map c_close cs) period"

record rsi_value_state =
  rs_previous :: "pyfloat option"
  rs_gains :: average_value_state
  rs_losses :: average_value_state
  rs_value :: "pyfloat option"

definition rsi_start :: rsi_value_state where
  "rsi_start = \<lparr>rs_previous = None, rs_gains = average_empty, rs_losses = average_empty, rs_value = None\<rparr>"

definition make_rsi_value :: "int \<Rightarrow> rsi_value_state res" where
  "make_rsi_value period =
     raise_if (period \<le> 0) (ValueError ''period must be positive'') (Inr rsi_start)"

definition rsi_current :: "rsi_value_state \<Rightarrow> pyfloat" where
  "rsi_current s = (case rs_value s of Some v \<Rightarrow> v | None \<Rightarrow> NaN)"

definition rsi_value_warmed_up :: "rsi_value_state \<Rightarrow> bool" where
  "rsi_value_warmed_up s \<longleftrightarrow> rs_value s \<noteq> None"

definition rsi_value_update :: "nat \<Rightarrow> rsi_value_state \<Rightarrow> pyfloat \<Rightarrow> (rsi_value_state \<times> pyfloat) res" where
  "rsi_value_update n s v =
     (case rs_previous s of
        None \<Rightarrow> Inr (s\<lparr>rs_previous := Some v\<rparr>, NaN)
      | Some previous \<Rightarrow>
          (case rma_update n (rs_gains s) (gain previous v) of (gains, average_gain) \<Rightarrow>
           case rma_update n (rs_losses s) (loss previous v) of (losses, average_loss) \<Rightarrow>
           (let s1 = s\<lparr>rs_previous := Some v, rs_gains := gains, rs_losses := losses\<rparr> in
            if is_nan average_gain \<or> is_nan average_loss then Inr (s1, rsi_current s1)
            else bindR (rsi_value average_gain average_loss) (\<lambda>x.
              (let s2 = s1\<lparr>rs_value := Some x\<rparr> in Inr (s2, rsi_current s2))))))"

definition make_rsi :: "int \<Rightarrow> (rsi_value_state \<times> int) res" where
  "make_rsi period =
     raise_if (period \<le> 0) (ValueError ''period must be positive'')
     (bindR (make_rsi_value period) (\<lambda>s. Inr (s, period + 1)))"

definition rsi_update :: "nat \<Rightarrow> rsi_value_state \<Rightarrow> candle \<Rightarrow> (rsi_value_state \<times> pyfloat) res" where
  "rsi_update n s c = rsi_value_update n s (c_close c)"

definition rsi_seed :: "nat \<Rightarrow> candle list \<Rightarrow> rsi_value_state res" where
  "rsi_seed n cs = bindR (replay (rsi_update n) rsi_start cs) (\<lambda>(s, _). Inr s)"

subsection \<open>Range\<close>

text \<open>A percentage, or NaN.\<close>

definition percentage :: "pyfloat \<Rightarrow> bool" where
  "percentage x \<longleftrightarrow> x = NaN \<or> fle (Fin 0) x \<and> fle x (Fin 100)"

lemma rep_literals: "is_f64 (Fin 0)" "is_f64 (Fin 1)" "is_f64 (Fin 100)"
  by (simp_all add: is_f64_Fin f64r_literal f64_big_def)

lemma share_range:
  assumes "weakly_nonneg r"
  obtains q where "fdiv (Fin 100) (fadd (Fin 1) r) = Inr q" "q = NaN \<or> (\<exists>x. q = Fin x \<and> 0 \<le> x \<and> x \<le> 100)"
proof (cases r)
  case (Fin a)
  then have "fadd (Fin 1) r = PInf \<or> (\<exists>b. fadd (Fin 1) r = Fin b \<and> 1 \<le> b)"
    using fadd_nonneg_cases [of 1 a] rep_literals assms by auto
  then show ?thesis
  proof (elim disjE exE conjE)
    fix b
    assume b: "fadd (Fin 1) r = Fin b" "1 \<le> b"
    then have "- 0 \<le> 100 / b" "100 / b \<le> 100" by (simp_all add: field_simps)
    then obtain q where "fround (100 / b) = Fin q" "0 \<le> q" "q \<le> 100"
      using fround_finite [of 0 "100 / b" 100] rep_literals by auto
    then show ?thesis using that [of "Fin q"] b by simp
  qed (use that [of "Fin 0"] in simp)
qed (use that [of NaN] that [of "Fin 0"] assms in auto)

lemma rsi_value_percentage:
  assumes "weakly_nonneg g" "weakly_nonneg l" "\<not> is_nan g" "\<not> is_nan l"
  obtains x where "rsi_value g l = Inr x" "percentage x"
proof (cases "feq l (Fin 0) \<or> feq g (Fin 0)")
  case True
  then show ?thesis using that [of "Fin 100"] that [of "Fin 0"]
    by (cases "feq l (Fin 0)") (simp_all add: rsi_value_def percentage_def)
next
  case False
  then have l: "l \<noteq> Fin 0" by auto
  have "weakly_nonneg (fquot g l)" using assms by (intro fquot_nonneg)
  then obtain q where q: "fdiv (Fin 100) (fadd (Fin 1) (fquot g l)) = Inr q"
      "q = NaN \<or> (\<exists>x. q = Fin x \<and> 0 \<le> x \<and> x \<le> 100)"
    by (rule share_range)
  have "percentage (fsub (Fin 100) q)"
  proof (cases "q = NaN")
    case False
    with q obtain x where x: "q = Fin x" "0 \<le> x" "x \<le> 100" by auto
    obtain y where "fround (100 - x) = Fin y" "0 \<le> y" "y \<le> 100"
      using fround_finite [of 0 "100 - x" 100] rep_literals x by auto
    then show ?thesis using x by (simp add: fsub_def percentage_def)
  qed (simp add: fsub_def percentage_def)
  then show ?thesis using that [of "fsub (Fin 100) q"] False fdiv_fquot [OF l] q by (simp add: rsi_value_def)
qed

lemma gain_loss_nonneg: "weakly_nonneg (gain a b)" "weakly_nonneg (loss a b)"
proof -
  have d: "is_f64 (fsub b a)"
    by (cases a; cases b) (simp_all add: fsub_def is_f64_fround, simp_all add: is_f64_def)
  then have "is_f64 (fneg (fsub b a))"
    by (cases "fsub b a") (auto simp: is_f64_Fin f64r_minus, simp_all add: is_f64_def)
  with d show "weakly_nonneg (gain a b)" "weakly_nonneg (loss a b)"
    unfolding gain_def loss_def by (simp_all add: fmax_zero_nonneg)
qed

lemma rma_outs_nonneg:
  "0 < n \<Longrightarrow> average_safe s \<Longrightarrow> \<forall>x \<in> set xs. weakly_nonneg x \<Longrightarrow> \<forall>y \<in> set (outs (rma_update n) s xs). weakly_nonneg y"
proof (induction xs arbitrary: s)
  case (Cons x xs)
  then show ?case
    using rma_update_safe [of n s x] by (cases "rma_update n s x") auto
qed simp

lemma paired_nonneg:
  "\<forall>x \<in> set (paired gain NaN vs). weakly_nonneg x" "\<forall>x \<in> set (paired loss NaN vs). weakly_nonneg x"
  by (auto simp: paired_def gain_loss_nonneg)

lemma rsi_of_percentage:
  assumes "weakly_nonneg (fst gl)" "weakly_nonneg (snd gl)"
  shows "returns (rsi_of gl) (Collect percentage)"
proof (cases "is_nan (fst gl) \<or> is_nan (snd gl)")
  case False
  then obtain x where "rsi_value (fst gl) (snd gl) = Inr x" "percentage x"
    using rsi_value_percentage [OF assms] by blast
  with False show ?thesis by (simp add: rsi_of_def returns_def)
qed (simp add: rsi_of_def returns_def percentage_def)

lemma rsi_from_values_percentage:
  assumes "0 < p"
  obtains ys where "rsi_from_values vs p = Inr ys" "\<forall>y \<in> set ys. percentage y" "length ys = length (paired gain NaN vs)"
proof -
  let ?g = "outs (rma_update (nat p)) average_empty (paired gain NaN vs)"
  let ?l = "outs (rma_update (nat p)) average_empty (paired loss NaN vs)"
  have "\<forall>x \<in> set ?g. weakly_nonneg x" "\<forall>x \<in> set ?l. weakly_nonneg x"
    by (rule rma_outs_nonneg [OF _ average_safe_empty]; use assms in \<open>simp add: paired_nonneg\<close>)+
  then have "returns (rsi_of gl) (Collect percentage)" if "gl \<in> set (zip ?g ?l)" for gl
    using that rsi_of_percentage [of gl] by (metis set_zip_leftD set_zip_rightD prod.collapse)
  then obtain ys where "mapR rsi_of (zip ?g ?l) = Inr ys" "set ys \<subseteq> Collect percentage" "length ys = length (zip ?g ?l)"
    by (rule mapR_returns)
  moreover have "length (paired loss NaN vs) = length (paired gain NaN vs)" by (simp add: paired_def)
  ultimately show ?thesis using that [of ys] assms
    by (auto simp: rsi_from_values_def primitive_outs)
qed

subsection \<open>The state holds the gaps of the batch series\<close>

definition gap_free :: "pyfloat list \<Rightarrow> bool" where
  "gap_free ys \<longleftrightarrow> (\<forall>i < length ys. \<not> is_nan (ys ! i) \<longrightarrow> (\<forall>j < length ys. i < j \<longrightarrow> \<not> is_nan (ys ! j)))"

fun no_gap_after :: "bool \<Rightarrow> pyfloat list \<Rightarrow> bool" where
  "no_gap_after seen [] = True"
| "no_gap_after seen (y # ys) = ((seen \<longrightarrow> \<not> is_nan y) \<and> no_gap_after (seen \<or> \<not> is_nan y) ys)"

lemma no_gap_seen: "(\<forall>y \<in> set ys. \<not> is_nan y) \<Longrightarrow> no_gap_after seen ys"
  by (induction ys arbitrary: seen) auto

lemma gap_free_Cons: "gap_free (y # ys) \<Longrightarrow> gap_free ys \<and> (\<not> is_nan y \<longrightarrow> (\<forall>x \<in> set ys. \<not> is_nan x))"
proof -
  assume g: "gap_free (y # ys)"
  have "\<not> is_nan (ys ! j)" if "\<not> is_nan (ys ! i)" "i < j" "j < length ys" for i j
    using g [unfolded gap_free_def, rule_format, of "Suc i" "Suc j"] that by simp
  moreover have "\<not> is_nan (ys ! j)" if "\<not> is_nan y" "j < length ys" for j
    using g [unfolded gap_free_def, rule_format, of 0 "Suc j"] that by simp
  ultimately show ?thesis by (fastforce simp: gap_free_def in_set_conv_nth)
qed

lemma gap_free_no_gap: "gap_free ys \<Longrightarrow> no_gap_after False ys"
proof (induction ys)
  case (Cons y ys)
  then show ?case using gap_free_Cons [OF Cons.prems] no_gap_seen [of ys True] by (cases "is_nan y") auto
qed simp

lemma rsi_tail:
  assumes "mapR rsi_of (zip (outs (rma_update n) (rs_gains s) (map (\<lambda>(x, y). gain x y) (zip (p # vs) vs)))
      (outs (rma_update n) (rs_losses s) (map (\<lambda>(x, y). loss x y) (zip (p # vs) vs)))) = Inr ys"
    and "rs_previous s = Some p" and "no_gap_after (\<not> is_nan (rsi_current s)) ys"
  shows "\<exists>t. replay (rsi_value_update n) s vs = Inr (t, ys)"
  using assms
proof (induction vs arbitrary: s p ys)
  case (Cons v vs)
  obtain gs g where g: "rma_update n (rs_gains s) (gain p v) = (gs, g)" by fastforce
  obtain ls l where l: "rma_update n (rs_losses s) (loss p v) = (ls, l)" by fastforce
  obtain y ys' where y: "rsi_of (g, l) = Inr y" "ys = y # ys'"
      "mapR rsi_of (zip (outs (rma_update n) gs (map (\<lambda>(x, y). gain x y) (zip (v # vs) vs)))
        (outs (rma_update n) ls (map (\<lambda>(x, y). loss x y) (zip (v # vs) vs)))) = Inr ys'"
    using Cons.prems(1) g l by (auto simp: bindR_eq_Inr)
  let ?s1 = "s\<lparr>rs_previous := Some v, rs_gains := gs, rs_losses := ls\<rparr>"
  show ?case
  proof (cases "is_nan g \<or> is_nan l")
    case True
    then have "y = NaN" using y(1) by (simp add: rsi_of_def)
    then have cur: "rsi_current s = NaN" using Cons.prems(3) y(2) by (cases "rsi_current s") auto
    then have "rsi_value_update n s v = Inr (?s1, y)"
      using True g l Cons.prems(2) \<open>y = NaN\<close> by (simp add: rsi_value_update_def rsi_current_def)
    moreover have "rsi_current ?s1 = NaN" using cur by (simp add: rsi_current_def)
    ultimately show ?thesis
      using Cons.IH [of ?s1 v ys'] y Cons.prems(3) cur \<open>y = NaN\<close> by auto
  next
    case False
    let ?s2 = "?s1\<lparr>rs_value := Some y\<rparr>"
    have "rsi_value_update n s v = Inr (?s2, y)"
      using False g l Cons.prems(2) y(1) by (simp add: rsi_value_update_def rsi_of_def rsi_current_def Let_def)
    moreover have "no_gap_after (\<not> is_nan (rsi_current ?s2)) ys'"
      using Cons.prems(3) y(2) by (cases "is_nan y") (auto simp: rsi_current_def)
    ultimately show ?thesis using Cons.IH [of ?s2 v ys'] y by auto
  qed
qed simp

lemma rma_nan_start: "rma_update n average_empty NaN = (average_empty, NaN)"
  by (simp add: rma_update_def average_step_def average_empty_def)

lemma rsi_value_replays:
  assumes "0 < p" "vs \<noteq> []" "rsi_from_values vs p = Inr ys" "gap_free ys"
  shows "\<exists>t. replay (rsi_value_update (nat p)) rsi_start vs = Inr (t, ys)"
proof -
  obtain v ws where vs: "vs = v # ws" using assms(2) by (cases vs) auto
  obtain ys' where ys: "ys = NaN # ys'"
      "mapR rsi_of (zip (outs (rma_update (nat p)) average_empty (map (\<lambda>(x, y). gain x y) (zip (v # ws) ws)))
        (outs (rma_update (nat p)) average_empty (map (\<lambda>(x, y). loss x y) (zip (v # ws) ws)))) = Inr ys'"
    using assms(1,3) by (auto simp: vs rsi_from_values_def primitive_outs paired_def rma_nan_start rsi_of_def bindR_eq_Inr)
  let ?s = "rsi_start\<lparr>rs_previous := Some v\<rparr>"
  have "no_gap_after (\<not> is_nan (rsi_current ?s)) ys'"
    using gap_free_no_gap [OF assms(4)] ys(1) by (simp add: rsi_current_def rsi_start_def)
  then obtain t where "replay (rsi_value_update (nat p)) ?s ws = Inr (t, ys')"
    using rsi_tail [of "nat p" ?s v ws ys'] ys(2) by (auto simp: rsi_start_def)
  moreover have "rsi_value_update (nat p) rsi_start v = Inr (?s, NaN)"
    by (simp add: rsi_value_update_def rsi_start_def)
  ultimately show ?thesis by (simp add: vs ys(1))
qed

lemma replay_reading: "replay f s (map h xs) = replay (\<lambda>s x. f s (h x)) s xs"
  by (induction xs arbitrary: s) simp_all

lemma rsi_replays:
  assumes "0 < p" "cs \<noteq> []" "rsi_series cs p = Inr ys" "gap_free ys"
  shows "replays (rsi_series cs p) (rsi_update (nat p)) rsi_start cs"
proof -
  obtain t where "replay (rsi_value_update (nat p)) rsi_start (map c_close cs) = Inr (t, ys)"
    using rsi_value_replays [of p "map c_close cs" ys] assms by (auto simp: rsi_series_def)
  then have "replay (rsi_update (nat p)) rsi_start cs = Inr (t, ys)"
    by (simp add: replay_reading rsi_update_def [abs_def])
  moreover obtain zs where "rsi_from_values (map c_close cs) p = Inr zs"
      "length zs = length (paired gain NaN (map c_close cs))"
    using rsi_from_values_percentage [OF assms(1)] by metis
  then have "length ys = length cs" using assms(2,3) by (cases cs) (auto simp: rsi_series_def paired_def)
  ultimately show ?thesis using assms(3) by (auto simp: replays_def)
qed

end
