(* ===== verification/MomentumCold.thy ===== *)
theory MomentumCold
  imports MomentumWarmUp MomentumRsi
begin

section \<open>The remaining momentum indicators warm up as long as they announce\<close>

text \<open>
  The states over one window or one average, the balances, the ultimate oscillator, the Laguerre
  filter and Wilder's RSI, by the length of their windows or by the silence of their series.
\<close>

subsection \<open>Windows of a simple average\<close>

lemma sma_cold: "length vs < n \<Longrightarrow> \<not> sma_warmed_up n (state_after (sma_update n) sma_start vs)"
  using sma_holds_after [of n vs] by (auto simp: sma_warmed_up_def sma_holds_def length_recent)

lemma sma_fed:
  assumes "\<And>s c. proj (fst (f s c)) = fst (sma_update n (proj s) (g c))"
  shows "proj (state_after f s cs) = state_after (sma_update n) (proj s) (map g cs)"
  by (induction cs arbitrary: s) (simp_all add: assms)

lemma awesome_cold:
  assumes "make_awesome f sl = Inr (s, history)" "int (length cs) < history"
  shows "\<not> awesome_warmed_up (nat sl) (awesome_seed (nat f) (nat sl) cs)"
proof -
  have "0 < sl" "history = sl" using assms(1) by (auto simp: make_awesome_def refusals)
  then have "length (map median_price cs) < nat sl" using assms(2) by simp
  moreover have "ao_slow (state_after (awesome_update (nat f) (nat sl)) awesome_start cs) =
      state_after (sma_update (nat sl)) (ao_slow awesome_start) (map median_price cs)"
    by (rule sma_fed) (simp add: awesome_update_def split: prod.split)
  ultimately show ?thesis
    using sma_cold by (simp add: awesome_warmed_up_def awesome_seed_def awesome_start_def)
qed

lemma qstick_cold:
  assumes "make_qstick p = Inr (s, history)" "int (length cs) < history"
  shows "\<not> sma_warmed_up (nat p) (qstick_seed (nat p) cs)"
proof -
  have "history = p" using assms(1) by (auto simp: make_qstick_def bindR_eq_Inr)
  then have "length (map candle_move cs) < nat p" using assms(2) by simp
  moreover have "state_after (qstick_update (nat p)) sma_start cs = state_after (sma_update (nat p)) sma_start (map candle_move cs)"
    by (rule sma_fed [where proj = "\<lambda>s. s"]) (simp add: qstick_update_def)
  ultimately show ?thesis using sma_cold by (simp add: qstick_seed_def)
qed

lemma bop_cold:
  assumes "make_bop p = Inr (s, history)" "int (length cs) < history"
  shows "\<not> bop_warmed_up (bop_seed (nat p) cs)"
proof -
  have p: "0 < p" and h: "history = p" using assms(1) by (auto simp: make_bop_def refusals)
  have "outs (bop_update (nat p)) bop_start cs = outs (sma_update (nat p)) sma_start (map bop_raw cs)"
    using bop_series_outs [OF p, of cs] p by (simp add: bop_series_def primitive_outs)
  then have "silent (nat p - 1) (outs (bop_update (nat p)) bop_start cs)"
    using silent_sma [OF silent_0, of "nat p" "map bop_raw cs"] p by simp
  then show ?thesis
    unfolding bop_warmed_up_def bop_seed_def not_not
    by (intro cold_value [where field = bp_value])
      (use assms(2) h p in \<open>auto simp: bop_update_def bop_start_def split: prod.split\<close>)
qed

lemma imi_cold:
  assumes "make_imi p = Inr (s, history)" "int (length cs) < history"
  shows "\<not> imi_warmed_up (imi_seed (nat p) cs)"
proof -
  have p: "0 < p" and h: "history = p" using assms(1) by (auto simp: make_imi_def refusals)
  let ?up = "outs (sma_update (nat p)) sma_start (map bar_gain cs)"
  let ?down = "outs (sma_update (nat p)) sma_start (map bar_loss cs)"
  have "outs (imi_update (nat p)) imi_start cs = map (\<lambda>(u, d). imi_value u d) (zip ?up ?down)"
    using imi_series_outs [OF p, of cs] p by (simp add: imi_series_def primitive_outs)
  moreover have "silent (nat p - 1) (map (\<lambda>(u, d). imi_value u d) (zip ?up ?down))"
    by (rule silent_map)
      (use silent_sma [OF silent_0, of "nat p" "map bar_gain cs"] p in \<open>simp add: silent_def imi_value_def\<close>)
  ultimately have "silent (nat p - 1) (outs (imi_update (nat p)) imi_start cs)" by simp
  then show ?thesis
    unfolding imi_warmed_up_def imi_seed_def not_not
    by (intro cold_value [where field = im_value])
      (use assms(2) h p in \<open>auto simp: imi_update_def imi_start_def Let_def split: prod.split\<close>)
qed

lemma silent_moving_average:
  assumes "apo_moving_average_states name = Some fresh" "0 < n"
  shows "silent (n - 1) (outs (moving_average_update n) fresh vs)"
proof -
  have "silent (n - 1) (outs (rma_update n) average_empty vs)"
    using silent_average [OF silent_0 assms(2)] by (simp add: rma_update_def)
  moreover have "silent (n - 1) (outs (ema_update n) average_empty vs)"
    using silent_ema [OF silent_0 assms(2), of vs] by simp
  moreover have "silent (n - 1) (outs (sma_update n) sma_start vs)"
    using silent_sma [OF silent_0 assms(2), of vs] by simp
  ultimately show ?thesis
    using assms(1)
    by (auto simp: apo_moving_average_states_def moving_average_outs split: if_splits)
qed

lemma apo_cold:
  assumes "make_apo f sl name = Inr (s, history)" "apo_moving_average_states name = Some fresh" "int (length cs) < history"
  shows "\<not> apo_warmed_up (apo_seed (nat f) (nat sl) fresh cs)"
proof -
  have p: "0 < f" "f < sl" and h: "history = sl"
    using assms(1,2) by (auto simp: make_apo_def validate_apo_def bindR_eq_Inr split: option.splits)
  let ?o = "\<lambda>n. outs (moving_average_update n) fresh (map c_close cs)"
  have "outs (apo_update (nat f) (nat sl)) (apo_start fresh) cs = map (both2 fsub) (zip (?o (nat f)) (?o (nat sl)))"
    by (simp add: network)
      (rule outs_projection [where proj = "\<lambda>s. (ap_fast s, ap_slow s)", symmetric];
        simp add: apo_start_def apo_update_def network_steps both2_def Let_def split: prod.split)
  moreover have "silent (nat sl - 1) (map (both2 fsub) (zip (?o (nat f)) (?o (nat sl))))"
    using silent_both2 [OF silent_moving_average [OF assms(2), of "nat f" "map c_close cs"]
        silent_moving_average [OF assms(2), of "nat sl" "map c_close cs"], of fsub] p
    by (auto elim: silent_mono)
  ultimately have "silent (nat sl - 1) (outs (apo_update (nat f) (nat sl)) (apo_start fresh) cs)" by simp
  then show ?thesis
    unfolding apo_warmed_up_def apo_seed_def not_not
    by (intro cold_value [where field = ap_value])
      (use assms(3) h p in \<open>auto simp: apo_update_def apo_start_def Let_def split: prod.split\<close>)
qed

subsection \<open>Windows of closes\<close>

lemma length_push: "length w < n \<Longrightarrow> length (push_max n w v) = length w + 1"
  by (simp add: push_max_def Let_def)

lemma forecast_cold:
  assumes "make_forecast p = Inr (s, history)" "int (length cs) < history"
  shows "\<not> forecast_warmed_up (forecast_seed (nat p) cs)"
proof -
  have "history = p" using assms(1) by (auto simp: make_forecast_def)
  then have "length cs < nat p" using assms(2) by simp
  then have "length (fo_closes (forecast_seed (nat p) cs)) = length cs \<and> is_nan (fo_value (forecast_seed (nat p) cs))"
    unfolding forecast_seed_def
    by (induction cs rule: rev_induct)
      (simp_all add: forecast_start_def state_after_snoc forecast_update_def length_push Let_def)
  then show ?thesis by (simp add: forecast_warmed_up_def)
qed

lemma center_of_gravity_cold:
  assumes "make_center_of_gravity p = Inr (s, history)" "int (length cs) < history"
  shows "\<not> center_of_gravity_warmed_up (center_of_gravity_seed (nat p) cs)"
proof -
  have "history = p" using assms(1) by (auto simp: make_center_of_gravity_def)
  then have "length cs < nat p" using assms(2) by simp
  then have "length (cg_window (center_of_gravity_seed (nat p) cs)) = length cs \<and>
      is_nan (cg_value (center_of_gravity_seed (nat p) cs))"
    unfolding center_of_gravity_seed_def
    by (induction cs rule: rev_induct)
      (simp_all add: center_of_gravity_start_def state_after_snoc center_of_gravity_update_def length_push Let_def)
  then show ?thesis by (simp add: center_of_gravity_warmed_up_def)
qed

lemma dpo_value_window:
  "is_nan (dp_value (state_after (dpo_update n k) dpo_start cs))" if "length cs < max n (k + 1)"
proof -
  let ?st = "state_after (dpo_update n k) dpo_start"
  have average: "dp_average (?st cs) = state_after (sma_update n) sma_start (map c_close cs)" for cs
    using sma_fed [where proj = dp_average and f = "dpo_update n k" and n = n and g = c_close and s = dpo_start]
    by (simp add: dpo_update_def dpo_start_def Let_def split: prod.split)
  have closes: "length (dp_closes (?st cs)) = min (k + 1) (length cs)" for cs
    by (induction cs rule: rev_induct)
      (simp_all add: dpo_start_def state_after_snoc dpo_update_def push_max_def Let_def split: prod.split)
  show ?thesis
  proof (cases cs rule: rev_cases)
    case (snoc ds d)
    obtain a y where u: "sma_update n (dp_average (?st ds)) (c_close d) = (a, y)" by fastforce
    have y: "y = sma_current n (state_after (sma_update n) sma_start (map c_close cs))"
      using sma_update_current [of n "dp_average (?st ds)" "c_close d"] u
      by (simp add: snoc average state_after_snoc)
    have st: "?st cs = fst (dpo_update n k (?st ds) d)" by (simp add: snoc state_after_snoc)
    have long: "length (push_max (k + 1) (dp_closes (?st ds)) (c_close d)) = min (k + 1) (length cs)"
      using closes [of cs] unfolding st by (simp add: dpo_update_def u Let_def)
    have "is_nan y \<or> min (k + 1) (length cs) \<le> k"
      using that y sma_cold [of "map c_close cs" n] by (auto simp: sma_current_def less_max_iff_disj)
    then show ?thesis unfolding st by (simp add: dpo_update_def u Let_def long [simplified])
  qed (simp add: dpo_start_def)
qed

lemma dpo_cold:
  assumes "make_dpo p = Inr (s, history)" "int (length cs) < history"
  shows "\<not> dpo_warmed_up (dpo_seed (nat p) (nat (p div 2 + 1)) cs)"
proof -
  have p: "0 < p" and h: "history = max p (p div 2 + 1 + 1)"
    using assms(1) by (auto simp: make_dpo_def dpo_shift_def bindR_eq_Inr)
  have "length cs < max (nat p) (nat (p div 2 + 1) + 1)" using assms(2) h p by auto
  then show ?thesis using dpo_value_window by (simp add: dpo_warmed_up_def dpo_seed_def)
qed

lemma laguerre_cold:
  assumes "make_laguerre gamma = Inr (s, history)" "int (length cs) < history"
  shows "\<not> laguerre_warmed_up (laguerre_seed gamma cs)"
proof -
  have "history = 2" using assms(1) by (auto simp: make_laguerre_def)
  then consider "cs = []" | c where "cs = [c]" using assms(2) by (cases cs; cases "tl cs") auto
  then show ?thesis
    by cases (simp_all add: laguerre_warmed_up_def laguerre_seed_def laguerre_update_def laguerre_start_def)
qed

subsection \<open>Ultimate oscillator\<close>

lemma ultimate_cold:
  assumes "make_ultimate sh md lg = Inr (s, history)" "int (length cs) < history"
  shows "\<not> ultimate_warmed_up (ultimate_seed (nat sh) (nat md) (nat lg) cs)"
proof (cases "cs = []")
  case False
  have p: "0 < sh" "0 < md" "0 < lg" and h: "history = max (max sh md) lg + 1"
    using assms(1) by (auto simp: make_ultimate_def refusals min_le_iff_disj)
  let ?f = "\<lambda>g n. outs (sma_update n) sma_start (close_paired g NaN cs)"
  let ?w = "\<lambda>n. map (both2 pressure_share) (zip (?f buying_pressure n) (?f true_span n))"
  have "ultimate_series cs sh md lg = Inr (map (\<lambda>(a, b, c). ultimate_value a b c) (zip (?w (nat sh)) (zip (?w (nat md)) (?w (nat lg)))))"
    using p by (simp add: ultimate_series_def weighed_def min_le_iff_disj primitive_outs Let_def)
  then have eq: "outs (ultimate_update (nat sh) (nat md) (nat lg)) ultimate_start cs =
      map (\<lambda>(a, b, c). ultimate_value a b c) (zip (?w (nat sh)) (zip (?w (nat md)) (?w (nat lg))))"
    using ultimate_series_outs [OF p False] by simp
  have w: "silent n (?w n)" if "0 < n" for n
    using silent_both2 [OF silent_sma [OF silent_close_paired that, of buying_pressure cs]
        silent_sma [OF silent_close_paired that, of true_span cs], of pressure_share] by simp
  have "silent (max (max (nat sh) (nat md)) (nat lg))
      (map (\<lambda>(a, b, c). ultimate_value a b c) (zip (?w (nat sh)) (zip (?w (nat md)) (?w (nat lg)))))"
    by (rule silent_map)
      (use w [of "nat sh"] w [of "nat md"] w [of "nat lg"] p in
        \<open>auto simp: silent_def ultimate_value_def less_max_iff_disj\<close>)
  moreover have "length cs \<le> max (max (nat sh) (nat md)) (nat lg)"
    using assms(2) h by (auto simp: le_max_iff_disj)
  ultimately show ?thesis
    unfolding ultimate_warmed_up_def ultimate_seed_def not_not eq [symmetric]
    by (intro cold_value [where field = ul_value])
      (auto simp: ultimate_update_def ultimate_start_def Let_def split: prod.split option.split)
qed (simp add: ultimate_warmed_up_def ultimate_seed_def ultimate_start_def)

subsection \<open>RSI\<close>

text \<open>A Wilder average has a value only after as many values as its period.\<close>

definition fed_at_most :: "nat \<Rightarrow> nat \<Rightarrow> average_value_state \<Rightarrow> bool" where
  "fed_at_most n k s \<longleftrightarrow> (if av_value s = None then length (av_seed s) \<le> k \<and> length (av_seed s) < n else n \<le> k)"

lemma rma_fed:
  assumes "0 < n" "fed_at_most n k s" "rma_update n s v = (s', y)"
  shows "fed_at_most n (k + 1) s'" and "is_nan y \<or> n \<le> k + 1"
  using assms
  by (auto simp: fed_at_most_def rma_update_def average_step_def average_current_def Let_def split: if_splits option.splits)

definition rsi_fed :: "nat \<Rightarrow> nat \<Rightarrow> rsi_value_state \<Rightarrow> bool" where
  "rsi_fed n k s \<longleftrightarrow> fed_at_most n (k - 1) (rs_gains s) \<and> (rs_previous s = None \<longrightarrow> k = 0) \<and> (rs_previous s \<noteq> None \<longrightarrow> 0 < k) \<and>
     (rs_value s \<noteq> None \<longrightarrow> n + 1 \<le> k)"

lemma rsi_fed_step:
  assumes "0 < n" "rsi_fed n k s" "rsi_update n s c = Inr (s', y)"
  shows "rsi_fed n (k + 1) s'"
proof (cases "rs_previous s")
  case None
  then show ?thesis using assms by (auto simp: rsi_fed_def rsi_update_def rsi_value_update_def)
next
  case (Some q)
  then have k: "0 < k" using assms(2) by (simp add: rsi_fed_def)
  obtain g a where g: "rma_update n (rs_gains s) (gain q (c_close c)) = (g, a)" by fastforce
  obtain l b where l: "rma_update n (rs_losses s) (loss q (c_close c)) = (l, b)" by fastforce
  have fed: "fed_at_most n (k - 1 + 1) g" "is_nan a \<or> n \<le> k - 1 + 1"
    using rma_fed [OF assms(1) _ g] assms(2) by (auto simp: rsi_fed_def)
  have "rs_gains s' = g" "rs_previous s' \<noteq> None" "rs_value s' \<noteq> None \<longrightarrow> rs_value s \<noteq> None \<or> \<not> is_nan a"
    using assms(3) by (auto simp: rsi_update_def rsi_value_update_def Some g l Let_def bindR_eq_Inr split: if_splits)
  then show ?thesis using fed k assms(2) by (auto simp: rsi_fed_def)
qed

lemma rsi_fed_replay:
  "0 < n \<Longrightarrow> rsi_fed n k s \<Longrightarrow> replay (rsi_update n) s cs = Inr (t, ys) \<Longrightarrow> rsi_fed n (k + length cs) t"
proof (induction cs arbitrary: s k ys)
  case (Cons c cs)
  then obtain s' y ys' where "rsi_update n s c = Inr (s', y)" "replay (rsi_update n) s' cs = Inr (t, ys')"
    by (auto simp: bindR_eq_Inr)
  then show ?case using Cons.IH [of "k + 1" s' ys'] rsi_fed_step [OF Cons.prems(1,2)] Cons.prems(1) by simp
qed simp

lemma rsi_cold:
  assumes "make_rsi p = Inr (s, history)" "int (length cs) < history" "rsi_seed (nat p) cs = Inr t"
  shows "\<not> rsi_value_warmed_up t"
proof -
  have p: "0 < p" and h: "history = p + 1" using assms(1) by (auto simp: make_rsi_def bindR_eq_Inr)
  have "rsi_fed (nat p) 0 rsi_start"
    using p by (simp add: rsi_fed_def rsi_start_def fed_at_most_def average_empty_def)
  moreover obtain ys where "replay (rsi_update (nat p)) rsi_start cs = Inr (t, ys)"
    using assms(3) by (auto simp: rsi_seed_def bindR_eq_Inr)
  ultimately have "rsi_fed (nat p) (0 + length cs) t" using rsi_fed_replay [of "nat p" 0 rsi_start cs t] p by simp
  then show ?thesis using assms(2) h p by (auto simp: rsi_fed_def rsi_value_warmed_up_def)
qed

end
