(* ===== verification/MomentumSamples.thy ===== *)
theory MomentumSamples
  imports MomentumCold Literals
begin

section \<open>Concrete instances\<close>

text \<open>
  Three days of candles for the momentum indicators.
\<close>

definition momentum_day :: "pyfloat \<Rightarrow> candle" where
  "momentum_day close = \<lparr>c_symbol = ''BTCUSDT'', c_exchange = ''binance'', c_timeframe = ''1d'',
     c_open_time = 0, c_close_time = 86400000000, c_open = Fin 100, c_high = Fin 110,
     c_low = Fin 90, c_close = close, c_volume = Fin 5, c_quote_volume = None, c_trade_count = None\<rparr>"

definition momentum_days :: "candle list" where
  "momentum_days = [momentum_day (Fin 100), momentum_day (Fin 104), momentum_day (Fin 102)]"

lemma momentum_days_not_Nil [simp]: "momentum_days \<noteq> []"
  by (simp add: momentum_days_def)

lemma empty_histories:
  "tsi_series [] 25 13 = Inr [NaN] \<and> cmo_series [] 14 = Inr [NaN] \<and> trix_series [] 15 = Inr [NaN]"
  by (simp add: tsi_series_def cmo_series_def trix_series_def close_paired_def paired_def primitive_outs magnitude_def
      ema_update_def average_step_def average_empty_def sma_update_def sma_current_def sma_warmed_up_def sma_start_def
      both2_def both_def Let_def)

end
