(* ===== verification/Resample.thy ===== *)
theory Resample
  imports Engine FloatBounds "HOL-Library.AList"
begin

section \<open>Resampled candles (core_lib/candles.py, signal_service/infrastructure/data_feed.py)\<close>

text \<open>
  One-minute source rows are grouped into buckets of a timeframe; a bucket that holds exactly its
  minutes becomes a candle, every other bucket from the first source row to the boundary is
  counted as dropped. The signal feed is this function on the rows of the candle table. The section
  proves what a feed reads without mention of the grouping and the loop, and that a read that starts
  at an instant gives the candles of the whole read from there on.
\<close>

record ohlcv_row =
  oh_time :: instant
  oh_open :: decimal
  oh_high :: decimal
  oh_low :: decimal
  oh_close :: decimal
  oh_volume :: decimal
  oh_quote_volume :: "decimal option"
  oh_trade_count :: "int option"

record resampled =
  rc_candles :: "candle list"
  rc_dropped :: nat

definition timeframe_duration :: "string \<Rightarrow> int res" where
  "timeframe_duration tf =
     (case timeframe_minutes tf of
        None \<Rightarrow> Inl (ValueError ''unsupported timeframe'') | Some n \<Rightarrow> Inr (int n * minute_us))"

definition second_us :: int where "second_us = 1000000"

text \<open>The POSIX timestamp is a float; \<open>int\<close> truncates it toward zero.\<close>

definition bucket_start :: "instant \<Rightarrow> int \<Rightarrow> instant res" where
  "bucket_start t duration =
     (let seconds = duration div second_us in
      bindR (py_trunc (total_seconds t)) (\<lambda>epoch. Inr ((epoch - epoch mod seconds) * second_us)))"

type_synonym bucket = "(instant \<times> ohlcv_row) list"

definition group_row :: "int \<Rightarrow> (instant \<times> bucket) list \<Rightarrow> ohlcv_row \<Rightarrow> (instant \<times> bucket) list res" where
  "group_row duration grouped row =
     bindR (bucket_start (oh_time row) duration) (\<lambda>start.
     (let group = (case map_of grouped start of None \<Rightarrow> [] | Some g \<Rightarrow> g) in
      raise_if (map_of group (oh_time row) \<noteq> None) (ValueError ''duplicate 1m source candle'')
      (Inr (AList.update start (group @ [(oh_time row, row)]) grouped))))"

definition all_present :: "'a option list \<Rightarrow> 'a list option" where
  "all_present xs = (if None \<in> set xs then None else Some (map the xs))"

definition build_candle ::
    "ohlcv_row list \<Rightarrow> string \<Rightarrow> string \<Rightarrow> string \<Rightarrow> instant \<Rightarrow> int \<Rightarrow> candle res" where
  "build_candle rows symbol exchange tf open_time duration =
     make_candle \<lparr>c_symbol = symbol, c_exchange = exchange, c_timeframe = tf, c_open_time = open_time,
       c_close_time = open_time + duration,
       c_open = float_of_decimal (oh_open (hd rows)),
       c_high = float_of_decimal (Max (set (map oh_high rows))),
       c_low = float_of_decimal (Min (set (map oh_low rows))),
       c_close = float_of_decimal (oh_close (last rows)),
       c_volume = float_of_decimal (dsum 0 (map oh_volume rows)),
       c_quote_volume = map_option (\<lambda>vs. float_of_decimal (dsum 0 vs)) (all_present (map oh_quote_volume rows)),
       c_trade_count = map_option sum_list (all_present (map oh_trade_count rows))\<rparr>"

definition expected_times :: "instant \<Rightarrow> int \<Rightarrow> instant set" where
  "expected_times start duration = (\<lambda>i. start + int i * minute_us) ` {0..<nat (duration div minute_us)}"

definition bucket_step ::
    "(instant \<Rightarrow> bucket) \<Rightarrow> string \<Rightarrow> string \<Rightarrow> string \<Rightarrow> int \<Rightarrow> resampled \<Rightarrow> instant \<Rightarrow> resampled res" where
  "bucket_step grouped symbol exchange tf duration acc current =
     (let bucket = grouped current in
      if set (map fst bucket) \<noteq> expected_times current duration
      then Inr (acc\<lparr>rc_dropped := rc_dropped acc + 1\<rparr>)
      else bindR (build_candle (map snd (sort_key fst bucket)) symbol exchange tf current duration)
        (\<lambda>c. Inr (acc\<lparr>rc_candles := rc_candles acc @ [c]\<rparr>)))"

text \<open>The loop over the buckets; the code's duration is positive, which is its measure.\<close>

function resample_loop ::
    "(instant \<Rightarrow> bucket) \<Rightarrow> string \<Rightarrow> string \<Rightarrow> string \<Rightarrow> int \<Rightarrow> instant \<Rightarrow> instant \<Rightarrow> resampled \<Rightarrow> resampled res" where
  "resample_loop grouped symbol exchange tf duration latest current acc =
     (if 0 < duration \<and> current \<le> latest
      then bindR (bucket_step grouped symbol exchange tf duration acc current) (\<lambda>acc'.
        resample_loop grouped symbol exchange tf duration latest (current + duration) acc')
      else Inr acc)"
  by pat_completeness auto

termination
  by (relation "measure (\<lambda>(grouped, symbol, exchange, tf, duration, latest, current, acc). nat (latest + duration - current))")
    auto

declare resample_loop.simps [simp del]

definition resample_confirmed_ohlcv ::
    "ohlcv_row list \<Rightarrow> string \<Rightarrow> string \<Rightarrow> string \<Rightarrow> instant \<Rightarrow> resampled res" where
  "resample_confirmed_ohlcv rows symbol exchange tf boundary =
     bindR (timeframe_duration tf) (\<lambda>duration.
     if rows = [] then Inr \<lparr>rc_candles = [], rc_dropped = 0\<rparr>
     else bindR (foldR (group_row duration) [] rows) (\<lambda>grouped.
       (let first_bucket = Min (set (map fst grouped)) in
        bindR (bucket_start (boundary - duration) duration) (\<lambda>latest.
        if latest < first_bucket then Inr \<lparr>rc_candles = [], rc_dropped = 0\<rparr>
        else resample_loop (\<lambda>b. case map_of grouped b of None \<Rightarrow> [] | Some g \<Rightarrow> g)
          symbol exchange tf duration latest first_bucket \<lparr>rc_candles = [], rc_dropped = 0\<rparr>))))"

subsection \<open>The signal feed\<close>

text \<open>A row of \<open>ohlcv_futures\<close> with the columns the queries select on; the primary key makes rows distinct.\<close>

record table_row =
  tb_symbol :: string
  tb_exchange :: string
  tb_timeframe :: string
  tb_row :: ohlcv_row

definition select_rows :: "table_row list \<Rightarrow> (table_row \<Rightarrow> bool) \<Rightarrow> ohlcv_row list" where
  "select_rows table wanted = sort_key oh_time (map tb_row (filter wanted table))"

text \<open>The source rows of a series in an interval; the feed counts the buckets it dropped.\<close>

definition series_rows :: "table_row list \<Rightarrow> string \<Rightarrow> string \<Rightarrow> instant \<Rightarrow> ohlcv_row list" where
  "series_rows table exchange symbol up_to =
     select_rows table (\<lambda>r. tb_symbol r = symbol \<and> tb_exchange r = exchange \<and> tb_timeframe r = ''1m'' \<and>
       oh_time (tb_row r) < up_to)"

definition series_rows_after :: "table_row list \<Rightarrow> string \<Rightarrow> string \<Rightarrow> instant \<Rightarrow> instant \<Rightarrow> ohlcv_row list" where
  "series_rows_after table exchange symbol after up_to =
     select_rows table (\<lambda>r. tb_symbol r = symbol \<and> tb_exchange r = exchange \<and> tb_timeframe r = ''1m'' \<and>
       after \<le> oh_time (tb_row r) \<and> oh_time (tb_row r) < up_to)"

definition feed_resample ::
    "string \<Rightarrow> string \<Rightarrow> string \<Rightarrow> instant \<Rightarrow> ohlcv_row list \<Rightarrow> (nat, candle list) st" where
  "feed_resample exchange symbol tf boundary rows dropped =
     (case resample_confirmed_ohlcv rows symbol exchange tf boundary of
        Inl e \<Rightarrow> (dropped, Inl e)
      | Inr result \<Rightarrow> (dropped + rc_dropped result, Inr (rc_candles result)))"

definition feed_candles ::
    "table_row list \<Rightarrow> string \<Rightarrow> string \<Rightarrow> string \<Rightarrow> instant \<Rightarrow> (nat, candle list) st" where
  "feed_candles table exchange symbol tf up_to =
     feed_resample exchange symbol tf up_to (series_rows table exchange symbol up_to)"

definition feed_candles_after ::
    "table_row list \<Rightarrow> string \<Rightarrow> string \<Rightarrow> string \<Rightarrow> instant \<Rightarrow> instant \<Rightarrow> (nat, candle list) st" where
  "feed_candles_after table exchange symbol tf after up_to =
     (if up_to \<le> after then liftS (Inr [])
      else bindS (feed_resample exchange symbol tf up_to (series_rows_after table exchange symbol after up_to))
        (\<lambda>cs. liftS (Inr (filter (\<lambda>c. after \<le> c_open_time c) cs))))"

subsection \<open>Truncated timestamps are floors\<close>

lemma below_next_second:
  assumes "0 \<le> us" and "us < 2 ^ 33 * second_us"
  shows "f64r (of_int us / 1000000) < of_int (us div 1000000) + 1" and "of_int (us div 1000000) \<le> f64r (of_int us / 1000000)"
proof -
  let ?k = "us div 1000000"
  have k: "0 \<le> ?k" "?k < 2 ^ 33" using assms by (auto simp: second_us_def)
  have us: "?k * 1000000 \<le> us" "us \<le> ?k * 1000000 + 999999" by simp_all
  have lo: "f64r (of_int ?k) = of_int ?k" using f64r_multiple [of ?k 0] k by simp
  have le: "(of_int (?k * 1000000) :: rat) \<le> of_int us" unfolding of_int_le_iff by (rule us(1))
  have "of_int ?k = (of_int (?k * 1000000) :: rat) / 1000000" by simp
  also have "\<dots> \<le> of_int us / 1000000"
    by (rule divide_right_mono [OF le]) simp
  finally show "of_int ?k \<le> f64r (of_int us / 1000000)" using f64r_mono lo by metis
  have hi: "f64r (of_int ((?k + 1) * 2 ^ 20 - 1) * 2 powi (-20)) = of_int ((?k + 1) * 2 ^ 20 - 1) * 2 powi (-20)"
    using k by (intro f64r_multiple) auto
  have edge: "of_int ((?k + 1) * 2 ^ 20 - 1) * 2 powi (-20) = (of_int ?k + 1 - 1 / 2 ^ 20 :: rat)"
    by (simp add: power_int_minus field_simps)
  have "(of_int us :: rat) \<le> of_int (?k * 1000000 + 999999)" using us(2) by (simp only: of_int_le_iff)
  then have "of_int us / 1000000 \<le> (of_int ?k + 1 - 1 / 2 ^ 20 :: rat)" by simp
  then have "f64r (of_int us / 1000000) \<le> of_int ?k + 1 - 1 / 2 ^ 20"
    using f64r_mono hi unfolding edge by metis
  then show "f64r (of_int us / 1000000) < of_int ?k + 1" by simp
qed

definition plain_instant :: "instant \<Rightarrow> bool" where
  "plain_instant t \<longleftrightarrow> 0 \<le> t \<and> t < 2 ^ 33 * second_us"

lemma epoch_seconds:
  assumes "plain_instant t"
  shows "py_trunc (total_seconds t) = Inr (t div second_us)"
proof -
  note b = below_next_second [of t] assms [unfolded plain_instant_def]
  have fl: "\<lfloor>f64r (of_int t / 1000000)\<rfloor> = t div 1000000"
    using b by (intro floor_unique) auto
  have "\<bar>f64r (of_int t / 1000000)\<bar> < f64_big"
  proof -
    have "0 \<le> f64r (of_int t / 1000000)" using b by (intro f64r_nonneg) auto
    moreover have "f64r (of_int t / 1000000) < 2 ^ 34"
    proof -
      have "t div 1000000 < 2 ^ 33" using b by (auto simp: second_us_def)
      then have "(of_int (t div 1000000) :: rat) < of_int (2 ^ 33)" by (simp only: of_int_less_iff)
      then show ?thesis using b(1) b(3) by simp
    qed
    moreover have "(2::rat) ^ 34 \<le> f64_big" unfolding f64_big_def by (rule power_increasing) auto
    ultimately show ?thesis by simp
  qed
  then have "total_seconds t = Fin (f64r (of_int t / 1000000))"
    unfolding total_seconds_def by (simp add: fround_eq_Fin)
  moreover have "0 \<le> f64r (of_int t / 1000000)" using b by (intro f64r_nonneg) auto
  ultimately show ?thesis using fl by (simp add: py_trunc_def py_int_def second_us_def)
qed

definition floor_to :: "int \<Rightarrow> instant \<Rightarrow> instant" where
  "floor_to duration t = t - t mod duration"

lemma bucket_start_floor:
  assumes "plain_instant t" and "second_us dvd duration" and "0 < duration"
  shows "bucket_start t duration = Inr (floor_to duration t)"
proof -
  obtain s where s: "duration = s * second_us" "0 < s"
    using assms(2,3) by (metis dvd_def mult.commute second_us_def zero_less_mult_pos2 zero_less_numeral)
  have "t mod duration = second_us * (t div second_us mod s) + t mod second_us"
    using zmod_zmult2_eq [of s t second_us] s by (simp add: mult.commute second_us_def)
  then have "(t div second_us - t div second_us mod s) * second_us = floor_to duration t"
    using mult_div_mod_eq [of second_us t] by (simp add: floor_to_def algebra_simps)
  then show ?thesis using epoch_seconds [OF assms(1)] s by (simp add: bucket_start_def Let_def second_us_def)
qed

subsection \<open>Grouping\<close>

definition bucket_of :: "int \<Rightarrow> ohlcv_row list \<Rightarrow> instant \<Rightarrow> bucket" where
  "bucket_of duration rows b = map (\<lambda>r. (oh_time r, r)) (filter (\<lambda>r. floor_to duration (oh_time r) = b) rows)"

definition groups :: "(instant \<times> bucket) list \<Rightarrow> instant \<Rightarrow> bucket" where
  "groups grouped b = (case map_of grouped b of None \<Rightarrow> [] | Some g \<Rightarrow> g)"

definition plain_rows :: "ohlcv_row list \<Rightarrow> bool" where
  "plain_rows rows \<longleftrightarrow> distinct (map oh_time rows) \<and> (\<forall>r\<in>set rows. plain_instant (oh_time r))"

lemma map_of_update: "map_of (AList.update k v al) x = (if x = k then Some v else map_of al x)"
  by (simp add: update_conv)

lemma group_rows:
  assumes "second_us dvd duration" and "0 < duration"
  shows "plain_rows (pre @ rows) \<Longrightarrow> groups grouped = bucket_of duration pre \<Longrightarrow>
    set (map fst grouped) = (\<lambda>r. floor_to duration (oh_time r)) ` set pre \<Longrightarrow>
    \<exists>grouped'. foldR (group_row duration) grouped rows = Inr grouped' \<and> groups grouped' = bucket_of duration (pre @ rows) \<and>
      set (map fst grouped') = (\<lambda>r. floor_to duration (oh_time r)) ` set (pre @ rows)"
proof (induction rows arbitrary: pre grouped)
  case (Cons row rows)
  let ?b = "floor_to duration (oh_time row)"
  let ?g = "AList.update ?b (groups grouped ?b @ [(oh_time row, row)]) grouped"
  have fresh: "map_of (groups grouped ?b) (oh_time row) = None"
    using Cons.prems(1) unfolding Cons.prems(2) bucket_of_def
    by (auto simp: plain_rows_def map_of_eq_None_iff image_iff)
  have step: "group_row duration grouped row = Inr ?g"
    using Cons.prems(1) fresh bucket_start_floor [OF _ assms, of "oh_time row"]
    by (simp add: group_row_def groups_def plain_rows_def Let_def)
  have "groups ?g = bucket_of duration (pre @ [row])"
    using Cons.prems(2) by (auto simp: fun_eq_iff groups_def map_of_update bucket_of_def)
  moreover have "set (map fst ?g) = (\<lambda>r. floor_to duration (oh_time r)) ` set (pre @ [row])"
    using Cons.prems(3) by (simp add: dom_update)
  ultimately show ?case
    using Cons.IH [of "pre @ [row]" ?g] Cons.prems(1) step by simp
qed simp

subsection \<open>The loop over the buckets\<close>

definition bucket_starts :: "instant \<Rightarrow> instant \<Rightarrow> int \<Rightarrow> instant list" where
  "bucket_starts first latest duration = map (\<lambda>i. first + int i * duration) [0..<nat ((latest - first) div duration + 1)]"

lemma bucket_starts_step:
  assumes "0 < duration" and "first \<le> latest"
  shows "bucket_starts first latest duration = first # bucket_starts (first + duration) latest duration"
proof -
  have "(latest - (first + duration)) div duration = (latest - first) div duration - 1"
    using div_mult_self1 [of duration "latest - first" "-1"] assms(1) by (simp add: algebra_simps)
  moreover have "0 \<le> (latest - first) div duration" using assms by (simp add: pos_imp_zdiv_nonneg_iff)
  ultimately have n: "nat ((latest - first) div duration + 1) = Suc (nat ((latest - (first + duration)) div duration + 1))"
    by (simp add: Suc_nat_eq_nat_zadd1)
  show ?thesis unfolding bucket_starts_def n upt_conv_Cons [OF zero_less_Suc] map_Suc_upt [symmetric]
    by (simp add: algebra_simps)
qed

lemma bucket_starts_empty: "0 < duration \<Longrightarrow> latest < first \<Longrightarrow> bucket_starts first latest duration = []"
  using div_neg_pos_less0 [of "latest - first" duration] by (simp add: bucket_starts_def)

lemma resample_loop_steps:
  assumes "0 < duration"
  shows "resample_loop grouped symbol exchange tf duration latest current acc =
    foldR (bucket_step grouped symbol exchange tf duration) acc (bucket_starts current latest duration)"
  using assms
proof (induction grouped symbol exchange tf duration latest current acc rule: resample_loop.induct)
  case (1 grouped symbol exchange tf duration latest current acc)
  show ?case
  proof (cases "current \<le> latest")
    case True
    have "resample_loop grouped symbol exchange tf duration latest current acc =
        bindR (bucket_step grouped symbol exchange tf duration acc current) (\<lambda>acc'.
          resample_loop grouped symbol exchange tf duration latest (current + duration) acc')"
      using True 1(2) by (subst resample_loop.simps) simp
    also have "\<dots> = bindR (bucket_step grouped symbol exchange tf duration acc current) (\<lambda>acc'.
        foldR (bucket_step grouped symbol exchange tf duration) acc' (bucket_starts (current + duration) latest duration))"
      using 1 True by (intro bindR_cong) auto
    finally show ?thesis using bucket_starts_step [of duration current latest] True 1(2) by simp
  next
    case False
    then show ?thesis using bucket_starts_empty [of duration latest current] 1(2) by (subst resample_loop.simps) simp
  qed
qed

definition whole_bucket :: "(instant \<Rightarrow> bucket) \<Rightarrow> int \<Rightarrow> instant \<Rightarrow> bool" where
  "whole_bucket grouped duration b \<longleftrightarrow> set (map fst (grouped b)) = expected_times b duration"

lemma bucket_steps:
  assumes "\<And>b. b \<in> set bs \<Longrightarrow> whole_bucket grouped duration b \<Longrightarrow>
      build_candle (map snd (sort_key fst (grouped b))) symbol exchange tf b duration = Inr (candle_at b)"
  shows "foldR (bucket_step grouped symbol exchange tf duration) acc bs =
    Inr \<lparr>rc_candles = rc_candles acc @ map candle_at (filter (whole_bucket grouped duration) bs),
      rc_dropped = rc_dropped acc + length (filter (\<lambda>b. \<not> whole_bucket grouped duration b) bs)\<rparr>"
  using assms
proof (induction bs arbitrary: acc)
  case (Cons b bs)
  then show ?case
    by (cases "whole_bucket grouped duration b") (simp_all add: bucket_step_def whole_bucket_def Let_def)
qed simp

subsection \<open>A bucket of valid rows makes a candle\<close>

definition sane_row :: "ohlcv_row \<Rightarrow> bool" where
  "sane_row r \<longleftrightarrow> flt (Fin 0) (float_of_decimal (oh_low r)) \<and> oh_low r \<le> oh_open r \<and> oh_low r \<le> oh_close r \<and>
     oh_open r \<le> oh_high r \<and> oh_close r \<le> oh_high r \<and> 0 \<le> oh_volume r \<and>
     (\<forall>q. oh_quote_volume r = Some q \<longrightarrow> 0 \<le> q) \<and> (\<forall>k. oh_trade_count r = Some k \<longrightarrow> 0 \<le> k)"

lemma float_of_decimal_mono: "x \<le> y \<Longrightarrow> fle (float_of_decimal x) (float_of_decimal y)"
  by (simp add: float_of_decimal_def fround_mono)

lemma positive_above: "flt (Fin 0) (float_of_decimal x) \<Longrightarrow> x \<le> y \<Longrightarrow> \<not> fle (float_of_decimal y) (Fin 0)"
  using float_of_decimal_mono [of x y] fle_trans fle_iff by blast

lemma float_of_decimal_nonneg: "0 \<le> x \<Longrightarrow> \<not> flt (float_of_decimal x) (Fin 0)"
  using fround_nonneg [of x] by (simp add: float_of_decimal_def weakly_nonneg_def)

lemma dsum_nonneg: "0 \<le> acc \<Longrightarrow> \<forall>x\<in>set xs. 0 \<le> x \<Longrightarrow> 0 \<le> dsum acc xs"
  by (induction acc xs rule: dsum.induct) (auto intro: dadd_nonneg)

lemma all_present_Some: "all_present xs = Some ys \<Longrightarrow> y \<in> set ys \<Longrightarrow> Some y \<in> set xs"
  by (auto simp: all_present_def split: if_splits) (metis option.exhaust_sel)

lemma build_candle_ok:
  assumes "rows \<noteq> []" and "\<forall>r\<in>set rows. sane_row r" and "timeframe_minutes tf = Some n"
  obtains c where "build_candle rows symbol exchange tf t (int n * minute_us) = Inr c" and "c_open_time c = t"
    and "c_close_time c = t + int n * minute_us" and "c_symbol c = symbol" and "c_timeframe c = tf"
proof -
  let ?top = "Max (set (map oh_high rows))" and ?bottom = "Min (set (map oh_low rows))"
  let ?F = float_of_decimal
  have sane: "sane_row (hd rows)" "sane_row (last rows)" using assms(1,2) by auto
  have top: "oh_high r \<le> ?top" and bottom: "?bottom \<le> oh_low r" if "r \<in> set rows" for r
    using that by (auto intro: Max_ge Min_le)
  have "?bottom \<in> set (map oh_low rows)" using assms(1) by (intro Min_in) auto
  then obtain b where b: "?bottom = oh_low b" "b \<in> set rows" by auto
  then have low: "flt (Fin 0) (?F ?bottom)" using assms(2) by (auto simp: sane_row_def)
  have ends: "?bottom \<le> oh_open (hd rows)" "oh_open (hd rows) \<le> ?top" "?bottom \<le> oh_close (last rows)"
    "oh_close (last rows) \<le> ?top"
    using order_trans [OF bottom [OF hd_in_set [OF assms(1)]]] order_trans [OF bottom [OF last_in_set [OF assms(1)]]]
      order_trans [OF _ top [OF hd_in_set [OF assms(1)]]] order_trans [OF _ top [OF last_in_set [OF assms(1)]]] sane
    unfolding sane_row_def by blast+
  have prices: "\<not> fle (?F (oh_open (hd rows))) (Fin 0)" "\<not> fle (?F ?top) (Fin 0)" "\<not> fle (?F ?bottom) (Fin 0)"
    "\<not> fle (?F (oh_close (last rows))) (Fin 0)"
    using positive_above [OF low] ends by force+
  have order: "\<not> flt (?F ?top) (fmax (?F (oh_open (hd rows))) (?F (oh_close (last rows))))"
    "\<not> flt (fmin (?F (oh_open (hd rows))) (?F (oh_close (last rows)))) (?F ?bottom)"
    using ends [THEN float_of_decimal_mono] by (auto simp: fmax_def fmin_def fle_iff)
  have volume: "\<not> flt (?F (dsum 0 (map oh_volume rows))) (Fin 0)"
    using assms(2) by (intro float_of_decimal_nonneg dsum_nonneg) (auto simp: sane_row_def)
  have quote_volume: "\<not> flt (?F (dsum 0 vs)) (Fin 0)" if "all_present (map oh_quote_volume rows) = Some vs" for vs
  proof (intro float_of_decimal_nonneg dsum_nonneg ballI)
    fix v assume "v \<in> set vs"
    from all_present_Some [OF that this] show "0 \<le> v" using assms(2) by (force simp: sane_row_def)
  qed simp
  have count: "\<not> sum_list vs < 0" if "all_present (map oh_trade_count rows) = Some vs" for vs
  proof -
    have "0 \<le> v" if v: "v \<in> set vs" for v
      using all_present_Some [OF \<open>all_present _ = _\<close> v] assms(2) by (force simp: sane_row_def)
    then have "0 \<le> sum_list vs" by (rule sum_list_nonneg)
    then show ?thesis by simp
  qed
  show thesis
  proof (rule that)
    show "build_candle rows symbol exchange tf t (int n * minute_us) = Inr
       \<lparr>c_symbol = symbol, c_exchange = exchange, c_timeframe = tf, c_open_time = t,
       c_close_time = t + int n * minute_us, c_open = ?F (oh_open (hd rows)), c_high = ?F ?top, c_low = ?F ?bottom,
       c_close = ?F (oh_close (last rows)), c_volume = ?F (dsum 0 (map oh_volume rows)),
       c_quote_volume = map_option (\<lambda>vs. ?F (dsum 0 vs)) (all_present (map oh_quote_volume rows)),
       c_trade_count = map_option sum_list (all_present (map oh_trade_count rows))\<rparr>"
      using prices order volume quote_volume count assms(3)
      by (auto simp: build_candle_def make_candle_def validate_candle_def split: option.splits)
  qed simp_all
qed

subsection \<open>The whole resampling\<close>

lemma floor_to_le: "0 < duration \<Longrightarrow> floor_to duration t \<le> t"
  by (simp add: floor_to_def)

lemma bucket_starts_le:
  assumes "0 < duration" and "b \<in> set (bucket_starts first latest duration)"
  shows "first \<le> b" and "b \<le> latest"
proof -
  have "\<exists>i. b = first + int i * duration \<and> i < nat ((latest - first) div duration + 1)"
    using assms(2) by (auto simp: bucket_starts_def)
  then obtain i where i: "b = first + int i * duration" "i < nat ((latest - first) div duration + 1)" by blast
  then have "int i \<le> (latest - first) div duration" by linarith
  then have "int i * duration \<le> (latest - first) div duration * duration"
    using assms(1) by (intro mult_right_mono) auto
  also have "\<dots> \<le> latest - first"
    using pos_mod_sign [OF assms(1), of "latest - first"] minus_mod_eq_div_mult [of "latest - first" duration] by linarith
  finally show "b \<le> latest" using i by simp
  show "first \<le> b" using i assms(1) by simp
qed

lemma whole_bucket_rows:
  assumes "whole_bucket (bucket_of duration rows) duration b" and "minute_us \<le> duration"
  shows "map snd (sort_key fst (bucket_of duration rows b)) \<noteq> []"
    and "set (map snd (sort_key fst (bucket_of duration rows b))) \<subseteq> set rows"
proof -
  have "0 < duration div minute_us" using assms(2) by (simp add: minute_us_def pos_imp_zdiv_pos_iff)
  then have "b \<in> expected_times b duration" by (auto simp: expected_times_def intro: image_eqI [of _ _ 0])
  then have "bucket_of duration rows b \<noteq> []" using assms(1) by (auto simp: whole_bucket_def)
  then show "map snd (sort_key fst (bucket_of duration rows b)) \<noteq> []"
    by (metis length_0_conv length_map length_sort)
  show "set (map snd (sort_key fst (bucket_of duration rows b))) \<subseteq> set rows"
    by (auto simp: bucket_of_def)
qed

definition resamples_exactly ::
    "ohlcv_row list \<Rightarrow> string \<Rightarrow> string \<Rightarrow> string \<Rightarrow> int \<Rightarrow> instant \<Rightarrow> resampled \<Rightarrow> bool" where
  "resamples_exactly rows symbol exchange tf duration boundary r \<longleftrightarrow>
     (let first = Min ((\<lambda>row. floor_to duration (oh_time row)) ` set rows);
          starts = bucket_starts first (floor_to duration (boundary - duration)) duration in
      map c_open_time (rc_candles r) = filter (whole_bucket (bucket_of duration rows) duration) starts \<and>
      length (rc_candles r) + rc_dropped r = length starts \<and>
      (\<forall>c\<in>set (rc_candles r). c_close_time c \<le> boundary \<and>
         build_candle (map snd (sort_key fst (bucket_of duration rows (c_open_time c)))) symbol exchange tf
           (c_open_time c) duration = Inr c))"

lemma resample_steps:
  assumes "timeframe_minutes tf = Some n" and "rows \<noteq> []" and "plain_rows rows"
    and "plain_instant (boundary - int n * minute_us)"
  shows "resample_confirmed_ohlcv rows symbol exchange tf boundary =
    foldR (bucket_step (bucket_of (int n * minute_us) rows) symbol exchange tf (int n * minute_us))
      \<lparr>rc_candles = [], rc_dropped = 0\<rparr>
      (bucket_starts (Min ((\<lambda>row. floor_to (int n * minute_us) (oh_time row)) ` set rows))
        (floor_to (int n * minute_us) (boundary - int n * minute_us)) (int n * minute_us))"
proof -
  define D where "D = int n * minute_us"
  have n: "0 < n" by (rule timeframe_minutes_pos [OF assms(1)])
  have D: "0 < D" "second_us dvd D" using n by (auto simp: D_def minute_us_def second_us_def)
  obtain grouped where grouped: "foldR (group_row D) [] rows = Inr grouped" "groups grouped = bucket_of D rows"
    "set (map fst grouped) = (\<lambda>r. floor_to D (oh_time r)) ` set rows"
    using group_rows [OF D(2,1), of "[]" rows "[]"] assms(3) by (auto simp: groups_def bucket_of_def fun_eq_iff)
  have latest: "bucket_start (boundary - D) D = Inr (floor_to D (boundary - D))"
    by (rule bucket_start_floor [OF _ D(2,1)]) (use assms(4) in \<open>simp add: D_def\<close>)
  have "timeframe_duration tf = Inr D" by (simp add: timeframe_duration_def assms(1) D_def)
  then show ?thesis
    unfolding D_def [symmetric] resample_confirmed_ohlcv_def
    using assms(2) grouped(1,3) latest bucket_starts_empty [OF D(1)]
    by (simp add: Let_def resample_loop_steps [OF D(1)] groups_def [symmetric, abs_def] grouped(2) [symmetric])
qed

lemma resample_exactly:
  assumes "timeframe_minutes tf = Some n" and "rows \<noteq> []" and "plain_rows rows" and "\<forall>r\<in>set rows. sane_row r"
    and "plain_instant (boundary - int n * minute_us)"
  shows "\<exists>r. resample_confirmed_ohlcv rows symbol exchange tf boundary = Inr r \<and>
    resamples_exactly rows symbol exchange tf (int n * minute_us) boundary r"
proof -
  define D where "D = int n * minute_us"
  have D: "0 < D" "minute_us \<le> D"
    using timeframe_minutes_pos [OF assms(1)] by (auto simp: D_def minute_us_def)
  let ?starts = "bucket_starts (Min ((\<lambda>row. floor_to D (oh_time row)) ` set rows)) (floor_to D (boundary - D)) D"
  let ?whole = "whole_bucket (bucket_of D rows) D"
  let ?built = "\<lambda>b. build_candle (map snd (sort_key fst (bucket_of D rows b))) symbol exchange tf b D"
  define candle_at where "candle_at b = (SOME c. ?built b = Inr c)" for b
  have built: "?built b = Inr (candle_at b)" "c_open_time (candle_at b) = b" "c_close_time (candle_at b) = b + D"
    if "?whole b" for b
  proof -
    note rows' = whole_bucket_rows [OF that D(2)]
    have "\<forall>r\<in>set (map snd (sort_key fst (bucket_of D rows b))). sane_row r" using rows'(2) assms(4) by blast
    from build_candle_ok [OF rows'(1) this assms(1), of symbol exchange b]
    obtain c where c: "?built b = Inr c" "c_open_time c = b" "c_close_time c = b + D" unfolding D_def by metis
    then have "candle_at b = c" unfolding candle_at_def by (intro some_equality) auto
    with c show "?built b = Inr (candle_at b)" "c_open_time (candle_at b) = b" "c_close_time (candle_at b) = b + D"
      by simp_all
  qed
  let ?r = "\<lparr>rc_candles = map candle_at (filter ?whole ?starts), rc_dropped = length (filter (\<lambda>b. \<not> ?whole b) ?starts)\<rparr>"
  have r: "resample_confirmed_ohlcv rows symbol exchange tf boundary = Inr ?r"
    using resample_steps [OF assms(1-3,5)] bucket_steps [of ?starts "bucket_of D rows" D symbol exchange tf candle_at]
      built(1) by (simp add: D_def [symmetric])
  have "b + D \<le> boundary" if "b \<in> set ?starts" for b
    using bucket_starts_le(2) [OF D(1) that] floor_to_le [OF D(1), of "boundary - D"] by simp
  moreover have "map c_open_time (map candle_at (filter ?whole ?starts)) = filter ?whole ?starts"
    unfolding map_map by (rule map_idI) (simp add: built(2))
  ultimately have "resamples_exactly rows symbol exchange tf D boundary ?r"
    using built sum_length_filter_compl [of ?whole ?starts]
    by (simp only: resamples_exactly_def Let_def resampled.simps length_map) auto
  with r show ?thesis unfolding D_def by blast
qed

subsection \<open>What the feed reads\<close>

lemma built_fields:
  "build_candle rows symbol exchange tf t duration = Inr c \<Longrightarrow> c_symbol c = symbol \<and> c_timeframe c = tf \<and>
    c_open_time c = t \<and> c_close_time c = t + duration"
  by (auto simp: build_candle_def make_candle_def bindR_eq_Inr)

lemma bucket_starts_sorted:
  assumes "0 < duration"
  shows "sorted_wrt (\<lambda>a b. a + duration \<le> b) (bucket_starts first latest duration)"
proof -
  have "int i * duration + duration \<le> int j * duration" if "i < j" for i j
  proof -
    have "(int i + 1) * duration \<le> int j * duration" using that assms by (intro mult_right_mono) auto
    then show ?thesis by (simp add: algebra_simps)
  qed
  then show ?thesis by (simp add: bucket_starts_def sorted_wrt_map sorted_wrt_iff_nth_less) 
qed

text \<open>
  A bucket is complete if the rows of its interval are exactly its minutes. The promise of a feed
  over rows in the order of time does not mention the loop or the grouping.
\<close>

definition rows_within :: "ohlcv_row list \<Rightarrow> instant \<Rightarrow> instant \<Rightarrow> ohlcv_row list" where
  "rows_within rows start stop = filter (\<lambda>r. start \<le> oh_time r \<and> oh_time r < stop) rows"

definition complete_bucket :: "ohlcv_row list \<Rightarrow> nat \<Rightarrow> instant \<Rightarrow> bool" where
  "complete_bucket rows n b \<longleftrightarrow>
     set (map oh_time (rows_within rows b (b + int n * minute_us))) = (\<lambda>i. b + int i * minute_us) ` {..<n}"

definition aggregates :: "ohlcv_row list \<Rightarrow> candle \<Rightarrow> bool" where
  "aggregates rows c \<longleftrightarrow>
     (let rs = rows_within rows (c_open_time c) (c_close_time c) in
      rs \<noteq> [] \<and>
      c_open c = float_of_decimal (oh_open (hd rs)) \<and> c_close c = float_of_decimal (oh_close (last rs)) \<and>
      c_high c = float_of_decimal (Max (oh_high ` set rs)) \<and> c_low c = float_of_decimal (Min (oh_low ` set rs)) \<and>
      c_volume c = float_of_decimal (dsum 0 (map oh_volume rs)))"

lemma floor_to_eq_iff:
  assumes "0 < duration"
  shows "floor_to duration t = b \<longleftrightarrow> duration dvd b \<and> b \<le> t \<and> t < b + duration"
proof
  assume "floor_to duration t = b"
  then show "duration dvd b \<and> b \<le> t \<and> t < b + duration"
    using assms pos_mod_bound [of duration t] pos_mod_sign [of duration t] by (auto simp: floor_to_def dvd_minus_mod)
next
  assume b: "duration dvd b \<and> b \<le> t \<and> t < b + duration"
  then obtain k where "b = duration * k" by (auto elim: dvdE)
  moreover from this b have "(t - b) mod duration = t - b" by (intro mod_pos_pos_trivial) auto
  ultimately show "floor_to duration t = b" by (simp add: floor_to_def mod_diff_right_eq [symmetric])
qed

lemma in_bucket_starts:
  assumes "0 < duration" and "duration dvd first"
  shows "b \<in> set (bucket_starts first latest duration) \<longleftrightarrow> duration dvd b \<and> first \<le> b \<and> b \<le> latest"
proof
  assume b: "b \<in> set (bucket_starts first latest duration)"
  then have "duration dvd b" using assms(2) by (auto simp: bucket_starts_def)
  with bucket_starts_le [OF assms(1) b] show "duration dvd b \<and> first \<le> b \<and> b \<le> latest" by simp
next
  assume b: "duration dvd b \<and> first \<le> b \<and> b \<le> latest"
  then obtain k where k: "b - first = duration * k" using assms(2) by (meson dvd_diff dvdE)
  then have "0 \<le> k" using b assms(1) by (metis diff_ge_0_iff_ge zero_le_mult_iff not_le)
  have "k \<le> (latest - first) div duration"
    using b k assms(1) by (metis diff_right_mono nonzero_mult_div_cancel_left zdiv_mono1 less_imp_neq)
  with \<open>0 \<le> k\<close> have "nat k < nat ((latest - first) div duration + 1)" by simp
  moreover have "b = first + int (nat k) * duration" using k \<open>0 \<le> k\<close> by (simp add: algebra_simps)
  ultimately show "b \<in> set (bucket_starts first latest duration)"
    unfolding bucket_starts_def set_map by (intro image_eqI [of _ _ "nat k"]) auto
qed

lemma bucket_of_rows:
  assumes "0 < duration" and "duration dvd b"
  shows "bucket_of duration rows b = map (\<lambda>r. (oh_time r, r)) (rows_within rows b (b + duration))"
  using floor_to_eq_iff [OF assms(1)] assms(2) by (simp add: bucket_of_def rows_within_def)

lemma expected_minutes: "0 < n \<Longrightarrow> expected_times b (int n * minute_us) = (\<lambda>i. b + int i * minute_us) ` {..<n}"
  by (simp add: expected_times_def minute_us_def lessThan_atLeast0)

lemma whole_bucket_iff:
  assumes "0 < n" and "int n * minute_us dvd b"
  shows "whole_bucket (bucket_of (int n * minute_us) rows) (int n * minute_us) b \<longleftrightarrow> complete_bucket rows n b"
proof -
  have "0 < int n * minute_us" using assms(1) by (simp add: minute_us_def)
  then show ?thesis
    by (simp add: whole_bucket_def complete_bucket_def bucket_of_rows [OF _ assms(2)] expected_minutes [OF assms(1)] comp_def)
qed

lemma complete_not_empty:
  assumes "complete_bucket rows n b" and "0 < n"
  shows "\<exists>r\<in>set rows. oh_time r = b"
proof -
  have "b \<in> (\<lambda>i. b + int i * minute_us) ` {..<n}" using assms(2) by (auto intro: image_eqI [of _ _ 0])
  then have "b \<in> set (map oh_time (rows_within rows b (b + int n * minute_us)))"
    using assms(1) by (simp only: complete_bucket_def)
  then show ?thesis by (auto simp: rows_within_def)
qed

lemma rows_within_sorted: "sorted (map oh_time rows) \<Longrightarrow> sorted (map oh_time (rows_within rows start stop))"
  by (simp add: rows_within_def sorted_filter)

lemma ordered_bucket:
  assumes "sorted (map oh_time rows)" and "0 < duration" and "duration dvd b"
  shows "map snd (sort_key fst (bucket_of duration rows b)) = rows_within rows b (b + duration)"
proof -
  have "sorted (map fst (bucket_of duration rows b))"
    using rows_within_sorted [OF assms(1)] by (simp add: bucket_of_rows [OF assms(2,3)] comp_def)
  from sort_key_id_if_sorted [OF this] show ?thesis
    by (simp add: bucket_of_rows [OF assms(2,3)] comp_def)
qed

lemma built_aggregates:
  assumes "build_candle rs symbol exchange tf b duration = Inr c" and "rs = rows_within rows b (b + duration)" and "rs \<noteq> []"
  shows "aggregates rows c"
  using assms by (auto simp: build_candle_def make_candle_def bindR_eq_Inr aggregates_def Let_def)

lemma div_less_iff:
  fixes t :: int
  assumes "0 < duration"
  shows "t div duration < j \<longleftrightarrow> t < j * duration"
proof
  assume "t div duration < j"
  then have "(t div duration + 1) * duration \<le> j * duration" using assms by (intro mult_right_mono) auto
  moreover have "t < (t div duration + 1) * duration"
    using div_mult_mod_eq [of t duration] pos_mod_bound [OF assms, of t] unfolding distrib_right by linarith
  ultimately show "t < j * duration" by simp
next
  assume "t < j * duration"
  moreover have "t div duration * duration \<le> t"
    using div_mult_mod_eq [of t duration] pos_mod_sign [OF assms, of t] by linarith
  ultimately have "t div duration * duration < j * duration" by simp
  then show "t div duration < j" using assms by (simp add: mult_less_cancel_right_pos)
qed

lemma floor_dvd: "duration dvd floor_to duration t"
  by (simp add: floor_to_def minus_mod_eq_mult_div)

lemma dvd_floor_le:
  assumes "0 < duration" and "duration dvd b"
  shows "floor_to duration t \<le> b \<longleftrightarrow> t < b + duration" and "b \<le> floor_to duration t \<longleftrightarrow> b \<le> t"
proof -
  obtain j where j: "b = duration * j" using assms(2) by (auto elim: dvdE)
  have f: "floor_to duration t = duration * (t div duration)" by (simp add: floor_to_def minus_mod_eq_mult_div)
  have "floor_to duration t \<le> b \<longleftrightarrow> t div duration < j + 1" using assms(1) by (simp add: f j)
  also have "\<dots> \<longleftrightarrow> t < (j + 1) * duration" by (rule div_less_iff [OF assms(1)])
  finally show "floor_to duration t \<le> b \<longleftrightarrow> t < b + duration" by (simp add: j algebra_simps)
  have "b \<le> floor_to duration t \<longleftrightarrow> \<not> t div duration < j" using assms(1) by (simp add: f j not_less)
  also have "t div duration < j \<longleftrightarrow> t < j * duration" by (rule div_less_iff [OF assms(1)])
  finally show "b \<le> floor_to duration t \<longleftrightarrow> b \<le> t" by (simp add: j not_less mult.commute)
qed

text \<open>The buckets the loop visits: those that end after the first row and by the boundary.\<close>

lemma visited_buckets:
  assumes "0 < duration" and "rows \<noteq> []"
  shows "b \<in> set (bucket_starts (Min ((\<lambda>row. floor_to duration (oh_time row)) ` set rows))
        (floor_to duration (boundary - duration)) duration) \<longleftrightarrow>
    duration dvd b \<and> (\<exists>r\<in>set rows. oh_time r < b + duration) \<and> b + duration \<le> boundary"
proof -
  let ?floors = "(\<lambda>row. floor_to duration (oh_time row)) ` set rows"
  have "Min ?floors \<in> ?floors" using assms(2) by (intro Min_in) auto
  then have "duration dvd Min ?floors" using floor_dvd by (metis (no_types, lifting) image_iff)
  moreover have "Min ?floors \<le> b \<longleftrightarrow> (\<exists>r\<in>set rows. floor_to duration (oh_time r) \<le> b)"
    using assms(2) by (subst Min_le_iff) auto
  moreover have "b \<le> boundary - duration \<longleftrightarrow> b + duration \<le> boundary" by auto
  ultimately show ?thesis
    using dvd_floor_le [OF assms(1), of b] in_bucket_starts [OF assms(1)] by auto
qed

definition reads_exactly ::
    "ohlcv_row list \<Rightarrow> nat \<Rightarrow> string \<Rightarrow> string \<Rightarrow> string \<Rightarrow> instant \<Rightarrow> resampled \<Rightarrow> bool" where
  "reads_exactly rows n symbol exchange tf boundary r \<longleftrightarrow>
     (let D = int n * minute_us in
      sorted_wrt (<) (map c_open_time (rc_candles r)) \<and>
      (\<forall>b. b \<in> set (map c_open_time (rc_candles r)) \<longleftrightarrow> D dvd b \<and> b + D \<le> boundary \<and> complete_bucket rows n b) \<and>
      rc_dropped r = card {b. D dvd b \<and> (\<exists>r\<in>set rows. oh_time r < b + D) \<and> b + D \<le> boundary \<and> \<not> complete_bucket rows n b} \<and>
      (\<forall>c\<in>set (rc_candles r).
         build_candle (rows_within rows (c_open_time c) (c_open_time c + D)) symbol exchange tf (c_open_time c) D = Inr c))"

lemma reads_nothing:
  assumes "0 < n"
  shows "reads_exactly [] n symbol exchange tf boundary \<lparr>rc_candles = [], rc_dropped = 0\<rparr>"
  using complete_not_empty [of "[]" n] assms by (auto simp: reads_exactly_def Let_def)

lemma resample_reads:
  assumes "timeframe_minutes tf = Some n" and "plain_rows rows" and "\<forall>r\<in>set rows. sane_row r"
    and "sorted (map oh_time rows)" and "plain_instant (boundary - int n * minute_us)"
  shows "\<exists>r. resample_confirmed_ohlcv rows symbol exchange tf boundary = Inr r \<and>
    reads_exactly rows n symbol exchange tf boundary r"
proof (cases "rows = []")
  case True
  have "0 < n" by (rule timeframe_minutes_pos [OF assms(1)])
  then show ?thesis using True reads_nothing [of n]
    by (auto simp: resample_confirmed_ohlcv_def timeframe_duration_def assms(1))
next
  case False
  define D where "D = int n * minute_us"
  have n: "0 < n" by (rule timeframe_minutes_pos [OF assms(1)])
  then have D: "0 < D" by (simp add: D_def minute_us_def)
  let ?starts = "bucket_starts (Min ((\<lambda>row. floor_to D (oh_time row)) ` set rows)) (floor_to D (boundary - D)) D"
  let ?whole = "whole_bucket (bucket_of D rows) D"
  obtain r where r: "resample_confirmed_ohlcv rows symbol exchange tf boundary = Inr r"
    and opens: "map c_open_time (rc_candles r) = filter ?whole ?starts"
    and counted: "length (rc_candles r) + rc_dropped r = length ?starts"
    and built: "\<forall>c\<in>set (rc_candles r). build_candle (map snd (sort_key fst (bucket_of D rows (c_open_time c))))
      symbol exchange tf (c_open_time c) D = Inr c"
    using resample_exactly [OF assms(1) False assms(2,3,5), of symbol exchange]
    by (auto simp: resamples_exactly_def Let_def D_def)
  have whole: "?whole b \<longleftrightarrow> complete_bucket rows n b" if "D dvd b" for b
    using whole_bucket_iff [OF n, of b rows] that by (simp add: D_def)
  have ordered: "sorted_wrt (<) ?starts"
    by (rule sorted_wrt_mono_rel [OF _ bucket_starts_sorted [OF D]]) (use D in simp)
  then have "distinct ?starts" by (simp add: strict_sorted_iff)
  have "rc_dropped r = length (filter (\<lambda>b. \<not> ?whole b) ?starts)"
    using counted sum_length_filter_compl [of ?whole ?starts] arg_cong [OF opens, of length] by simp
  also have "\<dots> = card {b \<in> set ?starts. \<not> ?whole b}"
    using distinct_card [OF distinct_filter [OF \<open>distinct ?starts\<close>]] by simp
  also have "{b \<in> set ?starts. \<not> ?whole b} =
      {b. D dvd b \<and> (\<exists>r\<in>set rows. oh_time r < b + D) \<and> b + D \<le> boundary \<and> \<not> complete_bucket rows n b}"
    using visited_buckets [OF D False] whole by auto
  finally have dropped: "rc_dropped r =
      card {b. D dvd b \<and> (\<exists>r\<in>set rows. oh_time r < b + D) \<and> b + D \<le> boundary \<and> \<not> complete_bucket rows n b}" .
  have opened: "b \<in> set (map c_open_time (rc_candles r)) \<longleftrightarrow> D dvd b \<and> b + D \<le> boundary \<and> complete_bucket rows n b" for b
    unfolding opens set_filter mem_Collect_eq visited_buckets [OF D False]
    using whole [of b] complete_not_empty [OF _ n, of rows b] D by force
  have "build_candle (rows_within rows (c_open_time c) (c_open_time c + D)) symbol exchange tf (c_open_time c) D = Inr c"
    if "c \<in> set (rc_candles r)" for c
  proof -
    have "D dvd c_open_time c" using that opened [of "c_open_time c"] by auto
    from ordered_bucket [OF assms(4) D this] built that show ?thesis by metis
  qed
  moreover have "sorted_wrt (<) (map c_open_time (rc_candles r))"
    unfolding opens by (rule sorted_wrt_filter [OF ordered])
  ultimately have "reads_exactly rows n symbol exchange tf boundary r"
    using dropped opened unfolding reads_exactly_def D_def [symmetric] Let_def by blast
  with r show ?thesis by blast
qed

lemma feed_reads:
  assumes "timeframe_minutes tf = Some n" and "plain_rows rows" and "\<forall>r\<in>set rows. sane_row r"
    and "sorted (map oh_time rows)" and "plain_instant (boundary - int n * minute_us)"
  obtains r where "feed_resample exchange symbol tf boundary rows dropped = (dropped + rc_dropped r, Inr (rc_candles r))"
    and "reads_exactly rows n symbol exchange tf boundary r"
  using resample_reads [OF assms, of symbol exchange] by (auto simp: feed_resample_def)

lemma reads_built:
  "reads_exactly rows n symbol exchange tf boundary r \<Longrightarrow> c \<in> set (rc_candles r) \<Longrightarrow>
    build_candle (rows_within rows (c_open_time c) (c_open_time c + int n * minute_us)) symbol exchange tf (c_open_time c)
      (int n * minute_us) = Inr c"
  unfolding reads_exactly_def Let_def by blast

lemma reads_candles:
  assumes "reads_exactly rows n symbol exchange tf boundary r" and "c \<in> set (rc_candles r)" and "0 < n"
  shows "aggregates rows c" and "c_symbol c = symbol" and "c_timeframe c = tf"
    and "c_close_time c = c_open_time c + int n * minute_us" and "c_close_time c \<le> boundary"
proof -
  let ?D = "int n * minute_us" and ?rs = "rows_within rows (c_open_time c) (c_open_time c + int n * minute_us)"
  have b: "build_candle ?rs symbol exchange tf (c_open_time c) ?D = Inr c"
    "c_open_time c + ?D \<le> boundary" "complete_bucket rows n (c_open_time c)"
    using assms(1,2) by (auto simp: reads_exactly_def Let_def)
  have "0 < ?D" using assms(3) by (simp add: minute_us_def)
  moreover obtain row where "row \<in> set rows" "oh_time row = c_open_time c"
    using complete_not_empty [OF b(3) assms(3)] by blast
  ultimately have "row \<in> set ?rs" by (simp add: rows_within_def)
  then have "?rs \<noteq> []" by auto
  then show "aggregates rows c" by (rule built_aggregates [OF b(1) HOL.refl])
  show "c_symbol c = symbol" "c_timeframe c = tf" "c_close_time c = c_open_time c + ?D" "c_close_time c \<le> boundary"
    using built_fields [OF b(1)] b(2) by simp_all
qed

subsection \<open>Reading on from a candle\<close>

lemma built_lists_equal:
  fixes cs ds :: "candle list" and f :: "instant \<Rightarrow> candle res"
  assumes "map c_open_time cs = map c_open_time ds"
    and "\<And>c. c \<in> set cs \<Longrightarrow> f (c_open_time c) = Inr c" and "\<And>d. d \<in> set ds \<Longrightarrow> f (c_open_time d) = Inr d"
  shows "cs = ds"
proof (rule nth_equalityI)
  show len: "length cs = length ds" using arg_cong [OF assms(1), of length] by simp
  fix i assume i: "i < length cs"
  have "map c_open_time cs ! i = map c_open_time ds ! i" by (simp only: assms(1))
  then have "c_open_time (cs ! i) = c_open_time (ds ! i)" using i len by simp
  moreover have "f (c_open_time (cs ! i)) = Inr (cs ! i)" by (rule assms(2)) (rule nth_mem [OF i])
  moreover have "f (c_open_time (ds ! i)) = Inr (ds ! i)" by (rule assms(3)) (rule nth_mem [OF i [unfolded len]])
  ultimately have "(Inr (cs ! i) :: candle res) = Inr (ds ! i)" by (simp only:)
  then show "cs ! i = ds ! i" by (rule sum.inject(2) [THEN iffD1])
qed

text \<open>Rows before \<open>after\<close> play no part in the candles that open at \<open>after\<close> or later.\<close>

lemma reads_on:
  assumes "reads_exactly rows n symbol exchange tf boundary r"
    and "reads_exactly (filter (\<lambda>row. after \<le> oh_time row) rows) n symbol exchange tf boundary r'"
  shows "filter (\<lambda>c. after \<le> c_open_time c) (rc_candles r') = filter (\<lambda>c. after \<le> c_open_time c) (rc_candles r)"
proof -
  let ?D = "int n * minute_us" and ?late = "filter (\<lambda>row. after \<le> oh_time row) rows"
  let ?P = "\<lambda>b. after \<le> b"
  have same: "rows_within ?late b (b + ?D) = rows_within rows b (b + ?D)" if "after \<le> b" for b
    using that by (auto simp: rows_within_def intro!: filter_cong)
  have complete: "complete_bucket ?late n b \<longleftrightarrow> complete_bucket rows n b" if "after \<le> b" for b
    using same [OF that] by (simp add: complete_bucket_def)
  let ?opens = "\<lambda>q. filter ?P (map c_open_time (rc_candles q))"
  have ordered: "sorted_wrt (<) (?opens q)" if "reads_exactly rs n symbol exchange tf boundary q" for rs q
    using that by (intro sorted_wrt_filter) (simp add: reads_exactly_def Let_def)
  have opens: "?opens r' = ?opens r"
  proof (rule sorted_distinct_set_unique)
    show "set (?opens r') = set (?opens r)"
      using assms complete by (auto simp: reads_exactly_def Let_def)
  qed (use ordered [OF assms(1)] ordered [OF assms(2)] in \<open>simp_all add: strict_sorted_iff\<close>)
  have shape: "map c_open_time (filter (\<lambda>c. ?P (c_open_time c)) cs) = filter ?P (map c_open_time cs)" for cs
    by (simp add: filter_map comp_def)
  show ?thesis
  proof (rule built_lists_equal [where f = "\<lambda>b. build_candle (rows_within rows b (b + ?D)) symbol exchange tf b ?D"])
    show "map c_open_time (filter (\<lambda>c. ?P (c_open_time c)) (rc_candles r')) =
        map c_open_time (filter (\<lambda>c. ?P (c_open_time c)) (rc_candles r))"
      unfolding shape by (rule opens)
    show "build_candle (rows_within rows (c_open_time c) (c_open_time c + ?D)) symbol exchange tf (c_open_time c) ?D = Inr c"
      if "c \<in> set (filter (\<lambda>c. ?P (c_open_time c)) (rc_candles r'))" for c
    proof -
      have "?P (c_open_time c)" "c \<in> set (rc_candles r')" using that by auto
      then show ?thesis using reads_built [OF assms(2)] same [of "c_open_time c"] by metis
    qed
    show "build_candle (rows_within rows (c_open_time c) (c_open_time c + ?D)) symbol exchange tf (c_open_time c) ?D = Inr c"
      if "c \<in> set (filter (\<lambda>c. ?P (c_open_time c)) (rc_candles r))" for c
      using reads_built [OF assms(1)] that by simp
  qed
qed

lemma series_rows_sorted: "sorted (map oh_time (series_rows table exchange symbol up_to))"
  by (simp add: series_rows_def select_rows_def)

lemma series_rows_late:
  "series_rows_after table exchange symbol after up_to =
     filter (\<lambda>row. after \<le> oh_time row) (series_rows table exchange symbol up_to)"
  by (simp add: series_rows_def series_rows_after_def select_rows_def filter_sort filter_map comp_def conj_ac)

text \<open>What the feed relies on: the rows of a series are the database's, one per minute, with sane prices.\<close>

definition feed_table :: "table_row list \<Rightarrow> string \<Rightarrow> string \<Rightarrow> instant \<Rightarrow> bool" where
  "feed_table table exchange symbol up_to \<longleftrightarrow> plain_rows (series_rows table exchange symbol up_to) \<and>
     (\<forall>r\<in>set (series_rows table exchange symbol up_to). sane_row r)"

lemma feed_exact:
  assumes "timeframe_minutes tf = Some n" and "feed_table table exchange symbol up_to"
    and "plain_instant (up_to - int n * minute_us)"
  obtains r where "feed_candles table exchange symbol tf up_to dropped = (dropped + rc_dropped r, Inr (rc_candles r))"
    and "reads_exactly (series_rows table exchange symbol up_to) n symbol exchange tf up_to r"
    and "\<And>after k. \<exists>k'. feed_candles_after table exchange symbol tf after up_to k =
      (k', Inr (filter (\<lambda>c. after \<le> c_open_time c) (rc_candles r)))"
proof -
  let ?rows = "series_rows table exchange symbol up_to"
  have n: "0 < n" by (rule timeframe_minutes_pos [OF assms(1)])
  have rows: "plain_rows ?rows" "\<forall>r\<in>set ?rows. sane_row r" using assms(2) by (simp_all add: feed_table_def)
  obtain r where r: "feed_resample exchange symbol tf up_to ?rows dropped = (dropped + rc_dropped r, Inr (rc_candles r))"
    "reads_exactly ?rows n symbol exchange tf up_to r"
    by (rule feed_reads [OF assms(1) rows series_rows_sorted assms(3)])
  have "\<exists>k'. feed_candles_after table exchange symbol tf after up_to k =
      (k', Inr (filter (\<lambda>c. after \<le> c_open_time c) (rc_candles r)))" for after k
  proof (cases "up_to \<le> after")
    case True
    have "c_open_time c < after" if "c \<in> set (rc_candles r)" for c
      using reads_candles(4,5) [OF r(2) that n] True n by (auto simp: minute_us_def)
    then have "filter (\<lambda>c. after \<le> c_open_time c) (rc_candles r) = []" by (auto simp: filter_empty_conv not_le)
    then show ?thesis using True by (simp add: feed_candles_after_def liftS_def)
  next
    case False
    let ?late = "series_rows_after table exchange symbol after up_to"
    have late: "plain_rows ?late" "\<forall>r\<in>set ?late. sane_row r" "sorted (map oh_time ?late)"
      using rows series_rows_sorted [of table exchange symbol up_to]
      by (auto simp: series_rows_late plain_rows_def distinct_map inj_on_def sorted_filter)
    obtain r' where r': "feed_resample exchange symbol tf up_to ?late k = (k + rc_dropped r', Inr (rc_candles r'))"
      "reads_exactly ?late n symbol exchange tf up_to r'"
      by (rule feed_reads [OF assms(1) late assms(3)])
    show ?thesis
      using False r'(1) reads_on [OF r(2) r'(2) [unfolded series_rows_late]]
      by (simp add: feed_candles_after_def bindS_def liftS_def)
  qed
  then show ?thesis using that r by (auto simp: feed_candles_def)
qed

end
