(* ===== verification/FeedSamples.thy ===== *)
theory FeedSamples
  imports Resample Literals
begin

section \<open>Concrete instances\<close>

text \<open>
  Five one-minute rows of a symbol with a missing minute, and its buckets of two minutes.
\<close>

definition minute_row :: "int \<Rightarrow> table_row" where
  "minute_row i = \<lparr>tb_symbol = ''BTCUSDT'', tb_exchange = ''binance'', tb_timeframe = ''1m'',
     tb_row = \<lparr>oh_time = i * minute_us, oh_open = 100, oh_high = 102, oh_low = 99, oh_close = 101, oh_volume = 3,
       oh_quote_volume = None, oh_trade_count = None\<rparr>\<rparr>"

definition minute_table :: "table_row list" where
  "minute_table = map minute_row [0, 1, 2, 4, 5]"

lemma minute_table_rows:
  "series_rows minute_table ''binance'' ''BTCUSDT'' 360000000 = map (\<lambda>i. tb_row (minute_row i)) [0, 1, 2, 4, 5]"
  by (simp add: series_rows_def select_rows_def minute_table_def minute_row_def minute_us_def)

lemma minute_table_ok: "feed_table minute_table ''binance'' ''BTCUSDT'' 360000000"
  unfolding feed_table_def minute_table_rows
  by (simp add: plain_rows_def plain_instant_def sane_row_def minute_row_def minute_us_def second_us_def
      float_of_decimal_def literal)

lemma minute_buckets:
  "complete_bucket (series_rows minute_table ''binance'' ''BTCUSDT'' 360000000) 2 0"
  "\<not> complete_bucket (series_rows minute_table ''binance'' ''BTCUSDT'' 360000000) 2 120000000"
  unfolding minute_table_rows
  by (auto simp: complete_bucket_def rows_within_def minute_row_def minute_us_def lessThan_Suc numeral_2_eq_2)

lemma two_minutes: "timeframe_minutes ''2m'' = Some 2"
  by (simp add: timeframe_minutes_def decimal_value_def digit_value_def is_digit_def)

end
