(* ===== verification/Spec2Isabelle.thy ===== *)
theory Spec2Isabelle
  imports Samples PolicySamples Sizing EngineSamples PatternSamples StrategySamples MomentumSamples FeedSamples
begin

section \<open>The trading system: a verified execution core\<close>

text \<open>
  A model of the execution core of the trading system, translated from the Python under
  src/services, and the theorems that make it correct.

  \<^bold>\<open>The program.\<close> Strategies turn candles into signals; the wallet service takes one signal at a
  time from a queue, sizes it against its risk policy, simulates the fill with the matcher and
  the cost formulas of core-lib, books it, checks the accounting identity and stores receipt,
  fills, position and accounting in one database transaction. The backtest engine and the live
  service run the same core-lib functions.

  \<^bold>\<open>How the code is modelled.\<close> A raising method is a function into \<open>py_error + 'a\<close>, composed with
  \<open>bindR\<close> in the order of the source; a method that also changes an object is a state-error
  function \<open>('s, 'a) st\<close>. A dataclass is a record, an enum a datatype, a dictionary a map.
  \<open>decimal.Decimal\<close> is a rational with the 28-digit half-even context written out
  (\<open>PyDecimal\<close>), \<open>float\<close> is binary64 with infinities and NaN (\<open>PyFloat\<close>), an aware datetime
  its UTC microseconds. Type annotations that the code checks with \<open>isinstance\<close> are types here.
  Error messages are short tags; a raising call returns only the exception.

  \<^bold>\<open>Theories and code.\<close>
  \<^item> \<open>Prelude\<close>, \<open>Rounding\<close>, \<open>PyDecimal\<close>, \<open>PyFloat\<close>: errors and monads, roundings (locale
    \<open>rounding\<close>), Decimal and float arithmetic.
  \<^item> \<open>Money\<close>, \<open>Orders\<close>, \<open>Candle\<close>, \<open>Positions\<close>, \<open>Trades\<close>: core_lib/types and
    execution/normalizer.py, order_lifecycle.py. Invariants: \<open>is_q8\<close> (a stored amount has eight
    decimals), \<open>order_ok\<close>, \<open>position_ok\<close>; every operation keeps them.
  \<^item> \<open>Costs\<close>: core_lib/costs, ports/cost_model.py and the paper cost model of the wallet service
    (locale \<open>cost_contract\<close>, interpreted on it).
  \<^item> \<open>Sizing\<close>: core_lib/sizing. \<open>Matcher\<close>: execution/matcher.py, with the binary search for the
    affordable quantity, the truncation loop (32 rounds, as in the code, then an error) and the
    protection triggers. \<open>Book\<close>: execution/position_book.py and accounting.py (locale
    \<open>keyed_state\<close>).
  \<^item> \<open>WalletDomain\<close>, \<open>WalletRepo\<close>, \<open>WalletService\<close>: domain/models.py, application/risk.py,
    infrastructure/paper_broker.py; infrastructure/wallet_repository.py over five tables with a
    committed and a working copy (locale \<open>repository_contract\<close>); application/service.py,
    runner.py and in_memory_queue.py.
  \<^item> \<open>FloatDecimal\<close>, \<open>Literals\<close>, \<open>Samples\<close>, \<open>PolicySamples\<close>: the float round trip, evaluation on numerals, and
    the inputs of the witnesses.
  \<^item> \<open>MoneyManagement\<close>, \<open>Policies\<close>, \<open>PolicyRegistry\<close>: core_lib/money_management and the policies of
    trading_plugins/money_management. The contract of a policy is the locale \<open>policy_contract\<close>;
    every policy the factory can build keeps it (\<open>made_policy_contract\<close>).
  \<^item> \<open>SeriesKeys\<close>: the key of a finalized indicator value (core_lib/series).
  \<^item> \<open>BacktestAdapters\<close>: the cost model, the clock and the broker of the backtest
    (backtest_service/adapters).
  \<^item> \<open>Engine\<close>: the candle loop of a backtest (backtest_service/engine/engine.py), as methods that
    thread the engine's state; \<open>EngineArith\<close>: how far its accounting is from exact arithmetic.
  \<^item> \<open>EngineSteps\<close>, \<open>EngineGrowth\<close>: a weakest precondition for methods that thread a state and may
    raise, and preorders on states that a method may only go up in (locale \<open>step_order\<close>): the
    evidence is append-only, waiting orders stay, the books are left alone.
  \<^item> \<open>EngineFills\<close>, \<open>EngineLedger\<close>, \<open>EngineBooks\<close>, \<open>EngineRun\<close>, \<open>EngineClose\<close>, \<open>EngineLoop\<close>: the books of a
    run (\<open>accounts\<close>) through fills, funding, marks, decisions, gaps and the end; what survives a
    candle survives the loop (locale \<open>loop_invariant\<close>, interpreted three times).
  \<^item> \<open>EngineTrace\<close>, \<open>EnginePortfolio\<close>: the order of the evidence (no look-ahead) and what a portfolio
    row holds; \<open>EngineSamples\<close>: a run of two candles, evaluated.
  \<^item> \<open>Conditions\<close>, \<open>Replay\<close>: short-circuit conditions over lookups that may raise; the locale
    \<open>incremental\<close> of a state that replays a batch series, with what follows from it (causality,
    seeding), and the locale \<open>loop_series\<close> that gives it for loops.
  \<^item> \<open>CandleShapes\<close>, \<open>CandleAverages\<close>, \<open>PatternOutputs\<close>, \<open>PatternPorts\<close>: core_lib/patterns/primitives.py,
    talib_candles.py, outputs.py and talib_raw.py: shapes, the moving range averages and their state,
    the four-key outputs, a port and its two execution paths (locales \<open>pattern_judge\<close>,
    \<open>port_contract\<close>).
  \<^item> \<open>SinglePatterns\<close>, \<open>TwoPatterns\<close>, \<open>ThreePatterns\<close>, \<open>MultiPatterns\<close>, \<open>Hikkake\<close>: the sixty-one ports of
    the talib_*.py files, one judge per function; the two Hikkake ports are a state machine with a
    declarative reading (locale \<open>hikkake_contract\<close>).
  \<^item> \<open>SpecRegistry\<close>, \<open>PatternRegistry\<close>: patterns/registry.py, indicators/registry.py, and
    patterns/specs: keys, resolution of names and descriptors, batches, the registry built at import
    from the ports of both classes (\<open>registry_port\<close>), whose execution paths agree.
  \<^item> \<open>IndicatorPrimitives\<close>, \<open>RollingExtremes\<close>: indicators/primitives.py, each batch function with
    its state; \<open>PatternSamples\<close>: candles on which they are evaluated.
  \<^item> \<open>StrategyConfig\<close>: the declarations of a strategy and the resolution of its configuration
    (core_lib/strategy/config.py, profile.py, base.py); a resolved configuration holds accepted values
    in frozen form (lists become tuples) and resolving it again changes nothing.
  \<^item> \<open>Strategies\<close>: the seven classes of trading_plugins/strategies. What the engine relies on is the
    locale \<open>strategy_contract\<close>, interpreted on every class; a channel breakout is entered once.
  \<^item> \<open>StrategyRuns\<close>: the engine with a deployed class as its strategy: what a bar may queue.
  \<^item> \<open>StrategyManager\<close>: registry.py, factory.py, reconciliation.py, manager.py, catalog_row.py of
    core_lib/strategy and identifiers.py: the comparison with the catalog agrees with the checks of a
    creation, and a runtime has a policy the strategy supports; \<open>DeployedRuns\<close>, \<open>StrategySamples\<close>: the
    inputs on which these are evaluated, a catalog row and a runtime for each deployed class.
  \<^item> \<open>Momentum\<close>, \<open>MomentumBalances\<close>, \<open>MomentumRanges\<close>, \<open>MomentumWindows\<close>, \<open>MomentumFilters\<close>:
    core_lib/indicators/momentum.py, each indicator as a batch function over a history and as the
    state object fed candle by candle. Both are networks of the loops of the primitives
    (\<open>outs_projection\<close> brings the one into the shape of the other). \<open>MomentumPaths\<close>: the two
    editions agree; \<open>MomentumWarmUp\<close>, \<open>MomentumCold\<close>: the announced number of candles, for all
    twenty-two; \<open>FloatBounds\<close>, \<open>MomentumRsi\<close>: sums and averages of floats that are not negative, and the range of the RSI;
    \<open>MomentumSamples\<close>: three days on which these are evaluated.
  \<^item> \<open>Resample\<close>: core_lib/candles.py and the candle reads of signal_service/infrastructure/data_feed.py:
    one-minute rows become candles bucket by bucket; the loop over the buckets ends by the distance to
    the boundary. What a read gives is stated without loop and grouping (\<open>reads_exactly\<close>);
    \<open>FeedSamples\<close>: five rows with a gap.

  \<^bold>\<open>Interfaces.\<close> The matcher knows a cost model only through \<open>cost_contract\<close>; the wallet knows
  the repository only through \<open>repository_contract\<close>. A database is the parameter \<open>fault\<close>: the
  statements whose execution raises, any set of them, constraint violations included; the
  conflict clauses and row counts of the statements are those of the SQL in the source.

  \<^bold>\<open>Bounds.\<close> The 32 rounds of the truncation loop are the source's. Draining a queue has fuel, one
  more than the signals in the queue is enough (\<open>drain_consumes_all\<close>). The binary search and
  the loop over days terminate by a measure. The order-size bound of 10 ^ 6 units and the margin
  bound of 10 ^ 18 in some theorems are where rounding to 28 digits and to binary64 stays below
  half a quantum. The candle reads are for instants from 1970 up to 2 ^ 33 seconds later, where the
  float of a timestamp does not round up to the next second.

  \<^bold>\<open>Not modelled.\<close> NaN Decimals and signed zeros; unicode beyond 8-bit characters; sets as values of
  a configuration; the hash of uuid5, of which only the name is kept; logging, threads, sleeping,
  HTTP and SQL beyond conflict clauses, row counts and the selection of candle rows; in the signal
  service all but its candle reads; the front end.
  Of the indicators, the primitives and the momentum indicators are modelled; of the latter not the
  stochastics, the stochastic and the Connors RSI, DeMarker, Schaff, Fisher, Coppock and the pretty
  good oscillator, nor the trend, volatility, volume, strength, cycle and systems files.
\<close>

section \<open>Orders\<close>

text \<open>
  C24. Along every sequence of lifecycle events of an order the constructor accepted, the
  order stays well formed (0 <= filled <= quantity, an average price exactly when something
  is filled, FILLED exactly when all of it is), the filled quantity never decreases, and a
  terminal order keeps its status and quantities for ever.
\<close>

theorem order_lifecycle:
  assumes "make_order r = Inr ord" and "order_run ord ord1" and "order_run ord1 ord2"
  shows "order_ok ord1 \<and> order_ok ord2 \<and> o_filled_quantity ord1 \<le> o_filled_quantity ord2 \<and>
    o_quantity ord2 \<le> o_quantity ord1 \<and>
    (is_terminal (o_status ord1) \<longrightarrow> o_status ord2 = o_status ord1 \<and>
      o_filled_quantity ord2 = o_filled_quantity ord1 \<and> o_quantity ord2 = o_quantity ord1)"
  using order_run_ok [OF assms(2) make_order_ok [OF assms(1)]] assms(3)
  by (auto dest: order_run_ok order_run_mono order_run_terminal)

theorem order_lifecycle_witness:
  "order_ok filled_order \<and> is_terminal (o_status filled_order) \<and>
    o_filled_quantity entry_order \<le> o_filled_quantity filled_order"
  using order_lifecycle [OF entry_order_built run_start filled_order_run]
  by (simp add: filled_order_def)

section \<open>Costs\<close>

text \<open>
  C26. The funding settlements between two instants are exactly the instants after the first,
  up to and including the second, that fall on 00:00, 08:00 or 16:00 UTC (the multiples of
  eight hours), in increasing order; an interval that ends before it starts is refused.
\<close>

theorem funding_boundaries_exact:
  "boundaries_between start stop = (if stop < start then Inl (ValueError ''interval'')
     else Inr (sorted_list_of_set {b. start < b \<and> b \<le> stop \<and> b mod (8 * hour_us) = 0}))"
proof -
  have "bs = sorted_list_of_set {b. start < b \<and> b \<le> stop \<and> b mod (8 * hour_us) = 0}"
    if bs: "boundaries_between start stop = Inr bs" for bs
  proof -
    have s: "sorted_wrt (<) bs"
      using bs boundary_days_sorted by (auto simp: boundaries_between_def raise_if_def split: if_splits)
    moreover have "set bs = {b. start < b \<and> b \<le> stop \<and> b mod (8 * hour_us) = 0}"
      using boundaries_between_set [OF bs] by (simp add: is_boundary_iff)
    ultimately show ?thesis using sorted_list_of_set.idem_if_sorted_distinct [of bs]
      by (simp add: strict_sorted_iff)
  qed
  then show ?thesis by (auto simp: boundaries_between_def raise_if_def)
qed

section \<open>Matching\<close>

text \<open>
  C6. A match fills the order for good: it returns a FILLED order whose filled quantity grew
  by exactly the quantity of the fill, a fill no larger than what remained, flagged as
  truncated exactly when it is smaller, and a price no better than the reference.
\<close>

theorem match_fills:
  assumes "match ord c history cm timing rb am leverage = Inr (ord', f)" and "order_ok ord"
  shows "o_status ord' = FILLED \<and> 0 < f_quantity f \<and> f_quantity f \<le> o_quantity ord - o_filled_quantity ord \<and>
    o_filled_quantity ord' = o_filled_quantity ord + f_quantity f \<and> o_quantity ord' = o_filled_quantity ord' \<and>
    (f_qty_truncated f \<longleftrightarrow> f_quantity f < o_quantity ord - o_filled_quantity ord) \<and>
    (o_side ord = BUY \<and> f_reference_price f \<le> f_price f \<or> o_side ord = SELL \<and> f_price f \<le> f_reference_price f)"
proof -
  obtain reference gap time where m: "is_q8 reference"
    "match_triggered ord reference gap time cm rb am leverage = Inr (ord', f)"
    using assms by (rule match_reference_q8)
  show ?thesis using match_triggered_spec [OF m(2) assms(2) m(1)] by auto
qed

theorem match_fills_witness:
  "isOk (match entry_order decision_bar [decision_bar, next_bar] default_paper_model NextBar None (Some 1000) 10) \<and>
    f_quantity entry_fill = 2 \<and> f_reference_price entry_fill \<le> f_price entry_fill"
  using entry_match match_fills [OF entry_match entry_order_ok] by (simp add: entry_fill_def)

text \<open>
  C7. An entry never overspends: when the match of an order that may open a position is given
  the available margin, the initial margin of the fill plus its entry fee and the fee of a
  liquidation exit, at the price it was filled at, is within that margin.
\<close>

theorem match_within_cash:
  assumes "match ord c history cm timing rb (Some margin) leverage = Inr (ord', f)" and "order_ok ord"
    and "\<not> o_reduce_only ord" and "\<not> o_close_position ord"
  shows "\<exists>needed. entry_cash_requirement ord (f_price f) (f_quantity f) cm leverage = Inr needed \<and> needed \<le> margin"
proof -
  obtain reference gap time where m: "is_q8 reference"
    "match_triggered ord reference gap time cm rb (Some margin) leverage = Inr (ord', f)"
    using assms(1,2) by (rule match_reference_q8)
  show ?thesis by (rule match_triggered_spec(14) [OF m(2) assms(2) m(1) assms(3,4) refl])
qed

theorem match_within_cash_witness:
  "\<exists>needed. entry_cash_requirement entry_order (2001 / 20) 2 default_paper_model 10 = Inr needed \<and> needed \<le> 1000"
  using match_within_cash [OF entry_match entry_order_ok] by (simp add: entry_fill_def entry_order_def)

text \<open>
  C8. No look-ahead: a next-bar fill happens after the decision candle closed, on the earliest
  later candle of the history, a market order at that candle's open, and any order at a
  reference within that candle's range.
\<close>

theorem match_next_bar:
  assumes "match ord c history cm NextBar rb am leverage = Inr (ord', f)" and "order_ok ord"
  shows "\<exists>ec \<in> set history. c_close_time c \<le> c_open_time ec \<and> c_close_time c < f_timestamp f \<and>
    c_open_time ec \<le> f_timestamp f \<and>
    (\<forall>d \<in> set history. d \<noteq> c \<longrightarrow> c_close_time c \<le> c_open_time d \<longrightarrow> c_open_time ec \<le> c_open_time d) \<and>
    (o_order_type ord = MARKET \<longrightarrow> price_of (c_open ec) = Inr (f_reference_price f)) \<and>
    (\<forall>op hi lo. price_of (c_open ec) = Inr op \<longrightarrow> price_of (c_high ec) = Inr hi \<longrightarrow> price_of (c_low ec) = Inr lo \<longrightarrow>
      lo \<le> op \<longrightarrow> op \<le> hi \<longrightarrow> lo \<le> f_reference_price f \<and> f_reference_price f \<le> hi)"
proof -
  obtain ec base time trigger gap where e: "execution_candle c history NextBar = Inr (ec, base, time)"
    "trigger_reference ord ec = Inr (Some (trigger, gap))"
    "match_triggered ord (if o_order_type ord = MARKET then base else trigger) gap time cm rb am leverage
      = Inr (ord', f)"
    using assms(1) by (rule match_elim)
  have q: "is_q8 (if o_order_type ord = MARKET then base else trigger)"
    using execution_candle_q8 [OF e(1)] trigger_reference_q8 [OF e(2) assms(2)] by simp
  have f: "f_reference_price f = (if o_order_type ord = MARKET then base else trigger)" "f_timestamp f = time"
    using match_triggered_spec(9,11) [OF e(3) assms(2) q] by auto
  have b: "price_of (c_open ec) = Inr base" by (rule execution_candle_next_open [OF e(1)])
  have r: "lo \<le> f_reference_price f \<and> f_reference_price f \<le> hi"
    if "price_of (c_open ec) = Inr op" "price_of (c_high ec) = Inr hi" "price_of (c_low ec) = Inr lo" "lo \<le> op" "op \<le> hi"
    for op hi lo
    using that trigger_reference_within_bar [OF e(2) that] b f(1) by auto
  show ?thesis
    by (rule bexI [of _ ec]) (use execution_candle_next [OF e(1)] b f r in auto)
qed

theorem match_next_bar_witness:
  "c_close_time decision_bar < f_timestamp entry_fill \<and> price_of (c_open next_bar) = Inr (f_reference_price entry_fill)"
  using match_next_bar [OF entry_match entry_order_ok]
  by (auto simp: decision_bar_def next_bar_def entry_fill_def entry_order_def minute_us_def price_of_def literal)

section \<open>Quantities\<close>

text \<open>
  C23. The affordable quantity is optimal for every paper cost model: it is a multiple of
  0.00000001 between zero and the requested maximum, it is affordable unless zero, and every
  larger quantity up to the maximum costs more than what is available.
\<close>

theorem affordable_quantity_optimal:
  assumes "paper_cost_model r = Inr cm" and "is_q8 maximum" and "0 \<le> maximum" and "0 \<le> available"
    and "0 < price" and "0 < leverage"
    and "affordable_entry_quantity ord price maximum available cm leverage = Inr a"
  shows "is_q8 a \<and> 0 \<le> a \<and> a \<le> maximum \<and>
    (a = 0 \<or> (\<exists>c. entry_cash_requirement ord price a cm leverage = Inr c \<and> c \<le> available)) \<and>
    (\<forall>q e. is_q8 q \<longrightarrow> a < q \<longrightarrow> q \<le> maximum \<longrightarrow>
      entry_cash_requirement ord price q cm leverage = Inr e \<longrightarrow> available < e)"
  by (rule cost_contract.affordable_entry_quantity_optimal [OF paper_cost_contract [OF assms(1)] assms(2-7)])

theorem affordable_quantity_optimal_witness:
  "affordable_entry_quantity entry_order (2001 / 20) 2 1000 default_paper_model 10 = Inr 2 \<and>
    (\<exists>c. entry_cash_requirement entry_order (2001 / 20) 2 default_paper_model 10 = Inr c \<and> c \<le> 1000)"
  using affordable_sample
    affordable_quantity_optimal [OF default_paper_model_built _ _ _ _ _ affordable_sample]
  by (simp add: literal)

text \<open>
  C27. The quantity recomputed at the fill price respects the risk budget up to the rounding
  of the quantity to eight decimals: quantity times the distance to the original stop exceeds
  the budget by at most half a quantum of quantity (and the 28-digit rounding of the
  quotient), and the stop is moved to that same distance from the fill.
\<close>

theorem recompute_within_risk:
  assumes "recompute_qty_and_stop ord px (Some budget) em leverage cm = Inr (r, new_stop)"
  shows "\<exists>stop d. o_stop_price ord = Some stop \<and> d = stop_distance_of ord px stop \<and> 0 < d \<and>
    r * d \<le> budget + Q_AMOUNT / 2 * d + budget / (2 * 10 ^ 27) \<and>
    (o_position_side ord = LONG \<and> new_stop = Some (grid Q_AMOUNT (dsub px d)) \<or>
     o_position_side ord = SHORT \<and> new_stop = Some (grid Q_AMOUNT (dadd px d)))"
proof -
  obtain stop d s k remaining where e: "o_stop_price ord = Some stop" "0 < budget"
    "d = stop_distance_of ord px stop" "0 < d" "new_stop = Some s" "quantize_amount (dctx (budget / d)) = Inr k"
    "r \<le> k"
    "o_position_side ord = LONG \<and> quantize_amount (dsub px d) = Inr s \<or>
      o_position_side ord = SHORT \<and> quantize_amount (dadd px d) = Inr s"
    using assms by (rule recompute_risk_elim)
  show ?thesis
    using e risk_overshoot [OF e(6,4,2,7)] by (auto simp: quantize_eq_Inr)
qed

theorem recompute_within_risk_witness:
  "recompute_qty_and_stop (entry_order\<lparr>o_stop_price := Some 97\<rparr>) 100 (Some 2) None 10 None =
      Inr (66666667 / 10 ^ 8, Some 97) \<and>
    (66666667 / 10 ^ 8 * 3 :: rat) \<le> 2 + Q_AMOUNT / 2 * 3 + 2 / (2 * 10 ^ 27)"
  using recompute_third recompute_within_risk [OF recompute_third]
  by (simp add: stop_distance_of_def entry_order_def evaluate)

section \<open>Protection triggers\<close>

text \<open>
  C25. The trigger scan exits on the earliest candle that triggers: of the candles in the
  order of their opening times, every earlier one that opened after the entry triggers
  nothing, and the fill is the full position, reduce-only, at the close time of that candle,
  with the reason of that candle; when it returns nothing, no candle after the entry triggers.
\<close>

theorem triggers_earliest_candle:
  assumes "resolve_triggers p candles cm stop tp entry_time = Inr res" and "is_q8 (p_quantity p)"
    and "0 < p_quantity p"
  shows "case res of
     None \<Rightarrow> \<forall>c \<in> set candles. after_entry entry_time c \<longrightarrow> candle_trigger p c cm stop tp = Inr None
   | Some f \<Rightarrow> \<exists>before c after reason level. sort_key c_open_time candles = before @ c # after \<and>
       after_entry entry_time c \<and>
       (\<forall>d \<in> set before. after_entry entry_time d \<longrightarrow> candle_trigger p d cm stop tp = Inr None) \<and>
       candle_trigger p c cm stop tp = Inr (Some (reason, level)) \<and>
       f_exit_reason f = Some reason \<and> f_timestamp f = c_close_time c \<and> f_quantity f = p_quantity p \<and>
       f_reduce_only f \<and> f_symbol f = p_symbol p \<and> f_position_side f = p_side p"
proof (cases res)
  case None
  then have "resolve_candles p (sort_key c_open_time candles) cm stop tp entry_time = Inr None"
    using assms(1) by (auto simp: resolve_triggers_def raise_if_def split: if_splits)
  then show ?thesis using resolve_candles_none None by fastforce
next
  case (Some f)
  then have "resolve_candles p (sort_key c_open_time candles) cm stop tp entry_time = Inr (Some f)"
    using assms(1) by (auto simp: resolve_triggers_def raise_if_def split: if_splits)
  from resolve_candles_some [OF this] obtain before c after reason level reference gap ord ord' where
    c: "sort_key c_open_time candles = before @ c # after" "after_entry entry_time c"
      "\<forall>d \<in> set before. after_entry entry_time d \<longrightarrow> candle_trigger p d cm stop tp = Inr None"
      "candle_trigger p c cm stop tp = Inr (Some (reason, level))"
    and r: "protection_reference p c level reason = Inr (reference, gap)"
    and ord: "synthetic_exit_order p (c_open_time c) reason = Inr ord"
    and f: "fill_order ord reference (p_quantity p) (c_close_time c) cm gap False (Some reason) = Inr (ord', f)"
    by (elim exE conjE) (rule that; assumption)
  have "f_exit_reason f = Some reason" "f_timestamp f = c_close_time c" "f_quantity f = p_quantity p"
    "f_reduce_only f" "f_symbol f = p_symbol p" "f_position_side f = p_side p"
    using fill_order_fields [OF f] synthetic_exit_fields [OF ord assms(2)] assms(2) by simp_all
  then show ?thesis using c Some by simp blast
qed

theorem triggers_earliest_candle_witness:
  "\<exists>f. resolve_triggers long_position [next_bar, decision_bar] default_paper_model (Some 95) None None = Inr (Some f) \<and>
    f_exit_reason f = Some STOP_LOSS \<and> f_timestamp f = c_close_time next_bar \<and> f_quantity f = 2"
proof -
  have o: "p_side long_position = LONG" "p_liquidation_price long_position = 452 / 5" "p_quantity long_position = 2"
    by (simp_all add: long_position_def)
  have d: "candle_trigger long_position decision_bar default_paper_model (Some 95) None = Inr None"
    "candle_trigger long_position next_bar default_paper_model (Some 95) None = Inr (Some (STOP_LOSS, 95))"
    by (simp_all add: candle_trigger_def price_of_def decision_bar_def next_bar_def liquidation_level_def o
      is_triggered_def trigger_reason_def evaluate)
  have s: "sort_key c_open_time [next_bar, decision_bar] = [decision_bar, next_bar]"
    by (simp add: decision_bar_def next_bar_def minute_us_def)
  have p: "protection_reference long_position next_bar 95 STOP_LOSS = Inr (95, False)"
    by (simp add: protection_reference_def o price_of_def next_bar_def decision_bar_def evaluate)
  define exit_order where "exit_order = entry_order\<lparr>o_id := SyntheticId (ExitName ''BTCUSDT'' minute_us STOP_LOSS),
    o_client_order_id := ExitName ''BTCUSDT'' minute_us STOP_LOSS, o_side := SELL, o_reduce_only := True,
    o_stop_price := None\<rparr>"
  have e: "synthetic_exit_order long_position (c_open_time next_bar) STOP_LOSS = Inr exit_order"
    by (simp add: synthetic_exit_order_def long_position_def next_bar_def exit_order_def entry_order_def
      make_order_def validate_fill_status_def evaluate)
  have x: "execution_price exit_order 95 2 default_paper_model False = Inr (189981 / 2000, - (19 / 1000))"
    by (simp add: execution_price_def make_order_def exit_order_def entry_order_def validate_fill_status_def
      apply_slippage_def default_paper_model_def paper_slippage_def effective_rate_def make_slippage_params_def
      default_rates_def evaluate)
  obtain ord' f where f: "fill_order exit_order 95 2 (c_close_time next_bar) default_paper_model False False
      (Some STOP_LOSS) = Inr (ord', f)"
    unfolding fill_order_def x
    by (simp add: exit_order_def entry_order_def default_paper_model_def paper_fee_def default_rates_def fee_calc_def
      mark_as_filled_def transition_to_def validate_fill_status_def make_fill_def evaluate)
  have r: "resolve_triggers long_position [next_bar, decision_bar] default_paper_model (Some 95) None None = Inr (Some f)"
    unfolding resolve_triggers_def s by (simp add: d o p e f raise_if_def)
  show ?thesis
    using r triggers_earliest_candle [OF r, unfolded s o] d
    by (auto simp: o literal after_entry_def Cons_eq_append_conv)
qed

section \<open>The position book\<close>

text \<open>
  C9. The book refines a table of held quantities: an accepted fill adds its quantity to the
  entry of its symbol and side, or subtracts it when it is reduce-only, leaves every other
  entry alone, and stores an open, well-formed position there or nothing.
\<close>

theorem book_fill_refines:
  assumes "apply_fill b f leverage mt mk liq = Inr b'" and "make_fill g = Inr f"
    and "\<And>p. b (fill_key f) = Some p \<Longrightarrow> open_position (fill_key f) p \<and> p_margin p \<le> 10 ^ 18"
  shows "held b' = (held b)(fill_key f := held b (fill_key f)
      + (if f_reduce_only f then - f_quantity f else f_quantity f)) \<and>
    (\<forall>k. k \<noteq> fill_key f \<longrightarrow> b' k = b k) \<and>
    (\<forall>p. b' (fill_key f) = Some p \<longrightarrow> open_position (fill_key f) p)"
  using apply_fill_held [OF assms(1) make_fill_fill_ok [OF assms(2)]] apply_fill_frame [OF assms(1)] assms(3)
  by (auto simp: modest_margin_def)

theorem book_fill_refines_witness:
  "apply_fill Map.empty entry_fill (Some 10) (Some ISOLATED) FUTURES (452 / 5) =
      Inr [(''BTCUSDT'', LONG) \<mapsto> opened_position] \<and>
    open_position (''BTCUSDT'', LONG) opened_position"
  using entry_applied book_fill_refines [OF entry_applied entry_fill_built]
  by (simp add: fill_key_def entry_fill_def)

section \<open>Sizing and precision\<close>

text \<open>
  C10. A stored execution is all or nothing, whatever statement fails: either store returns
  True and the committed database has the receipt, the fills, the position, the snapshot and
  the account of the execution, for a signal that had no receipt, or the committed database is
  untouched.
\<close>

theorem store_all_or_nothing:
  assumes "settled c" and "store fault x c = (c', r)"
  shows "(if r = Inr True
     then \<not> receipted (cn_committed c) (x_wallet_id x) (x_signal_id x) \<and>
       cn_committed c' = post_execution x (cn_committed c)
     else cn_committed c' = cn_committed c) \<and> settled c'"
proof -
  have s: "op_store (postgres_repository fault) x c = (c', r)" using assms(2) by (simp add: postgres_repository_def)
  show ?thesis
    using pg.store_posted [OF assms(1), of fault x c'] pg.store_refused [OF assms(1) s]
      pg.store_quiet [OF assms(1) s] s by auto
qed

theorem store_all_or_nothing_witness:
  "snd (store no_fault entry_execution_record fresh_connection) = Inr True \<and>
    cn_committed (fst (store no_fault entry_execution_record fresh_connection)) =
      post_execution entry_execution_record empty_db"
  using entry_stored store_all_or_nothing [OF _ entry_stored]
  by (simp add: settled_def fresh_connection_def)

text \<open>
  C1. Processing a signal is transactional end to end: when it returns an execution, the
  committed database gained exactly that execution and the cash and position in memory are the
  ones it recorded; when it raises or returns nothing, the committed database, the cash, the
  position and the open risk are what they were.
\<close>

theorem process_transactional:
  assumes "settled (w_repo w)" and "process cfg (postgres_repository fault) m w = (w', r)"
  shows "(case r of
      Inr (Some x) \<Rightarrow>
        x_wallet_id x = wc_wallet_id cfg \<and> x_signal_id x = m_signal_id m \<and>
        cn_committed (w_repo w') = post_execution x (cn_committed (w_repo w)) \<and>
        w_cash w' = a_cash_balance (x_accounting x) \<and> w_position w' = x_position x
    | _ \<Rightarrow> cn_committed (w_repo w') = cn_committed (w_repo w) \<and> w_cash w' = w_cash w \<and>
        w_position w' = w_position w \<and> w_open_risk w' = w_open_risk w) \<and> settled (w_repo w')"
proof (cases "\<exists>x. r = Inr (Some x)")
  case True
  then show ?thesis using pg.process_committed [OF assms(1)] assms(2) by auto
next
  case False
  then show ?thesis using pg.process_not_committed [OF assms] by (auto split: sum.splits option.splits)
qed

theorem process_transactional_witness:
  "w_cash opened_wallet = 127597799 / 10000 \<and> settled (w_repo opened_wallet) \<and>
    cn_committed (w_repo opened_wallet) = post_execution entry_execution_record empty_db"
  using process_transactional [OF paper_wallet_settled entry_processed]
  by (simp add: entry_execution_record_def paper_wallet_def fresh_connection_def)

text \<open>
  C13. A signal is executed at most once: processing a signal whose receipt is already
  committed posts nothing and changes neither cash nor position, so a redelivery is harmless.
\<close>

theorem process_at_most_once:
  assumes "settled (w_repo w)"
    and "receipted (cn_committed (w_repo w)) (wc_wallet_id cfg) (m_signal_id m)"
    and "process cfg (postgres_repository fault) m w = (w', r)"
  shows "(\<forall>x. r \<noteq> Inr (Some x)) \<and> cn_committed (w_repo w') = cn_committed (w_repo w) \<and>
    w_cash w' = w_cash w \<and> w_position w' = w_position w"
proof -
  have n: "\<nexists>x. r = Inr (Some x)" using pg.process_committed [OF assms(1)] assms(2,3) by blast
  then show ?thesis using pg.process_not_committed [OF assms(1,3)] by blast
qed

theorem process_at_most_once_witness:
  "w_cash (fst (process paper_config (postgres_repository no_fault) entry_signal opened_wallet)) = 127597799 / 10000"
proof -
  have s: "settled (w_repo opened_wallet)" by (simp add: opened_wallet_def entry_stored settled_def)
  have r: "receipted (cn_committed (w_repo opened_wallet)) (wc_wallet_id paper_config) (m_signal_id entry_signal)"
    by (simp add: opened_wallet_def entry_stored receipted_def post_execution_def execution_ids
      paper_config_fields entry_signal_fields Let_def)
  show ?thesis
    using process_at_most_once [OF s r surjective_pairing, of no_fault] by (simp add: opened_wallet_def)
qed

text \<open>
  C11. The wallet stays well formed under every signal, whatever its outcome: cash is a stored
  amount and never negative, and the position, if any, is open, well formed, in an allowed
  symbol and on one side.
\<close>

theorem process_keeps_wallet:
  assumes "process cfg repo m w = (w', r)" and "wallet_ok cfg w"
    and "\<And>p. w_position w = Some p \<Longrightarrow> p_margin p \<le> 10 ^ 18"
  shows "wallet_ok cfg w'"
  using process_wallet_ok [OF assms(1,2)] assms(3) by (simp add: modest_margin_def)

theorem process_keeps_wallet_witness:
  "wallet_ok paper_config opened_wallet \<and> tradable paper_policy wallet_position"
proof -
  have k: "wallet_ok paper_config opened_wallet"
    by (rule process_keeps_wallet [OF entry_processed paper_wallet_ok]) (simp add: paper_wallet_def)
  then have "tradable paper_policy wallet_position"
    by (simp add: wallet_ok_def opened_wallet_def paper_config_fields)
  then show ?thesis using k by blast
qed

section \<open>Signals through the wallet\<close>

text \<open>
  C12. No signal is lost or left without an outcome: when a poll returns, either there was no
  message, or the message it took has a committed receipt and an outcome; when it raises, the
  committed database, the cash and the position are what they were.
\<close>

theorem poll_receipts:
  assumes "settled (w_repo w)" and "run_once cfg (postgres_repository fault) recv w = (w', r)"
  shows "(case r of
      Inr _ \<Rightarrow> w_received w' \<longrightarrow> (\<exists>q m. recv (w_queue w) = (q, Inr (Some m)) \<and>
        receipted (cn_committed (w_repo w')) (wc_wallet_id cfg) (m_signal_id m) \<and> w_outcome w' \<noteq> None)
    | Inl _ \<Rightarrow> cn_committed (w_repo w') = cn_committed (w_repo w) \<and> w_cash w' = w_cash w \<and>
        w_position w' = w_position w) \<and> settled (w_repo w')"
  using pg.run_once_receipted [OF assms(1)] pg.run_once_raised [OF assms(1)] pg.run_once_quiet [OF assms]
    assms(2) by (cases r) auto

theorem poll_receipts_witness:
  "receipted (cn_committed (w_repo polled_wallet)) ''w'' ''s1'' \<and> w_outcome polled_wallet \<noteq> None"
  using poll_receipts [OF paper_wallet_settled entry_polled]
  by (simp add: receive_def paper_wallet_def polled_wallet_def paper_config_fields entry_signal_fields)

text \<open>
  C28. The kill switch is final and safe: once it is engaged, a poll never changes cash,
  position, fills, positions, snapshots or accounts of the committed database, and the switch
  stays engaged.
\<close>

theorem kill_switch_stops_trading:
  assumes "settled (w_repo w)"
    and "run_once cfg (postgres_repository fault) recv (engage_kill_switch w) = (w', r)"
  shows "w_kill w' \<and> w_cash w' = w_cash w \<and> w_position w' = w_position w \<and>
    d_fills (cn_committed (w_repo w')) = d_fills (cn_committed (w_repo w)) \<and>
    d_positions (cn_committed (w_repo w')) = d_positions (cn_committed (w_repo w)) \<and>
    d_accounting (cn_committed (w_repo w')) = d_accounting (cn_committed (w_repo w)) \<and>
    d_accounts (cn_committed (w_repo w')) = d_accounts (cn_committed (w_repo w))"
  using pg.run_once_killed [OF _ assms(2)] assms(1) by (simp add: engage_kill_switch_def)

theorem kill_switch_stops_trading_witness:
  "w_cash (fst (run_once paper_config (postgres_repository no_fault) receive (engage_kill_switch paper_wallet))) = 12800"
  using kill_switch_stops_trading [OF paper_wallet_settled surjective_pairing, of paper_config no_fault receive]
  by (simp add: paper_wallet_def)

text \<open>
  C29. Draining the in-memory queue terminates: with one more iteration than there are
  signals the loop returns, and when it does not raise it has consumed every signal and left
  the queue empty.
\<close>

theorem drain_consumes_all:
  assumes "length (w_queue w) < fuel"
  shows "\<exists>w' r. drain_once fuel cfg repo receive 0 w = Some (w', r) \<and>
    (\<forall>k. r = Inr k \<longrightarrow> k = length (w_queue w) \<and> w_queue w' = [])"
proof -
  obtain w' r where d: "drain_once fuel cfg repo receive 0 w = Some (w', r)"
    using drain_once_terminates [OF assms] by blast
  then show ?thesis using drain_once_count [of fuel cfg repo 0 w w'] by auto
qed

theorem drain_consumes_all_witness:
  "\<exists>w' r. drain_once 2 paper_config (postgres_repository no_fault) receive 0 paper_wallet = Some (w', r)"
proof -
  have "length (w_queue paper_wallet) < 2" by (simp add: paper_wallet_def)
  from drain_consumes_all [OF this] show ?thesis by blast
qed

text \<open>
  C30. A signal whose stop equals its price is not rejected but raises: the poll that takes it raises
  a ValueError out of the sizing, records no outcome and writes nothing, so the signal still has no
  receipt, and cash, position and broker are what they were.
\<close>

theorem zero_distance_poisons:
  assumes "run_once cfg (postgres_repository fault) recv w = (w', r)" and "recv (w_queue w) = (q, Inr (Some m))"
    and "m_wallet_id m = wc_wallet_id cfg"
    and "validate_signal (wc_policy cfg) (w_kill w) m = Inr ()" and "m_intent m = Enter"
    and "w_position w = None" and "is_q8 (w_cash w)"
    and "s_price (m_signal m) = Fin x" and "s_stop_loss (m_signal m) = Some (Fin x)"
    and "flt (Fin 0) (pol_risk_per_trade (wc_policy cfg))"
    and "fle (pol_risk_per_trade (wc_policy cfg)) MAX_RISK_PER_TRADE"
  shows "r = Inl (ValueError ''equity and stop_distance'') \<and> w_outcome w' = None \<and> w_repo w' = w_repo w \<and>
    receipted (cn_committed (w_repo w')) (wc_wallet_id cfg) (m_signal_id m) =
      receipted (cn_committed (w_repo w)) (wc_wallet_id cfg) (m_signal_id m) \<and>
    w_cash w' = w_cash w \<and> w_position w' = w_position w \<and> w_broker w' = w_broker w \<and> w_queue w' = q"
proof -
  let ?w = "w\<lparr>w_outcome := None, w_reason := None, w_queue := q, w_received := True, w_symbol := Some (s_symbol (m_signal m))\<rparr>"
  have "process cfg (postgres_repository fault) m ?w = (?w, Inl (ValueError ''equity and stop_distance''))"
    using assms(3-11) by (intro zero_distance_raises [where x = x]) simp_all
  then have "(w', r) = (?w, Inl (ValueError ''equity and stop_distance''))"
    using assms(1,2) by (simp add: run_once_def Let_def)
  then show ?thesis by simp
qed

theorem zero_distance_poisons_witness:
  "let w' = fst (run_once paper_config (postgres_repository no_fault) receive (paper_wallet\<lparr>w_queue := [zero_stop_signal]\<rparr>)) in
    \<not> receipted (cn_committed (w_repo w')) ''w'' ''s1'' \<and> w_cash w' = 12800 \<and> w_queue w' = []"
proof -
  let ?w = "paper_wallet\<lparr>w_queue := [zero_stop_signal]\<rparr>"
  have "receive (w_queue ?w) = ([], Inr (Some zero_stop_signal))" by (simp add: receive_def)
  then show ?thesis
    using zero_distance_poisons [where w = ?w and recv = receive and q = "[]" and m = zero_stop_signal
        and cfg = paper_config and fault = no_fault and x = 100, OF surjective_pairing]
    by (simp add: zero_stop_signal_def entry_signal_def paper_config_def paper_policy_def paper_wallet_def validate_signal_def
        py_upper_def upper_char_def raise_if_def literal MAX_RISK_PER_TRADE_def one_percent Let_def receipted_def
        fresh_connection_def empty_db_def)
qed

section \<open>Money management\<close>

text \<open>
  C31. Plans stay within the account limits: whatever configuration a run names, a policy the
  factory builds from it plans at most one percent of the equity as risk, a positive finite
  quantity, a leverage between one and the global maximum and a stop on the losing side of the
  reference price; and a policy that leaves the exit to the strategy sets no target and only
  plans a stop that is hit strictly before the liquidation price.
\<close>

theorem created_policy_within_limits:
  assumes "create_policy raw deployed_policies = Inr pol"
    and "plan_entry pol d m a l = Inr plan"
    and "make_risk_limits l = Inr l" and "make_account_risk_snapshot a = Inr a"
    and "is_f64 (ms_reference_price m)"
  shows "fle (mp_initial_risk_amount plan) (fmul (ar_equity a) (fround (1 / 100))) \<and>
    is_finite (mp_requested_quantity plan) \<and> \<not> fle (mp_requested_quantity plan) (Fin 0) \<and>
    1 \<le> mp_requested_leverage plan \<and> mp_requested_leverage plan \<le> rl_max_leverage l \<and>
    (i_action d = ENTER_LONG \<and> fle (mp_stop_loss plan) (ms_reference_price m) \<or>
      i_action d = ENTER_SHORT \<and> fle (ms_reference_price m) (mp_stop_loss plan)) \<and>
    (requires_signal_exit pol \<longrightarrow> mp_take_profit plan = None \<and>
      (\<exists>side liq. entry_side d = Inr side \<and>
        policy_liquidation_price (ms_reference_price m) (mp_requested_leverage plan)
          (rl_maintenance_margin_rate l) side = Inr liq \<and>
        liquidation_safe side liq (mp_stop_loss plan)))"
proof -
  note built = create_policy_valid(1) [OF assms(1)]
  have "0 < rl_max_leverage l" using assms(3) by (simp add: make_risk_limits_def)
  then show ?thesis
    using made_policy_laws(1) [OF built assms(2-4)] made_policy_laws(2) [OF built assms(2)]
      made_policy_laws(3) [OF built assms(2)] made_policy_laws(4) [OF built assms(2,5)] exit_free_entry [OF assms(2)]
    by (cases "requires_signal_exit pol") (auto simp: exit_free_accepted_def)
qed

theorem created_policy_within_limits_witness:
  "make_risk_limits tight_limits = Inr tight_limits \<and>
   fle (mp_initial_risk_amount turtle_plan) (fmul (Fin 12800) (fround (1 / 100))) \<and>
   mp_take_profit turtle_plan = None"
proof -
  have a: "make_account_risk_snapshot small_account = Inr small_account"
    by (simp add: make_account_risk_snapshot_def require_positive_def small_account_def)
  have r: "is_f64 (ms_reference_price quiet_market)"
    using is_f64_fround [of 100] by (simp add: quiet_market_def literal)
  show ?thesis
    using created_policy_within_limits [OF default_turtle_built turtle_planned tight_limits_valid a r] tight_limits_valid
    by (simp add: small_account_def)
qed

text \<open>
  C32. A configuration survives its record: resolving a constructed policy to the mapping the run
  stores and building a policy from that mapping gives the same policy again.
\<close>

theorem policy_round_trip:
  assumes "create_policy raw deployed_policies = Inr pol"
  shows "create_policy (resolved_config pol) deployed_policies = Inr pol"
  by (rule create_resolved [OF create_policy_valid(1) [OF assms]])

theorem policy_round_trip_witness:
  "create_policy [(''mode'', MStr ''turtle''), (''n_period'', MInt 20), (''n_timeframe'', MStr ''1d''),
     (''stop_n_multiple'', MFloat (Fin 2)), (''leverage_cap'', MInt 10)] deployed_policies = Inr (Turtle default_turtle)"
  using policy_round_trip [OF default_turtle_built] by (simp add: turtle_resolved_config_def default_turtle_def)

text \<open>
  C33. Availability answers every policy mode once: with a registry table, the answers are in
  order and without repetition, cover exactly the registered and the deployed modes, and a mode
  is runnable exactly if its row names the deployed class, module and settings and is neither
  deprecated nor inactive.
\<close>

theorem availability_exact:
  assumes "reconcile_availability (Some rows) deployed = Inr answers"
  shows "sorted (map av_mode answers) \<and> distinct (map av_mode answers) \<and>
    set (map av_mode answers) = {m. \<exists>r \<in> set rows. r ''mode'' = Some (RText m)} \<union> fst ` set deployed \<and>
    (\<forall>a \<in> set answers. av_runnable a \<longleftrightarrow> runs_as rows deployed (av_mode a))"
proof -
  note r = reconcile_rows [OF assms]
  then have "map av_mode answers = sort (remdups (map av_mode answers))" by blast
  then have "sorted (map av_mode answers) \<and> distinct (map av_mode answers)"
    by (metis sorted_sort distinct_sort distinct_remdups)
  with r show ?thesis by blast
qed

theorem availability_exact_witness:
  "runs_as [turtle_row, grid_row] deployed_policies ''turtle'' \<and>
   \<not> runs_as [turtle_row, grid_row] deployed_policies ''grid'' \<and>
   distinct [''grid'', ''manual'', ''signal-exit-atr'', ''turtle'']"
  using availability_exact [OF deployed_reconciled] by (simp add: deployed_answers_def)

section \<open>The backtest engine\<close>

text \<open>
  C2. The books of a run balance: a run that returns, started from the initial engine and with
  no execution above a million units, ends flat, its final equity is its cash and not negative,
  and equals the capital plus the net profits of its trades, up to one rounding error per trade:
  the price and the slippage of a fill are rounded to eight decimals separately.
\<close>

theorem run_balances:
  assumes "initial_engine capital x feats preload rates clock = Inr g"
    and "run_candles cfg candles g = (g', Inr equity)"
    and "\<And>r. EXECUTION_ROW r \<in> set (g_evidence g') \<Longrightarrow> f_quantity (ex_fill r) \<le> 10 ^ 6"
  shows "g_book g' = Map.empty \<and> g_active g' = None \<and> equity = g_cash g' \<and> 0 \<le> equity \<and>
    \<bar>equity - (g_cash g + sum_list (map t_net_pnl (g_trades g')))\<bar>
      \<le> sum_list (map (\<lambda>t. t_entry_quantity t / 10 ^ 8 + 1 / 10 ^ 5) (g_trades g'))"
proof -
  have "modest g'" using assms(3) by (simp add: modest_def)
  note r = run_candles_accounts [OF initial_accounts(1) [OF assms(1)] assms(2) this]
  then show ?thesis by (simp add: accounts_def net_result_def rounding_slack_def)
qed

theorem run_balances_witness:
  "\<exists>g'. run_candles engine_setup [bar_1, bar_2] engine_0 = (g', Inr (64018387801 / 5000000)) \<and>
    g_trades g' = [final_trade] \<and> g_book g' = Map.empty \<and>
    \<bar>64018387801 / 5000000 - (12800 + t_net_pnl final_trade)\<bar> \<le> t_entry_quantity final_trade / 10 ^ 8 + 1 / 10 ^ 5"
proof -
  obtain g r es where g: "run_candles engine_setup [bar_1, bar_2] engine_0 = (g, Inr (64018387801 / 5000000))"
    "g_trades g = [final_trade]" "g_evidence g = evidence_3 @ EXECUTION_ROW r # es" "ex_fill r = final_fill"
    "\<forall>r. EXECUTION_ROW r \<notin> set es"
    using engine_ran by blast
  have m: "f_quantity (ex_fill x) \<le> 10 ^ 6" if "EXECUTION_ROW x \<in> set (g_evidence g)" for x
    using that g(3-5) by (auto dest: evidence_3_executions)
  have "g_cash engine_0 = 12800" by (simp add: engine_0_def)
  then show ?thesis using g(1,2) run_balances [OF engine_0_built g(1) m] by simp
qed

text \<open>
  C5. Between two candles the books balance: after any number of candles from the initial engine,
  the cash is not negative, and the engine is flat with its cash equal to the capital plus the net
  profits, or it holds exactly the position of its one active trade, with the quantity, the entry
  price and the side of the entry fill, and cash, margin, fees and funding make up the same sum.
\<close>

theorem loop_keeps_books:
  assumes "initial_engine capital x feats preload rates clock = Inr g"
    and "candle_loop cfg candles g = (g', Inr ())"
    and "\<And>r. EXECUTION_ROW r \<in> set (g_evidence g') \<Longrightarrow> f_quantity (ex_fill r) \<le> 10 ^ 6"
  shows "0 \<le> g_cash g' \<and>
    (case g_active g' of
       None \<Rightarrow> g_book g' = Map.empty \<and>
         \<bar>g_cash g' - (g_cash g + sum_list (map t_net_pnl (g_trades g')))\<bar>
           \<le> sum_list (map (\<lambda>t. t_entry_quantity t / 10 ^ 8 + 1 / 10 ^ 5) (g_trades g'))
     | Some a \<Rightarrow> \<exists>p. g_book g' = [(ec_symbol cfg, f_position_side (at_entry_fill a)) \<mapsto> p] \<and> 0 < p_quantity p \<and>
         p_quantity p = f_quantity (at_entry_fill a) \<and> p_entry_price p = f_price (at_entry_fill a) \<and>
         \<bar>g_cash g' + p_margin p + at_total_fee a + at_funding a -
             (g_cash g + sum_list (map t_net_pnl (g_trades g')))\<bar>
           \<le> sum_list (map (\<lambda>t. t_entry_quantity t / 10 ^ 8 + 1 / 10 ^ 5) (g_trades g')))"
proof -
  have "modest g'" using assms(3) by (simp add: modest_def)
  then have acc: "accounts cfg (g_cash g) g'"
    using balance.loop_keeps [OF assms(2) initial_accounts(1) [OF assms(1)]] by (simp add: balanced_def list_all_iff)
  show ?thesis
  proof (cases "g_active g'")
    case None
    then show ?thesis using acc by (simp add: accounts_def net_result_def rounding_slack_def)
  next
    case (Some a)
    obtain p where p: "g_book g' = [position_key p \<mapsto> p]" "held_by cfg a p"
      "\<bar>g_cash g' + p_margin p + at_total_fee a + at_funding a - (g_cash g + net_result (g_trades g'))\<bar>
        \<le> rounding_slack (g_trades g')"
      using accounts_open [OF acc Some] by blast
    have k: "position_key p = (ec_symbol cfg, f_position_side (at_entry_fill a))" "0 < p_quantity p"
      "p_quantity p = f_quantity (at_entry_fill a)" "p_entry_price p = f_price (at_entry_fill a)"
      using p(2) by (simp_all add: held_by_def position_key_def)
    have "0 \<le> g_cash g'" using acc by (simp add: accounts_def)
    then show ?thesis unfolding Some option.case
      using p(1,3) [unfolded k(1) net_result_def rounding_slack_def] k(2-4) by blast
  qed
qed

theorem loop_keeps_books_witness:
  "\<exists>g' p. candle_loop engine_setup [bar_1, bar_2] engine_0 = (g', Inr ()) \<and>
    g_book g' = [(''BTCUSDT'', LONG) \<mapsto> p] \<and> p_quantity p = 2 \<and> p_entry_price p = 2001 / 20 \<and>
    \<bar>g_cash g' + p_margin p + 2001 / 20000 - 12800\<bar> \<le> 0"
proof -
  have m: "f_quantity (ex_fill x) \<le> 10 ^ 6" if "EXECUTION_ROW x \<in> set (g_evidence engine_4)" for x
    using that by (auto simp: engine_4_def dest: evidence_3_executions)
  have e: "g_active engine_4 = Some (open_trade\<lparr>at_position_records := [mark_row]\<rparr>)" "g_trades engine_4 = []"
    "g_cash engine_0 = 12800"
    by (simp_all add: engine_4_def engine_3_def engine_2_def engine_1_def engine_0_def)
  show ?thesis using loop_ran loop_keeps_books [OF engine_0_built loop_ran m] by (auto simp: e simp del: candle_loop.simps)
qed

text \<open>
  C3. No look-ahead: in the evidence of a run over candles that close after they open, every
  execution that names a decision is preceded by the row of that decision, and was filled strictly
  after the moment the decision was taken, whether the decision came from the strategy, a
  protection level, a funding liquidation or a data gap.
\<close>

theorem executions_follow_decisions:
  assumes "initial_engine capital x feats preload rates clock = Inr g"
    and "run_candles cfg candles g = (g', Inr equity)"
    and "\<And>c. c \<in> set candles \<Longrightarrow> c_open_time c < c_close_time c"
    and "g_evidence g' = before @ EXECUTION_ROW r # after" and "ex_decision_id r = Some d"
  shows "\<exists>dn. DECISION_ROW dn \<in> set before \<and> dn_decision_id dn = d \<and> dn_decision_ts dn < f_timestamp (ex_fill r)"
proof -
  have "informed (g_evidence g')"
    by (rule run_candles_informed [OF assms(2) initial_chained [OF assms(1)]]) (simp add: list_all_iff assms(3))
  then show ?thesis using assms(4,5) unfolding informed_def decided_def by blast
qed

theorem executions_follow_decisions_witness:
  "\<exists>g' after dn. run_candles engine_setup [bar_1, bar_2] engine_0 = (g', Inr (64018387801 / 5000000)) \<and>
    g_evidence g' = evidence_1 @ EXECUTION_ROW \<lparr>ex_execution_id = 1, ex_decision_id = Some 1, ex_fill = engine_fill,
      ex_notional = 2001 / 10\<rparr> # after \<and>
    DECISION_ROW dn \<in> set evidence_1 \<and> dn_decision_id dn = 1 \<and> dn_decision_ts dn < 60125000"
proof -
  obtain g r es where g: "run_candles engine_setup [bar_1, bar_2] engine_0 = (g, Inr (64018387801 / 5000000))"
    "g_evidence g = evidence_3 @ EXECUTION_ROW r # es"
    using engine_ran by blast
  obtain after where e: "g_evidence g = evidence_1 @ EXECUTION_ROW \<lparr>ex_execution_id = 1, ex_decision_id = Some 1,
      ex_fill = engine_fill, ex_notional = 2001 / 10\<rparr> # after"
    using g(2) by (simp add: evidence_3_def evidence_2_def)
  have "c_open_time c < c_close_time c" if "c \<in> set [bar_1, bar_2]" for c using that by auto
  from executions_follow_decisions [OF engine_0_built g(1) this e] show ?thesis using g(1) e by auto
qed

text \<open>
  C4. Every portfolio row of a run adds up: its total is exactly its cash plus the value of the
  position, its cash is not negative, and its peak is at least its total.
\<close>

theorem portfolio_rows_add_up:
  assumes "initial_engine capital x feats preload rates clock = Inr g"
    and "run_candles cfg candles g = (g', Inr equity)"
    and "\<And>r. EXECUTION_ROW r \<in> set (g_evidence g') \<Longrightarrow> f_quantity (ex_fill r) \<le> 10 ^ 6"
    and "PORTFOLIO_ROW r \<in> set (g_evidence g')"
  shows "eq_total r = eq_cash r + eq_position_value r \<and> 0 \<le> eq_cash r \<and> eq_total r \<le> eq_peak r"
proof -
  have "modest g'" using assms(3) by (simp add: modest_def)
  then have "prices g'"
    by (rule run_candles_prices [OF initial_accounts(1) [OF assms(1)] initial_prices [OF assms(1)] assms(2)])
  then show ?thesis using assms(4) by (auto simp: prices_def priced_def)
qed

theorem portfolio_rows_add_up_witness:
  "\<exists>g'. run_candles engine_setup [bar_1, bar_2] engine_0 = (g', Inr (64018387801 / 5000000)) \<and>
    PORTFOLIO_ROW mark_portfolio \<in> set (g_evidence g') \<and>
    eq_total mark_portfolio = eq_cash mark_portfolio + eq_position_value mark_portfolio \<and>
    eq_total mark_portfolio \<le> eq_peak mark_portfolio"
proof -
  obtain g r es where g: "run_candles engine_setup [bar_1, bar_2] engine_0 = (g, Inr (64018387801 / 5000000))"
    "g_evidence g = evidence_3 @ EXECUTION_ROW r # es" "ex_fill r = final_fill"
    "\<forall>r. EXECUTION_ROW r \<notin> set es"
    using engine_ran by blast
  have m: "f_quantity (ex_fill x) \<le> 10 ^ 6" if "EXECUTION_ROW x \<in> set (g_evidence g)" for x
    using that g(2-4) by (auto dest: evidence_3_executions)
  have row: "PORTFOLIO_ROW mark_portfolio \<in> set (g_evidence g)" using g(2) by (simp add: evidence_3_def)
  show ?thesis using g(1) row portfolio_rows_add_up [OF engine_0_built g(1) m row] by blast
qed

section \<open>Patterns, registries and indicators\<close>

text \<open>
  C35. The Hikkake state machine reports, at every bar, what its declarative reading says: the
  pattern that ends at the bar, or else twice the pattern that the bar confirms, which is one of
  the three bars before, not replaced by a newer pattern, and not confirmed before. The batch and
  the incremental path both report it.
\<close>

theorem hikkake_reports:
  assumes "p \<in> set TALIB_HIKKAKE_PATTERNS"
  shows "hikkake_compute_integers p cs =
      Inr (map (\<lambda>i. if i < hk_lookback p then 0 else hikkake_output p cs i) [0..<length cs]) \<and>
    (\<exists>s t. hikkake_start p = Inr s \<and> replay (hikkake_update_integer p) s cs =
      Inr (t, map (\<lambda>i. if i < hk_lookback p then None else Some (hikkake_output p cs i)) [0..<length cs]))"
  using hikkake_contract.compute_integers_eq [OF hikkake_in_contract [OF assms]]
    hikkake_contract.state_reports [OF hikkake_in_contract [OF assms]] by blast

theorem hikkake_reports_witness:
  "hikkake_compute_integers (TALIB_HIKKAKE_PATTERNS ! 0) hikkake_bars = Inr [0, 0, 0, 0, 0, 0, 200]"
proof -
  have "hk_lookback (TALIB_HIKKAKE_PATTERNS ! 0) = 5"
    by (simp add: TALIB_HIKKAKE_PATTERNS_def hikkake_lookbacks)
  moreover have "length hikkake_bars = 7" by (simp add: hikkake_bars_def)
  moreover have "[0..<7] = [0, 1, 2, 3, 4, 5, 6]" by (simp add: upt_rec numeral_nat)
  ultimately show ?thesis
    using hikkake_reports [OF hikkake_first_port, of hikkake_bars] hikkake_bars_outputs by simp
qed

text \<open>
  C34. The two execution paths of each of the sixty-one registered TA-Lib patterns agree on every
  history: the batch function returns, with an integer per candle that is 0, 80 or 100 up to its sign,
  and 0, 100 or 200 for a Hikkake pattern; its four-key outputs are what a fresh state returns when it
  is fed the candles one by one; and the integers can be read back from the outputs, with no answer
  exactly on the warm-up.
\<close>

theorem pattern_paths_agree:
  assumes "p \<in> set talib_ports"
  shows "\<exists>s ints vals t. registered_state p = Inr s \<and> registered_integers p cs = Inr ints \<and>
    set ints \<subseteq> (case p of PlainPort _ \<Rightarrow> {-100, -80, 0, 80, 100} | HikkakePort _ \<Rightarrow> {-200, -100, 0, 100, 200}) \<and>
    length ints = length cs \<and>
    registered_vectorized p cs = Inr vals \<and> replay registered_update s cs = Inr (t, vals) \<and>
    mapR (talib_integer_from_outputs (registered_name p)) vals =
      Inr (map (\<lambda>i. if i < registered_lookback p then None else Some (ints ! i)) [0..<length cs])"
proof -
  obtain s ints t where run: "registered_state p = Inr s" "registered_integers p cs = Inr ints"
    "set ints \<subseteq> registered_values p" "length ints = length cs"
    "registered_vectorized p cs = Inr (map (four_keys (registered_name p))
      (map (\<lambda>i. if i < registered_lookback p then None else Some (ints ! i)) [0..<length cs]))"
    "replay registered_update s cs = Inr (t, map (four_keys (registered_name p))
      (map (\<lambda>i. if i < registered_lookback p then None else Some (ints ! i)) [0..<length cs]))"
    by (rule registered_paths [OF assms, of cs])
  have "set ints \<subseteq> (case p of PlainPort _ \<Rightarrow> {-100, -80, 0, 80, 100} | HikkakePort _ \<Rightarrow> {-200, -100, 0, 100, 200})"
    using run(3) by (cases p) simp_all
  moreover note run(1,2,4-6) registered_decode [OF assms run(3), of "registered_lookback p", unfolded run(4)]
  ultimately show ?thesis by blast
qed

theorem pattern_paths_agree_witness:
  "(\<exists>s vals t. registered_state (PlainPort engulfing_port) = Inr s \<and>
     replay registered_update s [falling_bar, falling_bar, swallowing_bar, swallowing_bar] = Inr (t, vals) \<and>
     mapR (talib_integer_from_outputs ''pat_engulfing'') vals = Inr [None, None, Some 100, Some 0]) \<and>
   (\<exists>s vals t. registered_state (HikkakePort (TALIB_HIKKAKE_PATTERNS ! 0)) = Inr s \<and>
     replay registered_update s hikkake_bars = Inr (t, vals) \<and>
     mapR (talib_integer_from_outputs ''pat_hikkake'') vals = Inr [None, None, None, None, None, Some 0, Some 200])"
proof
  have "port_name engulfing_port = ''pat_engulfing''" "lookback engulfing_port = 2"
    by (simp_all add: engulfing_port_def talib_port_of_def)
  then show "\<exists>s vals t. registered_state (PlainPort engulfing_port) = Inr s \<and>
     replay registered_update s [falling_bar, falling_bar, swallowing_bar, swallowing_bar] = Inr (t, vals) \<and>
     mapR (talib_integer_from_outputs ''pat_engulfing'') vals = Inr [None, None, Some 100, Some 0]"
    using pattern_paths_agree [OF engulfing_port_registered,
        of "[falling_bar, falling_bar, swallowing_bar, swallowing_bar]"]
    by (simp del: registered_state.simps add: engulfing_integers upt_rec numeral_nat) blast
  show "\<exists>s vals t. registered_state (HikkakePort (TALIB_HIKKAKE_PATTERNS ! 0)) = Inr s \<and>
     replay registered_update s hikkake_bars = Inr (t, vals) \<and>
     mapR (talib_integer_from_outputs ''pat_hikkake'') vals = Inr [None, None, None, None, None, Some 0, Some 200]"
    using pattern_paths_agree [OF hikkake_first_registered, of hikkake_bars]
    by (simp del: registered_state.simps registered_integers.simps
        add: hikkake_bars_integers hikkake_first_lookback upt_rec numeral_nat) blast
qed

text \<open>
  C36. Every moving average, sum and change of the indicator primitives has one value per bar, and
  its state returns the batch series when it is fed the values one by one; a period that is not
  positive is refused.
\<close>

theorem primitive_paths_agree:
  "(if period \<le> 0 then sma_series vs period = Inl (ValueError ''period must be positive'') \<and>
      ema_series vs period = Inl (ValueError ''period must be positive'') \<and>
      rma_series vs period = Inl (ValueError ''period must be positive'') \<and>
      hh_series vs period = Inl (ValueError ''period must be positive'') \<and>
      ll_series vs period = Inl (ValueError ''period must be positive'') \<and>
      mom_series vs period = Inl (ValueError ''period must be positive'') \<and>
      roc_series vs period = Inl (ValueError ''period must be positive'')
    else replays (sma_series vs period) (total_update (sma_update (nat period))) sma_start vs \<and>
      replays (ema_series vs period) (total_update (ema_update (nat period))) average_empty vs \<and>
      replays (rma_series vs period) (total_update (rma_update (nat period))) average_empty vs \<and>
      replays (hh_series vs period) (total_update (extreme_update (nat period) True)) extreme_start vs \<and>
      replays (ll_series vs period) (total_update (extreme_update (nat period) False)) extreme_start vs \<and>
      replays (mom_series vs period) (total_update (roc_update (nat period) False)) [] vs \<and>
      replays (roc_series vs period) (total_update (roc_update (nat period) True)) [] vs) \<and>
   replays (Inr (cumulative_series vs)) (total_update cumulative_update) cumulative_start vs"
proof (cases "0 < period")
  case True
  define n where "n = nat (period - 1)"
  have n: "nat period = Suc n" and p: "period = int (Suc n)" using True by (simp_all add: n_def)
  note defs = sma_series_def ema_series_def rma_series_def recursive_average_def hh_series_def ll_series_def
    rolling_extreme_def mom_series_def roc_series_def with_period_def validate_period_def n
  have "replays (sma_series vs period) (total_update (sma_update (nat period))) sma_start vs"
    by (rule sma.series_replays) (use True in \<open>simp add: defs\<close>)
  moreover have "replays (ema_series vs period) (total_update (ema_update (nat period))) average_empty vs"
    unfolding ema_update_def n by (rule averages.series_replays) (simp add: defs p nat_add_distrib)
  moreover have "replays (rma_series vs period) (total_update (rma_update (nat period))) average_empty vs"
    unfolding rma_update_def n by (rule averages.series_replays) (simp add: defs p nat_add_distrib)
  moreover have "replays (hh_series vs period) (total_update (extreme_update (nat period) True)) extreme_start vs"
    by (rule extremes.series_replays) (use True in \<open>simp add: defs\<close>)
  moreover have "replays (ll_series vs period) (total_update (extreme_update (nat period) False)) extreme_start vs"
    by (rule extremes.series_replays) (use True in \<open>simp add: defs\<close>)
  moreover have "replays (mom_series vs period) (total_update (roc_update (nat period) False)) [] vs"
    by (rule changes.series_replays) (use True in \<open>simp add: defs\<close>)
  moreover have "replays (roc_series vs period) (total_update (roc_update (nat period) True)) [] vs"
    by (rule changes.series_replays) (use True in \<open>simp add: defs\<close>)
  moreover have "replays (Inr (cumulative_series vs)) (total_update cumulative_update) cumulative_start vs"
    by (rule cumulative.series_replays) (rule refl)
  ultimately show ?thesis using True by simp
next
  case False
  then show ?thesis using cumulative.series_replays [OF refl, of vs]
    by (auto simp: sma_series_def ema_series_def rma_series_def hh_series_def ll_series_def
      mom_series_def roc_series_def rolling_extreme_def with_period_def validate_period_def)
qed

text \<open>
  C40. The rolling highest of a series is, at every bar whose window of the last \<open>period\<close> values is
  full and free of NaN, a value of the window that no value of the window exceeds, and NaN at every
  other bar, although only a deque of candidates is kept.
\<close>

theorem rolling_highest_correct:
  assumes "0 < period" and "i < length vs"
  shows "\<exists>ys. hh_series vs period = Inr ys \<and> length ys = length vs \<and>
    (let window = recent (nat period) (take (i + 1) vs) in
     if length window = nat period \<and> \<not> list_ex is_nan window
     then ys ! i \<in> set window \<and> list_all (\<lambda>w. fle w (ys ! i)) window
     else ys ! i = NaN)"
proof -
  let ?w = "recent (nat period) (take (i + 1) vs)"
  have ys: "hh_series vs period = Inr (map (extreme_at (nat period) True vs) [0..<length vs])"
    using assms(1) by (simp add: hh_series_def rolling_extreme_def with_period_def validate_period_def extreme_series_spec)
  have "length ?w \<le> nat period" by (simp add: recent_def)
  moreover have "?w \<noteq> []" if "length ?w = nat period" using that assms(1) by auto
  ultimately show ?thesis
    unfolding ys using assms(2) extreme_of_extreme [of ?w True]
    by (auto simp: extreme_at_def Let_def list_ex_nan list_all_iff beats_def)
qed

theorem rolling_highest_correct_witness:
  "\<exists>ys. hh_series [Fin 1, Fin 3, Fin 2, NaN, Fin 5] 2 = Inr ys \<and> ys ! 2 \<in> {Fin 3, Fin 2} \<and>
    fle (Fin 3) (ys ! 2) \<and> fle (Fin 2) (ys ! 2)"
  using rolling_highest_correct [of 2 2 "[Fin 1, Fin 3, Fin 2, NaN, Fin 5]"] by (simp add: recent_def) blast

section \<open>Strategies and their configuration\<close>

text \<open>
  C20. A configuration that a schema without extras resolved holds declared parameters only, and a
  field that is required or has a default is present. Its value is the frozen form of the submitted
  value, or of the default where none was submitted, and that value was accepted by the field (its
  type and its range). Outside the fields of type array the frozen value is itself accepted; a list
  was frozen to a tuple, which an array field no longer takes.
\<close>

theorem config_within_schema:
  assumes "sch_extra_forbidden schema" and "distinct (map fst (sch_fields schema))" and "resolve_config schema raw = Inr c"
  shows "\<exists>raw_params. map_of raw ''params'' = Some (MMap raw_params) \<and>
   (case map_of (sch_fields schema) name of
     None \<Rightarrow> map_of (sc_params c) name = None
   | Some spec \<Rightarrow> (case map_of (sc_params c) name of
       None \<Rightarrow> \<not> fs_required spec \<and> fs_default spec = None
     | Some v \<Rightarrow> \<exists>u. (case map_of raw_params name of Some w \<Rightarrow> u = w
           | None \<Rightarrow> \<not> fs_required spec \<and> fs_default spec = Some u) \<and>
         validate_field u spec = Inr () \<and> v = freeze u \<and>
         (TYPE_ALIASES (fs_type spec) \<noteq> Some ''array'' \<longrightarrow> validate_field v spec = Inr ())))"
proof -
  obtain raw_params where raw: "map_of raw ''params'' = Some (MMap raw_params)"
    by (rule resolve_config_params [OF assms(1,3)])
  show ?thesis
  proof (intro exI [of _ raw_params] conjI raw)
    show "case map_of (sch_fields schema) name of
       None \<Rightarrow> map_of (sc_params c) name = None
     | Some spec \<Rightarrow> (case map_of (sc_params c) name of
         None \<Rightarrow> \<not> fs_required spec \<and> fs_default spec = None
       | Some v \<Rightarrow> \<exists>u. (case map_of raw_params name of Some w \<Rightarrow> u = w
             | None \<Rightarrow> \<not> fs_required spec \<and> fs_default spec = Some u) \<and>
           validate_field u spec = Inr () \<and> v = freeze u \<and>
           (TYPE_ALIASES (fs_type spec) \<noteq> Some ''array'' \<longrightarrow> validate_field v spec = Inr ()))"
      using resolve_config_within [OF assms, of name] resolve_config_required [OF assms, of name] raw
      by (cases "map_of (sch_fields schema) name"; cases "map_of (sc_params c) name"; cases "map_of raw_params name")
        (fastforce simp: field_accepts_def resolved_value_def validate_field_freeze)+
  qed
qed

theorem config_within_schema_witness:
  "validate_field (MInt 25) (\<lparr>fs_type = ''number'', fs_default = Some (MFloat (Fin 30)),
      fs_range = Some (Some (MFloat (Fin 1)), Some (MFloat (Fin 50))), fs_required = False\<rparr>) = Inr ()"
  using config_within_schema [OF _ _ bollinger_resolved, of "''rsi_oversold''"]
  by (simp add: bollinger_rsi_schema_def TYPE_ALIASES_def)

text \<open>
  C21. Resolving the stored parameters of a resolved configuration of a deployed strategy gives the
  same configuration: storing and loading a configuration changes nothing.
\<close>

theorem config_stable:
  assumes "ad \<in> set deployed_strategies" and "resolve_config (ad_schema ad) raw = Inr c"
  shows "resolve_config (ad_schema ad)
    [(''strategy_id'', MStr (sc_strategy_id c)), (''params'', thaw (MMap (sc_params c)))] = Inr c"
proof (rule resolve_config_stable [OF _ _ assms(2)])
  have "ad_schema ad = no_parameters \<or> ad_schema ad = bollinger_rsi_schema"
    using assms(1) by (auto simp: deployed_strategies_def)
  then show "sch_extra_forbidden (ad_schema ad)" "distinct (map fst (sch_fields (ad_schema ad)))"
    "foldR (\<lambda>_ validator. validator (map (map_prod id reload) ps)) () (sch_validators (ad_schema ad)) =
      foldR (\<lambda>_ validator. validator ps) () (sch_validators (ad_schema ad))" for ps
    by (auto simp: no_parameters_def bollinger_rsi_schema_def thresholds_frozen)
qed

theorem config_stable_witness:
  "resolve_config bollinger_rsi_schema
    [(''strategy_id'', MStr ''bollinger-rsi-reversion''),
     (''params'', MMap [(''rsi_overbought'', MFloat (Fin 70)), (''rsi_oversold'', MInt 25)])] =
    Inr \<lparr>sc_strategy_id = ''bollinger-rsi-reversion'',
      sc_params = [(''rsi_overbought'', MFloat (Fin 70)), (''rsi_oversold'', MInt 25)], sc_schema_version = SCHEMA_VERSION\<rparr>"
proof -
  have ad: "deployed_strategies ! 1 \<in> set deployed_strategies" "ad_schema (deployed_strategies ! 1) = bollinger_rsi_schema"
    by (simp_all add: deployed_strategies_def)
  have order: "\<not> ''rsi_oversold'' \<le> ''rsi_overbought''" "''rsi_overbought'' \<le> ''rsi_oversold''"
    by (simp_all add: less_list_code less_eq_list_code)
  show ?thesis
    using config_stable [OF ad(1), unfolded ad(2), OF bollinger_resolved] by (simp add: order)
qed

text \<open>
  C15. A deployed strategy keeps what the engine relies on: it never answers with a signal, and its
  decision is for the deciding candle, well formed, an entry only when nothing is held, a short never
  on spot, and an exit only of a held position and only if its declaration supports signal exits.
\<close>

theorem strategies_keep_contract:
  assumes "ad \<in> set deployed_strategies" and "ad_analyze ad ft config i p = Inr r"
  shows "r = NoDecision \<or> (\<exists>d. r = IntentResult d \<and> make_decision_intent d = Inr d \<and>
    i_symbol d = c_symbol (in_candle i) \<and> i_timestamp d = c_close_time (in_candle i) \<and>
    i_reference_price d = c_close (in_candle i) \<and> i_metadata d = [''adaptee'' \<mapsto> MStr (ad_strategy_id ad)] \<and>
    (case i_action d of
       ENTER_LONG \<Rightarrow> p = None
     | ENTER_SHORT \<Rightarrow> p = None \<and> in_market_type i \<noteq> SPOT
     | EXIT \<Rightarrow> p \<noteq> None \<and> mm_signal_exit (md_money_management (ad_metadata ad))
     | HOLD \<Rightarrow> True))"
proof (cases r)
  case (SignalResult s)
  with strategy_contract.no_signal [OF deployed_contract [OF assms(1)]] assms(2) show ?thesis by blast
next
  case (IntentResult d)
  with strategy_contract.decision [OF deployed_contract [OF assms(1)] assms(2) [unfolded IntentResult]]
  show ?thesis by (simp add: permitted_def)
qed simp

theorem strategies_keep_contract_witness:
  "i_reference_price (sample_decision ''donchian-breakout-atr'' (channel_bar (Fin 105)) ENTER_LONG ''donchian-upper-breakout'') =
    c_close (in_candle (channel_input breakout_bars))"
  using strategies_keep_contract [of donchian_class "\<lambda>_. []" "plain_config ''donchian-breakout-atr''"
      "channel_input breakout_bars" None] breakout_enters
  by (simp add: sample_classes)

text \<open>
  C22. A channel breakout is entered once: after the bar on which the Donchian strategy entered long,
  it does not enter long on the next bar, whatever that bar is.
\<close>

theorem donchian_enters_once:
  assumes "donchian_analyze ft config i p = Inr (IntentResult d)" and "i_action d = ENTER_LONG"
    and "in_candles i \<noteq> []" "in_candle i = last (in_candles i)"
    and "in_candles j = in_candles i @ [in_candle j]"
    and "donchian_analyze ft' config' j q = Inr (IntentResult e)"
  shows "i_action e \<noteq> ENTER_LONG"
  by (rule donchian_next_bar [OF assms])

theorem donchian_enters_once_witness:
  "i_action (sample_decision ''donchian-breakout-atr'' (channel_bar (Fin 106)) HOLD ''donchian-already-above-channel'') \<noteq> ENTER_LONG"
  by (rule donchian_enters_once [where i = "channel_input breakout_bars" and j = "channel_input (breakout_bars @ [channel_bar (Fin 106)])"
        and p = None and q = None, OF breakout_enters _ _ _ _ breakout_next])
    (simp_all add: sample_decision_def channel_input_def breakout_bars_def)

text \<open>
  C16. During a run of a deployed strategy that declares no signal exits, every order that waits at
  the end of a bar opens a position: only the protection of the policy closes one.
\<close>

theorem only_openings_wait:
  assumes "ad \<in> set deployed_strategies" and "\<not> mm_signal_exit (md_money_management (ad_metadata ad))"
    and "candle_loop (deploy ad ft config setup) cs g = (g', Inr ())" and "g_pending g = []"
  shows "list_all (\<lambda>pd. \<not> rq_reduce_only (pd_request pd) \<and> \<not> rq_close_position (pd_request pd) \<and>
    pd_exit_reason pd = None) (g_pending g')"
  using loop_opening [OF _ assms(3)] deployed_contract [OF assms(1)] assms(2,4)
  by (simp add: opening_order_def list_all_iff)

theorem only_openings_wait_witness:
  "\<exists>g'. candle_loop three_bar_run [bar_1] engine_0 = (g', Inr ()) \<and>
    list_all (\<lambda>pd. \<not> rq_reduce_only (pd_request pd) \<and> \<not> rq_close_position (pd_request pd) \<and> pd_exit_reason pd = None)
      (g_pending g')"
proof -
  obtain g' where ran: "candle_loop three_bar_run [bar_1] engine_0 = (g', Inr ())" using three_bar_ran by blast
  have "\<not> mm_signal_exit (md_money_management (ad_metadata three_bar_class))"
    by (simp add: sample_classes three_bar_metadata_def support_of_def)
  from only_openings_wait [OF sample_classes(4) this ran] ran show ?thesis by (auto simp: engine_0_def)
qed

text \<open>
  C18. The comparison of the whole catalog and the check before a creation agree: for a catalog row
  that names a class and a module, the comparison reports no finding for the strategy exactly if the
  checks of a creation pass on that row.
\<close>

theorem reconciliation_agrees:
  assumes "reconcile_strategy_registries catalog adaptees = Inr findings" and "e \<in> set catalog"
    and "entry_get e ''strategy_id'' = MStr strategy_id"
    and "entry_get e ''class_name'' \<noteq> MNone" and "entry_get e ''module_path'' \<noteq> MNone"
  shows "strategy_id \<notin> sr_strategy_id ` set findings \<longleftrightarrow> (\<exists>ad. catalog_checks strategy_id e adaptees = Inr ad)"
proof -
  obtain entries where t: "catalog_entries_by_id [] catalog = Inr entries"
    using assms(1) by (auto simp: reconcile_strategy_registries_def bindR_eq_Inr)
  have e: "map_of entries strategy_id = Some e" by (rule catalog_lookup [OF t assms(2,3)])
  have known: "strategy_id \<in> fst ` set entries \<union> fst ` set adaptees" using key_of_map [OF e] by simp
  show ?thesis unfolding findings_complete [OF assms(1) t known] by (rule catalog_agreement [OF e assms(3-5)])
qed

theorem reconciliation_agrees_witness:
  "\<exists>findings. reconcile_strategy_registries [catalog_row donchian_class] deployed_registry = Inr findings \<and>
    ''donchian-breakout-atr'' \<notin> sr_strategy_id ` set findings"
proof -
  let ?row = "catalog_row donchian_class"
  have named: "entry_get ?row ''strategy_id'' = MStr ''donchian-breakout-atr''" "entry_get ?row ''class_name'' \<noteq> MNone"
    "entry_get ?row ''module_path'' \<noteq> MNone"
    by (simp_all add: catalog_row_items entry_get_def sample_classes)
  have one: "\<exists>f. reconcile_one [(''donchian-breakout-atr'', ?row)] deployed_registry x = Inr f" for x
  proof (cases "x = ''donchian-breakout-atr''")
    case True
    then show ?thesis
      using catalog_agreement [of "[(''donchian-breakout-atr'', ?row)]" x ?row deployed_registry] named
        deployed_checks [OF sample_classes(8)] by (auto simp: sample_classes)
  next
    case False
    then show ?thesis by (auto simp: reconcile_one_def reconcile_strategy_entry_def Let_def split: option.split)
  qed
  then have total: "\<exists>fs. mapR (reconcile_one [(''donchian-breakout-atr'', ?row)] deployed_registry) xs = Inr fs" for xs
    by (induction xs) (auto, metis bindR_Inr)
  have table: "catalog_entries_by_id [] [?row] = Inr [(''donchian-breakout-atr'', ?row)]"
    using named by simp
  have "\<exists>findings. reconcile_strategy_registries [?row] deployed_registry = Inr findings"
  proof -
    let ?ids = "sort (remdups (map fst [(''donchian-breakout-atr'', ?row)] @ list_adaptees deployed_registry))"
    obtain fs where "mapR (reconcile_one [(''donchian-breakout-atr'', ?row)] deployed_registry) ?ids = Inr fs"
      using total by blast
    then show ?thesis unfolding reconcile_strategy_registries_def table bindR_Inr by (simp only: bindR_Inr) blast
  qed
  then obtain findings where f: "reconcile_strategy_registries [?row] deployed_registry = Inr findings" by blast
  have "catalog_checks ''donchian-breakout-atr'' ?row deployed_registry = Inr donchian_class"
    using deployed_checks [OF sample_classes(8)] by (simp add: sample_classes)
  then show ?thesis using reconciliation_agrees [OF f _ named] f by auto
qed

text \<open>
  C17. A runtime that was created has the registered class with a resolved configuration, kept by the
  manager, and a policy made from its settings that the strategy declares to support and
  whose exits the strategy can emit if it needs them.
\<close>

theorem runtime_policy_supported:
  assumes "create_runtime catalog_get registrations policies strategy_id raw settings mg = (mg', Inr ((ad, config), Some pol))"
  shows "map_of (mg_adaptees mg) strategy_id = Some ad \<and> map_of (mg_instances mg') strategy_id = Some (ad, config) \<and>
    (\<exists>m. get_metadata ad = Inr m \<and> md_decision_contract m = DECISION_INTENT \<and>
      create_policy (resolve_settings (md_money_management m) settings) policies = Inr pol \<and>
      policy_id pol \<in> set (mm_supported (md_money_management m)) \<and>
      (\<not> requires_signal_exit pol \<or> mm_signal_exit (md_money_management m)))"
proof -
  obtain m where m: "get_metadata ad = Inr m" "map_of (mg_adaptees mg) strategy_id = Some ad"
    "md_decision_contract m = DECISION_INTENT" "map_of (mg_instances mg') strategy_id = Some (ad, config)"
    and c: "compose_policy registrations policies (md_money_management m) settings = Inr pol"
    by (rule create_runtime_policy [OF assms])
  then show ?thesis using compose_policy_eq_Inr [OF c] by blast
qed

theorem runtime_policy_supported_witness:
  "\<exists>m pol. get_metadata three_bar_class = Inr m \<and> policy_id pol \<in> set (mm_supported (md_money_management m))"
proof -
  obtain mg' config pol mode where
    "create_runtime (\<lambda>_. Inr (catalog_row three_bar_class)) None deployed_policies (ad_strategy_id three_bar_class)
      [(''strategy_id'', MStr (ad_strategy_id three_bar_class)), (''params'', MMap [])] [(''mode'', MStr mode)] default_manager =
      (mg', Inr ((three_bar_class, config), Some pol))"
    using deployed_runtime [OF sample_classes(4)] by blast
  from runtime_policy_supported [OF this] show ?thesis by blast
qed

text \<open>
  C19. Whatever the catalog answers, every manager reached by creations, compositions, activations
  and deactivations has active strategies that were created, each from the class registered with
  its own id and with a configuration of that id.
\<close>

theorem manager_invariant:
  assumes "reachable_manager adaptees mg"
  shows "mg_active mg \<subseteq> fst ` set (mg_instances mg) \<and>
    list_all (\<lambda>(strategy_id, ad, config). ad_strategy_id ad = strategy_id \<and> sc_strategy_id config = strategy_id) (mg_instances mg)"
  using reachable_managed [OF assms] by (simp add: managed_def)

theorem manager_invariant_witness:
  "\<exists>mg config. activate ''three-bar-reversion'' (default_manager\<lparr>mg_instances := [(''three-bar-reversion'', three_bar_class, config)]\<rparr>) = Inr mg \<and>
    mg_active mg \<subseteq> fst ` set (mg_instances mg)"
proof -
  obtain mode mg' config pol where r:
    "create_runtime (\<lambda>_. Inr (catalog_row three_bar_class)) None deployed_policies (ad_strategy_id three_bar_class)
      [(''strategy_id'', MStr (ad_strategy_id three_bar_class)), (''params'', MMap [])] [(''mode'', MStr mode)] default_manager =
      (mg', Inr ((three_bar_class, config), Some pol))"
    using deployed_runtime [OF sample_classes(4)] by blast
  then have mg': "mg' = default_manager\<lparr>mg_instances := [(''three-bar-reversion'', three_bar_class, config)]\<rparr>"
    using create_runtime_instances [OF r] by (simp add: sample_classes default_manager_def)
  have "reachable_manager deployed_registry default_manager" unfolding default_manager_def by (rule built)
  from composed [OF this r] have reach: "reachable_manager deployed_registry mg'" .
  obtain mg where a: "activate ''three-bar-reversion'' mg' = Inr mg" by (simp add: mg' activate_def)
  from manager_invariant [OF activated [OF reach a]] a show ?thesis unfolding mg' by blast
qed

section \<open>Momentum indicators\<close>

text \<open>
  C37. The two editions of the momentum indicators agree: the constructor of the state and the batch
  function refuse the same settings with the same error, and for settings they accept the state
  returns the batch series candle by candle. For the four indicators that compare a candle with the
  one before it this needs a history that is not empty: the batch functions answer an empty one with
  one value.
\<close>

theorem momentum_paths_agree:
  "same_paths (make_macd f sl sg) (macd_series cs f sl sg) (macd_update (nat f) (nat sl) (nat sg)) cs \<and>
   same_paths (make_awesome f sl) (awesome_series cs f sl) (awesome_update (nat f) (nat sl)) cs \<and>
   same_paths (make_accelerator f sl sg) (accelerator_series cs f sl sg) (accelerator_update (nat f) (nat sl) (nat sg)) cs \<and>
   same_paths (make_ppo f sl sg) (ppo_series cs f sl sg) (ppo_update (nat f) (nat sl) (nat sg)) cs \<and>
   same_paths (make_apo f sl average) (apo_series cs f sl average) (apo_update (nat f) (nat sl)) cs \<and>
   same_paths (make_smi p f sl sg) (smi_series cs p f sl sg) (smi_update (nat p) (nat f) (nat sl) (nat sg)) cs \<and>
   same_paths (make_qstick p) (qstick_series cs p) (qstick_update (nat p)) cs \<and>
   same_paths (make_bop p) (bop_series cs p) (bop_update (nat p)) cs \<and>
   same_paths (make_imi p) (imi_series cs p) (imi_update (nat p)) cs \<and>
   same_paths (make_williams p) (williams_series cs p) (williams_update (nat p)) cs \<and>
   same_paths (make_cci p) (cci_series cs p) (cci_update (nat p)) cs \<and>
   same_paths (make_forecast p) (forecast_series cs p) (forecast_update (nat p)) cs \<and>
   same_paths (make_dpo p) (dpo_series cs p) (dpo_update (nat p) (nat (p div 2 + 1))) cs \<and>
   same_paths (Inr (kst_start, kst_min_history)) (kst_series cs) kst_update cs \<and>
   same_paths (make_rvi p) (rvi_series cs p) (rvi_update (nat p)) cs \<and>
   same_paths (make_center_of_gravity p) (center_of_gravity_series cs p) (center_of_gravity_update (nat p)) cs \<and>
   same_paths (make_laguerre gamma) (laguerre_series cs gamma) (laguerre_update gamma) cs \<and>
   (cs \<noteq> [] \<longrightarrow>
     same_paths (make_tsi f sl) (tsi_series cs f sl) (tsi_update (nat f) (nat sl)) cs \<and>
     same_paths (make_cmo p) (cmo_series cs p) (cmo_update (nat p)) cs \<and>
     same_paths (make_trix p) (trix_series cs p) (trix_update (nat p)) cs \<and>
     same_paths (make_ultimate f sl sg) (ultimate_series cs f sl sg) (ultimate_update (nat f) (nat sl) (nat sg)) cs) \<and>
   tsi_series [] 25 13 = Inr [NaN] \<and> cmo_series [] 14 = Inr [NaN] \<and> trix_series [] 15 = Inr [NaN]"
  by (intro conjI impI macd_paths awesome_paths accelerator_paths ppo_paths apo_paths smi_paths qstick_paths
      bop_paths imi_paths williams_paths cci_paths forecast_paths dpo_paths kst_paths rvi_paths
      center_of_gravity_paths laguerre_paths tsi_paths cmo_paths trix_paths ultimate_paths
      conjunct1 [OF empty_histories] conjunct1 [OF conjunct2 [OF empty_histories]]
      conjunct2 [OF conjunct2 [OF empty_histories]])

theorem momentum_paths_agree_witness:
  "replays (cmo_series momentum_days 2) (total_update (cmo_update 2)) cmo_start momentum_days"
  using momentum_paths_agree [of 1 2 1 momentum_days "''sma''" 2 "Fin 0"]
  by (simp add: same_paths_def make_cmo_def)

text \<open>
  C38. None of the twenty-two momentum states is warmed up before it has read as many candles as it
  announced when it was created.
\<close>

theorem momentum_warm_up:
  "(make_macd f sl sg = Inr (s1, h) \<and> int (length cs) < h \<longrightarrow>
      \<not> macd_warmed_up (macd_seed (nat f) (nat sl) (nat sg) cs)) \<and>
   (make_tsi f sl = Inr (s2, h) \<and> int (length cs) < h \<longrightarrow>
      \<not> tsi_warmed_up (tsi_seed (nat f) (nat sl) cs)) \<and>
   (make_awesome f sl = Inr (s3, h) \<and> int (length cs) < h \<longrightarrow>
      \<not> awesome_warmed_up (nat sl) (awesome_seed (nat f) (nat sl) cs)) \<and>
   (make_accelerator f sl sg = Inr (s4, h) \<and> int (length cs) < h \<longrightarrow>
      \<not> accelerator_warmed_up (accelerator_seed (nat f) (nat sl) (nat sg) cs)) \<and>
   (make_ppo f sl sg = Inr (s5, h) \<and> int (length cs) < h \<longrightarrow>
      \<not> ppo_warmed_up (ppo_seed (nat f) (nat sl) (nat sg) cs)) \<and>
   (make_apo f sl average = Inr (s6, h) \<and> apo_moving_average_states average = Some fresh \<and> int (length cs) < h \<longrightarrow>
      \<not> apo_warmed_up (apo_seed (nat f) (nat sl) fresh cs)) \<and>
   (make_smi p f sl sg = Inr (s7, h) \<and> int (length cs) < h \<longrightarrow>
      \<not> smi_warmed_up (smi_seed (nat p) (nat f) (nat sl) (nat sg) cs)) \<and>
   (make_qstick p = Inr (s8, h) \<and> int (length cs) < h \<longrightarrow>
      \<not> sma_warmed_up (nat p) (qstick_seed (nat p) cs)) \<and>
   (make_bop p = Inr (s9, h) \<and> int (length cs) < h \<longrightarrow>
      \<not> bop_warmed_up (bop_seed (nat p) cs)) \<and>
   (make_imi p = Inr (s10, h) \<and> int (length cs) < h \<longrightarrow>
      \<not> imi_warmed_up (imi_seed (nat p) cs)) \<and>
   (make_cmo p = Inr (s11, h) \<and> int (length cs) < h \<longrightarrow>
      \<not> cmo_warmed_up (cmo_seed (nat p) cs)) \<and>
   (make_trix p = Inr (s12, h) \<and> int (length cs) < h \<longrightarrow>
      \<not> trix_warmed_up (trix_seed (nat p) cs)) \<and>
   (make_williams p = Inr (s13, h) \<and> int (length cs) < h \<longrightarrow>
      \<not> williams_warmed_up (williams_seed (nat p) cs)) \<and>
   (make_ultimate f sl sg = Inr (s14, h) \<and> int (length cs) < h \<longrightarrow>
      \<not> ultimate_warmed_up (ultimate_seed (nat f) (nat sl) (nat sg) cs)) \<and>
   (make_cci p = Inr (s15, h) \<and> int (length cs) < h \<longrightarrow>
      \<not> cci_warmed_up (cci_seed (nat p) cs)) \<and>
   (make_forecast p = Inr (s16, h) \<and> int (length cs) < h \<longrightarrow>
      \<not> forecast_warmed_up (forecast_seed (nat p) cs)) \<and>
   (make_dpo p = Inr (s17, h) \<and> int (length cs) < h \<longrightarrow>
      \<not> dpo_warmed_up (dpo_seed (nat p) (nat (p div 2 + 1)) cs)) \<and>
   (make_rvi p = Inr (s18, h) \<and> int (length cs) < h \<longrightarrow>
      \<not> rvi_warmed_up (rvi_seed (nat p) cs)) \<and>
   (make_center_of_gravity p = Inr (s19, h) \<and> int (length cs) < h \<longrightarrow>
      \<not> center_of_gravity_warmed_up (center_of_gravity_seed (nat p) cs)) \<and>
   (make_laguerre gamma = Inr (s20, h) \<and> int (length cs) < h \<longrightarrow>
      \<not> laguerre_warmed_up (laguerre_seed gamma cs)) \<and>
   (make_rsi p = Inr (s21, h) \<and> rsi_seed (nat p) cs = Inr t \<and> int (length cs) < h \<longrightarrow>
      \<not> rsi_value_warmed_up t) \<and>
   (int (length cs) < kst_min_history \<longrightarrow> \<not> kst_warmed_up (kst_seed cs))"
  by (intro conjI impI; (elim conjE)?;
    (rule macd_cold tsi_cold awesome_cold accelerator_cold ppo_cold apo_cold smi_cold qstick_cold bop_cold
      imi_cold cmo_cold trix_cold williams_cold ultimate_cold cci_cold forecast_cold dpo_cold rvi_cold
      center_of_gravity_cold laguerre_cold rsi_cold kst_cold; assumption)?)

theorem momentum_warm_up_witness:
  "\<not> macd_warmed_up (macd_seed 1 2 3 momentum_days) \<and> \<not> trix_warmed_up (trix_seed 2 momentum_days) \<and>
   \<not> awesome_warmed_up 4 (awesome_seed 1 4 momentum_days) \<and> \<not> dpo_warmed_up (dpo_seed 4 3 momentum_days) \<and>
   \<not> kst_warmed_up (kst_seed momentum_days)"
proof (intro conjI)
  show "\<not> macd_warmed_up (macd_seed 1 2 3 momentum_days)" "\<not> kst_warmed_up (kst_seed momentum_days)"
    using momentum_warm_up [where f = 1 and sl = 2 and sg = 3 and ?s1.0 = macd_start and h = 4 and cs = momentum_days]
    by (simp_all add: make_macd_def make_macd_line_def kst_min_history_def momentum_days_def)
  show "\<not> trix_warmed_up (trix_seed 2 momentum_days)"
    using momentum_warm_up [where p = 2 and ?s12.0 = trix_start and h = 5 and cs = momentum_days]
    by (simp add: make_trix_def momentum_days_def)
  show "\<not> awesome_warmed_up 4 (awesome_seed 1 4 momentum_days)"
    using momentum_warm_up [where f = 1 and sl = 4 and ?s3.0 = awesome_start and h = 4 and cs = momentum_days]
    by (simp add: make_awesome_def momentum_days_def)
  show "\<not> dpo_warmed_up (dpo_seed 4 3 momentum_days)"
    using momentum_warm_up [where p = 4 and ?s17.0 = dpo_start and h = 4 and cs = momentum_days]
    by (simp add: make_dpo_def dpo_shift_def momentum_days_def)
qed

text \<open>
  C39. The relative strength index never divides by zero: for a positive period every history has a
  series, its values are NaN or between 0 and 100, and unless a value is followed by NaN the state
  returns it candle by candle.
\<close>

theorem rsi_bounded:
  assumes "0 < period"
  shows "\<exists>ys. rsi_series cs period = Inr ys \<and> list_all percentage ys \<and>
    (cs \<noteq> [] \<and> gap_free ys \<longrightarrow> replays (rsi_series cs period) (rsi_update (nat period)) rsi_start cs)"
proof -
  obtain ys where "rsi_series cs period = Inr ys" "\<forall>y \<in> set ys. percentage y"
    using rsi_from_values_percentage [OF assms, of "map c_close cs"] unfolding rsi_series_def by metis
  then show ?thesis using rsi_replays [OF assms, of cs ys] by (auto simp: list_all_iff)
qed

theorem rsi_bounded_witness:
  "\<exists>ys. rsi_series momentum_days 2 = Inr ys \<and> list_all percentage ys"
  using rsi_bounded [of 2 momentum_days] by auto

section \<open>The candle feed\<close>

text \<open>
  C14. The candles of the signal feed are exact and need not be read twice: for a table with one sane
  row per minute, reading a series up to a boundary gives, in order, one candle for every bucket of the
  timeframe that ends by the boundary and whose minutes are all there, with the open of the first, the
  close of the last, the extremes and the total volume of its rows; every other bucket after the first
  row is counted as dropped; and reading on from any instant gives exactly the candles that open there
  or later, although it sees only the later rows.
\<close>

theorem feed_reads_exactly:
  assumes "timeframe_minutes tf = Some n" and "duration = int n * minute_us"
    and "rows = series_rows table exchange symbol up_to"
    and "distinct (map oh_time rows)" and "\<forall>r\<in>set rows. sane_row r \<and> plain_instant (oh_time r)"
    and "plain_instant (up_to - duration)"
  shows "\<exists>cs. feed_candles table exchange symbol tf up_to dropped =
      (dropped + card {b. duration dvd b \<and> (\<exists>r\<in>set rows. oh_time r < b + duration) \<and> b + duration \<le> up_to \<and>
         \<not> complete_bucket rows n b}, Inr cs) \<and>
    sorted_wrt (<) (map c_open_time cs) \<and>
    (\<forall>b. (\<exists>c\<in>set cs. c_open_time c = b) \<longleftrightarrow> duration dvd b \<and> b + duration \<le> up_to \<and> complete_bucket rows n b) \<and>
    (\<forall>c\<in>set cs. aggregates rows c \<and> c_symbol c = symbol \<and> c_timeframe c = tf \<and> c_close_time c = c_open_time c + duration) \<and>
    (\<forall>after k. \<exists>k'. feed_candles_after table exchange symbol tf after up_to k =
      (k', Inr (filter (\<lambda>c. after \<le> c_open_time c) cs)))"
proof -
  have n: "0 < n" by (rule timeframe_minutes_pos [OF assms(1)])
  have ok: "feed_table table exchange symbol up_to" "plain_instant (up_to - int n * minute_us)"
    using assms(2-6) by (auto simp: feed_table_def plain_rows_def)
  obtain r where r: "feed_candles table exchange symbol tf up_to dropped = (dropped + rc_dropped r, Inr (rc_candles r))"
    "reads_exactly rows n symbol exchange tf up_to r"
    "\<And>after k. \<exists>k'. feed_candles_after table exchange symbol tf after up_to k =
      (k', Inr (filter (\<lambda>c. after \<le> c_open_time c) (rc_candles r)))"
    by (rule feed_exact [OF assms(1) ok, of dropped, folded assms(3)]) (rule that; assumption)
  show ?thesis
  proof (intro exI [of _ "rc_candles r"] conjI allI ballI)
    show "feed_candles table exchange symbol tf up_to dropped =
      (dropped + card {b. duration dvd b \<and> (\<exists>r\<in>set rows. oh_time r < b + duration) \<and> b + duration \<le> up_to \<and>
         \<not> complete_bucket rows n b}, Inr (rc_candles r))"
      using r(1,2) by (simp add: reads_exactly_def Let_def assms(2))
    show "sorted_wrt (<) (map c_open_time (rc_candles r))"
      using r(2) by (simp add: reads_exactly_def Let_def)
    show "(\<exists>c\<in>set (rc_candles r). c_open_time c = b) \<longleftrightarrow> duration dvd b \<and> b + duration \<le> up_to \<and> complete_bucket rows n b" for b
      using r(2) unfolding reads_exactly_def Let_def assms(2) by (metis (no_types, lifting) image_iff set_map)
    show "\<exists>k'. feed_candles_after table exchange symbol tf after up_to k =
      (k', Inr (filter (\<lambda>c. after \<le> c_open_time c) (rc_candles r)))" for after k
      by (rule r(3))
  qed (use reads_candles [OF r(2) _ n] assms(2) in auto)
qed

theorem feed_reads_exactly_witness:
  "\<exists>cs k. feed_candles minute_table ''binance'' ''BTCUSDT'' ''2m'' 360000000 0 = (k, Inr cs) \<and>
    (\<exists>c\<in>set cs. c_open_time c = 0) \<and> \<not> (\<exists>c\<in>set cs. c_open_time c = 120000000)"
proof -
  let ?rows = "series_rows minute_table ''binance'' ''BTCUSDT'' 360000000"
  have d: "120000000 = int 2 * minute_us" by (simp add: minute_us_def)
  have t: "distinct (map oh_time ?rows)" "\<forall>r\<in>set ?rows. sane_row r \<and> plain_instant (oh_time r)"
    using minute_table_ok by (auto simp: feed_table_def plain_rows_def)
  have p: "plain_instant (360000000 - 120000000)" by (simp add: plain_instant_def second_us_def)
  from feed_reads_exactly [OF two_minutes d HOL.refl t p, of 0] minute_buckets
  show ?thesis by fastforce
qed

end
